(* ===== verification/Prelude.thy ===== *)
theory Prelude
  imports Main "HOL-Library.AList" "HOL-Library.Char_ord" "HOL-Library.List_Lexorder"
begin

text \<open>
  Shared vocabulary of the development: results that can fail, the ordered collections of
  JavaScript (\<open>Set\<close> and \<open>Map\<close> iterate in insertion order), the safe-integer increment, the
  string operations the code uses, and the generic list lemmas the components share.
\<close>

named_theorems result_simps \<open>evaluation of fallible computations\<close>
named_theorems frame_simps \<open>fields that an operation leaves unchanged\<close>

section \<open>Fallible computations\<close>

text \<open>
  A function that may throw returns \<open>'e + 'a\<close>: \<open>Inl e\<close> is the thrown error, \<open>Inr a\<close> the
  returned value. \<open>rbind\<close> runs the rest of the code only if no error was thrown.
\<close>

definition rbind :: "'e + 'a \<Rightarrow> ('a \<Rightarrow> 'e + 'b) \<Rightarrow> 'e + 'b" where
  "rbind r f = (case r of Inl e \<Rightarrow> Inl e | Inr a \<Rightarrow> f a)"

lemma rbind_simps [simp, result_simps]:
  "rbind (Inl e) f = Inl e"
  "rbind (Inr a) f = f a"
  by (simp_all add: rbind_def)

lemma rbind_eq_Inr_iff: "rbind r f = Inr b \<longleftrightarrow> (\<exists>a. r = Inr a \<and> f a = Inr b)"
  by (cases r) auto

lemma rbind_eq_Inl_iff:
  "rbind r f = Inl e \<longleftrightarrow> r = Inl e \<or> (\<exists>a. r = Inr a \<and> f a = Inl e)"
  by (cases r) auto

lemma rbind_InrE:
  assumes "rbind r f = Inr b"
  obtains a where "r = Inr a" "f a = Inr b"
  using assms by (cases r) auto

lemma rbind_cong [fundef_cong]:
  "r = r' \<Longrightarrow> (\<And>a. r' = Inr a \<Longrightarrow> f a = g a) \<Longrightarrow> rbind r f = rbind r' g"
  by (cases r') auto

text \<open>\<open>require c e\<close> is the code's \<open>if (!c) throw e\<close>.\<close>

definition require :: "bool \<Rightarrow> 'e \<Rightarrow> 'e + unit" where
  "require c e = (if c then Inr () else Inl e)"

lemma require_simps [simp, result_simps]:
  "require True e = Inr ()"
  "require False e = Inl e"
  "require c e = Inr u \<longleftrightarrow> c"
  "require c e = Inl e' \<longleftrightarrow> \<not> c \<and> e' = e"
  by (auto simp: require_def)

lemma rbind_require [simp, result_simps]:
  "rbind (require c e) f = (if c then f () else Inl e)"
  by (simp add: require_def)

text \<open>A \<open>for\<close> loop whose body may throw: state in, state out, first error wins.\<close>

fun rfold :: "('x \<Rightarrow> 's \<Rightarrow> 'e + 's) \<Rightarrow> 'x list \<Rightarrow> 's \<Rightarrow> 'e + 's" where
  "rfold f [] s = Inr s"
| "rfold f (x # xs) s = rbind (f x s) (rfold f xs)"

lemma rfold_append: "rfold f (xs @ ys) s = rbind (rfold f xs s) (rfold f ys)"
proof (induction xs arbitrary: s)
  case Nil
  show ?case by simp
next
  case (Cons x xs)
  then show ?case by (cases "f x s") simp_all
qed

text \<open>An invariant of every iteration is an invariant of the loop.\<close>

lemma rfold_invariant:
  assumes "rfold f xs s = Inr t" and "I s"
    and "\<And>x s t. x \<in> set xs \<Longrightarrow> I s \<Longrightarrow> f x s = Inr t \<Longrightarrow> I t"
  shows "I t"
  using assms
proof (induction xs arbitrary: s)
  case Nil
  then show ?case by simp
next
  case (Cons x xs)
  from Cons.prems(1) obtain u where u: "f x s = Inr u" "rfold f xs u = Inr t"
    by (auto elim: rbind_InrE)
  moreover have "I u" using Cons.prems(2,3) u(1) by auto
  ultimately show ?case using Cons.IH Cons.prems(3) by auto
qed

lemma rfold_all_checked:
  assumes "rfold f xs s = Inr t"
    and "\<And>x s t. x \<in> set xs \<Longrightarrow> f x s = Inr t \<Longrightarrow> P x"
  shows "\<forall>x \<in> set xs. P x"
  using assms
proof (induction xs arbitrary: s)
  case Nil
  show ?case by simp
next
  case (Cons x xs)
  then show ?case by (fastforce elim: rbind_InrE)
qed

lemma rfold_unit_iff: "rfold (\<lambda>x _. f x) xs () = Inr () \<longleftrightarrow> (\<forall>x \<in> set xs. f x = Inr ())"
  by (induction xs) (auto simp: rbind_eq_Inr_iff)

text \<open>\<open>xs.map(f)\<close> with a callback that may throw.\<close>

fun rmap :: "('x \<Rightarrow> 'e + 'y) \<Rightarrow> 'x list \<Rightarrow> 'e + 'y list" where
  "rmap f [] = Inr []"
| "rmap f (x # xs) = rbind (f x) (\<lambda>y. rbind (rmap f xs) (\<lambda>ys. Inr (y # ys)))"

lemma rmap_Inr_iff: "rmap f xs = Inr ys \<longleftrightarrow> list_all2 (\<lambda>x y. f x = Inr y) xs ys"
  by (induction xs arbitrary: ys) (auto simp: rbind_eq_Inr_iff list_all2_Cons1)

section \<open>Sets and maps in insertion order\<close>

text \<open>\<open>new Set(xs)\<close>: the first occurrence of each element, in order.\<close>

fun uniq_from :: "'a list \<Rightarrow> 'a list \<Rightarrow> 'a list" where
  "uniq_from seen [] = []"
| "uniq_from seen (x # xs) =
     (if x \<in> set seen then uniq_from seen xs else x # uniq_from (x # seen) xs)"

definition js_set :: "'a list \<Rightarrow> 'a list" where
  "js_set xs = uniq_from [] xs"

lemma set_uniq_from: "set (uniq_from seen xs) = set xs - set seen"
  by (induction xs arbitrary: seen) auto

lemma distinct_uniq_from: "distinct (uniq_from seen xs)"
  by (induction xs arbitrary: seen) (auto simp: set_uniq_from)

lemma set_js_set [simp]: "set (js_set xs) = set xs"
  by (simp add: js_set_def set_uniq_from)

lemma distinct_js_set [simp]: "distinct (js_set xs)"
  by (simp add: js_set_def distinct_uniq_from)

lemma length_js_set_iff: "length (js_set xs) = length xs \<longleftrightarrow> distinct xs"
proof -
  have "length (js_set xs) = card (set xs)"
    by (metis distinct_card distinct_js_set set_js_set)
  then show ?thesis
    by (metis card_distinct distinct_card)
qed

lemma uniq_from_distinct: "distinct xs \<Longrightarrow> set xs \<inter> set seen = {} \<Longrightarrow> uniq_from seen xs = xs"
  by (induction xs arbitrary: seen) auto

lemma js_set_distinct: "distinct xs \<Longrightarrow> js_set xs = xs"
  by (simp add: js_set_def uniq_from_distinct)

text \<open>
  \<open>new Map(pairs)\<close> and \<open>map.set\<close>: an association list in which a stored key keeps its place.
\<close>

definition js_map :: "('k \<times> 'v) list \<Rightarrow> ('k \<times> 'v) list" where
  "js_map ps = fold (\<lambda>(k, v). AList.update k v) ps []"

lemma map_of_fold_update:
  "map_of (fold (\<lambda>x. AList.update (f x) (g x)) xs m) =
     (\<lambda>k. case map_of (rev (map (\<lambda>x. (f x, g x)) xs)) k of None \<Rightarrow> map_of m k | Some v \<Rightarrow> Some v)"
proof (induction xs arbitrary: m)
  case Nil
  show ?case by simp
next
  case (Cons x xs)
  show ?case
    by (simp add: Cons.IH update_conv' map_add_def fun_eq_iff split: option.splits)
qed

lemma map_of_js_map: "map_of (js_map ps) = map_of (rev ps)"
  using map_of_fold_update [of fst snd ps "[]"]
  by (simp add: js_map_def case_prod_beta' fun_eq_iff split: option.splits)

lemma map_of_js_map_distinct:
  "distinct (map fst ps) \<Longrightarrow> map_of (js_map ps) = map_of ps"
  by (metis map_of_js_map distinct_map distinct_rev map_of_eqI map_of_inject_set rev_map set_rev)

section \<open>Searching lists\<close>

text \<open>\<open>xs.find(p)\<close> is \<open>find\<close> of the library; the code always searches by identity.\<close>

lemma find_Some_D: "find P xs = Some x \<Longrightarrow> x \<in> set xs \<and> P x"
  by (metis find_Some_iff nth_mem)

lemma find_None_D: "find P xs = None \<Longrightarrow> x \<in> set xs \<Longrightarrow> \<not> P x"
  by (auto simp: find_None_iff)

lemma find_id_Some_iff:
  assumes "distinct (map f xs)"
  shows "find (\<lambda>x. f x = i) xs = Some x \<longleftrightarrow> x \<in> set xs \<and> f x = i"
  using assms by (induction xs) (auto simp: image_iff)

lemma find_id_None_iff: "find (\<lambda>x. f x = i) xs = None \<longleftrightarrow> i \<notin> f ` set xs"
  by (auto simp: find_None_iff)

lemma find_append: "find P (xs @ ys) = (case find P xs of None \<Rightarrow> find P ys | Some x \<Rightarrow> Some x)"
  by (induction xs) auto

lemma find_filter_other:
  "\<forall>x. P x \<longrightarrow> Q x \<Longrightarrow> find P (filter Q xs) = find P xs"
  by (induction xs) auto

lemma find_filter_none: "\<forall>x. P x \<longrightarrow> \<not> Q x \<Longrightarrow> find P (filter Q xs) = None"
  by (induction xs) auto

text \<open>\<open>xs.findIndex(p)\<close>, with \<open>None\<close> for the code's \<open>-1\<close>.\<close>

fun find_index :: "('a \<Rightarrow> bool) \<Rightarrow> 'a list \<Rightarrow> nat option" where
  "find_index P [] = None"
| "find_index P (x # xs) = (if P x then Some 0 else map_option Suc (find_index P xs))"

lemma find_index_Some:
  "find_index P xs = Some n \<Longrightarrow> n < length xs \<and> P (xs ! n) \<and> (\<forall>m < n. \<not> P (xs ! m))"
proof (induction xs arbitrary: n)
  case Nil
  then show ?case by simp
next
  case (Cons x xs)
  show ?case
  proof (cases "P x")
    case True
    with Cons.prems show ?thesis by simp
  next
    case False
    with Cons.prems obtain m where m: "find_index P xs = Some m" "n = Suc m" by auto
    from Cons.IH [OF m(1)] False m(2) show ?thesis
      by (auto simp: less_Suc_eq_0_disj)
  qed
qed

lemma find_index_None: "find_index P xs = None \<longleftrightarrow> (\<forall>x \<in> set xs. \<not> P x)"
  by (induction xs) auto

lemma find_index_find: "find_index P xs = Some n \<Longrightarrow> find P xs = Some (xs ! n)"
  by (induction xs arbitrary: n) (auto split: if_splits)

lemma find_update_other:
  assumes "n < length xs" "f (xs ! n) = i" "f y = i" "j \<noteq> i"
  shows "find (\<lambda>x. f x = j) (xs[n := y]) = find (\<lambda>x. f x = j) xs"
  using assms
proof (induction xs arbitrary: n)
  case Nil
  then show ?case by simp
next
  case (Cons x xs)
  then show ?case by (cases n) auto
qed

lemma map_list_update_same: "f y = f (xs ! n) \<Longrightarrow> map f (xs[n := y]) = map f xs"
  by (metis list_update_beyond list_update_id map_update not_le nth_map)

text \<open>Replacing the element with a given identity.\<close>

lemma set_update_id:
  assumes "distinct (map f xs)" "find_index (\<lambda>x. f x = i) xs = Some n"
  shows "set (xs[n := y]) = insert y {x \<in> set xs. f x \<noteq> i}"
proof -
  have n: "n < length xs" "f (xs ! n) = i" using find_index_Some [OF assms(2)] by auto
  have "set xs - {xs ! n} = {x \<in> set xs. f x \<noteq> i}"
    using assms(1) n by (auto simp: distinct_map dest: inj_onD)
  with n(1) assms(1) show ?thesis
    by (auto simp: set_update_distinct distinct_map)
qed

lemma distinct_map_update_id:
  assumes "distinct (map f xs)" "find_index (\<lambda>x. f x = i) xs = Some n" "distinct (map h xs)"
    and "\<forall>x \<in> set xs. f x \<noteq> i \<longrightarrow> h x \<noteq> h y"
  shows "distinct (map h (xs[n := y]))"
proof -
  have n: "n < length xs" "f (xs ! n) = i" using find_index_Some [OF assms(2)] by auto
  have "h y \<notin> set (map h xs) - {h (xs ! n)}"
  proof
    assume "h y \<in> set (map h xs) - {h (xs ! n)}"
    then obtain x where x: "x \<in> set xs" "h x = h y" "h y \<noteq> h (xs ! n)" by auto
    with assms(4) have "f x = i" by auto
    with x n assms(1) have "x = xs ! n" by (metis distinct_map inj_onD nth_mem)
    with x show False by simp
  qed
  with n(1) assms(3) show ?thesis
    by (simp add: map_update distinct_list_update)
qed

section \<open>Integers of the runtime\<close>

text \<open>
  Counters are JavaScript numbers. Every value reachable from 0 by \<open>+ 1\<close> lies in
  \<open>0 .. 2 ^ 53\<close>; on that range the IEEE-754 sum \<open>n + 1\<close> is exact below \<open>2 ^ 53\<close> and rounds back
  to \<open>2 ^ 53\<close> at \<open>2 ^ 53\<close>.
\<close>

definition js_limit :: nat where
  "js_limit = 2 ^ 53"

definition js_succ :: "nat \<Rightarrow> nat" where
  "js_succ n = (if n < js_limit then n + 1 else n)"

definition MAX_SAFE_INTEGER :: nat where
  "MAX_SAFE_INTEGER = 2 ^ 53 - 1"

lemma js_succ_gt [simp]: "n < js_limit \<Longrightarrow> js_succ n = Suc n"
  by (simp add: js_succ_def)

lemma js_succ_ge: "n \<le> js_succ n"
  by (simp add: js_succ_def)

lemma js_succ_mono: "m \<le> n \<Longrightarrow> js_succ m \<le> js_succ n"
  by (auto simp: js_succ_def)

lemma js_limit_pos [simp]: "0 < js_limit"
  by (simp add: js_limit_def)

section \<open>Strings\<close>

text \<open>
  A string is the list of its UTF-16 code units, restricted to the 256 units of \<open>char\<close>.
  \<open>trim\<close> and \<open>toLowerCase\<close> are written out on this range; Unicode normalisation is table-driven
  and is a parameter of the definitions that use it.
\<close>

definition is_js_space :: "char \<Rightarrow> bool" where
  "is_js_space c \<longleftrightarrow> of_char c \<in> {9, 10, 11, 12, 13, 32, 160 :: nat}"

definition js_trim :: "string \<Rightarrow> string" where
  "js_trim s = rev (dropWhile is_js_space (rev (dropWhile is_js_space s)))"

lemma dropWhile_rev_fixed:
  "dropWhile P (rev (dropWhile P (rev (dropWhile P s)))) = rev (dropWhile P (rev (dropWhile P s)))"
proof (cases "rev (dropWhile P (rev (dropWhile P s)))")
  case Nil
  then show ?thesis by (metis dropWhile.simps(1))
next
  case (Cons a t)
  obtain u where "dropWhile P s = (a # t) @ u"
    using Cons by (metis rev_append rev_rev_ident takeWhile_dropWhile_id)
  then have "\<not> P a" by (metis append_Cons hd_dropWhile list.sel(1) list.distinct(1))
  then show ?thesis unfolding Cons by simp
qed

lemma js_trim_trim [simp]: "js_trim (js_trim s) = js_trim s"
  by (simp add: js_trim_def dropWhile_rev_fixed)

lemma trim_solid: "s \<noteq> [] \<Longrightarrow> \<not> is_js_space (hd s) \<Longrightarrow> \<not> is_js_space (last s) \<Longrightarrow> js_trim s = s"
  by (cases s) (auto simp: js_trim_def dropWhile_eq_self_iff hd_rev hd_append)

definition lower_char :: "char \<Rightarrow> char" where
  "lower_char c =
     (let n = (of_char c :: nat) in
      if (65 \<le> n \<and> n \<le> 90) \<or> (192 \<le> n \<and> n \<le> 222 \<and> n \<noteq> 215) then char_of (n + 32) else c)"

definition js_lower :: "string \<Rightarrow> string" where
  "js_lower s = map lower_char s"

lemma length_js_lower [simp]: "length (js_lower s) = length s"
  by (simp add: js_lower_def)

text \<open>\<open>s.includes(t)\<close>: the needle occurs at some offset.\<close>

fun js_includes :: "string \<Rightarrow> string \<Rightarrow> bool" where
  "js_includes [] t = (t = [])"
| "js_includes (c # s) t = (take (length t) (c # s) = t \<or> js_includes s t)"

lemma js_includes_iff: "js_includes s t \<longleftrightarrow> (\<exists>u v. s = u @ t @ v)"
proof (induction s)
  case Nil
  show ?case by simp
next
  case (Cons c s)
  have "take (length t) (c # s) = t \<longleftrightarrow> (\<exists>v. c # s = t @ v)"
    by (metis append_eq_conv_conj append_take_drop_id)
  with Cons show ?case
    by (auto simp: Cons_eq_append_conv)
qed

end
