(* ===== verification/Json.thy ===== *)
theory Json
  imports Prelude
begin

text \<open>
  JSON values, their canonical form and the structural comparison of
  \<open>packages/core/src/domain/common/json.utils.ts\<close>. \<open>JSON.stringify\<close> is written out, so that
  comparing the printed canonical forms, which is what the code does, is proved to be
  structural equality up to the order of object keys.
\<close>

section \<open>Values and canonical form\<close>

text \<open>
  Numbers are the integers the persisted artifacts hold. An object is the list of its own
  enumerable properties; a property whose value is \<open>undefined\<close> is absent, as it is from the
  printed text. \<open>Json_Equality\<close> treats the values that these leave out (\<open>undefined\<close> members,
  other numbers, dates) and proves the comparison on all of them.
\<close>

datatype json =
    JNull
  | JBool bool
  | JNum int
  | JStr string
  | JArr "json list"
  | JObj "(string \<times> json) list"

text \<open>\<open>toCanonicalJsonValue\<close>: object entries are sorted by key, at every depth.\<close>

lemma size_json_entry [termination_simp]:
  "(k, v) \<in> set kvs \<Longrightarrow> size v < Suc (size_list (size_prod (\<lambda>_. 0) size) kvs)"
  by (induction kvs) auto

fun toCanonicalJsonValue :: "json \<Rightarrow> json" where
  "toCanonicalJsonValue (JArr xs) = JArr (map toCanonicalJsonValue xs)"
| "toCanonicalJsonValue (JObj kvs) =
     JObj (map (\<lambda>(k, v). (k, toCanonicalJsonValue v)) (sort_key fst kvs))"
| "toCanonicalJsonValue JNull = JNull"
| "toCanonicalJsonValue (JBool b) = JBool b"
| "toCanonicalJsonValue (JNum n) = JNum n"
| "toCanonicalJsonValue (JStr s) = JStr s"

section \<open>Printing\<close>

definition digit_char :: "nat \<Rightarrow> char" where
  "digit_char n = (char_of (48 + n) :: char)"

fun nat_text :: "nat \<Rightarrow> string" where
  "nat_text n = (if n < 10 then [digit_char n] else nat_text (n div 10) @ [digit_char (n mod 10)])"

declare nat_text.simps [simp del]

definition int_text :: "int \<Rightarrow> string" where
  "int_text i = (if i < 0 then CHR ''-'' # nat_text (nat (- i)) else nat_text (nat i))"

definition hex_char :: "nat \<Rightarrow> char" where
  "hex_char n = (if n < 10 then char_of (48 + n) else char_of (87 + n))"

text \<open>The escapes of \<open>JSON.stringify\<close>: the two delimiters and the control characters.\<close>

definition esc_char :: "char \<Rightarrow> string" where
  "esc_char c =
     (let n = (of_char c :: nat) in
      if n = 34 then [CHR 0x5C, CHR 0x22]
      else if n = 92 then [CHR 0x5C, CHR 0x5C]
      else if n = 8 then [CHR 0x5C, CHR ''b'']
      else if n = 12 then [CHR 0x5C, CHR ''f'']
      else if n = 10 then [CHR 0x5C, CHR ''n'']
      else if n = 13 then [CHR 0x5C, CHR ''r'']
      else if n = 9 then [CHR 0x5C, CHR ''t'']
      else if n < 32 then [CHR 0x5C, CHR ''u'', CHR ''0'', CHR ''0'', hex_char (n div 16), hex_char (n mod 16)]
      else [c])"

definition quote_text :: "string \<Rightarrow> string" where
  "quote_text s = CHR 0x22 # concat (map esc_char s) @ [CHR 0x22]"

text \<open>\<open>JSON.stringify\<close> without indentation; the elements of arrays and objects are comma-separated.\<close>

fun stringify :: "json \<Rightarrow> string"
  and stringify_elements :: "json list \<Rightarrow> string"
  and stringify_members :: "(string \<times> json) list \<Rightarrow> string" where
  "stringify JNull = ''null''"
| "stringify (JBool b) = (if b then ''true'' else ''false'')"
| "stringify (JNum i) = int_text i"
| "stringify (JStr s) = quote_text s"
| "stringify (JArr xs) = ''['' @ stringify_elements xs @ '']''"
| "stringify (JObj kvs) = ''{'' @ stringify_members kvs @ ''}''"
| "stringify_elements [] = []"
| "stringify_elements (x # xs) =
     stringify x @ (if xs = [] then [] else '','' @ stringify_elements xs)"
| "stringify_members [] = []"
| "stringify_members ((k, v) # kvs) =
     quote_text k @ '':'' @ stringify v @ (if kvs = [] then [] else '','' @ stringify_members kvs)"

definition areJsonEqual :: "json \<Rightarrow> json \<Rightarrow> bool" where
  "areJsonEqual localValue remoteValue \<longleftrightarrow>
     stringify (toCanonicalJsonValue localValue) = stringify (toCanonicalJsonValue remoteValue)"

section \<open>The printed text determines the value\<close>

text \<open>
  Every printed value can be read back from a longer text: the lemmas below cancel a printed
  piece from the front of two equal texts. A number needs to know that its text has ended.
\<close>

lemma of_digit_char: "n < 10 \<Longrightarrow> of_char (digit_char n) = 48 + n"
  by (simp add: digit_char_def)

definition digit_value :: "string \<Rightarrow> nat" where
  "digit_value s = fold (\<lambda>c v. 10 * v + (of_char c - 48)) s 0"

definition is_digit :: "char \<Rightarrow> bool" where
  "is_digit c \<longleftrightarrow> (48 :: nat) \<le> of_char c \<and> (of_char c :: nat) < 58"

lemma is_digit_digit_char: "n < 10 \<Longrightarrow> is_digit (digit_char n)"
  by (simp add: is_digit_def of_digit_char)

lemma nat_text_digits: "\<forall>c \<in> set (nat_text n). is_digit c"
proof (induction n rule: nat_text.induct)
  case (1 n)
  show ?case
  proof (cases "n < 10")
    case True
    then show ?thesis by (simp add: nat_text.simps [of n] is_digit_digit_char)
  next
    case False
    with 1 show ?thesis by (simp add: nat_text.simps [of n] is_digit_digit_char)
  qed
qed

lemma nat_text_value: "digit_value (nat_text n) = n"
proof (induction n rule: nat_text.induct)
  case (1 n)
  show ?case
  proof (cases "n < 10")
    case True
    then show ?thesis by (simp add: nat_text.simps [of n] digit_value_def of_digit_char)
  next
    case False
    with 1 show ?thesis
      by (simp add: nat_text.simps [of n] digit_value_def of_digit_char)
  qed
qed

lemma nat_text_nonempty: "nat_text n \<noteq> []"
  by (subst nat_text.simps) simp

lemma span_cancel:
  assumes "u @ r = v @ s"
    and "\<forall>c \<in> set u. P c" "\<forall>c \<in> set v. P c"
    and "r = [] \<or> \<not> P (hd r)" "s = [] \<or> \<not> P (hd s)"
  shows "u = v \<and> r = s"
proof -
  have "takeWhile P (u @ r) = u" "takeWhile P (v @ s) = v"
    using assms(2-5) by (auto simp: takeWhile_append takeWhile_eq_Nil_iff)
  with assms(1) show ?thesis by auto
qed

lemma nat_text_cancel:
  assumes "nat_text m @ r = nat_text n @ s"
    and "r = [] \<or> \<not> is_digit (hd r)" "s = [] \<or> \<not> is_digit (hd s)"
  shows "m = n \<and> r = s"
  using span_cancel [OF assms(1) nat_text_digits nat_text_digits assms(2,3)] nat_text_value
  by metis

lemma nat_text_hd: "is_digit (hd (nat_text n))"
  using nat_text_digits [of n] nat_text_nonempty [of n] by simp

lemma minus_not_digit: "\<not> is_digit (CHR ''-'')"
  by (simp add: is_digit_def)

lemma nat_text_not_minus: "nat_text n @ t \<noteq> CHR ''-'' # u" "CHR ''-'' # u \<noteq> nat_text n @ t"
  using nat_text_hd [of n] nat_text_nonempty [of n] minus_not_digit
  by (cases "nat_text n"; auto)+

lemma int_text_cancel:
  assumes eq: "int_text i @ r = int_text j @ s"
    and r: "r = [] \<or> \<not> is_digit (hd r)" and s: "s = [] \<or> \<not> is_digit (hd s)"
  shows "i = j \<and> r = s"
proof (cases "i < 0")
  case True
  with eq have j: "j < 0" by (auto simp: int_text_def nat_text_not_minus split: if_splits)
  with True eq have "nat_text (nat (- i)) @ r = nat_text (nat (- j)) @ s"
    by (simp add: int_text_def)
  from nat_text_cancel [OF this r s] True j show ?thesis by auto
next
  case False
  with eq have j: "\<not> j < 0" by (auto simp: int_text_def nat_text_not_minus split: if_splits)
  with False eq have "nat_text (nat i) @ r = nat_text (nat j) @ s"
    by (simp add: int_text_def)
  from nat_text_cancel [OF this r s] False j show ?thesis by auto
qed

text \<open>Reading one escaped character back.\<close>

definition hex_value :: "char \<Rightarrow> nat" where
  "hex_value c = (let n = of_char c in if n < 58 then n - 48 else n - 87)"

lemma hex_value_hex_char: "n < 16 \<Longrightarrow> hex_value (hex_char n) = n"
  by (cases "n < 10") (simp_all add: hex_value_def hex_char_def)

fun read_escaped :: "string \<Rightarrow> char \<times> string" where
  "read_escaped (a # b # r) =
     (if a \<noteq> CHR 0x5C then (a, b # r)
      else if b = CHR ''b'' then (CHR 0x08, r)
      else if b = CHR ''f'' then (CHR 0x0C, r)
      else if b = CHR ''n'' then (CHR 0x0A, r)
      else if b = CHR ''r'' then (CHR 0x0D, r)
      else if b = CHR ''t'' then (CHR 0x09, r)
      else if b = CHR ''u'' then
        (char_of (16 * hex_value (r ! 2) + hex_value (r ! 3)), drop 4 r)
      else (b, r))"
| "read_escaped [a] = (a, [])"
| "read_escaped [] = (CHR 0x00, [])"

lemma read_escaped_plain: "a \<noteq> CHR 0x5C \<Longrightarrow> read_escaped (a # r) = (a, r)"
  by (cases r) auto

lemma char_eq_of_char: "of_char c = (n :: nat) \<Longrightarrow> c = char_of n"
  by (metis char_of_char)

lemma read_escaped_esc_char: "read_escaped (esc_char c @ r) = (c, r)"
proof -
  define n :: nat where n: "n = of_char c"
  have c: "c = char_of n" by (simp add: n)
  have hex: "16 * hex_value (hex_char (n div 16)) + hex_value (hex_char (n mod 16)) = n" if "n < 32"
    using that by (simp add: hex_value_hex_char)
  consider "n \<in> {34, 92, 8, 12, 10, 13, 9}" | "n \<notin> {34, 92, 8, 12, 10, 13, 9}" "n < 32"
    | "n \<notin> {34, 92, 8, 12, 10, 13, 9}" "\<not> n < 32" by blast
  then show ?thesis
  proof cases
    case 1
    then show ?thesis
      unfolding esc_char_def Let_def n [symmetric] by (auto simp: c intro!: char_eq_of_char)
  next
    case 2
    then show ?thesis
      unfolding esc_char_def Let_def n [symmetric] by (simp add: hex c)
  next
    case 3
    then have "c \<noteq> CHR 0x5C" using n by auto
    with 3 show ?thesis
      unfolding esc_char_def Let_def n [symmetric] by (simp add: read_escaped_plain)
  qed
qed

lemma esc_char_cancel: "esc_char c @ r = esc_char d @ s \<Longrightarrow> c = d \<and> r = s"
  by (metis read_escaped_esc_char prod.inject)

lemma esc_char_hd: "\<exists>a u. esc_char c = a # u \<and> a \<noteq> CHR 0x22"
  by (auto simp: esc_char_def Let_def)

lemma quote_body_cancel:
  "concat (map esc_char a) @ CHR 0x22 # r = concat (map esc_char b) @ CHR 0x22 # s \<Longrightarrow> a = b \<and> r = s"
proof (induction a arbitrary: b)
  case Nil
  show ?case
  proof (cases b)
    case Nil
    with Nil.prems show ?thesis by simp
  next
    case (Cons d b')
    with Nil.prems esc_char_hd [of d] show ?thesis by auto
  qed
next
  case (Cons c a)
  show ?case
  proof (cases b)
    case Nil
    with Cons.prems esc_char_hd [of c] show ?thesis by auto
  next
    case (Cons d b')
    with Cons.prems have "esc_char c @ (concat (map esc_char a) @ CHR 0x22 # r) =
        esc_char d @ (concat (map esc_char b') @ CHR 0x22 # s)" by simp
    from esc_char_cancel [OF this] Cons.IH [of b'] Cons show ?thesis by auto
  qed
qed

lemma quote_text_cancel: "quote_text a @ r = quote_text b @ s \<Longrightarrow> a = b \<and> r = s"
  using quote_body_cancel [of a r b s] by (simp add: quote_text_def)

text \<open>Where a printed value may end: at the end of the text or before a separator.\<close>

definition value_end :: "string \<Rightarrow> bool" where
  "value_end r \<longleftrightarrow> r = [] \<or> hd r \<in> {CHR '','', CHR '']'', CHR ''}''}"

lemma value_end_not_digit: "value_end r \<Longrightarrow> r = [] \<or> \<not> is_digit (hd r)"
  by (auto simp: value_end_def is_digit_def)

lemma value_end_simps [simp]:
  "value_end []" "value_end (CHR '','' # r)" "value_end (CHR '']'' # r)" "value_end (CHR ''}'' # r)"
  by (simp_all add: value_end_def)

text \<open>The first character tells which kind of value was printed.\<close>

fun first_char_ok :: "json \<Rightarrow> char \<Rightarrow> bool" where
  "first_char_ok JNull c = (c = CHR ''n'')"
| "first_char_ok (JBool b) c = (c = (if b then CHR ''t'' else CHR ''f''))"
| "first_char_ok (JNum i) c = (is_digit c \<or> c = CHR ''-'')"
| "first_char_ok (JStr s) c = (c = CHR 0x22)"
| "first_char_ok (JArr xs) c = (c = CHR ''['')"
| "first_char_ok (JObj kvs) c = (c = CHR ''{'')"

lemma int_text_first: "\<exists>c u. int_text i = c # u \<and> (is_digit c \<or> c = CHR ''-'')"
  using nat_text_hd nat_text_nonempty
  by (auto simp: int_text_def) (metis list.exhaust_sel)

lemma stringify_first: "\<exists>c u. stringify j = c # u \<and> first_char_ok j c"
  using int_text_first by (cases j) (auto simp: quote_text_def)

lemma stringify_not_sep:
  "stringify j @ r \<noteq> CHR '']'' # s" "CHR '']'' # s \<noteq> stringify j @ r"
  "stringify j @ r \<noteq> CHR ''}'' # s" "CHR ''}'' # s \<noteq> stringify j @ r"
proof -
  obtain c u where u: "stringify j = c # u" "first_char_ok j c" using stringify_first by blast
  then have "c \<noteq> CHR '']''" "c \<noteq> CHR ''}''" by (cases j; auto simp: is_digit_def)+
  with u show "stringify j @ r \<noteq> CHR '']'' # s" "CHR '']'' # s \<noteq> stringify j @ r"
    "stringify j @ r \<noteq> CHR ''}'' # s" "CHR ''}'' # s \<noteq> stringify j @ r" by auto
qed

lemma first_char_kind:
  "first_char_ok a c \<Longrightarrow> first_char_ok b c \<Longrightarrow>
     (\<exists>i j. a = JNum i \<and> b = JNum j) \<or> (\<exists>s t. a = JStr s \<and> b = JStr t) \<or>
     (\<exists>xs ys. a = JArr xs \<and> b = JArr ys) \<or> (\<exists>xs ys. a = JObj xs \<and> b = JObj ys) \<or>
     (a = b \<and> (a = JNull \<or> (\<exists>x. a = JBool x)))"
  by (cases a; cases b) (auto simp: is_digit_def split: if_splits)

lemma stringify_same_kind:
  assumes "stringify a @ r = stringify b @ s"
  shows "(\<exists>i j. a = JNum i \<and> b = JNum j) \<or> (\<exists>s t. a = JStr s \<and> b = JStr t) \<or>
     (\<exists>xs ys. a = JArr xs \<and> b = JArr ys) \<or> (\<exists>xs ys. a = JObj xs \<and> b = JObj ys) \<or>
     (a = b \<and> (a = JNull \<or> (\<exists>x. a = JBool x)))"
proof -
  obtain c u d v where "stringify a = c # u" "first_char_ok a c" "stringify b = d # v" "first_char_ok b d"
    using stringify_first by metis
  with assms first_char_kind [of a c b] show ?thesis by auto
qed

lemma stringify_cancel:
  "stringify a @ r = stringify b @ s \<Longrightarrow> value_end r \<Longrightarrow> value_end s \<Longrightarrow> a = b \<and> r = s"
  and stringify_elements_cancel:
  "stringify_elements xs @ CHR '']'' # r = stringify_elements ys @ CHR '']'' # s \<Longrightarrow> xs = ys \<and> r = s"
  and stringify_members_cancel:
  "stringify_members kvs @ CHR ''}'' # r = stringify_members kws @ CHR ''}'' # s \<Longrightarrow> kvs = kws \<and> r = s"
proof (induction a and xs and kvs arbitrary: b r s and ys r s and kws r s
    rule: stringify_stringify_elements_stringify_members.induct)
  case 1
  then show ?case using stringify_same_kind [of JNull r b s] by auto
next
  case (2 x)
  then show ?case using stringify_same_kind [of "JBool x" r b s] by auto
next
  case (3 i)
  from "3.prems"(1) obtain j where b: "b = JNum j" using stringify_same_kind [of "JNum i" r b s] by auto
  with 3 int_text_cancel [of i r j s] value_end_not_digit show ?case by simp
next
  case (4 t)
  from "4.prems"(1) obtain t' where b: "b = JStr t'" using stringify_same_kind [of "JStr t" r b s] by auto
  with 4 quote_text_cancel [of t r t' s] show ?case by simp
next
  case (5 xs)
  from "5.prems"(1) obtain ys where b: "b = JArr ys" using stringify_same_kind [of "JArr xs" r b s] by auto
  have eq: "stringify_elements xs @ CHR '']'' # r = stringify_elements ys @ CHR '']'' # s"
    using "5.prems"(1) b by simp
  from "5.IH" [OF eq] b show ?case by simp
next
  case (6 kvs)
  from "6.prems"(1) obtain kws where b: "b = JObj kws" using stringify_same_kind [of "JObj kvs" r b s] by auto
  have eq: "stringify_members kvs @ CHR ''}'' # r = stringify_members kws @ CHR ''}'' # s"
    using "6.prems"(1) b by simp
  from "6.IH" [OF eq] b show ?case by simp
next
  case 7
  then show ?case by (cases ys) (auto simp: stringify_not_sep)
next
  case (8 x xs)
  show ?case
  proof (cases ys)
    case Nil
    with 8(3) show ?thesis by (simp add: stringify_not_sep)
  next
    case (Cons y ys')
    let ?tail = "\<lambda>zs t. (if zs = [] then [] else '','' @ stringify_elements zs) @ CHR '']'' # t"
    from 8(3) Cons have "stringify x @ ?tail xs r = stringify y @ ?tail ys' s" by simp
    then have xy: "x = y" "?tail xs r = ?tail ys' s" using "8.IH"(1) [of "?tail xs r" y "?tail ys' s"] by auto
    from xy(2) "8.IH"(2) [of r ys' s] Cons xy(1) show ?thesis by (auto split: if_splits)
  qed
next
  case 9
  then show ?case by (cases kws) (auto simp: quote_text_def)
next
  case (10 k v kvs)
  show ?case
  proof (cases kws)
    case Nil
    with 10(3) show ?thesis by (simp add: quote_text_def)
  next
    case (Cons kw kws')
    obtain k' v' where kw: "kw = (k', v')" by force
    let ?tail = "\<lambda>zs t. (if zs = [] then [] else '','' @ stringify_members zs) @ CHR ''}'' # t"
    from 10(3) Cons kw have "quote_text k @ CHR '':'' # stringify v @ ?tail kvs r =
        quote_text k' @ CHR '':'' # stringify v' @ ?tail kws' s" by simp
    from quote_text_cancel [OF this] have k: "k = k'"
      and "CHR '':'' # stringify v @ ?tail kvs r = CHR '':'' # stringify v' @ ?tail kws' s" by blast+
    then have "stringify v @ ?tail kvs r = stringify v' @ ?tail kws' s" by (simp only: list.inject)
    from "10.IH"(1) [OF this] have v: "v = v'" "?tail kvs r = ?tail kws' s" by auto
    from v(2) "10.IH"(2) [of r kws' s] Cons kw k v(1) show ?thesis by (auto split: if_splits)
  qed
qed

text \<open>Printing loses nothing, so the comparison of the code is equality of canonical forms.\<close>

lemma stringify_inject: "stringify a = stringify b \<longleftrightarrow> a = b"
  using stringify_cancel [of a "[]" b "[]"] by auto

lemma areJsonEqual_canonical:
  "areJsonEqual a b \<longleftrightarrow> toCanonicalJsonValue a = toCanonicalJsonValue b"
  by (simp add: areJsonEqual_def stringify_inject)

lemma areJsonEqual_refl [simp]: "areJsonEqual a a"
  by (simp add: areJsonEqual_def)

end
