(* ===== verification/Version_Vector.thy ===== *)
theory Version_Vector
  imports Json
begin

text \<open>
  Version vectors (\<open>packages/core/src/domain/versioning/version-vector.utils.ts\<close>): one counter per
  device. The abstraction of a vector is the function from device identities to counters; the
  operations are proved to be the lattice operations and the order on these functions.
\<close>

section \<open>The operations\<close>

text \<open>
  A vector is a JavaScript object with string keys: the list of its own properties in insertion
  order. \<open>{...v, [k]: x}\<close> is \<open>AList.update k x v\<close> (a present key keeps its place), and a
  missing component counts as 0. A read \<open>v[k] ?? 0\<close> also finds what a plain object inherits
  (\<open>constructor\<close>, \<open>toString\<close>, ...); identities of that form are not represented: the program
  generates its device identities as UUIDs.
\<close>

type_synonym VersionVector = "(string \<times> nat) list"

datatype VersionVectorRelation = Equal | Local_ahead | Remote_ahead | Remote_missing | Broken

definition vv_get :: "VersionVector \<Rightarrow> string \<Rightarrow> nat" where
  "vv_get v deviceId = (case map_of v deviceId of None \<Rightarrow> 0 | Some n \<Rightarrow> n)"

definition vv_keys :: "VersionVector \<Rightarrow> string list" where
  "vv_keys v = map fst v"

definition incrementVersionVector :: "VersionVector \<Rightarrow> string \<Rightarrow> VersionVector" where
  "incrementVersionVector versionVector deviceId =
     AList.update deviceId (js_succ (vv_get versionVector deviceId)) versionVector"

definition mergeVersionVectors :: "VersionVector \<Rightarrow> VersionVector \<Rightarrow> VersionVector" where
  "mergeVersionVectors l r =
     fold (\<lambda>deviceId. AList.update deviceId (max (vv_get l deviceId) (vv_get r deviceId)))
       (js_set (vv_keys l @ vv_keys r)) []"

definition isVersionVectorAheadOf :: "VersionVector \<Rightarrow> VersionVector \<Rightarrow> bool" where
  "isVersionVectorAheadOf candidate baseline \<longleftrightarrow>
     list_ex (\<lambda>deviceId. vv_get candidate deviceId > vv_get baseline deviceId) (vv_keys candidate)"

text \<open>The two flags of the comparison loop: is there a newer local, a newer remote component?\<close>

definition newer_components :: "VersionVector \<Rightarrow> VersionVector \<Rightarrow> bool \<times> bool" where
  "newer_components l r =
     fold (\<lambda>deviceId (localNewer, remoteNewer).
             (if vv_get l deviceId > vv_get r deviceId then True else localNewer,
              if vv_get r deviceId > vv_get l deviceId then True else remoteNewer))
       (js_set (vv_keys l @ vv_keys r)) (False, False)"

definition compareVersionVectors :: "VersionVector \<Rightarrow> VersionVector \<Rightarrow> VersionVectorRelation" where
  "compareVersionVectors l r =
     (case newer_components l r of (localHasNewerComponent, remoteHasNewerComponent) \<Rightarrow>
        if localHasNewerComponent \<and> remoteHasNewerComponent then Broken
        else if localHasNewerComponent then Local_ahead
        else if remoteHasNewerComponent then Remote_ahead
        else Equal)"

section \<open>The abstraction to counter functions\<close>

lemma vv_get_not_key: "d \<notin> set (vv_keys v) \<Longrightarrow> vv_get v d = 0"
  by (simp add: vv_get_def vv_keys_def map_of_eq_None_iff [THEN iffD2])

lemma vv_get_positive_key: "n < vv_get v d \<Longrightarrow> d \<in> set (vv_keys v)"
  using vv_get_not_key by fastforce

lemma vv_get_Nil [simp]: "vv_get [] d = 0"
  by (simp add: vv_get_def)

lemma vv_get_single [simp]: "vv_get [(d, n)] = (\<lambda>_. 0)(d := n)"
  by (auto simp: vv_get_def)

lemma vv_get_increment [simp]:
  "vv_get (incrementVersionVector v d) = (vv_get v)(d := js_succ (vv_get v d))"
  by (auto simp: incrementVersionVector_def vv_get_def update_conv')

lemma vv_get_fold_update:
  "vv_get (fold (\<lambda>d. AList.update d (g d)) ds v) = (\<lambda>d. if d \<in> set ds then g d else vv_get v d)"
proof (induction ds arbitrary: v)
  case Nil
  show ?case by simp
next
  case (Cons d ds)
  show ?case by (auto simp: Cons.IH vv_get_def update_conv' fun_eq_iff)
qed

text \<open>Merging is the pointwise maximum, the join of the two counter functions.\<close>

lemma vv_get_merge [simp]: "vv_get (mergeVersionVectors l r) = sup (vv_get l) (vv_get r)"
  by (auto simp: mergeVersionVectors_def vv_get_fold_update fun_eq_iff sup_fun_def sup_max vv_get_not_key)

lemma newer_components_iff:
  "newer_components l r = (\<not> vv_get l \<le> vv_get r, \<not> vv_get r \<le> vv_get l)"
proof -
  have loop: "fold (\<lambda>d (a, b). (if f d > g d then True else a, if g d > f d then True else b)) ds (a, b) =
      (a \<or> (\<exists>d \<in> set ds. f d > g d), b \<or> (\<exists>d \<in> set ds. g d > f d))"
    for f g :: "string \<Rightarrow> nat" and ds a b
    by (induction ds arbitrary: a b) auto
  have "(\<exists>d \<in> set (vv_keys l) \<union> set (vv_keys r). vv_get l d > vv_get r d) \<longleftrightarrow> \<not> vv_get l \<le> vv_get r"
    using vv_get_positive_key [of _ l] by (force simp: le_fun_def not_le)
  moreover have "(\<exists>d \<in> set (vv_keys l) \<union> set (vv_keys r). vv_get r d > vv_get l d) \<longleftrightarrow> \<not> vv_get r \<le> vv_get l"
    using vv_get_positive_key [of _ r] by (force simp: le_fun_def not_le)
  ultimately show ?thesis by (simp add: newer_components_def loop)
qed

text \<open>The comparison decides the componentwise order.\<close>

lemma compareVersionVectors_alt:
  "compareVersionVectors l r =
     (if vv_get l = vv_get r then Equal
      else if vv_get r \<le> vv_get l then Local_ahead
      else if vv_get l \<le> vv_get r then Remote_ahead
      else Broken)"
  by (auto simp: compareVersionVectors_def newer_components_iff)

lemma compare_Equal_iff: "compareVersionVectors l r = Equal \<longleftrightarrow> vv_get l = vv_get r"
  by (auto simp: compareVersionVectors_alt)

lemma compare_Local_ahead_iff: "compareVersionVectors l r = Local_ahead \<longleftrightarrow> vv_get r < vv_get l"
  by (auto simp: compareVersionVectors_alt less_le_not_le)

lemma compare_Remote_ahead_iff: "compareVersionVectors l r = Remote_ahead \<longleftrightarrow> vv_get l < vv_get r"
  by (auto simp: compareVersionVectors_alt less_le_not_le)

lemma compare_Broken_iff:
  "compareVersionVectors l r = Broken \<longleftrightarrow> \<not> vv_get l \<le> vv_get r \<and> \<not> vv_get r \<le> vv_get l"
  by (auto simp: compareVersionVectors_alt)

lemma compare_not_Remote_missing: "compareVersionVectors l r \<noteq> Remote_missing"
  by (auto simp: compareVersionVectors_alt)

lemmas compare_iffs = compare_Equal_iff compare_Local_ahead_iff compare_Remote_ahead_iff
  compare_Broken_iff compare_not_Remote_missing

lemma isVersionVectorAheadOf_iff: "isVersionVectorAheadOf c b \<longleftrightarrow> \<not> vv_get c \<le> vv_get b"
  using vv_get_positive_key [of _ c]
  by (force simp: isVersionVectorAheadOf_def list_ex_iff le_fun_def not_le)

section \<open>Increments\<close>

lemma increment_ge: "vv_get v \<le> vv_get (incrementVersionVector v d)"
  by (simp add: le_fun_def js_succ_ge)

lemma increment_strict:
  "vv_get v d < js_limit \<Longrightarrow> vv_get v < vv_get (incrementVersionVector v d)"
  using increment_ge [of v d] by (auto simp: less_le fun_eq_iff)

text \<open>At the end of the counter range an increment is lost.\<close>

lemma increment_saturated:
  "js_limit \<le> vv_get v d \<Longrightarrow> vv_get (incrementVersionVector v d) = vv_get v"
  by (simp add: js_succ_def)

lemma distinct_keys_increment:
  "distinct (vv_keys v) \<Longrightarrow> distinct (vv_keys (incrementVersionVector v d))"
  by (simp add: incrementVersionVector_def vv_keys_def distinct_update)

lemma distinct_keys_merge: "distinct (vv_keys (mergeVersionVectors l r))"
proof -
  have "distinct (map fst (fold (\<lambda>d. AList.update d (g d)) ds v))" if "distinct (map fst v)"
    for ds and g :: "string \<Rightarrow> nat" and v
    using that by (induction ds arbitrary: v) (simp_all add: distinct_update)
  from this [of "[]"] show ?thesis by (simp add: mergeVersionVectors_def vv_keys_def)
qed

section \<open>Encoding as JSON\<close>

definition vv_json :: "VersionVector \<Rightarrow> json" where
  "vv_json v = JObj (map (\<lambda>(k, n). (k, JNum (int n))) v)"

text \<open>Vectors that the comparison of canonical JSON accepts have the same counters.\<close>

lemma map_of_filter_key: "map_of (filter (\<lambda>y. fst y = k) ys) k = map_of ys k"
  by (induction ys) auto

lemma map_of_sort_key: "map_of (sort_key fst xs) k = map_of xs k"
proof -
  have "filter (\<lambda>y. fst y = k) (sort_key fst xs) = filter (\<lambda>y. fst y = k) xs"
    by (rule sort_key_stable)
  then show ?thesis using map_of_filter_key [of k xs] map_of_filter_key [of k "sort_key fst xs"] by simp
qed

lemma map_of_map_snd: "map_of (map (\<lambda>(k, v). (k, f v)) xs) k = map_option f (map_of xs k)"
  by (induction xs) auto

lemma map_insort_key: "(\<And>y. f (g y) = h y) \<Longrightarrow> map g (insort_key h x xs) = insort_key f (g x) (map g xs)"
  by (induction xs) auto

lemma map_sort_key:
  assumes "\<And>y. f (g y) = h y"
  shows "map g (sort_key h xs) = sort_key f (map g xs)"
  by (induction xs) (simp_all add: map_insort_key [of f g h, OF assms])

definition canonical_members :: "(string \<times> json) list \<Rightarrow> (string \<times> json) list" where
  "canonical_members = map (\<lambda>(k, v). (k, toCanonicalJsonValue v))"

lemma areJsonEqual_object:
  "areJsonEqual (JObj xs) (JObj ys) \<longleftrightarrow>
     sort_key fst (canonical_members xs) = sort_key fst (canonical_members ys)"
proof -
  have "map (\<lambda>(k, v). (k, toCanonicalJsonValue v)) (sort_key fst zs) =
      sort_key fst (canonical_members zs)" for zs
    unfolding canonical_members_def by (rule map_sort_key) auto
  then show ?thesis by (simp add: areJsonEqual_canonical)
qed

lemma areJsonEqual_object_lookup:
  assumes "areJsonEqual (JObj xs) (JObj ys)"
  shows "map_option toCanonicalJsonValue (map_of xs k) = map_option toCanonicalJsonValue (map_of ys k)"
  using assms
  by (metis areJsonEqual_object canonical_members_def map_of_map_snd map_of_sort_key)

text \<open>Objects with the same keys in the same order are compared member by member.\<close>

definition members_equal :: "(string \<times> json) list \<Rightarrow> (string \<times> json) list \<Rightarrow> bool" where
  "members_equal xs ys \<longleftrightarrow> list_all2 (\<lambda>x y. areJsonEqual (snd x) (snd y)) xs ys"

lemma members_equal_simps [simp]:
  "members_equal [] []"
  "members_equal ((k, a) # xs) ((l, b) # ys) \<longleftrightarrow> areJsonEqual a b \<and> members_equal xs ys"
  by (simp_all add: members_equal_def)

lemma areJsonEqual_same_keys:
  assumes keys: "map fst xs = map fst ys" and dist: "distinct (map fst xs)"
  shows "areJsonEqual (JObj xs) (JObj ys) \<longleftrightarrow> members_equal xs ys"
proof
  assume eq: "areJsonEqual (JObj xs) (JObj ys)"
  have len: "length xs = length ys" using keys by (metis length_map)
  show "members_equal xs ys"
    unfolding members_equal_def list_all2_conv_all_nth
  proof (intro conjI allI impI len)
    fix i assume i: "i < length xs"
    with len keys have "map_of xs (fst (xs ! i)) = Some (snd (xs ! i))"
      "map_of ys (fst (xs ! i)) = Some (snd (ys ! i))"
      using dist by (metis map_of_is_SomeI nth_mem nth_map prod.collapse)+
    with areJsonEqual_object_lookup [OF eq, of "fst (xs ! i)"]
    show "areJsonEqual (snd (xs ! i)) (snd (ys ! i))" by (simp add: areJsonEqual_canonical)
  qed
next
  assume mem: "members_equal xs ys"
  have "canonical_members xs = canonical_members ys"
  proof (rule nth_equalityI)
    show len: "length (canonical_members xs) = length (canonical_members ys)"
      using keys by (metis canonical_members_def length_map)
    fix i assume i: "i < length (canonical_members xs)"
    then have "fst (xs ! i) = fst (ys ! i)"
      using keys len by (metis canonical_members_def length_map nth_map)
    with i len mem show "canonical_members xs ! i = canonical_members ys ! i"
      by (simp add: members_equal_def canonical_members_def list_all2_conv_all_nth
          areJsonEqual_canonical case_prod_beta)
  qed
  then show "areJsonEqual (JObj xs) (JObj ys)" by (simp add: areJsonEqual_object)
qed

lemma areJsonEqual_atoms [simp]:
  "areJsonEqual (JStr a) (JStr b) \<longleftrightarrow> a = b"
  "areJsonEqual (JNum i) (JNum j) \<longleftrightarrow> i = j"
  "areJsonEqual (JBool x) (JBool y) \<longleftrightarrow> x = y"
  "areJsonEqual JNull (JStr b) \<longleftrightarrow> False" "areJsonEqual (JStr b) JNull \<longleftrightarrow> False"
  by (simp_all add: areJsonEqual_canonical)

lemma areJsonEqual_array:
  "areJsonEqual (JArr xs) (JArr ys) \<longleftrightarrow> list_all2 areJsonEqual xs ys"
proof -
  have "list_all2 areJsonEqual xs ys \<longleftrightarrow>
      list_all2 (\<lambda>x y. toCanonicalJsonValue x = toCanonicalJsonValue y) xs ys"
    by (simp add: areJsonEqual_canonical [abs_def])
  then show ?thesis
    by (auto simp: areJsonEqual_canonical list_all2_conv_all_nth list_eq_iff_nth_eq)
qed

lemma areJsonEqual_strings [simp]:
  "areJsonEqual (JArr (map JStr a)) (JArr (map JStr b)) \<longleftrightarrow> a = b"
  by (auto simp: areJsonEqual_array list_all2_conv_all_nth list_eq_iff_nth_eq)

lemma areJsonEqual_vv:
  assumes "areJsonEqual (vv_json v) (vv_json w)"
  shows "vv_get v = vv_get w"
proof
  fix d
  have "map_option toCanonicalJsonValue (map_option (\<lambda>n. JNum (int n)) (map_of v d)) =
      map_option toCanonicalJsonValue (map_option (\<lambda>n. JNum (int n)) (map_of w d))"
    using areJsonEqual_object_lookup [OF assms [unfolded vv_json_def], of d]
    by (simp only: map_of_map_snd)
  then show "vv_get v d = vv_get w d"
    by (cases "map_of v d"; cases "map_of w d") (simp_all add: vv_get_def)
qed

end
