(* ===== verification/Core_Errors.thy ===== *)
theory Core_Errors
  imports Version_Vector
begin

text \<open>
  The errors that the modelled workflows throw (\<open>packages/core/src/errors/*.ts\<close>). A constructor
  is an error class; its arguments are the identities that the class stores. Where the code
  distinguishes causes only by the text of one class, the cause is a datatype of its own, so
  that a theorem can say which check failed.
\<close>

text \<open>The four kinds of synchronised vault items.\<close>

datatype item_kind = Entry_item | Tag_item | Folder_item | Device_profile_item

text \<open>Reasons of \<open>InvalidVaultSyncReviewError\<close>.\<close>

datatype review_issue =
    Invalid_relation item_kind string
  | Review_active_and_deleted item_kind string
  | Occurs_more_than_once string
  | Profile_not_in_trust string
  | Tag_groups_differ
  | Duplicated_key_slot string
  | Changed_key_slot_missing string

text \<open>Reasons of \<open>InvalidVaultSyncResolutionError\<close>.\<close>

datatype resolution_issue =
    Not_required item_kind string
  | Not_resolved item_kind string
  | Resolved_twice item_kind string
  | Local_absence_chosen item_kind string
  | Resolution_active_and_deleted item_kind string
  | Incompatible_references

text \<open>Reasons of \<open>InvalidVaultOrganizationReferenceError\<close>.\<close>

datatype organization_issue =
    Invalid_or_reserved_identity
  | Tag_groups_not_unique
  | Missing_tag_group string string
  | Deleted_tags_not_unique
  | Tags_not_unique
  | Folders_not_unique
  | Missing_parent string string
  | Sibling_names_not_unique
  | Parent_cycle
  | Missing_folder string string

text \<open>Reasons of \<open>VaultTrustStateInvalidError\<close>.\<close>

datatype trust_issue =
    Genesis_key_generation
  | Anchor_mismatch
  | Genesis_mismatch
  | Certificate_vault_mismatch
  | Invalid_genesis_certificate
  | Invalid_genesis_signature
  | Disconnected_chain
  | Unauthorized_transition
  | Revoked_device_enrolled_again
  | Empty_chain
  | Authorizer_not_trusted
  | Authorizer_key_mismatch
  | Current_chain_mismatch
  | Snapshot_vault_mismatch
  | Unsupported_snapshot_format
  | Not_only_revocations
  | Not_only_enrollments
  | Transition_missing
  | Chain_incomplete
  | Unsupported_transition
  | Invalid_certificate_fields
  | Identity_changed
  | Duplicate_public_key
  | Slots_do_not_match
  | Slot_context_invalid
  | Unsupported_schema_version

text \<open>Reasons of \<open>InvalidDeviceRevocationTransitionError\<close> and
  \<open>InvalidDeviceEnrollmentTransitionError\<close>.\<close>

datatype transition_issue =
    Inconsistent_profile_state
  | Trusted_identity_deleted
  | Revoked_identity_active
  | Revoked_more_than_once
  | Revoked_profile_active
  | Duplicate_active_profiles
  | Inconsistent_pending_identity
  | Missing_tombstone
  | Tombstone_mismatch
  | Credential_generation_differs
  | Profiles_do_not_match_trust
  | Credential_revocation_pending
  | Not_a_descendant
  | No_transition
  | Synchronisation_changed
  | Marker_does_not_match
  | Credentials_not_prepared

text \<open>
  Reasons of \<open>UnlockedVaultSessionInvalidError\<close>.
\<close>

datatype session_issue =
    Payload_missing
  | Payload_cannot_be_decrypted
  | Material_payload_mismatch
  | Payload_older_than_material

text \<open>The errors of \<open>sync.errors.ts\<close> that the synchronisation workflows throw.\<close>

datatype sync_error =
    InvalidSyncProviderOutcomeError string
  | SyncProviderUploadRejectedError string
  | LocalSyncCredentialsMissingError string
  | ProviderCredentialRevocationPendingError string string
  | SyncRemovalPendingError string string
  | RemoteVaultSnapshotNotFoundError string
  | SyncConflictDetectedError string
  | RemoteVaultSnapshotAheadError string
  | LocalVaultSnapshotAheadError string
  | RemoteVaultSnapshotChangedError string
  | RemoteVaultSnapshotIntegrityError string
  | SyncNotConfiguredError string string
  | SyncAlreadyConfiguredError string
  | InvalidSyncConfigError
  | SyncCredentialsRejectedError
  | ReplacementSyncCredentialsRequiredError string
  | ReplacementSyncTargetMismatchError string
  | ReplacementSyncCredentialsUnchangedError string
  | PreviousSyncCredentialStillActiveError string
  | SyncResolutionIncompleteError string
  | SyncAlreadyResolvedError string

text \<open>The errors of reading and replacing the local snapshot (\<open>vault-snapshot.errors.ts\<close>,
  \<open>unlock-vault.errors.ts\<close>, \<open>vault-trust.errors.ts\<close>, \<open>algorithm-suite.errors.ts\<close>).\<close>

datatype snapshot_error =
    VaultSnapshotNotFoundError string
  | PersistedVaultMismatchError string string
  | SnapshotSigningDeviceNotTrustedError string string
  | VaultSnapshotDigestMismatchError string
  | VaultSnapshotVersionMismatchError string VersionVector VersionVector
  | LocalVaultSnapshotChangedError string
  | LocalVaultTrustCheckpointNotFoundError string
  | UnsupportedAlgorithmSuiteError string string string

text \<open>The errors of the storage adapters and their codecs.\<close>

datatype storage_error =
    LocalVaultAlreadyInitializedError string
  | DeviceAccessMaterialChangedError string
  | InvalidLocalVaultSnapshotRecordError
  | InvalidRemoteVaultSnapshotRecordError
  | InvalidVaultSnapshotPayloadError
  | InvalidUnlockedVaultSessionPayloadError
  | InvalidUnlockedVaultSessionPayloadRecordError
  | InvalidLocalKeysPayloadError
  | InvalidLocalVaultSecurityRecordError
  | InvalidSyncCredentialRecordError
  | InvalidDeviceSyncCredentialStateError
  | InvalidDeviceEnrollmentArtifactError
  | InvalidDeviceEnrollmentPrivateStateError
  | InvalidSyncProviderResponseError
  | S3ReadPermissionRejectedError
  | S3ReadCredentialsOrSignatureRejectedError
  | S3BucketOrRegionRejectedError

text \<open>The errors of the workflows on devices and on the access to a vault (\<open>vault-device.errors.ts\<close>,
  \<open>unlock-vault.errors.ts\<close>, \<open>change-master-password.errors.ts\<close>, \<open>master-password.errors.ts\<close>,
  \<open>device-revocation.errors.ts\<close>).\<close>

datatype device_error =
    DeviceAccessMaterialNotFoundError string
  | DeviceAccessMaterialIdentityMismatchError string
  | DeviceKeySlotNotFoundError string string
  | DeviceKeySlotVerificationFailedError string string
  | VaultMustBeUnlockedForMasterPasswordChangeError string
  | DeviceAccessMaterialNotFoundForMasterPasswordChangeError string
  | InvalidNewMasterPasswordError
  | CannotRevokeCurrentDeviceError string string
  | DeviceToRevokeNotTrustedError string string
  | CurrentDeviceRevokedError string string

text \<open>
  The constructors from \<open>Lease_not_active\<close> to \<open>Rollback_not_prepared\<close> are not classes of \<open>packages/core/src/errors\<close>: the error of an
  inactive lease, of an exhausted or malformed epoch and of a rollback without a plan are plain \<open>Error\<close> objects, malformed
  stored material is reported by the storage adapter, and \<open>External_failure n\<close> is whatever the
  \<open>n\<close>-th call to a service outside the repository threw. \<open>Descriptor_of_another_vault\<close> is a plain
  \<open>Error\<close> as well, the cause of an \<open>InvalidSyncResolutionError\<close>.
\<close>

datatype core_error =
    DuplicateVaultEntryError string
  | InvalidExpectedEntryVersionError
  | PasswordEntryChangedError
  | InvalidPasswordEntryError
  | PasswordEntryStrengthRequirementNotMetError
  | PasswordEntryNotFoundError string
  | InvalidEntryUrlError
  | UnsupportedEntryUrlProtocolError string
  | InvalidVaultTagError
  | InvalidVaultFolderError
  | InvalidGeneratedPasswordSettingsError
  | PasswordGenerationImpossibleError
  | InvalidRandomIndexUpperBoundError
  | InvalidRandomBytesLengthError nat
  | InvalidBase64UrlError string
  | DuplicateVaultTagError string
  | DuplicateVaultTagNameError
  | VaultTagNotFoundError string
  | InvalidExpectedTagVersionError
  | VaultTagChangedError
  | VaultTagInUseError string nat
  | InvalidVaultTagReferenceError string string
  | DuplicateVaultFolderError string
  | DuplicateVaultFolderNameError
  | VaultFolderNotFoundError string
  | VaultFolderCycleError
  | VaultFolderNotEmptyError string nat nat
  | InvalidExpectedFolderVersionError
  | VaultFolderChangedError
  | VaultTagGroupNotFoundError string
  | InvalidVaultOrganizationReferenceError organization_issue
  | DuplicateVaultDeviceProfileError string
  | InvalidVaultSyncReviewError review_issue
  | InvalidVaultSyncResolutionError resolution_issue
  | ChangedDeviceKeySlotsError "string list"
  | VaultTrustStateInvalidError string trust_issue
  | VaultSnapshotSignerNotTrustedError string string
  | VaultSnapshotSignatureVerificationFailedError string
  | LocalVaultTrustCheckpointInvalidError string
  | VaultSnapshotRollbackDetectedError string
  | InvalidDeviceRevocationTransitionError string transition_issue
  | InvalidDeviceEnrollmentTransitionError string transition_issue
  | InvalidClipboardClearDelayError
  | VaultMustBeUnlockedError string string
  | ActiveVaultMustBeUnlockedError string
  | InvalidVaultLockDelayError
  | UnlockedVaultSessionInvalidError session_issue
  | UnlockedVaultSessionExpiredError string
  | ActiveUnlockedVaultMismatchError string string
  | Lease_not_active
  | Epoch_exhausted
  | Epoch_malformed
  | InvalidUnlockedVaultSessionMaterialError
  | External_failure nat
  | Rollback_not_prepared
  | Sync_error sync_error
  | Snapshot_error snapshot_error
  | Storage_error storage_error
  | PersistedVaultRollbackIncompleteError string core_error
  | Device_error device_error
  | Descriptor_of_another_vault
  | InvalidSyncResolutionError string core_error
  | SyncTrustChangeRequiresDeviceTrustFlowError string "core_error option"

end
