(* ===== verification/Vault_Model.thy ===== *)
theory Vault_Model
  imports Core_Errors "HOL-Library.Word"
begin

text \<open>
  The data of \<open>packages/core/src/domain\<close>: entries, tags, folders, device profiles and their
  deletion records, trust certificates, key slots, snapshots and the vault itself. Field names
  carry the prefix of their record, since one theory has one name space of selectors.
\<close>

type_synonym bytes = "8 word list"

section \<open>Items and deletion records\<close>

record PasswordEntryInput =
  ei_password :: string
  ei_login :: string
  ei_tags :: "string list"
  ei_sanitizedUrl :: string
  ei_folderId :: string

record PasswordEntry =
  e_id :: string
  e_password :: string
  e_login :: string
  e_tags :: "string list"
  e_sanitizedUrl :: string
  e_folderId :: string
  e_versionVector :: VersionVector

text \<open>\<open>DeletedPasswordEntry\<close>, \<open>DeletedTag\<close>, \<open>DeletedFolder\<close> and \<open>DeletedDeviceProfile\<close> have the
  same three fields.\<close>

record Tombstone =
  del_id :: string
  del_versionVector :: VersionVector
  del_deletedAt :: nat

record TagInput =
  ti_id :: string
  ti_name :: string
  ti_groupId :: string
  ti_color :: string
  ti_shade :: nat
  ti_createdAt :: nat

record Tag =
  t_id :: string
  t_name :: string
  t_groupId :: string
  t_color :: string
  t_shade :: nat
  t_createdAt :: nat
  t_versionVector :: VersionVector

record FolderInput =
  fi_id :: string
  fi_name :: string
  fi_icon :: string
  fi_description :: "string option"
  fi_parentId :: "string option"
  fi_createdAt :: nat

record Folder =
  f_id :: string
  f_name :: string
  f_icon :: string
  f_description :: "string option"
  f_parentId :: "string option"
  f_createdAt :: nat
  f_versionVector :: VersionVector

record DeviceProfile =
  d_id :: string
  d_name :: string
  d_createdAt :: nat
  d_versionVector :: VersionVector

record TagGroup =
  g_id :: string
  g_name :: string
  g_icon :: string
  g_baseColor :: string
  g_description :: "string option"

section \<open>Trust certificates, key slots and snapshots\<close>

record DeviceTrustIdentity =
  dti_deviceId :: string
  dti_publicSignKey :: bytes
  dti_publicVaultKey :: bytes

record VaultTrustCertificatePayload =
  tc_version :: int
  tc_vaultId :: string
  tc_generation :: int
  tc_vaultKeyGeneration :: int
  tc_previousCertificateDigest :: "string option"
  tc_authorizedByDeviceId :: string
  tc_trustedDevices :: "DeviceTrustIdentity list"

record VaultTrustCertificate =
  cert_payload :: VaultTrustCertificatePayload
  cert_signature :: string

type_synonym VaultTrustChain = "VaultTrustCertificate list"

record LocalVaultTrustAnchor =
  an_version :: int
  an_vaultId :: string
  an_genesisDeviceId :: string
  an_genesisPublicSignKey :: bytes
  an_genesisCertificateDigest :: string

record VerifiedVaultTrustState =
  ts_generation :: int
  ts_vaultKeyGeneration :: int
  ts_certificateDigest :: string
  ts_trustedDevices :: "DeviceTrustIdentity list"

record SerializedEncrypted =
  enc_ciphertext :: string
  enc_encryptionNonce :: string

record DeviceVaultKeyEnvelope =
  env_recipientDeviceId :: string
  env_vaultKeyGeneration :: int
  env_ephemeralPublicKey :: bytes
  env_hkdfSalt :: bytes
  env_encryptedVaultMasterKey :: SerializedEncrypted

record DeviceKeySlot =
  slot_deviceId :: string
  slot_vaultKeyGeneration :: int
  slot_envelope :: DeviceVaultKeyEnvelope

record VaultSnapshotDescriptor =
  sd_vaultId :: string
  sd_snapshotVersionVector :: VersionVector
  sd_revisionTimestamp :: nat

record VaultSnapshotIdentity =
  si_descriptor :: VaultSnapshotDescriptor
  si_snapshotDigest :: string

record VaultSnapshotMetadata =
  m_id :: string
  m_schemaVersion :: int
  m_vaultCreationTimestamp :: nat
  m_revisionTimestamp :: nat
  m_snapshotVersionVector :: VersionVector
  m_algorithmSuiteId :: string
  m_createdByDeviceId :: string
  m_vaultKeyGeneration :: int
  m_uploadExpectedRemoteSnapshotIdentity :: "VaultSnapshotIdentity option option"

record VaultSnapshot =
  snap_metadata :: VaultSnapshotMetadata
  snap_trustChain :: VaultTrustChain
  snap_deviceSlots :: "DeviceKeySlot list"
  snap_content :: SerializedEncrypted
  snap_signature :: string

section \<open>The vault\<close>

record SyncTarget =
  st_provider :: string
  st_targetConfig :: json

record SyncRemovalPending =
  srp_expectedRemoteSnapshotIdentity :: "VaultSnapshotIdentity option"
  srp_rollbackSnapshot :: VaultSnapshot

record ProviderCredentialRevocationPending =
  pcr_revokedDeviceIds :: "string list"
  pcr_vaultKeyGeneration :: int

record Vault =
  v_versionVector :: VersionVector
  v_entries :: "PasswordEntry list"
  v_deletedEntries :: "Tombstone list"
  v_deviceProfiles :: "DeviceProfile list"
  v_deletedDeviceProfiles :: "Tombstone list"
  v_syncTarget :: "SyncTarget option"
  v_syncRemovalPending :: "SyncRemovalPending option"
  v_providerCredentialRevocationPending :: "ProviderCredentialRevocationPending option"
  v_tags :: "Tag list"
  v_deletedTags :: "Tombstone list"
  v_tagGroups :: "TagGroup list"
  v_folders :: "Folder list"
  v_deletedFolders :: "Tombstone list"

definition UNCATEGORIZED_FOLDER_ID :: string where
  "UNCATEGORIZED_FOLDER_ID = ''uncategorized''"

section \<open>The items as JSON\<close>

text \<open>
  What \<open>JSON.stringify\<close> sees of an item: its own enumerable properties; an absent description is
  not printed.
\<close>

definition entry_json :: "PasswordEntry \<Rightarrow> json" where
  "entry_json e = JObj
     [(''id'', JStr (e_id e)), (''password'', JStr (e_password e)), (''login'', JStr (e_login e)),
      (''tags'', JArr (map JStr (e_tags e))), (''sanitizedUrl'', JStr (e_sanitizedUrl e)),
      (''folderId'', JStr (e_folderId e)), (''versionVector'', vv_json (e_versionVector e))]"

definition tombstone_json :: "Tombstone \<Rightarrow> json" where
  "tombstone_json d = JObj
     [(''id'', JStr (del_id d)), (''versionVector'', vv_json (del_versionVector d)),
      (''deletedAt'', JNum (int (del_deletedAt d)))]"

definition tag_json :: "Tag \<Rightarrow> json" where
  "tag_json t = JObj
     [(''id'', JStr (t_id t)), (''name'', JStr (t_name t)), (''groupId'', JStr (t_groupId t)),
      (''color'', JStr (t_color t)), (''shade'', JNum (int (t_shade t))),
      (''createdAt'', JNum (int (t_createdAt t))), (''versionVector'', vv_json (t_versionVector t))]"

definition optional_member :: "string \<Rightarrow> string option \<Rightarrow> (string \<times> json) list" where
  "optional_member k v = (case v of None \<Rightarrow> [] | Some s \<Rightarrow> [(k, JStr s)])"

definition nullable_json :: "string option \<Rightarrow> json" where
  "nullable_json v = (case v of None \<Rightarrow> JNull | Some s \<Rightarrow> JStr s)"

definition folder_json :: "Folder \<Rightarrow> json" where
  "folder_json f = JObj
     ([(''id'', JStr (f_id f)), (''name'', JStr (f_name f)), (''icon'', JStr (f_icon f))] @
      optional_member ''description'' (f_description f) @
      [(''parentId'', nullable_json (f_parentId f)), (''createdAt'', JNum (int (f_createdAt f))),
       (''versionVector'', vv_json (f_versionVector f))])"

definition device_profile_json :: "DeviceProfile \<Rightarrow> json" where
  "device_profile_json d = JObj
     [(''id'', JStr (d_id d)), (''name'', JStr (d_name d)),
      (''createdAt'', JNum (int (d_createdAt d))), (''versionVector'', vv_json (d_versionVector d))]"

definition tag_group_json :: "TagGroup \<Rightarrow> json" where
  "tag_group_json g = JObj
     ([(''id'', JStr (g_id g)), (''name'', JStr (g_name g)), (''icon'', JStr (g_icon g)),
       (''baseColor'', JStr (g_baseColor g))] @
      optional_member ''description'' (g_description g))"

definition tag_groups_json :: "TagGroup list \<Rightarrow> json" where
  "tag_groups_json gs = JArr (map tag_group_json gs)"

text \<open>
  Equality of the encodings, field by field: two items are JSON-equal exactly if all their data
  agree and their version vectors are JSON-equal, that is equal up to the order of the devices.
\<close>

lemma entry_json_equal_iff:
  "areJsonEqual (entry_json a) (entry_json b) \<longleftrightarrow>
     e_id a = e_id b \<and> e_password a = e_password b \<and> e_login a = e_login b \<and> e_tags a = e_tags b \<and>
     e_sanitizedUrl a = e_sanitizedUrl b \<and> e_folderId a = e_folderId b \<and>
     areJsonEqual (vv_json (e_versionVector a)) (vv_json (e_versionVector b))"
  by (simp add: entry_json_def areJsonEqual_same_keys)

lemma tombstone_json_equal_iff:
  "areJsonEqual (tombstone_json a) (tombstone_json b) \<longleftrightarrow>
     del_id a = del_id b \<and> areJsonEqual (vv_json (del_versionVector a)) (vv_json (del_versionVector b)) \<and>
     del_deletedAt a = del_deletedAt b"
  by (simp add: tombstone_json_def areJsonEqual_same_keys)

lemma tag_json_equal_iff:
  "areJsonEqual (tag_json a) (tag_json b) \<longleftrightarrow>
     t_id a = t_id b \<and> t_name a = t_name b \<and> t_groupId a = t_groupId b \<and> t_color a = t_color b \<and>
     t_shade a = t_shade b \<and> t_createdAt a = t_createdAt b \<and>
     areJsonEqual (vv_json (t_versionVector a)) (vv_json (t_versionVector b))"
  by (simp add: tag_json_def areJsonEqual_same_keys)

lemma device_profile_json_equal_iff:
  "areJsonEqual (device_profile_json a) (device_profile_json b) \<longleftrightarrow>
     d_id a = d_id b \<and> d_name a = d_name b \<and> d_createdAt a = d_createdAt b \<and>
     areJsonEqual (vv_json (d_versionVector a)) (vv_json (d_versionVector b))"
  by (simp add: device_profile_json_def areJsonEqual_same_keys)

lemma nullable_json_equal_iff [simp]: "areJsonEqual (nullable_json a) (nullable_json b) \<longleftrightarrow> a = b"
  by (cases a; cases b) (simp_all add: nullable_json_def)

lemma folder_json_equal_iff:
  "areJsonEqual (folder_json a) (folder_json b) \<longleftrightarrow>
     f_id a = f_id b \<and> f_name a = f_name b \<and> f_icon a = f_icon b \<and>
     f_description a = f_description b \<and> f_parentId a = f_parentId b \<and>
     f_createdAt a = f_createdAt b \<and>
     areJsonEqual (vv_json (f_versionVector a)) (vv_json (f_versionVector b))"
proof (cases "(f_description a = None) = (f_description b = None)")
  case True
  then show ?thesis
    by (cases "f_description a"; cases "f_description b")
      (simp_all add: folder_json_def optional_member_def areJsonEqual_same_keys)
next
  case False
  then have "\<not> areJsonEqual (folder_json a) (folder_json b)"
    using areJsonEqual_object_lookup [of _ _ "''description''"]
    by (fastforce simp: folder_json_def optional_member_def split: option.splits)
  with False show ?thesis by auto
qed

lemmas item_json_equal_iffs = entry_json_equal_iff tombstone_json_equal_iff tag_json_equal_iff
  folder_json_equal_iff device_profile_json_equal_iff

end
