(* ===== verification/Vault_Items.thy ===== *)
theory Vault_Items
  imports Vault_Model
begin

text \<open>
  Collections of synchronised items. A vault keeps, for each kind of item, a list of active items
  and a list of deletion records. The abstraction of the two lists is a function from identities
  to states; the three list updates that the mutations perform are proved once to be point
  updates of that function.
\<close>

text \<open>The state of an identity: an active item, a deletion record, or nothing.\<close>

datatype 'a reviewable = Item 'a | Deleted Tombstone | Missing

definition without_deletion :: "string \<Rightarrow> Tombstone list \<Rightarrow> Tombstone list" where
  "without_deletion i deleted = filter (\<lambda>d. del_id d \<noteq> i) deleted"

definition find_deletion :: "string \<Rightarrow> Tombstone list \<Rightarrow> Tombstone option" where
  "find_deletion i deleted = find (\<lambda>d. del_id d = i) deleted"

definition item_state :: "('a \<Rightarrow> string) \<Rightarrow> 'a list \<Rightarrow> Tombstone list \<Rightarrow> string \<Rightarrow> 'a reviewable" where
  "item_state idf active deleted i =
     (case find (\<lambda>x. idf x = i) active of
        Some x \<Rightarrow> Item x
      | None \<Rightarrow> (case find_deletion i deleted of Some d \<Rightarrow> Deleted d | None \<Rightarrow> Missing))"

text \<open>Identities are unique, and no identity is both active and deleted.\<close>

definition items_ok :: "('a \<Rightarrow> string) \<Rightarrow> 'a list \<Rightarrow> Tombstone list \<Rightarrow> bool" where
  "items_ok idf active deleted \<longleftrightarrow>
     distinct (map idf active) \<and> distinct (map del_id deleted) \<and>
     idf ` set active \<inter> del_id ` set deleted = {}"

text \<open>The counters of a state; an identity without a state has seen no event.\<close>

definition state_counters :: "('a \<Rightarrow> VersionVector) \<Rightarrow> 'a reviewable \<Rightarrow> string \<Rightarrow> nat" where
  "state_counters vv s =
     (case s of Item x \<Rightarrow> vv_get (vv x) | Deleted d \<Rightarrow> vv_get (del_versionVector d) | Missing \<Rightarrow> (\<lambda>_. 0))"

lemma state_counters_simps [simp]:
  "state_counters vv (Item x) = vv_get (vv x)"
  "state_counters vv (Deleted d) = vv_get (del_versionVector d)"
  "state_counters vv Missing = (\<lambda>_. 0)"
  by (simp_all add: state_counters_def)

section \<open>Reading the abstraction\<close>

lemma item_state_Item_iff:
  assumes "distinct (map idf active)"
  shows "item_state idf active deleted i = Item x \<longleftrightarrow> x \<in> set active \<and> idf x = i"
  using find_id_Some_iff [OF assms, of i x]
  by (auto simp: item_state_def split: option.splits)

lemma item_state_id:
  "item_state idf active deleted i = Item x \<Longrightarrow> idf x = i"
  "item_state idf active deleted i = Deleted d \<Longrightarrow> del_id d = i"
  by (auto simp: item_state_def find_deletion_def dest!: find_Some_D split: option.splits)

lemma item_state_in:
  "item_state idf active deleted i = Item x \<Longrightarrow> x \<in> set active"
  "item_state idf active deleted i = Deleted d \<Longrightarrow> d \<in> set deleted"
  by (auto simp: item_state_def find_deletion_def dest!: find_Some_D split: option.splits)

lemma item_state_Deleted_iff:
  assumes "items_ok idf active deleted"
  shows "item_state idf active deleted i = Deleted d \<longleftrightarrow> d \<in> set deleted \<and> del_id d = i"
proof -
  have "d \<in> set deleted \<Longrightarrow> find (\<lambda>x. idf x = del_id d) active = None"
    using assms by (auto simp: items_ok_def find_None_iff)
  with assms find_id_Some_iff [of del_id deleted i d] show ?thesis
    by (auto simp: items_ok_def item_state_def find_deletion_def split: option.splits)
qed

lemma item_state_Missing_iff:
  "item_state idf active deleted i = Missing \<longleftrightarrow> i \<notin> idf ` set active \<and> i \<notin> del_id ` set deleted"
  by (auto simp: item_state_def find_deletion_def find_None_iff dest!: find_Some_D split: option.splits)

lemma find_deletion_None_iff: "find_deletion i deleted = None \<longleftrightarrow> i \<notin> del_id ` set deleted"
  by (auto simp: find_deletion_def find_None_iff)

lemma find_deletion_without:
  "find_deletion j (without_deletion i deleted) = (if j = i then None else find_deletion j deleted)"
  by (auto simp: find_deletion_def without_deletion_def intro: find_filter_other find_filter_none)

lemma set_without_deletion [simp]: "set (without_deletion i deleted) = {d \<in> set deleted. del_id d \<noteq> i}"
  by (simp add: without_deletion_def)

section \<open>The three updates of a collection\<close>

text \<open>Adding an item that is not active removes its deletion record.\<close>

lemma item_state_added:
  assumes "i \<notin> idf ` set active" "idf x = i"
  shows "item_state idf (active @ [x]) (without_deletion i deleted) = (item_state idf active deleted)(i := Item x)"
proof
  fix j
  show "item_state idf (active @ [x]) (without_deletion i deleted) j =
      ((item_state idf active deleted)(i := Item x)) j"
    using assms find_id_None_iff [of idf i active]
    by (auto simp: item_state_def find_append find_deletion_without split: option.splits)
qed

lemma items_ok_added:
  assumes "items_ok idf active deleted" "i \<notin> idf ` set active" "idf x = i"
  shows "items_ok idf (active @ [x]) (without_deletion i deleted)"
  using assms by (auto simp: items_ok_def without_deletion_def distinct_map_filter)

text \<open>Replacing the item at the position where the search found it.\<close>

lemma item_state_updated:
  assumes "find_index (\<lambda>x. idf x = i) active = Some n" "idf y = i"
  shows "item_state idf (active[n := y]) deleted = (item_state idf active deleted)(i := Item y)"
proof
  fix j
  from assms(1) have n: "n < length active" "idf (active ! n) = i" "\<And>m. m < n \<Longrightarrow> idf (active ! m) \<noteq> i"
    by (auto dest: find_index_Some)
  show "item_state idf (active[n := y]) deleted j = ((item_state idf active deleted)(i := Item y)) j"
  proof (cases "j = i")
    case True
    have "find (\<lambda>x. idf x = i) (active[n := y]) = Some y"
      unfolding find_Some_iff using n assms(2) by (intro exI [of _ n]) auto
    with True show ?thesis by (simp add: item_state_def)
  next
    case False
    with n assms(2) have "find (\<lambda>x. idf x = j) (active[n := y]) = find (\<lambda>x. idf x = j) active"
      by (intro find_update_other) auto
    with False show ?thesis by (simp add: item_state_def)
  qed
qed

lemma items_ok_updated:
  assumes "items_ok idf active deleted" "find_index (\<lambda>x. idf x = i) active = Some n" "idf y = i"
  shows "items_ok idf (active[n := y]) deleted"
proof -
  have "idf (active ! n) = i" using find_index_Some [OF assms(2)] by simp
  then have "map idf (active[n := y]) = map idf active"
    using assms(3) by (intro map_list_update_same) simp
  with assms(1) show ?thesis by (simp add: items_ok_def flip: set_map)
qed

text \<open>Removing an active item leaves a deletion record in place of any older one.\<close>

lemma item_state_removed:
  assumes "del_id d = i"
  shows "item_state idf (filter (\<lambda>x. idf x \<noteq> i) active) (without_deletion i deleted @ [d]) =
     (item_state idf active deleted)(i := Deleted d)"
proof
  fix j
  have old: "find_deletion j (without_deletion i deleted @ [d]) =
      (if j = i then Some d else find_deletion j deleted)"
    using assms find_deletion_without [of j i deleted]
    by (auto simp: find_deletion_def find_append split: option.splits)
  show "item_state idf (filter (\<lambda>x. idf x \<noteq> i) active) (without_deletion i deleted @ [d]) j =
      ((item_state idf active deleted)(i := Deleted d)) j"
  proof (cases "j = i")
    case True
    then have "find (\<lambda>x. idf x = j) (filter (\<lambda>x. idf x \<noteq> i) active) = None"
      by (intro find_filter_none) auto
    then show ?thesis unfolding item_state_def old using True by simp
  next
    case False
    then have "find (\<lambda>x. idf x = j) (filter (\<lambda>x. idf x \<noteq> i) active) = find (\<lambda>x. idf x = j) active"
      by (intro find_filter_other) auto
    then show ?thesis unfolding item_state_def old using False by simp
  qed
qed

lemma items_ok_removed:
  assumes "items_ok idf active deleted" "del_id d = i"
  shows "items_ok idf (filter (\<lambda>x. idf x \<noteq> i) active) (without_deletion i deleted @ [d])"
  using assms by (auto simp: items_ok_def without_deletion_def distinct_map_filter)

lemmas item_state_updates = item_state_added item_state_updated item_state_removed
lemmas items_ok_updates = items_ok_added items_ok_updated items_ok_removed

section \<open>Version vectors of a collection\<close>

text \<open>
  The vector of an item that is added: the new vault event of this device alone, or one event
  after the deletion record of the same identity.
\<close>

definition added_vector :: "VersionVector \<Rightarrow> string \<Rightarrow> Tombstone option \<Rightarrow> VersionVector" where
  "added_vector versionVector deviceId deletedItem =
     (case deletedItem of
        None \<Rightarrow> [(deviceId, vv_get versionVector deviceId)]
      | Some d \<Rightarrow> incrementVersionVector (del_versionVector d) deviceId)"

text \<open>A well-formed collection whose vectors lie below the vector of the vault.\<close>

definition collection_ok ::
    "('a \<Rightarrow> VersionVector) \<Rightarrow> ('a \<Rightarrow> string) \<Rightarrow> VersionVector \<Rightarrow> 'a list \<Rightarrow> Tombstone list \<Rightarrow> bool" where
  "collection_ok vvf idf vaultVector active deleted \<longleftrightarrow>
     items_ok idf active deleted \<and>
     (\<forall>i. state_counters vvf (item_state idf active deleted i) \<le> vv_get vaultVector)"

text \<open>Every state that changes moves forward.\<close>

definition advanced ::
    "('a \<Rightarrow> VersionVector) \<Rightarrow> (string \<Rightarrow> 'a reviewable) \<Rightarrow> (string \<Rightarrow> 'a reviewable) \<Rightarrow> bool" where
  "advanced vvf s s' \<longleftrightarrow> (\<forall>i. s' i = s i \<or> state_counters vvf (s i) < state_counters vvf (s' i))"

lemma advanced_refl [simp]: "advanced vvf s s"
  by (simp add: advanced_def)

lemma advanced_point:
  "state_counters vvf (s i) < state_counters vvf t \<Longrightarrow> advanced vvf s (s(i := t))"
  by (auto simp: advanced_def)

lemma increment_mono: "vv_get a \<le> vv_get b \<Longrightarrow> vv_get (incrementVersionVector a d) \<le> vv_get (incrementVersionVector b d)"
  by (auto simp: le_fun_def js_succ_mono)

lemma collection_ok_increment:
  "collection_ok vvf idf v active deleted \<Longrightarrow> collection_ok vvf idf (incrementVersionVector v d) active deleted"
  unfolding collection_ok_def using increment_ge order_trans by blast

lemma collection_ok_point:
  assumes "collection_ok vvf idf v active deleted"
    and "item_state idf active' deleted' = (item_state idf active deleted)(i := t)"
    and "items_ok idf active' deleted'"
    and "state_counters vvf t \<le> vv_get (incrementVersionVector v d)"
  shows "collection_ok vvf idf (incrementVersionVector v d) active' deleted'"
  using collection_ok_increment [OF assms(1), of d] assms(2-4) by (auto simp: collection_ok_def)

lemma state_counters_below_limit:
  "collection_ok vvf idf v active deleted \<Longrightarrow> vv_get v d < js_limit \<Longrightarrow>
     state_counters vvf (item_state idf active deleted i) d < js_limit"
  by (meson collection_ok_def le_funD le_less_trans)

lemma item_state_inactive:
  "i \<notin> idf ` set active \<Longrightarrow>
     item_state idf active deleted i = (case find_deletion i deleted of Some d \<Rightarrow> Deleted d | None \<Rightarrow> Missing)"
  using find_id_None_iff [of idf i active] by (simp add: item_state_def)

lemma item_state_found:
  "find (\<lambda>x. idf x = i) active = Some x \<Longrightarrow> item_state idf active deleted i = Item x"
  "find_index (\<lambda>x. idf x = i) active = Some n \<Longrightarrow> item_state idf active deleted i = Item (active ! n)"
  by (simp_all add: item_state_def find_index_find)

lemma added_vector_le:
  assumes "collection_ok vvf idf v active deleted" "i \<notin> idf ` set active"
  shows "vv_get (added_vector (incrementVersionVector v d) d (find_deletion i deleted)) \<le>
    vv_get (incrementVersionVector v d)"
proof (cases "find_deletion i deleted")
  case None
  then show ?thesis by (simp add: added_vector_def le_fun_def)
next
  case (Some del)
  with assms have "vv_get (del_versionVector del) \<le> vv_get v"
    by (metis collection_ok_def item_state_inactive option.simps(5) state_counters_simps(2))
  with Some show ?thesis by (simp add: added_vector_def increment_mono del: vv_get_increment)
qed

lemma js_succ_pos: "0 < js_succ n"
  by (auto simp: js_succ_def js_limit_def)

lemma added_vector_strict:
  assumes "collection_ok vvf idf v active deleted" "i \<notin> idf ` set active" "vv_get v d < js_limit"
  shows "state_counters vvf (item_state idf active deleted i) <
    vv_get (added_vector (incrementVersionVector v d) d (find_deletion i deleted))"
proof (cases "find_deletion i deleted")
  case None
  have "(\<lambda>_. 0) \<le> ((\<lambda>_. 0 :: nat)(d := js_succ (vv_get v d)))"
    by (simp add: le_fun_def)
  moreover have "(\<lambda>_. 0) \<noteq> ((\<lambda>_. 0 :: nat)(d := js_succ (vv_get v d)))"
    by (metis fun_upd_same js_succ_pos less_irrefl)
  ultimately show ?thesis
    using None assms(2) by (simp add: item_state_inactive added_vector_def less_le)
next
  case (Some del)
  with assms(2) have del: "item_state idf active deleted i = Deleted del"
    by (simp add: item_state_inactive)
  then have "vv_get (del_versionVector del) d < js_limit"
    using state_counters_below_limit [OF assms(1,3), of i] by simp
  with Some del show ?thesis by (simp add: added_vector_def increment_strict del: vv_get_increment)
qed

text \<open>The three updates keep a collection well formed and move the changed item forward.\<close>

lemma collection_ok_added:
  assumes "collection_ok vvf idf v active deleted" "i \<notin> idf ` set active" "idf x = i"
    "vvf x = added_vector (incrementVersionVector v d) d (find_deletion i deleted)"
  shows "collection_ok vvf idf (incrementVersionVector v d) (active @ [x]) (without_deletion i deleted)"
  using assms added_vector_le [OF assms(1,2), of d]
  by (intro collection_ok_point [OF assms(1) item_state_added [OF assms(2,3)]] items_ok_added)
    (simp_all add: collection_ok_def)

lemma advanced_added:
  assumes "collection_ok vvf idf v active deleted" "i \<notin> idf ` set active" "idf x = i"
    "vvf x = added_vector (incrementVersionVector v d) d (find_deletion i deleted)" "vv_get v d < js_limit"
  shows "advanced vvf (item_state idf active deleted) (item_state idf (active @ [x]) (without_deletion i deleted))"
  using added_vector_strict [OF assms(1,2,5)] assms(4)
  by (simp add: item_state_added [OF assms(2,3)] advanced_point)

lemma collection_ok_updated:
  assumes "collection_ok vvf idf v active deleted" "find_index (\<lambda>x. idf x = i) active = Some n" "idf y = i"
    "vvf y = incrementVersionVector (vvf (active ! n)) d"
  shows "collection_ok vvf idf (incrementVersionVector v d) (active[n := y]) deleted"
proof (rule collection_ok_point [OF assms(1) item_state_updated [OF assms(2,3)]])
  show "items_ok idf (active[n := y]) deleted"
    using assms by (intro items_ok_updated) (simp_all add: collection_ok_def)
  have "vv_get (vvf (active ! n)) \<le> vv_get v"
    using assms(1) item_state_found(2) [OF assms(2), of deleted]
    by (metis collection_ok_def state_counters_simps(1))
  then show "state_counters vvf (Item y) \<le> vv_get (incrementVersionVector v d)"
    using assms(4) by (simp add: increment_mono del: vv_get_increment)
qed

lemma advanced_updated:
  assumes "collection_ok vvf idf v active deleted" "find_index (\<lambda>x. idf x = i) active = Some n" "idf y = i"
    "vvf y = incrementVersionVector (vvf (active ! n)) d" "vv_get v d < js_limit"
  shows "advanced vvf (item_state idf active deleted) (item_state idf (active[n := y]) deleted)"
  using state_counters_below_limit [OF assms(1,5), of i] assms(4)
  by (simp add: item_state_updated [OF assms(2,3)] item_state_found(2) [OF assms(2)] advanced_point
      increment_strict del: vv_get_increment)

lemma collection_ok_removed:
  assumes "collection_ok vvf idf v active deleted" "find (\<lambda>x. idf x = i) active = Some x" "del_id t = i"
    "del_versionVector t = incrementVersionVector (vvf x) d"
  shows "collection_ok vvf idf (incrementVersionVector v d)
    (filter (\<lambda>x. idf x \<noteq> i) active) (without_deletion i deleted @ [t])"
proof (rule collection_ok_point [OF assms(1) item_state_removed [OF assms(3)]])
  show "items_ok idf (filter (\<lambda>x. idf x \<noteq> i) active) (without_deletion i deleted @ [t])"
    using assms by (intro items_ok_removed) (simp_all add: collection_ok_def)
  have "vv_get (vvf x) \<le> vv_get v"
    using assms(1) item_state_found(1) [where idf = idf and deleted = deleted, OF assms(2)]
    by (metis collection_ok_def state_counters_simps(1))
  then show "state_counters vvf (Deleted t) \<le> vv_get (incrementVersionVector v d)"
    using assms(4) by (simp add: increment_mono del: vv_get_increment)
qed

lemma advanced_removed:
  assumes "collection_ok vvf idf v active deleted" "find (\<lambda>x. idf x = i) active = Some x" "del_id t = i"
    "del_versionVector t = incrementVersionVector (vvf x) d" "vv_get v d < js_limit"
  shows "advanced vvf (item_state idf active deleted)
    (item_state idf (filter (\<lambda>x. idf x \<noteq> i) active) (without_deletion i deleted @ [t]))"
  using state_counters_below_limit [OF assms(1,5), of i] assms(4)
  by (simp add: item_state_removed [OF assms(3)] item_state_found(1) [where idf = idf, OF assms(2)]
      advanced_point increment_strict del: vv_get_increment)

text \<open>The updated item keeps the identity of its position, which is the identity searched for.\<close>

lemma updated_in_place:
  assumes "collection_ok vvf idf v active deleted" "find_index (\<lambda>x. idf x = i) active = Some n"
    "idf y = i \<or> idf y = idf (active ! n)" "vvf y = incrementVersionVector (vvf (active ! n)) d"
  shows collection_ok_in_place: "collection_ok vvf idf (incrementVersionVector v d) (active[n := y]) deleted"
    and advanced_in_place: "vv_get v d < js_limit \<Longrightarrow>
      advanced vvf (item_state idf active deleted) (item_state idf (active[n := y]) deleted)"
proof -
  have "idf y = i" using assms(3) find_index_Some [OF assms(2)] by auto
  with assms show "collection_ok vvf idf (incrementVersionVector v d) (active[n := y]) deleted"
    "vv_get v d < js_limit \<Longrightarrow>
      advanced vvf (item_state idf active deleted) (item_state idf (active[n := y]) deleted)"
    by (auto intro: collection_ok_updated advanced_updated)
qed

lemma without_deletion_absent: "i \<notin> del_id ` set ds \<Longrightarrow> without_deletion i ds = ds"
  by (auto simp: without_deletion_def filter_id_conv)

lemma added_fresh:
  assumes "collection_ok vvf idf v active deleted" "i \<notin> idf ` set active" "i \<notin> del_id ` set deleted"
    "idf x = i" "vvf x = added_vector (incrementVersionVector v d) d None"
  shows collection_ok_added_fresh: "collection_ok vvf idf (incrementVersionVector v d) (active @ [x]) deleted"
    and advanced_added_fresh: "vv_get v d < js_limit \<Longrightarrow>
      advanced vvf (item_state idf active deleted) (item_state idf (active @ [x]) deleted)"
proof -
  have none: "find_deletion i deleted = None" using assms(3) by (simp add: find_deletion_None_iff)
  show "collection_ok vvf idf (incrementVersionVector v d) (active @ [x]) deleted"
    using collection_ok_added [OF assms(1,2,4), of d] assms(5) none without_deletion_absent [OF assms(3)]
    by simp
  show "advanced vvf (item_state idf active deleted) (item_state idf (active @ [x]) deleted)"
    if "vv_get v d < js_limit"
    using advanced_added [OF assms(1,2,4) _ that] assms(5) none without_deletion_absent [OF assms(3)]
    by simp
qed

text \<open>Removing every item but one at once.\<close>

lemma item_state_all_removed:
  assumes "items_ok idf active deleted" "find (\<lambda>x. idf x = c) active = Some x"
    and "\<And>y. del_id (t y) = idf y"
  shows "item_state idf [x]
      (filter (\<lambda>d. del_id d \<notin> idf ` set (filter (\<lambda>y. idf y \<noteq> c) active)) deleted @
       map t (filter (\<lambda>y. idf y \<noteq> c) active)) =
    (\<lambda>i. case item_state idf active deleted i of
           Item y \<Rightarrow> if i = c then Item y else Deleted (t y) | s \<Rightarrow> s)"
  (is "item_state idf [x] ?D = _")
proof
  fix i
  from assms have dist: "distinct (map idf active)" and x: "x \<in> set active" "idf x = c"
    by (auto simp: items_ok_def dest!: find_Some_D)
  have find_removed: "find (\<lambda>d. del_id d = i) (map t (filter (\<lambda>y. idf y \<noteq> c) active)) =
      map_option t (find (\<lambda>y. idf y = i) (filter (\<lambda>y. idf y \<noteq> c) active))" if "i \<noteq> c" for i
    by (induction active) (simp_all add: assms(3))
  show "item_state idf [x] ?D i = (case item_state idf active deleted i of
           Item y \<Rightarrow> if i = c then Item y else Deleted (t y) | s \<Rightarrow> s)"
  proof (cases "i = c")
    case True
    with x assms(2) show ?thesis by (simp add: item_state_def)
  next
    case other: False
    show ?thesis
    proof (cases "find (\<lambda>y. idf y = i) active")
      case None
      then have "i \<notin> idf ` set active" by (simp add: find_id_None_iff)
      then have "find (\<lambda>d. del_id d = i) (filter (\<lambda>d. del_id d \<notin> idf ` set (filter (\<lambda>y. idf y \<noteq> c) active)) deleted) =
          find (\<lambda>d. del_id d = i) deleted"
        by (intro find_filter_other) auto
      moreover have "find (\<lambda>y. idf y = i) (filter (\<lambda>y. idf y \<noteq> c) active) = None"
        using None by (auto simp: find_None_iff)
      ultimately show ?thesis
        using other x None find_removed [OF other]
        by (simp add: item_state_def find_deletion_def find_append split: option.splits)
    next
      case (Some y)
      then have y: "y \<in> set active" "idf y = i" by (auto dest: find_Some_D)
      have "find (\<lambda>d. del_id d = i) (filter (\<lambda>d. del_id d \<notin> idf ` set (filter (\<lambda>y. idf y \<noteq> c) active)) deleted) = None"
        using y other by (intro find_filter_none) auto
      moreover have "find (\<lambda>y. idf y = i) (filter (\<lambda>y. idf y \<noteq> c) active) = Some y"
        using Some other by (subst find_filter_other) auto
      ultimately show ?thesis
        using other x Some find_removed [OF other]
        by (simp add: item_state_def find_deletion_def find_append)
    qed
  qed
qed

lemma items_ok_all_removed:
  assumes "items_ok idf active deleted" "find (\<lambda>x. idf x = c) active = Some x"
    and "\<And>y. del_id (t y) = idf y"
  shows "items_ok idf [x]
      (filter (\<lambda>d. del_id d \<notin> idf ` set (filter (\<lambda>y. idf y \<noteq> c) active)) deleted @
       map t (filter (\<lambda>y. idf y \<noteq> c) active))"
proof -
  have "map del_id (map t ys) = map idf ys" for ys by (simp add: assms(3))
  with assms show ?thesis
    by (auto simp: items_ok_def distinct_map_filter distinct_map [of del_id] dest!: find_Some_D
        simp del: map_map) (auto simp: comp_def assms(3) distinct_map intro: inj_onI dest: inj_onD)
qed

end
