(* ===== verification/Vault_Organization.thy ===== *)
theory Vault_Organization
  imports Vault_Model
begin

text \<open>
  The policies that keep the organisation of a vault consistent
  (\<open>packages/core/src/domain/vault/*.policy.ts\<close>): unique tag and folder names, references to
  existing tags and folders, a folder forest without cycles, and the check of a whole vault. The
  check of the whole vault is proved equivalent to a declarative invariant.
\<close>

section \<open>Names and identities\<close>

text \<open>\<open>name.trim().normalize("NFKC").toLowerCase()\<close>; \<open>nfkc\<close> is the runtime's Unicode table.\<close>

definition normalizedName :: "(string \<Rightarrow> string) \<Rightarrow> string \<Rightarrow> string" where
  "normalizedName nfkc name = js_lower (nfkc (js_trim name))"

definition tagIdSchema :: "string \<Rightarrow> bool" where
  "tagIdSchema value \<longleftrightarrow> 1 \<le> length value \<and> length value \<le> 128 \<and> value = js_trim value"

definition folderIdSchema :: "string \<Rightarrow> bool" where
  "folderIdSchema value \<longleftrightarrow> 1 \<le> length value \<and> length value \<le> 128 \<and> value = js_trim value"

definition folderSchemaId :: "string \<Rightarrow> bool" where
  "folderSchemaId value \<longleftrightarrow> folderIdSchema value \<and> value \<noteq> UNCATEGORIZED_FOLDER_ID"

definition requireUniqueVaultTagName ::
    "(string \<Rightarrow> string) \<Rightarrow> Vault \<Rightarrow> string \<Rightarrow> string option \<Rightarrow> core_error + unit" where
  "requireUniqueVaultTagName nfkc vault name ignoredTagId =
     (let normalized = normalizedName nfkc name in
      if list_ex (\<lambda>tag. Some (t_id tag) \<noteq> ignoredTagId \<and> normalizedName nfkc (t_name tag) = normalized)
           (v_tags vault)
      then Inl DuplicateVaultTagNameError else Inr ())"

section \<open>Tag references\<close>

definition requireVaultTagsExist :: "Vault \<Rightarrow> string list \<Rightarrow> core_error + unit" where
  "requireVaultTagsExist vault tagIds =
     (let activeTagIds = js_set (map t_id (v_tags vault)) in
      case find (\<lambda>tagId. tagId \<notin> set activeTagIds) tagIds of
        Some missingTagId \<Rightarrow> Inl (VaultTagNotFoundError missingTagId)
      | None \<Rightarrow> Inr ())"

definition requireValidVaultTagReferences :: "Vault \<Rightarrow> core_error + unit" where
  "requireValidVaultTagReferences vault =
     (let activeTagIds = js_set (map t_id (v_tags vault)) in
      rfold (\<lambda>entry _.
          case find (\<lambda>tagId. tagId \<notin> set activeTagIds) (e_tags entry) of
            Some missingTagId \<Rightarrow> Inl (InvalidVaultTagReferenceError (e_id entry) missingTagId)
          | None \<Rightarrow> Inr ())
        (v_entries vault) ())"

section \<open>Folder references and the folder forest\<close>

definition requireFolderParent :: "Vault \<Rightarrow> string option \<Rightarrow> core_error + unit" where
  "requireFolderParent vault parentId =
     (case parentId of
        None \<Rightarrow> Inr ()
      | Some p \<Rightarrow>
          if p = UNCATEGORIZED_FOLDER_ID \<or> \<not> list_ex (\<lambda>folder. f_id folder = p) (v_folders vault)
          then Inl (VaultFolderNotFoundError p) else Inr ())"

definition requireUniqueSiblingFolderName ::
    "(string \<Rightarrow> string) \<Rightarrow> Vault \<Rightarrow> string \<Rightarrow> string option \<Rightarrow> string option \<Rightarrow> core_error + unit" where
  "requireUniqueSiblingFolderName nfkc vault name parentId ignoredFolderId =
     (let target = normalizedName nfkc name in
      if list_ex (\<lambda>folder. Some (f_id folder) \<noteq> ignoredFolderId \<and> f_parentId folder = parentId \<and>
           normalizedName nfkc (f_name folder) = target) (v_folders vault)
      then Inl DuplicateVaultFolderNameError else Inr ())"

text \<open>\<open>new Map(folders.map((folder) => [folder.id, folder]))\<close> and \<open>byId.get(id)?.parentId ?? null\<close>.\<close>

definition folders_by_id :: "Folder list \<Rightarrow> (string \<times> Folder) list" where
  "folders_by_id folders = js_map (map (\<lambda>folder. (f_id folder, folder)) folders)"

definition parent_in :: "(string \<times> Folder) list \<Rightarrow> string \<Rightarrow> string option" where
  "parent_in byId i = (case map_of byId i of None \<Rightarrow> None | Some folder \<Rightarrow> f_parentId folder)"

text \<open>
  The two \<open>while\<close> loops climb from a folder to its root and stop at a repetition. Every turn but
  the last adds a new folder of the map to \<open>visited\<close>, so the loops end.
\<close>

definition climb_measure :: "(string \<times> Folder) list \<Rightarrow> string list \<Rightarrow> string option \<Rightarrow> nat" where
  "climb_measure byId visited current =
     (case current of None \<Rightarrow> 0 | Some _ \<Rightarrow> Suc (card (set (map fst byId) - set visited)))"

lemma climb_decreases:
  assumes "c \<notin> set visited"
  shows "climb_measure byId (c # visited) (parent_in byId c) < climb_measure byId visited (Some c)"
proof (cases "parent_in byId c")
  case None
  then show ?thesis by (simp add: climb_measure_def)
next
  case (Some p)
  then have "c \<in> set (map fst byId)"
    by (auto simp: parent_in_def split: option.splits dest!: map_of_SomeD intro: rev_image_eqI)
  with assms have "set (map fst byId) - set (c # visited) \<subset> set (map fst byId) - set visited"
    by auto
  then have "card (set (map fst byId) - set (c # visited)) < card (set (map fst byId) - set visited)"
    by (intro psubset_card_mono) auto
  with Some show ?thesis by (simp add: climb_measure_def)
qed

function move_climb ::
    "(string \<times> Folder) list \<Rightarrow> string \<Rightarrow> string list \<Rightarrow> string option \<Rightarrow> core_error + unit" where
  "move_climb byId folderId visited currentId =
     (case currentId of
        None \<Rightarrow> Inr ()
      | Some c \<Rightarrow>
          if c = folderId \<or> c \<in> set visited then Inl VaultFolderCycleError
          else move_climb byId folderId (c # visited) (parent_in byId c))"
  by pat_completeness auto
termination
  by (relation "measure (\<lambda>(byId, folderId, visited, current). climb_measure byId visited current)")
    (auto intro: climb_decreases)

declare move_climb.simps [simp del]

definition requireFolderMoveDoesNotCreateCycle ::
    "Vault \<Rightarrow> string \<Rightarrow> string option \<Rightarrow> core_error + unit" where
  "requireFolderMoveDoesNotCreateCycle vault folderId parentId =
     (if parentId = None then Inr ()
      else if Some folderId = parentId then Inl VaultFolderCycleError
      else move_climb (folders_by_id (v_folders vault)) folderId [] parentId)"

function acyclic_climb ::
    "(string \<times> Folder) list \<Rightarrow> string list \<Rightarrow> string option \<Rightarrow> core_error + unit" where
  "acyclic_climb byId visited currentId =
     (case currentId of
        None \<Rightarrow> Inr ()
      | Some c \<Rightarrow>
          if c \<in> set visited then Inl (InvalidVaultOrganizationReferenceError Parent_cycle)
          else acyclic_climb byId (c # visited) (parent_in byId c))"
  by pat_completeness auto
termination
  by (relation "measure (\<lambda>(byId, visited, current). climb_measure byId visited current)")
    (auto intro: climb_decreases)

declare acyclic_climb.simps [simp del]

definition requireAcyclicFolder :: "Vault \<Rightarrow> string \<Rightarrow> core_error + unit" where
  "requireAcyclicFolder vault folderId =
     acyclic_climb (folders_by_id (v_folders vault)) [] (Some folderId)"

definition requireVaultFolderExists :: "Vault \<Rightarrow> string \<Rightarrow> core_error + unit" where
  "requireVaultFolderExists vault folderId =
     (if folderId \<noteq> UNCATEGORIZED_FOLDER_ID \<and> \<not> list_ex (\<lambda>folder. f_id folder = folderId) (v_folders vault)
      then Inl (VaultFolderNotFoundError folderId) else Inr ())"

definition requireVaultTagGroupExists :: "Vault \<Rightarrow> string \<Rightarrow> core_error + unit" where
  "requireVaultTagGroupExists vault groupId =
     (if \<not> list_ex (\<lambda>group. g_id group = groupId) (v_tagGroups vault)
      then Inl (VaultTagGroupNotFoundError groupId) else Inr ())"

section \<open>The whole vault\<close>

text \<open>\<open>requireValidVaultOrganization\<close>, loop by loop.\<close>

definition require_tag_groups :: "(string \<Rightarrow> string) \<Rightarrow> TagGroup list \<Rightarrow> core_error + (string list \<times> string list)" where
  "require_tag_groups nfkc groups =
     rfold (\<lambda>group (tagGroupIds, tagGroupNames).
         let normalized = normalizedName nfkc (g_name group) in
         if g_id group \<in> set tagGroupIds \<or> normalized \<in> set tagGroupNames
         then Inl (InvalidVaultOrganizationReferenceError Tag_groups_not_unique)
         else Inr (g_id group # tagGroupIds, normalized # tagGroupNames))
       groups ([], [])"

definition require_tags_unique ::
    "(string \<Rightarrow> string) \<Rightarrow> string list \<Rightarrow> Tag list \<Rightarrow> core_error + (string list \<times> string list)" where
  "require_tags_unique nfkc deletedTagIds tags =
     rfold (\<lambda>tag (tagIds, tagNames).
         let normalized = normalizedName nfkc (t_name tag) in
         if t_id tag \<in> set tagIds \<or> t_id tag \<in> set deletedTagIds \<or> normalized \<in> set tagNames
         then Inl (InvalidVaultOrganizationReferenceError Tags_not_unique)
         else Inr (t_id tag # tagIds, normalized # tagNames))
       tags ([], [])"

definition sibling_names :: "(string option \<times> string list) list \<Rightarrow> string option \<Rightarrow> string list" where
  "sibling_names siblingNames p = (case map_of siblingNames p of None \<Rightarrow> [] | Some names \<Rightarrow> names)"

definition check_folder ::
    "(string \<Rightarrow> string) \<Rightarrow> Vault \<Rightarrow> string list \<Rightarrow> Folder \<Rightarrow>
     (string option \<times> string list) list \<Rightarrow> core_error + (string option \<times> string list) list" where
  "check_folder nfkc vault folderIds folder siblingNames =
     rbind (case f_parentId folder of
              None \<Rightarrow> Inr ()
            | Some p \<Rightarrow> require (p \<in> set folderIds)
                (InvalidVaultOrganizationReferenceError (Missing_parent (f_id folder) p)))
       (\<lambda>_. let names = sibling_names siblingNames (f_parentId folder);
                name = normalizedName nfkc (f_name folder) in
            if name \<in> set names then Inl (InvalidVaultOrganizationReferenceError Sibling_names_not_unique)
            else rbind (requireAcyclicFolder vault (f_id folder))
              (\<lambda>_. Inr (AList.update (f_parentId folder) (name # names) siblingNames)))"

definition requireValidVaultOrganization :: "(string \<Rightarrow> string) \<Rightarrow> Vault \<Rightarrow> core_error + unit" where
  "requireValidVaultOrganization nfkc vault =
     rbind (require (\<not> list_ex (\<lambda>i. \<not> tagIdSchema i) (map t_id (v_tags vault) @ map del_id (v_deletedTags vault)) \<and>
                     \<not> list_ex (\<lambda>i. \<not> folderSchemaId i)
                         (map f_id (v_folders vault) @ map del_id (v_deletedFolders vault)))
              (InvalidVaultOrganizationReferenceError Invalid_or_reserved_identity)) (\<lambda>_.
     rbind (require_tag_groups nfkc (v_tagGroups vault)) (\<lambda>(tagGroupIds, _).
     rbind (rfold (\<lambda>tag _. require (t_groupId tag \<in> set tagGroupIds)
              (InvalidVaultOrganizationReferenceError (Missing_tag_group (t_id tag) (t_groupId tag))))
              (v_tags vault) ()) (\<lambda>_.
     let deletedTagIds = js_set (map del_id (v_deletedTags vault)) in
     rbind (require (length deletedTagIds = length (v_deletedTags vault))
              (InvalidVaultOrganizationReferenceError Deleted_tags_not_unique)) (\<lambda>_.
     rbind (require_tags_unique nfkc deletedTagIds (v_tags vault)) (\<lambda>_.
     let folderIds = js_set (map f_id (v_folders vault));
         deletedFolderIds = js_set (map del_id (v_deletedFolders vault)) in
     rbind (require (\<not> (length folderIds \<noteq> length (v_folders vault) \<or>
                       length deletedFolderIds \<noteq> length (v_deletedFolders vault) \<or>
                       list_ex (\<lambda>i. i \<in> set deletedFolderIds) folderIds))
              (InvalidVaultOrganizationReferenceError Folders_not_unique)) (\<lambda>_.
     rbind (rfold (check_folder nfkc vault folderIds) (v_folders vault) []) (\<lambda>_.
     rfold (\<lambda>entry _. require (e_folderId entry = UNCATEGORIZED_FOLDER_ID \<or> e_folderId entry \<in> set folderIds)
         (InvalidVaultOrganizationReferenceError (Missing_folder (e_id entry) (e_folderId entry))))
       (v_entries vault) ())))))))"

section \<open>The declarative invariant\<close>

text \<open>The edges of the folder forest, from a folder to its parent.\<close>

definition parent_rel :: "Folder list \<Rightarrow> (string \<times> string) set" where
  "parent_rel folders = {(f_id f, p) | f p. f \<in> set folders \<and> f_parentId f = Some p}"

definition tags_ok :: "(string \<Rightarrow> string) \<Rightarrow> Vault \<Rightarrow> bool" where
  "tags_ok nfkc v \<longleftrightarrow>
     (\<forall>i \<in> t_id ` set (v_tags v) \<union> del_id ` set (v_deletedTags v). tagIdSchema i) \<and>
     distinct (map t_id (v_tags v)) \<and> distinct (map del_id (v_deletedTags v)) \<and>
     t_id ` set (v_tags v) \<inter> del_id ` set (v_deletedTags v) = {} \<and>
     distinct (map (normalizedName nfkc \<circ> t_name) (v_tags v)) \<and>
     distinct (map g_id (v_tagGroups v)) \<and>
     distinct (map (normalizedName nfkc \<circ> g_name) (v_tagGroups v)) \<and>
     (\<forall>tag \<in> set (v_tags v). t_groupId tag \<in> g_id ` set (v_tagGroups v))"

definition folders_ok :: "(string \<Rightarrow> string) \<Rightarrow> Vault \<Rightarrow> bool" where
  "folders_ok nfkc v \<longleftrightarrow>
     (\<forall>i \<in> f_id ` set (v_folders v) \<union> del_id ` set (v_deletedFolders v). folderSchemaId i) \<and>
     distinct (map f_id (v_folders v)) \<and> distinct (map del_id (v_deletedFolders v)) \<and>
     f_id ` set (v_folders v) \<inter> del_id ` set (v_deletedFolders v) = {} \<and>
     distinct (map (\<lambda>f. (f_parentId f, normalizedName nfkc (f_name f))) (v_folders v)) \<and>
     (\<forall>(c, p) \<in> parent_rel (v_folders v). p \<in> f_id ` set (v_folders v)) \<and>
     acyclic (parent_rel (v_folders v)) \<and>
     (\<forall>e \<in> set (v_entries v). e_folderId e \<in> insert UNCATEGORIZED_FOLDER_ID (f_id ` set (v_folders v)))"

section \<open>The climbing loops\<close>

abbreviation parent_edges :: "(string \<times> Folder) list \<Rightarrow> (string \<times> string) set" where
  "parent_edges byId \<equiv> {(c, p). parent_in byId c = Some p}"

text \<open>A function graph: the way up from \<open>c\<close> is \<open>c\<close> itself or the way up from its parent.\<close>

lemma parent_edges_from:
  "parent_in byId c = None \<Longrightarrow> (c, x) \<in> (parent_edges byId)\<^sup>* \<longleftrightarrow> x = c"
  "parent_in byId c = None \<Longrightarrow> (c, x) \<notin> (parent_edges byId)\<^sup>+"
  "parent_in byId c = Some p \<Longrightarrow> (c, x) \<in> (parent_edges byId)\<^sup>+ \<longleftrightarrow> (p, x) \<in> (parent_edges byId)\<^sup>*"
  by (auto elim: converse_rtranclE converse_tranclE simp: trancl_unfold_left)

lemma acyclic_climb_iff:
  "acyclic_climb byId visited (Some c) = Inr () \<longleftrightarrow>
     (\<forall>x. (c, x) \<in> (parent_edges byId)\<^sup>* \<longrightarrow> x \<notin> set visited \<and> (x, x) \<notin> (parent_edges byId)\<^sup>+)"
proof (induction byId visited "Some c" arbitrary: c rule: acyclic_climb.induct)
  case (1 byId visited c)
  show ?case
  proof (cases "c \<in> set visited")
    case True
    then show ?thesis by (auto simp: acyclic_climb.simps [of _ _ "Some c"])
  next
    case new: False
    show ?thesis
    proof (cases "parent_in byId c")
      case None
      with new show ?thesis
        by (simp add: acyclic_climb.simps [of _ _ "Some c"] acyclic_climb.simps [of _ _ None]
            parent_edges_from)
    next
      case (Some p)
      from 1 [OF refl new Some]
      have "acyclic_climb byId visited (Some c) = Inr () \<longleftrightarrow>
          (\<forall>x. (p, x) \<in> (parent_edges byId)\<^sup>* \<longrightarrow>
             x \<notin> set (c # visited) \<and> (x, x) \<notin> (parent_edges byId)\<^sup>+)"
        using new Some by (simp add: acyclic_climb.simps [of _ _ "Some c"])
      also have "\<dots> \<longleftrightarrow> (\<forall>x. (c, x) \<in> (parent_edges byId)\<^sup>* \<longrightarrow>
             x \<notin> set visited \<and> (x, x) \<notin> (parent_edges byId)\<^sup>+)"
        unfolding rtrancl_eq_or_trancl [of c] parent_edges_from(3) [OF Some]
        using new parent_edges_from(3) [OF Some, of c] by auto
      finally show ?thesis .
    qed
  qed
qed

lemma move_climb_iff:
  "move_climb byId i visited (Some c) = Inr () \<longleftrightarrow>
     (\<forall>x. (c, x) \<in> (parent_edges byId)\<^sup>* \<longrightarrow>
        x \<noteq> i \<and> x \<notin> set visited \<and> (x, x) \<notin> (parent_edges byId)\<^sup>+)"
proof (induction byId i visited "Some c" arbitrary: c rule: move_climb.induct)
  case (1 byId i visited c)
  show ?case
  proof (cases "c = i \<or> c \<in> set visited")
    case True
    then show ?thesis by (auto simp: move_climb.simps [of _ _ _ "Some c"])
  next
    case new: False
    show ?thesis
    proof (cases "parent_in byId c")
      case None
      with new show ?thesis
        by (auto simp: move_climb.simps [of _ _ _ "Some c"] move_climb.simps [of _ _ _ None]
            parent_edges_from)
    next
      case (Some p)
      from 1 [OF refl new Some]
      have "move_climb byId i visited (Some c) = Inr () \<longleftrightarrow>
          (\<forall>x. (p, x) \<in> (parent_edges byId)\<^sup>* \<longrightarrow>
             x \<noteq> i \<and> x \<notin> set (c # visited) \<and> (x, x) \<notin> (parent_edges byId)\<^sup>+)"
        using new Some by (simp add: move_climb.simps [of _ _ _ "Some c"])
      also have "\<dots> \<longleftrightarrow> (\<forall>x. (c, x) \<in> (parent_edges byId)\<^sup>* \<longrightarrow>
             x \<noteq> i \<and> x \<notin> set visited \<and> (x, x) \<notin> (parent_edges byId)\<^sup>+)"
        unfolding rtrancl_eq_or_trancl [of c] parent_edges_from(3) [OF Some]
        using new parent_edges_from(3) [OF Some, of c] by auto
      finally show ?thesis .
    qed
  qed
qed

lemma parent_edges_by_id:
  assumes "distinct (map f_id folders)"
  shows "parent_edges (folders_by_id folders) = parent_rel folders"
proof -
  have "map_of (folders_by_id folders) c = Some f \<longleftrightarrow> f \<in> set folders \<and> f_id f = c" for c f
    using assms
    by (auto simp: folders_by_id_def map_of_js_map_distinct comp_def map_of_eq_Some_iff)
  moreover have "parent_in byId c = Some p \<longleftrightarrow> (\<exists>f. map_of byId c = Some f \<and> f_parentId f = Some p)"
    for byId c p
    by (simp add: parent_in_def split: option.splits)
  ultimately show ?thesis by (auto simp: parent_rel_def)
qed

text \<open>Every folder passes the loop exactly if the forest has no cycle.\<close>

lemma all_acyclic_climb_iff:
  assumes "distinct (map f_id (v_folders v))"
  shows "(\<forall>f \<in> set (v_folders v). requireAcyclicFolder v (f_id f) = Inr ()) \<longleftrightarrow>
     acyclic (parent_rel (v_folders v))"
proof
  assume all: "\<forall>f \<in> set (v_folders v). requireAcyclicFolder v (f_id f) = Inr ()"
  show "acyclic (parent_rel (v_folders v))"
  proof (rule acyclicI, intro allI notI)
    fix x assume x: "(x, x) \<in> (parent_rel (v_folders v))\<^sup>+"
    then obtain f where f: "f \<in> set (v_folders v)" "x = f_id f"
      by (auto simp: parent_rel_def elim: converse_tranclE)
    with all x show False
      by (auto simp: requireAcyclicFolder_def acyclic_climb_iff parent_edges_by_id [OF assms])
  qed
next
  assume "acyclic (parent_rel (v_folders v))"
  then show "\<forall>f \<in> set (v_folders v). requireAcyclicFolder v (f_id f) = Inr ()"
    by (simp add: requireAcyclicFolder_def acyclic_climb_iff parent_edges_by_id [OF assms] acyclic_def)
qed

section \<open>The check of a vault decides the invariant\<close>

text \<open>The loops that collect identities and names and stop at a repetition.\<close>

lemma unique_loop:
  "rfold (\<lambda>x (A, B). if f x \<in> set A \<or> f x \<in> D \<or> g x \<in> set B then Inl e else Inr (f x # A, g x # B))
     xs (A, B) =
   (if distinct (map f xs) \<and> distinct (map g xs) \<and> f ` set xs \<inter> (set A \<union> D) = {} \<and> g ` set xs \<inter> set B = {}
    then Inr (rev (map f xs) @ A, rev (map g xs) @ B) else Inl e)"
  by (induction xs arbitrary: A B) auto

lemma require_tag_groups_eq:
  "require_tag_groups nfkc groups =
     (if distinct (map g_id groups) \<and> distinct (map (normalizedName nfkc \<circ> g_name) groups)
      then Inr (rev (map g_id groups), rev (map (normalizedName nfkc \<circ> g_name) groups))
      else Inl (InvalidVaultOrganizationReferenceError Tag_groups_not_unique))"
  using unique_loop [where f = g_id and D = "{}" and g = "normalizedName nfkc \<circ> g_name" and
      xs = groups and A = "[]" and B = "[]" and
      e = "InvalidVaultOrganizationReferenceError Tag_groups_not_unique"]
  by (simp add: require_tag_groups_def Let_def comp_def cong: if_cong)

lemma require_tags_unique_eq:
  "require_tags_unique nfkc deleted tags =
     (if distinct (map t_id tags) \<and> distinct (map (normalizedName nfkc \<circ> t_name) tags) \<and>
         t_id ` set tags \<inter> set deleted = {}
      then Inr (rev (map t_id tags), rev (map (normalizedName nfkc \<circ> t_name) tags))
      else Inl (InvalidVaultOrganizationReferenceError Tags_not_unique))"
  using unique_loop [where f = t_id and D = "set deleted" and g = "normalizedName nfkc \<circ> t_name" and
      xs = tags and A = "[]" and B = "[]" and
      e = "InvalidVaultOrganizationReferenceError Tags_not_unique"]
  by (simp add: require_tags_unique_def Let_def comp_def cong: if_cong)

lemma rfold_require_iff:
  "rfold (\<lambda>x _. require (P x) (e x)) xs () = Inr () \<longleftrightarrow> (\<forall>x \<in> set xs. P x)"
  by (induction xs) auto

lemma sibling_names_simps [simp]:
  "sibling_names [] p = []"
  "sibling_names (AList.update p ns m) q = (if q = p then ns else sibling_names m q)"
  by (auto simp: sibling_names_def update_conv')

lemma check_folder_Inr_iff:
  "check_folder nfkc v folderIds f m = Inr m' \<longleftrightarrow>
     (\<forall>p. f_parentId f = Some p \<longrightarrow> p \<in> set folderIds) \<and>
     normalizedName nfkc (f_name f) \<notin> set (sibling_names m (f_parentId f)) \<and>
     requireAcyclicFolder v (f_id f) = Inr () \<and>
     m' = AList.update (f_parentId f)
       (normalizedName nfkc (f_name f) # sibling_names m (f_parentId f)) m"
  by (cases "f_parentId f") (auto simp: check_folder_def Let_def rbind_eq_Inr_iff)

lemma check_folders_Inr_iff:
  "(\<exists>m'. rfold (check_folder nfkc v folderIds) fs m = Inr m') \<longleftrightarrow>
     (\<forall>f \<in> set fs. (\<forall>p. f_parentId f = Some p \<longrightarrow> p \<in> set folderIds) \<and>
        normalizedName nfkc (f_name f) \<notin> set (sibling_names m (f_parentId f)) \<and>
        requireAcyclicFolder v (f_id f) = Inr ()) \<and>
     distinct (map (\<lambda>f. (f_parentId f, normalizedName nfkc (f_name f))) fs)"
proof (induction fs arbitrary: m)
  case Nil
  show ?case by simp
next
  case (Cons f fs)
  let ?name = "\<lambda>f. normalizedName nfkc (f_name f)"
  let ?m = "AList.update (f_parentId f) (?name f # sibling_names m (f_parentId f)) m"
  have names: "?name g \<notin> set (sibling_names ?m (f_parentId g)) \<longleftrightarrow>
      (f_parentId g, ?name g) \<noteq> (f_parentId f, ?name f) \<and> ?name g \<notin> set (sibling_names m (f_parentId g))" for g
    by auto
  have fresh: "(f_parentId f, ?name f) \<notin> set (map (\<lambda>f. (f_parentId f, ?name f)) fs) \<longleftrightarrow>
      (\<forall>g \<in> set fs. (f_parentId g, ?name g) \<noteq> (f_parentId f, ?name f))"
    by (auto simp: image_iff)
  have "(\<exists>m'. rfold (check_folder nfkc v folderIds) (f # fs) m = Inr m') \<longleftrightarrow>
      (\<exists>m1. check_folder nfkc v folderIds f m = Inr m1 \<and>
         (\<exists>m'. rfold (check_folder nfkc v folderIds) fs m1 = Inr m'))"
    by (auto simp: rbind_eq_Inr_iff)
  also have "\<dots> \<longleftrightarrow> (\<exists>m1. check_folder nfkc v folderIds f m = Inr m1) \<and>
      (\<exists>m'. rfold (check_folder nfkc v folderIds) fs ?m = Inr m')"
    unfolding check_folder_Inr_iff by blast
  finally show ?case
    unfolding Cons.IH check_folder_Inr_iff names list.map distinct.simps fresh by auto
qed

text \<open>The eight steps of the check, one conjunct each.\<close>

lemma requireValidVaultOrganization_steps:
  "requireValidVaultOrganization nfkc v = Inr () \<longleftrightarrow>
     (\<forall>i \<in> t_id ` set (v_tags v) \<union> del_id ` set (v_deletedTags v). tagIdSchema i) \<and>
     (\<forall>i \<in> f_id ` set (v_folders v) \<union> del_id ` set (v_deletedFolders v). folderSchemaId i) \<and>
     (distinct (map g_id (v_tagGroups v)) \<and> distinct (map (normalizedName nfkc \<circ> g_name) (v_tagGroups v))) \<and>
     (\<forall>tag \<in> set (v_tags v). t_groupId tag \<in> g_id ` set (v_tagGroups v)) \<and>
     distinct (map del_id (v_deletedTags v)) \<and>
     (distinct (map t_id (v_tags v)) \<and> distinct (map (normalizedName nfkc \<circ> t_name) (v_tags v)) \<and>
      t_id ` set (v_tags v) \<inter> del_id ` set (v_deletedTags v) = {}) \<and>
     (distinct (map f_id (v_folders v)) \<and> distinct (map del_id (v_deletedFolders v)) \<and>
      f_id ` set (v_folders v) \<inter> del_id ` set (v_deletedFolders v) = {}) \<and>
     (\<exists>m. rfold (check_folder nfkc v (js_set (map f_id (v_folders v)))) (v_folders v) [] = Inr m) \<and>
     (\<forall>e \<in> set (v_entries v). e_folderId e \<in> insert UNCATEGORIZED_FOLDER_ID (f_id ` set (v_folders v)))"
proof -
  have size: "length (js_set (map h xs)) = length xs \<longleftrightarrow> distinct (map h xs)" for h :: "'x \<Rightarrow> 'y" and xs
    using length_js_set_iff [of "map h xs"] by simp
  have ids: "\<not> list_ex (\<lambda>i. \<not> P i) (map h xs @ map k ys) \<longleftrightarrow> (\<forall>i \<in> h ` set xs \<union> k ` set ys. P i)"
    for P :: "string \<Rightarrow> bool" and h :: "'x \<Rightarrow> string" and k :: "'y \<Rightarrow> string" and xs ys
    by (auto simp: list_ex_iff)
  have common: "\<not> list_ex (\<lambda>i. i \<in> k ` set ys) (js_set (map h xs)) \<longleftrightarrow> h ` set xs \<inter> k ` set ys = {}"
    for h :: "'x \<Rightarrow> string" and k :: "'y \<Rightarrow> string" and xs ys
    by (auto simp: list_ex_iff)
  have branch: "(if c then r else Inl e) = Inr a \<longleftrightarrow> c \<and> r = Inr a" for c and r :: "core_error + 'x" and e a
    by simp
  have pass: "rbind (if c then Inr a else Inl e) f = (if c then f a else Inl e)"
    for c and a :: 'x and e :: core_error and f :: "'x \<Rightarrow> core_error + unit"
    by simp
  have const: "rbind r (\<lambda>_. k) = Inr () \<longleftrightarrow> (\<exists>a. r = Inr a) \<and> k = Inr ()"
    for r :: "core_error + 'x" and k
    by (auto simp: rbind_eq_Inr_iff)
  have all: "(\<exists>u. rfold (\<lambda>x _. require (P x) (e x)) xs () = Inr u) \<longleftrightarrow> (\<forall>x \<in> set xs. P x)"
    for P and e :: "'x \<Rightarrow> core_error" and xs
    using rfold_require_iff [of P e xs] by auto
  show ?thesis
    unfolding requireValidVaultOrganization_def Let_def rbind_require require_tag_groups_eq
      require_tags_unique_eq pass prod.case branch const size ids common de_Morgan_disj not_not
      all rfold_require_iff set_js_set set_rev set_map insert_iff common
    by simp
qed

lemma requireValidVaultOrganization_Inr_iff:
  "requireValidVaultOrganization nfkc v = Inr () \<longleftrightarrow> tags_ok nfkc v \<and> folders_ok nfkc v"
proof -
  have parents: "(\<forall>f \<in> set (v_folders v). \<forall>p. f_parentId f = Some p \<longrightarrow> p \<in> f_id ` set (v_folders v)) \<longleftrightarrow>
      (\<forall>(c, p) \<in> parent_rel (v_folders v). p \<in> f_id ` set (v_folders v))"
    by (fastforce simp: parent_rel_def)
  have "distinct (map f_id (v_folders v)) \<Longrightarrow>
    (\<exists>m. rfold (check_folder nfkc v (js_set (map f_id (v_folders v)))) (v_folders v) [] = Inr m) \<longleftrightarrow>
     (\<forall>(c, p) \<in> parent_rel (v_folders v). p \<in> f_id ` set (v_folders v)) \<and>
     acyclic (parent_rel (v_folders v)) \<and>
     distinct (map (\<lambda>f. (f_parentId f, normalizedName nfkc (f_name f))) (v_folders v))"
    unfolding check_folders_Inr_iff parents [symmetric]
    by (auto simp: all_acyclic_climb_iff [symmetric])
  then show ?thesis
    unfolding requireValidVaultOrganization_steps tags_ok_def folders_ok_def by argo
qed

end
