(* ===== verification/Vault_Mutations.thy ===== *)
theory Vault_Mutations
  imports Vault_Items Vault_Organization
begin

text \<open>
  The mutations of the unlocked vault (\<open>packages/core/src/domain/vault/*.mutations.ts\<close>) and the
  optimistic version checks of \<open>domain/entry/*-version.policy.ts\<close> and
  \<open>domain/organization/folder-version.policy.ts\<close>. Each mutation is proved to be a point update of
  the abstract item states, to advance the version vectors, and to keep the vault well formed.
\<close>

section \<open>Expected versions\<close>

text \<open>
  \<open>z.record(z.string().min(1), z.number().int().nonnegative().max(Number.MAX_SAFE_INTEGER))\<close> on a
  value that is already a vector of counters.
\<close>

definition expectedVersionSchema :: "VersionVector \<Rightarrow> bool" where
  "expectedVersionSchema v \<longleftrightarrow> list_all (\<lambda>(k, n). 1 \<le> length k \<and> n \<le> MAX_SAFE_INTEGER) v"

definition captureExpectedEntryVersion :: "VersionVector \<Rightarrow> core_error + VersionVector" where
  "captureExpectedEntryVersion v =
     (if \<not> expectedVersionSchema v then Inl InvalidExpectedEntryVersionError else Inr v)"

definition requireExpectedEntryVersion :: "VersionVector \<Rightarrow> VersionVector \<Rightarrow> core_error + unit" where
  "requireExpectedEntryVersion current expected =
     (if compareVersionVectors current expected \<noteq> Equal then Inl PasswordEntryChangedError else Inr ())"

definition captureExpectedTagVersion :: "VersionVector \<Rightarrow> core_error + VersionVector" where
  "captureExpectedTagVersion v =
     (if \<not> expectedVersionSchema v then Inl InvalidExpectedTagVersionError else Inr v)"

definition requireExpectedTagVersion :: "VersionVector \<Rightarrow> VersionVector \<Rightarrow> core_error + unit" where
  "requireExpectedTagVersion current expected =
     (if compareVersionVectors current expected \<noteq> Equal then Inl VaultTagChangedError else Inr ())"

definition captureExpectedFolderVersion :: "VersionVector \<Rightarrow> core_error + VersionVector" where
  "captureExpectedFolderVersion v =
     (if \<not> expectedVersionSchema v then Inl InvalidExpectedFolderVersionError else Inr v)"

definition requireExpectedFolderVersion :: "VersionVector \<Rightarrow> VersionVector \<Rightarrow> core_error + unit" where
  "requireExpectedFolderVersion current expected =
     (if compareVersionVectors current expected \<noteq> Equal then Inl VaultFolderChangedError else Inr ())"

section \<open>Entries\<close>

definition entry_of_input :: "string \<Rightarrow> PasswordEntryInput \<Rightarrow> VersionVector \<Rightarrow> PasswordEntry" where
  "entry_of_input i input versionVector =
     \<lparr>e_id = i, e_password = ei_password input, e_login = ei_login input, e_tags = ei_tags input,
      e_sanitizedUrl = ei_sanitizedUrl input, e_folderId = ei_folderId input,
      e_versionVector = versionVector\<rparr>"

definition addPasswordEntryToVault ::
    "Vault \<Rightarrow> string \<Rightarrow> PasswordEntryInput \<Rightarrow> string \<Rightarrow> core_error + Vault" where
  "addPasswordEntryToVault vault entryId entryInput deviceId =
     (if list_ex (\<lambda>entry. e_id entry = entryId) (v_entries vault)
      then Inl (DuplicateVaultEntryError entryId)
      else
        let versionVector = incrementVersionVector (v_versionVector vault) deviceId;
            deletedEntry = find_deletion entryId (v_deletedEntries vault);
            entry = entry_of_input entryId entryInput (added_vector versionVector deviceId deletedEntry)
        in Inr (vault\<lparr>v_versionVector := versionVector,
                      v_entries := v_entries vault @ [entry],
                      v_deletedEntries := without_deletion entryId (v_deletedEntries vault)\<rparr>))"

definition updatePasswordEntryInVault ::
    "Vault \<Rightarrow> string \<Rightarrow> PasswordEntryInput \<Rightarrow> string \<Rightarrow> Vault" where
  "updatePasswordEntryInVault vault entryId entryInput deviceId =
     (case find_index (\<lambda>entry. e_id entry = entryId) (v_entries vault) of
        None \<Rightarrow> vault
      | Some entryIndex \<Rightarrow>
          let versionVector = incrementVersionVector (v_versionVector vault) deviceId;
              currentEntry = v_entries vault ! entryIndex
          in vault\<lparr>v_versionVector := versionVector,
                   v_entries := (v_entries vault)[entryIndex := entry_of_input entryId entryInput
                     (incrementVersionVector (e_versionVector currentEntry) deviceId)]\<rparr>)"

definition removePasswordEntryFromVault :: "Vault \<Rightarrow> string \<Rightarrow> string \<Rightarrow> nat \<Rightarrow> Vault" where
  "removePasswordEntryFromVault vault entryId deviceId deletedAt =
     (case find (\<lambda>entry. e_id entry = entryId) (v_entries vault) of
        None \<Rightarrow> vault
      | Some entry \<Rightarrow>
          let versionVector = incrementVersionVector (v_versionVector vault) deviceId;
              deletedEntryVersionVector = incrementVersionVector (e_versionVector entry) deviceId
          in vault\<lparr>v_versionVector := versionVector,
                   v_entries := filter (\<lambda>entry. e_id entry \<noteq> entryId) (v_entries vault),
                   v_deletedEntries := without_deletion entryId (v_deletedEntries vault) @
                     [\<lparr>del_id = entryId, del_versionVector = deletedEntryVersionVector,
                       del_deletedAt = deletedAt\<rparr>]\<rparr>)"

section \<open>Tags\<close>

text \<open>\<open>Omit<TagInput, "id" | "createdAt">\<close>.\<close>

record TagUpdate =
  tu_name :: string
  tu_groupId :: string
  tu_color :: string
  tu_shade :: nat

definition tag_of_input :: "TagInput \<Rightarrow> VersionVector \<Rightarrow> Tag" where
  "tag_of_input input versionVector =
     \<lparr>t_id = ti_id input, t_name = ti_name input, t_groupId = ti_groupId input, t_color = ti_color input,
      t_shade = ti_shade input, t_createdAt = ti_createdAt input, t_versionVector = versionVector\<rparr>"

definition addTagToVault ::
    "(string \<Rightarrow> string) \<Rightarrow> Vault \<Rightarrow> TagInput \<Rightarrow> string \<Rightarrow> core_error + Vault" where
  "addTagToVault nfkc vault tagInput deviceId =
     (if list_ex (\<lambda>tag. t_id tag = ti_id tagInput) (v_tags vault)
      then Inl (DuplicateVaultTagError (ti_id tagInput))
      else rbind (requireUniqueVaultTagName nfkc vault (ti_name tagInput) None) (\<lambda>_.
        let versionVector = incrementVersionVector (v_versionVector vault) deviceId;
            deletedTag = find_deletion (ti_id tagInput) (v_deletedTags vault);
            tag = tag_of_input tagInput (added_vector versionVector deviceId deletedTag)
        in Inr (vault\<lparr>v_versionVector := versionVector,
                      v_tags := v_tags vault @ [tag],
                      v_deletedTags := without_deletion (ti_id tagInput) (v_deletedTags vault)\<rparr>)))"

definition updateTagInVault ::
    "(string \<Rightarrow> string) \<Rightarrow> Vault \<Rightarrow> string \<Rightarrow> TagUpdate \<Rightarrow> string \<Rightarrow> core_error + Vault" where
  "updateTagInVault nfkc vault tagId input deviceId =
     (case find_index (\<lambda>tag. t_id tag = tagId) (v_tags vault) of
        None \<Rightarrow> Inr vault
      | Some index \<Rightarrow> rbind (requireUniqueVaultTagName nfkc vault (tu_name input) (Some tagId)) (\<lambda>_.
          let current = v_tags vault ! index;
              versionVector = incrementVersionVector (v_versionVector vault) deviceId
          in Inr (vault\<lparr>v_versionVector := versionVector,
               v_tags := (v_tags vault)[index := current\<lparr>
                 t_name := tu_name input, t_groupId := tu_groupId input, t_color := tu_color input,
                 t_shade := tu_shade input,
                 t_versionVector := incrementVersionVector (t_versionVector current) deviceId\<rparr>]\<rparr>)))"

definition removeTagFromVault :: "Vault \<Rightarrow> string \<Rightarrow> string \<Rightarrow> nat \<Rightarrow> core_error + Vault" where
  "removeTagFromVault vault tagId deviceId deletedAt =
     (case find (\<lambda>item. t_id item = tagId) (v_tags vault) of
        None \<Rightarrow> Inr vault
      | Some tag \<Rightarrow>
          let entryCount = length (filter (\<lambda>entry. tagId \<in> set (e_tags entry)) (v_entries vault)) in
          if entryCount > 0 then Inl (VaultTagInUseError tagId entryCount)
          else
            let versionVector = incrementVersionVector (v_versionVector vault) deviceId
            in Inr (vault\<lparr>v_versionVector := versionVector,
                 v_tags := filter (\<lambda>item. t_id item \<noteq> tagId) (v_tags vault),
                 v_deletedTags := without_deletion tagId (v_deletedTags vault) @
                   [\<lparr>del_id = tagId,
                     del_versionVector = incrementVersionVector (t_versionVector tag) deviceId,
                     del_deletedAt = deletedAt\<rparr>]\<rparr>))"

section \<open>Folders\<close>

text \<open>
  \<open>Pick<FolderInput, "name" | "icon" | "description">\<close>: spreading an input without the optional
  \<open>description\<close> key keeps the current description, spreading \<open>undefined\<close> clears it. The outer
  \<open>None\<close> is the absent key.
\<close>

record FolderUpdate =
  fu_name :: string
  fu_icon :: string
  fu_description :: "string option option"

definition folder_of_input :: "FolderInput \<Rightarrow> VersionVector \<Rightarrow> Folder" where
  "folder_of_input input versionVector =
     \<lparr>f_id = fi_id input, f_name = fi_name input, f_icon = fi_icon input,
      f_description = fi_description input, f_parentId = fi_parentId input,
      f_createdAt = fi_createdAt input, f_versionVector = versionVector\<rparr>"

definition addFolderToVault ::
    "(string \<Rightarrow> string) \<Rightarrow> Vault \<Rightarrow> FolderInput \<Rightarrow> string \<Rightarrow> core_error + Vault" where
  "addFolderToVault nfkc vault input deviceId =
     (if list_ex (\<lambda>folder. f_id folder = fi_id input) (v_folders vault)
      then Inl (DuplicateVaultFolderError (fi_id input))
      else
        rbind (requireFolderParent vault (fi_parentId input)) (\<lambda>_.
        rbind (requireUniqueSiblingFolderName nfkc vault (fi_name input) (fi_parentId input) None) (\<lambda>_.
        let versionVector = incrementVersionVector (v_versionVector vault) deviceId;
            deleted = find_deletion (fi_id input) (v_deletedFolders vault);
            folder = folder_of_input input (added_vector versionVector deviceId deleted)
        in Inr (vault\<lparr>v_versionVector := versionVector,
                      v_folders := v_folders vault @ [folder],
                      v_deletedFolders := without_deletion (fi_id input) (v_deletedFolders vault)\<rparr>))))"

definition updateFolderInVault ::
    "(string \<Rightarrow> string) \<Rightarrow> Vault \<Rightarrow> string \<Rightarrow> FolderUpdate \<Rightarrow> string \<Rightarrow> core_error + Vault" where
  "updateFolderInVault nfkc vault folderId input deviceId =
     (case find_index (\<lambda>folder. f_id folder = folderId) (v_folders vault) of
        None \<Rightarrow> Inr vault
      | Some index \<Rightarrow>
          let current = v_folders vault ! index in
          rbind (requireUniqueSiblingFolderName nfkc vault (fu_name input) (f_parentId current)
                   (Some folderId)) (\<lambda>_.
          Inr (vault\<lparr>v_versionVector := incrementVersionVector (v_versionVector vault) deviceId,
               v_folders := (v_folders vault)[index := current\<lparr>
                 f_name := fu_name input, f_icon := fu_icon input,
                 f_description := (case fu_description input of
                    None \<Rightarrow> f_description current | Some description \<Rightarrow> description),
                 f_versionVector := incrementVersionVector (f_versionVector current) deviceId\<rparr>]\<rparr>)))"

definition moveFolderInVault ::
    "(string \<Rightarrow> string) \<Rightarrow> Vault \<Rightarrow> string \<Rightarrow> string option \<Rightarrow> string \<Rightarrow> core_error + Vault" where
  "moveFolderInVault nfkc vault folderId parentId deviceId =
     (case find_index (\<lambda>folder. f_id folder = folderId) (v_folders vault) of
        None \<Rightarrow> Inr vault
      | Some index \<Rightarrow>
          rbind (requireFolderParent vault parentId) (\<lambda>_.
          rbind (requireFolderMoveDoesNotCreateCycle vault folderId parentId) (\<lambda>_.
          let current = v_folders vault ! index in
          rbind (requireUniqueSiblingFolderName nfkc vault (f_name current) parentId (Some folderId)) (\<lambda>_.
          Inr (vault\<lparr>v_versionVector := incrementVersionVector (v_versionVector vault) deviceId,
               v_folders := (v_folders vault)[index := current\<lparr>
                 f_parentId := parentId,
                 f_versionVector := incrementVersionVector (f_versionVector current) deviceId\<rparr>]\<rparr>)))))"

definition removeFolderFromVault :: "Vault \<Rightarrow> string \<Rightarrow> string \<Rightarrow> nat \<Rightarrow> core_error + Vault" where
  "removeFolderFromVault vault folderId deviceId deletedAt =
     (case find (\<lambda>item. f_id item = folderId) (v_folders vault) of
        None \<Rightarrow> Inr vault
      | Some folder \<Rightarrow>
          let entryCount = length (filter (\<lambda>entry. e_folderId entry = folderId) (v_entries vault));
              childCount = length (filter (\<lambda>item. f_parentId item = Some folderId) (v_folders vault)) in
          if entryCount > 0 \<or> childCount > 0
          then Inl (VaultFolderNotEmptyError folderId entryCount childCount)
          else Inr (vault\<lparr>v_versionVector := incrementVersionVector (v_versionVector vault) deviceId,
                 v_folders := filter (\<lambda>item. f_id item \<noteq> folderId) (v_folders vault),
                 v_deletedFolders := without_deletion folderId (v_deletedFolders vault) @
                   [\<lparr>del_id = folderId,
                     del_versionVector = incrementVersionVector (f_versionVector folder) deviceId,
                     del_deletedAt = deletedAt\<rparr>]\<rparr>))"

section \<open>Device profiles\<close>

definition hasDeviceProfileState :: "Vault \<Rightarrow> string \<Rightarrow> bool" where
  "hasDeviceProfileState vault deviceId \<longleftrightarrow>
     list_ex (\<lambda>deviceProfile. d_id deviceProfile = deviceId) (v_deviceProfiles vault) \<or>
     list_ex (\<lambda>deviceProfile. del_id deviceProfile = deviceId) (v_deletedDeviceProfiles vault)"

definition addDeviceProfileToVault :: "Vault \<Rightarrow> string \<Rightarrow> string \<Rightarrow> nat \<Rightarrow> core_error + Vault" where
  "addDeviceProfileToVault vault deviceId deviceName createdAt =
     (if hasDeviceProfileState vault deviceId then Inl (DuplicateVaultDeviceProfileError deviceId)
      else
        let versionVector = incrementVersionVector (v_versionVector vault) deviceId;
            deviceProfile = \<lparr>d_id = deviceId, d_name = deviceName, d_createdAt = createdAt,
              d_versionVector = [(deviceId, vv_get versionVector deviceId)]\<rparr>
        in Inr (vault\<lparr>v_versionVector := versionVector,
                      v_deviceProfiles := v_deviceProfiles vault @ [deviceProfile]\<rparr>))"

definition removeOtherDeviceProfilesFromVault :: "Vault \<Rightarrow> string \<Rightarrow> nat \<Rightarrow> Vault" where
  "removeOtherDeviceProfilesFromVault vault currentDeviceId deletedAt =
     (case find (\<lambda>deviceProfile. d_id deviceProfile = currentDeviceId) (v_deviceProfiles vault) of
        None \<Rightarrow> vault
      | Some currentDeviceProfile \<Rightarrow>
          let removedDeviceProfiles =
                filter (\<lambda>deviceProfile. d_id deviceProfile \<noteq> currentDeviceId) (v_deviceProfiles vault) in
          if length removedDeviceProfiles = 0 then vault
          else
            let versionVector = incrementVersionVector (v_versionVector vault) currentDeviceId;
                removedDeviceIds = js_set (map d_id removedDeviceProfiles)
            in vault\<lparr>v_versionVector := versionVector,
                 v_deviceProfiles := [currentDeviceProfile],
                 v_deletedDeviceProfiles :=
                   filter (\<lambda>d. del_id d \<notin> set removedDeviceIds) (v_deletedDeviceProfiles vault) @
                   map (\<lambda>removed. \<lparr>del_id = d_id removed,
                          del_versionVector = incrementVersionVector (d_versionVector removed) currentDeviceId,
                          del_deletedAt = deletedAt\<rparr>) removedDeviceProfiles\<rparr>)"

definition revokeDeviceProfileFromVault :: "Vault \<Rightarrow> string \<Rightarrow> string \<Rightarrow> nat \<Rightarrow> Vault" where
  "revokeDeviceProfileFromVault vault revokingDeviceId revokedDeviceId deletedAt =
     (case find (\<lambda>deviceProfile. d_id deviceProfile = revokedDeviceId) (v_deviceProfiles vault) of
        None \<Rightarrow> vault
      | Some revokedDeviceProfile \<Rightarrow>
          let versionVector = incrementVersionVector (v_versionVector vault) revokingDeviceId
          in vault\<lparr>v_versionVector := versionVector,
               v_deviceProfiles :=
                 filter (\<lambda>deviceProfile. d_id deviceProfile \<noteq> revokedDeviceId) (v_deviceProfiles vault),
               v_deletedDeviceProfiles := without_deletion revokedDeviceId (v_deletedDeviceProfiles vault) @
                 [\<lparr>del_id = revokedDeviceId,
                   del_versionVector = incrementVersionVector (d_versionVector revokedDeviceProfile) revokingDeviceId,
                   del_deletedAt = deletedAt\<rparr>]\<rparr>)"

section \<open>Synchronisation state\<close>

definition markVaultSyncRemovalPending ::
    "Vault \<Rightarrow> VaultSnapshotIdentity option \<Rightarrow> VaultSnapshot \<Rightarrow> Vault" where
  "markVaultSyncRemovalPending vault expectedRemoteSnapshotIdentity rollbackSnapshot =
     vault\<lparr>v_syncRemovalPending := Some
       \<lparr>srp_expectedRemoteSnapshotIdentity = expectedRemoteSnapshotIdentity,
        srp_rollbackSnapshot = rollbackSnapshot\<rparr>\<rparr>"

definition clearVaultSyncRemovalPending :: "Vault \<Rightarrow> Vault" where
  "clearVaultSyncRemovalPending vault = vault\<lparr>v_syncRemovalPending := None\<rparr>"

definition markVaultProviderCredentialRevocationPending :: "Vault \<Rightarrow> string list \<Rightarrow> int \<Rightarrow> Vault" where
  "markVaultProviderCredentialRevocationPending vault revokedDeviceIds vaultKeyGeneration =
     vault\<lparr>v_providerCredentialRevocationPending := Some
       \<lparr>pcr_revokedDeviceIds = revokedDeviceIds, pcr_vaultKeyGeneration = vaultKeyGeneration\<rparr>\<rparr>"

definition clearVaultProviderCredentialRevocationPending :: "Vault \<Rightarrow> Vault" where
  "clearVaultProviderCredentialRevocationPending vault =
     vault\<lparr>v_providerCredentialRevocationPending := None\<rparr>"

definition removeVaultSyncTarget :: "Vault \<Rightarrow> Vault" where
  "removeVaultSyncTarget vault =
     vault\<lparr>v_syncTarget := None, v_syncRemovalPending := None,
           v_providerCredentialRevocationPending := None\<rparr>"

section \<open>The mutations as one operation\<close>

text \<open>Every mutation of a vault by the device \<open>deviceId\<close>.\<close>

datatype mutation =
    Add_entry string PasswordEntryInput
  | Update_entry string PasswordEntryInput
  | Remove_entry string nat
  | Add_tag TagInput
  | Update_tag string TagUpdate
  | Remove_tag string nat
  | Add_folder FolderInput
  | Update_folder string FolderUpdate
  | Move_folder string "string option"
  | Remove_folder string nat
  | Add_device_profile string nat
  | Remove_other_device_profiles nat
  | Revoke_device_profile string nat

fun apply_mutation ::
    "(string \<Rightarrow> string) \<Rightarrow> string \<Rightarrow> mutation \<Rightarrow> Vault \<Rightarrow> core_error + Vault" where
  "apply_mutation nfkc d (Add_entry i input) v = addPasswordEntryToVault v i input d"
| "apply_mutation nfkc d (Update_entry i input) v = Inr (updatePasswordEntryInVault v i input d)"
| "apply_mutation nfkc d (Remove_entry i t) v = Inr (removePasswordEntryFromVault v i d t)"
| "apply_mutation nfkc d (Add_tag input) v = addTagToVault nfkc v input d"
| "apply_mutation nfkc d (Update_tag i input) v = updateTagInVault nfkc v i input d"
| "apply_mutation nfkc d (Remove_tag i t) v = removeTagFromVault v i d t"
| "apply_mutation nfkc d (Add_folder input) v = addFolderToVault nfkc v input d"
| "apply_mutation nfkc d (Update_folder i input) v = updateFolderInVault nfkc v i input d"
| "apply_mutation nfkc d (Move_folder i p) v = moveFolderInVault nfkc v i p d"
| "apply_mutation nfkc d (Remove_folder i t) v = removeFolderFromVault v i d t"
| "apply_mutation nfkc d (Add_device_profile name t) v = addDeviceProfileToVault v d name t"
| "apply_mutation nfkc d (Remove_other_device_profiles t) v = Inr (removeOtherDeviceProfilesFromVault v d t)"
| "apply_mutation nfkc d (Revoke_device_profile i t) v = Inr (revokeDeviceProfileFromVault v d i t)"

section \<open>The abstract vault\<close>

definition entry_state :: "Vault \<Rightarrow> string \<Rightarrow> PasswordEntry reviewable" where
  "entry_state v = item_state e_id (v_entries v) (v_deletedEntries v)"

definition tag_state :: "Vault \<Rightarrow> string \<Rightarrow> Tag reviewable" where
  "tag_state v = item_state t_id (v_tags v) (v_deletedTags v)"

definition folder_state :: "Vault \<Rightarrow> string \<Rightarrow> Folder reviewable" where
  "folder_state v = item_state f_id (v_folders v) (v_deletedFolders v)"

definition device_state :: "Vault \<Rightarrow> string \<Rightarrow> DeviceProfile reviewable" where
  "device_state v = item_state d_id (v_deviceProfiles v) (v_deletedDeviceProfiles v)"

lemmas state_defs = entry_state_def tag_state_def folder_state_def device_state_def

text \<open>
  A vault is well formed if in each of its four collections identities are unique, none is both
  active and deleted, and all version vectors lie below the vector of the vault.
\<close>

definition vault_ok :: "Vault \<Rightarrow> bool" where
  "vault_ok v \<longleftrightarrow>
     collection_ok e_versionVector e_id (v_versionVector v) (v_entries v) (v_deletedEntries v) \<and>
     collection_ok t_versionVector t_id (v_versionVector v) (v_tags v) (v_deletedTags v) \<and>
     collection_ok f_versionVector f_id (v_versionVector v) (v_folders v) (v_deletedFolders v) \<and>
     collection_ok d_versionVector d_id (v_versionVector v) (v_deviceProfiles v) (v_deletedDeviceProfiles v)"

text \<open>Every item state that differs between two vaults has moved forward.\<close>

definition vault_advanced :: "Vault \<Rightarrow> Vault \<Rightarrow> bool" where
  "vault_advanced v v' \<longleftrightarrow>
     advanced e_versionVector (entry_state v) (entry_state v') \<and>
     advanced t_versionVector (tag_state v) (tag_state v') \<and>
     advanced f_versionVector (folder_state v) (folder_state v') \<and>
     advanced d_versionVector (device_state v) (device_state v')"

lemma selectors_of_inputs [simp]:
  "e_id (entry_of_input i input w) = i" "e_versionVector (entry_of_input i input w) = w"
  "e_tags (entry_of_input i input w) = ei_tags input"
  "e_folderId (entry_of_input i input w) = ei_folderId input"
  "t_id (tag_of_input ti w) = ti_id ti" "t_versionVector (tag_of_input ti w) = w"
  "t_name (tag_of_input ti w) = ti_name ti" "t_groupId (tag_of_input ti w) = ti_groupId ti"
  "f_id (folder_of_input fi w) = fi_id fi" "f_versionVector (folder_of_input fi w) = w"
  "f_name (folder_of_input fi w) = fi_name fi" "f_parentId (folder_of_input fi w) = fi_parentId fi"
  by (simp_all add: entry_of_input_def tag_of_input_def folder_of_input_def)

section \<open>Each mutation, in terms of the abstract states\<close>

text \<open>The shape of a successful mutation: an unchanged vault, or one of three list updates.\<close>

lemma not_active_iff: "\<not> list_ex (\<lambda>x. f x = i) xs \<longleftrightarrow> i \<notin> f ` set xs"
  by (auto simp: list_ex_iff)

lemma add_entry_Inr:
  "addPasswordEntryToVault v i input d = Inr v' \<longleftrightarrow>
     i \<notin> e_id ` set (v_entries v) \<and>
     v' = v\<lparr>v_versionVector := incrementVersionVector (v_versionVector v) d,
            v_entries := v_entries v @ [entry_of_input i input
              (added_vector (incrementVersionVector (v_versionVector v) d) d (find_deletion i (v_deletedEntries v)))],
            v_deletedEntries := without_deletion i (v_deletedEntries v)\<rparr>"
  using not_active_iff [of e_id i "v_entries v"]
  by (auto simp: addPasswordEntryToVault_def Let_def)

lemma add_tag_Inr:
  "addTagToVault nfkc v input d = Inr v' \<longleftrightarrow>
     ti_id input \<notin> t_id ` set (v_tags v) \<and> requireUniqueVaultTagName nfkc v (ti_name input) None = Inr () \<and>
     v' = v\<lparr>v_versionVector := incrementVersionVector (v_versionVector v) d,
            v_tags := v_tags v @ [tag_of_input input
              (added_vector (incrementVersionVector (v_versionVector v) d) d (find_deletion (ti_id input) (v_deletedTags v)))],
            v_deletedTags := without_deletion (ti_id input) (v_deletedTags v)\<rparr>"
  using not_active_iff [of t_id "ti_id input" "v_tags v"]
  by (auto simp: addTagToVault_def Let_def rbind_eq_Inr_iff)

lemma add_folder_Inr:
  "addFolderToVault nfkc v input d = Inr v' \<longleftrightarrow>
     fi_id input \<notin> f_id ` set (v_folders v) \<and> requireFolderParent v (fi_parentId input) = Inr () \<and>
     requireUniqueSiblingFolderName nfkc v (fi_name input) (fi_parentId input) None = Inr () \<and>
     v' = v\<lparr>v_versionVector := incrementVersionVector (v_versionVector v) d,
            v_folders := v_folders v @ [folder_of_input input
              (added_vector (incrementVersionVector (v_versionVector v) d) d (find_deletion (fi_id input) (v_deletedFolders v)))],
            v_deletedFolders := without_deletion (fi_id input) (v_deletedFolders v)\<rparr>"
  using not_active_iff [of f_id "fi_id input" "v_folders v"]
  by (auto simp: addFolderToVault_def Let_def rbind_eq_Inr_iff)

lemma add_device_profile_Inr:
  "addDeviceProfileToVault v d name t = Inr v' \<longleftrightarrow>
     d \<notin> d_id ` set (v_deviceProfiles v) \<and> d \<notin> del_id ` set (v_deletedDeviceProfiles v) \<and>
     v' = v\<lparr>v_versionVector := incrementVersionVector (v_versionVector v) d,
            v_deviceProfiles := v_deviceProfiles v @ [\<lparr>d_id = d, d_name = name, d_createdAt = t,
              d_versionVector = added_vector (incrementVersionVector (v_versionVector v) d) d None\<rparr>]\<rparr>"
  using not_active_iff [of d_id d "v_deviceProfiles v"] not_active_iff [of del_id d "v_deletedDeviceProfiles v"]
  by (auto simp: addDeviceProfileToVault_def hasDeviceProfileState_def Let_def added_vector_def simp del: vv_get_increment)

lemmas mutation_defs = updatePasswordEntryInVault_def removePasswordEntryFromVault_def
  updateTagInVault_def removeTagFromVault_def updateFolderInVault_def moveFolderInVault_def
  removeFolderFromVault_def revokeDeviceProfileFromVault_def

lemmas add_Inr = add_entry_Inr add_tag_Inr add_folder_Inr add_device_profile_Inr

lemma collection_ok_all_removed:
  assumes ok: "collection_ok vvf idf v active deleted" and x: "find (\<lambda>x. idf x = c) active = Some x"
    and t: "\<And>y. del_id (t y) = idf y" "\<And>y. del_versionVector (t y) = incrementVersionVector (vvf y) d"
  shows "collection_ok vvf idf (incrementVersionVector v d) [x]
      (filter (\<lambda>d. del_id d \<notin> idf ` set (filter (\<lambda>y. idf y \<noteq> c) active)) deleted @
       map t (filter (\<lambda>y. idf y \<noteq> c) active))"
    (is "collection_ok _ _ _ _ ?D")
proof -
  have ok': "items_ok idf active deleted" using ok by (simp add: collection_ok_def)
  have "state_counters vvf (item_state idf [x] ?D i) \<le> vv_get (incrementVersionVector v d)" for i
  proof -
    have "state_counters vvf (item_state idf active deleted i) \<le> vv_get v"
      using ok by (simp add: collection_ok_def)
    then show ?thesis
      unfolding item_state_all_removed [OF ok' x t(1)]
      using increment_ge [of v d] increment_mono [of _ v d] t(2)
      by (cases "item_state idf active deleted i")
        (auto simp del: vv_get_increment intro: order_trans)
  qed
  with items_ok_all_removed [OF ok' x t(1)] show ?thesis by (simp add: collection_ok_def)
qed

lemma advanced_all_removed:
  assumes ok: "collection_ok vvf idf v active deleted" and x: "find (\<lambda>x. idf x = c) active = Some x"
    and t: "\<And>y. del_id (t y) = idf y" "\<And>y. del_versionVector (t y) = incrementVersionVector (vvf y) d"
    and lim: "vv_get v d < js_limit"
  shows "advanced vvf (item_state idf active deleted) (item_state idf [x]
      (filter (\<lambda>d. del_id d \<notin> idf ` set (filter (\<lambda>y. idf y \<noteq> c) active)) deleted @
       map t (filter (\<lambda>y. idf y \<noteq> c) active)))"
proof -
  have ok': "items_ok idf active deleted" using ok by (simp add: collection_ok_def)
  show ?thesis
    unfolding item_state_all_removed [OF ok' x t(1)] advanced_def
  proof
    fix i
    show "(case item_state idf active deleted i of
             Item y \<Rightarrow> if i = c then Item y else Deleted (t y) | s \<Rightarrow> s) = item_state idf active deleted i \<or>
          state_counters vvf (item_state idf active deleted i) <
          state_counters vvf (case item_state idf active deleted i of
             Item y \<Rightarrow> if i = c then Item y else Deleted (t y) | s \<Rightarrow> s)"
      using state_counters_below_limit [OF ok lim, of i] t(2) increment_strict
      by (cases "item_state idf active deleted i") (simp_all del: vv_get_increment)
  qed
qed

text \<open>A mutation keeps a vault well formed.\<close>

lemma remove_other_profiles_eq:
  "removeOtherDeviceProfilesFromVault v d t =
     (case find (\<lambda>p. d_id p = d) (v_deviceProfiles v) of
        None \<Rightarrow> v
      | Some c \<Rightarrow>
          let removed = filter (\<lambda>p. d_id p \<noteq> d) (v_deviceProfiles v);
              tomb = (\<lambda>p. \<lparr>del_id = d_id p, del_versionVector = incrementVersionVector (d_versionVector p) d,
                           del_deletedAt = t\<rparr>)
          in if removed = [] then v
             else v\<lparr>v_versionVector := incrementVersionVector (v_versionVector v) d, v_deviceProfiles := [c],
                    v_deletedDeviceProfiles :=
                      filter (\<lambda>x. del_id x \<notin> d_id ` set removed) (v_deletedDeviceProfiles v) @ map tomb removed\<rparr>)"
  unfolding removeOtherDeviceProfilesFromVault_def Let_def length_0_conv set_js_set set_map ..

lemma vault_ok_mutation:
  assumes "vault_ok v" "apply_mutation nfkc d m v = Inr v'"
  shows "vault_ok v'"
proof -
  show ?thesis
  proof (cases m)
    case (Remove_other_device_profiles t)
    with assms show ?thesis
      by (auto simp: remove_other_profiles_eq Let_def vault_ok_def split: option.splits if_splits
          intro: collection_ok_increment intro!: collection_ok_all_removed simp del: set_filter)
  qed ((use assms in \<open>auto simp: add_Inr mutation_defs vault_ok_def Let_def rbind_eq_Inr_iff
          split: option.splits if_splits intro: collection_ok_increment collection_ok_added_fresh\<close>),
      (rule collection_ok_in_place collection_ok_removed collection_ok_added, assumption, assumption,
        simp, simp)+)
qed

text \<open>A mutation that is not the identity is one event of its device.\<close>

lemma mutation_vector:
  assumes "apply_mutation nfkc d m v = Inr v'"
  shows "v' = v \<or> v_versionVector v' = incrementVersionVector (v_versionVector v) d"
  using assms
  by (cases m) (auto simp: add_Inr mutation_defs removeOtherDeviceProfilesFromVault_def Let_def
      rbind_eq_Inr_iff split: option.splits if_splits)

text \<open>A mutation moves every state it changes forward.\<close>

lemma mutation_advances:
  assumes "vault_ok v" "vv_get (v_versionVector v) d < js_limit" "apply_mutation nfkc d m v = Inr v'"
  shows "vault_advanced v v'"
proof -
  show ?thesis
  proof (cases m)
    case (Remove_other_device_profiles t)
    with assms show ?thesis
      by (auto simp: remove_other_profiles_eq Let_def vault_ok_def vault_advanced_def state_defs
          split: option.splits if_splits intro!: advanced_all_removed simp del: set_filter)
  qed ((use assms in \<open>auto simp: add_Inr mutation_defs vault_ok_def vault_advanced_def state_defs Let_def
          rbind_eq_Inr_iff split: option.splits if_splits intro: advanced_added_fresh\<close>),
      (rule advanced_in_place advanced_removed advanced_added, assumption, assumption, simp, simp,
        assumption)+)
qed

text \<open>What each mutation does to the abstract states.\<close>

lemma add_entry_state:
  "addPasswordEntryToVault v i input d = Inr v' \<Longrightarrow>
     entry_state v' = (entry_state v)(i := Item (entry_of_input i input
       (added_vector (v_versionVector v') d (find_deletion i (v_deletedEntries v)))))"
  by (auto simp: add_Inr entry_state_def item_state_added simp del: vv_get_increment)

lemma update_entry_state:
  "entry_state (updatePasswordEntryInVault v i input d) =
     (case entry_state v i of
        Item e \<Rightarrow> (entry_state v)(i := Item (entry_of_input i input (incrementVersionVector (e_versionVector e) d)))
      | _ \<Rightarrow> entry_state v)"
proof (cases "find_index (\<lambda>e. e_id e = i) (v_entries v)")
  case None
  then have "i \<notin> e_id ` set (v_entries v)" by (auto simp: find_index_None)
  with None show ?thesis
    by (simp add: updatePasswordEntryInVault_def entry_state_def item_state_inactive split: option.split)
next
  case (Some n)
  then show ?thesis
    by (simp add: updatePasswordEntryInVault_def entry_state_def item_state_found(2) item_state_updated
        Let_def)
qed

lemma remove_entry_state:
  "entry_state (removePasswordEntryFromVault v i d t) =
     (case entry_state v i of
        Item e \<Rightarrow> (entry_state v)(i := Deleted \<lparr>del_id = i,
          del_versionVector = incrementVersionVector (e_versionVector e) d, del_deletedAt = t\<rparr>)
      | _ \<Rightarrow> entry_state v)"
proof (cases "find (\<lambda>e. e_id e = i) (v_entries v)")
  case None
  then have "i \<notin> e_id ` set (v_entries v)" by (simp add: find_id_None_iff)
  with None show ?thesis
    by (simp add: removePasswordEntryFromVault_def entry_state_def item_state_inactive split: option.split)
next
  case (Some e)
  then show ?thesis
    by (simp add: removePasswordEntryFromVault_def entry_state_def item_state_found(1) [where idf = e_id]
        item_state_removed Let_def)
qed

text \<open>The frame: a mutation of one kind leaves the other collections alone.\<close>

lemma entry_mutation_frame [frame_simps]:
  "v_tags (updatePasswordEntryInVault v i input d) = v_tags v"
  "v_folders (updatePasswordEntryInVault v i input d) = v_folders v"
  "v_tags (removePasswordEntryFromVault v i d t) = v_tags v"
  "v_folders (removePasswordEntryFromVault v i d t) = v_folders v"
  "v_deletedTags (updatePasswordEntryInVault v i input d) = v_deletedTags v"
  "v_deletedFolders (updatePasswordEntryInVault v i input d) = v_deletedFolders v"
  "v_deletedTags (removePasswordEntryFromVault v i d t) = v_deletedTags v"
  "v_deletedFolders (removePasswordEntryFromVault v i d t) = v_deletedFolders v"
  "v_tagGroups (updatePasswordEntryInVault v i input d) = v_tagGroups v"
  "v_tagGroups (removePasswordEntryFromVault v i d t) = v_tagGroups v"
  by (simp_all add: updatePasswordEntryInVault_def removePasswordEntryFromVault_def Let_def split: option.split)

end
