(* ===== verification/Sync_Review.thy ===== *)
theory Sync_Review
  imports Vault_Mutations
begin

text \<open>
  The comparison of a local with a downloaded vault
  (\<open>packages/core/src/domain/sync/*-review.utils.ts\<close>). The four review modules are textual copies of
  one algorithm; it is written once over the accessors of a kind of item and instantiated for
  entries, tags, folders and device profiles.
\<close>

section \<open>Kinds of items\<close>

record 'a kind =
  k_name :: item_kind
  k_id :: "'a \<Rightarrow> string"
  k_vector :: "'a \<Rightarrow> VersionVector"
  k_set_vector :: "VersionVector \<Rightarrow> 'a \<Rightarrow> 'a"
  k_json :: "'a \<Rightarrow> json"
  k_item_key :: string
  k_deleted_key :: string
  k_state_name :: string
  k_active :: "Vault \<Rightarrow> 'a list"
  k_deleted :: "Vault \<Rightarrow> Tombstone list"

definition entry_kind :: "PasswordEntry kind" where
  "entry_kind = \<lparr>k_name = Entry_item, k_id = e_id, k_vector = e_versionVector,
     k_set_vector = (\<lambda>v e. e\<lparr>e_versionVector := v\<rparr>), k_json = entry_json,
     k_item_key = ''entry'', k_deleted_key = ''deletedEntry'', k_state_name = ''entry'',
     k_active = v_entries, k_deleted = v_deletedEntries\<rparr>"

definition tag_kind :: "Tag kind" where
  "tag_kind = \<lparr>k_name = Tag_item, k_id = t_id, k_vector = t_versionVector,
     k_set_vector = (\<lambda>v t. t\<lparr>t_versionVector := v\<rparr>), k_json = tag_json,
     k_item_key = ''tag'', k_deleted_key = ''deletedTag'', k_state_name = ''tag'',
     k_active = v_tags, k_deleted = v_deletedTags\<rparr>"

definition folder_kind :: "Folder kind" where
  "folder_kind = \<lparr>k_name = Folder_item, k_id = f_id, k_vector = f_versionVector,
     k_set_vector = (\<lambda>v f. f\<lparr>f_versionVector := v\<rparr>), k_json = folder_json,
     k_item_key = ''folder'', k_deleted_key = ''deletedFolder'', k_state_name = ''folder'',
     k_active = v_folders, k_deleted = v_deletedFolders\<rparr>"

definition device_profile_kind :: "DeviceProfile kind" where
  "device_profile_kind = \<lparr>k_name = Device_profile_item, k_id = d_id, k_vector = d_versionVector,
     k_set_vector = (\<lambda>v d. d\<lparr>d_versionVector := v\<rparr>), k_json = device_profile_json,
     k_item_key = ''deviceProfile'', k_deleted_key = ''deletedDeviceProfile'',
     k_state_name = ''device_profile'',
     k_active = v_deviceProfiles, k_deleted = v_deletedDeviceProfiles\<rparr>"

lemmas kind_defs = entry_kind_def tag_kind_def folder_kind_def device_profile_kind_def

definition kind_state :: "'a kind \<Rightarrow> Vault \<Rightarrow> string \<Rightarrow> 'a reviewable" where
  "kind_state k v = item_state (k_id k) (k_active k v) (k_deleted k v)"

section \<open>The review\<close>

text \<open>What \<open>JSON.stringify\<close> sees of a \<open>ReviewableEntry\<close>.\<close>

definition reviewable_json :: "'a kind \<Rightarrow> 'a reviewable \<Rightarrow> json" where
  "reviewable_json k s =
     (case s of
        Item x \<Rightarrow> JObj [(k_item_key k, k_json k x), (''state'', JStr (k_state_name k))]
      | Deleted d \<Rightarrow> JObj [(k_deleted_key k, tombstone_json d), (''state'', JStr ''deleted'')]
      | Missing \<Rightarrow> JObj [(''state'', JStr ''missing'')])"

datatype VaultSyncItemRelation = Rel_equal | Rel_remote_ahead | Rel_remote_only | Rel_broken

datatype VaultSyncReviewAction = Use_local | Use_remote

record 'a review_item =
  rv_id :: string
  rv_relation :: VaultSyncItemRelation
  rv_preselectedAction :: VaultSyncReviewAction
  rv_local :: "'a reviewable"
  rv_remote :: "'a reviewable"

text \<open>\<open>findEntry\<close>: the state of an identity; both lists holding it is an error.\<close>

definition find_item :: "'a kind \<Rightarrow> Vault \<Rightarrow> string \<Rightarrow> core_error + 'a reviewable" where
  "find_item k vault i =
     (case (find (\<lambda>x. k_id k x = i) (k_active k vault), find_deletion i (k_deleted k vault)) of
        (Some _, Some _) \<Rightarrow> Inl (InvalidVaultSyncReviewError (Review_active_and_deleted (k_name k) i))
      | (Some x, None) \<Rightarrow> Inr (Item x)
      | (None, Some d) \<Rightarrow> Inr (Deleted d)
      | (None, None) \<Rightarrow> Inr Missing)"

text \<open>The loop over the devices, with its early return at a newer local component.\<close>

fun relation_scan :: "VersionVector \<Rightarrow> VersionVector \<Rightarrow> string list \<Rightarrow> bool \<Rightarrow> VaultSyncItemRelation" where
  "relation_scan l r [] remoteHasNewerComponent =
     (if remoteHasNewerComponent then Rel_remote_ahead else Rel_broken)"
| "relation_scan l r (deviceId # ds) remoteHasNewerComponent =
     (if vv_get l deviceId > vv_get r deviceId then Rel_broken
      else relation_scan l r ds
        (if vv_get r deviceId > vv_get l deviceId then True else remoteHasNewerComponent))"

fun reviewable_vector :: "'a kind \<Rightarrow> 'a reviewable \<Rightarrow> VersionVector option" where
  "reviewable_vector k Missing = None"
| "reviewable_vector k (Item x) = Some (k_vector k x)"
| "reviewable_vector k (Deleted d) = Some (del_versionVector d)"

definition get_relation :: "'a kind \<Rightarrow> 'a reviewable \<Rightarrow> 'a reviewable \<Rightarrow> VaultSyncItemRelation" where
  "get_relation k localItem remoteItem =
     (if areJsonEqual (reviewable_json k localItem) (reviewable_json k remoteItem) then Rel_equal
      else
        case (reviewable_vector k localItem, reviewable_vector k remoteItem) of
          (None, None) \<Rightarrow> Rel_broken
        | (None, Some _) \<Rightarrow> Rel_remote_only
        | (Some _, None) \<Rightarrow> Rel_broken
        | (Some l, Some r) \<Rightarrow> relation_scan l r (js_set (vv_keys l @ vv_keys r)) False)"

definition find_all_ids :: "'a kind \<Rightarrow> Vault \<Rightarrow> Vault \<Rightarrow> string list" where
  "find_all_ids k localVault remoteVault =
     js_set (map (k_id k) (k_active k localVault) @ map (k_id k) (k_active k remoteVault) @
             map del_id (k_deleted k localVault) @ map del_id (k_deleted k remoteVault))"

text \<open>\<open>findChangedEntries\<close> over a search \<open>finder\<close>, since device profiles are searched more strictly.\<close>

definition find_changed ::
    "'a kind \<Rightarrow> (Vault \<Rightarrow> string \<Rightarrow> core_error + 'a reviewable) \<Rightarrow> Vault \<Rightarrow> Vault \<Rightarrow>
     core_error + 'a review_item list" where
  "find_changed k finder localVault remoteVault =
     rfold (\<lambda>i reviews.
         rbind (finder localVault i) (\<lambda>localItem.
         rbind (finder remoteVault i) (\<lambda>remoteItem.
         case get_relation k localItem remoteItem of
           Rel_broken \<Rightarrow> Inl (InvalidVaultSyncReviewError (Invalid_relation (k_name k) i))
         | Rel_equal \<Rightarrow> Inr reviews
         | relation \<Rightarrow> Inr (reviews @ [\<lparr>rv_id = i, rv_relation = relation,
             rv_preselectedAction = Use_remote, rv_local = localItem, rv_remote = remoteItem\<rparr>]))))
       (find_all_ids k localVault remoteVault) []"

section \<open>The four instances\<close>

definition findEntry :: "Vault \<Rightarrow> string \<Rightarrow> core_error + PasswordEntry reviewable" where
  "findEntry = find_item entry_kind"

definition getEntryRelation :: "PasswordEntry reviewable \<Rightarrow> PasswordEntry reviewable \<Rightarrow> VaultSyncItemRelation" where
  "getEntryRelation = get_relation entry_kind"

definition findAllEntriesIds :: "Vault \<Rightarrow> Vault \<Rightarrow> string list" where
  "findAllEntriesIds = find_all_ids entry_kind"

definition findChangedEntries :: "Vault \<Rightarrow> Vault \<Rightarrow> core_error + PasswordEntry review_item list" where
  "findChangedEntries = find_changed entry_kind findEntry"

definition findTag :: "Vault \<Rightarrow> string \<Rightarrow> core_error + Tag reviewable" where
  "findTag = find_item tag_kind"

definition getTagRelation :: "Tag reviewable \<Rightarrow> Tag reviewable \<Rightarrow> VaultSyncItemRelation" where
  "getTagRelation = get_relation tag_kind"

definition findAllTagsIds :: "Vault \<Rightarrow> Vault \<Rightarrow> string list" where
  "findAllTagsIds = find_all_ids tag_kind"

definition findChangedTags :: "Vault \<Rightarrow> Vault \<Rightarrow> core_error + Tag review_item list" where
  "findChangedTags = find_changed tag_kind findTag"

definition findFolder :: "Vault \<Rightarrow> string \<Rightarrow> core_error + Folder reviewable" where
  "findFolder = find_item folder_kind"

definition getFolderRelation :: "Folder reviewable \<Rightarrow> Folder reviewable \<Rightarrow> VaultSyncItemRelation" where
  "getFolderRelation = get_relation folder_kind"

definition findAllFoldersIds :: "Vault \<Rightarrow> Vault \<Rightarrow> string list" where
  "findAllFoldersIds = find_all_ids folder_kind"

definition findChangedFolders :: "Vault \<Rightarrow> Vault \<Rightarrow> core_error + Folder review_item list" where
  "findChangedFolders localVault remoteVault =
     (if \<not> areJsonEqual (tag_groups_json (v_tagGroups localVault)) (tag_groups_json (v_tagGroups remoteVault))
      then Inl (InvalidVaultSyncReviewError Tag_groups_differ)
      else find_changed folder_kind findFolder localVault remoteVault)"

definition findDeviceProfile :: "Vault \<Rightarrow> string \<Rightarrow> core_error + DeviceProfile reviewable" where
  "findDeviceProfile vault deviceId =
     (let deviceProfiles = filter (\<lambda>p. d_id p = deviceId) (v_deviceProfiles vault);
          deletedDeviceProfiles = filter (\<lambda>p. del_id p = deviceId) (v_deletedDeviceProfiles vault) in
      if length deviceProfiles > 1 \<or> length deletedDeviceProfiles > 1
      then Inl (InvalidVaultSyncReviewError (Occurs_more_than_once deviceId))
      else
        case (deviceProfiles, deletedDeviceProfiles) of
          (_ # _, _ # _) \<Rightarrow> Inl (InvalidVaultSyncReviewError (Review_active_and_deleted Device_profile_item deviceId))
        | (p # _, []) \<Rightarrow> Inr (Item p)
        | ([], d # _) \<Rightarrow> Inr (Deleted d)
        | ([], []) \<Rightarrow> Inr Missing)"

definition getDeviceProfileRelation :: "DeviceProfile reviewable \<Rightarrow> DeviceProfile reviewable \<Rightarrow> VaultSyncItemRelation" where
  "getDeviceProfileRelation = get_relation device_profile_kind"

definition findAllDeviceProfilesIds :: "Vault \<Rightarrow> Vault \<Rightarrow> string list" where
  "findAllDeviceProfilesIds = find_all_ids device_profile_kind"

definition findChangedDeviceProfiles :: "Vault \<Rightarrow> Vault \<Rightarrow> core_error + DeviceProfile review_item list" where
  "findChangedDeviceProfiles = find_changed device_profile_kind findDeviceProfile"

definition requireDeviceProfilesMatchTrust :: "Vault \<Rightarrow> string list \<Rightarrow> string list \<Rightarrow> core_error + unit" where
  "requireDeviceProfilesMatchTrust vault trustedDeviceIds historicalDeviceIds =
     rfold (\<lambda>deviceId _.
         rbind (findDeviceProfile vault deviceId) (\<lambda>profile.
         if (case profile of
               Item _ \<Rightarrow> deviceId \<notin> set trustedDeviceIds
             | Deleted _ \<Rightarrow> deviceId \<in> set trustedDeviceIds \<or> deviceId \<notin> set historicalDeviceIds
             | Missing \<Rightarrow> False)
         then Inl (InvalidVaultSyncReviewError (Profile_not_in_trust deviceId)) else Inr ()))
       (js_set (map d_id (v_deviceProfiles vault) @ map del_id (v_deletedDeviceProfiles vault))) ()"

section \<open>What the review shows to the user\<close>

record VisiblePasswordEntryFields =
  ve_id :: string
  ve_hasPassword :: bool
  ve_login :: string
  ve_tags :: "string list"
  ve_sanitizedUrl :: string
  ve_folderId :: string

definition toVisiblePasswordEntryFields :: "PasswordEntry \<Rightarrow> VisiblePasswordEntryFields" where
  "toVisiblePasswordEntryFields entry =
     \<lparr>ve_id = e_id entry, ve_hasPassword = (length (e_password entry) > 0), ve_login = e_login entry,
      ve_tags = e_tags entry, ve_sanitizedUrl = e_sanitizedUrl entry, ve_folderId = e_folderId entry\<rparr>"

datatype VisibleReviewableEntry =
    Visible_entry VisiblePasswordEntryFields
  | Visible_deleted string nat
  | Visible_missing

record VisibleEntryReviewItem =
  vr_entryId :: string
  vr_relation :: VaultSyncItemRelation
  vr_localEntry :: VisibleReviewableEntry
  vr_remoteEntry :: VisibleReviewableEntry
  vr_passwordChanged :: bool
  vr_preselectedAction :: VaultSyncReviewAction

fun toVisibleReviewableEntry :: "PasswordEntry reviewable \<Rightarrow> VisibleReviewableEntry" where
  "toVisibleReviewableEntry (Item e) = Visible_entry (toVisiblePasswordEntryFields e)"
| "toVisibleReviewableEntry (Deleted d) = Visible_deleted (del_id d) (del_deletedAt d)"
| "toVisibleReviewableEntry Missing = Visible_missing"

fun havePasswordsChanged :: "PasswordEntry reviewable \<Rightarrow> PasswordEntry reviewable \<Rightarrow> bool" where
  "havePasswordsChanged (Item l) (Item r) \<longleftrightarrow> e_password l \<noteq> e_password r"
| "havePasswordsChanged _ _ \<longleftrightarrow> False"

definition toVisibleEntryReviewItem :: "PasswordEntry review_item \<Rightarrow> VisibleEntryReviewItem" where
  "toVisibleEntryReviewItem review =
     \<lparr>vr_entryId = rv_id review, vr_relation = rv_relation review,
      vr_localEntry = toVisibleReviewableEntry (rv_local review),
      vr_remoteEntry = toVisibleReviewableEntry (rv_remote review),
      vr_passwordChanged = havePasswordsChanged (rv_local review) (rv_remote review),
      vr_preselectedAction = rv_preselectedAction review\<rparr>"

section \<open>The laws of a kind of items\<close>

text \<open>What the review and the resolution rely on: the vector can be replaced without touching the
  identity, and items with equal JSON have the same identity and the same counters.\<close>

locale item_collection =
  fixes k :: "'a kind"
  assumes id_set_vector: "k_id k (k_set_vector k w x) = k_id k x"
    and vector_set_vector: "k_vector k (k_set_vector k w x) = w"
    and json_equal: "areJsonEqual (k_json k a) (k_json k b) \<Longrightarrow>
      k_id k a = k_id k b \<and> vv_get (k_vector k a) = vv_get (k_vector k b)"
    and state_name: "k_state_name k \<noteq> ''deleted''" "k_state_name k \<noteq> ''missing''"
    and keys: "k_item_key k \<noteq> ''state''" "k_deleted_key k \<noteq> ''state''"
begin

abbreviation counters :: "'a reviewable \<Rightarrow> string \<Rightarrow> nat" where
  "counters \<equiv> state_counters (k_vector k)"

abbreviation json_equal_states :: "'a reviewable \<Rightarrow> 'a reviewable \<Rightarrow> bool" where
  "json_equal_states s t \<equiv> areJsonEqual (reviewable_json k s) (reviewable_json k t)"

lemma json_equal_states_refl: "json_equal_states s s"
  by (rule areJsonEqual_refl)

lemma json_equal_states_sym: "json_equal_states s t \<Longrightarrow> json_equal_states t s"
  by (simp add: areJsonEqual_canonical)

lemma json_equal_states_trans: "json_equal_states s t \<Longrightarrow> json_equal_states t u \<Longrightarrow> json_equal_states s u"
  by (simp add: areJsonEqual_canonical)

lemma state_member:
  "map_option toCanonicalJsonValue (map_of [(k_item_key k, a), (''state'', b)] ''state'') =
     Some (toCanonicalJsonValue b)"
  "map_option toCanonicalJsonValue (map_of [(k_deleted_key k, a), (''state'', b)] ''state'') =
     Some (toCanonicalJsonValue b)"
  using keys by simp_all

lemma json_equal_cases:
  assumes "json_equal_states s t"
  shows "(\<exists>x y. s = Item x \<and> t = Item y \<and> areJsonEqual (k_json k x) (k_json k y)) \<or>
    (\<exists>d e. s = Deleted d \<and> t = Deleted e \<and> areJsonEqual (tombstone_json d) (tombstone_json e)) \<or>
    (s = Missing \<and> t = Missing)"
proof -
  have same: "(\<exists>x y. s = Item x \<and> t = Item y) \<or> (\<exists>d e. s = Deleted d \<and> t = Deleted e) \<or> (s = Missing \<and> t = Missing)"
    using assms keys state_name
    by (cases s; cases t)
      (fastforce simp: reviewable_json_def dest: areJsonEqual_object_lookup [of _ _ "''state''"])+
  show ?thesis
  proof (cases s)
    case (Item x)
    with same obtain y where "t = Item y" by auto
    with assms Item keys show ?thesis by (simp add: reviewable_json_def areJsonEqual_same_keys)
  next
    case (Deleted d)
    with same obtain e where "t = Deleted e" by auto
    with assms Deleted keys show ?thesis by (simp add: reviewable_json_def areJsonEqual_same_keys)
  next
    case Missing
    with same show ?thesis by auto
  qed
qed

lemma json_equal_counters: "json_equal_states s t \<Longrightarrow> counters s = counters t"
  by (drule json_equal_cases) (auto simp: tombstone_json_equal_iff dest!: json_equal areJsonEqual_vv)

lemma relation_scan_iff:
  "relation_scan l r ds flag =
     (if \<exists>d \<in> set ds. vv_get l d > vv_get r d then Rel_broken
      else if flag \<or> (\<exists>d \<in> set ds. vv_get r d > vv_get l d) then Rel_remote_ahead else Rel_broken)"
  by (induction ds arbitrary: flag) auto

lemma relation_scan_all:
  "relation_scan l r (js_set (vv_keys l @ vv_keys r)) False =
     (if vv_get l < vv_get r then Rel_remote_ahead else Rel_broken)"
proof -
  have "(\<exists>d \<in> set (vv_keys l) \<union> set (vv_keys r). vv_get l d > vv_get r d) \<longleftrightarrow> \<not> vv_get l \<le> vv_get r"
    using vv_get_positive_key [of _ l] by (force simp: le_fun_def not_le)
  moreover have "(\<exists>d \<in> set (vv_keys l) \<union> set (vv_keys r). vv_get r d > vv_get l d) \<longleftrightarrow> \<not> vv_get r \<le> vv_get l"
    using vv_get_positive_key [of _ r] by (force simp: le_fun_def not_le)
  ultimately show ?thesis by (auto simp: relation_scan_iff less_le_not_le)
qed

text \<open>The relation, in terms of the order on counters.\<close>

lemma get_relation_iff:
  "get_relation k s t = Rel_equal \<longleftrightarrow> json_equal_states s t"
  "get_relation k s t = Rel_remote_only \<longleftrightarrow> s = Missing \<and> t \<noteq> Missing"
  "get_relation k s t = Rel_remote_ahead \<longleftrightarrow>
     s \<noteq> Missing \<and> t \<noteq> Missing \<and> counters s < counters t"
proof -
  have missing: "json_equal_states Missing t \<longleftrightarrow> t = Missing" "json_equal_states s Missing \<longleftrightarrow> s = Missing"
    using json_equal_cases json_equal_states_refl by blast+
  have equal: "json_equal_states s t \<Longrightarrow> \<not> counters s < counters t"
    by (simp add: json_equal_counters)
  show "get_relation k s t = Rel_equal \<longleftrightarrow> json_equal_states s t"
    by (cases s; cases t) (auto simp: get_relation_def relation_scan_all missing)
  show "get_relation k s t = Rel_remote_only \<longleftrightarrow> s = Missing \<and> t \<noteq> Missing"
    using missing by (cases s; cases t) (auto simp: get_relation_def relation_scan_all)
  show "get_relation k s t = Rel_remote_ahead \<longleftrightarrow>
     s \<noteq> Missing \<and> t \<noteq> Missing \<and> counters s < counters t"
    using missing equal by (cases s; cases t) (auto simp: get_relation_def relation_scan_all)
qed

text \<open>The row of the review for one identity.\<close>

definition review_row :: "Vault \<Rightarrow> Vault \<Rightarrow> string \<Rightarrow> 'a review_item" where
  "review_row l r i = \<lparr>rv_id = i, rv_relation = get_relation k (kind_state k l i) (kind_state k r i),
     rv_preselectedAction = Use_remote, rv_local = kind_state k l i, rv_remote = kind_state k r i\<rparr>"

lemma find_all_ids_complete:
  "i \<notin> set (find_all_ids k l r) \<Longrightarrow> kind_state k l i = Missing \<and> kind_state k r i = Missing"
  by (auto simp: find_all_ids_def kind_state_def item_state_Missing_iff)

lemma distinct_find_all_ids: "distinct (find_all_ids k l r)"
  by (simp add: find_all_ids_def)

text \<open>A search that, when it returns, returns the state of the identity.\<close>

definition sound_finder :: "(Vault \<Rightarrow> string \<Rightarrow> core_error + 'a reviewable) \<Rightarrow> bool" where
  "sound_finder finder \<longleftrightarrow> (\<forall>v i s. finder v i = Inr s \<longrightarrow> s = kind_state k v i)"

lemma sound_finderD: "sound_finder finder \<Longrightarrow> finder v i = Inr s \<Longrightarrow> s = kind_state k v i"
  by (simp add: sound_finder_def)

text \<open>A review that does not fail lists exactly the identities whose states differ.\<close>

lemma find_changed_sound:
  assumes finder: "sound_finder finder"
    and run: "find_changed k finder l r = Inr reviews"
  shows "reviews = map (review_row l r)
      (filter (\<lambda>i. get_relation k (kind_state k l i) (kind_state k r i) \<noteq> Rel_equal) (find_all_ids k l r))"
    and "\<forall>i \<in> set (find_all_ids k l r). get_relation k (kind_state k l i) (kind_state k r i) \<noteq> Rel_broken"
proof -
  let ?rel = "\<lambda>i. get_relation k (kind_state k l i) (kind_state k r i)"
  let ?body = "\<lambda>i reviews. rbind (finder l i) (\<lambda>localItem. rbind (finder r i) (\<lambda>remoteItem.
      case get_relation k localItem remoteItem of
        Rel_broken \<Rightarrow> Inl (InvalidVaultSyncReviewError (Invalid_relation (k_name k) i))
      | Rel_equal \<Rightarrow> Inr reviews
      | relation \<Rightarrow> Inr (reviews @ [\<lparr>rv_id = i, rv_relation = relation,
          rv_preselectedAction = Use_remote, rv_local = localItem, rv_remote = remoteItem\<rparr>])))"
  have body: "?rel i \<noteq> Rel_broken \<and> acc' = (if ?rel i = Rel_equal then acc else acc @ [review_row l r i])"
    if "?body i acc = Inr acc'" for i acc acc'
  proof -
    from that obtain s t where st: "finder l i = Inr s" "finder r i = Inr t"
      by (auto elim!: rbind_InrE)
    with that sound_finderD [OF finder st(1)] sound_finderD [OF finder st(2)] show ?thesis
      by (cases "?rel i") (simp_all add: review_row_def)
  qed
  have loop: "rfold ?body ids acc = Inr out \<Longrightarrow>
      out = acc @ map (review_row l r) (filter (\<lambda>i. ?rel i \<noteq> Rel_equal) ids) \<and> (\<forall>i \<in> set ids. ?rel i \<noteq> Rel_broken)"
    for ids acc out
  proof (induction ids arbitrary: acc)
    case Nil
    then show ?case by simp
  next
    case (Cons i ids)
    from Cons.prems obtain acc' where step: "?body i acc = Inr acc'" "rfold ?body ids acc' = Inr out"
      by (auto elim: rbind_InrE)
    from Cons.IH [OF step(2)] body [OF step(1)] show ?case by simp
  qed
  from run have "rfold ?body (find_all_ids k l r) [] = Inr reviews" by (simp add: find_changed_def)
  from loop [OF this]
  show "reviews = map (review_row l r) (filter (\<lambda>i. ?rel i \<noteq> Rel_equal) (find_all_ids k l r))"
    and "\<forall>i \<in> set (find_all_ids k l r). ?rel i \<noteq> Rel_broken"
    by simp_all
qed

lemma find_changed_complete:
  assumes finder: "\<And>i. finder l i = Inr (kind_state k l i)" "\<And>i. finder r i = Inr (kind_state k r i)"
    and ok: "\<forall>i \<in> set (find_all_ids k l r). get_relation k (kind_state k l i) (kind_state k r i) \<noteq> Rel_broken"
  shows "\<exists>reviews. find_changed k finder l r = Inr reviews"
proof -
  let ?body = "\<lambda>i reviews. rbind (finder l i) (\<lambda>localItem. rbind (finder r i) (\<lambda>remoteItem.
      case get_relation k localItem remoteItem of
        Rel_broken \<Rightarrow> Inl (InvalidVaultSyncReviewError (Invalid_relation (k_name k) i))
      | Rel_equal \<Rightarrow> Inr reviews
      | relation \<Rightarrow> Inr (reviews @ [\<lparr>rv_id = i, rv_relation = relation,
          rv_preselectedAction = Use_remote, rv_local = localItem, rv_remote = remoteItem\<rparr>])))"
  have "\<exists>out. rfold ?body ids acc = Inr out"
    if "\<forall>i \<in> set ids. get_relation k (kind_state k l i) (kind_state k r i) \<noteq> Rel_broken" for ids acc
    using that
  proof (induction ids arbitrary: acc)
    case Nil
    then show ?case by simp
  next
    case (Cons i ids)
    have "\<exists>acc'. ?body i acc = Inr acc'"
      using Cons.prems by (auto simp: finder split: VaultSyncItemRelation.splits)
    then obtain acc' where "?body i acc = Inr acc'" by blast
    with Cons.IH [of acc'] Cons.prems show ?case by simp
  qed
  from this [OF ok, of "[]"] show ?thesis by (simp add: find_changed_def)
qed

text \<open>Every state of an accepted review: unchanged, new at the remote, or strictly newer there.\<close>

lemma reviewed_states:
  assumes finder: "sound_finder finder"
    and run: "find_changed k finder l r = Inr reviews"
  shows "json_equal_states (kind_state k l i) (kind_state k r i) \<or>
    (kind_state k r i \<noteq> Missing \<and>
      (kind_state k l i = Missing \<or> counters (kind_state k l i) < counters (kind_state k r i)))"
proof (cases "i \<in> set (find_all_ids k l r)")
  case True
  with find_changed_sound(2) [OF finder run]
  have "get_relation k (kind_state k l i) (kind_state k r i) \<noteq> Rel_broken" by blast
  then consider "get_relation k (kind_state k l i) (kind_state k r i) = Rel_equal"
    | "get_relation k (kind_state k l i) (kind_state k r i) = Rel_remote_only"
    | "get_relation k (kind_state k l i) (kind_state k r i) = Rel_remote_ahead"
    by (cases "get_relation k (kind_state k l i) (kind_state k r i)") auto
  then show ?thesis by cases (simp_all add: get_relation_iff)
next
  case False
  from find_all_ids_complete [OF this] show ?thesis by (simp add: json_equal_states_refl)
qed

lemma reviewed_iff:
  assumes finder: "sound_finder finder"
    and run: "find_changed k finder l r = Inr reviews"
  shows "i \<in> rv_id ` set reviews \<longleftrightarrow> \<not> json_equal_states (kind_state k l i) (kind_state k r i)"
proof -
  have "rv_id ` set reviews =
      {i \<in> set (find_all_ids k l r). get_relation k (kind_state k l i) (kind_state k r i) \<noteq> Rel_equal}"
    using arg_cong [OF find_changed_sound(1) [OF finder run], of "\<lambda>xs. rv_id ` set xs"]
    by (simp add: review_row_def image_image)
  then show ?thesis
    using find_all_ids_complete [of i l r]
    by (auto simp: get_relation_iff json_equal_states_refl)
qed

lemma find_item_sound: "find_item k v i = Inr s \<Longrightarrow> s = kind_state k v i"
  by (auto simp: find_item_def kind_state_def item_state_def split: option.splits)

lemma sound_find_item: "sound_finder (find_item k)"
  by (simp add: sound_finder_def find_item_sound)

lemma find_item_ok:
  assumes "items_ok (k_id k) (k_active k v) (k_deleted k v)"
  shows "find_item k v i = Inr (kind_state k v i)"
proof -
  have "find (\<lambda>x. k_id k x = i) (k_active k v) = None \<or> find_deletion i (k_deleted k v) = None"
    using assms by (auto simp: items_ok_def find_deletion_None_iff find_id_None_iff)
  then show ?thesis
    by (auto simp: find_item_def kind_state_def item_state_def split: option.splits)
qed

end

interpretation entry: item_collection entry_kind
  by unfold_locales (auto simp: entry_kind_def entry_json_equal_iff dest: areJsonEqual_vv)

interpretation tag: item_collection tag_kind
  by unfold_locales (auto simp: tag_kind_def tag_json_equal_iff dest: areJsonEqual_vv)

interpretation folder: item_collection folder_kind
  by unfold_locales (auto simp: folder_kind_def folder_json_equal_iff dest: areJsonEqual_vv)

interpretation device_profile: item_collection device_profile_kind
  by unfold_locales (auto simp: device_profile_kind_def device_profile_json_equal_iff dest: areJsonEqual_vv)

section \<open>The stricter search for device profiles\<close>

lemma filter_id_find:
  "filter (\<lambda>x. f x = i) xs = [] \<Longrightarrow> find (\<lambda>x. f x = i) xs = None"
  "filter (\<lambda>x. f x = i) xs = y # ys \<Longrightarrow> find (\<lambda>x. f x = i) xs = Some y"
  by (induction xs) (auto split: if_splits)

lemma findDeviceProfile_sound:
  assumes "findDeviceProfile v i = Inr s"
  shows "s = kind_state device_profile_kind v i"
  using assms
  by (cases "filter (\<lambda>p. d_id p = i) (v_deviceProfiles v)";
      cases "filter (\<lambda>p. del_id p = i) (v_deletedDeviceProfiles v)")
    (auto simp: findDeviceProfile_def Let_def kind_state_def device_profile_kind_def item_state_def
      find_deletion_def dest!: filter_id_find split: if_splits)

lemma sound_findDeviceProfile: "device_profile.sound_finder findDeviceProfile"
  by (simp add: device_profile.sound_finder_def findDeviceProfile_sound)

lemma length_filter_id: "distinct (map f xs) \<Longrightarrow> length (filter (\<lambda>x. f x = i) xs) \<le> 1"
  by (induction xs) (auto simp: filter_empty_conv image_iff)

lemma findDeviceProfile_ok:
  assumes "items_ok d_id (v_deviceProfiles v) (v_deletedDeviceProfiles v)"
  shows "findDeviceProfile v i = Inr (kind_state device_profile_kind v i)"
proof -
  have "length (filter (\<lambda>p. d_id p = i) (v_deviceProfiles v)) \<le> 1"
    "length (filter (\<lambda>p. del_id p = i) (v_deletedDeviceProfiles v)) \<le> 1"
    using length_filter_id [of d_id "v_deviceProfiles v" i]
      length_filter_id [of del_id "v_deletedDeviceProfiles v" i] assms
    unfolding items_ok_def by simp_all
  moreover have "filter (\<lambda>p. d_id p = i) (v_deviceProfiles v) = [] \<or>
      filter (\<lambda>p. del_id p = i) (v_deletedDeviceProfiles v) = []"
    using assms by (auto simp: items_ok_def filter_empty_conv)
  ultimately have "\<exists>s. findDeviceProfile v i = Inr s"
    by (auto simp: findDeviceProfile_def Let_def split: list.splits)
  then show ?thesis using findDeviceProfile_sound by blast
qed

lemma findChangedFolders_Inr:
  "findChangedFolders l r = Inr reviews \<Longrightarrow> find_changed folder_kind (find_item folder_kind) l r = Inr reviews"
  by (simp add: findChangedFolders_def findFolder_def split: if_splits)

lemmas find_changed_instances = findChangedEntries_def findEntry_def findChangedTags_def findTag_def
  findChangedDeviceProfiles_def

end
