(* ===== verification/Password_Strength.thy ===== *)
theory Password_Strength
  imports Core_Errors
begin

text \<open>
  The password strength score (\<open>packages/core/src/lib/password-strength/password-strength.utils.ts\<close>).
  The generated list of common passwords is the argument \<open>dictionary\<close>; its generator promises
  lower-case entries in code-unit order. NFC normalisation is the identity on the modelled
  characters, and the Unicode classes are written out for them.
\<close>

section \<open>Constants\<close>

definition PASSWORD_STRENGTH_LENGTH_THRESHOLDS :: "nat list" where
  "PASSWORD_STRENGTH_LENGTH_THRESHOLDS = [8, 12, 16, 20]"

definition PASSWORD_STRENGTH_MAX_REPEATED_UNIT_LENGTH :: nat where
  "PASSWORD_STRENGTH_MAX_REPEATED_UNIT_LENGTH = 16"

definition PASSWORD_STRENGTH_SEQUENCE_MINIMUM_LENGTH :: nat where
  "PASSWORD_STRENGTH_SEQUENCE_MINIMUM_LENGTH = 4"

definition PASSWORD_STRENGTH_MINIMUM_MAX_SCORE_CHARACTER_CLASSES :: nat where
  "PASSWORD_STRENGTH_MINIMUM_MAX_SCORE_CHARACTER_CLASSES = 2"

definition PASSWORD_STRENGTH_MINIMUM_MAX_SCORE_UNIQUE_CHARACTERS :: nat where
  "PASSWORD_STRENGTH_MINIMUM_MAX_SCORE_UNIQUE_CHARACTERS = 5"

definition PASSWORD_STRENGTH_PREDICTABLE_SEQUENCES :: "string list" where
  "PASSWORD_STRENGTH_PREDICTABLE_SEQUENCES =
     [''0123456789'', ''9876543210'', ''abcdefghijklmnopqrstuvwxyz'', ''zyxwvutsrqponmlkjihgfedcba'',
      ''qwertyuiop'', ''poiuytrewq'', ''asdfghjkl'', ''lkjhgfdsa'', ''zxcvbnm'', ''mnbvcxz'']"

text \<open>
  \<open>part / whole >= p / q\<close> in floating point. The ratios 0.8, 0.75 and 0.5 are compared with
  quotients of lengths far below \<open>2 ^ 50\<close>, for which correctly rounded division decides the
  rational comparison; \<open>0 / 0\<close> is \<open>NaN\<close> and compares false.
\<close>

definition ratio_at_least :: "nat \<Rightarrow> nat \<Rightarrow> nat \<Rightarrow> nat \<Rightarrow> bool" where
  "ratio_at_least part whole p q \<longleftrightarrow> 0 < whole \<and> p * whole \<le> q * part"

section \<open>Character classes\<close>

definition is_letter :: "char \<Rightarrow> bool" where
  "is_letter c \<longleftrightarrow> (let n = (of_char c :: nat) in
     (65 \<le> n \<and> n \<le> 90) \<or> (97 \<le> n \<and> n \<le> 122) \<or> n \<in> {170, 181, 186} \<or>
     (192 \<le> n \<and> n \<le> 255 \<and> n \<notin> {215, 247}))"

definition is_number :: "char \<Rightarrow> bool" where
  "is_number c \<longleftrightarrow> (let n = (of_char c :: nat) in
     (48 \<le> n \<and> n \<le> 57) \<or> n \<in> {178, 179, 185, 188, 189, 190})"

text \<open>\<open>[0-9\p{P}\p{S}]\<close>: the printable characters that are neither letters, other numbers nor spaces.\<close>

definition is_suffix_char :: "char \<Rightarrow> bool" where
  "is_suffix_char c \<longleftrightarrow> (let n = (of_char c :: nat) in
     (33 \<le> n \<and> n \<le> 126 \<and> \<not> is_letter c) \<or>
     (161 \<le> n \<and> n \<le> 255 \<and> \<not> is_letter c \<and> \<not> is_number c \<and> n \<noteq> 173))"

datatype char_class = Letter | Number | Whitespace | Symbol

definition char_class :: "char \<Rightarrow> char_class" where
  "char_class c =
     (if is_letter c then Letter else if is_number c then Number
      else if is_js_space c then Whitespace else Symbol)"

definition countCharacterClasses :: "string \<Rightarrow> nat" where
  "countCharacterClasses characters = length (js_set (map char_class characters))"

section \<open>Common passwords\<close>

definition scorePasswordLength :: "nat \<Rightarrow> nat" where
  "scorePasswordLength len =
     (if len < PASSWORD_STRENGTH_LENGTH_THRESHOLDS ! 0 then 0
      else if len < PASSWORD_STRENGTH_LENGTH_THRESHOLDS ! 1 then 1
      else if len < PASSWORD_STRENGTH_LENGTH_THRESHOLDS ! 2 then 2
      else if len < PASSWORD_STRENGTH_LENGTH_THRESHOLDS ! 3 then 3
      else 4)"

function search_common :: "string list \<Rightarrow> string \<Rightarrow> int \<Rightarrow> int \<Rightarrow> bool" where
  "search_common dictionary password start finish =
     (if start \<le> finish then
        let middle = start + (finish - start) div 2;
            candidate = dictionary ! nat middle in
        if candidate = password then True
        else if candidate < password then search_common dictionary password (middle + 1) finish
        else search_common dictionary password start (middle - 1)
      else False)"
  by pat_completeness auto
termination
  by (relation "measure (\<lambda>(_, _, start, finish). nat (finish - start + 1))") auto

declare search_common.simps [simp del]

definition isCommonPassword :: "string list \<Rightarrow> string \<Rightarrow> bool" where
  "isCommonPassword dictionary password =
     search_common dictionary password 0 (int (length dictionary) - 1)"

text \<open>\<open>/[0-9\p{P}\p{S}]{1,8}$/u\<close> replaced by nothing: up to eight such characters at the end.\<close>

definition without_variant_suffix :: "string \<Rightarrow> string" where
  "without_variant_suffix password =
     (let n = min 8 (length (takeWhile is_suffix_char (rev password)))
      in take (length password - n) password)"

definition leet_substitution :: "char \<Rightarrow> char" where
  "leet_substitution c =
     (case map_of [(CHR ''0'', CHR ''o''), (CHR ''1'', CHR ''i''), (CHR ''3'', CHR ''e''),
        (CHR ''4'', CHR ''a''), (CHR ''5'', CHR ''s''), (CHR ''7'', CHR ''t''),
        (CHR ''@'', CHR ''a''), (CHR ''$'', CHR ''s'')] c of
        Some d \<Rightarrow> d | None \<Rightarrow> c)"

definition isCommonPasswordVariant :: "string list \<Rightarrow> string \<Rightarrow> bool" where
  "isCommonPasswordVariant dictionary password =
     (let withoutSuffix = without_variant_suffix password in
      if length withoutSuffix > 0 \<and> withoutSuffix \<noteq> password \<and> isCommonPassword dictionary withoutSuffix
      then True
      else
        let simplifiedPassword = map leet_substitution withoutSuffix in
        length simplifiedPassword > 0 \<and> simplifiedPassword \<noteq> password \<and>
        isCommonPassword dictionary simplifiedPassword)"

section \<open>Repetition and sequences\<close>

function repetition_scan :: "string \<Rightarrow> nat \<Rightarrow> nat \<Rightarrow> nat \<Rightarrow> bool" where
  "repetition_scan characters unitLength index repeatedRegionLength =
     (if index < length characters then
        let region = (if characters ! index = characters ! (index - unitLength)
                      then repeatedRegionLength + 1 else unitLength) in
        if region \<ge> unitLength * 2 \<and> ratio_at_least region (length characters) 4 5 then True
        else repetition_scan characters unitLength (index + 1) region
      else False)"
  by pat_completeness auto
termination
  by (relation "measure (\<lambda>(characters, _, index, _). length characters - index)") auto

declare repetition_scan.simps [simp del]

definition hasDominantRepeatedPattern :: "string \<Rightarrow> bool" where
  "hasDominantRepeatedPattern characters =
     (let maximumUnitLength = min PASSWORD_STRENGTH_MAX_REPEATED_UNIT_LENGTH (length characters div 2)
      in list_ex (\<lambda>unitLength. repetition_scan characters unitLength unitLength unitLength)
           [1..<Suc maximumUnitLength])"

definition hasLowCharacterDiversity :: "string \<Rightarrow> bool" where
  "hasLowCharacterDiversity characters \<longleftrightarrow>
     length characters \<ge> PASSWORD_STRENGTH_LENGTH_THRESHOLDS ! 3 \<and>
     length (js_set characters) < PASSWORD_STRENGTH_MINIMUM_MAX_SCORE_UNIQUE_CHARACTERS"

text \<open>The loop over neighbours: characters counted so far and the length of the current run.\<close>

fun run_lengths :: "char \<Rightarrow> string \<Rightarrow> nat \<Rightarrow> nat \<Rightarrow> nat" where
  "run_lengths previous [] repeatedCharacters runLength =
     (if runLength > 1 then repeatedCharacters + runLength else repeatedCharacters)"
| "run_lengths previous (c # cs) repeatedCharacters runLength =
     (if c = previous then run_lengths c cs repeatedCharacters (runLength + 1)
      else run_lengths c cs
        (if runLength > 1 then repeatedCharacters + runLength else repeatedCharacters) 1)"

definition hasDominantRepeatedCharacters :: "string \<Rightarrow> bool" where
  "hasDominantRepeatedCharacters characters =
     (case characters of
        [] \<Rightarrow> False
      | c # cs \<Rightarrow> ratio_at_least (run_lengths c cs 0 1) (length characters) 1 2)"

definition covered_indexes :: "string \<Rightarrow> nat list" where
  "covered_indexes characters =
     concat (map (\<lambda>start.
        let candidate = take PASSWORD_STRENGTH_SEQUENCE_MINIMUM_LENGTH (drop start characters) in
        if list_ex (\<lambda>sequence. js_includes sequence candidate) PASSWORD_STRENGTH_PREDICTABLE_SEQUENCES
        then [start..<start + PASSWORD_STRENGTH_SEQUENCE_MINIMUM_LENGTH] else [])
      [0..<Suc (length characters - PASSWORD_STRENGTH_SEQUENCE_MINIMUM_LENGTH)])"

definition hasDominantPredictableSequence :: "string \<Rightarrow> bool" where
  "hasDominantPredictableSequence characters =
     (if length characters < PASSWORD_STRENGTH_SEQUENCE_MINIMUM_LENGTH then False
      else ratio_at_least (length (js_set (covered_indexes characters))) (length characters) 3 4)"

section \<open>The score\<close>

definition calculatePasswordStrength :: "string list \<Rightarrow> string \<Rightarrow> nat" where
  "calculatePasswordStrength dictionary password =
     (let characters = password;
          canonicalPassword = js_lower password;
          baseScore = scorePasswordLength (length characters) in
      if length characters = 0 \<or> length (js_set characters) = 1 then 0
      else if isCommonPassword dictionary canonicalPassword then 0
      else if isCommonPasswordVariant dictionary canonicalPassword \<or>
        hasDominantRepeatedPattern characters \<or> hasLowCharacterDiversity characters \<or>
        hasDominantRepeatedCharacters characters \<or> hasDominantPredictableSequence canonicalPassword
      then (if baseScore = 0 then 0 else 1)
      else if baseScore = 4 \<and>
        countCharacterClasses characters < PASSWORD_STRENGTH_MINIMUM_MAX_SCORE_CHARACTER_CLASSES
      then 3
      else baseScore)"

section \<open>The binary search\<close>

lemma search_common_sound: "search_common D p s e \<Longrightarrow> 0 \<le> s \<Longrightarrow> e < int (length D) \<Longrightarrow> p \<in> set D"
proof (induction D p s e rule: search_common.induct)
  case (1 D p s e)
  let ?m = "s + (e - s) div 2"
  from 1(3) have le: "s \<le> e" by (subst (asm) search_common.simps) (auto split: if_splits)
  then have m: "s \<le> ?m" "?m \<le> e" by linarith+
  show ?case
  proof (cases "D ! nat ?m = p")
    case True
    then show ?thesis using m 1(4,5) nth_mem [of "nat ?m" D] by (auto simp: nat_less_iff)
  next
    case False
    show ?thesis
    proof (cases "D ! nat ?m < p")
      case True
      with 1(3) False le have "search_common D p (?m + 1) e"
        by (subst (asm) search_common.simps) (simp add: Let_def)
      from 1(1) [OF le refl refl False True this] m 1(4,5) show ?thesis by simp
    next
      case nless: False
      with 1(3) False le have "search_common D p s (?m - 1)"
        by (subst (asm) search_common.simps) (simp add: Let_def)
      from 1(2) [OF le refl refl False nless this] m 1(4,5) show ?thesis by simp
    qed
  qed
qed

lemma search_common_complete:
  "sorted_wrt (<) D \<Longrightarrow> 0 \<le> s \<Longrightarrow> e < int (length D) \<Longrightarrow>
     (\<exists>i. s \<le> int i \<and> int i \<le> e \<and> D ! i = p) \<Longrightarrow> search_common D p s e"
proof (induction D p s e rule: search_common.induct)
  case (1 D p s e)
  let ?m = "s + (e - s) div 2"
  from 1(6) obtain i where i: "s \<le> int i" "int i \<le> e" "D ! i = p" by auto
  then have le: "s \<le> e" by linarith
  then have m: "s \<le> ?m" "?m \<le> e" by linarith+
  have order: "D ! a < D ! b" if "a < b" "int b \<le> e" for a b
    using sorted_wrt_nth_less [OF 1(3), of a b] that 1(5) by simp
  show ?case
  proof (cases "D ! nat ?m = p")
    case True
    with le show ?thesis by (subst search_common.simps) (simp add: Let_def)
  next
    case False
    show ?thesis
    proof (cases "D ! nat ?m < p")
      case True
      have "\<not> int i \<le> ?m"
      proof
        assume "int i \<le> ?m"
        then have "i = nat ?m \<or> i < nat ?m" by linarith
        with order [of i "nat ?m"] i m True False 1(4) show False by auto
      qed
      with 1(1) [OF le refl refl False True 1(3)] i m 1(4,5)
      have "search_common D p (?m + 1) e" by fastforce
      with le False True show ?thesis by (subst search_common.simps) (simp add: Let_def)
    next
      case nless: False
      have "\<not> ?m \<le> int i"
      proof
        assume "?m \<le> int i"
        then have "i = nat ?m \<or> nat ?m < i" by linarith
        with order [of "nat ?m" i] i False nless show False by auto
      qed
      with 1(2) [OF le refl refl False nless 1(3)] i m 1(4,5)
      have "search_common D p s (?m - 1)" by fastforce
      with le False nless show ?thesis by (subst search_common.simps) (simp add: Let_def)
    qed
  qed
qed

lemma isCommonPassword_sound: "isCommonPassword D p \<Longrightarrow> p \<in> set D"
  unfolding isCommonPassword_def by (rule search_common_sound) auto

lemma isCommonPassword_complete: "sorted_wrt (<) D \<Longrightarrow> p \<in> set D \<Longrightarrow> isCommonPassword D p"
  unfolding isCommonPassword_def
  by (rule search_common_complete) (auto simp: in_set_conv_nth intro: exI)

section \<open>Periodic passwords\<close>

text \<open>In a password with a period the matching region grows to the whole password.\<close>

lemma repetition_scan_periodic:
  assumes "\<forall>i. u \<le> i \<and> i < length cs \<longrightarrow> cs ! i = cs ! (i - u)" "u \<le> index" "index < length cs"
    "2 * u \<le> length cs"
  shows "repetition_scan cs u index index"
  using assms(2,3)
proof (induction "length cs - index" arbitrary: index)
  case 0
  then show ?case by simp
next
  case (Suc k)
  from assms(1) Suc.prems have eq: "cs ! index = cs ! (index - u)" by blast
  show ?case
  proof (cases "Suc index = length cs")
    case True
    have "ratio_at_least (index + 1) (length cs) 4 5" using True Suc.prems(2) by (auto simp: ratio_at_least_def)
    moreover have "u * 2 \<le> index + 1" using True assms(4) by simp
    ultimately show ?thesis
      by (subst repetition_scan.simps) (simp only: Suc.prems(2) eq Let_def if_True simp_thms)
  next
    case False
    with Suc have "repetition_scan cs u (Suc index) (Suc index)" by simp
    with eq Suc.prems(2) show ?thesis by (subst repetition_scan.simps) (simp add: Let_def)
  qed
qed

lemma nth_concat_replicate:
  "i < length (concat (replicate k u)) \<Longrightarrow> concat (replicate k u) ! i = u ! (i mod length u)"
proof (induction k arbitrary: i)
  case 0
  then show ?case by simp
next
  case (Suc k)
  show ?case
  proof (cases "i < length u")
    case True
    then show ?thesis by (simp add: nth_append)
  next
    case False
    with Suc.prems have "i - length u < length (concat (replicate k u))" by simp
    from Suc.IH [OF this] False show ?thesis by (simp add: nth_append le_mod_geq)
  qed
qed

lemma length_concat_replicate: "length (concat (replicate k u)) = k * length u"
  by (induction k) simp_all

lemma repeated_unit_is_dominant:
  assumes "2 \<le> k" "1 \<le> length u" "length u \<le> PASSWORD_STRENGTH_MAX_REPEATED_UNIT_LENGTH"
  shows "hasDominantRepeatedPattern (concat (replicate k u))"
proof -
  let ?p = "concat (replicate k u)"
  have len: "2 * length u \<le> length ?p" using assms(1) by (simp add: length_concat_replicate)
  have "\<forall>i. length u \<le> i \<and> i < length ?p \<longrightarrow> ?p ! i = ?p ! (i - length u)"
    by (auto simp: nth_concat_replicate le_mod_geq)
  then have "repetition_scan ?p (length u) (length u) (length u)"
    using len assms(2) by (intro repetition_scan_periodic) auto
  moreover have "length u \<in> set [1..<Suc (min PASSWORD_STRENGTH_MAX_REPEATED_UNIT_LENGTH (length ?p div 2))]"
    using assms len by auto
  ultimately show ?thesis by (auto simp: hasDominantRepeatedPattern_def Let_def list_ex_iff)
qed

section \<open>The best score\<close>

lemma card_js_set: "length (js_set xs) = card (set xs)"
  by (metis distinct_card distinct_js_set set_js_set)

lemma best_score:
  assumes "calculatePasswordStrength D p = 4"
  shows "20 \<le> length p" "\<not> hasDominantRepeatedPattern p" "5 \<le> card (set p)"
    "2 \<le> card (char_class ` set p)" "\<not> isCommonPassword D (js_lower p)"
    "\<not> hasDominantRepeatedCharacters p" "\<not> hasDominantPredictableSequence (js_lower p)"
    "\<not> isCommonPasswordVariant D (js_lower p)"
proof -
  have base: "scorePasswordLength n = 4 \<longleftrightarrow> 20 \<le> n" for n
    by (simp add: scorePasswordLength_def PASSWORD_STRENGTH_LENGTH_THRESHOLDS_def)
  from assms base [of "length p"]
  have "20 \<le> length p" and diverse: "\<not> hasLowCharacterDiversity p"
    and classes: "\<not> countCharacterClasses p < PASSWORD_STRENGTH_MINIMUM_MAX_SCORE_CHARACTER_CLASSES"
    and rest: "\<not> hasDominantRepeatedPattern p" "\<not> isCommonPassword D (js_lower p)"
      "\<not> hasDominantRepeatedCharacters p" "\<not> hasDominantPredictableSequence (js_lower p)"
      "\<not> isCommonPasswordVariant D (js_lower p)"
    by (auto simp: calculatePasswordStrength_def Let_def split: if_splits)
  with rest show "20 \<le> length p" "\<not> hasDominantRepeatedPattern p" "\<not> isCommonPassword D (js_lower p)"
    "\<not> hasDominantRepeatedCharacters p" "\<not> hasDominantPredictableSequence (js_lower p)"
    "\<not> isCommonPasswordVariant D (js_lower p)"
    by simp_all
  from diverse \<open>20 \<le> length p\<close> show "5 \<le> card (set p)"
    by (simp add: hasLowCharacterDiversity_def PASSWORD_STRENGTH_LENGTH_THRESHOLDS_def card_js_set
        PASSWORD_STRENGTH_MINIMUM_MAX_SCORE_UNIQUE_CHARACTERS_def)
  from classes show "2 \<le> card (char_class ` set p)"
    by (simp add: countCharacterClasses_def card_js_set
        PASSWORD_STRENGTH_MINIMUM_MAX_SCORE_CHARACTER_CLASSES_def)
qed

lemma best_score_iff:
  "calculatePasswordStrength D p = 4 \<longleftrightarrow>
     20 \<le> length p \<and> 5 \<le> card (set p) \<and> 2 \<le> card (char_class ` set p) \<and>
     \<not> isCommonPassword D (js_lower p) \<and> \<not> isCommonPasswordVariant D (js_lower p) \<and>
     \<not> hasDominantRepeatedPattern p \<and> \<not> hasDominantRepeatedCharacters p \<and>
     \<not> hasDominantPredictableSequence (js_lower p)"
  (is "?score \<longleftrightarrow> ?tests")
proof
  assume ?score
  then show ?tests using best_score [of D p] by blast
next
  assume tests: ?tests
  have "scorePasswordLength (length p) = 4"
    using tests by (simp add: scorePasswordLength_def PASSWORD_STRENGTH_LENGTH_THRESHOLDS_def)
  moreover have "length p \<noteq> 0" "length (js_set p) \<noteq> 1" using tests by (auto simp: card_js_set)
  moreover have "\<not> hasLowCharacterDiversity p" using tests
    by (simp add: hasLowCharacterDiversity_def card_js_set
        PASSWORD_STRENGTH_MINIMUM_MAX_SCORE_UNIQUE_CHARACTERS_def)
  moreover have "\<not> countCharacterClasses p < PASSWORD_STRENGTH_MINIMUM_MAX_SCORE_CHARACTER_CLASSES" using tests
    by (simp add: countCharacterClasses_def card_js_set
        PASSWORD_STRENGTH_MINIMUM_MAX_SCORE_CHARACTER_CLASSES_def)
  ultimately show ?score using tests by (simp add: calculatePasswordStrength_def Let_def)
qed

text \<open>There are four classes, so no text has more.\<close>

instantiation char_class :: enum
begin

definition enum_char_class :: "char_class list" where
  "enum_char_class = [Letter, Number, Whitespace, Symbol]"

definition enum_all_char_class :: "(char_class \<Rightarrow> bool) \<Rightarrow> bool" where
  "enum_all_char_class P \<longleftrightarrow> P Letter \<and> P Number \<and> P Whitespace \<and> P Symbol"

definition enum_ex_char_class :: "(char_class \<Rightarrow> bool) \<Rightarrow> bool" where
  "enum_ex_char_class P \<longleftrightarrow> P Letter \<or> P Number \<or> P Whitespace \<or> P Symbol"

instance
proof
  show univ: "(UNIV :: char_class set) = set enum_class.enum"
    by (auto simp: enum_char_class_def intro: char_class.exhaust)
  show "distinct (enum_class.enum :: char_class list)" by (simp add: enum_char_class_def)
  show "enum_class.enum_all P \<longleftrightarrow> Ball UNIV P" for P :: "char_class \<Rightarrow> bool"
    unfolding univ by (simp add: enum_char_class_def enum_all_char_class_def)
  show "enum_class.enum_ex P \<longleftrightarrow> Bex UNIV P" for P :: "char_class \<Rightarrow> bool"
    unfolding univ by (simp add: enum_char_class_def enum_ex_char_class_def)
qed

end

lemma countCharacterClasses_le: "countCharacterClasses cs \<le> 4"
proof -
  have "card (char_class ` set cs) \<le> card (UNIV :: char_class set)" by (rule card_mono) simp_all
  also have "\<dots> = 4" by (simp add: UNIV_enum enum_char_class_def)
  finally show ?thesis by (simp add: countCharacterClasses_def card_js_set)
qed

end
