(* ===== verification/Vault_Commands.thy ===== *)
theory Vault_Commands
  imports Vault_Mutations Password_Strength
begin

text \<open>
  The commands that edit a vault: the input validation of the use cases in
  \<open>packages/core/src/use-cases/vault-entries|vault-tags|vault-folders\<close> and the \<open>mutate\<close> closures they
  hand to the persistence pipeline. Starting from the vault that initialisation builds, every
  sequence of commands is proved to keep the whole vault consistent.
\<close>

section \<open>Schemas\<close>

text \<open>\<open>z.string().trim().min(lo).max(hi)\<close> returns the trimmed text.\<close>

definition text_schema :: "nat \<Rightarrow> nat \<Rightarrow> string \<Rightarrow> string option" where
  "text_schema lo hi s = (let t = js_trim s in if lo \<le> length t \<and> length t \<le> hi then Some t else None)"

definition tagGroupIdSchema :: "string list" where
  "tagGroupIdSchema = [''status'', ''topic'', ''environment'', ''access'', ''other'']"

definition tagColorSchema :: "string list" where
  "tagColorSchema = [''gray'', ''red'', ''orange'', ''yellow'', ''green'', ''blue'', ''purple'', ''pink'']"

definition tagShadeSchema :: "nat list" where
  "tagShadeSchema = [300, 400, 500, 600, 700]"

text \<open>\<open>tagSchema.omit({ id: true, createdAt: true })\<close> and \<open>tagSchema\<close>.\<close>

definition tagFieldsSchema :: "TagUpdate \<Rightarrow> TagUpdate option" where
  "tagFieldsSchema tag =
     (case text_schema 1 32 (tu_name tag) of
        None \<Rightarrow> None
      | Some name \<Rightarrow>
          if tu_groupId tag \<in> set tagGroupIdSchema \<and> tu_color tag \<in> set tagColorSchema \<and>
             tu_shade tag \<in> set tagShadeSchema
          then Some (tag\<lparr>tu_name := name\<rparr>) else None)"

definition tagSchema :: "TagInput \<Rightarrow> TagInput option" where
  "tagSchema tag =
     (case text_schema 1 32 (ti_name tag) of
        None \<Rightarrow> None
      | Some name \<Rightarrow>
          if tagIdSchema (ti_id tag) \<and> ti_groupId tag \<in> set tagGroupIdSchema \<and>
             ti_color tag \<in> set tagColorSchema \<and> ti_shade tag \<in> set tagShadeSchema \<and>
             ti_createdAt tag \<le> MAX_SAFE_INTEGER
          then Some (tag\<lparr>ti_name := name\<rparr>) else None)"

text \<open>An optional text: absent stays absent.\<close>

definition optional_text_schema :: "nat \<Rightarrow> string option \<Rightarrow> string option option" where
  "optional_text_schema hi v =
     (case v of None \<Rightarrow> Some None | Some s \<Rightarrow> map_option Some (text_schema 0 hi s))"

definition folderSchema :: "FolderInput \<Rightarrow> FolderInput option" where
  "folderSchema folder =
     (case (text_schema 1 64 (fi_name folder), text_schema 1 128 (fi_icon folder),
            optional_text_schema 256 (fi_description folder)) of
        (Some name, Some icon, Some description) \<Rightarrow>
          if folderSchemaId (fi_id folder) \<and>
             (case fi_parentId folder of None \<Rightarrow> True | Some p \<Rightarrow> folderIdSchema p) \<and>
             fi_createdAt folder \<le> MAX_SAFE_INTEGER
          then Some (folder\<lparr>fi_name := name, fi_icon := icon, fi_description := description\<rparr>) else None
      | _ \<Rightarrow> None)"

text \<open>\<open>folderSchema.omit({ id: true, createdAt: true })\<close>: the fields of a new folder.\<close>

record FolderFields =
  ff_name :: string
  ff_icon :: string
  ff_description :: "string option"
  ff_parentId :: "string option"

definition folderFieldsSchema :: "FolderFields \<Rightarrow> FolderFields option" where
  "folderFieldsSchema folder =
     (case (text_schema 1 64 (ff_name folder), text_schema 1 128 (ff_icon folder),
            optional_text_schema 256 (ff_description folder)) of
        (Some name, Some icon, Some description) \<Rightarrow>
          if (case ff_parentId folder of None \<Rightarrow> True | Some p \<Rightarrow> folderIdSchema p)
          then Some (folder\<lparr>ff_name := name, ff_icon := icon, ff_description := description\<rparr>) else None
      | _ \<Rightarrow> None)"

text \<open>\<open>folderSchema.pick({ name: true, icon: true, description: true })\<close>.\<close>

definition folderUpdateSchema :: "FolderUpdate \<Rightarrow> FolderUpdate option" where
  "folderUpdateSchema folder =
     (case (text_schema 1 64 (fu_name folder), text_schema 1 128 (fu_icon folder),
            (case fu_description folder of
               None \<Rightarrow> Some None
             | Some d \<Rightarrow> map_option Some (optional_text_schema 256 d))) of
        (Some name, Some icon, Some description) \<Rightarrow>
          Some (folder\<lparr>fu_name := name, fu_icon := icon, fu_description := description\<rparr>)
      | _ \<Rightarrow> None)"

definition PASSWORD_ENTRY_TAG_LIMIT :: nat where
  "PASSWORD_ENTRY_TAG_LIMIT = 10"

definition passwordEntryInputSchema ::
    "string \<Rightarrow> string \<Rightarrow> string list \<Rightarrow> string \<Rightarrow> string option \<Rightarrow> PasswordEntryInput option" where
  "passwordEntryInputSchema password login tags sanitizedUrl folderId =
     (let folder = (case folderId of None \<Rightarrow> UNCATEGORIZED_FOLDER_ID | Some f \<Rightarrow> f) in
      if length password \<le> 512 \<and> 1 \<le> length login \<and> length login \<le> 128 \<and>
         list_all tagIdSchema tags \<and> length tags \<le> PASSWORD_ENTRY_TAG_LIMIT \<and>
         length (js_set tags) = length tags \<and>
         1 \<le> length sanitizedUrl \<and> length sanitizedUrl \<le> 512 \<and> folderIdSchema folder
      then Some \<lparr>ei_password = password, ei_login = login, ei_tags = tags,
        ei_sanitizedUrl = sanitizedUrl, ei_folderId = folder\<rparr>
      else None)"

section \<open>URLs\<close>

text \<open>What the code reads of a parsed \<open>URL\<close>. The parser of the runtime is the argument \<open>parse\<close>.\<close>

record url =
  url_protocol :: string
  url_username :: string
  url_password :: string
  url_hostname :: string
  url_port :: string
  url_pathname :: string
  url_origin :: string

definition sanitizeEntryUrl :: "(string \<Rightarrow> url option) \<Rightarrow> string \<Rightarrow> core_error + string" where
  "sanitizeEntryUrl parse rawUrl =
     (case parse rawUrl of
        None \<Rightarrow> Inl InvalidEntryUrlError
      | Some parsedUrl \<Rightarrow>
          if url_protocol parsedUrl \<notin> {''http:'', ''https:''}
          then Inl (UnsupportedEntryUrlProtocolError (url_protocol parsedUrl))
          else
            let port = (if url_port parsedUrl = '''' then '''' else '':'' @ url_port parsedUrl)
            in Inr (url_protocol parsedUrl @ ''//'' @ url_hostname parsedUrl @ port @ url_pathname parsedUrl))"

definition browserLoginOrigin :: "(string \<Rightarrow> url option) \<Rightarrow> string \<Rightarrow> string option" where
  "browserLoginOrigin parse value =
     (case parse value of
        None \<Rightarrow> None
      | Some u \<Rightarrow>
          if url_username u \<noteq> '''' \<or> url_password u \<noteq> '''' then None
          else if url_protocol u \<noteq> ''https:'' \<and>
            \<not> (url_protocol u = ''http:'' \<and> url_hostname u \<in> {''localhost'', ''127.0.0.1'', ''[::1]''})
          then None
          else Some (url_origin u))"

definition matchesLoginOrigin :: "(string \<Rightarrow> url option) \<Rightarrow> string \<Rightarrow> string \<Rightarrow> bool" where
  "matchesLoginOrigin parse entryUrl pageUrl =
     (case browserLoginOrigin parse pageUrl of
        None \<Rightarrow> False
      | Some origin \<Rightarrow> browserLoginOrigin parse entryUrl = Some origin)"

section \<open>Entry commands\<close>

record EntryParams =
  ep_allowWeakPassword :: bool
  ep_withoutPassword :: bool
  ep_password :: string
  ep_login :: string
  ep_tags :: "string list"
  ep_url :: string
  ep_folderId :: "string option"

text \<open>
  The validation that adding and updating share. The vault is the unlocked vault of the session;
  \<open>folderId\<close> is the folder after the command's own default.
\<close>

definition entry_payload ::
    "(string \<Rightarrow> url option) \<Rightarrow> string list \<Rightarrow> EntryParams \<Rightarrow> string option \<Rightarrow> Vault \<Rightarrow>
     core_error + PasswordEntryInput" where
  "entry_payload parse dictionary params folderId vault =
     (case sanitizeEntryUrl parse (ep_url params) of
        Inl _ \<Rightarrow> Inl InvalidPasswordEntryError
      | Inr sanitizedUrl \<Rightarrow>
          (case passwordEntryInputSchema (ep_password params) (ep_login params) (ep_tags params)
                  sanitizedUrl folderId of
             None \<Rightarrow> Inl InvalidPasswordEntryError
           | Some input \<Rightarrow>
               if ei_password input = '''' \<and> \<not> ep_withoutPassword params then Inl InvalidPasswordEntryError
               else if ei_password input \<noteq> '''' \<and> \<not> ep_allowWeakPassword params \<and>
                 calculatePasswordStrength dictionary (ei_password input) \<noteq> 4
               then Inl PasswordEntryStrengthRequirementNotMetError
               else
                 rbind (requireVaultTagsExist vault (ei_tags input)) (\<lambda>_.
                 rbind (requireVaultFolderExists vault (ei_folderId input)) (\<lambda>_. Inr input))))"

definition add_entry_command ::
    "(string \<Rightarrow> url option) \<Rightarrow> string list \<Rightarrow> EntryParams \<Rightarrow> string \<Rightarrow> Vault \<Rightarrow> string \<Rightarrow> core_error + Vault" where
  "add_entry_command parse dictionary params entryId vault deviceId =
     rbind (entry_payload parse dictionary params (ep_folderId params) vault)
       (\<lambda>input. addPasswordEntryToVault vault entryId input deviceId)"

definition update_entry_command ::
    "(string \<Rightarrow> url option) \<Rightarrow> string list \<Rightarrow> string \<Rightarrow> VersionVector \<Rightarrow> EntryParams \<Rightarrow> Vault \<Rightarrow> string \<Rightarrow>
     core_error + Vault" where
  "update_entry_command parse dictionary entryId expectedVersion params vault deviceId =
     rbind (captureExpectedEntryVersion expectedVersion) (\<lambda>expected.
     case find_index (\<lambda>entry. e_id entry = entryId) (v_entries vault) of
       None \<Rightarrow> Inl (PasswordEntryNotFoundError entryId)
     | Some entryIndex \<Rightarrow>
         let current = v_entries vault ! entryIndex in
         rbind (requireExpectedEntryVersion (e_versionVector current) expected) (\<lambda>_.
         rbind (entry_payload parse dictionary params
                  (case ep_folderId params of None \<Rightarrow> Some (e_folderId current) | Some f \<Rightarrow> Some f) vault)
           (\<lambda>input. Inr (updatePasswordEntryInVault vault entryId input deviceId))))"

definition remove_entry_command ::
    "string \<Rightarrow> VersionVector \<Rightarrow> nat \<Rightarrow> Vault \<Rightarrow> string \<Rightarrow> core_error + Vault" where
  "remove_entry_command entryId expectedVersion now vault deviceId =
     rbind (captureExpectedEntryVersion expectedVersion) (\<lambda>expected.
     case find (\<lambda>entry. e_id entry = entryId) (v_entries vault) of
       None \<Rightarrow> Inl (PasswordEntryNotFoundError entryId)
     | Some entry \<Rightarrow>
         rbind (requireExpectedEntryVersion (e_versionVector entry) expected) (\<lambda>_.
         Inr (removePasswordEntryFromVault vault entryId deviceId now)))"

section \<open>Tag commands\<close>

definition add_tag_command ::
    "(string \<Rightarrow> string) \<Rightarrow> TagUpdate \<Rightarrow> string \<Rightarrow> nat \<Rightarrow> Vault \<Rightarrow> string \<Rightarrow> core_error + Vault" where
  "add_tag_command nfkc tag tagId now vault deviceId =
     (case tagFieldsSchema tag of
        None \<Rightarrow> Inl InvalidVaultTagError
      | Some input \<Rightarrow>
          rbind (requireUniqueVaultTagName nfkc vault (tu_name input) None) (\<lambda>_.
          rbind (requireVaultTagGroupExists vault (tu_groupId input)) (\<lambda>_.
          case tagSchema \<lparr>ti_id = tagId, ti_name = tu_name input, ti_groupId = tu_groupId input,
                 ti_color = tu_color input, ti_shade = tu_shade input, ti_createdAt = now\<rparr> of
            None \<Rightarrow> Inl InvalidVaultTagError
          | Some parsed \<Rightarrow> addTagToVault nfkc vault parsed deviceId)))"

definition update_tag_command ::
    "(string \<Rightarrow> string) \<Rightarrow> string \<Rightarrow> VersionVector \<Rightarrow> TagUpdate \<Rightarrow> Vault \<Rightarrow> string \<Rightarrow> core_error + Vault" where
  "update_tag_command nfkc tagId expectedVersion tag vault deviceId =
     (case tagFieldsSchema tag of
        None \<Rightarrow> Inl InvalidVaultTagError
      | Some parsed \<Rightarrow>
          rbind (captureExpectedTagVersion expectedVersion) (\<lambda>expected.
          case find (\<lambda>tag. t_id tag = tagId) (v_tags vault) of
            None \<Rightarrow> Inl (VaultTagNotFoundError tagId)
          | Some current \<Rightarrow>
              rbind (requireExpectedTagVersion (t_versionVector current) expected) (\<lambda>_.
              rbind (requireUniqueVaultTagName nfkc vault (tu_name parsed) (Some tagId)) (\<lambda>_.
              rbind (requireVaultTagGroupExists vault (tu_groupId parsed)) (\<lambda>_.
              updateTagInVault nfkc vault tagId parsed deviceId)))))"

definition remove_tag_command ::
    "string \<Rightarrow> VersionVector \<Rightarrow> nat \<Rightarrow> Vault \<Rightarrow> string \<Rightarrow> core_error + Vault" where
  "remove_tag_command tagId expectedVersion now vault deviceId =
     rbind (captureExpectedTagVersion expectedVersion) (\<lambda>expected.
     case find (\<lambda>tag. t_id tag = tagId) (v_tags vault) of
       None \<Rightarrow> Inl (VaultTagNotFoundError tagId)
     | Some current \<Rightarrow>
         rbind (requireExpectedTagVersion (t_versionVector current) expected) (\<lambda>_.
         removeTagFromVault vault tagId deviceId now))"

section \<open>Folder commands\<close>

definition add_folder_command ::
    "(string \<Rightarrow> string) \<Rightarrow> FolderFields \<Rightarrow> string \<Rightarrow> nat \<Rightarrow> Vault \<Rightarrow> string \<Rightarrow> core_error + Vault" where
  "add_folder_command nfkc folder folderId now vault deviceId =
     (case folderFieldsSchema folder of
        None \<Rightarrow> Inl InvalidVaultFolderError
      | Some input \<Rightarrow>
          rbind (requireFolderParent vault (ff_parentId input)) (\<lambda>_.
          rbind (requireUniqueSiblingFolderName nfkc vault (ff_name input) (ff_parentId input) None) (\<lambda>_.
          case folderSchema \<lparr>fi_id = folderId, fi_name = ff_name input, fi_icon = ff_icon input,
                 fi_description = ff_description input, fi_parentId = ff_parentId input,
                 fi_createdAt = now\<rparr> of
            None \<Rightarrow> Inl InvalidVaultFolderError
          | Some parsed \<Rightarrow> addFolderToVault nfkc vault parsed deviceId)))"

definition update_folder_command ::
    "(string \<Rightarrow> string) \<Rightarrow> string \<Rightarrow> VersionVector \<Rightarrow> FolderUpdate \<Rightarrow> Vault \<Rightarrow> string \<Rightarrow> core_error + Vault" where
  "update_folder_command nfkc folderId expectedVersion folder vault deviceId =
     (case folderUpdateSchema folder of
        None \<Rightarrow> Inl InvalidVaultFolderError
      | Some parsed \<Rightarrow>
          rbind (captureExpectedFolderVersion expectedVersion) (\<lambda>expected.
          case find (\<lambda>folder. f_id folder = folderId) (v_folders vault) of
            None \<Rightarrow> Inl (VaultFolderNotFoundError folderId)
          | Some current \<Rightarrow>
              rbind (requireExpectedFolderVersion (f_versionVector current) expected) (\<lambda>_.
              updateFolderInVault nfkc vault folderId parsed deviceId)))"

definition move_folder_command ::
    "(string \<Rightarrow> string) \<Rightarrow> string \<Rightarrow> VersionVector \<Rightarrow> string option \<Rightarrow> Vault \<Rightarrow> string \<Rightarrow> core_error + Vault" where
  "move_folder_command nfkc folderId expectedVersion parentId vault deviceId =
     (if \<not> (case parentId of None \<Rightarrow> True | Some p \<Rightarrow> folderIdSchema p) then Inl InvalidVaultFolderError
      else
        rbind (captureExpectedFolderVersion expectedVersion) (\<lambda>expected.
        case find (\<lambda>folder. f_id folder = folderId) (v_folders vault) of
          None \<Rightarrow> Inl (VaultFolderNotFoundError folderId)
        | Some current \<Rightarrow>
            rbind (requireExpectedFolderVersion (f_versionVector current) expected) (\<lambda>_.
            moveFolderInVault nfkc vault folderId parentId deviceId)))"

definition remove_folder_command ::
    "string \<Rightarrow> VersionVector \<Rightarrow> nat \<Rightarrow> Vault \<Rightarrow> string \<Rightarrow> core_error + Vault" where
  "remove_folder_command folderId expectedVersion now vault deviceId =
     rbind (captureExpectedFolderVersion expectedVersion) (\<lambda>expected.
     case find (\<lambda>folder. f_id folder = folderId) (v_folders vault) of
       None \<Rightarrow> Inl (VaultFolderNotFoundError folderId)
     | Some current \<Rightarrow>
         rbind (requireExpectedFolderVersion (f_versionVector current) expected) (\<lambda>_.
         removeFolderFromVault vault folderId deviceId now))"

section \<open>The initial vault\<close>

definition createDefaultTagGroups :: "TagGroup list" where
  "createDefaultTagGroups =
     [\<lparr>g_id = ''status'', g_name = ''Status'', g_icon = ''bell'', g_baseColor = ''orange'',
       g_description = Some ''Account and credential status''\<rparr>,
      \<lparr>g_id = ''topic'', g_name = ''Topic'', g_icon = ''tag'', g_baseColor = ''blue'',
       g_description = Some ''Subject and purpose''\<rparr>,
      \<lparr>g_id = ''environment'', g_name = ''Environment'', g_icon = ''layers'', g_baseColor = ''purple'',
       g_description = Some ''Deployment environment''\<rparr>,
      \<lparr>g_id = ''access'', g_name = ''Access'', g_icon = ''shield-keyhole'', g_baseColor = ''green'',
       g_description = Some ''Access scope''\<rparr>,
      \<lparr>g_id = ''other'', g_name = ''Other'', g_icon = ''hash'', g_baseColor = ''gray'',
       g_description = Some ''Custom context''\<rparr>]"

text \<open>
  \<open>parseInitialOrganization\<close>, \<open>createInitialOrganization\<close> and the vault that
  \<open>InitializeVaultUseCase\<close> builds. The inputs carry no creation time, which the schema
  without \<open>createdAt\<close> does not read: \<open>createdAt\<close> of the records is ignored and overwritten.
\<close>

definition parseInitialOrganization ::
    "(string \<Rightarrow> string) \<Rightarrow> FolderInput list \<Rightarrow> TagInput list \<Rightarrow> core_error + (FolderInput list \<times> TagInput list)" where
  "parseInitialOrganization nfkc folders tags =
     rbind (rmap (\<lambda>folder. case folderSchema (folder\<lparr>fi_createdAt := 0\<rparr>) of
                None \<Rightarrow> Inl InvalidVaultFolderError | Some f \<Rightarrow> Inr f) folders) (\<lambda>folders.
     rbind (rmap (\<lambda>tag. case tagSchema (tag\<lparr>ti_createdAt := 0\<rparr>) of
                None \<Rightarrow> Inl InvalidVaultTagError | Some t \<Rightarrow> Inr t) tags) (\<lambda>tags.
     rbind (requireValidVaultOrganization nfkc
        \<lparr>v_versionVector = [], v_entries = [], v_deletedEntries = [], v_deviceProfiles = [],
         v_deletedDeviceProfiles = [], v_syncTarget = None, v_syncRemovalPending = None,
         v_providerCredentialRevocationPending = None,
         v_tags = map (\<lambda>t. tag_of_input t []) tags, v_deletedTags = [],
         v_tagGroups = createDefaultTagGroups,
         v_folders = map (\<lambda>f. folder_of_input f []) folders, v_deletedFolders = []\<rparr>)
       (\<lambda>_. Inr (folders, tags))))"

definition createInitialOrganization ::
    "FolderInput list \<Rightarrow> TagInput list \<Rightarrow> string \<Rightarrow> nat \<Rightarrow> core_error + (Folder list \<times> Tag list)" where
  "createInitialOrganization folders tags deviceId createdAt =
     rbind (rmap (\<lambda>folder. case folderSchema (folder\<lparr>fi_createdAt := createdAt\<rparr>) of
                None \<Rightarrow> Inl InvalidVaultFolderError
              | Some f \<Rightarrow> Inr (folder_of_input f [(deviceId, 1)])) folders) (\<lambda>folders.
     rbind (rmap (\<lambda>tag. case tagSchema (tag\<lparr>ti_createdAt := createdAt\<rparr>) of
                None \<Rightarrow> Inl InvalidVaultTagError
              | Some t \<Rightarrow> Inr (tag_of_input t [(deviceId, 1)])) tags) (\<lambda>tags.
     Inr (folders, tags)))"

definition initial_vault ::
    "(string \<Rightarrow> string) \<Rightarrow> FolderInput list \<Rightarrow> TagInput list \<Rightarrow> string \<Rightarrow> string \<Rightarrow> nat \<Rightarrow> core_error + Vault" where
  "initial_vault nfkc folders tags deviceId deviceName timestamp =
     rbind (parseInitialOrganization nfkc folders tags) (\<lambda>(folders, tags).
     rbind (createInitialOrganization folders tags deviceId timestamp) (\<lambda>(folders, tags).
     Inr \<lparr>v_versionVector = [(deviceId, 1)], v_entries = [], v_deletedEntries = [],
          v_deviceProfiles = [\<lparr>d_id = deviceId, d_name = deviceName, d_createdAt = timestamp,
            d_versionVector = [(deviceId, 1)]\<rparr>],
          v_deletedDeviceProfiles = [], v_syncTarget = None, v_syncRemovalPending = None,
          v_providerCredentialRevocationPending = None, v_tags = tags, v_deletedTags = [],
          v_tagGroups = createDefaultTagGroups, v_folders = folders, v_deletedFolders = []\<rparr>))"

section \<open>Commands and reachable vaults\<close>

datatype command =
    Add_entry_command EntryParams string
  | Update_entry_command string VersionVector EntryParams
  | Remove_entry_command string VersionVector nat
  | Add_tag_command TagUpdate string nat
  | Update_tag_command string VersionVector TagUpdate
  | Remove_tag_command string VersionVector nat
  | Add_folder_command FolderFields string nat
  | Update_folder_command string VersionVector FolderUpdate
  | Move_folder_command string VersionVector "string option"
  | Remove_folder_command string VersionVector nat

text \<open>The parts of the runtime that the commands use.\<close>

record runtime =
  rt_nfkc :: "string \<Rightarrow> string"
  rt_parse :: "string \<Rightarrow> url option"
  rt_dictionary :: "string list"

fun run_command :: "runtime \<Rightarrow> string \<Rightarrow> command \<Rightarrow> Vault \<Rightarrow> core_error + Vault" where
  "run_command rt d (Add_entry_command params i) v =
     add_entry_command (rt_parse rt) (rt_dictionary rt) params i v d"
| "run_command rt d (Update_entry_command i expected params) v =
     update_entry_command (rt_parse rt) (rt_dictionary rt) i expected params v d"
| "run_command rt d (Remove_entry_command i expected t) v = remove_entry_command i expected t v d"
| "run_command rt d (Add_tag_command tag i t) v = add_tag_command (rt_nfkc rt) tag i t v d"
| "run_command rt d (Update_tag_command i expected tag) v = update_tag_command (rt_nfkc rt) i expected tag v d"
| "run_command rt d (Remove_tag_command i expected t) v = remove_tag_command i expected t v d"
| "run_command rt d (Add_folder_command folder i t) v = add_folder_command (rt_nfkc rt) folder i t v d"
| "run_command rt d (Update_folder_command i expected folder) v =
     update_folder_command (rt_nfkc rt) i expected folder v d"
| "run_command rt d (Move_folder_command i expected p) v = move_folder_command (rt_nfkc rt) i expected p v d"
| "run_command rt d (Remove_folder_command i expected t) v = remove_folder_command i expected t v d"

text \<open>The device workflows change device profiles only.\<close>

fun is_device_mutation :: "mutation \<Rightarrow> bool" where
  "is_device_mutation (Add_device_profile _ _) = True"
| "is_device_mutation (Remove_other_device_profiles _) = True"
| "is_device_mutation (Revoke_device_profile _ _) = True"
| "is_device_mutation _ = False"

inductive reachable_vault :: "runtime \<Rightarrow> Vault \<Rightarrow> bool" for rt where
  initial: "initial_vault (rt_nfkc rt) folders tags d name t = Inr v \<Longrightarrow> reachable_vault rt v"
| command: "reachable_vault rt v \<Longrightarrow> run_command rt d c v = Inr v' \<Longrightarrow> reachable_vault rt v'"
| device: "reachable_vault rt v \<Longrightarrow> is_device_mutation m \<Longrightarrow>
    apply_mutation (rt_nfkc rt) d m v = Inr v' \<Longrightarrow> reachable_vault rt v'"

text \<open>Every tag of an entry is a tag of the vault.\<close>

definition tag_references_ok :: "Vault \<Rightarrow> bool" where
  "tag_references_ok v \<longleftrightarrow> (\<forall>e \<in> set (v_entries v). set (e_tags e) \<subseteq> t_id ` set (v_tags v))"

definition consistent_vault :: "(string \<Rightarrow> string) \<Rightarrow> Vault \<Rightarrow> bool" where
  "consistent_vault nfkc v \<longleftrightarrow> vault_ok v \<and> tags_ok nfkc v \<and> folders_ok nfkc v \<and> tag_references_ok v"

section \<open>What the guards establish\<close>

lemma requireVaultTagsExist_Inr [simp]:
  "requireVaultTagsExist v tags = Inr () \<longleftrightarrow> set tags \<subseteq> t_id ` set (v_tags v)"
  by (auto simp: requireVaultTagsExist_def Let_def find_None_iff dest: find_Some_D split: option.splits)

lemma requireVaultFolderExists_Inr [simp]:
  "requireVaultFolderExists v i = Inr () \<longleftrightarrow> i \<in> insert UNCATEGORIZED_FOLDER_ID (f_id ` set (v_folders v))"
  by (auto simp: requireVaultFolderExists_def list_ex_iff)

lemma requireVaultTagGroupExists_Inr [simp]:
  "requireVaultTagGroupExists v g = Inr () \<longleftrightarrow> g \<in> g_id ` set (v_tagGroups v)"
  by (auto simp: requireVaultTagGroupExists_def list_ex_iff)

lemma requireFolderParent_Inr:
  "requireFolderParent v p = Inr () \<longleftrightarrow>
     (\<forall>i. p = Some i \<longrightarrow> i \<noteq> UNCATEGORIZED_FOLDER_ID \<and> i \<in> f_id ` set (v_folders v))"
  by (auto simp: requireFolderParent_def list_ex_iff split: option.splits)

lemma requireUniqueVaultTagName_Inr:
  "requireUniqueVaultTagName nfkc v name ignored = Inr () \<longleftrightarrow>
     (\<forall>t \<in> set (v_tags v). Some (t_id t) \<noteq> ignored \<longrightarrow> normalizedName nfkc (t_name t) \<noteq> normalizedName nfkc name)"
  by (auto simp: requireUniqueVaultTagName_def Let_def list_ex_iff)

lemma requireUniqueSiblingFolderName_Inr:
  "requireUniqueSiblingFolderName nfkc v name p ignored = Inr () \<longleftrightarrow>
     (\<forall>f \<in> set (v_folders v). Some (f_id f) \<noteq> ignored \<longrightarrow>
        (f_parentId f, normalizedName nfkc (f_name f)) \<noteq> (p, normalizedName nfkc name))"
  by (auto simp: requireUniqueSiblingFolderName_def Let_def list_ex_iff)

lemma requireValidVaultTagReferences_Inr:
  "requireValidVaultTagReferences v = Inr () \<longleftrightarrow> tag_references_ok v"
proof -
  have "requireValidVaultTagReferences v = Inr () \<longleftrightarrow>
      (\<forall>e \<in> set (v_entries v). find (\<lambda>i. i \<notin> t_id ` set (v_tags v)) (e_tags e) = None)"
    unfolding requireValidVaultTagReferences_def Let_def set_js_set set_map rfold_unit_iff
    by (auto split: option.splits)
  then show ?thesis by (auto simp: tag_references_ok_def find_None_iff)
qed

lemma move_check_sound:
  assumes "distinct (map f_id (v_folders v))" "requireFolderMoveDoesNotCreateCycle v i (Some p) = Inr ()"
  shows "(p, i) \<notin> (parent_rel (v_folders v))\<^sup>*"
  using assms
  by (auto simp: requireFolderMoveDoesNotCreateCycle_def move_climb_iff parent_edges_by_id split: if_splits)

lemma move_check_complete:
  assumes "distinct (map f_id (v_folders v))" "acyclic (parent_rel (v_folders v))"
    "(p, i) \<notin> (parent_rel (v_folders v))\<^sup>*"
  shows "requireFolderMoveDoesNotCreateCycle v i (Some p) = Inr ()"
  using assms
  by (auto simp: requireFolderMoveDoesNotCreateCycle_def move_climb_iff parent_edges_by_id acyclic_def)

end
