(* ===== verification/Vault_Consistency.thy ===== *)
theory Vault_Consistency
  imports Vault_Commands
begin

text \<open>
  Every vault that initialisation and commands can produce is consistent: the invariant of the
  policies in \<open>Vault_Organization\<close>, the tag references of entries, and the well-formedness of the
  item collections hold after every command, although each command checks only what it touches.
\<close>

section \<open>Tags\<close>

lemma tags_ok_cong:
  "v_tags v' = v_tags v \<Longrightarrow> v_deletedTags v' = v_deletedTags v \<Longrightarrow> v_tagGroups v' = v_tagGroups v \<Longrightarrow>
     tags_ok nfkc v' = tags_ok nfkc v"
  by (simp add: tags_ok_def)

lemma tags_ok_add:
  assumes "tags_ok nfkc v" "addTagToVault nfkc v input d = Inr v'" "tagIdSchema (ti_id input)"
    "ti_groupId input \<in> g_id ` set (v_tagGroups v)"
  shows "tags_ok nfkc v'"
  using assms by (auto simp: add_tag_Inr tags_ok_def requireUniqueVaultTagName_Inr without_deletion_def distinct_map_filter)

lemma tags_ok_update:
  assumes ok: "tags_ok nfkc v" and upd: "updateTagInVault nfkc v i input d = Inr v'"
    and group: "tu_groupId input \<in> g_id ` set (v_tagGroups v)"
  shows "tags_ok nfkc v'"
proof (cases "find_index (\<lambda>t. t_id t = i) (v_tags v)")
  case None
  with upd ok show ?thesis by (simp add: updateTagInVault_def)
next
  case (Some n)
  from find_index_Some [OF Some] have n: "n < length (v_tags v)" "t_id (v_tags v ! n) = i" by auto
  define y where "y = (v_tags v ! n)\<lparr>t_name := tu_name input, t_groupId := tu_groupId input,
    t_color := tu_color input, t_shade := tu_shade input,
    t_versionVector := incrementVersionVector (t_versionVector (v_tags v ! n)) d\<rparr>"
  have y: "t_id y = i" "t_name y = tu_name input" "t_groupId y = tu_groupId input"
    using n by (simp_all add: y_def)
  from upd Some have unique: "requireUniqueVaultTagName nfkc v (tu_name input) (Some i) = Inr ()"
    and v': "v_tags v' = (v_tags v)[n := y]" "v_deletedTags v' = v_deletedTags v" "v_tagGroups v' = v_tagGroups v"
    by (auto simp: updateTagInVault_def Let_def rbind_eq_Inr_iff y_def)
  have dist: "distinct (map t_id (v_tags v))" "distinct (map (normalizedName nfkc \<circ> t_name) (v_tags v))"
    using ok by (simp_all add: tags_ok_def)
  have "map t_id ((v_tags v)[n := y]) = map t_id (v_tags v)"
    using n y by (intro map_list_update_same) simp
  moreover have "distinct (map (normalizedName nfkc \<circ> t_name) ((v_tags v)[n := y]))"
    using unique y by (intro distinct_map_update_id [OF dist(1) Some dist(2)])
      (auto simp: requireUniqueVaultTagName_Inr)
  moreover have "\<forall>t \<in> set ((v_tags v)[n := y]). t_groupId t \<in> g_id ` set (v_tagGroups v)"
    using ok group y by (auto simp: set_update_id [OF dist(1) Some] tags_ok_def)
  ultimately show ?thesis
    using ok unfolding tags_ok_def v' by (simp only: set_map [symmetric]) simp
qed

lemma tags_ok_remove:
  assumes ok: "tags_ok nfkc v" and rm: "removeTagFromVault v i d t = Inr v'"
  shows "tags_ok nfkc v'"
proof (cases "find (\<lambda>t. t_id t = i) (v_tags v)")
  case None
  with rm ok show ?thesis by (simp add: removeTagFromVault_def)
next
  case (Some tag)
  then have tag: "tag \<in> set (v_tags v)" "t_id tag = i" by (auto dest: find_Some_D)
  obtain tomb where v': "v_tags v' = filter (\<lambda>t. t_id t \<noteq> i) (v_tags v)" "v_tagGroups v' = v_tagGroups v"
    "v_deletedTags v' = without_deletion i (v_deletedTags v) @ [tomb]" "del_id tomb = i"
    using rm Some by (auto simp: removeTagFromVault_def Let_def split: if_splits)
  have "items_ok t_id (v_tags v) (v_deletedTags v)" using ok by (simp add: tags_ok_def items_ok_def)
  from items_ok_removed [OF this v'(4)] show ?thesis
    using ok tag unfolding tags_ok_def items_ok_def v'
    by (auto simp: distinct_map_filter v'(4))
qed

section \<open>Tag references of entries\<close>

lemma tag_references_update_tag:
  assumes "tag_references_ok v" "updateTagInVault nfkc v i input d = Inr v'"
  shows "tag_references_ok v'"
proof (cases "find_index (\<lambda>t. t_id t = i) (v_tags v)")
  case None
  with assms show ?thesis by (simp add: updateTagInVault_def)
next
  case (Some n)
  from find_index_Some [OF Some] have n: "n < length (v_tags v)" by auto
  let ?c = "v_tags v ! n"
  from assms(2) Some have v': "v_entries v' = v_entries v"
    "map t_id (v_tags v') = map t_id (v_tags v)"
    using n by (auto simp: updateTagInVault_def Let_def rbind_eq_Inr_iff intro!: map_list_update_same)
  from v'(2) have "t_id ` set (v_tags v') = t_id ` set (v_tags v)" by (metis set_map)
  with assms(1) v'(1) show ?thesis by (simp add: tag_references_ok_def)
qed

lemma tag_references_remove_tag:
  assumes "tag_references_ok v" "removeTagFromVault v i d t = Inr v'"
  shows "tag_references_ok v'"
proof (cases "find (\<lambda>t. t_id t = i) (v_tags v)")
  case None
  with assms show ?thesis by (simp add: removeTagFromVault_def)
next
  case (Some tag)
  with assms(2) have unused: "\<forall>e \<in> set (v_entries v). i \<notin> set (e_tags e)"
    and v': "v_entries v' = v_entries v" "v_tags v' = filter (\<lambda>t. t_id t \<noteq> i) (v_tags v)"
    by (auto simp: removeTagFromVault_def Let_def filter_empty_conv split: if_splits)
  show ?thesis unfolding tag_references_ok_def
  proof (intro ballI subsetI)
    fix e x assume e: "e \<in> set (v_entries v')" "x \<in> set (e_tags e)"
    with assms(1) v' have "x \<in> t_id ` set (v_tags v)" by (auto simp: tag_references_ok_def)
    moreover have "x \<noteq> i" using unused e v' by auto
    ultimately show "x \<in> t_id ` set (v_tags v')" using v' by auto
  qed
qed

section \<open>Folders\<close>

lemma folders_ok_cong:
  "v_folders v' = v_folders v \<Longrightarrow> v_deletedFolders v' = v_deletedFolders v \<Longrightarrow>
     (\<forall>e \<in> set (v_entries v'). e_folderId e \<in> insert UNCATEGORIZED_FOLDER_ID (f_id ` set (v_folders v))) \<Longrightarrow>
     folders_ok nfkc v \<Longrightarrow> folders_ok nfkc v'"
  by (simp add: folders_ok_def)

lemma parent_rel_Cons: "parent_rel (f # fs) =
    (case f_parentId f of None \<Rightarrow> {} | Some p \<Rightarrow> {(f_id f, p)}) \<union> parent_rel fs"
  by (auto simp: parent_rel_def split: option.splits)

lemma parent_rel_append: "parent_rel (fs @ gs) = parent_rel fs \<union> parent_rel gs"
  by (auto simp: parent_rel_def)

lemma parent_rel_Nil [simp]: "parent_rel [] = {}"
  by (simp add: parent_rel_def)

lemma parent_rel_cong: "set fs = set gs \<Longrightarrow> parent_rel fs = parent_rel gs"
  by (simp add: parent_rel_def)

text \<open>Replacing a folder replaces the edge that leaves it.\<close>

lemma parent_rel_update:
  assumes "distinct (map f_id fs)" "find_index (\<lambda>f. f_id f = i) fs = Some n" "f_id y = i"
  shows "parent_rel (fs[n := y]) =
    (case f_parentId y of None \<Rightarrow> {} | Some p \<Rightarrow> {(i, p)}) \<union> {e \<in> parent_rel fs. fst e \<noteq> i}"
  using assms(3) by (auto simp: parent_rel_def set_update_id [OF assms(1,2)] split: option.splits)

text \<open>A path to \<open>i\<close> can be cut at its first arrival at \<open>i\<close>.\<close>

lemma path_without_leaving:
  "(p, i) \<in> R\<^sup>* \<Longrightarrow> (p, i) \<in> {e \<in> R. fst e \<noteq> i}\<^sup>*"
proof (induction rule: converse_rtrancl_induct)
  case base
  show ?case by simp
next
  case (step a b)
  then show ?case by (cases "a = i") (auto intro: converse_rtrancl_into_rtrancl)
qed

lemma acyclic_redirect:
  assumes "acyclic R"
  shows "acyclic (insert (i, p) {e \<in> R. fst e \<noteq> i}) \<longleftrightarrow> (p, i) \<notin> R\<^sup>*"
proof -
  have sub: "{e \<in> R. fst e \<noteq> i} \<subseteq> R" by auto
  then have "acyclic {e \<in> R. fst e \<noteq> i}" using assms by (rule acyclic_subset [rotated])
  moreover have "(p, i) \<in> {e \<in> R. fst e \<noteq> i}\<^sup>* \<longleftrightarrow> (p, i) \<in> R\<^sup>*"
    using path_without_leaving [of p i R] rtrancl_mono [OF sub] by blast
  ultimately show ?thesis unfolding acyclic_insert by blast
qed

lemma acyclic_new_source:
  assumes "acyclic R" "i \<notin> snd ` R" "i \<noteq> p"
  shows "acyclic (insert (i, p) R)"
proof -
  have "(p, i) \<notin> R\<^sup>*"
  proof
    assume "(p, i) \<in> R\<^sup>*"
    then show False
    proof (cases rule: rtranclE)
      case base
      with assms(3) show False by simp
    next
      case (step y)
      with assms(2) show False by force
    qed
  qed
  with assms(1) show ?thesis unfolding acyclic_insert by blast
qed

lemma folders_ok_add:
  assumes ok: "folders_ok nfkc v" and add: "addFolderToVault nfkc v input d = Inr v'"
    and id: "folderSchemaId (fi_id input)"
  shows "folders_ok nfkc v'"
proof -
  from add have new: "fi_id input \<notin> f_id ` set (v_folders v)"
    and par: "\<And>p. fi_parentId input = Some p \<Longrightarrow> p \<in> f_id ` set (v_folders v)"
    and unique: "requireUniqueSiblingFolderName nfkc v (fi_name input) (fi_parentId input) None = Inr ()"
    by (auto simp: add_folder_Inr requireFolderParent_Inr)
  obtain w where v': "v_folders v' = v_folders v @ [folder_of_input input w]"
    "v_deletedFolders v' = without_deletion (fi_id input) (v_deletedFolders v)" "v_entries v' = v_entries v"
    using add by (auto simp: add_folder_Inr)
  have rel: "parent_rel (v_folders v') = (case fi_parentId input of None \<Rightarrow> {} | Some p \<Rightarrow> {(fi_id input, p)}) \<union>
      parent_rel (v_folders v)"
    by (cases "fi_parentId input") (simp_all add: v' parent_rel_append parent_rel_Cons)
  have targets: "p \<in> f_id ` set (v_folders v)" if "(c, p) \<in> parent_rel (v_folders v)" for c p
    using that ok by (auto simp: folders_ok_def)
  have "acyclic (parent_rel (v_folders v'))"
  proof (cases "fi_parentId input")
    case None
    with ok show ?thesis by (simp add: rel folders_ok_def)
  next
    case (Some p)
    have "fi_id input \<noteq> p" using par [OF Some] new by auto
    moreover have "fi_id input \<notin> snd ` parent_rel (v_folders v)" using targets new by auto
    ultimately have "acyclic (insert (fi_id input, p) (parent_rel (v_folders v)))"
      using ok by (intro acyclic_new_source) (simp_all add: folders_ok_def)
    with Some show ?thesis by (simp add: rel)
  qed
  moreover have "\<forall>(c, p) \<in> parent_rel (v_folders v'). p \<in> f_id ` set (v_folders v')"
    using targets par by (auto simp: v' parent_rel_append parent_rel_Cons split: option.splits)
  ultimately show ?thesis
    using ok new id unique
    by (auto simp: folders_ok_def v' without_deletion_def distinct_map_filter requireUniqueSiblingFolderName_Inr)
qed

text \<open>Replacing a folder in place, with its parent as the only open point.\<close>

lemma folders_ok_replace:
  assumes ok: "folders_ok nfkc v"
    and n: "find_index (\<lambda>f. f_id f = i) (v_folders v) = Some n" and y: "f_id y = i"
    and v': "v_folders v' = (v_folders v)[n := y]" "v_deletedFolders v' = v_deletedFolders v"
      "v_entries v' = v_entries v"
    and unique: "requireUniqueSiblingFolderName nfkc v (f_name y) (f_parentId y) (Some i) = Inr ()"
    and par: "\<And>p. f_parentId y = Some p \<Longrightarrow> p \<in> f_id ` set (v_folders v) \<and> (p, i) \<notin> (parent_rel (v_folders v))\<^sup>*"
  shows "folders_ok nfkc v'"
proof -
  have dist: "distinct (map f_id (v_folders v))"
    and dist2: "distinct (map (\<lambda>f. (f_parentId f, normalizedName nfkc (f_name f))) (v_folders v))"
    using ok by (simp_all add: folders_ok_def)
  have ids: "map f_id ((v_folders v)[n := y]) = map f_id (v_folders v)"
    using find_index_Some [OF n] y by (intro map_list_update_same) auto
  then have idset: "f_id ` set ((v_folders v)[n := y]) = f_id ` set (v_folders v)" by (metis set_map)
  have names: "distinct (map (\<lambda>f. (f_parentId f, normalizedName nfkc (f_name f))) ((v_folders v)[n := y]))"
    using unique by (intro distinct_map_update_id [OF dist n dist2]) (auto simp: requireUniqueSiblingFolderName_Inr)
  note rel = parent_rel_update [OF dist n y]
  have "acyclic (parent_rel ((v_folders v)[n := y]))"
  proof (cases "f_parentId y")
    case None
    with ok show ?thesis by (auto simp: rel folders_ok_def intro: acyclic_subset)
  next
    case (Some p)
    have "acyclic (insert (i, p) {e \<in> parent_rel (v_folders v). fst e \<noteq> i})"
      using ok par [OF Some] by (subst acyclic_redirect) (simp_all add: folders_ok_def)
    with Some show ?thesis by (simp add: rel)
  qed
  moreover have "\<forall>(c, p) \<in> parent_rel ((v_folders v)[n := y]). p \<in> f_id ` set (v_folders v)"
    using ok par by (auto simp: rel folders_ok_def split: option.splits)
  ultimately show ?thesis
    using ok names unfolding folders_ok_def v' ids idset by blast
qed

lemma folders_ok_update:
  assumes ok: "folders_ok nfkc v" and upd: "updateFolderInVault nfkc v i input d = Inr v'"
  shows "folders_ok nfkc v'"
proof (cases "find_index (\<lambda>f. f_id f = i) (v_folders v)")
  case None
  with assms show ?thesis by (simp add: updateFolderInVault_def)
next
  case (Some n)
  from find_index_Some [OF Some] have n: "n < length (v_folders v)" "f_id (v_folders v ! n) = i" by auto
  have dist: "distinct (map f_id (v_folders v))" using ok by (simp add: folders_ok_def)
  have edge: "p \<in> f_id ` set (v_folders v) \<and> (p, i) \<notin> (parent_rel (v_folders v))\<^sup>*"
    if "f_parentId (v_folders v ! n) = Some p" for p
  proof -
    from that n have e: "(i, p) \<in> parent_rel (v_folders v)" by (force simp: parent_rel_def)
    with ok show ?thesis by (auto simp: folders_ok_def acyclic_def dest: rtrancl_into_trancl2)
  qed
  obtain y where y: "v_folders v' = (v_folders v)[n := y]" "f_id y = i" "f_name y = fu_name input"
      "f_parentId y = f_parentId (v_folders v ! n)"
    and v': "v_deletedFolders v' = v_deletedFolders v" "v_entries v' = v_entries v"
    and unique: "requireUniqueSiblingFolderName nfkc v (fu_name input) (f_parentId (v_folders v ! n)) (Some i) = Inr ()"
    using upd Some n by (auto simp: updateFolderInVault_def Let_def rbind_eq_Inr_iff)
  show ?thesis
    by (rule folders_ok_replace [OF ok Some y(2,1) v']) (use y edge unique in auto)
qed

lemma folders_ok_move:
  assumes ok: "folders_ok nfkc v" and mv: "moveFolderInVault nfkc v i p d = Inr v'"
  shows "folders_ok nfkc v'"
proof (cases "find_index (\<lambda>f. f_id f = i) (v_folders v)")
  case None
  with assms show ?thesis by (simp add: moveFolderInVault_def)
next
  case (Some n)
  from find_index_Some [OF Some] have n: "n < length (v_folders v)" "f_id (v_folders v ! n) = i" by auto
  have dist: "distinct (map f_id (v_folders v))" using ok by (simp add: folders_ok_def)
  obtain y where y: "v_folders v' = (v_folders v)[n := y]" "f_id y = i" "f_name y = f_name (v_folders v ! n)"
      "f_parentId y = p"
    and v': "v_deletedFolders v' = v_deletedFolders v" "v_entries v' = v_entries v"
    and par: "requireFolderParent v p = Inr ()" "requireFolderMoveDoesNotCreateCycle v i p = Inr ()"
      "requireUniqueSiblingFolderName nfkc v (f_name (v_folders v ! n)) p (Some i) = Inr ()"
    using mv Some n by (auto simp: moveFolderInVault_def Let_def rbind_eq_Inr_iff)
  show ?thesis
    by (rule folders_ok_replace [OF ok Some y(2,1) v'])
      (use y par move_check_sound [OF dist] in \<open>auto simp: requireFolderParent_Inr\<close>)
qed

lemma folders_ok_remove:
  assumes ok: "folders_ok nfkc v" and rm: "removeFolderFromVault v i d t = Inr v'"
  shows "folders_ok nfkc v'"
proof (cases "find (\<lambda>f. f_id f = i) (v_folders v)")
  case None
  with assms show ?thesis by (simp add: removeFolderFromVault_def)
next
  case (Some f)
  with rm have empty: "\<forall>e \<in> set (v_entries v). e_folderId e \<noteq> i"
      "\<forall>f \<in> set (v_folders v). f_parentId f \<noteq> Some i"
    by (auto simp: removeFolderFromVault_def Let_def filter_empty_conv split: if_splits)
  obtain tomb where v': "v_folders v' = filter (\<lambda>f. f_id f \<noteq> i) (v_folders v)"
    "v_deletedFolders v' = without_deletion i (v_deletedFolders v) @ [tomb]" "v_entries v' = v_entries v"
    "del_id tomb = i"
    using rm Some by (auto simp: removeFolderFromVault_def Let_def split: if_splits)
  have f: "f \<in> set (v_folders v)" "f_id f = i" using Some by (auto dest: find_Some_D)
  have sub: "parent_rel (v_folders v') \<subseteq> parent_rel (v_folders v)"
    by (auto simp: parent_rel_def v')
  have "\<forall>(c, p) \<in> parent_rel (v_folders v'). p \<in> f_id ` set (v_folders v')"
    using ok empty(2) by (fastforce simp: parent_rel_def v' folders_ok_def)
  moreover have "acyclic (parent_rel (v_folders v'))"
    using ok sub by (auto simp: folders_ok_def intro: acyclic_subset)
  moreover have "\<forall>e \<in> set (v_entries v'). e_folderId e \<in> insert UNCATEGORIZED_FOLDER_ID (f_id ` set (v_folders v'))"
    using ok empty(1) by (fastforce simp: folders_ok_def v')
  ultimately show ?thesis
    using ok f
    by (auto simp: folders_ok_def v' without_deletion_def distinct_map_filter)
qed

section \<open>Commands\<close>

lemma tagSchema_Some:
  "tagSchema t = Some t' \<Longrightarrow> t' = t\<lparr>ti_name := js_trim (ti_name t)\<rparr> \<and> tagIdSchema (ti_id t)"
  by (auto simp: tagSchema_def text_schema_def Let_def split: option.splits if_splits)

lemma folderSchema_Some:
  "folderSchema f = Some f' \<Longrightarrow>
     fi_id f' = fi_id f \<and> fi_name f' = js_trim (fi_name f) \<and> fi_parentId f' = fi_parentId f \<and>
     folderSchemaId (fi_id f)"
  by (auto simp: folderSchema_def text_schema_def Let_def split: option.splits if_splits)

lemma entry_payload_Inr:
  "entry_payload parse D params fid v = Inr input \<Longrightarrow>
     set (ei_tags input) \<subseteq> t_id ` set (v_tags v) \<and>
     ei_folderId input \<in> insert UNCATEGORIZED_FOLDER_ID (f_id ` set (v_folders v))"
  by (auto simp: entry_payload_def rbind_eq_Inr_iff split: sum.splits option.splits if_splits)

text \<open>Each command is one mutation, applied to an input that its guards have checked.\<close>

lemma consistent_add_entry:
  assumes ok: "consistent_vault nfkc v" and add: "addPasswordEntryToVault v i input d = Inr v'"
    and "set (ei_tags input) \<subseteq> t_id ` set (v_tags v)"
    and "ei_folderId input \<in> insert UNCATEGORIZED_FOLDER_ID (f_id ` set (v_folders v))"
  shows "consistent_vault nfkc v'"
proof -
  have "vault_ok v'" using ok add vault_ok_mutation [of v nfkc d "Add_entry i input"]
    by (simp add: consistent_vault_def)
  with assms show ?thesis
    by (auto simp: consistent_vault_def add_entry_Inr tag_references_ok_def tags_ok_def folders_ok_def)
qed

lemma set_update_in: "x \<in> set (xs[n := y]) \<Longrightarrow> x = y \<or> x \<in> set xs"
  using set_update_subset_insert by fastforce

lemma consistent_update_entry:
  assumes ok: "consistent_vault nfkc v"
    and "set (ei_tags input) \<subseteq> t_id ` set (v_tags v)"
    and "ei_folderId input \<in> insert UNCATEGORIZED_FOLDER_ID (f_id ` set (v_folders v))"
  shows "consistent_vault nfkc (updatePasswordEntryInVault v i input d)"
proof -
  let ?v = "updatePasswordEntryInVault v i input d"
  have "vault_ok ?v"
    using ok vault_ok_mutation [of v nfkc d "Update_entry i input"] by (simp add: consistent_vault_def)
  moreover have entries: "e \<in> set (v_entries v) \<or> (e_tags e = ei_tags input \<and> e_folderId e = ei_folderId input)"
    if "e \<in> set (v_entries ?v)" for e
    using that by (auto simp: updatePasswordEntryInVault_def Let_def dest!: set_update_in split: option.splits)
  have "tag_references_ok ?v"
    unfolding tag_references_ok_def frame_simps
  proof
    fix e assume "e \<in> set (v_entries ?v)"
    from entries [OF this] show "set (e_tags e) \<subseteq> t_id ` set (v_tags v)"
      using ok assms(2) by (auto simp: consistent_vault_def tag_references_ok_def)
  qed
  moreover have "folders_ok nfkc ?v"
  proof (rule folders_ok_cong [where v = v])
    show "\<forall>e \<in> set (v_entries ?v). e_folderId e \<in> insert UNCATEGORIZED_FOLDER_ID (f_id ` set (v_folders v))"
    proof
      fix e assume "e \<in> set (v_entries ?v)"
      from entries [OF this] show "e_folderId e \<in> insert UNCATEGORIZED_FOLDER_ID (f_id ` set (v_folders v))"
        using ok assms(3) by (auto simp: consistent_vault_def folders_ok_def)
    qed
  qed (use ok in \<open>simp_all add: frame_simps consistent_vault_def\<close>)
  moreover have "tags_ok nfkc ?v"
    using ok tags_ok_cong [of ?v v nfkc] by (simp add: frame_simps consistent_vault_def)
  ultimately show ?thesis by (simp add: consistent_vault_def)
qed

lemma consistent_remove_entry:
  assumes ok: "consistent_vault nfkc v"
  shows "consistent_vault nfkc (removePasswordEntryFromVault v i d t)"
proof -
  have "vault_ok (removePasswordEntryFromVault v i d t)"
    using ok vault_ok_mutation [of v nfkc d "Remove_entry i t"] by (simp add: consistent_vault_def)
  moreover have "set (v_entries (removePasswordEntryFromVault v i d t)) \<subseteq> set (v_entries v)"
    by (auto simp: removePasswordEntryFromVault_def Let_def split: option.splits)
  ultimately show ?thesis
    using assms
    by (auto simp: consistent_vault_def tag_references_ok_def tags_ok_def folders_ok_def frame_simps)
qed

text \<open>Tag and folder mutations leave the other collections and the entries alone.\<close>

lemma tag_mutation_frame:
  "addTagToVault nfkc v ti d = Inr v' \<Longrightarrow> v_folders v' = v_folders v \<and>
     v_deletedFolders v' = v_deletedFolders v \<and> v_entries v' = v_entries v"
  "updateTagInVault nfkc v i tu d = Inr v' \<Longrightarrow> v_folders v' = v_folders v \<and>
     v_deletedFolders v' = v_deletedFolders v \<and> v_entries v' = v_entries v"
  "removeTagFromVault v i d t = Inr v' \<Longrightarrow> v_folders v' = v_folders v \<and>
     v_deletedFolders v' = v_deletedFolders v \<and> v_entries v' = v_entries v"
  by (auto simp: add_tag_Inr updateTagInVault_def removeTagFromVault_def Let_def rbind_eq_Inr_iff
      split: option.splits if_splits)

lemma folder_mutation_frame:
  "addFolderToVault nfkc v fi d = Inr v' \<Longrightarrow> v_tags v' = v_tags v \<and> v_deletedTags v' = v_deletedTags v \<and>
     v_tagGroups v' = v_tagGroups v \<and> v_entries v' = v_entries v"
  "updateFolderInVault nfkc v i fu d = Inr v' \<Longrightarrow> v_tags v' = v_tags v \<and> v_deletedTags v' = v_deletedTags v \<and>
     v_tagGroups v' = v_tagGroups v \<and> v_entries v' = v_entries v"
  "moveFolderInVault nfkc v i p d = Inr v' \<Longrightarrow> v_tags v' = v_tags v \<and> v_deletedTags v' = v_deletedTags v \<and>
     v_tagGroups v' = v_tagGroups v \<and> v_entries v' = v_entries v"
  "removeFolderFromVault v i d t = Inr v' \<Longrightarrow> v_tags v' = v_tags v \<and> v_deletedTags v' = v_deletedTags v \<and>
     v_tagGroups v' = v_tagGroups v \<and> v_entries v' = v_entries v"
  by (auto simp: add_folder_Inr updateFolderInVault_def moveFolderInVault_def removeFolderFromVault_def
      Let_def rbind_eq_Inr_iff split: option.splits if_splits)

lemma consistent_tag_change:
  assumes "consistent_vault nfkc v" "vault_ok v'" "tags_ok nfkc v'" "tag_references_ok v'"
    "v_folders v' = v_folders v \<and> v_deletedFolders v' = v_deletedFolders v \<and> v_entries v' = v_entries v"
  shows "consistent_vault nfkc v'"
  using assms by (simp add: consistent_vault_def folders_ok_def)

lemma consistent_folder_change:
  assumes "consistent_vault nfkc v" "vault_ok v'" "folders_ok nfkc v'"
    "v_tags v' = v_tags v \<and> v_deletedTags v' = v_deletedTags v \<and> v_tagGroups v' = v_tagGroups v \<and>
     v_entries v' = v_entries v"
  shows "consistent_vault nfkc v'"
  using assms by (simp add: consistent_vault_def tags_ok_def tag_references_ok_def)

lemma consistent_add_tag:
  assumes ok: "consistent_vault nfkc v" and add: "addTagToVault nfkc v input d = Inr v'"
    and "tagIdSchema (ti_id input)" "ti_groupId input \<in> g_id ` set (v_tagGroups v)"
  shows "consistent_vault nfkc v'"
proof (rule consistent_tag_change [OF ok _ _ _ tag_mutation_frame(1) [OF add]])
  show "vault_ok v'" using vault_ok_mutation [of v nfkc d "Add_tag input" v'] ok add
    by (simp add: consistent_vault_def)
  show "tags_ok nfkc v'" using assms by (auto simp: consistent_vault_def intro: tags_ok_add)
  show "tag_references_ok v'" using ok add
    by (auto simp: consistent_vault_def tag_references_ok_def add_tag_Inr)
qed

lemma consistent_update_tag:
  assumes ok: "consistent_vault nfkc v" and upd: "updateTagInVault nfkc v i input d = Inr v'"
    and "tu_groupId input \<in> g_id ` set (v_tagGroups v)"
  shows "consistent_vault nfkc v'"
proof (rule consistent_tag_change [OF ok _ _ _ tag_mutation_frame(2) [OF upd]])
  show "vault_ok v'" using vault_ok_mutation [of v nfkc d "Update_tag i input" v'] ok upd
    by (simp add: consistent_vault_def)
  show "tags_ok nfkc v'" "tag_references_ok v'"
    using assms tags_ok_update tag_references_update_tag by (auto simp: consistent_vault_def)
qed

lemma consistent_remove_tag:
  assumes ok: "consistent_vault nfkc v" and rm: "removeTagFromVault v i d t = Inr v'"
  shows "consistent_vault nfkc v'"
proof (rule consistent_tag_change [OF ok _ _ _ tag_mutation_frame(3) [OF rm]])
  show "vault_ok v'" using vault_ok_mutation [of v nfkc d "Remove_tag i t" v'] ok rm
    by (simp add: consistent_vault_def)
  show "tags_ok nfkc v'" "tag_references_ok v'"
    using assms tags_ok_remove tag_references_remove_tag by (auto simp: consistent_vault_def)
qed

lemma consistent_folder_mutations:
  assumes ok: "consistent_vault nfkc v"
  shows "addFolderToVault nfkc v input d = Inr v' \<Longrightarrow> folderSchemaId (fi_id input) \<Longrightarrow> consistent_vault nfkc v'"
    and "updateFolderInVault nfkc v i fu d = Inr v' \<Longrightarrow> consistent_vault nfkc v'"
    and "moveFolderInVault nfkc v i p d = Inr v' \<Longrightarrow> consistent_vault nfkc v'"
    and "removeFolderFromVault v i d t = Inr v' \<Longrightarrow> consistent_vault nfkc v'"
proof -
  have vok: "vault_ok v" and fok: "folders_ok nfkc v" using ok by (simp_all add: consistent_vault_def)
  note step = vault_ok_mutation [OF vok, of nfkc d]
  show "consistent_vault nfkc v'" if "addFolderToVault nfkc v input d = Inr v'" "folderSchemaId (fi_id input)"
    using that step [of "Add_folder input"] folders_ok_add [OF fok] folder_mutation_frame(1)
    by (intro consistent_folder_change [OF ok]) auto
  show "consistent_vault nfkc v'" if "updateFolderInVault nfkc v i fu d = Inr v'"
    using that step [of "Update_folder i fu"] folders_ok_update [OF fok] folder_mutation_frame(2)
    by (intro consistent_folder_change [OF ok]) auto
  show "consistent_vault nfkc v'" if "moveFolderInVault nfkc v i p d = Inr v'"
    using that step [of "Move_folder i p"] folders_ok_move [OF fok] folder_mutation_frame(3)
    by (intro consistent_folder_change [OF ok]) auto
  show "consistent_vault nfkc v'" if "removeFolderFromVault v i d t = Inr v'"
    using that step [of "Remove_folder i t"] folders_ok_remove [OF fok] folder_mutation_frame(4)
    by (intro consistent_folder_change [OF ok]) auto
qed

lemmas command_defs = add_entry_command_def update_entry_command_def remove_entry_command_def
  add_tag_command_def update_tag_command_def remove_tag_command_def add_folder_command_def
  update_folder_command_def move_folder_command_def remove_folder_command_def

lemma consistent_command:
  assumes ok: "consistent_vault (rt_nfkc rt) v" and run: "run_command rt d c v = Inr v'"
  shows "consistent_vault (rt_nfkc rt) v'"
proof (cases c)
  case (Add_tag_command tag i t)
  with run show ?thesis
    by (auto simp: command_defs rbind_eq_Inr_iff dest!: tagSchema_Some split: option.splits
        intro: consistent_add_tag [OF ok])
next
  case (Add_folder_command folder i t)
  with run show ?thesis
    by (auto simp: command_defs rbind_eq_Inr_iff dest!: folderSchema_Some split: option.splits
        intro: consistent_folder_mutations(1) [OF ok])
next
  case (Add_entry_command params i)
  with run show ?thesis
    by (auto simp: command_defs rbind_eq_Inr_iff dest!: entry_payload_Inr intro: consistent_add_entry [OF ok])
next
  case (Update_entry_command i expected params)
  with run show ?thesis
    by (cases "find_index (\<lambda>entry. e_id entry = i) (v_entries v)"; cases "ep_folderId params")
      (auto simp: command_defs rbind_eq_Inr_iff Let_def dest!: entry_payload_Inr
        intro: consistent_update_entry [OF ok])
qed (use run in \<open>auto simp: command_defs rbind_eq_Inr_iff split: option.splits if_splits
      intro: consistent_remove_entry [OF ok] consistent_update_tag [OF ok] consistent_remove_tag [OF ok]
        consistent_folder_mutations(2-4) [OF ok]\<close>)

lemma consistent_device_mutation:
  assumes ok: "consistent_vault nfkc v" and m: "is_device_mutation m" and run: "apply_mutation nfkc d m v = Inr v'"
  shows "consistent_vault nfkc v'"
proof -
  have "v_tags v' = v_tags v \<and> v_deletedTags v' = v_deletedTags v \<and> v_tagGroups v' = v_tagGroups v \<and>
      v_folders v' = v_folders v \<and> v_deletedFolders v' = v_deletedFolders v \<and> v_entries v' = v_entries v"
    using m run by (cases m) (auto simp: add_device_profile_Inr removeOtherDeviceProfilesFromVault_def
        revokeDeviceProfileFromVault_def Let_def split: option.splits if_splits)
  moreover have "vault_ok v'" using ok run by (auto simp: consistent_vault_def intro: vault_ok_mutation)
  ultimately show ?thesis
    using ok by (simp add: consistent_vault_def tags_ok_def folders_ok_def tag_references_ok_def)
qed

section \<open>Initialisation\<close>

text \<open>What an initial folder keeps of the parsed folder that the organisation check has seen.\<close>

lemma parsed_folder:
  assumes "(case folderSchema (f0\<lparr>fi_createdAt := 0\<rparr>) of None \<Rightarrow> Inl InvalidVaultFolderError | Some f \<Rightarrow> Inr f) = Inr f"
    and "(case folderSchema (f\<lparr>fi_createdAt := t\<rparr>) of None \<Rightarrow> Inl InvalidVaultFolderError
       | Some f \<Rightarrow> Inr (folder_of_input f w)) = Inr g"
  shows "f_id g = f_id (folder_of_input f []) \<and> f_name g = f_name (folder_of_input f []) \<and>
    f_parentId g = f_parentId (folder_of_input f []) \<and> f_versionVector g = w"
  using assms by (auto split: option.splits dest!: folderSchema_Some)

lemma parsed_tag:
  assumes "(case tagSchema (t0\<lparr>ti_createdAt := 0\<rparr>) of None \<Rightarrow> Inl InvalidVaultTagError | Some t \<Rightarrow> Inr t) = Inr t"
    and "(case tagSchema (t\<lparr>ti_createdAt := n\<rparr>) of None \<Rightarrow> Inl InvalidVaultTagError
       | Some t \<Rightarrow> Inr (tag_of_input t w)) = Inr g"
  shows "t_id g = t_id (tag_of_input t []) \<and> t_name g = t_name (tag_of_input t []) \<and>
    t_groupId g = t_groupId (tag_of_input t []) \<and> t_versionVector g = w"
  using assms by (auto split: option.splits dest!: tagSchema_Some)

lemma list_all2_map_eq: "list_all2 (\<lambda>x y. h x = k y) xs ys \<Longrightarrow> map h xs = map k ys"
  by (induction rule: list_all2_induct) auto

lemma list_all2_both:
  "list_all2 P xs ys \<Longrightarrow> list_all2 Q ys zs \<Longrightarrow> (\<And>x y z. P x y \<Longrightarrow> Q y z \<Longrightarrow> R y z) \<Longrightarrow> list_all2 R ys zs"
  by (metis (no_types, lifting) list_all2_conv_all_nth)

text \<open>The organisation checks read identities, names, parents and groups only.\<close>

lemma parent_rel_map: "parent_rel fs = {(i, p). (i, Some p) \<in> set (map (\<lambda>f. (f_id f, f_parentId f)) fs)}"
  by (force simp: parent_rel_def)

lemma tags_ok_maps:
  "tags_ok nfkc v \<longleftrightarrow>
     (\<forall>i \<in> set (map t_id (v_tags v)) \<union> del_id ` set (v_deletedTags v). tagIdSchema i) \<and>
     distinct (map t_id (v_tags v)) \<and> distinct (map del_id (v_deletedTags v)) \<and>
     set (map t_id (v_tags v)) \<inter> del_id ` set (v_deletedTags v) = {} \<and>
     distinct (map (normalizedName nfkc \<circ> t_name) (v_tags v)) \<and>
     distinct (map g_id (v_tagGroups v)) \<and>
     distinct (map (normalizedName nfkc \<circ> g_name) (v_tagGroups v)) \<and>
     set (map t_groupId (v_tags v)) \<subseteq> g_id ` set (v_tagGroups v)"
  unfolding tags_ok_def set_map by blast

lemma initial_organization:
  assumes "initial_vault nfkc folders tags d name t = Inr v"
  shows "tags_ok nfkc v" "folders_ok nfkc v"
    "\<forall>x \<in> set (v_folders v). f_versionVector x = [(d, 1)]" "\<forall>x \<in> set (v_tags v). t_versionVector x = [(d, 1)]"
proof -
  define pf where "pf f = (case folderSchema (f\<lparr>fi_createdAt := 0\<rparr>) of
    None \<Rightarrow> Inl InvalidVaultFolderError | Some f \<Rightarrow> Inr f)" for f :: FolderInput
  define pt where "pt x = (case tagSchema (x\<lparr>ti_createdAt := 0\<rparr>) of
    None \<Rightarrow> Inl InvalidVaultTagError | Some x \<Rightarrow> Inr x)" for x :: TagInput
  define cf where "cf f = (case folderSchema (f\<lparr>fi_createdAt := t\<rparr>) of
    None \<Rightarrow> Inl InvalidVaultFolderError | Some f \<Rightarrow> Inr (folder_of_input f [(d, 1)]))" for f :: FolderInput
  define ct where "ct x = (case tagSchema (x\<lparr>ti_createdAt := t\<rparr>) of
    None \<Rightarrow> Inl InvalidVaultTagError | Some x \<Rightarrow> Inr (tag_of_input x [(d, 1)]))" for x :: TagInput
  from assms obtain fs ts gs us where parsed: "rmap pf folders = Inr fs" "rmap pt tags = Inr ts"
    and created: "rmap cf fs = Inr gs" "rmap ct ts = Inr us"
    and valid: "requireValidVaultOrganization nfkc
        \<lparr>v_versionVector = [], v_entries = [], v_deletedEntries = [], v_deviceProfiles = [],
         v_deletedDeviceProfiles = [], v_syncTarget = None, v_syncRemovalPending = None,
         v_providerCredentialRevocationPending = None,
         v_tags = map (\<lambda>t. tag_of_input t []) ts, v_deletedTags = [],
         v_tagGroups = createDefaultTagGroups,
         v_folders = map (\<lambda>f. folder_of_input f []) fs, v_deletedFolders = []\<rparr> = Inr ()"
    and v: "v_folders v = gs" "v_tags v = us" "v_tagGroups v = createDefaultTagGroups"
      "v_deletedTags v = []" "v_deletedFolders v = []" "v_entries v = []"
    unfolding initial_vault_def parseInitialOrganization_def createInitialOrganization_def
      pf_def [symmetric] pt_def [symmetric] cf_def [symmetric] ct_def [symmetric]
    by (auto simp: rbind_eq_Inr_iff)
  have fg: "list_all2 (\<lambda>f g. f_id (folder_of_input f []) = f_id g \<and> f_name (folder_of_input f []) = f_name g \<and>
      f_parentId (folder_of_input f []) = f_parentId g \<and> f_versionVector g = [(d, 1)]) fs gs"
    using parsed(1) created(1) unfolding rmap_Inr_iff pf_def cf_def
    by (rule list_all2_both) (drule (1) parsed_folder, simp)
  have tu: "list_all2 (\<lambda>x u. t_id (tag_of_input x []) = t_id u \<and> t_name (tag_of_input x []) = t_name u \<and>
      t_groupId (tag_of_input x []) = t_groupId u \<and> t_versionVector u = [(d, 1)]) ts us"
    using parsed(2) created(2) unfolding rmap_Inr_iff pt_def ct_def
    by (rule list_all2_both) (drule (1) parsed_tag, simp)
  have fmaps: "map h (map (\<lambda>f. folder_of_input f []) fs) = map h gs"
    if "\<And>f g. f_id f = f_id g \<and> f_name f = f_name g \<and> f_parentId f = f_parentId g \<Longrightarrow> h f = h g"
    for h :: "Folder \<Rightarrow> 'x"
    unfolding map_map using fg by (intro list_all2_map_eq) (auto elim!: list_all2_mono intro!: that)
  have tmaps: "map h (map (\<lambda>x. tag_of_input x []) ts) = map h us"
    if "\<And>f g. t_id f = t_id g \<and> t_name f = t_name g \<and> t_groupId f = t_groupId g \<Longrightarrow> h f = h g"
    for h :: "Tag \<Rightarrow> 'x"
    unfolding map_map using tu by (intro list_all2_map_eq) (auto elim!: list_all2_mono intro!: that)
  note valid' = valid [unfolded requireValidVaultOrganization_Inr_iff]
  show "tags_ok nfkc v"
    using valid' tmaps [of t_id] tmaps [of "normalizedName nfkc \<circ> t_name"] tmaps [of t_groupId]
    unfolding tags_ok_maps v by (simp del: set_map map_map)
  show "folders_ok nfkc v"
    using valid' fmaps [of f_id] fmaps [of "\<lambda>f. (f_parentId f, normalizedName nfkc (f_name f))"]
      fmaps [of "\<lambda>f. (f_id f, f_parentId f)"]
    unfolding folders_ok_def v parent_rel_map set_map [symmetric] by (simp del: set_map map_map)
  show "\<forall>x \<in> set (v_folders v). f_versionVector x = [(d, 1)]" "\<forall>x \<in> set (v_tags v). t_versionVector x = [(d, 1)]"
    using fg tu unfolding v by (auto simp: list_all2_conv_all_nth in_set_conv_nth)
qed

lemma collection_ok_initial:
  assumes "distinct (map idf xs)" "\<forall>x \<in> set xs. vvf x = w"
  shows "collection_ok vvf idf w xs []"
  using assms
  by (auto simp: collection_ok_def items_ok_def item_state_def find_deletion_def le_fun_def
      split: option.splits dest!: find_Some_D)

lemma consistent_initial:
  assumes init: "initial_vault nfkc folders tags d name t = Inr v"
  shows "consistent_vault nfkc v"
proof -
  note org = initial_organization [OF init]
  have v: "v_entries v = []" "v_deletedEntries v = []" "v_deletedTags v = []" "v_deletedFolders v = []"
    "v_deletedDeviceProfiles v = []" "v_versionVector v = [(d, 1)]"
    "map d_id (v_deviceProfiles v) = [d]" "\<forall>x \<in> set (v_deviceProfiles v). d_versionVector x = [(d, 1)]"
    using init by (auto simp: initial_vault_def rbind_eq_Inr_iff)
  have "distinct (map t_id (v_tags v))" "distinct (map f_id (v_folders v))"
    using org(1,2) by (simp_all add: tags_ok_def folders_ok_def)
  with v org(3,4) have "vault_ok v"
    by (simp add: vault_ok_def collection_ok_initial)
  with org(1,2) v show ?thesis by (simp add: consistent_vault_def tag_references_ok_def)
qed

lemma reachable_consistent: "reachable_vault rt v \<Longrightarrow> consistent_vault (rt_nfkc rt) v"
proof (induction rule: reachable_vault.induct)
  case (initial folders tags d name t v)
  then show ?case by (rule consistent_initial)
next
  case (command v d c v')
  then show ?case by (blast intro: consistent_command)
next
  case (device v m d v')
  then show ?case by (blast intro: consistent_device_mutation)
qed

end
