(* ===== verification/Sync_Resolution.thy ===== *)
theory Sync_Resolution
  imports Sync_Review Vault_Consistency
begin

text \<open>
  Applying the user's choices to a review (\<open>packages/core/src/domain/sync/*-resolution.utils.ts\<close> and
  \<open>sync-resolution.utils.ts\<close>). Like the review, the per-kind modules are one algorithm over the
  accessors of a kind.
\<close>

section \<open>Resolving the states of one kind\<close>

record review_resolution =
  rr_id :: string
  rr_action :: VaultSyncReviewAction

text \<open>
  \<open>createEntryResolutionMap\<close>. The type of an action has the two supported values only, so
  \<open>assertSupportedAction\<close> always returns.
\<close>

definition create_resolution_map ::
    "'a kind \<Rightarrow> review_resolution list \<Rightarrow> core_error + (string \<times> review_resolution) list" where
  "create_resolution_map k resolutions =
     rfold (\<lambda>r resolutionById.
         if rr_id r \<in> set (map fst resolutionById)
         then Inl (InvalidVaultSyncResolutionError (Resolved_twice (k_name k) (rr_id r)))
         else Inr (AList.update (rr_id r) r resolutionById))
       resolutions []"

definition select_state :: "'a kind \<Rightarrow> 'a review_item \<Rightarrow> review_resolution \<Rightarrow> core_error + 'a reviewable" where
  "select_state k review resolution =
     (if rv_relation review = Rel_remote_only \<and> rr_action resolution = Use_local
      then Inl (InvalidVaultSyncResolutionError (Local_absence_chosen (k_name k) (rv_id review)))
      else Inr (case rr_action resolution of Use_local \<Rightarrow> rv_local review | Use_remote \<Rightarrow> rv_remote review))"

definition stampResolvedVersionVector ::
    "VersionVector option \<Rightarrow> VersionVector option \<Rightarrow> string \<Rightarrow> VersionVector" where
  "stampResolvedVersionVector l r deviceId =
     incrementVersionVector
       (mergeVersionVectors (case l of None \<Rightarrow> [] | Some v \<Rightarrow> v) (case r of None \<Rightarrow> [] | Some v \<Rightarrow> v)) deviceId"

definition stamp_state ::
    "'a kind \<Rightarrow> 'a reviewable \<Rightarrow> 'a reviewable \<Rightarrow> 'a reviewable \<Rightarrow> string \<Rightarrow> 'a reviewable" where
  "stamp_state k selected localState remoteState deviceId =
     (let versionVector = stampResolvedVersionVector (reviewable_vector k localState)
            (reviewable_vector k remoteState) deviceId in
      case selected of
        Missing \<Rightarrow> Missing
      | Item x \<Rightarrow> Item (k_set_vector k versionVector x)
      | Deleted d \<Rightarrow> Deleted (d\<lparr>del_versionVector := versionVector\<rparr>))"

definition resolve_states ::
    "'a kind \<Rightarrow> 'a review_item list \<Rightarrow> review_resolution list \<Rightarrow> string \<Rightarrow>
     core_error + (string \<times> 'a reviewable) list" where
  "resolve_states k reviews resolutions deviceId =
     rbind (create_resolution_map k resolutions) (\<lambda>resolutionById.
     rbind (rfold (\<lambda>r _. require (list_ex (\<lambda>review. rv_id review = rr_id r) reviews)
              (InvalidVaultSyncResolutionError (Not_required (k_name k) (rr_id r)))) resolutions ()) (\<lambda>_.
     rfold (\<lambda>review resolvedStateById.
         case map_of resolutionById (rv_id review) of
           None \<Rightarrow> Inl (InvalidVaultSyncResolutionError (Not_resolved (k_name k) (rv_id review)))
         | Some resolution \<Rightarrow>
             rbind (select_state k review resolution) (\<lambda>selected.
             Inr (AList.update (rv_id review)
               (stamp_state k selected (rv_local review) (rv_remote review) deviceId) resolvedStateById)))
       reviews []))"

definition get_state :: "'a kind \<Rightarrow> Vault \<Rightarrow> string \<Rightarrow> core_error + 'a reviewable" where
  "get_state k vault i =
     (case (find (\<lambda>x. k_id k x = i) (k_active k vault), find_deletion i (k_deleted k vault)) of
        (Some _, Some _) \<Rightarrow> Inl (InvalidVaultSyncResolutionError (Resolution_active_and_deleted (k_name k) i))
      | (Some x, None) \<Rightarrow> Inr (Item x)
      | (None, Some d) \<Rightarrow> Inr (Deleted d)
      | (None, None) \<Rightarrow> Inr Missing)"

definition build_resolved ::
    "'a kind \<Rightarrow> Vault \<Rightarrow> Vault \<Rightarrow> (string \<times> 'a reviewable) list \<Rightarrow> core_error + ('a list \<times> Tombstone list)" where
  "build_resolved k localVault remoteVault resolvedStateById =
     rfold (\<lambda>i (items, deletedItems).
         rbind (case map_of resolvedStateById i of Some s \<Rightarrow> Inr s | None \<Rightarrow> get_state k localVault i) (\<lambda>state.
         Inr (case state of
                Item x \<Rightarrow> (items @ [x], deletedItems)
              | Deleted d \<Rightarrow> (items, deletedItems @ [d])
              | Missing \<Rightarrow> (items, deletedItems))))
       (find_all_ids k localVault remoteVault) ([], [])"

section \<open>The instances\<close>

definition resolveEntryStates ::
    "PasswordEntry review_item list \<Rightarrow> review_resolution list \<Rightarrow> string \<Rightarrow>
     core_error + (string \<times> PasswordEntry reviewable) list" where
  "resolveEntryStates = resolve_states entry_kind"

definition buildResolvedVaultEntries ::
    "Vault \<Rightarrow> Vault \<Rightarrow> (string \<times> PasswordEntry reviewable) list \<Rightarrow> core_error + (PasswordEntry list \<times> Tombstone list)" where
  "buildResolvedVaultEntries = build_resolved entry_kind"

definition resolveTagStates ::
    "Tag review_item list \<Rightarrow> review_resolution list \<Rightarrow> string \<Rightarrow> core_error + (string \<times> Tag reviewable) list" where
  "resolveTagStates = resolve_states tag_kind"

definition buildResolvedVaultTags ::
    "Vault \<Rightarrow> Vault \<Rightarrow> (string \<times> Tag reviewable) list \<Rightarrow> core_error + (Tag list \<times> Tombstone list)" where
  "buildResolvedVaultTags = build_resolved tag_kind"

definition resolveFolderStates ::
    "Folder review_item list \<Rightarrow> review_resolution list \<Rightarrow> string \<Rightarrow> core_error + (string \<times> Folder reviewable) list" where
  "resolveFolderStates = resolve_states folder_kind"

definition buildResolvedVaultFolders ::
    "Vault \<Rightarrow> Vault \<Rightarrow> (string \<times> Folder reviewable) list \<Rightarrow> core_error + (Folder list \<times> Tombstone list)" where
  "buildResolvedVaultFolders = build_resolved folder_kind"

definition resolveDeviceProfileStates ::
    "DeviceProfile review_item list \<Rightarrow> review_resolution list \<Rightarrow> string \<Rightarrow>
     core_error + (string \<times> DeviceProfile reviewable) list" where
  "resolveDeviceProfileStates = resolve_states device_profile_kind"

definition buildResolvedVaultDeviceProfiles ::
    "Vault \<Rightarrow> Vault \<Rightarrow> (string \<times> DeviceProfile reviewable) list \<Rightarrow>
     core_error + (DeviceProfile list \<times> Tombstone list)" where
  "buildResolvedVaultDeviceProfiles = build_resolved device_profile_kind"

section \<open>Applying a resolution to the vault\<close>

record VaultSyncReview =
  sr_entryReviews :: "PasswordEntry review_item list"
  sr_tagReviews :: "Tag review_item list"
  sr_folderReviews :: "Folder review_item list"
  sr_deviceProfileReviews :: "DeviceProfile review_item list"

record VaultSyncResolution =
  entryResolutions :: "review_resolution list"
  tagResolutions :: "review_resolution list"
  folderResolutions :: "review_resolution list"
  deviceProfileResolutions :: "review_resolution list"

text \<open>The \<open>try\<close> block: reference and organisation errors become a resolution error.\<close>

fun as_resolution_error :: "core_error \<Rightarrow> core_error" where
  "as_resolution_error (InvalidVaultTagReferenceError _ _) =
     InvalidVaultSyncResolutionError Incompatible_references"
| "as_resolution_error (InvalidVaultOrganizationReferenceError _) =
     InvalidVaultSyncResolutionError Incompatible_references"
| "as_resolution_error e = e"

definition applyVaultSyncResolution ::
    "(string \<Rightarrow> string) \<Rightarrow> Vault \<Rightarrow> Vault \<Rightarrow> VaultSyncReview \<Rightarrow> VaultSyncResolution \<Rightarrow> string \<Rightarrow>
     core_error + Vault" where
  "applyVaultSyncResolution nfkc localVault remoteVault review resolution deviceId =
     rbind (resolveEntryStates (sr_entryReviews review) (entryResolutions resolution) deviceId) (\<lambda>entryStates.
     rbind (resolveTagStates (sr_tagReviews review) (tagResolutions resolution) deviceId) (\<lambda>tagStates.
     rbind (resolveFolderStates (sr_folderReviews review) (folderResolutions resolution) deviceId) (\<lambda>folderStates.
     rbind (resolveDeviceProfileStates (sr_deviceProfileReviews review)
              (deviceProfileResolutions resolution) deviceId) (\<lambda>deviceProfileStates.
     let versionVector = incrementVersionVector
           (mergeVersionVectors (v_versionVector localVault) (v_versionVector remoteVault)) deviceId in
     rbind (buildResolvedVaultEntries localVault remoteVault entryStates) (\<lambda>(entries, deletedEntries).
     rbind (buildResolvedVaultTags localVault remoteVault tagStates) (\<lambda>(tags, deletedTags).
     rbind (buildResolvedVaultFolders localVault remoteVault folderStates) (\<lambda>(folders, deletedFolders).
     rbind (buildResolvedVaultDeviceProfiles localVault remoteVault deviceProfileStates)
       (\<lambda>(deviceProfiles, deletedDeviceProfiles).
     let resolvedVault = localVault\<lparr>v_versionVector := versionVector,
           v_entries := entries, v_deletedEntries := deletedEntries,
           v_tags := tags, v_deletedTags := deletedTags,
           v_folders := folders, v_deletedFolders := deletedFolders,
           v_deviceProfiles := deviceProfiles, v_deletedDeviceProfiles := deletedDeviceProfiles\<rparr> in
     if \<not> areJsonEqual (tag_groups_json (v_tagGroups localVault)) (tag_groups_json (v_tagGroups remoteVault))
     then Inl (InvalidVaultSyncReviewError Tag_groups_differ)
     else
       case rbind (requireValidVaultTagReferences resolvedVault)
              (\<lambda>_. requireValidVaultOrganization nfkc resolvedVault) of
         Inl e \<Rightarrow> Inl (as_resolution_error e)
       | Inr _ \<Rightarrow> Inr resolvedVault))))))))"

text \<open>The user's choice for an identity.\<close>

definition chosen_local :: "review_resolution list \<Rightarrow> string \<Rightarrow> bool" where
  "chosen_local rs i \<longleftrightarrow> (\<exists>r \<in> set rs. rr_id r = i \<and> rr_action r = Use_local)"

section \<open>Resolutions of one kind\<close>

context item_collection
begin

lemma create_resolution_map_Inr:
  assumes "create_resolution_map k rs = Inr m"
  shows "distinct (map rr_id rs) \<and> map_of m = map_of (map (\<lambda>r. (rr_id r, r)) rs)"
proof -
  let ?body = "\<lambda>r m. if rr_id r \<in> set (map fst m)
    then Inl (InvalidVaultSyncResolutionError (Resolved_twice (k_name k) (rr_id r)))
    else Inr (AList.update (rr_id r) r m)"
  have "distinct (map rr_id rs) \<and> rr_id ` set rs \<inter> fst ` set acc = {} \<and>
      map_of m = map_of acc ++ map_of (map (\<lambda>r. (rr_id r, r)) rs)"
    if "rfold ?body rs acc = Inr m" for acc
    using that
  proof (induction rs arbitrary: acc)
    case Nil
    then show ?case by simp
  next
    case (Cons r rs)
    have new: "rr_id r \<notin> fst ` set acc" using Cons.prems by (cases "rr_id r \<in> fst ` set acc") simp_all
    with Cons.prems have run: "rfold ?body rs (AList.update (rr_id r) r acc) = Inr m" by simp
    have keys: "fst ` set (AList.update (rr_id r) r acc) = insert (rr_id r) (fst ` set acc)"
      by (simp add: update_conv' flip: dom_map_of_conv_image_fst)
    note ih = Cons.IH [OF run, unfolded keys]
    have "rr_id r \<notin> rr_id ` set rs" using ih by blast
    then have "rr_id r \<notin> dom (map_of (map (\<lambda>r. (rr_id r, r)) rs))"
      by (auto simp: dom_map_of_conv_image_fst)
    then have "map_of m = map_of acc ++ (map_of (map (\<lambda>r. (rr_id r, r)) rs))(rr_id r \<mapsto> r)"
      using ih by (simp only: update_conv' map_add_upd_left map_add_upd simp_thms)
    moreover have "distinct (map rr_id (r # rs))" using ih by auto
    moreover have "rr_id ` set (r # rs) \<inter> fst ` set acc = {}" using ih new by auto
    ultimately show ?case by (simp only: list.map map_of.simps fst_conv snd_conv simp_thms)
  qed
  from this [of "[]"] assms show ?thesis by (simp add: create_resolution_map_def)
qed

text \<open>The state that the user's choice gives to a review row.\<close>

definition chosen_state :: "review_resolution list \<Rightarrow> string \<Rightarrow> 'a review_item \<Rightarrow> 'a reviewable" where
  "chosen_state rs d review =
     stamp_state k
       (if \<exists>r \<in> set rs. rr_id r = rv_id review \<and> rr_action r = Use_local then rv_local review else rv_remote review)
       (rv_local review) (rv_remote review) d"

lemma resolve_states_Inr:
  assumes run: "resolve_states k reviews rs d = Inr m" and dist: "distinct (map rv_id reviews)"
  shows "rr_id ` set rs = rv_id ` set reviews" "distinct (map rr_id rs)"
    "map_of m = map_of (map (\<lambda>review. (rv_id review, chosen_state rs d review)) reviews)"
    "\<forall>review \<in> set reviews. rv_relation review = Rel_remote_only \<longrightarrow>
       \<lparr>rr_id = rv_id review, rr_action = Use_remote\<rparr> \<in> set rs"
proof -
  obtain rm where rm: "create_resolution_map k rs = Inr rm"
    and required: "rfold (\<lambda>r _. require (list_ex (\<lambda>review. rv_id review = rr_id r) reviews)
              (InvalidVaultSyncResolutionError (Not_required (k_name k) (rr_id r)))) rs () = Inr ()"
    and loop: "rfold (\<lambda>review acc.
         case map_of rm (rv_id review) of
           None \<Rightarrow> Inl (InvalidVaultSyncResolutionError (Not_resolved (k_name k) (rv_id review)))
         | Some resolution \<Rightarrow>
             rbind (select_state k review resolution) (\<lambda>selected.
             Inr (AList.update (rv_id review)
               (stamp_state k selected (rv_local review) (rv_remote review) d) acc))) reviews [] = Inr m"
    (is "rfold ?body _ _ = _")
    using run by (auto simp: resolve_states_def rbind_eq_Inr_iff)
  from create_resolution_map_Inr [OF rm] have d: "distinct (map rr_id rs)"
    and rm_of: "map_of rm = map_of (map (\<lambda>r. (rr_id r, r)) rs)" by simp_all
  have lookup: "map_of rm i = Some r \<longleftrightarrow> r \<in> set rs \<and> rr_id r = i" for i r
    using d by (auto simp: rm_of comp_def map_of_eq_Some_iff)
  have step: "\<exists>r \<in> set rs. rr_id r = rv_id x \<and> (rv_relation x = Rel_remote_only \<longrightarrow> rr_action r = Use_remote) \<and>
      acc' = AList.update (rv_id x) (chosen_state rs d x) acc"
    if "?body x acc = Inr acc'" for x acc acc'
  proof -
    from that obtain r where r: "map_of rm (rv_id x) = Some r" by (auto split: option.splits)
    then have mem: "r \<in> set rs" "rr_id r = rv_id x" by (auto simp: lookup)
    have unique: "s = r" if "s \<in> set rs" "rr_id s = rv_id x" for s
      using that mem d unfolding distinct_map by (metis inj_onD)
    have "(\<exists>s \<in> set rs. rr_id s = rv_id x \<and> rr_action s = Use_local) \<longleftrightarrow> rr_action r = Use_local"
      using mem unique by blast
    with that r show ?thesis
      by (intro bexI [of _ r] mem) (auto simp: select_state_def chosen_state_def rbind_eq_Inr_iff mem
          split: if_splits VaultSyncReviewAction.splits)
  qed
  have all: "rfold ?body xs acc = Inr m \<Longrightarrow> distinct (map rv_id xs) \<Longrightarrow>
      map_of m = map_of acc ++ map_of (map (\<lambda>x. (rv_id x, chosen_state rs d x)) xs) \<and>
      (\<forall>x \<in> set xs. \<exists>r \<in> set rs. rr_id r = rv_id x \<and> (rv_relation x = Rel_remote_only \<longrightarrow> rr_action r = Use_remote))"
    for xs acc
  proof (induction xs arbitrary: acc)
    case Nil
    then show ?case by simp
  next
    case (Cons x xs)
    from Cons.prems(1) obtain acc' where a: "?body x acc = Inr acc'" "rfold ?body xs acc' = Inr m"
      by (auto elim: rbind_InrE)
    from step [OF a(1)] obtain r where r: "r \<in> set rs" "rr_id r = rv_id x"
      "rv_relation x = Rel_remote_only \<longrightarrow> rr_action r = Use_remote"
      and acc': "acc' = AList.update (rv_id x) (chosen_state rs d x) acc" by blast
    have "distinct (map rv_id xs)" using Cons.prems(2) by simp
    note ih = Cons.IH [OF a(2) this]
    have "rv_id x \<notin> dom (map_of (map (\<lambda>x. (rv_id x, chosen_state rs d x)) xs))"
      using Cons.prems(2) by (auto simp: dom_map_of_conv_image_fst)
    then have "map_of m = map_of acc ++ (map_of (map (\<lambda>x. (rv_id x, chosen_state rs d x)) xs))(rv_id x \<mapsto> chosen_state rs d x)"
      using ih by (simp only: acc' update_conv' map_add_upd_left map_add_upd simp_thms)
    then have "map_of m = map_of acc ++ map_of (map (\<lambda>x. (rv_id x, chosen_state rs d x)) (x # xs))"
      by (simp only: list.map map_of.simps fst_conv snd_conv)
    moreover have "\<forall>y \<in> set (x # xs). \<exists>r \<in> set rs. rr_id r = rv_id y \<and>
        (rv_relation y = Rel_remote_only \<longrightarrow> rr_action r = Use_remote)"
      using ih r by auto
    ultimately show ?case by (rule conjI)
  qed
  note res = all [OF loop dist]
  from required have "rr_id ` set rs \<subseteq> rv_id ` set reviews"
    by (force simp: rfold_require_iff list_ex_iff)
  moreover from res have "rv_id ` set reviews \<subseteq> rr_id ` set rs" by (auto simp: image_iff) metis
  ultimately show "rr_id ` set rs = rv_id ` set reviews" by blast
  show "distinct (map rr_id rs)" by (rule d)
  show "map_of m = map_of (map (\<lambda>review. (rv_id review, chosen_state rs d review)) reviews)"
    using res by simp
  show "\<forall>review \<in> set reviews. rv_relation review = Rel_remote_only \<longrightarrow>
       \<lparr>rr_id = rv_id review, rr_action = Use_remote\<rparr> \<in> set rs"
    using res by (metis (full_types) review_resolution.surjective old.unit.exhaust)
qed

text \<open>Collecting the states of distinct identities into the two lists.\<close>

definition active_of :: "(string \<Rightarrow> 'a reviewable) \<Rightarrow> string list \<Rightarrow> 'a list" where
  "active_of \<sigma> ids = List.map_filter (\<lambda>i. case \<sigma> i of Item x \<Rightarrow> Some x | _ \<Rightarrow> None) ids"

definition deleted_of :: "(string \<Rightarrow> 'a reviewable) \<Rightarrow> string list \<Rightarrow> Tombstone list" where
  "deleted_of \<sigma> ids = List.map_filter (\<lambda>i. case \<sigma> i of Deleted d \<Rightarrow> Some d | _ \<Rightarrow> None) ids"

definition identified :: "(string \<Rightarrow> 'a reviewable) \<Rightarrow> bool" where
  "identified \<sigma> \<longleftrightarrow> (\<forall>i x d. (\<sigma> i = Item x \<longrightarrow> k_id k x = i) \<and> (\<sigma> i = Deleted d \<longrightarrow> del_id d = i))"

lemma collected_simps [simp]:
  "active_of \<sigma> [] = []" "deleted_of \<sigma> [] = []"
  "active_of \<sigma> (i # ids) = (case \<sigma> i of Item x \<Rightarrow> x # active_of \<sigma> ids | _ \<Rightarrow> active_of \<sigma> ids)"
  "deleted_of \<sigma> (i # ids) = (case \<sigma> i of Deleted d \<Rightarrow> d # deleted_of \<sigma> ids | _ \<Rightarrow> deleted_of \<sigma> ids)"
  by (simp_all add: active_of_def deleted_of_def List.map_filter_simps split: reviewable.split)

lemma set_collected:
  "x \<in> set (active_of \<sigma> ids) \<longleftrightarrow> (\<exists>i \<in> set ids. \<sigma> i = Item x)"
  "d \<in> set (deleted_of \<sigma> ids) \<longleftrightarrow> (\<exists>i \<in> set ids. \<sigma> i = Deleted d)"
  by (induction ids) (auto split: reviewable.splits)

lemma distinct_collected:
  assumes "identified \<sigma>"
  shows "distinct ids \<Longrightarrow> distinct (map (k_id k) (active_of \<sigma> ids))"
    "distinct ids \<Longrightarrow> distinct (map del_id (deleted_of \<sigma> ids))"
  using assms
  by (induction ids) (auto simp: set_collected identified_def split: reviewable.splits)

lemma items_ok_collected:
  assumes "identified \<sigma>" "distinct ids"
  shows "items_ok (k_id k) (active_of \<sigma> ids) (deleted_of \<sigma> ids)"
  using assms distinct_collected [OF assms]
  by (auto simp: items_ok_def set_collected identified_def)

lemma item_state_collected:
  assumes \<sigma>: "identified \<sigma>" and ids: "distinct ids" and rest: "\<And>i. i \<notin> set ids \<Longrightarrow> \<sigma> i = Missing"
  shows "item_state (k_id k) (active_of \<sigma> ids) (deleted_of \<sigma> ids) = \<sigma>"
proof
  fix i
  note ok = items_ok_collected [OF \<sigma> ids]
  show "item_state (k_id k) (active_of \<sigma> ids) (deleted_of \<sigma> ids) i = \<sigma> i"
  proof (cases "\<sigma> i")
    case (Item x)
    with rest have "i \<in> set ids" by force
    with Item \<sigma> distinct_collected(1) [OF \<sigma> ids] show ?thesis
      by (auto simp: item_state_Item_iff set_collected identified_def)
  next
    case (Deleted d)
    with rest have "i \<in> set ids" by force
    with Deleted \<sigma> ok show ?thesis
      by (auto simp: item_state_Deleted_iff set_collected identified_def)
  next
    case Missing
    then show ?thesis using \<sigma> by (auto simp: item_state_Missing_iff set_collected identified_def)
  qed
qed

lemma get_state_sound: "get_state k v i = Inr s \<Longrightarrow> s = kind_state k v i"
  by (auto simp: get_state_def kind_state_def item_state_def split: option.splits)

text \<open>The state of every identity after the resolution.\<close>

definition resolved_state :: "Vault \<Rightarrow> (string \<times> 'a reviewable) list \<Rightarrow> string \<Rightarrow> 'a reviewable" where
  "resolved_state l m i = (case map_of m i of Some s \<Rightarrow> s | None \<Rightarrow> kind_state k l i)"

lemma build_resolved_Inr:
  assumes "build_resolved k l r m = Inr (items, dels)"
  shows "items = active_of (resolved_state l m) (find_all_ids k l r)"
    "dels = deleted_of (resolved_state l m) (find_all_ids k l r)"
proof -
  let ?body = "\<lambda>i (items, deletedItems).
         rbind (case map_of m i of Some s \<Rightarrow> Inr s | None \<Rightarrow> get_state k l i) (\<lambda>state.
         Inr (case state of
                Item x \<Rightarrow> (items @ [x], deletedItems)
              | Deleted d \<Rightarrow> (items, deletedItems @ [d])
              | Missing \<Rightarrow> (items, deletedItems)))"
  have "out = (a @ active_of (resolved_state l m) ids, b @ deleted_of (resolved_state l m) ids)"
    if "rfold ?body ids (a, b) = Inr out" for ids a b out
    using that
  proof (induction ids arbitrary: a b)
    case Nil
    then show ?case by simp
  next
    case (Cons i ids)
    from Cons.prems obtain s where s: "(case map_of m i of Some s \<Rightarrow> Inr s | None \<Rightarrow> get_state k l i) = Inr s"
      by (auto elim!: rbind_InrE)
    then have st: "s = resolved_state l m i"
      by (auto simp: resolved_state_def get_state_sound split: option.splits)
    show ?case
    proof (cases s)
      case (Item x)
      with Cons.prems s have "rfold ?body ids (a @ [x], b) = Inr out" by simp
      from Cons.IH [OF this] Item st [symmetric] show ?thesis by simp
    next
      case (Deleted d)
      with Cons.prems s have "rfold ?body ids (a, b @ [d]) = Inr out" by simp
      from Cons.IH [OF this] Deleted st [symmetric] show ?thesis by simp
    next
      case Missing
      with Cons.prems s have "rfold ?body ids (a, b) = Inr out" by simp
      from Cons.IH [OF this] Missing st [symmetric] show ?thesis by simp
    qed
  qed
  from this [of "find_all_ids k l r" "[]" "[]"] assms
  show "items = active_of (resolved_state l m) (find_all_ids k l r)"
    "dels = deleted_of (resolved_state l m) (find_all_ids k l r)"
    by (simp_all add: build_resolved_def)
qed

text \<open>Stamping keeps the identity and dominates both vectors.\<close>

lemma counters_vector:
  "vv_get (case reviewable_vector k s of None \<Rightarrow> [] | Some v \<Rightarrow> v) = counters s"
  by (cases s) (auto simp: fun_eq_iff)

lemma stamp_counters:
  assumes "s \<noteq> Missing"
  shows "counters (stamp_state k s l r d) =
    (sup (counters l) (counters r))(d := js_succ (max (counters l d) (counters r d)))"
  using assms
  by (cases s) (simp_all add: stamp_state_def Let_def stampResolvedVersionVector_def counters_vector
      vector_set_vector sup_fun_def sup_max)

lemma stamp_Missing_iff: "stamp_state k s l r d = Missing \<longleftrightarrow> s = Missing"
  by (cases s) (simp_all add: stamp_state_def Let_def)

lemma stamp_id:
  "stamp_state k s l r d = Item y \<Longrightarrow> \<exists>x. s = Item x \<and> k_id k y = k_id k x"
  "stamp_state k s l r d = Deleted e \<Longrightarrow> \<exists>x. s = Deleted x \<and> del_id e = del_id x"
  by (cases s; simp add: stamp_state_def Let_def; force simp: id_set_vector)+

text \<open>The state after the resolution, from the two states before it.\<close>

definition merged_state :: "Vault \<Rightarrow> Vault \<Rightarrow> review_resolution list \<Rightarrow> string \<Rightarrow> string \<Rightarrow> 'a reviewable" where
  "merged_state l r rs d i =
     (let s = kind_state k l i; t = kind_state k r i in
      if json_equal_states s t then s
      else stamp_state k (if chosen_local rs i then s else t) s t d)"

lemma resolved_state_merged:
  assumes finder: "sound_finder finder"
    and run: "find_changed k finder l r = Inr reviews" and res: "resolve_states k reviews rs d = Inr m"
  shows "resolved_state l m = merged_state l r rs d"
    and "\<And>i. kind_state k l i = Missing \<Longrightarrow> kind_state k r i \<noteq> Missing \<Longrightarrow> \<not> chosen_local rs i"
proof -
  note rows = find_changed_sound(1) [OF finder run]
  have ids: "map rv_id (map (review_row l r) is) = is" for "is"
    by (simp add: review_row_def comp_def)
  have dist: "distinct (map rv_id reviews)"
    using arg_cong [OF rows, of "map rv_id"] unfolding ids by (simp add: distinct_find_all_ids)
  note m = resolve_states_Inr [OF res dist]
  have row: "review = review_row l r (rv_id review)" if "review \<in> set reviews" for review
  proof -
    from that have "review \<in> set (map (review_row l r)
        (filter (\<lambda>i. get_relation k (kind_state k l i) (kind_state k r i) \<noteq> Rel_equal) (find_all_ids k l r)))"
      using rows by simp
    then show ?thesis by (auto simp: review_row_def)
  qed
  have m_of: "map_of m i = (if i \<in> rv_id ` set reviews
      then Some (stamp_state k (if chosen_local rs i then kind_state k l i else kind_state k r i)
        (kind_state k l i) (kind_state k r i) d) else None)" for i
  proof (cases "i \<in> rv_id ` set reviews")
    case True
    then obtain review where review: "review \<in> set reviews" "rv_id review = i" by auto
    have "map_of m i = Some (chosen_state rs d review)"
      unfolding m(3) using review dist by (auto simp: map_of_eq_Some_iff comp_def)
    moreover have "chosen_state rs d review =
        stamp_state k (if chosen_local rs i then kind_state k l i else kind_state k r i)
        (kind_state k l i) (kind_state k r i) d"
      using review row [OF review(1)]
      by (simp add: chosen_state_def chosen_local_def review_row_def)
        (metis review_item.select_convs(4,5))
    ultimately show ?thesis using True by simp
  next
    case False
    then show ?thesis unfolding m(3) by (auto simp: map_of_eq_None_iff)
  qed
  show "resolved_state l m = merged_state l r rs d"
    unfolding fun_eq_iff resolved_state_def merged_state_def Let_def m_of
      reviewed_iff [OF finder run] by simp
  show "\<not> chosen_local rs i" if missing: "kind_state k l i = Missing" "kind_state k r i \<noteq> Missing" for i
  proof
    assume "chosen_local rs i"
    then obtain a where a: "a \<in> set rs" "rr_id a = i" "rr_action a = Use_local"
      by (auto simp: chosen_local_def)
    have "\<not> json_equal_states (kind_state k l i) (kind_state k r i)"
      using missing json_equal_cases [of "kind_state k l i" "kind_state k r i"] by auto
    then obtain review where review: "review \<in> set reviews" "rv_id review = i"
      using reviewed_iff [OF finder run, of i] by auto
    have "rv_relation review = Rel_remote_only"
      using row [OF review(1)] missing review(2) get_relation_iff(2)
      by (metis review_item.select_convs(2) review_row_def)
    with m(4) review have b: "\<lparr>rr_id = i, rr_action = Use_remote\<rparr> \<in> set rs" by blast
    have "a = \<lparr>rr_id = i, rr_action = Use_remote\<rparr>"
      using m(2) a(1,2) b unfolding distinct_map
      by (metis inj_onD review_resolution.select_convs(1))
    with a(3) show False by simp
  qed
qed

text \<open>
  Counters after the resolution: never behind either side, at most one event of the resolving
  device ahead of both, and strictly ahead of both sides wherever they differed.
\<close>

lemma merged_counters:
  assumes chosen: "kind_state k l i = Missing \<Longrightarrow> kind_state k r i \<noteq> Missing \<Longrightarrow> \<not> chosen_local rs i"
    and reviewed: "json_equal_states (kind_state k l i) (kind_state k r i) \<or>
      (kind_state k r i \<noteq> Missing \<and>
       (kind_state k l i = Missing \<or> counters (kind_state k l i) < counters (kind_state k r i)))"
  shows "counters (kind_state k l i) \<le> counters (merged_state l r rs d i)"
    and "counters (kind_state k r i) \<le> counters (merged_state l r rs d i)"
    and "counters (merged_state l r rs d i) \<le>
      (sup (counters (kind_state k l i)) (counters (kind_state k r i)))
        (d := js_succ (max (counters (kind_state k l i) d) (counters (kind_state k r i) d)))"
    and "\<not> json_equal_states (kind_state k l i) (kind_state k r i) \<Longrightarrow>
      merged_state l r rs d i \<noteq> Missing \<and> (counters (kind_state k r i) d < js_limit \<longrightarrow>
      counters (kind_state k l i) < counters (merged_state l r rs d i) \<and>
      counters (kind_state k r i) < counters (merged_state l r rs d i))"
proof -
  let ?s = "kind_state k l i" and ?t = "kind_state k r i"
  let ?c = "if chosen_local rs i then ?s else ?t"
  have up: "counters ?s \<le> (sup (counters ?s) (counters ?t))(d := js_succ (max (counters ?s d) (counters ?t d)))"
    "counters ?t \<le> (sup (counters ?s) (counters ?t))(d := js_succ (max (counters ?s d) (counters ?t d)))"
    using js_succ_ge [of "max (counters ?s d) (counters ?t d)"] by (auto simp: le_fun_def)
  have differ: "\<not> json_equal_states ?s ?t \<Longrightarrow> ?c \<noteq> Missing"
    using chosen reviewed by auto
  have cnt: "\<not> json_equal_states ?s ?t \<Longrightarrow> counters (merged_state l r rs d i) =
      (sup (counters ?s) (counters ?t))(d := js_succ (max (counters ?s d) (counters ?t d)))"
    using stamp_counters [OF differ] by (simp add: merged_state_def Let_def)
  have same: "json_equal_states ?s ?t \<Longrightarrow> merged_state l r rs d i = ?s \<and> counters ?s = counters ?t"
    by (simp add: merged_state_def json_equal_counters)
  show "counters ?s \<le> counters (merged_state l r rs d i)"
    "counters ?t \<le> counters (merged_state l r rs d i)"
    using up same cnt by (cases "json_equal_states ?s ?t"; simp)+
  show "counters (merged_state l r rs d i) \<le>
      (sup (counters ?s) (counters ?t))(d := js_succ (max (counters ?s d) (counters ?t d)))"
    using up same cnt by (cases "json_equal_states ?s ?t") simp_all
  show "merged_state l r rs d i \<noteq> Missing \<and> (counters ?t d < js_limit \<longrightarrow>
      counters ?s < counters (merged_state l r rs d i) \<and> counters ?t < counters (merged_state l r rs d i))"
    if "\<not> json_equal_states ?s ?t"
  proof
    show "merged_state l r rs d i \<noteq> Missing"
      using that differ by (simp add: merged_state_def Let_def stamp_Missing_iff)
    show "counters ?t d < js_limit \<longrightarrow>
      counters ?s < counters (merged_state l r rs d i) \<and> counters ?t < counters (merged_state l r rs d i)"
    proof
      assume lim: "counters ?t d < js_limit"
      have "counters ?s \<le> counters ?t"
        using reviewed that by (auto simp: le_fun_def less_fun_def)
      then have le: "counters ?s d \<le> counters ?t d" by (simp add: le_fun_def)
      with lim have "counters ?t d < counters (merged_state l r rs d i) d"
        by (simp add: cnt [OF that] max_def)
      with le have "counters ?s d < counters (merged_state l r rs d i) d"
        "counters ?t d < counters (merged_state l r rs d i) d" by simp_all
      then have strict: "\<not> counters (merged_state l r rs d i) \<le> counters ?s"
        "\<not> counters (merged_state l r rs d i) \<le> counters ?t"
        by (meson le_funD not_le)+
      with up show "counters ?s < counters (merged_state l r rs d i) \<and> counters ?t < counters (merged_state l r rs d i)"
        by (simp add: less_le_not_le cnt [OF that])
    qed
  qed
qed

text \<open>The resolution of one kind, as a whole.\<close>

lemma resolution_of_review:
  assumes finder: "sound_finder finder"
    and run: "find_changed k finder l r = Inr reviews" and res: "resolve_states k reviews rs d = Inr m"
    and build: "build_resolved k l r m = Inr (items, dels)"
  shows "item_state (k_id k) items dels = merged_state l r rs d"
    and "items_ok (k_id k) items dels"
proof -
  note merged = resolved_state_merged(1) [OF finder run res]
  have "identified (merged_state l r rs d)"
    unfolding identified_def
  proof (intro allI)
    fix i x e
    show "(merged_state l r rs d i = Item x \<longrightarrow> k_id k x = i) \<and>
      (merged_state l r rs d i = Deleted e \<longrightarrow> del_id e = i)"
      using item_state_id [where idf = "k_id k", of "k_active k l" "k_deleted k l" i]
        item_state_id [where idf = "k_id k", of "k_active k r" "k_deleted k r" i]
      by (auto simp: merged_state_def Let_def kind_state_def dest!: stamp_id split: if_splits)
  qed
  moreover have "merged_state l r rs d i = Missing" if "i \<notin> set (find_all_ids k l r)" for i
    using find_all_ids_complete [OF that] by (simp add: merged_state_def json_equal_states_refl)
  ultimately show "item_state (k_id k) items dels = merged_state l r rs d"
    and "items_ok (k_id k) items dels"
    unfolding build_resolved_Inr [OF build] merged
    by (simp_all add: item_state_collected items_ok_collected distinct_find_all_ids)
qed

lemma collection_ok_resolved:
  assumes finder: "sound_finder finder"
    and run: "find_changed k finder l r = Inr reviews" and res: "resolve_states k reviews rs d = Inr m"
    and build: "build_resolved k l r m = Inr (items, dels)"
    and ok: "collection_ok (k_vector k) (k_id k) (v_versionVector l) (k_active k l) (k_deleted k l)"
      "collection_ok (k_vector k) (k_id k) (v_versionVector r) (k_active k r) (k_deleted k r)"
  shows "collection_ok (k_vector k) (k_id k)
    (incrementVersionVector (mergeVersionVectors (v_versionVector l) (v_versionVector r)) d) items dels"
proof -
  note res_ok = resolution_of_review [OF finder run res build]
  have "counters (merged_state l r rs d i) \<le>
      vv_get (incrementVersionVector (mergeVersionVectors (v_versionVector l) (v_versionVector r)) d)" for i
  proof -
    have le: "counters (kind_state k l i) \<le> vv_get (v_versionVector l)"
      "counters (kind_state k r i) \<le> vv_get (v_versionVector r)"
      using ok by (simp_all add: collection_ok_def kind_state_def)
    then have le': "counters (kind_state k l i) x \<le> vv_get (v_versionVector l) x"
      "counters (kind_state k r i) x \<le> vv_get (v_versionVector r) x" for x
      by (simp_all add: le_fun_def)
    have "(sup (counters (kind_state k l i)) (counters (kind_state k r i)))
        (d := js_succ (max (counters (kind_state k l i) d) (counters (kind_state k r i) d))) \<le>
      vv_get (incrementVersionVector (mergeVersionVectors (v_versionVector l) (v_versionVector r)) d)"
      using le' by (auto simp: le_fun_def sup_fun_def sup_max intro!: js_succ_mono intro: max.mono max.coboundedI1 max.coboundedI2)
    with merged_counters(3) [OF resolved_state_merged(2) [OF finder run res] reviewed_states [OF finder run]]
    show ?thesis by (rule order_trans)
  qed
  with res_ok show ?thesis by (simp add: collection_ok_def)
qed

text \<open>The resolved state can be reviewed again, from either side.\<close>

lemma merged_not_broken:
  assumes finder: "sound_finder finder"
    and run: "find_changed k finder l r = Inr reviews" and res: "resolve_states k reviews rs d = Inr m"
    and lim: "counters (kind_state k r i) d < js_limit"
  shows "get_relation k (kind_state k r i) (merged_state l r rs d i) \<noteq> Rel_broken"
    and "get_relation k (kind_state k l i) (merged_state l r rs d i) \<noteq> Rel_broken"
proof -
  let ?s = "kind_state k l i" and ?t = "kind_state k r i" and ?m = "merged_state l r rs d i"
  note reviewed = reviewed_states [OF finder run, of i]
  note cnt = merged_counters(4) [OF resolved_state_merged(2) [OF finder run res] reviewed, of d]
  have "get_relation k ?t ?m \<noteq> Rel_broken \<and> get_relation k ?s ?m \<noteq> Rel_broken"
  proof (cases "json_equal_states ?s ?t")
    case True
    then have m: "?m = ?s" by (simp add: merged_state_def)
    have "get_relation k ?t ?m = Rel_equal" "get_relation k ?s ?m = Rel_equal"
      unfolding m get_relation_iff using True by (simp_all add: json_equal_states_sym json_equal_states_refl)
    then show ?thesis by simp
  next
    case False
    with cnt lim reviewed have "?m \<noteq> Missing" "?t \<noteq> Missing" "counters ?t < counters ?m" "counters ?s < counters ?m"
      by blast+
    then have "get_relation k ?t ?m = Rel_remote_ahead"
      "get_relation k ?s ?m = (if ?s = Missing then Rel_remote_only else Rel_remote_ahead)"
      by (auto simp: get_relation_iff)
    then show ?thesis by auto
  qed
  then show "get_relation k ?t ?m \<noteq> Rel_broken" "get_relation k ?s ?m \<noteq> Rel_broken" by blast+
qed

end

section \<open>The resolution of a vault\<close>

text \<open>The review of two vaults, as \<open>PrepareSyncReviewUseCase\<close> computes it.\<close>

definition reviewed_vaults :: "Vault \<Rightarrow> Vault \<Rightarrow> VaultSyncReview \<Rightarrow> bool" where
  "reviewed_vaults l r review \<longleftrightarrow>
     findChangedEntries l r = Inr (sr_entryReviews review) \<and>
     findChangedTags l r = Inr (sr_tagReviews review) \<and>
     findChangedFolders l r = Inr (sr_folderReviews review) \<and>
     findChangedDeviceProfiles l r = Inr (sr_deviceProfileReviews review)"

lemma reviewed_vaults_D:
  assumes "reviewed_vaults l r review"
  shows "find_changed entry_kind (find_item entry_kind) l r = Inr (sr_entryReviews review)"
    "find_changed tag_kind (find_item tag_kind) l r = Inr (sr_tagReviews review)"
    "find_changed folder_kind (find_item folder_kind) l r = Inr (sr_folderReviews review)"
    "find_changed device_profile_kind findDeviceProfile l r = Inr (sr_deviceProfileReviews review)"
  using assms by (auto simp: reviewed_vaults_def find_changed_instances dest: findChangedFolders_Inr)

lemma kind_accessors [simp]:
  "k_id entry_kind = e_id" "k_active entry_kind = v_entries" "k_deleted entry_kind = v_deletedEntries"
  "k_id tag_kind = t_id" "k_active tag_kind = v_tags" "k_deleted tag_kind = v_deletedTags"
  "k_id folder_kind = f_id" "k_active folder_kind = v_folders" "k_deleted folder_kind = v_deletedFolders"
  "k_id device_profile_kind = d_id" "k_active device_profile_kind = v_deviceProfiles"
  "k_deleted device_profile_kind = v_deletedDeviceProfiles"
  "k_vector entry_kind = e_versionVector" "k_vector tag_kind = t_versionVector"
  "k_vector folder_kind = f_versionVector" "k_vector device_profile_kind = d_versionVector"
  by (simp_all add: kind_defs)

lemma kind_states:
  "kind_state entry_kind = entry_state" "kind_state tag_kind = tag_state"
  "kind_state folder_kind = folder_state" "kind_state device_profile_kind = device_state"
  by (simp_all add: fun_eq_iff kind_state_def state_defs)

text \<open>The parts of a successful resolution.\<close>

lemma applyVaultSyncResolution_Inr:
  assumes "applyVaultSyncResolution nfkc l r review res d = Inr v'"
  obtains es ts fs ds where
    "resolve_states entry_kind (sr_entryReviews review) (entryResolutions res) d = Inr es"
    "resolve_states tag_kind (sr_tagReviews review) (tagResolutions res) d = Inr ts"
    "resolve_states folder_kind (sr_folderReviews review) (folderResolutions res) d = Inr fs"
    "resolve_states device_profile_kind (sr_deviceProfileReviews review) (deviceProfileResolutions res) d = Inr ds"
    "build_resolved entry_kind l r es = Inr (v_entries v', v_deletedEntries v')"
    "build_resolved tag_kind l r ts = Inr (v_tags v', v_deletedTags v')"
    "build_resolved folder_kind l r fs = Inr (v_folders v', v_deletedFolders v')"
    "build_resolved device_profile_kind l r ds = Inr (v_deviceProfiles v', v_deletedDeviceProfiles v')"
    "v_versionVector v' =
       incrementVersionVector (mergeVersionVectors (v_versionVector l) (v_versionVector r)) d"
    "v_tagGroups v' = v_tagGroups l"
    "requireValidVaultTagReferences v' = Inr ()" "requireValidVaultOrganization nfkc v' = Inr ()"
    "areJsonEqual (tag_groups_json (v_tagGroups l)) (tag_groups_json (v_tagGroups r))"
  using assms
  by (auto simp: applyVaultSyncResolution_def Let_def rbind_eq_Inr_iff resolveEntryStates_def
      resolveTagStates_def resolveFolderStates_def resolveDeviceProfileStates_def
      buildResolvedVaultEntries_def buildResolvedVaultTags_def buildResolvedVaultFolders_def
      buildResolvedVaultDeviceProfiles_def split: if_splits sum.splits)

text \<open>The state of every item after the resolution, and the consistency of the resolved vault.\<close>

lemma resolved_vault_states:
  assumes rev: "reviewed_vaults l r review" and run: "applyVaultSyncResolution nfkc l r review res d = Inr v'"
  shows "entry_state v' = entry.merged_state l r (entryResolutions res) d"
    "tag_state v' = tag.merged_state l r (tagResolutions res) d"
    "folder_state v' = folder.merged_state l r (folderResolutions res) d"
    "device_state v' = device_profile.merged_state l r (deviceProfileResolutions res) d"
proof -
  note reviews = reviewed_vaults_D [OF rev]
  from run obtain es ts fs ds where parts:
    "resolve_states entry_kind (sr_entryReviews review) (entryResolutions res) d = Inr es"
    "resolve_states tag_kind (sr_tagReviews review) (tagResolutions res) d = Inr ts"
    "resolve_states folder_kind (sr_folderReviews review) (folderResolutions res) d = Inr fs"
    "resolve_states device_profile_kind (sr_deviceProfileReviews review) (deviceProfileResolutions res) d = Inr ds"
    "build_resolved entry_kind l r es = Inr (v_entries v', v_deletedEntries v')"
    "build_resolved tag_kind l r ts = Inr (v_tags v', v_deletedTags v')"
    "build_resolved folder_kind l r fs = Inr (v_folders v', v_deletedFolders v')"
    "build_resolved device_profile_kind l r ds = Inr (v_deviceProfiles v', v_deletedDeviceProfiles v')"
    by (rule applyVaultSyncResolution_Inr)
  show "entry_state v' = entry.merged_state l r (entryResolutions res) d"
    using entry.resolution_of_review(1) [OF entry.sound_find_item reviews(1) parts(1,5)]
    by (simp add: entry_state_def)
  show "tag_state v' = tag.merged_state l r (tagResolutions res) d"
    using tag.resolution_of_review(1) [OF tag.sound_find_item reviews(2) parts(2,6)]
    by (simp add: tag_state_def)
  show "folder_state v' = folder.merged_state l r (folderResolutions res) d"
    using folder.resolution_of_review(1) [OF folder.sound_find_item reviews(3) parts(3,7)]
    by (simp add: folder_state_def)
  show "device_state v' = device_profile.merged_state l r (deviceProfileResolutions res) d"
    using device_profile.resolution_of_review(1) [OF sound_findDeviceProfile reviews(4) parts(4,8)]
    by (simp add: device_state_def)
qed

lemma resolved_vault_consistent:
  assumes rev: "reviewed_vaults l r review" and run: "applyVaultSyncResolution nfkc l r review res d = Inr v'"
    and ok: "vault_ok l" "vault_ok r"
  shows "consistent_vault nfkc v'"
proof -
  note reviews = reviewed_vaults_D [OF rev]
  from run obtain es ts fs ds where parts:
    "resolve_states entry_kind (sr_entryReviews review) (entryResolutions res) d = Inr es"
    "resolve_states tag_kind (sr_tagReviews review) (tagResolutions res) d = Inr ts"
    "resolve_states folder_kind (sr_folderReviews review) (folderResolutions res) d = Inr fs"
    "resolve_states device_profile_kind (sr_deviceProfileReviews review) (deviceProfileResolutions res) d = Inr ds"
    "build_resolved entry_kind l r es = Inr (v_entries v', v_deletedEntries v')"
    "build_resolved tag_kind l r ts = Inr (v_tags v', v_deletedTags v')"
    "build_resolved folder_kind l r fs = Inr (v_folders v', v_deletedFolders v')"
    "build_resolved device_profile_kind l r ds = Inr (v_deviceProfiles v', v_deletedDeviceProfiles v')"
    and vec: "v_versionVector v' =
      incrementVersionVector (mergeVersionVectors (v_versionVector l) (v_versionVector r)) d"
    and checks: "requireValidVaultTagReferences v' = Inr ()" "requireValidVaultOrganization nfkc v' = Inr ()"
    by (rule applyVaultSyncResolution_Inr)
  have "vault_ok v'"
    using ok entry.collection_ok_resolved [OF entry.sound_find_item reviews(1) parts(1,5)]
      tag.collection_ok_resolved [OF tag.sound_find_item reviews(2) parts(2,6)]
      folder.collection_ok_resolved [OF folder.sound_find_item reviews(3) parts(3,7)]
      device_profile.collection_ok_resolved [OF sound_findDeviceProfile reviews(4) parts(4,8)]
    by (simp add: vault_ok_def vec)
  with checks show ?thesis
    by (simp add: consistent_vault_def requireValidVaultTagReferences_Inr requireValidVaultOrganization_Inr_iff)
qed

text \<open>
  After the resolution the vault can be synchronised back: the vault that the remote side holds
  reviews the resolved vault without a conflict.
\<close>

lemma resolved_vault_syncs_back:
  assumes rev: "reviewed_vaults l r review" and run: "applyVaultSyncResolution nfkc l r review res d = Inr v'"
    and ok: "vault_ok l" "vault_ok r" and lim: "vv_get (v_versionVector r) d < js_limit"
  shows "\<exists>review'. reviewed_vaults r v' review'"
proof -
  note reviews = reviewed_vaults_D [OF rev]
  have "vault_ok v'" using resolved_vault_consistent [OF rev run ok] by (simp add: consistent_vault_def)
  then have items: "items_ok e_id (v_entries v') (v_deletedEntries v')" "items_ok t_id (v_tags v') (v_deletedTags v')"
    "items_ok f_id (v_folders v') (v_deletedFolders v')" "items_ok d_id (v_deviceProfiles v') (v_deletedDeviceProfiles v')"
    by (simp_all add: vault_ok_def collection_ok_def)
  have items_r: "items_ok e_id (v_entries r) (v_deletedEntries r)" "items_ok t_id (v_tags r) (v_deletedTags r)"
    "items_ok f_id (v_folders r) (v_deletedFolders r)" "items_ok d_id (v_deviceProfiles r) (v_deletedDeviceProfiles r)"
    using ok(2) by (simp_all add: vault_ok_def collection_ok_def)
  from run obtain es ts fs ds where parts:
    "resolve_states entry_kind (sr_entryReviews review) (entryResolutions res) d = Inr es"
    "resolve_states tag_kind (sr_tagReviews review) (tagResolutions res) d = Inr ts"
    "resolve_states folder_kind (sr_folderReviews review) (folderResolutions res) d = Inr fs"
    "resolve_states device_profile_kind (sr_deviceProfileReviews review) (deviceProfileResolutions res) d = Inr ds"
    and groups: "v_tagGroups v' = v_tagGroups l"
      "areJsonEqual (tag_groups_json (v_tagGroups l)) (tag_groups_json (v_tagGroups r))"
    by (rule applyVaultSyncResolution_Inr)
  note states = resolved_vault_states [OF rev run]
  have below: "state_counters e_versionVector (entry_state r i) d < js_limit"
    "state_counters t_versionVector (tag_state r i) d < js_limit"
    "state_counters f_versionVector (folder_state r i) d < js_limit"
    "state_counters d_versionVector (device_state r i) d < js_limit" for i
    using ok(2) lim unfolding vault_ok_def state_defs by (auto intro: state_counters_below_limit)
  have "\<exists>es'. find_changed entry_kind (find_item entry_kind) r v' = Inr es'"
    using entry.merged_not_broken(1) [OF entry.sound_find_item reviews(1) parts(1)] below(1)
    by (intro entry.find_changed_complete entry.find_item_ok) (simp_all add: items items_r kind_states states)
  moreover have "\<exists>ts'. find_changed tag_kind (find_item tag_kind) r v' = Inr ts'"
    using tag.merged_not_broken(1) [OF tag.sound_find_item reviews(2) parts(2)] below(2)
    by (intro tag.find_changed_complete tag.find_item_ok) (simp_all add: items items_r kind_states states)
  moreover have "\<exists>fs'. find_changed folder_kind (find_item folder_kind) r v' = Inr fs'"
    using folder.merged_not_broken(1) [OF folder.sound_find_item reviews(3) parts(3)] below(3)
    by (intro folder.find_changed_complete folder.find_item_ok) (simp_all add: items items_r kind_states states)
  moreover have "\<exists>ds'. find_changed device_profile_kind findDeviceProfile r v' = Inr ds'"
    using device_profile.merged_not_broken(1) [OF sound_findDeviceProfile reviews(4) parts(4)] below(4)
    by (intro device_profile.find_changed_complete findDeviceProfile_ok) (simp_all add: items items_r kind_states states)
  ultimately obtain es' ts' fs' ds' where
    "findChangedEntries r v' = Inr es'" "findChangedTags r v' = Inr ts'"
    "findChangedFolders r v' = Inr fs'" "findChangedDeviceProfiles r v' = Inr ds'"
    using groups by (auto simp: find_changed_instances findChangedFolders_def findFolder_def areJsonEqual_canonical)
  then have "reviewed_vaults r v' \<lparr>sr_entryReviews = es', sr_tagReviews = ts', sr_folderReviews = fs',
      sr_deviceProfileReviews = ds'\<rparr>"
    by (simp add: reviewed_vaults_def)
  then show ?thesis by blast
qed

end
