(* ===== verification/Vault_Trust.thy ===== *)
theory Vault_Trust
  imports Vault_Model
begin

text \<open>
  The device-trust chain (\<open>services/trust/vault-trust.service.ts\<close>): a list of certificates, each
  naming the devices trusted from then on, signed by a device that the certificate before it
  trusts and linked to it by a digest.

  The cryptographic port is not part of the repository: it is the record \<open>crypto\<close>, an argument
  of every operation. What a theorem needs of it is a named hypothesis (\<open>signatures_verify\<close>:
  a signature made with a key pair verifies; \<open>collision_free\<close>: certificates with equal digests
  are equal).
\<close>

section \<open>Ports and data\<close>

record CheckpointPayload =
  cp_version :: int
  cp_vaultId :: string
  cp_deviceId :: string
  cp_trustGeneration :: int
  cp_trustCertificateDigest :: string
  cp_vaultKeyGeneration :: int
  cp_snapshotVersionVector :: VersionVector
  cp_snapshotDigest :: string

record LocalVaultTrustCheckpoint =
  chk_payload :: CheckpointPayload
  chk_signature :: string

record crypto =
  algorithmSuiteId :: string
  signVaultTrustCertificate :: "VaultTrustCertificatePayload \<Rightarrow> bytes \<Rightarrow> string"
  verifyVaultTrustCertificateSignature :: "VaultTrustCertificate \<Rightarrow> bytes \<Rightarrow> bool"
  digestVaultTrustCertificate :: "VaultTrustCertificate \<Rightarrow> string"
  digestDevicePublicSignKey :: "bytes \<Rightarrow> string"
  digestDevicePublicVaultKey :: "bytes \<Rightarrow> string"
  verifyDeviceSignKeyPair :: "bytes \<Rightarrow> bytes \<Rightarrow> bool"
  verifyVaultSnapshotSignature :: "VaultSnapshot \<Rightarrow> bytes \<Rightarrow> bool"
  digestVaultSnapshot :: "VaultSnapshot \<Rightarrow> string"
  signLocalVaultTrustCheckpoint :: "CheckpointPayload \<Rightarrow> bytes \<Rightarrow> string"
  verifyLocalVaultTrustCheckpointSignature :: "LocalVaultTrustCheckpoint \<Rightarrow> bytes \<Rightarrow> bool"

datatype DeviceTrustTransition =
    Enrollment (tr_device: string) (tr_authorizer: string) (tr_generation: int) (tr_keyGeneration: int)
  | Revocation (tr_device: string) (tr_authorizer: string) (tr_generation: int) (tr_keyGeneration: int)

abbreviation cert_devices :: "VaultTrustCertificate \<Rightarrow> DeviceTrustIdentity list" where
  "cert_devices c \<equiv> tc_trustedDevices (cert_payload c)"

abbreviation cert_generation :: "VaultTrustCertificate \<Rightarrow> int" where
  "cert_generation c \<equiv> tc_generation (cert_payload c)"

abbreviation cert_keyGeneration :: "VaultTrustCertificate \<Rightarrow> int" where
  "cert_keyGeneration c \<equiv> tc_vaultKeyGeneration (cert_payload c)"

definition is_safe_integer :: "int \<Rightarrow> bool" where
  "is_safe_integer n \<longleftrightarrow> \<bar>n\<bar> \<le> 2 ^ 53 - 1"

definition has_device :: "DeviceTrustIdentity list \<Rightarrow> string \<Rightarrow> bool" where
  "has_device ds i \<longleftrightarrow> list_ex (\<lambda>d. dti_deviceId d = i) ds"

definition find_device :: "DeviceTrustIdentity list \<Rightarrow> string \<Rightarrow> DeviceTrustIdentity option" where
  "find_device ds i = find (\<lambda>d. dti_deviceId d = i) ds"

text \<open>Devices of the second list that the first one does not name.\<close>

definition devices_not_in ::
  "DeviceTrustIdentity list \<Rightarrow> DeviceTrustIdentity list \<Rightarrow> DeviceTrustIdentity list" where
  "devices_not_in old new = filter (\<lambda>d. \<not> has_device old (dti_deviceId d)) new"

section \<open>Checks on one certificate\<close>

definition requireValidDeviceIdentities :: "string \<Rightarrow> VaultTrustCertificate \<Rightarrow> core_error + unit" where
  "requireValidDeviceIdentities vaultId certificate =
     (let p = cert_payload certificate in
      require
        (\<not> (tc_version p \<noteq> 1 \<or> tc_generation p < 0 \<or> \<not> is_safe_integer (tc_generation p) \<or>
            \<not> is_safe_integer (tc_vaultKeyGeneration p) \<or> tc_vaultKeyGeneration p < 1 \<or>
            length (tc_trustedDevices p) = 0 \<or>
            length (js_set (map dti_deviceId (tc_trustedDevices p))) \<noteq> length (tc_trustedDevices p)))
        (VaultTrustStateInvalidError vaultId Invalid_certificate_fields))"

definition requireUniquePublicKeys ::
  "crypto \<Rightarrow> string \<Rightarrow> VaultTrustCertificate \<Rightarrow> core_error + unit" where
  "requireUniquePublicKeys cr vaultId certificate =
     (let signingKeyDigests =
            map (\<lambda>d. digestDevicePublicSignKey cr (dti_publicSignKey d)) (cert_devices certificate);
          vaultKeyDigests =
            map (\<lambda>d. digestDevicePublicVaultKey cr (dti_publicVaultKey d)) (cert_devices certificate)
      in require
           (\<not> (length (js_set signingKeyDigests) \<noteq> length signingKeyDigests \<or>
               length (js_set vaultKeyDigests) \<noteq> length vaultKeyDigests))
           (VaultTrustStateInvalidError vaultId Duplicate_public_key))"

definition arePublicKeysEqual :: "crypto \<Rightarrow> bytes \<Rightarrow> bytes \<Rightarrow> bool" where
  "arePublicKeysEqual cr left right \<longleftrightarrow>
     digestDevicePublicSignKey cr left = digestDevicePublicSignKey cr right"

definition areDeviceIdentitiesEqual ::
  "crypto \<Rightarrow> DeviceTrustIdentity \<Rightarrow> DeviceTrustIdentity \<Rightarrow> bool" where
  "areDeviceIdentitiesEqual cr left right \<longleftrightarrow>
     arePublicKeysEqual cr (dti_publicSignKey left) (dti_publicSignKey right) \<and>
     digestDevicePublicVaultKey cr (dti_publicVaultKey left) =
     digestDevicePublicVaultKey cr (dti_publicVaultKey right)"

definition requireValidTrustTransition ::
  "crypto \<Rightarrow> string \<Rightarrow> VaultTrustCertificate \<Rightarrow> VaultTrustCertificate \<Rightarrow> core_error + unit" where
  "requireValidTrustTransition cr vaultId previous current =
     (let addedDevices = devices_not_in (cert_devices previous) (cert_devices current);
          removedDevices = devices_not_in (cert_devices current) (cert_devices previous);
          isEnrollment =
            length addedDevices = 1 \<and> length removedDevices = 0 \<and>
            cert_keyGeneration current = cert_keyGeneration previous;
          isRevocation =
            length addedDevices = 0 \<and> length removedDevices > 0 \<and>
            cert_keyGeneration current = cert_keyGeneration previous + 1 \<and>
            has_device (cert_devices current) (tc_authorizedByDeviceId (cert_payload current))
      in rbind
           (rfold (\<lambda>currentDevice _.
              case find_device (cert_devices previous) (dti_deviceId currentDevice) of
                None \<Rightarrow> Inr ()
              | Some previousDevice \<Rightarrow>
                  require (areDeviceIdentitiesEqual cr previousDevice currentDevice)
                    (VaultTrustStateInvalidError vaultId Identity_changed))
              (cert_devices current) ())
           (\<lambda>_. require (isEnrollment \<or> isRevocation)
              (VaultTrustStateInvalidError vaultId Unsupported_transition)))"

section \<open>Verifying a chain\<close>

text \<open>The variables of the loop: the last certificate with its digest, and the three sets.\<close>

record chain_state =
  previous_of :: "(VaultTrustCertificate \<times> string) option"
  seenDeviceIds :: "string set"
  seenSigningKeyDigests :: "string set"
  seenVaultKeyDigests :: "string set"

definition requireGenesis ::
  "crypto \<Rightarrow> string \<Rightarrow> LocalVaultTrustAnchor \<Rightarrow> VaultTrustCertificate \<Rightarrow> core_error + unit" where
  "requireGenesis cr vaultId anchor certificate =
     (let p = cert_payload certificate in
      rbind
        (require
          (\<not> (tc_generation p \<noteq> 0 \<or> tc_vaultKeyGeneration p \<noteq> 1 \<or>
              tc_previousCertificateDigest p \<noteq> None \<or>
              tc_authorizedByDeviceId p \<noteq> an_genesisDeviceId anchor \<or>
              digestVaultTrustCertificate cr certificate \<noteq> an_genesisCertificateDigest anchor))
          (VaultTrustStateInvalidError vaultId Invalid_genesis_certificate))
        (\<lambda>_. case find_device (tc_trustedDevices p) (an_genesisDeviceId anchor) of
           None \<Rightarrow> Inl (VaultTrustStateInvalidError vaultId Invalid_genesis_signature)
         | Some genesisIdentity \<Rightarrow>
             require
               (arePublicKeysEqual cr (dti_publicSignKey genesisIdentity) (an_genesisPublicSignKey anchor) \<and>
                verifyVaultTrustCertificateSignature cr certificate (an_genesisPublicSignKey anchor))
               (VaultTrustStateInvalidError vaultId Invalid_genesis_signature)))"

definition requireSuccessor ::
  "crypto \<Rightarrow> string \<Rightarrow> chain_state \<Rightarrow> VaultTrustCertificate \<Rightarrow> string \<Rightarrow> VaultTrustCertificate \<Rightarrow>
   core_error + unit" where
  "requireSuccessor cr vaultId st previous previousDigest certificate =
     (let p = cert_payload certificate in
      rbind
        (require
          (\<not> (tc_generation p \<noteq> cert_generation previous + 1 \<or>
              tc_previousCertificateDigest p \<noteq> Some previousDigest))
          (VaultTrustStateInvalidError vaultId Disconnected_chain))
        (\<lambda>_. rbind
          (case find_device (cert_devices previous) (tc_authorizedByDeviceId p) of
             None \<Rightarrow> Inl (VaultTrustStateInvalidError vaultId Unauthorized_transition)
           | Some authorizer \<Rightarrow>
               require (verifyVaultTrustCertificateSignature cr certificate (dti_publicSignKey authorizer))
                 (VaultTrustStateInvalidError vaultId Unauthorized_transition))
        (\<lambda>_. rbind
          (rfold (\<lambda>device _. require
             (\<not> (dti_deviceId device \<in> seenDeviceIds st \<or>
                 digestDevicePublicSignKey cr (dti_publicSignKey device) \<in> seenSigningKeyDigests st \<or>
                 digestDevicePublicVaultKey cr (dti_publicVaultKey device) \<in> seenVaultKeyDigests st))
             (VaultTrustStateInvalidError vaultId Revoked_device_enrolled_again))
           (devices_not_in (cert_devices previous) (cert_devices certificate)) ())
        (\<lambda>_. requireValidTrustTransition cr vaultId previous certificate))))"

definition verifyCertificate ::
  "crypto \<Rightarrow> string \<Rightarrow> LocalVaultTrustAnchor \<Rightarrow> VaultTrustCertificate \<Rightarrow> chain_state \<Rightarrow>
   core_error + chain_state" where
  "verifyCertificate cr vaultId anchor certificate st =
     rbind (requireValidDeviceIdentities vaultId certificate) (\<lambda>_.
     rbind (requireUniquePublicKeys cr vaultId certificate) (\<lambda>_.
     rbind (require (tc_vaultId (cert_payload certificate) = vaultId)
              (VaultTrustStateInvalidError vaultId Certificate_vault_mismatch)) (\<lambda>_.
     rbind (case previous_of st of
              None \<Rightarrow> requireGenesis cr vaultId anchor certificate
            | Some (previous, digest) \<Rightarrow>
                requireSuccessor cr vaultId st previous digest certificate) (\<lambda>_.
     Inr \<lparr> previous_of = Some (certificate, digestVaultTrustCertificate cr certificate),
           seenDeviceIds = seenDeviceIds st \<union> set (map dti_deviceId (cert_devices certificate)),
           seenSigningKeyDigests = seenSigningKeyDigests st \<union>
             set (map (\<lambda>d. digestDevicePublicSignKey cr (dti_publicSignKey d)) (cert_devices certificate)),
           seenVaultKeyDigests = seenVaultKeyDigests st \<union>
             set (map (\<lambda>d. digestDevicePublicVaultKey cr (dti_publicVaultKey d)) (cert_devices certificate)) \<rparr>))))"

definition verifyTrustChain ::
  "crypto \<Rightarrow> string \<Rightarrow> LocalVaultTrustAnchor \<Rightarrow> VaultTrustChain \<Rightarrow>
   core_error + VerifiedVaultTrustState" where
  "verifyTrustChain cr vaultId anchor chain =
     rbind (require (\<not> (an_vaultId anchor \<noteq> vaultId \<or> an_version anchor \<noteq> 1))
              (VaultTrustStateInvalidError vaultId Anchor_mismatch)) (\<lambda>_.
     rbind (require (length chain \<noteq> 0) (VaultTrustStateInvalidError vaultId Genesis_mismatch)) (\<lambda>_.
     rbind (rfold (verifyCertificate cr vaultId anchor) chain
              \<lparr> previous_of = None, seenDeviceIds = {}, seenSigningKeyDigests = {},
                seenVaultKeyDigests = {} \<rparr>) (\<lambda>st.
     case previous_of st of
       None \<Rightarrow> Inl (VaultTrustStateInvalidError vaultId Empty_chain)
     | Some (previous, digest) \<Rightarrow>
         Inr \<lparr> ts_generation = cert_generation previous, ts_vaultKeyGeneration = cert_keyGeneration previous,
               ts_certificateDigest = digest, ts_trustedDevices = cert_devices previous \<rparr>)))"

section \<open>Creating and extending a chain\<close>

record genesis_result =
  gr_anchor :: LocalVaultTrustAnchor
  gr_chain :: VaultTrustChain
  gr_trust :: VerifiedVaultTrustState

definition createGenesis ::
  "crypto \<Rightarrow> string \<Rightarrow> DeviceTrustIdentity \<Rightarrow> int \<Rightarrow> bytes \<Rightarrow> core_error + genesis_result" where
  "createGenesis cr vaultId device vaultKeyGeneration privateKey =
     rbind (require (\<not> vaultKeyGeneration \<noteq> 1)
              (VaultTrustStateInvalidError vaultId Genesis_key_generation)) (\<lambda>_.
     let payload = \<lparr> tc_version = 1, tc_vaultId = vaultId, tc_generation = 0,
                     tc_vaultKeyGeneration = vaultKeyGeneration,
                     tc_previousCertificateDigest = None,
                     tc_authorizedByDeviceId = dti_deviceId device, tc_trustedDevices = [device] \<rparr>;
         certificate = \<lparr> cert_payload = payload,
                         cert_signature = signVaultTrustCertificate cr payload privateKey \<rparr>;
         certificateDigest = digestVaultTrustCertificate cr certificate
     in Inr \<lparr> gr_anchor = \<lparr> an_version = 1, an_vaultId = vaultId,
                            an_genesisDeviceId = dti_deviceId device,
                            an_genesisPublicSignKey = dti_publicSignKey device,
                            an_genesisCertificateDigest = certificateDigest \<rparr>,
              gr_chain = [certificate],
              gr_trust = \<lparr> ts_generation = 0, ts_vaultKeyGeneration = vaultKeyGeneration,
                           ts_certificateDigest = certificateDigest,
                           ts_trustedDevices = [device] \<rparr> \<rparr>)"

definition appendTrustTransition ::
  "crypto \<Rightarrow> string \<Rightarrow> VaultTrustChain \<Rightarrow> VerifiedVaultTrustState \<Rightarrow> DeviceTrustIdentity list \<Rightarrow>
   int \<Rightarrow> string \<Rightarrow> bytes \<Rightarrow> core_error + (VaultTrustChain \<times> VerifiedVaultTrustState)" where
  "appendTrustTransition cr vaultId chain currentTrust trustedDevices vaultKeyGeneration
     authorizedByDeviceId privateKey =
     rbind (case find_device (ts_trustedDevices currentTrust) authorizedByDeviceId of
              None \<Rightarrow> Inl (VaultTrustStateInvalidError vaultId Authorizer_not_trusted)
            | Some authorizer \<Rightarrow>
                require (verifyDeviceSignKeyPair cr (dti_publicSignKey authorizer) privateKey)
                  (VaultTrustStateInvalidError vaultId Authorizer_key_mismatch)) (\<lambda>_.
     rbind (require
              (\<not> (chain = [] \<or>
                  digestVaultTrustCertificate cr (last chain) \<noteq> ts_certificateDigest currentTrust \<or>
                  cert_keyGeneration (last chain) \<noteq> ts_vaultKeyGeneration currentTrust))
              (VaultTrustStateInvalidError vaultId Current_chain_mismatch)) (\<lambda>_.
     let latestCertificate = last chain;
         historicalDevices = concat (map cert_devices chain);
         historicalSigningKeys =
           set (map (\<lambda>d. digestDevicePublicSignKey cr (dti_publicSignKey d)) historicalDevices);
         historicalVaultKeys =
           set (map (\<lambda>d. digestDevicePublicVaultKey cr (dti_publicVaultKey d)) historicalDevices);
         payload = \<lparr> tc_version = 1, tc_vaultId = vaultId,
                     tc_generation = ts_generation currentTrust + 1,
                     tc_vaultKeyGeneration = vaultKeyGeneration,
                     tc_previousCertificateDigest = Some (ts_certificateDigest currentTrust),
                     tc_authorizedByDeviceId = authorizedByDeviceId,
                     tc_trustedDevices = trustedDevices \<rparr>;
         certificate = \<lparr> cert_payload = payload,
                         cert_signature = signVaultTrustCertificate cr payload privateKey \<rparr>
     in
     rbind (rfold (\<lambda>device _. require
              (\<not> (dti_deviceId device \<in> set (map dti_deviceId historicalDevices) \<or>
                  digestDevicePublicSignKey cr (dti_publicSignKey device) \<in> historicalSigningKeys \<or>
                  digestDevicePublicVaultKey cr (dti_publicVaultKey device) \<in> historicalVaultKeys))
              (VaultTrustStateInvalidError vaultId Revoked_device_enrolled_again))
            (devices_not_in (cert_devices latestCertificate) trustedDevices) ()) (\<lambda>_.
     rbind (requireValidDeviceIdentities vaultId certificate) (\<lambda>_.
     rbind (requireUniquePublicKeys cr vaultId certificate) (\<lambda>_.
     rbind (requireValidTrustTransition cr vaultId latestCertificate certificate) (\<lambda>_.
     Inr (chain @ [certificate],
          \<lparr> ts_generation = tc_generation payload, ts_vaultKeyGeneration = vaultKeyGeneration,
            ts_certificateDigest = digestVaultTrustCertificate cr certificate,
            ts_trustedDevices = trustedDevices \<rparr>)))))))"

section \<open>Snapshots and checkpoints\<close>

definition requireValidDeviceSlots ::
  "string \<Rightarrow> VaultSnapshot \<Rightarrow> VerifiedVaultTrustState \<Rightarrow> core_error + unit" where
  "requireValidDeviceSlots vaultId snapshot trust =
     (let trustedDeviceIds = js_set (map dti_deviceId (ts_trustedDevices trust));
          slotDeviceIds = js_set (map slot_deviceId (snap_deviceSlots snapshot));
          keyGeneration = m_vaultKeyGeneration (snap_metadata snapshot)
      in rbind
           (require
             (\<not> (\<not> is_safe_integer keyGeneration \<or> keyGeneration < 1 \<or>
                 length trustedDeviceIds \<noteq> length (ts_trustedDevices trust) \<or>
                 length slotDeviceIds \<noteq> length (snap_deviceSlots snapshot) \<or>
                 length trustedDeviceIds \<noteq> length slotDeviceIds))
             (VaultTrustStateInvalidError vaultId Slots_do_not_match))
           (\<lambda>_. rfold (\<lambda>slot _. require
              (\<not> (slot_deviceId slot \<notin> set trustedDeviceIds \<or>
                  slot_vaultKeyGeneration slot \<noteq> keyGeneration \<or>
                  env_recipientDeviceId (slot_envelope slot) \<noteq> slot_deviceId slot \<or>
                  env_vaultKeyGeneration (slot_envelope slot) \<noteq> slot_vaultKeyGeneration slot))
              (VaultTrustStateInvalidError vaultId Slot_context_invalid))
              (snap_deviceSlots snapshot) ()))"

definition verifySnapshot ::
  "crypto \<Rightarrow> string \<Rightarrow> VaultSnapshot \<Rightarrow> VerifiedVaultTrustState \<Rightarrow> core_error + unit" where
  "verifySnapshot cr vaultId snapshot trust =
     (let m = snap_metadata snapshot in
      rbind (require (\<not> m_id m \<noteq> vaultId)
               (VaultTrustStateInvalidError vaultId Snapshot_vault_mismatch)) (\<lambda>_.
      rbind (require
               (\<not> (m_schemaVersion m \<noteq> 1 \<or> m_algorithmSuiteId m \<noteq> algorithmSuiteId cr \<or>
                   m_vaultKeyGeneration m \<noteq> ts_vaultKeyGeneration trust))
               (VaultTrustStateInvalidError vaultId Unsupported_snapshot_format)) (\<lambda>_.
      case find_device (ts_trustedDevices trust) (m_createdByDeviceId m) of
        None \<Rightarrow> Inl (VaultSnapshotSignerNotTrustedError vaultId (m_createdByDeviceId m))
      | Some signer \<Rightarrow>
          rbind (requireValidDeviceSlots vaultId snapshot trust) (\<lambda>_.
          require (verifyVaultSnapshotSignature cr snapshot (dti_publicSignKey signer))
            (VaultSnapshotSignatureVerificationFailedError vaultId)))))"

definition createCheckpoint ::
  "crypto \<Rightarrow> VaultSnapshot \<Rightarrow> VerifiedVaultTrustState \<Rightarrow> string \<Rightarrow> bytes \<Rightarrow>
   LocalVaultTrustCheckpoint" where
  "createCheckpoint cr snapshot trust deviceId privateKey =
     (let payload =
            \<lparr> cp_version = 1, cp_vaultId = m_id (snap_metadata snapshot), cp_deviceId = deviceId,
              cp_trustGeneration = ts_generation trust,
              cp_trustCertificateDigest = ts_certificateDigest trust,
              cp_vaultKeyGeneration = m_vaultKeyGeneration (snap_metadata snapshot),
              cp_snapshotVersionVector = m_snapshotVersionVector (snap_metadata snapshot),
              cp_snapshotDigest = digestVaultSnapshot cr snapshot \<rparr>
      in \<lparr> chk_payload = payload,
           chk_signature = signLocalVaultTrustCheckpoint cr payload privateKey \<rparr>)"

definition verifyCheckpoint ::
  "crypto \<Rightarrow> string \<Rightarrow> LocalVaultTrustCheckpoint \<Rightarrow> DeviceTrustIdentity \<Rightarrow> core_error + unit" where
  "verifyCheckpoint cr vaultId checkpoint device =
     (let p = chk_payload checkpoint in
      require
        (\<not> (cp_vaultId p \<noteq> vaultId \<or> cp_deviceId p \<noteq> dti_deviceId device \<or> cp_version p \<noteq> 1 \<or>
            \<not> is_safe_integer (cp_vaultKeyGeneration p) \<or> cp_vaultKeyGeneration p < 1 \<or>
            \<not> verifyLocalVaultTrustCheckpointSignature cr checkpoint (dti_publicSignKey device)))
        (LocalVaultTrustCheckpointInvalidError vaultId))"

section \<open>Comparing trust states\<close>

text \<open>\<open>chain.certificates[n]\<close>: an index outside the array gives \<open>undefined\<close>.\<close>

definition certificate_at :: "VaultTrustChain \<Rightarrow> int \<Rightarrow> VaultTrustCertificate option" where
  "certificate_at chain n =
     (if 0 \<le> n \<and> n < int (length chain) then Some (chain ! nat n) else None)"

definition requireTrustDescendsFrom ::
  "crypto \<Rightarrow> string \<Rightarrow> VaultTrustChain \<Rightarrow> VerifiedVaultTrustState \<Rightarrow> int \<Rightarrow> string \<Rightarrow>
   core_error + unit" where
  "requireTrustDescendsFrom cr vaultId chain trust baselineGeneration baselineDigest =
     rbind (require (\<not> ts_generation trust < baselineGeneration)
              (VaultSnapshotRollbackDetectedError vaultId)) (\<lambda>_.
     case certificate_at chain baselineGeneration of
       None \<Rightarrow> Inl (VaultSnapshotRollbackDetectedError vaultId)
     | Some baselineCertificate \<Rightarrow>
         require (\<not> digestVaultTrustCertificate cr baselineCertificate \<noteq> baselineDigest)
           (VaultSnapshotRollbackDetectedError vaultId))"

datatype freshness = Same_snapshot | Newer_snapshot

definition requireSnapshotNotRolledBack ::
  "crypto \<Rightarrow> string \<Rightarrow> VaultSnapshot \<Rightarrow> VerifiedVaultTrustState \<Rightarrow> LocalVaultTrustCheckpoint \<Rightarrow>
   core_error + freshness" where
  "requireSnapshotNotRolledBack cr vaultId snapshot trust checkpoint =
     (let p = chk_payload checkpoint;
          m = snap_metadata snapshot;
          relation = compareVersionVectors (m_snapshotVersionVector m) (cp_snapshotVersionVector p);
          snapshotDigest = digestVaultSnapshot cr snapshot
      in rbind (requireTrustDescendsFrom cr vaultId (snap_trustChain snapshot) trust
                  (cp_trustGeneration p) (cp_trustCertificateDigest p)) (\<lambda>_.
         rbind (require
                  (\<not> (m_vaultKeyGeneration m < cp_vaultKeyGeneration p \<or> relation = Remote_ahead \<or>
                      relation = Broken \<or>
                      (relation = Equal \<and> snapshotDigest \<noteq> cp_snapshotDigest p)))
                  (VaultSnapshotRollbackDetectedError vaultId)) (\<lambda>_.
         Inr (if relation = Equal then Same_snapshot else Newer_snapshot))))"

text \<open>The loop of \<open>verifyDeviceTrustSuffix\<close> classifies each step of the suffix.\<close>

definition classifyTransition ::
  "string \<Rightarrow> VaultTrustCertificate \<Rightarrow> VaultTrustCertificate \<Rightarrow> core_error + DeviceTrustTransition" where
  "classifyTransition vaultId previousCertificate certificate =
     (let p = cert_payload certificate;
          addedDevices = devices_not_in (cert_devices previousCertificate) (cert_devices certificate);
          removedDevices = devices_not_in (cert_devices certificate) (cert_devices previousCertificate);
          authorizerSurvives = has_device (cert_devices certificate) (tc_authorizedByDeviceId p)
      in if length addedDevices = 1 \<and> length removedDevices = 0 \<and>
            tc_vaultKeyGeneration p = cert_keyGeneration previousCertificate
         then Inr (Enrollment (dti_deviceId (hd addedDevices)) (tc_authorizedByDeviceId p)
                     (tc_generation p) (tc_vaultKeyGeneration p))
         else if length addedDevices = 0 \<and> length removedDevices = 1 \<and> authorizerSurvives \<and>
                 tc_vaultKeyGeneration p = cert_keyGeneration previousCertificate + 1
         then Inr (Revocation (dti_deviceId (hd removedDevices)) (tc_authorizedByDeviceId p)
                     (tc_generation p) (tc_vaultKeyGeneration p))
         else Inl (VaultTrustStateInvalidError vaultId Unsupported_transition))"

definition transitionAt ::
  "string \<Rightarrow> VaultTrustChain \<Rightarrow> int \<Rightarrow> core_error + DeviceTrustTransition" where
  "transitionAt vaultId chain n =
     (case (certificate_at chain (n - 1), certificate_at chain n) of
        (Some previousCertificate, Some certificate) \<Rightarrow>
          classifyTransition vaultId previousCertificate certificate
      | _ \<Rightarrow> Inl (VaultTrustStateInvalidError vaultId Chain_incomplete))"

definition verifyDeviceTrustSuffix ::
  "crypto \<Rightarrow> string \<Rightarrow> VaultTrustChain \<Rightarrow> VerifiedVaultTrustState \<Rightarrow> VerifiedVaultTrustState \<Rightarrow>
   core_error + DeviceTrustTransition list" where
  "verifyDeviceTrustSuffix cr vaultId chain localTrust remoteTrust =
     rbind (requireTrustDescendsFrom cr vaultId chain remoteTrust
              (ts_generation localTrust) (ts_certificateDigest localTrust)) (\<lambda>_.
     rbind (require (\<not> ts_generation remoteTrust \<le> ts_generation localTrust)
              (VaultTrustStateInvalidError vaultId Transition_missing)) (\<lambda>_.
     rmap (transitionAt vaultId chain) [ts_generation localTrust + 1 .. ts_generation remoteTrust]))"

definition is_revocation :: "DeviceTrustTransition \<Rightarrow> bool" where
  "is_revocation t = (case t of Revocation _ _ _ _ \<Rightarrow> True | Enrollment _ _ _ _ \<Rightarrow> False)"

definition verifyDeviceRevocationSuffix ::
  "crypto \<Rightarrow> string \<Rightarrow> VaultTrustChain \<Rightarrow> VerifiedVaultTrustState \<Rightarrow> VerifiedVaultTrustState \<Rightarrow>
   core_error + DeviceTrustTransition list" where
  "verifyDeviceRevocationSuffix cr vaultId chain localTrust remoteTrust =
     rbind (verifyDeviceTrustSuffix cr vaultId chain localTrust remoteTrust) (\<lambda>transitions.
     let revocations = filter is_revocation transitions in
     rbind (require (\<not> length revocations \<noteq> length transitions)
              (VaultTrustStateInvalidError vaultId Not_only_revocations)) (\<lambda>_.
     Inr revocations))"

definition verifyDeviceEnrollmentSuffix ::
  "crypto \<Rightarrow> string \<Rightarrow> VaultTrustChain \<Rightarrow> VerifiedVaultTrustState \<Rightarrow> VerifiedVaultTrustState \<Rightarrow>
   core_error + DeviceTrustTransition list" where
  "verifyDeviceEnrollmentSuffix cr vaultId chain localTrust remoteTrust =
     rbind (verifyDeviceTrustSuffix cr vaultId chain localTrust remoteTrust) (\<lambda>transitions.
     let enrollments = filter (\<lambda>t. \<not> is_revocation t) transitions in
     rbind (require (\<not> length enrollments \<noteq> length transitions)
              (VaultTrustStateInvalidError vaultId Not_only_enrollments)) (\<lambda>_.
     Inr enrollments))"

end
