(* ===== verification/Trust_Chain.thy ===== *)
theory Trust_Chain
  imports Vault_Trust
begin

text \<open>
  What a verified trust chain is, stated over positions of the chain, and the proof that the
  loop of \<open>verifyTrustChain\<close> accepts exactly these chains. The guarantees of the chain (no
  device or key returns after it was revoked, the vault key changes exactly at revocations,
  two chains that share a certificate share everything before it) follow from the positions.
\<close>

section \<open>Devices named by a certificate\<close>

definition ids_of :: "DeviceTrustIdentity list \<Rightarrow> string set" where
  "ids_of ds = dti_deviceId ` set ds"

abbreviation cert_ids :: "VaultTrustCertificate \<Rightarrow> string set" where
  "cert_ids c \<equiv> ids_of (cert_devices c)"

definition sign_digest :: "crypto \<Rightarrow> DeviceTrustIdentity \<Rightarrow> string" where
  "sign_digest cr d = digestDevicePublicSignKey cr (dti_publicSignKey d)"

definition vault_digest :: "crypto \<Rightarrow> DeviceTrustIdentity \<Rightarrow> string" where
  "vault_digest cr d = digestDevicePublicVaultKey cr (dti_publicVaultKey d)"

lemma has_device_iff: "has_device ds i \<longleftrightarrow> i \<in> ids_of ds"
  by (auto simp: has_device_def ids_of_def list_ex_iff)

lemma find_device_Some:
  "find_device ds i = Some d \<Longrightarrow> d \<in> set ds \<and> dti_deviceId d = i"
  unfolding find_device_def by (rule find_Some_D)

lemma find_device_None: "find_device ds i = None \<longleftrightarrow> i \<notin> ids_of ds"
  by (auto simp: find_device_def find_None_iff ids_of_def)

lemma find_device_distinct:
  "distinct (map dti_deviceId ds) \<Longrightarrow> find_device ds i = Some d \<longleftrightarrow> d \<in> set ds \<and> dti_deviceId d = i"
  by (simp add: find_device_def find_id_Some_iff)

lemma set_devices_not_in:
  "set (devices_not_in old new) = {d \<in> set new. dti_deviceId d \<notin> ids_of old}"
  by (auto simp: devices_not_in_def has_device_iff)

lemma no_device_added_iff: "length (devices_not_in old new) = 0 \<longleftrightarrow> ids_of new \<subseteq> ids_of old"
  by (auto simp: devices_not_in_def has_device_iff ids_of_def filter_empty_conv)

lemma ids_devices_not_in: "ids_of (devices_not_in old new) = ids_of new - ids_of old"
  by (auto simp: ids_of_def devices_not_in_def has_device_iff)

lemma length_devices_not_in:
  assumes "distinct (map dti_deviceId new)"
  shows "length (devices_not_in old new) = card (ids_of new - ids_of old)"
proof -
  have "distinct (map dti_deviceId (devices_not_in old new))"
    using assms by (simp add: devices_not_in_def distinct_map_filter)
  then have "length (devices_not_in old new) = card (ids_of (devices_not_in old new))"
    by (metis distinct_card ids_of_def length_map set_map)
  then show ?thesis by (simp add: ids_devices_not_in)
qed

lemma one_device_added_iff:
  assumes "distinct (map dti_deviceId new)"
  shows "length (devices_not_in old new) = 1 \<longleftrightarrow> (\<exists>x. ids_of new - ids_of old = {x})"
  by (simp add: length_devices_not_in [OF assms] card_1_singleton_iff)

section \<open>Valid certificates and chains\<close>

definition valid_fields :: "VaultTrustCertificate \<Rightarrow> bool" where
  "valid_fields c \<longleftrightarrow>
     tc_version (cert_payload c) = 1 \<and> 0 \<le> cert_generation c \<and>
     is_safe_integer (cert_generation c) \<and> is_safe_integer (cert_keyGeneration c) \<and>
     1 \<le> cert_keyGeneration c \<and> cert_devices c \<noteq> [] \<and> distinct (map dti_deviceId (cert_devices c))"

definition unique_keys :: "crypto \<Rightarrow> VaultTrustCertificate \<Rightarrow> bool" where
  "unique_keys cr c \<longleftrightarrow>
     distinct (map (sign_digest cr) (cert_devices c)) \<and> distinct (map (vault_digest cr) (cert_devices c))"

definition same_keys :: "crypto \<Rightarrow> VaultTrustCertificate \<Rightarrow> VaultTrustCertificate \<Rightarrow> bool" where
  "same_keys cr p c \<longleftrightarrow>
     (\<forall>d \<in> set (cert_devices c). \<forall>d'. find_device (cert_devices p) (dti_deviceId d) = Some d' \<longrightarrow>
        sign_digest cr d' = sign_digest cr d \<and> vault_digest cr d' = vault_digest cr d)"

definition enrolls :: "VaultTrustCertificate \<Rightarrow> VaultTrustCertificate \<Rightarrow> bool" where
  "enrolls p c \<longleftrightarrow>
     (\<exists>x. x \<notin> cert_ids p \<and> cert_ids c = insert x (cert_ids p)) \<and>
     cert_keyGeneration c = cert_keyGeneration p"

definition revokes :: "VaultTrustCertificate \<Rightarrow> VaultTrustCertificate \<Rightarrow> bool" where
  "revokes p c \<longleftrightarrow>
     cert_ids c \<subset> cert_ids p \<and> cert_keyGeneration c = cert_keyGeneration p + 1 \<and>
     tc_authorizedByDeviceId (cert_payload c) \<in> cert_ids c"

text \<open>An added device is new to the whole history: its identity and both of its keys.\<close>

definition fresh_devices ::
  "crypto \<Rightarrow> VaultTrustCertificate list \<Rightarrow> VaultTrustCertificate \<Rightarrow> VaultTrustCertificate \<Rightarrow> bool" where
  "fresh_devices cr history p c \<longleftrightarrow>
     (\<forall>d \<in> set (cert_devices c). dti_deviceId d \<notin> cert_ids p \<longrightarrow>
        (\<forall>h \<in> set history. \<forall>d' \<in> set (cert_devices h).
           dti_deviceId d' \<noteq> dti_deviceId d \<and> sign_digest cr d' \<noteq> sign_digest cr d \<and>
           vault_digest cr d' \<noteq> vault_digest cr d))"

definition valid_genesis ::
  "crypto \<Rightarrow> LocalVaultTrustAnchor \<Rightarrow> VaultTrustCertificate \<Rightarrow> bool" where
  "valid_genesis cr a c \<longleftrightarrow>
     cert_generation c = 0 \<and> cert_keyGeneration c = 1 \<and>
     tc_previousCertificateDigest (cert_payload c) = None \<and>
     tc_authorizedByDeviceId (cert_payload c) = an_genesisDeviceId a \<and>
     digestVaultTrustCertificate cr c = an_genesisCertificateDigest a \<and>
     (\<exists>d. find_device (cert_devices c) (an_genesisDeviceId a) = Some d \<and>
        arePublicKeysEqual cr (dti_publicSignKey d) (an_genesisPublicSignKey a)) \<and>
     verifyVaultTrustCertificateSignature cr c (an_genesisPublicSignKey a)"

definition valid_successor ::
  "crypto \<Rightarrow> VaultTrustCertificate list \<Rightarrow> VaultTrustCertificate \<Rightarrow> VaultTrustCertificate \<Rightarrow> bool" where
  "valid_successor cr history p c \<longleftrightarrow>
     cert_generation c = cert_generation p + 1 \<and>
     tc_previousCertificateDigest (cert_payload c) = Some (digestVaultTrustCertificate cr p) \<and>
     (\<exists>authorizer. find_device (cert_devices p) (tc_authorizedByDeviceId (cert_payload c)) = Some authorizer \<and>
        verifyVaultTrustCertificateSignature cr c (dti_publicSignKey authorizer)) \<and>
     fresh_devices cr history p c \<and> same_keys cr p c \<and> (enrolls p c \<or> revokes p c)"

definition valid_certificate ::
  "crypto \<Rightarrow> string \<Rightarrow> LocalVaultTrustAnchor \<Rightarrow> VaultTrustCertificate list \<Rightarrow> VaultTrustCertificate \<Rightarrow>
   bool" where
  "valid_certificate cr vaultId a history c \<longleftrightarrow>
     valid_fields c \<and> unique_keys cr c \<and> tc_vaultId (cert_payload c) = vaultId \<and>
     (if history = [] then valid_genesis cr a c else valid_successor cr history (last history) c)"

definition valid_chain ::
  "crypto \<Rightarrow> string \<Rightarrow> LocalVaultTrustAnchor \<Rightarrow> VaultTrustChain \<Rightarrow> bool" where
  "valid_chain cr vaultId a chain \<longleftrightarrow>
     an_vaultId a = vaultId \<and> an_version a = 1 \<and> chain \<noteq> [] \<and>
     (\<forall>i < length chain. valid_certificate cr vaultId a (take i chain) (chain ! i))"

text \<open>The trust state that a chain ends in.\<close>

definition trust_of :: "crypto \<Rightarrow> VaultTrustChain \<Rightarrow> VerifiedVaultTrustState" where
  "trust_of cr chain =
     \<lparr> ts_generation = cert_generation (last chain), ts_vaultKeyGeneration = cert_keyGeneration (last chain),
       ts_certificateDigest = digestVaultTrustCertificate cr (last chain),
       ts_trustedDevices = cert_devices (last chain) \<rparr>"

section \<open>The checks of the code\<close>

lemma requireValidDeviceIdentities_Inr:
  "requireValidDeviceIdentities v c = Inr () \<longleftrightarrow> valid_fields c"
  using length_js_set_iff [of "map dti_deviceId (cert_devices c)"]
  by (auto simp: requireValidDeviceIdentities_def valid_fields_def Let_def)

lemma requireUniquePublicKeys_Inr: "requireUniquePublicKeys cr v c = Inr () \<longleftrightarrow> unique_keys cr c"
  using length_js_set_iff [of "map (sign_digest cr) (cert_devices c)"]
    length_js_set_iff [of "map (vault_digest cr) (cert_devices c)"]
  by (simp add: requireUniquePublicKeys_def unique_keys_def Let_def sign_digest_def [abs_def] vault_digest_def [abs_def])

lemma areDeviceIdentitiesEqual_iff:
  "areDeviceIdentitiesEqual cr d d' \<longleftrightarrow>
     sign_digest cr d = sign_digest cr d' \<and> vault_digest cr d = vault_digest cr d'"
  by (simp add: areDeviceIdentitiesEqual_def arePublicKeysEqual_def sign_digest_def vault_digest_def)

lemma enrolls_iff:
  assumes "distinct (map dti_deviceId (cert_devices c))"
  shows "enrolls p c \<longleftrightarrow>
     length (devices_not_in (cert_devices p) (cert_devices c)) = 1 \<and>
     length (devices_not_in (cert_devices c) (cert_devices p)) = 0 \<and>
     cert_keyGeneration c = cert_keyGeneration p"
  unfolding enrolls_def one_device_added_iff [OF assms] no_device_added_iff by blast

lemma revokes_iff:
  "revokes p c \<longleftrightarrow>
     length (devices_not_in (cert_devices p) (cert_devices c)) = 0 \<and>
     0 < length (devices_not_in (cert_devices c) (cert_devices p)) \<and>
     cert_keyGeneration c = cert_keyGeneration p + 1 \<and>
     has_device (cert_devices c) (tc_authorizedByDeviceId (cert_payload c))"
proof -
  have "0 < length (devices_not_in (cert_devices c) (cert_devices p)) \<longleftrightarrow> \<not> cert_ids p \<subseteq> cert_ids c"
    using no_device_added_iff by fastforce
  then show ?thesis unfolding revokes_def no_device_added_iff has_device_iff by blast
qed

lemma requireValidTrustTransition_Inr:
  assumes "valid_fields c"
  shows "requireValidTrustTransition cr v p c = Inr () \<longleftrightarrow> same_keys cr p c \<and> (enrolls p c \<or> revokes p c)"
proof -
  have dist: "distinct (map dti_deviceId (cert_devices c))" using assms by (simp add: valid_fields_def)
  show ?thesis
    unfolding requireValidTrustTransition_def Let_def rbind_eq_Inr_iff
      enrolls_iff [OF dist, of p] revokes_iff
    by (simp add: rfold_unit_iff same_keys_def areDeviceIdentitiesEqual_iff split: option.splits)
qed

lemma requireGenesis_Inr: "requireGenesis cr v a c = Inr () \<longleftrightarrow> valid_genesis cr a c"
  by (auto simp: requireGenesis_def valid_genesis_def Let_def split: option.splits)

text \<open>The loop variables after a prefix of the chain.\<close>

definition state_after :: "crypto \<Rightarrow> VaultTrustCertificate list \<Rightarrow> chain_state" where
  "state_after cr history =
     \<lparr> previous_of = (if history = [] then None
                      else Some (last history, digestVaultTrustCertificate cr (last history))),
       seenDeviceIds = (\<Union>h \<in> set history. cert_ids h),
       seenSigningKeyDigests = (\<Union>h \<in> set history. sign_digest cr ` set (cert_devices h)),
       seenVaultKeyDigests = (\<Union>h \<in> set history. vault_digest cr ` set (cert_devices h)) \<rparr>"

lemma fresh_devices_iff:
  "fresh_devices cr history p c \<longleftrightarrow>
     (\<forall>d \<in> set (devices_not_in (cert_devices p) (cert_devices c)).
        dti_deviceId d \<notin> (\<Union>h \<in> set history. cert_ids h) \<and>
        sign_digest cr d \<notin> (\<Union>h \<in> set history. sign_digest cr ` set (cert_devices h)) \<and>
        vault_digest cr d \<notin> (\<Union>h \<in> set history. vault_digest cr ` set (cert_devices h)))"
  unfolding fresh_devices_def set_devices_not_in ids_of_def by (auto simp: image_iff) metis+

lemma requireSuccessor_Inr:
  assumes "valid_fields c"
  shows "requireSuccessor cr v (state_after cr history) p (digestVaultTrustCertificate cr p) c = Inr () \<longleftrightarrow>
     valid_successor cr history p c"
  unfolding requireSuccessor_def Let_def rbind_eq_Inr_iff valid_successor_def fresh_devices_iff
  by (simp add: requireValidTrustTransition_Inr [OF assms] rfold_unit_iff state_after_def
      sign_digest_def [symmetric] vault_digest_def [symmetric] split: option.splits)

lemma verifyCertificate_Inr:
  "verifyCertificate cr v a c (state_after cr history) = Inr st \<longleftrightarrow>
     valid_certificate cr v a history c \<and> st = state_after cr (history @ [c])"
proof (cases "valid_fields c \<and> unique_keys cr c \<and> tc_vaultId (cert_payload c) = v")
  case False
  then show ?thesis
    by (auto simp: verifyCertificate_def valid_certificate_def rbind_eq_Inr_iff
        requireValidDeviceIdentities_Inr requireUniquePublicKeys_Inr)
next
  case True
  have prev: "previous_of (state_after cr history) =
      (if history = [] then None else Some (last history, digestVaultTrustCertificate cr (last history)))"
    by (simp add: state_after_def)
  have next_state: "\<lparr> previous_of = Some (c, digestVaultTrustCertificate cr c),
      seenDeviceIds = seenDeviceIds (state_after cr history) \<union> set (map dti_deviceId (cert_devices c)),
      seenSigningKeyDigests = seenSigningKeyDigests (state_after cr history) \<union>
        set (map (\<lambda>d. digestDevicePublicSignKey cr (dti_publicSignKey d)) (cert_devices c)),
      seenVaultKeyDigests = seenVaultKeyDigests (state_after cr history) \<union>
        set (map (\<lambda>d. digestDevicePublicVaultKey cr (dti_publicVaultKey d)) (cert_devices c)) \<rparr> =
      state_after cr (history @ [c])"
    by (auto simp: state_after_def ids_of_def sign_digest_def vault_digest_def)
  show ?thesis
    using True unfolding verifyCertificate_def next_state prev valid_certificate_def
    by (cases "history = []")
      (auto simp: rbind_eq_Inr_iff requireValidDeviceIdentities_Inr requireUniquePublicKeys_Inr
        requireGenesis_Inr requireSuccessor_Inr)
qed

lemma verify_loop_Inr:
  "rfold (verifyCertificate cr v a) cs (state_after cr history) = Inr st \<longleftrightarrow>
     (\<forall>i < length cs. valid_certificate cr v a (history @ take i cs) (cs ! i)) \<and>
     st = state_after cr (history @ cs)"
proof (induction cs arbitrary: history)
  case Nil
  show ?case by (auto simp: eq_commute)
next
  case (Cons c cs)
  have "rfold (verifyCertificate cr v a) (c # cs) (state_after cr history) = Inr st \<longleftrightarrow>
      valid_certificate cr v a history c \<and>
      rfold (verifyCertificate cr v a) cs (state_after cr (history @ [c])) = Inr st"
    by (auto simp: rbind_eq_Inr_iff verifyCertificate_Inr)
  also have "\<dots> \<longleftrightarrow> (\<forall>i < length (c # cs). valid_certificate cr v a (history @ take i (c # cs)) ((c # cs) ! i)) \<and>
      st = state_after cr (history @ c # cs)"
    unfolding Cons.IH by (simp add: All_less_Suc2)
  finally show ?case .
qed

lemma verifyTrustChain_Inr_iff:
  "verifyTrustChain cr v a chain = Inr t \<longleftrightarrow> valid_chain cr v a chain \<and> t = trust_of cr chain"
proof -
  have start: "\<lparr> previous_of = None, seenDeviceIds = {}, seenSigningKeyDigests = {},
      seenVaultKeyDigests = {} \<rparr> = state_after cr []"
    by (simp add: state_after_def)
  show ?thesis
    unfolding verifyTrustChain_def start valid_chain_def
    using verify_loop_Inr [of cr v a chain "[]"]
    by (auto simp: rbind_eq_Inr_iff trust_of_def state_after_def)
qed

section \<open>Positions of a valid chain\<close>

lemma valid_chain_at:
  "valid_chain cr v a chain \<Longrightarrow> i < length chain \<Longrightarrow> valid_certificate cr v a (take i chain) (chain ! i)"
  by (simp add: valid_chain_def)

lemma valid_chain_fields:
  "valid_chain cr v a chain \<Longrightarrow> i < length chain \<Longrightarrow> valid_fields (chain ! i)"
  using valid_chain_at by (auto simp: valid_certificate_def)

lemma valid_chain_genesis: "valid_chain cr v a chain \<Longrightarrow> valid_genesis cr a (chain ! 0)"
  using valid_chain_at [of cr v a chain 0] by (auto simp: valid_certificate_def valid_chain_def)

lemma valid_chain_step:
  assumes "valid_chain cr v a chain" "Suc i < length chain"
  shows "valid_successor cr (take (Suc i) chain) (chain ! i) (chain ! Suc i)"
proof -
  have "last (take (Suc i) chain) = chain ! i" "take (Suc i) chain \<noteq> []"
    using assms(2) by (auto simp: take_Suc_conv_app_nth)
  with valid_chain_at [OF assms] show ?thesis by (simp add: valid_certificate_def)
qed

lemma valid_chain_take:
  assumes "valid_chain cr v a chain" "0 < n"
  shows "valid_chain cr v a (take n chain)"
  using assms by (auto simp: valid_chain_def min_def)

lemma valid_chain_snoc:
  assumes "chain \<noteq> []"
  shows "valid_chain cr v a (chain @ [c]) \<longleftrightarrow>
     valid_chain cr v a chain \<and> valid_certificate cr v a chain c"
  using assms by (auto simp: valid_chain_def nth_append All_less_Suc)

lemma generation_position:
  assumes "valid_chain cr v a chain" "i < length chain"
  shows "cert_generation (chain ! i) = int i"
  using assms(2)
proof (induction i)
  case 0
  show ?case using valid_chain_genesis [OF assms(1)] by (simp add: valid_genesis_def)
next
  case (Suc i)
  then show ?case using valid_chain_step [OF assms(1) Suc.prems] by (simp add: valid_successor_def)
qed

lemma last_generation:
  assumes "valid_chain cr v a chain"
  shows "cert_generation (last chain) = int (length chain) - 1"
proof -
  have "chain \<noteq> []" using assms by (simp add: valid_chain_def)
  then show ?thesis
    using generation_position [OF assms, of "length chain - 1"] by (simp add: last_conv_nth of_nat_diff Suc_leI)
qed

text \<open>How often devices were revoked up to a position.\<close>

definition revocations_until :: "VaultTrustChain \<Rightarrow> nat \<Rightarrow> nat" where
  "revocations_until chain n = length (filter (\<lambda>j. revokes (chain ! j) (chain ! Suc j)) [0..<n])"

lemma key_generation_position:
  assumes "valid_chain cr v a chain" "i < length chain"
  shows "cert_keyGeneration (chain ! i) = 1 + int (revocations_until chain i)"
  using assms(2)
proof (induction i)
  case 0
  show ?case using valid_chain_genesis [OF assms(1)] by (simp add: valid_genesis_def revocations_until_def)
next
  case (Suc i)
  have step: "enrolls (chain ! i) (chain ! Suc i) \<or> revokes (chain ! i) (chain ! Suc i)"
    using valid_chain_step [OF assms(1) Suc.prems] by (simp add: valid_successor_def)
  show ?case
  proof (cases "revokes (chain ! i) (chain ! Suc i)")
    case True
    then show ?thesis using Suc by (simp add: revocations_until_def revokes_def)
  next
    case False
    with step have "enrolls (chain ! i) (chain ! Suc i)" by blast
    with False show ?thesis using Suc by (simp add: revocations_until_def enrolls_def)
  qed
qed

section \<open>Nothing that was revoked returns\<close>

text \<open>
  The argument is the same for the identity and the two keys of a device: at each step a value
  is inherited from the certificate before or has never occurred.
\<close>

lemma never_returns:
  assumes step: "\<And>k. Suc k < length chain \<Longrightarrow>
      \<forall>d \<in> set (cert_devices (chain ! Suc k)).
        key d \<in> key ` set (cert_devices (chain ! k)) \<or>
        (\<forall>h \<in> set (take (Suc k) chain). \<forall>d' \<in> set (cert_devices h). key d' \<noteq> key d)"
    and trusted: "x \<in> key ` set (cert_devices (chain ! i))"
    and gone: "x \<notin> key ` set (cert_devices (chain ! j))"
    and "i < j" "j \<le> k" "k < length chain"
  shows "x \<notin> key ` set (cert_devices (chain ! k))"
  using \<open>j \<le> k\<close> \<open>k < length chain\<close>
proof (induction k rule: dec_induct)
  case base
  show ?case by (rule gone)
next
  case (step k)
  show ?case
  proof
    assume "x \<in> key ` set (cert_devices (chain ! Suc k))"
    then obtain d where d: "d \<in> set (cert_devices (chain ! Suc k))" "key d = x" by auto
    have "x \<notin> key ` set (cert_devices (chain ! k))" using step by simp
    then have fresh: "\<forall>h \<in> set (take (Suc k) chain). \<forall>d' \<in> set (cert_devices h). key d' \<noteq> x"
      using assms(1) [OF step.prems] d by auto
    have "chain ! i \<in> set (take (Suc k) chain)"
      using \<open>i < j\<close> step.hyps step.prems by (auto simp: in_set_conv_nth intro!: exI [of _ i])
    with fresh trusted show False by auto
  qed
qed

lemma inherited_or_fresh:
  assumes "valid_chain cr v a chain" "Suc k < length chain" "d \<in> set (cert_devices (chain ! Suc k))"
  shows "(\<exists>d' \<in> set (cert_devices (chain ! k)). dti_deviceId d' = dti_deviceId d \<and>
            sign_digest cr d' = sign_digest cr d \<and> vault_digest cr d' = vault_digest cr d) \<or>
         (\<forall>h \<in> set (take (Suc k) chain). \<forall>d' \<in> set (cert_devices h).
            dti_deviceId d' \<noteq> dti_deviceId d \<and> sign_digest cr d' \<noteq> sign_digest cr d \<and>
            vault_digest cr d' \<noteq> vault_digest cr d)"
proof -
  note succ = valid_chain_step [OF assms(1,2), unfolded valid_successor_def]
  show ?thesis
  proof (cases "find_device (cert_devices (chain ! k)) (dti_deviceId d)")
    case None
    then have "dti_deviceId d \<notin> cert_ids (chain ! k)" by (simp add: find_device_None)
    with succ assms(3) show ?thesis by (auto simp: fresh_devices_def)
  next
    case (Some d')
    then have "sign_digest cr d' = sign_digest cr d \<and> vault_digest cr d' = vault_digest cr d"
      using succ assms(3) by (auto simp: same_keys_def)
    with find_device_Some [OF Some] show ?thesis by auto
  qed
qed

lemma revoked_identity_never_returns:
  assumes "valid_chain cr v a chain" "x \<in> cert_ids (chain ! i)" "x \<notin> cert_ids (chain ! j)"
    "i < j" "j \<le> k" "k < length chain"
  shows "x \<notin> cert_ids (chain ! k)"
  using assms(2-) unfolding ids_of_def
  by (intro never_returns [of chain dti_deviceId x i j k])
    (use inherited_or_fresh [OF assms(1)] in \<open>fastforce simp: image_iff\<close>)+

lemma revoked_sign_key_never_returns:
  assumes "valid_chain cr v a chain" "x \<in> sign_digest cr ` set (cert_devices (chain ! i))"
    "x \<notin> sign_digest cr ` set (cert_devices (chain ! j))" "i < j" "j \<le> k" "k < length chain"
  shows "x \<notin> sign_digest cr ` set (cert_devices (chain ! k))"
  using assms(2-)
  by (intro never_returns [of chain "sign_digest cr" x i j k])
    (use inherited_or_fresh [OF assms(1)] in \<open>fastforce simp: image_iff\<close>)+

lemma revoked_vault_key_never_returns:
  assumes "valid_chain cr v a chain" "x \<in> vault_digest cr ` set (cert_devices (chain ! i))"
    "x \<notin> vault_digest cr ` set (cert_devices (chain ! j))" "i < j" "j \<le> k" "k < length chain"
  shows "x \<notin> vault_digest cr ` set (cert_devices (chain ! k))"
  using assms(2-)
  by (intro never_returns [of chain "vault_digest cr" x i j k])
    (use inherited_or_fresh [OF assms(1)] in \<open>fastforce simp: image_iff\<close>)+

section \<open>Forks\<close>

text \<open>
  The digests link the chain backwards: two valid chains that agree on the digest at one
  position agree up to it, unless two different certificates have the same digest.
\<close>

definition collision_free :: "crypto \<Rightarrow> VaultTrustCertificate set \<Rightarrow> bool" where
  "collision_free cr C \<longleftrightarrow> inj_on (digestVaultTrustCertificate cr) C"

lemma chains_agree:
  assumes A: "valid_chain cr v a A" and B: "valid_chain cr v b B"
    and inj: "collision_free cr (set A \<union> set B)"
    and "n < length A" "n < length B"
    and digest: "digestVaultTrustCertificate cr (A ! n) = digestVaultTrustCertificate cr (B ! n)"
  shows "take (Suc n) A = take (Suc n) B"
  using assms(4-)
proof (induction n)
  case 0
  then have "A ! 0 = B ! 0" using inj by (auto simp: collision_free_def dest: inj_onD)
  with 0 show ?case by (simp add: take_Suc_conv_app_nth)
next
  case (Suc n)
  have eq: "A ! Suc n = B ! Suc n"
    using inj Suc.prems by (auto simp: collision_free_def dest: inj_onD)
  have "digestVaultTrustCertificate cr (A ! n) = digestVaultTrustCertificate cr (B ! n)"
    using valid_chain_step [OF A Suc.prems(1)] valid_chain_step [OF B Suc.prems(2)] eq
    by (simp add: valid_successor_def)
  with Suc have "take (Suc n) A = take (Suc n) B" by simp
  with eq Suc.prems show ?case by (simp add: take_Suc_conv_app_nth [of "Suc n"])
qed

lemma certificate_at_Some: "certificate_at chain n = Some c \<longleftrightarrow>
    0 \<le> n \<and> nat n < length chain \<and> c = chain ! nat n"
  by (auto simp: certificate_at_def)

lemma requireTrustDescendsFrom_Inr:
  "requireTrustDescendsFrom cr v chain t g digest = Inr () \<longleftrightarrow>
     g \<le> ts_generation t \<and> 0 \<le> g \<and> nat g < length chain \<and>
     digestVaultTrustCertificate cr (chain ! nat g) = digest"
  by (auto simp: requireTrustDescendsFrom_def certificate_at_def rbind_eq_Inr_iff nat_less_iff)

lemma descends_iff_extends:
  assumes A: "valid_chain cr v a A" and B: "valid_chain cr v b B"
    and inj: "collision_free cr (set A \<union> set B)"
  shows "requireTrustDescendsFrom cr v B (trust_of cr B) (ts_generation (trust_of cr A))
           (ts_certificateDigest (trust_of cr A)) = Inr () \<longleftrightarrow> (\<exists>C. B = A @ C)"
proof -
  define n where "n = length A - 1"
  have n: "length A = Suc n" "last A = A ! n" and nonempty: "B \<noteq> []"
    using A B by (auto simp: n_def valid_chain_def last_conv_nth)
  have gA: "cert_generation (last A) = int n" and gB: "cert_generation (last B) = int (length B) - 1"
    using last_generation [OF A] last_generation [OF B] n(1) by simp_all
  have "requireTrustDescendsFrom cr v B (trust_of cr B) (ts_generation (trust_of cr A))
      (ts_certificateDigest (trust_of cr A)) = Inr () \<longleftrightarrow>
      n < length B \<and> digestVaultTrustCertificate cr (B ! n) = digestVaultTrustCertificate cr (A ! n)"
    by (auto simp: requireTrustDescendsFrom_Inr trust_of_def gA gB n(2) [symmetric])
  also have "\<dots> \<longleftrightarrow> (\<exists>C. B = A @ C)"
  proof
    assume "n < length B \<and> digestVaultTrustCertificate cr (B ! n) = digestVaultTrustCertificate cr (A ! n)"
    then have "take (Suc n) A = take (Suc n) B" using n(1) by (intro chains_agree [OF A B inj]) simp_all
    then have "B = A @ drop (Suc n) B" using n(1) by simp
    then show "\<exists>C. B = A @ C" by blast
  next
    assume "\<exists>C. B = A @ C"
    then show "n < length B \<and> digestVaultTrustCertificate cr (B ! n) = digestVaultTrustCertificate cr (A ! n)"
      using n(1) by (auto simp: nth_append)
  qed
  finally show ?thesis .
qed

end
