(* ===== verification/Trust_Operations.thy ===== *)
theory Trust_Operations
  imports Trust_Chain
begin

text \<open>
  What the operations of \<open>VaultTrustService\<close> promise about valid chains: a genesis and every
  appended certificate verify, the suffix of a longer chain is classified into the transitions
  that lead from one trust state to the other, and a checkpoint recognises its own snapshot and
  rejects older ones.
\<close>

section \<open>Creating and extending a chain\<close>

text \<open>The signature scheme of the port: what was signed with the private key of a pair verifies.\<close>

definition signatures_verify :: "crypto \<Rightarrow> bool" where
  "signatures_verify cr \<longleftrightarrow>
     (\<forall>publicKey privateKey payload. verifyDeviceSignKeyPair cr publicKey privateKey \<longrightarrow>
        verifyVaultTrustCertificateSignature cr
          \<lparr> cert_payload = payload, cert_signature = signVaultTrustCertificate cr payload privateKey \<rparr>
          publicKey)"

lemma signatures_verifyD:
  "signatures_verify cr \<Longrightarrow> verifyDeviceSignKeyPair cr publicKey privateKey \<Longrightarrow>
   verifyVaultTrustCertificateSignature cr
     \<lparr> cert_payload = payload, cert_signature = signVaultTrustCertificate cr payload privateKey \<rparr> publicKey"
  by (simp add: signatures_verify_def)

lemma genesis_verifies:
  assumes "signatures_verify cr" "verifyDeviceSignKeyPair cr (dti_publicSignKey device) privateKey"
    and "createGenesis cr v device n privateKey = Inr g"
  shows "verifyTrustChain cr v (gr_anchor g) (gr_chain g) = Inr (gr_trust g)"
proof -
  have n: "n = 1" using assms(3) by (simp add: createGenesis_def Let_def split: if_splits)
  have "valid_chain cr v (gr_anchor g) (gr_chain g)" "gr_trust g = trust_of cr (gr_chain g)"
    using assms(3) signatures_verifyD [OF assms(1,2)]
    by (auto simp: n createGenesis_def Let_def valid_chain_def valid_certificate_def valid_fields_def
        unique_keys_def valid_genesis_def is_safe_integer_def find_device_def arePublicKeysEqual_def trust_of_def)
  then show ?thesis by (simp add: verifyTrustChain_Inr_iff)
qed

text \<open>The certificate that \<open>appendTrustTransition\<close> makes.\<close>

definition next_certificate ::
  "crypto \<Rightarrow> string \<Rightarrow> VerifiedVaultTrustState \<Rightarrow> DeviceTrustIdentity list \<Rightarrow> int \<Rightarrow> string \<Rightarrow> bytes \<Rightarrow>
   VaultTrustCertificate" where
  "next_certificate cr v trust ds n authorizer privateKey =
     (let payload = \<lparr> tc_version = 1, tc_vaultId = v, tc_generation = ts_generation trust + 1,
                      tc_vaultKeyGeneration = n,
                      tc_previousCertificateDigest = Some (ts_certificateDigest trust),
                      tc_authorizedByDeviceId = authorizer, tc_trustedDevices = ds \<rparr>
      in \<lparr> cert_payload = payload, cert_signature = signVaultTrustCertificate cr payload privateKey \<rparr>)"

lemma appendTrustTransition_Inr_iff:
  fixes cr v chain ds n authorizer privateKey
  defines "c \<equiv> next_certificate cr v (trust_of cr chain) ds n authorizer privateKey"
  assumes "chain \<noteq> []"
  shows "appendTrustTransition cr v chain (trust_of cr chain) ds n authorizer privateKey = Inr (chain', t) \<longleftrightarrow>
     (\<exists>d. find_device (cert_devices (last chain)) authorizer = Some d \<and>
          verifyDeviceSignKeyPair cr (dti_publicSignKey d) privateKey) \<and>
     fresh_devices cr chain (last chain) c \<and> valid_fields c \<and> unique_keys cr c \<and>
     same_keys cr (last chain) c \<and> (enrolls (last chain) c \<or> revokes (last chain) c) \<and>
     chain' = chain @ [c] \<and> t = trust_of cr chain'"
proof -
  let ?t = "trust_of cr chain"
  have fresh: "rfold (\<lambda>device _. require
        (\<not> (dti_deviceId device \<in> set (map dti_deviceId (concat (map cert_devices chain))) \<or>
            digestDevicePublicSignKey cr (dti_publicSignKey device) \<in>
              set (map (\<lambda>d. digestDevicePublicSignKey cr (dti_publicSignKey d)) (concat (map cert_devices chain))) \<or>
            digestDevicePublicVaultKey cr (dti_publicVaultKey device) \<in>
              set (map (\<lambda>d. digestDevicePublicVaultKey cr (dti_publicVaultKey d)) (concat (map cert_devices chain)))))
        (VaultTrustStateInvalidError v Revoked_device_enrolled_again))
        (devices_not_in (cert_devices (last chain)) ds) () = Inr () \<longleftrightarrow> fresh_devices cr chain (last chain) c"
    unfolding rfold_unit_iff fresh_devices_iff
    by (simp add: c_def next_certificate_def Let_def ids_of_def sign_digest_def [abs_def] vault_digest_def [abs_def] image_UN)
  have t: "\<lparr> ts_generation = cert_generation (last chain) + 1, ts_vaultKeyGeneration = n,
      ts_certificateDigest = digestVaultTrustCertificate cr c, ts_trustedDevices = ds \<rparr> =
      trust_of cr (chain @ [c])"
    by (simp add: c_def next_certificate_def Let_def trust_of_def)
  show ?thesis
    unfolding appendTrustTransition_def Let_def rbind_eq_Inr_iff
    unfolding next_certificate_def [of cr v ?t ds n authorizer privateKey, folded c_def, unfolded Let_def, symmetric]
    using assms(2)
    by (auto simp: t fresh [simplified] requireValidDeviceIdentities_Inr requireUniquePublicKeys_Inr
        requireValidTrustTransition_Inr trust_of_def [of cr chain] split: option.splits
        simp del: require_simps(1))
qed

lemma append_verifies:
  assumes chain: "verifyTrustChain cr v a chain = Inr t" and "signatures_verify cr"
    and app: "appendTrustTransition cr v chain t ds n authorizer privateKey = Inr (chain', t')"
  shows "verifyTrustChain cr v a chain' = Inr t'"
proof -
  let ?c = "next_certificate cr v t ds n authorizer privateKey"
  have valid: "valid_chain cr v a chain" and t: "t = trust_of cr chain"
    using chain by (auto simp: verifyTrustChain_Inr_iff)
  then have nonempty: "chain \<noteq> []" by (simp add: valid_chain_def)
  note r = app [unfolded t appendTrustTransition_Inr_iff [OF nonempty], folded t]
  then obtain d where d: "find_device (cert_devices (last chain)) authorizer = Some d"
    "verifyDeviceSignKeyPair cr (dti_publicSignKey d) privateKey" by blast
  have fields: "tc_vaultId (cert_payload ?c) = v" "cert_generation ?c = cert_generation (last chain) + 1"
    "tc_previousCertificateDigest (cert_payload ?c) = Some (digestVaultTrustCertificate cr (last chain))"
    "tc_authorizedByDeviceId (cert_payload ?c) = authorizer"
    by (simp_all add: next_certificate_def Let_def t trust_of_def)
  have "verifyVaultTrustCertificateSignature cr ?c (dti_publicSignKey d)"
    using signatures_verifyD [OF assms(2) d(2)] by (simp add: next_certificate_def Let_def)
  with r d(1) nonempty fields have "valid_certificate cr v a chain ?c"
    by (simp add: valid_certificate_def valid_successor_def)
  with valid r nonempty show ?thesis
    by (simp add: verifyTrustChain_Inr_iff valid_chain_snoc)
qed

lemma list_all2_ex_iff: "(\<exists>ys. list_all2 P xs ys) \<longleftrightarrow> (\<forall>x \<in> set xs. \<exists>y. P x y)"
  by (induction xs) (auto simp: list_all2_Cons1)

section \<open>The transitions between two trust states\<close>

text \<open>The effect of a transition on the set of trusted devices.\<close>

fun replay :: "DeviceTrustTransition \<Rightarrow> string set \<Rightarrow> string set" where
  "replay (Enrollment d _ _ _) ids = insert d ids"
| "replay (Revocation d _ _ _) ids = ids - {d}"

lemma ex_singleton: "(\<exists>y. A = {y}) \<and> A = {x} \<longleftrightarrow> A = {x}"
  by auto

lemma classifyTransition_Inr:
  assumes "distinct (map dti_deviceId (cert_devices c))" "distinct (map dti_deviceId (cert_devices p))"
  shows "classifyTransition v p c = Inr (Enrollment x y g k) \<longleftrightarrow>
           enrolls p c \<and> cert_ids c - cert_ids p = {x} \<and>
           y = tc_authorizedByDeviceId (cert_payload c) \<and> g = cert_generation c \<and> k = cert_keyGeneration c"
    and "classifyTransition v p c = Inr (Revocation x y g k) \<longleftrightarrow>
           revokes p c \<and> cert_ids p - cert_ids c = {x} \<and>
           y = tc_authorizedByDeviceId (cert_payload c) \<and> g = cert_generation c \<and> k = cert_keyGeneration c"
proof -
  let ?added = "devices_not_in (cert_devices p) (cert_devices c)"
  let ?removed = "devices_not_in (cert_devices c) (cert_devices p)"
  have single: "length ds = 1 \<and> dti_deviceId (hd ds) = x \<longleftrightarrow> length ds = 1 \<and> ids_of ds = {x}"
    for ds :: "DeviceTrustIdentity list" and x
    by (cases ds) (auto simp: ids_of_def)
  have added: "length ?added = 1 \<and> dti_deviceId (hd ?added) = x \<longleftrightarrow> cert_ids c - cert_ids p = {x}"
    unfolding single unfolding ids_devices_not_in one_device_added_iff [OF assms(1)] by (rule ex_singleton)
  have removed: "length ?removed = 1 \<and> dti_deviceId (hd ?removed) = x \<longleftrightarrow> cert_ids p - cert_ids c = {x}"
    unfolding single unfolding ids_devices_not_in one_device_added_iff [OF assms(2)] by (rule ex_singleton)
  show "classifyTransition v p c = Inr (Enrollment x y g k) \<longleftrightarrow>
      enrolls p c \<and> cert_ids c - cert_ids p = {x} \<and>
      y = tc_authorizedByDeviceId (cert_payload c) \<and> g = cert_generation c \<and> k = cert_keyGeneration c"
    unfolding classifyTransition_def Let_def enrolls_iff [OF assms(1)] added [symmetric]
    by (simp split: if_split) blast
  show "classifyTransition v p c = Inr (Revocation x y g k) \<longleftrightarrow>
      revokes p c \<and> cert_ids p - cert_ids c = {x} \<and>
      y = tc_authorizedByDeviceId (cert_payload c) \<and> g = cert_generation c \<and> k = cert_keyGeneration c"
    unfolding classifyTransition_def Let_def revokes_iff removed [symmetric]
    by (cases ?removed) (auto split: if_split)
qed

lemma classify_replay:
  assumes "distinct (map dti_deviceId (cert_devices c))" "distinct (map dti_deviceId (cert_devices p))"
    and "classifyTransition v p c = Inr tr"
  shows "replay tr (cert_ids p) = cert_ids c"
    and "cert_keyGeneration c = cert_keyGeneration p + (if is_revocation tr then 1 else 0)"
  using assms(3)
  by (cases tr; auto simp: classifyTransition_Inr [OF assms(1,2)] enrolls_def revokes_def is_revocation_def)+

lemma classify_total:
  assumes "distinct (map dti_deviceId (cert_devices c))" "distinct (map dti_deviceId (cert_devices p))"
    and "enrolls p c \<or> revokes p c \<and> card (cert_ids p - cert_ids c) = 1"
  shows "\<exists>tr. classifyTransition v p c = Inr tr"
  using assms(3)
proof
  assume e: "enrolls p c"
  then obtain x where "cert_ids c - cert_ids p = {x}" by (auto simp: enrolls_def)
  with e show ?thesis using classifyTransition_Inr(1) [OF assms(1,2)] by blast
next
  assume r: "revokes p c \<and> card (cert_ids p - cert_ids c) = 1"
  then obtain x where "cert_ids p - cert_ids c = {x}" by (auto simp: card_1_singleton_iff)
  with r show ?thesis using classifyTransition_Inr(2) [OF assms(1,2)] by blast
qed

lemma classify_card:
  assumes "distinct (map dti_deviceId (cert_devices c))" "distinct (map dti_deviceId (cert_devices p))"
    and "classifyTransition v p c = Inr tr"
  shows "enrolls p c \<or> revokes p c \<and> card (cert_ids p - cert_ids c) = 1"
  using assms(3) by (cases tr) (auto simp: classifyTransition_Inr [OF assms(1,2)])

text \<open>The suffix of a chain after its first \<open>n\<close> certificates.\<close>

definition suffix_transitions :: "string \<Rightarrow> VaultTrustChain \<Rightarrow> nat \<Rightarrow> core_error + DeviceTrustTransition list" where
  "suffix_transitions v chain n =
     rmap (\<lambda>i. classifyTransition v (chain ! (i - 1)) (chain ! i)) [n..<length chain]"

lemma rmap_cong: "(\<And>x. x \<in> set xs \<Longrightarrow> f x = g x) \<Longrightarrow> rmap f xs = rmap g xs"
  by (induction xs) simp_all

lemma rmap_map: "rmap f (map g xs) = rmap (\<lambda>x. f (g x)) xs"
  by (induction xs) simp_all

lemma upto_map_int: "[int m..int n - 1] = map int [m..<n]"
proof (induction n)
  case 0
  show ?case by simp
next
  case (Suc n)
  show ?case
  proof (cases "m \<le> n")
    case True
    then show ?thesis using Suc by (simp add: upto_rec2)
  next
    case False
    then show ?thesis by simp
  qed
qed

lemma transitionAt_position:
  assumes "0 < i" "i < length chain"
  shows "transitionAt v chain (int i) = classifyTransition v (chain ! (i - 1)) (chain ! i)"
proof -
  have "certificate_at chain (int i - 1) = Some (chain ! (i - 1))" "certificate_at chain (int i) = Some (chain ! i)"
    using assms by (auto simp: certificate_at_def nat_diff_distrib)
  then show ?thesis by (simp add: transitionAt_def)
qed

text \<open>A device that trusts a proper prefix of the chain is told exactly the missing transitions.\<close>

lemma verifyDeviceTrustSuffix_prefix:
  assumes "valid_chain cr v a chain" "0 < n" "n < length chain"
  shows "verifyDeviceTrustSuffix cr v chain (trust_of cr (take n chain)) (trust_of cr chain) =
     suffix_transitions v chain n"
proof -
  have valid: "valid_chain cr v a (take n chain)" by (rule valid_chain_take [OF assms(1,2)])
  have g: "ts_generation (trust_of cr (take n chain)) = int n - 1"
    "ts_generation (trust_of cr chain) = int (length chain) - 1"
    using last_generation [OF valid] last_generation [OF assms(1)] assms(3) by (simp_all add: trust_of_def)
  have "last (take n chain) = chain ! (n - 1)" using assms(2,3) by (subst last_conv_nth) auto
  then have desc: "requireTrustDescendsFrom cr v chain (trust_of cr chain)
      (ts_generation (trust_of cr (take n chain))) (ts_certificateDigest (trust_of cr (take n chain))) = Inr ()"
    unfolding requireTrustDescendsFrom_Inr g using assms(2,3)
    by (auto simp: trust_of_def nat_diff_distrib)
  have "rmap (transitionAt v chain) (map int [n..<length chain]) = suffix_transitions v chain n"
    unfolding suffix_transitions_def rmap_map using assms(2)
    by (intro rmap_cong transitionAt_position) auto
  then show ?thesis
    using assms(3) unfolding verifyDeviceTrustSuffix_def desc by (simp add: g upto_map_int [symmetric])
qed

lemma suffix_transitions_Inr_iff:
  "suffix_transitions v chain n = Inr trs \<longleftrightarrow>
     length trs = length chain - n \<and>
     (\<forall>k < length chain - n. classifyTransition v (chain ! (n + k - 1)) (chain ! (n + k)) = Inr (trs ! k))"
  by (auto simp: suffix_transitions_def rmap_Inr_iff list_all2_conv_all_nth)

lemma replay_prefix:
  assumes valid: "valid_chain cr v a chain" and "0 < n" "n + k \<le> length chain"
    and trs: "suffix_transitions v chain n = Inr trs"
  shows "fold replay (take k trs) (cert_ids (chain ! (n - 1))) = cert_ids (chain ! (n + k - 1)) \<and>
     cert_keyGeneration (chain ! (n + k - 1)) =
       cert_keyGeneration (chain ! (n - 1)) + int (length (filter is_revocation (take k trs)))"
  using assms(3)
proof (induction k)
  case 0
  show ?case by simp
next
  case (Suc k)
  have k: "k < length trs" "classifyTransition v (chain ! (n + k - 1)) (chain ! (n + k)) = Inr (trs ! k)"
    using trs Suc.prems by (simp_all add: suffix_transitions_Inr_iff)
  have dist: "distinct (map dti_deviceId (cert_devices (chain ! (n + k))))"
    "distinct (map dti_deviceId (cert_devices (chain ! (n + k - 1))))"
    using valid_chain_fields [OF valid] Suc.prems by (simp_all add: valid_fields_def)
  show ?case using Suc classify_replay [OF dist k(2)] by (simp add: take_Suc_conv_app_nth [OF k(1)])
qed

lemma suffix_transitions_total:
  assumes valid: "valid_chain cr v a chain" and "0 < n"
  shows "(\<exists>trs. suffix_transitions v chain n = Inr trs) \<longleftrightarrow>
     (\<forall>i. n \<le> i \<longrightarrow> i < length chain \<longrightarrow> revokes (chain ! (i - 1)) (chain ! i) \<longrightarrow>
        card (cert_ids (chain ! (i - 1)) - cert_ids (chain ! i)) = 1)"
    (is "?L \<longleftrightarrow> ?R")
proof -
  have dist: "distinct (map dti_deviceId (cert_devices (chain ! i)))" if "i < length chain" for i
    using valid_chain_fields [OF valid that] by (simp add: valid_fields_def)
  have classified: "(\<exists>tr. classifyTransition v (chain ! (i - 1)) (chain ! i) = Inr tr) \<longleftrightarrow>
      (revokes (chain ! (i - 1)) (chain ! i) \<longrightarrow> card (cert_ids (chain ! (i - 1)) - cert_ids (chain ! i)) = 1)"
    if "n \<le> i" "i < length chain" for i
  proof -
    have "enrolls (chain ! (i - 1)) (chain ! i) \<or> revokes (chain ! (i - 1)) (chain ! i)"
      using valid_chain_step [OF valid, of "i - 1"] that assms(2) by (simp add: valid_successor_def)
    moreover have "\<not> (enrolls (chain ! (i - 1)) (chain ! i) \<and> revokes (chain ! (i - 1)) (chain ! i))"
      by (auto simp: enrolls_def revokes_def)
    ultimately show ?thesis
      using classify_total [OF dist dist] classify_card [OF dist dist] that by (metis less_imp_diff_less)
  qed
  have "?L \<longleftrightarrow> (\<forall>i \<in> set [n..<length chain]. \<exists>tr. classifyTransition v (chain ! (i - 1)) (chain ! i) = Inr tr)"
    unfolding suffix_transitions_def rmap_Inr_iff list_all2_ex_iff by (rule refl)
  also have "\<dots> \<longleftrightarrow> ?R" using classified by auto
  finally show ?thesis .
qed

section \<open>Snapshots\<close>

text \<open>The slot of a device carries a vault key of the snapshot's generation for that device.\<close>

definition slot_ok :: "VaultSnapshot \<Rightarrow> DeviceKeySlot \<Rightarrow> bool" where
  "slot_ok snapshot slot \<longleftrightarrow>
     slot_vaultKeyGeneration slot = m_vaultKeyGeneration (snap_metadata snapshot) \<and>
     env_recipientDeviceId (slot_envelope slot) = slot_deviceId slot \<and>
     env_vaultKeyGeneration (slot_envelope slot) = m_vaultKeyGeneration (snap_metadata snapshot)"

definition slots_match_trust :: "VaultSnapshot \<Rightarrow> VerifiedVaultTrustState \<Rightarrow> bool" where
  "slots_match_trust snapshot trust \<longleftrightarrow>
     is_safe_integer (m_vaultKeyGeneration (snap_metadata snapshot)) \<and>
     1 \<le> m_vaultKeyGeneration (snap_metadata snapshot) \<and>
     distinct (map dti_deviceId (ts_trustedDevices trust)) \<and>
     distinct (map slot_deviceId (snap_deviceSlots snapshot)) \<and>
     slot_deviceId ` set (snap_deviceSlots snapshot) = ids_of (ts_trustedDevices trust) \<and>
     (\<forall>slot \<in> set (snap_deviceSlots snapshot). slot_ok snapshot slot)"

lemma requireValidDeviceSlots_Inr:
  "requireValidDeviceSlots v snapshot trust = Inr () \<longleftrightarrow> slots_match_trust snapshot trust"
proof -
  let ?ids = "map dti_deviceId (ts_trustedDevices trust)"
  let ?slots = "map slot_deviceId (snap_deviceSlots snapshot)"
  have len: "length (js_set ?ids) = length (ts_trustedDevices trust) \<longleftrightarrow> distinct ?ids"
    "length (js_set ?slots) = length (snap_deviceSlots snapshot) \<longleftrightarrow> distinct ?slots"
    using length_js_set_iff [of ?ids] length_js_set_iff [of ?slots] by simp_all
  have card: "length (js_set xs) = card (set xs)" for xs :: "string list"
    by (metis distinct_card distinct_js_set set_js_set)
  have sets: "length (js_set ?ids) = length (js_set ?slots) \<and> set ?slots \<subseteq> set ?ids \<longleftrightarrow> set ?slots = set ?ids"
    unfolding card by (metis card_subset_eq List.finite_set order_refl)
  have "requireValidDeviceSlots v snapshot trust = Inr () \<longleftrightarrow>
      is_safe_integer (m_vaultKeyGeneration (snap_metadata snapshot)) \<and>
      1 \<le> m_vaultKeyGeneration (snap_metadata snapshot) \<and> distinct ?ids \<and> distinct ?slots \<and>
      length (js_set ?ids) = length (js_set ?slots) \<and> set ?slots \<subseteq> set ?ids \<and>
      (\<forall>slot \<in> set (snap_deviceSlots snapshot). slot_ok snapshot slot)"
    unfolding requireValidDeviceSlots_def Let_def rbind_eq_Inr_iff len [symmetric]
    by (auto simp: rfold_unit_iff slot_ok_def)
  also have "\<dots> \<longleftrightarrow> slots_match_trust snapshot trust"
    unfolding slots_match_trust_def using sets by (auto simp: ids_of_def)
  finally show ?thesis .
qed

lemma verifySnapshot_Inr:
  "verifySnapshot cr v snapshot trust = Inr () \<longleftrightarrow>
     m_id (snap_metadata snapshot) = v \<and> m_schemaVersion (snap_metadata snapshot) = 1 \<and>
     m_algorithmSuiteId (snap_metadata snapshot) = algorithmSuiteId cr \<and>
     m_vaultKeyGeneration (snap_metadata snapshot) = ts_vaultKeyGeneration trust \<and>
     slots_match_trust snapshot trust \<and>
     (\<exists>signer. find_device (ts_trustedDevices trust) (m_createdByDeviceId (snap_metadata snapshot)) = Some signer \<and>
        verifyVaultSnapshotSignature cr snapshot (dti_publicSignKey signer))"
  by (auto simp: verifySnapshot_def Let_def rbind_eq_Inr_iff requireValidDeviceSlots_Inr split: option.splits)

text \<open>A revoked device has no slot in a snapshot that verifies.\<close>

lemma verified_snapshot_slots:
  assumes "verifySnapshot cr v snapshot trust = Inr ()" "slot \<in> set (snap_deviceSlots snapshot)"
  shows "has_device (ts_trustedDevices trust) (slot_deviceId slot)"
  using assms by (auto simp: verifySnapshot_Inr slots_match_trust_def has_device_iff)

section \<open>Checkpoints\<close>

definition checkpoint_signatures_verify :: "crypto \<Rightarrow> bytes \<Rightarrow> bytes \<Rightarrow> bool" where
  "checkpoint_signatures_verify cr publicKey privateKey \<longleftrightarrow>
     (\<forall>payload. verifyLocalVaultTrustCheckpointSignature cr
        \<lparr> chk_payload = payload, chk_signature = signLocalVaultTrustCheckpoint cr payload privateKey \<rparr>
        publicKey)"

lemma createCheckpoint_verifies:
  assumes "checkpoint_signatures_verify cr (dti_publicSignKey device) privateKey"
    and "verifySnapshot cr v snapshot trust = Inr ()"
  shows "verifyCheckpoint cr v (createCheckpoint cr snapshot trust (dti_deviceId device) privateKey) device = Inr ()"
  using assms
  by (auto simp: checkpoint_signatures_verify_def verifyCheckpoint_def createCheckpoint_def Let_def
      verifySnapshot_Inr slots_match_trust_def)

lemma requireSnapshotNotRolledBack_Inr:
  "requireSnapshotNotRolledBack cr v snapshot trust checkpoint = Inr r \<longleftrightarrow>
     requireTrustDescendsFrom cr v (snap_trustChain snapshot) trust
       (cp_trustGeneration (chk_payload checkpoint))
       (cp_trustCertificateDigest (chk_payload checkpoint)) = Inr () \<and>
     cp_vaultKeyGeneration (chk_payload checkpoint) \<le> m_vaultKeyGeneration (snap_metadata snapshot) \<and>
     (let here = vv_get (m_snapshotVersionVector (snap_metadata snapshot));
          there = vv_get (cp_snapshotVersionVector (chk_payload checkpoint))
      in (r = Same_snapshot \<and> here = there \<and> digestVaultSnapshot cr snapshot = cp_snapshotDigest (chk_payload checkpoint)) \<or>
         (r = Newer_snapshot \<and> there < here))"
proof -
  let ?rel = "compareVersionVectors (m_snapshotVersionVector (snap_metadata snapshot))
    (cp_snapshotVersionVector (chk_payload checkpoint))"
  have ahead: "?rel = Local_ahead \<longleftrightarrow> ?rel \<noteq> Equal \<and> ?rel \<noteq> Remote_ahead \<and> ?rel \<noteq> Broken"
    using compare_not_Remote_missing by (cases ?rel) auto
  show ?thesis
    unfolding requireSnapshotNotRolledBack_def Let_def compare_Equal_iff [symmetric]
      compare_Local_ahead_iff [symmetric] ahead
    by (auto simp: rbind_eq_Inr_iff)
qed

text \<open>A checkpoint accepts its own snapshot, as the same one.\<close>

lemma checkpoint_accepts_own_snapshot:
  assumes "valid_chain cr v a (snap_trustChain snapshot)" "trust = trust_of cr (snap_trustChain snapshot)"
  shows "requireSnapshotNotRolledBack cr v snapshot trust
           (createCheckpoint cr snapshot trust deviceId privateKey) = Inr Same_snapshot"
proof -
  have nonempty: "snap_trustChain snapshot \<noteq> []" using assms(1) by (simp add: valid_chain_def)
  show ?thesis
    using last_generation [OF assms(1)] nonempty
    unfolding requireSnapshotNotRolledBack_Inr requireTrustDescendsFrom_Inr assms(2)
    by (simp add: createCheckpoint_def Let_def trust_of_def nat_diff_distrib last_conv_nth Suc_leI)
qed

text \<open>After a newer snapshot was accepted and recorded, the older one is a rollback.\<close>

lemma checkpoint_rejects_older_snapshot:
  assumes "requireSnapshotNotRolledBack cr v new newTrust
      (createCheckpoint cr old oldTrust deviceId privateKey) = Inr Newer_snapshot"
  shows "requireSnapshotNotRolledBack cr v old oldTrust
      (createCheckpoint cr new newTrust deviceId' privateKey') = Inl (VaultSnapshotRollbackDetectedError v)"
proof -
  let ?o = "m_snapshotVersionVector (snap_metadata old)"
  let ?n = "m_snapshotVersionVector (snap_metadata new)"
  have "vv_get ?o < vv_get ?n"
    using assms by (simp add: requireSnapshotNotRolledBack_Inr createCheckpoint_def Let_def)
  then have rel: "compareVersionVectors ?o ?n = Remote_ahead" by (simp add: compare_Remote_ahead_iff)
  have descends: "requireTrustDescendsFrom cr v c t g d = Inr () \<or>
      requireTrustDescendsFrom cr v c t g d = Inl (VaultSnapshotRollbackDetectedError v)" for c t g d
    by (auto simp: requireTrustDescendsFrom_def require_def split: option.splits)
  show ?thesis
    unfolding requireSnapshotNotRolledBack_def Let_def
    using descends [of "snap_trustChain old" oldTrust "ts_generation newTrust" "ts_certificateDigest newTrust"]
    by (auto simp: createCheckpoint_def Let_def rel)
qed

end
