(* ===== verification/Trust_Baseline.thy ===== *)
theory Trust_Baseline
  imports Sync_Review Trust_Operations
begin

text \<open>
  Following a remote trust change: from the local vault and the verified transitions the
  consuming services build the vault that the remote one is then reviewed against
  (\<open>buildTrustTransitionBaseline\<close> of \<open>device-revocation-consumption.service.ts\<close> and
  \<open>buildEnrollmentBaseline\<close> of \<open>device-enrollment-consumption.service.ts\<close>).
\<close>

section \<open>Revocations and enrollments\<close>

text \<open>The variables of the loop.\<close>

record baseline_state =
  bl_baseline :: Vault
  bl_revokedDeviceIds :: "string list"

definition profiles_named :: "string \<Rightarrow> Vault \<Rightarrow> DeviceProfile list" where
  "profiles_named i v = filter (\<lambda>p. d_id p = i) (v_deviceProfiles v)"

definition tombstones_named :: "string \<Rightarrow> Vault \<Rightarrow> Tombstone list" where
  "tombstones_named i v = filter (\<lambda>p. del_id p = i) (v_deletedDeviceProfiles v)"

definition applyEnrollment ::
    "string \<Rightarrow> Vault \<Rightarrow> string list \<Rightarrow> string \<Rightarrow> Vault \<Rightarrow> core_error + Vault" where
  "applyEnrollment vaultId remoteVault finalTrustedDeviceIds enrolledDeviceId baseline =
     (let localProfile = find (\<lambda>p. d_id p = enrolledDeviceId) (v_deviceProfiles baseline);
          localTombstone = find (\<lambda>p. del_id p = enrolledDeviceId) (v_deletedDeviceProfiles baseline);
          remoteProfiles = profiles_named enrolledDeviceId remoteVault;
          remoteTombstones = tombstones_named enrolledDeviceId remoteVault
      in if localProfile \<noteq> None \<or> localTombstone \<noteq> None \<or>
            length remoteProfiles > 1 \<or> length remoteTombstones > 1
         then Inl (InvalidDeviceRevocationTransitionError vaultId Inconsistent_profile_state)
         else if enrolledDeviceId \<in> set finalTrustedDeviceIds
         then if length remoteTombstones \<noteq> 0
              then Inl (InvalidDeviceRevocationTransitionError vaultId Trusted_identity_deleted)
              else Inr (case remoteProfiles of [] \<Rightarrow> baseline
                   | remoteProfile # _ \<Rightarrow>
                       baseline\<lparr>v_deviceProfiles := v_deviceProfiles baseline @ [remoteProfile]\<rparr>)
         else if length remoteProfiles \<noteq> 0
         then Inl (InvalidDeviceRevocationTransitionError vaultId Revoked_identity_active)
         else Inr baseline)"

definition applyRevocation ::
    "string \<Rightarrow> Vault \<Rightarrow> string \<Rightarrow> string \<Rightarrow> Vault \<Rightarrow> core_error + Vault" where
  "applyRevocation vaultId remoteVault revokedDeviceId authorizedByDeviceId baseline =
     (if list_ex (\<lambda>p. d_id p = revokedDeviceId) (v_deviceProfiles remoteVault)
      then Inl (InvalidDeviceRevocationTransitionError vaultId Revoked_profile_active)
      else
        let localProfiles = profiles_named revokedDeviceId baseline;
            localTombstone = find (\<lambda>p. del_id p = revokedDeviceId) (v_deletedDeviceProfiles baseline);
            remoteTombstones = tombstones_named revokedDeviceId remoteVault
        in if length localProfiles > 1
           then Inl (InvalidDeviceRevocationTransitionError vaultId Duplicate_active_profiles)
           else case localProfiles of
             [] \<Rightarrow>
               if localTombstone \<noteq> None \<or> length remoteTombstones > 1
               then Inl (InvalidDeviceRevocationTransitionError vaultId Inconsistent_pending_identity)
               else Inr (case remoteTombstones of [] \<Rightarrow> baseline
                    | remoteTombstone # _ \<Rightarrow>
                        baseline\<lparr>v_deletedDeviceProfiles :=
                          v_deletedDeviceProfiles baseline @ [remoteTombstone]\<rparr>)
           | localProfile # _ \<Rightarrow>
               (case remoteTombstones of
                  [remoteTombstone] \<Rightarrow>
                    if localTombstone \<noteq> None
                    then Inl (InvalidDeviceRevocationTransitionError vaultId Missing_tombstone)
                    else
                      let next = revokeDeviceProfileFromVault baseline authorizedByDeviceId
                                   revokedDeviceId (del_deletedAt remoteTombstone)
                      in (case find (\<lambda>p. del_id p = revokedDeviceId) (v_deletedDeviceProfiles next) of
                            None \<Rightarrow> Inl (InvalidDeviceRevocationTransitionError vaultId Tombstone_mismatch)
                          | Some baselineTombstone \<Rightarrow>
                              if areJsonEqual (tombstone_json baselineTombstone) (tombstone_json remoteTombstone)
                              then Inr next
                              else Inl (InvalidDeviceRevocationTransitionError vaultId Tombstone_mismatch))
                | _ \<Rightarrow> Inl (InvalidDeviceRevocationTransitionError vaultId Missing_tombstone)))"

definition applyTransition ::
    "string \<Rightarrow> Vault \<Rightarrow> string list \<Rightarrow> DeviceTrustTransition \<Rightarrow> baseline_state \<Rightarrow>
     core_error + baseline_state" where
  "applyTransition vaultId remoteVault finalTrustedDeviceIds transition st =
     (case transition of
        Enrollment enrolledDeviceId _ _ _ \<Rightarrow>
          rbind (applyEnrollment vaultId remoteVault finalTrustedDeviceIds enrolledDeviceId (bl_baseline st))
            (\<lambda>baseline. Inr (st\<lparr>bl_baseline := baseline\<rparr>))
      | Revocation revokedDeviceId authorizedByDeviceId _ _ \<Rightarrow>
          if revokedDeviceId \<in> set (bl_revokedDeviceIds st)
          then Inl (InvalidDeviceRevocationTransitionError vaultId Revoked_more_than_once)
          else rbind (applyRevocation vaultId remoteVault revokedDeviceId authorizedByDeviceId (bl_baseline st))
            (\<lambda>baseline. Inr \<lparr>bl_baseline = baseline,
               bl_revokedDeviceIds = bl_revokedDeviceIds st @ [revokedDeviceId]\<rparr>))"

definition buildTrustTransitionBaseline ::
    "string \<Rightarrow> Vault \<Rightarrow> Vault \<Rightarrow> DeviceTrustTransition list \<Rightarrow> string list \<Rightarrow> core_error + Vault" where
  "buildTrustTransitionBaseline vaultId localVault remoteVault transitions finalTrustedDeviceIds =
     (let start = (case v_providerCredentialRevocationPending remoteVault of
            None \<Rightarrow> clearVaultProviderCredentialRevocationPending localVault
          | Some pending \<Rightarrow> markVaultProviderCredentialRevocationPending localVault
              (pcr_revokedDeviceIds pending) (pcr_vaultKeyGeneration pending))
      in rbind (rfold (applyTransition vaultId remoteVault finalTrustedDeviceIds) transitions
                  \<lparr>bl_baseline = start, bl_revokedDeviceIds = []\<rparr>)
           (\<lambda>st. Inr (bl_baseline st)))"

definition buildEnrollmentBaseline ::
    "string \<Rightarrow> Vault \<Rightarrow> Vault \<Rightarrow> DeviceTrustTransition list \<Rightarrow> core_error + Vault" where
  "buildEnrollmentBaseline vaultId localVault remoteVault transitions =
     rfold (\<lambda>transition baseline.
         let enrolledDeviceId = tr_device transition;
             localProfiles = profiles_named enrolledDeviceId localVault;
             localTombstones = tombstones_named enrolledDeviceId localVault;
             remoteProfiles = profiles_named enrolledDeviceId remoteVault;
             remoteTombstones = tombstones_named enrolledDeviceId remoteVault
         in if length localProfiles \<noteq> 0 \<or> length localTombstones \<noteq> 0 \<or>
               length remoteProfiles > 1 \<or> length remoteTombstones \<noteq> 0
            then Inl (InvalidDeviceEnrollmentTransitionError vaultId Inconsistent_profile_state)
            else Inr (case remoteProfiles of [] \<Rightarrow> baseline
                 | remoteProfile # _ \<Rightarrow>
                     baseline\<lparr>v_deviceProfiles := v_deviceProfiles baseline @ [remoteProfile]\<rparr>))
       transitions localVault"

section \<open>Profiles and trust\<close>

text \<open>Every active profile is trusted; every deleted one was, and is not any more.\<close>

definition profiles_match :: "Vault \<Rightarrow> string set \<Rightarrow> string set \<Rightarrow> bool" where
  "profiles_match v trusted historical \<longleftrightarrow>
     items_ok d_id (v_deviceProfiles v) (v_deletedDeviceProfiles v) \<and>
     d_id ` set (v_deviceProfiles v) \<subseteq> trusted \<and>
     del_id ` set (v_deletedDeviceProfiles v) \<subseteq> historical - trusted"

lemma distinct_map_count:
  "distinct (map f xs) \<longleftrightarrow> (\<forall>i. length (filter (\<lambda>x. f x = i) xs) \<le> 1)"
proof (induction xs)
  case Nil
  show ?case by simp
next
  case (Cons x xs)
  have "(\<forall>i. length (filter (\<lambda>y. f y = i) (x # xs)) \<le> 1) \<longleftrightarrow>
      filter (\<lambda>y. f y = f x) xs = [] \<and> (\<forall>i. length (filter (\<lambda>y. f y = i) xs) \<le> 1)"
  proof (intro iffI conjI allI)
    assume count: "\<forall>i. length (filter (\<lambda>y. f y = i) (x # xs)) \<le> 1"
    show "filter (\<lambda>y. f y = f x) xs = []" using spec [OF count, of "f x"] by simp
    show "length (filter (\<lambda>y. f y = i) xs) \<le> 1" for i
      using spec [OF count, of i] by (cases "f x = i") simp_all
  next
    fix i
    assume "filter (\<lambda>y. f y = f x) xs = [] \<and> (\<forall>i. length (filter (\<lambda>y. f y = i) xs) \<le> 1)"
    then show "length (filter (\<lambda>y. f y = i) (x # xs)) \<le> 1" by (cases "f x = i") auto
  qed
  moreover have "filter (\<lambda>y. f y = f x) xs = [] \<longleftrightarrow> f x \<notin> f ` set xs"
    by (auto simp: filter_empty_conv image_iff dest: sym)
  ultimately show ?case by (simp add: Cons.IH)
qed

lemma findDeviceProfile_cases:
  "findDeviceProfile v i = Inr s \<longleftrightarrow>
     length (profiles_named i v) \<le> 1 \<and> length (tombstones_named i v) \<le> 1 \<and>
     (profiles_named i v = [] \<or> tombstones_named i v = []) \<and>
     s = (case profiles_named i v of p # _ \<Rightarrow> Item p | [] \<Rightarrow>
            (case tombstones_named i v of d # _ \<Rightarrow> Deleted d | [] \<Rightarrow> Missing))"
  by (auto simp: findDeviceProfile_def Let_def profiles_named_def tombstones_named_def split: list.splits)

lemma requireDeviceProfilesMatchTrust_Inr:
  "requireDeviceProfilesMatchTrust v trusted historical = Inr () \<longleftrightarrow>
     profiles_match v (set trusted) (set historical)"
proof -
  have ids: "i \<in> set (map d_id (v_deviceProfiles v) @ map del_id (v_deletedDeviceProfiles v)) \<longleftrightarrow>
      profiles_named i v \<noteq> [] \<or> tombstones_named i v \<noteq> []" for i
    by (auto simp: profiles_named_def tombstones_named_def filter_empty_conv)
  have active: "i \<in> d_id ` set (v_deviceProfiles v) \<longleftrightarrow> profiles_named i v \<noteq> []" for i
    by (auto simp: profiles_named_def filter_empty_conv)
  have deleted: "i \<in> del_id ` set (v_deletedDeviceProfiles v) \<longleftrightarrow> tombstones_named i v \<noteq> []" for i
    by (auto simp: tombstones_named_def filter_empty_conv)
  have one: "(rbind (findDeviceProfile v i) (\<lambda>profile.
        if (case profile of Item _ \<Rightarrow> i \<notin> set trusted
            | Deleted _ \<Rightarrow> i \<in> set trusted \<or> i \<notin> set historical | Missing \<Rightarrow> False)
        then Inl (InvalidVaultSyncReviewError (Profile_not_in_trust i)) else Inr ()) = Inr ()) \<longleftrightarrow>
      length (profiles_named i v) \<le> 1 \<and> length (tombstones_named i v) \<le> 1 \<and>
      (profiles_named i v = [] \<or> tombstones_named i v = []) \<and>
      (profiles_named i v \<noteq> [] \<longrightarrow> i \<in> set trusted) \<and>
      (tombstones_named i v \<noteq> [] \<longrightarrow> i \<in> set historical - set trusted)" for i
    by (auto simp: rbind_eq_Inr_iff findDeviceProfile_cases split: list.splits)
  have "requireDeviceProfilesMatchTrust v trusted historical = Inr () \<longleftrightarrow>
      (\<forall>i. length (profiles_named i v) \<le> 1 \<and> length (tombstones_named i v) \<le> 1 \<and>
        (profiles_named i v = [] \<or> tombstones_named i v = []) \<and>
        (profiles_named i v \<noteq> [] \<longrightarrow> i \<in> set trusted) \<and>
        (tombstones_named i v \<noteq> [] \<longrightarrow> i \<in> set historical - set trusted))"
    unfolding requireDeviceProfilesMatchTrust_def rfold_unit_iff set_js_set one
    using ids by fastforce
  also have "\<dots> \<longleftrightarrow> profiles_match v (set trusted) (set historical)"
    unfolding profiles_match_def items_ok_def distinct_map_count
      profiles_named_def [symmetric] tombstones_named_def [symmetric]
      subset_iff disjoint_iff active deleted
    by blast
  finally show ?thesis .
qed

section \<open>The baseline matches the final trust\<close>

lemma find_None_named:
  "find (\<lambda>p. d_id p = i) (v_deviceProfiles v) = None \<longleftrightarrow> i \<notin> d_id ` set (v_deviceProfiles v)"
  "find (\<lambda>p. del_id p = i) (v_deletedDeviceProfiles v) = None \<longleftrightarrow> i \<notin> del_id ` set (v_deletedDeviceProfiles v)"
  by (auto simp: find_None_iff)

lemma applyEnrollment_match:
  assumes "applyEnrollment vaultId remote final i b = Inr b'" "profiles_match b T H"
  shows "profiles_match b' (insert i T) H"
proof -
  have fresh: "i \<notin> d_id ` set (v_deviceProfiles b)" "i \<notin> del_id ` set (v_deletedDeviceProfiles b)"
    using assms(1) by (auto simp: applyEnrollment_def Let_def find_None_named [symmetric] split: if_splits)
  have "b' = b \<or> (\<exists>p. d_id p = i \<and> b' = b\<lparr>v_deviceProfiles := v_deviceProfiles b @ [p]\<rparr>)"
    using assms(1) by (auto simp: applyEnrollment_def Let_def profiles_named_def filter_eq_Cons_iff
        split: if_splits list.splits)
  then show ?thesis
  proof
    assume "b' = b"
    with assms(2) fresh show ?thesis unfolding profiles_match_def by blast
  next
    assume "\<exists>p. d_id p = i \<and> b' = b\<lparr>v_deviceProfiles := v_deviceProfiles b @ [p]\<rparr>"
    with assms(2) fresh show ?thesis unfolding profiles_match_def items_ok_def by force
  qed
qed

lemma applyRevocation_match:
  assumes "applyRevocation vaultId remote i a b = Inr b'" "profiles_match b T H" "i \<in> H"
  shows "profiles_match b' (T - {i}) H"
proof -
  have fresh: "i \<notin> del_id ` set (v_deletedDeviceProfiles b)"
    using assms(1) by (auto simp: applyRevocation_def Let_def find_None_named [symmetric]
        split: if_splits list.splits)
  consider "b' = b" "i \<notin> d_id ` set (v_deviceProfiles b)"
    | d where "del_id d = i" "i \<notin> d_id ` set (v_deviceProfiles b)"
        "b' = b\<lparr>v_deletedDeviceProfiles := v_deletedDeviceProfiles b @ [d]\<rparr>"
    | p t where "profiles_named i b = [p]" "b' = revokeDeviceProfileFromVault b a i t"
  proof -
    have "(\<exists>p. profiles_named i b = [p]) \<or> profiles_named i b = []"
      using assms(1) by (auto simp: applyRevocation_def Let_def split: if_splits list.splits)
    moreover have "profiles_named i b = [] \<longleftrightarrow> i \<notin> d_id ` set (v_deviceProfiles b)"
      by (auto simp: profiles_named_def filter_empty_conv)
    ultimately show thesis
      using assms(1) that
      by (auto simp: applyRevocation_def Let_def tombstones_named_def filter_eq_Cons_iff
          split: if_splits list.splits option.splits)
  qed
  then show ?thesis
  proof cases
    case 1
    with assms(2) fresh show ?thesis unfolding profiles_match_def by blast
  next
    case 2
    with assms(2,3) fresh show ?thesis unfolding profiles_match_def items_ok_def by force
  next
    case 3
    then obtain q where q: "find (\<lambda>p. d_id p = i) (v_deviceProfiles b) = Some q"
      by (cases "find (\<lambda>p. d_id p = i) (v_deviceProfiles b)")
        (auto simp: find_None_named profiles_named_def filter_eq_Cons_iff)
    with 3 assms(2,3) fresh show ?thesis
      by (auto simp: profiles_match_def items_ok_def revokeDeviceProfileFromVault_def Let_def
          without_deletion_def distinct_map_filter)
  qed
qed

text \<open>Only the device profiles, the vault vector and the provider marker change.\<close>

lemma applyTransition_frame:
  assumes "applyTransition vaultId remote final tr st = Inr st'"
  shows "v_entries (bl_baseline st') = v_entries (bl_baseline st) \<and>
    v_deletedEntries (bl_baseline st') = v_deletedEntries (bl_baseline st) \<and>
    v_tags (bl_baseline st') = v_tags (bl_baseline st) \<and>
    v_deletedTags (bl_baseline st') = v_deletedTags (bl_baseline st) \<and>
    v_folders (bl_baseline st') = v_folders (bl_baseline st) \<and>
    v_deletedFolders (bl_baseline st') = v_deletedFolders (bl_baseline st) \<and>
    v_tagGroups (bl_baseline st') = v_tagGroups (bl_baseline st) \<and>
    v_syncTarget (bl_baseline st') = v_syncTarget (bl_baseline st)"
  using assms
  by (cases tr)
    (auto simp: applyTransition_def applyEnrollment_def applyRevocation_def Let_def rbind_eq_Inr_iff
      revokeDeviceProfileFromVault_def split: if_splits list.splits option.splits)

lemma transitions_match:
  assumes "rfold (applyTransition vaultId remote final) trs st = Inr st'"
    and "profiles_match (bl_baseline st) T H" and "tr_device ` set trs \<subseteq> H"
  shows "profiles_match (bl_baseline st') (fold replay trs T) H"
  using assms
proof (induction trs arbitrary: st T)
  case Nil
  then show ?case by simp
next
  case (Cons tr trs)
  then obtain st1 where st1: "applyTransition vaultId remote final tr st = Inr st1"
    "rfold (applyTransition vaultId remote final) trs st1 = Inr st'"
    by (auto simp: rbind_eq_Inr_iff)
  have "profiles_match (bl_baseline st1) (replay tr T) H"
    using st1(1) Cons.prems(2,3)
    by (cases tr) (auto simp: applyTransition_def rbind_eq_Inr_iff split: if_splits
        dest: applyEnrollment_match applyRevocation_match)
  with Cons.IH [OF st1(2)] Cons.prems(3) show ?case by simp
qed

lemma provider_marker_match:
  "profiles_match (markVaultProviderCredentialRevocationPending v ids n) T H = profiles_match v T H"
  "profiles_match (clearVaultProviderCredentialRevocationPending v) T H = profiles_match v T H"
  by (simp_all add: profiles_match_def markVaultProviderCredentialRevocationPending_def
      clearVaultProviderCredentialRevocationPending_def)

lemma profiles_match_mono: "profiles_match v T H \<Longrightarrow> H \<subseteq> H' \<Longrightarrow> profiles_match v T H'"
  by (auto simp: profiles_match_def)

lemma buildTrustTransitionBaseline_match:
  assumes "buildTrustTransitionBaseline vaultId localVault remote trs final = Inr b"
    and "profiles_match localVault T H" "H \<subseteq> H'" "tr_device ` set trs \<subseteq> H'"
  shows "profiles_match b (fold replay trs T) H'"
  using assms(1) transitions_match [OF _ _ assms(4)] profiles_match_mono [OF assms(2,3)]
  by (auto simp: buildTrustTransitionBaseline_def Let_def rbind_eq_Inr_iff provider_marker_match
      split: option.splits)

text \<open>
  With the suffix of a verified chain as transitions: if the local profiles match the local
  trust, the baseline matches the remote trust, so the check that the code makes of a vault
  against its trust accepts it.
\<close>

definition history_ids :: "VaultTrustChain \<Rightarrow> string list" where
  "history_ids chain = concat (map (\<lambda>c. map dti_deviceId (cert_devices c)) chain)"

lemma set_history_ids: "set (history_ids chain) = (\<Union>c \<in> set chain. cert_ids c)"
  by (simp add: history_ids_def ids_of_def)

lemma suffix_devices_historical:
  assumes valid: "valid_chain cr v a chain" and "0 < n" "suffix_transitions v chain n = Inr trs"
  shows "tr_device ` set trs \<subseteq> set (history_ids chain)"
proof
  fix x assume "x \<in> tr_device ` set trs"
  then obtain k where k: "k < length trs" "x = tr_device (trs ! k)" by (auto simp: in_set_conv_nth)
  then have pos: "n + k < length chain"
    and step: "classifyTransition v (chain ! (n + k - 1)) (chain ! (n + k)) = Inr (trs ! k)"
    using assms(3) by (auto simp: suffix_transitions_Inr_iff)
  have dist: "distinct (map dti_deviceId (cert_devices (chain ! (n + k))))"
    "distinct (map dti_deviceId (cert_devices (chain ! (n + k - 1))))"
    using valid_chain_fields [OF valid] pos by (simp_all add: valid_fields_def)
  have "x \<in> cert_ids (chain ! (n + k)) \<or> x \<in> cert_ids (chain ! (n + k - 1))"
    using step k(2) by (cases "trs ! k") (auto simp: classifyTransition_Inr [OF dist, simplified])
  then show "x \<in> set (history_ids chain)"
    using pos by (auto simp: set_history_ids)
qed

lemma baseline_matches_remote_trust:
  assumes valid: "valid_chain cr v a chain" and n: "0 < n" "n < length chain"
    and local: "requireDeviceProfilesMatchTrust localVault
      (map dti_deviceId (ts_trustedDevices (trust_of cr (take n chain)))) (history_ids (take n chain)) = Inr ()"
    and trs: "verifyDeviceTrustSuffix cr v chain (trust_of cr (take n chain)) (trust_of cr chain) = Inr trs"
    and base: "buildTrustTransitionBaseline v localVault remote trs final = Inr b"
  shows "requireDeviceProfilesMatchTrust b
    (map dti_deviceId (ts_trustedDevices (trust_of cr chain))) (history_ids chain) = Inr ()"
proof -
  have suffix: "suffix_transitions v chain n = Inr trs"
    using trs verifyDeviceTrustSuffix_prefix [OF valid n] by simp
  have last: "last (take n chain) = chain ! (n - 1)" "last chain = chain ! (length chain - 1)"
    using n by (subst last_conv_nth; auto)+
  have len: "length trs = length chain - n" using suffix by (simp add: suffix_transitions_Inr_iff)
  have "fold replay trs (cert_ids (chain ! (n - 1))) = cert_ids (last chain)"
    using replay_prefix [OF valid n(1) _ suffix, of "length chain - n"] n len last by simp
  moreover have "profiles_match localVault (cert_ids (chain ! (n - 1))) (set (history_ids (take n chain)))"
    using local last(1) by (simp add: requireDeviceProfilesMatchTrust_Inr trust_of_def ids_of_def)
  moreover have "set (history_ids (take n chain)) \<subseteq> set (history_ids chain)"
    using set_take_subset by (fastforce simp: set_history_ids)
  ultimately have "profiles_match b (cert_ids (last chain)) (set (history_ids chain))"
    using buildTrustTransitionBaseline_match [OF base] suffix_devices_historical [OF valid n(1) suffix] by metis
  then show ?thesis by (simp add: requireDeviceProfilesMatchTrust_Inr trust_of_def ids_of_def)
qed

end
