(* ===== verification/Password_Tools.thy ===== *)
theory Password_Tools
  imports Vault_Model "HOL-Library.Multiset"
begin

text \<open>
  Random choices: the unbiased index sampler (\<open>services/randomness/random-sampler.service.ts\<close>),
  the password generator (\<open>lib/generate-password\<close>, \<open>use-cases/password-tools/generate-password.ts\<close>),
  the username generator (\<open>lib/generate-username\<close>) and the default display name of a vault.

  The state of the computation is the list of byte blocks that the random source of the port
  will deliver. A computation that asks for more blocks than there are has not returned: its
  value is \<open>None\<close>.
\<close>

section \<open>Computations that draw random bytes\<close>

type_synonym 'a gen = "bytes list \<Rightarrow> (core_error + 'a \<times> bytes list) option"

definition greturn :: "'a \<Rightarrow> 'a gen" where
  "greturn x supply = Some (Inr (x, supply))"

definition gfail :: "core_error \<Rightarrow> 'a gen" where
  "gfail e supply = Some (Inl e)"

definition gbind :: "'a gen \<Rightarrow> ('a \<Rightarrow> 'b gen) \<Rightarrow> 'b gen" where
  "gbind m f supply =
     (case m supply of
        None \<Rightarrow> None
      | Some (Inl e) \<Rightarrow> Some (Inl e)
      | Some (Inr (x, rest)) \<Rightarrow> f x rest)"

lemma gbind_Inr_iff:
  "gbind m f s = Some (Inr (y, t)) \<longleftrightarrow> (\<exists>x u. m s = Some (Inr (x, u)) \<and> f x u = Some (Inr (y, t)))"
  by (auto simp: gbind_def split: option.splits sum.splits)

lemma greturn_Inr_iff [simp]: "greturn x s = Some (Inr (y, t)) \<longleftrightarrow> y = x \<and> t = s"
  by (auto simp: greturn_def)

lemma gfail_not_Inr [simp]: "gfail e s \<noteq> Some (Inr r)"
  by (simp add: gfail_def)

section \<open>The sampler\<close>

definition UINT32_RANGE :: int where
  "UINT32_RANGE = 2 ^ 32"

text \<open>\<open>new DataView(bytes).getUint32(0)\<close>: big-endian.\<close>

definition getUint32 :: "bytes \<Rightarrow> int" where
  "getUint32 bs = foldl (\<lambda>n b. n * 256 + uint b) 0 bs"

definition readUint32 :: "bytes \<Rightarrow> core_error + int" where
  "readUint32 randomBytes =
     (if length randomBytes \<noteq> 4 then Inl (InvalidRandomBytesLengthError (length randomBytes))
      else Inr (getUint32 randomBytes))"

fun sample_below :: "int \<Rightarrow> int \<Rightarrow> int gen" where
  "sample_below maxExclusive limit [] = None"
| "sample_below maxExclusive limit (randomBytes # supply) =
     (case readUint32 randomBytes of
        Inl e \<Rightarrow> Some (Inl e)
      | Inr value \<Rightarrow>
          if value < limit then Some (Inr (value mod maxExclusive, supply))
          else sample_below maxExclusive limit supply)"

definition sample_limit :: "int \<Rightarrow> int" where
  "sample_limit maxExclusive = UINT32_RANGE - UINT32_RANGE mod maxExclusive"

definition pickIndex :: "int \<Rightarrow> int gen" where
  "pickIndex maxExclusive =
     (if \<bar>maxExclusive\<bar> > int MAX_SAFE_INTEGER \<or> maxExclusive \<le> 0 \<or> maxExclusive > UINT32_RANGE
      then gfail InvalidRandomIndexUpperBoundError
      else sample_below maxExclusive (sample_limit maxExclusive))"

section \<open>Passwords\<close>

record GeneratedPasswordSettings =
  ps_length :: int
  ps_uppercase :: bool
  ps_lowercase :: bool
  ps_numbers :: bool
  ps_special :: bool
  ps_minNumbers :: int
  ps_minSpecial :: int
  ps_avoidAmbiguousCharacters :: bool

text \<open>\<open>Partial<GeneratedPasswordSettings>\<close> and the defaults of the schema.\<close>

record PasswordParams =
  pp_length :: "int option"
  pp_uppercase :: "bool option"
  pp_lowercase :: "bool option"
  pp_numbers :: "bool option"
  pp_special :: "bool option"
  pp_minNumbers :: "int option"
  pp_minSpecial :: "int option"
  pp_avoidAmbiguousCharacters :: "bool option"

definition with_default :: "'a \<Rightarrow> 'a option \<Rightarrow> 'a" where
  "with_default d v = (case v of None \<Rightarrow> d | Some x \<Rightarrow> x)"

definition generatedPasswordSettingsSchema :: "PasswordParams \<Rightarrow> GeneratedPasswordSettings option" where
  "generatedPasswordSettingsSchema p =
     (let settings =
            \<lparr>ps_length = with_default 14 (pp_length p),
             ps_uppercase = with_default True (pp_uppercase p),
             ps_lowercase = with_default True (pp_lowercase p),
             ps_numbers = with_default True (pp_numbers p),
             ps_special = with_default False (pp_special p),
             ps_minNumbers = with_default 1 (pp_minNumbers p),
             ps_minSpecial = with_default 0 (pp_minSpecial p),
             ps_avoidAmbiguousCharacters = with_default False (pp_avoidAmbiguousCharacters p)\<rparr>
      in if 1 \<le> ps_length settings \<and> ps_length settings \<le> 128 \<and>
            0 \<le> ps_minNumbers settings \<and> ps_minNumbers settings \<le> 128 \<and>
            0 \<le> ps_minSpecial settings \<and> ps_minSpecial settings \<le> 128
         then Some settings else None)"

record character_sets =
  cs_uppercase :: string
  cs_lowercase :: string
  cs_numbers :: string
  cs_special :: string

definition FULL_CHARACTER_SETS :: character_sets where
  "FULL_CHARACTER_SETS =
     \<lparr>cs_uppercase = ''ABCDEFGHIJKLMNOPQRSTUVWXYZ'', cs_lowercase = ''abcdefghijklmnopqrstuvwxyz'',
      cs_numbers = ''0123456789'', cs_special = ''!@#$%^&*''\<rparr>"

definition UNMISTAKABLE_CHARACTER_SETS :: character_sets where
  "UNMISTAKABLE_CHARACTER_SETS =
     \<lparr>cs_uppercase = ''ABCDEFGHJKLMNPQRSTUVWXYZ'', cs_lowercase = ''abcdefghijkmnopqrstuvwxyz'',
      cs_numbers = ''23456789'', cs_special = cs_special FULL_CHARACTER_SETS\<rparr>"

record GeneratedPasswordCharacterSets =
  gs_numbers :: string
  gs_special :: string
  gs_all :: string

definition getGeneratedPasswordCharacterSets ::
    "GeneratedPasswordSettings \<Rightarrow> GeneratedPasswordCharacterSets" where
  "getGeneratedPasswordCharacterSets settings =
     (let availableSets = (if ps_avoidAmbiguousCharacters settings then UNMISTAKABLE_CHARACTER_SETS
                           else FULL_CHARACTER_SETS);
          enabledSets =
            [if ps_uppercase settings then cs_uppercase availableSets else '''',
             if ps_lowercase settings then cs_lowercase availableSets else '''',
             if ps_numbers settings then cs_numbers availableSets else '''',
             if ps_special settings then cs_special availableSets else '''']
      in \<lparr>gs_numbers = (if ps_numbers settings then cs_numbers availableSets else ''''),
          gs_special = (if ps_special settings then cs_special availableSets else ''''),
          gs_all = concat enabledSets\<rparr>)"

definition canGeneratePassword ::
    "GeneratedPasswordSettings \<Rightarrow> GeneratedPasswordCharacterSets \<Rightarrow> bool" where
  "canGeneratePassword settings characterSets =
     (if length (gs_all characterSets) = 0 then False
      else if ps_minNumbers settings > 0 \<and> length (gs_numbers characterSets) = 0 then False
      else if ps_minSpecial settings > 0 \<and> length (gs_special characterSets) = 0 then False
      else ps_minNumbers settings + ps_minSpecial settings \<le> ps_length settings)"

text \<open>
  \<open>characterSet[i]\<close> is \<open>undefined\<close> outside the string, which \<open>join("")\<close> prints as the empty text.
\<close>

definition character_at :: "string \<Rightarrow> int \<Rightarrow> string" where
  "character_at s i = (if 0 \<le> i \<and> i < int (length s) then [s ! nat i] else '''')"

fun pickMany :: "string \<Rightarrow> nat \<Rightarrow> (int \<Rightarrow> int gen) \<Rightarrow> string list gen" where
  "pickMany characterSet 0 pick = greturn []"
| "pickMany characterSet (Suc n) pick =
     gbind (pick (int (length characterSet))) (\<lambda>i.
     gbind (pickMany characterSet n pick) (\<lambda>rest.
     greturn (character_at characterSet i # rest)))"

definition pickGeneratedPasswordCharacters ::
    "GeneratedPasswordSettings \<Rightarrow> GeneratedPasswordCharacterSets \<Rightarrow> (int \<Rightarrow> int gen) \<Rightarrow>
     string list gen" where
  "pickGeneratedPasswordCharacters settings characterSets pick =
     gbind (pickMany (gs_numbers characterSets) (nat (ps_minNumbers settings)) pick) (\<lambda>numbers.
     gbind (pickMany (gs_special characterSets) (nat (ps_minSpecial settings)) pick) (\<lambda>special.
     let characters = numbers @ special;
         remainingLength = ps_length settings - int (length characters)
     in gbind (pickMany (gs_all characterSets) (nat remainingLength) pick) (\<lambda>rest.
        greturn (characters @ rest))))"

definition swap :: "nat \<Rightarrow> nat \<Rightarrow> 'a list \<Rightarrow> 'a list" where
  "swap i j xs = xs[i := xs ! j, j := xs ! i]"

text \<open>\<open>for (let i = n; i > 0; i--)\<close>\<close>

fun shuffle_from :: "nat \<Rightarrow> (int \<Rightarrow> int gen) \<Rightarrow> string list \<Rightarrow> string list gen" where
  "shuffle_from 0 pick xs = greturn xs"
| "shuffle_from (Suc i) pick xs =
     gbind (pick (int (Suc i) + 1)) (\<lambda>j. shuffle_from i pick (swap (Suc i) (nat j) xs))"

definition shuffleGeneratedPasswordCharacters ::
    "string list \<Rightarrow> (int \<Rightarrow> int gen) \<Rightarrow> string list gen" where
  "shuffleGeneratedPasswordCharacters values pick = shuffle_from (length values - 1) pick values"

definition generatePassword :: "PasswordParams \<Rightarrow> string gen" where
  "generatePassword params =
     (case generatedPasswordSettingsSchema params of
        None \<Rightarrow> gfail InvalidGeneratedPasswordSettingsError
      | Some settings \<Rightarrow>
          let characterSets = getGeneratedPasswordCharacterSets settings in
          if \<not> canGeneratePassword settings characterSets then gfail PasswordGenerationImpossibleError
          else
            gbind (pickGeneratedPasswordCharacters settings characterSets pickIndex) (\<lambda>characters.
            gbind (shuffleGeneratedPasswordCharacters characters pickIndex) (\<lambda>shuffled.
            greturn (concat shuffled))))"

section \<open>Usernames and display names\<close>

text \<open>The word list (7,775 generated lines) is the parameter \<open>sourceWords\<close>.\<close>

definition is_username_char :: "char \<Rightarrow> bool" where
  "is_username_char c \<longleftrightarrow>
     (let n = (of_char c :: nat) in (97 \<le> n \<and> n \<le> 122) \<or> (48 \<le> n \<and> n \<le> 57))"

definition normalizeGeneratedUsernameWord :: "string \<Rightarrow> string" where
  "normalizeGeneratedUsernameWord word = filter is_username_char (js_lower word)"

text \<open>\<open>toUpperCase\<close> on the characters of a normalised word: only a to z have a capital.\<close>

definition upper_char :: "char \<Rightarrow> char" where
  "upper_char c =
     (let n = (of_char c :: nat) in if 97 \<le> n \<and> n \<le> 122 then char_of (n - 32) else c)"

definition capitalizeWord :: "string \<Rightarrow> string" where
  "capitalizeWord word = (case word of [] \<Rightarrow> [] | c # cs \<Rightarrow> upper_char c # cs)"

definition word_at :: "string list \<Rightarrow> int \<Rightarrow> string" where
  "word_at sourceWords i = sourceWords ! nat i"

fun digits_of :: "nat \<Rightarrow> string" where
  "digits_of n = (if n < 10 then [char_of (48 + n)] else digits_of (n div 10) @ [char_of (48 + n mod 10)])"

declare digits_of.simps [simp del]

definition pad_start :: "nat \<Rightarrow> string \<Rightarrow> string" where
  "pad_start n s = replicate (n - length s) (CHR ''0'') @ s"

fun pick_words :: "string list \<Rightarrow> bool \<Rightarrow> nat \<Rightarrow> (int \<Rightarrow> int gen) \<Rightarrow> string list gen" where
  "pick_words sourceWords capitalize 0 pick = greturn []"
| "pick_words sourceWords capitalize (Suc n) pick =
     gbind (pick (int (length sourceWords))) (\<lambda>i.
     let usernameWord = normalizeGeneratedUsernameWord (word_at sourceWords i) in
     gbind (pick_words sourceWords capitalize n pick) (\<lambda>rest.
     greturn ((if capitalize then capitalizeWord usernameWord else usernameWord) # rest)))"

fun pick_digits :: "nat \<Rightarrow> (int \<Rightarrow> int gen) \<Rightarrow> string list gen" where
  "pick_digits 0 pick = greturn []"
| "pick_digits (Suc n) pick =
     gbind (pick 10) (\<lambda>i. gbind (pick_digits n pick) (\<lambda>rest. greturn (digits_of (nat i) # rest)))"

definition generateUsernameValue ::
    "string list \<Rightarrow> bool \<Rightarrow> bool \<Rightarrow> (int \<Rightarrow> int gen) \<Rightarrow> string gen" where
  "generateUsernameValue sourceWords capitalize includeNumber pick =
     gbind (pick_words sourceWords capitalize 2 pick) (\<lambda>words.
     if \<not> includeNumber then greturn (concat words)
     else gbind (pick_digits 4 pick) (\<lambda>digits. greturn (concat words @ concat digits)))"

definition generateVaultDisplayName :: "string list \<Rightarrow> (int \<Rightarrow> int gen) \<Rightarrow> string gen" where
  "generateVaultDisplayName sourceWords pick =
     gbind (pick (int (length sourceWords))) (\<lambda>firstWordIndex.
     gbind (pick (int (length sourceWords))) (\<lambda>secondWordIndex.
     gbind (pick 10000) (\<lambda>number.
     let firstWord = normalizeGeneratedUsernameWord (word_at sourceWords firstWordIndex);
         secondWord = normalizeGeneratedUsernameWord (word_at sourceWords secondWordIndex)
     in greturn (firstWord @ ''-'' @ secondWord @ ''-'' @ pad_start 4 (digits_of (nat number))))))"

section \<open>The sampler is unbiased\<close>

lemma getUint32_bounds:
  assumes "length bs = 4"
  shows "0 \<le> getUint32 bs" "getUint32 bs < UINT32_RANGE"
proof -
  obtain a b c d where bs: "bs = [a, b, c, d]"
    using assms by (auto simp: length_Suc_conv eval_nat_numeral)
  have "0 \<le> uint x" "uint x < 256" for x :: "8 word"
    using uint_lt2p [of x] by simp_all
  from this [of a] this [of b] this [of c] this [of d]
  show "0 \<le> getUint32 bs" "getUint32 bs < UINT32_RANGE"
    unfolding bs getUint32_def UINT32_RANGE_def by simp_all
qed

definition valid_bound :: "int \<Rightarrow> bool" where
  "valid_bound n \<longleftrightarrow> 0 < n \<and> n \<le> UINT32_RANGE"

lemma pickIndex_valid: "valid_bound n \<Longrightarrow> pickIndex n = sample_below n (sample_limit n)"
  by (simp add: pickIndex_def valid_bound_def UINT32_RANGE_def MAX_SAFE_INTEGER_def)

lemma pickIndex_invalid: "\<not> valid_bound n \<Longrightarrow> pickIndex n s = Some (Inl InvalidRandomIndexUpperBoundError)"
  by (auto simp: pickIndex_def valid_bound_def gfail_def)

text \<open>The accepted values are a whole number of rounds through the indexes.\<close>

lemma sample_limit_multiple: "valid_bound n \<Longrightarrow> sample_limit n = UINT32_RANGE div n * n"
  by (simp add: sample_limit_def minus_mod_eq_div_mult)

lemma sample_limit_half: "valid_bound n \<Longrightarrow> UINT32_RANGE < 2 * sample_limit n"
proof -
  assume n: "valid_bound n"
  then have m: "UINT32_RANGE mod n < n" by (simp add: valid_bound_def)
  have "1 * n \<le> UINT32_RANGE div n * n"
    using n by (intro mult_right_mono) (auto simp: valid_bound_def pos_imp_zdiv_pos_iff int_one_le_iff_zero_less)
  then have "n \<le> sample_limit n" using sample_limit_multiple [OF n] by simp
  moreover have "u < 2 * (u - k)" if "n \<le> u - k" "k < n" for u k :: int
    using that by simp
  ultimately show ?thesis using m unfolding sample_limit_def by blast
qed

lemma rounds_uniform:
  fixes n r :: int and q :: nat
  assumes "0 \<le> r" "r < n"
  shows "card {v. 0 \<le> v \<and> v < int q * n \<and> v mod n = r} = q"
proof -
  have n: "0 < n" using assms by linarith
  have "{v. 0 \<le> v \<and> v < int q * n \<and> v mod n = r} = (\<lambda>k. int k * n + r) ` {..<q}"
  proof (intro equalityI subsetI)
    fix v assume v: "v \<in> {v. 0 \<le> v \<and> v < int q * n \<and> v mod n = r}"
    have "v div n * n \<le> v" using n pos_mod_sign [of n v] minus_mod_eq_div_mult [of v n] by linarith
    have "v div n < int q"
    proof (rule ccontr)
      assume "\<not> v div n < int q"
      then have "int q * n \<le> v div n * n" using n by (intro mult_right_mono) auto
      with \<open>v div n * n \<le> v\<close> v show False by simp
    qed
    moreover have "0 \<le> v div n" using v n by (simp add: pos_imp_zdiv_nonneg_iff)
    moreover have "v = v div n * n + r" using v by auto
    ultimately show "v \<in> (\<lambda>k. int k * n + r) ` {..<q}"
      by (intro image_eqI [of _ _ "nat (v div n)"]) auto
  next
    fix v assume "v \<in> (\<lambda>k. int k * n + r) ` {..<q}"
    then obtain k where k: "k < q" "v = int k * n + r" by auto
    have "int (Suc k) * n \<le> int q * n" using k(1) n by (intro mult_right_mono) auto
    then have "int k * n + n \<le> int q * n" by (simp add: algebra_simps)
    then show "v \<in> {v. 0 \<le> v \<and> v < int q * n \<and> v mod n = r}"
      using k assms n by auto
  qed
  moreover have "inj_on (\<lambda>k. int k * n + r) {..<q}" using n by (auto simp: inj_on_def)
  ultimately show ?thesis by (simp add: card_image)
qed

lemma sampler_uniform:
  assumes "valid_bound n" "0 \<le> r" "r < n"
  shows "card {v. 0 \<le> v \<and> v < sample_limit n \<and> v mod n = r} = nat (UINT32_RANGE div n)"
proof -
  have "sample_limit n = int (nat (UINT32_RANGE div n)) * n"
    using sample_limit_multiple [OF assms(1)] assms(1)
    by (simp add: valid_bound_def UINT32_RANGE_def pos_imp_zdiv_nonneg_iff)
  then show ?thesis using rounds_uniform [OF assms(2,3), of "nat (UINT32_RANGE div n)"] by (simp only:)
qed

text \<open>The first block below the limit decides; blocks before it are dropped.\<close>

definition accepted :: "int \<Rightarrow> bytes \<Rightarrow> bool" where
  "accepted n b \<longleftrightarrow> getUint32 b < sample_limit n"

lemma sample_first_accepted:
  assumes "\<forall>b \<in> set rejected. length b = 4 \<and> \<not> accepted n b" "length b = 4" "accepted n b"
  shows "sample_below n (sample_limit n) (rejected @ b # rest) = Some (Inr (getUint32 b mod n, rest))"
  using assms by (induction rejected) (auto simp: readUint32_def accepted_def)

lemma sample_exhausted:
  "\<forall>b \<in> set s. length b = 4 \<and> \<not> accepted n b \<Longrightarrow> sample_below n (sample_limit n) s = None"
  by (induction s) (auto simp: readUint32_def accepted_def)

lemma sample_below_range:
  "sample_below n l s = Some (Inr (i, t)) \<Longrightarrow> 0 < n \<Longrightarrow> 0 \<le> i \<and> i < n"
  by (induction s) (auto split: sum.splits if_splits)

lemma pickIndex_range: "pickIndex n s = Some (Inr (i, t)) \<Longrightarrow> 0 \<le> i \<and> i < n"
  by (cases "valid_bound n")
    (auto simp: pickIndex_valid pickIndex_invalid valid_bound_def dest: sample_below_range)

section \<open>What the clients of a sampler get\<close>

text \<open>The contract that the generators rely on: an index is inside the requested range.\<close>

locale index_sampler =
  fixes pick :: "int \<Rightarrow> int gen"
  assumes pick_range: "pick n s = Some (Inr (i, t)) \<Longrightarrow> 0 \<le> i \<and> i < n"
begin

lemma pickMany_Inr:
  "pickMany cs n pick s = Some (Inr (xs, t)) \<Longrightarrow> length xs = n \<and> (\<forall>x \<in> set xs. \<exists>c \<in> set cs. x = [c])"
proof (induction n arbitrary: s xs)
  case 0
  then show ?case by simp
next
  case (Suc n)
  then obtain i s1 ys where i: "pick (int (length cs)) s = Some (Inr (i, s1))"
    and ys: "pickMany cs n pick s1 = Some (Inr (ys, t))" "xs = character_at cs i # ys"
    by (auto simp: gbind_Inr_iff)
  have "0 \<le> i" "nat i < length cs" using pick_range [OF i] by auto
  then have "character_at cs i = [cs ! nat i]" "cs ! nat i \<in> set cs" by (auto simp: character_at_def)
  with Suc.IH [OF ys(1)] ys(2) show ?case by auto
qed

lemma shuffle_from_mset:
  "shuffle_from n pick xs s = Some (Inr (ys, t)) \<Longrightarrow> n < length xs \<or> xs = [] \<and> n = 0 \<Longrightarrow> mset ys = mset xs"
proof (induction n arbitrary: xs s)
  case 0
  then show ?case by simp
next
  case (Suc n)
  from Suc.prems(1) obtain j s1 where j: "pick (int (Suc n) + 1) s = Some (Inr (j, s1))"
    and rest: "shuffle_from n pick (swap (Suc n) (nat j) xs) s1 = Some (Inr (ys, t))"
    by (auto simp: gbind_Inr_iff)
  have len: "Suc n < length xs" using Suc.prems(2) by auto
  moreover have "nat j < length xs" using pick_range [OF j] len by auto
  ultimately have "mset (swap (Suc n) (nat j) xs) = mset xs"
    unfolding swap_def by (metis mset_swap)
  then show ?case using Suc.IH [OF rest] len by (simp add: swap_def)
qed

lemma shuffle_mset:
  "shuffleGeneratedPasswordCharacters xs pick s = Some (Inr (ys, t)) \<Longrightarrow> mset ys = mset xs"
  unfolding shuffleGeneratedPasswordCharacters_def
  by (erule shuffle_from_mset) (cases xs; simp)

lemma pick_characters_Inr:
  assumes "pickGeneratedPasswordCharacters settings sets pick s = Some (Inr (xs, t))"
    and "ps_minNumbers settings + ps_minSpecial settings \<le> ps_length settings"
    "0 \<le> ps_minNumbers settings" "0 \<le> ps_minSpecial settings"
  shows "\<exists>ns ss rs. xs = ns @ ss @ rs \<and> int (length xs) = ps_length settings \<and>
    int (length ns) = ps_minNumbers settings \<and> int (length ss) = ps_minSpecial settings \<and>
    (\<forall>x \<in> set ns. \<exists>c \<in> set (gs_numbers sets). x = [c]) \<and>
    (\<forall>x \<in> set ss. \<exists>c \<in> set (gs_special sets). x = [c]) \<and>
    (\<forall>x \<in> set rs. \<exists>c \<in> set (gs_all sets). x = [c])"
proof -
  obtain ns ss rs s1 s2 where xs: "xs = (ns @ ss) @ rs"
    and ns: "pickMany (gs_numbers sets) (nat (ps_minNumbers settings)) pick s = Some (Inr (ns, s1))"
    and ss: "pickMany (gs_special sets) (nat (ps_minSpecial settings)) pick s1 = Some (Inr (ss, s2))"
    and rs: "pickMany (gs_all sets) (nat (ps_length settings - int (length (ns @ ss)))) pick s2 = Some (Inr (rs, t))"
    using assms(1) by (auto simp: pickGeneratedPasswordCharacters_def Let_def gbind_Inr_iff)
  note many = pickMany_Inr [OF ns] pickMany_Inr [OF ss] pickMany_Inr [OF rs]
  have "int (length xs) = ps_length settings" using many xs assms(2-4) by auto
  with many xs assms(3,4) show ?thesis by (intro exI [of _ ns] exI [of _ ss] exI [of _ rs]) auto
qed

lemma pick_words_Inr:
  "pick_words ws cap n pick s = Some (Inr (xs, t)) \<Longrightarrow> length xs = n \<and>
     (\<forall>x \<in> set xs. \<exists>w \<in> set ws. x = (if cap then capitalizeWord (normalizeGeneratedUsernameWord w)
                                  else normalizeGeneratedUsernameWord w))"
proof (induction n arbitrary: s xs)
  case 0
  then show ?case by simp
next
  case (Suc n)
  then obtain i s1 ys where i: "pick (int (length ws)) s = Some (Inr (i, s1))"
    and ys: "pick_words ws cap n pick s1 = Some (Inr (ys, t))"
      "xs = (if cap then capitalizeWord (normalizeGeneratedUsernameWord (word_at ws i))
             else normalizeGeneratedUsernameWord (word_at ws i)) # ys"
    by (auto simp: gbind_Inr_iff Let_def)
  have "word_at ws i \<in> set ws" using pick_range [OF i] by (auto simp: word_at_def)
  with Suc.IH [OF ys(1)] ys(2) show ?case by auto
qed

lemma pick_digits_Inr:
  "pick_digits n pick s = Some (Inr (xs, t)) \<Longrightarrow> length xs = n \<and> (\<forall>x \<in> set xs. \<exists>d < 10. x = digits_of d)"
proof (induction n arbitrary: s xs)
  case 0
  then show ?case by simp
next
  case (Suc n)
  then obtain i s1 ys where i: "pick 10 s = Some (Inr (i, s1))"
    and ys: "pick_digits n pick s1 = Some (Inr (ys, t))" "xs = digits_of (nat i) # ys"
    by (auto simp: gbind_Inr_iff)
  have "nat i < 10" using pick_range [OF i] by auto
  with Suc.IH [OF ys(1)] ys(2) show ?case by auto
qed

end

interpretation random_sampler: index_sampler pickIndex
  by unfold_locales (rule pickIndex_range)

section \<open>Generated passwords\<close>

lemma singletons_concat: "\<forall>x \<in> set xs. \<exists>c \<in> C. x = [c] \<Longrightarrow> length (concat xs) = length xs \<and> set (concat xs) \<subseteq> C"
  by (induction xs) auto

lemma mset_concat_cong: "mset xs = mset ys \<Longrightarrow> mset (concat xs) = mset (concat ys)"
  by (metis mset_concat mset_map sum_mset_sum_list)

lemma character_sets_included:
  "set (gs_numbers (getGeneratedPasswordCharacterSets settings)) \<subseteq> set (gs_all (getGeneratedPasswordCharacterSets settings))"
  "set (gs_special (getGeneratedPasswordCharacterSets settings)) \<subseteq> set (gs_all (getGeneratedPasswordCharacterSets settings))"
  by (auto simp: getGeneratedPasswordCharacterSets_def Let_def)

lemma count_members: "length (filter P xs) = size (filter_mset P (mset xs))"
  by (metis mset_filter size_mset)

lemma generatePassword_Inr:
  assumes "generatePassword params s = Some (Inr (password, t))"
  shows "\<exists>settings. generatedPasswordSettingsSchema params = Some settings \<and>
    (let sets = getGeneratedPasswordCharacterSets settings in
     int (length password) = ps_length settings \<and> set password \<subseteq> set (gs_all sets) \<and>
     ps_minNumbers settings \<le> int (length (filter (\<lambda>c. c \<in> set (gs_numbers sets)) password)) \<and>
     ps_minSpecial settings \<le> int (length (filter (\<lambda>c. c \<in> set (gs_special sets)) password)))"
proof -
  obtain settings where schema: "generatedPasswordSettingsSchema params = Some settings"
    using assms by (auto simp: generatePassword_def gfail_def split: option.splits)
  define sets where "sets = getGeneratedPasswordCharacterSets settings"
  have can: "canGeneratePassword settings sets"
    using assms schema by (auto simp: generatePassword_def sets_def Let_def gfail_def split: if_splits)
  then obtain xs ys s1 where xs: "pickGeneratedPasswordCharacters settings sets pickIndex s = Some (Inr (xs, s1))"
    and ys: "shuffleGeneratedPasswordCharacters xs pickIndex s1 = Some (Inr (ys, t))" "password = concat ys"
    using assms schema by (auto simp: generatePassword_def sets_def Let_def gbind_Inr_iff)
  have "ps_minNumbers settings + ps_minSpecial settings \<le> ps_length settings"
    using can by (auto simp: canGeneratePassword_def split: if_splits)
  moreover have "0 \<le> ps_minNumbers settings" "0 \<le> ps_minSpecial settings"
    using schema by (auto simp: generatedPasswordSettingsSchema_def Let_def split: if_splits)
  ultimately obtain ns ss rs where parts: "xs = ns @ ss @ rs" "int (length xs) = ps_length settings"
    "int (length ns) = ps_minNumbers settings" "int (length ss) = ps_minSpecial settings"
    "\<forall>x \<in> set ns. \<exists>c \<in> set (gs_numbers sets). x = [c]" "\<forall>x \<in> set ss. \<exists>c \<in> set (gs_special sets). x = [c]"
    "\<forall>x \<in> set rs. \<exists>c \<in> set (gs_all sets). x = [c]"
    using random_sampler.pick_characters_Inr [OF xs] by blast
  note single = singletons_concat [OF parts(5)] singletons_concat [OF parts(6)] singletons_concat [OF parts(7)]
  have mset: "mset password = mset (concat ns @ concat ss @ concat rs)"
    using random_sampler.shuffle_mset [OF ys(1)] mset_concat_cong [of ys xs] parts(1) ys(2) by simp
  have len: "length password = length ns + length ss + length rs"
    using mset_eq_length [OF mset] single by simp
  have set: "set password = set (concat ns) \<union> set (concat ss) \<union> set (concat rs)"
    using mset_eq_setD [OF mset] by auto
  have count: "length (filter P password) = length (filter P (concat ns)) + length (filter P (concat ss)) +
      length (filter P (concat rs))" for P
    unfolding count_members [of P password] mset by (simp add: count_members)
  have "filter (\<lambda>c. c \<in> set (gs_numbers sets)) (concat ns) = concat ns"
    "filter (\<lambda>c. c \<in> set (gs_special sets)) (concat ss) = concat ss"
    using single by (auto simp: filter_id_conv)
  then have "ps_minNumbers settings \<le> int (length (filter (\<lambda>c. c \<in> set (gs_numbers sets)) password))"
    "ps_minSpecial settings \<le> int (length (filter (\<lambda>c. c \<in> set (gs_special sets)) password))"
    using single parts(3,4) unfolding count by simp_all
  moreover have "set password \<subseteq> set (gs_all sets)"
    using set single character_sets_included [of settings] by (auto simp: sets_def)
  moreover have "int (length password) = ps_length settings" using len parts(1,2) by simp
  ultimately show ?thesis using schema by (auto simp: sets_def)
qed

text \<open>
  The sampling loop may reject any number of blocks. A block whose number is below half of the
  range is accepted for every bound, so a supply of such blocks (at most two per character)
  makes every call return.
\<close>

definition easy_supply :: "bytes list \<Rightarrow> bool" where
  "easy_supply s \<longleftrightarrow> (\<forall>b \<in> set s. length b = 4 \<and> 2 * getUint32 b < UINT32_RANGE)"

lemma easy_supply_simps [simp]:
  "easy_supply []"
  "easy_supply (b # s) \<longleftrightarrow> length b = 4 \<and> 2 * getUint32 b < UINT32_RANGE \<and> easy_supply s"
  by (auto simp: easy_supply_def)

lemma easy_supply_drop: "easy_supply s \<Longrightarrow> easy_supply (drop n s)"
  by (auto simp: easy_supply_def dest: in_set_dropD)

lemma pickIndex_easy:
  assumes "valid_bound n" "easy_supply (b # s)"
  shows "pickIndex n (b # s) = Some (Inr (getUint32 b mod n, s))"
  using sample_limit_half [OF assms(1)] assms(2)
  by (auto simp: pickIndex_valid [OF assms(1)] readUint32_def)

lemma pickMany_easy:
  assumes "n = 0 \<or> valid_bound (int (length cs))" "easy_supply s" "n \<le> length s"
  shows "\<exists>xs. pickMany cs n pickIndex s = Some (Inr (xs, drop n s))"
  using assms
proof (induction n arbitrary: s)
  case 0
  show ?case by simp
next
  case (Suc n)
  then obtain b u where s: "s = b # u" by (cases s) auto
  with Suc obtain xs where "pickMany cs n pickIndex u = Some (Inr (xs, drop n u))" by fastforce
  then show ?case using Suc.prems by (simp add: s gbind_def pickIndex_easy greturn_def)
qed

lemma shuffle_from_easy:
  assumes "easy_supply s" "n \<le> length s" "int n < UINT32_RANGE"
  shows "\<exists>ys. shuffle_from n pickIndex xs s = Some (Inr (ys, drop n s))"
  using assms
proof (induction n arbitrary: xs s)
  case 0
  show ?case by simp
next
  case (Suc n)
  then obtain b u where s: "s = b # u" by (cases s) auto
  have "valid_bound (int (Suc n) + 1)" using Suc.prems(3) by (simp add: valid_bound_def)
  moreover have "\<exists>ys. shuffle_from n pickIndex zs u = Some (Inr (ys, drop n u))" for zs
    using Suc s by simp
  ultimately show ?case using Suc.prems(1) by (simp add: s gbind_def pickIndex_easy del: of_nat_Suc)
qed

lemma character_sets_bounds:
  "length (gs_all (getGeneratedPasswordCharacterSets settings)) \<le> 70"
  "length (gs_numbers (getGeneratedPasswordCharacterSets settings)) \<le> 70"
  "length (gs_special (getGeneratedPasswordCharacterSets settings)) \<le> 70"
  by (simp_all add: getGeneratedPasswordCharacterSets_def Let_def FULL_CHARACTER_SETS_def
      UNMISTAKABLE_CHARACTER_SETS_def)

lemma generatePassword_returns:
  assumes schema: "generatedPasswordSettingsSchema params = Some settings"
    and can: "canGeneratePassword settings (getGeneratedPasswordCharacterSets settings)"
    and blocks: "easy_supply s" "2 * ps_length settings \<le> int (length s)"
  shows "\<exists>password t. generatePassword params s = Some (Inr (password, t))"
proof -
  let ?sets = "getGeneratedPasswordCharacterSets settings"
  let ?n = "nat (ps_minNumbers settings)" and ?m = "nat (ps_minSpecial settings)"
  have range: "1 \<le> ps_length settings" "ps_length settings \<le> 128" "0 \<le> ps_minNumbers settings"
    "0 \<le> ps_minSpecial settings"
    using schema by (auto simp: generatedPasswordSettingsSchema_def Let_def split: if_splits)
  have fits: "ps_minNumbers settings + ps_minSpecial settings \<le> ps_length settings"
    and sets: "gs_all ?sets \<noteq> []" "ps_minNumbers settings > 0 \<Longrightarrow> gs_numbers ?sets \<noteq> []"
      "ps_minSpecial settings > 0 \<Longrightarrow> gs_special ?sets \<noteq> []"
    using can by (auto simp: canGeneratePassword_def split: if_splits)
  have bound: "valid_bound (int (length cs))" if "cs \<noteq> []" "length cs \<le> 70" for cs :: string
    using that by (simp add: valid_bound_def UINT32_RANGE_def)
  obtain ns where ns: "pickMany (gs_numbers ?sets) ?n pickIndex s = Some (Inr (ns, drop ?n s))"
    using pickMany_easy [of ?n "gs_numbers ?sets" s] bound [OF sets(2) character_sets_bounds(2)]
      blocks fits range by fastforce
  obtain ss where ss: "pickMany (gs_special ?sets) ?m pickIndex (drop ?n s) = Some (Inr (ss, drop ?m (drop ?n s)))"
    using pickMany_easy [of ?m "gs_special ?sets" "drop ?n s"] bound [OF sets(3) character_sets_bounds(3)]
      easy_supply_drop [OF blocks(1)] blocks(2) fits range by fastforce
  have lens: "length ns = ?n" "length ss = ?m"
    using random_sampler.pickMany_Inr [OF ns] random_sampler.pickMany_Inr [OF ss] by simp_all
  let ?r = "nat (ps_length settings - int (length (ns @ ss)))"
  obtain rs where rs: "pickMany (gs_all ?sets) ?r pickIndex (drop ?m (drop ?n s)) =
      Some (Inr (rs, drop ?r (drop ?m (drop ?n s))))"
    using pickMany_easy [of ?r "gs_all ?sets" "drop ?m (drop ?n s)"] bound [OF sets(1) character_sets_bounds(1)]
      easy_supply_drop [OF easy_supply_drop [OF blocks(1)]] blocks(2) fits range lens by fastforce
  let ?xs = "(ns @ ss) @ rs" and ?t = "drop ?r (drop ?m (drop ?n s))"
  have len: "int (length ?xs) = ps_length settings"
    using random_sampler.pickMany_Inr [OF rs] lens fits range by simp
  have "\<exists>ys. shuffle_from (length ?xs - 1) pickIndex ?xs ?t = Some (Inr (ys, drop (length ?xs - 1) ?t))"
    using blocks(2) len lens range fits
    by (intro shuffle_from_easy easy_supply_drop blocks(1)) (auto simp: UINT32_RANGE_def)
  then obtain ys where "shuffleGeneratedPasswordCharacters ?xs pickIndex ?t =
      Some (Inr (ys, drop (length ?xs - 1) ?t))"
    by (auto simp: shuffleGeneratedPasswordCharacters_def)
  then show ?thesis
    using can ns ss rs
    by (simp add: generatePassword_def schema Let_def pickGeneratedPasswordCharacters_def gbind_def greturn_def)
qed

section \<open>Usernames and display names\<close>

lemma digits_of_small: "n < 10 \<Longrightarrow> digits_of n = [char_of (48 + n)]"
  by (simp add: digits_of.simps [of n])

lemma username_char_digit: "n < 10 \<Longrightarrow> is_username_char (char_of (48 + n :: nat))"
  by (simp add: is_username_char_def)

definition is_alphanumeric :: "char \<Rightarrow> bool" where
  "is_alphanumeric c \<longleftrightarrow> is_username_char c \<or> (let n = (of_char c :: nat) in 65 \<le> n \<and> n \<le> 90)"

lemma set_normalized: "c \<in> set (normalizeGeneratedUsernameWord w) \<Longrightarrow> is_username_char c"
  by (auto simp: normalizeGeneratedUsernameWord_def)

lemma upper_alphanumeric: "is_username_char c \<Longrightarrow> is_alphanumeric (upper_char c)"
  by (auto simp: is_alphanumeric_def is_username_char_def upper_char_def Let_def)

lemma username_alphanumeric: "is_username_char c \<Longrightarrow> is_alphanumeric c"
  by (simp add: is_alphanumeric_def)

lemma set_capitalized:
  "\<forall>c \<in> set w. is_username_char c \<Longrightarrow> \<forall>c \<in> set (capitalizeWord w). is_alphanumeric c"
  by (cases w) (auto simp: capitalizeWord_def upper_alphanumeric username_alphanumeric)

lemma word_characters:
  "\<forall>c \<in> set (if cap then capitalizeWord (normalizeGeneratedUsernameWord u)
               else normalizeGeneratedUsernameWord u). if cap then is_alphanumeric c else is_username_char c"
proof (cases cap)
  case True
  have "\<forall>c \<in> set (normalizeGeneratedUsernameWord u). is_username_char c" using set_normalized by blast
  from set_capitalized [OF this] True show ?thesis by simp
next
  case False
  then show ?thesis using set_normalized by simp
qed

context index_sampler
begin

lemma generateUsernameValue_Inr:
  assumes "generateUsernameValue ws cap num pick s = Some (Inr (name, t))"
  shows "\<exists>first second digits. name = first @ second @ digits \<and>
    (\<forall>c \<in> set name. if cap then is_alphanumeric c else is_username_char c) \<and>
    length digits = (if num then 4 else 0) \<and> (\<forall>c \<in> set digits. is_username_char c)"
proof -
  obtain xs s1 where xs: "pick_words ws cap 2 pick s = Some (Inr (xs, s1))"
    using assms by (auto simp: generateUsernameValue_def gbind_Inr_iff)
  then obtain f g where fg: "xs = [f, g]"
    using conjunct1 [OF pick_words_Inr [OF xs]] by (auto simp: length_Suc_conv numeral_2_eq_2)
  have words: "\<forall>c \<in> set w. if cap then is_alphanumeric c else is_username_char c" if "w \<in> set xs" for w
  proof -
    obtain u where "w = (if cap then capitalizeWord (normalizeGeneratedUsernameWord u)
        else normalizeGeneratedUsernameWord u)"
      using bspec [OF conjunct2 [OF pick_words_Inr [OF xs]] \<open>w \<in> set xs\<close>] by (elim bexE)
    then show ?thesis using word_characters [of cap u] by (simp only:)
  qed
  define ok where "ok = (\<lambda>c. if cap then is_alphanumeric c else is_username_char c)"
  have fg_ok: "\<forall>c \<in> set (f @ g). ok c" using words [of f] words [of g] fg by (auto simp: ok_def)
  show ?thesis unfolding ok_def [THEN fun_cong, symmetric]
  proof (cases num)
    case False
    then have "name = f @ g @ []" using assms xs fg by (simp add: generateUsernameValue_def gbind_def greturn_def)
    with fg_ok False show "\<exists>first second digits. name = first @ second @ digits \<and> (\<forall>c \<in> set name. ok c) \<and>
        length digits = (if num then 4 else 0) \<and> (\<forall>c \<in> set digits. is_username_char c)"
      by (intro exI [of _ f] exI [of _ g] exI [of _ "[]"]) simp
  next
    case True
    then obtain ds where ds: "pick_digits 4 pick s1 = Some (Inr (ds, t))" "name = concat xs @ concat ds"
      using assms xs by (auto simp: generateUsernameValue_def gbind_Inr_iff)
    have single: "\<forall>x \<in> set ds. \<exists>c \<in> {c. is_username_char c}. x = [c]"
      using conjunct2 [OF pick_digits_Inr [OF ds(1)]] by (auto simp: digits_of_small username_char_digit)
    have digits: "length (concat ds) = 4" "set (concat ds) \<subseteq> {c. is_username_char c}"
      using singletons_concat [OF single] conjunct1 [OF pick_digits_Inr [OF ds(1)]] by simp_all
    then have "\<forall>c \<in> set (concat ds). ok c" by (auto simp: ok_def username_alphanumeric)
    moreover have "name = f @ g @ concat ds" using ds(2) fg by simp
    ultimately show "\<exists>first second digits. name = first @ second @ digits \<and> (\<forall>c \<in> set name. ok c) \<and>
        length digits = (if num then 4 else 0) \<and> (\<forall>c \<in> set digits. is_username_char c)"
      using fg_ok True digits
      by (intro exI [of _ f] exI [of _ g] exI [of _ "concat ds"] conjI) (auto simp: subset_iff)
  qed
qed

end

end
