(* ===== verification/Base64_Url.thy ===== *)
theory Base64_Url
  imports Vault_Model
begin

text \<open>
  Base64url without padding (\<open>lib/base64Url.utils.ts\<close>), the textual form of every key, nonce,
  ciphertext and signature. The bit operations of JavaScript are those of 32-bit words.
\<close>

unbundle bit_operations_syntax

section \<open>Alphabet\<close>

definition B64ABC :: string where
  "B64ABC = ''ABCDEFGHIJKLMNOPQRSTUVWXYZabcdefghijklmnopqrstuvwxyz0123456789+/''"

text \<open>The reverse table: -1 for characters outside the alphabet, 0 for the padding.\<close>

definition B64REV :: "char \<Rightarrow> int" where
  "B64REV c =
     (if c = CHR ''='' then 0
      else case find_index (\<lambda>x. x = c) B64ABC of None \<Rightarrow> - 1 | Some i \<Rightarrow> int i)"

definition b64_char :: "32 word \<Rightarrow> char" where
  "b64_char n = B64ABC ! unat (n AND 63)"

definition replace_all :: "char \<Rightarrow> char \<Rightarrow> string \<Rightarrow> string" where
  "replace_all a b s = map (\<lambda>c. if c = a then b else c) s"

section \<open>Encoding\<close>

definition byte_at :: "nat \<Rightarrow> 8 word \<Rightarrow> 32 word" where
  "byte_at n b = push_bit n (ucast b)"

text \<open>One group of three bytes per iteration; the last one or two bytes after the loop.\<close>

fun encode_groups :: "bytes \<Rightarrow> string" where
  "encode_groups [] = []"
| "encode_groups [a] =
     (let n = byte_at 16 a in [b64_char (drop_bit 18 n), b64_char (drop_bit 12 n)])"
| "encode_groups [a, b] =
     (let n = byte_at 16 a OR byte_at 8 b
      in [b64_char (drop_bit 18 n), b64_char (drop_bit 12 n), b64_char (drop_bit 6 n)])"
| "encode_groups (a # b # c # bs) =
     (let n = byte_at 16 a OR byte_at 8 b OR byte_at 0 c
      in b64_char (drop_bit 18 n) # b64_char (drop_bit 12 n) # b64_char (drop_bit 6 n) # b64_char n #
         encode_groups bs)"

definition encodeBase64Url :: "bytes \<Rightarrow> string" where
  "encodeBase64Url bs =
     replace_all (CHR ''/'') (CHR ''_'') (replace_all (CHR ''+'') (CHR ''-'') (encode_groups bs))"

section \<open>Decoding\<close>

text \<open>\<open>/^[A-Za-z0-9+/]*={0,2}$/\<close>\<close>

definition matches_base64 :: "string \<Rightarrow> bool" where
  "matches_base64 s \<longleftrightarrow>
     (let rest = dropWhile (\<lambda>c. c \<in> set B64ABC) s in rest = '''' \<or> rest = ''='' \<or> rest = ''=='')"

definition push_byte :: "nat \<Rightarrow> 32 word \<Rightarrow> bytes \<Rightarrow> bytes" where
  "push_byte outLen n out = (if length out < outLen then out @ [ucast (n AND 255)] else out)"

definition join_sextets :: "32 word \<Rightarrow> 32 word \<Rightarrow> 32 word \<Rightarrow> 32 word \<Rightarrow> 32 word" where
  "join_sextets c0 c1 c2 c3 = push_bit 18 c0 OR push_bit 12 c1 OR push_bit 6 c2 OR c3"

text \<open>The loop; \<open>out\<close> is the part of the output array that has been written.\<close>

fun decode_groups :: "nat \<Rightarrow> string \<Rightarrow> bytes \<Rightarrow> core_error + bytes" where
  "decode_groups outLen (x0 # x1 # x2 # x3 # s) out =
     (let c0 = B64REV x0; c1 = B64REV x1; c2 = B64REV x2; c3 = B64REV x3
      in if c0 < 0 \<or> c1 < 0 \<or> c2 < 0 \<or> c3 < 0 then Inl (InvalidBase64UrlError ''character'')
         else let n = join_sextets (of_int c0) (of_int c1) (of_int c2) (of_int c3)
              in decode_groups outLen s
                   (push_byte outLen n (push_byte outLen (drop_bit 8 n)
                     (push_byte outLen (drop_bit 16 n) out))))"
| "decode_groups outLen _ out = Inr (out @ replicate (outLen - length out) 0)"

definition ends_with :: "string \<Rightarrow> string \<Rightarrow> bool" where
  "ends_with s t \<longleftrightarrow> length t \<le> length s \<and> drop (length s - length t) s = t"

definition decodeBase64Url :: "string \<Rightarrow> core_error + bytes" where
  "decodeBase64Url b64url =
     (let b64 = replace_all (CHR ''_'') (CHR ''/'') (replace_all (CHR ''-'') (CHR ''+'') b64url) in
      if \<not> matches_base64 b64 then Inl (InvalidBase64UrlError ''character'')
      else if CHR ''='' \<in> set b64 \<and> length b64 mod 4 \<noteq> 0 then Inl (InvalidBase64UrlError ''padding'')
      else if length b64 mod 4 = 1 then Inl (InvalidBase64UrlError ''length'')
      else
        let padLen = (4 - length b64 mod 4) mod 4;
            s = b64 @ replicate padLen (CHR ''='');
            pads = (if ends_with s ''=='' then 2 else if ends_with s ''='' then 1 else 0);
            outLen = length s div 4 * 3 - pads
        in decode_groups outLen s [])"

section \<open>The alphabet and its reverse\<close>

lemma distinct_B64ABC: "distinct B64ABC"
  by (simp add: B64ABC_def)

lemma length_B64ABC [simp]: "length B64ABC = 64"
  by (simp add: B64ABC_def)

lemma not_in_B64ABC: "CHR ''='' \<notin> set B64ABC" "CHR ''-'' \<notin> set B64ABC" "CHR ''_'' \<notin> set B64ABC"
  by (simp_all add: B64ABC_def)

lemma find_index_distinct:
  "distinct xs \<Longrightarrow> i < length xs \<Longrightarrow> find_index (\<lambda>x. x = xs ! i) xs = Some i"
proof (induction xs arbitrary: i)
  case Nil
  then show ?case by simp
next
  case (Cons x xs)
  then show ?case by (cases i) (auto simp: nth_eq_iff_index_eq)
qed

lemma B64REV_nth: "i < 64 \<Longrightarrow> B64REV (B64ABC ! i) = int i"
proof -
  assume i: "i < 64"
  then have "B64ABC ! i \<noteq> CHR ''=''" by (metis length_B64ABC not_in_B64ABC(1) nth_mem)
  then show ?thesis using find_index_distinct [OF distinct_B64ABC, of i] i by (simp add: B64REV_def)
qed

lemma B64REV_pad [simp]: "B64REV (CHR ''='') = 0"
  by (simp add: B64REV_def)

lemma six_bits: "unat (n AND 63 :: 32 word) < 64"
proof -
  have "n AND 63 = take_bit 6 n" by (simp add: take_bit_eq_mask mask_eq_exp_minus_1)
  then show ?thesis using take_bit_nat_less_exp [of 6 "unat n"] by (simp add: unsigned_take_bit_eq)
qed

lemma B64REV_b64_char: "B64REV (b64_char n) = uint (n AND 63)"
  by (simp add: b64_char_def B64REV_nth six_bits)

lemma b64_char_in: "b64_char n \<in> set B64ABC"
  by (simp add: b64_char_def six_bits)

lemma of_int_B64REV: "(of_int (B64REV (b64_char n)) :: 32 word) = n AND 63"
  by (simp add: B64REV_b64_char)

lemma B64REV_b64_char_nonneg: "\<not> B64REV (b64_char n) < 0"
  by (simp add: B64REV_b64_char)

section \<open>Groups of bits\<close>

lemma mask_numerals: "(63 :: 32 word) = mask 6" "(255 :: 32 word) = mask 8"
  by (simp_all add: mask_eq_exp_minus_1)

lemma join_four:
  "join_sextets (drop_bit 18 n AND 63) (drop_bit 12 n AND 63) (drop_bit 6 n AND 63) (n AND 63) = take_bit 24 n"
  (is "?l = _")
proof (rule bit_word_eqI)
  fix k assume k: "k < LENGTH(32)"
  consider "k < 6" | "6 \<le> k" "k < 12" | "12 \<le> k" "k < 18" | "18 \<le> k" "k < 24" | "24 \<le> k" by linarith
  then show "bit ?l k \<longleftrightarrow> bit (take_bit 24 n) k"
    unfolding join_sextets_def mask_numerals using k by cases (auto simp: bit_simps)
qed

lemma join_two:
  "join_sextets (drop_bit 18 n AND 63) (drop_bit 12 n AND 63) 0 0 = take_bit 24 n AND NOT (mask 12)"
  (is "?l = _")
proof (rule bit_word_eqI)
  fix k assume k: "k < LENGTH(32)"
  consider "k < 12" | "12 \<le> k" "k < 18" | "18 \<le> k" "k < 24" | "24 \<le> k" by linarith
  then show "bit ?l k \<longleftrightarrow> bit (take_bit 24 n AND NOT (mask 12)) k"
    unfolding join_sextets_def mask_numerals using k by cases (auto simp: bit_simps)
qed

lemma join_three:
  "join_sextets (drop_bit 18 n AND 63) (drop_bit 12 n AND 63) (drop_bit 6 n AND 63) 0 =
     take_bit 24 n AND NOT (mask 6)"
  (is "?l = _")
proof (rule bit_word_eqI)
  fix k assume k: "k < LENGTH(32)"
  consider "k < 6" | "6 \<le> k" "k < 12" | "12 \<le> k" "k < 18" | "18 \<le> k" "k < 24" | "24 \<le> k" by linarith
  then show "bit ?l k \<longleftrightarrow> bit (take_bit 24 n AND NOT (mask 6)) k"
    unfolding join_sextets_def mask_numerals using k by cases (auto simp: bit_simps)
qed

text \<open>The three bytes of a group, and the bytes that a partial group still holds.\<close>

lemma bit_byte_ge: "bit (a :: 8 word) k \<Longrightarrow> k < 8"
  using bit_imp_le_length [of a k] by simp

lemma group_bytes:
  fixes a b c :: "8 word"
  shows "ucast (drop_bit 16 (take_bit 24 (byte_at 16 a OR byte_at 8 b OR byte_at 0 c)) AND 255) = a"
    "ucast (drop_bit 8 (take_bit 24 (byte_at 16 a OR byte_at 8 b OR byte_at 0 c)) AND 255) = b"
    "ucast (take_bit 24 (byte_at 16 a OR byte_at 8 b OR byte_at 0 c) AND 255) = c"
  unfolding byte_at_def mask_numerals
  by (rule bit_word_eqI; auto simp: bit_simps dest: bit_byte_ge)+

lemma group_bytes_two:
  fixes a b :: "8 word"
  shows "ucast (drop_bit 16 (take_bit 24 (byte_at 16 a OR byte_at 8 b) AND NOT (mask 6)) AND 255) = a"
    "ucast (drop_bit 8 (take_bit 24 (byte_at 16 a OR byte_at 8 b) AND NOT (mask 6)) AND 255) = b"
  unfolding byte_at_def mask_numerals
  by (rule bit_word_eqI; auto simp: bit_simps dest: bit_byte_ge)+

lemma group_bytes_one:
  fixes a :: "8 word"
  shows "ucast (drop_bit 16 (take_bit 24 (byte_at 16 a) AND NOT (mask 12) :: 32 word) AND 255) = a"
  unfolding byte_at_def mask_numerals
  by (rule bit_word_eqI) (auto simp: bit_simps dest: bit_byte_ge)

section \<open>Round trip\<close>

definition padding :: "string \<Rightarrow> string" where
  "padding s = replicate ((4 - length s mod 4) mod 4) (CHR ''='')"

lemma replicate_two: "replicate 2 x = [x, x]"
  by (simp add: numeral_2_eq_2)

lemma decode_encode_groups:
  "decode_groups (length out + length bs) (encode_groups bs @ padding (encode_groups bs)) out = Inr (out @ bs)"
proof (induction bs arbitrary: out rule: encode_groups.induct)
  case 1
  show ?case by (simp add: padding_def)
next
  case (2 a)
  show ?case
    by (simp add: padding_def Let_def replicate_two B64REV_b64_char_nonneg of_int_B64REV join_two
        group_bytes_one push_byte_def del: drop_bit_and drop_bit_or take_bit_or)
next
  case (3 a b)
  show ?case
    by (simp add: padding_def Let_def B64REV_b64_char_nonneg of_int_B64REV join_three
        group_bytes_two push_byte_def del: drop_bit_and drop_bit_or take_bit_or)
next
  case (4 a b c bs)
  have pad: "padding (encode_groups (a # b # c # bs)) = padding (encode_groups bs)"
    by (simp add: padding_def Let_def)
  have "decode_groups (length out + length (a # b # c # bs))
      (encode_groups (a # b # c # bs) @ padding (encode_groups (a # b # c # bs))) out =
    decode_groups (length (out @ [a, b, c]) + length bs)
      (encode_groups bs @ padding (encode_groups bs)) (out @ [a, b, c])"
    unfolding pad
    by (simp add: Let_def B64REV_b64_char_nonneg of_int_B64REV join_four
        group_bytes push_byte_def del: drop_bit_and drop_bit_or take_bit_or)
  also have "\<dots> = Inr ((out @ [a, b, c]) @ bs)" by (rule 4 [OF refl])
  finally show ?case by simp
qed

lemma set_encode_groups: "set (encode_groups bs) \<subseteq> set B64ABC"
  by (induction bs rule: encode_groups.induct) (auto simp: Let_def b64_char_in)

lemma length_encode_groups:
  "length (encode_groups bs) = length bs div 3 * 4 + (if length bs mod 3 = 0 then 0 else length bs mod 3 + 1)"
proof (induction bs rule: encode_groups.induct)
  case (4 a b c bs)
  have len: "length (encode_groups (a # b # c # bs)) = 4 + length (encode_groups bs)"
    by (simp add: Let_def)
  have "length (a # b # c # bs) = length bs + 3" by simp
  then have steps: "length (a # b # c # bs) div 3 = length bs div 3 + 1"
    "length (a # b # c # bs) mod 3 = length bs mod 3" by simp_all
  show ?case unfolding len steps using 4 by simp
qed (simp_all add: Let_def)

text \<open>The replacements of the two alphabets undo each other.\<close>

lemma replace_back:
  assumes "set s \<subseteq> insert (CHR ''='') (set B64ABC)"
  shows "replace_all (CHR ''_'') (CHR ''/'') (replace_all (CHR ''-'') (CHR ''+'')
    (replace_all (CHR ''/'') (CHR ''_'') (replace_all (CHR ''+'') (CHR ''-'') s))) = s"
proof -
  have "CHR ''-'' \<notin> set s" "CHR ''_'' \<notin> set s" using assms by (auto simp: not_in_B64ABC)
  then show ?thesis by (induction s) (auto simp: replace_all_def)
qed

lemma matches_padded:
  assumes "set s \<subseteq> set B64ABC" "n \<le> 2"
  shows "matches_base64 (s @ replicate n (CHR ''=''))"
proof -
  have "dropWhile (\<lambda>c. c \<in> set B64ABC) (s @ replicate n (CHR ''='')) = replicate n (CHR ''='')"
    using assms(1) not_in_B64ABC(1) by (induction s) (auto simp: dropWhile_eq_self_iff)
  moreover have "n = 0 \<or> n = 1 \<or> n = 2" using assms(2) by linarith
  ultimately show ?thesis by (auto simp: matches_base64_def numeral_2_eq_2)
qed

lemma ends_with_padded:
  assumes "CHR ''='' \<notin> set s" "n \<le> 2" "1 < length s \<or> s = [] \<and> n = 0"
  shows "(if ends_with (s @ replicate n (CHR ''='')) ''=='' then 2 else
          if ends_with (s @ replicate n (CHR ''='')) ''='' then 1 else 0) = n"
proof -
  have "n = 0 \<or> n = 1 \<or> n = 2" using assms(2) by linarith
  moreover obtain x y t where "s = [] \<or> s = t @ [x, y]" "s = [] \<or> x \<in> set s \<and> y \<in> set s"
  proof (cases s rule: rev_cases)
    case (snoc u y)
    then show thesis using that assms(3) by (cases u rule: rev_cases) auto
  qed (use that in auto)
  ultimately show ?thesis using assms(1,3) by (auto simp: ends_with_def numeral_2_eq_2)
qed

lemma decode_padded:
  assumes "n = 0 \<or> n = (4 - length (encode_groups bs) mod 4) mod 4"
  shows "decodeBase64Url (encodeBase64Url bs @ replicate n (CHR ''='')) = Inr bs"
proof -
  let ?e = "encode_groups bs"
  let ?p = "(4 - length ?e mod 4) mod 4"
  have pad: "?p = (if length bs mod 3 = 0 then 0 else 3 - length bs mod 3)"
    and len: "(length ?e + ?p) div 4 * 3 - ?p = length bs" and len1: "length ?e mod 4 \<noteq> 1"
    and zero: "(length ?e + ?p) mod 4 = 0"
  proof -
    have "length bs mod 3 = 0 \<or> length bs mod 3 = 1 \<or> length bs mod 3 = 2" by linarith
    moreover have "length bs = length bs div 3 * 3 + length bs mod 3" by simp
    ultimately show "?p = (if length bs mod 3 = 0 then 0 else 3 - length bs mod 3)"
      "(length ?e + ?p) div 4 * 3 - ?p = length bs" "length ?e mod 4 \<noteq> 1" "(length ?e + ?p) mod 4 = 0"
      unfolding length_encode_groups by (auto simp: algebra_simps)
  qed
  have p2: "?p \<le> 2" using pad by auto
  have n: "n = 0 \<or> n = ?p" using assms .
  have eq: "CHR ''='' \<notin> set ?e" using set_encode_groups [of bs] not_in_B64ABC(1) by auto
  have long: "1 < length ?e \<or> ?e = [] \<and> ?p = 0"
    by (cases bs rule: encode_groups.cases) (auto simp: Let_def)
  have decoded_text: "replace_all (CHR ''_'') (CHR ''/'') (replace_all (CHR ''-'') (CHR ''+'')
      (encodeBase64Url bs @ replicate n (CHR ''=''))) = ?e @ replicate n (CHR ''='')"
    using replace_back [of ?e] set_encode_groups [of bs]
    by (auto simp: encodeBase64Url_def replace_all_def)
  have rest: "(4 - length (?e @ replicate n (CHR ''='')) mod 4) mod 4 = ?p - n"
  proof (cases "n = 0")
    case False
    with n have "length (?e @ replicate n (CHR ''='')) mod 4 = 0" using zero by simp
    with False n show ?thesis by simp
  qed simp
  have full: "(?e @ replicate n (CHR ''='')) @ replicate (?p - n) (CHR ''='') = ?e @ replicate ?p (CHR ''='')"
    using n by (auto simp: replicate_add [symmetric])
  have checks: "matches_base64 (?e @ replicate n (CHR ''=''))"
    "\<not> (CHR ''='' \<in> set (?e @ replicate n (CHR ''='')) \<and> length (?e @ replicate n (CHR ''='')) mod 4 \<noteq> 0)"
    "length (?e @ replicate n (CHR ''='')) mod 4 \<noteq> 1"
    using matches_padded [OF set_encode_groups, of n bs] n p2 eq zero len1 by auto
  show ?thesis
    unfolding decodeBase64Url_def Let_def decoded_text rest full
    using checks decode_encode_groups [of "[]" bs] ends_with_padded [OF eq p2 long] len
    by (simp add: padding_def)
qed

section \<open>Which texts decode\<close>

lemma B64REV_nonneg: "c = CHR ''='' \<or> c \<in> set B64ABC \<Longrightarrow> \<not> B64REV c < 0"
  by (auto simp: in_set_conv_nth B64REV_nth)

lemma decode_groups_total:
  assumes "set s \<subseteq> insert (CHR ''='') (set B64ABC)" "length out \<le> n"
  shows "\<exists>bs. decode_groups n s out = Inr bs \<and> length bs = n"
  using assms
proof (induction n s out rule: decode_groups.induct)
  case (1 n x0 x1 x2 x3 s out)
  then have "\<not> B64REV x0 < 0" "\<not> B64REV x1 < 0" "\<not> B64REV x2 < 0" "\<not> B64REV x3 < 0"
    by (intro B64REV_nonneg; auto)+
  moreover have "length (push_byte n w out') \<le> n" if "length out' \<le> n" for w out'
    using that by (simp add: push_byte_def)
  ultimately show ?case using 1 by (simp add: Let_def)
qed simp_all

lemma matches_base64_set: "matches_base64 s \<Longrightarrow> set s \<subseteq> insert (CHR ''='') (set B64ABC)"
proof -
  assume m: "matches_base64 s"
  let ?rest = "dropWhile (\<lambda>c. c \<in> set B64ABC) s"
  have "set s = set (takeWhile (\<lambda>c. c \<in> set B64ABC) s) \<union> set ?rest"
    by (metis set_append takeWhile_dropWhile_id)
  moreover have "set ?rest \<subseteq> {CHR ''=''}" using m unfolding matches_base64_def Let_def
    by (elim disjE) (erule ssubst, simp)+
  ultimately show ?thesis by (auto dest: set_takeWhileD)
qed

text \<open>
  The language of the texts, as a grammar: groups of four symbols, of which the last may be cut to
  two or three symbols, or filled up with padding signs to four. Symbols are the letters, the digits
  and the two further signs of either alphabet.
\<close>

definition base64_symbol :: "char \<Rightarrow> bool" where
  "base64_symbol c \<longleftrightarrow> CHR ''A'' \<le> c \<and> c \<le> CHR ''Z'' \<or> CHR ''a'' \<le> c \<and> c \<le> CHR ''z'' \<or>
     CHR ''0'' \<le> c \<and> c \<le> CHR ''9'' \<or> c = CHR ''+'' \<or> c = CHR ''/'' \<or> c = CHR ''-'' \<or> c = CHR ''_''"

inductive base64url_text :: "string \<Rightarrow> bool" where
  text_end: "base64url_text []"
| text_one_byte: "base64_symbol a \<Longrightarrow> base64_symbol b \<Longrightarrow> base64url_text [a, b]"
| text_one_byte_padded:
    "base64_symbol a \<Longrightarrow> base64_symbol b \<Longrightarrow> base64url_text [a, b, CHR ''='', CHR ''='']"
| text_two_bytes: "base64_symbol a \<Longrightarrow> base64_symbol b \<Longrightarrow> base64_symbol c \<Longrightarrow> base64url_text [a, b, c]"
| text_two_bytes_padded:
    "base64_symbol a \<Longrightarrow> base64_symbol b \<Longrightarrow> base64_symbol c \<Longrightarrow> base64url_text [a, b, c, CHR ''='']"
| text_group:
    "base64_symbol a \<Longrightarrow> base64_symbol b \<Longrightarrow> base64_symbol c \<Longrightarrow> base64_symbol d \<Longrightarrow> base64url_text t \<Longrightarrow>
     base64url_text (a # b # c # d # t)"

inductive_simps base64url_text_simps:
  "base64url_text []" "base64url_text [a]" "base64url_text [a, b]" "base64url_text [a, b, c]"
  "base64url_text (a # b # c # d # t)"

text \<open>A symbol is a character that the replacements take into the alphabet of the decoder.\<close>

definition to_base64 :: "char \<Rightarrow> char" where
  "to_base64 c = (let d = (if c = CHR ''-'' then CHR ''+'' else c) in if d = CHR ''_'' then CHR ''/'' else d)"

lemma replace_to_base64:
  "replace_all (CHR ''_'') (CHR ''/'') (replace_all (CHR ''-'') (CHR ''+'') t) = map to_base64 t"
  by (simp add: replace_all_def to_base64_def Let_def)

lemma to_base64_pad [simp]: "to_base64 c = CHR ''='' \<longleftrightarrow> c = CHR ''=''" "CHR ''='' = to_base64 c \<longleftrightarrow> c = CHR ''=''"
  by (auto simp: to_base64_def Let_def split: if_splits)

lemma pad_not_symbol [simp]: "\<not> base64_symbol (CHR ''='')"
  by (simp add: base64_symbol_def less_eq_char_def)

lemma char_code_eq: "c = d \<longleftrightarrow> of_char c = (of_char d :: nat)"
  by simp

lemma base64_symbol_code:
  "base64_symbol c \<longleftrightarrow> (let n = of_char c :: nat in n \<in> {65..90} \<or> n \<in> {97..122} \<or> n \<in> {48..57} \<or>
     n = 43 \<or> n = 47 \<or> n = 45 \<or> n = 95)"
  unfolding base64_symbol_def less_eq_char_def char_code_eq Let_def by simp

lemma B64ABC_codes: "map of_char B64ABC = [65..<91] @ [97..<123] @ [48..<58] @ [43, 47 :: nat]"
  by (simp add: B64ABC_def upt_rec)

lemma B64ABC_member: "c \<in> set B64ABC \<longleftrightarrow> (let n = of_char c :: nat in n \<in> {65..90} \<or> n \<in> {97..122} \<or> n \<in> {48..57} \<or>
     n = 43 \<or> n = 47)"
proof -
  have "(of_char c :: nat) \<in> of_char ` set B64ABC \<longleftrightarrow> c \<in> set B64ABC"
    by (rule inj_image_mem_iff) (simp add: inj_def)
  moreover have "of_char ` set B64ABC = {65..<91} \<union> ({97..<123} \<union> ({48..<58} \<union> {43, 47 :: nat}))"
    by (simp only: set_map [symmetric] B64ABC_codes set_append set_upt list.set)
  ultimately show ?thesis unfolding Let_def by auto
qed

lemma to_base64_in: "to_base64 c \<in> set B64ABC \<longleftrightarrow> base64_symbol c"
proof -
  have code: "(of_char (to_base64 c) :: nat) = (if of_char c = (45 :: nat) then 43 else if of_char c = (95 :: nat) then 47 else of_char c)"
    unfolding to_base64_def Let_def char_code_eq by simp
  show ?thesis unfolding B64ABC_member base64_symbol_code code Let_def by auto
qed

text \<open>The guards of the decoder, over the characters of the text, accept the texts of the grammar.\<close>

definition decoder_guards :: "string \<Rightarrow> bool" where
  "decoder_guards t \<longleftrightarrow>
     (let rest = dropWhile base64_symbol t in rest = '''' \<or> rest = ''='' \<or> rest = ''=='') \<and>
     (CHR ''='' \<in> set t \<longrightarrow> length t mod 4 = 0) \<and> length t mod 4 \<noteq> 1"

lemma decoder_guards_short:
  "decoder_guards []" "\<not> decoder_guards [a]" "decoder_guards [a, b] \<longleftrightarrow> base64_symbol a \<and> base64_symbol b"
  "decoder_guards [a, b, c] \<longleftrightarrow> base64_symbol a \<and> base64_symbol b \<and> base64_symbol c"
  by (auto simp: decoder_guards_def)

lemma decoder_guards_group:
  "decoder_guards (a # b # c # d # t) \<longleftrightarrow> base64_symbol a \<and> base64_symbol b \<and>
     (base64_symbol c \<and> base64_symbol d \<and> decoder_guards t \<or>
      base64_symbol c \<and> d = CHR ''='' \<and> t = [] \<or> c = CHR ''='' \<and> d = CHR ''='' \<and> t = [])"
  by (cases "base64_symbol a"; cases "base64_symbol b"; cases "base64_symbol c"; cases "base64_symbol d")
    (auto simp: decoder_guards_def)

fun by_fours :: "'a list \<Rightarrow> unit" where
  "by_fours (a # b # c # d # t) = by_fours t"
| "by_fours _ = ()"

lemma decoder_guards_text: "decoder_guards t \<longleftrightarrow> base64url_text t"
  by (induction t rule: by_fours.induct)
    (auto simp: decoder_guards_short decoder_guards_group base64url_text_simps)

lemma matches_base64_map: "matches_base64 (map to_base64 t) \<longleftrightarrow>
    (let rest = dropWhile base64_symbol t in rest = '''' \<or> rest = ''='' \<or> rest = ''=='')"
proof -
  have "dropWhile (\<lambda>c. c \<in> set B64ABC) (map to_base64 t) = map to_base64 (dropWhile base64_symbol t)"
    by (simp add: dropWhile_map o_def to_base64_in)
  then show ?thesis by (auto simp: matches_base64_def Let_def)
qed

lemma decode_succeeds_iff: "(\<exists>bs. decodeBase64Url t = Inr bs) \<longleftrightarrow> base64url_text t"
proof -
  let ?s = "map to_base64 t"
  have "\<exists>bs. decode_groups n (?s @ replicate k (CHR ''='')) [] = Inr bs" if "matches_base64 ?s" for n k
  proof -
    have "set (?s @ replicate k (CHR ''='')) \<subseteq> insert (CHR ''='') (set B64ABC)"
      using matches_base64_set [OF that] by auto
    then show ?thesis using decode_groups_total [of "?s @ replicate k (CHR ''='')" "[]" n] by auto
  qed
  then have "(\<exists>bs. decodeBase64Url t = Inr bs) \<longleftrightarrow>
      matches_base64 ?s \<and> (CHR ''='' \<in> set ?s \<longrightarrow> length ?s mod 4 = 0) \<and> length ?s mod 4 \<noteq> 1"
    unfolding decodeBase64Url_def replace_to_base64 Let_def by auto
  also have "CHR ''='' \<in> set ?s \<longleftrightarrow> CHR ''='' \<in> set t" by (auto simp: image_iff)
  finally have "(\<exists>bs. decodeBase64Url t = Inr bs) \<longleftrightarrow> decoder_guards t"
    by (simp only: matches_base64_map decoder_guards_def length_map)
  then show ?thesis by (simp only: decoder_guards_text)
qed

text \<open>The text of the encoding needs no escaping in an URL.\<close>

definition B64URLABC :: string where
  "B64URLABC = ''ABCDEFGHIJKLMNOPQRSTUVWXYZabcdefghijklmnopqrstuvwxyz0123456789-_''"

lemma replaced_alphabet: "replace_all (CHR ''/'') (CHR ''_'') (replace_all (CHR ''+'') (CHR ''-'') B64ABC) = B64URLABC"
  by (simp add: replace_all_def B64ABC_def B64URLABC_def)

lemma encode_alphabet: "set (encodeBase64Url bs) \<subseteq> set B64URLABC"
  unfolding replaced_alphabet [symmetric] encodeBase64Url_def
  using set_encode_groups [of bs] by (fastforce simp: replace_all_def)

end
