(* ===== verification/Samples.thy ===== *)
theory Samples
  imports Sync_Resolution Trust_Baseline Password_Tools Base64_Url
begin

text \<open>
  Concrete inputs on which the properties are applied: a runtime, a vault that initialisation
  builds, the vault of a second device that has moved ahead of it, a chain of four trust
  certificates under a toy signature scheme, and random blocks for the password generator.
\<close>

section \<open>A runtime and two vaults\<close>

definition sample_url :: url where
  "sample_url = \<lparr>url_protocol = ''https:'', url_username = '''', url_password = '''',
     url_hostname = ''a.b'', url_port = '''', url_pathname = ''/'',
     url_origin = ''https://a.b''\<rparr>"

definition sample_runtime :: runtime where
  "sample_runtime = \<lparr>rt_nfkc = (\<lambda>s. s),
     rt_parse = (\<lambda>s. if s = ''https://a.b/'' then Some sample_url else None),
     rt_dictionary = [''letmein'', ''password'']\<rparr>"

definition sample_folders :: "FolderInput list" where
  "sample_folders =
     [\<lparr>fi_id = ''w'', fi_name = ''Work'', fi_icon = ''i'', fi_description = None,
       fi_parentId = None, fi_createdAt = 0\<rparr>,
      \<lparr>fi_id = ''m'', fi_name = ''Mail'', fi_icon = ''i'', fi_description = None,
       fi_parentId = Some ''w'', fi_createdAt = 0\<rparr>]"

definition sample_tags :: "TagInput list" where
  "sample_tags =
     [\<lparr>ti_id = ''t'', ti_name = ''shared'', ti_groupId = ''access'', ti_color = ''red'',
       ti_shade = 500, ti_createdAt = 0\<rparr>]"

definition sample_vault :: Vault where
  "sample_vault = \<lparr>v_versionVector = [(''A'', 1)], v_entries = [], v_deletedEntries = [],
     v_deviceProfiles = [\<lparr>d_id = ''A'', d_name = ''Laptop'', d_createdAt = 7,
       d_versionVector = [(''A'', 1)]\<rparr>],
     v_deletedDeviceProfiles = [], v_syncTarget = None, v_syncRemovalPending = None,
     v_providerCredentialRevocationPending = None,
     v_tags = [\<lparr>t_id = ''t'', t_name = ''shared'', t_groupId = ''access'', t_color = ''red'',
       t_shade = 500, t_createdAt = 7, t_versionVector = [(''A'', 1)]\<rparr>],
     v_deletedTags = [], v_tagGroups = createDefaultTagGroups,
     v_folders = [\<lparr>f_id = ''w'', f_name = ''Work'', f_icon = ''i'', f_description = None,
         f_parentId = None, f_createdAt = 7, f_versionVector = [(''A'', 1)]\<rparr>,
       \<lparr>f_id = ''m'', f_name = ''Mail'', f_icon = ''i'', f_description = None,
         f_parentId = Some ''w'', f_createdAt = 7, f_versionVector = [(''A'', 1)]\<rparr>],
     v_deletedFolders = []\<rparr>"

lemmas schema_evals = folderSchema_def tagSchema_def text_schema_def Let_def trim_solid is_js_space_def
  optional_text_schema_def folderSchemaId_def folderIdSchema_def tagIdSchema_def
  UNCATEGORIZED_FOLDER_ID_def tagGroupIdSchema_def tagColorSchema_def tagShadeSchema_def
  MAX_SAFE_INTEGER_def normalizedName_def js_lower_def lower_char_def

lemma acyclic_empty: "acyclic {}"
  by (simp add: acyclic_def)

lemma sample_organization:
  "v_tags v = map (\<lambda>t. tag_of_input t []) sample_tags \<Longrightarrow> v_folders v = map (\<lambda>f. folder_of_input f []) sample_folders \<Longrightarrow>
   v_deletedTags v = [] \<Longrightarrow> v_deletedFolders v = [] \<Longrightarrow> v_tagGroups v = createDefaultTagGroups \<Longrightarrow> v_entries v = [] \<Longrightarrow>
   requireValidVaultOrganization (\<lambda>s. s) v = Inr ()"
  by (simp add: requireValidVaultOrganization_Inr_iff tags_ok_def folders_ok_def createDefaultTagGroups_def
      sample_folders_def sample_tags_def tag_of_input_def folder_of_input_def schema_evals
      parent_rel_Cons acyclic_insert acyclic_empty)

lemma sample_parsed:
  "parseInitialOrganization (\<lambda>s. s) sample_folders sample_tags = Inr (sample_folders, sample_tags)"
proof -
  have "rmap (\<lambda>folder. case folderSchema (folder\<lparr>fi_createdAt := 0\<rparr>) of
          None \<Rightarrow> Inl InvalidVaultFolderError | Some f \<Rightarrow> Inr f) sample_folders = Inr sample_folders"
    by (simp add: sample_folders_def schema_evals)
  moreover have "rmap (\<lambda>tag. case tagSchema (tag\<lparr>ti_createdAt := 0\<rparr>) of
          None \<Rightarrow> Inl InvalidVaultTagError | Some t \<Rightarrow> Inr t) sample_tags = Inr sample_tags"
    by (simp add: sample_tags_def schema_evals)
  ultimately show ?thesis by (simp add: parseInitialOrganization_def sample_organization)
qed

lemma sample_vault_eq:
  "initial_vault (rt_nfkc sample_runtime) sample_folders sample_tags ''A'' ''Laptop'' 7 = Inr sample_vault"
  by (simp add: initial_vault_def sample_parsed sample_runtime_def createInitialOrganization_def)
    (simp add: sample_folders_def sample_tags_def schema_evals sample_vault_def
      tag_of_input_def folder_of_input_def)


definition sample_params :: EntryParams where
  "sample_params = \<lparr>ep_allowWeakPassword = True, ep_withoutPassword = False, ep_password = ''sesame'',
     ep_login = ''ali'', ep_tags = [''t''], ep_url = ''https://a.b/'',
     ep_folderId = Some ''m''\<rparr>"

definition sample_add :: command where
  "sample_add = Add_entry_command sample_params ''e''"

text \<open>The phone, device \<open>''B''\<close>, has added an entry that the laptop does not know yet.\<close>

definition sample_entry :: PasswordEntry where
  "sample_entry = \<lparr>e_id = ''e'', e_password = ''sesame'', e_login = ''ali'', e_tags = [''t''],
     e_sanitizedUrl = ''https://a.b/'', e_folderId = ''m'', e_versionVector = [(''B'', 1)]\<rparr>"

definition sample_remote :: Vault where
  "sample_remote = sample_vault\<lparr>v_versionVector := [(''A'', 1), (''B'', 1)], v_entries := [sample_entry]\<rparr>"

lemma small_counters [simp]: "0 < js_limit" "Suc 0 < js_limit" "2 < js_limit" "n < 9 \<Longrightarrow> n < js_limit"
  by (simp_all add: js_limit_def)

lemma sample_payload:
  "entry_payload (rt_parse sample_runtime) D sample_params (Some ''m'') sample_vault =
     Inr \<lparr>ei_password = ''sesame'', ei_login = ''ali'', ei_tags = [''t''], ei_sanitizedUrl = ''https://a.b/'',
       ei_folderId = ''m''\<rparr>"
  by (simp add: entry_payload_def sample_params_def sample_runtime_def sanitizeEntryUrl_def sample_url_def
      passwordEntryInputSchema_def schema_evals PASSWORD_ENTRY_TAG_LIMIT_def js_set_def
      requireVaultTagsExist_def requireVaultFolderExists_def sample_vault_def)

lemma sample_remote_eq: "run_command sample_runtime ''B'' sample_add sample_vault = Inr sample_remote"
proof -
  have "ep_folderId sample_params = Some ''m''" by (simp add: sample_params_def)
  then show ?thesis
    by (simp add: sample_add_def add_entry_command_def sample_payload)
      (simp add: addPasswordEntryToVault_def sample_vault_def sample_remote_def
        sample_entry_def entry_of_input_def incrementVersionVector_def vv_get_def added_vector_def
        find_deletion_def without_deletion_def)
qed

lemma sample_reachable: "reachable_vault sample_runtime sample_vault"
  using sample_vault_eq by (rule reachable_vault.initial)

lemma sample_remote_reachable: "reachable_vault sample_runtime sample_remote"
  using sample_reachable sample_remote_eq by (rule reachable_vault.command)

lemma sample_vaults_ok: "vault_ok sample_vault" "vault_ok sample_remote"
  using reachable_consistent [OF sample_reachable] reachable_consistent [OF sample_remote_reachable]
  by (simp_all add: consistent_vault_def)

text \<open>The review of the two vaults, and the resolution that takes the new entry over.\<close>

definition sample_review :: VaultSyncReview where
  "sample_review = \<lparr>sr_entryReviews = [\<lparr>rv_id = ''e'', rv_relation = Rel_remote_only,
       rv_preselectedAction = Use_remote, rv_local = Missing, rv_remote = Item sample_entry\<rparr>],
     sr_tagReviews = [], sr_folderReviews = [], sr_deviceProfileReviews = []\<rparr>"

definition sample_resolution :: VaultSyncResolution where
  "sample_resolution = \<lparr>entryResolutions = [\<lparr>rr_id = ''e'', rr_action = Use_remote\<rparr>],
     tagResolutions = [], folderResolutions = [], deviceProfileResolutions = []\<rparr>"

definition sample_resolved :: Vault where
  "sample_resolved = sample_vault\<lparr>v_versionVector := [(''A'', 2), (''B'', 1)],
     v_entries := [sample_entry\<lparr>e_versionVector := [(''B'', 1), (''A'', 1)]\<rparr>]\<rparr>"

lemmas review_evals = find_changed_instances findChangedFolders_def findFolder_def find_changed_def
  find_all_ids_def find_item_def findDeviceProfile_def find_deletion_def js_set_def
  sample_vault_def sample_remote_def sample_review_def

lemma relation_same: "get_relation k s s = Rel_equal"
  by (simp add: get_relation_def)

lemma sample_entry_review:
  "findChangedEntries sample_vault sample_remote = Inr (sr_entryReviews sample_review)"
proof -
  have "get_relation entry_kind Missing (Item sample_entry) = Rel_remote_only"
    by (simp add: entry.get_relation_iff)
  moreover have "e_id sample_entry = ''e''" by (simp add: sample_entry_def)
  ultimately show ?thesis by (simp add: review_evals)
qed

lemma sample_other_reviews:
  "findChangedTags sample_vault sample_remote = Inr (sr_tagReviews sample_review)"
  "findChangedFolders sample_vault sample_remote = Inr (sr_folderReviews sample_review)"
  "findChangedDeviceProfiles sample_vault sample_remote = Inr (sr_deviceProfileReviews sample_review)"
  by (simp_all add: review_evals kind_defs relation_same)

lemma sample_reviewed: "reviewed_vaults sample_vault sample_remote sample_review"
  using sample_entry_review sample_other_reviews by (simp add: reviewed_vaults_def)

definition sample_resolved_entry :: PasswordEntry where
  "sample_resolved_entry = sample_entry\<lparr>e_versionVector := [(''B'', 1), (''A'', 1)]\<rparr>"

lemma sample_resolved_states:
  "resolveEntryStates (sr_entryReviews sample_review) (entryResolutions sample_resolution) ''A'' =
     Inr [(''e'', Item sample_resolved_entry)]"
  "resolveTagStates (sr_tagReviews sample_review) (tagResolutions sample_resolution) ''A'' = Inr []"
  "resolveFolderStates (sr_folderReviews sample_review) (folderResolutions sample_resolution) ''A'' = Inr []"
  "resolveDeviceProfileStates (sr_deviceProfileReviews sample_review)
     (deviceProfileResolutions sample_resolution) ''A'' = Inr []"
  by (simp_all add: resolveEntryStates_def resolveTagStates_def resolveFolderStates_def
      resolveDeviceProfileStates_def resolve_states_def create_resolution_map_def sample_review_def
      sample_resolution_def select_state_def stamp_state_def stampResolvedVersionVector_def
      sample_resolved_entry_def sample_entry_def entry_kind_def incrementVersionVector_def
      mergeVersionVectors_def vv_keys_def vv_get_def js_set_def)

lemma sample_resolved_collections:
  "buildResolvedVaultEntries sample_vault sample_remote [(''e'', Item sample_resolved_entry)] =
     Inr ([sample_resolved_entry], [])"
  "buildResolvedVaultTags sample_vault sample_remote [] = Inr (v_tags sample_vault, [])"
  "buildResolvedVaultFolders sample_vault sample_remote [] = Inr (v_folders sample_vault, [])"
  "buildResolvedVaultDeviceProfiles sample_vault sample_remote [] = Inr (v_deviceProfiles sample_vault, [])"
  by (simp_all add: buildResolvedVaultEntries_def buildResolvedVaultTags_def buildResolvedVaultFolders_def
      buildResolvedVaultDeviceProfiles_def build_resolved_def find_all_ids_def get_state_def find_deletion_def
      sample_vault_def sample_remote_def sample_entry_def js_set_def)

lemma sample_resolved_valid:
  "requireValidVaultTagReferences sample_resolved = Inr ()"
  "requireValidVaultOrganization (\<lambda>s. s) sample_resolved = Inr ()"
  by (simp_all add: requireValidVaultTagReferences_Inr tag_references_ok_def
      requireValidVaultOrganization_Inr_iff tags_ok_def folders_ok_def createDefaultTagGroups_def
      sample_resolved_def sample_vault_def sample_entry_def schema_evals
      parent_rel_Cons acyclic_insert acyclic_empty)

lemma sample_resolved_eq:
  "applyVaultSyncResolution (rt_nfkc sample_runtime) sample_vault sample_remote
     sample_review sample_resolution ''A'' = Inr sample_resolved"
proof -
  let ?v = "sample_vault\<lparr>v_versionVector := incrementVersionVector
      (mergeVersionVectors (v_versionVector sample_vault) (v_versionVector sample_remote)) ''A'',
      v_entries := [sample_resolved_entry], v_deletedEntries := [], v_tags := v_tags sample_vault,
      v_deletedTags := [], v_folders := v_folders sample_vault, v_deletedFolders := [],
      v_deviceProfiles := v_deviceProfiles sample_vault, v_deletedDeviceProfiles := []\<rparr>"
  have "?v = sample_resolved"
    by (simp add: sample_resolved_def sample_vault_def sample_remote_def sample_resolved_entry_def
        incrementVersionVector_def mergeVersionVectors_def vv_keys_def vv_get_def js_set_def)
  moreover have "v_tagGroups sample_vault = v_tagGroups sample_remote" by (simp add: sample_remote_def)
  ultimately show ?thesis
    using sample_resolved_valid
    by (simp add: applyVaultSyncResolution_def sample_resolved_states sample_resolved_collections
        sample_runtime_def Let_def)
qed

lemma sample_remote_counter: "vv_get (v_versionVector sample_remote) ''A'' < js_limit"
  by (simp add: sample_remote_def vv_get_def)

section \<open>A signature scheme and a chain of four certificates\<close>

text \<open>
  A key signs with its own bytes and the digest of a certificate is its generation: nothing is
  secret here, but the laws that the properties assume of the cryptography hold.
\<close>

definition key_text :: "bytes \<Rightarrow> string" where
  "key_text k = map (\<lambda>b. char_of (unat b)) k"

definition sample_crypto :: crypto where
  "sample_crypto = \<lparr>algorithmSuiteId = ''suite'',
     signVaultTrustCertificate = (\<lambda>_ k. key_text k),
     verifyVaultTrustCertificateSignature = (\<lambda>c k. cert_signature c = key_text k),
     digestVaultTrustCertificate = (\<lambda>c. replicate (nat (cert_generation c)) (CHR ''x'')),
     digestDevicePublicSignKey = key_text, digestDevicePublicVaultKey = key_text,
     verifyDeviceSignKeyPair = (\<lambda>p k. p = k),
     verifyVaultSnapshotSignature = (\<lambda>s k. snap_signature s = key_text k),
     digestVaultSnapshot = (\<lambda>s. replicate (m_revisionTimestamp (snap_metadata s)) (CHR ''y'')),
     signLocalVaultTrustCheckpoint = (\<lambda>_ k. key_text k),
     verifyLocalVaultTrustCheckpointSignature = (\<lambda>c k. chk_signature c = key_text k)\<rparr>"

definition laptop :: DeviceTrustIdentity where
  "laptop = \<lparr>dti_deviceId = ''A'', dti_publicSignKey = [1], dti_publicVaultKey = [11]\<rparr>"

definition phone :: DeviceTrustIdentity where
  "phone = \<lparr>dti_deviceId = ''B'', dti_publicSignKey = [2], dti_publicVaultKey = [12]\<rparr>"

definition tablet :: DeviceTrustIdentity where
  "tablet = \<lparr>dti_deviceId = ''C'', dti_publicSignKey = [3], dti_publicVaultKey = [13]\<rparr>"

definition sample_cert ::
    "int \<Rightarrow> int \<Rightarrow> string option \<Rightarrow> DeviceTrustIdentity list \<Rightarrow> VaultTrustCertificate" where
  "sample_cert n g previous ds = \<lparr>cert_payload = \<lparr>tc_version = 1, tc_vaultId = ''V'', tc_generation = n,
     tc_vaultKeyGeneration = g, tc_previousCertificateDigest = previous, tc_authorizedByDeviceId = ''A'',
     tc_trustedDevices = ds\<rparr>, cert_signature = key_text [1]\<rparr>"

definition sample_anchor :: LocalVaultTrustAnchor where
  "sample_anchor = \<lparr>an_version = 1, an_vaultId = ''V'', an_genesisDeviceId = ''A'',
     an_genesisPublicSignKey = [1], an_genesisCertificateDigest = ''''\<rparr>"

text \<open>The laptop creates the vault, enrols the phone, revokes it and enrols the tablet.\<close>

definition sample_chain :: VaultTrustChain where
  "sample_chain = [sample_cert 0 1 None [laptop], sample_cert 1 1 (Some '''') [laptop, phone],
     sample_cert 2 2 (Some ''x'') [laptop], sample_cert 3 2 (Some ''xx'') [laptop, tablet]]"

lemmas trust_evals = sample_chain_def sample_cert_def sample_anchor_def sample_crypto_def laptop_def phone_def tablet_def
  key_text_def js_set_def devices_not_in_def has_device_def find_device_def is_safe_integer_def replicate_two

lemma sample_chain_verifies:
  "verifyTrustChain sample_crypto ''V'' sample_anchor sample_chain = Inr (trust_of sample_crypto sample_chain)"
  by (simp add: trust_evals verifyTrustChain_def verifyCertificate_def requireValidDeviceIdentities_def
      requireUniquePublicKeys_def requireGenesis_def requireSuccessor_def requireValidTrustTransition_def
      arePublicKeysEqual_def areDeviceIdentitiesEqual_def trust_of_def)

lemma sample_chain_valid: "valid_chain sample_crypto ''V'' sample_anchor sample_chain"
  using sample_chain_verifies by (simp add: verifyTrustChain_Inr_iff)

lemma sample_prefix_valid: "valid_chain sample_crypto ''V'' sample_anchor (take 2 sample_chain)"
  using sample_chain_valid by (rule valid_chain_take) simp

lemma length_sample_chain [simp]: "length sample_chain = 4" "sample_chain \<noteq> []"
  by (simp_all add: sample_chain_def)

lemma sample_signatures_verify: "signatures_verify sample_crypto"
  by (simp add: signatures_verify_def sample_crypto_def)

text \<open>A snapshot of the vault under the chain, at a given revision.\<close>

definition sample_slot :: "string \<Rightarrow> DeviceKeySlot" where
  "sample_slot i = \<lparr>slot_deviceId = i, slot_vaultKeyGeneration = 2,
     slot_envelope = \<lparr>env_recipientDeviceId = i, env_vaultKeyGeneration = 2,
       env_ephemeralPublicKey = [], env_hkdfSalt = [],
       env_encryptedVaultMasterKey = \<lparr>enc_ciphertext = '''', enc_encryptionNonce = ''''\<rparr>\<rparr>\<rparr>"

definition sample_snapshot :: "nat \<Rightarrow> VaultSnapshot" where
  "sample_snapshot n = \<lparr>snap_metadata = \<lparr>m_id = ''V'', m_schemaVersion = 1, m_vaultCreationTimestamp = 0,
       m_revisionTimestamp = n, m_snapshotVersionVector = [(''A'', n)], m_algorithmSuiteId = ''suite'',
       m_createdByDeviceId = ''A'', m_vaultKeyGeneration = 2,
       m_uploadExpectedRemoteSnapshotIdentity = None\<rparr>,
     snap_trustChain = sample_chain,
     snap_deviceSlots = [sample_slot ''A'', sample_slot ''C''],
     snap_content = \<lparr>enc_ciphertext = '''', enc_encryptionNonce = ''''\<rparr>, snap_signature = key_text [1]\<rparr>"

text \<open>Device profiles before and after the revocation of the phone.\<close>

definition phone_profile :: DeviceProfile where
  "phone_profile = \<lparr>d_id = ''B'', d_name = ''Phone'', d_createdAt = 8, d_versionVector = [(''B'', 1)]\<rparr>"

definition tablet_profile :: DeviceProfile where
  "tablet_profile = \<lparr>d_id = ''C'', d_name = ''Tablet'', d_createdAt = 9, d_versionVector = [(''C'', 1)]\<rparr>"

definition phone_tombstone :: Tombstone where
  "phone_tombstone = \<lparr>del_id = ''B'', del_versionVector = [(''B'', 1), (''A'', 1)], del_deletedAt = 9\<rparr>"

definition sample_profiles_before :: Vault where
  "sample_profiles_before = sample_vault\<lparr>v_deviceProfiles := v_deviceProfiles sample_vault @ [phone_profile]\<rparr>"

definition sample_profiles_after :: Vault where
  "sample_profiles_after = sample_vault\<lparr>v_versionVector := [(''A'', 2)],
     v_deviceProfiles := v_deviceProfiles sample_vault @ [tablet_profile],
     v_deletedDeviceProfiles := [phone_tombstone]\<rparr>"

lemma sample_baseline:
  "buildTrustTransitionBaseline ''V'' sample_profiles_before sample_profiles_after
     [Revocation ''B'' ''A'' 2 2, Enrollment ''C'' ''A'' 3 2] [''A'', ''C''] = Inr sample_profiles_after"
  by (simp add: buildTrustTransitionBaseline_def applyTransition_def applyRevocation_def applyEnrollment_def
      sample_profiles_before_def sample_profiles_after_def sample_vault_def phone_profile_def
      tablet_profile_def phone_tombstone_def profiles_named_def tombstones_named_def
      revokeDeviceProfileFromVault_def clearVaultProviderCredentialRevocationPending_def
      without_deletion_def incrementVersionVector_def vv_get_def Let_def)

lemma sample_suffix:
  "verifyDeviceTrustSuffix sample_crypto ''V'' sample_chain
     (trust_of sample_crypto (take 2 sample_chain)) (trust_of sample_crypto sample_chain) =
     Inr [Revocation ''B'' ''A'' 2 2, Enrollment ''C'' ''A'' 3 2]"
proof -
  have "verifyDeviceTrustSuffix sample_crypto ''V'' sample_chain
     (trust_of sample_crypto (take 2 sample_chain)) (trust_of sample_crypto sample_chain) =
     suffix_transitions ''V'' sample_chain 2"
    using sample_chain_valid by (rule verifyDeviceTrustSuffix_prefix) simp_all
  then show ?thesis
    by (simp add: suffix_transitions_def classifyTransition_def trust_evals upt_rec)
qed

end
