(* ===== verification/Vault_Properties.thy ===== *)
theory Vault_Properties
  imports Samples
begin

text \<open>
  The properties of the vault itself: its commands keep it consistent, its mutations are causal,
  its organisation checks decide what they are meant to decide, and stale or dangling requests
  are refused. Every property with hypotheses is applied at a concrete vault.
\<close>

section \<open>Consistency of every reachable vault\<close>

text \<open>
  C1: every vault that initialisation, the ten editing commands and the three device-profile
  mutations can produce is consistent: identities are unique, no item is both active and deleted,
  no counter exceeds the vault's own, tag and sibling folder names are unique, the folder tree has
  no cycle, and every tag group, parent, folder and tag that is referred to exists.
\<close>

theorem reachable_vault_is_consistent:
  "reachable_vault rt v \<Longrightarrow> consistent_vault (rt_nfkc rt) v"
  by (rule reachable_consistent)

theorem reachable_vault_is_consistent_witness: "consistent_vault (rt_nfkc sample_runtime) sample_remote"
  by (rule reachable_vault_is_consistent [OF sample_remote_reachable])

section \<open>Mutations\<close>

text \<open>
  C21: a mutation is one causal event. Either it leaves the vault alone, or it increments the
  counter of its device once, and every item state it changes moves strictly forward in the order
  of version vectors; no state moves back. The device's counter must not have saturated.
\<close>

theorem mutation_is_causal:
  assumes "vault_ok v" "vv_get (v_versionVector v) d < js_limit" "apply_mutation nfkc d m v = Inr v'"
  shows "vault_advanced v v' \<and> (v' = v \<or> v_versionVector v' = incrementVersionVector (v_versionVector v) d)"
  using mutation_advances [OF assms] mutation_vector [OF assms(3)] by blast

theorem mutation_is_causal_witness:
  "vault_advanced sample_remote (removePasswordEntryFromVault sample_remote ''e'' ''A'' 9)"
proof -
  have "apply_mutation (\<lambda>s. s) ''A'' (Remove_entry ''e'' 9) sample_remote =
      Inr (removePasswordEntryFromVault sample_remote ''e'' ''A'' 9)" by simp
  from mutation_is_causal [OF sample_vaults_ok(2) sample_remote_counter this] show ?thesis by blast
qed

text \<open>
  Every mutation keeps a vault well formed: identities stay unique, nothing becomes both active
  and deleted, and all version vectors stay below the vector of the vault.
\<close>

theorem mutation_keeps_vault_ok:
  assumes "vault_ok v" "apply_mutation nfkc d m v = Inr v'"
  shows "vault_ok v'"
  using assms by (rule vault_ok_mutation)

theorem mutation_keeps_vault_ok_witness: "vault_ok (removePasswordEntryFromVault sample_remote ''e'' ''A'' 9)"
proof -
  have "apply_mutation (\<lambda>s. s) ''A'' (Remove_entry ''e'' 9) sample_remote =
      Inr (removePasswordEntryFromVault sample_remote ''e'' ''A'' 9)" by simp
  with mutation_keeps_vault_ok [OF sample_vaults_ok(2)] show ?thesis by blast
qed

text \<open>
  The three entry operations refine point updates of the abstract vault, the map from
  identities to present, deleted or missing. Adding makes the state present, updating an existing
  entry replaces it under an incremented vector, removing it leaves a tombstone that carries its
  incremented vector; an unknown identity changes nothing.
\<close>

theorem entry_operations_refine_point_updates:
  "(case addPasswordEntryToVault v i input d of
      Inl err \<Rightarrow> i \<in> e_id ` set (v_entries v) \<and> err = DuplicateVaultEntryError i
    | Inr v' \<Rightarrow> i \<notin> e_id ` set (v_entries v) \<and>
        entry_state v' = (entry_state v)(i := Item (entry_of_input i input
          (added_vector (v_versionVector v') d (find_deletion i (v_deletedEntries v)))))) \<and>
   entry_state (updatePasswordEntryInVault v i input d) =
     (case entry_state v i of
        Item e \<Rightarrow> (entry_state v)(i := Item (entry_of_input i input (incrementVersionVector (e_versionVector e) d)))
      | _ \<Rightarrow> entry_state v) \<and>
   entry_state (removePasswordEntryFromVault v i d t) =
     (case entry_state v i of
        Item e \<Rightarrow> (entry_state v)(i := Deleted \<lparr>del_id = i,
          del_versionVector = incrementVersionVector (e_versionVector e) d, del_deletedAt = t\<rparr>)
      | _ \<Rightarrow> entry_state v)"
proof -
  have "case addPasswordEntryToVault v i input d of
      Inl err \<Rightarrow> i \<in> e_id ` set (v_entries v) \<and> err = DuplicateVaultEntryError i
    | Inr v' \<Rightarrow> i \<notin> e_id ` set (v_entries v) \<and>
        entry_state v' = (entry_state v)(i := Item (entry_of_input i input
          (added_vector (v_versionVector v') d (find_deletion i (v_deletedEntries v)))))"
  proof (cases "addPasswordEntryToVault v i input d")
    case (Inl err)
    then show ?thesis
      by (auto simp: addPasswordEntryToVault_def Let_def list_ex_iff split: if_splits)
  next
    case (Inr v')
    then have "i \<notin> e_id ` set (v_entries v)" by (simp add: add_entry_Inr)
    with add_entry_state [OF Inr] Inr show ?thesis by simp
  qed
  then show ?thesis by (simp add: update_entry_state remove_entry_state)
qed

section \<open>The organisation of a vault\<close>

text \<open>
  C29: the organisation check accepts a vault exactly when its tags and folders are well formed:
  valid and unique identities, unique names, existing groups and parents, an acyclic folder tree
  and existing folders for every entry.
\<close>

theorem organization_check_is_exact:
  "requireValidVaultOrganization nfkc v = Inr () \<longleftrightarrow> tags_ok nfkc v \<and> folders_ok nfkc v"
  by (rule requireValidVaultOrganization_Inr_iff)

text \<open>
  C30: the check that guards moving a folder is exact: in a vault whose folders have unique
  identities and form a forest, it lets a move through if and only if the parent relation after
  the move is still acyclic.
\<close>

theorem folder_move_check_is_exact:
  assumes ids: "distinct (map f_id (v_folders v))" and forest: "acyclic (parent_rel (v_folders v))"
    and n: "find_index (\<lambda>f. f_id f = i) (v_folders v) = Some n"
  shows "requireFolderMoveDoesNotCreateCycle v i (Some p) = Inr () \<longleftrightarrow>
    acyclic (parent_rel ((v_folders v)[n := (v_folders v ! n)\<lparr>f_parentId := Some p\<rparr>]))"
proof -
  have "f_id (v_folders v ! n) = i" using find_index_Some [OF n] by simp
  then have "parent_rel ((v_folders v)[n := (v_folders v ! n)\<lparr>f_parentId := Some p\<rparr>]) =
      insert (i, p) {e \<in> parent_rel (v_folders v). fst e \<noteq> i}"
    using ids n by (simp add: parent_rel_update)
  then have "acyclic (parent_rel ((v_folders v)[n := (v_folders v ! n)\<lparr>f_parentId := Some p\<rparr>])) \<longleftrightarrow>
      (p, i) \<notin> (parent_rel (v_folders v))\<^sup>*"
    by (simp only: acyclic_redirect [OF forest])
  also have "\<dots> \<longleftrightarrow> requireFolderMoveDoesNotCreateCycle v i (Some p) = Inr ()"
    using move_check_sound [OF ids, of i p] move_check_complete [OF ids forest, of p i] by argo
  finally show ?thesis by (rule sym)
qed

theorem folder_move_check_is_exact_witness:
  "requireFolderMoveDoesNotCreateCycle sample_vault ''w'' (Some ''m'') \<noteq> Inr ()"
proof -
  have ids: "distinct (map f_id (v_folders sample_vault))"
    and forest: "acyclic (parent_rel (v_folders sample_vault))"
    and n: "find_index (\<lambda>f. f_id f = ''w'') (v_folders sample_vault) = Some 0"
    by (simp_all add: sample_vault_def parent_rel_Cons acyclic_empty)
  have "(''w'', ''w'') \<in> (parent_rel ((v_folders sample_vault)[0 :=
      (v_folders sample_vault ! 0)\<lparr>f_parentId := Some ''m''\<rparr>]))\<^sup>+"
    by (rule trancl_into_trancl [of _ "''m''"])
      (auto simp: sample_vault_def parent_rel_Cons)
  then show ?thesis
    by (auto simp: folder_move_check_is_exact [OF ids forest n] acyclic_def)
qed

section \<open>Refused requests\<close>

text \<open>
  Optimistic concurrency. Updating or removing an entry whose version vector differs from the
  expected one, as functions from devices to counters, is refused with
  \<open>PasswordEntryChangedError\<close>, whatever the new data are.
\<close>

theorem stale_entry_commands_are_refused:
  assumes "expectedVersionSchema expected" "find (\<lambda>e. e_id e = i) (v_entries v) = Some e"
    and "vv_get (e_versionVector e) \<noteq> vv_get expected"
  shows "run_command rt d (Update_entry_command i expected params) v = Inl PasswordEntryChangedError \<and>
    run_command rt d (Remove_entry_command i expected t) v = Inl PasswordEntryChangedError"
proof -
  have changed: "requireExpectedEntryVersion (e_versionVector e) expected = Inl PasswordEntryChangedError"
    using assms(3) by (simp add: requireExpectedEntryVersion_def compare_Equal_iff)
  obtain n where n: "find_index (\<lambda>e. e_id e = i) (v_entries v) = Some n"
    using assms(2) by (cases "find_index (\<lambda>e. e_id e = i) (v_entries v)")
      (auto simp: find_index_None dest: find_Some_D)
  then have "v_entries v ! n = e" using find_index_find [OF n] assms(2) by simp
  with n changed assms(1,2) show ?thesis
    by (simp add: update_entry_command_def remove_entry_command_def captureExpectedEntryVersion_def)
qed

theorem stale_entry_commands_are_refused_witness:
  "run_command sample_runtime ''A'' (Remove_entry_command ''e'' [(''B'', 2)] 9) sample_remote =
     Inl PasswordEntryChangedError"
proof -
  have "expectedVersionSchema [(''B'', 2)]" by (simp add: expectedVersionSchema_def MAX_SAFE_INTEGER_def)
  moreover have "find (\<lambda>e. e_id e = ''e'') (v_entries sample_remote) = Some sample_entry"
    by (simp add: sample_remote_def sample_entry_def)
  moreover have "vv_get (e_versionVector sample_entry) \<noteq> vv_get [(''B'', 2)]"
    by (simp add: sample_entry_def fun_eq_iff)
  ultimately show ?thesis using stale_entry_commands_are_refused by blast
qed

text \<open>
  A tag in use and a folder with content cannot be removed. Removal of an existing tag fails
  exactly when an entry carries it, and reports how many do; removal of an existing folder fails
  exactly when it holds an entry or a folder, and reports both numbers.
\<close>

theorem removal_in_use_is_refused:
  "(removeTagFromVault v i d t = Inl err \<longleftrightarrow>
     i \<in> t_id ` set (v_tags v) \<and> (\<exists>e \<in> set (v_entries v). i \<in> set (e_tags e)) \<and>
     err = VaultTagInUseError i (length (filter (\<lambda>e. i \<in> set (e_tags e)) (v_entries v)))) \<and>
   (removeFolderFromVault v i d t = Inl err \<longleftrightarrow>
     i \<in> f_id ` set (v_folders v) \<and>
     ((\<exists>e \<in> set (v_entries v). e_folderId e = i) \<or> (\<exists>f \<in> set (v_folders v). f_parentId f = Some i)) \<and>
     err = VaultFolderNotEmptyError i (length (filter (\<lambda>e. e_folderId e = i) (v_entries v)))
       (length (filter (\<lambda>f. f_parentId f = Some i) (v_folders v))))"
proof (rule conjI)
  show "removeTagFromVault v i d t = Inl err \<longleftrightarrow>
     i \<in> t_id ` set (v_tags v) \<and> (\<exists>e \<in> set (v_entries v). i \<in> set (e_tags e)) \<and>
     err = VaultTagInUseError i (length (filter (\<lambda>e. i \<in> set (e_tags e)) (v_entries v)))"
    by (cases "find (\<lambda>x. t_id x = i) (v_tags v)")
      (auto simp: removeTagFromVault_def Let_def filter_empty_conv dest: find_None_D find_Some_D)
  show "removeFolderFromVault v i d t = Inl err \<longleftrightarrow>
     i \<in> f_id ` set (v_folders v) \<and>
     ((\<exists>e \<in> set (v_entries v). e_folderId e = i) \<or> (\<exists>f \<in> set (v_folders v). f_parentId f = Some i)) \<and>
     err = VaultFolderNotEmptyError i (length (filter (\<lambda>e. e_folderId e = i) (v_entries v)))
       (length (filter (\<lambda>f. f_parentId f = Some i) (v_folders v)))"
    by (cases "find (\<lambda>x. f_id x = i) (v_folders v)")
      (auto simp: removeFolderFromVault_def Let_def filter_empty_conv dest: find_None_D dest!: find_Some_D)
qed

end
