(* ===== verification/Snapshot_Review.thy ===== *)
theory Snapshot_Review
  imports Sync_Review
begin

text \<open>
  Comparing snapshots before their content is opened: descriptors and identities
  (\<open>domain/snapshot/vault-snapshot-descriptor.utils.ts\<close>) and the device key slots
  (\<open>domain/sync/key-slot-review.utils.ts\<close>).
\<close>

section \<open>Descriptors and identities\<close>

definition cloneVaultSnapshotDescriptor :: "VaultSnapshotDescriptor \<Rightarrow> VaultSnapshotDescriptor" where
  "cloneVaultSnapshotDescriptor descriptor =
     \<lparr>sd_vaultId = sd_vaultId descriptor,
      sd_snapshotVersionVector = sd_snapshotVersionVector descriptor,
      sd_revisionTimestamp = sd_revisionTimestamp descriptor\<rparr>"

definition cloneVaultSnapshotIdentity :: "VaultSnapshotIdentity \<Rightarrow> VaultSnapshotIdentity" where
  "cloneVaultSnapshotIdentity identity =
     \<lparr>si_descriptor = cloneVaultSnapshotDescriptor (si_descriptor identity),
      si_snapshotDigest = si_snapshotDigest identity\<rparr>"

definition compareVaultSnapshotDescriptors ::
    "VaultSnapshotDescriptor \<Rightarrow> VaultSnapshotDescriptor \<Rightarrow> VersionVectorRelation" where
  "compareVaultSnapshotDescriptors l r =
     (if sd_vaultId l \<noteq> sd_vaultId r then Broken
      else compareVersionVectors (sd_snapshotVersionVector l) (sd_snapshotVersionVector r))"

definition areVaultSnapshotDescriptorsEqual ::
    "VaultSnapshotDescriptor \<Rightarrow> VaultSnapshotDescriptor \<Rightarrow> bool" where
  "areVaultSnapshotDescriptorsEqual actual expected \<longleftrightarrow>
     sd_vaultId actual = sd_vaultId expected \<and>
     sd_revisionTimestamp actual = sd_revisionTimestamp expected \<and>
     compareVersionVectors (sd_snapshotVersionVector actual) (sd_snapshotVersionVector expected) = Equal"

definition areVaultSnapshotIdentitiesEqual :: "VaultSnapshotIdentity \<Rightarrow> VaultSnapshotIdentity \<Rightarrow> bool" where
  "areVaultSnapshotIdentitiesEqual actual expected \<longleftrightarrow>
     si_snapshotDigest actual = si_snapshotDigest expected \<and>
     areVaultSnapshotDescriptorsEqual (si_descriptor actual) (si_descriptor expected)"

definition toVaultSnapshotDescriptor :: "string \<Rightarrow> VaultSnapshot \<Rightarrow> VaultSnapshotDescriptor" where
  "toVaultSnapshotDescriptor vaultId vaultSnapshot =
     cloneVaultSnapshotDescriptor
       \<lparr>sd_vaultId = vaultId,
        sd_snapshotVersionVector = m_snapshotVersionVector (snap_metadata vaultSnapshot),
        sd_revisionTimestamp = m_revisionTimestamp (snap_metadata vaultSnapshot)\<rparr>"

definition toVaultSnapshotIdentity :: "string \<Rightarrow> VaultSnapshot \<Rightarrow> string \<Rightarrow> VaultSnapshotIdentity" where
  "toVaultSnapshotIdentity vaultId vaultSnapshot snapshotDigest =
     \<lparr>si_descriptor = toVaultSnapshotDescriptor vaultId vaultSnapshot,
      si_snapshotDigest = snapshotDigest\<rparr>"

text \<open>What identifies a snapshot: the counters of its vector, not their order or its zeros.\<close>

definition descriptor_key :: "VaultSnapshotDescriptor \<Rightarrow> string \<times> nat \<times> (string \<Rightarrow> nat)" where
  "descriptor_key d = (sd_vaultId d, sd_revisionTimestamp d, vv_get (sd_snapshotVersionVector d))"

lemma areVaultSnapshotDescriptorsEqual_iff:
  "areVaultSnapshotDescriptorsEqual a b \<longleftrightarrow> descriptor_key a = descriptor_key b"
  by (auto simp: areVaultSnapshotDescriptorsEqual_def descriptor_key_def compare_Equal_iff)

lemma areVaultSnapshotIdentitiesEqual_iff:
  "areVaultSnapshotIdentitiesEqual a b \<longleftrightarrow>
     si_snapshotDigest a = si_snapshotDigest b \<and>
     descriptor_key (si_descriptor a) = descriptor_key (si_descriptor b)"
  by (simp add: areVaultSnapshotIdentitiesEqual_def areVaultSnapshotDescriptorsEqual_iff)

lemma clone_descriptor [simp]: "cloneVaultSnapshotDescriptor d = d"
  by (simp add: cloneVaultSnapshotDescriptor_def)

lemma clone_identity [simp]: "cloneVaultSnapshotIdentity i = i"
  by (simp add: cloneVaultSnapshotIdentity_def)

section \<open>Device key slots\<close>

definition areArrayBuffersEqual :: "bytes \<Rightarrow> bytes \<Rightarrow> bool" where
  "areArrayBuffersEqual l r \<longleftrightarrow>
     (if length l \<noteq> length r then False else list_all (\<lambda>i. l ! i = r ! i) [0..<length l])"

lemma areArrayBuffersEqual_iff [simp]: "areArrayBuffersEqual l r \<longleftrightarrow> l = r"
  by (auto simp: areArrayBuffersEqual_def list_all_iff intro: nth_equalityI)

definition encrypted_json :: "SerializedEncrypted \<Rightarrow> json" where
  "encrypted_json e = JObj [(''ciphertext'', JStr (enc_ciphertext e)),
     (''encryptionNonce'', JStr (enc_encryptionNonce e))]"

definition areDeviceSlotsEqual :: "DeviceKeySlot \<Rightarrow> DeviceKeySlot \<Rightarrow> bool" where
  "areDeviceSlotsEqual localSlot remoteSlot \<longleftrightarrow>
     slot_deviceId localSlot = slot_deviceId remoteSlot \<and>
     slot_vaultKeyGeneration localSlot = slot_vaultKeyGeneration remoteSlot \<and>
     env_recipientDeviceId (slot_envelope localSlot) = env_recipientDeviceId (slot_envelope remoteSlot) \<and>
     env_vaultKeyGeneration (slot_envelope localSlot) = env_vaultKeyGeneration (slot_envelope remoteSlot) \<and>
     areArrayBuffersEqual (env_ephemeralPublicKey (slot_envelope localSlot))
       (env_ephemeralPublicKey (slot_envelope remoteSlot)) \<and>
     areArrayBuffersEqual (env_hkdfSalt (slot_envelope localSlot)) (env_hkdfSalt (slot_envelope remoteSlot)) \<and>
     areJsonEqual (encrypted_json (env_encryptedVaultMasterKey (slot_envelope localSlot)))
       (encrypted_json (env_encryptedVaultMasterKey (slot_envelope remoteSlot)))"

record KeySlotDeviceSlotsChanges =
  ks_addedDeviceIds :: "string list"
  ks_removedDeviceIds :: "string list"
  ks_changedDeviceIds :: "string list"

record KeySlotReviewItem =
  ksr_deviceSlots :: KeySlotDeviceSlotsChanges
  ksr_hasChanges :: bool

text \<open>The map by device; the loop stops at a repeated identity, so keys stay in list order.\<close>

definition createDeviceSlotMap ::
    "DeviceKeySlot list \<Rightarrow> core_error + (string \<times> DeviceKeySlot) list" where
  "createDeviceSlotMap deviceSlots =
     rfold (\<lambda>slot byId.
         if map_of byId (slot_deviceId slot) \<noteq> None
         then Inl (InvalidVaultSyncReviewError (Duplicated_key_slot (slot_deviceId slot)))
         else Inr (byId @ [(slot_deviceId slot, slot)]))
       deviceSlots []"

definition findDeviceSlotChanges ::
    "DeviceKeySlot list \<Rightarrow> DeviceKeySlot list \<Rightarrow> core_error + KeySlotDeviceSlotsChanges" where
  "findDeviceSlotChanges localDeviceSlots remoteDeviceSlots =
     rbind (createDeviceSlotMap localDeviceSlots) (\<lambda>localById.
     rbind (createDeviceSlotMap remoteDeviceSlots) (\<lambda>remoteById.
     Inr \<lparr>ks_addedDeviceIds = filter (\<lambda>i. map_of localById i = None) (map fst remoteById),
          ks_removedDeviceIds = map fst (filter (\<lambda>(i, _). map_of remoteById i = None) localById),
          ks_changedDeviceIds = map fst (filter (\<lambda>(i, localSlot).
            case map_of remoteById i of None \<Rightarrow> False
            | Some remoteSlot \<Rightarrow> \<not> areDeviceSlotsEqual localSlot remoteSlot) localById)\<rparr>))"

definition findChangedDeviceSlotsDetails ::
    "DeviceKeySlot list \<Rightarrow> DeviceKeySlot list \<Rightarrow> string list \<Rightarrow>
     core_error + (string \<times> DeviceKeySlot \<times> DeviceKeySlot) list" where
  "findChangedDeviceSlotsDetails localDeviceSlots remoteDeviceSlots changedDeviceIds =
     rbind (createDeviceSlotMap localDeviceSlots) (\<lambda>localById.
     rbind (createDeviceSlotMap remoteDeviceSlots) (\<lambda>remoteById.
     rmap (\<lambda>i. case (map_of localById i, map_of remoteById i) of
         (Some l, Some r) \<Rightarrow> Inr (i, l, r)
       | _ \<Rightarrow> Inl (InvalidVaultSyncReviewError (Changed_key_slot_missing i))) changedDeviceIds))"

text \<open>The error keeps the identities of its details.\<close>

definition findChangesInKeySlots ::
    "DeviceKeySlot list \<Rightarrow> DeviceKeySlot list \<Rightarrow> core_error + KeySlotReviewItem" where
  "findChangesInKeySlots localKeySlots remoteKeySlots =
     rbind (findDeviceSlotChanges localKeySlots remoteKeySlots) (\<lambda>deviceSlots.
     if length (ks_changedDeviceIds deviceSlots) > 0
     then rbind (findChangedDeviceSlotsDetails localKeySlots remoteKeySlots (ks_changedDeviceIds deviceSlots))
            (\<lambda>details. Inl (ChangedDeviceKeySlotsError (map fst details)))
     else Inr \<lparr>ksr_deviceSlots = deviceSlots,
               ksr_hasChanges = (length (ks_addedDeviceIds deviceSlots) > 0 \<or>
                                 length (ks_removedDeviceIds deviceSlots) > 0)\<rparr>)"

section \<open>What the slot review decides\<close>

lemma areDeviceSlotsEqual_iff [simp]: "areDeviceSlotsEqual a b \<longleftrightarrow> a = b"
  by (auto simp: areDeviceSlotsEqual_def encrypted_json_def areJsonEqual_same_keys
      intro!: DeviceKeySlot.equality DeviceVaultKeyEnvelope.equality SerializedEncrypted.equality)

lemma slot_map_loop:
  "rfold (\<lambda>slot byId.
       if map_of byId (slot_deviceId slot) \<noteq> None
       then Inl (InvalidVaultSyncReviewError (Duplicated_key_slot (slot_deviceId slot)))
       else Inr (byId @ [(slot_deviceId slot, slot)])) slots byId = Inr m \<longleftrightarrow>
   distinct (map slot_deviceId slots) \<and> fst ` set byId \<inter> slot_deviceId ` set slots = {} \<and>
   m = byId @ map (\<lambda>s. (slot_deviceId s, s)) slots"
proof (induction slots arbitrary: byId)
  case Nil
  show ?case by auto
next
  case (Cons s slots)
  show ?case
  proof (cases "map_of byId (slot_deviceId s)")
    case None
    then have "slot_deviceId s \<notin> fst ` set byId" by (simp add: map_of_eq_None_iff)
    with None show ?thesis by (auto simp: Cons.IH simp del: not_None_eq)
  next
    case (Some t)
    then have "slot_deviceId s \<in> fst ` set byId" by (force dest: map_of_SomeD)
    with Some show ?thesis by auto
  qed
qed

lemma createDeviceSlotMap_Inr:
  "createDeviceSlotMap slots = Inr m \<longleftrightarrow>
     distinct (map slot_deviceId slots) \<and> m = map (\<lambda>s. (slot_deviceId s, s)) slots"
  unfolding createDeviceSlotMap_def slot_map_loop by simp

lemma map_of_slots_None:
  "map_of (map (\<lambda>s. (slot_deviceId s, s)) slots) i = None \<longleftrightarrow> i \<notin> slot_deviceId ` set slots"
  by (simp add: map_of_eq_None_iff image_image)

lemma map_of_slots_Some:
  "distinct (map slot_deviceId slots) \<Longrightarrow>
   map_of (map (\<lambda>s. (slot_deviceId s, s)) slots) i = Some s \<longleftrightarrow> s \<in> set slots \<and> slot_deviceId s = i"
  by (auto simp: map_of_eq_Some_iff comp_def)

text \<open>
  The review succeeds exactly if no device occurs twice and every device on both sides has the
  same slot; it then lists the devices that only one side knows.
\<close>

lemma findChangesInKeySlots_Inr:
  "findChangesInKeySlots l r = Inr review \<longleftrightarrow>
     distinct (map slot_deviceId l) \<and> distinct (map slot_deviceId r) \<and>
     (\<forall>s \<in> set l. \<forall>t \<in> set r. slot_deviceId s = slot_deviceId t \<longrightarrow> s = t) \<and>
     review = (let added = filter (\<lambda>i. i \<notin> slot_deviceId ` set l) (map slot_deviceId r);
                   removed = filter (\<lambda>i. i \<notin> slot_deviceId ` set r) (map slot_deviceId l)
               in \<lparr>ksr_deviceSlots = \<lparr>ks_addedDeviceIds = added, ks_removedDeviceIds = removed,
                     ks_changedDeviceIds = []\<rparr>,
                   ksr_hasChanges = (added \<noteq> [] \<or> removed \<noteq> [])\<rparr>)"
proof (cases "distinct (map slot_deviceId l) \<and> distinct (map slot_deviceId r)")
  case False
  then show ?thesis
    by (auto simp: findChangesInKeySlots_def findDeviceSlotChanges_def rbind_eq_Inr_iff createDeviceSlotMap_Inr)
next
  case True
  then have l: "createDeviceSlotMap l = Inr (map (\<lambda>s. (slot_deviceId s, s)) l)"
    and r: "createDeviceSlotMap r = Inr (map (\<lambda>s. (slot_deviceId s, s)) r)"
    by (simp_all add: createDeviceSlotMap_Inr)
  let ?r = "map (\<lambda>s. (slot_deviceId s, s)) r"
  define changed where "changed = map slot_deviceId (filter (\<lambda>localSlot.
      case map_of ?r (slot_deviceId localSlot) of None \<Rightarrow> False
      | Some remoteSlot \<Rightarrow> \<not> areDeviceSlotsEqual localSlot remoteSlot) l)"
  define added where "added = filter (\<lambda>i. i \<notin> slot_deviceId ` set l) (map slot_deviceId r)"
  define removed where "removed = filter (\<lambda>i. i \<notin> slot_deviceId ` set r) (map slot_deviceId l)"
  have unchanged: "changed = [] \<longleftrightarrow> (\<forall>s \<in> set l. \<forall>t \<in> set r. slot_deviceId s = slot_deviceId t \<longrightarrow> s = t)"
  proof -
    have "changed = [] \<longleftrightarrow> (\<forall>s \<in> set l. \<forall>t. map_of ?r (slot_deviceId s) = Some t \<longrightarrow> s = t)"
      by (auto simp: changed_def filter_empty_conv split: option.splits)
    then show ?thesis using True by (auto simp: map_of_slots_Some)
  qed
  have changes: "findDeviceSlotChanges l r =
      Inr \<lparr>ks_addedDeviceIds = added, ks_removedDeviceIds = removed, ks_changedDeviceIds = changed\<rparr>"
    unfolding findDeviceSlotChanges_def l r
    by (simp add: added_def removed_def changed_def filter_map comp_def map_of_slots_None del: not_None_eq)
  show ?thesis
  proof (cases "changed = []")
    case True
    then show ?thesis
      using \<open>distinct (map slot_deviceId l) \<and> distinct (map slot_deviceId r)\<close> unchanged
      by (auto simp: findChangesInKeySlots_def changes added_def [symmetric] removed_def [symmetric] Let_def)
  next
    case False
    then show ?thesis
      using unchanged by (simp add: findChangesInKeySlots_def changes rbind_eq_Inr_iff)
  qed
qed

end
