(* ===== verification/Json_Equality.thy ===== *)
theory Json_Equality
  imports Version_Vector "HOL-Library.Multiset"
begin

text \<open>
  The comparison of \<open>packages/core/src/domain/common/json.utils.ts\<close> on the data values of the
  runtime, \<open>undefined\<close>, non-finite numbers and dates included, and what it decides: equality of
  data, described without reference to an order of keys or to a printed text. Fractions, functions,
  and objects with a class or a \<open>toJSON\<close> of their own are not represented.
\<close>

section \<open>Values of the runtime\<close>

text \<open>
  A number is an integer or not finite (\<open>NaN\<close> and the infinities, which print alike). A date
  carries the text of \<open>toISOString\<close>, or none when it is invalid. An object is the list of its own
  enumerable properties, whose keys are distinct in every object (\<open>well_keyed\<close>).
\<close>

datatype js_value =
    Js_undefined
  | Js_null
  | Js_bool bool
  | Js_number int
  | Js_not_finite
  | Js_string string
  | Js_date "string option"
  | Js_array "js_value list"
  | Js_object "(string \<times> js_value) list"

lemma size_js_member [termination_simp]:
  "(k, v) \<in> set kvs \<Longrightarrow> size v < Suc (size_list (size_prod (\<lambda>_. 0) size) kvs)"
  by (induction kvs) auto

fun well_keyed :: "js_value \<Rightarrow> bool" where
  "well_keyed (Js_array xs) \<longleftrightarrow> (\<forall>x \<in> set xs. well_keyed x)"
| "well_keyed (Js_object kvs) \<longleftrightarrow> distinct (map fst kvs) \<and> (\<forall>(k, v) \<in> set kvs. well_keyed v)"
| "well_keyed _ \<longleftrightarrow> True"

section \<open>The code\<close>

text \<open>
  \<open>Object.fromEntries\<close> of entries with distinct keys. The runtime lists the keys that are array
  indexes first, by their number, and the other keys in the order of the entries.
\<close>

definition array_index :: "string \<Rightarrow> nat option" where
  "array_index s =
     (if s \<noteq> [] \<and> list_all is_digit s \<and> (hd s = CHR ''0'' \<longrightarrow> length s = 1) \<and> digit_value s < 2 ^ 32 - 1
      then Some (digit_value s) else None)"

definition fromEntries :: "(string \<times> 'a) list \<Rightarrow> (string \<times> 'a) list" where
  "fromEntries kvs =
     sort_key (\<lambda>kv. the (array_index (fst kv))) (filter (\<lambda>kv. array_index (fst kv) \<noteq> None) kvs) @
     filter (\<lambda>kv. array_index (fst kv) = None) kvs"

text \<open>\<open>toCanonicalJsonValue\<close>: the entries of an object are sorted by key, a date is left alone.\<close>

fun toCanonicalValue :: "js_value \<Rightarrow> js_value" where
  "toCanonicalValue (Js_array xs) = Js_array (map toCanonicalValue xs)"
| "toCanonicalValue (Js_object kvs) =
     Js_object (fromEntries (map (\<lambda>(k, v). (k, toCanonicalValue v)) (sort_key fst kvs)))"
| "toCanonicalValue v = v"

text \<open>
  What \<open>JSON.stringify\<close> prints of a value: nothing for \<open>undefined\<close>, \<open>null\<close> for a number that is
  not finite and for an invalid date, the ISO text for a date. An undefined element of an array is
  printed as \<open>null\<close>, an undefined member of an object is left out.
\<close>

fun printed :: "js_value \<Rightarrow> json option" where
  "printed Js_undefined = None"
| "printed Js_null = Some JNull"
| "printed (Js_bool b) = Some (JBool b)"
| "printed (Js_number n) = Some (JNum n)"
| "printed Js_not_finite = Some JNull"
| "printed (Js_string s) = Some (JStr s)"
| "printed (Js_date d) = Some (case d of None \<Rightarrow> JNull | Some s \<Rightarrow> JStr s)"
| "printed (Js_array xs) = Some (JArr (map (\<lambda>x. case printed x of None \<Rightarrow> JNull | Some j \<Rightarrow> j) xs))"
| "printed (Js_object kvs) =
     Some (JObj (concat (map (\<lambda>(k, v). case printed v of None \<Rightarrow> [] | Some j \<Rightarrow> [(k, j)]) kvs)))"

definition js_stringify :: "js_value \<Rightarrow> string option" where
  "js_stringify v = map_option stringify (printed v)"

definition areValuesEqual :: "js_value \<Rightarrow> js_value \<Rightarrow> bool" where
  "areValuesEqual localValue remoteValue \<longleftrightarrow>
     js_stringify (toCanonicalValue localValue) = js_stringify (toCanonicalValue remoteValue)"

section \<open>What it decides\<close>

text \<open>
  The same data. A date is its ISO text, a number that is not finite and an invalid date are
  \<open>null\<close>; arrays agree element by element, an undefined element counting as \<open>null\<close>; objects agree
  when they have the same defined members, in whatever order.
\<close>

definition null_like :: "js_value \<Rightarrow> bool" where
  "null_like v \<longleftrightarrow> v = Js_null \<or> v = Js_not_finite \<or> v = Js_date None"

definition text_like :: "js_value \<Rightarrow> string \<Rightarrow> bool" where
  "text_like v s \<longleftrightarrow> v = Js_string s \<or> v = Js_date (Some s)"

definition member_value :: "(string \<times> js_value) list \<Rightarrow> string \<Rightarrow> js_value option" where
  "member_value kvs k =
     (case map_of kvs k of Some v \<Rightarrow> if v = Js_undefined then None else Some v | None \<Rightarrow> None)"

inductive same_value :: "js_value \<Rightarrow> js_value \<Rightarrow> bool" where
  same_undefined: "same_value Js_undefined Js_undefined"
| same_null: "null_like a \<Longrightarrow> null_like b \<Longrightarrow> same_value a b"
| same_bool: "same_value (Js_bool x) (Js_bool x)"
| same_number: "same_value (Js_number n) (Js_number n)"
| same_text: "text_like a s \<Longrightarrow> text_like b s \<Longrightarrow> same_value a b"
| same_array:
    "length xs = length ys \<Longrightarrow>
     \<forall>n < length xs. same_value (xs ! n) (ys ! n) \<or>
       (null_like (xs ! n) \<or> xs ! n = Js_undefined) \<and> (null_like (ys ! n) \<or> ys ! n = Js_undefined) \<Longrightarrow>
     same_value (Js_array xs) (Js_array ys)"
| same_object:
    "\<forall>k. member_value xs k = None \<longleftrightarrow> member_value ys k = None \<Longrightarrow>
     \<forall>k a b. member_value xs k = Some a \<longrightarrow> member_value ys k = Some b \<longrightarrow> same_value a b \<Longrightarrow>
     same_value (Js_object xs) (Js_object ys)"

inductive_simps same_value_simps:
  "same_value Js_undefined b" "same_value Js_null b" "same_value (Js_bool x) b" "same_value (Js_number n) b"
  "same_value Js_not_finite b" "same_value (Js_string s) b" "same_value (Js_date d) b"

inductive_simps same_array_raw: "same_value (Js_array xs) b"
inductive_simps same_object_raw: "same_value (Js_object xs) b"

text \<open>The equals of the values without parts.\<close>

lemma same_value_atoms:
  "same_value Js_undefined b \<longleftrightarrow> b = Js_undefined" "same_value Js_null b \<longleftrightarrow> null_like b"
  "same_value (Js_bool x) b \<longleftrightarrow> b = Js_bool x" "same_value (Js_number n) b \<longleftrightarrow> b = Js_number n"
  "same_value Js_not_finite b \<longleftrightarrow> null_like b" "same_value (Js_string s) b \<longleftrightarrow> text_like b s"
  "same_value (Js_date d) b \<longleftrightarrow> (case d of None \<Rightarrow> null_like b | Some s \<Rightarrow> text_like b s)"
  by (auto simp: same_value_simps null_like_def text_like_def split: option.splits)

text \<open>Lists and objects have only their own kind as an equal.\<close>

lemma likes [simp]:
  "\<not> null_like (Js_array xs)" "\<not> null_like (Js_object kvs)" "\<not> text_like (Js_array xs) s" "\<not> text_like (Js_object kvs) s"
  by (simp_all add: null_like_def text_like_def)

lemma same_value_array:
  "same_value (Js_array xs) b \<longleftrightarrow> (\<exists>ys. b = Js_array ys \<and> length xs = length ys \<and>
     (\<forall>n < length xs. same_value (xs ! n) (ys ! n) \<or>
       (null_like (xs ! n) \<or> xs ! n = Js_undefined) \<and> (null_like (ys ! n) \<or> ys ! n = Js_undefined)))"
  by (simp add: same_array_raw)

lemma same_value_object:
  "same_value (Js_object xs) b \<longleftrightarrow> (\<exists>ys. b = Js_object ys \<and>
     (\<forall>k. member_value xs k = None \<longleftrightarrow> member_value ys k = None) \<and>
     (\<forall>k x y. member_value xs k = Some x \<longrightarrow> member_value ys k = Some y \<longrightarrow> same_value x y))"
  by (simp add: same_object_raw)

section \<open>Canonical forms\<close>

text \<open>What the comparison compares, as a value: the canonical form of what is printed.\<close>

definition canonical_print :: "js_value \<Rightarrow> json option" where
  "canonical_print v = printed (toCanonicalValue v)"

lemma areValuesEqual_iff: "areValuesEqual a b \<longleftrightarrow> canonical_print a = canonical_print b"
proof -
  have "map_option stringify x = map_option stringify y \<longleftrightarrow> x = y" for x y
    by (cases x; cases y) (simp_all add: stringify_inject)
  then show ?thesis by (simp add: areValuesEqual_def js_stringify_def canonical_print_def)
qed

lemma fromEntries_map:
  "fromEntries (map (\<lambda>(k, v). (k, g v)) kvs) = map (\<lambda>(k, v). (k, g v)) (fromEntries kvs)"
proof -
  have sorted: "map (\<lambda>(k, v). (k, g v)) (sort_key (\<lambda>kv. the (array_index (fst kv))) zs) =
      sort_key (\<lambda>kv. the (array_index (fst kv))) (map (\<lambda>(k, v). (k, g v)) zs)" for zs
    by (rule map_sort_key) auto
  show ?thesis
    unfolding fromEntries_def map_append sorted by (simp add: filter_map o_def case_prod_beta')
qed

lemma fromEntries_filter: "fromEntries (filter P kvs) = filter P (fromEntries kvs)"
  by (simp add: fromEntries_def filter_sort conj_commute)

lemma mset_fromEntries: "mset (fromEntries kvs) = mset kvs"
  using multiset_partition [of "mset kvs" "\<lambda>kv. array_index (fst kv) \<noteq> None"] by (simp add: fromEntries_def)

text \<open>The order in which the canonical form lists the members, for any kind of member values.\<close>

definition ordered :: "(string \<times> 'a) list \<Rightarrow> (string \<times> 'a) list" where
  "ordered kvs = fromEntries (sort_key fst kvs)"

lemma ordered_map: "ordered (map (\<lambda>(k, v). (k, g v)) kvs) = map (\<lambda>(k, v). (k, g v)) (ordered kvs)"
proof -
  have "map (\<lambda>(k, v). (k, g v)) (sort_key fst kvs) = sort_key fst (map (\<lambda>(k, v). (k, g v)) kvs)"
    by (rule map_sort_key) auto
  then show ?thesis by (simp add: ordered_def flip: fromEntries_map)
qed

lemma ordered_filter: "ordered (filter P kvs) = filter P (ordered kvs)"
  by (simp only: ordered_def filter_sort [symmetric] fromEntries_filter)

lemma mset_ordered: "mset (ordered kvs) = mset kvs"
  by (simp only: ordered_def mset_fromEntries mset_sort)

lemma map_of_ordered:
  assumes "distinct (map fst kvs)"
  shows "map_of (ordered kvs) = map_of kvs"
proof -
  have "mset (map fst (ordered kvs)) = mset (map fst kvs)" "set (ordered kvs) = set kvs"
    using arg_cong [OF mset_ordered [of kvs], of "image_mset fst"] mset_eq_setD [OF mset_ordered] by simp_all
  with assms show ?thesis by (metis map_of_inject_set mset_eq_imp_distinct_iff)
qed

text \<open>Two objects with distinct keys list the same members exactly when they are the same map.\<close>

lemma ordered_eq_iff:
  assumes "distinct (map fst xs)" "distinct (map fst ys)"
  shows "ordered xs = ordered ys \<longleftrightarrow> map_of xs = map_of ys"
proof
  show "map_of xs = map_of ys" if "ordered xs = ordered ys"
    using that assms map_of_ordered by metis
next
  assume "map_of xs = map_of ys"
  then have "set xs = set ys" using assms by (simp add: map_of_inject_set)
  then have "mset xs = mset ys" using assms by (simp add: distinct_map set_eq_iff_mset_eq_distinct)
  moreover have "inj_on fst (set xs)" using assms by (simp add: distinct_map)
  ultimately have "sort_key fst xs = sort_key fst ys" by (intro sort_key_inj_key_eq) simp_all
  then show "ordered xs = ordered ys" by (simp add: ordered_def)
qed

text \<open>The members that are printed.\<close>

definition printed_members :: "(string \<times> js_value) list \<Rightarrow> (string \<times> json) list" where
  "printed_members kvs =
     map (\<lambda>(k, v). (k, the (canonical_print v))) (filter (\<lambda>(k, v). canonical_print v \<noteq> None) kvs)"

lemma canonical_print_object:
  "canonical_print (Js_object kvs) = Some (JObj (ordered (printed_members kvs)))"
proof -
  have members: "concat (map (\<lambda>(k, v). case canonical_print v of None \<Rightarrow> [] | Some j \<Rightarrow> [(k, j)]) zs) =
      printed_members zs" for zs
    by (induction zs) (auto simp: printed_members_def split: option.splits)
  have "fromEntries (map (\<lambda>(k, v). (k, toCanonicalValue v)) (sort_key fst kvs)) =
      map (\<lambda>(k, v). (k, toCanonicalValue v)) (ordered kvs)"
    by (simp add: fromEntries_map ordered_def)
  then have "canonical_print (Js_object kvs) = Some (JObj (concat
      (map (\<lambda>(k, v). case canonical_print v of None \<Rightarrow> [] | Some j \<Rightarrow> [(k, j)]) (ordered kvs))))"
    by (simp add: canonical_print_def case_prod_beta' o_def cong: option.case_cong)
  also have "\<dots> = Some (JObj (printed_members (ordered kvs)))" by (simp only: members)
  also have "printed_members (ordered kvs) = ordered (printed_members kvs)"
    by (simp only: printed_members_def ordered_map ordered_filter)
  finally show ?thesis .
qed

lemma canonical_print_array:
  "canonical_print (Js_array xs) = Some (JArr (map (\<lambda>x. case canonical_print x of None \<Rightarrow> JNull | Some j \<Rightarrow> j) xs))"
  by (simp add: canonical_print_def o_def)

lemma canonical_print_simps [simp]:
  "canonical_print Js_undefined = None" "canonical_print Js_null = Some JNull"
  "canonical_print (Js_bool b) = Some (JBool b)" "canonical_print (Js_number n) = Some (JNum n)"
  "canonical_print Js_not_finite = Some JNull" "canonical_print (Js_string s) = Some (JStr s)"
  "canonical_print (Js_date d) = Some (case d of None \<Rightarrow> JNull | Some s \<Rightarrow> JStr s)"
  by (simp_all add: canonical_print_def)

lemma canonical_print_None_iff [simp]: "canonical_print v = None \<longleftrightarrow> v = Js_undefined"
  by (cases v) (simp_all add: canonical_print_object canonical_print_array)

lemma map_of_printed_members:
  assumes "distinct (map fst kvs)"
  shows "map_of (printed_members kvs) k = Option.bind (member_value kvs k) canonical_print"
  using assms
proof (induction kvs)
  case Nil
  then show ?case by (simp add: printed_members_def member_value_def)
next
  case (Cons kv kvs)
  have "map_of kvs (fst kv) = None" using Cons.prems by (simp add: map_of_eq_None_iff)
  with Cons show ?case
    by (cases "canonical_print (snd kv)")
      (auto simp: printed_members_def member_value_def case_prod_beta')
qed

lemma distinct_printed_members:
  "distinct (map fst kvs) \<Longrightarrow> distinct (map fst (printed_members kvs))"
  by (simp add: printed_members_def distinct_map_filter o_def case_prod_beta')

lemma map_of_printed_members_eq:
  assumes "distinct (map fst xs)" "distinct (map fst ys)"
  shows "ordered (printed_members xs) = ordered (printed_members ys) \<longleftrightarrow>
    (\<forall>k. Option.bind (member_value xs k) canonical_print = Option.bind (member_value ys k) canonical_print)"
  using assms
  by (simp add: ordered_eq_iff distinct_printed_members fun_eq_iff map_of_printed_members)

section \<open>The comparison is equality of data\<close>

text \<open>The values that print as \<open>null\<close> and as a given text.\<close>

lemma canonical_print_null: "canonical_print v = Some JNull \<longleftrightarrow> null_like v"
  by (cases v) (auto simp: null_like_def canonical_print_object canonical_print_array split: option.splits)

lemma canonical_print_text: "canonical_print v = Some (JStr s) \<longleftrightarrow> text_like v s"
  by (cases v) (auto simp: text_like_def canonical_print_object canonical_print_array split: option.splits)

lemma canonical_print_atoms:
  "canonical_print v = Some (JBool x) \<longleftrightarrow> v = Js_bool x"
  "canonical_print v = Some (JNum n) \<longleftrightarrow> v = Js_number n"
  "canonical_print v = Some (JArr js) \<longleftrightarrow>
     (\<exists>xs. v = Js_array xs \<and> js = map (\<lambda>x. case canonical_print x of None \<Rightarrow> JNull | Some j \<Rightarrow> j) xs)"
  "canonical_print v = Some (JObj ms) \<longleftrightarrow> (\<exists>xs. v = Js_object xs \<and> ms = ordered (printed_members xs))"
  by (cases v; auto simp: canonical_print_object canonical_print_array split: option.splits)+

lemma printed_atoms:
  "None = canonical_print v \<longleftrightarrow> v = Js_undefined" "Some JNull = canonical_print v \<longleftrightarrow> null_like v"
  "Some (JStr s) = canonical_print v \<longleftrightarrow> text_like v s"
  "Some (JBool x) = canonical_print v \<longleftrightarrow> v = Js_bool x" "Some (JNum n) = canonical_print v \<longleftrightarrow> v = Js_number n"
  by (simp_all add: eq_commute [of _ "canonical_print v"] canonical_print_null canonical_print_text
      canonical_print_atoms)

lemma element_eq_iff:
  "(case canonical_print x of None \<Rightarrow> JNull | Some j \<Rightarrow> j) =
   (case canonical_print y of None \<Rightarrow> JNull | Some j \<Rightarrow> j) \<longleftrightarrow>
   canonical_print x = canonical_print y \<or>
   (null_like x \<or> x = Js_undefined) \<and> (null_like y \<or> y = Js_undefined)"
  by (cases "canonical_print x"; cases "canonical_print y") (auto simp flip: canonical_print_null)

lemma member_value_defined: "member_value kvs k = Some v \<Longrightarrow> (k, v) \<in> set kvs \<and> v \<noteq> Js_undefined"
  by (auto simp: member_value_def dest: map_of_SomeD split: option.splits if_splits)

lemma member_print_eq_iff:
  "Option.bind (member_value xs k) canonical_print = Option.bind (member_value ys k) canonical_print \<longleftrightarrow>
     (member_value xs k = None \<longleftrightarrow> member_value ys k = None) \<and>
     (\<forall>a b. member_value xs k = Some a \<longrightarrow> member_value ys k = Some b \<longrightarrow> canonical_print a = canonical_print b)"
  by (cases "member_value xs k"; cases "member_value ys k")
    (auto dest: member_value_defined simp: eq_commute [of None])

lemma same_value_iff:
  "well_keyed a \<Longrightarrow> well_keyed b \<Longrightarrow> same_value a b \<longleftrightarrow> canonical_print a = canonical_print b"
proof (induction a arbitrary: b rule: toCanonicalValue.induct)
  case (1 xs)
  have "canonical_print (Js_array xs) = canonical_print b \<longleftrightarrow>
      (\<exists>ys. b = Js_array ys \<and> length xs = length ys \<and> (\<forall>n < length xs.
        canonical_print (xs ! n) = canonical_print (ys ! n) \<or>
        (null_like (xs ! n) \<or> xs ! n = Js_undefined) \<and> (null_like (ys ! n) \<or> ys ! n = Js_undefined)))"
    unfolding canonical_print_array eq_commute [of "Some (JArr _)"] canonical_print_atoms
    by (simp add: list_eq_iff_nth_eq element_eq_iff cong: conj_cong)
  moreover have "same_value (xs ! n) (ys ! n) \<longleftrightarrow> canonical_print (xs ! n) = canonical_print (ys ! n)"
    if "b = Js_array ys" "length xs = length ys" "n < length xs" for ys n
    using "1.IH" [of "xs ! n" "ys ! n"] "1.prems" that by simp
  ultimately show ?case by (auto simp: same_value_array)
next
  case (2 kvs)
  have "canonical_print (Js_object kvs) = canonical_print b \<longleftrightarrow>
      (\<exists>ys. b = Js_object ys \<and> ordered (printed_members kvs) = ordered (printed_members ys))"
    unfolding canonical_print_object eq_commute [of "Some (JObj _)"] canonical_print_atoms by auto
  moreover have "ordered (printed_members kvs) = ordered (printed_members ys) \<longleftrightarrow>
      (\<forall>k. member_value kvs k = None \<longleftrightarrow> member_value ys k = None) \<and>
      (\<forall>k x y. member_value kvs k = Some x \<longrightarrow> member_value ys k = Some y \<longrightarrow> same_value x y)"
    if b: "b = Js_object ys" for ys
  proof -
    have IH: "same_value x y \<longleftrightarrow> canonical_print x = canonical_print y"
      if "member_value kvs k = Some x" "member_value ys k = Some y" for k x y
      using "2.IH" [of "(k, x)" k x y] "2.prems" b that [THEN member_value_defined] by fastforce
    have "ordered (printed_members kvs) = ordered (printed_members ys) \<longleftrightarrow>
        (\<forall>k. (member_value kvs k = None \<longleftrightarrow> member_value ys k = None) \<and>
          (\<forall>x y. member_value kvs k = Some x \<longrightarrow> member_value ys k = Some y \<longrightarrow>
            canonical_print x = canonical_print y))"
      using "2.prems" b by (subst map_of_printed_members_eq) (simp_all add: member_print_eq_iff)
    with IH show ?thesis by blast
  qed
  ultimately show ?case unfolding same_value_object by blast
qed (simp_all add: same_value_atoms printed_atoms split: option.splits)

section \<open>The values of the persisted artifacts\<close>

text \<open>
  The JSON values of \<open>Json\<close> are the runtime values without \<open>undefined\<close>, non-finite numbers and
  dates. On them the comparison is \<open>areJsonEqual\<close>, which does not reorder array indexes.
\<close>

fun js_of :: "json \<Rightarrow> js_value" where
  "js_of JNull = Js_null"
| "js_of (JBool b) = Js_bool b"
| "js_of (JNum n) = Js_number n"
| "js_of (JStr s) = Js_string s"
| "js_of (JArr xs) = Js_array (map js_of xs)"
| "js_of (JObj kvs) = Js_object (map (\<lambda>(k, v). (k, js_of v)) kvs)"

lemma js_of_defined [simp]: "js_of j \<noteq> Js_undefined" "Js_undefined \<noteq> js_of j"
  by (cases j; simp)+

lemma member_value_js_of: "member_value (map (\<lambda>(k, v). (k, js_of v)) kvs) k = map_option js_of (map_of kvs k)"
  by (auto simp: member_value_def map_of_map_snd split: option.splits)

lemma null_like_js_of [simp]: "null_like (js_of j) \<longleftrightarrow> j = JNull"
  by (cases j) (simp_all add: null_like_def)

lemma text_like_js_of [simp]: "text_like (js_of j) s \<longleftrightarrow> j = JStr s"
  by (cases j) (simp_all add: text_like_def)

lemma map_of_canonical_members:
  "map_of (sort_key fst (canonical_members kvs)) k = map_option toCanonicalJsonValue (map_of kvs k)"
  by (simp add: map_of_sort_key canonical_members_def map_of_map_snd)

text \<open>Objects with distinct keys are equal when they are the same map up to equality of members.\<close>

lemma areJsonEqual_objects:
  assumes "distinct (map fst xs)" "distinct (map fst ys)"
  shows "areJsonEqual (JObj xs) (JObj ys) \<longleftrightarrow>
    (\<forall>k. map_option toCanonicalJsonValue (map_of xs k) = map_option toCanonicalJsonValue (map_of ys k))"
proof
  show "areJsonEqual (JObj xs) (JObj ys) \<Longrightarrow>
    \<forall>k. map_option toCanonicalJsonValue (map_of xs k) = map_option toCanonicalJsonValue (map_of ys k)"
    by (simp add: areJsonEqual_object_lookup)
next
  let ?m = canonical_members
  assume "\<forall>k. map_option toCanonicalJsonValue (map_of xs k) = map_option toCanonicalJsonValue (map_of ys k)"
  then have same: "map_of (?m xs) = map_of (?m ys)"
    by (simp add: fun_eq_iff canonical_members_def map_of_map_snd)
  have keys: "map fst (?m zs) = map fst zs" for zs by (simp add: canonical_members_def case_prod_beta')
  have dist: "distinct (map fst (?m xs))" "distinct (map fst (?m ys))" using assms by (simp_all only: keys)
  from same have "set (?m xs) = set (?m ys)" by (simp only: map_of_inject_set [OF dist])
  then have "mset (?m xs) = mset (?m ys)"
    using dist by (simp add: distinct_map set_eq_iff_mset_eq_distinct)
  then have "sort_key fst (?m xs) = sort_key fst (?m ys)"
    using dist by (intro sort_key_inj_key_eq) (simp_all add: distinct_map)
  then show "areJsonEqual (JObj xs) (JObj ys)" by (simp add: areJsonEqual_object)
qed

lemma same_value_js_of_array:
  "same_value (js_of (JArr xs)) (js_of b) \<longleftrightarrow>
     (\<exists>ys. b = JArr ys \<and> list_all2 (\<lambda>x y. same_value (js_of x) (js_of y)) xs ys)"
proof -
  have null: "same_value Js_null Js_null" by (rule same_null) (simp_all add: null_like_def)
  show ?thesis
    by (cases b) (auto simp: same_value_array list_all2_conv_all_nth null)
qed

lemma same_value_js_of_object:
  "same_value (js_of (JObj xs)) (js_of b) \<longleftrightarrow>
     (\<exists>ys. b = JObj ys \<and> (\<forall>k. rel_option (\<lambda>x y. same_value (js_of x) (js_of y)) (map_of xs k) (map_of ys k)))"
proof -
  have "rel_option P s t \<longleftrightarrow> (s = None \<longleftrightarrow> t = None) \<and> (\<forall>x y. s = Some x \<longrightarrow> t = Some y \<longrightarrow> P x y)"
    for P :: "json \<Rightarrow> json \<Rightarrow> bool" and s t
    by (cases s; cases t) simp_all
  then show ?thesis
    by (cases b) (simp_all add: same_value_object member_value_js_of, blast)
qed

lemma well_keyed_js_of:
  "well_keyed (js_of (JArr xs)) \<longleftrightarrow> (\<forall>x \<in> set xs. well_keyed (js_of x))"
  "well_keyed (js_of (JObj kvs)) \<longleftrightarrow> distinct (map fst kvs) \<and> (\<forall>(k, v) \<in> set kvs. well_keyed (js_of v))"
  by (auto simp: o_def case_prod_beta')

lemma well_keyed_member: "well_keyed (js_of (JObj kvs)) \<Longrightarrow> map_of kvs k = Some v \<Longrightarrow> well_keyed (js_of v)"
  unfolding well_keyed_js_of by (auto dest: map_of_SomeD)

lemma js_of_atoms:
  "js_of b = Js_null \<longleftrightarrow> b = JNull" "js_of b = Js_bool x \<longleftrightarrow> b = JBool x" "js_of b = Js_number n \<longleftrightarrow> b = JNum n"
  by (cases b; auto)+

lemma same_value_js_of_atoms:
  "same_value (js_of JNull) (js_of b) \<longleftrightarrow> b = JNull"
  "same_value (js_of (JBool x)) (js_of b) \<longleftrightarrow> b = JBool x"
  "same_value (js_of (JNum n)) (js_of b) \<longleftrightarrow> b = JNum n"
  "same_value (js_of (JStr s)) (js_of b) \<longleftrightarrow> b = JStr s"
  by (simp_all add: same_value_atoms js_of_atoms)

lemma canonical_atoms:
  "toCanonicalJsonValue b = JNull \<longleftrightarrow> b = JNull" "toCanonicalJsonValue b = JBool x \<longleftrightarrow> b = JBool x"
  "toCanonicalJsonValue b = JNum n \<longleftrightarrow> b = JNum n" "toCanonicalJsonValue b = JStr s \<longleftrightarrow> b = JStr s"
  by (cases b; auto)+

lemma same_value_js_of:
  "well_keyed (js_of a) \<Longrightarrow> well_keyed (js_of b) \<Longrightarrow> same_value (js_of a) (js_of b) \<longleftrightarrow> areJsonEqual a b"
proof (induction a arbitrary: b rule: toCanonicalJsonValue.induct)
  case (1 xs)
  show ?case
  proof (cases "\<exists>ys. b = JArr ys")
    case True
    then obtain ys where b: "b = JArr ys" by blast
    have "list_all2 (\<lambda>x y. same_value (js_of x) (js_of y)) xs ys \<longleftrightarrow> list_all2 areJsonEqual xs ys"
      using 1 b by (intro list.rel_cong) (simp_all add: well_keyed_js_of)
    with b show ?thesis by (simp add: same_value_js_of_array areJsonEqual_array del: js_of.simps)
  next
    case False
    then show ?thesis by (cases b) (auto simp: same_value_js_of_array areJsonEqual_canonical simp del: js_of.simps)
  qed
next
  case (2 kvs)
  show ?case
  proof (cases "\<exists>kws. b = JObj kws")
    case True
    then obtain kws where b: "b = JObj kws" by blast
    have "same_value (js_of x) (js_of y) \<longleftrightarrow> areJsonEqual x y"
      if "map_of kvs k = Some x" "map_of kws k = Some y" for k x y
      using "2.IH" [of "(k, x)" k x y] "2.prems" b that well_keyed_member
      by (auto dest: map_of_SomeD simp del: js_of.simps)
    then have "rel_option (\<lambda>x y. same_value (js_of x) (js_of y)) (map_of kvs k) (map_of kws k) \<longleftrightarrow>
        map_option toCanonicalJsonValue (map_of kvs k) = map_option toCanonicalJsonValue (map_of kws k)" for k
      by (cases "map_of kvs k"; cases "map_of kws k") (simp_all add: areJsonEqual_canonical)
    with b "2.prems" show ?thesis
      by (simp add: same_value_js_of_object areJsonEqual_objects well_keyed_js_of del: js_of.simps)
  next
    case False
    then show ?thesis by (cases b) (auto simp: same_value_js_of_object areJsonEqual_canonical simp del: js_of.simps)
  qed
qed (auto simp: same_value_js_of_atoms areJsonEqual_canonical canonical_atoms eq_commute [of _ "toCanonicalJsonValue _"]
    simp del: js_of.simps)

end
