(* ===== verification/Sync_Properties.thy ===== *)
theory Sync_Properties
  imports Samples Snapshot_Review Json_Equality
begin

text \<open>
  The properties of synchronisation: version vectors form a lattice of causal histories, a review
  lists exactly what changed, and a resolved vault is consistent, dominates both sides and is
  accepted by the other side.
\<close>

section \<open>Version vectors\<close>

text \<open>
  C33: comparing two version vectors decides their pointwise order, and merging computes the least
  upper bound; an absent device counts as zero on both sides.
\<close>

theorem version_vectors_form_a_lattice:
  "compareVersionVectors l r =
     (if vv_get l = vv_get r then Equal
      else if vv_get r \<le> vv_get l then Local_ahead
      else if vv_get l \<le> vv_get r then Remote_ahead
      else Broken) \<and>
   vv_get (mergeVersionVectors l r) = sup (vv_get l) (vv_get r) \<and>
   (isVersionVectorAheadOf l r \<longleftrightarrow> \<not> vv_get l \<le> vv_get r)"
  by (simp add: compareVersionVectors_alt isVersionVectorAheadOf_iff)

text \<open>
  Incrementing adds one to the counter of its device and to nothing else, up to the bound of the
  runtime: at \<open>2 ^ 53\<close> the sum of the runtime rounds back and the increment is lost. A counter
  never passes the bound.
\<close>

theorem increment_is_exact_below_the_bound:
  "vv_get (incrementVersionVector v d) =
     (vv_get v)(d := (if vv_get v d < 2 ^ 53 then vv_get v d + 1 else vv_get v d)) \<and>
   (vv_get (incrementVersionVector v d) d \<le> 2 ^ 53 \<longleftrightarrow> vv_get v d \<le> 2 ^ 53)"
  by (auto simp: js_succ_def js_limit_def)

text \<open>
  C34: the comparison of canonical JSON decides equality of data, special values of the runtime included.
  Two values are equal to the code exactly when they are the same atoms, the same lists element by
  element, or objects with the same defined members in whatever order; a date is its ISO text, an
  invalid date and a number that is not finite are \<open>null\<close>, an undefined member is absent and an
  undefined element is \<open>null\<close>. The values of the persisted artifacts, which have none of these
  special values, are a part of it.
\<close>

theorem json_equality_is_equality_of_data:
  assumes "well_keyed a" "well_keyed b"
  shows "(areValuesEqual a b \<longleftrightarrow> same_value a b) \<and>
    (\<forall>x y. a = js_of x \<longrightarrow> b = js_of y \<longrightarrow> (areJsonEqual x y \<longleftrightarrow> same_value a b))"
proof (intro conjI allI impI)
  show "areValuesEqual a b \<longleftrightarrow> same_value a b" using assms by (simp add: areValuesEqual_iff same_value_iff)
  show "areJsonEqual x y \<longleftrightarrow> same_value a b" if "a = js_of x" "b = js_of y" for x y
    using assms same_value_js_of [of x y] that by simp
qed

theorem json_equality_is_equality_of_data_witness:
  "areValuesEqual
     (Js_object [(''b'', Js_number 1), (''a'', Js_undefined), (''c'', Js_array [Js_date (Some ''t''), Js_undefined])])
     (Js_object [(''c'', Js_array [Js_string ''t'', Js_null]), (''b'', Js_number 1)])"
  (is "areValuesEqual ?a ?b")
proof -
  have "same_value (Js_array [Js_date (Some ''t''), Js_undefined]) (Js_array [Js_string ''t'', Js_null])"
    by (simp add: same_value_array less_Suc_eq same_value_atoms text_like_def null_like_def)
  then have "same_value ?a ?b"
    by (auto simp: same_value_object member_value_def same_value_atoms split: if_splits)
  moreover have "well_keyed ?a" "well_keyed ?b" by simp_all
  ultimately show ?thesis using json_equality_is_equality_of_data [of ?a ?b] by blast
qed

section \<open>Reviews\<close>

text \<open>
  The relation of a local and a remote entry. Equal means equal data up to the order of the
  version vector; remote-only means that only the remote side knows the entry; remote-ahead means
  that both know it, that they differ, and that the remote vector strictly dominates the local one.
  Everything else is broken.
\<close>

theorem entry_relation_is_causal_order:
  "getEntryRelation s t =
     (if areJsonEqual (reviewable_json entry_kind s) (reviewable_json entry_kind t) then Rel_equal
      else if s = Missing then Rel_remote_only
      else if t \<noteq> Missing \<and> state_counters e_versionVector s < state_counters e_versionVector t
      then Rel_remote_ahead else Rel_broken)"
proof -
  have "s = Missing \<Longrightarrow> t = Missing \<Longrightarrow>
      areJsonEqual (reviewable_json entry_kind s) (reviewable_json entry_kind t)" by simp
  moreover have "state_counters e_versionVector s < state_counters e_versionVector t \<Longrightarrow>
      \<not> areJsonEqual (reviewable_json entry_kind s) (reviewable_json entry_kind t)"
    using entry.json_equal_counters [of s t] by (auto simp: less_le)
  moreover have "getEntryRelation s t \<in> {Rel_equal, Rel_remote_ahead, Rel_remote_only, Rel_broken}"
    by (cases "getEntryRelation s t") simp_all
  ultimately show ?thesis
    using entry.get_relation_iff [of s t] by (auto simp: getEntryRelation_def)
qed

text \<open>
  What a review compares, without reference to JSON: the data of an entry and its version vector,
  read as a map. A vector is an object, so it names a device once.
\<close>

fun without_vector :: "PasswordEntry reviewable \<Rightarrow> PasswordEntry reviewable" where
  "without_vector (Item e) = Item (e\<lparr>e_versionVector := []\<rparr>)"
| "without_vector (Deleted t) = Deleted (t\<lparr>del_versionVector := []\<rparr>)"
| "without_vector Missing = Missing"

fun vector_map :: "PasswordEntry reviewable \<Rightarrow> string \<rightharpoonup> nat" where
  "vector_map (Item e) = map_of (e_versionVector e)"
| "vector_map (Deleted t) = map_of (del_versionVector t)"
| "vector_map Missing = Map.empty"

definition same_state :: "PasswordEntry reviewable \<Rightarrow> PasswordEntry reviewable \<Rightarrow> bool" where
  "same_state s t \<longleftrightarrow> without_vector s = without_vector t \<and> vector_map s = vector_map t"

definition vectors_are_objects :: "Vault \<Rightarrow> bool" where
  "vectors_are_objects v \<longleftrightarrow>
     (\<forall>e \<in> set (v_entries v). distinct (map fst (e_versionVector e))) \<and>
     (\<forall>t \<in> set (v_deletedEntries v). distinct (map fst (del_versionVector t)))"

lemma areJsonEqual_vectors:
  assumes "distinct (map fst v)" "distinct (map fst w)"
  shows "areJsonEqual (vv_json v) (vv_json w) \<longleftrightarrow> map_of v = map_of w"
proof -
  have keys: "map fst (map (\<lambda>(k, n). (k, JNum (int n))) u) = map fst u" for u :: VersionVector
    by (simp add: case_prod_beta')
  have "map_option toCanonicalJsonValue (map_option (\<lambda>n. JNum (int n)) x) =
      map_option toCanonicalJsonValue (map_option (\<lambda>n. JNum (int n)) y) \<longleftrightarrow> x = y" for x y :: "nat option"
    by (cases x; cases y) simp_all
  with assms show ?thesis
    unfolding vv_json_def by (subst areJsonEqual_objects) (simp_all only: keys map_of_map_snd fun_eq_iff)
qed

lemma entry_state_vector:
  assumes "vectors_are_objects v"
  shows "entry_state v i = Item e \<Longrightarrow> distinct (map fst (e_versionVector e))"
    and "entry_state v i = Deleted t \<Longrightarrow> distinct (map fst (del_versionVector t))"
  using assms unfolding vectors_are_objects_def entry_state_def by (blast dest: item_state_in)+

lemma same_state_iff:
  assumes "vectors_are_objects l" "vectors_are_objects r"
  shows "areJsonEqual (reviewable_json entry_kind (entry_state l i)) (reviewable_json entry_kind (entry_state r i)) \<longleftrightarrow>
    same_state (entry_state l i) (entry_state r i)"
proof -
  note objects = entry_state_vector [OF assms(1), of i] entry_state_vector [OF assms(2), of i]
  show ?thesis
  proof (cases "entry_state l i"; cases "entry_state r i")
    fix x y assume "entry_state l i = Item x" "entry_state r i = Item y"
    with objects show ?thesis
      by (cases x; cases y) (simp add: reviewable_json_def entry_kind_def areJsonEqual_same_keys
          entry_json_equal_iff areJsonEqual_vectors same_state_def, blast?)
  next
    fix x y assume "entry_state l i = Deleted x" "entry_state r i = Deleted y"
    with objects show ?thesis
      by (cases x; cases y) (simp add: reviewable_json_def entry_kind_def areJsonEqual_same_keys
          tombstone_json_equal_iff areJsonEqual_vectors same_state_def, blast?)
  qed (use entry.json_equal_cases [of "entry_state l i" "entry_state r i"] in \<open>auto simp: same_state_def\<close>)
qed

text \<open>
  When a review may take the remote state over: the two sides agree, or the remote side knows the
  entry and the local side does not, or the remote side has seen strictly more of its changes.
\<close>

definition reviewable_change :: "PasswordEntry reviewable \<Rightarrow> PasswordEntry reviewable \<Rightarrow> bool" where
  "reviewable_change s t \<longleftrightarrow> same_state s t \<or> t \<noteq> Missing \<and>
     (s = Missing \<or> state_counters e_versionVector s < state_counters e_versionVector t)"

lemma review_row_entry:
  assumes "vectors_are_objects l" "vectors_are_objects r"
  shows "getEntryRelation (entry_state l i) (entry_state r i) = Rel_equal \<longleftrightarrow> same_state (entry_state l i) (entry_state r i)"
    and "getEntryRelation (entry_state l i) (entry_state r i) \<noteq> Rel_broken \<longleftrightarrow>
      reviewable_change (entry_state l i) (entry_state r i)"
    and "reviewable_change (entry_state l i) (entry_state r i) \<Longrightarrow> \<not> same_state (entry_state l i) (entry_state r i) \<Longrightarrow>
      getEntryRelation (entry_state l i) (entry_state r i) =
        (if entry_state l i = Missing then Rel_remote_only else Rel_remote_ahead)"
proof -
  have "same_state Missing Missing" by (simp add: same_state_def)
  then show "getEntryRelation (entry_state l i) (entry_state r i) = Rel_equal \<longleftrightarrow> same_state (entry_state l i) (entry_state r i)"
    "getEntryRelation (entry_state l i) (entry_state r i) \<noteq> Rel_broken \<longleftrightarrow>
      reviewable_change (entry_state l i) (entry_state r i)"
    "reviewable_change (entry_state l i) (entry_state r i) \<Longrightarrow> \<not> same_state (entry_state l i) (entry_state r i) \<Longrightarrow>
      getEntryRelation (entry_state l i) (entry_state r i) =
        (if entry_state l i = Missing then Rel_remote_only else Rel_remote_ahead)"
    unfolding entry_relation_is_causal_order same_state_iff [OF assms] reviewable_change_def by auto
qed

text \<open>
  C31: the review of the entries of two well-formed vaults. It succeeds exactly when, for every
  identity whatever, the two sides agree, or the remote side has the entry or its deletion and the
  local side has nothing or an older version of it. The rows are then exactly the identities whose
  data or vectors differ, those of local entries first, then of remote entries, of local and of
  remote deletions; each row says whether the local side has the entry, shows both states and
  preselects the remote one.
\<close>

theorem entry_review_is_exact:
  assumes "vault_ok l" "vault_ok r" "vectors_are_objects l" "vectors_are_objects r"
  shows "findChangedEntries l r = Inr reviews \<longleftrightarrow>
    (\<forall>i. reviewable_change (entry_state l i) (entry_state r i)) \<and>
    set (map rv_id reviews) = {i. \<not> same_state (entry_state l i) (entry_state r i)} \<and>
    map rv_id reviews = filter (\<lambda>i. \<not> same_state (entry_state l i) (entry_state r i))
      (js_set (map e_id (v_entries l) @ map e_id (v_entries r) @
               map del_id (v_deletedEntries l) @ map del_id (v_deletedEntries r))) \<and>
    (\<forall>row \<in> set reviews. row = \<lparr>rv_id = rv_id row,
       rv_relation = (if entry_state l (rv_id row) = Missing then Rel_remote_only else Rel_remote_ahead),
       rv_preselectedAction = Use_remote,
       rv_local = entry_state l (rv_id row), rv_remote = entry_state r (rv_id row)\<rparr>)"
  (is "?run \<longleftrightarrow> ?ok \<and> ?members \<and> ?order \<and> ?rows")
proof -
  let ?ids = "js_set (map e_id (v_entries l) @ map e_id (v_entries r) @
    map del_id (v_deletedEntries l) @ map del_id (v_deletedEntries r))"
  let ?same = "\<lambda>i. same_state (entry_state l i) (entry_state r i)"
  let ?row = "\<lambda>i. \<lparr>rv_id = i,
       rv_relation = (if entry_state l i = Missing then Rel_remote_only else Rel_remote_ahead),
       rv_preselectedAction = Use_remote, rv_local = entry_state l i, rv_remote = entry_state r i\<rparr>"
  have ids: "find_all_ids entry_kind l r = ?ids" by (simp add: find_all_ids_def)
  have absent: "?same i" if "i \<notin> set ?ids" for i
    using that entry.find_all_ids_complete [of i l r] unfolding ids by (simp add: kind_states same_state_def)
  then have all: "?ok \<longleftrightarrow> (\<forall>i \<in> set ?ids. reviewable_change (entry_state l i) (entry_state r i))"
    unfolding reviewable_change_def by blast
  note rel = review_row_entry [OF assms(3,4)]
  have finder: "find_item entry_kind v i = Inr (entry_state v i)" if "vault_ok v" for v i
    using entry.find_item_ok [of v i] that by (simp add: vault_ok_def collection_ok_def kind_states)
  have sound: "?ok \<and> rows = map ?row (filter (\<lambda>i. \<not> ?same i) ?ids)" if "findChangedEntries l r = Inr rows" for rows
  proof -
    from entry.find_changed_sound [OF entry.sound_find_item, of l r rows] that
    have "rows = map (entry.review_row l r)
        (filter (\<lambda>i. getEntryRelation (entry_state l i) (entry_state r i) \<noteq> Rel_equal) ?ids)"
      and "\<forall>i \<in> set ?ids. getEntryRelation (entry_state l i) (entry_state r i) \<noteq> Rel_broken"
      by (simp_all add: find_changed_instances getEntryRelation_def kind_states ids)
    moreover from this(2) have ok: ?ok by (simp add: all rel)
    moreover have "entry.review_row l r i = ?row i" if "\<not> ?same i" for i
      using rel(3) [of i] ok that by (simp add: entry.review_row_def getEntryRelation_def kind_states)
    ultimately show ?thesis by (auto simp: rel)
  qed
  have exists: "\<exists>rows. findChangedEntries l r = Inr rows" if ?ok
    using entry.find_changed_complete [of "find_item entry_kind" l r] finder assms(1,2) that
    by (simp add: find_changed_instances getEntryRelation_def [symmetric] kind_states rel)
  have rows: "?members \<and> ?order \<and> ?rows \<longleftrightarrow> reviews = map ?row (filter (\<lambda>i. \<not> ?same i) ?ids)"
  proof
    assume eq: "reviews = map ?row (filter (\<lambda>i. \<not> ?same i) ?ids)"
    then have ?order ?rows by (auto simp: o_def)
    moreover from this(1) have ?members using absent by (simp only: set_filter) blast
    ultimately show "?members \<and> ?order \<and> ?rows" by blast
  next
    assume "?members \<and> ?order \<and> ?rows"
    then have order: ?order and each: ?rows by blast+
    from each have "reviews = map (\<lambda>row. ?row (rv_id row)) reviews" by (simp add: map_idI)
    also have "\<dots> = map ?row (map rv_id reviews)" by simp
    also have "\<dots> = map ?row (filter (\<lambda>i. \<not> ?same i) ?ids)" using order by (simp only:)
    finally show "reviews = map ?row (filter (\<lambda>i. \<not> ?same i) ?ids)" .
  qed
  show ?thesis
  proof
    assume "findChangedEntries l r = Inr reviews"
    from sound [OF this] have "?ok" "reviews = map ?row (filter (\<lambda>i. \<not> ?same i) ?ids)" by blast+
    with rows show "?ok \<and> ?members \<and> ?order \<and> ?rows" by blast
  next
    assume right: "?ok \<and> ?members \<and> ?order \<and> ?rows"
    then obtain found where found: "findChangedEntries l r = Inr found" using exists by blast
    from right rows have "reviews = map ?row (filter (\<lambda>i. \<not> ?same i) ?ids)" by blast
    also have "\<dots> = found" using sound [OF found] by (simp only:)
    finally show "findChangedEntries l r = Inr reviews" using found by (simp only:)
  qed
qed

lemma sample_vectors: "vectors_are_objects sample_vault" "vectors_are_objects sample_remote"
  by (simp_all add: vectors_are_objects_def sample_remote_def sample_vault_def sample_entry_def)

theorem entry_review_is_exact_witness:
  "{i. \<not> same_state (entry_state sample_vault i) (entry_state sample_remote i)} = {''e''}"
  using entry_review_is_exact [OF sample_vaults_ok sample_vectors, of "sr_entryReviews sample_review"]
    sample_entry_review by (simp add: sample_review_def)

section \<open>Resolutions\<close>

text \<open>
  C32: the state that a resolution gives every entry. Where both sides agree, the local entry is
  kept. Elsewhere the entry, or its deletion, has the data of the side that the resolution names
  for it, the remote side where it names none; and its counters are, for every device, the larger of
  the two sides' counters, the resolving device's then counted up by one.
\<close>

theorem resolution_takes_the_chosen_side:
  assumes "reviewed_vaults l r review" "applyVaultSyncResolution nfkc l r review res d = Inr v'"
    and "vectors_are_objects l" "vectors_are_objects r"
  shows "let s = entry_state l i; t = entry_state r i; s' = entry_state v' i;
       chosen = (if \<lparr>rr_id = i, rr_action = Use_local\<rparr> \<in> set (entryResolutions res) then s else t);
       before = (\<lambda>device. max (state_counters e_versionVector s device) (state_counters e_versionVector t device))
     in if same_state s t then s' = s
        else s' \<noteq> Missing \<and> without_vector s' = without_vector chosen \<and>
          state_counters e_versionVector s' = before(d := js_succ (before d))"
proof -
  let ?s = "entry_state l i" and ?t = "entry_state r i"
  let ?chosen = "if chosen_local (entryResolutions res) i then ?s else ?t"
  have state: "entry_state v' i =
      (if same_state ?s ?t then ?s else stamp_state entry_kind ?chosen ?s ?t d)"
    using resolved_vault_states(1) [OF assms(1,2)] same_state_iff [OF assms(3,4), of i]
    by (simp add: entry.merged_state_def kind_states Let_def)
  have named: "chosen_local (entryResolutions res) i \<longleftrightarrow>
      \<lparr>rr_id = i, rr_action = Use_local\<rparr> \<in> set (entryResolutions res)"
  proof -
    have "q = \<lparr>rr_id = i, rr_action = Use_local\<rparr>" if "rr_id q = i" "rr_action q = Use_local" for q
      using that by (cases q) simp
    then show ?thesis unfolding chosen_local_def
      by (metis review_resolution.select_convs(1,2))
  qed
  have kept: "?chosen \<noteq> Missing" if differ: "\<not> same_state ?s ?t"
  proof -
    note run = reviewed_vaults_D(1) [OF assms(1)]
    from assms(2) obtain es where
      "resolve_states entry_kind (sr_entryReviews review) (entryResolutions res) d = Inr es"
      by (rule applyVaultSyncResolution_Inr)
    from entry.resolved_state_merged(2) [OF entry.sound_find_item run this, of i]
      entry.reviewed_states [OF entry.sound_find_item run, of i] differ same_state_iff [OF assms(3,4), of i]
    show ?thesis by (auto simp: kind_states)
  qed
  have erased: "without_vector (stamp_state entry_kind c ?s ?t d) = without_vector c" for c
    by (cases c) (simp_all add: stamp_state_def entry_kind_def Let_def)
  show ?thesis
    using kept state erased entry.stamp_Missing_iff [of ?chosen ?s ?t d] entry.stamp_counters [of ?chosen ?s ?t d]
    by (simp add: Let_def named sup_fun_def sup_max)
qed

theorem resolution_takes_the_chosen_side_witness:
  "without_vector (entry_state sample_resolved ''e'') = without_vector (Item sample_entry) \<and>
   state_counters e_versionVector (entry_state sample_resolved ''e'') = (\<lambda>_. 0)(''A'' := 1, ''B'' := 1)"
proof -
  have states: "entry_state sample_vault ''e'' = Missing" "entry_state sample_remote ''e'' = Item sample_entry"
    by (simp_all add: entry_state_def item_state_def find_deletion_def sample_vault_def sample_remote_def sample_entry_def)
  have "\<not> same_state Missing (Item sample_entry)" by (simp add: same_state_def)
  then show ?thesis
    using resolution_takes_the_chosen_side [OF sample_reviewed sample_resolved_eq sample_vectors, of "''e''"]
    by (auto simp: states sample_resolution_def sample_entry_def Let_def fun_eq_iff js_succ_def)
qed

text \<open>
  C3: resolving the review of two well-formed vaults, if it succeeds, yields a consistent vault,
  whatever sides were chosen.
\<close>

theorem resolved_vault_is_consistent:
  assumes "reviewed_vaults l r review" "applyVaultSyncResolution nfkc l r review res d = Inr v'"
    and "vault_ok l" "vault_ok r"
  shows "consistent_vault nfkc v'"
  using assms by (rule resolved_vault_consistent)

theorem resolved_vault_is_consistent_witness:
  "consistent_vault (rt_nfkc sample_runtime) sample_resolved"
  by (rule resolved_vault_is_consistent [OF sample_reviewed sample_resolved_eq sample_vaults_ok])

text \<open>
  C2: synchronisation converges. The vault that one device resolves can be reviewed by the other
  side against its own vault: no item is broken, so the other side only has newer items to take.
  The counter of the resolving device must not have saturated.
\<close>

theorem resolved_vault_is_accepted_back:
  assumes "reviewed_vaults l r review" "applyVaultSyncResolution nfkc l r review res d = Inr v'"
    and "vault_ok l" "vault_ok r" "vv_get (v_versionVector r) d < js_limit"
  shows "\<exists>review'. reviewed_vaults r v' review'"
  using assms by (rule resolved_vault_syncs_back)

theorem resolved_vault_is_accepted_back_witness: "\<exists>review'. reviewed_vaults sample_remote sample_resolved review'"
  by (rule resolved_vault_is_accepted_back [OF sample_reviewed sample_resolved_eq sample_vaults_ok sample_remote_counter])

section \<open>Key slots\<close>

text \<open>
  The review of the key slots. It succeeds exactly when each side lists a device once and no
  device has different slots on the two sides; it then reports the devices only the remote side has
  as added and the devices only the local side has as removed.
\<close>

theorem key_slot_review_is_exact:
  "findChangesInKeySlots l r = Inr review \<longleftrightarrow>
     distinct (map slot_deviceId l) \<and> distinct (map slot_deviceId r) \<and>
     \<not> (\<exists>s \<in> set l. \<exists>t \<in> set r. slot_deviceId s = slot_deviceId t \<and> s \<noteq> t) \<and>
     review = (let added = filter (\<lambda>i. i \<notin> slot_deviceId ` set l) (map slot_deviceId r);
                   removed = filter (\<lambda>i. i \<notin> slot_deviceId ` set r) (map slot_deviceId l)
               in \<lparr>ksr_deviceSlots = \<lparr>ks_addedDeviceIds = added, ks_removedDeviceIds = removed,
                     ks_changedDeviceIds = []\<rparr>,
                   ksr_hasChanges = (added \<noteq> [] \<or> removed \<noteq> [])\<rparr>)"
  unfolding findChangesInKeySlots_Inr by blast

theorem key_slot_review_is_exact_witness:
  "findChangesInKeySlots [sample_slot ''A''] [sample_slot ''A'', sample_slot ''C''] =
     Inr \<lparr>ksr_deviceSlots = \<lparr>ks_addedDeviceIds = [''C''], ks_removedDeviceIds = [], ks_changedDeviceIds = []\<rparr>,
       ksr_hasChanges = True\<rparr>"
  by (simp add: key_slot_review_is_exact sample_slot_def)

end
