(* ===== verification/Trust_Properties.thy ===== *)
theory Trust_Properties
  imports Samples
begin

text \<open>
  The properties of device trust: the chain verifier accepts exactly the valid chains, a revoked
  device never returns, verified chains that share a baseline share their history, and a checkpoint
  detects every rollback. The cryptography is a parameter; what is assumed of it is a named
  hypothesis, shown to be satisfiable by the toy scheme of the samples.
\<close>

section \<open>Certificate chains\<close>

text \<open>
  C22: the chain verifier accepts a chain exactly when it is valid, certificate by certificate, and
  then returns the trust state of the last certificate.
\<close>

theorem chain_verifier_is_exact:
  "verifyTrustChain cr v a chain = Inr t \<longleftrightarrow> valid_chain cr v a chain \<and> t = trust_of cr chain"
  by (rule verifyTrustChain_Inr_iff)

text \<open>
  C23: a revoked device never returns. In every chain that the verifier accepts, once an identity, a
  signing key or a vault key that was trusted is no longer trusted, it is trusted in no later
  certificate, not even under another name.
\<close>

theorem revoked_device_never_returns:
  assumes "verifyTrustChain cr v a chain = Inr t" "i < j" "j \<le> k" "k < length chain"
  shows "(x \<in> cert_ids (chain ! i) \<and> x \<notin> cert_ids (chain ! j) \<longrightarrow> x \<notin> cert_ids (chain ! k)) \<and>
    (y \<in> sign_digest cr ` set (cert_devices (chain ! i)) \<and> y \<notin> sign_digest cr ` set (cert_devices (chain ! j)) \<longrightarrow>
       y \<notin> sign_digest cr ` set (cert_devices (chain ! k))) \<and>
    (z \<in> vault_digest cr ` set (cert_devices (chain ! i)) \<and> z \<notin> vault_digest cr ` set (cert_devices (chain ! j)) \<longrightarrow>
       z \<notin> vault_digest cr ` set (cert_devices (chain ! k)))"
proof -
  have valid: "valid_chain cr v a chain" using assms(1) by (simp add: verifyTrustChain_Inr_iff)
  show ?thesis
    using revoked_identity_never_returns [OF valid] revoked_sign_key_never_returns [OF valid]
      revoked_vault_key_never_returns [OF valid] assms(2-4) by blast
qed

theorem revoked_device_never_returns_witness: "''B'' \<notin> cert_ids (sample_chain ! 3)"
proof -
  have "''B'' \<in> cert_ids (sample_chain ! 1)" "''B'' \<notin> cert_ids (sample_chain ! 2)"
    by (simp_all add: trust_evals ids_of_def)
  with revoked_device_never_returns [OF sample_chain_verifies, of 1 2 3] show ?thesis by simp
qed

text \<open>
  In a verified chain the generation of a certificate is its position and its vault key
  generation is one more than the number of revocations before it.
\<close>

theorem generations_count_transitions:
  assumes "verifyTrustChain cr v a chain = Inr t" "i < length chain"
  shows "cert_generation (chain ! i) = int i \<and>
    cert_keyGeneration (chain ! i) = 1 + int (revocations_until chain i)"
  using assms generation_position key_generation_position by (auto simp: verifyTrustChain_Inr_iff)

theorem generations_count_transitions_witness: "revocations_until sample_chain 2 = 1"
  using generations_count_transitions [OF sample_chain_verifies, of 2]
  by (simp add: sample_chain_def sample_cert_def)

text \<open>
  C24: descent is extension. If the digests of the certificates of two verified chains collide only
  on equal certificates, the check that the second descends from the trust of the first passes
  exactly when the second chain extends the first.
\<close>

theorem descent_is_extension:
  assumes "verifyTrustChain cr v a A = Inr s" "verifyTrustChain cr v b B = Inr t"
    and "collision_free cr (set A \<union> set B)"
  shows "requireTrustDescendsFrom cr v B t (ts_generation s) (ts_certificateDigest s) = Inr () \<longleftrightarrow>
    (\<exists>C. B = A @ C)"
  using descends_iff_extends [of cr v a A b B] assms by (simp add: verifyTrustChain_Inr_iff)

theorem descent_is_extension_witness:
  "requireTrustDescendsFrom sample_crypto ''V'' sample_chain (trust_of sample_crypto sample_chain)
     (ts_generation (trust_of sample_crypto (take 2 sample_chain)))
     (ts_certificateDigest (trust_of sample_crypto (take 2 sample_chain))) = Inr ()"
proof -
  have "collision_free sample_crypto (set (take 2 sample_chain) \<union> set sample_chain)"
    by (simp add: collision_free_def sample_chain_def sample_cert_def sample_crypto_def inj_on_def)
  moreover have "verifyTrustChain sample_crypto ''V'' sample_anchor (take 2 sample_chain) =
      Inr (trust_of sample_crypto (take 2 sample_chain))"
    using sample_prefix_valid by (simp add: verifyTrustChain_Inr_iff)
  ultimately show ?thesis
    using descent_is_extension [OF _ sample_chain_verifies] by (metis append_take_drop_id)
qed

text \<open>
  C25: what a device appends, everyone verifies. If every signature verifies under the public key of
  its key pair, a chain extended by an accepted transition is again accepted, with exactly the trust
  state that the appending device returned.
\<close>

theorem appended_transition_verifies:
  assumes "verifyTrustChain cr v a chain = Inr t" "signatures_verify cr"
    and "appendTrustTransition cr v chain t ds n authorizer privateKey = Inr (chain', t')"
  shows "verifyTrustChain cr v a chain' = Inr t'"
  using assms by (rule append_verifies)

theorem appended_transition_verifies_witness:
  "\<exists>t. verifyTrustChain sample_crypto ''V'' sample_anchor
     (take 2 sample_chain @ [sample_cert 2 2 (Some ''x'') [laptop]]) = Inr t"
proof -
  have "verifyTrustChain sample_crypto ''V'' sample_anchor (take 2 sample_chain) =
      Inr (trust_of sample_crypto (take 2 sample_chain))"
    using sample_prefix_valid by (simp add: verifyTrustChain_Inr_iff)
  moreover have "\<exists>t. appendTrustTransition sample_crypto ''V'' (take 2 sample_chain)
      (trust_of sample_crypto (take 2 sample_chain)) [laptop] 2 ''A'' [1] =
      Inr (take 2 sample_chain @ [sample_cert 2 2 (Some ''x'') [laptop]], t)"
    by (simp add: appendTrustTransition_def trust_of_def trust_evals requireValidDeviceIdentities_def
        requireUniquePublicKeys_def requireValidTrustTransition_def areDeviceIdentitiesEqual_def
        arePublicKeysEqual_def)
  ultimately show ?thesis using appended_transition_verifies sample_signatures_verify by blast
qed

section \<open>Replaying transitions\<close>

text \<open>
  C26: replaying the transitions that lead from an earlier trust state of a verified chain to its
  current one, starting from the devices trusted earlier, yields the devices trusted now, and every
  revocation among them accounts for one vault key generation.
\<close>

theorem suffix_replays_to_current_trust:
  assumes "verifyTrustChain cr v a chain = Inr t" "0 < n" "n < length chain"
    and "verifyDeviceTrustSuffix cr v chain (trust_of cr (take n chain)) t = Inr transitions"
  shows "fold replay transitions (ids_of (ts_trustedDevices (trust_of cr (take n chain)))) =
      ids_of (ts_trustedDevices t) \<and>
    ts_vaultKeyGeneration t = ts_vaultKeyGeneration (trust_of cr (take n chain)) +
      int (length (filter is_revocation transitions))"
proof -
  have valid: "valid_chain cr v a chain" and t: "t = trust_of cr chain"
    using assms(1) by (simp_all add: verifyTrustChain_Inr_iff)
  have trs: "suffix_transitions v chain n = Inr transitions"
    using verifyDeviceTrustSuffix_prefix [OF valid assms(2,3)] assms(4) t by simp
  then have len: "length transitions = length chain - n" by (simp add: suffix_transitions_Inr_iff)
  have "last (take n chain) = chain ! (n - 1)" "last chain = chain ! (length chain - 1)"
    using assms(2,3) by (subst last_conv_nth; auto)+
  with replay_prefix [OF valid assms(2) _ trs, of "length chain - n"] len assms(3) t
  show ?thesis by (simp add: trust_of_def)
qed

theorem suffix_replays_to_current_trust_witness:
  "fold replay [Revocation ''B'' ''A'' 2 2, Enrollment ''C'' ''A'' 3 2]
     (ids_of (ts_trustedDevices (trust_of sample_crypto (take 2 sample_chain)))) =
   ids_of (ts_trustedDevices (trust_of sample_crypto sample_chain))"
  using suffix_replays_to_current_trust [OF sample_chain_verifies _ _ sample_suffix] by simp

text \<open>
  C35: the transitions after an earlier trust state can be classified exactly when every revocation
  among them removes a single device. A chain in which one certificate revokes several devices at
  once verifies, but a device that follows it from before that certificate gets an error.
\<close>

theorem suffix_classifies_single_revocations_only:
  assumes "verifyTrustChain cr v a chain = Inr t" "0 < n" "n < length chain"
  shows "(\<exists>transitions. verifyDeviceTrustSuffix cr v chain (trust_of cr (take n chain)) t = Inr transitions) \<longleftrightarrow>
    \<not> (\<exists>i. n \<le> i \<and> i < length chain \<and> revokes (chain ! (i - 1)) (chain ! i) \<and>
         card (cert_ids (chain ! (i - 1)) - cert_ids (chain ! i)) \<noteq> 1)"
proof -
  have valid: "valid_chain cr v a chain" and t: "t = trust_of cr chain"
    using assms(1) by (simp_all add: verifyTrustChain_Inr_iff)
  show ?thesis
    using suffix_transitions_total [OF valid assms(2)]
    by (simp add: t verifyDeviceTrustSuffix_prefix [OF valid assms(2,3)]) blast
qed

theorem suffix_classifies_single_revocations_only_witness:
  "\<not> (\<exists>i. 2 \<le> i \<and> i < length sample_chain \<and> revokes (sample_chain ! (i - 1)) (sample_chain ! i) \<and>
     card (cert_ids (sample_chain ! (i - 1)) - cert_ids (sample_chain ! i)) \<noteq> 1)"
  using suffix_classifies_single_revocations_only [OF sample_chain_verifies, of 2] sample_suffix by simp

text \<open>
  C28: the profile baseline that a device builds from the transitions matches the remote trust. If
  the device's profiles matched the earlier trust state, then after replaying the verified
  transitions onto them every active profile belongs to a trusted device and every tombstone to a
  formerly trusted one.
\<close>

theorem profile_baseline_matches_trust:
  assumes "verifyTrustChain cr v a chain = Inr t" "0 < n" "n < length chain"
    and "requireDeviceProfilesMatchTrust localVault
      (map dti_deviceId (ts_trustedDevices (trust_of cr (take n chain)))) (history_ids (take n chain)) = Inr ()"
    and "verifyDeviceTrustSuffix cr v chain (trust_of cr (take n chain)) t = Inr transitions"
    and "buildTrustTransitionBaseline v localVault remoteVault transitions final = Inr baseline"
  shows "requireDeviceProfilesMatchTrust baseline
    (map dti_deviceId (ts_trustedDevices t)) (history_ids chain) = Inr ()"
proof -
  have valid: "valid_chain cr v a chain" and t: "t = trust_of cr chain"
    using assms(1) by (simp_all add: verifyTrustChain_Inr_iff)
  show ?thesis
    unfolding t by (rule baseline_matches_remote_trust [OF valid assms(2-4) assms(5) [unfolded t] assms(6)])
qed

theorem profile_baseline_matches_trust_witness:
  "requireDeviceProfilesMatchTrust sample_profiles_after [''A'', ''C''] (history_ids sample_chain) = Inr ()"
proof -
  have "requireDeviceProfilesMatchTrust sample_profiles_before
      (map dti_deviceId (ts_trustedDevices (trust_of sample_crypto (take 2 sample_chain))))
      (history_ids (take 2 sample_chain)) = Inr ()"
    by (simp add: requireDeviceProfilesMatchTrust_Inr profiles_match_def items_ok_def sample_profiles_before_def
        sample_vault_def phone_profile_def trust_of_def history_ids_def trust_evals)
  with profile_baseline_matches_trust [OF sample_chain_verifies _ _ _ sample_suffix sample_baseline]
  show ?thesis by (simp add: trust_of_def trust_evals)
qed

section \<open>Snapshots and checkpoints\<close>

text \<open>
  A snapshot is accepted under a trust state exactly when it belongs to the vault, has the
  supported format and the trusted key generation, carries one well-formed key slot for each trusted
  device and none for any other, and is signed by a trusted device.
\<close>

theorem snapshot_check_is_exact:
  "verifySnapshot cr v snapshot trust = Inr () \<longleftrightarrow>
     m_id (snap_metadata snapshot) = v \<and> m_schemaVersion (snap_metadata snapshot) = 1 \<and>
     m_algorithmSuiteId (snap_metadata snapshot) = algorithmSuiteId cr \<and>
     m_vaultKeyGeneration (snap_metadata snapshot) = ts_vaultKeyGeneration trust \<and>
     slots_match_trust snapshot trust \<and>
     (\<exists>signer. find_device (ts_trustedDevices trust) (m_createdByDeviceId (snap_metadata snapshot)) = Some signer \<and>
        verifyVaultSnapshotSignature cr snapshot (dti_publicSignKey signer))"
  by (rule verifySnapshot_Inr)

text \<open>
  C27: rollback is detected. Once a device has accepted a snapshot as newer than its checkpoint and
  has taken the checkpoint of the new one, the old snapshot is refused with the rollback error.
\<close>

theorem rollback_is_detected:
  assumes "requireSnapshotNotRolledBack cr v new newTrust
      (createCheckpoint cr old oldTrust deviceId privateKey) = Inr Newer_snapshot"
  shows "requireSnapshotNotRolledBack cr v old oldTrust
      (createCheckpoint cr new newTrust deviceId' privateKey') = Inl (VaultSnapshotRollbackDetectedError v)"
  using assms by (rule checkpoint_rejects_older_snapshot)

theorem rollback_is_detected_witness:
  "requireSnapshotNotRolledBack sample_crypto ''V'' (sample_snapshot 4) (trust_of sample_crypto sample_chain)
     (createCheckpoint sample_crypto (sample_snapshot 5) (trust_of sample_crypto sample_chain) ''A'' [1]) =
   Inl (VaultSnapshotRollbackDetectedError ''V'')"
proof (rule rollback_is_detected)
  have "vv_get [(''A'', 4)] < vv_get [(''A'', 5)]" by (auto simp: less_fun_def le_fun_def)
  then show "requireSnapshotNotRolledBack sample_crypto ''V'' (sample_snapshot 5)
      (trust_of sample_crypto sample_chain)
      (createCheckpoint sample_crypto (sample_snapshot 4) (trust_of sample_crypto sample_chain) ''A'' [1]) =
    Inr Newer_snapshot"
    by (simp add: requireSnapshotNotRolledBack_Inr requireTrustDescendsFrom_Inr createCheckpoint_def
        sample_snapshot_def trust_of_def sample_chain_def sample_cert_def Let_def)
qed

text \<open>
  A snapshot passes against the checkpoint taken from it, as the same snapshot, and the
  checkpoint itself verifies for its device.
\<close>

theorem checkpoint_accepts_its_snapshot:
  assumes "verifyTrustChain cr v a (snap_trustChain snapshot) = Inr trust"
    and "verifySnapshot cr v snapshot trust = Inr ()"
    and "checkpoint_signatures_verify cr (dti_publicSignKey device) privateKey"
  shows "requireSnapshotNotRolledBack cr v snapshot trust
      (createCheckpoint cr snapshot trust (dti_deviceId device) privateKey) = Inr Same_snapshot \<and>
    verifyCheckpoint cr v (createCheckpoint cr snapshot trust (dti_deviceId device) privateKey) device = Inr ()"
  using checkpoint_accepts_own_snapshot [of cr v a snapshot trust] createCheckpoint_verifies [OF assms(3,2)]
    assms(1) by (simp add: verifyTrustChain_Inr_iff)

theorem checkpoint_accepts_its_snapshot_witness:
  "verifyCheckpoint sample_crypto ''V'' (createCheckpoint sample_crypto (sample_snapshot 4)
     (trust_of sample_crypto sample_chain) ''A'' [1]) laptop = Inr ()"
proof -
  have "verifySnapshot sample_crypto ''V'' (sample_snapshot 4) (trust_of sample_crypto sample_chain) = Inr ()"
    by (simp add: verifySnapshot_Inr slots_match_trust_def slot_ok_def sample_snapshot_def sample_slot_def
        trust_of_def trust_evals ids_of_def)
  moreover have "verifyTrustChain sample_crypto ''V'' sample_anchor (snap_trustChain (sample_snapshot 4)) =
      Inr (trust_of sample_crypto sample_chain)"
    using sample_chain_verifies by (simp add: sample_snapshot_def)
  moreover have "checkpoint_signatures_verify sample_crypto (dti_publicSignKey laptop) [1]"
    by (simp add: checkpoint_signatures_verify_def sample_crypto_def laptop_def)
  ultimately have "verifyCheckpoint sample_crypto ''V'' (createCheckpoint sample_crypto (sample_snapshot 4)
      (trust_of sample_crypto sample_chain) (dti_deviceId laptop) [1]) laptop = Inr ()"
    using checkpoint_accepts_its_snapshot by blast
  then show ?thesis by (simp add: laptop_def)
qed

end
