(* ===== verification/Sampler_Uniformity.thy ===== *)
theory Sampler_Uniformity
  imports Password_Tools
begin

text \<open>
  The index sampler of \<open>services/randomness/random-sampler.service.ts\<close> draws every index from
  equally many supplies of random bytes. A supply is a list of blocks of four bytes; the blocks are
  counted through the 32-bit number that the sampler reads from them.
\<close>

section \<open>Blocks and their numbers\<close>

definition blocks :: "bytes set" where
  "blocks = {b. length b = 4}"

definition supplies :: "nat \<Rightarrow> bytes list set" where
  "supplies k = {s. set s \<subseteq> blocks \<and> length s = k}"

lemma blocks_lists: "blocks = {b. set b \<subseteq> UNIV \<and> length b = 4}"
  by (simp add: blocks_def)

lemma finite_blocks [simp]: "finite blocks"
  unfolding blocks_lists by (rule finite_lists_length_eq) simp

lemma card_blocks: "card blocks = 2 ^ 32"
  unfolding blocks_lists by (subst card_lists_length_eq) (simp_all add: card_word)

lemma finite_supplies [simp]: "finite (supplies k)"
  unfolding supplies_def by (rule finite_lists_length_eq) simp

lemma getUint32_inj: "inj_on getUint32 blocks"
proof (rule inj_onI)
  fix x y :: bytes assume "x \<in> blocks" "y \<in> blocks" and eq: "getUint32 x = getUint32 y"
  then obtain a b c d a' b' c' d' where xy: "x = [a, b, c, d]" "y = [a', b', c', d']"
    by (auto simp: blocks_def length_Suc_conv eval_nat_numeral)
  have byte: "0 \<le> uint w" "uint w < 256" for w :: "8 word"
    using uint_lt2p [of w] by simp_all
  have cancel: "m = m'" "uint w = uint w'"
    if eq: "m * 256 + uint w = m' * 256 + uint w'" for m m' :: int and w w' :: "8 word"
  proof -
    show m: "m = m'" using eq byte [of w] byte [of w'] by linarith
    show "uint w = uint w'" using eq unfolding m by simp
  qed
  from eq have four: "((uint a * 256 + uint b) * 256 + uint c) * 256 + uint d =
      ((uint a' * 256 + uint b') * 256 + uint c') * 256 + uint d'"
    by (simp only: xy getUint32_def foldl_Cons foldl_Nil mult_zero_left add_0)
  note three = cancel(1) [OF four]
  note two = cancel(1) [OF three]
  have "uint a = uint a'" "uint b = uint b'" "uint c = uint c'" "uint d = uint d'"
    using cancel(1) [OF two] cancel(2) [OF two] cancel(2) [OF three] cancel(2) [OF four] by blast+
  then show "x = y" by (simp only: xy word_uint_eq_iff [symmetric])
qed

lemma getUint32_image: "getUint32 ` blocks = {0..<UINT32_RANGE}"
proof (rule card_subset_eq)
  show "getUint32 ` blocks \<subseteq> {0..<UINT32_RANGE}"
    using getUint32_bounds by (auto simp: blocks_def)
  show "card (getUint32 ` blocks) = card {0..<UINT32_RANGE}"
    by (simp add: card_image [OF getUint32_inj] card_blocks UINT32_RANGE_def)
qed simp

lemma card_blocks_by_number: "card {b \<in> blocks. P (getUint32 b)} = card {v. 0 \<le> v \<and> v < UINT32_RANGE \<and> P v}"
proof -
  have image: "getUint32 ` {b \<in> blocks. P (getUint32 b)} = {v. 0 \<le> v \<and> v < UINT32_RANGE \<and> P v}"
    (is "?left = ?right")
  proof (intro equalityI subsetI)
    show "v \<in> ?right" if "v \<in> ?left" for v using that getUint32_bounds by (auto simp: blocks_def)
    show "v \<in> ?left" if v: "v \<in> ?right" for v
    proof -
      from v have "v \<in> getUint32 ` blocks" unfolding getUint32_image by simp
      then obtain b where "b \<in> blocks" "v = getUint32 b" by blast
      with v show ?thesis by blast
    qed
  qed
  have "inj_on getUint32 {b \<in> blocks. P (getUint32 b)}"
    using getUint32_inj by (rule inj_on_subset) blast
  from card_image [OF this] show ?thesis unfolding image by (rule sym)
qed

section \<open>The supplies that return an index\<close>

definition returning :: "int \<Rightarrow> nat \<Rightarrow> int \<Rightarrow> bytes list set" where
  "returning n k i = {s \<in> supplies k. \<exists>rest. pickIndex n s = Some (Inr (i, rest))}"

definition deciding :: "int \<Rightarrow> int \<Rightarrow> bytes set" where
  "deciding n i = {b \<in> blocks. getUint32 b < sample_limit n \<and> getUint32 b mod n = i}"

definition rejected_blocks :: "int \<Rightarrow> bytes set" where
  "rejected_blocks n = {b \<in> blocks. \<not> getUint32 b < sample_limit n}"

lemma card_deciding:
  assumes "valid_bound n" "0 \<le> i" "i < n"
  shows "card (deciding n i) = nat (UINT32_RANGE div n)"
proof -
  have "sample_limit n \<le> UINT32_RANGE"
    using assms(1) by (simp add: sample_limit_def valid_bound_def)
  then have "{v. 0 \<le> v \<and> v < UINT32_RANGE \<and> v < sample_limit n \<and> v mod n = i} =
      {v. 0 \<le> v \<and> v < sample_limit n \<and> v mod n = i}" by auto
  with sampler_uniform [OF assms] show ?thesis
    unfolding deciding_def by (simp only: card_blocks_by_number [of "\<lambda>v. v < sample_limit n \<and> v mod n = i"])
qed

lemma pick_block:
  assumes "valid_bound n" "b \<in> blocks"
  shows "pickIndex n (b # s) =
    (if getUint32 b < sample_limit n then Some (Inr (getUint32 b mod n, s)) else pickIndex n s)"
  using assms by (simp add: pickIndex_valid readUint32_def blocks_def)

lemma returning_Suc:
  assumes "valid_bound n"
  shows "returning n (Suc k) i =
    (\<lambda>(b, s). b # s) ` (deciding n i \<times> supplies k) \<union> (\<lambda>(b, s). b # s) ` (rejected_blocks n \<times> returning n k i)"
proof (intro equalityI subsetI)
  fix x assume "x \<in> returning n (Suc k) i"
  then obtain b s where x: "x = b # s" "b \<in> blocks" "s \<in> supplies k"
    and run: "\<exists>rest. pickIndex n (b # s) = Some (Inr (i, rest))"
    by (auto simp: returning_def supplies_def length_Suc_conv)
  with pick_block [OF assms x(2), of s]
  have "(b, s) \<in> deciding n i \<times> supplies k \<or> (b, s) \<in> rejected_blocks n \<times> returning n k i"
    by (auto simp: deciding_def rejected_blocks_def returning_def split: if_splits)
  with x(1) show "x \<in> (\<lambda>(b, s). b # s) ` (deciding n i \<times> supplies k) \<union>
      (\<lambda>(b, s). b # s) ` (rejected_blocks n \<times> returning n k i)" by force
next
  fix x assume "x \<in> (\<lambda>(b, s). b # s) ` (deciding n i \<times> supplies k) \<union>
      (\<lambda>(b, s). b # s) ` (rejected_blocks n \<times> returning n k i)"
  then show "x \<in> returning n (Suc k) i"
    using pick_block [OF assms]
    by (auto simp: deciding_def rejected_blocks_def returning_def supplies_def)
qed

lemma card_returning_Suc:
  assumes "valid_bound n"
  shows "card (returning n (Suc k) i) =
    card (deciding n i) * card (supplies k) + card (rejected_blocks n) * card (returning n k i)"
proof -
  have finite: "finite (deciding n i)" "finite (rejected_blocks n)" "finite (returning n k i)"
    by (simp_all add: deciding_def rejected_blocks_def returning_def)
  have inj: "inj_on (\<lambda>(b, s). b # s) A" for A :: "(bytes \<times> bytes list) set"
    by (auto simp: inj_on_def)
  have "(\<lambda>(b, s). b # s) ` (deciding n i \<times> supplies k) \<inter>
      (\<lambda>(b, s). b # s) ` (rejected_blocks n \<times> returning n k i) = {}"
    by (auto simp: deciding_def rejected_blocks_def)
  with finite show ?thesis
    unfolding returning_Suc [OF assms]
    by (subst card_Un_disjoint) (simp_all add: card_image [OF inj] card_cartesian_product)
qed

lemma card_returning_uniform:
  assumes "valid_bound n" "0 \<le> i" "i < n" "0 \<le> j" "j < n"
  shows "card (returning n k i) = card (returning n k j)"
proof (induction k)
  case 0
  have "returning n 0 m = {}" for m
    by (auto simp: returning_def supplies_def pickIndex_valid [OF assms(1)])
  then show ?case by simp
next
  case (Suc k)
  then show ?case using assms by (simp add: card_returning_Suc card_deciding)
qed

lemma returning_one:
  assumes "valid_bound n"
  shows "{b. length b = 4 \<and> pickIndex n [b] = Some (Inr (i, []))} = deciding n i"
proof -
  have "pickIndex n [] = None" using assms by (simp add: pickIndex_valid)
  then show ?thesis
    using pick_block [OF assms, of _ "[]"] by (auto simp: deciding_def blocks_def split: if_splits)
qed

end
