(* ===== verification/Library_Properties.thy ===== *)
theory Library_Properties
  imports Samples Sampler_Uniformity
begin

text \<open>
  The properties of the core library: the base64url codec, the unbiased sampler and the generators
  built on it, and the password strength meter.
\<close>

section \<open>Base64url\<close>

text \<open>
  C36: decoding inverts encoding, with the padding left out as the encoder does and with the full
  padding of standard base64; the encoder only writes letters, digits, \<open>-\<close> and \<open>_\<close>.
\<close>

theorem base64url_roundtrip:
  "decodeBase64Url (encodeBase64Url bs) = Inr bs \<and>
   decodeBase64Url (encodeBase64Url bs @
     replicate ((4 - length (encode_groups bs) mod 4) mod 4) (CHR ''='')) = Inr bs \<and>
   set (encodeBase64Url bs) \<subseteq> set B64URLABC"
  using decode_padded [of 0 bs] decode_padded [OF disjI2 [OF refl], of bs] encode_alphabet [of bs] by simp

text \<open>
  C37: the decoder returns bytes exactly for the texts of the base64url language, given as a
  grammar: groups of four symbols, the last of which may be cut to two or three symbols, or filled
  up to four with padding signs. So padding stands only at the end, is at most two signs and
  completes a group, and one symbol alone is no group.
\<close>

theorem base64url_decoder_accepts_its_language:
  "(\<exists>bs. decodeBase64Url t = Inr bs) \<longleftrightarrow> base64url_text t"
  by (rule decode_succeeds_iff)

section \<open>The random sampler\<close>

text \<open>
  C38: the sampler is unbiased. For every bound and every length, each index below the bound is
  returned for equally many of all supplies of that many random blocks of four bytes; of the single
  blocks, exactly \<open>2 ^ 32\<close> divided by the bound, rounded down, return it. Every index it returns is below
  the bound.
\<close>

theorem sampler_is_uniform:
  assumes "valid_bound n" "0 \<le> i" "i < n" "0 \<le> j" "j < n"
  shows "card {s. length s = k \<and> (\<forall>b \<in> set s. length b = 4) \<and> (\<exists>rest. pickIndex n s = Some (Inr (i, rest)))} =
      card {s. length s = k \<and> (\<forall>b \<in> set s. length b = 4) \<and> (\<exists>rest. pickIndex n s = Some (Inr (j, rest)))} \<and>
    card {b. length b = 4 \<and> pickIndex n [b] = Some (Inr (i, []))} = nat (2 ^ 32 div n) \<and>
    (\<forall>s m rest. pickIndex n s = Some (Inr (m, rest)) \<longrightarrow> 0 \<le> m \<and> m < n)"
proof -
  have supplied: "{s. length s = k \<and> (\<forall>b \<in> set s. length b = 4) \<and> (\<exists>rest. pickIndex n s = Some (Inr (m, rest)))} =
      returning n k m" for m
    by (auto simp: returning_def supplies_def blocks_def)
  have one: "card {b. length b = 4 \<and> pickIndex n [b] = Some (Inr (i, []))} = nat (UINT32_RANGE div n)"
    unfolding returning_one [OF assms(1)] by (rule card_deciding [OF assms(1-3)])
  from card_returning_uniform [OF assms] one [unfolded UINT32_RANGE_def] pickIndex_range
  show ?thesis unfolding supplied by blast
qed

theorem sampler_is_uniform_witness:
  "card {b. length b = 4 \<and> pickIndex 10 [b] = Some (Inr (3, []))} = 429496729"
proof -
  have "valid_bound 10" by (simp add: valid_bound_def UINT32_RANGE_def)
  from sampler_is_uniform [OF this, of 3 7] show ?thesis by simp
qed

text \<open>
  C39: rejection sampling ends at the first accepted block and returns its remainder; it asks for
  another block only while every block so far was rejected, and more than half of all 32-bit
  values are accepted for every bound.
\<close>

theorem sampler_ends_at_first_accepted:
  assumes "valid_bound n" "list_all (\<lambda>b. length b = 4 \<and> \<not> accepted n b) rejected" "length b = 4" "accepted n b"
  shows "pickIndex n (rejected @ b # rest) = Some (Inr (getUint32 b mod n, rest)) \<and>
    pickIndex n rejected = None \<and> UINT32_RANGE < 2 * sample_limit n"
  using sample_first_accepted [of rejected n b rest] sample_exhausted [of rejected n] sample_limit_half [of n]
    assms by (simp add: pickIndex_valid list_all_iff)

theorem sampler_ends_at_first_accepted_witness:
  "pickIndex 10 ([[255, 255, 255, 255]] @ [0, 0, 0, 13] # []) = Some (Inr (3, []))"
proof -
  have "getUint32 [255, 255, 255, 255] = 4294967295" "getUint32 [0, 0, 0, 13] = 13"
    by (simp_all add: getUint32_def)
  then show ?thesis
    using sampler_ends_at_first_accepted [of 10 "[[255, 255, 255, 255]]" "[0, 0, 0, 13]" "[]"]
    by (simp add: valid_bound_def UINT32_RANGE_def accepted_def sample_limit_def)
qed

section \<open>Generators\<close>

text \<open>
  C40: a generated password has exactly the requested length, uses only characters of the enabled
  sets, and holds at least the requested numbers of digits and of special characters.
\<close>

theorem generated_password_meets_settings:
  assumes "generatePassword params s = Some (Inr (password, rest))"
  shows "\<exists>settings. generatedPasswordSettingsSchema params = Some settings \<and>
    (let sets = getGeneratedPasswordCharacterSets settings in
     int (length password) = ps_length settings \<and> set password \<subseteq> set (gs_all sets) \<and>
     ps_minNumbers settings \<le> int (length (filter (\<lambda>c. c \<in> set (gs_numbers sets)) password)) \<and>
     ps_minSpecial settings \<le> int (length (filter (\<lambda>c. c \<in> set (gs_special sets)) password)))"
  using assms by (rule generatePassword_Inr)

text \<open>
  The generator returns. For settings that pass both checks, a supply of two blocks per
  character, each in the lower half of the 32-bit range, which every bound accepts, is enough.
\<close>

theorem password_generation_returns:
  assumes "generatedPasswordSettingsSchema params = Some settings"
    and "canGeneratePassword settings (getGeneratedPasswordCharacterSets settings)"
    and "easy_supply s" "2 * ps_length settings \<le> int (length s)"
  shows "\<exists>password rest. generatePassword params s = Some (Inr (password, rest))"
  using assms by (rule generatePassword_returns)

definition default_params :: PasswordParams where
  "default_params = \<lparr>pp_length = None, pp_uppercase = None, pp_lowercase = None, pp_numbers = None,
     pp_special = None, pp_minNumbers = None, pp_minSpecial = None, pp_avoidAmbiguousCharacters = None\<rparr>"

definition default_settings :: GeneratedPasswordSettings where
  "default_settings = \<lparr>ps_length = 14, ps_uppercase = True, ps_lowercase = True, ps_numbers = True,
     ps_special = False, ps_minNumbers = 1, ps_minSpecial = 0, ps_avoidAmbiguousCharacters = False\<rparr>"

lemma default_settings_ok:
  "generatedPasswordSettingsSchema default_params = Some default_settings"
  "canGeneratePassword default_settings (getGeneratedPasswordCharacterSets default_settings)"
  by (simp_all add: generatedPasswordSettingsSchema_def default_params_def default_settings_def with_default_def
      canGeneratePassword_def getGeneratedPasswordCharacterSets_def FULL_CHARACTER_SETS_def Let_def)

definition default_blocks :: "bytes list" where
  "default_blocks = replicate 28 [0, 0, 0, 5]"

lemma default_blocks_ok: "easy_supply default_blocks" "length default_blocks = 28"
  by (simp_all add: default_blocks_def easy_supply_def getUint32_def UINT32_RANGE_def)

theorem password_generation_returns_witness:
  "\<exists>password rest. generatePassword default_params default_blocks = Some (Inr (password, rest))"
  by (rule password_generation_returns [OF default_settings_ok default_blocks_ok(1)])
    (simp add: default_blocks_ok(2) default_settings_def)

lemma default_run_exists:
  "\<exists>password rest. generatePassword default_params default_blocks = Some (Inr (password, rest))"
  by (rule generatePassword_returns [OF default_settings_ok default_blocks_ok(1)])
    (simp add: default_blocks_ok(2) default_settings_def)

theorem generated_password_meets_settings_witness:
  "\<exists>password rest. generatePassword default_params default_blocks = Some (Inr (password, rest)) \<and>
     length password = 14"
proof -
  obtain password rest where run: "generatePassword default_params default_blocks = Some (Inr (password, rest))"
    using default_run_exists by blast
  from generated_password_meets_settings [OF run] have "length password = 14"
    by (simp add: default_settings_ok(1) Let_def default_settings_def)
  with run show ?thesis by blast
qed

text \<open>
  A generated user name consists of two words in lower-case letters and digits, or capitalised
  ones, followed by four digits when a number is asked for; no other character can occur, whatever
  the word list holds.
\<close>

theorem generated_username_is_alphanumeric:
  assumes "generateUsernameValue ws cap num pickIndex s = Some (Inr (name, rest))"
  shows "\<exists>first second digits. name = first @ second @ digits \<and>
    list_all (if cap then is_alphanumeric else is_username_char) name \<and>
    length digits = (if num then 4 else 0) \<and> list_all is_username_char digits"
  using random_sampler.generateUsernameValue_Inr [OF assms] by (auto simp: list_all_iff split: if_splits)

lemma sample_username:
  "generateUsernameValue [''al-pha'', ''beta''] False False pickIndex [[0, 0, 0, 0], [0, 0, 0, 1]] =
     Some (Inr (''alphabeta'', []))"
proof -
  have word: "getUint32 [0, 0, 0, 0] = 0" "getUint32 [0, 0, 0, 1] = 1" by (simp_all add: getUint32_def)
  have "pickIndex 2 [[0, 0, 0, 0], [0, 0, 0, 1]] = Some (Inr (0, [[0, 0, 0, 1]]))"
    "pickIndex 2 [[0, 0, 0, 1]] = Some (Inr (1, []))"
    using pickIndex_easy [of 2 "[0, 0, 0, 0]" "[[0, 0, 0, 1]]"] pickIndex_easy [of 2 "[0, 0, 0, 1]" "[]"] word
    by (simp_all add: valid_bound_def UINT32_RANGE_def)
  then show ?thesis
    by (simp add: generateUsernameValue_def numeral_2_eq_2 gbind_def greturn_def word_at_def
        normalizeGeneratedUsernameWord_def js_lower_def lower_char_def is_username_char_def Let_def)
qed

theorem generated_username_is_alphanumeric_witness: "list_all is_username_char ''alphabeta''"
  using generated_username_is_alphanumeric [OF sample_username] by simp

section \<open>Password strength\<close>

text \<open>
  The binary search over the list of common passwords is correct: on a sorted list it finds a
  password exactly if the list contains it.
\<close>

theorem common_password_search_is_membership:
  assumes "sorted_wrt (<) dictionary"
  shows "isCommonPassword dictionary password \<longleftrightarrow> password \<in> set dictionary"
  using isCommonPassword_sound isCommonPassword_complete assms by blast

theorem common_password_search_is_membership_witness:
  "isCommonPassword [''letmein'', ''password''] ''letmein'' \<and> \<not> isCommonPassword [''letmein'', ''password''] ''letmeout''"
  by (simp add: common_password_search_is_membership)

text \<open>
  The score lies between 0 and 4, and a password scores 4 exactly if it passes every test:
  twenty or more characters, five or more different ones of at least two classes, not a common
  password or a variant of one, without a dominant repetition or a dominant keyboard sequence.
\<close>

theorem best_score_is_exact:
  "calculatePasswordStrength D p \<le> 4 \<and>
   (calculatePasswordStrength D p = 4 \<longleftrightarrow>
      20 \<le> length p \<and> 5 \<le> card (set p) \<and> 2 \<le> card (char_class ` set p) \<and>
      \<not> isCommonPassword D (js_lower p) \<and> \<not> isCommonPasswordVariant D (js_lower p) \<and>
      \<not> hasDominantRepeatedPattern p \<and> \<not> hasDominantRepeatedCharacters p \<and>
      \<not> hasDominantPredictableSequence (js_lower p))"
proof -
  have "calculatePasswordStrength D p \<le> 4"
    by (simp add: calculatePasswordStrength_def scorePasswordLength_def Let_def)
  then show ?thesis by (simp add: best_score_iff)
qed

text \<open>
  A password that repeats a unit of up to sixteen characters, however long it is, never
  scores more than 1.
\<close>

theorem repeated_unit_scores_low:
  assumes "2 \<le> k" "1 \<le> length u" "length u \<le> 16"
  shows "calculatePasswordStrength D (concat (replicate k u)) \<le> 1"
  using repeated_unit_is_dominant [of k u] assms
  by (simp add: calculatePasswordStrength_def Let_def PASSWORD_STRENGTH_MAX_REPEATED_UNIT_LENGTH_def)

theorem repeated_unit_scores_low_witness:
  "calculatePasswordStrength [] (concat (replicate 8 ''correct-Horse7'')) \<le> 1"
  by (rule repeated_unit_scores_low) simp_all

end
