(* ===== verification/Stateful.thy ===== *)
theory Stateful
  imports Prelude
begin

text \<open>
  Stateful computations that may throw: a state goes in, a result and the next state come out,
  and the state changes made before a throw are kept, as in JavaScript. The second half is a
  calculus of weakest preconditions for them: one rule per combinator, used as rewrite rules.
\<close>

named_theorems wp_simps \<open>weakest preconditions of the combinators\<close>

section \<open>The combinators\<close>

type_synonym ('s, 'e, 'a) stateful = "'s \<Rightarrow> ('e + 'a) \<times> 's"

definition sret :: "'a \<Rightarrow> ('s, 'e, 'a) stateful" where
  "sret a = (\<lambda>s. (Inr a, s))"

definition sthrow :: "'e \<Rightarrow> ('s, 'e, 'a) stateful" where
  "sthrow e = (\<lambda>s. (Inl e, s))"

definition sbind :: "('s, 'e, 'a) stateful \<Rightarrow> ('a \<Rightarrow> ('s, 'e, 'b) stateful) \<Rightarrow> ('s, 'e, 'b) stateful" where
  "sbind m f = (\<lambda>s. case m s of (r, t) \<Rightarrow> (case r of Inl e \<Rightarrow> (Inl e, t) | Inr a \<Rightarrow> f a t))"

text \<open>\<open>sthen m n\<close> is two statements in sequence.\<close>

definition sthen :: "('s, 'e, 'a) stateful \<Rightarrow> ('s, 'e, 'b) stateful \<Rightarrow> ('s, 'e, 'b) stateful" where
  "sthen m n = sbind m (\<lambda>_. n)"

text \<open>
  \<open>stry m\<close> is the body of a \<open>try\<close> block: it never throws, its result tells what happened.
  \<open>scatch m h\<close> is \<open>try { m } catch (e) { h e }\<close>.
\<close>

definition stry :: "('s, 'e, 'a) stateful \<Rightarrow> ('s, 'e, 'e + 'a) stateful" where
  "stry m = (\<lambda>s. case m s of (r, t) \<Rightarrow> (Inr r, t))"

definition scatch :: "('s, 'e, 'a) stateful \<Rightarrow> ('e \<Rightarrow> ('s, 'e, 'a) stateful) \<Rightarrow> ('s, 'e, 'a) stateful" where
  "scatch m h = (\<lambda>s. case m s of (r, t) \<Rightarrow> (case r of Inl e \<Rightarrow> h e t | Inr a \<Rightarrow> (Inr a, t)))"

text \<open>\<open>sfinally m c\<close> is \<open>try { m } finally { c }\<close> for a state change \<open>c\<close> that cannot fail.\<close>

definition sfinally :: "('s, 'e, 'a) stateful \<Rightarrow> ('s \<Rightarrow> 's) \<Rightarrow> ('s, 'e, 'a) stateful" where
  "sfinally m c = (\<lambda>s. case m s of (r, t) \<Rightarrow> (r, c t))"

definition sread :: "('s \<Rightarrow> 'a) \<Rightarrow> ('s, 'e, 'a) stateful" where
  "sread f = (\<lambda>s. (Inr (f s), s))"

definition smodify :: "('s \<Rightarrow> 's) \<Rightarrow> ('s, 'e, unit) stateful" where
  "smodify f = (\<lambda>s. (Inr (), f s))"

definition srequire :: "bool \<Rightarrow> 'e \<Rightarrow> ('s, 'e, unit) stateful" where
  "srequire c e = (if c then sret () else sthrow e)"

text \<open>The error of a caught result, and \<open>a ??= b\<close> on a possibly missing first error.\<close>

fun caught :: "'e + 'a \<Rightarrow> 'e option" where
  "caught (Inl e) = Some e"
| "caught (Inr _) = None"

fun or_else :: "'e option \<Rightarrow> 'e option \<Rightarrow> 'e option" where
  "or_else (Some e) _ = Some e"
| "or_else None f = f"

text \<open>\<open>if (error !== undefined) throw error\<close>, then the value.\<close>

definition sfinish :: "'e option \<Rightarrow> 'a \<Rightarrow> ('s, 'e, 'a) stateful" where
  "sfinish e a = (case e of Some e \<Rightarrow> sthrow e | None \<Rightarrow> sret a)"

text \<open>A computation that needs no state.\<close>

definition slift :: "'e + 'a \<Rightarrow> ('s, 'e, 'a) stateful" where
  "slift r = (case r of Inl e \<Rightarrow> sthrow e | Inr a \<Rightarrow> sret a)"

section \<open>Weakest preconditions\<close>

definition wp :: "('s, 'e, 'a) stateful \<Rightarrow> ('e + 'a \<Rightarrow> 's \<Rightarrow> bool) \<Rightarrow> 's \<Rightarrow> bool" where
  "wp m Q s = (case m s of (r, t) \<Rightarrow> Q r t)"

lemma wp_run: "wp m Q s \<longleftrightarrow> Q (fst (m s)) (snd (m s))"
  by (simp add: wp_def split_beta)

lemma wp_sret [wp_simps]: "wp (sret a) Q s = Q (Inr a) s"
  by (simp add: wp_def sret_def)

lemma wp_sthrow [wp_simps]: "wp (sthrow e) Q s = Q (Inl e) s"
  by (simp add: wp_def sthrow_def)

lemma wp_sbind [wp_simps]:
  "wp (sbind m f) Q s = wp m (\<lambda>r t. case r of Inl e \<Rightarrow> Q (Inl e) t | Inr a \<Rightarrow> wp (f a) Q t) s"
  by (simp add: wp_def sbind_def split: prod.splits sum.splits)

lemma wp_sthen [wp_simps]:
  "wp (sthen m n) Q s = wp m (\<lambda>r t. case r of Inl e \<Rightarrow> Q (Inl e) t | Inr a \<Rightarrow> wp n Q t) s"
  by (simp add: sthen_def wp_sbind)

lemma wp_stry [wp_simps]: "wp (stry m) Q s = wp m (\<lambda>r. Q (Inr r)) s"
  by (simp add: wp_def stry_def split: prod.splits)

lemma wp_scatch [wp_simps]:
  "wp (scatch m h) Q s = wp m (\<lambda>r t. case r of Inl e \<Rightarrow> wp (h e) Q t | Inr a \<Rightarrow> Q (Inr a) t) s"
  by (simp add: wp_def scatch_def split: prod.splits sum.splits)

lemma wp_sfinally [wp_simps]: "wp (sfinally m c) Q s = wp m (\<lambda>r t. Q r (c t)) s"
  by (simp add: wp_def sfinally_def split: prod.splits)

lemma wp_sread [wp_simps]: "wp (sread f) Q s = Q (Inr (f s)) s"
  by (simp add: wp_def sread_def)

lemma wp_smodify [wp_simps]: "wp (smodify f) Q s = Q (Inr ()) (f s)"
  by (simp add: wp_def smodify_def)

lemma wp_srequire [wp_simps]: "wp (srequire c e) Q s = (if c then Q (Inr ()) s else Q (Inl e) s)"
  by (simp add: srequire_def wp_simps)

lemma wp_sfinish [wp_simps]:
  "wp (sfinish e a) Q s = (case e of Some e \<Rightarrow> Q (Inl e) s | None \<Rightarrow> Q (Inr a) s)"
  by (simp add: sfinish_def wp_simps split: option.splits)

lemma wp_slift [wp_simps]: "wp (slift r) Q s = Q r s"
  by (cases r) (simp_all add: slift_def wp_simps)

lemma wp_if [wp_simps]: "wp (if c then m else n) Q s = (if c then wp m Q s else wp n Q s)"
  by simp

lemma wp_case_option [wp_simps]:
  "wp (case x of None \<Rightarrow> m | Some a \<Rightarrow> f a) Q s =
     (case x of None \<Rightarrow> wp m Q s | Some a \<Rightarrow> wp (f a) Q s)"
  by (cases x) simp_all

lemma wp_case_sum [wp_simps]:
  "wp (case x of Inl a \<Rightarrow> f a | Inr b \<Rightarrow> g b) Q s =
     (case x of Inl a \<Rightarrow> wp (f a) Q s | Inr b \<Rightarrow> wp (g b) Q s)"
  by (cases x) simp_all

text \<open>A specification of a part is used inside the whole by weakening its postcondition.\<close>

lemma wp_weaken: "wp m P s \<Longrightarrow> (\<And>r t. P r t \<Longrightarrow> Q r t) \<Longrightarrow> wp m Q s"
  by (simp add: wp_run)

lemma wp_conj: "wp m P s \<Longrightarrow> wp m Q s \<Longrightarrow> wp m (\<lambda>r t. P r t \<and> Q r t) s"
  by (simp add: wp_run)

lemma wp_result: "wp m Q s \<Longrightarrow> m s = (r, t) \<Longrightarrow> Q r t"
  by (simp add: wp_def)

lemma or_else_None_iff [simp]: "or_else e f = None \<longleftrightarrow> e = None \<and> f = None"
  by (cases e) simp_all

lemma caught_None_iff: "caught r = None \<longleftrightarrow> (\<exists>a. r = Inr a)"
  by (cases r) simp_all

end
