(* ===== verification/Artifact_Codec.thy ===== *)
theory Artifact_Codec
  imports Base64_Url Vault_Model "HOL-Library.Monad_Syntax"
begin

text \<open>
  The decoders and encoders that all persisted artifacts are built from
  (\<open>apps/extension/src/adapters/codecs/artifact-codec.primitives.ts\<close>). A decoder takes an unknown
  JSON value and gives \<open>None\<close> where the code throws: every caller replaces the thrown error by the
  error of its own artifact. A plain object is \<open>JObj\<close>; values that \<open>structuredClone\<close> or
  \<open>JSON.parse\<close> cannot produce (class instances, functions) are not represented.
\<close>

named_theorems codec_simps \<open>what a decoder makes of an encoded value\<close>

section \<open>Accepted texts and numbers\<close>

definition nonBlank :: "string \<Rightarrow> bool" where
  "nonBlank s \<longleftrightarrow> js_trim s \<noteq> []"

definition safe_integer :: "int \<Rightarrow> int \<Rightarrow> bool" where
  "safe_integer minimum n \<longleftrightarrow> minimum \<le> n \<and> \<bar>n\<bar> \<le> int MAX_SAFE_INTEGER"

definition canonical_text :: "nat \<Rightarrow> string \<Rightarrow> bool" where
  "canonical_text expectedLength s \<longleftrightarrow>
     CHR ''='' \<notin> set s \<and>
     (case decodeBase64Url s of
        Inl e \<Rightarrow> False
      | Inr bs \<Rightarrow> encodeBase64Url bs = s \<and> length bs = expectedLength)"

definition digest_text :: "string \<Rightarrow> bool" where
  "digest_text s \<longleftrightarrow> canonical_text 32 s"

definition safe_vector :: "VersionVector \<Rightarrow> bool" where
  "safe_vector v \<longleftrightarrow> list_all (\<lambda>(d, n). nonBlank d \<and> safe_integer 0 (int n)) v"

section \<open>Records\<close>

definition asRecord :: "json \<Rightarrow> (string \<times> json) list option" where
  "asRecord v = (case v of JObj record \<Rightarrow> Some record | _ \<Rightarrow> None)"

definition exactRecord :: "string list \<Rightarrow> string list \<Rightarrow> json \<Rightarrow> (string \<times> json) list option" where
  "exactRecord requiredKeys optionalKeys v =
     do { record \<leftarrow> asRecord v;
          if list_ex (\<lambda>key. map_of record key = None) requiredKeys \<or>
             list_ex (\<lambda>(key, _). key \<notin> set (requiredKeys @ optionalKeys)) record
          then None else Some record }"

text \<open>
  Reading a property of a record: every decoder rejects \<open>undefined\<close>; an optional property may be
  absent, a nullable one \<open>null\<close>.
\<close>

definition property_of :: "(string \<times> json) list \<Rightarrow> string \<Rightarrow> (json \<Rightarrow> 'a option) \<Rightarrow> 'a option" where
  "property_of record key decode = Option.bind (map_of record key) decode"

definition optional_property ::
    "(string \<times> json) list \<Rightarrow> string \<Rightarrow> (json \<Rightarrow> 'a option) \<Rightarrow> 'a option option" where
  "optional_property record key decode =
     (case map_of record key of None \<Rightarrow> Some None | Some v \<Rightarrow> map_option Some (decode v))"

definition nullable :: "(json \<Rightarrow> 'a option) \<Rightarrow> json \<Rightarrow> 'a option option" where
  "nullable decode v = (if v = JNull then Some None else map_option Some (decode v))"

text \<open>\<open>Array.isArray(v)\<close> and then \<open>v.map(decode)\<close>.\<close>

definition array_of :: "(json \<Rightarrow> 'a option) \<Rightarrow> json \<Rightarrow> 'a list option" where
  "array_of decode v = (case v of JArr xs \<Rightarrow> those (map decode xs) | _ \<Rightarrow> None)"

section \<open>Primitive values\<close>

definition nonBlankString :: "json \<Rightarrow> string option" where
  "nonBlankString v = (case v of JStr s \<Rightarrow> if nonBlank s then Some s else None | _ \<Rightarrow> None)"

definition safeInteger :: "int \<Rightarrow> json \<Rightarrow> int option" where
  "safeInteger minimum v =
     (case v of JNum n \<Rightarrow> if safe_integer minimum n then Some n else None | _ \<Rightarrow> None)"

text \<open>A counter or a timestamp is a natural number in the model.\<close>

definition safeNatural :: "json \<Rightarrow> nat option" where
  "safeNatural v = map_option nat (safeInteger 0 v)"

definition stringArray :: "json \<Rightarrow> bool \<Rightarrow> string list option" where
  "stringArray v unique =
     do { result \<leftarrow> array_of nonBlankString v;
          if unique \<and> length (js_set result) \<noteq> length result then None else Some result }"

text \<open>\<open>decodeJsonValue\<close> copies a value; numbers of the model are finite.\<close>

fun decodeJsonValue :: "json \<Rightarrow> json option" where
  "decodeJsonValue (JArr xs) = map_option JArr (those (map decodeJsonValue xs))"
| "decodeJsonValue (JObj kvs) =
     map_option JObj (those (map (\<lambda>(k, v). map_option (Pair k) (decodeJsonValue v)) kvs))"
| "decodeJsonValue JNull = Some JNull"
| "decodeJsonValue (JBool b) = Some (JBool b)"
| "decodeJsonValue (JNum n) = Some (JNum n)"
| "decodeJsonValue (JStr s) = Some (JStr s)"

definition decodeVersionVector :: "json \<Rightarrow> VersionVector option" where
  "decodeVersionVector v =
     do { record \<leftarrow> asRecord v;
          those (map (\<lambda>(deviceId, counter).
            do { d \<leftarrow> nonBlankString (JStr deviceId); n \<leftarrow> safeNatural counter; Some (d, n) }) record) }"

definition encodeVersionVector :: "VersionVector \<Rightarrow> json" where
  "encodeVersionVector v = JObj (map (\<lambda>(d, n). (d, JNum (int n))) (sort_key fst v))"

section \<open>Bytes\<close>

definition decodeCanonicalBytes :: "json \<Rightarrow> nat option \<Rightarrow> bytes option" where
  "decodeCanonicalBytes v expectedLength =
     (case v of
        JStr s \<Rightarrow>
          if CHR ''='' \<in> set s then None
          else (case decodeBase64Url s of
                  Inl e \<Rightarrow> None
                | Inr decoded \<Rightarrow>
                    if encodeBase64Url decoded \<noteq> s \<or>
                       (case expectedLength of None \<Rightarrow> False | Some n \<Rightarrow> length decoded \<noteq> n)
                    then None else Some decoded)
      | _ \<Rightarrow> None)"

definition encodeBytes :: "bytes \<Rightarrow> json" where
  "encodeBytes value = JStr (encodeBase64Url value)"

definition text_of :: "json \<Rightarrow> string option" where
  "text_of v = (case v of JStr s \<Rightarrow> Some s | _ \<Rightarrow> None)"

definition canonicalDigest :: "json \<Rightarrow> string option" where
  "canonicalDigest v = do { _ \<leftarrow> decodeCanonicalBytes v (Some 32); text_of v }"

text \<open>Two kinds of ciphertext have the same shape: a base64url text and its nonce.\<close>

definition decodeEncrypted :: "json \<Rightarrow> nat \<Rightarrow> nat option \<Rightarrow> SerializedEncrypted option" where
  "decodeEncrypted v nonceLength exactCiphertextLength =
     do { record \<leftarrow> exactRecord [''ciphertext'', ''encryptionNonce''] [] v;
          ciphertext \<leftarrow> property_of record ''ciphertext'' (\<lambda>c. decodeCanonicalBytes c exactCiphertextLength);
          if exactCiphertextLength = None \<and> length ciphertext < 17 then None
          else do {
            _ \<leftarrow> property_of record ''encryptionNonce'' (\<lambda>c. decodeCanonicalBytes c (Some nonceLength));
            c \<leftarrow> property_of record ''ciphertext'' text_of;
            n \<leftarrow> property_of record ''encryptionNonce'' text_of;
            Some \<lparr>enc_ciphertext = c, enc_encryptionNonce = n\<rparr> } }"

definition encodeEncrypted :: "SerializedEncrypted \<Rightarrow> json" where
  "encodeEncrypted value =
     JObj [(''ciphertext'', JStr (enc_ciphertext value)),
           (''encryptionNonce'', JStr (enc_encryptionNonce value))]"

record SerializedWrapped =
  wrap_wrappedKey :: string
  wrap_wrappingNonce :: string

definition decodeWrapped :: "json \<Rightarrow> SerializedWrapped option" where
  "decodeWrapped v =
     do { record \<leftarrow> exactRecord [''wrappedKey'', ''wrappingNonce''] [] v;
          wrappedKey \<leftarrow> property_of record ''wrappedKey'' (\<lambda>c. decodeCanonicalBytes c None);
          if length wrappedKey < 17 then None
          else do {
            _ \<leftarrow> property_of record ''wrappingNonce'' (\<lambda>c. decodeCanonicalBytes c (Some 12));
            k \<leftarrow> property_of record ''wrappedKey'' text_of;
            n \<leftarrow> property_of record ''wrappingNonce'' text_of;
            Some \<lparr>wrap_wrappedKey = k, wrap_wrappingNonce = n\<rparr> } }"

definition encodeWrapped :: "SerializedWrapped \<Rightarrow> json" where
  "encodeWrapped value =
     JObj [(''wrappedKey'', JStr (wrap_wrappedKey value)),
           (''wrappingNonce'', JStr (wrap_wrappingNonce value))]"

definition decodeSignature :: "json \<Rightarrow> string option" where
  "decodeSignature v =
     do { record \<leftarrow> exactRecord [''signature''] [] v;
          _ \<leftarrow> property_of record ''signature'' (\<lambda>s. decodeCanonicalBytes s (Some 64));
          property_of record ''signature'' text_of }"

definition encodeSignature :: "string \<Rightarrow> json" where
  "encodeSignature value = JObj [(''signature'', JStr value)]"

section \<open>Reading what was written\<close>

lemma those_eq_Some_iff: "those xs = Some ys \<longleftrightarrow> xs = map Some ys"
proof (induction xs arbitrary: ys)
  case Nil
  show ?case by auto
next
  case (Cons x xs)
  show ?case by (cases x; cases ys) (auto simp: Cons.IH)
qed

lemma those_map_Some [simp]: "those (map Some xs) = Some xs"
  by (simp add: those_eq_Some_iff)

lemma those_eq_None_iff: "those xs = None \<longleftrightarrow> None \<in> set xs"
  by (induction xs) (auto split: option.splits)

lemma bind_if [codec_simps]: "Option.bind (if c then Some a else None) f = (if c then f a else None)"
  by simp

lemma those_if [codec_simps]:
  "(\<And>x. x \<in> set xs \<Longrightarrow> f x = (if ok x then Some (g x) else None)) \<Longrightarrow>
   those (map f xs) = (if list_all ok xs then Some (map g xs) else None)"
  by (induction xs) (auto simp: those_eq_None_iff list_all_iff)

lemma exactRecord_JObj [codec_simps]:
  "exactRecord requiredKeys optionalKeys (JObj record) =
     (if list_all (\<lambda>k. map_of record k \<noteq> None) requiredKeys \<and>
         list_all (\<lambda>(k, _). k \<in> set (requiredKeys @ optionalKeys)) record
      then Some record else None)"
  by (auto simp: exactRecord_def asRecord_def list_ex_iff list_all_iff)

lemma exactRecord_Some:
  "exactRecord requiredKeys optionalKeys v = Some record \<Longrightarrow> v = JObj record"
  by (auto simp: exactRecord_def asRecord_def split: json.splits if_splits)

lemma property_of_simps [codec_simps]:
  "map_of record key = Some v \<Longrightarrow> property_of record key decode = decode v"
  "map_of record key = None \<Longrightarrow> property_of record key decode = None"
  by (simp_all add: property_of_def)

lemma property_of_Some:
  "property_of record key decode = Some a \<longleftrightarrow> (\<exists>v. map_of record key = Some v \<and> decode v = Some a)"
  by (auto simp: property_of_def bind_eq_Some_conv)

lemma optional_property_Some:
  "optional_property record key decode = Some a \<longleftrightarrow>
     (case a of None \<Rightarrow> map_of record key = None
      | Some b \<Rightarrow> \<exists>v. map_of record key = Some v \<and> decode v = Some b)"
  by (auto simp: optional_property_def split: option.splits)

lemma nullable_Some:
  "nullable decode v = Some a \<longleftrightarrow> (case a of None \<Rightarrow> v = JNull | Some b \<Rightarrow> v \<noteq> JNull \<and> decode v = Some b)"
  by (auto simp: nullable_def split: option.splits)

lemma array_of_Some: "array_of decode v = Some xs \<longleftrightarrow> (\<exists>vs. v = JArr vs \<and> map decode vs = map Some xs)"
  by (auto simp: array_of_def those_eq_Some_iff split: json.splits)

lemma array_of_if [codec_simps]:
  "(\<And>x. x \<in> set xs \<Longrightarrow> decode (encode x) = (if ok x then Some (canon x) else None)) \<Longrightarrow>
   array_of decode (JArr (map encode xs)) = (if list_all ok xs then Some (map canon xs) else None)"
  by (simp add: array_of_def comp_def those_if)

lemma array_of_same:
  "(\<And>x. decode (encode x) = (if ok x then Some x else None)) \<Longrightarrow>
   array_of decode (JArr (map encode xs)) = (if list_all ok xs then Some xs else None)"
  using array_of_if [of xs decode encode ok "\<lambda>x. x"] by simp

lemma array_of_sound:
  assumes "\<And>v x. decode v = Some x \<Longrightarrow> ok x" "array_of decode v = Some xs"
  shows "list_all ok xs"
proof -
  obtain vs where "map decode vs = map Some xs" using assms(2) by (auto simp: array_of_Some)
  then show ?thesis by (induction vs arbitrary: xs) (auto dest: assms(1))
qed

lemma length_js_set_map [codec_simps]: "length (js_set (map f xs)) = length xs \<longleftrightarrow> distinct (map f xs)"
  using length_js_set_iff [of "map f xs"] by simp

lemma nonBlankString_JStr [codec_simps]: "nonBlankString (JStr s) = (if nonBlank s then Some s else None)"
  by (simp add: nonBlankString_def)

lemma safeInteger_JNum [codec_simps]:
  "safeInteger minimum (JNum n) = (if safe_integer minimum n then Some n else None)"
  by (simp add: safeInteger_def)

lemma safeNatural_JNum [codec_simps]:
  "safeNatural (JNum (int n)) = (if n \<le> MAX_SAFE_INTEGER then Some n else None)"
  by (simp add: safeNatural_def safeInteger_def safe_integer_def)

lemma nonBlankString_Some: "nonBlankString v = Some s \<longleftrightarrow> v = JStr s \<and> nonBlank s"
  by (auto simp: nonBlankString_def split: json.splits)

lemma safeInteger_Some: "safeInteger minimum v = Some n \<longleftrightarrow> v = JNum n \<and> safe_integer minimum n"
  by (auto simp: safeInteger_def split: json.splits)

lemma safeNatural_Some: "safeNatural v = Some n \<longleftrightarrow> v = JNum (int n) \<and> n \<le> MAX_SAFE_INTEGER"
  by (auto simp: safeNatural_def safeInteger_def safe_integer_def split: json.splits)

lemma stringArray_JStr [codec_simps]:
  "stringArray (JArr (map JStr ss)) unique =
     (if list_all nonBlank ss \<and> (unique \<longrightarrow> distinct ss) then Some ss else None)"
proof -
  have "array_of nonBlankString (JArr (map JStr ss)) = (if list_all nonBlank ss then Some (map (\<lambda>s. s) ss) else None)"
    by (rule array_of_if) (rule nonBlankString_JStr)
  then show ?thesis by (auto simp: stringArray_def length_js_set_iff)
qed

lemma stringArray_Some:
  "stringArray v unique = Some ss \<longleftrightarrow>
     v = JArr (map JStr ss) \<and> list_all nonBlank ss \<and> (unique \<longrightarrow> distinct ss)"
proof
  assume "stringArray v unique = Some ss"
  then have "array_of nonBlankString v = Some ss" "unique \<longrightarrow> distinct ss"
    by (auto simp: stringArray_def bind_eq_Some_conv length_js_set_iff split: if_splits)
  moreover from this obtain vs where "v = JArr vs" "map nonBlankString vs = map Some ss"
    by (auto simp: array_of_Some)
  moreover from this(2) have "vs = map JStr ss \<and> list_all nonBlank ss"
    by (induction vs arbitrary: ss) (auto simp: nonBlankString_Some)
  ultimately show "v = JArr (map JStr ss) \<and> list_all nonBlank ss \<and> (unique \<longrightarrow> distinct ss)" by simp
qed (simp add: stringArray_JStr)

lemma decodeJsonValue_total [codec_simps]: "decodeJsonValue v = Some v"
proof (induction v rule: decodeJsonValue.induct)
  case (1 xs)
  then have "map decodeJsonValue xs = map Some xs" by simp
  then show ?case by (simp only: decodeJsonValue.simps those_map_Some) simp
next
  case (2 kvs)
  then have "map (\<lambda>(k, v). map_option (Pair k) (decodeJsonValue v)) kvs = map Some kvs" by auto
  then show ?case by (simp only: decodeJsonValue.simps those_map_Some) simp
qed simp_all

lemma safe_vector_sorted [simp]: "safe_vector (sort_key fst v) = safe_vector v"
  by (simp add: safe_vector_def list_all_iff)

lemma decodeVersionVector_JObj:
  "decodeVersionVector (JObj (map (\<lambda>(d, n). (d, JNum (int n))) v)) = (if safe_vector v then Some v else None)"
proof -
  have "those (map (\<lambda>(deviceId, counter). Option.bind (nonBlankString (JStr deviceId))
          (\<lambda>d. Option.bind (safeNatural counter) (\<lambda>n. Some (d, n)))) (map (\<lambda>(d, n). (d, JNum (int n))) v)) =
        (if list_all (\<lambda>(d, n). nonBlank d \<and> safe_integer 0 (int n)) v then Some (map (\<lambda>x. x) v) else None)"
    unfolding map_map
    by (rule those_if) (auto simp: codec_simps safe_integer_def split: if_splits)
  then show ?thesis by (simp add: decodeVersionVector_def asRecord_def safe_vector_def)
qed

lemma decodeVersionVector_encode [codec_simps]:
  "decodeVersionVector (encodeVersionVector v) = (if safe_vector v then Some (sort_key fst v) else None)"
  unfolding encodeVersionVector_def decodeVersionVector_JObj by simp

lemma decodeVersionVector_safe: "decodeVersionVector v = Some vv \<Longrightarrow> safe_vector vv"
proof -
  assume d: "decodeVersionVector v = Some vv"
  then obtain r0 where r: "map (\<lambda>(deviceId, counter). Option.bind (nonBlankString (JStr deviceId))
          (\<lambda>d. Option.bind (safeNatural counter) (\<lambda>n. Some (d, n)))) r0 = map Some vv"
    by (auto simp: decodeVersionVector_def bind_eq_Some_conv those_eq_Some_iff simp del: map_eq_conv)
  from r show ?thesis unfolding safe_vector_def
    by (induction r0 arbitrary: vv)
      (auto simp: bind_eq_Some_conv nonBlankString_Some safeNatural_Some safe_integer_def)
qed

section \<open>Bytes and the texts made of them\<close>

lemma decode_encodeBase64Url: "decodeBase64Url (encodeBase64Url bs) = Inr bs"
  using decode_padded [of 0 bs] by simp

lemma encodeBase64Url_inject: "encodeBase64Url a = encodeBase64Url b \<longleftrightarrow> a = b"
  by (metis decode_encodeBase64Url sum.inject(2))

lemma no_padding: "CHR ''='' \<notin> set (encodeBase64Url bs)"
  using encode_alphabet [of bs] by (auto simp: B64URLABC_def)

lemma canonical_text_iff: "canonical_text n s \<longleftrightarrow> (\<exists>bs. s = encodeBase64Url bs \<and> length bs = n)"
  by (auto simp: canonical_text_def no_padding decode_encodeBase64Url split: sum.splits)

lemma decodeCanonicalBytes_Some:
  "decodeCanonicalBytes v l = Some bs \<longleftrightarrow> v = encodeBytes bs \<and> (l = None \<or> l = Some (length bs))"
proof (cases v)
  case (JStr s)
  show ?thesis
  proof (cases "decodeBase64Url s")
    case (Inl e)
    then show ?thesis by (auto simp: JStr decodeCanonicalBytes_def encodeBytes_def decode_encodeBase64Url)
  next
    case (Inr d)
    show ?thesis
    proof (cases "encodeBase64Url d = s")
      case True
      then have "CHR ''='' \<notin> set s" using no_padding [of d] by simp
      with True Inr show ?thesis
        by (auto simp: JStr decodeCanonicalBytes_def encodeBytes_def encodeBase64Url_inject split: option.splits)
    next
      case False
      with Inr show ?thesis by (auto simp: JStr decodeCanonicalBytes_def encodeBytes_def decode_encodeBase64Url)
    qed
  qed
qed (simp_all add: decodeCanonicalBytes_def encodeBytes_def)

lemma decodeCanonicalBytes_encode [codec_simps]:
  "decodeCanonicalBytes (encodeBytes bs) l = (if l = None \<or> l = Some (length bs) then Some bs else None)"
  by (auto simp: encodeBytes_def decodeCanonicalBytes_def no_padding decode_encodeBase64Url split: option.splits)

lemma decodeCanonicalBytes_JStr:
  "(\<exists>bs. decodeCanonicalBytes (JStr s) (Some n) = Some bs) \<longleftrightarrow> canonical_text n s"
  by (auto simp: decodeCanonicalBytes_Some encodeBytes_def canonical_text_iff)

lemma canonicalDigest_Some: "canonicalDigest v = Some s \<longleftrightarrow> v = JStr s \<and> digest_text s"
  by (auto simp: canonicalDigest_def bind_eq_Some_conv decodeCanonicalBytes_Some text_of_def encodeBytes_def
      digest_text_def canonical_text_iff split: json.splits)

lemma canonicalDigest_JStr [codec_simps]: "canonicalDigest (JStr s) = (if digest_text s then Some s else None)"
  by (metis canonicalDigest_Some json.inject(3) not_None_eq)

text \<open>The texts of a ciphertext, a wrapped key and a signature.\<close>

definition cipher_text :: "nat option \<Rightarrow> string \<Rightarrow> bool" where
  "cipher_text exactLength s \<longleftrightarrow>
     (\<exists>bs. s = encodeBase64Url bs \<and> (case exactLength of None \<Rightarrow> 17 \<le> length bs | Some n \<Rightarrow> length bs = n))"

definition encrypted_ok :: "nat \<Rightarrow> nat option \<Rightarrow> SerializedEncrypted \<Rightarrow> bool" where
  "encrypted_ok nonceLength exactLength e \<longleftrightarrow>
     cipher_text exactLength (enc_ciphertext e) \<and> canonical_text nonceLength (enc_encryptionNonce e)"

definition wrapped_ok :: "SerializedWrapped \<Rightarrow> bool" where
  "wrapped_ok w \<longleftrightarrow> cipher_text None (wrap_wrappedKey w) \<and> canonical_text 12 (wrap_wrappingNonce w)"

lemma text_of_Some: "text_of v = Some s \<longleftrightarrow> v = JStr s"
  by (auto simp: text_of_def split: json.splits)

lemma decodeEncrypted_Some:
  "decodeEncrypted v n l = Some e \<Longrightarrow> encrypted_ok n l e"
  by (auto simp: decodeEncrypted_def bind_eq_Some_conv property_of_Some decodeCanonicalBytes_Some text_of_Some
      encodeBytes_def encrypted_ok_def cipher_text_def canonical_text_iff split: if_splits option.splits)

lemma decodeEncrypted_encode_ok:
  assumes "encrypted_ok n l e"
  shows "decodeEncrypted (encodeEncrypted e) n l = Some e"
proof -
  obtain cs ns where e: "enc_ciphertext e = encodeBase64Url cs" "enc_encryptionNonce e = encodeBase64Url ns"
    "length ns = n" "case l of None \<Rightarrow> 17 \<le> length cs | Some k \<Rightarrow> length cs = k"
    using assms by (auto simp: encrypted_ok_def cipher_text_def canonical_text_iff)
  then have "decodeCanonicalBytes (JStr (enc_ciphertext e)) l = Some cs"
    "decodeCanonicalBytes (JStr (enc_encryptionNonce e)) (Some n) = Some ns"
    by (auto simp: decodeCanonicalBytes_Some encodeBytes_def split: option.splits)
  with e(4) show ?thesis
    by (simp add: decodeEncrypted_def encodeEncrypted_def codec_simps text_of_def split: option.splits)
qed

lemma decodeEncrypted_encode [codec_simps]:
  "decodeEncrypted (encodeEncrypted e) n l = (if encrypted_ok n l e then Some e else None)"
proof (cases "decodeEncrypted (encodeEncrypted e) n l")
  case (Some e')
  then have "e' = e"
    by (auto simp: decodeEncrypted_def encodeEncrypted_def codec_simps bind_eq_Some_conv text_of_def split: if_splits)
  with Some show ?thesis by (auto dest: decodeEncrypted_Some)
qed (auto dest: decodeEncrypted_encode_ok)

lemma decodeWrapped_Some: "decodeWrapped v = Some w \<Longrightarrow> wrapped_ok w"
  by (auto simp: decodeWrapped_def bind_eq_Some_conv property_of_Some decodeCanonicalBytes_Some text_of_Some
      encodeBytes_def wrapped_ok_def cipher_text_def canonical_text_iff split: if_splits)

lemma decodeWrapped_encode [codec_simps]:
  "decodeWrapped (encodeWrapped w) = (if wrapped_ok w then Some w else None)"
proof (cases "decodeWrapped (encodeWrapped w)")
  case (Some w')
  then have "w' = w"
    by (auto simp: decodeWrapped_def encodeWrapped_def codec_simps bind_eq_Some_conv text_of_def split: if_splits)
  with Some show ?thesis by (auto dest: decodeWrapped_Some)
next
  case None
  moreover have "decodeWrapped (encodeWrapped w) = Some w" if "wrapped_ok w"
  proof -
    obtain ks ns where w: "wrap_wrappedKey w = encodeBase64Url ks" "wrap_wrappingNonce w = encodeBase64Url ns"
      "length ns = 12" "17 \<le> length ks"
      using \<open>wrapped_ok w\<close> by (auto simp: wrapped_ok_def cipher_text_def canonical_text_iff)
    then have "decodeCanonicalBytes (JStr (wrap_wrappedKey w)) None = Some ks"
      "decodeCanonicalBytes (JStr (wrap_wrappingNonce w)) (Some 12) = Some ns"
      by (auto simp: decodeCanonicalBytes_Some encodeBytes_def)
    with w(4) show ?thesis by (simp add: decodeWrapped_def encodeWrapped_def codec_simps text_of_def)
  qed
  ultimately show ?thesis by auto
qed

lemma decodeSignature_Some: "decodeSignature v = Some s \<Longrightarrow> canonical_text 64 s"
  by (auto simp: decodeSignature_def bind_eq_Some_conv property_of_Some decodeCanonicalBytes_Some text_of_Some
      encodeBytes_def canonical_text_iff)

text \<open>What is known of a value that was read.\<close>

lemmas reading_simps = bind_eq_Some_conv property_of_Some optional_property_Some nullable_Some
  nonBlankString_Some safeInteger_Some safeNatural_Some canonicalDigest_Some decodeCanonicalBytes_Some
  length_js_set_map

lemma decodeSignature_encode [codec_simps]:
  "decodeSignature (encodeSignature s) = (if canonical_text 64 s then Some s else None)"
proof (cases "canonical_text 64 s")
  case True
  then obtain bs where "decodeCanonicalBytes (JStr s) (Some 64) = Some bs"
    using decodeCanonicalBytes_JStr by blast
  with True show ?thesis by (simp add: decodeSignature_def encodeSignature_def codec_simps text_of_def)
next
  case False
  then have "decodeCanonicalBytes (JStr s) (Some 64) = None"
    using decodeCanonicalBytes_JStr by (metis not_None_eq)
  with False show ?thesis by (simp add: decodeSignature_def encodeSignature_def codec_simps)
qed

section \<open>Counting safely\<close>

lemma set_alist_update: "set (AList.update k a xs) \<subseteq> insert (k, a) (set xs)"
  by (induction xs) auto

lemma safe_vector_increment:
  assumes "safe_vector w" "nonBlank d" "vv_get w d < MAX_SAFE_INTEGER"
  shows "safe_vector (incrementVersionVector w d)"
proof -
  have "js_succ (vv_get w d) \<le> MAX_SAFE_INTEGER"
    using assms(3) by (simp add: js_succ_def)
  then show ?thesis
    using assms(1,2) set_alist_update [of d "js_succ (vv_get w d)" w]
    unfolding safe_vector_def incrementVersionVector_def list_all_iff safe_integer_def by fastforce
qed

end
