(* ===== verification/Session_Storage.thy ===== *)
theory Session_Storage
  imports Stateful Core_Errors Artifact_Codec
begin

text \<open>
  The data of an unlocked vault session and the two repositories that hold it
  (\<open>packages/core/src/domain/session\<close>, \<open>ports/session\<close> and the adapters under
  \<open>apps/extension/src/adapters/storage\<close>). One state is one extension context (a service worker, a
  popup): the first fields are shared by every context of the extension (the session storage area
  of the browser, the payload table of IndexedDB), the others belong to the context.

  Secret keys are array buffers: mutable objects that are passed by reference, cached, and zeroed
  when a session ends. They are addresses into an explicit memory, so that a theorem can say that
  no key which a caller still holds has been zeroed.
\<close>

section \<open>The records of a session\<close>

type_synonym buffer = nat

text \<open>
  The three fields that the material, the encrypted payload and the encryption context share.
\<close>

record session_identity =
  ses_sessionId :: string
  ses_vaultId :: string
  ses_sourceSnapshotVersionVector :: VersionVector

record TrustedSnapshotContext =
  tsc_snapshotDigest :: string
  tsc_trust :: VerifiedVaultTrustState

text \<open>
  The material is a record over the representation of its keys: buffers in memory, bytes in
  the storage area (written there as base64url text, see \<open>Base64_Url\<close>).
\<close>

record 'k UnlockedVaultSessionMaterial = session_identity +
  mat_deviceId :: string
  mat_vaultMasterKey :: 'k
  mat_devicePrivateSignKey :: 'k
  mat_devicePrivateVaultKey :: 'k
  mat_deviceLocalProtectionKey :: 'k
  mat_payloadKey :: 'k
  mat_trustedSnapshotContext :: TrustedSnapshotContext
  mat_vaultTrustAnchor :: LocalVaultTrustAnchor

type_synonym material = "buffer UnlockedVaultSessionMaterial"
type_synonym stored_material = "bytes UnlockedVaultSessionMaterial"

record EncryptedUnlockedVaultSessionPayload = session_identity +
  pay_content :: SerializedEncrypted

record UnlockedVault =
  uv_vaultId :: string
  uv_deviceId :: string
  uv_vault :: Vault
  uv_vaultMasterKey :: buffer
  uv_devicePrivateSignKey :: buffer
  uv_devicePrivateVaultKey :: buffer
  uv_deviceLocalProtectionKey :: buffer
  uv_trustedSnapshotContext :: TrustedSnapshotContext
  uv_vaultTrustAnchor :: LocalVaultTrustAnchor

record UnlockedVaultSession =
  us_sessionId :: string
  us_unlockedVault :: UnlockedVault
  us_sourceSnapshotVersionVector :: VersionVector

definition secret_buffers :: "'k UnlockedVaultSessionMaterial \<Rightarrow> 'k list" where
  "secret_buffers m =
     [mat_vaultMasterKey m, mat_devicePrivateSignKey m, mat_devicePrivateVaultKey m,
      mat_deviceLocalProtectionKey m, mat_payloadKey m]"

definition vault_secrets :: "UnlockedVault \<Rightarrow> buffer list" where
  "vault_secrets uv =
     [uv_vaultMasterKey uv, uv_devicePrivateSignKey uv, uv_devicePrivateVaultKey uv,
      uv_deviceLocalProtectionKey uv]"

section \<open>The state of a context\<close>

datatype SessionInvalidationState =
    No_invalidation
  | Known_session string
  | Unknown_session bool

text \<open>
  \<open>cachedMaterial\<close> is the field of the adapter: \<open>None\<close> for \<open>undefined\<close>, \<open>Some None\<close> for \<open>null\<close>.
  \<open>outside\<close> is the rest of the program, which the callbacks of the operations change. \<open>clock\<close>
  numbers the calls to external services; it is shared, as it only orders them.
\<close>

record 'o session_world =
  area_material :: "stored_material option"
  area_epoch :: "nat option"
  area_payload :: "json option"
  clock :: nat
  memory :: "buffer \<Rightarrow> bytes"
  next_buffer :: buffer
  cachedMaterial :: "material option option"
  activationGeneration :: nat
  invalidationState :: SessionInvalidationState
  activeLeases :: "nat list"
  next_lease :: nat
  outside :: 'o

text \<open>
  The services outside the repository. A call may fail, before or after its effect; identifiers
  and keys are drawn from streams indexed by the call; authenticated encryption binds the payload
  to its context; \<open>importable_keys\<close> is the key import of the platform.
\<close>

datatype call_outcome = Succeeds | Fails_before | Fails_after

record session_env =
  call_outcome_at :: "nat \<Rightarrow> call_outcome"
  generated_id :: "nat \<Rightarrow> string"
  generated_key :: "nat \<Rightarrow> bytes"
  encrypt_payload :: "nat \<Rightarrow> Vault \<Rightarrow> bytes \<Rightarrow> session_identity \<Rightarrow> SerializedEncrypted"
  decrypt_payload :: "SerializedEncrypted \<Rightarrow> bytes \<Rightarrow> session_identity \<Rightarrow> Vault option"
  importable_keys :: "stored_material \<Rightarrow> bool"

type_synonym ('o, 'a) session_op = "('o session_world, core_error, 'a) stateful"

definition external :: "session_env \<Rightarrow> ('o session_world \<Rightarrow> 'o session_world) \<Rightarrow> ('o, nat) session_op" where
  "external env effect w =
     (let n = clock w; w' = w\<lparr>clock := Suc n\<rparr> in
      case call_outcome_at env n of
        Succeeds \<Rightarrow> (Inr n, effect w')
      | Fails_before \<Rightarrow> (Inl (External_failure n), w')
      | Fails_after \<Rightarrow> (Inl (External_failure n), effect w'))"

text \<open>A callback reads the keys in memory and acts on the rest of the program only.\<close>

type_synonym ('o, 'a) callback = "(buffer \<Rightarrow> bytes) \<Rightarrow> 'o \<Rightarrow> (core_error + 'a) \<times> 'o"

definition callout :: "('o, 'a) callback \<Rightarrow> ('o, 'a) session_op" where
  "callout f w = (case f (memory w) (outside w) of (r, out) \<Rightarrow> (r, w\<lparr>outside := out\<rparr>))"

section \<open>Buffers\<close>

definition zeroed :: "bytes \<Rightarrow> bytes" where
  "zeroed bs = map (\<lambda>_. 0) bs"

definition secureWipe :: "buffer \<Rightarrow> 'o session_world \<Rightarrow> 'o session_world" where
  "secureWipe b w = w\<lparr>memory := (memory w)(b := zeroed (memory w b))\<rparr>"

definition bestEffortWipeArrayBuffers :: "buffer option list \<Rightarrow> 'o session_world \<Rightarrow> 'o session_world" where
  "bestEffortWipeArrayBuffers bs w =
     fold (\<lambda>b. case b of None \<Rightarrow> id | Some b \<Rightarrow> secureWipe b) bs w"

definition allocate :: "bytes \<Rightarrow> ('o, buffer) session_op" where
  "allocate bs w =
     (Inr (next_buffer w),
      w\<lparr>memory := (memory w)(next_buffer w := bs), next_buffer := Suc (next_buffer w)\<rparr>)"

section \<open>The stored form of the material\<close>

text \<open>\<open>encodeBytes\<close> reads the buffer at the time of the call.\<close>

definition serializeUnlockedVaultSessionMaterial :: "'o session_world \<Rightarrow> material \<Rightarrow> stored_material" where
  "serializeUnlockedVaultSessionMaterial w m =
     \<lparr>ses_sessionId = ses_sessionId m, ses_vaultId = ses_vaultId m,
      ses_sourceSnapshotVersionVector = ses_sourceSnapshotVersionVector m,
      mat_deviceId = mat_deviceId m,
      mat_vaultMasterKey = memory w (mat_vaultMasterKey m),
      mat_devicePrivateSignKey = memory w (mat_devicePrivateSignKey m),
      mat_devicePrivateVaultKey = memory w (mat_devicePrivateVaultKey m),
      mat_deviceLocalProtectionKey = memory w (mat_deviceLocalProtectionKey m),
      mat_payloadKey = memory w (mat_payloadKey m),
      mat_trustedSnapshotContext = mat_trustedSnapshotContext m,
      mat_vaultTrustAnchor = mat_vaultTrustAnchor m\<rparr>"

text \<open>
  The checks of the decoder: texts that are not blank, key lengths, unique trusted devices, and
  canonical digests, and an anchor and a device that fit the vault. The shapes of the JSON
  records and the text form of the keys are not represented.
\<close>

definition decodeTrustedSnapshotContext :: "TrustedSnapshotContext \<Rightarrow> bool" where
  "decodeTrustedSnapshotContext c \<longleftrightarrow>
     (let t = tsc_trust c; ds = ts_trustedDevices t in
      list_all (\<lambda>d. nonBlank (dti_deviceId d) \<and> length (dti_publicSignKey d) = 32 \<and>
                    length (dti_publicVaultKey d) = 65) ds \<and>
      distinct (map dti_deviceId ds) \<and>
      digest_text (tsc_snapshotDigest c) \<and>
      safe_integer 0 (ts_generation t) \<and> safe_integer 1 (ts_vaultKeyGeneration t) \<and>
      digest_text (ts_certificateDigest t))"

definition decodeVaultTrustAnchor :: "LocalVaultTrustAnchor \<Rightarrow> bool" where
  "decodeVaultTrustAnchor a \<longleftrightarrow>
     an_version a = 1 \<and> nonBlank (an_vaultId a) \<and> nonBlank (an_genesisDeviceId a) \<and>
     length (an_genesisPublicSignKey a) = 32 \<and> digest_text (an_genesisCertificateDigest a)"

definition decodeStoredMaterial :: "stored_material \<Rightarrow> bool" where
  "decodeStoredMaterial m \<longleftrightarrow>
     (let ds = ts_trustedDevices (tsc_trust (mat_trustedSnapshotContext m));
          a = mat_vaultTrustAnchor m in
      nonBlank (ses_sessionId m) \<and> nonBlank (ses_vaultId m) \<and>
      safe_vector (ses_sourceSnapshotVersionVector m) \<and>
      nonBlank (mat_deviceId m) \<and>
      length (mat_vaultMasterKey m) = 32 \<and>
      length (mat_devicePrivateSignKey m) = 48 \<and>
      length (mat_devicePrivateVaultKey m) = 138 \<and>
      length (mat_deviceLocalProtectionKey m) = 32 \<and>
      length (mat_payloadKey m) = 32 \<and>
      decodeTrustedSnapshotContext (mat_trustedSnapshotContext m) \<and>
      decodeVaultTrustAnchor a \<and>
      an_vaultId a = ses_vaultId m \<and>
      list_ex (\<lambda>d. dti_deviceId d = mat_deviceId m) ds \<and>
      (case find (\<lambda>d. dti_deviceId d = an_genesisDeviceId a) ds of
         None \<Rightarrow> True
       | Some d \<Rightarrow> dti_publicSignKey d = an_genesisPublicSignKey a))"

definition decodable :: "session_env \<Rightarrow> stored_material \<Rightarrow> bool" where
  "decodable env m \<longleftrightarrow> decodeStoredMaterial m \<and> importable_keys env m"

text \<open>A decoded material holds fresh buffers. A failed decoding wipes them before it throws.\<close>

definition deserializeUnlockedVaultSessionMaterial ::
  "session_env \<Rightarrow> stored_material \<Rightarrow> ('o, material) session_op" where
  "deserializeUnlockedVaultSessionMaterial env m =
     sthen (srequire (decodable env m) InvalidUnlockedVaultSessionMaterialError)
       (sbind (allocate (mat_vaultMasterKey m)) (\<lambda>k1.
        sbind (allocate (mat_devicePrivateSignKey m)) (\<lambda>k2.
        sbind (allocate (mat_devicePrivateVaultKey m)) (\<lambda>k3.
        sbind (allocate (mat_deviceLocalProtectionKey m)) (\<lambda>k4.
        sbind (allocate (mat_payloadKey m)) (\<lambda>k5.
        sret \<lparr>ses_sessionId = ses_sessionId m, ses_vaultId = ses_vaultId m,
              ses_sourceSnapshotVersionVector = ses_sourceSnapshotVersionVector m,
              mat_deviceId = mat_deviceId m,
              mat_vaultMasterKey = k1, mat_devicePrivateSignKey = k2,
              mat_devicePrivateVaultKey = k3, mat_deviceLocalProtectionKey = k4,
              mat_payloadKey = k5,
              mat_trustedSnapshotContext = mat_trustedSnapshotContext m,
              mat_vaultTrustAnchor = mat_vaultTrustAnchor m\<rparr>))))))"

text \<open>The identity is decoded with the whole material, whose fresh buffers are wiped at once.\<close>

definition deserializeUnlockedVaultSessionIdentity ::
  "session_env \<Rightarrow> stored_material \<Rightarrow> ('o, session_identity) session_op" where
  "deserializeUnlockedVaultSessionIdentity env stored =
     sbind (deserializeUnlockedVaultSessionMaterial env stored) (\<lambda>m.
     sthen (smodify (bestEffortWipeArrayBuffers (map Some (secret_buffers m))))
       (sret (session_identity.truncate m)))"

section \<open>The material repository\<close>

definition saveUnlockedVaultSessionMaterial :: "session_env \<Rightarrow> material \<Rightarrow> ('o, unit) session_op" where
  "saveUnlockedVaultSessionMaterial env m =
     sthen (external env (\<lambda>w. w\<lparr>area_material := Some (serializeUnlockedVaultSessionMaterial w m)\<rparr>))
       (smodify (\<lambda>w. w\<lparr>cachedMaterial := Some (Some m)\<rparr>))"

definition getUnlockedVaultSessionMaterial :: "session_env \<Rightarrow> ('o, material option) session_op" where
  "getUnlockedVaultSessionMaterial env =
     sbind (sread cachedMaterial) (\<lambda>cached. case cached of
       Some material \<Rightarrow> sret material
     | None \<Rightarrow>
         sthen (external env id)
           (sbind (sread area_material) (\<lambda>stored. case stored of
              None \<Rightarrow> sret None
            | Some stored \<Rightarrow>
                sbind (deserializeUnlockedVaultSessionMaterial env stored) (\<lambda>m.
                sthen (smodify (\<lambda>w. w\<lparr>cachedMaterial := Some (Some m)\<rparr>)) (sret (Some m))))))"

definition getPersistedUnlockedVaultSessionIdentity ::
  "session_env \<Rightarrow> ('o, session_identity option) session_op" where
  "getPersistedUnlockedVaultSessionIdentity env =
     sthen (external env id)
       (sbind (sread area_material) (\<lambda>stored. case stored of
          None \<Rightarrow> sret None
        | Some stored \<Rightarrow>
            sbind (deserializeUnlockedVaultSessionIdentity env stored) (\<lambda>i. sret (Some i))))"

definition readUnlockedVaultSessionEpoch :: "session_env \<Rightarrow> ('o, nat) session_op" where
  "readUnlockedVaultSessionEpoch env =
     sthen (external env id)
       (sbind (sread area_epoch) (\<lambda>epoch. case epoch of
          None \<Rightarrow> sret 0
        | Some epoch \<Rightarrow> sthen (srequire (epoch \<le> MAX_SAFE_INTEGER) Epoch_malformed) (sret epoch)))"

definition getUnlockedVaultSessionEpoch :: "session_env \<Rightarrow> ('o, nat) session_op" where
  "getUnlockedVaultSessionEpoch env = readUnlockedVaultSessionEpoch env"

definition advanceUnlockedVaultSessionEpoch :: "session_env \<Rightarrow> ('o, unit) session_op" where
  "advanceUnlockedVaultSessionEpoch env =
     sbind (readUnlockedVaultSessionEpoch env) (\<lambda>currentEpoch.
     sthen (srequire (currentEpoch \<noteq> MAX_SAFE_INTEGER) Epoch_exhausted)
     (sthen (external env (\<lambda>w. w\<lparr>area_epoch := Some (currentEpoch + 1)\<rparr>)) (sret ())))"

definition evictCachedUnlockedVaultSessionMaterial :: "string option \<Rightarrow> ('o, unit) session_op" where
  "evictCachedUnlockedVaultSessionMaterial sessionId =
     smodify (\<lambda>w. case cachedMaterial w of
       None \<Rightarrow> w
     | Some None \<Rightarrow> w\<lparr>cachedMaterial := None\<rparr>
     | Some (Some m) \<Rightarrow>
         if sessionId = Some (ses_sessionId m) then w\<lparr>cachedMaterial := None\<rparr> else w)"

definition removeUnlockedVaultSessionMaterial :: "session_env \<Rightarrow> ('o, unit) session_op" where
  "removeUnlockedVaultSessionMaterial env =
     sfinally (sthen (external env (\<lambda>w. w\<lparr>area_material := None\<rparr>)) (sret ()))
       (\<lambda>w. w\<lparr>cachedMaterial := Some None\<rparr>)"

section \<open>The stored form of the payload\<close>

text \<open>
  The row of the IndexedDB table is a structured clone of \<open>{ id, ...encryptedPayload }\<close>, a JSON
  value. A row is read back by three checks: its keys are exactly the five of a stored record, its
  \<open>id\<close> is that of the active payload, and the other four properties are a payload record.
\<close>

definition ACTIVE_UNLOCKED_VAULT_SESSION_PAYLOAD_ID :: string where
  "ACTIVE_UNLOCKED_VAULT_SESSION_PAYLOAD_ID = ''active''"

definition STORED_RECORD_KEYS :: "string list" where
  "STORED_RECORD_KEYS = [''content'', ''id'', ''sessionId'', ''sourceSnapshotVersionVector'', ''vaultId'']"

definition payload_record :: "EncryptedUnlockedVaultSessionPayload \<Rightarrow> json" where
  "payload_record p = JObj
     [(''id'', JStr ACTIVE_UNLOCKED_VAULT_SESSION_PAYLOAD_ID),
      (''sessionId'', JStr (ses_sessionId p)), (''vaultId'', JStr (ses_vaultId p)),
      (''sourceSnapshotVersionVector'',
        JObj (map (\<lambda>(d, n). (d, JNum (int n))) (ses_sourceSnapshotVersionVector p))),
      (''content'', encodeEncrypted (pay_content p))]"

definition decodeEncryptedUnlockedVaultSessionPayload ::
  "json \<Rightarrow> core_error + EncryptedUnlockedVaultSessionPayload" where
  "decodeEncryptedUnlockedVaultSessionPayload v =
     (case do {
        record \<leftarrow> exactRecord [''sessionId'', ''vaultId'', ''sourceSnapshotVersionVector'', ''content''] [] v;
        sessionId \<leftarrow> property_of record ''sessionId'' nonBlankString;
        vaultId \<leftarrow> property_of record ''vaultId'' nonBlankString;
        vector \<leftarrow> property_of record ''sourceSnapshotVersionVector'' decodeVersionVector;
        content \<leftarrow> property_of record ''content'' (\<lambda>c. decodeEncrypted c 12 None);
        Some \<lparr>ses_sessionId = sessionId, ses_vaultId = vaultId,
              ses_sourceSnapshotVersionVector = vector, pay_content = content\<rparr> } of
        None \<Rightarrow> Inl (Storage_error InvalidUnlockedVaultSessionPayloadRecordError)
      | Some p \<Rightarrow> Inr p)"

definition read_payload_record :: "json \<Rightarrow> core_error + EncryptedUnlockedVaultSessionPayload" where
  "read_payload_record record =
     (case exactRecord STORED_RECORD_KEYS [] record of
        None \<Rightarrow> Inl (Storage_error InvalidUnlockedVaultSessionPayloadRecordError)
      | Some stored \<Rightarrow>
          if map_of stored ''id'' \<noteq> Some (JStr ACTIVE_UNLOCKED_VAULT_SESSION_PAYLOAD_ID)
          then Inl (Storage_error InvalidUnlockedVaultSessionPayloadRecordError)
          else decodeEncryptedUnlockedVaultSessionPayload
            (JObj (map (\<lambda>key. (key, the (map_of stored key)))
               [''sessionId'', ''vaultId'', ''sourceSnapshotVersionVector'', ''content''])))"

text \<open>The payloads that survive the table.\<close>

definition payload_ok :: "EncryptedUnlockedVaultSessionPayload \<Rightarrow> bool" where
  "payload_ok p \<longleftrightarrow>
     nonBlank (ses_sessionId p) \<and> nonBlank (ses_vaultId p) \<and>
     safe_vector (ses_sourceSnapshotVersionVector p) \<and> encrypted_ok 12 None (pay_content p)"

lemma read_payload_record_iff:
  "read_payload_record (payload_record p) =
     (if payload_ok p then Inr p
      else Inl (Storage_error InvalidUnlockedVaultSessionPayloadRecordError))"
  by (auto simp: read_payload_record_def payload_record_def STORED_RECORD_KEYS_def payload_ok_def
      decodeEncryptedUnlockedVaultSessionPayload_def decodeVersionVector_JObj codec_simps)

lemma read_payload_ok: "payload_ok p \<Longrightarrow> read_payload_record (payload_record p) = Inr p"
  by (simp add: read_payload_record_iff)

section \<open>The payload repository\<close>

definition saveEncryptedUnlockedVaultSessionPayload ::
  "session_env \<Rightarrow> EncryptedUnlockedVaultSessionPayload \<Rightarrow> ('o, unit) session_op" where
  "saveEncryptedUnlockedVaultSessionPayload env p =
     sthen (external env (\<lambda>w. w\<lparr>area_payload := Some (payload_record p)\<rparr>)) (sret ())"

definition getEncryptedUnlockedVaultSessionPayload ::
  "session_env \<Rightarrow> ('o, EncryptedUnlockedVaultSessionPayload option) session_op" where
  "getEncryptedUnlockedVaultSessionPayload env =
     sthen (external env id)
       (sbind (sread area_payload) (\<lambda>record. case record of
          None \<Rightarrow> sret None
        | Some record \<Rightarrow> sbind (slift (read_payload_record record)) (\<lambda>p. sret (Some p))))"

definition removeEncryptedUnlockedVaultSessionPayload :: "session_env \<Rightarrow> ('o, unit) session_op" where
  "removeEncryptedUnlockedVaultSessionPayload env =
     sthen (external env (\<lambda>w. w\<lparr>area_payload := None\<rparr>)) (sret ())"

end
