(* ===== verification/Vault_Session.thy ===== *)
theory Vault_Session
  imports Session_Storage
begin

text \<open>
  The unlocked vault session (\<open>services/session/unlocked-vault-session.service.ts\<close>): which vault a
  context has open, under which session, with which keys. Every operation is the method of the
  service with every call it makes to the two repositories, in the order of the code; every such
  call may fail, and the error paths are the branches of the model. The lease of the clipboard
  coordinator makes an operation exclusive among all contexts, so an operation is one step
  (\<open>Session_System\<close>); the promise chain \<open>serializeSessionOperation\<close> orders the operations of one
  context in the same way.
\<close>

section \<open>Leases\<close>

text \<open>\<open>runExclusive\<close> of the Web Locks adapter: the lease is active while the callback runs.\<close>

definition isLeaseActive :: "'o session_world \<Rightarrow> nat \<Rightarrow> bool" where
  "isLeaseActive w lease \<longleftrightarrow> lease \<in> set (activeLeases w)"

definition runExclusive :: "(nat \<Rightarrow> ('o, 'a) session_op) \<Rightarrow> ('o, 'a) session_op" where
  "runExclusive operation =
     sbind (sread next_lease) (\<lambda>lease.
     sfinally
       (sthen (smodify (\<lambda>w. w\<lparr>next_lease := Suc lease, activeLeases := lease # activeLeases w\<rparr>))
          (operation lease))
       (\<lambda>w. w\<lparr>activeLeases := removeAll lease (activeLeases w)\<rparr>))"

definition run_with_lease :: "('o, 'a) session_op \<Rightarrow> nat \<Rightarrow> ('o, 'a) session_op" where
  "run_with_lease operation lease =
     sbind (sread (\<lambda>w. isLeaseActive w lease)) (\<lambda>active.
     sthen (srequire active Lease_not_active) operation)"

definition runCoordinatedSessionMutation ::
  "nat option \<Rightarrow> ('o, 'a) session_op \<Rightarrow> ('o, 'a) session_op" where
  "runCoordinatedSessionMutation coordinationLease operation =
     (case coordinationLease of
        None \<Rightarrow> runExclusive (run_with_lease operation)
      | Some lease \<Rightarrow> run_with_lease operation lease)"

section \<open>Comparing session records\<close>

definition same_session :: "('k, 'a) UnlockedVaultSessionMaterial_scheme \<Rightarrow> session_identity \<Rightarrow> bool" where
  "same_session m i \<longleftrightarrow> ses_sessionId i = ses_sessionId m \<and> ses_vaultId i = ses_vaultId m"

definition same_snapshot :: "VersionVector \<Rightarrow> VersionVector \<Rightarrow> bool" where
  "same_snapshot v v' \<longleftrightarrow> compareVersionVectors v v' = Equal"

definition isActiveSession ::
  "material option \<Rightarrow> string \<Rightarrow> string \<Rightarrow> 'o session_world \<Rightarrow> bool" where
  "isActiveSession activeMaterial sessionId vaultId w \<longleftrightarrow>
     (case activeMaterial of
        None \<Rightarrow> False
      | Some m \<Rightarrow> invalidationState w = No_invalidation \<and> ses_sessionId m = sessionId \<and>
                  ses_vaultId m = vaultId)"

definition requireActiveSession ::
  "material option \<Rightarrow> string \<Rightarrow> string \<Rightarrow> ('o, unit) session_op" where
  "requireActiveSession activeMaterial sessionId vaultId =
     sbind (sread (isActiveSession activeMaterial sessionId vaultId)) (\<lambda>active.
     srequire active (UnlockedVaultSessionExpiredError vaultId))"

definition requireMatchingSessionRecords ::
  "material \<Rightarrow> EncryptedUnlockedVaultSessionPayload \<Rightarrow> ('o, unit) session_op" where
  "requireMatchingSessionRecords m p =
     (if ses_sessionId m \<noteq> ses_sessionId p \<or> ses_vaultId m \<noteq> ses_vaultId p
      then sthrow (UnlockedVaultSessionInvalidError Material_payload_mismatch)
      else let relation = compareVersionVectors (ses_sourceSnapshotVersionVector p)
                 (ses_sourceSnapshotVersionVector m) in
        srequire (\<not> (relation \<noteq> Equal \<and> relation \<noteq> Local_ahead))
          (UnlockedVaultSessionInvalidError Payload_older_than_material))"

section \<open>Wiping\<close>

definition wipeMaterial :: "material \<Rightarrow> 'o session_world \<Rightarrow> 'o session_world" where
  "wipeMaterial m = bestEffortWipeArrayBuffers (map Some (secret_buffers m))"

text \<open>The keys of a replaced material that its replacement does not use in the same place.\<close>

definition wipeReplacedMaterial ::
  "material \<Rightarrow> material \<Rightarrow> 'o session_world \<Rightarrow> 'o session_world" where
  "wipeReplacedMaterial previous current =
     bestEffortWipeArrayBuffers
       (map2 (\<lambda>p c. if p = c then None else Some p) (secret_buffers previous) (secret_buffers current))"

definition set_invalidation :: "SessionInvalidationState \<Rightarrow> 'o session_world \<Rightarrow> 'o session_world" where
  "set_invalidation i w = w\<lparr>invalidationState := i\<rparr>"

definition next_generation :: "'o session_world \<Rightarrow> 'o session_world" where
  "next_generation w = w\<lparr>activationGeneration := js_succ (activationGeneration w)\<rparr>"

section \<open>Reconciling the cache with the shared identity\<close>

record reconciliation =
  rec_material :: "material option"
  rec_reconciled :: bool
  rec_advanced :: bool

abbreviation no_material :: "bool \<Rightarrow> bool \<Rightarrow> reconciliation" where
  "no_material reconciled advanced \<equiv>
     \<lparr>rec_material = None, rec_reconciled = reconciled, rec_advanced = advanced\<rparr>"

text \<open>The part of \<open>reconcileActiveMaterial\<close> without a pending invalidation.\<close>

definition reconcile_cached ::
  "session_env \<Rightarrow> session_identity option \<Rightarrow> ('o, reconciliation) session_op" where
  "reconcile_cached env persistedIdentity =
     sbind (getUnlockedVaultSessionMaterial env) (\<lambda>material. case material of
       None \<Rightarrow> sret (no_material False False)
     | Some m \<Rightarrow>
         (let same = (case persistedIdentity of None \<Rightarrow> False | Some i \<Rightarrow> same_session m i) in
          if same \<and> same_snapshot (ses_sourceSnapshotVersionVector (the persistedIdentity))
                       (ses_sourceSnapshotVersionVector m)
          then sret \<lparr>rec_material = Some m, rec_reconciled = False, rec_advanced = False\<rparr>
          else
            sthen (smodify (\<lambda>w. set_invalidation (Known_session (ses_sessionId m))
                                  (next_generation (wipeMaterial m w))))
            (sthen (evictCachedUnlockedVaultSessionMaterial (Some (ses_sessionId m)))
            (sthen (smodify (set_invalidation No_invalidation))
               (sret (no_material True same))))))"

text \<open>
  A pending invalidation blocks the session it names, or every session if it is unknown and
  the stored material may still be there. The recursive call of the code is made after the
  invalidation has been cleared, so it is \<open>reconcile_cached\<close>.
\<close>

definition reconcileActiveMaterial ::
  "session_env \<Rightarrow> session_identity option \<Rightarrow> ('o, reconciliation) session_op" where
  "reconcileActiveMaterial env persistedIdentity =
     sbind (sread invalidationState) (\<lambda>invalidation.
     if invalidation = No_invalidation then reconcile_cached env persistedIdentity
     else if persistedIdentity = None \<or>
             (\<exists>i \<in> set_option persistedIdentity. invalidation = Known_session (ses_sessionId i)) \<or>
             invalidation = Unknown_session False
     then sret (no_material False False)
     else
       sthen (evictCachedUnlockedVaultSessionMaterial
                (case invalidation of Known_session s \<Rightarrow> Some s | _ \<Rightarrow> None))
       (sthen (smodify (set_invalidation No_invalidation))
          (reconcile_cached env persistedIdentity)))"

text \<open>How the operations begin: the shared identity, then the cache against it.\<close>

definition reconcile_with_storage ::
  "session_env \<Rightarrow> ('o, session_identity option \<times> reconciliation) session_op" where
  "reconcile_with_storage env =
     sbind (getPersistedUnlockedVaultSessionIdentity env) (\<lambda>persistedIdentity.
     sbind (reconcileActiveMaterial env persistedIdentity) (\<lambda>rec. sret (persistedIdentity, rec)))"

section \<open>Removing the session records\<close>

text \<open>
  Both records are removed whatever fails on the way; the first removal error is reported, then
  the error of reading the material.
\<close>

definition removeSessionRecords :: "session_env \<Rightarrow> material option \<Rightarrow> ('o, unit) session_op" where
  "removeSessionRecords env knownMaterial =
     sthen (smodify (\<lambda>w. set_invalidation
              (case knownMaterial of
                 None \<Rightarrow> Unknown_session False
               | Some m \<Rightarrow> Known_session (ses_sessionId m)) (next_generation w)))
     (sbind (case knownMaterial of
               None \<Rightarrow> stry (getUnlockedVaultSessionMaterial env)
             | Some m \<Rightarrow> sret (Inr (Some m))) (\<lambda>material.
     sthen (case material of
              Inr (Some m) \<Rightarrow>
                smodify (\<lambda>w. wipeMaterial m (set_invalidation (Known_session (ses_sessionId m)) w))
            | _ \<Rightarrow> sret ())
     (sbind (stry (removeUnlockedVaultSessionMaterial env)) (\<lambda>removed.
     sthen (case removed of
              Inl e \<Rightarrow> sret ()
            | Inr u \<Rightarrow> smodify (\<lambda>w. case invalidationState w of
                         Unknown_session b \<Rightarrow> set_invalidation (Unknown_session True) w
                       | _ \<Rightarrow> w))
     (sbind (stry (removeEncryptedUnlockedVaultSessionPayload env)) (\<lambda>payloadRemoved.
      sfinish (or_else (or_else (caught removed) (caught payloadRemoved)) (caught material)) ()))))))"

definition revokeAuthorizationsAndRemoveSessionRecords ::
  "session_env \<Rightarrow> material option \<Rightarrow> ('o, unit) session_op" where
  "revokeAuthorizationsAndRemoveSessionRecords env knownMaterial =
     sbind (stry (advanceUnlockedVaultSessionEpoch env)) (\<lambda>advanced.
     sbind (stry (removeSessionRecords env knownMaterial)) (\<lambda>removed.
     sfinish (or_else (caught advanced) (caught removed)) ()))"

definition removeSessionRecordsPreservingRootCause ::
  "session_env \<Rightarrow> material option \<Rightarrow> ('o, unit) session_op" where
  "removeSessionRecordsPreservingRootCause env knownMaterial =
     sthen (stry (removeSessionRecords env knownMaterial)) (sret ())"

definition revokeAuthorizationsAndRemoveSessionRecordsPreservingRootCause ::
  "session_env \<Rightarrow> material option \<Rightarrow> ('o, unit) session_op" where
  "revokeAuthorizationsAndRemoveSessionRecordsPreservingRootCause env knownMaterial =
     sthen (stry (revokeAuthorizationsAndRemoveSessionRecords env knownMaterial)) (sret ())"

section \<open>Protecting and restoring a session\<close>

definition session_context :: "string \<Rightarrow> string \<Rightarrow> VersionVector \<Rightarrow> session_identity" where
  "session_context sessionId vaultId v =
     \<lparr>ses_sessionId = sessionId, ses_vaultId = vaultId, ses_sourceSnapshotVersionVector = v\<rparr>"

definition generateUnlockedVaultSessionPayloadKey :: "session_env \<Rightarrow> ('o, buffer) session_op" where
  "generateUnlockedVaultSessionPayloadKey env =
     sbind (external env id) (\<lambda>n. allocate (generated_key env n))"

definition encryptUnlockedVaultSessionPayload ::
  "session_env \<Rightarrow> Vault \<Rightarrow> buffer \<Rightarrow> session_identity \<Rightarrow> ('o, SerializedEncrypted) session_op" where
  "encryptUnlockedVaultSessionPayload env vault key context =
     sbind (external env id) (\<lambda>n.
     sread (\<lambda>w. encrypt_payload env n vault (memory w key) context))"

definition decryptUnlockedVaultSessionPayload ::
  "session_env \<Rightarrow> SerializedEncrypted \<Rightarrow> buffer \<Rightarrow> session_identity \<Rightarrow> ('o, Vault) session_op" where
  "decryptUnlockedVaultSessionPayload env content key context =
     sbind (external env id) (\<lambda>n.
     sbind (sread (\<lambda>w. decrypt_payload env content (memory w key) context)) (\<lambda>vault.
     case vault of None \<Rightarrow> sthrow (External_failure n) | Some v \<Rightarrow> sret v))"

definition protect ::
  "session_env \<Rightarrow> UnlockedVault \<Rightarrow> VersionVector \<Rightarrow> material option \<Rightarrow>
   ('o, material \<times> EncryptedUnlockedVaultSessionPayload) session_op" where
  "protect env unlockedVault v activeMaterial =
     sbind (case activeMaterial of
              Some m \<Rightarrow> sret (ses_sessionId m)
            | None \<Rightarrow> sbind (external env id) (\<lambda>n. sret (generated_id env n))) (\<lambda>sessionId.
     sbind (case activeMaterial of
              Some m \<Rightarrow> sret (mat_payloadKey m)
            | None \<Rightarrow> generateUnlockedVaultSessionPayloadKey env) (\<lambda>payloadKey.
      let context = session_context sessionId (uv_vaultId unlockedVault) v;
          generatedPayloadKey = (if activeMaterial = None then Some payloadKey else None) in
     sbind (scatch (encryptUnlockedVaultSessionPayload env (uv_vault unlockedVault) payloadKey context)
              (\<lambda>e. sthen (smodify (bestEffortWipeArrayBuffers [generatedPayloadKey])) (sthrow e)))
       (\<lambda>content.
     sret
       (\<lparr>ses_sessionId = sessionId, ses_vaultId = uv_vaultId unlockedVault,
         ses_sourceSnapshotVersionVector = v,
         mat_deviceId = uv_deviceId unlockedVault,
         mat_vaultMasterKey = uv_vaultMasterKey unlockedVault,
         mat_devicePrivateSignKey = uv_devicePrivateSignKey unlockedVault,
         mat_devicePrivateVaultKey = uv_devicePrivateVaultKey unlockedVault,
         mat_deviceLocalProtectionKey = uv_deviceLocalProtectionKey unlockedVault,
         mat_payloadKey = payloadKey,
         mat_trustedSnapshotContext = uv_trustedSnapshotContext unlockedVault,
         mat_vaultTrustAnchor = uv_vaultTrustAnchor unlockedVault\<rparr>,
        \<lparr>ses_sessionId = sessionId, ses_vaultId = uv_vaultId unlockedVault,
         ses_sourceSnapshotVersionVector = v, pay_content = content\<rparr>))))"

definition persistProtectedSession ::
  "session_env \<Rightarrow> material \<times> EncryptedUnlockedVaultSessionPayload \<Rightarrow> ('o, unit) session_op" where
  "persistProtectedSession env protectedSession =
     sthen (saveEncryptedUnlockedVaultSessionPayload env (snd protectedSession))
       (saveUnlockedVaultSessionMaterial env (fst protectedSession))"

definition restored_session ::
  "material \<Rightarrow> EncryptedUnlockedVaultSessionPayload \<Rightarrow> Vault \<Rightarrow> UnlockedVaultSession" where
  "restored_session m p vault =
     \<lparr>us_sessionId = ses_sessionId m,
      us_unlockedVault =
        \<lparr>uv_vaultId = ses_vaultId m, uv_deviceId = mat_deviceId m, uv_vault = vault,
         uv_vaultMasterKey = mat_vaultMasterKey m,
         uv_devicePrivateSignKey = mat_devicePrivateSignKey m,
         uv_devicePrivateVaultKey = mat_devicePrivateVaultKey m,
         uv_deviceLocalProtectionKey = mat_deviceLocalProtectionKey m,
         uv_trustedSnapshotContext = mat_trustedSnapshotContext m,
         uv_vaultTrustAnchor = mat_vaultTrustAnchor m\<rparr>,
      us_sourceSnapshotVersionVector = ses_sourceSnapshotVersionVector p\<rparr>"

definition restore ::
  "session_env \<Rightarrow> material \<Rightarrow> EncryptedUnlockedVaultSessionPayload \<Rightarrow> ('o, UnlockedVaultSession) session_op" where
  "restore env m p =
     sthen (requireMatchingSessionRecords m p)
     (sbind (scatch (decryptUnlockedVaultSessionPayload env (pay_content p) (mat_payloadKey m)
               (session_context (ses_sessionId p) (ses_vaultId p) (ses_sourceSnapshotVersionVector p)))
               (\<lambda>e. sthrow (UnlockedVaultSessionInvalidError Payload_cannot_be_decrypted)))
       (\<lambda>vault. sret (restored_session m p vault)))"

definition restore_stored_payload ::
  "session_env \<Rightarrow> material \<Rightarrow> ('o, UnlockedVaultSession option) session_op" where
  "restore_stored_payload env m =
     sbind (getEncryptedUnlockedVaultSessionPayload env) (\<lambda>payload. case payload of
       None \<Rightarrow> sthrow (UnlockedVaultSessionInvalidError Payload_missing)
     | Some p \<Rightarrow> sbind (restore env m p) (\<lambda>session. sret (Some session)))"

text \<open>
  The material that was found before an error occurred is what the cleanup of the error removes;
  a failure before that leaves it \<open>undefined\<close>.
\<close>

definition restoreSession :: "session_env \<Rightarrow> ('o, UnlockedVaultSession option) session_op" where
  "restoreSession env =
     sbind (stry (reconcile_with_storage env)) (\<lambda>r.
       let material = (case r of Inl e \<Rightarrow> None | Inr (persistedIdentity, rec) \<Rightarrow> rec_material rec) in
       scatch
         (case r of
            Inl e \<Rightarrow> sthrow e
          | Inr _ \<Rightarrow> (case material of None \<Rightarrow> sret None | Some m \<Rightarrow> restore_stored_payload env m))
         (\<lambda>e. sthen (revokeAuthorizationsAndRemoveSessionRecordsPreservingRootCause env material)
           (sthrow e)))"

section \<open>Reading the session\<close>

record VaultSessionActivationAuthorization =
  auth_localGeneration :: nat
  auth_sharedEpoch :: nat

definition requireVaultCanBeActivated ::
  "session_env \<Rightarrow> string \<Rightarrow> ('o, VaultSessionActivationAuthorization) session_op" where
  "requireVaultCanBeActivated env vaultId =
     runCoordinatedSessionMutation None
       (sbind (getUnlockedVaultSessionEpoch env) (\<lambda>sharedEpoch.
        sbind (getPersistedUnlockedVaultSessionIdentity env) (\<lambda>persistedIdentity.
        sbind (reconcileActiveMaterial env persistedIdentity) (\<lambda>_.
        sthen (case persistedIdentity of
                 None \<Rightarrow> sret ()
               | Some i \<Rightarrow> srequire (\<not> ses_vaultId i \<noteq> vaultId)
                              (ActiveUnlockedVaultMismatchError (ses_vaultId i) vaultId))
          (sread (\<lambda>w. \<lparr>auth_localGeneration = activationGeneration w,
                       auth_sharedEpoch = sharedEpoch\<rparr>))))))"

definition get_session :: "session_env \<Rightarrow> nat option \<Rightarrow> ('o, UnlockedVaultSession option) session_op" where
  "get_session env lease = runCoordinatedSessionMutation lease (restoreSession env)"

definition getActiveVaultId :: "session_env \<Rightarrow> nat option \<Rightarrow> ('o, string option) session_op" where
  "getActiveVaultId env lease =
     runCoordinatedSessionMutation lease
       (sbind (getPersistedUnlockedVaultSessionIdentity env) (\<lambda>persistedIdentity.
        sbind (reconcileActiveMaterial env persistedIdentity) (\<lambda>rec.
        case rec_material rec of
          Some m \<Rightarrow> sret (Some (ses_vaultId m))
        | None \<Rightarrow>
            sbind (sread invalidationState) (\<lambda>invalidation.
            case persistedIdentity of
              None \<Rightarrow> sret None
            | Some i \<Rightarrow>
                if invalidation \<noteq> No_invalidation then sret None
                else
                  sthen (if \<not> rec_reconciled rec then evictCachedUnlockedVaultSessionMaterial None
                         else sret ())
                    (sret (Some (ses_vaultId i)))))))"

definition runWithUnlockedVaultContext ::
  "session_env \<Rightarrow> string \<Rightarrow> string \<Rightarrow> (UnlockedVaultSession \<Rightarrow> ('o, 'a) callback) \<Rightarrow> nat option \<Rightarrow>
   ('o, 'a) session_op" where
  "runWithUnlockedVaultContext env vaultId operation run lease =
     runCoordinatedSessionMutation lease
       (sbind (restoreSession env) (\<lambda>session. case session of
          None \<Rightarrow> sthrow (VaultMustBeUnlockedError vaultId operation)
        | Some s \<Rightarrow>
            if uv_vaultId (us_unlockedVault s) \<noteq> vaultId
            then sthrow (VaultMustBeUnlockedError vaultId operation)
            else callout (run s)))"

definition requireUnlockedVaultContext ::
  "session_env \<Rightarrow> string \<Rightarrow> string \<Rightarrow> nat option \<Rightarrow> ('o, UnlockedVaultSession) session_op" where
  "requireUnlockedVaultContext env vaultId operation lease =
     runWithUnlockedVaultContext env vaultId operation (\<lambda>session _ out. (Inr session, out)) lease"

section \<open>Activating and committing\<close>

text \<open>
  Nothing is written before every check has passed. The epoch is advanced before the new records
  are, so that an authorization is used at most once, and a failure after that point removes
  the records of the session that was active.
\<close>

definition require_current_authorization ::
  "session_env \<Rightarrow> VaultSessionActivationAuthorization \<Rightarrow> string \<Rightarrow> ('o, unit) session_op" where
  "require_current_authorization env auth vaultId =
     sbind (sread activationGeneration) (\<lambda>generation.
     if auth_localGeneration auth \<noteq> generation then sthrow (UnlockedVaultSessionExpiredError vaultId)
     else
     sbind (getUnlockedVaultSessionEpoch env) (\<lambda>sharedEpoch.
     srequire (\<not> auth_sharedEpoch auth \<noteq> sharedEpoch) (UnlockedVaultSessionExpiredError vaultId)))"

definition require_replaceable ::
  "string \<Rightarrow> session_identity option \<Rightarrow> reconciliation \<Rightarrow> ('o, material option) session_op" where
  "require_replaceable vaultId persistedIdentity rec =
     (if rec_reconciled rec then sthrow (UnlockedVaultSessionExpiredError vaultId)
      else
      sthen (case persistedIdentity of
               None \<Rightarrow> sret ()
             | Some i \<Rightarrow> srequire (\<not> ses_vaultId i \<noteq> vaultId)
                            (ActiveUnlockedVaultMismatchError (ses_vaultId i) vaultId))
      (if map_option ses_sessionId persistedIdentity \<noteq> map_option ses_sessionId (rec_material rec)
       then sthrow (UnlockedVaultSessionExpiredError vaultId)
       else
       sthen (case rec_material rec of
                None \<Rightarrow> sret ()
              | Some m \<Rightarrow> srequire (\<not> ses_vaultId m \<noteq> vaultId)
                             (ActiveUnlockedVaultMismatchError (ses_vaultId m) vaultId))
         (sret (rec_material rec))))"

definition require_activation ::
  "session_env \<Rightarrow> VaultSessionActivationAuthorization \<Rightarrow> string \<Rightarrow> ('o, material option) session_op" where
  "require_activation env auth vaultId =
     sthen (require_current_authorization env auth vaultId)
       (sbind (getPersistedUnlockedVaultSessionIdentity env) (\<lambda>persistedIdentity.
        sbind (reconcileActiveMaterial env persistedIdentity)
          (require_replaceable vaultId persistedIdentity)))"

definition persist_replacement ::
  "session_env \<Rightarrow> material option \<Rightarrow> material \<times> EncryptedUnlockedVaultSessionPayload \<Rightarrow>
   ('o, string \<times> nat) session_op" where
  "persist_replacement env activeMaterial protectedSession =
     sthen
       (scatch (persistProtectedSession env protectedSession)
          (\<lambda>e. sthen (smodify (wipeMaterial (fst protectedSession)))
            (sthen (removeSessionRecordsPreservingRootCause env activeMaterial) (sthrow e))))
     (sthen (case activeMaterial of
               None \<Rightarrow> sret ()
             | Some m \<Rightarrow> smodify (wipeReplacedMaterial m (fst protectedSession)))
     (sthen (smodify (\<lambda>w. next_generation (set_invalidation No_invalidation w)))
        (sread (\<lambda>w. (ses_sessionId (fst protectedSession), activationGeneration w)))))"

definition replace_session ::
  "session_env \<Rightarrow> material option \<Rightarrow> UnlockedVault \<Rightarrow> VersionVector \<Rightarrow> ('o, unit) session_op \<Rightarrow>
   ('o, string \<times> nat) session_op" where
  "replace_session env activeMaterial unlockedVault v beforeActivation =
     sthen beforeActivation
       (sbind (protect env unlockedVault v None) (persist_replacement env activeMaterial))"

definition replace_or_remove ::
  "session_env \<Rightarrow> material option \<Rightarrow> UnlockedVault \<Rightarrow> VersionVector \<Rightarrow> ('o, unit) session_op \<Rightarrow>
   ('o, string \<times> nat) session_op" where
  "replace_or_remove env activeMaterial unlockedVault v beforeActivation =
     scatch (replace_session env activeMaterial unlockedVault v beforeActivation)
       (\<lambda>e. sbind (sread invalidationState) (\<lambda>invalidation.
          sthen (if activeMaterial \<noteq> None \<and> invalidation = No_invalidation
                 then removeSessionRecordsPreservingRootCause env activeMaterial else sret ())
            (sthrow e)))"

definition activateWithinSessionOperation ::
  "session_env \<Rightarrow> VaultSessionActivationAuthorization \<Rightarrow> UnlockedVault \<Rightarrow> VersionVector \<Rightarrow>
   ('o, unit) session_op \<Rightarrow> ('o, unit) session_op \<Rightarrow> ('o, string \<times> nat) session_op" where
  "activateWithinSessionOperation env auth unlockedVault v beforeActivation rollback =
     sbind (require_activation env auth (uv_vaultId unlockedVault)) (\<lambda>activeMaterial.
     sthen (advanceUnlockedVaultSessionEpoch env)
       (scatch (replace_or_remove env activeMaterial unlockedVault v beforeActivation)
          (\<lambda>e. sthen (stry rollback) (sthrow e))))"

definition activate ::
  "session_env \<Rightarrow> VaultSessionActivationAuthorization \<Rightarrow> UnlockedVault \<Rightarrow> VersionVector \<Rightarrow> nat option \<Rightarrow>
   ('o, string) session_op" where
  "activate env auth unlockedVault v lease =
     sbind (runCoordinatedSessionMutation lease
              (activateWithinSessionOperation env auth unlockedVault v (sret ()) (sret ())))
       (\<lambda>activatedSession. sret (fst activatedSession))"

text \<open>
  \<open>rollbackAutoLock\<close> runs if \<open>installAutoLock\<close> had been entered, that is for a failure of the part
  that starts with it; its own failure is ignored.
\<close>

definition activateWithAutoLock ::
  "session_env \<Rightarrow> VaultSessionActivationAuthorization \<Rightarrow> UnlockedVault \<Rightarrow> VersionVector \<Rightarrow>
   ('o, unit) callback \<Rightarrow> ('o, unit) callback \<Rightarrow> nat option \<Rightarrow>
   ('o, string \<times> nat) session_op" where
  "activateWithAutoLock env auth unlockedVault v installAutoLock rollbackAutoLock lease =
     runCoordinatedSessionMutation lease
       (activateWithinSessionOperation env auth unlockedVault v (callout installAutoLock)
          (callout rollbackAutoLock))"

definition commit_protected ::
  "session_env \<Rightarrow> material \<Rightarrow> core_error + material \<times> EncryptedUnlockedVaultSessionPayload \<Rightarrow>
   ('o, unit) session_op" where
  "commit_protected env activeMaterial protectedSession =
     scatch
       (case protectedSession of
          Inl e \<Rightarrow> sthrow e
        | Inr p \<Rightarrow>
            sthen (persistProtectedSession env p)
            (sthen (advanceUnlockedVaultSessionEpoch env)
               (smodify (\<lambda>w. next_generation (wipeReplacedMaterial activeMaterial (fst p) w)))))
       (\<lambda>e.
          sthen (case protectedSession of
                   Inl e' \<Rightarrow> sret ()
                 | Inr p \<Rightarrow> smodify (wipeMaterial (fst p)))
          (sthen
             (revokeAuthorizationsAndRemoveSessionRecordsPreservingRootCause env (Some activeMaterial))
             (sthrow e)))"

definition commitPersistedSnapshotIfSessionIsActive ::
  "session_env \<Rightarrow> string \<Rightarrow> UnlockedVault \<Rightarrow> VersionVector \<Rightarrow> nat option \<Rightarrow> ('o, bool) session_op" where
  "commitPersistedSnapshotIfSessionIsActive env sessionId unlockedVault v lease =
     runCoordinatedSessionMutation lease
       (sbind (getPersistedUnlockedVaultSessionIdentity env) (\<lambda>persistedIdentity.
        sbind (reconcileActiveMaterial env persistedIdentity) (\<lambda>rec.
        sbind (sread (isActiveSession (rec_material rec) sessionId (uv_vaultId unlockedVault))) (\<lambda>active.
        case rec_material rec of
          None \<Rightarrow> sret False
        | Some m \<Rightarrow>
            if \<not> active then sret False
            else
              sbind (stry (protect env unlockedVault v (Some m))) (\<lambda>protectedSession.
              sthen (commit_protected env m protectedSession) (sret True))))))"

definition commitPersistedSnapshot ::
  "session_env \<Rightarrow> string \<Rightarrow> UnlockedVault \<Rightarrow> VersionVector \<Rightarrow> nat option \<Rightarrow> ('o, unit) session_op" where
  "commitPersistedSnapshot env sessionId unlockedVault v lease =
     sbind (commitPersistedSnapshotIfSessionIsActive env sessionId unlockedVault v lease)
       (\<lambda>committed. srequire committed (UnlockedVaultSessionExpiredError (uv_vaultId unlockedVault)))"

section \<open>Working under the active session\<close>

definition persistForActiveSession ::
  "session_env \<Rightarrow> string \<Rightarrow> string \<Rightarrow> ('o, 'a) callback \<Rightarrow> nat option \<Rightarrow> ('o, 'a) session_op" where
  "persistForActiveSession env sessionId vaultId operation lease =
     runCoordinatedSessionMutation lease
       (sbind (getPersistedUnlockedVaultSessionIdentity env) (\<lambda>persistedIdentity.
        sbind (reconcileActiveMaterial env persistedIdentity) (\<lambda>rec.
        sthen (requireActiveSession (rec_material rec) sessionId vaultId)
        (sthen (advanceUnlockedVaultSessionEpoch env)
        (sthen (smodify next_generation) (callout operation))))))"

datatype restore_result = Restored | Session_advanced | Rollback_failed

text \<open>The two guards of \<open>restorePersistedState\<close> that answer \<open>"session_advanced"\<close>.\<close>

definition session_has_advanced ::
  "session_identity option \<Rightarrow> reconciliation \<Rightarrow> string \<Rightarrow> string \<Rightarrow> VersionVector \<Rightarrow> bool \<Rightarrow> bool" where
  "session_has_advanced persistedIdentity rec sessionId vaultId v active \<longleftrightarrow>
     rec_reconciled rec \<or>
     (case persistedIdentity of
        None \<Rightarrow> False
      | Some i \<Rightarrow> ses_sessionId i \<noteq> sessionId \<or> ses_vaultId i \<noteq> vaultId \<or>
          \<not> same_snapshot (ses_sourceSnapshotVersionVector i) v \<or> rec_material rec = None) \<or>
     (case rec_material rec of
        None \<Rightarrow> False
      | Some m \<Rightarrow> ses_vaultId m = vaultId \<and>
          (\<not> active \<or> \<not> same_snapshot (ses_sourceSnapshotVersionVector m) v))"

definition run_restore ::
  "session_env \<Rightarrow> material option \<Rightarrow> string \<Rightarrow> string \<Rightarrow> ('o, unit) callback \<Rightarrow>
   ('o, restore_result) session_op" where
  "run_restore env activeMaterial sessionId vaultId restoreCallback =
     sbind (stry (callout restoreCallback)) (\<lambda>restored. case restored of
       Inr u \<Rightarrow> sret Restored
     | Inl e \<Rightarrow>
         sbind (sread (isActiveSession activeMaterial sessionId vaultId)) (\<lambda>active.
         sthen (if active
                then revokeAuthorizationsAndRemoveSessionRecordsPreservingRootCause env activeMaterial
                else sret ())
           (sret Rollback_failed)))"

text \<open>
  \<open>restorePersistedState\<close> gives the result of its operation, or \<open>Rollback_failed\<close> if the
  operation was not started.
\<close>

definition restore_persisted_state ::
  "session_env \<Rightarrow> string \<Rightarrow> string \<Rightarrow> VersionVector \<Rightarrow> ('o, unit) callback \<Rightarrow>
   ('o, restore_result) session_op" where
  "restore_persisted_state env sessionId vaultId v restoreCallback =
     sbind (stry (reconcile_with_storage env)) (\<lambda>r. case r of
       Inl e \<Rightarrow> sret Rollback_failed
     | Inr (persistedIdentity, rec) \<Rightarrow>
         sbind (sread (isActiveSession (rec_material rec) sessionId vaultId)) (\<lambda>active.
         if session_has_advanced persistedIdentity rec sessionId vaultId v active
         then sret Session_advanced
         else if rec_material rec \<noteq> None
         then run_restore env (rec_material rec) sessionId vaultId restoreCallback
         else
           sbind (stry (advanceUnlockedVaultSessionEpoch env)) (\<lambda>advanced. case advanced of
             Inl e \<Rightarrow> sret Rollback_failed
           | Inr u \<Rightarrow>
               sthen (smodify next_generation)
                 (run_restore env (rec_material rec) sessionId vaultId restoreCallback))))"

definition restorePersistedState ::
  "session_env \<Rightarrow> string \<Rightarrow> string \<Rightarrow> VersionVector \<Rightarrow> ('o, unit) callback \<Rightarrow>
   nat option \<Rightarrow> ('o, restore_result) session_op" where
  "restorePersistedState env sessionId vaultId v restoreCallback lease =
     sbind (sread (\<lambda>w. case lease of None \<Rightarrow> True | Some l \<Rightarrow> isLeaseActive w l)) (\<lambda>operationStarted.
     if operationStarted
     then runCoordinatedSessionMutation lease
            (restore_persisted_state env sessionId vaultId v restoreCallback)
     else sret Rollback_failed)"

datatype discard_result =
    Discarded | Discard_session_advanced | Session_replaced | Discard_session_unavailable
  | Discard_rollback_failed

definition discard_active ::
  "session_env \<Rightarrow> material option \<Rightarrow> ('o, unit) callback \<Rightarrow>
   ('o, bool) callback \<Rightarrow> ('o, discard_result) session_op" where
  "discard_active env activeMaterial beforeRemoval discard =
     sbind (stry (callout beforeRemoval)) (\<lambda>cleaned.
     sbind (stry (revokeAuthorizationsAndRemoveSessionRecords env activeMaterial)) (\<lambda>removed.
     case removed of
       Inl e \<Rightarrow> sret Discard_rollback_failed
     | Inr u \<Rightarrow>
         if caught cleaned \<noteq> None then sret Discard_rollback_failed
         else
           sbind (stry (callout discard)) (\<lambda>discarded.
           sret (if discarded = Inr True then Discarded else Discard_rollback_failed))))"

definition discardIfSessionIsActive ::
  "session_env \<Rightarrow> string \<Rightarrow> string \<Rightarrow> nat \<Rightarrow> VersionVector \<Rightarrow> ('o, unit) callback \<Rightarrow>
   ('o, bool) callback \<Rightarrow> nat option \<Rightarrow> ('o, discard_result) session_op" where
  "discardIfSessionIsActive env sessionId vaultId generation v beforeRemoval discard lease =
     runCoordinatedSessionMutation lease
       (sbind (stry (reconcile_with_storage env)) (\<lambda>r. case r of
          Inl e \<Rightarrow> sret Discard_session_advanced
        | Inr (persistedIdentity, rec) \<Rightarrow>
            sbind (sread activationGeneration) (\<lambda>currentGeneration.
            sbind (sread (isActiveSession (rec_material rec) sessionId vaultId)) (\<lambda>active.
            case persistedIdentity of
              None \<Rightarrow>
                sret (if generation = currentGeneration then Discard_session_unavailable
                      else Session_replaced)
            | Some i \<Rightarrow>
                if ses_sessionId i \<noteq> sessionId \<or> ses_vaultId i \<noteq> vaultId then sret Session_replaced
                else if \<not> same_snapshot (ses_sourceSnapshotVersionVector i) v
                then sret Discard_session_advanced
                else if generation \<noteq> currentGeneration then sret Discard_session_advanced
                else if \<not> active then sret Discard_session_unavailable
                else discard_active env (rec_material rec) beforeRemoval discard))))"

definition remove_session :: "session_env \<Rightarrow> nat option \<Rightarrow> ('o, unit) session_op" where
  "remove_session env lease =
     runCoordinatedSessionMutation lease (revokeAuthorizationsAndRemoveSessionRecords env None)"

section \<open>Cleaning up at the end of a session\<close>

datatype cleanup_result = Removed | Session_unavailable | Stale_action

record active_session =
  act_sessionId :: string
  act_vaultId :: string
  act_generation :: nat

definition active_session_of ::
  "session_identity option \<Rightarrow> material option \<Rightarrow> 'o session_world \<Rightarrow> active_session option" where
  "active_session_of persistedIdentity material w =
     (case persistedIdentity of
        Some i \<Rightarrow> Some \<lparr>act_sessionId = ses_sessionId i, act_vaultId = ses_vaultId i,
                       act_generation = activationGeneration w\<rparr>
      | None \<Rightarrow>
          map_option (\<lambda>m. \<lparr>act_sessionId = ses_sessionId m, act_vaultId = ses_vaultId m,
                           act_generation = activationGeneration w\<rparr>) material)"

text \<open>
  The second half of \<open>cleanupActiveSession\<close>: every step is attempted, the first error is
  thrown at the end.
\<close>

definition cleanup_removal ::
  "session_env \<Rightarrow> session_identity option \<Rightarrow> reconciliation \<Rightarrow> bool \<Rightarrow> bool \<Rightarrow>
   ('o, unit) callback option \<Rightarrow> core_error option \<Rightarrow> ('o, cleanup_result) session_op" where
  "cleanup_removal env persistedIdentity rec readFailed required afterRemoval firstError =
     sbind (if persistedIdentity \<noteq> None \<or> readFailed \<or> required
            then sbind (stry (removeSessionRecords env (rec_material rec))) (\<lambda>r. sret (Some r))
            else sret None) (\<lambda>removed.
     sbind (if removed = Some (Inr ()) \<and> (persistedIdentity \<noteq> None \<or> readFailed \<or> rec_advanced rec)
            then (case afterRemoval of None \<Rightarrow> sret (Inr ()) | Some f \<Rightarrow> stry (callout f))
            else sret (Inr ())) (\<lambda>finished.
     sfinish
       (or_else (or_else firstError (case removed of None \<Rightarrow> None | Some r \<Rightarrow> caught r))
          (caught finished))
       (if persistedIdentity = None \<and> \<not> rec_advanced rec then Session_unavailable else Removed)))"

definition cleanup_records ::
  "session_env \<Rightarrow> session_identity option \<Rightarrow> reconciliation \<Rightarrow> bool \<Rightarrow> core_error option \<Rightarrow> bool \<Rightarrow>
   (active_session option \<Rightarrow> ('o, bool) callback) \<Rightarrow>
   ('o, unit) callback option \<Rightarrow> bool \<Rightarrow> ('o, cleanup_result) session_op" where
  "cleanup_records env persistedIdentity rec readFailed readError invalidateWhenUnavailable
     beforeRemoval afterRemoval removeRecordsWhenUnavailable =
     sbind (if invalidateWhenUnavailable then stry (advanceUnlockedVaultSessionEpoch env)
            else sret (Inr ())) (\<lambda>revoked.
     sbind (sread (active_session_of persistedIdentity (rec_material rec))) (\<lambda>activeSession.
     sbind (stry (callout (beforeRemoval activeSession))) (\<lambda>shouldRemove.
      let firstError = or_else (or_else readError (caught revoked)) (caught shouldRemove) in
      if shouldRemove = Inr False then sfinish firstError Stale_action
      else
     sbind (if \<not> invalidateWhenUnavailable then stry (advanceUnlockedVaultSessionEpoch env)
            else sret (Inr ())) (\<lambda>revoked'.
      cleanup_removal env persistedIdentity rec readFailed
        (invalidateWhenUnavailable \<or> removeRecordsWhenUnavailable) afterRemoval
        (or_else firstError (caught revoked'))))))"

text \<open>Without a persisted identity the cached material is taken as it is.\<close>

definition read_unreconciled :: "session_env \<Rightarrow> ('o, reconciliation) session_op" where
  "read_unreconciled env =
     sbind (sread invalidationState) (\<lambda>invalidation.
     if invalidation \<noteq> No_invalidation then sret (no_material False False)
     else sbind (getUnlockedVaultSessionMaterial env) (\<lambda>material.
       sret \<lparr>rec_material = material, rec_reconciled = False, rec_advanced = False\<rparr>))"

definition cleanupActiveSession ::
  "session_env \<Rightarrow> string option \<Rightarrow> bool \<Rightarrow>
   (active_session option \<Rightarrow> ('o, bool) callback) \<Rightarrow>
   ('o, unit) callback option \<Rightarrow> bool \<Rightarrow> nat option \<Rightarrow>
   ('o, cleanup_result) session_op" where
  "cleanupActiveSession env requiredVaultId invalidateWhenUnavailable beforeRemoval afterRemoval
     removeRecordsWhenUnavailable lease =
     runCoordinatedSessionMutation lease
       (sbind (stry (getPersistedUnlockedVaultSessionIdentity env)) (\<lambda>readIdentity.
         let persistedIdentity = (case readIdentity of Inl e \<Rightarrow> None | Inr i \<Rightarrow> i);
             identityReadFailed = (caught readIdentity \<noteq> None) in
         if identityReadFailed \<and> requiredVaultId \<noteq> None then sthrow (the (caught readIdentity))
         else
        sbind (stry (if identityReadFailed then read_unreconciled env
                     else reconcileActiveMaterial env persistedIdentity)) (\<lambda>readMaterial.
         let rec = (case readMaterial of Inl e \<Rightarrow> no_material False False | Inr r \<Rightarrow> r);
             materialReadFailed = (caught readMaterial \<noteq> None);
             firstError = or_else (caught readIdentity) (caught readMaterial) in
         if materialReadFailed \<and> requiredVaultId \<noteq> None then sthrow (the firstError)
         else if requiredVaultId \<noteq> None \<and>
                 (map_option ses_vaultId persistedIdentity \<noteq> requiredVaultId \<or>
                  (rec_reconciled rec \<and> \<not> rec_advanced rec) \<or>
                  (rec_material rec = None \<and> \<not> rec_advanced rec))
         then sret Session_unavailable
         else cleanup_records env persistedIdentity rec (identityReadFailed \<or> materialReadFailed)
                firstError invalidateWhenUnavailable beforeRemoval afterRemoval
                removeRecordsWhenUnavailable)))"

end
