(* ===== verification/Session_Invariant.thy ===== *)
theory Session_Invariant
  imports Vault_Session
begin

text \<open>
  What every operation of the session service keeps, whichever of its external calls fail. The
  state invariant \<open>session_ok\<close> says that the keys of the cached material have not been wiped; the
  relation \<open>session_progress\<close> is what one context may do to the others: the epoch never goes
  back and a session identity, once gone from the shared storage, does not return.
\<close>

section \<open>Buffers\<close>

lemma zeroed_zeroed [simp]: "zeroed (zeroed bs) = zeroed bs"
  by (simp add: zeroed_def)

lemma fold_wipe:
  "fold (\<lambda>b. case b of None \<Rightarrow> id | Some b \<Rightarrow> secureWipe b) bs w =
     w\<lparr>memory := (\<lambda>b. if Some b \<in> set bs then zeroed (memory w b) else memory w b)\<rparr>"
proof (induction bs arbitrary: w)
  case Nil
  show ?case by simp
next
  case (Cons x bs)
  show ?case by (cases x) (auto simp: Cons.IH secureWipe_def fun_eq_iff)
qed

lemma bestEffortWipe_eq:
  "bestEffortWipeArrayBuffers bs w =
     w\<lparr>memory := (\<lambda>b. if Some b \<in> set bs then zeroed (memory w b) else memory w b)\<rparr>"
  by (simp add: bestEffortWipeArrayBuffers_def fold_wipe)

lemma wipeMaterial_eq:
  "wipeMaterial m w =
     w\<lparr>memory := (\<lambda>b. if b \<in> set (secret_buffers m) then zeroed (memory w b) else memory w b)\<rparr>"
  by (simp add: wipeMaterial_def bestEffortWipe_eq image_iff)

definition intact :: "bytes \<Rightarrow> bool" where
  "intact bs \<longleftrightarrow> list_ex (\<lambda>b. b \<noteq> 0) bs"

lemma not_intact_zeroed [simp]: "\<not> intact (zeroed bs)"
  by (simp add: intact_def zeroed_def list_ex_iff)

section \<open>The invariant\<close>

definition issued :: "session_env \<Rightarrow> 'o session_world \<Rightarrow> string \<Rightarrow> bool" where
  "issued env w s \<longleftrightarrow> (\<exists>n < clock w. s = generated_id env n)"

definition live_material :: "'o session_world \<Rightarrow> material \<Rightarrow> bool" where
  "live_material w m \<longleftrightarrow>
     distinct (secret_buffers m) \<and>
     (\<forall>b \<in> set (secret_buffers m). b < next_buffer w \<and> intact (memory w b))"

definition cache_ok :: "session_env \<Rightarrow> 'o session_world \<Rightarrow> bool" where
  "cache_ok env w \<longleftrightarrow>
     (\<forall>m. cachedMaterial w = Some (Some m) \<longrightarrow> live_material w m \<and> issued env w (ses_sessionId m)) \<and>
     (invalidationState w \<noteq> No_invalidation \<longrightarrow> cachedMaterial w = Some None)"

definition area_ok :: "session_env \<Rightarrow> 'o session_world \<Rightarrow> bool" where
  "area_ok env w \<longleftrightarrow>
     (\<forall>st. area_material w = Some st \<longrightarrow>
        list_all intact (secret_buffers st) \<and> issued env w (ses_sessionId st))"

definition session_ok :: "session_env \<Rightarrow> 'o session_world \<Rightarrow> bool" where
  "session_ok env w \<longleftrightarrow> area_ok env w \<and> cache_ok env w"

text \<open>
  A session is dead in a context if the context cannot hand it out again: it is not cached, and
  if it is still in the shared storage, a pending invalidation blocks it.
\<close>

definition persisted_id :: "'o session_world \<Rightarrow> string option" where
  "persisted_id w = map_option ses_sessionId (area_material w)"

definition cached_id :: "'o session_world \<Rightarrow> string option" where
  "cached_id w = (case cachedMaterial w of Some (Some m) \<Rightarrow> Some (ses_sessionId m) | _ \<Rightarrow> None)"

definition dead :: "string \<Rightarrow> 'o session_world \<Rightarrow> bool" where
  "dead s w \<longleftrightarrow>
     cached_id w \<noteq> Some s \<and>
     (persisted_id w = Some s \<longrightarrow>
        invalidationState w = Known_session s \<or> invalidationState w = Unknown_session False)"

definition epoch_of :: "'o session_world \<Rightarrow> nat" where
  "epoch_of w = (case area_epoch w of None \<Rightarrow> 0 | Some n \<Rightarrow> n)"

definition shared_progress :: "session_env \<Rightarrow> 'o session_world \<Rightarrow> 'o session_world \<Rightarrow> bool" where
  "shared_progress env w w' \<longleftrightarrow>
     clock w \<le> clock w' \<and> epoch_of w \<le> epoch_of w' \<and>
     (\<forall>s. persisted_id w' = Some s \<longrightarrow>
        persisted_id w = Some s \<or> (\<exists>n \<ge> clock w. s = generated_id env n))"

definition session_progress :: "session_env \<Rightarrow> 'o session_world \<Rightarrow> 'o session_world \<Rightarrow> bool" where
  "session_progress env w w' \<longleftrightarrow>
     shared_progress env w w' \<and> (\<forall>s. issued env w s \<and> dead s w \<longrightarrow> dead s w')"

definition env_ok :: "session_env \<Rightarrow> bool" where
  "env_ok env \<longleftrightarrow> inj (generated_id env) \<and> (\<forall>n. intact (generated_key env n))"

lemma issued_mono: "issued env w s \<Longrightarrow> clock w \<le> clock w' \<Longrightarrow> issued env w' s"
  by (auto simp: issued_def intro: less_le_trans)

lemma shared_progress_refl [simp]: "shared_progress env w w"
  by (simp add: shared_progress_def)

lemma shared_progress_trans [trans]:
  "shared_progress env u v \<Longrightarrow> shared_progress env v w \<Longrightarrow> shared_progress env u w"
  unfolding shared_progress_def by (meson le_trans)

lemma session_progress_refl [simp]: "session_progress env w w"
  by (simp add: session_progress_def)

lemma session_progress_trans [trans]:
  "session_progress env u v \<Longrightarrow> session_progress env v w \<Longrightarrow> session_progress env u w"
  unfolding session_progress_def
  by (meson issued_mono shared_progress_def shared_progress_trans)

text \<open>What another context does cannot bring a dead session back.\<close>

lemma dead_stable:
  assumes "env_ok env" "issued env w s" "dead s w" "shared_progress env w w'"
    and "cachedMaterial w' = cachedMaterial w" "invalidationState w' = invalidationState w"
  shows "dead s w'"
proof -
  have "persisted_id w' = Some s \<Longrightarrow> persisted_id w = Some s"
    using assms(1,2,4) by (auto simp: shared_progress_def issued_def env_ok_def dest: injD)
  with assms(3,5,6) show ?thesis by (auto simp: dead_def cached_id_def)
qed

section \<open>Reading\<close>

text \<open>
  A read leaves everything but the clock as it was, except that it may decode into fresh buffers.
\<close>

definition grows :: "'o session_world \<Rightarrow> 'o session_world \<Rightarrow> bool" where
  "grows w w' \<longleftrightarrow>
     area_material w' = area_material w \<and> area_epoch w' = area_epoch w \<and>
     area_payload w' = area_payload w \<and> cachedMaterial w' = cachedMaterial w \<and>
     activationGeneration w' = activationGeneration w \<and>
     invalidationState w' = invalidationState w \<and> activeLeases w' = activeLeases w \<and>
     next_lease w' = next_lease w \<and> outside w' = outside w \<and>
     clock w \<le> clock w' \<and> next_buffer w \<le> next_buffer w' \<and>
     (\<forall>b < next_buffer w. memory w' b = memory w b)"

lemma grows_fields:
  assumes "grows w w'"
  shows "area_material w' = area_material w" "area_epoch w' = area_epoch w"
    "area_payload w' = area_payload w" "cachedMaterial w' = cachedMaterial w"
    "activationGeneration w' = activationGeneration w" "invalidationState w' = invalidationState w"
    "activeLeases w' = activeLeases w" "next_lease w' = next_lease w" "outside w' = outside w"
    "clock w \<le> clock w'" "next_buffer w \<le> next_buffer w'"
    "b < next_buffer w \<Longrightarrow> memory w' b = memory w b"
  using assms by (simp_all add: grows_def)

lemma grows_refl [simp]: "grows w w"
  by (simp add: grows_def)

lemma grows_trans [trans]: "grows u v \<Longrightarrow> grows v w \<Longrightarrow> grows u w"
  by (auto simp: grows_def)

lemma grows_tick [simp]: "grows w (w\<lparr>clock := n\<rparr>) \<longleftrightarrow> clock w \<le> n"
  by (simp add: grows_def)

lemma grows_memory:
  "grows w t \<Longrightarrow> (\<And>b. b < next_buffer w \<Longrightarrow> f b = memory w b) \<Longrightarrow> grows w (t\<lparr>memory := f\<rparr>)"
  by (simp add: grows_def)

lemma live_material_grows: "live_material w m \<Longrightarrow> grows w w' \<Longrightarrow> live_material w' m"
  by (auto simp: live_material_def grows_fields intro: less_le_trans)

lemma session_ok_grows: "session_ok env w \<Longrightarrow> grows w w' \<Longrightarrow> session_ok env w'"
  by (auto simp: session_ok_def area_ok_def cache_ok_def grows_fields
      intro: live_material_grows issued_mono)

lemma session_progress_grows: "grows w w' \<Longrightarrow> session_progress env w w'"
  by (auto simp: session_progress_def shared_progress_def dead_def persisted_id_def cached_id_def
      epoch_of_def grows_fields)

subsection \<open>The primitive calls\<close>

lemma wp_external [wp_simps]:
  "wp (external env eff) Q w =
     (case call_outcome_at env (clock w) of
        Succeeds \<Rightarrow> Q (Inr (clock w)) (eff (w\<lparr>clock := Suc (clock w)\<rparr>))
      | Fails_before \<Rightarrow> Q (Inl (External_failure (clock w))) (w\<lparr>clock := Suc (clock w)\<rparr>)
      | Fails_after \<Rightarrow> Q (Inl (External_failure (clock w))) (eff (w\<lparr>clock := Suc (clock w)\<rparr>)))"
  by (simp add: wp_def external_def Let_def split: call_outcome.splits)

lemma wp_allocate [wp_simps]:
  "wp (allocate bs) Q w =
     Q (Inr (next_buffer w))
       (w\<lparr>memory := (memory w)(next_buffer w := bs), next_buffer := Suc (next_buffer w)\<rparr>)"
  by (simp add: wp_def allocate_def)

lemma wp_callout:
  "(\<And>r out. Q r (w\<lparr>outside := out\<rparr>)) \<Longrightarrow> wp (callout f) Q w"
  by (simp add: wp_def callout_def split: prod.splits)

text \<open>A material that has been decoded from a stored one into fresh buffers.\<close>

definition loaded :: "'o session_world \<Rightarrow> 'o session_world \<Rightarrow> stored_material \<Rightarrow> material \<Rightarrow> bool" where
  "loaded w w' st m \<longleftrightarrow>
     session_identity.truncate m = session_identity.truncate st \<and>
     mat_deviceId m = mat_deviceId st \<and>
     mat_trustedSnapshotContext m = mat_trustedSnapshotContext st \<and>
     mat_vaultTrustAnchor m = mat_vaultTrustAnchor st \<and>
     map (memory w') (secret_buffers m) = secret_buffers st \<and>
     distinct (secret_buffers m) \<and>
     (\<forall>b \<in> set (secret_buffers m). next_buffer w \<le> b \<and> b < next_buffer w')"

lemma truncate_eq_iff:
  "session_identity.truncate m = session_identity.truncate st \<longleftrightarrow>
     ses_sessionId m = ses_sessionId st \<and> ses_vaultId m = ses_vaultId st \<and>
     ses_sourceSnapshotVersionVector m = ses_sourceSnapshotVersionVector st"
  by (simp add: session_identity.truncate_def)

lemma loaded_live: "loaded w w' st m \<Longrightarrow> list_all intact (secret_buffers st) \<Longrightarrow> live_material w' m"
  unfolding loaded_def live_material_def list_all_iff
  by (metis (no_types, lifting) image_eqI list.set_map)

lemma deserialize_spec:
  "wp (deserializeUnlockedVaultSessionMaterial env st)
     (\<lambda>r w'. grows w w' \<and> (\<forall>e. r = Inl e \<longrightarrow> \<not> decodable env st) \<and>
       (\<forall>m. r = Inr m \<longrightarrow> decodable env st \<and> loaded w w' st m)) w"
  by (simp add: deserializeUnlockedVaultSessionMaterial_def wp_simps grows_def loaded_def
      truncate_eq_iff secret_buffers_def)

lemma deserialize_identity_spec:
  "wp (deserializeUnlockedVaultSessionIdentity env st)
     (\<lambda>r w'. grows w w' \<and> (\<forall>e. r = Inl e \<longrightarrow> \<not> decodable env st) \<and>
       (\<forall>i. r = Inr i \<longrightarrow> decodable env st \<and> i = session_identity.truncate st)) w"
  unfolding deserializeUnlockedVaultSessionIdentity_def wp_simps
  by (rule wp_weaken [OF deserialize_spec])
    (auto simp: loaded_def bestEffortWipe_eq grows_fields split: sum.splits intro!: grows_memory
      dest!: bspec)

lemma get_identity_spec:
  "wp (getPersistedUnlockedVaultSessionIdentity env)
     (\<lambda>r w'. grows w w' \<and>
       (\<forall>i. r = Inr i \<longrightarrow> i = map_option session_identity.truncate (area_material w) \<and>
          (\<forall>st. area_material w = Some st \<longrightarrow> decodable env st))) w"
proof -
  have *: "wp (deserializeUnlockedVaultSessionIdentity env st)
      (\<lambda>r w'. case r of
         Inl e \<Rightarrow> grows w w'
       | Inr i \<Rightarrow> grows w w' \<and> i = session_identity.truncate st \<and> decodable env st)
      (w\<lparr>clock := Suc (clock w)\<rparr>)" for st
    by (rule wp_weaken [OF deserialize_identity_spec])
      (auto split: sum.splits simp: grows_def)
  then show ?thesis
    by (auto simp: getPersistedUnlockedVaultSessionIdentity_def wp_simps
        split: call_outcome.splits option.splits intro!: wp_weaken [OF *] split: sum.splits)
qed

subsection \<open>The material and the epoch\<close>

lemma session_ok_simps [simp]:
  "session_ok env (w\<lparr>area_epoch := x\<rparr>) = session_ok env w"
  "session_ok env (w\<lparr>area_payload := y\<rparr>) = session_ok env w"
  "session_ok env (w\<lparr>outside := z\<rparr>) = session_ok env w"
  "session_ok env (w\<lparr>activationGeneration := g\<rparr>) = session_ok env w"
  "session_ok env (w\<lparr>activeLeases := l\<rparr>) = session_ok env w"
  "session_ok env (w\<lparr>next_lease := k\<rparr>) = session_ok env w"
  by (auto simp: session_ok_def area_ok_def cache_ok_def live_material_def issued_def)

lemma get_material_spec:
  "wp (getUnlockedVaultSessionMaterial env)
     (\<lambda>r w'. grows (w\<lparr>cachedMaterial := cachedMaterial w'\<rparr>) w' \<and>
       (case r of
          Inl e \<Rightarrow> cachedMaterial w = None \<and> cachedMaterial w' = None
        | Inr None \<Rightarrow> cachedMaterial w' = cachedMaterial w \<and>
            (cachedMaterial w = Some None \<or> cachedMaterial w = None \<and> area_material w = None)
        | Inr (Some m) \<Rightarrow> cachedMaterial w' = Some (Some m) \<and>
            (cachedMaterial w = Some (Some m) \<and> grows w w' \<or>
             cachedMaterial w = None \<and> (\<exists>st. area_material w = Some st \<and> loaded w w' st m)))) w"
proof (cases "cachedMaterial w")
  case None
  let ?t = "w\<lparr>clock := Suc (clock w)\<rparr>"
  have deser: "wp (deserializeUnlockedVaultSessionMaterial env st)
      (\<lambda>r w'. case r of
         Inl e \<Rightarrow> grows w w'
       | Inr m \<Rightarrow> grows w w' \<and> loaded w w' st m) ?t" for st
    by (rule wp_weaken [OF deserialize_spec])
      (auto split: sum.splits simp: loaded_def grows_def)
  have loaded: "loaded w (t\<lparr>cachedMaterial := c\<rparr>) st m = loaded w t st m" for t c st m
    by (simp add: loaded_def)
  show ?thesis
    using None
    by (auto simp: getUnlockedVaultSessionMaterial_def wp_simps loaded grows_def
        split: call_outcome.splits option.splits sum.splits intro!: wp_weaken [OF deser])
next
  case (Some c)
  then show ?thesis
    by (auto simp: getUnlockedVaultSessionMaterial_def wp_simps grows_def split: option.splits)
qed

lemma read_epoch_spec:
  "wp (readUnlockedVaultSessionEpoch env)
     (\<lambda>r w'. grows w w' \<and> (\<forall>n. r = Inr n \<longrightarrow> n = epoch_of w)) w"
  by (simp add: readUnlockedVaultSessionEpoch_def wp_simps epoch_of_def
      split: call_outcome.splits option.splits)

definition advances :: "'o session_world \<Rightarrow> 'o session_world \<Rightarrow> bool" where
  "advances w w' \<longleftrightarrow>
     grows (w\<lparr>area_epoch := area_epoch w'\<rparr>) w' \<and> epoch_of w \<le> epoch_of w'"

lemma advance_spec:
  "wp (advanceUnlockedVaultSessionEpoch env)
     (\<lambda>r w'. advances w w' \<and> (\<forall>u. r = Inr u \<longrightarrow> epoch_of w < epoch_of w')) w"
proof -
  have step: "advances w t" "advances w (t\<lparr>clock := Suc (clock t)\<rparr>)"
    "advances w (t\<lparr>clock := Suc (clock t), area_epoch := Some (Suc (epoch_of w))\<rparr>)"
    "epoch_of (t\<lparr>clock := Suc (clock t), area_epoch := Some (Suc (epoch_of w))\<rparr>) = Suc (epoch_of w)"
    if "grows w t" for t
    using that by (simp_all add: advances_def grows_def epoch_of_def)
  show ?thesis
    unfolding advanceUnlockedVaultSessionEpoch_def wp_simps
    apply (rule wp_weaken [OF read_epoch_spec])
    subgoal for r t
      by (cases r) (simp_all add: step split: call_outcome.split)
    done
qed

section \<open>Keys that a caller passes in\<close>

text \<open>
  An unlocked vault is usable in a context if its keys are distinct live buffers, and a key that
  is also a key of the cached material is the same key of it: the caller has it from \<open>get\<close>.
\<close>

definition aligned :: "UnlockedVault \<Rightarrow> material \<Rightarrow> bool" where
  "aligned uv m \<longleftrightarrow>
     (\<forall>i < 4. \<forall>j < 5. vault_secrets uv ! i = secret_buffers m ! j \<longrightarrow> i = j)"

definition usable :: "'o session_world \<Rightarrow> UnlockedVault \<Rightarrow> bool" where
  "usable w uv \<longleftrightarrow>
     distinct (vault_secrets uv) \<and>
     (\<forall>b \<in> set (vault_secrets uv). b < next_buffer w \<and> intact (memory w b)) \<and>
     (\<forall>m. cachedMaterial w = Some (Some m) \<longrightarrow> aligned uv m)"

lemma usable_grows: "usable w uv \<Longrightarrow> grows w w' \<Longrightarrow> usable w' uv"
  by (auto simp: usable_def grows_def intro: less_le_trans)

lemma less_five: "(\<forall>i < (5::nat). P i) \<longleftrightarrow> P 0 \<and> P 1 \<and> P 2 \<and> P 3 \<and> P 4"
  by (auto simp: less_Suc_eq eval_nat_numeral)

lemma less_four: "(\<forall>i < (4::nat). P i) \<longleftrightarrow> P 0 \<and> P 1 \<and> P 2 \<and> P 3"
  by (auto simp: less_Suc_eq eval_nat_numeral)

lemma aligned_fresh:
  assumes "\<forall>b \<in> set (vault_secrets uv). b < n" "\<forall>b \<in> set (secret_buffers m). n \<le> b"
  shows "aligned uv m"
  using assms by (auto simp: aligned_def less_four less_five vault_secrets_def secret_buffers_def)

lemma usable_loaded:
  assumes "usable w uv" "cachedMaterial w = None" "grows (w\<lparr>cachedMaterial := Some (Some m)\<rparr>) w'"
    and "loaded w w' st m"
  shows "usable w' uv"
proof -
  have "aligned uv m"
    using assms(1,4) by (intro aligned_fresh [of uv "next_buffer w"]) (auto simp: usable_def loaded_def)
  with assms(1,3) show ?thesis
    by (auto simp: usable_def grows_def intro: less_le_trans)
qed

section \<open>Reconciliation\<close>

lemma area_ok_same:
  "area_ok env w \<Longrightarrow> area_material w' = area_material w \<Longrightarrow> clock w \<le> clock w' \<Longrightarrow> area_ok env w'"
  by (auto simp: area_ok_def intro: issued_mono)

lemma shared_progress_same:
  "area_material w' = area_material w \<Longrightarrow> area_epoch w' = area_epoch w \<Longrightarrow> clock w \<le> clock w' \<Longrightarrow>
   shared_progress env w w'"
  by (simp add: shared_progress_def persisted_id_def epoch_of_def)

text \<open>The shared storage is untouched; only the cache and the invalidation of the context move.\<close>

definition same_storage :: "'o session_world \<Rightarrow> 'o session_world \<Rightarrow> bool" where
  "same_storage w w' \<longleftrightarrow>
     area_material w' = area_material w \<and> area_epoch w' = area_epoch w \<and>
     area_payload w' = area_payload w \<and> activeLeases w' = activeLeases w \<and>
     next_lease w' = next_lease w \<and> outside w' = outside w \<and> clock w \<le> clock w' \<and>
     next_buffer w \<le> next_buffer w'"

lemma same_storage_grows: "grows w w' \<Longrightarrow> same_storage w w'"
  by (simp add: same_storage_def grows_def)

lemma same_storage_trans [trans]: "same_storage u v \<Longrightarrow> same_storage v w \<Longrightarrow> same_storage u w"
  by (auto simp: same_storage_def)

text \<open>What reconciliation promises about the material it returns.\<close>

definition reconciled_to :: "'o session_world \<Rightarrow> reconciliation \<Rightarrow> bool" where
  "reconciled_to w rec \<longleftrightarrow>
     (rec_reconciled rec \<longrightarrow> rec_material rec = None) \<and>
     (rec_advanced rec \<longrightarrow> area_material w \<noteq> None) \<and>
     (\<forall>m. rec_material rec = Some m \<longrightarrow>
        cachedMaterial w = Some (Some m) \<and> invalidationState w = No_invalidation \<and>
        (\<exists>st. area_material w = Some st \<and> same_session m (session_identity.truncate st) \<and>
           same_snapshot (ses_sourceSnapshotVersionVector st) (ses_sourceSnapshotVersionVector m)))"

definition reconcile_post ::
  "session_env \<Rightarrow> 'o session_world \<Rightarrow> core_error + reconciliation \<Rightarrow> 'o session_world \<Rightarrow> bool" where
  "reconcile_post env w r w' \<longleftrightarrow>
     session_ok env w' \<and> session_progress env w w' \<and> same_storage w w' \<and>
     (\<forall>rec. r = Inr rec \<longrightarrow> reconciled_to w' rec \<and>
        (\<forall>uv. usable w uv \<and> \<not> rec_reconciled rec \<longrightarrow> usable w' uv))"

lemma get_material_ok:
  assumes "session_ok env w"
  shows "wp (getUnlockedVaultSessionMaterial env)
     (\<lambda>r w'. session_ok env w' \<and> session_progress env w w' \<and> same_storage w w' \<and>
        invalidationState w' = invalidationState w \<and>
        (\<forall>uv. usable w uv \<longrightarrow> usable w' uv) \<and>
        (\<forall>m. r = Inr (Some m) \<longrightarrow> cachedMaterial w' = Some (Some m)) \<and>
        (r = Inr None \<longrightarrow> grows w w')) w"
proof (rule wp_weaken [OF get_material_spec])
  fix r :: "core_error + material option" and t :: "'a session_world"
  assume post: "grows (w\<lparr>cachedMaterial := cachedMaterial t\<rparr>) t \<and>
       (case r of
          Inl e \<Rightarrow> cachedMaterial w = None \<and> cachedMaterial t = None
        | Inr None \<Rightarrow> cachedMaterial t = cachedMaterial w \<and>
            (cachedMaterial w = Some None \<or> cachedMaterial w = None \<and> area_material w = None)
        | Inr (Some m) \<Rightarrow> cachedMaterial t = Some (Some m) \<and>
            (cachedMaterial w = Some (Some m) \<and> grows w t \<or>
             cachedMaterial w = None \<and> (\<exists>st. area_material w = Some st \<and> loaded w t st m)))"
  then have fields: "area_material t = area_material w" "area_epoch t = area_epoch w"
    "invalidationState t = invalidationState w" "clock w \<le> clock t" "same_storage w t"
    by (auto simp: grows_def same_storage_def)
  show "session_ok env t \<and> session_progress env w t \<and> same_storage w t \<and>
        invalidationState t = invalidationState w \<and>
        (\<forall>uv. usable w uv \<longrightarrow> usable t uv) \<and>
        (\<forall>m. r = Inr (Some m) \<longrightarrow> cachedMaterial t = Some (Some m)) \<and>
        (r = Inr None \<longrightarrow> grows w t)"
  proof (cases "cachedMaterial t = cachedMaterial w")
    case True
    with post have "grows w t" by (auto simp: grows_def)
    moreover from this have "\<forall>uv. usable w uv \<longrightarrow> usable t uv" by (auto intro: usable_grows)
    ultimately show ?thesis
      using assms post fields(3,5) session_ok_grows session_progress_grows
      by (auto split: sum.splits option.splits)
  next
    case False
    then obtain m st where m: "r = Inr (Some m)" "cachedMaterial t = Some (Some m)"
      "cachedMaterial w = None" "area_material w = Some st" "loaded w t st m"
      using post by (auto split: sum.splits option.splits)
    have st: "list_all intact (secret_buffers st)" "issued env t (ses_sessionId st)"
      using assms m(4) fields(4) by (auto simp: session_ok_def area_ok_def intro: issued_mono)
    have none: "invalidationState w = No_invalidation"
      using assms m(3) by (cases "invalidationState w") (auto simp: session_ok_def cache_ok_def)
    have id: "ses_sessionId m = ses_sessionId st" using m(5) by (simp add: loaded_def truncate_eq_iff)
    have "session_ok env t"
      using assms m(2) st fields none loaded_live [OF m(5) st(1)] id
      by (auto simp: session_ok_def cache_ok_def intro: area_ok_same)
    moreover have "session_progress env w t"
      using shared_progress_same [OF fields(1,2,4)] m(2,4) none fields(1) id
      by (auto simp: session_progress_def dead_def persisted_id_def cached_id_def)
    moreover have "\<forall>uv. usable w uv \<longrightarrow> usable t uv"
      using post m by (auto intro: usable_loaded)
    ultimately show ?thesis using m fields by simp
  qed
qed

lemma session_ok_empty:
  "area_ok env w \<Longrightarrow> cachedMaterial w = None \<Longrightarrow> invalidationState w = No_invalidation \<Longrightarrow>
   session_ok env w"
  by (simp add: session_ok_def cache_ok_def)

text \<open>The state in which a stale cached material has been wiped and evicted.\<close>

definition evicted :: "material \<Rightarrow> 'o session_world \<Rightarrow> 'o session_world" where
  "evicted m w =
     set_invalidation No_invalidation
       ((set_invalidation (Known_session (ses_sessionId m)) (next_generation (wipeMaterial m w)))
          \<lparr>cachedMaterial := None\<rparr>)"

lemma evicted_fields:
  "area_material (evicted m w) = area_material w" "area_epoch (evicted m w) = area_epoch w"
  "cachedMaterial (evicted m w) = None" "invalidationState (evicted m w) = No_invalidation"
  "clock (evicted m w) = clock w" "same_storage w (evicted m w)"
  by (simp_all add: evicted_def set_invalidation_def next_generation_def wipeMaterial_eq same_storage_def)

lemma evicted_ok:
  assumes "session_ok env w" "invalidationState w = No_invalidation"
  shows "session_ok env (evicted m w) \<and> session_progress env w (evicted m w)"
proof
  show "session_ok env (evicted m w)"
    using assms(1) by (intro session_ok_empty)
      (auto simp: evicted_fields session_ok_def intro: area_ok_same)
  show "session_progress env w (evicted m w)"
    using assms(2)
    by (simp add: session_progress_def shared_progress_same evicted_fields dead_def
        persisted_id_def cached_id_def)
qed

lemma reconcile_postI:
  assumes "session_ok env w'" "session_progress env w w'" "same_storage w w'"
    and "\<And>rec. r = Inr rec \<Longrightarrow> reconciled_to w' rec"
    and "\<And>rec uv. r = Inr rec \<Longrightarrow> \<not> rec_reconciled rec \<Longrightarrow> usable w uv \<Longrightarrow> usable w' uv"
  shows "reconcile_post env w r w'"
  unfolding reconcile_post_def using assms by blast

lemma reconcile_cached_spec:
  assumes "session_ok env w" "invalidationState w = No_invalidation"
    and "pid = map_option session_identity.truncate (area_material w)"
  shows "wp (reconcile_cached env pid) (reconcile_post env w) w"
  unfolding reconcile_cached_def wp_sbind
proof (rule wp_weaken [OF get_material_ok [OF assms(1)]], goal_cases)
  case (1 r t)
  have same: "area_material t = area_material w" using 1 by (simp add: same_storage_def)
  show ?case
  proof (cases r)
    case (Inl e)
    with 1 show ?thesis by (auto intro: reconcile_postI)
  next
    case (Inr c)
    show ?thesis
    proof (cases c)
      case None
      with 1 Inr show ?thesis
        by (auto simp: wp_simps reconciled_to_def intro!: reconcile_postI)
    next
      case (Some m)
      let ?match = "(case pid of None \<Rightarrow> False | Some i \<Rightarrow> same_session m i) \<and>
          same_snapshot (ses_sourceSnapshotVersionVector (the pid)) (ses_sourceSnapshotVersionVector m)"
      have cached: "cachedMaterial t = Some (Some m)" using 1 Inr Some by simp
      have stale: "reconcile_post env w (Inr (no_material True b)) (evicted m t)"
        if "b \<longrightarrow> pid \<noteq> None" for b
        using 1 that assms(2,3) same evicted_ok [of env t m] evicted_fields(6) [of t m]
        by (auto intro!: reconcile_postI simp: reconciled_to_def evicted_fields
            elim: session_progress_trans same_storage_trans)
      have matched: "reconcile_post env w (Inr \<lparr>rec_material = Some m, rec_reconciled = False, rec_advanced = False\<rparr>) t"
        if ?match
        using 1 that assms(2,3) cached same
        by (auto intro!: reconcile_postI simp: reconciled_to_def session_identity.truncate_def
            split: option.splits)
      show ?thesis
        using Inr Some cached matched stale
        by (auto simp: Let_def wp_simps evictCachedUnlockedVaultSessionMaterial_def evicted_def
            set_invalidation_def next_generation_def wipeMaterial_eq split: option.splits)
    qed
  qed
qed

lemma reconcile_spec:
  assumes "session_ok env w"
    and "pid = map_option session_identity.truncate (area_material w)"
  shows "wp (reconcileActiveMaterial env pid) (reconcile_post env w) w"
proof (cases "invalidationState w = No_invalidation")
  case True
  then show ?thesis
    using reconcile_cached_spec [OF assms(1) True assms(2)]
    by (simp add: reconcileActiveMaterial_def wp_simps)
next
  case False
  then have cached: "cachedMaterial w = Some None" using assms(1) by (simp add: session_ok_def cache_ok_def)
  let ?w = "w\<lparr>cachedMaterial := None, invalidationState := No_invalidation\<rparr>"
  let ?blocked = "pid = None \<or> (\<exists>i \<in> set_option pid. invalidationState w = Known_session (ses_sessionId i)) \<or>
      invalidationState w = Unknown_session False"
  have blocked: "reconcile_post env w (Inr (no_material False False)) w"
    using assms(1) by (intro reconcile_postI) (auto simp: same_storage_def reconciled_to_def)
  have ok: "session_ok env ?w" "same_storage w ?w"
    using assms(1) area_ok_same [of env w ?w]
    by (auto intro!: session_ok_empty simp: same_storage_def) (auto simp: session_ok_def)
  have "session_progress env w ?w" if "\<not> ?blocked"
    using that assms(2)
    by (auto simp: session_progress_def shared_progress_same dead_def persisted_id_def cached_id_def
        session_identity.truncate_def)
  moreover have "usable w uv \<Longrightarrow> usable ?w uv" for uv by (auto simp: usable_def)
  ultimately have "wp (reconcile_cached env pid) (reconcile_post env w) ?w" if "\<not> ?blocked"
    using that ok
    by (intro wp_weaken [OF reconcile_cached_spec [of env ?w pid]])
      (auto simp: assms(2) reconcile_post_def elim: session_progress_trans same_storage_trans)
  with False cached blocked show ?thesis
    by (auto simp: reconcileActiveMaterial_def wp_simps evictCachedUnlockedVaultSessionMaterial_def
        set_invalidation_def)
qed

section \<open>Removal\<close>

text \<open>
  Whatever fails, after a removal nothing is cached, an invalidation is pending, and the stored
  material is the old one or none.
\<close>

definition removal :: "'o session_world \<Rightarrow> 'o session_world \<Rightarrow> bool" where
  "removal w w' \<longleftrightarrow>
     (area_material w' = area_material w \<or> area_material w' = None) \<and>
     epoch_of w \<le> epoch_of w' \<and> clock w \<le> clock w' \<and> next_buffer w \<le> next_buffer w' \<and>
     cachedMaterial w' = Some None \<and> invalidationState w' \<noteq> No_invalidation \<and>
     activeLeases w' = activeLeases w \<and> next_lease w' = next_lease w \<and> outside w' = outside w"

lemma removal_ok:
  assumes "removal w w'" "area_ok env w"
  shows "session_ok env w' \<and> shared_progress env w w'"
proof -
  have "area_ok env w'"
    using assms by (auto simp: removal_def area_ok_def intro: issued_mono)
  with assms(1) show ?thesis
    by (auto simp: removal_def session_ok_def cache_ok_def shared_progress_def persisted_id_def)
qed

lemmas removal_unfold =
  removeUnlockedVaultSessionMaterial_def removeEncryptedUnlockedVaultSessionPayload_def
  set_invalidation_def next_generation_def wipeMaterial_eq

lemma remove_known_spec:
  "wp (removeSessionRecords env (Some m))
     (\<lambda>r w'. removal w w' \<and> invalidationState w' = Known_session (ses_sessionId m) \<and>
        (\<forall>u. r = Inr u \<longrightarrow> area_material w' = None)) w"
  by (simp add: removeSessionRecords_def wp_simps removal_unfold removal_def epoch_of_def
      split: call_outcome.splits)

text \<open>The session that a removal is about: the cached one, else the stored one.\<close>

definition holds :: "string \<Rightarrow> 'o session_world \<Rightarrow> bool" where
  "holds s w \<longleftrightarrow>
     cached_id w = Some s \<or> cachedMaterial w = None \<and> persisted_id w = Some s"

definition blocks :: "string \<Rightarrow> 'o session_world \<Rightarrow> bool" where
  "blocks s w \<longleftrightarrow> invalidationState w = Known_session s \<or> invalidationState w = Unknown_session False \<or>
     area_material w = None"

lemma removal_dead: "removal w w' \<Longrightarrow> blocks s w' \<Longrightarrow> dead s w'"
  by (auto simp: removal_def blocks_def dead_def cached_id_def persisted_id_def)

lemma remove_unknown_spec:
  "wp (removeSessionRecords env None)
     (\<lambda>r w'. removal w w' \<and> (\<forall>u. r = Inr u \<longrightarrow> area_material w' = None) \<and>
        (\<forall>s. holds s w \<or> cachedMaterial w = Some None \<longrightarrow> blocks s w')) w"
  unfolding removeSessionRecords_def wp_simps option.case sum.case
proof (rule wp_weaken [OF get_material_spec], goal_cases)
  case (1 r t)
  let ?w = "set_invalidation (Unknown_session False) (next_generation w)"
  have w: "area_material t = area_material w" "area_epoch t = area_epoch w" "clock w \<le> clock t"
    "next_buffer w \<le> next_buffer t" "activeLeases t = activeLeases w" "next_lease t = next_lease w"
    "outside t = outside w" "invalidationState t = Unknown_session False"
    using 1 by (auto simp: grows_def set_invalidation_def next_generation_def)
  show ?case
  proof (cases "\<exists>m. r = Inr (Some m)")
    case True
    then obtain m where m: "r = Inr (Some m)" ..
    have "\<forall>s. holds s w \<or> cachedMaterial w = Some None \<longrightarrow> s = ses_sessionId m"
      using 1 m by (auto simp: holds_def cached_id_def persisted_id_def set_invalidation_def
          next_generation_def loaded_def truncate_eq_iff split: option.splits)
    with w m show ?thesis
      by (auto simp: wp_simps removal_unfold removal_def blocks_def epoch_of_def
          split: call_outcome.split)
  next
    case False
    then have "r = Inr None \<or> (\<exists>e. r = Inl e)" by (metis not_Some_eq old.sum.exhaust)
    with w show ?thesis
      by (elim disjE exE; simp add: wp_simps removal_unfold removal_def blocks_def epoch_of_def
          split: call_outcome.splits)
  qed
qed

lemma advances_fields:
  assumes "advances w t"
  shows "area_material t = area_material w" "cachedMaterial t = cachedMaterial w"
    "invalidationState t = invalidationState w" "activationGeneration t = activationGeneration w"
    "persisted_id t = persisted_id w" "cached_id t = cached_id w"
    "clock w \<le> clock t" "epoch_of w \<le> epoch_of t"
    "outside t = outside w" "activeLeases t = activeLeases w"
    "next_lease t = next_lease w" "next_buffer w \<le> next_buffer t"
    "b < next_buffer w \<Longrightarrow> memory t b = memory w b"
  using assms by (simp_all add: advances_def grows_def persisted_id_def cached_id_def)

lemma advances_ok: "advances w t \<Longrightarrow> session_ok env w \<Longrightarrow> session_ok env t"
  unfolding advances_def
  by (metis session_ok_grows session_ok_simps(1))

lemma advances_area_ok: "advances w t \<Longrightarrow> area_ok env w \<Longrightarrow> area_ok env t"
  by (auto intro: area_ok_same simp: advances_fields)

lemma advances_progress: "advances w t \<Longrightarrow> session_progress env w t"
  by (auto simp: session_progress_def shared_progress_def dead_def advances_fields)

lemma advances_usable: "advances w t \<Longrightarrow> usable w uv \<Longrightarrow> usable t uv"
  by (auto simp: usable_def advances_fields intro: less_le_trans [OF _ advances_fields(12)])

lemma advances_removal: "advances w t \<Longrightarrow> removal t w' \<Longrightarrow> removal w w'"
  by (auto simp: removal_def advances_fields dest: advances_fields(7,8,12))

lemma advances_holds: "advances w t \<Longrightarrow> holds s t = holds s w"
  by (simp add: holds_def advances_fields)

lemma removal_epoch: "removal w w' \<Longrightarrow> epoch_of w \<le> epoch_of w'"
  by (simp add: removal_def)

text \<open>Revoking is advancing and removing; what the removal establishes, it establishes too.\<close>

lemma revoke_spec:
  assumes "\<And>t. advances w t \<Longrightarrow> wp (removeSessionRecords env known)
     (\<lambda>r w'. removal t w' \<and> (\<forall>u. r = Inr u \<longrightarrow> area_material w' = None) \<and> P w') t"
  shows "wp (revokeAuthorizationsAndRemoveSessionRecords env known)
     (\<lambda>r w'. removal w w' \<and>
        (\<forall>u. r = Inr u \<longrightarrow> area_material w' = None \<and> epoch_of w < epoch_of w') \<and> P w') w"
  unfolding revokeAuthorizationsAndRemoveSessionRecords_def wp_simps
proof (rule wp_weaken [OF advance_spec], goal_cases)
  case (1 r t)
  then have adv: "advances w t" and "\<forall>u. r = Inr u \<longrightarrow> epoch_of w < epoch_of t" by auto
  then show ?case
    by (auto simp: wp_simps caught_None_iff split: option.splits
        intro!: wp_weaken [OF assms [OF adv]] advances_removal [OF adv]
        elim: less_le_trans [OF _ removal_epoch])
qed

lemma revoke_known_spec:
  "wp (revokeAuthorizationsAndRemoveSessionRecords env (Some m))
     (\<lambda>r w'. removal w w' \<and>
        (\<forall>u. r = Inr u \<longrightarrow> area_material w' = None \<and> epoch_of w < epoch_of w') \<and>
        invalidationState w' = Known_session (ses_sessionId m)) w"
  by (rule revoke_spec, rule wp_weaken [OF remove_known_spec]) simp

lemma revoke_unknown_spec:
  "wp (revokeAuthorizationsAndRemoveSessionRecords env None)
     (\<lambda>r w'. removal w w' \<and>
        (\<forall>u. r = Inr u \<longrightarrow> area_material w' = None \<and> epoch_of w < epoch_of w') \<and>
        (\<forall>s. holds s w \<or> cachedMaterial w = Some None \<longrightarrow> blocks s w')) w"
  by (rule revoke_spec, rule wp_weaken [OF remove_unknown_spec])
    (simp add: advances_holds advances_fields)

section \<open>What a removal means for the invariant\<close>

text \<open>
  A known material is removed when the stored identity cannot be a dead one; without a known
  material, a pending invalidation makes the removal block every session.
\<close>

lemma removal_progress_known:
  assumes "removal t w'" "area_ok env t" "shared_progress env w t"
    and "\<And>s. issued env w s \<Longrightarrow> dead s w \<Longrightarrow> persisted_id t \<noteq> Some s"
  shows "session_ok env w' \<and> session_progress env w w'"
proof -
  have "dead s w'" if "issued env w s" "dead s w" for s
    using assms(1) assms(4) [OF that] by (auto simp: removal_def dead_def persisted_id_def cached_id_def)
  with removal_ok [OF assms(1,2)] shared_progress_trans [OF assms(3)] show ?thesis
    by (simp add: session_progress_def)
qed

lemma removal_progress_unknown:
  assumes "removal w w'" "session_ok env w"
    and "\<forall>s. holds s w \<or> cachedMaterial w = Some None \<longrightarrow> blocks s w'"
  shows "session_ok env w' \<and> session_progress env w w' \<and> (\<forall>s. holds s w \<longrightarrow> dead s w')"
proof -
  have "dead s w'" if "dead s w" for s
  proof (cases "persisted_id w = Some s")
    case True
    with that assms(2) have "cachedMaterial w = Some None"
      by (auto simp: dead_def session_ok_def cache_ok_def)
    with assms(1,3) show ?thesis by (auto intro: removal_dead)
  next
    case False
    with assms(1) show ?thesis by (auto simp: removal_def dead_def persisted_id_def cached_id_def)
  qed
  with assms removal_ok [OF assms(1)] show ?thesis
    by (auto simp: session_progress_def session_ok_def intro: removal_dead)
qed

end
