(* ===== verification/Session_Operations.thy ===== *)
theory Session_Operations
  imports Session_Invariant
begin

text \<open>
  The specification of every operation of the session service, on every branch: it keeps the
  invariant, it makes progress only, and what its success means.
\<close>

section \<open>Protecting and persisting\<close>

text \<open>The material that \<open>protect\<close> builds for an unlocked vault.\<close>

definition protects ::
  "UnlockedVault \<Rightarrow> VersionVector \<Rightarrow> material \<times> EncryptedUnlockedVaultSessionPayload \<Rightarrow> bool" where
  "protects uv v mp \<longleftrightarrow>
     (let m = fst mp; p = snd mp in
      ses_vaultId m = uv_vaultId uv \<and> ses_sourceSnapshotVersionVector m = v \<and>
      mat_deviceId m = uv_deviceId uv \<and>
      take 4 (secret_buffers m) = vault_secrets uv \<and>
      mat_trustedSnapshotContext m = uv_trustedSnapshotContext uv \<and>
      mat_vaultTrustAnchor m = uv_vaultTrustAnchor uv \<and>
      session_identity.truncate p = session_identity.truncate m)"

definition encrypts :: "session_env \<Rightarrow> 'o session_world \<Rightarrow> UnlockedVault \<Rightarrow>
    material \<times> EncryptedUnlockedVaultSessionPayload \<Rightarrow> bool" where
  "encrypts env w uv mp \<longleftrightarrow>
     (\<exists>n. pay_content (snd mp) =
        encrypt_payload env n (uv_vault uv) (memory w (mat_payloadKey (fst mp)))
          (session_identity.truncate (fst mp)))"

lemma take4_secrets:
  "take 4 (secret_buffers m) = vault_secrets uv \<longleftrightarrow>
     mat_vaultMasterKey m = uv_vaultMasterKey uv \<and>
     mat_devicePrivateSignKey m = uv_devicePrivateSignKey uv \<and>
     mat_devicePrivateVaultKey m = uv_devicePrivateVaultKey uv \<and>
     mat_deviceLocalProtectionKey m = uv_deviceLocalProtectionKey uv"
  by (simp add: secret_buffers_def vault_secrets_def)

lemma protect_new_spec:
  "wp (protect env uv v None)
     (\<lambda>r w'. grows w w' \<and>
       (\<forall>mp. r = Inr mp \<longrightarrow> protects uv v mp \<and> encrypts env w' uv mp \<and>
          (\<exists>n. clock w \<le> n \<and> n < clock w' \<and> ses_sessionId (fst mp) = generated_id env n) \<and>
          next_buffer w \<le> mat_payloadKey (fst mp) \<and> mat_payloadKey (fst mp) < next_buffer w' \<and>
          (\<exists>n. memory w' (mat_payloadKey (fst mp)) = generated_key env n))) w"
  by (auto simp: protect_def generateUnlockedVaultSessionPayloadKey_def
      encryptUnlockedVaultSessionPayload_def wp_simps Let_def grows_def protects_def encrypts_def
      take4_secrets session_context_def session_identity.truncate_def bestEffortWipe_eq
      split: call_outcome.split)

lemma protect_same_spec:
  "wp (protect env uv v (Some m))
     (\<lambda>r w'. grows w w' \<and>
       (\<forall>mp. r = Inr mp \<longrightarrow> protects uv v mp \<and> encrypts env w' uv mp \<and>
          ses_sessionId (fst mp) = ses_sessionId m \<and> mat_payloadKey (fst mp) = mat_payloadKey m)) w"
  by (auto simp: protect_def encryptUnlockedVaultSessionPayload_def wp_simps Let_def grows_def
      protects_def encrypts_def take4_secrets session_context_def session_identity.truncate_def
      bestEffortWipe_eq split: call_outcome.split)

text \<open>Saving the payload, then the material; a failed save of the material may have been made.\<close>

definition saves ::
  "(material \<times> EncryptedUnlockedVaultSessionPayload) \<Rightarrow> 'o session_world \<Rightarrow> core_error + unit \<Rightarrow>
   'o session_world \<Rightarrow> bool" where
  "saves mp w r w' \<longleftrightarrow>
     (case r of
        Inl e \<Rightarrow> cachedMaterial w' = cachedMaterial w \<and>
          (area_material w' = area_material w \<or>
           area_material w' = Some (serializeUnlockedVaultSessionMaterial w (fst mp)))
      | Inr u \<Rightarrow> cachedMaterial w' = Some (Some (fst mp)) \<and> area_payload w' = Some (payload_record (snd mp)) \<and>
          area_material w' = Some (serializeUnlockedVaultSessionMaterial w (fst mp))) \<and>
     area_epoch w' = area_epoch w \<and> invalidationState w' = invalidationState w \<and>
     activationGeneration w' = activationGeneration w \<and>
     memory w' = memory w \<and> next_buffer w' = next_buffer w \<and> clock w \<le> clock w' \<and>
     outside w' = outside w \<and> activeLeases w' = activeLeases w \<and> next_lease w' = next_lease w"

lemma serialize_frame [simp]:
  "serializeUnlockedVaultSessionMaterial (w\<lparr>clock := n\<rparr>) m = serializeUnlockedVaultSessionMaterial w m"
  "serializeUnlockedVaultSessionMaterial (w\<lparr>area_payload := p\<rparr>) m =
     serializeUnlockedVaultSessionMaterial w m"
  by (simp_all add: serializeUnlockedVaultSessionMaterial_def)

lemma persist_spec: "wp (persistProtectedSession env mp) (saves mp w) w"
  by (simp add: persistProtectedSession_def saveEncryptedUnlockedVaultSessionPayload_def
      saveUnlockedVaultSessionMaterial_def wp_simps saves_def split: call_outcome.split)

lemma serialize_secrets:
  "secret_buffers (serializeUnlockedVaultSessionMaterial w m) = map (memory w) (secret_buffers m)"
  by (simp add: serializeUnlockedVaultSessionMaterial_def secret_buffers_def)

lemma serialize_identity:
  "session_identity.truncate (serializeUnlockedVaultSessionMaterial w m) = session_identity.truncate m"
  by (simp add: serializeUnlockedVaultSessionMaterial_def session_identity.truncate_def)

lemma serialize_ids [simp]:
  "ses_sessionId (serializeUnlockedVaultSessionMaterial w m) = ses_sessionId m"
  "ses_vaultId (serializeUnlockedVaultSessionMaterial w m) = ses_vaultId m"
  "ses_sourceSnapshotVersionVector (serializeUnlockedVaultSessionMaterial w m) =
     ses_sourceSnapshotVersionVector m"
  by (simp_all add: serializeUnlockedVaultSessionMaterial_def)

text \<open>The new material is live as long as the keys of the unlocked vault are.\<close>

lemma protected_live:
  assumes "usable w uv" "protects uv v mp"
    and "mat_payloadKey (fst mp) < next_buffer w" "intact (memory w (mat_payloadKey (fst mp)))"
    and "mat_payloadKey (fst mp) \<notin> set (vault_secrets uv)"
  shows "live_material w (fst mp)"
  using assms
  by (auto simp: live_material_def usable_def protects_def Let_def take4_secrets secret_buffers_def
      vault_secrets_def)

text \<open>Wiping the keys of a replaced material leaves the keys of its replacement alone.\<close>

lemma replaced_iff:
  "Some b \<in> set (map2 (\<lambda>p c. if p = c then None else Some p) ps cs) \<longleftrightarrow>
     (\<exists>c. (b, c) \<in> set (zip ps cs) \<and> b \<noteq> c)"
  by (induction ps cs rule: list_induct2') auto

lemma wipeReplacedMaterial_eq:
  "wipeReplacedMaterial p m w =
     w\<lparr>memory := (\<lambda>b. if \<exists>c. (b, c) \<in> set (zip (secret_buffers p) (secret_buffers m)) \<and> b \<noteq> c
        then zeroed (memory w b) else memory w b)\<rparr>"
  by (simp only: wipeReplacedMaterial_def bestEffortWipe_eq replaced_iff)

lemma wipeReplaced_fields [simp]:
  "area_material (wipeReplacedMaterial p m w) = area_material w"
  "area_epoch (wipeReplacedMaterial p m w) = area_epoch w"
  "area_payload (wipeReplacedMaterial p m w) = area_payload w"
  "clock (wipeReplacedMaterial p m w) = clock w"
  "next_buffer (wipeReplacedMaterial p m w) = next_buffer w"
  "cachedMaterial (wipeReplacedMaterial p m w) = cachedMaterial w"
  "invalidationState (wipeReplacedMaterial p m w) = invalidationState w"
  by (simp_all add: wipeReplacedMaterial_eq)

lemma wipe_replaced_keeps:
  assumes "aligned uv p" "take 4 (secret_buffers m) = vault_secrets uv"
    and "mat_payloadKey m = mat_payloadKey p \<and> distinct (secret_buffers p) \<or>
      mat_payloadKey m \<notin> set (secret_buffers p)"
    and "b \<in> set (secret_buffers m)"
  shows "memory (wipeReplacedMaterial p m w) b = memory w b"
proof -
  have "\<not> (\<exists>c. (b, c) \<in> set (zip (secret_buffers p) (secret_buffers m)) \<and> b \<noteq> c)"
    using assms
    by (auto simp: aligned_def less_four less_five take4_secrets secret_buffers_def vault_secrets_def)
  then show ?thesis by (auto simp: wipeReplacedMaterial_eq)
qed

section \<open>Replacing the session\<close>

text \<open>
  The situation after the checks of an activation: the caller's keys are live, and either no
  session is stored or the stored one is the cached one.
\<close>

definition replaceable :: "session_env \<Rightarrow> 'o session_world \<Rightarrow> UnlockedVault \<Rightarrow> material option \<Rightarrow> bool" where
  "replaceable env w uv am \<longleftrightarrow>
     session_ok env w \<and> usable w uv \<and>
     (case am of
        None \<Rightarrow> area_material w = None
      | Some m \<Rightarrow> cachedMaterial w = Some (Some m) \<and> invalidationState w = No_invalidation \<and>
          persisted_id w = Some (ses_sessionId m))"

text \<open>The unlocked vault is open in the context, and the shared storage holds it.\<close>

definition opened :: "session_env \<Rightarrow> UnlockedVault \<Rightarrow> VersionVector \<Rightarrow> string \<Rightarrow> 'o session_world \<Rightarrow> bool" where
  "opened env uv v sessionId w \<longleftrightarrow>
     (\<exists>m p. cachedMaterial w = Some (Some m) \<and> invalidationState w = No_invalidation \<and>
        area_material w = Some (serializeUnlockedVaultSessionMaterial w m) \<and>
        area_payload w = Some (payload_record p) \<and> ses_sessionId m = sessionId \<and>
        protects uv v (m, p) \<and> encrypts env w uv (m, p))"

lemma session_progress_outside [simp]: "session_progress env w (w\<lparr>outside := z\<rparr>)"
  by (simp add: session_progress_def shared_progress_same dead_def persisted_id_def cached_id_def)

lemma replaceable_not_dead:
  "replaceable env w uv am \<Longrightarrow> dead s w \<Longrightarrow> persisted_id w \<noteq> Some s"
  by (auto simp: replaceable_def dead_def cached_id_def persisted_id_def split: option.splits)

lemma replaceable_grows:
  "replaceable env w uv am \<Longrightarrow> grows (w\<lparr>outside := z\<rparr>) t \<Longrightarrow> replaceable env t uv am"
  unfolding replaceable_def
  using session_ok_grows [of env "w\<lparr>outside := z\<rparr>" t] usable_grows [of "w\<lparr>outside := z\<rparr>" uv t]
  by (auto simp: grows_def persisted_id_def usable_def split: option.splits)

text \<open>After an attempt to save the new records the storage is still well formed.\<close>

lemma saves_area_ok:
  assumes "saves mp t r u" "area_ok env t" "live_material t (fst mp)"
    and "issued env u (ses_sessionId (fst mp))"
  shows "area_ok env u"
  using assms
  by (auto simp: saves_def area_ok_def serialize_secrets list_all_iff live_material_def
      split: sum.splits intro: issued_mono)

lemma saves_fields:
  assumes "saves mp t r u"
  shows "persisted_id u = persisted_id t \<or> persisted_id u = Some (ses_sessionId (fst mp))"
    and "epoch_of u = epoch_of t" and "clock t \<le> clock u"
  using assms by (auto simp: saves_def persisted_id_def epoch_of_def split: sum.splits)

lemma saves_progress:
  assumes "saves mp t r u" "clock w \<le> clock t" "epoch_of t = epoch_of w" "persisted_id t = persisted_id w"
    and "\<exists>n \<ge> clock w. ses_sessionId (fst mp) = generated_id env n"
  shows "shared_progress env w u"
  using saves_fields [OF assms(1)] assms(2-5) by (auto simp: shared_progress_def)

lemma new_id_not_issued:
  "env_ok env \<Longrightarrow> clock w \<le> n \<Longrightarrow> \<not> issued env w (generated_id env n)"
  by (auto simp: issued_def env_ok_def dest: injD)

text \<open>A failed save: whatever was written is removed again.\<close>

lemma failed_save:
  assumes "env_ok env" "replaceable env w uv am" "replaceable env t uv am"
    and "saves mp t r u" "live_material t (fst mp)"
    and "clock w \<le> n" "n < clock t" "ses_sessionId (fst mp) = generated_id env n"
    and "epoch_of t = epoch_of w" "persisted_id t = persisted_id w"
  shows "wp (removeSessionRecordsPreservingRootCause env am)
     (\<lambda>r w'. session_ok env w' \<and> session_progress env w w' \<and>
        invalidationState w' \<noteq> No_invalidation \<and> r = Inr ()) (wipeMaterial m u)"
proof -
  let ?u = "wipeMaterial m u"
  have "clock t \<le> clock u" by (rule saves_fields(3) [OF assms(4)])
  then have "issued env u (ses_sessionId (fst mp))"
    using assms(7,8) by (auto simp: issued_def intro: less_le_trans)
  then have "area_ok env u"
    using assms(3-5) by (auto simp: replaceable_def session_ok_def intro: saves_area_ok)
  then have area: "area_ok env ?u" by (auto simp: wipeMaterial_eq intro: area_ok_same)
  have "shared_progress env w u"
    using assms(4,6-10) by (auto intro!: saves_progress exI [of _ n])
  then have shared: "shared_progress env w ?u"
    by (simp add: shared_progress_def wipeMaterial_eq persisted_id_def epoch_of_def)
  have persisted: "persisted_id ?u = persisted_id u" by (simp add: wipeMaterial_eq persisted_id_def)
  have gone: "persisted_id ?u \<noteq> Some s" if "issued env w s" "dead s w" for s
    using saves_fields(1) [OF assms(4)] replaceable_not_dead [OF assms(2) that(2)]
      new_id_not_issued [OF assms(1,6)] assms(8,10) that(1)
    by (auto simp: persisted)
  have finished: "session_ok env w' \<and> session_progress env w w' \<and> invalidationState w' \<noteq> No_invalidation"
    if "removal ?u w'" for w'
    using that removal_progress_known [OF that area shared gone] by (simp add: removal_def)
  show ?thesis
    unfolding removeSessionRecordsPreservingRootCause_def wp_simps
    by (cases am)
      (auto intro!: wp_weaken [OF remove_unknown_spec] wp_weaken [OF remove_known_spec] dest: finished
        simp: wp_simps)
qed

text \<open>A completed save opens the session, whatever else of the memory is wiped.\<close>

definition installs :: "'o session_world \<Rightarrow> material \<Rightarrow> 'o session_world \<Rightarrow> bool" where
  "installs u m z \<longleftrightarrow>
     area_material z = area_material u \<and> area_payload z = area_payload u \<and>
     epoch_of u \<le> epoch_of z \<and> cachedMaterial z = cachedMaterial u \<and>
     invalidationState z = No_invalidation \<and> clock u \<le> clock z \<and> next_buffer u \<le> next_buffer z \<and>
     (\<forall>b \<in> set (secret_buffers m). memory z b = memory u b)"

lemma completed_save:
  assumes "saves mp t (Inr x) u" "installs u (fst mp) z"
    and "live_material t (fst mp)" "protects uv v mp" "encrypts env t uv mp"
    and "issued env t (ses_sessionId (fst mp))" "shared_progress env w z"
    and "\<And>s. issued env w s \<Longrightarrow> dead s w \<Longrightarrow> s \<noteq> ses_sessionId (fst mp)"
  shows "session_ok env z \<and> session_progress env w z \<and> opened env uv v (ses_sessionId (fst mp)) z"
proof -
  let ?m = "fst mp"
  have u: "cachedMaterial u = Some (Some ?m)" "area_payload u = Some (payload_record (snd mp))" "memory u = memory t"
    "area_material u = Some (serializeUnlockedVaultSessionMaterial t ?m)"
    "next_buffer u = next_buffer t" "clock t \<le> clock u"
    using assms(1) by (auto simp: saves_def)
  have mem: "\<forall>b \<in> set (secret_buffers ?m). memory z b = memory t b"
    using assms(2) u(3) by (simp add: installs_def)
  have live: "live_material z ?m"
    using assms(2,3) u mem by (auto simp: live_material_def installs_def)
  have serial: "serializeUnlockedVaultSessionMaterial z ?m = serializeUnlockedVaultSessionMaterial t ?m"
    using mem by (simp add: serializeUnlockedVaultSessionMaterial_def secret_buffers_def)
  have "clock t \<le> clock z" using assms(2) u(6) by (simp add: installs_def)
  then have "issued env z (ses_sessionId ?m)" by (rule issued_mono [OF assms(6)])
  then have "session_ok env z"
    using assms(2,3) u live
    by (auto simp: session_ok_def area_ok_def cache_ok_def installs_def serialize_secrets
        live_material_def list_all_iff)
  moreover have "session_progress env w z"
    using assms(2,7,8) u
    by (auto simp: session_progress_def dead_def cached_id_def persisted_id_def installs_def)
  moreover have "opened env uv v (ses_sessionId ?m) z"
    unfolding opened_def
  proof (intro exI conjI)
    show "cachedMaterial z = Some (Some ?m)" "invalidationState z = No_invalidation"
      "area_material z = Some (serializeUnlockedVaultSessionMaterial z ?m)"
      "area_payload z = Some (payload_record (snd mp))"
      using assms(2) u serial by (simp_all add: installs_def)
    show "protects uv v (?m, snd mp)" using assms(4) by simp
    show "encrypts env z uv (?m, snd mp)"
      using assms(5) mem by (simp add: encrypts_def secret_buffers_def)
  qed simp
  ultimately show ?thesis by simp
qed

lemma session_ok_outside: "session_ok env w \<Longrightarrow> session_ok env (w\<lparr>outside := z\<rparr>)"
  by simp

text \<open>A material that \<open>protect\<close> has just built in \<open>t\<close>, in an operation that began in \<open>w\<close>.\<close>

definition fresh_session ::
  "session_env \<Rightarrow> UnlockedVault \<Rightarrow> VersionVector \<Rightarrow> 'o session_world \<Rightarrow> 'o session_world \<Rightarrow>
   material \<times> EncryptedUnlockedVaultSessionPayload \<Rightarrow> bool" where
  "fresh_session env uv v w t mp \<longleftrightarrow>
     protects uv v mp \<and> encrypts env t uv mp \<and> live_material t (fst mp) \<and>
     (\<exists>n. clock w \<le> n \<and> n < clock t \<and> ses_sessionId (fst mp) = generated_id env n) \<and>
     next_buffer w \<le> mat_payloadKey (fst mp)"

lemma replaced_keys_kept:
  assumes "replaceable env w uv (Some p)" "fresh_session env uv v w t mp"
    and "b \<in> set (secret_buffers (fst mp))"
  shows "memory (wipeReplacedMaterial p (fst mp) u) b = memory u b"
proof (rule wipe_replaced_keeps [OF _ _ _ assms(3)])
  show "aligned uv p" using assms(1) by (auto simp: replaceable_def usable_def)
  show "take 4 (secret_buffers (fst mp)) = vault_secrets uv"
    using assms(2) by (simp add: fresh_session_def protects_def Let_def)
  have "live_material w p"
    using assms(1) by (auto simp: replaceable_def session_ok_def cache_ok_def)
  then show "mat_payloadKey (fst mp) = mat_payloadKey p \<and> distinct (secret_buffers p) \<or>
      mat_payloadKey (fst mp) \<notin> set (secret_buffers p)"
    using assms(2) by (auto simp: live_material_def fresh_session_def)
qed

lemma saved_replacement:
  assumes "env_ok env" "fresh_session env uv v w t mp" "saves mp t (Inr x) u"
    and "epoch_of t = epoch_of w" "persisted_id t = persisted_id w" "clock w \<le> clock t"
    and "installs u (fst mp) z" "epoch_of z = epoch_of u"
  shows "session_ok env z \<and> session_progress env w z \<and> opened env uv v (ses_sessionId (fst mp)) z"
proof -
  obtain n where n: "clock w \<le> n" "n < clock t" "ses_sessionId (fst mp) = generated_id env n"
    using assms(2) by (auto simp: fresh_session_def)
  have "shared_progress env w u"
    using assms(3-6) n by (auto intro: saves_progress)
  then have "shared_progress env w z"
    using assms(7,8) by (auto simp: installs_def shared_progress_def persisted_id_def)
  moreover have "issued env t (ses_sessionId (fst mp))" using n by (auto simp: issued_def)
  moreover have "\<not> issued env w (ses_sessionId (fst mp))"
    using new_id_not_issued [OF assms(1) n(1)] n(3) by simp
  ultimately show ?thesis
    using assms(2) by (intro completed_save [OF assms(3,7)]) (auto simp: fresh_session_def)
qed

definition replaced_post ::
  "session_env \<Rightarrow> UnlockedVault \<Rightarrow> VersionVector \<Rightarrow> 'o session_world \<Rightarrow> core_error + string \<times> nat \<Rightarrow>
   'o session_world \<Rightarrow> bool" where
  "replaced_post env uv v w r w' \<longleftrightarrow>
     session_ok env w' \<and> session_progress env w w' \<and>
     (case r of
        Inl e \<Rightarrow> invalidationState w' = No_invalidation \<longrightarrow> persisted_id w' = persisted_id w
      | Inr x \<Rightarrow> opened env uv v (fst x) w')"

lemma persist_replacement_spec:
  assumes "env_ok env" "replaceable env w uv am" "replaceable env t uv am"
    and "fresh_session env uv v w t mp"
    and "epoch_of t = epoch_of w" "persisted_id t = persisted_id w" "clock w \<le> clock t"
  shows "wp (persist_replacement env am mp) (replaced_post env uv v w) t"
  unfolding persist_replacement_def wp_simps
proof (rule wp_weaken [OF persist_spec], goal_cases)
  case (1 r u)
  let ?m = "fst mp"
  obtain n where n: "clock w \<le> n" "n < clock t" "ses_sessionId ?m = generated_id env n"
    using assms(4) by (auto simp: fresh_session_def)
  show ?case
  proof (cases r)
    case (Inl e)
    have live: "live_material t ?m" using assms(4) by (simp add: fresh_session_def)
    show ?thesis
      unfolding Inl sum.case
      by (rule wp_weaken [OF failed_save [OF assms(1-3) 1 live n assms(5,6)]])
        (auto simp: replaced_post_def)
  next
    case (Inr x)
    let ?z = "\<lambda>u. next_generation (set_invalidation No_invalidation u)"
    have saved: "saves mp t (Inr x) u" using 1 Inr by simp
    note installed = saved_replacement [OF assms(1,4) saved assms(5-7)]
    have plain: "installs u ?m (?z u)"
      by (simp add: installs_def next_generation_def set_invalidation_def epoch_of_def)
    have wiped: "installs u ?m (?z (wipeReplacedMaterial p ?m u))" if "am = Some p" for p
      using replaced_keys_kept [OF assms(2) [unfolded that] assms(4)]
      by (auto simp: installs_def next_generation_def set_invalidation_def epoch_of_def)
    show ?thesis
      unfolding Inr sum.case
      using installed [OF plain] installed [OF wiped]
      by (cases am) (auto simp: wp_simps next_generation_def set_invalidation_def epoch_of_def
          wipeReplacedMaterial_eq replaced_post_def)
  qed
qed

lemma replace_session_spec:
  assumes "env_ok env" "replaceable env w uv am"
  shows "wp (replace_session env am uv v (callout f)) (replaced_post env uv v w) w"
  unfolding replace_session_def wp_simps
proof (rule wp_callout, goal_cases)
  case (1 r out)
  have ok: "session_ok env w" using assms(2) by (simp add: replaceable_def)
  have "wp (protect env uv v None)
     (\<lambda>r t. case r of
        Inl e \<Rightarrow> replaced_post env uv v w (Inl e) t
      | Inr mp \<Rightarrow> wp (persist_replacement env am mp) (replaced_post env uv v w) t) (w\<lparr>outside := out\<rparr>)"
  proof (rule wp_weaken [OF protect_new_spec], goal_cases)
    case (1 r t)
    then have grows: "grows (w\<lparr>outside := out\<rparr>) t" by simp
    have t: "replaceable env t uv am" "session_ok env t" "session_progress env w t"
      using replaceable_grows [OF assms(2) grows] session_progress_grows [OF grows, of env]
      by (auto simp: replaceable_def intro: session_progress_trans [OF session_progress_outside])
    have same: "epoch_of t = epoch_of w" "persisted_id t = persisted_id w" "clock w \<le> clock t"
      using grows by (simp_all add: grows_def persisted_id_def epoch_of_def)
    have fresh: "fresh_session env uv v w t mp" if "r = Inr mp" for mp
    proof -
      have mp: "protects uv v mp" "next_buffer w \<le> mat_payloadKey (fst mp)"
        "mat_payloadKey (fst mp) < next_buffer t" "intact (memory t (mat_payloadKey (fst mp)))"
        using 1 that assms(1) by (auto simp: env_ok_def)
      moreover have "usable t uv" "usable w uv" using t(1) assms(2) by (simp_all add: replaceable_def)
      ultimately have "live_material t (fst mp)"
        by (intro protected_live) (auto simp: usable_def)
      with mp 1 that show ?thesis by (simp add: fresh_session_def)
    qed
    show ?case
      using t(2,3) same(2) persist_replacement_spec [OF assms t(1) fresh same]
      by (auto simp: replaced_post_def split: sum.splits)
  qed
  with ok show ?case
    by (auto simp: replaced_post_def persisted_id_def split: sum.splits)
qed

lemma replace_or_remove_spec:
  assumes "env_ok env" "replaceable env w uv am"
  shows "wp (replace_or_remove env am uv v (callout f))
     (\<lambda>r w'. session_ok env w' \<and> session_progress env w w' \<and>
        (\<forall>x. r = Inr x \<longrightarrow> opened env uv v (fst x) w')) w"
  unfolding replace_or_remove_def wp_simps
proof (rule wp_weaken [OF replace_session_spec [OF assms]], goal_cases)
  case (1 r t)
  show ?case
  proof (cases r)
    case (Inr x)
    with 1 show ?thesis by (simp add: replaced_post_def)
  next
    case (Inl e)
    with 1 have t: "session_ok env t" "session_progress env w t" by (simp_all add: replaced_post_def)
    have "session_ok env w' \<and> session_progress env w w'"
      if "am \<noteq> None" "invalidationState t = No_invalidation" "removal t w'" for w'
    proof (rule removal_progress_known [OF that(3)])
      show "area_ok env t" "shared_progress env w t"
        using t by (simp_all add: session_ok_def session_progress_def)
      show "persisted_id t \<noteq> Some s" if "issued env w s" "dead s w" for s
        using 1 Inl \<open>invalidationState t = No_invalidation\<close> replaceable_not_dead [OF assms(2) that(2)]
        by (simp add: replaced_post_def)
    qed
    with t show ?thesis
      unfolding Inl sum.case removeSessionRecordsPreservingRootCause_def wp_simps
      by (cases am) (auto simp: wp_simps intro!: wp_weaken [OF remove_known_spec])
  qed
qed

section \<open>Reading the identity and reconciling\<close>

text \<open>
  Every operation begins by reading the shared identity and reconciling the cache with it. The
  rest of the operation may rely on the following.
\<close>

definition reconciled_state ::
  "session_env \<Rightarrow> 'o session_world \<Rightarrow> session_identity option \<Rightarrow> reconciliation \<Rightarrow> 'o session_world \<Rightarrow> bool" where
  "reconciled_state env w pid rec t \<longleftrightarrow>
     session_ok env t \<and> session_progress env w t \<and> same_storage w t \<and>
     pid = map_option session_identity.truncate (area_material w) \<and> reconciled_to t rec \<and>
     (\<forall>uv. usable w uv \<and> \<not> rec_reconciled rec \<longrightarrow> usable t uv)"

lemma wp_identity_reconcile:
  assumes "session_ok env w"
    and error: "\<And>e t. session_ok env t \<Longrightarrow> session_progress env w t \<Longrightarrow> same_storage w t \<Longrightarrow> Q (Inl e) t"
    and rest: "\<And>pid rec t. reconciled_state env w pid rec t \<Longrightarrow> wp (K pid rec) Q t"
  shows "wp (sbind (getPersistedUnlockedVaultSessionIdentity env)
              (\<lambda>pid. sbind (reconcileActiveMaterial env pid) (K pid))) Q w"
  unfolding wp_simps
proof (rule wp_weaken [OF get_identity_spec], goal_cases)
  case (1 r u)
  have u: "session_ok env u" "session_progress env w u" "same_storage w u" "grows w u"
    using 1 assms(1) session_ok_grows session_progress_grows same_storage_grows by auto
  show ?case
  proof (cases r)
    case (Inl e)
    with u error show ?thesis by simp
  next
    case (Inr pid)
    have pid: "pid = map_option session_identity.truncate (area_material w)"
      "pid = map_option session_identity.truncate (area_material u)"
      using 1 Inr by (simp_all add: grows_def)
    show ?thesis
      unfolding Inr sum.case
    proof (rule wp_weaken [OF reconcile_spec [OF u(1) pid(2)]], goal_cases)
      case (1 r t)
      then have "session_ok env t" "session_progress env w t" "same_storage w t"
        using session_progress_trans [OF u(2)] same_storage_trans [OF u(3)]
        by (auto simp: reconcile_post_def)
      moreover have "reconciled_state env w pid rec t" if "r = Inr rec" for rec
        using 1 that calculation pid(1) usable_grows [OF _ u(4)]
        by (auto simp: reconciled_state_def reconcile_post_def)
      ultimately show ?case using error rest by (auto split: sum.splits)
    qed
  qed
qed

lemma reconcile_with_storage_spec:
  assumes "session_ok env w"
  shows "wp (reconcile_with_storage env)
     (\<lambda>r t. case r of
        Inl e \<Rightarrow> session_ok env t \<and> session_progress env w t \<and> same_storage w t
      | Inr (pid, rec) \<Rightarrow> reconciled_state env w pid rec t) w"
  unfolding reconcile_with_storage_def
  by (rule wp_identity_reconcile [OF assms]) (simp_all add: wp_simps)

text \<open>If reconciliation returns a material, its session is the stored one and is not dead.\<close>

lemma reconciled_material:
  assumes "reconciled_state env w pid rec t" "rec_material rec = Some m"
  shows "cachedMaterial t = Some (Some m)" "invalidationState t = No_invalidation"
    "persisted_id t = Some (ses_sessionId m)" "\<not> rec_reconciled rec"
    "live_material t m" "issued env t (ses_sessionId m)"
    "\<And>s. issued env w s \<Longrightarrow> dead s w \<Longrightarrow> persisted_id t \<noteq> Some s"
proof -
  show m: "cachedMaterial t = Some (Some m)" "invalidationState t = No_invalidation"
    "persisted_id t = Some (ses_sessionId m)" "\<not> rec_reconciled rec"
    using assms
    by (auto simp: reconciled_state_def reconciled_to_def persisted_id_def same_session_def
        session_identity.truncate_def)
  then show "live_material t m" "issued env t (ses_sessionId m)"
    using assms(1) by (auto simp: reconciled_state_def session_ok_def cache_ok_def)
  show "persisted_id t \<noteq> Some s" if "issued env w s" "dead s w" for s
    using that assms(1) m(2) by (auto simp: reconciled_state_def session_progress_def dead_def)
qed

section \<open>The checks of an activation\<close>

lemma require_current_authorization_spec:
  "wp (require_current_authorization env auth vaultId)
     (\<lambda>r w'. grows w w' \<and>
        (\<forall>u. r = Inr u \<longrightarrow>
           auth_localGeneration auth = activationGeneration w \<and> auth_sharedEpoch auth = epoch_of w) \<and>
        (auth_localGeneration auth \<noteq> activationGeneration w \<longrightarrow>
           r = Inl (UnlockedVaultSessionExpiredError vaultId)) \<and>
        (auth_sharedEpoch auth \<noteq> epoch_of w \<longrightarrow> (\<exists>e. r = Inl e))) w"
  unfolding require_current_authorization_def getUnlockedVaultSessionEpoch_def wp_simps
  by (auto intro!: wp_weaken [OF read_epoch_spec] split: sum.splits)

lemma require_replaceable_spec:
  assumes "reconciled_state env w pid rec t"
  shows "wp (require_replaceable vaultId pid rec)
     (\<lambda>r t'. t' = t \<and>
        (\<forall>am. r = Inr am \<longrightarrow>
           (\<forall>st. area_material w = Some st \<longrightarrow> ses_vaultId st = vaultId) \<and>
           (\<forall>uv. usable w uv \<longrightarrow> replaceable env t uv am))) t"
proof -
  have pid: "pid = map_option session_identity.truncate (area_material w)"
    "area_material t = area_material w" "session_ok env t"
    using assms by (auto simp: reconciled_state_def same_storage_def)
  have "replaceable env t uv (rec_material rec)"
    if "\<not> rec_reconciled rec" "usable w uv"
      "map_option ses_sessionId pid = map_option ses_sessionId (rec_material rec)" for uv
    using that pid assms reconciled_material [OF assms]
    by (auto simp: replaceable_def reconciled_state_def session_identity.truncate_def
        split: option.splits)
  with pid(1) show ?thesis
    by (auto simp: require_replaceable_def wp_simps session_identity.truncate_def split: option.splits)
qed

lemma require_activation_spec:
  assumes "session_ok env w"
  shows "wp (require_activation env auth vaultId)
     (\<lambda>r w'. session_ok env w' \<and> session_progress env w w' \<and> same_storage w w' \<and>
        (\<forall>am. r = Inr am \<longrightarrow>
           auth_localGeneration auth = activationGeneration w \<and> auth_sharedEpoch auth = epoch_of w \<and>
           (\<forall>st. area_material w = Some st \<longrightarrow> ses_vaultId st = vaultId) \<and>
           (\<forall>uv. usable w uv \<longrightarrow> replaceable env w' uv am))) w"
  unfolding require_activation_def wp_sthen
proof (rule wp_weaken [OF require_current_authorization_spec], goal_cases)
  case (1 r u)
  then have g: "grows w u" by simp
  note u = session_ok_grows [OF assms g] session_progress_grows [OF g, of env] same_storage_grows [OF g] g
  show ?case
  proof (cases r)
    case (Inl e)
    with u show ?thesis by simp
  next
    case (Inr x)
    with 1 have auth: "auth_localGeneration auth = activationGeneration w" "auth_sharedEpoch auth = epoch_of w"
      by auto
    show ?thesis
      unfolding Inr sum.case
    proof (rule wp_identity_reconcile [OF u(1)], goal_cases)
      case (1 e t)
      then show ?case
        using session_progress_trans [OF u(2)] same_storage_trans [OF u(3)] by auto
    next
      case (2 pid rec t)
      then have t: "session_ok env t" "session_progress env w t" "same_storage w t"
        using session_progress_trans [OF u(2)] same_storage_trans [OF u(3)]
        by (auto simp: reconciled_state_def)
      show ?case
        by (rule wp_weaken [OF require_replaceable_spec [OF 2]])
          (use t auth u(3) usable_grows [OF _ g] in \<open>auto simp: same_storage_def\<close>)
    qed
  qed
qed

section \<open>Leases\<close>

text \<open>The leases a context holds are of no concern to the invariant.\<close>

definition leased :: "nat list \<Rightarrow> nat \<Rightarrow> 'o session_world \<Rightarrow> 'o session_world" where
  "leased ls n w = w\<lparr>next_lease := n, activeLeases := ls\<rparr>"

lemma leased_fields [simp]:
  "area_material (leased ls n w) = area_material w" "area_epoch (leased ls n w) = area_epoch w"
  "area_payload (leased ls n w) = area_payload w" "clock (leased ls n w) = clock w"
  "memory (leased ls n w) = memory w" "next_buffer (leased ls n w) = next_buffer w"
  "cachedMaterial (leased ls n w) = cachedMaterial w"
  "activationGeneration (leased ls n w) = activationGeneration w"
  "invalidationState (leased ls n w) = invalidationState w" "outside (leased ls n w) = outside w"
  by (simp_all add: leased_def)

lemma leased_views [simp]:
  "session_ok env (leased ls n w) = session_ok env w"
  "persisted_id (leased ls n w) = persisted_id w" "cached_id (leased ls n w) = cached_id w"
  "epoch_of (leased ls n w) = epoch_of w" "issued env (leased ls n w) s = issued env w s"
  "dead s (leased ls n w) = dead s w" "holds s (leased ls n w) = holds s w"
  "usable (leased ls n w) uv = usable w uv"
  "opened env uv v sid (leased ls n w) = opened env uv v sid w"
  "session_progress env (leased ls n w) w' = session_progress env w w'"
  "session_progress env w (leased ls n w') = session_progress env w w'"
  by (simp_all add: leased_def persisted_id_def cached_id_def epoch_of_def issued_def dead_def
      holds_def usable_def opened_def serializeUnlockedVaultSessionMaterial_def encrypts_def
      session_progress_def shared_progress_def)

lemma leased_activeLeases: "w\<lparr>activeLeases := ls\<rparr> = leased ls (next_lease w) w"
  by (simp add: leased_def)

lemma wp_coordinated:
  assumes "\<And>ls n. wp operation (\<lambda>r t. \<forall>ls n. Q r (leased ls n t)) (leased ls n w)"
    and "Q (Inl Lease_not_active) w"
  shows "wp (runCoordinatedSessionMutation lease operation) Q w"
proof -
  have self: "leased (activeLeases t) (next_lease t) t = t" for t :: "'a session_world"
    by (simp add: leased_def)
  have "wp operation Q (leased (activeLeases w) (next_lease w) w)"
    by (rule wp_weaken [OF assms(1)]) (metis self)
  then have here: "wp operation Q w" by (simp only: self)
  have inside: "wp operation (\<lambda>r t. Q r (t\<lparr>activeLeases := f t\<rparr>))
      (w\<lparr>next_lease := n, activeLeases := ls\<rparr>)" for ls n f
  proof -
    have "wp operation (\<lambda>r t. Q r (t\<lparr>activeLeases := f t\<rparr>)) (leased ls n w)"
      by (rule wp_weaken [OF assms(1)]) (metis leased_activeLeases)
    then show ?thesis by (simp add: leased_def)
  qed
  show ?thesis
    using assms(2) here inside
    by (cases lease)
      (auto simp: runCoordinatedSessionMutation_def runExclusive_def run_with_lease_def wp_simps
        isLeaseActive_def)
qed

section \<open>The operations\<close>

definition kept :: "session_env \<Rightarrow> 'o session_world \<Rightarrow> 'o session_world \<Rightarrow> bool" where
  "kept env w w' \<longleftrightarrow> session_ok env w' \<and> session_progress env w w'"

lemma kept_refl: "session_ok env w \<Longrightarrow> kept env w w"
  by (simp add: kept_def)

lemma kept_trans [trans]: "kept env u v \<Longrightarrow> kept env v w \<Longrightarrow> kept env u w"
  by (auto simp: kept_def intro: session_progress_trans)

lemma kept_ok: "kept env w w' \<Longrightarrow> session_ok env w'"
  by (simp add: kept_def)

lemma kept_epoch: "kept env w w' \<Longrightarrow> epoch_of w \<le> epoch_of w'"
  by (simp add: kept_def session_progress_def shared_progress_def)

lemma kept_grows: "session_ok env w \<Longrightarrow> grows w w' \<Longrightarrow> kept env w w'"
  by (simp add: kept_def session_ok_grows session_progress_grows)

lemma kept_advances: "session_ok env w \<Longrightarrow> advances w w' \<Longrightarrow> kept env w w'"
  by (simp add: kept_def advances_ok advances_progress)

lemma session_progress_generation [simp]:
  "session_progress env w (w\<lparr>activationGeneration := g\<rparr>)"
  by (simp add: session_progress_def shared_progress_same dead_def persisted_id_def cached_id_def)

lemma kept_local:
  "session_ok env w \<Longrightarrow> kept env w (w\<lparr>outside := out\<rparr>)"
  "session_ok env w \<Longrightarrow> kept env w (next_generation w)"
  by (simp_all add: kept_def next_generation_def)

lemma epoch_of_local [simp]:
  "epoch_of (w\<lparr>outside := out\<rparr>) = epoch_of w" "epoch_of (next_generation w) = epoch_of w"
  "persisted_id (w\<lparr>outside := out\<rparr>) = persisted_id w"
  "persisted_id (next_generation w) = persisted_id w"
  by (simp_all add: epoch_of_def next_generation_def persisted_id_def)

lemma kept_later:
  assumes "kept env w t"
  shows "kept env w (t\<lparr>outside := out\<rparr>)" "kept env w (next_generation t)"
    "kept env w (next_generation t\<lparr>outside := out\<rparr>)"
proof -
  note ok = kept_ok [OF assms]
  show "kept env w (t\<lparr>outside := out\<rparr>)" by (rule kept_trans [OF assms kept_local(1) [OF ok]])
  have next_gen: "kept env w (next_generation t)"
    by (rule kept_trans [OF assms kept_local(2) [OF ok]])
  then show "kept env w (next_generation t)" .
  show "kept env w (next_generation t\<lparr>outside := out\<rparr>)"
    by (rule kept_trans [OF next_gen kept_local(1) [OF kept_ok [OF next_gen]]])
qed

lemma kept_leased [simp]:
  "kept env (leased ls n w) w' = kept env w w'" "kept env w (leased ls n w') = kept env w w'"
  by (simp_all add: kept_def)

lemma kept_reconciled: "reconciled_state env w pid rec t \<Longrightarrow> kept env w t"
  by (simp add: reconciled_state_def kept_def)

lemma sret_callout: "sret a = callout (\<lambda>_ out. (Inr a, out))"
  by (simp add: sret_def callout_def fun_eq_iff)

subsection \<open>Activation\<close>

lemma replaceable_advances:
  "replaceable env w uv am \<Longrightarrow> advances w t \<Longrightarrow> replaceable env t uv am"
  by (auto simp: replaceable_def advances_fields advances_ok advances_usable split: option.splits)

lemma activate_within_spec:
  assumes "env_ok env" "session_ok env w" "usable w uv"
  shows "wp (activateWithinSessionOperation env auth uv v (callout f) (callout g))
     (\<lambda>r t. kept env w t \<and>
        (\<forall>x. r = Inr x \<longrightarrow> opened env uv v (fst x) t \<and> epoch_of w < epoch_of t \<and>
           auth_localGeneration auth = activationGeneration w \<and> auth_sharedEpoch auth = epoch_of w \<and>
           (\<forall>st. area_material w = Some st \<longrightarrow> ses_vaultId st = uv_vaultId uv))) w"
  unfolding activateWithinSessionOperation_def wp_simps
proof (rule wp_weaken [OF require_activation_spec [OF assms(2)]], goal_cases)
  case (1 r t)
  then have t: "kept env w t" by (simp add: kept_def)
  show ?case
  proof (cases r)
    case (Inl e)
    with t show ?thesis by simp
  next
    case (Inr am)
    with 1 assms(3) have am: "replaceable env t uv am" "same_storage w t" by auto
    show ?thesis
      unfolding Inr sum.case
    proof (rule wp_weaken [OF advance_spec], goal_cases)
      case a: (1 s u)
      then have u: "kept env w u" "replaceable env u uv am"
        using kept_trans [OF t kept_advances [OF kept_ok [OF t]]] replaceable_advances [OF am(1)]
        by auto
      have epoch: "epoch_of w < epoch_of u" if "s = Inr x" for x
        using a that am(2) by (simp add: same_storage_def epoch_of_def)
      have "wp (replace_or_remove env am uv v (callout f))
         (\<lambda>r t. case r of
            Inl e \<Rightarrow> wp (callout g) (\<lambda>r' t. kept env w t) t
          | Inr x \<Rightarrow> kept env w t \<and> opened env uv v (fst x) t \<and> epoch_of u \<le> epoch_of t) u"
      proof (rule wp_weaken [OF replace_or_remove_spec [OF assms(1) u(2)]], goal_cases)
        case (1 q z)
        then have z: "kept env u z" by (simp add: kept_def)
        note z' = kept_trans [OF u(1) z]
        show ?case
          using 1 z' kept_epoch [OF z] kept_trans [OF z' kept_local(1) [OF kept_ok [OF z]]]
          by (auto split: sum.splits intro!: wp_callout)
      qed
      then show ?case
        using u 1 Inr epoch
        by (cases s) (auto simp: split: sum.splits elim!: wp_weaken
            intro: less_le_trans)
    qed
  qed
qed

lemma activate_spec:
  assumes "env_ok env" "session_ok env w" "usable w uv"
  shows "wp (activate env auth uv v lease)
     (\<lambda>r t. kept env w t \<and>
        (\<forall>sid. r = Inr sid \<longrightarrow> opened env uv v sid t \<and> epoch_of w < epoch_of t \<and>
           auth_localGeneration auth = activationGeneration w \<and> auth_sharedEpoch auth = epoch_of w \<and>
           (\<forall>st. area_material w = Some st \<longrightarrow> ses_vaultId st = uv_vaultId uv))) w"
  unfolding activate_def sret_callout [of "()"] wp_sbind
proof (rule wp_coordinated, goal_cases)
  case (1 ls n)
  show ?case
    by (rule wp_weaken [OF activate_within_spec [OF assms(1), of "leased ls n w" uv]])
      (use assms in \<open>auto simp: wp_simps split: sum.splits\<close>)
qed (use assms in \<open>simp add: kept_refl\<close>)

lemma activateWithAutoLock_spec:
  assumes "env_ok env" "session_ok env w" "usable w uv"
  shows "wp (activateWithAutoLock env auth uv v install rollback lease)
     (\<lambda>r t. kept env w t \<and>
        (\<forall>x. r = Inr x \<longrightarrow> opened env uv v (fst x) t \<and> epoch_of w < epoch_of t \<and>
           auth_localGeneration auth = activationGeneration w \<and> auth_sharedEpoch auth = epoch_of w \<and>
           (\<forall>st. area_material w = Some st \<longrightarrow> ses_vaultId st = uv_vaultId uv))) w"
  unfolding activateWithAutoLock_def
proof (rule wp_coordinated, goal_cases)
  case (1 ls n)
  show ?case
    by (rule wp_weaken [OF activate_within_spec [OF assms(1), of "leased ls n w" uv]])
      (use assms in auto)
qed (use assms in \<open>simp add: kept_refl\<close>)

subsection \<open>Committing a snapshot\<close>

text \<open>The situation of a commit: \<open>m\<close> is the active material, \<open>mp\<close> its replacement.\<close>

definition committable ::
  "session_env \<Rightarrow> UnlockedVault \<Rightarrow> VersionVector \<Rightarrow> 'o session_world \<Rightarrow> material \<Rightarrow>
   material \<times> EncryptedUnlockedVaultSessionPayload \<Rightarrow> bool" where
  "committable env uv v u m mp \<longleftrightarrow>
     session_ok env u \<and> invalidationState u = No_invalidation \<and>
     persisted_id u = Some (ses_sessionId m) \<and> aligned uv m \<and> live_material u m \<and>
     issued env u (ses_sessionId m) \<and> live_material u (fst mp) \<and> protects uv v mp \<and>
     encrypts env u uv mp \<and> ses_sessionId (fst mp) = ses_sessionId m \<and>
     mat_payloadKey (fst mp) = mat_payloadKey m"

lemma failed_commit:
  assumes "area_ok env t" "shared_progress env w t" "persisted_id t = Some (ses_sessionId m)"
    and "\<And>s. issued env w s \<Longrightarrow> dead s w \<Longrightarrow> s \<noteq> ses_sessionId m"
  shows "wp (revokeAuthorizationsAndRemoveSessionRecordsPreservingRootCause env (Some m))
     (\<lambda>r w'. kept env w w' \<and> r = Inr ()) t"
  unfolding revokeAuthorizationsAndRemoveSessionRecordsPreservingRootCause_def wp_simps
  using removal_progress_known [OF _ assms(1,2)] assms(3,4)
  by (auto simp: wp_simps kept_def intro!: wp_weaken [OF revoke_known_spec])

lemma protected_same_live:
  assumes "live_material t m" "usable t uv" "aligned uv m" "protects uv v mp"
    and "mat_payloadKey (fst mp) = mat_payloadKey m"
  shows "live_material t (fst mp)"
proof (rule protected_live [OF assms(2,4)])
  show "mat_payloadKey (fst mp) < next_buffer t" "intact (memory t (mat_payloadKey (fst mp)))"
    using assms(1,5) by (auto simp: live_material_def secret_buffers_def)
  show "mat_payloadKey (fst mp) \<notin> set (vault_secrets uv)"
    using assms(3,5) by (auto simp: aligned_def less_four less_five vault_secrets_def secret_buffers_def)
qed

lemma commit_protected_spec:
  assumes "committable env uv v u m mp" "shared_progress env w u" "persisted_id w = persisted_id u"
    and "\<And>s. issued env w s \<Longrightarrow> dead s w \<Longrightarrow> s \<noteq> ses_sessionId m"
  shows "wp (commit_protected env m (Inr mp))
     (\<lambda>r t. kept env w t \<and>
        (\<forall>x. r = Inr x \<longrightarrow> opened env uv v (ses_sessionId m) t \<and> epoch_of w < epoch_of t)) u"
  unfolding commit_protected_def sum.case wp_simps
proof (rule wp_weaken [OF persist_spec], goal_cases)
  case (1 r x)
  let ?m = "fst mp"
  note c = assms(1) [unfolded committable_def]
  have persisted: "persisted_id x = Some (ses_sessionId m)"
    using saves_fields(1) [OF 1] c by auto
  have progress: "shared_progress env w x"
    using saves_fields [OF 1] assms(2,3) c persisted by (auto simp: shared_progress_def)
  have "issued env x (ses_sessionId ?m)"
    using c saves_fields(3) [OF 1] by (auto intro: issued_mono)
  then have area: "area_ok env x"
    using c by (intro saves_area_ok [OF 1]) (auto simp: session_ok_def)
  have abort: "wp (revokeAuthorizationsAndRemoveSessionRecordsPreservingRootCause env (Some m))
      (\<lambda>r w'. kept env w w' \<and> r = Inr ()) (wipeMaterial ?m y)" if "x = y \<or> advances x y" for y
  proof (rule failed_commit)
    have y: "area_ok env y" "shared_progress env w y" "persisted_id y = Some (ses_sessionId m)"
      using that area progress persisted advances_area_ok [of x y env] advances_fields(5) [of x y]
        shared_progress_trans [OF progress, of y] advances_progress [of x y env]
      by (auto simp: session_progress_def)
    then show "area_ok env (wipeMaterial ?m y)"
      by (auto simp: wipeMaterial_eq intro: area_ok_same)
    show "shared_progress env w (wipeMaterial ?m y)" "persisted_id (wipeMaterial ?m y) = Some (ses_sessionId m)"
      using y by (simp_all add: wipeMaterial_eq shared_progress_def persisted_id_def epoch_of_def)
  qed (rule assms(4))
  show ?case
  proof (cases r)
    case (Inl e)
    show ?thesis
      unfolding Inl sum.case by (rule wp_weaken [OF abort]) auto
  next
    case (Inr a)
    show ?thesis
      unfolding Inr sum.case
    proof (rule wp_weaken [OF advance_spec], goal_cases)
      case adv: (1 r y)
      have y: "advances x y" using adv by simp
      have saved: "saves mp u (Inr a) x" using 1 Inr by simp
      let ?z = "next_generation (wipeReplacedMaterial m ?m y)"
      have keys: "memory (wipeReplacedMaterial m ?m y) b = memory x b"
        if "b \<in> set (secret_buffers ?m)" for b
      proof -
        have "memory (wipeReplacedMaterial m ?m y) b = memory y b"
          using c that by (intro wipe_replaced_keeps [of uv]) (auto simp: protects_def Let_def live_material_def)
        also have "\<dots> = memory x b"
          using y c that saved by (auto simp: live_material_def saves_def advances_fields)
        finally show ?thesis .
      qed
      have inst: "installs x ?m ?z"
        using y keys saved c
        by (simp add: installs_def next_generation_def advances_def grows_def epoch_of_def saves_def)
      have final: "kept env w ?z \<and> opened env uv v (ses_sessionId m) ?z"
      proof -
        have "shared_progress env w ?z"
          using progress y by (auto simp: shared_progress_def next_generation_def persisted_id_def
              epoch_of_def advances_def grows_def)
        then show ?thesis
          using completed_save [OF saved inst, of uv v env w] c assms(4) by (simp add: kept_def)
      qed
      have epoch: "epoch_of w < epoch_of ?z" if "epoch_of x < epoch_of y"
        using that progress by (simp add: next_generation_def epoch_of_def shared_progress_def)
      show ?case
        using adv final epoch abort [of y] y
        by (cases r) (auto simp: wp_simps elim!: wp_weaken)
    qed
  qed
qed

lemma failed_protection_spec:
  assumes "area_ok env u" "shared_progress env w u" "persisted_id u = Some (ses_sessionId m)"
    and "\<And>s. issued env w s \<Longrightarrow> dead s w \<Longrightarrow> s \<noteq> ses_sessionId m"
  shows "wp (commit_protected env m (Inl e)) (\<lambda>r t. kept env w t \<and> (\<exists>e. r = Inl e)) u"
  unfolding commit_protected_def sum.case wp_simps
  by (rule wp_weaken [OF failed_commit [OF assms]]) auto

lemma commit_spec:
  assumes "session_ok env w" "usable w uv"
  shows "wp (commitPersistedSnapshotIfSessionIsActive env sessionId uv v lease)
     (\<lambda>r t. kept env w t \<and>
        (r = Inr True \<longrightarrow> opened env uv v sessionId t \<and> epoch_of w < epoch_of t)) w"
  unfolding commitPersistedSnapshotIfSessionIsActive_def
proof (rule wp_coordinated, goal_cases)
  case (1 ls n)
  let ?w = "leased ls n w"
  show ?case
  proof (rule wp_identity_reconcile, goal_cases)
    case (3 pid rec t)
    note kept = kept_reconciled [OF 3]
    show ?case
    proof (cases "\<exists>m. rec_material rec = Some m \<and> isActiveSession (Some m) sessionId (uv_vaultId uv) t")
      case False
      with kept show ?thesis
        by (auto simp: wp_simps isActiveSession_def split: option.splits)
    next
      case True
      then obtain m where m: "rec_material rec = Some m" "ses_sessionId m = sessionId"
        "isActiveSession (Some m) sessionId (uv_vaultId uv) t"
        by (auto simp: isActiveSession_def)
      note rm = reconciled_material [OF 3 m(1)]
      have uv: "usable t uv" "aligned uv m"
        using 3 rm(1,4) assms(2) by (auto simp: reconciled_state_def usable_def)
      have old: "persisted_id ?w = persisted_id t" "epoch_of ?w = epoch_of t"
        using 3 by (auto simp: reconciled_state_def same_storage_def persisted_id_def epoch_of_def)
      have alive: "s \<noteq> ses_sessionId m" if "issued env ?w s" "dead s ?w" for s
        using rm(3) rm(7) [OF that] by auto
      have "wp (protect env uv v (Some m))
          (\<lambda>r u. wp (commit_protected env m r)
             (\<lambda>r t. kept env w t \<and>
                (\<forall>x. r = Inr x \<longrightarrow> opened env uv v sessionId t \<and> epoch_of w < epoch_of t)) u) t"
      proof (rule wp_weaken [OF protect_same_spec], goal_cases)
        case (1 r u)
        then have g: "grows t u" by simp
        have u: "kept env ?w u" "persisted_id u = Some (ses_sessionId m)" "persisted_id ?w = persisted_id u"
          using kept_trans [OF kept kept_grows [OF kept_ok [OF kept] g]] rm(3) old g
          by (simp_all add: grows_def persisted_id_def)
        have progress: "shared_progress env ?w u" "area_ok env u"
          using u(1) by (simp_all add: kept_def session_progress_def session_ok_def)
        show ?case
        proof (cases r)
          case (Inl e)
          show ?thesis
            unfolding Inl
            by (rule wp_weaken [OF failed_protection_spec [OF progress(2,1) u(2) alive]]) auto
        next
          case (Inr mp)
          have mp: "protects uv v mp" "encrypts env u uv mp" "ses_sessionId (fst mp) = ses_sessionId m"
            "mat_payloadKey (fst mp) = mat_payloadKey m"
            using 1 Inr by auto
          have live: "live_material u m" "issued env u (ses_sessionId m)"
            "invalidationState u = No_invalidation"
            using live_material_grows [OF rm(5) g] issued_mono [OF rm(6), of u] g rm(2)
            by (simp_all add: grows_def)
          have "live_material u (fst mp)"
            by (rule protected_same_live [OF live(1) usable_grows [OF uv(1) g] uv(2) mp(1,4)])
          with mp live u(1,2) uv(2) have "committable env uv v u m mp"
            by (simp add: committable_def kept_def)
          from commit_protected_spec [OF this progress(1) u(3) alive]
          show ?thesis
            unfolding Inr m(2) by (rule wp_weaken) auto
        qed
      qed
      then show ?thesis
        using m by (simp add: wp_simps) (auto simp: wp_simps elim!: wp_weaken split: sum.splits)
    qed
  qed (use assms in \<open>auto simp: kept_def\<close>)
qed (use assms in \<open>simp add: kept_refl\<close>)

subsection \<open>Reading the session\<close>

text \<open>
  What a session that is handed out has to do with the storage: the cached material and the
  stored payload belong together, to the stored session, and the payload decrypts to its vault.
\<close>

definition records_match :: "material \<Rightarrow> EncryptedUnlockedVaultSessionPayload \<Rightarrow> bool" where
  "records_match m p \<longleftrightarrow>
     ses_sessionId m = ses_sessionId p \<and> ses_vaultId m = ses_vaultId p \<and>
     compareVersionVectors (ses_sourceSnapshotVersionVector p) (ses_sourceSnapshotVersionVector m)
       \<in> {Equal, Local_ahead}"

definition handed_out :: "session_env \<Rightarrow> 'o session_world \<Rightarrow> UnlockedVaultSession \<Rightarrow> bool" where
  "handed_out env w s \<longleftrightarrow>
     (\<exists>m p st r vault.
        cachedMaterial w = Some (Some m) \<and> invalidationState w = No_invalidation \<and>
        area_material w = Some st \<and> same_session m (session_identity.truncate st) \<and>
        same_snapshot (ses_sourceSnapshotVersionVector st) (ses_sourceSnapshotVersionVector m) \<and>
        area_payload w = Some r \<and> read_payload_record r = Inr p \<and> records_match m p \<and>
        decrypt_payload env (pay_content p) (memory w (mat_payloadKey m))
          (session_identity.truncate p) = Some vault \<and>
        s = restored_session m p vault)"

lemma restore_spec:
  "wp (restore env m p)
     (\<lambda>r t. grows w t \<and>
        (\<forall>s. r = Inr s \<longrightarrow> records_match m p \<and>
           (\<exists>vault. decrypt_payload env (pay_content p) (memory w (mat_payloadKey m))
              (session_identity.truncate p) = Some vault \<and> s = restored_session m p vault))) w"
  by (auto simp: restore_def requireMatchingSessionRecords_def decryptUnlockedVaultSessionPayload_def
      wp_simps Let_def records_match_def session_context_def session_identity.truncate_def
      split: call_outcome.split option.splits)

lemma revoke_unknown_kept:
  assumes "session_ok env w"
  shows "wp (revokeAuthorizationsAndRemoveSessionRecords env None)
     (\<lambda>r w'. kept env w w' \<and> (\<forall>s. holds s w \<longrightarrow> dead s w') \<and>
        (\<forall>u. r = Inr u \<longrightarrow> area_material w' = None \<and> epoch_of w < epoch_of w')) w"
  by (rule wp_weaken [OF revoke_unknown_spec])
    (use removal_progress_unknown [OF _ assms] in \<open>auto simp: kept_def\<close>)

text \<open>
  The states in which an operation that began in \<open>w\<close> may remove a material: if it knows the
  material, the stored session must not be one that was dead.
\<close>

definition removable :: "session_env \<Rightarrow> 'o session_world \<Rightarrow> material option \<Rightarrow> 'o session_world \<Rightarrow> bool" where
  "removable env w material u \<longleftrightarrow>
     kept env w u \<and>
     (material \<noteq> None \<longrightarrow> (\<forall>s. issued env w s \<and> dead s w \<longrightarrow> persisted_id u \<noteq> Some s))"

lemma removable_same:
  "removable env w material u \<Longrightarrow> kept env w u' \<Longrightarrow> persisted_id u' = persisted_id u \<Longrightarrow>
   removable env w material u'"
  by (auto simp: removable_def)

lemma removable_reconciled:
  "reconciled_state env w pid rec t \<Longrightarrow> removable env w (rec_material rec) t"
  using kept_reconciled reconciled_material(7) by (fastforce simp: removable_def)

lemma removable_removal:
  assumes "removable env w material u" "removal u w'"
    and "material = None \<Longrightarrow> \<forall>s. holds s u \<or> cachedMaterial u = Some None \<longrightarrow> blocks s w'"
  shows "kept env w w'"
proof (cases material)
  case None
  have u: "kept env w u" using assms(1) by (simp add: removable_def)
  have "kept env u w'"
    using removal_progress_unknown [OF assms(2) kept_ok [OF u] assms(3) [OF None]] by (simp add: kept_def)
  then show ?thesis by (rule kept_trans [OF u])
next
  case (Some m)
  with assms(1) have "area_ok env u" "shared_progress env w u"
    "\<And>s. issued env w s \<Longrightarrow> dead s w \<Longrightarrow> persisted_id u \<noteq> Some s"
    by (auto simp: removable_def kept_def session_ok_def session_progress_def)
  from removal_progress_known [OF assms(2) this] show ?thesis by (simp add: kept_def)
qed

lemma remove_kept:
  assumes "removable env w material u"
  shows "wp (removeSessionRecords env material)
     (\<lambda>r w'. kept env w w' \<and> epoch_of u \<le> epoch_of w' \<and>
        (\<forall>x. r = Inr x \<longrightarrow> area_material w' = None)) u"
  by (cases material)
    (auto intro!: wp_weaken [OF remove_unknown_spec] wp_weaken [OF remove_known_spec]
      intro: removable_removal [OF assms] removal_epoch)

lemma revoke_kept:
  assumes "removable env w material u"
  shows "wp (revokeAuthorizationsAndRemoveSessionRecords env material)
     (\<lambda>r w'. kept env w w' \<and>
        (\<forall>x. r = Inr x \<longrightarrow> area_material w' = None \<and> epoch_of w < epoch_of w')) u"
proof -
  have "epoch_of w \<le> epoch_of u" using assms kept_epoch by (auto simp: removable_def)
  then show ?thesis
    by (cases material)
      (auto intro!: wp_weaken [OF revoke_unknown_spec] wp_weaken [OF revoke_known_spec]
        intro: removable_removal [OF assms])
qed

text \<open>The cleanup of a failed restoration, and the restoration itself.\<close>

lemma cleanup_kept:
  assumes "removable env w material u"
  shows "wp (revokeAuthorizationsAndRemoveSessionRecordsPreservingRootCause env material)
     (\<lambda>r t. kept env w t \<and> r = Inr ()) u"
  unfolding revokeAuthorizationsAndRemoveSessionRecordsPreservingRootCause_def wp_simps
  by (rule wp_weaken [OF revoke_kept [OF assms]]) simp

lemma restored_is_handed_out:
  assumes "reconciled_state env w pid rec t" "rec_material rec = Some m"
    and "grows t u" "records_match m p" "area_payload t = Some r" "read_payload_record r = Inr p"
    and "decrypt_payload env (pay_content p) (memory t (mat_payloadKey m))
      (session_identity.truncate p) = Some vault"
  shows "handed_out env u (restored_session m p vault)"
proof -
  note rm = reconciled_material [OF assms(1,2)]
  have "memory u (mat_payloadKey m) = memory t (mat_payloadKey m)"
    using rm(5) assms(3) by (auto simp: grows_def live_material_def secret_buffers_def)
  moreover obtain st where "area_material t = Some st" "same_session m (session_identity.truncate st)"
    "same_snapshot (ses_sourceSnapshotVersionVector st) (ses_sourceSnapshotVersionVector m)"
    using assms(1,2) by (auto simp: reconciled_state_def reconciled_to_def)
  ultimately show ?thesis
    unfolding handed_out_def using assms(3-7) rm(1,2)
    by (intro exI [of _ m] exI [of _ p] exI [of _ st] exI [of _ r] exI [of _ vault]) (simp add: grows_def)
qed

lemma restore_stored_payload_spec:
  assumes "reconciled_state env w pid rec t" "rec_material rec = Some m"
  shows "wp (restore_stored_payload env m)
     (\<lambda>r u. grows t u \<and> r \<noteq> Inr None \<and> (\<forall>s. r = Inr (Some s) \<longrightarrow> handed_out env u s)) t"
proof -
  have restored: "wp (restore env m p)
     (\<lambda>r u. grows t u \<and> (\<forall>s. r = Inr s \<longrightarrow> handed_out env u s)) (t\<lparr>clock := Suc (clock t)\<rparr>)"
    if "area_payload t = Some row" "read_payload_record row = Inr p" for row p
    by (rule wp_weaken [OF restore_spec])
      (use that restored_is_handed_out [OF assms] in \<open>auto simp: grows_def\<close>)
  show ?thesis
    by (auto simp: restore_stored_payload_def getEncryptedUnlockedVaultSessionPayload_def wp_simps
        split: call_outcome.split option.splits sum.splits intro!: wp_weaken [OF restored])
qed

lemma restoreSession_spec:
  assumes "session_ok env w"
  shows "wp (restoreSession env)
     (\<lambda>r t. kept env w t \<and> (\<forall>s. r = Inr (Some s) \<longrightarrow> handed_out env t s)) w" (is "wp _ ?Q w")
proof -
  have cleanup: "wp (sthen (revokeAuthorizationsAndRemoveSessionRecordsPreservingRootCause env material)
      (sthrow e)) ?Q u"
    if "removable env w material u" for material e u
    unfolding wp_simps by (rule wp_weaken [OF cleanup_kept [OF that]]) auto
  have found: "wp (scatch (restore_stored_payload env m)
      (\<lambda>e. sthen (revokeAuthorizationsAndRemoveSessionRecordsPreservingRootCause env (Some m))
         (sthrow e))) ?Q t"
    if rec: "reconciled_state env w pid rec t" "rec_material rec = Some m" for pid rec m t
    unfolding wp_scatch
  proof (rule wp_weaken [OF restore_stored_payload_spec [OF rec]], goal_cases)
    case (1 r u)
    then have "kept env w u"
      using kept_trans [OF kept_reconciled [OF rec(1)]]
        kept_grows [OF kept_ok [OF kept_reconciled [OF rec(1)]]] by blast
    moreover have "wp (sthen (revokeAuthorizationsAndRemoveSessionRecordsPreservingRootCause env (Some m))
        (sthrow e)) ?Q u" for e
    proof (rule cleanup)
      have "removable env w (Some m) t" using removable_reconciled [OF rec(1)] rec(2) by simp
      then show "removable env w (Some m) u"
        by (rule removable_same) (use 1 \<open>kept env w u\<close> in \<open>auto simp: grows_def persisted_id_def\<close>)
    qed
    ultimately show ?case using 1 by (auto split: sum.splits)
  qed
  show ?thesis
    unfolding restoreSession_def wp_sbind wp_stry
  proof (rule wp_weaken [OF reconcile_with_storage_spec [OF assms]], goal_cases)
    case (1 r t)
    show ?case
    proof (cases r)
      case (Inl e)
      with 1 cleanup [where material = None and u = t] show ?thesis
        by (simp add: Let_def wp_scatch wp_sthrow kept_def removable_def)
    next
      case (Inr x)
      then obtain pid rec where rec: "r = Inr (pid, rec)" "reconciled_state env w pid rec t"
        using 1 by (cases x) auto
      show ?thesis
      proof (cases "rec_material rec")
        case None
        with rec kept_reconciled [OF rec(2)] show ?thesis
          by (simp add: Let_def wp_scatch wp_sret)
      next
        case (Some m)
        with rec found [OF rec(2) Some] show ?thesis by (simp add: Let_def)
      qed
    qed
  qed
qed

lemma handed_out_leased [simp]: "handed_out env (leased ls n w) s = handed_out env w s"
  by (simp add: handed_out_def)

lemma get_session_spec:
  assumes "session_ok env w"
  shows "wp (get_session env lease)
     (\<lambda>r t. kept env w t \<and> (\<forall>s. r = Inr (Some s) \<longrightarrow> handed_out env t s)) w"
  unfolding get_session_def
proof (rule wp_coordinated, goal_cases)
  case (1 ls n)
  show ?case by (rule wp_weaken [OF restoreSession_spec]) (use assms in auto)
qed (use assms in \<open>simp add: kept_refl\<close>)

lemma runWithUnlockedVaultContext_spec:
  assumes "session_ok env w"
  shows "wp (runWithUnlockedVaultContext env vaultId operation run lease) (\<lambda>r t. kept env w t) w"
  unfolding runWithUnlockedVaultContext_def
proof (rule wp_coordinated, goal_cases)
  case (1 ls n)
  have "wp (restoreSession env) (\<lambda>r t. kept env w t) (leased ls n w)"
    by (rule wp_weaken [OF restoreSession_spec]) (use assms in auto)
  then show ?case
    by (auto simp: wp_simps elim!: wp_weaken split: sum.splits option.splits intro!: wp_callout
        intro: kept_trans [OF _ kept_local(1)] kept_ok)
qed (use assms in \<open>simp add: kept_refl\<close>)

lemma kept_uncached:
  assumes "session_ok env t" "invalidationState t = No_invalidation"
  shows "kept env t (t\<lparr>cachedMaterial := None\<rparr>)"
proof -
  have "area_ok env (t\<lparr>cachedMaterial := None\<rparr>)"
    using assms(1) by (simp add: session_ok_def area_ok_def issued_def)
  with assms(2) show ?thesis
    by (simp add: kept_def session_ok_empty session_progress_def shared_progress_same dead_def
        cached_id_def persisted_id_def)
qed

lemma getActiveVaultId_spec:
  assumes "session_ok env w"
  shows "wp (getActiveVaultId env lease)
     (\<lambda>r t. kept env w t \<and>
        (\<forall>v. r = Inr (Some v) \<longrightarrow> (\<exists>st. area_material w = Some st \<and> ses_vaultId st = v))) w"
  unfolding getActiveVaultId_def
proof (rule wp_coordinated, goal_cases)
  case (1 ls n)
  show ?case
  proof (rule wp_identity_reconcile, goal_cases)
    case (3 pid rec t)
    note k = kept_reconciled [OF 3]
    have area: "area_material t = area_material w" "pid = map_option session_identity.truncate (area_material w)"
      using 3 by (auto simp: reconciled_state_def same_storage_def)
    show ?case
    proof (cases "rec_material rec")
      case (Some m)
      with 3 k area show ?thesis
        by (auto simp: wp_simps reconciled_state_def reconciled_to_def same_session_def
            session_identity.truncate_def)
    next
      case None
      have "kept env w (t\<lparr>cachedMaterial := None\<rparr>)" if "invalidationState t = No_invalidation"
        using kept_trans [OF k kept_uncached [OF kept_ok [OF k] that]] by simp
      with None k area show ?thesis
        by (auto simp: wp_simps evictCachedUnlockedVaultSessionMaterial_def
            session_identity.truncate_def split: option.splits)
    qed
  qed (use assms in \<open>auto simp: kept_def\<close>)
qed (use assms in \<open>simp add: kept_refl\<close>)

lemma requireVaultCanBeActivated_spec:
  assumes "session_ok env w"
  shows "wp (requireVaultCanBeActivated env vaultId)
     (\<lambda>r t. kept env w t \<and>
        (\<forall>auth. r = Inr auth \<longrightarrow> auth_sharedEpoch auth = epoch_of w \<and> epoch_of t = epoch_of w \<and>
           auth_localGeneration auth = activationGeneration t \<and>
           (\<forall>st. area_material w = Some st \<longrightarrow> ses_vaultId st = vaultId))) w"
  unfolding requireVaultCanBeActivated_def
proof (rule wp_coordinated, goal_cases)
  case (1 ls n)
  show ?case
    unfolding getUnlockedVaultSessionEpoch_def wp_sbind [of "readUnlockedVaultSessionEpoch env"]
  proof (rule wp_weaken [OF read_epoch_spec], goal_cases)
    case (1 r u)
    then have g: "grows (leased ls n w) u" by simp
    note u = kept_grows [OF _ g, of env] session_ok_grows [OF _ g, of env]
    have area: "area_material u = area_material w" "epoch_of u = epoch_of w"
      using g by (simp_all add: grows_def epoch_of_def)
    show ?case
    proof (cases r)
      case (Inl e)
      with u assms show ?thesis by simp
    next
      case (Inr k)
      with 1 have k: "k = epoch_of w" by simp
      show ?thesis
        unfolding Inr sum.case
      proof (rule wp_identity_reconcile, goal_cases)
        case (3 pid rec t)
        have t: "kept env w t"
          using kept_trans [OF u(1) kept_reconciled [OF 3]] assms by simp
        have "epoch_of t = epoch_of w" "pid = map_option session_identity.truncate (area_material w)"
          using 3 area by (auto simp: reconciled_state_def same_storage_def epoch_of_def)
        with t k show ?case
          by (auto simp: wp_simps session_identity.truncate_def split: option.splits)
      next
        case (2 e t)
        with kept_trans [OF u(1), of t] assms show ?case by (simp add: kept_def)
      qed (use u assms in simp)
    qed
  qed
qed (use assms in \<open>simp add: kept_refl\<close>)

subsection \<open>Working under the active session\<close>

lemma persistForActiveSession_spec:
  assumes "session_ok env w"
  shows "wp (persistForActiveSession env sessionId vaultId operation lease)
     (\<lambda>r t. kept env w t \<and>
        (\<forall>x. r = Inr x \<longrightarrow> epoch_of w < epoch_of t \<and> persisted_id w = Some sessionId)) w"
  unfolding persistForActiveSession_def
proof (rule wp_coordinated, goal_cases)
  case (1 ls n)
  show ?case
  proof (rule wp_identity_reconcile, goal_cases)
    case (3 pid rec t)
    note k = kept_reconciled [OF 3]
    have same: "epoch_of t = epoch_of w" "persisted_id t = persisted_id w"
      using 3 by (simp_all add: reconciled_state_def same_storage_def epoch_of_def persisted_id_def)
    have active: "persisted_id w = Some sessionId" if "isActiveSession (rec_material rec) sessionId vaultId t"
      using that reconciled_material(3) [OF 3] same(2) by (auto simp: isActiveSession_def split: option.splits)
    have advance: "wp (advanceUnlockedVaultSessionEpoch env)
        (\<lambda>r u. kept env w u \<and> (\<forall>x. r = Inr x \<longrightarrow> epoch_of w < epoch_of u)) t"
      by (rule wp_weaken [OF advance_spec])
        (use kept_trans [OF k kept_advances [OF kept_ok [OF k]]] same in auto)
    have "wp (sthen (advanceUnlockedVaultSessionEpoch env)
           (sthen (smodify next_generation) (callout operation)))
        (\<lambda>r t. kept env w t \<and> (\<forall>x. r = Inr x \<longrightarrow> epoch_of w < epoch_of t)) t"
      unfolding wp_simps
      by (rule wp_weaken [OF advance]) (auto split: sum.splits intro!: wp_callout kept_later)
    with k active show ?case
      by (auto simp: requireActiveSession_def wp_sthen [of "sbind _ _"] wp_sbind wp_sread wp_srequire
          elim!: wp_weaken)
  qed (use assms in \<open>auto simp: kept_def\<close>)
qed (use assms in \<open>simp add: kept_refl\<close>)

lemma wp_stry_callout:
  assumes "\<And>r out. Q (Inr r) (w\<lparr>outside := out\<rparr>)"
  shows "wp (stry (callout f)) Q w"
  unfolding wp_stry by (rule wp_callout) (rule assms)

lemma run_restore_spec:
  assumes "removable env w material t"
  shows "wp (run_restore env material sessionId vaultId callback) (\<lambda>r t. kept env w t) t"
  unfolding run_restore_def wp_sbind [of "stry _"]
proof (rule wp_stry_callout, goal_cases)
  case (1 r out)
  let ?t = "t\<lparr>outside := out\<rparr>"
  have k: "kept env w t" "kept env w ?t" using assms kept_later by (auto simp: removable_def)
  have "wp (revokeAuthorizationsAndRemoveSessionRecordsPreservingRootCause env material)
      (\<lambda>r t. kept env w t \<and> r = Inr ()) ?t"
    by (rule cleanup_kept, rule removable_same [OF assms k(2)]) simp
  then show ?case
    using k by (auto simp: wp_simps split: sum.splits elim!: wp_weaken)
qed

lemma restore_persisted_state_spec:
  assumes "session_ok env w"
  shows "wp (restore_persisted_state env sessionId vaultId v callback) (\<lambda>r t. kept env w t) w"
  unfolding restore_persisted_state_def wp_sbind [of "stry (reconcile_with_storage env)"]
    wp_stry [of "reconcile_with_storage env"]
proof (rule wp_weaken [OF reconcile_with_storage_spec [OF assms]], goal_cases)
  case (1 r t)
  show ?case
  proof (cases r)
    case (Inl e)
    with 1 show ?thesis by (simp add: wp_simps kept_def)
  next
    case (Inr x)
    then obtain pid rec where rec: "r = Inr (pid, rec)" "reconciled_state env w pid rec t"
      using 1 by (cases x) auto
    note k = kept_reconciled [OF rec(2)] and removable = removable_reconciled [OF rec(2)]
    have "removable env w (rec_material rec) (next_generation u)" "kept env w u" if "advances t u" for u
      using that kept_trans [OF k kept_advances [OF kept_ok [OF k] that]] kept_later(2)
      by (auto intro!: removable_same [OF removable] simp: advances_fields)
    then have "wp (advanceUnlockedVaultSessionEpoch env)
        (\<lambda>r u. case r of Inl e \<Rightarrow> kept env w u
         | Inr x \<Rightarrow> wp (run_restore env (rec_material rec) sessionId vaultId callback)
             (\<lambda>r t. kept env w t) (next_generation u)) t"
      by (intro wp_weaken [OF advance_spec]) (auto split: sum.splits intro: run_restore_spec)
    with rec k run_restore_spec [OF removable] show ?thesis
      by (auto simp: wp_simps elim!: wp_weaken split: sum.splits)
  qed
qed

lemma restorePersistedState_spec:
  assumes "session_ok env w"
  shows "wp (restorePersistedState env sessionId vaultId v callback lease) (\<lambda>r t. kept env w t) w"
proof -
  have "wp (runCoordinatedSessionMutation lease (restore_persisted_state env sessionId vaultId v callback))
      (\<lambda>r t. kept env w t) w"
  proof (rule wp_coordinated, goal_cases)
    case (1 ls n)
    show ?case by (rule wp_weaken [OF restore_persisted_state_spec]) (use assms in auto)
  qed (use assms in \<open>simp add: kept_refl\<close>)
  then show ?thesis
    using kept_refl [OF assms] by (simp add: restorePersistedState_def wp_simps)
qed

lemma discard_active_spec:
  assumes "removable env w material t"
  shows "wp (discard_active env material before discard)
     (\<lambda>r t. kept env w t \<and>
        (r = Inr Discarded \<longrightarrow> area_material t = None \<and> epoch_of w < epoch_of t)) t"
  unfolding discard_active_def wp_sbind [of "stry (callout before)"]
proof (rule wp_stry_callout, goal_cases)
  case (1 r out)
  let ?t = "t\<lparr>outside := out\<rparr>"
  have "kept env w ?t" using assms kept_later by (auto simp: removable_def)
  then have "removable env w material ?t" by (intro removable_same [OF assms]) simp_all
  then have "wp (revokeAuthorizationsAndRemoveSessionRecords env material)
     (\<lambda>r w'. kept env w w' \<and>
        (\<forall>x. r = Inr x \<longrightarrow> area_material w' = None \<and> epoch_of w < epoch_of w')) ?t"
    by (rule revoke_kept)
  then show ?case
    by (auto simp: wp_simps split: sum.splits elim!: wp_weaken intro!: wp_callout kept_later)
qed

lemma discard_spec:
  assumes "session_ok env w"
  shows "wp (discardIfSessionIsActive env sessionId vaultId generation v before discard lease)
     (\<lambda>r t. kept env w t \<and>
        (r = Inr Discarded \<longrightarrow> area_material t = None \<and> epoch_of w < epoch_of t)) w"
  unfolding discardIfSessionIsActive_def
proof (rule wp_coordinated, goal_cases)
  case (1 ls n)
  have ok: "session_ok env (leased ls n w)" using assms by simp
  show ?case
    unfolding wp_sbind [of "stry (reconcile_with_storage env)"] wp_stry [of "reconcile_with_storage env"]
  proof (rule wp_weaken [OF reconcile_with_storage_spec [OF ok]], goal_cases)
    case (1 r t)
    show ?case
    proof (cases r)
      case (Inl e)
      with 1 show ?thesis by (simp add: wp_simps kept_def)
    next
      case (Inr x)
      then obtain pid rec where rec: "r = Inr (pid, rec)" "reconciled_state env (leased ls n w) pid rec t"
        using 1 by (cases x) auto
      have k: "kept env w t" using kept_reconciled [OF rec(2)] by simp
      have "wp (discard_active env (rec_material rec) before discard)
          (\<lambda>r t. kept env w t \<and>
             (r = Inr Discarded \<longrightarrow> area_material t = None \<and> epoch_of w < epoch_of t)) t"
        using discard_active_spec [OF removable_reconciled [OF rec(2)]] by simp
      with rec(1) k show ?thesis
        by (auto simp: wp_simps elim!: wp_weaken split: option.splits)
    qed
  qed
qed (use assms in \<open>simp add: kept_refl\<close>)

subsection \<open>Removing and cleaning up\<close>

lemma remove_session_spec:
  assumes "session_ok env w"
  shows "wp (remove_session env lease)
     (\<lambda>r t. kept env w t \<and>
        (r \<noteq> Inl Lease_not_active \<longrightarrow> (\<forall>s. holds s w \<longrightarrow> dead s t)) \<and>
        (\<forall>u. r = Inr u \<longrightarrow> area_material t = None \<and> epoch_of w < epoch_of t)) w"
  unfolding remove_session_def
proof (rule wp_coordinated, goal_cases)
  case (1 ls n)
  show ?case by (rule wp_weaken [OF revoke_unknown_kept]) (use assms in auto)
qed (use assms in \<open>simp add: kept_refl\<close>)

text \<open>The steps of a cleanup before the removal keep the material removable.\<close>

lemma cleanup_revoke:
  assumes "removable env w material t"
  shows "wp (if b then stry (advanceUnlockedVaultSessionEpoch env) else sret (Inr ()))
     (\<lambda>r u. \<exists>r'. r = Inr r' \<and> removable env w material u \<and> epoch_of t \<le> epoch_of u \<and>
        (b \<and> caught r' = None \<longrightarrow> epoch_of t < epoch_of u)) t"
proof -
  have k: "kept env w t" using assms by (simp add: removable_def)
  have "removable env w material u" if "advances t u" for u
    using that kept_trans [OF k kept_advances [OF kept_ok [OF k] that]]
    by (auto intro!: removable_same [OF assms] simp: advances_fields)
  with assms show ?thesis
    by (auto simp: wp_simps caught_None_iff intro!: wp_weaken [OF advance_spec] dest: advances_fields(8))
qed

lemma removable_outside:
  "removable env w material t \<Longrightarrow> removable env w material (t\<lparr>outside := out\<rparr>)"
  by (auto intro!: removable_same [of env w material t] kept_later simp: removable_def)

lemma cleanup_removal_spec:
  assumes "removable env w (rec_material rec) t" "rec_advanced rec \<longrightarrow> pid \<noteq> None"
    and "firstError = None \<longrightarrow> epoch_of w < epoch_of t"
  shows "wp (cleanup_removal env pid rec readFailed required after firstError)
     (\<lambda>r u. kept env w u \<and> (r = Inr Removed \<longrightarrow> area_material u = None \<and> epoch_of w < epoch_of u)) t"
    (is "wp _ ?Q t")
proof -
  have after: "wp (sbind (if c then (case after of None \<Rightarrow> sret (Inr ()) | Some f \<Rightarrow> stry (callout f))
               else sret (Inr ()))
          (\<lambda>finished. sfinish (or_else e (caught finished))
             (if pid = None \<and> \<not> rec_advanced rec then Session_unavailable else Removed))) ?Q u"
    if "kept env w u"
      "e = None \<and> pid \<noteq> None \<longrightarrow> area_material u = None \<and> epoch_of w < epoch_of u" for c e u
    using that assms(2)
    by (auto simp: wp_simps intro!: wp_callout kept_later split: option.splits)
  have k: "kept env w t" using assms(1) by (simp add: removable_def)
  have removed: "wp (if pid \<noteq> None \<or> readFailed \<or> required
         then sbind (stry (removeSessionRecords env (rec_material rec))) (\<lambda>r. sret (Some r)) else sret None)
      (\<lambda>r u. \<exists>x. r = Inr x \<and> kept env w u \<and>
         (or_else firstError (case x of None \<Rightarrow> None | Some r \<Rightarrow> caught r) = None \<and> pid \<noteq> None \<longrightarrow>
            area_material u = None \<and> epoch_of w < epoch_of u)) t"
    using k assms(3)
    by (auto simp: wp_simps caught_None_iff intro!: wp_weaken [OF remove_kept [OF assms(1)]])
  show ?thesis
    unfolding cleanup_removal_def wp_sbind [of "if _ \<or> _ then _ else _"]
  proof (rule wp_weaken [OF removed], goal_cases)
    case (1 r u)
    then obtain x where x: "r = Inr x" "kept env w u"
      "or_else firstError (case x of None \<Rightarrow> None | Some r \<Rightarrow> caught r) = None \<and> pid \<noteq> None \<longrightarrow>
         area_material u = None \<and> epoch_of w < epoch_of u"
      by blast
    show ?case unfolding x(1) sum.case by (rule after [OF x(2,3)])
  qed
qed

lemma cleanup_records_spec:
  assumes "removable env w (rec_material rec) t" "rec_advanced rec \<longrightarrow> pid \<noteq> None"
  shows "wp (cleanup_records env pid rec readFailed readError invalidate before after always)
     (\<lambda>r u. kept env w u \<and> (r = Inr Removed \<longrightarrow> area_material u = None \<and> epoch_of w < epoch_of u)) t"
    (is "wp _ ?Q t")
proof -
  have le: "epoch_of w \<le> epoch_of t" using assms(1) kept_epoch by (auto simp: removable_def)
  have rest: "wp (sbind (if b then stry (advanceUnlockedVaultSessionEpoch env) else sret (Inr ()))
       (\<lambda>r. cleanup_removal env pid rec readFailed required after (or_else e (caught r)))) ?Q u"
    if "removable env w (rec_material rec) u" "\<not> b \<and> e = None \<longrightarrow> epoch_of w < epoch_of u"
      "epoch_of w \<le> epoch_of u" for b e u required
    unfolding wp_sbind [of "if b then _ else _"]
    by (rule wp_weaken [OF cleanup_revoke [OF that(1)]])
      (use that in \<open>auto intro!: cleanup_removal_spec [OF _ assms(2)]\<close>)
  show ?thesis
    unfolding cleanup_records_def wp_sbind [of "if invalidate then _ else _"]
  proof (rule wp_weaken [OF cleanup_revoke [OF assms(1)]], goal_cases)
    case (1 r u)
    then obtain r' where r: "r = Inr r'" by auto
    with 1 le have u: "r = Inr r'" "removable env w (rec_material rec) u" "epoch_of w \<le> epoch_of u"
      "invalidate \<and> caught r' = None \<longrightarrow> epoch_of w < epoch_of u"
      by auto
    have ?case if "r = Inr r'"
      unfolding that sum.case wp_sbind [of "sread _"] wp_sread wp_sbind [of "stry (callout _)"]
    proof (rule wp_stry_callout, goal_cases)
      case (1 q out)
      have o: "removable env w (rec_material rec) (u\<lparr>outside := out\<rparr>)"
        by (rule removable_outside [OF u(2)])
      then have k: "kept env w (u\<lparr>outside := out\<rparr>)" by (simp add: removable_def)
      have stale: "wp (sfinish e Stale_action) ?Q (u\<lparr>outside := out\<rparr>)" for e
        using k by (simp add: wp_simps split: option.splits)
      have "wp (sbind (if \<not> invalidate then stry (advanceUnlockedVaultSessionEpoch env) else sret (Inr ()))
          (\<lambda>r. cleanup_removal env pid rec readFailed (invalidate \<or> always) after
             (or_else (or_else (or_else readError (caught r')) (caught q)) (caught r)))) ?Q
          (u\<lparr>outside := out\<rparr>)"
        by (rule rest [OF o]) (use u in auto)
      with stale show ?case by (simp add: Let_def)
    qed
    with u(1) show ?case by simp
  qed
qed

lemma read_unreconciled_spec:
  assumes "session_ok env w"
  shows "wp (read_unreconciled env)
     (\<lambda>r t. kept env w t \<and>
        (\<forall>rec. r = Inr rec \<longrightarrow> removable env w (rec_material rec) t \<and> \<not> rec_advanced rec)) w"
proof (cases "invalidationState w = No_invalidation")
  case True
  have "removable env w (Some m) t" if "kept env w t" "same_storage w t" for m t
  proof -
    have "persisted_id t = persisted_id w" using that(2) by (simp add: same_storage_def persisted_id_def)
    with that(1) True show ?thesis by (auto simp: removable_def dead_def)
  qed
  then show ?thesis
    using True
    by (auto simp: read_unreconciled_def wp_simps kept_def [symmetric] removable_def
        intro!: wp_weaken [OF get_material_ok [OF assms]] split: sum.splits)
      (auto simp: kept_def)
next
  case False
  with kept_refl [OF assms] show ?thesis
    by (simp add: read_unreconciled_def wp_simps removable_def)
qed

lemma kept_reconcile_post:
  "reconcile_post env u r t \<Longrightarrow> kept env u t"
  by (simp add: reconcile_post_def kept_def)

text \<open>The second read of a cleanup, whether or not the first one succeeded.\<close>

lemma cleanup_read_spec:
  assumes "session_ok env w" "grows w u"
    and "\<not> failed \<longrightarrow> pid = map_option session_identity.truncate (area_material w)"
  shows "wp (if failed then read_unreconciled env else reconcileActiveMaterial env pid)
     (\<lambda>r t. kept env w t \<and>
        (\<forall>rec. r = Inr rec \<longrightarrow> removable env w (rec_material rec) t \<and>
           (rec_advanced rec \<longrightarrow> pid \<noteq> None))) u"
proof -
  note u = kept_grows [OF assms(1,2)]
  have later: "kept env w t" if "kept env u t" for t by (rule kept_trans [OF u that])
  show ?thesis
  proof (cases failed)
    case True
    have "removable env w m t" if r: "removable env u m t" for m t
    proof -
      have "persisted_id t \<noteq> Some s" if "m \<noteq> None" "issued env w s" "dead s w" for s
      proof -
        have "issued env u s" by (rule issued_mono [OF that(2)]) (use assms(2) in \<open>simp add: grows_def\<close>)
        moreover have "dead s u" using u that by (auto simp: kept_def session_progress_def)
        ultimately show ?thesis using r that(1) by (simp add: removable_def)
      qed
      moreover have "kept env w t" by (rule later) (use r in \<open>simp add: removable_def\<close>)
      ultimately show ?thesis by (simp add: removable_def)
    qed
    with True later show ?thesis
      by (auto intro!: wp_weaken [OF read_unreconciled_spec [OF kept_ok [OF u]]])
  next
    case False
    with assms have pid: "pid = map_option session_identity.truncate (area_material u)"
      "area_material u = area_material w"
      by (simp_all add: grows_def)
    show ?thesis
      unfolding if_not_P [OF False]
    proof (rule wp_weaken [OF reconcile_spec [OF kept_ok [OF u] pid(1)]], goal_cases)
      case (1 r t)
      have t: "kept env w t" by (rule later [OF kept_reconcile_post [OF 1]])
      have "reconciled_state env w pid rec t" if "r = Inr rec" for rec
        using 1 that t pid same_storage_trans [OF same_storage_grows [OF assms(2)]]
          usable_grows [OF _ assms(2)]
        by (auto simp: reconciled_state_def reconcile_post_def kept_def)
      moreover have "rec_advanced rec \<longrightarrow> pid \<noteq> None" if "r = Inr rec" for rec
        using 1 that pid
        by (cases "area_material w") (auto simp: reconcile_post_def reconciled_to_def same_storage_def)
      ultimately show ?case
        by (intro conjI allI impI t) (auto intro!: removable_reconciled)
    qed
  qed
qed

lemma cleanup_spec:
  assumes "session_ok env w"
  shows "wp (cleanupActiveSession env requiredVaultId invalidate before after always lease)
     (\<lambda>r t. kept env w t \<and> (r = Inr Removed \<longrightarrow> area_material t = None \<and> epoch_of w < epoch_of t)) w"
  unfolding cleanupActiveSession_def
proof (rule wp_coordinated, goal_cases)
  case (1 ls n)
  let ?w = "leased ls n w"
  let ?P = "\<lambda>r t. kept env w t \<and> (r = Inr Removed \<longrightarrow> area_material t = None \<and> epoch_of w < epoch_of t)"
  have ok: "session_ok env ?w" using assms by simp
  have rest: "wp (cleanup_records env pid rec rf e invalidate before after always) ?P t"
    if "removable env ?w (rec_material rec) t" "rec_advanced rec \<longrightarrow> pid \<noteq> None" for pid rec rf e t
    using cleanup_records_spec [OF that] by simp
  show ?case
    unfolding leased_fields leased_views kept_leased all_simps wp_sbind [of "stry (getPersistedUnlockedVaultSessionIdentity env)"]
      wp_stry [of "getPersistedUnlockedVaultSessionIdentity env"]
  proof (rule wp_weaken [OF get_identity_spec], goal_cases)
    case (1 r u)
    then have g: "grows ?w u" by simp
    have u: "kept env w u" using kept_grows [OF ok g] by simp
    let ?pid = "case r of Inl e \<Rightarrow> None | Inr i \<Rightarrow> i"
    have pid: "\<not> caught r \<noteq> None \<longrightarrow> ?pid = map_option session_identity.truncate (area_material ?w)"
      using 1 by (cases r) auto
    have "wp (if caught r \<noteq> None then read_unreconciled env else reconcileActiveMaterial env ?pid)
        (\<lambda>q t. kept env w t \<and> removable env ?w None t \<and>
           (\<forall>rec. q = Inr rec \<longrightarrow> removable env ?w (rec_material rec) t \<and>
              (rec_advanced rec \<longrightarrow> ?pid \<noteq> None))) u"
      by (rule wp_weaken [OF cleanup_read_spec [OF ok g pid]]) (auto simp: removable_def)
    then show ?case
      using u
      by (simp only: sum.case Let_def wp_if wp_sthrow wp_sbind [of "stry (if _ then _ else _)"]
          wp_stry [of "if _ then _ else _"])
        (auto elim!: wp_weaken intro!: rest simp: wp_simps split: sum.splits)
  qed
qed (use assms in \<open>simp add: kept_refl\<close>)

end
