(* ===== verification/Shared_Contexts.thy ===== *)
theory Shared_Contexts
  imports Prelude
begin

text \<open>
  Several contexts that share a part of their state: an extension runs one service worker and any
  number of popups over one storage area. One step of one context is a step of the system; the
  other contexts see its effect on the shared part only. The locale states what a single context
  must guarantee, and what each must tolerate from the others, for an invariant and a progress
  relation to hold of the whole system.
\<close>

text \<open>
  \<open>share t w\<close> is the context state \<open>w\<close> with the shared part of \<open>t\<close>; \<open>move\<close> lets context \<open>i\<close> go to \<open>t\<close>.
\<close>

definition move :: "('s \<Rightarrow> 's \<Rightarrow> 's) \<Rightarrow> (nat \<Rightarrow> 's) \<Rightarrow> nat \<Rightarrow> 's \<Rightarrow> nat \<Rightarrow> 's" where
  "move share sys i t = (\<lambda>j. if j = i then t else share t (sys j))"

inductive reaches ::
  "('q \<Rightarrow> 's \<Rightarrow> 's) \<Rightarrow> ('s \<Rightarrow> 's \<Rightarrow> 's) \<Rightarrow> ('q \<Rightarrow> 's \<Rightarrow> bool) \<Rightarrow> (nat \<Rightarrow> 's) \<Rightarrow> (nat \<Rightarrow> 's) \<Rightarrow> bool"
  for step share permitted where
  here [intro]: "reaches step share permitted sys sys"
| further: "reaches step share permitted sys sys' \<Longrightarrow> permitted q (sys' i) \<Longrightarrow>
    reaches step share permitted sys (move share sys' i (step q (sys' i)))"

lemma reaches_trans [trans]:
  assumes "reaches step share permitted s t" "reaches step share permitted t u"
  shows "reaches step share permitted s u"
  using assms(2,1) by (induction rule: reaches.induct) (auto intro: reaches.further)

locale shared_contexts =
  fixes step :: "'q \<Rightarrow> 's \<Rightarrow> 's"
    and share :: "'s \<Rightarrow> 's \<Rightarrow> 's"
    and permitted :: "'q \<Rightarrow> 's \<Rightarrow> bool"
    and agree :: "'s \<Rightarrow> 's \<Rightarrow> bool"
    and invariant :: "'s \<Rightarrow> bool"
    and progress :: "'s \<Rightarrow> 's \<Rightarrow> bool"
  assumes agree_sym: "agree v w \<Longrightarrow> agree w v"
    and agree_trans: "agree u v \<Longrightarrow> agree v w \<Longrightarrow> agree u w"
    and agree_refl: "agree w w"
    and agree_share: "agree (share t w) t"
    and progress_refl: "progress w w"
    and progress_trans: "progress u v \<Longrightarrow> progress v w \<Longrightarrow> progress u w"
    and guarantee: "invariant w \<Longrightarrow> permitted q w \<Longrightarrow> invariant (step q w) \<and> progress w (step q w)"
    and tolerance: "agree w v \<Longrightarrow> invariant v \<Longrightarrow> invariant t \<Longrightarrow> progress w t \<Longrightarrow>
      invariant (share t v) \<and> progress v (share t v)"
begin

definition system_ok :: "(nat \<Rightarrow> 's) \<Rightarrow> bool" where
  "system_ok sys \<longleftrightarrow> (\<forall>i. invariant (sys i)) \<and> (\<forall>i j. agree (sys i) (sys j))"

lemma move_ok:
  assumes "system_ok sys" "permitted q (sys i)"
  shows "system_ok (move share sys i (step q (sys i)))"
    and "progress (sys j) (move share sys i (step q (sys i)) j)"
proof -
  let ?t = "step q (sys i)"
  have t: "invariant ?t" "progress (sys i) ?t"
    using assms guarantee by (simp_all add: system_ok_def)
  have others: "invariant (share ?t (sys j)) \<and> progress (sys j) (share ?t (sys j))" for j
    using assms(1) t by (intro tolerance [of "sys i"]) (simp_all add: system_ok_def)
  have seen: "agree (move share sys i ?t j) ?t" for j
    using agree_refl agree_share by (simp add: move_def)
  have "agree (move share sys i ?t j) (move share sys i ?t k)" for j k
    by (rule agree_trans [OF seen agree_sym [OF seen]])
  with t others show "system_ok (move share sys i ?t)" by (simp add: system_ok_def move_def)
  from t others show "progress (sys j) (move share sys i ?t j)" by (simp add: move_def)
qed

theorem reachable_ok:
  assumes "reaches step share permitted sys sys'" "system_ok sys"
  shows "system_ok sys' \<and> (\<forall>j. progress (sys j) (sys' j))"
  using assms
proof (induction rule: reaches.induct)
  case here
  then show ?case by (simp add: progress_refl)
next
  case (further sys sys' q i)
  then have ok: "system_ok sys'" and before: "progress (sys j) (sys' j)" for j by auto
  note moved = move_ok [of sys' q i, OF ok further.hyps(2)]
  have "progress (sys j) (move share sys' i (step q (sys' i)) j)" for j
    by (rule progress_trans [OF before moved(2)])
  with moved(1) show ?case by simp
qed

lemma reachable_invariant:
  "reaches step share permitted sys sys' \<Longrightarrow> system_ok sys \<Longrightarrow> invariant (sys' i)"
  using reachable_ok by (simp add: system_ok_def)

lemma reachable_agree:
  "reaches step share permitted sys sys' \<Longrightarrow> system_ok sys \<Longrightarrow> agree (sys' i) (sys' j)"
  using reachable_ok by (simp add: system_ok_def)

lemma reachable_progress:
  "reaches step share permitted sys sys' \<Longrightarrow> system_ok sys \<Longrightarrow> progress (sys i) (sys' i)"
  using reachable_ok by simp

end

end
