(* ===== verification/Session_System.thy ===== *)
theory Session_System
  imports Session_Operations Shared_Contexts
begin

text \<open>
  The whole extension: contexts, each with its own cache, generation, invalidation, memory and
  leases, over one storage. The session service is called through its methods; a method runs under
  the exclusive lease of the coordinator, so it is one step. Between calls a context may also make
  a key, wipe one that the session does not hold, or be restarted by the browser.
\<close>

section \<open>Requests to the service\<close>

datatype 'o session_request =
    Require_vault_can_be_activated string
  | Get "nat option"
  | Get_active_vault_id "nat option"
  | Run_with_unlocked_vault string string "UnlockedVaultSession \<Rightarrow> ('o, unit) callback" "nat option"
  | Persist_for_active_session string string "('o, unit) callback" "nat option"
  | Restore_persisted_state string string VersionVector "('o, unit) callback" "nat option"
  | Discard_if_session_is_active string string nat VersionVector "('o, unit) callback"
      "('o, bool) callback" "nat option"
  | Activate VaultSessionActivationAuthorization UnlockedVault VersionVector "nat option"
  | Activate_with_auto_lock VaultSessionActivationAuthorization UnlockedVault VersionVector
      "('o, unit) callback" "('o, unit) callback" "nat option"
  | Commit_persisted_snapshot string UnlockedVault VersionVector "nat option"
  | Commit_persisted_snapshot_if_active string UnlockedVault VersionVector "nat option"
  | Remove "nat option"
  | Cleanup_active_session "string option" bool "active_session option \<Rightarrow> ('o, bool) callback"
      "('o, unit) callback option" bool "nat option"

datatype session_answer =
    Refused core_error
  | Authorized VaultSessionActivationAuthorization
  | Session "UnlockedVaultSession option"
  | Active_vault "string option"
  | Activated string
  | Committed bool
  | Finished
  | Restoration restore_result
  | Discarding discard_result
  | Cleanup cleanup_result

definition answering ::
  "('a \<Rightarrow> session_answer) \<Rightarrow> ('o, 'a) session_op \<Rightarrow> 'o session_world \<Rightarrow> session_answer \<times> 'o session_world" where
  "answering f m w = (case m w of (r, t) \<Rightarrow> (case r of Inl e \<Rightarrow> Refused e | Inr a \<Rightarrow> f a, t))"

fun run_request ::
  "session_env \<Rightarrow> 'o session_request \<Rightarrow> 'o session_world \<Rightarrow> session_answer \<times> 'o session_world" where
  "run_request env (Require_vault_can_be_activated vaultId) =
     answering Authorized (requireVaultCanBeActivated env vaultId)"
| "run_request env (Get lease) = answering Session (get_session env lease)"
| "run_request env (Get_active_vault_id lease) = answering Active_vault (getActiveVaultId env lease)"
| "run_request env (Run_with_unlocked_vault vaultId operation run lease) =
     answering (\<lambda>_. Finished) (runWithUnlockedVaultContext env vaultId operation run lease)"
| "run_request env (Persist_for_active_session sessionId vaultId operation lease) =
     answering (\<lambda>_. Finished) (persistForActiveSession env sessionId vaultId operation lease)"
| "run_request env (Restore_persisted_state sessionId vaultId v callback lease) =
     answering Restoration (restorePersistedState env sessionId vaultId v callback lease)"
| "run_request env (Discard_if_session_is_active sessionId vaultId generation v before discard lease) =
     answering Discarding (discardIfSessionIsActive env sessionId vaultId generation v before discard lease)"
| "run_request env (Activate auth uv v lease) = answering Activated (activate env auth uv v lease)"
| "run_request env (Activate_with_auto_lock auth uv v install rollback lease) =
     answering (\<lambda>x. Activated (fst x)) (activateWithAutoLock env auth uv v install rollback lease)"
| "run_request env (Commit_persisted_snapshot sessionId uv v lease) =
     answering (\<lambda>_. Committed True) (commitPersistedSnapshot env sessionId uv v lease)"
| "run_request env (Commit_persisted_snapshot_if_active sessionId uv v lease) =
     answering Committed (commitPersistedSnapshotIfSessionIsActive env sessionId uv v lease)"
| "run_request env (Remove lease) = answering (\<lambda>_. Finished) (remove_session env lease)"
| "run_request env (Cleanup_active_session requiredVaultId invalidate before after always lease) =
     answering Cleanup (cleanupActiveSession env requiredVaultId invalidate before after always lease)"

text \<open>What a caller of the service must respect: the keys that it hands over are its own.\<close>

fun request_ok :: "'o session_request \<Rightarrow> 'o session_world \<Rightarrow> bool" where
  "request_ok (Activate auth uv v lease) w \<longleftrightarrow> usable w uv"
| "request_ok (Activate_with_auto_lock auth uv v install rollback lease) w \<longleftrightarrow> usable w uv"
| "request_ok (Commit_persisted_snapshot sessionId uv v lease) w \<longleftrightarrow> usable w uv"
| "request_ok (Commit_persisted_snapshot_if_active sessionId uv v lease) w \<longleftrightarrow> usable w uv"
| "request_ok q w \<longleftrightarrow> True"

section \<open>Steps of a context\<close>

datatype 'o session_event =
    Request "'o session_request"
  | Make_key bytes
  | Wipe_key buffer
  | Restart

definition restarted :: "'o session_world \<Rightarrow> 'o session_world" where
  "restarted w =
     w\<lparr>memory := \<lambda>_. [], cachedMaterial := None, activationGeneration := 0,
       invalidationState := No_invalidation, activeLeases := []\<rparr>"

fun session_step :: "session_env \<Rightarrow> 'o session_event \<Rightarrow> 'o session_world \<Rightarrow> 'o session_world" where
  "session_step env (Request q) w = snd (run_request env q w)"
| "session_step env (Make_key bs) w = snd (allocate bs w)"
| "session_step env (Wipe_key b) w = secureWipe b w"
| "session_step env Restart w = restarted w"

fun event_ok :: "'o session_event \<Rightarrow> 'o session_world \<Rightarrow> bool" where
  "event_ok (Request q) w \<longleftrightarrow> request_ok q w"
| "event_ok (Make_key bs) w \<longleftrightarrow> True"
| "event_ok (Wipe_key b) w \<longleftrightarrow>
     (case cachedMaterial w of Some (Some m) \<Rightarrow> b \<notin> set (secret_buffers m) | _ \<Rightarrow> True)"
| "event_ok Restart w \<longleftrightarrow> True"

definition lasting_event_ok :: "'o session_event \<Rightarrow> 'o session_world \<Rightarrow> bool" where
  "lasting_event_ok e w \<longleftrightarrow> event_ok e w \<and> e \<noteq> Restart"

definition share_storage :: "'o session_world \<Rightarrow> 'o session_world \<Rightarrow> 'o session_world" where
  "share_storage t w =
     w\<lparr>area_material := area_material t, area_epoch := area_epoch t,
       area_payload := area_payload t, clock := clock t\<rparr>"

definition agree_storage :: "'o session_world \<Rightarrow> 'o session_world \<Rightarrow> bool" where
  "agree_storage v w \<longleftrightarrow>
     area_material v = area_material w \<and> area_epoch v = area_epoch w \<and>
     area_payload v = area_payload w \<and> clock v = clock w"

text \<open>The storage is empty and no context has anything cached.\<close>

definition idle :: "'o \<Rightarrow> 'o session_world" where
  "idle out =
     \<lparr>area_material = None, area_epoch = None, area_payload = None, clock = 0,
      memory = \<lambda>_. [], next_buffer = 0, cachedMaterial = None, activationGeneration = 0,
      invalidationState = No_invalidation, activeLeases = [], next_lease = 0, outside = out\<rparr>"

section \<open>What every request keeps\<close>

lemma answering_wp:
  assumes "wp m Q w" "answering f m w = (a, t)"
  shows "(\<exists>e. a = Refused e \<and> Q (Inl e) t) \<or> (\<exists>x. a = f x \<and> Q (Inr x) t)"
  using assms by (auto simp: answering_def wp_def split: prod.splits sum.splits)

lemma answering_kept:
  assumes "wp m (\<lambda>r t. kept env w t \<and> P r t) w"
  shows "kept env w (snd (answering f m w))"
  using answering_wp [OF assms] by (cases "answering f m w") auto

lemma commitPersistedSnapshot_spec:
  assumes "session_ok env w" "usable w uv"
  shows "wp (commitPersistedSnapshot env sessionId uv v lease)
     (\<lambda>r t. kept env w t \<and>
        (\<forall>x. r = Inr x \<longrightarrow> opened env uv v sessionId t \<and> epoch_of w < epoch_of t)) w"
  unfolding commitPersistedSnapshot_def wp_simps
  by (rule wp_weaken [OF commit_spec [OF assms]]) (auto split: sum.splits)

lemma request_kept:
  assumes "env_ok env" "session_ok env w" "request_ok q w"
  shows "kept env w (snd (run_request env q w))"
proof (cases q)
  case (Run_with_unlocked_vault vaultId operation run lease)
  show ?thesis
    unfolding Run_with_unlocked_vault run_request.simps
    by (rule answering_kept [where P = "\<lambda>_ _. True"])
      (simp add: runWithUnlockedVaultContext_spec [OF assms(2)])
next
  case (Restore_persisted_state sessionId vaultId v callback lease)
  show ?thesis
    unfolding Restore_persisted_state run_request.simps
    by (rule answering_kept [where P = "\<lambda>_ _. True"])
      (simp add: restorePersistedState_spec [OF assms(2)])
next
  case (Remove lease)
  show ?thesis
    unfolding Remove run_request.simps by (rule answering_kept [OF remove_session_spec [OF assms(2)]])
next
  case (Require_vault_can_be_activated vaultId)
  show ?thesis
    unfolding Require_vault_can_be_activated run_request.simps
    by (rule answering_kept [OF requireVaultCanBeActivated_spec [OF assms(2)]])
next
  case (Get lease)
  show ?thesis
    unfolding Get run_request.simps by (rule answering_kept [OF get_session_spec [OF assms(2)]])
next
  case (Get_active_vault_id lease)
  show ?thesis
    unfolding Get_active_vault_id run_request.simps
    by (rule answering_kept [OF getActiveVaultId_spec [OF assms(2)]])
next
  case (Persist_for_active_session sessionId vaultId operation lease)
  show ?thesis
    unfolding Persist_for_active_session run_request.simps
    by (rule answering_kept [OF persistForActiveSession_spec [OF assms(2)]])
next
  case (Discard_if_session_is_active sessionId vaultId generation v before discard lease)
  show ?thesis
    unfolding Discard_if_session_is_active run_request.simps
    by (rule answering_kept [OF discard_spec [OF assms(2)]])
next
  case (Activate auth uv v lease)
  show ?thesis
    unfolding Activate run_request.simps
    by (rule answering_kept [OF activate_spec [OF assms(1,2)]]) (use assms(3) Activate in simp)
next
  case (Activate_with_auto_lock auth uv v install rollback lease)
  show ?thesis
    unfolding Activate_with_auto_lock run_request.simps
    by (rule answering_kept [OF activateWithAutoLock_spec [OF assms(1,2)]])
      (use assms(3) Activate_with_auto_lock in simp)
next
  case (Commit_persisted_snapshot sessionId uv v lease)
  show ?thesis
    unfolding Commit_persisted_snapshot run_request.simps
    by (rule answering_kept [OF commitPersistedSnapshot_spec [OF assms(2)]])
      (use assms(3) Commit_persisted_snapshot in simp)
next
  case (Commit_persisted_snapshot_if_active sessionId uv v lease)
  show ?thesis
    unfolding Commit_persisted_snapshot_if_active run_request.simps
    by (rule answering_kept [OF commit_spec [OF assms(2)]])
      (use assms(3) Commit_persisted_snapshot_if_active in simp)
next
  case (Cleanup_active_session requiredVaultId invalidate before after always lease)
  show ?thesis
    unfolding Cleanup_active_session run_request.simps
    by (rule answering_kept [OF cleanup_spec [OF assms(2)]])
qed

section \<open>The system\<close>

lemma share_fields [simp]:
  "area_material (share_storage t w) = area_material t" "area_epoch (share_storage t w) = area_epoch t"
  "area_payload (share_storage t w) = area_payload t" "clock (share_storage t w) = clock t"
  "memory (share_storage t w) = memory w" "next_buffer (share_storage t w) = next_buffer w"
  "cachedMaterial (share_storage t w) = cachedMaterial w"
  "activationGeneration (share_storage t w) = activationGeneration w"
  "invalidationState (share_storage t w) = invalidationState w"
  "activeLeases (share_storage t w) = activeLeases w" "outside (share_storage t w) = outside w"
  by (simp_all add: share_storage_def)

lemma share_views [simp]:
  "persisted_id (share_storage t w) = persisted_id t" "epoch_of (share_storage t w) = epoch_of t"
  "cached_id (share_storage t w) = cached_id w" "issued env (share_storage t w) s = issued env t s"
  by (simp_all add: persisted_id_def epoch_of_def cached_id_def issued_def)

lemma agree_storage_views:
  assumes "agree_storage v w"
  shows "persisted_id v = persisted_id w" "epoch_of v = epoch_of w" "issued env v s = issued env w s"
    "shared_progress env v t = shared_progress env w t"
  using assms by (simp_all add: agree_storage_def persisted_id_def epoch_of_def issued_def shared_progress_def)

lemma share_ok:
  assumes "session_ok env v" "session_ok env t" "clock v \<le> clock t"
  shows "session_ok env (share_storage t v)"
  using assms issued_mono [OF _ assms(3)]
  by (auto simp: session_ok_def area_ok_def cache_ok_def live_material_def issued_def)

lemma share_progress:
  "agree_storage w v \<Longrightarrow> shared_progress env w t \<Longrightarrow> shared_progress env v (share_storage t v)"
  by (simp add: shared_progress_def agree_storage_def persisted_id_def epoch_of_def)

lemma step_local_kept:
  assumes "session_ok env w" "event_ok e w" "\<forall>q. e \<noteq> Request q" "e \<noteq> Restart"
  shows "kept env w (session_step env e w)"
proof (cases e)
  case (Make_key bs)
  have "grows w (session_step env e w)" by (simp add: Make_key allocate_def grows_def)
  then show ?thesis by (rule kept_grows [OF assms(1)])
next
  case (Wipe_key b)
  have "session_ok env (secureWipe b w)"
    using assms(1,2) Wipe_key
    by (auto simp: secureWipe_def session_ok_def area_ok_def cache_ok_def live_material_def issued_def)
  then show ?thesis
    by (simp add: Wipe_key kept_def session_progress_def shared_progress_same secureWipe_def dead_def
        persisted_id_def cached_id_def)
qed (use assms in auto)

lemma step_kept:
  assumes "env_ok env" "session_ok env w" "lasting_event_ok e w"
  shows "kept env w (session_step env e w)"
proof (cases "\<exists>q. e = Request q")
  case True
  with assms show ?thesis by (auto simp: lasting_event_ok_def intro: request_kept)
next
  case False
  with assms show ?thesis by (intro step_local_kept) (auto simp: lasting_event_ok_def)
qed

lemma step_shared:
  assumes "env_ok env" "session_ok env w" "event_ok e w"
  shows "session_ok env (session_step env e w) \<and> shared_progress env w (session_step env e w)"
proof (cases "e = Restart")
  case True
  have "area_ok env (restarted w)"
    using assms(2) by (simp add: session_ok_def area_ok_def restarted_def issued_def)
  then have "session_ok env (restarted w)"
    by (rule session_ok_empty) (simp_all add: restarted_def)
  then show ?thesis by (simp add: True shared_progress_same) (simp add: restarted_def shared_progress_same)
next
  case False
  with assms step_kept [OF assms(1,2)] show ?thesis
    by (simp add: lasting_event_ok_def kept_def session_progress_def)
qed

text \<open>
  Two views of the system: with restarts, the storage makes progress only; without them, a
  context also remembers which sessions are dead in it.
\<close>

abbreviation runs_to :: "session_env \<Rightarrow> (nat \<Rightarrow> 'o session_world) \<Rightarrow> (nat \<Rightarrow> 'o session_world) \<Rightarrow> bool" where
  "runs_to env \<equiv> reaches (session_step env) share_storage event_ok"

abbreviation lasts_to :: "session_env \<Rightarrow> (nat \<Rightarrow> 'o session_world) \<Rightarrow> (nat \<Rightarrow> 'o session_world) \<Rightarrow> bool" where
  "lasts_to env \<equiv> reaches (session_step env) share_storage lasting_event_ok"

definition context_ok :: "session_env \<Rightarrow> 'o session_world \<Rightarrow> bool" where
  "context_ok env w \<longleftrightarrow> env_ok env \<and> session_ok env w"

lemma context_tolerates:
  assumes "agree_storage w v" "context_ok env v" "context_ok env t" "shared_progress env w t"
  shows "context_ok env (share_storage t v) \<and> shared_progress env v (share_storage t v)"
proof
  have "clock v \<le> clock t" using assms(1,4) by (simp add: agree_storage_def shared_progress_def)
  with assms(2,3) show "context_ok env (share_storage t v)" by (simp add: context_ok_def share_ok)
  show "shared_progress env v (share_storage t v)" by (rule share_progress [OF assms(1,4)])
qed

interpretation volatile: shared_contexts "session_step env" share_storage event_ok agree_storage
  "context_ok env" "shared_progress env" for env
proof
  fix u v w t :: "'a session_world" and e :: "'a session_event"
  show "agree_storage v w \<Longrightarrow> agree_storage w v" by (simp add: agree_storage_def)
  show "agree_storage u v \<Longrightarrow> agree_storage v w \<Longrightarrow> agree_storage u w" by (simp add: agree_storage_def)
  show "agree_storage w w" "agree_storage (share_storage t w) t" by (simp_all add: agree_storage_def)
  show "shared_progress env w w" by simp
  show "shared_progress env u v \<Longrightarrow> shared_progress env v w \<Longrightarrow> shared_progress env u w"
    by (rule shared_progress_trans)
  show "context_ok env w \<Longrightarrow> event_ok e w \<Longrightarrow>
      context_ok env (session_step env e w) \<and> shared_progress env w (session_step env e w)"
    using step_shared by (auto simp: context_ok_def)
  show "agree_storage w v \<Longrightarrow> context_ok env v \<Longrightarrow> context_ok env t \<Longrightarrow> shared_progress env w t \<Longrightarrow>
      context_ok env (share_storage t v) \<and> shared_progress env v (share_storage t v)"
    by (rule context_tolerates)
qed

interpretation lasting: shared_contexts "session_step env" share_storage lasting_event_ok agree_storage
  "context_ok env" "session_progress env" for env
proof
  fix u v w t :: "'a session_world" and e :: "'a session_event"
  show "agree_storage v w \<Longrightarrow> agree_storage w v" "agree_storage w w" "agree_storage (share_storage t w) t"
    by (simp_all add: agree_storage_def)
  show "agree_storage u v \<Longrightarrow> agree_storage v w \<Longrightarrow> agree_storage u w" by (simp add: agree_storage_def)
  show "session_progress env w w" by simp
  show "session_progress env u v \<Longrightarrow> session_progress env v w \<Longrightarrow> session_progress env u w"
    by (rule session_progress_trans)
  show "context_ok env w \<Longrightarrow> lasting_event_ok e w \<Longrightarrow>
      context_ok env (session_step env e w) \<and> session_progress env w (session_step env e w)"
    using step_kept by (auto simp: context_ok_def kept_def)
  assume a: "agree_storage w v" "context_ok env v" "context_ok env t" "session_progress env w t"
  have "shared_progress env w t" using a(4) by (simp add: session_progress_def)
  note tolerates = context_tolerates [OF a(1-3) this]
  have "dead s (share_storage t v)" if "issued env v s" "dead s v" for s
  proof (rule dead_stable [OF _ that conjunct2 [OF tolerates]])
    show "env_ok env" using a(2) by (simp add: context_ok_def)
  qed simp_all
  with tolerates show "context_ok env (share_storage t v) \<and> session_progress env v (share_storage t v)"
    by (simp add: session_progress_def)
qed

lemma idle_ok: "env_ok env \<Longrightarrow> volatile.system_ok env (\<lambda>i. idle (out i))"
  by (simp add: volatile.system_ok_def context_ok_def session_ok_def area_ok_def cache_ok_def
      idle_def agree_storage_def)

lemma runs_ok:
  assumes "env_ok env" "runs_to env (\<lambda>i. idle (out i)) sys"
  shows "volatile.system_ok env sys" "session_ok env (sys i)"
  using volatile.reachable_ok [OF assms(2) idle_ok [OF assms(1)]]
  by (simp_all add: volatile.system_ok_def context_ok_def)

text \<open>A request of context \<open>i\<close>, and the system after it.\<close>

definition fire ::
  "session_env \<Rightarrow> nat \<Rightarrow> 'o session_request \<Rightarrow> (nat \<Rightarrow> 'o session_world) \<Rightarrow>
   session_answer \<times> (nat \<Rightarrow> 'o session_world)" where
  "fire env i q system =
     (case run_request env q (system i) of (a, t) \<Rightarrow> (a, move share_storage system i t))"

lemma fire_runs:
  "request_ok q (system i) \<Longrightarrow> fire env i q system = (a, system') \<Longrightarrow> runs_to env system system'"
  using reaches.further [OF reaches.here, of event_ok "Request q" system i "session_step env" share_storage]
  by (auto simp: fire_def split: prod.splits)

lemma fire_lasts:
  "request_ok q (system i) \<Longrightarrow> fire env i q system = (a, system') \<Longrightarrow> lasts_to env system system'"
  using reaches.further [OF reaches.here, of lasting_event_ok "Request q" system i "session_step env" share_storage]
  by (auto simp: fire_def lasting_event_ok_def split: prod.splits)

section \<open>What the answers mean\<close>

text \<open>The answers that lock the vault, and those that spend the authorizations issued before.\<close>

definition locking :: "'o session_request \<Rightarrow> session_answer \<Rightarrow> bool" where
  "locking q a \<longleftrightarrow>
     (case q of Remove lease \<Rightarrow> a = Finished | _ \<Rightarrow> False) \<or>
     a = Cleanup Removed \<or> a = Discarding Discarded"

definition spending :: "'o session_request \<Rightarrow> session_answer \<Rightarrow> bool" where
  "spending q a \<longleftrightarrow>
     locking q a \<or> a = Committed True \<or>
     (case a of Activated sessionId \<Rightarrow> True | _ \<Rightarrow> False) \<or>
     (case q of Persist_for_active_session sessionId vaultId operation lease \<Rightarrow> a = Finished | _ \<Rightarrow> False)"

lemma locking_cases [consumes 1]:
  assumes "locking q a"
  obtains l where "q = Remove l" "a = Finished" | "a = Cleanup Removed" | "a = Discarding Discarded"
  using assms by (auto simp: locking_def split: session_request.splits)

lemma spending_cases [consumes 1]:
  assumes "spending q a"
  obtains "locking q a" | sid where "a = Activated sid" | "a = Committed True"
    | x y f l where "q = Persist_for_active_session x y f l" "a = Finished"
  using assms by (auto simp: spending_def split: session_request.splits session_answer.splits)

lemma run_request_answer:
  assumes "run_request env q w = (a, t)"
  shows "a = Finished \<Longrightarrow> (\<exists>x y run l. q = Run_with_unlocked_vault x y run l) \<or>
      (\<exists>x y f l. q = Persist_for_active_session x y f l) \<or> (\<exists>l. q = Remove l)"
    and "a = Cleanup c \<Longrightarrow> (\<exists>r i b f d l. q = Cleanup_active_session r i b f d l)"
    and "a = Discarding d \<Longrightarrow> (\<exists>s v g x b f l. q = Discard_if_session_is_active s v g x b f l)"
    and "a = Activated sid \<Longrightarrow> (\<exists>auth uv v l. q = Activate auth uv v l) \<or>
      (\<exists>auth uv v f g l. q = Activate_with_auto_lock auth uv v f g l)"
    and "a = Committed b \<Longrightarrow> (\<exists>s uv v l. q = Commit_persisted_snapshot s uv v l) \<or>
      (\<exists>s uv v l. q = Commit_persisted_snapshot_if_active s uv v l)"
    and "a = Session s \<Longrightarrow> (\<exists>l. q = Get l)"
    and "a = Authorized auth \<Longrightarrow> (\<exists>v. q = Require_vault_can_be_activated v)"
  using assms by (cases q; auto simp: answering_def split: prod.splits sum.splits)+

lemma answering_result:
  "answering f m w = (a, t) \<Longrightarrow> \<exists>r. m w = (r, t) \<and> a = (case r of Inl e \<Rightarrow> Refused e | Inr x \<Rightarrow> f x)"
  by (simp add: answering_def split: prod.splits)

lemma locking_result:
  assumes "session_ok env w" "run_request env q w = (a, t)" "locking q a"
  shows "area_material t = None \<and> epoch_of w < epoch_of t"
  using assms(3)
proof (cases rule: locking_cases)
  case (1 lease)
  then show ?thesis
    using assms(2) wp_result [OF remove_session_spec [OF assms(1), of lease]]
    by (auto dest!: answering_result split: sum.splits)
next
  case 2
  then obtain r i b f d l where "q = Cleanup_active_session r i b f d l"
    using run_request_answer(2) [OF assms(2)] by blast
  then show ?thesis
    using 2 assms(2) wp_result [OF cleanup_spec [OF assms(1), of r i b f d l]]
    by (auto dest!: answering_result split: sum.splits)
next
  case 3
  then obtain s v g x b f l where "q = Discard_if_session_is_active s v g x b f l"
    using run_request_answer(3) [OF assms(2)] by blast
  then show ?thesis
    using 3 assms(2) wp_result [OF discard_spec [OF assms(1), of s v g x b f l]]
    by (auto dest!: answering_result split: sum.splits)
qed

text \<open>An activation has been authorized in the same epoch and generation, and opens the vault.\<close>

fun activation_of :: "'o session_request \<Rightarrow> (VaultSessionActivationAuthorization \<times> UnlockedVault \<times> VersionVector) option" where
  "activation_of (Activate auth uv v lease) = Some (auth, uv, v)"
| "activation_of (Activate_with_auto_lock auth uv v install rollback lease) = Some (auth, uv, v)"
| "activation_of q = None"

lemma activated_result:
  assumes "env_ok env" "session_ok env w" "request_ok q w" "run_request env q w = (Activated sid, t)"
  obtains auth uv v where "activation_of q = Some (auth, uv, v)" "opened env uv v sid t"
    "epoch_of w < epoch_of t" "auth_localGeneration auth = activationGeneration w"
    "auth_sharedEpoch auth = epoch_of w"
    "\<forall>st. area_material w = Some st \<longrightarrow> ses_vaultId st = uv_vaultId uv"
proof -
  from run_request_answer(4) [OF assms(4) refl] show thesis
  proof (elim disjE exE)
    fix auth uv v l
    assume q: "q = Activate auth uv v l"
    show thesis
      using q assms(3,4) wp_result [OF activate_spec [OF assms(1,2), of uv auth v l]]
      by (intro that [of auth uv v]) (auto dest!: answering_result split: sum.splits)
  next
    fix auth uv v f g l
    assume q: "q = Activate_with_auto_lock auth uv v f g l"
    show thesis
      using q assms(3,4) wp_result [OF activateWithAutoLock_spec [OF assms(1,2), of uv auth v f g l]]
      by (intro that [of auth uv v]) (auto dest!: answering_result split: sum.splits)
  qed
qed

lemma committed_result:
  assumes "session_ok env w" "request_ok q w" "run_request env q w = (Committed True, t)"
  shows "epoch_of w < epoch_of t"
  using run_request_answer(5) [OF assms(3) refl]
proof (elim disjE exE)
  fix s uv v l
  assume "q = Commit_persisted_snapshot s uv v l"
  then show ?thesis
    using assms(2,3) wp_result [OF commitPersistedSnapshot_spec [OF assms(1), of uv s v l]]
    by (auto dest!: answering_result split: sum.splits)
next
  fix s uv v l
  assume "q = Commit_persisted_snapshot_if_active s uv v l"
  then show ?thesis
    using assms(2,3) wp_result [OF commit_spec [OF assms(1), of uv s v l]]
    by (auto dest!: answering_result split: sum.splits)
qed

lemma spending_result:
  assumes "env_ok env" "session_ok env w" "request_ok q w" "run_request env q w = (a, t)" "spending q a"
  shows "epoch_of w < epoch_of t"
  using assms(5)
proof (cases rule: spending_cases)
  case 1
  with locking_result [OF assms(2,4)] show ?thesis by simp
next
  case (2 sid)
  with assms(4) have "run_request env q w = (Activated sid, t)" by simp
  from activated_result [OF assms(1-3) this] show ?thesis by metis
next
  case 3
  with committed_result [OF assms(2,3)] assms(4) show ?thesis by simp
next
  case (4 x y f l)
  then show ?thesis
    using assms(4) wp_result [OF persistForActiveSession_spec [OF assms(2), of x y f l]]
    by (auto dest!: answering_result split: sum.splits)
qed

lemma session_result:
  assumes "session_ok env w" "run_request env q w = (Session (Some s), t)"
  shows "handed_out env t s \<and> session_ok env t"
proof -
  obtain l where "q = Get l" using run_request_answer(6) [OF assms(2) refl] by blast
  then show ?thesis
    using assms(2) wp_result [OF get_session_spec [OF assms(1), of l]]
    by (auto dest!: answering_result simp: kept_def split: sum.splits)
qed

end
