(* ===== verification/Session_Restoration.thy ===== *)
theory Session_Restoration
  imports Session_System
begin

text \<open>
  The other direction of the specifications: when the calls of an operation succeed, a stored
  session is read back whole, from the cache of the context that opened it as from the storage
  in a context that has nothing cached.
\<close>

definition succeeding :: "session_env \<Rightarrow> 'o session_world \<Rightarrow> bool" where
  "succeeding env w \<longleftrightarrow> (\<forall>n \<ge> clock w. call_outcome_at env n = Succeeds)"

lemma succeeding_grows: "grows w t \<Longrightarrow> succeeding env w \<Longrightarrow> succeeding env t"
  by (auto simp: succeeding_def grows_def)

lemma succeeding_now: "succeeding env w \<Longrightarrow> call_outcome_at env (clock w) = Succeeds"
  by (simp add: succeeding_def)

lemma succeeding_later [simp]: "succeeding env w \<Longrightarrow> succeeding env (w\<lparr>clock := Suc (clock w)\<rparr>)"
  by (simp add: succeeding_def)

lemma get_identity_succeeds:
  assumes "succeeding env w" "area_material w = Some st" "decodable env st"
  shows "wp (getPersistedUnlockedVaultSessionIdentity env)
     (\<lambda>r t. r = Inr (Some (session_identity.truncate st)) \<and> grows w t) w"
proof -
  have "wp (deserializeUnlockedVaultSessionIdentity env st)
      (\<lambda>r t. r = Inr (session_identity.truncate st) \<and> grows w t) (w\<lparr>clock := Suc (clock w)\<rparr>)"
    by (rule wp_weaken [OF deserialize_identity_spec], rename_tac r t, case_tac r)
      (use assms(3) in \<open>auto simp: grows_def\<close>)
  then show ?thesis
    using assms
    by (auto simp: getPersistedUnlockedVaultSessionIdentity_def wp_simps succeeding_now elim!: wp_weaken)
qed

text \<open>A material that stands for the stored one: its serialisation is the stored one.\<close>

lemma loaded_serialize:
  "loaded w t st m \<Longrightarrow> serializeUnlockedVaultSessionMaterial t m = st"
  by (simp add: loaded_def truncate_eq_iff serializeUnlockedVaultSessionMaterial_def secret_buffers_def)

definition cache_serves :: "'o session_world \<Rightarrow> stored_material \<Rightarrow> bool" where
  "cache_serves w st \<longleftrightarrow>
     (case cachedMaterial w of
        None \<Rightarrow> True
      | Some None \<Rightarrow> False
      | Some (Some m) \<Rightarrow> serializeUnlockedVaultSessionMaterial w m = st)"

lemma serialize_local [simp]:
  "serializeUnlockedVaultSessionMaterial (w\<lparr>cachedMaterial := c\<rparr>) m =
     serializeUnlockedVaultSessionMaterial w m"
  "serializeUnlockedVaultSessionMaterial (leased ls n w) m = serializeUnlockedVaultSessionMaterial w m"
  "succeeding env (w\<lparr>cachedMaterial := c\<rparr>) = succeeding env w"
  "succeeding env (leased ls n w) = succeeding env w"
  "cache_serves (leased ls n w) st = cache_serves w st"
  by (simp_all add: serializeUnlockedVaultSessionMaterial_def succeeding_def cache_serves_def leased_def
      split: option.splits)

lemma cache_serves_grows:
  assumes "cache_serves w st" "session_ok env w" "grows w t"
  shows "cache_serves t st"
proof -
  have "serializeUnlockedVaultSessionMaterial t m = serializeUnlockedVaultSessionMaterial w m"
    if "cachedMaterial w = Some (Some m)" for m
    using that assms(2,3)
    by (auto simp: session_ok_def cache_ok_def live_material_def secret_buffers_def grows_def
        serializeUnlockedVaultSessionMaterial_def)
  with assms(1,3) show ?thesis by (simp add: cache_serves_def grows_fields split: option.splits)
qed

lemma get_material_succeeds:
  assumes "succeeding env w" "area_material w = Some st" "decodable env st" "cache_serves w st"
  shows "wp (getUnlockedVaultSessionMaterial env)
     (\<lambda>r t. \<exists>m. r = Inr (Some m) \<and> serializeUnlockedVaultSessionMaterial t m = st \<and>
        succeeding env t \<and> area_payload t = area_payload w) w"
proof (cases "cachedMaterial w")
  case None
  have "wp (deserializeUnlockedVaultSessionMaterial env st)
      (\<lambda>r t. \<exists>m. r = Inr m \<and> serializeUnlockedVaultSessionMaterial t m = st \<and> grows w t)
      (w\<lparr>clock := Suc (clock w)\<rparr>)"
    by (rule wp_weaken [OF deserialize_spec], rename_tac r t, case_tac r)
      (use assms(3) in \<open>auto simp: grows_def intro: loaded_serialize\<close>)
  then show ?thesis
    using None assms(1,2) succeeding_grows [OF _ assms(1)]
    by (auto simp: getUnlockedVaultSessionMaterial_def wp_simps succeeding_now grows_fields(3)
        elim!: wp_weaken)
next
  case (Some c)
  with assms show ?thesis
    by (auto simp: getUnlockedVaultSessionMaterial_def wp_simps cache_serves_def split: option.splits)
qed

lemma serialized_matches:
  assumes "serializeUnlockedVaultSessionMaterial t m = st"
  shows "same_session m (session_identity.truncate st)"
    "same_snapshot (ses_sourceSnapshotVersionVector (session_identity.truncate st))
       (ses_sourceSnapshotVersionVector m)"
  using assms [symmetric]
  by (simp_all add: same_session_def same_snapshot_def session_identity.truncate_def compare_Equal_iff)

lemma reconcile_succeeds:
  assumes "succeeding env w" "area_material w = Some st" "decodable env st" "cache_serves w st"
    and "invalidationState w = No_invalidation"
  shows "wp (reconcileActiveMaterial env (Some (session_identity.truncate st)))
     (\<lambda>r t. \<exists>m. r = Inr \<lparr>rec_material = Some m, rec_reconciled = False, rec_advanced = False\<rparr> \<and>
        serializeUnlockedVaultSessionMaterial t m = st \<and> succeeding env t \<and>
        area_payload t = area_payload w) w"
  using assms(5)
  by (auto simp: reconcileActiveMaterial_def reconcile_cached_def wp_simps Let_def serialized_matches
      intro!: wp_weaken [OF get_material_succeeds [OF assms(1-4)]])

lemma restore_succeeds:
  assumes "succeeding env w" "serializeUnlockedVaultSessionMaterial w m = st"
    and "area_payload w = Some (payload_record p)" "payload_ok p"
    and "session_identity.truncate p = session_identity.truncate st"
    and "decrypt_payload env (pay_content p) (mat_payloadKey st) (session_identity.truncate p) = Some vault"
  shows "wp (restore_stored_payload env m)
     (\<lambda>r t. r = Inr (Some (restored_session m p vault)) \<and>
        serializeUnlockedVaultSessionMaterial t m = st) w"
proof -
  have ids: "ses_sessionId p = ses_sessionId m" "ses_vaultId p = ses_vaultId m"
    "ses_sourceSnapshotVersionVector p = ses_sourceSnapshotVersionVector m"
    "memory w (mat_payloadKey m) = mat_payloadKey st"
    using assms(2,5) [symmetric]
    by (simp_all add: truncate_eq_iff serializeUnlockedVaultSessionMaterial_def)
  have ctx: "session_context (ses_sessionId m) (ses_vaultId m) (ses_sourceSnapshotVersionVector m) =
      session_identity.truncate p"
    using ids by (simp add: session_context_def session_identity.truncate_def)
  have "call_outcome_at env (clock w) = Succeeds" "call_outcome_at env (Suc (clock w)) = Succeeds"
    using assms(1) by (simp_all add: succeeding_def)
  with assms(2,3,6) read_payload_ok [OF assms(4)] ids ctx show ?thesis
    by (simp add: restore_stored_payload_def getEncryptedUnlockedVaultSessionPayload_def restore_def
        requireMatchingSessionRecords_def decryptUnlockedVaultSessionPayload_def wp_simps Let_def
        compare_Equal_iff)
qed

lemma wp_exclusive:
  assumes "\<And>ls n. wp operation (\<lambda>r t. \<forall>ls n. Q r (leased ls n t)) (leased ls n w)"
  shows "wp (runCoordinatedSessionMutation None operation) Q w"
proof -
  have "wp operation (\<lambda>r t. Q r (t\<lparr>activeLeases := f t\<rparr>)) (w\<lparr>next_lease := n, activeLeases := ls\<rparr>)" for ls n f
  proof -
    have "wp operation (\<lambda>r t. Q r (t\<lparr>activeLeases := f t\<rparr>)) (leased ls n w)"
      by (rule wp_weaken [OF assms]) (metis leased_activeLeases)
    then show ?thesis by (simp add: leased_def)
  qed
  then show ?thesis
    by (simp add: runCoordinatedSessionMutation_def runExclusive_def run_with_lease_def wp_simps
        isLeaseActive_def)
qed

lemma get_reads_back:
  assumes "succeeding env w" "area_material w = Some st" "decodable env st" "cache_serves w st"
    and "session_ok env w" "invalidationState w = No_invalidation"
    and "area_payload w = Some (payload_record p)" "payload_ok p"
    and "session_identity.truncate p = session_identity.truncate st"
    and "decrypt_payload env (pay_content p) (mat_payloadKey st) (session_identity.truncate p) = Some vault"
  shows "wp (get_session env None)
     (\<lambda>r t. \<exists>m. r = Inr (Some (restored_session m p vault)) \<and>
        serializeUnlockedVaultSessionMaterial t m = st) w"
  unfolding get_session_def
proof (rule wp_exclusive)
  fix ls n
  let ?w = "leased ls n w"
  let ?Q = "\<lambda>r t. \<exists>m. r = Inr (Some (restored_session m p vault)) \<and>
        serializeUnlockedVaultSessionMaterial t m = st"
  have w: "succeeding env ?w" "area_material ?w = Some st" "invalidationState ?w = No_invalidation"
    using assms(1,2,6) by (simp_all)
  have read: "wp (reconcile_with_storage env)
      (\<lambda>r t. \<exists>i m. r = Inr (i, \<lparr>rec_material = Some m, rec_reconciled = False, rec_advanced = False\<rparr>) \<and>
         serializeUnlockedVaultSessionMaterial t m = st \<and> succeeding env t \<and> area_payload t = Some (payload_record p)) ?w"
    unfolding reconcile_with_storage_def wp_sbind
  proof (rule wp_weaken [OF get_identity_succeeds [OF w(1,2) assms(3)]], goal_cases)
    case (1 r u)
    then have g: "grows ?w u" and r: "r = Inr (Some (session_identity.truncate st))" by auto
    have "cache_serves ?w st" "session_ok env ?w"
      using assms(4,5) by simp_all
    then have u: "cache_serves u st" by (rule cache_serves_grows [OF _ _ g])
    have fields: "area_material u = Some st" "invalidationState u = No_invalidation"
      "area_payload u = Some (payload_record p)" "succeeding env u"
      using g w assms(7) succeeding_grows [OF g] by (simp_all add: grows_def)
    show ?case
      unfolding r sum.case wp_sbind wp_sret
      by (rule wp_weaken [OF reconcile_succeeds [OF fields(4,1) assms(3) u fields(2)]])
        (use fields(3) in auto)
  qed
  show "wp (restoreSession env) (\<lambda>r t. \<forall>ls n. ?Q r (leased ls n t)) ?w"
    unfolding restoreSession_def wp_sbind wp_stry
    by (rule wp_weaken [OF read])
      (auto simp: Let_def wp_simps intro!: wp_weaken [OF restore_succeeds [OF _ _ _ assms(8-10)]] exI)
qed

text \<open>What an activation has opened in \<open>w\<close> can be read in \<open>w'\<close>, the same context or another one.\<close>

lemma opened_reads_back:
  assumes "opened env uv v sid w" "agree_storage w w'" "session_ok env w'"
    and "w' = w \<or> cachedMaterial w' = None \<and> invalidationState w' = No_invalidation"
    and "succeeding env w'" "\<And>st. area_material w' = Some st \<Longrightarrow> decodable env st"
    and "\<And>n key c. decrypt_payload env (encrypt_payload env n (uv_vault uv) key c) key c = Some (uv_vault uv)"
    and "\<And>n key c. encrypted_ok 12 None (encrypt_payload env n (uv_vault uv) key c)"
  obtains m p t where "get_session env None w' = (Inr (Some (restored_session m p (uv_vault uv))), t)"
    "ses_sessionId m = sid" "ses_vaultId m = uv_vaultId uv" "mat_deviceId m = uv_deviceId uv"
    "mat_trustedSnapshotContext m = uv_trustedSnapshotContext uv"
    "mat_vaultTrustAnchor m = uv_vaultTrustAnchor uv" "ses_sourceSnapshotVersionVector p = v"
    "map (memory t) (take 4 (secret_buffers m)) = map (memory w) (vault_secrets uv)"
proof -
  obtain m p where m: "cachedMaterial w = Some (Some m)" "invalidationState w = No_invalidation"
    "area_payload w = Some (payload_record p)" "area_material w = Some (serializeUnlockedVaultSessionMaterial w m)"
    "ses_sessionId m = sid" "protects uv v (m, p)" "encrypts env w uv (m, p)"
    using assms(1) unfolding opened_def by blast
  let ?st = "serializeUnlockedVaultSessionMaterial w m"
  have area: "area_material w' = Some ?st" "area_payload w' = Some (payload_record p)"
    using assms(2) m(3,4) by (simp_all add: agree_storage_def)
  have cache: "cache_serves w' ?st" "invalidationState w' = No_invalidation"
    using assms(4) m(1,2) by (auto simp: cache_serves_def)
  have ids: "session_identity.truncate p = session_identity.truncate ?st"
    using m(6) by (simp add: protects_def serialize_identity)
  have vault: "decrypt_payload env (pay_content p) (mat_payloadKey ?st) (session_identity.truncate p) =
      Some (uv_vault uv)"
    using m(6,7) assms(7) by (auto simp: encrypts_def protects_def serializeUnlockedVaultSessionMaterial_def)
  have "encrypted_ok 12 None (pay_content p)"
    using m(7) assms(8) by (auto simp: encrypts_def)
  then have stored: "payload_ok p"
    using ids assms(6) [OF area(1)] by (auto simp: payload_ok_def truncate_eq_iff decodable_def decodeStoredMaterial_def Let_def)
  obtain r t m' where r: "get_session env None w' = (r, t)"
    "r = Inr (Some (restored_session m' p (uv_vault uv)))"
    "serializeUnlockedVaultSessionMaterial t m' = ?st"
    using get_reads_back [OF assms(5) area(1) assms(6) [OF area(1)] cache(1) assms(3) cache(2) area(2) stored ids vault]
    by (cases "get_session env None w'") (auto simp: wp_def)
  have "get_session env None w' = (Inr (Some (restored_session m' p (uv_vault uv))), t)"
    using r(1,2) by simp
  then show thesis
    by (rule that)
      (use r(3) m(5,6) in \<open>simp_all add: protects_def Let_def serializeUnlockedVaultSessionMaterial_def
        truncate_eq_iff take4_secrets secret_buffers_def vault_secrets_def\<close>)
qed

end
