(* ===== verification/Session_Properties.thy ===== *)
theory Session_Properties
  imports Session_Restoration Samples
begin

text \<open>
  The properties of the unlocked vault session, of the extension as a whole: any number of
  contexts over one storage, any sequence of requests, keys and restarts, and external calls that
  may fail before or after their effect. \<open>runs_to\<close> is such a sequence, \<open>lasts_to\<close> one in
  which no context is restarted.
\<close>

section \<open>Consequences of reachability\<close>

lemma fire_run: "fire env i q sys = (a, sys') \<Longrightarrow> run_request env q (sys i) = (a, sys' i)"
  by (auto simp: fire_def move_def split: prod.splits)

lemma fire_first: "fst (fire env i q sys) = fst (run_request env q (sys i))"
  by (simp add: fire_def split: prod.splits)

lemma fire_answer: "fst (run_request env q (sys i)) = a \<Longrightarrow> fire env i q sys = (a, snd (fire env i q sys))"
  by (simp add: fire_def split_beta)

lemma later_ok:
  assumes "volatile.system_ok env sys" "runs_to env sys sys'"
  shows "volatile.system_ok env sys'" "session_ok env (sys' i)" "shared_progress env (sys j) (sys' i)"
proof -
  have ok: "volatile.system_ok env sys'" "\<And>j. shared_progress env (sys j) (sys' j)"
    using volatile.reachable_ok [OF assms(2,1)] by auto
  then show "volatile.system_ok env sys'" "session_ok env (sys' i)"
    by (auto simp: volatile.system_ok_def context_ok_def)
  have "agree_storage (sys i) (sys j)" using assms(1) by (simp add: volatile.system_ok_def)
  with ok(2) [of i] show "shared_progress env (sys j) (sys' i)" by (simp add: agree_storage_views)
qed

lemma fired_ok:
  assumes "volatile.system_ok env sys" "request_ok q (sys i)" "fire env i q sys = (a, sys')"
  shows "volatile.system_ok env sys'" "shared_progress env (sys j) (sys' k)"
  using later_ok [OF assms(1) fire_runs [OF assms(2,3)]] by auto

lemma fired_kept:
  assumes "env_ok env" "session_ok env (sys i)" "request_ok q (sys i)" "fire env i q sys = (a, sys')"
  shows "kept env (sys i) (sys' i)"
  using request_kept [OF assms(1-3)] fire_run [OF assms(4)] by simp

lemma system_views:
  assumes "volatile.system_ok env sys"
  shows "epoch_of (sys i) = epoch_of (sys j)" "persisted_id (sys i) = persisted_id (sys j)"
    "area_material (sys i) = area_material (sys j)" "issued env (sys i) s = issued env (sys j) s"
  using assms agree_storage_views [of "sys i" "sys j"]
  by (auto simp: volatile.system_ok_def agree_storage_def)

lemma gone_session_stays_gone:
  assumes "env_ok env" "shared_progress env w w'" "issued env w s" "persisted_id w \<noteq> Some s"
  shows "persisted_id w' \<noteq> Some s"
  using assms new_id_not_issued [OF assms(1), of w] by (auto simp: shared_progress_def)

text \<open>The session that an answer hands out, if any.\<close>

definition handed :: "session_answer \<Rightarrow> string option" where
  "handed a = (case a of Session (Some s) \<Rightarrow> Some (us_sessionId s) | _ \<Rightarrow> None)"

lemma handed_out_views:
  assumes "handed_out env w s"
  shows "cached_id w = Some (us_sessionId s)" "persisted_id w = Some (us_sessionId s)"
  using assms
  by (auto simp: handed_out_def cached_id_def persisted_id_def restored_session_def same_session_def
      session_identity.truncate_def)

lemma handed_result:
  assumes "session_ok env (sys i)" "fire env i (Get lease) sys = (a, sys')" "handed a = Some sid"
  shows "cached_id (sys' i) = Some sid" "persisted_id (sys' i) = Some sid" "a \<noteq> Refused e"
proof -
  obtain s where s: "a = Session (Some s)" "us_sessionId s = sid"
    using assms(3) by (auto simp: handed_def split: session_answer.splits option.splits)
  with fire_run [OF assms(2)]
  have "run_request env (Get lease) (sys i) = (Session (Some s), sys' i)" by (simp only:)
  from session_result [OF assms(1) this] handed_out_views [of env "sys' i" s] s
  show "cached_id (sys' i) = Some sid" "persisted_id (sys' i) = Some sid" "a \<noteq> Refused e" by auto
qed

lemma authorized_result:
  assumes "session_ok env w" "run_request env q w = (Authorized auth, t)"
  shows "auth_sharedEpoch auth = epoch_of w"
proof -
  obtain v where "q = Require_vault_can_be_activated v"
    using run_request_answer(7) [OF assms(2) refl] by blast
  then show ?thesis
    using assms(2) wp_result [OF requireVaultCanBeActivated_spec [OF assms(1), of v]]
    by (auto dest!: answering_result split: sum.splits)
qed

section \<open>A concrete extension\<close>

text \<open>
  Identifiers of growing length and an encryption that hides nothing, with a ciphertext of the
  stored form; \<open>f\<close> says which external calls fail.
\<close>

definition sample_cipher :: SerializedEncrypted where
  "sample_cipher = \<lparr>enc_ciphertext = encodeBase64Url (replicate 32 7),
     enc_encryptionNonce = encodeBase64Url (replicate 12 7)\<rparr>"

lemma sample_cipher_ok [simp]: "encrypted_ok 12 None sample_cipher"
  unfolding encrypted_ok_def cipher_text_def canonical_text_iff sample_cipher_def
  by (auto intro: exI [of _ "replicate 32 7"] exI [of _ "replicate 12 7"])

definition sample_env :: "(nat \<Rightarrow> call_outcome) \<Rightarrow> session_env" where
  "sample_env f = \<lparr>call_outcome_at = f, generated_id = (\<lambda>n. replicate (Suc n) (CHR ''s'')),
     generated_key = (\<lambda>_. replicate 32 1),
     encrypt_payload = (\<lambda>_ _ _ _. sample_cipher),
     decrypt_payload = (\<lambda>_ _ _. Some sample_vault), importable_keys = (\<lambda>_. True)\<rparr>"

definition sample_digest :: string where
  "sample_digest = encodeBase64Url (replicate 32 7)"

definition sample_device :: DeviceTrustIdentity where
  "sample_device = \<lparr>dti_deviceId = ''A'', dti_publicSignKey = replicate 32 1,
     dti_publicVaultKey = replicate 65 1\<rparr>"

definition sample_unlocked :: "buffer \<Rightarrow> UnlockedVault" where
  "sample_unlocked b = \<lparr>uv_vaultId = ''V'', uv_deviceId = ''A'', uv_vault = sample_vault,
     uv_vaultMasterKey = b, uv_devicePrivateSignKey = b + 1, uv_devicePrivateVaultKey = b + 2,
     uv_deviceLocalProtectionKey = b + 3,
     uv_trustedSnapshotContext = \<lparr>tsc_snapshotDigest = sample_digest,
       tsc_trust = \<lparr>ts_generation = 0, ts_vaultKeyGeneration = 1, ts_certificateDigest = sample_digest,
         ts_trustedDevices = [sample_device]\<rparr>\<rparr>,
     uv_vaultTrustAnchor = \<lparr>an_version = 1, an_vaultId = ''V'', an_genesisDeviceId = ''A'',
       an_genesisPublicSignKey = replicate 32 1, an_genesisCertificateDigest = sample_digest\<rparr>\<rparr>"

abbreviation sample_auth :: "nat \<Rightarrow> nat \<Rightarrow> VaultSessionActivationAuthorization" where
  "sample_auth g e \<equiv> \<lparr>auth_localGeneration = g, auth_sharedEpoch = e\<rparr>"

lemma sample_env_ok [simp]: "env_ok (sample_env f)"
  by (auto simp: env_ok_def sample_env_def intact_def list_ex_iff inj_def dest: arg_cong [where f = length])

text \<open>The keys of the sample vault, made in context 0 of an idle extension.\<close>

definition sample_start :: "nat \<Rightarrow> unit session_world" where
  "sample_start = (\<lambda>i. idle ())(0 := (idle ())
     \<lparr>memory := (\<lambda>_. [])(0 := replicate 32 1, 1 := replicate 48 1, 2 := replicate 138 1, 3 := replicate 32 1),
      next_buffer := 4\<rparr>)"

lemma sample_start_reached: "runs_to (sample_env f) (\<lambda>i. idle ()) sample_start"
proof -
  let ?keys = "[replicate 32 1, replicate 48 1, replicate 138 1, replicate 32 1]"
  let ?w = "\<lambda>k. (idle ())\<lparr>memory := (\<lambda>b. if b < k then ?keys ! b else []), next_buffer := k\<rparr>"
  let ?sys = "\<lambda>k. (\<lambda>i. idle ())(0 := ?w k)"
  have next_key: "runs_to (sample_env f) (\<lambda>i. idle ()) (?sys (Suc k))"
    if "runs_to (sample_env f) (\<lambda>i. idle ()) (?sys k)" for k
  proof -
    have "move share_storage (?sys k) 0 (session_step (sample_env f) (Make_key (?keys ! k)) (?sys k 0)) = ?sys (Suc k)"
      by (auto simp: move_def allocate_def fun_eq_iff less_Suc_eq idle_def share_storage_def)
    with reaches.further [OF that, of "Make_key (?keys ! k)" 0] show ?thesis by simp
  qed
  have none: "?sys 0 = (\<lambda>i. idle ())" by (auto simp: fun_eq_iff idle_def)
  have "runs_to (sample_env f) (\<lambda>i. idle ()) (?sys 0)" unfolding none by (rule reaches.here)
  then have "runs_to (sample_env f) (\<lambda>i. idle ()) (?sys (Suc (Suc (Suc (Suc 0)))))"
    by (intro next_key)
  moreover have "?sys (Suc (Suc (Suc (Suc 0)))) = sample_start"
    by (auto simp: sample_start_def fun_eq_iff idle_def less_Suc_eq)
  ultimately show ?thesis by simp
qed


text \<open>The state of context 0 after the activation of the sample vault.\<close>

definition sample_material :: material where
  "sample_material = \<lparr>ses_sessionId = ''ssssss'', ses_vaultId = ''V'',
     ses_sourceSnapshotVersionVector = [(''A'', 1)], mat_deviceId = ''A'', mat_vaultMasterKey = 0,
     mat_devicePrivateSignKey = 1, mat_devicePrivateVaultKey = 2, mat_deviceLocalProtectionKey = 3,
     mat_payloadKey = 4, mat_trustedSnapshotContext = uv_trustedSnapshotContext (sample_unlocked 0),
     mat_vaultTrustAnchor = uv_vaultTrustAnchor (sample_unlocked 0)\<rparr>"

definition sample_payload :: EncryptedUnlockedVaultSessionPayload where
  "sample_payload = \<lparr>ses_sessionId = ''ssssss'', ses_vaultId = ''V'',
     ses_sourceSnapshotVersionVector = [(''A'', 1)], pay_content = sample_cipher\<rparr>"

lemma sample_payload_ok: "payload_ok sample_payload"
  by (simp add: payload_ok_def sample_payload_def safe_vector_def safe_integer_def nonBlank_def
      MAX_SAFE_INTEGER_def trim_solid is_js_space_def)

definition sample_open :: "unit session_world" where
  "sample_open = (sample_start 0)
     \<lparr>area_material := Some (serializeUnlockedVaultSessionMaterial
          ((sample_start 0)\<lparr>memory := (memory (sample_start 0))(4 := replicate 32 1)\<rparr>) sample_material),
      area_epoch := Some 1,
      area_payload := Some (payload_record sample_payload),
      clock := 10, memory := (memory (sample_start 0))(4 := replicate 32 1), next_buffer := 5,
      cachedMaterial := Some (Some sample_material), activationGeneration := 1, next_lease := 1\<rparr>"

abbreviation sample_activation :: "unit session_request" where
  "sample_activation \<equiv> Activate (sample_auth 0 0) (sample_unlocked 0) [(''A'', 1)] None"

lemmas session_evals = answering_def runCoordinatedSessionMutation_def runExclusive_def
  run_with_lease_def isLeaseActive_def external_def allocate_def callout_def sret_def sthrow_def
  sbind_def sthen_def stry_def scatch_def sfinally_def sread_def smodify_def srequire_def sfinish_def

lemmas reading_evals = requireVaultCanBeActivated_def getUnlockedVaultSessionEpoch_def
  readUnlockedVaultSessionEpoch_def getPersistedUnlockedVaultSessionIdentity_def
  reconcileActiveMaterial_def reconcile_cached_def getUnlockedVaultSessionMaterial_def

lemmas removal_evals = remove_session_def revokeAuthorizationsAndRemoveSessionRecords_def
  advanceUnlockedVaultSessionEpoch_def readUnlockedVaultSessionEpoch_def removeSessionRecords_def
  getUnlockedVaultSessionMaterial_def removeUnlockedVaultSessionMaterial_def
  removeEncryptedUnlockedVaultSessionPayload_def set_invalidation_def next_generation_def wipeMaterial_eq

lemma sample_activates:
  assumes "\<And>n. n < 10 \<Longrightarrow> f n = Succeeds"
  shows "run_request (sample_env f) sample_activation (sample_start 0) =
    (Activated (''ssssss''), sample_open)"
  using assms
  by (simp add: session_evals activate_def activateWithinSessionOperation_def require_activation_def
      require_current_authorization_def getUnlockedVaultSessionEpoch_def readUnlockedVaultSessionEpoch_def
      getPersistedUnlockedVaultSessionIdentity_def reconcileActiveMaterial_def reconcile_cached_def
      getUnlockedVaultSessionMaterial_def require_replaceable_def advanceUnlockedVaultSessionEpoch_def
      replace_or_remove_def replace_session_def protect_def generateUnlockedVaultSessionPayloadKey_def
      encryptUnlockedVaultSessionPayload_def persist_replacement_def persistProtectedSession_def
      saveEncryptedUnlockedVaultSessionPayload_def saveUnlockedVaultSessionMaterial_def Let_def
      sample_env_def sample_start_def sample_open_def sample_material_def sample_payload_def sample_unlocked_def idle_def
      next_generation_def set_invalidation_def session_context_def serializeUnlockedVaultSessionMaterial_def
      MAX_SAFE_INTEGER_def)

definition sample_system :: "nat \<Rightarrow> unit session_world" where
  "sample_system = move share_storage sample_start 0 sample_open"

lemma sample_system_contexts [simp]:
  "sample_system 0 = sample_open" "0 < i \<Longrightarrow> sample_system i = share_storage sample_open (idle ())"
  by (simp_all add: sample_system_def move_def sample_start_def)

lemma sample_usable: "usable (sample_start 0) (sample_unlocked 0)" "usable sample_open (sample_unlocked 0)"
  by (simp_all add: usable_def vault_secrets_def sample_unlocked_def sample_start_def sample_open_def
      sample_material_def idle_def intact_def list_ex_iff aligned_def less_four less_five secret_buffers_def)

lemma sample_fired:
  assumes "\<And>n. n < 10 \<Longrightarrow> f n = Succeeds"
  shows "fire (sample_env f) 0 sample_activation sample_start = (Activated ''ssssss'', sample_system)"
  by (simp only: fire_def sample_activates [OF assms] prod.case sample_system_def)

lemma sample_system_reached:
  assumes "\<And>n. n < 10 \<Longrightarrow> f n = Succeeds"
  shows "runs_to (sample_env f) (\<lambda>i. idle ()) sample_system"
  by (rule reaches_trans [OF sample_start_reached fire_runs [OF _ sample_fired [OF assms]]])
    (simp_all add: sample_usable)

lemma sample_digest_ok: "digest_text sample_digest"
proof -
  have "CHR ''='' \<notin> set sample_digest"
    using encode_alphabet [of "replicate 32 7"] by (auto simp: sample_digest_def B64URLABC_def)
  moreover have "decodeBase64Url sample_digest = Inr (replicate 32 7)"
    using decode_padded [of 0 "replicate 32 7"] by (simp add: sample_digest_def)
  ultimately show ?thesis
    by (simp add: digest_text_def canonical_text_def) (simp add: sample_digest_def)
qed

lemma sample_decodable: "area_material sample_open = Some st \<Longrightarrow> decodable (sample_env f) st"
  using sample_digest_ok
  by (auto simp: sample_open_def sample_start_def sample_material_def sample_unlocked_def sample_device_def
      sample_env_def decodable_def decodeStoredMaterial_def safe_vector_def nonBlank_def
      safe_integer_def decodeTrustedSnapshotContext_def decodeVaultTrustAnchor_def Let_def
      serializeUnlockedVaultSessionMaterial_def MAX_SAFE_INTEGER_def trim_solid is_js_space_def)

abbreviation calm :: session_env where
  "calm \<equiv> sample_env (\<lambda>_. Succeeds)"

lemma calm_succeeds [simp]: "succeeding calm w"
  by (simp add: succeeding_def sample_env_def)

lemma calm_start [simp]: "runs_to calm (\<lambda>i. idle ()) sample_system"
  by (rule sample_system_reached) simp

lemma sample_reads:
  obtains s sys' where "fire calm 1 (Get None) sample_system = (Session (Some s), sys')"
    "us_sessionId s = ''ssssss''"
proof -
  let ?w = "share_storage sample_open (idle ())"
  let ?p = sample_payload
  obtain st where st: "area_material ?w = Some st" "area_payload ?w = Some (payload_record ?p)"
    "session_identity.truncate ?p = session_identity.truncate st"
    by (simp add: sample_open_def serialize_identity)
      (simp add: sample_material_def sample_payload_def session_identity.truncate_def)
  have "cache_serves ?w st" "invalidationState ?w = No_invalidation"
    by (simp_all add: cache_serves_def idle_def)
  moreover have "session_ok calm ?w"
    using runs_ok(2) [OF sample_env_ok calm_start, of 1] by simp
  moreover have "decrypt_payload calm (pay_content ?p) (mat_payloadKey st) (session_identity.truncate ?p) =
      Some sample_vault"
    by (simp add: sample_env_def)
  moreover have "decodable calm st" using sample_decodable st(1) by simp
  ultimately obtain r t m where "get_session calm None ?w = (r, t)"
    "r = Inr (Some (restored_session m ?p sample_vault))" "serializeUnlockedVaultSessionMaterial t m = st"
    using get_reads_back [OF calm_succeeds st(1) _ _ _ _ st(2) sample_payload_ok st(3)]
    by (cases "get_session calm None ?w") (auto simp: wp_def)
  moreover from this have "ses_sessionId m = ''ssssss''"
    using st(1) by (auto simp: sample_open_def sample_material_def serializeUnlockedVaultSessionMaterial_def)
  ultimately show thesis
    by (intro that [of "restored_session m ?p sample_vault" "move share_storage sample_system 1 t"])
      (simp_all add: fire_def answering_def restored_session_def)
qed

section \<open>What a caller gets\<close>

text \<open>
  C6: no use after a wipe. Whatever requests the contexts have made and whichever calls have
  failed, a session that \<open>get\<close> hands out has keys that are distinct and not zeroed, it is the session
  whose records are stored at that moment, and its vault is what the stored payload decrypts to.
\<close>

theorem handed_out_session_is_live:
  assumes "env_ok env" "runs_to env (\<lambda>i. idle (out i)) sys"
    and "fire env i (Get lease) sys = (Session (Some s), sys')"
  shows "distinct (vault_secrets (us_unlockedVault s)) \<and>
    list_all (\<lambda>b. intact (memory (sys' i) b)) (vault_secrets (us_unlockedVault s)) \<and>
    (\<exists>st row p key. area_material (sys' i) = Some st \<and>
       area_payload (sys' i) = Some row \<and> read_payload_record row = Inr p \<and>
       ses_sessionId st = us_sessionId s \<and> ses_sessionId p = us_sessionId s \<and>
       ses_vaultId st = uv_vaultId (us_unlockedVault s) \<and>
       decrypt_payload env (pay_content p) key (session_identity.truncate p) =
         Some (uv_vault (us_unlockedVault s)))"
proof -
  note out = session_result [OF runs_ok(2) [OF assms(1,2)] fire_run [OF assms(3)]]
  then obtain m p st row vault where m: "cachedMaterial (sys' i) = Some (Some m)"
    "area_material (sys' i) = Some st" "area_payload (sys' i) = Some row"
    "read_payload_record row = Inr p" "records_match m p"
    "same_session m (session_identity.truncate st)" "s = restored_session m p vault"
    "decrypt_payload env (pay_content p) (memory (sys' i) (mat_payloadKey m))
       (session_identity.truncate p) = Some vault"
    unfolding handed_out_def by blast
  have "live_material (sys' i) m" using out m(1) by (simp add: session_ok_def cache_ok_def)
  then have "distinct (vault_secrets (us_unlockedVault s)) \<and>
      list_all (\<lambda>b. intact (memory (sys' i) b)) (vault_secrets (us_unlockedVault s))"
    by (simp add: m(7) restored_session_def live_material_def vault_secrets_def secret_buffers_def)
  with m show ?thesis
    by (auto simp: restored_session_def records_match_def same_session_def session_identity.truncate_def)
qed

theorem handed_out_session_is_live_witness:
  "\<exists>s sys'. fire calm 1 (Get None) sample_system = (Session (Some s), sys') \<and>
     list_all (\<lambda>b. intact (memory (sys' 1) b)) (vault_secrets (us_unlockedVault s))"
proof -
  obtain s sys' where f: "fire calm 1 (Get None) sample_system = (Session (Some s), sys')"
    by (rule sample_reads)
  from handed_out_session_is_live [OF sample_env_ok calm_start f] f show ?thesis by auto
qed

text \<open>
  C7: an activation is read back. If an activation succeeds, then the same context, or one that has
  nothing cached, gets that session: its identity, its vault, its snapshot vector, its trust, and
  the bytes of its keys. The material and the payload go through their stored records, whose readers
  check them. Assumed are that the calls of this read succeed, that decryption inverts encryption on
  this vault and ciphertexts have the documented form (base64url, a nonce of 12 bytes, at least 17
  bytes of ciphertext), and that the material satisfies what its storage format requires.
\<close>

theorem activation_is_read_back:
  assumes "env_ok env" "runs_to env (\<lambda>i. idle (out i)) sys" "request_ok q (sys i)"
    and "activation_of q = Some (auth, uv, v)" "fire env i q sys = (Activated sid, sys1)"
    and "j = i \<or> cachedMaterial (sys1 j) = None \<and> invalidationState (sys1 j) = No_invalidation"
    and "succeeding env (sys1 j)" "\<And>st. area_material (sys1 j) = Some st \<Longrightarrow> decodable env st"
    and "\<And>n key c. decrypt_payload env (encrypt_payload env n (uv_vault uv) key c) key c = Some (uv_vault uv)"
    and "\<And>n key c. encrypted_ok 12 None (encrypt_payload env n (uv_vault uv) key c)"
  shows "\<exists>s sys2. fire env j (Get None) sys1 = (Session (Some s), sys2) \<and> us_sessionId s = sid \<and>
    us_sourceSnapshotVersionVector s = v \<and> uv_vault (us_unlockedVault s) = uv_vault uv \<and>
    uv_vaultId (us_unlockedVault s) = uv_vaultId uv \<and>
    uv_deviceId (us_unlockedVault s) = uv_deviceId uv \<and>
    uv_trustedSnapshotContext (us_unlockedVault s) = uv_trustedSnapshotContext uv \<and>
    uv_vaultTrustAnchor (us_unlockedVault s) = uv_vaultTrustAnchor uv \<and>
    map (memory (sys2 j)) (vault_secrets (us_unlockedVault s)) = map (memory (sys1 i)) (vault_secrets uv)"
proof -
  note sys = runs_ok [OF assms(1,2)]
  have sys1: "volatile.system_ok env sys1" by (rule fired_ok [OF sys(1) assms(3,5)])
  then have ok: "session_ok env (sys1 j)" "agree_storage (sys1 i) (sys1 j)"
    by (simp_all add: volatile.system_ok_def context_ok_def)
  from activated_result [OF assms(1) sys(2) assms(3) fire_run [OF assms(5)]] assms(4)
  have "opened env uv v sid (sys1 i)" by auto
  moreover have "sys1 j = sys1 i \<or> cachedMaterial (sys1 j) = None \<and> invalidationState (sys1 j) = No_invalidation"
    using assms(6) by blast
  ultimately obtain m p t where r: "get_session env None (sys1 j) = (Inr (Some (restored_session m p (uv_vault uv))), t)"
    "ses_sessionId m = sid" "ses_vaultId m = uv_vaultId uv" "mat_deviceId m = uv_deviceId uv"
    "mat_trustedSnapshotContext m = uv_trustedSnapshotContext uv"
    "mat_vaultTrustAnchor m = uv_vaultTrustAnchor uv" "ses_sourceSnapshotVersionVector p = v"
    "map (memory t) (take 4 (secret_buffers m)) = map (memory (sys1 i)) (vault_secrets uv)"
    by (rule opened_reads_back [OF _ ok(2,1) _ assms(7-10)])
  let ?sys2 = "move share_storage sys1 j t"
  have "fire env j (Get None) sys1 = (Session (Some (restored_session m p (uv_vault uv))), ?sys2)"
    "?sys2 j = t"
    using r(1) by (simp_all add: fire_def answering_def move_def)
  then show ?thesis
    using r(2-8) by (simp add: restored_session_def vault_secrets_def secret_buffers_def)
qed

theorem activation_is_read_back_witness:
  "\<exists>s sys2. fire calm 1 (Get None) sample_system = (Session (Some s), sys2) \<and>
     uv_vault (us_unlockedVault s) = sample_vault"
proof -
  have "runs_to calm (\<lambda>i. idle ()) sample_start" by (rule sample_start_reached)
  moreover have "request_ok sample_activation (sample_start 0)" by (simp add: sample_usable)
  moreover have "activation_of sample_activation = Some (sample_auth 0 0, sample_unlocked 0, [(''A'', 1)])"
    by simp
  moreover have "fire calm 0 sample_activation sample_start = (Activated ''ssssss'', sample_system)"
    by (rule sample_fired) simp
  moreover have "cachedMaterial (sample_system 1) = None" "invalidationState (sample_system 1) = No_invalidation"
    by (simp_all add: idle_def)
  moreover have "area_material (sample_system 1) = Some st \<Longrightarrow> decodable calm st" for st
    by (rule sample_decodable) simp
  moreover have "decrypt_payload calm (encrypt_payload calm n (uv_vault (sample_unlocked 0)) key c) key c =
      Some (uv_vault (sample_unlocked 0))" for n key c
    by (simp add: sample_env_def sample_unlocked_def)
  moreover have "encrypted_ok 12 None (encrypt_payload calm n (uv_vault (sample_unlocked 0)) key c)" for n key c
    by (simp add: sample_env_def)
  ultimately have "\<exists>s sys2. fire calm 1 (Get None) sample_system = (Session (Some s), sys2) \<and>
      us_sessionId s = ''ssssss'' \<and> us_sourceSnapshotVersionVector s = [(''A'', 1)] \<and>
      uv_vault (us_unlockedVault s) = uv_vault (sample_unlocked 0) \<and>
      uv_vaultId (us_unlockedVault s) = uv_vaultId (sample_unlocked 0) \<and>
      uv_deviceId (us_unlockedVault s) = uv_deviceId (sample_unlocked 0) \<and>
      uv_trustedSnapshotContext (us_unlockedVault s) = uv_trustedSnapshotContext (sample_unlocked 0) \<and>
      uv_vaultTrustAnchor (us_unlockedVault s) = uv_vaultTrustAnchor (sample_unlocked 0) \<and>
      map (memory (sys2 1)) (vault_secrets (us_unlockedVault s)) =
        map (memory (sample_system 0)) (vault_secrets (sample_unlocked 0))"
    by (intro activation_is_read_back [OF sample_env_ok]) (assumption | simp)+
  then show ?thesis by (auto simp: sample_unlocked_def)
qed

section \<open>Locking\<close>

text \<open>
  C8: a lock that succeeds is final everywhere. After a removal, a cleanup that answers
  \<open>removed\<close> or a discard that answers \<open>discarded\<close>, in any context, no session that existed before
  is ever handed out again by any context, whatever was cached there, restarts included.
\<close>

theorem locked_session_is_gone_everywhere:
  assumes "env_ok env" "runs_to env (\<lambda>i. idle (out i)) sys" "issued env (sys i) sid"
    and "request_ok q (sys i)" "fire env i q sys = (a, sys1)" "locking q a"
    and "runs_to env sys1 sys2"
  shows "handed (fst (fire env j (Get lease) sys2)) \<noteq> Some sid"
proof
  assume h: "handed (fst (fire env j (Get lease) sys2)) = Some sid"
  note sys = runs_ok [OF assms(1,2)]
  have sys1: "volatile.system_ok env sys1" "shared_progress env (sys i) (sys1 i)"
    using fired_ok [OF sys(1) assms(4,5)] by auto
  have sys2: "volatile.system_ok env sys2" "session_ok env (sys2 j)" "shared_progress env (sys1 i) (sys2 j)"
    using later_ok [OF sys1(1) assms(7)] by auto
  obtain b sys3 where f: "fire env j (Get lease) sys2 = (b, sys3)" by (cases "fire env j (Get lease) sys2")
  have "area_material (sys1 i) = None"
    using locking_result [OF sys(2) fire_run [OF assms(5)] assms(6)] by simp
  then have gone: "persisted_id (sys1 i) \<noteq> Some sid" by (simp add: persisted_id_def)
  have "issued env (sys1 i) sid"
    by (rule issued_mono [OF assms(3)]) (use sys1(2) in \<open>simp add: shared_progress_def\<close>)
  moreover have "shared_progress env (sys1 i) (sys3 j)"
    by (rule shared_progress_trans [OF sys2(3)], rule fired_ok(2) [OF sys2(1) _ f]) simp
  ultimately have "persisted_id (sys3 j) \<noteq> Some sid" using gone_session_stays_gone [OF assms(1)] gone by blast
  then show False using handed_result(2) [OF sys2(2) f] h f by simp
qed

theorem locked_session_is_gone_everywhere_witness:
  "handed (fst (fire calm 1 (Get None) (snd (fire calm 0 (Remove None) sample_system)))) \<noteq> Some ''ssssss''"
proof -
  have "fst (run_request calm (Remove None) (sample_system 0)) = Finished"
    by (simp add: session_evals removal_evals sample_env_def sample_open_def MAX_SAFE_INTEGER_def)
  from fire_answer [where sys = sample_system and i = 0, OF this]
  have "fire calm 0 (Remove None) sample_system = (Finished, snd (fire calm 0 (Remove None) sample_system))" .
  moreover have "issued calm (sample_system 0) ''ssssss''"
    by (auto simp: issued_def sample_open_def sample_env_def eval_nat_numeral intro!: exI [of _ 5])
  ultimately show ?thesis
    by (intro locked_session_is_gone_everywhere [OF sample_env_ok calm_start _ _ _ _ reaches.here])
      (auto simp: locking_def)
qed

text \<open>
  C9: a lock holds even if it fails. Once a context has asked for the removal of its session, it
  never hands that session out again (unless it is restarted), even if every call to the storage
  failed and the records are still there. Only a request under a lease that is no longer active
  does nothing.
\<close>

theorem failed_lock_still_locks:
  assumes "env_ok env" "runs_to env (\<lambda>i. idle (out i)) sys" "holds sid (sys i)"
    and "fire env i (Remove lease) sys = (a, sys1)" "a \<noteq> Refused Lease_not_active"
    and "lasts_to env sys1 sys2"
  shows "handed (fst (fire env i (Get lease') sys2)) \<noteq> Some sid"
proof
  assume h: "handed (fst (fire env i (Get lease') sys2)) = Some sid"
  note sys = runs_ok [OF assms(1,2)]
  obtain b sys3 where f: "fire env i (Get lease') sys2 = (b, sys3)" by (cases "fire env i (Get lease') sys2")
  have "issued env (sys i) sid"
    using assms(3) sys(2)
    by (auto simp: holds_def cached_id_def persisted_id_def session_ok_def cache_ok_def area_ok_def
        split: option.splits)
  moreover have "kept env (sys i) (sys1 i)" by (rule fired_kept [OF assms(1) sys(2) _ assms(4)]) simp
  then have kept: "session_progress env (sys i) (sys1 i)" by (simp add: kept_def)
  ultimately have issued: "issued env (sys1 i) sid"
    by (auto simp: session_progress_def shared_progress_def intro: issued_mono)
  have "answering (\<lambda>_. Finished) (remove_session env lease) (sys i) = (a, sys1 i)"
    using fire_run [OF assms(4)] by simp
  from answering_result [OF this]
  have "dead sid (sys1 i)"
    using wp_result [OF remove_session_spec [OF sys(2)]] assms(3,5) by (fastforce split: sum.splits)
  moreover have "volatile.system_ok env sys1" by (rule fired_ok [OF sys(1) _ assms(4)]) simp
  then have sys2: "session_progress env (sys1 i) (sys2 i)" "volatile.system_ok env sys2"
    using lasting.reachable_ok [OF assms(6)] by simp_all
  ultimately have dead: "dead sid (sys2 i)" "issued env (sys2 i) sid"
    using issued by (auto simp: session_progress_def shared_progress_def intro: issued_mono)
  have ok: "session_ok env (sys2 i)" using sys2(2) by (simp add: volatile.system_ok_def context_ok_def)
  have "kept env (sys2 i) (sys3 i)" by (rule fired_kept [OF assms(1) ok _ f]) simp
  then have "session_progress env (sys2 i) (sys3 i)" by (simp add: kept_def)
  with dead have "cached_id (sys3 i) \<noteq> Some sid" by (auto simp: session_progress_def dead_def)
  then show False using handed_result(1) [OF ok f] h f by simp
qed

definition storm :: session_env where
  "storm = sample_env (\<lambda>n. if n = 10 \<or> n = 11 \<or> n = 12 then Fails_before else Succeeds)"

theorem failed_lock_still_locks_witness:
  "handed (fst (fire storm 0 (Get None) (snd (fire storm 0 (Remove None) sample_system)))) \<noteq> Some ''ssssss''"
proof -
  have start: "runs_to storm (\<lambda>i. idle ()) sample_system"
    unfolding storm_def by (rule sample_system_reached) simp
  have "fst (run_request storm (Remove None) (sample_system 0)) = Refused (External_failure 10)"
    by (simp add: session_evals removal_evals storm_def sample_env_def sample_open_def MAX_SAFE_INTEGER_def)
  note f = fire_answer [where sys = sample_system and i = 0, OF this]
  have "env_ok storm" by (simp add: storm_def)
  moreover have "holds ''ssssss'' (sample_system 0)"
    by (simp add: holds_def cached_id_def sample_open_def sample_material_def)
  ultimately show ?thesis
    by (intro failed_lock_still_locks [OF _ start _ f]) (assumption | simp add: reaches.here)+
qed

section \<open>Authorizations\<close>

text \<open>
  C10: an activation authorization is spent by whatever happens after it. Once any context has
  activated, committed, persisted under the session, or locked, an authorization that was issued
  before cannot activate a vault, in any context.
\<close>

theorem authorization_is_spent:
  assumes "env_ok env" "runs_to env (\<lambda>i. idle (out i)) sys"
    and "fire env i (Require_vault_can_be_activated vaultId) sys = (Authorized auth, sys1)"
    and "runs_to env sys1 sys2" "request_ok q (sys2 j)" "fire env j q sys2 = (a, sys3)" "spending q a"
    and "runs_to env sys3 sys4" "request_ok q' (sys4 k)" "activation_of q' = Some (auth, uv, v)"
  shows "fst (fire env k q' sys4) \<noteq> Activated sid"
proof
  assume "fst (fire env k q' sys4) = Activated sid"
  then obtain t where act: "run_request env q' (sys4 k) = (Activated sid, t)"
    by (cases "run_request env q' (sys4 k)") (simp add: fire_first)
  note sys = runs_ok [OF assms(1,2)]
  have sys1: "volatile.system_ok env sys1" "shared_progress env (sys i) (sys1 j)"
    using fired_ok [OF sys(1) _ assms(3)] by auto
  have sys2: "volatile.system_ok env sys2" "session_ok env (sys2 j)" "shared_progress env (sys1 j) (sys2 j)"
    using later_ok [OF sys1(1) assms(4)] by auto
  have sys3: "volatile.system_ok env sys3" using fired_ok [OF sys2(1) assms(5,6)] by auto
  have sys4: "session_ok env (sys4 k)" "shared_progress env (sys3 j) (sys4 k)"
    using later_ok [OF sys3 assms(8)] by auto
  have "auth_sharedEpoch auth = epoch_of (sys i)"
    by (rule authorized_result [OF sys(2) fire_run [OF assms(3)]])
  also have "\<dots> \<le> epoch_of (sys2 j)"
    using sys1(2) sys2(3) by (simp add: shared_progress_def)
  also have "\<dots> < epoch_of (sys3 j)"
    by (rule spending_result [OF assms(1) sys2(2) assms(5) fire_run [OF assms(6)] assms(7)])
  also have "\<dots> \<le> epoch_of (sys4 k)" using sys4(2) by (simp add: shared_progress_def)
  finally have "auth_sharedEpoch auth \<noteq> epoch_of (sys4 k)" by simp
  with activated_result [OF assms(1) sys4(1) assms(9) act] assms(10) show False by auto
qed

theorem authorization_is_spent_witness:
  "fst (fire calm 0 sample_activation
     (snd (fire calm 1 (Remove None)
        (snd (fire calm 1 (Require_vault_can_be_activated ''V'') sample_start))))) \<noteq> Activated ''ssssss''"
proof -
  let ?s1 = "snd (fire calm 1 (Require_vault_can_be_activated ''V'') sample_start)"
  let ?s2 = "snd (fire calm 1 (Remove None) ?s1)"
  have "run_request calm (Require_vault_can_be_activated ''V'') (idle ()) =
      (Authorized (sample_auth 0 0), (idle ())\<lparr>clock := 3, next_lease := 1\<rparr>)"
    by (simp add: session_evals reading_evals sample_env_def idle_def)
  then have s1: "fire calm 1 (Require_vault_can_be_activated ''V'') sample_start =
      (Authorized (sample_auth 0 0), ?s1)" "?s1 1 = (idle ())\<lparr>clock := 3, next_lease := 1\<rparr>"
    "\<exists>t. ?s1 0 = share_storage t (sample_start 0)"
    by (auto simp: fire_def sample_start_def move_def simp del: run_request.simps)
  have "fst (run_request calm (Remove None) (?s1 1)) = Finished"
    unfolding s1(2)
    by (simp add: session_evals removal_evals sample_env_def idle_def MAX_SAFE_INTEGER_def)
  note s2 = fire_answer [where sys = ?s1 and i = 1, OF this]
  have "usable (share_storage t w) uv = usable w uv" for t w :: "unit session_world" and uv
    by (simp add: usable_def)
  moreover have "\<exists>t. ?s2 0 = share_storage t (?s1 0)"
    by (simp add: fire_def split_beta move_def del: run_request.simps) blast
  ultimately have "usable (?s2 0) (sample_unlocked 0)" using s1(3) sample_usable(1) by auto
  then show ?thesis
    by (intro authorization_is_spent [OF sample_env_ok sample_start_reached s1(1) reaches.here _ s2 _ reaches.here])
      (auto simp: spending_def locking_def)
qed

text \<open>
  C20: one vault at a time. While a session of a vault is stored, no context can be authorized for,
  or activate, another vault.
\<close>

theorem second_vault_is_refused:
  assumes "env_ok env" "runs_to env (\<lambda>i. idle (out i)) sys" "area_material (sys i) = Some st"
    and "ses_vaultId st \<noteq> vaultId"
  shows "fst (fire env i (Require_vault_can_be_activated vaultId) sys) \<noteq> Authorized auth \<and>
    (request_ok q (sys i) \<and> activation_of q = Some (auth, uv, v) \<and> uv_vaultId uv = vaultId \<longrightarrow>
       fst (fire env i q sys) \<noteq> Activated sid)"
proof (intro conjI impI notI)
  note ok = runs_ok(2) [OF assms(1,2)]
  assume "fst (fire env i (Require_vault_can_be_activated vaultId) sys) = Authorized auth"
  then show False
    using wp_result [OF requireVaultCanBeActivated_spec [OF ok, where vaultId = vaultId]] assms(3,4)
    by (cases "requireVaultCanBeActivated env vaultId (sys i)")
      (auto simp: fire_first answering_def split: sum.splits)
next
  note ok = runs_ok(2) [OF assms(1,2)]
  assume q: "request_ok q (sys i) \<and> activation_of q = Some (auth, uv, v) \<and> uv_vaultId uv = vaultId"
    and "fst (fire env i q sys) = Activated sid"
  then obtain t where "run_request env q (sys i) = (Activated sid, t)"
    by (cases "run_request env q (sys i)") (simp add: fire_first)
  from activated_result [OF assms(1) ok _ this] q assms(3,4) show False by auto
qed

theorem second_vault_is_refused_witness:
  "fst (fire calm 0 (Require_vault_can_be_activated ''W'') sample_system) \<noteq> Authorized (sample_auth 1 1) \<and>
   fst (fire calm 0 (Activate (sample_auth 1 1) (sample_unlocked 0\<lparr>uv_vaultId := ''W''\<rparr>) [] None) sample_system)
     \<noteq> Activated ''s''"
proof -
  obtain st where "area_material (sample_system 0) = Some st" "ses_vaultId st \<noteq> ''W''"
    by (simp add: sample_open_def sample_material_def)
  note refused = second_vault_is_refused [OF sample_env_ok calm_start this]
  have "usable sample_open (sample_unlocked 0\<lparr>uv_vaultId := ''W''\<rparr>)"
    using sample_usable(2) by (simp add: usable_def vault_secrets_def aligned_def)
  with refused [where q = "Activate (sample_auth 1 1) (sample_unlocked 0\<lparr>uv_vaultId := ''W''\<rparr>) [] None"]
  show ?thesis by simp
qed

section \<open>Leases\<close>

fun request_lease :: "'o session_request \<Rightarrow> nat option" where
  "request_lease (Require_vault_can_be_activated vaultId) = None"
| "request_lease (Get lease) = lease"
| "request_lease (Get_active_vault_id lease) = lease"
| "request_lease (Run_with_unlocked_vault vaultId operation run lease) = lease"
| "request_lease (Persist_for_active_session sessionId vaultId operation lease) = lease"
| "request_lease (Restore_persisted_state sessionId vaultId v callback lease) = lease"
| "request_lease (Discard_if_session_is_active sessionId vaultId g v before discard lease) = lease"
| "request_lease (Activate auth uv v lease) = lease"
| "request_lease (Activate_with_auto_lock auth uv v install rollback lease) = lease"
| "request_lease (Commit_persisted_snapshot sessionId uv v lease) = lease"
| "request_lease (Commit_persisted_snapshot_if_active sessionId uv v lease) = lease"
| "request_lease (Remove lease) = lease"
| "request_lease (Cleanup_active_session vaultId b before after always lease) = lease"

text \<open>
  A request under a lease that is not active changes nothing and is refused.
\<close>

theorem inactive_lease_is_refused:
  assumes "request_lease q = Some lease" "lease \<notin> set (activeLeases w)"
  shows "run_request env q w = (Refused Lease_not_active, w) \<or>
    run_request env q w = (Restoration Rollback_failed, w)"
  using assms
  by (cases q) (simp_all add: session_evals get_session_def getActiveVaultId_def
      runWithUnlockedVaultContext_def persistForActiveSession_def restorePersistedState_def
      discardIfSessionIsActive_def activate_def activateWithAutoLock_def commitPersistedSnapshot_def
      commitPersistedSnapshotIfSessionIsActive_def remove_session_def cleanupActiveSession_def)

theorem inactive_lease_is_refused_witness:
  "run_request calm (Remove (Some 7)) (idle ()) = (Refused Lease_not_active, idle ())"
  using inactive_lease_is_refused [of "Remove (Some 7)" 7 "idle ()" calm]
  by (simp add: answering_def idle_def split: prod.splits sum.splits)

end
