(* ===== verification/Snapshot_Codec.thy ===== *)
theory Snapshot_Codec
  imports Artifact_Codec Vault_Trust
begin

text \<open>
  The JSON form of snapshots and of the local security records
  (\<open>apps/extension/src/adapters/codecs/vault-snapshot.codec.ts\<close>, \<open>local-vault-security.codec.ts\<close>
  and \<open>sync-credential.codec.ts\<close>). For every artifact there is a predicate of the values the
  decoder accepts and two facts: reading back what was written gives the value with its version
  vectors sorted, exactly if the value is accepted, and everything read is accepted.
\<close>

section \<open>Trust anchors and certificates\<close>

definition decodeTrustAnchor :: "json \<Rightarrow> LocalVaultTrustAnchor option" where
  "decodeTrustAnchor value =
     do { record \<leftarrow> exactRecord [''version'', ''vaultId'', ''genesisDeviceId'', ''genesisPublicSignKey'',
            ''genesisCertificateDigest''] [] value;
          if map_of record ''version'' \<noteq> Some (JNum 1) then None
          else do {
            vaultId \<leftarrow> property_of record ''vaultId'' nonBlankString;
            genesisDeviceId \<leftarrow> property_of record ''genesisDeviceId'' nonBlankString;
            publicSignKey \<leftarrow> property_of record ''genesisPublicSignKey'' (\<lambda>v. decodeCanonicalBytes v (Some 32));
            digest \<leftarrow> property_of record ''genesisCertificateDigest'' canonicalDigest;
            Some \<lparr>an_version = 1, an_vaultId = vaultId, an_genesisDeviceId = genesisDeviceId,
                  an_genesisPublicSignKey = publicSignKey, an_genesisCertificateDigest = digest\<rparr> } }"

definition encodeTrustAnchor :: "LocalVaultTrustAnchor \<Rightarrow> json" where
  "encodeTrustAnchor value = JObj
     [(''version'', JNum (an_version value)), (''vaultId'', JStr (an_vaultId value)),
      (''genesisDeviceId'', JStr (an_genesisDeviceId value)),
      (''genesisPublicSignKey'', encodeBytes (an_genesisPublicSignKey value)),
      (''genesisCertificateDigest'', JStr (an_genesisCertificateDigest value))]"

definition decodeTrustedDevice :: "json \<Rightarrow> DeviceTrustIdentity option" where
  "decodeTrustedDevice value =
     do { device \<leftarrow> exactRecord [''deviceId'', ''publicSignKey'', ''publicVaultKey''] [] value;
          deviceId \<leftarrow> property_of device ''deviceId'' nonBlankString;
          publicSignKey \<leftarrow> property_of device ''publicSignKey'' (\<lambda>v. decodeCanonicalBytes v (Some 32));
          publicVaultKey \<leftarrow> property_of device ''publicVaultKey'' (\<lambda>v. decodeCanonicalBytes v (Some 65));
          Some \<lparr>dti_deviceId = deviceId, dti_publicSignKey = publicSignKey,
                dti_publicVaultKey = publicVaultKey\<rparr> }"

definition encodeTrustedDevice :: "DeviceTrustIdentity \<Rightarrow> json" where
  "encodeTrustedDevice device = JObj
     [(''deviceId'', JStr (dti_deviceId device)),
      (''publicSignKey'', encodeBytes (dti_publicSignKey device)),
      (''publicVaultKey'', encodeBytes (dti_publicVaultKey device))]"

definition decodeTrustCertificate :: "json \<Rightarrow> VaultTrustCertificate option" where
  "decodeTrustCertificate value =
     do { record \<leftarrow> exactRecord [''payload'', ''signature''] [] value;
          payload \<leftarrow> property_of record ''payload'' (exactRecord [''version'', ''vaultId'', ''generation'',
            ''vaultKeyGeneration'', ''previousCertificateDigest'', ''authorizedByDeviceId'',
            ''trustedDevices''] []);
          if map_of payload ''version'' \<noteq> Some (JNum 1) then None
          else do {
            trustedDevices \<leftarrow> property_of payload ''trustedDevices'' (array_of decodeTrustedDevice);
            if length (js_set (map dti_deviceId trustedDevices)) \<noteq> length trustedDevices then None
            else do {
              previous \<leftarrow> property_of payload ''previousCertificateDigest'' (nullable canonicalDigest);
              vaultId \<leftarrow> property_of payload ''vaultId'' nonBlankString;
              generation \<leftarrow> property_of payload ''generation'' (safeInteger 0);
              vaultKeyGeneration \<leftarrow> property_of payload ''vaultKeyGeneration'' (safeInteger 1);
              authorizer \<leftarrow> property_of payload ''authorizedByDeviceId'' nonBlankString;
              signature \<leftarrow> property_of record ''signature'' decodeSignature;
              Some \<lparr>cert_payload =
                      \<lparr>tc_version = 1, tc_vaultId = vaultId, tc_generation = generation,
                       tc_vaultKeyGeneration = vaultKeyGeneration,
                       tc_previousCertificateDigest = previous, tc_authorizedByDeviceId = authorizer,
                       tc_trustedDevices = trustedDevices\<rparr>,
                    cert_signature = signature\<rparr> } } }"

definition nullable_text :: "string option \<Rightarrow> json" where
  "nullable_text s = (case s of None \<Rightarrow> JNull | Some s \<Rightarrow> JStr s)"

definition encodeTrustCertificate :: "VaultTrustCertificate \<Rightarrow> json" where
  "encodeTrustCertificate value =
     (let p = cert_payload value in JObj
       [(''payload'', JObj
           [(''version'', JNum (tc_version p)), (''vaultId'', JStr (tc_vaultId p)),
            (''generation'', JNum (tc_generation p)),
            (''vaultKeyGeneration'', JNum (tc_vaultKeyGeneration p)),
            (''previousCertificateDigest'', nullable_text (tc_previousCertificateDigest p)),
            (''authorizedByDeviceId'', JStr (tc_authorizedByDeviceId p)),
            (''trustedDevices'', JArr (map encodeTrustedDevice (tc_trustedDevices p)))]),
        (''signature'', encodeSignature (cert_signature value))])"

section \<open>Key slots\<close>

definition decodeDeviceKeySlot :: "json \<Rightarrow> DeviceKeySlot option" where
  "decodeDeviceKeySlot value =
     do { record \<leftarrow> exactRecord [''deviceId'', ''vaultKeyGeneration'', ''envelope''] [] value;
          envelope \<leftarrow> property_of record ''envelope'' (exactRecord [''recipientDeviceId'',
            ''vaultKeyGeneration'', ''ephemeralPublicKey'', ''hkdfSalt'', ''encryptedVaultMasterKey''] []);
          deviceId \<leftarrow> property_of record ''deviceId'' nonBlankString;
          generation \<leftarrow> property_of record ''vaultKeyGeneration'' (safeInteger 1);
          recipientDeviceId \<leftarrow> property_of envelope ''recipientDeviceId'' nonBlankString;
          envelopeGeneration \<leftarrow> property_of envelope ''vaultKeyGeneration'' (safeInteger 1);
          if deviceId \<noteq> recipientDeviceId \<or> generation \<noteq> envelopeGeneration then None
          else do {
            ephemeralPublicKey \<leftarrow> property_of envelope ''ephemeralPublicKey'' (\<lambda>v. decodeCanonicalBytes v (Some 65));
            hkdfSalt \<leftarrow> property_of envelope ''hkdfSalt'' (\<lambda>v. decodeCanonicalBytes v (Some 32));
            encrypted \<leftarrow> property_of envelope ''encryptedVaultMasterKey'' (\<lambda>v. decodeEncrypted v 12 (Some 48));
            Some \<lparr>slot_deviceId = deviceId, slot_vaultKeyGeneration = generation,
                  slot_envelope =
                    \<lparr>env_recipientDeviceId = recipientDeviceId, env_vaultKeyGeneration = envelopeGeneration,
                     env_ephemeralPublicKey = ephemeralPublicKey, env_hkdfSalt = hkdfSalt,
                     env_encryptedVaultMasterKey = encrypted\<rparr>\<rparr> } }"

definition encodeDeviceKeySlot :: "DeviceKeySlot \<Rightarrow> json" where
  "encodeDeviceKeySlot value =
     (let e = slot_envelope value in JObj
       [(''deviceId'', JStr (slot_deviceId value)),
        (''vaultKeyGeneration'', JNum (slot_vaultKeyGeneration value)),
        (''envelope'', JObj
           [(''recipientDeviceId'', JStr (env_recipientDeviceId e)),
            (''vaultKeyGeneration'', JNum (env_vaultKeyGeneration e)),
            (''ephemeralPublicKey'', encodeBytes (env_ephemeralPublicKey e)),
            (''hkdfSalt'', encodeBytes (env_hkdfSalt e)),
            (''encryptedVaultMasterKey'', encodeEncrypted (env_encryptedVaultMasterKey e))])])"

section \<open>Descriptors and identities\<close>

definition read_descriptor :: "json \<Rightarrow> VaultSnapshotDescriptor option" where
  "read_descriptor value =
     do { record \<leftarrow> exactRecord [''vaultId'', ''snapshotVersionVector'', ''revisionTimestamp''] [] value;
          vaultId \<leftarrow> property_of record ''vaultId'' nonBlankString;
          vector \<leftarrow> property_of record ''snapshotVersionVector'' decodeVersionVector;
          revisionTimestamp \<leftarrow> property_of record ''revisionTimestamp'' safeNatural;
          Some \<lparr>sd_vaultId = vaultId, sd_snapshotVersionVector = vector,
                sd_revisionTimestamp = revisionTimestamp\<rparr> }"

text \<open>\<open>catch { throw new E() }\<close> around a decoder.\<close>

definition or_throw :: "storage_error \<Rightarrow> 'a option \<Rightarrow> core_error + 'a" where
  "or_throw e r = (case r of None \<Rightarrow> Inl (Storage_error e) | Some a \<Rightarrow> Inr a)"

definition decodeVaultSnapshotDescriptor :: "json \<Rightarrow> core_error + VaultSnapshotDescriptor" where
  "decodeVaultSnapshotDescriptor value =
     or_throw InvalidRemoteVaultSnapshotRecordError (read_descriptor value)"

definition encodeVaultSnapshotDescriptor :: "VaultSnapshotDescriptor \<Rightarrow> json" where
  "encodeVaultSnapshotDescriptor descriptor = JObj
     [(''vaultId'', JStr (sd_vaultId descriptor)),
      (''snapshotVersionVector'', encodeVersionVector (sd_snapshotVersionVector descriptor)),
      (''revisionTimestamp'', JNum (int (sd_revisionTimestamp descriptor)))]"

definition decodeVaultSnapshotIdentity :: "json \<Rightarrow> VaultSnapshotIdentity option" where
  "decodeVaultSnapshotIdentity value =
     do { record \<leftarrow> exactRecord [''descriptor'', ''snapshotDigest''] [] value;
          descriptor \<leftarrow> property_of record ''descriptor'' read_descriptor;
          digest \<leftarrow> property_of record ''snapshotDigest'' canonicalDigest;
          Some \<lparr>si_descriptor = descriptor, si_snapshotDigest = digest\<rparr> }"

definition encodeVaultSnapshotIdentity :: "VaultSnapshotIdentity \<Rightarrow> json" where
  "encodeVaultSnapshotIdentity identity = JObj
     [(''descriptor'', encodeVaultSnapshotDescriptor (si_descriptor identity)),
      (''snapshotDigest'', JStr (si_snapshotDigest identity))]"

definition nullable_identity :: "VaultSnapshotIdentity option \<Rightarrow> json" where
  "nullable_identity i = (case i of None \<Rightarrow> JNull | Some i \<Rightarrow> encodeVaultSnapshotIdentity i)"

section \<open>Snapshots\<close>

definition read_metadata :: "json \<Rightarrow> VaultSnapshotMetadata option" where
  "read_metadata value =
     do { metadata \<leftarrow> exactRecord [''id'', ''schemaVersion'', ''vaultCreationTimestamp'',
            ''revisionTimestamp'', ''snapshotVersionVector'', ''algorithmSuiteId'',
            ''createdByDeviceId'', ''vaultKeyGeneration''] [''uploadExpectedRemoteSnapshotIdentity''] value;
          if map_of metadata ''schemaVersion'' \<noteq> Some (JNum 1) then None
          else do {
            vaultId \<leftarrow> property_of metadata ''id'' nonBlankString;
            created \<leftarrow> property_of metadata ''vaultCreationTimestamp'' safeNatural;
            revised \<leftarrow> property_of metadata ''revisionTimestamp'' safeNatural;
            vector \<leftarrow> property_of metadata ''snapshotVersionVector'' decodeVersionVector;
            suite \<leftarrow> property_of metadata ''algorithmSuiteId'' nonBlankString;
            deviceId \<leftarrow> property_of metadata ''createdByDeviceId'' nonBlankString;
            generation \<leftarrow> property_of metadata ''vaultKeyGeneration'' (safeInteger 1);
            expected \<leftarrow> optional_property metadata ''uploadExpectedRemoteSnapshotIdentity''
              (nullable decodeVaultSnapshotIdentity);
            Some \<lparr>m_id = vaultId, m_schemaVersion = 1, m_vaultCreationTimestamp = created,
                  m_revisionTimestamp = revised, m_snapshotVersionVector = vector,
                  m_algorithmSuiteId = suite, m_createdByDeviceId = deviceId,
                  m_vaultKeyGeneration = generation,
                  m_uploadExpectedRemoteSnapshotIdentity = expected\<rparr> } }"

definition encode_metadata :: "VaultSnapshotMetadata \<Rightarrow> json" where
  "encode_metadata m = JObj
     ([(''id'', JStr (m_id m)), (''schemaVersion'', JNum (m_schemaVersion m)),
       (''vaultCreationTimestamp'', JNum (int (m_vaultCreationTimestamp m))),
       (''revisionTimestamp'', JNum (int (m_revisionTimestamp m))),
       (''snapshotVersionVector'', encodeVersionVector (m_snapshotVersionVector m)),
       (''algorithmSuiteId'', JStr (m_algorithmSuiteId m)),
       (''createdByDeviceId'', JStr (m_createdByDeviceId m)),
       (''vaultKeyGeneration'', JNum (m_vaultKeyGeneration m))] @
      (case m_uploadExpectedRemoteSnapshotIdentity m of
         None \<Rightarrow> []
       | Some i \<Rightarrow> [(''uploadExpectedRemoteSnapshotIdentity'', nullable_identity i)]))"

definition read_certificates :: "json \<Rightarrow> VaultTrustChain option" where
  "read_certificates value =
     do { record \<leftarrow> exactRecord [''certificates''] [] value;
          property_of record ''certificates'' (array_of decodeTrustCertificate) }"

definition read_device_slots :: "json \<Rightarrow> DeviceKeySlot list option" where
  "read_device_slots value =
     do { record \<leftarrow> exactRecord [''deviceSlots''] [] value;
          deviceSlots \<leftarrow> property_of record ''deviceSlots'' (array_of decodeDeviceKeySlot);
          if length (js_set (map slot_deviceId deviceSlots)) \<noteq> length deviceSlots then None
          else Some deviceSlots }"

definition read_snapshot :: "json \<Rightarrow> VaultSnapshot option" where
  "read_snapshot value =
     do { record \<leftarrow> exactRecord [''metadata'', ''trustChain'', ''keySlots'', ''content'', ''signature''] [] value;
          metadata \<leftarrow> property_of record ''metadata'' read_metadata;
          certificates \<leftarrow> property_of record ''trustChain'' read_certificates;
          deviceSlots \<leftarrow> property_of record ''keySlots'' read_device_slots;
          content \<leftarrow> property_of record ''content'' (\<lambda>v. decodeEncrypted v 12 None);
          signature \<leftarrow> property_of record ''signature'' decodeSignature;
          Some \<lparr>snap_metadata = metadata, snap_trustChain = certificates, snap_deviceSlots = deviceSlots,
                snap_content = content, snap_signature = signature\<rparr> }"

datatype SnapshotOrigin = Local_origin | Remote_origin

definition malformedSnapshot :: "SnapshotOrigin \<Rightarrow> storage_error" where
  "malformedSnapshot origin =
     (if origin = Local_origin then InvalidLocalVaultSnapshotRecordError
      else InvalidRemoteVaultSnapshotRecordError)"

definition decodeVaultSnapshot :: "json \<Rightarrow> SnapshotOrigin \<Rightarrow> core_error + VaultSnapshot" where
  "decodeVaultSnapshot value origin = or_throw (malformedSnapshot origin) (read_snapshot value)"

definition encodeVaultSnapshot :: "VaultSnapshot \<Rightarrow> json" where
  "encodeVaultSnapshot snapshot = JObj
     [(''metadata'', encode_metadata (snap_metadata snapshot)),
      (''trustChain'', JObj [(''certificates'', JArr (map encodeTrustCertificate (snap_trustChain snapshot)))]),
      (''keySlots'', JObj [(''deviceSlots'', JArr (map encodeDeviceKeySlot (snap_deviceSlots snapshot)))]),
      (''content'', encodeEncrypted (snap_content snapshot)),
      (''signature'', encodeSignature (snap_signature snapshot))]"

section \<open>Accepted values\<close>

definition anchor_ok :: "LocalVaultTrustAnchor \<Rightarrow> bool" where
  "anchor_ok a \<longleftrightarrow> an_version a = 1 \<and> nonBlank (an_vaultId a) \<and> nonBlank (an_genesisDeviceId a) \<and>
     length (an_genesisPublicSignKey a) = 32 \<and> digest_text (an_genesisCertificateDigest a)"

definition device_ok :: "DeviceTrustIdentity \<Rightarrow> bool" where
  "device_ok d \<longleftrightarrow> nonBlank (dti_deviceId d) \<and> length (dti_publicSignKey d) = 32 \<and>
     length (dti_publicVaultKey d) = 65"

definition certificate_ok :: "VaultTrustCertificate \<Rightarrow> bool" where
  "certificate_ok c \<longleftrightarrow>
     (let p = cert_payload c in
      tc_version p = 1 \<and> nonBlank (tc_vaultId p) \<and> safe_integer 0 (tc_generation p) \<and>
      safe_integer 1 (tc_vaultKeyGeneration p) \<and> pred_option digest_text (tc_previousCertificateDigest p) \<and>
      nonBlank (tc_authorizedByDeviceId p) \<and> list_all device_ok (tc_trustedDevices p) \<and>
      distinct (map dti_deviceId (tc_trustedDevices p)) \<and> canonical_text 64 (cert_signature c))"

definition stored_slot_ok :: "DeviceKeySlot \<Rightarrow> bool" where
  "stored_slot_ok s \<longleftrightarrow>
     (let e = slot_envelope s in
      nonBlank (slot_deviceId s) \<and> safe_integer 1 (slot_vaultKeyGeneration s) \<and>
      env_recipientDeviceId e = slot_deviceId s \<and> env_vaultKeyGeneration e = slot_vaultKeyGeneration s \<and>
      length (env_ephemeralPublicKey e) = 65 \<and> length (env_hkdfSalt e) = 32 \<and>
      encrypted_ok 12 (Some 48) (env_encryptedVaultMasterKey e))"

definition descriptor_ok :: "VaultSnapshotDescriptor \<Rightarrow> bool" where
  "descriptor_ok d \<longleftrightarrow> nonBlank (sd_vaultId d) \<and> safe_vector (sd_snapshotVersionVector d) \<and>
     sd_revisionTimestamp d \<le> MAX_SAFE_INTEGER"

definition identity_ok :: "VaultSnapshotIdentity \<Rightarrow> bool" where
  "identity_ok i \<longleftrightarrow> descriptor_ok (si_descriptor i) \<and> digest_text (si_snapshotDigest i)"

definition metadata_ok :: "VaultSnapshotMetadata \<Rightarrow> bool" where
  "metadata_ok m \<longleftrightarrow>
     nonBlank (m_id m) \<and> m_schemaVersion m = 1 \<and> m_vaultCreationTimestamp m \<le> MAX_SAFE_INTEGER \<and>
     m_revisionTimestamp m \<le> MAX_SAFE_INTEGER \<and> safe_vector (m_snapshotVersionVector m) \<and>
     nonBlank (m_algorithmSuiteId m) \<and> nonBlank (m_createdByDeviceId m) \<and>
     safe_integer 1 (m_vaultKeyGeneration m) \<and>
     pred_option (pred_option identity_ok) (m_uploadExpectedRemoteSnapshotIdentity m)"

definition snapshot_ok :: "VaultSnapshot \<Rightarrow> bool" where
  "snapshot_ok s \<longleftrightarrow>
     metadata_ok (snap_metadata s) \<and> list_all certificate_ok (snap_trustChain s) \<and>
     list_all stored_slot_ok (snap_deviceSlots s) \<and> distinct (map slot_deviceId (snap_deviceSlots s)) \<and>
     encrypted_ok 12 None (snap_content s) \<and> canonical_text 64 (snap_signature s)"

text \<open>What reading back changes: version vectors come back sorted by device.\<close>

definition sorted_descriptor :: "VaultSnapshotDescriptor \<Rightarrow> VaultSnapshotDescriptor" where
  "sorted_descriptor d = d\<lparr>sd_snapshotVersionVector := sort_key fst (sd_snapshotVersionVector d)\<rparr>"

definition sorted_identity :: "VaultSnapshotIdentity \<Rightarrow> VaultSnapshotIdentity" where
  "sorted_identity i = i\<lparr>si_descriptor := sorted_descriptor (si_descriptor i)\<rparr>"

definition sorted_metadata :: "VaultSnapshotMetadata \<Rightarrow> VaultSnapshotMetadata" where
  "sorted_metadata m =
     m\<lparr>m_snapshotVersionVector := sort_key fst (m_snapshotVersionVector m),
       m_uploadExpectedRemoteSnapshotIdentity :=
         map_option (map_option sorted_identity) (m_uploadExpectedRemoteSnapshotIdentity m)\<rparr>"

definition sorted_snapshot :: "VaultSnapshot \<Rightarrow> VaultSnapshot" where
  "sorted_snapshot s = s\<lparr>snap_metadata := sorted_metadata (snap_metadata s)\<rparr>"

section \<open>Reading back\<close>

lemma decodeTrustAnchor_encode [codec_simps]:
  "decodeTrustAnchor (encodeTrustAnchor a) = (if anchor_ok a then Some a else None)"
  by (cases a) (simp add: decodeTrustAnchor_def encodeTrustAnchor_def anchor_ok_def codec_simps)

lemma decodeTrustedDevice_encode [codec_simps]:
  "decodeTrustedDevice (encodeTrustedDevice d) = (if device_ok d then Some d else None)"
  by (cases d) (simp add: decodeTrustedDevice_def encodeTrustedDevice_def device_ok_def codec_simps)

lemma nullable_digest [codec_simps]:
  "nullable canonicalDigest (nullable_text d) = (if pred_option digest_text d then Some d else None)"
  by (cases d) (simp_all add: nullable_def nullable_text_def codec_simps)

lemma trusted_devices_encode [codec_simps]:
  "array_of decodeTrustedDevice (JArr (map encodeTrustedDevice ds)) =
     (if list_all device_ok ds then Some ds else None)"
  by (rule array_of_same) (rule decodeTrustedDevice_encode)

lemma decodeTrustCertificate_encode [codec_simps]:
  "decodeTrustCertificate (encodeTrustCertificate c) = (if certificate_ok c then Some c else None)"
proof (cases c)
  case (fields p s)
  show ?thesis
    by (cases p) (simp add: fields decodeTrustCertificate_def encodeTrustCertificate_def certificate_ok_def
        codec_simps Let_def)
qed

lemma decodeDeviceKeySlot_encode [codec_simps]:
  "decodeDeviceKeySlot (encodeDeviceKeySlot s) = (if stored_slot_ok s then Some s else None)"
proof (cases s)
  case (fields d g e)
  show ?thesis
    by (cases e) (auto simp: fields decodeDeviceKeySlot_def encodeDeviceKeySlot_def stored_slot_ok_def
        codec_simps Let_def)
qed

lemma read_descriptor_encode [codec_simps]:
  "read_descriptor (encodeVaultSnapshotDescriptor d) =
     (if descriptor_ok d then Some (sorted_descriptor d) else None)"
  by (cases d) (simp add: read_descriptor_def encodeVaultSnapshotDescriptor_def descriptor_ok_def
      sorted_descriptor_def codec_simps)

lemma decodeVaultSnapshotIdentity_encode [codec_simps]:
  "decodeVaultSnapshotIdentity (encodeVaultSnapshotIdentity i) =
     (if identity_ok i then Some (sorted_identity i) else None)"
  by (cases i) (simp add: decodeVaultSnapshotIdentity_def encodeVaultSnapshotIdentity_def identity_ok_def
      sorted_identity_def codec_simps)

lemma encodeVaultSnapshotIdentity_not_null: "encodeVaultSnapshotIdentity i \<noteq> JNull"
  by (simp add: encodeVaultSnapshotIdentity_def)

lemma nullable_identity_encode [codec_simps]:
  "nullable decodeVaultSnapshotIdentity (nullable_identity i) =
     (if pred_option identity_ok i then Some (map_option sorted_identity i) else None)"
  by (cases i) (simp_all add: nullable_def nullable_identity_def codec_simps
      encodeVaultSnapshotIdentity_not_null)

lemma read_metadata_encode [codec_simps]:
  "read_metadata (encode_metadata m) = (if metadata_ok m then Some (sorted_metadata m) else None)"
proof (cases m)
  case (fields i sv ct rt v s d g u)
  show ?thesis
    by (cases u) (simp_all add: fields read_metadata_def encode_metadata_def metadata_ok_def sorted_metadata_def
        codec_simps optional_property_def)
qed

lemma certificates_encode [codec_simps]:
  "array_of decodeTrustCertificate (JArr (map encodeTrustCertificate cs)) =
     (if list_all certificate_ok cs then Some cs else None)"
  by (rule array_of_same) (rule decodeTrustCertificate_encode)

lemma device_slots_encode [codec_simps]:
  "array_of decodeDeviceKeySlot (JArr (map encodeDeviceKeySlot ss)) =
     (if list_all stored_slot_ok ss then Some ss else None)"
  by (rule array_of_same) (rule decodeDeviceKeySlot_encode)

lemma read_snapshot_encode [codec_simps]:
  "read_snapshot (encodeVaultSnapshot s) = (if snapshot_ok s then Some (sorted_snapshot s) else None)"
  by (cases s) (simp add: read_snapshot_def encodeVaultSnapshot_def snapshot_ok_def sorted_snapshot_def
      read_certificates_def read_device_slots_def codec_simps)

section \<open>Everything read is accepted\<close>

lemma decodeTrustAnchor_sound: "decodeTrustAnchor v = Some a \<Longrightarrow> anchor_ok a"
  by (auto simp: decodeTrustAnchor_def anchor_ok_def reading_simps split: if_splits)

lemma decodeTrustedDevice_sound: "decodeTrustedDevice v = Some d \<Longrightarrow> device_ok d"
  by (auto simp: decodeTrustedDevice_def device_ok_def reading_simps)

lemma nullable_digest_sound: "nullable canonicalDigest v = Some d \<Longrightarrow> pred_option digest_text d"
  by (cases d) (auto simp: reading_simps)

lemma trusted_devices_sound: "array_of decodeTrustedDevice v = Some xs \<Longrightarrow> list_all device_ok xs"
  by (rule array_of_sound) (erule decodeTrustedDevice_sound)

lemma decodeTrustCertificate_sound: "decodeTrustCertificate v = Some c \<Longrightarrow> certificate_ok c"
  by (auto simp: decodeTrustCertificate_def certificate_ok_def bind_eq_Some_conv property_of_Some nonBlankString_Some
      safeInteger_Some length_js_set_map Let_def
      dest!: decodeSignature_Some trusted_devices_sound nullable_digest_sound
      split: if_splits)

lemma decodeDeviceKeySlot_sound: "decodeDeviceKeySlot v = Some s \<Longrightarrow> stored_slot_ok s"
  by (auto simp: decodeDeviceKeySlot_def stored_slot_ok_def reading_simps Let_def
      dest!: decodeEncrypted_Some split: if_splits)

lemma read_descriptor_sound: "read_descriptor v = Some d \<Longrightarrow> descriptor_ok d"
  by (auto simp: read_descriptor_def descriptor_ok_def reading_simps dest!: decodeVersionVector_safe)

lemma decodeVaultSnapshotIdentity_sound: "decodeVaultSnapshotIdentity v = Some i \<Longrightarrow> identity_ok i"
  by (auto simp: decodeVaultSnapshotIdentity_def identity_ok_def reading_simps dest!: read_descriptor_sound)

lemma nullable_identity_sound:
  "nullable decodeVaultSnapshotIdentity v = Some i \<Longrightarrow> pred_option identity_ok i"
  by (cases i) (auto simp: reading_simps dest!: decodeVaultSnapshotIdentity_sound)

lemma optional_identity_sound:
  "optional_property r k (nullable decodeVaultSnapshotIdentity) = Some u \<Longrightarrow>
     pred_option (pred_option identity_ok) u"
  by (cases u) (auto simp: optional_property_Some dest!: nullable_identity_sound)

lemma read_metadata_sound: "read_metadata v = Some m \<Longrightarrow> metadata_ok m"
  by (auto simp: read_metadata_def metadata_ok_def bind_eq_Some_conv property_of_Some nonBlankString_Some
      safeInteger_Some safeNatural_Some dest!: decodeVersionVector_safe optional_identity_sound split: if_splits)

lemma certificates_sound: "array_of decodeTrustCertificate v = Some xs \<Longrightarrow> list_all certificate_ok xs"
  by (rule array_of_sound) (erule decodeTrustCertificate_sound)

lemma device_slots_sound: "array_of decodeDeviceKeySlot v = Some xs \<Longrightarrow> list_all stored_slot_ok xs"
  by (rule array_of_sound) (erule decodeDeviceKeySlot_sound)

lemma read_snapshot_sound: "read_snapshot v = Some s \<Longrightarrow> snapshot_ok s"
  by (auto simp: read_snapshot_def snapshot_ok_def bind_eq_Some_conv property_of_Some length_js_set_map
      read_certificates_def read_device_slots_def
      dest!: read_metadata_sound decodeSignature_Some decodeEncrypted_Some
        certificates_sound device_slots_sound
      split: if_splits)

end
