(* ===== verification/Local_Codec.thy ===== *)
theory Local_Codec
  imports Snapshot_Codec
begin

text \<open>
  The JSON form of the local security records, of the synchronisation credentials and of a device
  enrollment (\<open>apps/extension/src/adapters/codecs/local-vault-security.codec.ts\<close>,
  \<open>sync-credential.codec.ts\<close>, \<open>device-enrollment-artifact.codec.ts\<close>), with the same two facts per
  artifact as in \<open>Snapshot_Codec\<close>. Wiping the partly decoded keys of a rejected record is not
  represented here: the model has these keys as values.
\<close>

section \<open>Vault descriptors\<close>

record LocalVaultDescriptor =
  lvd_vaultId :: string
  lvd_displayName :: string
  lvd_createdAt :: nat
  lvd_lastUnlockedAt :: "nat option"

definition read_vault_descriptor :: "json \<Rightarrow> LocalVaultDescriptor option" where
  "read_vault_descriptor value =
     do { record \<leftarrow> exactRecord [''vaultId'', ''displayName'', ''createdAt''] [''lastUnlockedAt''] value;
          vaultId \<leftarrow> property_of record ''vaultId'' nonBlankString;
          displayName \<leftarrow> property_of record ''displayName'' nonBlankString;
          createdAt \<leftarrow> property_of record ''createdAt'' safeNatural;
          lastUnlockedAt \<leftarrow> optional_property record ''lastUnlockedAt'' safeNatural;
          Some \<lparr>lvd_vaultId = vaultId, lvd_displayName = displayName, lvd_createdAt = createdAt,
                lvd_lastUnlockedAt = lastUnlockedAt\<rparr> }"

definition decodeLocalVaultDescriptor :: "json \<Rightarrow> core_error + LocalVaultDescriptor" where
  "decodeLocalVaultDescriptor value =
     or_throw InvalidLocalVaultSecurityRecordError (read_vault_descriptor value)"

definition encodeLocalVaultDescriptor :: "LocalVaultDescriptor \<Rightarrow> json" where
  "encodeLocalVaultDescriptor value = JObj
     ([(''vaultId'', JStr (lvd_vaultId value)), (''displayName'', JStr (lvd_displayName value)),
       (''createdAt'', JNum (int (lvd_createdAt value)))] @
      (case lvd_lastUnlockedAt value of None \<Rightarrow> [] | Some t \<Rightarrow> [(''lastUnlockedAt'', JNum (int t))]))"

section \<open>Device access records\<close>

text \<open>The fields that the access material and its recovery backup share.\<close>

record device_access =
  da_revision :: int
  da_localAccessGenerationId :: string
  da_vaultId :: string
  da_deviceId :: string
  da_algorithmSuiteId :: string
  da_devicePublicSignKey :: bytes
  da_devicePublicVaultKey :: bytes
  da_protectedLocalKeys :: SerializedWrapped

record DeviceAccessMaterial = device_access +
  dam_masterPasswordSalt :: bytes
  dam_localKeysProtectionSalt :: bytes

record DeviceAccessRecoveryBackup = device_access +
  dab_recoveryLocalKeysProtectionSalt :: bytes

definition decodeAccessCommon ::
    "json \<Rightarrow> bool \<Rightarrow> (device_access \<times> bytes \<times> bytes option) option" where
  "decodeAccessCommon value recovery =
     (let saltKey = (if recovery then ''recoveryLocalKeysProtectionSalt'' else ''masterPasswordSalt'');
          salts = (if recovery then [] else [''localKeysProtectionSalt'']) in
      do { record \<leftarrow> exactRecord ([''revision'', ''localAccessGenerationId'', ''vaultId'', ''deviceId'',
             ''algorithmSuiteId'', saltKey] @ salts @
             [''devicePublicSignKey'', ''devicePublicVaultKey'', ''protectedLocalKeys'']) [] value;
           revision \<leftarrow> property_of record ''revision'' (safeInteger 1);
           generation \<leftarrow> property_of record ''localAccessGenerationId'' nonBlankString;
           vaultId \<leftarrow> property_of record ''vaultId'' nonBlankString;
           deviceId \<leftarrow> property_of record ''deviceId'' nonBlankString;
           suite \<leftarrow> property_of record ''algorithmSuiteId'' nonBlankString;
           salt \<leftarrow> property_of record saltKey (\<lambda>v. decodeCanonicalBytes v (Some 32));
           protectionSalt \<leftarrow> (if recovery then Some None
             else map_option Some (property_of record ''localKeysProtectionSalt'' (\<lambda>v. decodeCanonicalBytes v (Some 32))));
           signKey \<leftarrow> property_of record ''devicePublicSignKey'' (\<lambda>v. decodeCanonicalBytes v (Some 32));
           vaultKey \<leftarrow> property_of record ''devicePublicVaultKey'' (\<lambda>v. decodeCanonicalBytes v (Some 65));
           keys \<leftarrow> property_of record ''protectedLocalKeys'' decodeWrapped;
           Some (\<lparr>da_revision = revision, da_localAccessGenerationId = generation, da_vaultId = vaultId,
                  da_deviceId = deviceId, da_algorithmSuiteId = suite, da_devicePublicSignKey = signKey,
                  da_devicePublicVaultKey = vaultKey, da_protectedLocalKeys = keys\<rparr>, salt, protectionSalt) })"

definition read_access_material :: "json \<Rightarrow> DeviceAccessMaterial option" where
  "read_access_material value =
     (case decodeAccessCommon value False of
        Some (shared, salt, Some protectionSalt) \<Rightarrow>
          Some (device_access.extend shared
            (DeviceAccessMaterial.fields salt protectionSalt))
      | _ \<Rightarrow> None)"

definition decodeDeviceAccessMaterial :: "json \<Rightarrow> core_error + DeviceAccessMaterial" where
  "decodeDeviceAccessMaterial value =
     or_throw InvalidLocalVaultSecurityRecordError (read_access_material value)"

definition encodeDeviceAccessMaterial :: "DeviceAccessMaterial \<Rightarrow> json" where
  "encodeDeviceAccessMaterial value = JObj
     [(''revision'', JNum (da_revision value)),
      (''localAccessGenerationId'', JStr (da_localAccessGenerationId value)),
      (''vaultId'', JStr (da_vaultId value)), (''deviceId'', JStr (da_deviceId value)),
      (''algorithmSuiteId'', JStr (da_algorithmSuiteId value)),
      (''masterPasswordSalt'', encodeBytes (dam_masterPasswordSalt value)),
      (''localKeysProtectionSalt'', encodeBytes (dam_localKeysProtectionSalt value)),
      (''devicePublicSignKey'', encodeBytes (da_devicePublicSignKey value)),
      (''devicePublicVaultKey'', encodeBytes (da_devicePublicVaultKey value)),
      (''protectedLocalKeys'', encodeWrapped (da_protectedLocalKeys value))]"

definition read_recovery_backup :: "json \<Rightarrow> DeviceAccessRecoveryBackup option" where
  "read_recovery_backup value =
     (case decodeAccessCommon value True of
        Some (shared, salt, _) \<Rightarrow>
          Some (device_access.extend shared (DeviceAccessRecoveryBackup.fields salt))
      | None \<Rightarrow> None)"

definition decodeDeviceAccessRecoveryBackup :: "json \<Rightarrow> core_error + DeviceAccessRecoveryBackup" where
  "decodeDeviceAccessRecoveryBackup value =
     or_throw InvalidLocalVaultSecurityRecordError (read_recovery_backup value)"

definition encodeDeviceAccessRecoveryBackup :: "DeviceAccessRecoveryBackup \<Rightarrow> json" where
  "encodeDeviceAccessRecoveryBackup value = JObj
     [(''revision'', JNum (da_revision value)),
      (''localAccessGenerationId'', JStr (da_localAccessGenerationId value)),
      (''vaultId'', JStr (da_vaultId value)), (''deviceId'', JStr (da_deviceId value)),
      (''algorithmSuiteId'', JStr (da_algorithmSuiteId value)),
      (''recoveryLocalKeysProtectionSalt'', encodeBytes (dab_recoveryLocalKeysProtectionSalt value)),
      (''devicePublicSignKey'', encodeBytes (da_devicePublicSignKey value)),
      (''devicePublicVaultKey'', encodeBytes (da_devicePublicVaultKey value)),
      (''protectedLocalKeys'', encodeWrapped (da_protectedLocalKeys value))]"

section \<open>Checkpoints and local keys\<close>

definition read_checkpoint :: "json \<Rightarrow> LocalVaultTrustCheckpoint option" where
  "read_checkpoint value =
     do { record \<leftarrow> exactRecord [''payload'', ''signature''] [] value;
          payload \<leftarrow> property_of record ''payload'' (exactRecord [''version'', ''vaultId'', ''deviceId'',
            ''trustGeneration'', ''trustCertificateDigest'', ''vaultKeyGeneration'',
            ''snapshotVersionVector'', ''snapshotDigest''] []);
          if map_of payload ''version'' \<noteq> Some (JNum 1) then None
          else do {
            vaultId \<leftarrow> property_of payload ''vaultId'' nonBlankString;
            deviceId \<leftarrow> property_of payload ''deviceId'' nonBlankString;
            trustGeneration \<leftarrow> property_of payload ''trustGeneration'' (safeInteger 0);
            certificateDigest \<leftarrow> property_of payload ''trustCertificateDigest'' canonicalDigest;
            vaultKeyGeneration \<leftarrow> property_of payload ''vaultKeyGeneration'' (safeInteger 1);
            vector \<leftarrow> property_of payload ''snapshotVersionVector'' decodeVersionVector;
            snapshotDigest \<leftarrow> property_of payload ''snapshotDigest'' canonicalDigest;
            signature \<leftarrow> property_of record ''signature'' decodeSignature;
            Some \<lparr>chk_payload =
                    \<lparr>cp_version = 1, cp_vaultId = vaultId, cp_deviceId = deviceId,
                     cp_trustGeneration = trustGeneration, cp_trustCertificateDigest = certificateDigest,
                     cp_vaultKeyGeneration = vaultKeyGeneration, cp_snapshotVersionVector = vector,
                     cp_snapshotDigest = snapshotDigest\<rparr>,
                  chk_signature = signature\<rparr> } }"

definition decodeLocalVaultTrustCheckpoint :: "json \<Rightarrow> core_error + LocalVaultTrustCheckpoint" where
  "decodeLocalVaultTrustCheckpoint value =
     or_throw InvalidLocalVaultSecurityRecordError (read_checkpoint value)"

definition checkpoint_json :: "LocalVaultTrustCheckpoint \<Rightarrow> json \<Rightarrow> json" where
  "checkpoint_json value vector =
     (let p = chk_payload value in JObj
       [(''payload'', JObj
           [(''version'', JNum (cp_version p)), (''vaultId'', JStr (cp_vaultId p)),
            (''deviceId'', JStr (cp_deviceId p)), (''trustGeneration'', JNum (cp_trustGeneration p)),
            (''trustCertificateDigest'', JStr (cp_trustCertificateDigest p)),
            (''vaultKeyGeneration'', JNum (cp_vaultKeyGeneration p)),
            (''snapshotVersionVector'', vector),
            (''snapshotDigest'', JStr (cp_snapshotDigest p))]),
        (''signature'', encodeSignature (chk_signature value))])"

definition encodeLocalVaultTrustCheckpoint :: "LocalVaultTrustCheckpoint \<Rightarrow> json" where
  "encodeLocalVaultTrustCheckpoint value =
     checkpoint_json value (encodeVersionVector (cp_snapshotVersionVector (chk_payload value)))"

record LocalKeysPayload =
  lkp_devicePrivateSignKey :: bytes
  lkp_devicePrivateVaultKey :: bytes
  lkp_deviceLocalProtectionKey :: bytes
  lkp_vaultTrustAnchor :: LocalVaultTrustAnchor

definition read_local_keys :: "json \<Rightarrow> LocalKeysPayload option" where
  "read_local_keys value =
     do { record \<leftarrow> exactRecord [''devicePrivateSignKey'', ''devicePrivateVaultKey'',
            ''deviceLocalProtectionKey'', ''vaultTrustAnchor''] [] value;
          signKey \<leftarrow> property_of record ''devicePrivateSignKey'' (\<lambda>v. decodeCanonicalBytes v (Some 48));
          vaultKey \<leftarrow> property_of record ''devicePrivateVaultKey'' (\<lambda>v. decodeCanonicalBytes v (Some 138));
          protectionKey \<leftarrow> property_of record ''deviceLocalProtectionKey'' (\<lambda>v. decodeCanonicalBytes v (Some 32));
          anchor \<leftarrow> property_of record ''vaultTrustAnchor'' decodeTrustAnchor;
          Some \<lparr>lkp_devicePrivateSignKey = signKey, lkp_devicePrivateVaultKey = vaultKey,
                lkp_deviceLocalProtectionKey = protectionKey, lkp_vaultTrustAnchor = anchor\<rparr> }"

definition decodeLocalKeysPayload :: "json \<Rightarrow> core_error + LocalKeysPayload" where
  "decodeLocalKeysPayload value = or_throw InvalidLocalKeysPayloadError (read_local_keys value)"

definition encodeLocalKeysPayload :: "LocalKeysPayload \<Rightarrow> json" where
  "encodeLocalKeysPayload value = JObj
     [(''devicePrivateSignKey'', encodeBytes (lkp_devicePrivateSignKey value)),
      (''devicePrivateVaultKey'', encodeBytes (lkp_devicePrivateVaultKey value)),
      (''deviceLocalProtectionKey'', encodeBytes (lkp_deviceLocalProtectionKey value)),
      (''vaultTrustAnchor'', encodeTrustAnchor (lkp_vaultTrustAnchor value))]"

section \<open>Synchronisation credentials\<close>

record SyncCredentials =
  sc_provider :: string
  sc_credentialsConfig :: json

record PendingSnapshotUpload =
  psu_candidateSnapshotIdentity :: VaultSnapshotIdentity
  psu_expectedRemoteSnapshotIdentity :: "VaultSnapshotIdentity option"

record PreviousCredentials =
  prc_credentials :: SyncCredentials
  prc_revokedDeviceIds :: "string list"
  prc_vaultKeyGeneration :: int

record DeviceSyncCredentialState =
  dsc_currentCredentials :: SyncCredentials
  dsc_pendingSnapshotUpload :: "PendingSnapshotUpload option"
  dsc_previousCredentials :: "PreviousCredentials option"

definition decodeEncryptedDeviceSyncCredentialState :: "json \<Rightarrow> core_error + SerializedEncrypted" where
  "decodeEncryptedDeviceSyncCredentialState value =
     or_throw InvalidSyncCredentialRecordError (decodeEncrypted value 12 None)"

definition encodeEncryptedDeviceSyncCredentialState :: "SerializedEncrypted \<Rightarrow> json" where
  "encodeEncryptedDeviceSyncCredentialState value = encodeEncrypted value"

definition decodeSyncCredentials :: "json \<Rightarrow> SyncCredentials option" where
  "decodeSyncCredentials value =
     do { record \<leftarrow> exactRecord [''provider'', ''credentialsConfig''] [] value;
          if map_of record ''provider'' \<noteq> Some (JStr ''aws-s3-v1'') then None
          else do {
            config \<leftarrow> property_of record ''credentialsConfig'' decodeJsonValue;
            Some \<lparr>sc_provider = ''aws-s3-v1'', sc_credentialsConfig = config\<rparr> } }"

definition credentials_json :: "SyncCredentials \<Rightarrow> json" where
  "credentials_json c =
     JObj [(''provider'', JStr (sc_provider c)), (''credentialsConfig'', sc_credentialsConfig c)]"

definition decodePendingSnapshotUpload :: "json \<Rightarrow> PendingSnapshotUpload option" where
  "decodePendingSnapshotUpload value =
     do { record \<leftarrow> exactRecord [''candidateSnapshotIdentity'', ''expectedRemoteSnapshotIdentity''] [] value;
          candidate \<leftarrow> property_of record ''candidateSnapshotIdentity'' decodeVaultSnapshotIdentity;
          expected \<leftarrow> property_of record ''expectedRemoteSnapshotIdentity'' (nullable decodeVaultSnapshotIdentity);
          Some \<lparr>psu_candidateSnapshotIdentity = candidate, psu_expectedRemoteSnapshotIdentity = expected\<rparr> }"

text \<open>The credentials in memory as a JSON value: vectors keep their order.\<close>

definition identity_json :: "VaultSnapshotIdentity \<Rightarrow> json" where
  "identity_json i = (let d = si_descriptor i in JObj
     [(''descriptor'', JObj
         [(''vaultId'', JStr (sd_vaultId d)), (''snapshotVersionVector'', vv_json (sd_snapshotVersionVector d)),
          (''revisionTimestamp'', JNum (int (sd_revisionTimestamp d)))]),
      (''snapshotDigest'', JStr (si_snapshotDigest i))])"

definition pending_json :: "PendingSnapshotUpload \<Rightarrow> json" where
  "pending_json p = JObj
     [(''candidateSnapshotIdentity'', identity_json (psu_candidateSnapshotIdentity p)),
      (''expectedRemoteSnapshotIdentity'',
         (case psu_expectedRemoteSnapshotIdentity p of None \<Rightarrow> JNull | Some i \<Rightarrow> identity_json i))]"

definition decodePreviousCredentials :: "json \<Rightarrow> PreviousCredentials option" where
  "decodePreviousCredentials value =
     do { previous \<leftarrow> exactRecord [''credentials'', ''revokedDeviceIds'', ''vaultKeyGeneration''] [] value;
          credentials \<leftarrow> property_of previous ''credentials'' decodeSyncCredentials;
          revoked \<leftarrow> property_of previous ''revokedDeviceIds'' (\<lambda>v. stringArray v True);
          generation \<leftarrow> property_of previous ''vaultKeyGeneration'' (safeInteger 1);
          Some \<lparr>prc_credentials = credentials, prc_revokedDeviceIds = revoked,
                prc_vaultKeyGeneration = generation\<rparr> }"

definition previous_json :: "PreviousCredentials \<Rightarrow> json" where
  "previous_json p = JObj
     [(''credentials'', credentials_json (prc_credentials p)),
      (''revokedDeviceIds'', JArr (map JStr (prc_revokedDeviceIds p))),
      (''vaultKeyGeneration'', JNum (prc_vaultKeyGeneration p))]"

definition read_credential_state :: "json \<Rightarrow> DeviceSyncCredentialState option" where
  "read_credential_state value =
     do { record \<leftarrow> exactRecord [''currentCredentials''] [''pendingSnapshotUpload'', ''previousCredentials''] value;
          current \<leftarrow> property_of record ''currentCredentials'' decodeSyncCredentials;
          pending \<leftarrow> optional_property record ''pendingSnapshotUpload'' decodePendingSnapshotUpload;
          previous \<leftarrow> optional_property record ''previousCredentials'' decodePreviousCredentials;
          Some \<lparr>dsc_currentCredentials = current, dsc_pendingSnapshotUpload = pending,
                dsc_previousCredentials = previous\<rparr> }"

definition decodeDeviceSyncCredentialState :: "json \<Rightarrow> core_error + DeviceSyncCredentialState" where
  "decodeDeviceSyncCredentialState value =
     or_throw InvalidDeviceSyncCredentialStateError (read_credential_state value)"

definition credential_state_json :: "DeviceSyncCredentialState \<Rightarrow> json" where
  "credential_state_json s = JObj
     ([(''currentCredentials'', credentials_json (dsc_currentCredentials s))] @
      (case dsc_pendingSnapshotUpload s of None \<Rightarrow> [] | Some p \<Rightarrow> [(''pendingSnapshotUpload'', pending_json p)]) @
      (case dsc_previousCredentials s of None \<Rightarrow> [] | Some p \<Rightarrow> [(''previousCredentials'', previous_json p)]))"

text \<open>The encoder is the decoder: it copies the declared fields and rejects a malformed state.\<close>

definition encodeDeviceSyncCredentialState :: "DeviceSyncCredentialState \<Rightarrow> core_error + json" where
  "encodeDeviceSyncCredentialState value =
     (case decodeDeviceSyncCredentialState (credential_state_json value) of
        Inl e \<Rightarrow> Inl e
      | Inr s \<Rightarrow> Inr (credential_state_json s))"

section \<open>Device enrollment\<close>

record DeviceEnrollmentRequest =
  der_requestId :: string
  der_vaultId :: string
  der_expectedGenesisCertificateDigest :: string
  der_deviceId :: string
  der_algorithmSuiteId :: string
  der_publicSignKey :: bytes
  der_publicVaultKey :: bytes
  der_signature :: string

record PendingDeviceEnrollment =
  pde_requestId :: string
  pde_vaultId :: string
  pde_deviceId :: string
  pde_algorithmSuiteId :: string
  pde_masterPasswordSalt :: bytes
  pde_localKeysProtectionSalt :: bytes
  pde_protectedPrivateState :: SerializedWrapped

record DeviceEnrollmentResponse =
  dep_requestId :: string
  dep_vaultId :: string
  dep_vaultTrustAnchor :: LocalVaultTrustAnchor
  dep_snapshot :: VaultSnapshot

record DeviceEnrollmentPrivateState =
  des_request :: DeviceEnrollmentRequest
  des_devicePrivateSignKey :: bytes
  des_devicePrivateVaultKey :: bytes
  des_deviceLocalProtectionKey :: bytes

definition decodeEnrollmentRequestInner :: "json \<Rightarrow> DeviceEnrollmentRequest option" where
  "decodeEnrollmentRequestInner value =
     do { record \<leftarrow> exactRecord [''payload'', ''signature''] [] value;
          payload \<leftarrow> property_of record ''payload'' (exactRecord [''version'', ''requestId'', ''vaultId'',
            ''expectedGenesisCertificateDigest'', ''deviceId'', ''algorithmSuiteId'', ''publicSignKey'',
            ''publicVaultKey''] []);
          if map_of payload ''version'' \<noteq> Some (JNum 1) then None
          else do {
            requestId \<leftarrow> property_of payload ''requestId'' nonBlankString;
            vaultId \<leftarrow> property_of payload ''vaultId'' nonBlankString;
            digest \<leftarrow> property_of payload ''expectedGenesisCertificateDigest'' canonicalDigest;
            deviceId \<leftarrow> property_of payload ''deviceId'' nonBlankString;
            suite \<leftarrow> property_of payload ''algorithmSuiteId'' nonBlankString;
            signKey \<leftarrow> property_of payload ''publicSignKey'' (\<lambda>v. decodeCanonicalBytes v (Some 32));
            vaultKey \<leftarrow> property_of payload ''publicVaultKey'' (\<lambda>v. decodeCanonicalBytes v (Some 65));
            signature \<leftarrow> property_of record ''signature'' decodeSignature;
            Some \<lparr>der_requestId = requestId, der_vaultId = vaultId,
                  der_expectedGenesisCertificateDigest = digest, der_deviceId = deviceId,
                  der_algorithmSuiteId = suite, der_publicSignKey = signKey, der_publicVaultKey = vaultKey,
                  der_signature = signature\<rparr> } }"

definition decodeDeviceEnrollmentRequest :: "json \<Rightarrow> core_error + DeviceEnrollmentRequest" where
  "decodeDeviceEnrollmentRequest value =
     or_throw InvalidDeviceEnrollmentArtifactError (decodeEnrollmentRequestInner value)"

definition encodeDeviceEnrollmentRequest :: "DeviceEnrollmentRequest \<Rightarrow> json" where
  "encodeDeviceEnrollmentRequest value = JObj
     [(''payload'', JObj
         [(''version'', JNum 1), (''requestId'', JStr (der_requestId value)),
          (''vaultId'', JStr (der_vaultId value)),
          (''expectedGenesisCertificateDigest'', JStr (der_expectedGenesisCertificateDigest value)),
          (''deviceId'', JStr (der_deviceId value)),
          (''algorithmSuiteId'', JStr (der_algorithmSuiteId value)),
          (''publicSignKey'', encodeBytes (der_publicSignKey value)),
          (''publicVaultKey'', encodeBytes (der_publicVaultKey value))]),
      (''signature'', encodeSignature (der_signature value))]"

definition read_enrollment_response :: "json \<Rightarrow> DeviceEnrollmentResponse option" where
  "read_enrollment_response value =
     do { record \<leftarrow> exactRecord [''version'', ''requestId'', ''vaultId'', ''vaultTrustAnchor'', ''snapshot''] [] value;
          if map_of record ''version'' \<noteq> Some (JNum 1) then None
          else do {
            snapshot \<leftarrow> property_of record ''snapshot'' read_snapshot;
            vaultId \<leftarrow> property_of record ''vaultId'' nonBlankString;
            anchor \<leftarrow> property_of record ''vaultTrustAnchor'' decodeTrustAnchor;
            if m_id (snap_metadata snapshot) \<noteq> vaultId \<or> an_vaultId anchor \<noteq> vaultId then None
            else do {
              requestId \<leftarrow> property_of record ''requestId'' nonBlankString;
              Some \<lparr>dep_requestId = requestId, dep_vaultId = vaultId, dep_vaultTrustAnchor = anchor,
                    dep_snapshot = snapshot\<rparr> } } }"

definition decodeDeviceEnrollmentResponse :: "json \<Rightarrow> core_error + DeviceEnrollmentResponse" where
  "decodeDeviceEnrollmentResponse value =
     or_throw InvalidDeviceEnrollmentArtifactError (read_enrollment_response value)"

definition encodeDeviceEnrollmentResponse :: "DeviceEnrollmentResponse \<Rightarrow> json" where
  "encodeDeviceEnrollmentResponse value = JObj
     [(''version'', JNum 1), (''requestId'', JStr (dep_requestId value)),
      (''vaultId'', JStr (dep_vaultId value)),
      (''vaultTrustAnchor'', encodeTrustAnchor (dep_vaultTrustAnchor value)),
      (''snapshot'', encodeVaultSnapshot (dep_snapshot value))]"

definition read_pending_enrollment :: "json \<Rightarrow> PendingDeviceEnrollment option" where
  "read_pending_enrollment value =
     do { record \<leftarrow> exactRecord [''requestId'', ''vaultId'', ''deviceId'', ''algorithmSuiteId'',
            ''masterPasswordSalt'', ''localKeysProtectionSalt'', ''protectedPrivateState''] [] value;
          requestId \<leftarrow> property_of record ''requestId'' nonBlankString;
          vaultId \<leftarrow> property_of record ''vaultId'' nonBlankString;
          deviceId \<leftarrow> property_of record ''deviceId'' nonBlankString;
          suite \<leftarrow> property_of record ''algorithmSuiteId'' nonBlankString;
          salt \<leftarrow> property_of record ''masterPasswordSalt'' (\<lambda>v. decodeCanonicalBytes v (Some 32));
          protectionSalt \<leftarrow> property_of record ''localKeysProtectionSalt'' (\<lambda>v. decodeCanonicalBytes v (Some 32));
          state \<leftarrow> property_of record ''protectedPrivateState'' decodeWrapped;
          Some \<lparr>pde_requestId = requestId, pde_vaultId = vaultId, pde_deviceId = deviceId,
                pde_algorithmSuiteId = suite, pde_masterPasswordSalt = salt,
                pde_localKeysProtectionSalt = protectionSalt, pde_protectedPrivateState = state\<rparr> }"

definition decodePendingDeviceEnrollment :: "json \<Rightarrow> core_error + PendingDeviceEnrollment" where
  "decodePendingDeviceEnrollment value =
     or_throw InvalidDeviceEnrollmentArtifactError (read_pending_enrollment value)"

definition encodePendingDeviceEnrollment :: "PendingDeviceEnrollment \<Rightarrow> json" where
  "encodePendingDeviceEnrollment value = JObj
     [(''requestId'', JStr (pde_requestId value)), (''vaultId'', JStr (pde_vaultId value)),
      (''deviceId'', JStr (pde_deviceId value)),
      (''algorithmSuiteId'', JStr (pde_algorithmSuiteId value)),
      (''masterPasswordSalt'', encodeBytes (pde_masterPasswordSalt value)),
      (''localKeysProtectionSalt'', encodeBytes (pde_localKeysProtectionSalt value)),
      (''protectedPrivateState'', encodeWrapped (pde_protectedPrivateState value))]"

definition read_enrollment_state :: "json \<Rightarrow> DeviceEnrollmentPrivateState option" where
  "read_enrollment_state value =
     do { record \<leftarrow> exactRecord [''request'', ''devicePrivateSignKey'', ''devicePrivateVaultKey'',
            ''deviceLocalProtectionKey''] [] value;
          request \<leftarrow> property_of record ''request'' decodeEnrollmentRequestInner;
          signKey \<leftarrow> property_of record ''devicePrivateSignKey'' (\<lambda>v. decodeCanonicalBytes v (Some 48));
          vaultKey \<leftarrow> property_of record ''devicePrivateVaultKey'' (\<lambda>v. decodeCanonicalBytes v (Some 138));
          protectionKey \<leftarrow> property_of record ''deviceLocalProtectionKey'' (\<lambda>v. decodeCanonicalBytes v (Some 32));
          Some \<lparr>des_request = request, des_devicePrivateSignKey = signKey,
                des_devicePrivateVaultKey = vaultKey, des_deviceLocalProtectionKey = protectionKey\<rparr> }"

definition decodeDeviceEnrollmentPrivateState :: "json \<Rightarrow> core_error + DeviceEnrollmentPrivateState" where
  "decodeDeviceEnrollmentPrivateState value =
     or_throw InvalidDeviceEnrollmentPrivateStateError (read_enrollment_state value)"

definition encodeDeviceEnrollmentPrivateState :: "DeviceEnrollmentPrivateState \<Rightarrow> json" where
  "encodeDeviceEnrollmentPrivateState value = JObj
     [(''request'', encodeDeviceEnrollmentRequest (des_request value)),
      (''devicePrivateSignKey'', encodeBytes (des_devicePrivateSignKey value)),
      (''devicePrivateVaultKey'', encodeBytes (des_devicePrivateVaultKey value)),
      (''deviceLocalProtectionKey'', encodeBytes (des_deviceLocalProtectionKey value))]"

section \<open>Accepted values\<close>

definition vault_descriptor_ok :: "LocalVaultDescriptor \<Rightarrow> bool" where
  "vault_descriptor_ok d \<longleftrightarrow> nonBlank (lvd_vaultId d) \<and> nonBlank (lvd_displayName d) \<and>
     lvd_createdAt d \<le> MAX_SAFE_INTEGER \<and> pred_option (\<lambda>t. t \<le> MAX_SAFE_INTEGER) (lvd_lastUnlockedAt d)"

definition access_ok :: "'a device_access_scheme \<Rightarrow> bool" where
  "access_ok a \<longleftrightarrow> safe_integer 1 (da_revision a) \<and> nonBlank (da_localAccessGenerationId a) \<and>
     nonBlank (da_vaultId a) \<and> nonBlank (da_deviceId a) \<and> nonBlank (da_algorithmSuiteId a) \<and>
     length (da_devicePublicSignKey a) = 32 \<and> length (da_devicePublicVaultKey a) = 65 \<and>
     wrapped_ok (da_protectedLocalKeys a)"

definition material_ok :: "DeviceAccessMaterial \<Rightarrow> bool" where
  "material_ok a \<longleftrightarrow> access_ok a \<and> length (dam_masterPasswordSalt a) = 32 \<and>
     length (dam_localKeysProtectionSalt a) = 32"

definition backup_ok :: "DeviceAccessRecoveryBackup \<Rightarrow> bool" where
  "backup_ok a \<longleftrightarrow> access_ok a \<and> length (dab_recoveryLocalKeysProtectionSalt a) = 32"

definition checkpoint_ok :: "LocalVaultTrustCheckpoint \<Rightarrow> bool" where
  "checkpoint_ok c \<longleftrightarrow>
     (let p = chk_payload c in
      cp_version p = 1 \<and> nonBlank (cp_vaultId p) \<and> nonBlank (cp_deviceId p) \<and>
      safe_integer 0 (cp_trustGeneration p) \<and> digest_text (cp_trustCertificateDigest p) \<and>
      safe_integer 1 (cp_vaultKeyGeneration p) \<and> safe_vector (cp_snapshotVersionVector p) \<and>
      digest_text (cp_snapshotDigest p) \<and> canonical_text 64 (chk_signature c))"

definition sorted_checkpoint :: "LocalVaultTrustCheckpoint \<Rightarrow> LocalVaultTrustCheckpoint" where
  "sorted_checkpoint c =
     c\<lparr>chk_payload := (chk_payload c)\<lparr>cp_snapshotVersionVector :=
       sort_key fst (cp_snapshotVersionVector (chk_payload c))\<rparr>\<rparr>"

definition credentials_ok :: "SyncCredentials \<Rightarrow> bool" where
  "credentials_ok c \<longleftrightarrow> sc_provider c = ''aws-s3-v1''"

definition pending_ok :: "PendingSnapshotUpload \<Rightarrow> bool" where
  "pending_ok p \<longleftrightarrow> identity_ok (psu_candidateSnapshotIdentity p) \<and>
     pred_option identity_ok (psu_expectedRemoteSnapshotIdentity p)"

definition previous_ok :: "PreviousCredentials \<Rightarrow> bool" where
  "previous_ok p \<longleftrightarrow> credentials_ok (prc_credentials p) \<and> list_all nonBlank (prc_revokedDeviceIds p) \<and>
     distinct (prc_revokedDeviceIds p) \<and> safe_integer 1 (prc_vaultKeyGeneration p)"

definition credential_state_ok :: "DeviceSyncCredentialState \<Rightarrow> bool" where
  "credential_state_ok s \<longleftrightarrow> credentials_ok (dsc_currentCredentials s) \<and>
     pred_option pending_ok (dsc_pendingSnapshotUpload s) \<and> pred_option previous_ok (dsc_previousCredentials s)"

definition enrollment_request_ok :: "DeviceEnrollmentRequest \<Rightarrow> bool" where
  "enrollment_request_ok r \<longleftrightarrow> nonBlank (der_requestId r) \<and> nonBlank (der_vaultId r) \<and>
     digest_text (der_expectedGenesisCertificateDigest r) \<and> nonBlank (der_deviceId r) \<and>
     nonBlank (der_algorithmSuiteId r) \<and> length (der_publicSignKey r) = 32 \<and>
     length (der_publicVaultKey r) = 65 \<and> canonical_text 64 (der_signature r)"

definition pending_enrollment_ok :: "PendingDeviceEnrollment \<Rightarrow> bool" where
  "pending_enrollment_ok p \<longleftrightarrow> nonBlank (pde_requestId p) \<and> nonBlank (pde_vaultId p) \<and>
     nonBlank (pde_deviceId p) \<and> nonBlank (pde_algorithmSuiteId p) \<and>
     length (pde_masterPasswordSalt p) = 32 \<and> length (pde_localKeysProtectionSalt p) = 32 \<and>
     wrapped_ok (pde_protectedPrivateState p)"

definition local_keys_ok :: "LocalKeysPayload \<Rightarrow> bool" where
  "local_keys_ok k \<longleftrightarrow> length (lkp_devicePrivateSignKey k) = 48 \<and>
     length (lkp_devicePrivateVaultKey k) = 138 \<and> length (lkp_deviceLocalProtectionKey k) = 32 \<and>
     anchor_ok (lkp_vaultTrustAnchor k)"

definition enrollment_state_ok :: "DeviceEnrollmentPrivateState \<Rightarrow> bool" where
  "enrollment_state_ok s \<longleftrightarrow> enrollment_request_ok (des_request s) \<and>
     length (des_devicePrivateSignKey s) = 48 \<and> length (des_devicePrivateVaultKey s) = 138 \<and>
     length (des_deviceLocalProtectionKey s) = 32"

section \<open>Reading back\<close>

lemma or_throw_Inr [simp]: "or_throw e r = Inr a \<longleftrightarrow> r = Some a"
  by (cases r) (simp_all add: or_throw_def)

lemma read_vault_descriptor_encode [codec_simps]:
  "read_vault_descriptor (encodeLocalVaultDescriptor d) = (if vault_descriptor_ok d then Some d else None)"
proof (cases d)
  case (fields v n c l)
  show ?thesis
    by (cases l) (simp_all add: fields read_vault_descriptor_def encodeLocalVaultDescriptor_def
        vault_descriptor_ok_def codec_simps optional_property_def)
qed

lemma read_access_material_encode [codec_simps]:
  "read_access_material (encodeDeviceAccessMaterial a) = (if material_ok a then Some a else None)"
  by (cases a) (simp add: read_access_material_def decodeAccessCommon_def encodeDeviceAccessMaterial_def
      material_ok_def access_ok_def codec_simps device_access.extend_def DeviceAccessMaterial.fields_def)

lemma read_recovery_backup_encode [codec_simps]:
  "read_recovery_backup (encodeDeviceAccessRecoveryBackup a) = (if backup_ok a then Some a else None)"
  by (cases a) (simp add: read_recovery_backup_def decodeAccessCommon_def encodeDeviceAccessRecoveryBackup_def
      backup_ok_def access_ok_def codec_simps device_access.extend_def DeviceAccessRecoveryBackup.fields_def)

lemma read_checkpoint_encode [codec_simps]:
  "read_checkpoint (encodeLocalVaultTrustCheckpoint c) = (if checkpoint_ok c then Some (sorted_checkpoint c) else None)"
proof (cases c)
  case (fields p s)
  show ?thesis
    by (cases p) (simp add: fields read_checkpoint_def encodeLocalVaultTrustCheckpoint_def checkpoint_json_def
        checkpoint_ok_def sorted_checkpoint_def codec_simps Let_def)
qed

lemma decodeVersionVector_vv_json [codec_simps]:
  "decodeVersionVector (vv_json v) = (if safe_vector v then Some v else None)"
  using decodeVersionVector_JObj [of v] by (simp add: vv_json_def)

lemma identity_json_decode [codec_simps]:
  "decodeVaultSnapshotIdentity (identity_json i) = (if identity_ok i then Some i else None)"
proof (cases i)
  case (fields d g)
  show ?thesis
    by (cases d) (simp add: fields decodeVaultSnapshotIdentity_def identity_json_def read_descriptor_def
        identity_ok_def descriptor_ok_def codec_simps Let_def)
qed

lemma identity_json_not_null [simp]: "identity_json i \<noteq> JNull"
  by (simp add: identity_json_def Let_def)

lemma decodeSyncCredentials_json [codec_simps]:
  "decodeSyncCredentials (credentials_json c) = (if credentials_ok c then Some c else None)"
  by (cases c) (simp add: decodeSyncCredentials_def credentials_json_def credentials_ok_def codec_simps)

lemma decodePendingSnapshotUpload_json [codec_simps]:
  "decodePendingSnapshotUpload (pending_json p) = (if pending_ok p then Some p else None)"
proof (cases p)
  case (fields c e)
  show ?thesis
    by (cases e) (simp_all add: fields decodePendingSnapshotUpload_def pending_json_def pending_ok_def nullable_def
        codec_simps)
qed

lemma decodePreviousCredentials_json [codec_simps]:
  "decodePreviousCredentials (previous_json p) = (if previous_ok p then Some p else None)"
  by (cases p) (simp add: decodePreviousCredentials_def previous_json_def previous_ok_def codec_simps)

lemma read_credential_state_json [codec_simps]:
  "read_credential_state (credential_state_json s) = (if credential_state_ok s then Some s else None)"
proof (cases s)
  case (fields c u p)
  show ?thesis
    by (cases u; cases p) (simp_all add: fields read_credential_state_def credential_state_json_def
        credential_state_ok_def optional_property_def codec_simps)
qed

lemma decodeEnrollmentRequest_encode [codec_simps]:
  "decodeEnrollmentRequestInner (encodeDeviceEnrollmentRequest r) =
     (if enrollment_request_ok r then Some r else None)"
  by (cases r) (simp add: decodeEnrollmentRequestInner_def encodeDeviceEnrollmentRequest_def
      enrollment_request_ok_def codec_simps)

lemma read_pending_enrollment_encode [codec_simps]:
  "read_pending_enrollment (encodePendingDeviceEnrollment p) =
     (if pending_enrollment_ok p then Some p else None)"
  by (cases p) (simp add: read_pending_enrollment_def encodePendingDeviceEnrollment_def
      pending_enrollment_ok_def codec_simps)

lemma read_local_keys_encode [codec_simps]:
  "read_local_keys (encodeLocalKeysPayload k) = (if local_keys_ok k then Some k else None)"
  by (cases k) (simp add: read_local_keys_def encodeLocalKeysPayload_def local_keys_ok_def codec_simps)

lemma read_enrollment_state_encode [codec_simps]:
  "read_enrollment_state (encodeDeviceEnrollmentPrivateState s) = (if enrollment_state_ok s then Some s else None)"
  by (cases s) (simp add: read_enrollment_state_def encodeDeviceEnrollmentPrivateState_def
      enrollment_state_ok_def codec_simps)

section \<open>Everything read is accepted\<close>

lemma optional_natural_sound:
  "optional_property record key safeNatural = Some t \<Longrightarrow> pred_option (\<lambda>t. t \<le> MAX_SAFE_INTEGER) t"
  by (cases t) (auto simp: optional_property_Some safeNatural_Some)

lemma read_vault_descriptor_sound: "read_vault_descriptor v = Some d \<Longrightarrow> vault_descriptor_ok d"
  by (auto simp: read_vault_descriptor_def vault_descriptor_ok_def bind_eq_Some_conv property_of_Some
      nonBlankString_Some safeNatural_Some dest!: optional_natural_sound)

lemma decodeAccessCommon_sound:
  "decodeAccessCommon v r = Some (a, salt, extra) \<Longrightarrow>
     access_ok a \<and> length salt = 32 \<and> pred_option (\<lambda>s. length s = 32) extra"
  by (auto simp: decodeAccessCommon_def Let_def access_ok_def bind_eq_Some_conv property_of_Some
      nonBlankString_Some safeInteger_Some decodeCanonicalBytes_Some dest!: decodeWrapped_Some split: if_splits)

lemma read_access_material_sound: "read_access_material v = Some a \<Longrightarrow> material_ok a"
  by (auto simp: read_access_material_def material_ok_def access_ok_def device_access.extend_def
      DeviceAccessMaterial.fields_def dest!: decodeAccessCommon_sound split: option.splits)

lemma read_recovery_backup_sound: "read_recovery_backup v = Some a \<Longrightarrow> backup_ok a"
  by (auto simp: read_recovery_backup_def backup_ok_def access_ok_def device_access.extend_def
      DeviceAccessRecoveryBackup.fields_def dest!: decodeAccessCommon_sound split: option.splits)

lemma read_checkpoint_sound: "read_checkpoint v = Some c \<Longrightarrow> checkpoint_ok c"
  by (auto simp: read_checkpoint_def checkpoint_ok_def reading_simps Let_def
      dest!: decodeVersionVector_safe decodeSignature_Some split: if_splits)

lemma read_pending_enrollment_sound: "read_pending_enrollment v = Some p \<Longrightarrow> pending_enrollment_ok p"
  by (auto simp: read_pending_enrollment_def pending_enrollment_ok_def reading_simps dest!: decodeWrapped_Some)

end
