(* ===== verification/Vault_Repository.thy ===== *)
theory Vault_Repository
  imports Local_Codec Stateful
begin

text \<open>
  The local store of the extension
  (\<open>apps/extension/src/adapters/storage/indexeddb-vault-local-repository.adapter.ts\<close>): seven tables
  of JSON artifacts, written by every context of the extension. One state is the database; an
  operation is one transaction, so it is one step, and an operation that throws changes nothing.

  Importing public keys and digesting snapshots are services of the runtime, the arguments \<open>keys\<close>
  and \<open>digest\<close>.
\<close>

section \<open>The database\<close>

type_synonym table = "(string \<times> json) list"

record vault_db =
  localVaultDescriptors :: table
  deviceAccessMaterials :: table
  deviceAccessRecoveryBackups :: table
  vaultSnapshots :: table
  localVaultTrustCheckpoints :: table
  deviceSyncCredentialStates :: table
  pendingDeviceEnrollments :: table

type_synonym 'a repo = "(vault_db, core_error, 'a) stateful"

text \<open>A transaction that rejects is rolled back.\<close>

definition transaction :: "'a repo \<Rightarrow> 'a repo" where
  "transaction body = (\<lambda>db. case body db of (Inl e, _) \<Rightarrow> (Inl e, db) | (Inr a, db') \<Rightarrow> (Inr a, db'))"

section \<open>Stored artifacts\<close>

definition storedVaultArtifact :: "string \<Rightarrow> json \<Rightarrow> json" where
  "storedVaultArtifact vaultId artifact = JObj [(''vaultId'', JStr vaultId), (''artifact'', artifact)]"

definition storedVaultArtifactValue :: "json \<Rightarrow> string \<Rightarrow> storage_error \<Rightarrow> core_error + json" where
  "storedVaultArtifactValue record expectedVaultId e =
     or_throw e
       (do { stored \<leftarrow> exactRecord [''artifact'', ''vaultId''] [] record;
             if map_of stored ''vaultId'' \<noteq> Some (JStr expectedVaultId) then None
             else map_of stored ''artifact'' })"

definition storedPendingEnrollmentArtifactValue :: "json \<Rightarrow> string \<Rightarrow> core_error + json" where
  "storedPendingEnrollmentArtifactValue record expectedRequestId =
     or_throw InvalidDeviceEnrollmentArtifactError
       (do { stored \<leftarrow> exactRecord [''artifact'', ''requestId''] [] record;
             if map_of stored ''requestId'' \<noteq> Some (JStr expectedRequestId) then None
             else map_of stored ''artifact'' })"

definition requireMatchingVaultId :: "string \<Rightarrow> string \<Rightarrow> storage_error \<Rightarrow> core_error + unit" where
  "requireMatchingVaultId actualVaultId expectedVaultId e =
     (if actualVaultId \<noteq> expectedVaultId then Inl (Storage_error e) else Inr ())"

record key_validator =
  importDeviceSignPublicKey :: "bytes \<Rightarrow> bool"
  importDeviceVaultPublicKey :: "bytes \<Rightarrow> bool"

definition validateVaultSnapshotPublicKeys :: "VaultSnapshot \<Rightarrow> key_validator \<Rightarrow> bool" where
  "validateVaultSnapshotPublicKeys snapshot keys \<longleftrightarrow>
     list_all (\<lambda>certificate. list_all (\<lambda>device.
        importDeviceSignPublicKey keys (dti_publicSignKey device) \<and>
        importDeviceVaultPublicKey keys (dti_publicVaultKey device)) (tc_trustedDevices (cert_payload certificate)))
       (snap_trustChain snapshot) \<and>
     list_all (\<lambda>slot. importDeviceVaultPublicKey keys (env_ephemeralPublicKey (slot_envelope slot)))
       (snap_deviceSlots snapshot)"

definition validateDeviceAccessPublicKeys :: "key_validator \<Rightarrow> bytes \<Rightarrow> bytes \<Rightarrow> core_error + unit" where
  "validateDeviceAccessPublicKeys keys publicSignKey publicVaultKey =
     (if importDeviceSignPublicKey keys publicSignKey \<and> importDeviceVaultPublicKey keys publicVaultKey
      then Inr () else Inl (Storage_error InvalidLocalVaultSecurityRecordError))"

definition decodeAndValidateVaultSnapshot :: "key_validator \<Rightarrow> json \<Rightarrow> core_error + VaultSnapshot" where
  "decodeAndValidateVaultSnapshot keys artifact =
     rbind (decodeVaultSnapshot artifact Local_origin) (\<lambda>snapshot.
     if validateVaultSnapshotPublicKeys snapshot keys then Inr snapshot
     else Inl (Storage_error InvalidLocalVaultSnapshotRecordError))"

definition decodeDeviceAccessMaterialRecord ::
    "key_validator \<Rightarrow> json \<Rightarrow> string \<Rightarrow> core_error + DeviceAccessMaterial" where
  "decodeDeviceAccessMaterialRecord keys record vaultId =
     rbind (storedVaultArtifactValue record vaultId InvalidLocalVaultSecurityRecordError) (\<lambda>artifact.
     rbind (decodeDeviceAccessMaterial artifact) (\<lambda>material.
     rbind (requireMatchingVaultId (da_vaultId material) vaultId InvalidLocalVaultSecurityRecordError) (\<lambda>_.
     rbind (validateDeviceAccessPublicKeys keys (da_devicePublicSignKey material) (da_devicePublicVaultKey material))
       (\<lambda>_. Inr material))))"

definition decodeDeviceAccessRecoveryBackupRecord ::
    "key_validator \<Rightarrow> json \<Rightarrow> string \<Rightarrow> core_error + DeviceAccessRecoveryBackup" where
  "decodeDeviceAccessRecoveryBackupRecord keys record vaultId =
     rbind (storedVaultArtifactValue record vaultId InvalidLocalVaultSecurityRecordError) (\<lambda>artifact.
     rbind (decodeDeviceAccessRecoveryBackup artifact) (\<lambda>backup.
     rbind (requireMatchingVaultId (da_vaultId backup) vaultId InvalidLocalVaultSecurityRecordError) (\<lambda>_.
     rbind (validateDeviceAccessPublicKeys keys (da_devicePublicSignKey backup) (da_devicePublicVaultKey backup))
       (\<lambda>_. Inr backup))))"

text \<open>\<open>if (record === undefined) null else decode(record)\<close>.\<close>

definition decode_found :: "json option \<Rightarrow> (json \<Rightarrow> core_error + 'a) \<Rightarrow> core_error + 'a option" where
  "decode_found record decode = (case record of None \<Rightarrow> Inr None | Some r \<Rightarrow> rbind (decode r) (\<lambda>a. Inr (Some a)))"

section \<open>Device access records\<close>

definition INITIAL_DEVICE_ACCESS_REVISION :: int where
  "INITIAL_DEVICE_ACCESS_REVISION = 1"

definition isNonEmptyString :: "string \<Rightarrow> bool" where
  "isNonEmptyString value \<longleftrightarrow> length value > 0"

definition buffers_equal :: "bytes \<Rightarrow> bytes \<Rightarrow> bool" where
  "buffers_equal left right \<longleftrightarrow>
     length left = length right \<and> list_all (\<lambda>index. left ! index = right ! index) [0..<length left]"

definition haveSameDeviceAccessIdentity :: "'a device_access_scheme \<Rightarrow> 'b device_access_scheme \<Rightarrow> bool" where
  "haveSameDeviceAccessIdentity left right \<longleftrightarrow>
     isNonEmptyString (da_vaultId left) \<and> isNonEmptyString (da_deviceId left) \<and>
     isNonEmptyString (da_algorithmSuiteId left) \<and> da_vaultId left = da_vaultId right \<and>
     da_deviceId left = da_deviceId right \<and> da_algorithmSuiteId left = da_algorithmSuiteId right \<and>
     buffers_equal (da_devicePublicSignKey left) (da_devicePublicSignKey right) \<and>
     buffers_equal (da_devicePublicVaultKey left) (da_devicePublicVaultKey right)"

definition areDeviceAccessRecordsConsistent :: "DeviceAccessMaterial \<Rightarrow> DeviceAccessRecoveryBackup \<Rightarrow> bool" where
  "areDeviceAccessRecordsConsistent material backup \<longleftrightarrow>
     haveSameDeviceAccessIdentity material backup \<and>
     isNonEmptyString (da_localAccessGenerationId material) \<and>
     da_localAccessGenerationId material = da_localAccessGenerationId backup"

definition nextDeviceAccessRevision :: "int \<Rightarrow> int option" where
  "nextDeviceAccessRevision currentRevision =
     (if \<bar>currentRevision\<bar> \<le> int MAX_SAFE_INTEGER \<and> currentRevision \<ge> INITIAL_DEVICE_ACCESS_REVISION \<and>
         currentRevision < int MAX_SAFE_INTEGER
      then Some (currentRevision + 1) else None)"

record device_access_replacement =
  expectedDeviceAccessMaterialRevision :: "int option"
  expectedDeviceAccessMaterialGenerationId :: "string option"
  expectedDeviceAccessRecoveryBackupRevision :: int
  expectedDeviceAccessRecoveryBackupGenerationId :: string
  replacementMaterial :: DeviceAccessMaterial
  replacementBackup :: DeviceAccessRecoveryBackup

definition isValidDeviceAccessReplacement ::
    "device_access_replacement \<Rightarrow> DeviceAccessMaterial option \<Rightarrow> DeviceAccessRecoveryBackup option \<Rightarrow> bool" where
  "isValidDeviceAccessReplacement params currentMaterial currentBackup =
     (let expectsAbsentMaterial = (expectedDeviceAccessMaterialRevision params = None \<and>
            expectedDeviceAccessMaterialGenerationId params = None);
          hasSplitMaterialExpectation = ((expectedDeviceAccessMaterialRevision params = None) \<noteq>
            (expectedDeviceAccessMaterialGenerationId params = None));
          nextMaterialRevision = (case expectedDeviceAccessMaterialRevision params of
            None \<Rightarrow> Some INITIAL_DEVICE_ACCESS_REVISION | Some r \<Rightarrow> nextDeviceAccessRevision r);
          nextBackupRevision = nextDeviceAccessRevision (expectedDeviceAccessRecoveryBackupRevision params);
          currentMaterialMatchesExpected = (case currentMaterial of
            None \<Rightarrow> expectedDeviceAccessMaterialRevision params = None \<and>
              expectedDeviceAccessMaterialGenerationId params = None
          | Some m \<Rightarrow> Some (da_revision m) = expectedDeviceAccessMaterialRevision params \<and>
              Some (da_localAccessGenerationId m) = expectedDeviceAccessMaterialGenerationId params)
      in \<not> hasSplitMaterialExpectation \<and>
         (case currentBackup of
            None \<Rightarrow> False
          | Some backup \<Rightarrow>
              (currentMaterial = None) = expectsAbsentMaterial \<and>
              nextMaterialRevision \<noteq> None \<and> nextBackupRevision \<noteq> None \<and>
              isNonEmptyString (expectedDeviceAccessRecoveryBackupGenerationId params) \<and>
              (case expectedDeviceAccessMaterialGenerationId params of None \<Rightarrow> True | Some g \<Rightarrow> isNonEmptyString g) \<and>
              currentMaterialMatchesExpected \<and>
              da_revision backup = expectedDeviceAccessRecoveryBackupRevision params \<and>
              da_localAccessGenerationId backup = expectedDeviceAccessRecoveryBackupGenerationId params \<and>
              (case currentMaterial of None \<Rightarrow> True | Some m \<Rightarrow> areDeviceAccessRecordsConsistent m backup) \<and>
              areDeviceAccessRecordsConsistent (replacementMaterial params) (replacementBackup params) \<and>
              haveSameDeviceAccessIdentity backup (replacementBackup params) \<and>
              Some (da_revision (replacementMaterial params)) = nextMaterialRevision \<and>
              Some (da_revision (replacementBackup params)) = nextBackupRevision \<and>
              da_localAccessGenerationId (replacementMaterial params) \<noteq> da_localAccessGenerationId backup \<and>
              (case currentMaterial of None \<Rightarrow> True
               | Some m \<Rightarrow> da_localAccessGenerationId (replacementMaterial params) \<noteq> da_localAccessGenerationId m)))"

definition saveDeviceAccessRecords :: "key_validator \<Rightarrow> device_access_replacement \<Rightarrow> unit repo" where
  "saveDeviceAccessRecords keys params =
     (let vaultId = da_vaultId (replacementMaterial params) in
      sthen (srequire (areDeviceAccessRecordsConsistent (replacementMaterial params) (replacementBackup params))
               (Storage_error (DeviceAccessMaterialChangedError vaultId)))
      (transaction
        (sbind (sread (\<lambda>db. (map_of (deviceAccessMaterials db) vaultId,
                              map_of (deviceAccessRecoveryBackups db) vaultId)))
          (\<lambda>(materialRecord, backupRecord).
         sbind (slift (decode_found materialRecord (\<lambda>r. decodeDeviceAccessMaterialRecord keys r vaultId)))
          (\<lambda>currentMaterial.
         sbind (slift (decode_found backupRecord (\<lambda>r. decodeDeviceAccessRecoveryBackupRecord keys r vaultId)))
          (\<lambda>currentBackup.
         sthen (srequire (isValidDeviceAccessReplacement params currentMaterial currentBackup)
                 (Storage_error (DeviceAccessMaterialChangedError vaultId)))
         (smodify (\<lambda>db. db\<lparr>
            deviceAccessMaterials := AList.update vaultId
              (storedVaultArtifact vaultId (encodeDeviceAccessMaterial (replacementMaterial params)))
              (deviceAccessMaterials db),
            deviceAccessRecoveryBackups := AList.update vaultId
              (storedVaultArtifact vaultId (encodeDeviceAccessRecoveryBackup (replacementBackup params)))
              (deviceAccessRecoveryBackups db)\<rparr>)))))))) "

definition getDeviceAccessRecords ::
    "key_validator \<Rightarrow> string \<Rightarrow> (DeviceAccessMaterial option \<times> DeviceAccessRecoveryBackup option) repo" where
  "getDeviceAccessRecords keys vaultId =
     sbind (sread (\<lambda>db. (map_of (deviceAccessMaterials db) vaultId,
                          map_of (deviceAccessRecoveryBackups db) vaultId)))
       (\<lambda>(materialRecord, backupRecord).
      sbind (slift (decode_found materialRecord (\<lambda>r. decodeDeviceAccessMaterialRecord keys r vaultId)))
       (\<lambda>deviceAccessMaterial.
      sbind (slift (decode_found backupRecord (\<lambda>r. decodeDeviceAccessRecoveryBackupRecord keys r vaultId)))
       (\<lambda>deviceAccessRecoveryBackup.
      case (deviceAccessMaterial, deviceAccessRecoveryBackup) of
        (Some m, Some b) \<Rightarrow> sthen (srequire (areDeviceAccessRecordsConsistent m b)
          (Storage_error InvalidLocalVaultSecurityRecordError))
          (sret (deviceAccessMaterial, deviceAccessRecoveryBackup))
      | _ \<Rightarrow> sret (deviceAccessMaterial, deviceAccessRecoveryBackup))))"

definition getDeviceAccessMaterial :: "key_validator \<Rightarrow> string \<Rightarrow> DeviceAccessMaterial option repo" where
  "getDeviceAccessMaterial keys vaultId =
     sbind (sread (\<lambda>db. map_of (deviceAccessMaterials db) vaultId)) (\<lambda>record.
     slift (decode_found record (\<lambda>r. decodeDeviceAccessMaterialRecord keys r vaultId)))"

definition removeDeviceAccessMaterial :: "string \<Rightarrow> unit repo" where
  "removeDeviceAccessMaterial vaultId =
     smodify (\<lambda>db. db\<lparr>deviceAccessMaterials := AList.delete vaultId (deviceAccessMaterials db)\<rparr>)"

definition getDeviceAccessRecoveryBackup :: "key_validator \<Rightarrow> string \<Rightarrow> DeviceAccessRecoveryBackup option repo" where
  "getDeviceAccessRecoveryBackup keys vaultId =
     sbind (sread (\<lambda>db. map_of (deviceAccessRecoveryBackups db) vaultId)) (\<lambda>record.
     slift (decode_found record (\<lambda>r. decodeDeviceAccessRecoveryBackupRecord keys r vaultId)))"

definition removeDeviceAccessRecoveryBackup :: "string \<Rightarrow> unit repo" where
  "removeDeviceAccessRecoveryBackup vaultId =
     smodify (\<lambda>db. db\<lparr>deviceAccessRecoveryBackups := AList.delete vaultId (deviceAccessRecoveryBackups db)\<rparr>)"

section \<open>Initialised vaults\<close>

text \<open>A parameter object: a property may be absent, present with the value \<open>undefined\<close>, or present.\<close>

datatype 'a own_property = Absent | Undefined | Value 'a

record initialized_vault =
  iv_descriptor :: LocalVaultDescriptor
  iv_deviceAccessMaterial :: DeviceAccessMaterial
  iv_deviceAccessRecoveryBackup :: DeviceAccessRecoveryBackup
  iv_snapshot :: VaultSnapshot
  iv_checkpoint :: LocalVaultTrustCheckpoint
  iv_syncCredentialState :: "SerializedEncrypted option"

definition saveInitializedLocalVault :: "initialized_vault \<Rightarrow> unit repo" where
  "saveInitializedLocalVault params =
     (let vaultId = lvd_vaultId (iv_descriptor params);
          material = iv_deviceAccessMaterial params; backup = iv_deviceAccessRecoveryBackup params;
          payload = chk_payload (iv_checkpoint params);
          stored = storedVaultArtifact vaultId in
      sthen (srequire (\<not> (da_revision material \<noteq> INITIAL_DEVICE_ACCESS_REVISION \<or>
               da_revision backup \<noteq> INITIAL_DEVICE_ACCESS_REVISION \<or>
               \<not> areDeviceAccessRecordsConsistent material backup))
             (Storage_error (DeviceAccessMaterialChangedError vaultId)))
      (sthen (srequire (\<not> (da_vaultId material \<noteq> vaultId \<or> cp_vaultId payload \<noteq> vaultId \<or>
               cp_deviceId payload \<noteq> da_deviceId material))
             (Storage_error InvalidLocalVaultSecurityRecordError))
      (sthen (srequire (m_id (snap_metadata (iv_snapshot params)) = vaultId)
             (Storage_error InvalidLocalVaultSnapshotRecordError))
      (transaction
        (sbind (sread (\<lambda>db. [map_of (localVaultDescriptors db) vaultId, map_of (deviceAccessMaterials db) vaultId,
             map_of (deviceAccessRecoveryBackups db) vaultId, map_of (vaultSnapshots db) vaultId,
             map_of (localVaultTrustCheckpoints db) vaultId, map_of (deviceSyncCredentialStates db) vaultId]))
          (\<lambda>existingRecords.
         sthen (srequire (\<not> list_ex (\<lambda>record. record \<noteq> None) existingRecords)
                 (Storage_error (LocalVaultAlreadyInitializedError vaultId)))
         (smodify (\<lambda>db. db\<lparr>
            localVaultDescriptors := AList.update vaultId
              (stored (encodeLocalVaultDescriptor (iv_descriptor params))) (localVaultDescriptors db),
            deviceAccessMaterials := AList.update vaultId
              (stored (encodeDeviceAccessMaterial material)) (deviceAccessMaterials db),
            deviceAccessRecoveryBackups := AList.update vaultId
              (stored (encodeDeviceAccessRecoveryBackup backup)) (deviceAccessRecoveryBackups db),
            vaultSnapshots := AList.update vaultId
              (stored (encodeVaultSnapshot (iv_snapshot params))) (vaultSnapshots db),
            localVaultTrustCheckpoints := AList.update vaultId
              (stored (encodeLocalVaultTrustCheckpoint (iv_checkpoint params))) (localVaultTrustCheckpoints db),
            deviceSyncCredentialStates := (case iv_syncCredentialState params of
                None \<Rightarrow> deviceSyncCredentialStates db
              | Some c \<Rightarrow> AList.update vaultId (stored (encodeEncryptedDeviceSyncCredentialState c))
                  (deviceSyncCredentialStates db))\<rparr>))))))))"

definition removeVaultRecords :: "string \<Rightarrow> vault_db \<Rightarrow> vault_db" where
  "removeVaultRecords vaultId db = db\<lparr>
     localVaultDescriptors := AList.delete vaultId (localVaultDescriptors db),
     deviceAccessMaterials := AList.delete vaultId (deviceAccessMaterials db),
     deviceAccessRecoveryBackups := AList.delete vaultId (deviceAccessRecoveryBackups db),
     vaultSnapshots := AList.delete vaultId (vaultSnapshots db),
     localVaultTrustCheckpoints := AList.delete vaultId (localVaultTrustCheckpoints db),
     deviceSyncCredentialStates := AList.delete vaultId (deviceSyncCredentialStates db)\<rparr>"

definition removePersistedLocalVault :: "string \<Rightarrow> unit repo" where
  "removePersistedLocalVault vaultId = transaction (smodify (removeVaultRecords vaultId))"

definition areEncryptedSyncCredentialStatesEqual ::
    "SerializedEncrypted option \<Rightarrow> SerializedEncrypted option \<Rightarrow> bool" where
  "areEncryptedSyncCredentialStatesEqual left right =
     (case (left, right) of
        (Some l, Some r) \<Rightarrow> enc_ciphertext l = enc_ciphertext r \<and> enc_encryptionNonce l = enc_encryptionNonce r
      | _ \<Rightarrow> left = None \<and> right = None)"

text \<open>A decoded checkpoint as \<open>areJsonEqual\<close> sees it.\<close>

definition checkpoint_value :: "LocalVaultTrustCheckpoint \<Rightarrow> json" where
  "checkpoint_value c = checkpoint_json c (vv_json (cp_snapshotVersionVector (chk_payload c)))"

definition stored_credentials :: "json option \<Rightarrow> string \<Rightarrow> core_error + SerializedEncrypted option" where
  "stored_credentials record vaultId =
     decode_found record (\<lambda>r.
       rbind (storedVaultArtifactValue r vaultId InvalidSyncCredentialRecordError)
         decodeEncryptedDeviceSyncCredentialState)"

record expected_artifacts =
  ea_vaultId :: string
  ea_descriptor :: LocalVaultDescriptor
  ea_deviceAccessMaterial :: DeviceAccessMaterial
  ea_deviceAccessRecoveryBackup :: DeviceAccessRecoveryBackup
  ea_snapshotDigest :: string
  ea_checkpoint :: LocalVaultTrustCheckpoint
  ea_syncCredentialState :: "SerializedEncrypted option"

definition removePersistedLocalVaultIfArtifactsMatch ::
    "key_validator \<Rightarrow> (VaultSnapshot \<Rightarrow> string) \<Rightarrow> expected_artifacts \<Rightarrow> bool repo" where
  "removePersistedLocalVaultIfArtifactsMatch keys digest params =
     (let vaultId = ea_vaultId params in
      transaction
        (sbind (sread (\<lambda>db. (map_of (localVaultDescriptors db) vaultId, map_of (deviceAccessMaterials db) vaultId,
             map_of (deviceAccessRecoveryBackups db) vaultId, map_of (vaultSnapshots db) vaultId,
             map_of (localVaultTrustCheckpoints db) vaultId, map_of (deviceSyncCredentialStates db) vaultId)))
          (\<lambda>records. case records of
             (Some descriptorRecord, Some materialRecord, Some backupRecord, Some snapshotRecord,
              Some checkpointRecord, syncCredentialRecord) \<Rightarrow>
               sbind (slift (storedVaultArtifactValue descriptorRecord vaultId InvalidLocalVaultSecurityRecordError))
                 (\<lambda>descriptorArtifact.
               sbind (slift (storedVaultArtifactValue materialRecord vaultId InvalidLocalVaultSecurityRecordError))
                 (\<lambda>materialArtifact.
               sbind (slift (storedVaultArtifactValue backupRecord vaultId InvalidLocalVaultSecurityRecordError))
                 (\<lambda>backupArtifact.
               sbind (slift (rbind (storedVaultArtifactValue snapshotRecord vaultId InvalidLocalVaultSnapshotRecordError)
                   (decodeAndValidateVaultSnapshot keys))) (\<lambda>snapshot.
               sbind (slift (rbind (storedVaultArtifactValue checkpointRecord vaultId InvalidLocalVaultSecurityRecordError)
                   decodeLocalVaultTrustCheckpoint)) (\<lambda>checkpoint.
               sbind (slift (stored_credentials syncCredentialRecord vaultId)) (\<lambda>currentSyncCredentialState.
               if m_id (snap_metadata snapshot) \<noteq> vaultId \<or>
                  cp_vaultId (chk_payload checkpoint) \<noteq> vaultId \<or>
                  \<not> areJsonEqual descriptorArtifact (encodeLocalVaultDescriptor (ea_descriptor params)) \<or>
                  \<not> areJsonEqual materialArtifact (encodeDeviceAccessMaterial (ea_deviceAccessMaterial params)) \<or>
                  \<not> areJsonEqual backupArtifact
                    (encodeDeviceAccessRecoveryBackup (ea_deviceAccessRecoveryBackup params)) \<or>
                  digest snapshot \<noteq> ea_snapshotDigest params \<or>
                  cp_snapshotDigest (chk_payload checkpoint) \<noteq> ea_snapshotDigest params \<or>
                  \<not> areJsonEqual (checkpoint_value checkpoint) (checkpoint_value (ea_checkpoint params)) \<or>
                  \<not> areEncryptedSyncCredentialStatesEqual currentSyncCredentialState (ea_syncCredentialState params)
               then sret False
               else sthen (smodify (removeVaultRecords vaultId)) (sret True)))))))
           | _ \<Rightarrow> sret False)))"

section \<open>Descriptors\<close>

definition saveLocalVaultDescriptor :: "LocalVaultDescriptor \<Rightarrow> unit repo" where
  "saveLocalVaultDescriptor descriptor =
     smodify (\<lambda>db. db\<lparr>localVaultDescriptors := AList.update (lvd_vaultId descriptor)
       (storedVaultArtifact (lvd_vaultId descriptor) (encodeLocalVaultDescriptor descriptor))
       (localVaultDescriptors db)\<rparr>)"

definition decodeDescriptorRecord :: "json \<Rightarrow> string \<Rightarrow> core_error + LocalVaultDescriptor" where
  "decodeDescriptorRecord record vaultId =
     rbind (storedVaultArtifactValue record vaultId InvalidLocalVaultSecurityRecordError) (\<lambda>artifact.
     rbind (decodeLocalVaultDescriptor artifact) (\<lambda>descriptor.
     rbind (requireMatchingVaultId (lvd_vaultId descriptor) vaultId InvalidLocalVaultSecurityRecordError)
       (\<lambda>_. Inr descriptor)))"

definition getLocalVaultDescriptor :: "string \<Rightarrow> LocalVaultDescriptor option repo" where
  "getLocalVaultDescriptor vaultId =
     sbind (sread (\<lambda>db. map_of (localVaultDescriptors db) vaultId)) (\<lambda>record.
     slift (decode_found record (\<lambda>r. decodeDescriptorRecord r vaultId)))"

text \<open>\<open>toArray\<close> lists a table in the order of its keys.\<close>

definition listLocalVaultDescriptors :: "LocalVaultDescriptor list repo" where
  "listLocalVaultDescriptors =
     sbind (sread (\<lambda>db. sort_key fst (localVaultDescriptors db))) (\<lambda>records.
     slift (rmap (\<lambda>(vaultId, record). decodeDescriptorRecord record vaultId) records))"

definition removeLocalVaultDescriptor :: "string \<Rightarrow> unit repo" where
  "removeLocalVaultDescriptor vaultId =
     smodify (\<lambda>db. db\<lparr>localVaultDescriptors := AList.delete vaultId (localVaultDescriptors db)\<rparr>)"

section \<open>Snapshots and checkpoints\<close>

definition getVaultSnapshot :: "key_validator \<Rightarrow> string \<Rightarrow> VaultSnapshot option repo" where
  "getVaultSnapshot keys vaultId =
     sbind (sread (\<lambda>db. map_of (vaultSnapshots db) vaultId)) (\<lambda>record.
     slift (decode_found record (\<lambda>r.
       rbind (storedVaultArtifactValue r vaultId InvalidLocalVaultSnapshotRecordError) (\<lambda>artifact.
       rbind (decodeAndValidateVaultSnapshot keys artifact) (\<lambda>snapshot.
       rbind (requireMatchingVaultId (m_id (snap_metadata snapshot)) vaultId InvalidLocalVaultSnapshotRecordError)
         (\<lambda>_. Inr snapshot))))))"

definition removeVaultSnapshot :: "string \<Rightarrow> unit repo" where
  "removeVaultSnapshot vaultId =
     smodify (\<lambda>db. db\<lparr>vaultSnapshots := AList.delete vaultId (vaultSnapshots db)\<rparr>)"

record snapshot_replacement =
  sr_expectedSnapshotDigest :: string
  sr_expectedCheckpoint :: LocalVaultTrustCheckpoint
  sr_snapshot :: VaultSnapshot
  sr_checkpoint :: LocalVaultTrustCheckpoint
  sr_syncCredentialState :: "SerializedEncrypted option own_property"
  sr_expectedSyncCredentialState :: "SerializedEncrypted option own_property"

definition saveVaultSnapshotWithCheckpoint ::
    "key_validator \<Rightarrow> (VaultSnapshot \<Rightarrow> string) \<Rightarrow> snapshot_replacement \<Rightarrow> unit repo" where
  "saveVaultSnapshotWithCheckpoint keys digest params =
     (let vaultId = m_id (snap_metadata (sr_snapshot params));
          replaces = (case sr_syncCredentialState params of Value _ \<Rightarrow> True | _ \<Rightarrow> False);
          hasSyncCredentialState = (sr_syncCredentialState params \<noteq> Absent);
          hasExpectedSyncCredentialState = (sr_expectedSyncCredentialState params \<noteq> Absent) in
      sthen (srequire (cp_vaultId (chk_payload (sr_checkpoint params)) = vaultId)
             (Storage_error InvalidLocalVaultSecurityRecordError))
      (sthen (srequire (\<not> (hasSyncCredentialState \<noteq> replaces \<or> hasExpectedSyncCredentialState \<noteq> replaces \<or>
               (replaces \<and> sr_expectedSyncCredentialState params = Undefined)))
             (Storage_error InvalidLocalVaultSecurityRecordError))
      (transaction
        (sbind (sread (\<lambda>db. (map_of (vaultSnapshots db) vaultId, map_of (localVaultTrustCheckpoints db) vaultId,
             if replaces then map_of (deviceSyncCredentialStates db) vaultId else None)))
          (\<lambda>records. case records of
             (Some snapshotRecord, Some checkpointRecord, syncCredentialRecord) \<Rightarrow>
               sbind (slift (rbind (storedVaultArtifactValue snapshotRecord vaultId InvalidLocalVaultSnapshotRecordError)
                   (decodeAndValidateVaultSnapshot keys))) (\<lambda>currentSnapshot.
               sbind (slift (rbind (storedVaultArtifactValue checkpointRecord vaultId InvalidLocalVaultSecurityRecordError)
                   decodeLocalVaultTrustCheckpoint)) (\<lambda>currentCheckpoint.
               sbind (slift (stored_credentials syncCredentialRecord vaultId)) (\<lambda>currentSyncCredentialState.
               sthen (srequire (\<not> (m_id (snap_metadata currentSnapshot) \<noteq> vaultId \<or>
                   cp_vaultId (chk_payload currentCheckpoint) \<noteq> vaultId \<or>
                   digest currentSnapshot \<noteq> sr_expectedSnapshotDigest params \<or>
                   \<not> areJsonEqual (checkpoint_value currentCheckpoint)
                       (checkpoint_value (sr_expectedCheckpoint params)) \<or>
                   (replaces \<and> \<not> areEncryptedSyncCredentialStatesEqual currentSyncCredentialState
                      (case sr_expectedSyncCredentialState params of Value e \<Rightarrow> e | _ \<Rightarrow> None))))
                 (Snapshot_error (LocalVaultSnapshotChangedError vaultId)))
               (smodify (\<lambda>db. db\<lparr>
                  vaultSnapshots := AList.update vaultId
                    (storedVaultArtifact vaultId (encodeVaultSnapshot (sr_snapshot params))) (vaultSnapshots db),
                  localVaultTrustCheckpoints := AList.update vaultId
                    (storedVaultArtifact vaultId (encodeLocalVaultTrustCheckpoint (sr_checkpoint params)))
                    (localVaultTrustCheckpoints db),
                  deviceSyncCredentialStates := (case sr_syncCredentialState params of
                      Value None \<Rightarrow> AList.delete vaultId (deviceSyncCredentialStates db)
                    | Value (Some c) \<Rightarrow> AList.update vaultId
                        (storedVaultArtifact vaultId (encodeEncryptedDeviceSyncCredentialState c))
                        (deviceSyncCredentialStates db)
                    | _ \<Rightarrow> deviceSyncCredentialStates db)\<rparr>)))))
           | _ \<Rightarrow> sthrow (Snapshot_error (LocalVaultSnapshotChangedError vaultId)))))))"

definition getLocalVaultTrustCheckpoint :: "string \<Rightarrow> LocalVaultTrustCheckpoint option repo" where
  "getLocalVaultTrustCheckpoint vaultId =
     sbind (sread (\<lambda>db. map_of (localVaultTrustCheckpoints db) vaultId)) (\<lambda>record.
     slift (decode_found record (\<lambda>r.
       rbind (storedVaultArtifactValue r vaultId InvalidLocalVaultSecurityRecordError) (\<lambda>artifact.
       rbind (decodeLocalVaultTrustCheckpoint artifact) (\<lambda>checkpoint.
       rbind (requireMatchingVaultId (cp_vaultId (chk_payload checkpoint)) vaultId
           InvalidLocalVaultSecurityRecordError)
         (\<lambda>_. Inr checkpoint))))))"

definition removeLocalVaultTrustCheckpoint :: "string \<Rightarrow> unit repo" where
  "removeLocalVaultTrustCheckpoint vaultId =
     smodify (\<lambda>db. db\<lparr>localVaultTrustCheckpoints := AList.delete vaultId (localVaultTrustCheckpoints db)\<rparr>)"

section \<open>Credentials and enrollments\<close>

definition saveDeviceSyncCredentialState :: "string \<Rightarrow> SerializedEncrypted \<Rightarrow> unit repo" where
  "saveDeviceSyncCredentialState vaultId state =
     smodify (\<lambda>db. db\<lparr>deviceSyncCredentialStates := AList.update vaultId
       (storedVaultArtifact vaultId (encodeEncryptedDeviceSyncCredentialState state))
       (deviceSyncCredentialStates db)\<rparr>)"

definition getDeviceSyncCredentialState :: "string \<Rightarrow> SerializedEncrypted option repo" where
  "getDeviceSyncCredentialState vaultId =
     sbind (sread (\<lambda>db. map_of (deviceSyncCredentialStates db) vaultId)) (\<lambda>record.
     slift (stored_credentials record vaultId))"

definition removeDeviceSyncCredentialState :: "string \<Rightarrow> unit repo" where
  "removeDeviceSyncCredentialState vaultId =
     smodify (\<lambda>db. db\<lparr>deviceSyncCredentialStates := AList.delete vaultId (deviceSyncCredentialStates db)\<rparr>)"

definition savePendingDeviceEnrollment :: "PendingDeviceEnrollment \<Rightarrow> unit repo" where
  "savePendingDeviceEnrollment enrollment =
     smodify (\<lambda>db. db\<lparr>pendingDeviceEnrollments := AList.update (pde_requestId enrollment)
       (JObj [(''requestId'', JStr (pde_requestId enrollment)),
              (''artifact'', encodePendingDeviceEnrollment enrollment)])
       (pendingDeviceEnrollments db)\<rparr>)"

definition getPendingDeviceEnrollment :: "string \<Rightarrow> PendingDeviceEnrollment option repo" where
  "getPendingDeviceEnrollment requestId =
     sbind (sread (\<lambda>db. map_of (pendingDeviceEnrollments db) requestId)) (\<lambda>record.
     slift (decode_found record (\<lambda>r.
       rbind (storedPendingEnrollmentArtifactValue r requestId) (\<lambda>artifact.
       rbind (decodePendingDeviceEnrollment artifact) (\<lambda>enrollment.
       if pde_requestId enrollment \<noteq> requestId then Inl (Storage_error InvalidDeviceEnrollmentArtifactError)
       else Inr enrollment)))))"

definition removePendingDeviceEnrollment :: "string \<Rightarrow> unit repo" where
  "removePendingDeviceEnrollment requestId =
     smodify (\<lambda>db. db\<lparr>pendingDeviceEnrollments := AList.delete requestId (pendingDeviceEnrollments db)\<rparr>)"

end
