(* ===== verification/Snapshot_Service.thy ===== *)
theory Snapshot_Service
  imports Vault_Repository Vault_Session Snapshot_Review
begin

text \<open>
  Replacing the local snapshot of an unlocked vault
  (\<open>services/snapshot/vault-snapshot.service.ts\<close>): the stored snapshot is checked against the
  session, the changed vault is encrypted, signed and verified, and written together with a new
  checkpoint under the condition that nothing else has been written since.

  The state is the device: the local store, the remote storage, and a counter of the calls that
  have been made. Every call to the store or to the cryptographic port may fail, a call to the
  store before or after its effect, and before it runs other contexts may have changed the store in
  any way (\<open>meanwhile\<close>). Keys are read from the memory as it is when an operation starts.
\<close>

section \<open>The device\<close>

record 'r device_world =
  local_db :: vault_db
  call_count :: nat
  remote_store :: 'r

type_synonym ('r, 'a) service = "('r device_world, core_error, 'a) stateful"

record UnsignedVaultSnapshot =
  un_metadata :: VaultSnapshotMetadata
  un_trustChain :: VaultTrustChain
  un_deviceSlots :: "DeviceKeySlot list"
  un_content :: SerializedEncrypted

record DeviceSyncCredentialEncryptionContext =
  cc_vaultId :: string
  cc_deviceId :: string
  cc_provider :: string
  cc_target :: SyncTarget

text \<open>The other functions of the port; the number is the call, which nonces are drawn for.\<close>

record vault_crypto = crypto +
  encryptVaultSnapshotContent :: "nat \<Rightarrow> Vault \<Rightarrow> bytes \<Rightarrow> SerializedEncrypted"
  decryptVaultSnapshotContent :: "SerializedEncrypted \<Rightarrow> bytes \<Rightarrow> core_error + Vault"
  signVaultSnapshot :: "UnsignedVaultSnapshot \<Rightarrow> bytes \<Rightarrow> string"
  encryptDeviceSyncCredentialState ::
    "nat \<Rightarrow> DeviceSyncCredentialState \<Rightarrow> bytes \<Rightarrow> DeviceSyncCredentialEncryptionContext \<Rightarrow> SerializedEncrypted"
  decryptDeviceSyncCredentialState ::
    "SerializedEncrypted \<Rightarrow> bytes \<Rightarrow> DeviceSyncCredentialEncryptionContext \<Rightarrow> core_error + DeviceSyncCredentialState"

record device_env =
  crypto_port :: vault_crypto
  key_import :: key_validator
  call_fate :: "nat \<Rightarrow> call_outcome"
  meanwhile :: "nat \<Rightarrow> vault_db \<Rightarrow> vault_db"
  clock_now :: "nat \<Rightarrow> nat"

abbreviation trust_port :: "device_env \<Rightarrow> crypto" where
  "trust_port env \<equiv> crypto.truncate (crypto_port env)"

abbreviation snapshot_digest :: "device_env \<Rightarrow> VaultSnapshot \<Rightarrow> string" where
  "snapshot_digest env \<equiv> digestVaultSnapshot (crypto_port env)"

definition repository :: "device_env \<Rightarrow> 'a repo \<Rightarrow> ('r, 'a) service" where
  "repository env operation w =
     (let n = call_count w;
          w' = w\<lparr>call_count := Suc n, local_db := meanwhile env n (local_db w)\<rparr> in
      case call_fate env n of
        Succeeds \<Rightarrow> (case operation (local_db w') of (r, db) \<Rightarrow> (r, w'\<lparr>local_db := db\<rparr>))
      | Fails_before \<Rightarrow> (Inl (External_failure n), w')
      | Fails_after \<Rightarrow>
          (case operation (local_db w') of (r, db) \<Rightarrow> (Inl (External_failure n), w'\<lparr>local_db := db\<rparr>)))"

definition crypto_call :: "device_env \<Rightarrow> (nat \<Rightarrow> core_error + 'a) \<Rightarrow> ('r, 'a) service" where
  "crypto_call env f w =
     (let n = call_count w; w' = w\<lparr>call_count := Suc n\<rparr> in
      case call_fate env n of
        Succeeds \<Rightarrow> (f n, w')
      | _ \<Rightarrow> (Inl (External_failure n), w'))"

text \<open>A function of \<open>VaultTrustService\<close>.\<close>

abbreviation trust_check :: "core_error + 'a \<Rightarrow> ('r, 'a) service" where
  "trust_check r \<equiv> slift r"

section \<open>The stored snapshot and checkpoint\<close>

definition requireSupportedSnapshotAlgorithm ::
    "device_env \<Rightarrow> string \<Rightarrow> VaultSnapshot \<Rightarrow> core_error + unit" where
  "requireSupportedSnapshotAlgorithm env vaultId snapshot =
     (if m_schemaVersion (snap_metadata snapshot) \<noteq> 1
      then Inl (VaultTrustStateInvalidError vaultId Unsupported_schema_version)
      else if m_algorithmSuiteId (snap_metadata snapshot) \<noteq> algorithmSuiteId (crypto_port env)
      then Inl (Snapshot_error (UnsupportedAlgorithmSuiteError vaultId (algorithmSuiteId (crypto_port env))
             (m_algorithmSuiteId (snap_metadata snapshot))))
      else Inr ())"

definition requireLocalVaultSnapshot :: "device_env \<Rightarrow> string \<Rightarrow> ('r, VaultSnapshot) service" where
  "requireLocalVaultSnapshot env vaultId =
     sbind (repository env (getVaultSnapshot (key_import env) vaultId)) (\<lambda>snapshot.
     case snapshot of
       None \<Rightarrow> sthrow (Snapshot_error (VaultSnapshotNotFoundError vaultId))
     | Some s \<Rightarrow> sret s)"

definition requireLocalVaultTrustCheckpoint ::
    "device_env \<Rightarrow> string \<Rightarrow> ('r, LocalVaultTrustCheckpoint) service" where
  "requireLocalVaultTrustCheckpoint env vaultId =
     sbind (repository env (getLocalVaultTrustCheckpoint vaultId)) (\<lambda>checkpoint.
     case checkpoint of
       None \<Rightarrow> sthrow (Snapshot_error (LocalVaultTrustCheckpointNotFoundError vaultId))
     | Some c \<Rightarrow> sret c)"

definition requireCurrentSnapshotForUnlockedVault ::
    "device_env \<Rightarrow> string \<Rightarrow> UnlockedVault \<Rightarrow> VersionVector \<Rightarrow> ('r, VaultSnapshot) service" where
  "requireCurrentSnapshotForUnlockedVault env vaultId unlockedVault sourceSnapshotVersionVector =
     (if uv_vaultId unlockedVault \<noteq> vaultId
      then sthrow (Snapshot_error (PersistedVaultMismatchError vaultId (uv_vaultId unlockedVault)))
      else
        sbind (requireLocalVaultSnapshot env vaultId) (\<lambda>snapshot.
        if compareVersionVectors (m_snapshotVersionVector (snap_metadata snapshot)) sourceSnapshotVersionVector
             \<noteq> Equal
        then sthrow (Snapshot_error (VaultSnapshotVersionMismatchError vaultId sourceSnapshotVersionVector
               (m_snapshotVersionVector (snap_metadata snapshot))))
        else
        sthen (slift (requireSupportedSnapshotAlgorithm env vaultId snapshot))
        (sbind (crypto_call env (\<lambda>_. Inr (snapshot_digest env snapshot))) (\<lambda>snapshotDigest.
         if snapshotDigest \<noteq> tsc_snapshotDigest (uv_trustedSnapshotContext unlockedVault)
         then sthrow (Snapshot_error (VaultSnapshotDigestMismatchError vaultId))
         else
         sthen (trust_check (verifySnapshot (trust_port env) vaultId snapshot
                  (tsc_trust (uv_trustedSnapshotContext unlockedVault))))
         (if \<not> list_ex (\<lambda>slot. slot_deviceId slot = uv_deviceId unlockedVault) (snap_deviceSlots snapshot)
          then sthrow (Snapshot_error (SnapshotSigningDeviceNotTrustedError vaultId (uv_deviceId unlockedVault)))
          else sret snapshot)))))"

definition requireCurrentCheckpointForUnlockedVault ::
    "device_env \<Rightarrow> string \<Rightarrow> VaultSnapshot \<Rightarrow> UnlockedVault \<Rightarrow> ('r, LocalVaultTrustCheckpoint) service" where
  "requireCurrentCheckpointForUnlockedVault env vaultId snapshot unlockedVault =
     (let trust = tsc_trust (uv_trustedSnapshotContext unlockedVault) in
      sbind (requireLocalVaultTrustCheckpoint env vaultId) (\<lambda>checkpoint.
      case find_device (ts_trustedDevices trust) (uv_deviceId unlockedVault) of
        None \<Rightarrow> sthrow (Snapshot_error (SnapshotSigningDeviceNotTrustedError vaultId (uv_deviceId unlockedVault)))
      | Some trustedDevice \<Rightarrow>
          sthen (trust_check (verifyCheckpoint (trust_port env) vaultId checkpoint trustedDevice))
          (sthen (trust_check (requireSnapshotNotRolledBack (trust_port env) vaultId snapshot trust checkpoint))
          (sret checkpoint))))"

section \<open>Persisting a changed vault\<close>

record persist_options =
  po_baseSnapshotVersionVector :: "VersionVector option"
  po_keySlots :: "DeviceKeySlot list option"
  po_vaultKeyGeneration :: "int option"
  po_uploadExpectedRemoteSnapshotIdentity :: "VaultSnapshotIdentity option option"
  po_nextTrust :: "(VaultTrustChain \<times> VerifiedVaultTrustState) option"
  po_syncCredentialState :: "SerializedEncrypted option option"
  po_expectedSyncCredentialState :: "SerializedEncrypted option option"

definition no_options :: persist_options where
  "no_options =
     \<lparr>po_baseSnapshotVersionVector = None, po_keySlots = None, po_vaultKeyGeneration = None,
      po_uploadExpectedRemoteSnapshotIdentity = None, po_nextTrust = None,
      po_syncCredentialState = None, po_expectedSyncCredentialState = None\<rparr>"

record persisted_snapshot =
  ps_snapshotVersionVector :: VersionVector
  ps_revisionTimestamp :: nat
  ps_trustedSnapshotContext :: TrustedSnapshotContext
  ps_checkpoint :: LocalVaultTrustCheckpoint
  ps_snapshot :: VaultSnapshot

text \<open>\<open>a ?? b\<close>, and a property that is given its value even if this is \<open>undefined\<close>.\<close>

definition nullish :: "'a option \<Rightarrow> 'a \<Rightarrow> 'a" where
  "nullish a b = (case a of None \<Rightarrow> b | Some x \<Rightarrow> x)"

definition given :: "'a option \<Rightarrow> 'a own_property" where
  "given a = (case a of None \<Rightarrow> Undefined | Some x \<Rightarrow> Value x)"

text \<open>The metadata of the next snapshot: the current ones with the changed fields.\<close>

definition next_metadata ::
    "VaultSnapshotMetadata \<Rightarrow> nat \<Rightarrow> string \<Rightarrow> persist_options \<Rightarrow> VaultSnapshotMetadata" where
  "next_metadata current revisionTimestamp deviceId options = current\<lparr>
     m_revisionTimestamp := revisionTimestamp,
     m_snapshotVersionVector := incrementVersionVector
       (nullish (po_baseSnapshotVersionVector options) (m_snapshotVersionVector current)) deviceId,
     m_createdByDeviceId := deviceId,
     m_vaultKeyGeneration := nullish (po_vaultKeyGeneration options) (m_vaultKeyGeneration current),
     m_uploadExpectedRemoteSnapshotIdentity :=
       (case po_uploadExpectedRemoteSnapshotIdentity options of
          None \<Rightarrow> m_uploadExpectedRemoteSnapshotIdentity current
        | Some identity \<Rightarrow> Some (map_option cloneVaultSnapshotIdentity identity))\<rparr>"

definition signed_snapshot :: "UnsignedVaultSnapshot \<Rightarrow> string \<Rightarrow> VaultSnapshot" where
  "signed_snapshot unsignedSnapshot signature =
     \<lparr>snap_metadata = un_metadata unsignedSnapshot, snap_trustChain = un_trustChain unsignedSnapshot,
      snap_deviceSlots = un_deviceSlots unsignedSnapshot, snap_content = un_content unsignedSnapshot,
      snap_signature = signature\<rparr>"

text \<open>The replacement that is handed to the store, without and with the sync credentials.\<close>

definition replacement ::
    "string \<Rightarrow> LocalVaultTrustCheckpoint \<Rightarrow> VaultSnapshot \<Rightarrow> LocalVaultTrustCheckpoint \<Rightarrow>
     SerializedEncrypted option own_property \<Rightarrow> SerializedEncrypted option own_property \<Rightarrow> snapshot_replacement" where
  "replacement expectedSnapshotDigest expectedCheckpoint snapshot checkpoint expectedState state =
     \<lparr>sr_expectedSnapshotDigest = expectedSnapshotDigest, sr_expectedCheckpoint = expectedCheckpoint,
      sr_snapshot = snapshot, sr_checkpoint = checkpoint,
      sr_syncCredentialState = state, sr_expectedSyncCredentialState = expectedState\<rparr>"

definition save_snapshot :: "device_env \<Rightarrow> snapshot_replacement \<Rightarrow> ('r, unit) service" where
  "save_snapshot env p = repository env (saveVaultSnapshotWithCheckpoint (key_import env) (snapshot_digest env) p)"

text \<open>The snapshot that is written: encrypted and signed by the device of the session.\<close>

definition build_snapshot ::
    "device_env \<Rightarrow> (buffer \<Rightarrow> bytes) \<Rightarrow> string \<Rightarrow> UnlockedVault \<Rightarrow> persist_options \<Rightarrow> VaultTrustChain \<Rightarrow>
     VerifiedVaultTrustState \<Rightarrow> VaultSnapshot \<Rightarrow> ('r, VaultSnapshot) service" where
  "build_snapshot env mem vaultId unlockedVault options trustChain trustState currentSnapshot =
     (let privateKey = mem (uv_devicePrivateSignKey unlockedVault);
          notTrusted = Snapshot_error (SnapshotSigningDeviceNotTrustedError vaultId (uv_deviceId unlockedVault)) in
      case find_device (ts_trustedDevices trustState) (uv_deviceId unlockedVault) of
        None \<Rightarrow> sthrow notTrusted
      | Some signingDevice \<Rightarrow>
          sbind (crypto_call env (\<lambda>_. Inr (verifyDeviceSignKeyPair (crypto_port env)
                   (dti_publicSignKey signingDevice) privateKey))) (\<lambda>pair.
          sthen (srequire pair notTrusted)
          (sbind (sread (\<lambda>w. clock_now env (call_count w))) (\<lambda>revisionTimestamp.
           sbind (crypto_call env (\<lambda>n. Inr (encryptVaultSnapshotContent (crypto_port env) n
                    (uv_vault unlockedVault) (mem (uv_vaultMasterKey unlockedVault))))) (\<lambda>content.
           let unsignedSnapshot =
                 \<lparr>un_metadata = next_metadata (snap_metadata currentSnapshot) revisionTimestamp
                    (uv_deviceId unlockedVault) options,
                  un_trustChain = trustChain,
                  un_deviceSlots = nullish (po_keySlots options) (snap_deviceSlots currentSnapshot),
                  un_content = content\<rparr> in
           sbind (crypto_call env (\<lambda>_. Inr (signVaultSnapshot (crypto_port env) unsignedSnapshot privateKey)))
             (\<lambda>signature.
           sret (signed_snapshot unsignedSnapshot signature)))))))"

text \<open>Everything before the write: the expected checkpoint and what will be written and returned.\<close>

definition prepare_persisted_snapshot ::
    "device_env \<Rightarrow> (buffer \<Rightarrow> bytes) \<Rightarrow> string \<Rightarrow> UnlockedVault \<Rightarrow> VersionVector \<Rightarrow> persist_options \<Rightarrow>
     ('r, LocalVaultTrustCheckpoint \<times> persisted_snapshot) service" where
  "prepare_persisted_snapshot env mem vaultId unlockedVault sourceSnapshotVersionVector options =
     sbind (requireCurrentSnapshotForUnlockedVault env vaultId unlockedVault sourceSnapshotVersionVector)
       (\<lambda>currentSnapshot.
     sbind (requireCurrentCheckpointForUnlockedVault env vaultId currentSnapshot unlockedVault)
       (\<lambda>expectedCheckpoint.
      let trustChain = nullish (map_option fst (po_nextTrust options)) (snap_trustChain currentSnapshot);
          trustState = nullish (map_option snd (po_nextTrust options))
            (tsc_trust (uv_trustedSnapshotContext unlockedVault)) in
     sbind (build_snapshot env mem vaultId unlockedVault options trustChain trustState currentSnapshot)
       (\<lambda>snapshot.
     sthen (trust_check (verifySnapshot (trust_port env) vaultId snapshot trustState))
     (sbind (crypto_call env (\<lambda>_. Inr (snapshot_digest env snapshot))) (\<lambda>snapshotDigest.
      sbind (crypto_call env (\<lambda>_. Inr (createCheckpoint (trust_port env) snapshot trustState
               (uv_deviceId unlockedVault) (mem (uv_devicePrivateSignKey unlockedVault))))) (\<lambda>checkpoint.
      sret (expectedCheckpoint,
            \<lparr>ps_snapshotVersionVector = m_snapshotVersionVector (snap_metadata snapshot),
             ps_revisionTimestamp = m_revisionTimestamp (snap_metadata snapshot),
             ps_trustedSnapshotContext = \<lparr>tsc_snapshotDigest = snapshotDigest, tsc_trust = trustState\<rparr>,
             ps_checkpoint = checkpoint, ps_snapshot = snapshot\<rparr>)))))))"

text \<open>The credential properties are passed only if a credential state is given.\<close>

definition credentials_change :: "persist_options \<Rightarrow> SerializedEncrypted option own_property" where
  "credentials_change options =
     (if po_syncCredentialState options = None then Absent else given (po_syncCredentialState options))"

definition expected_credentials :: "persist_options \<Rightarrow> SerializedEncrypted option own_property" where
  "expected_credentials options =
     (if po_syncCredentialState options = None then Absent else given (po_expectedSyncCredentialState options))"

definition persistUnlockedVault ::
    "device_env \<Rightarrow> (buffer \<Rightarrow> bytes) \<Rightarrow> string \<Rightarrow> UnlockedVault \<Rightarrow> VersionVector \<Rightarrow> persist_options \<Rightarrow>
     ('r, persisted_snapshot) service" where
  "persistUnlockedVault env mem vaultId unlockedVault sourceSnapshotVersionVector options =
     sbind (prepare_persisted_snapshot env mem vaultId unlockedVault sourceSnapshotVersionVector options)
       (\<lambda>(expectedCheckpoint, persisted).
     sthen (save_snapshot env
              (replacement (tsc_snapshotDigest (uv_trustedSnapshotContext unlockedVault)) expectedCheckpoint
                 (ps_snapshot persisted) (ps_checkpoint persisted)
                 (expected_credentials options) (credentials_change options)))
       (sret persisted))"

section \<open>Verifying other snapshots\<close>

record candidate_trust =
  ct_chain :: VaultTrustChain
  ct_state :: VerifiedVaultTrustState
  ct_snapshotDigest :: string

definition requireSnapshotOfVault :: "device_env \<Rightarrow> string \<Rightarrow> VaultSnapshot \<Rightarrow> core_error + unit" where
  "requireSnapshotOfVault env vaultId snapshot =
     rbind (requireSupportedSnapshotAlgorithm env vaultId snapshot) (\<lambda>_.
     if m_id (snap_metadata snapshot) \<noteq> vaultId
     then Inl (Snapshot_error (PersistedVaultMismatchError vaultId (m_id (snap_metadata snapshot))))
     else Inr ())"

definition verifyCandidateSnapshotTrust ::
    "device_env \<Rightarrow> string \<Rightarrow> VaultSnapshot \<Rightarrow> UnlockedVault \<Rightarrow> ('r, candidate_trust) service" where
  "verifyCandidateSnapshotTrust env vaultId snapshot unlockedVault =
     sthen (slift (requireSnapshotOfVault env vaultId snapshot))
     (sbind (trust_check (verifyTrustChain (trust_port env) vaultId (uv_vaultTrustAnchor unlockedVault)
               (snap_trustChain snapshot))) (\<lambda>state.
      let baseline = tsc_trust (uv_trustedSnapshotContext unlockedVault) in
      sthen (trust_check (requireTrustDescendsFrom (trust_port env) vaultId (snap_trustChain snapshot) state
               (ts_generation baseline) (ts_certificateDigest baseline)))
      (sthen (trust_check (verifySnapshot (trust_port env) vaultId snapshot state))
      (sbind (crypto_call env (\<lambda>_. Inr (snapshot_digest env snapshot))) (\<lambda>snapshotDigest.
       sret \<lparr>ct_chain = snap_trustChain snapshot, ct_state = state, ct_snapshotDigest = snapshotDigest\<rparr>)))))"

definition verifyHistoricalSnapshotTrust ::
    "device_env \<Rightarrow> string \<Rightarrow> VaultSnapshot \<Rightarrow> VaultSnapshot \<Rightarrow> UnlockedVault \<Rightarrow> ('r, candidate_trust) service" where
  "verifyHistoricalSnapshotTrust env vaultId historicalSnapshot currentSnapshot unlockedVault =
     sthen (slift (requireSnapshotOfVault env vaultId historicalSnapshot))
     (sbind (trust_check (verifyTrustChain (trust_port env) vaultId (uv_vaultTrustAnchor unlockedVault)
               (snap_trustChain historicalSnapshot))) (\<lambda>state.
      sthen (trust_check (verifySnapshot (trust_port env) vaultId historicalSnapshot state))
      (sthen (trust_check (requireTrustDescendsFrom (trust_port env) vaultId (snap_trustChain currentSnapshot)
               (tsc_trust (uv_trustedSnapshotContext unlockedVault)) (ts_generation state)
               (ts_certificateDigest state)))
      (sbind (crypto_call env (\<lambda>_. Inr (snapshot_digest env historicalSnapshot))) (\<lambda>snapshotDigest.
       sret \<lparr>ct_chain = snap_trustChain historicalSnapshot, ct_state = state,
             ct_snapshotDigest = snapshotDigest\<rparr>)))))"

definition openTrustedVaultSnapshot ::
    "device_env \<Rightarrow> (buffer \<Rightarrow> bytes) \<Rightarrow> string \<Rightarrow> VaultSnapshot \<Rightarrow> buffer \<Rightarrow> ('r, Vault) service" where
  "openTrustedVaultSnapshot env mem vaultId snapshot vaultMasterKey =
     sthen (slift (requireSnapshotOfVault env vaultId snapshot))
       (crypto_call env (\<lambda>_. decryptVaultSnapshotContent (crypto_port env) (snap_content snapshot) (mem vaultMasterKey)))"

section \<open>Restoring and accepting snapshots\<close>

record PreparedLocalVaultSnapshotRestore =
  pr_snapshot :: VaultSnapshot
  pr_checkpoint :: LocalVaultTrustCheckpoint
  pr_syncCredentialState :: "SerializedEncrypted option"

text \<open>An omitted sync credential state is the stored one.\<close>

definition credential_state_to_restore ::
    "device_env \<Rightarrow> VaultSnapshot \<Rightarrow> SerializedEncrypted option option \<Rightarrow> ('r, SerializedEncrypted option) service" where
  "credential_state_to_restore env snapshot syncCredentialState =
     (case syncCredentialState of
        None \<Rightarrow> repository env (getDeviceSyncCredentialState (m_id (snap_metadata snapshot)))
      | Some state \<Rightarrow> sret state)"

definition prepareLocalVaultSnapshotRestore ::
    "device_env \<Rightarrow> VaultSnapshot \<Rightarrow> UnlockedVault \<Rightarrow> SerializedEncrypted option option \<Rightarrow>
     ('r, PreparedLocalVaultSnapshotRestore) service" where
  "prepareLocalVaultSnapshotRestore env snapshot unlockedVault syncCredentialState =
     sbind (requireCurrentCheckpointForUnlockedVault env (m_id (snap_metadata snapshot)) snapshot unlockedVault)
       (\<lambda>checkpoint.
     sbind (credential_state_to_restore env snapshot syncCredentialState) (\<lambda>restored.
     sret \<lparr>pr_snapshot = snapshot, pr_checkpoint = checkpoint, pr_syncCredentialState = restored\<rparr>))"

text \<open>The last parameter has the prepared credential state as its default value.\<close>

definition restorePreparedLocalVaultSnapshot ::
    "device_env \<Rightarrow> PreparedLocalVaultSnapshotRestore \<Rightarrow> string \<Rightarrow> LocalVaultTrustCheckpoint \<Rightarrow>
     SerializedEncrypted option option \<Rightarrow> ('r, unit) service" where
  "restorePreparedLocalVaultSnapshot env preparedRestore expectedSnapshotDigest expectedCheckpoint
     expectedSyncCredentialState =
     save_snapshot env
       (replacement expectedSnapshotDigest expectedCheckpoint (pr_snapshot preparedRestore)
          (pr_checkpoint preparedRestore)
          (Value (nullish expectedSyncCredentialState (pr_syncCredentialState preparedRestore)))
          (Value (pr_syncCredentialState preparedRestore)))"

definition restoreLocalVaultSnapshot ::
    "device_env \<Rightarrow> (buffer \<Rightarrow> bytes) \<Rightarrow> VaultSnapshot \<Rightarrow> VaultSnapshot \<Rightarrow> UnlockedVault \<Rightarrow>
     SerializedEncrypted option option \<Rightarrow> ('r, unit) service" where
  "restoreLocalVaultSnapshot env mem snapshot replacedSnapshot unlockedVault syncCredentialState =
     sbind (crypto_call env (\<lambda>_. Inr (createCheckpoint (trust_port env) snapshot
              (tsc_trust (uv_trustedSnapshotContext unlockedVault)) (uv_deviceId unlockedVault)
              (mem (uv_devicePrivateSignKey unlockedVault))))) (\<lambda>checkpoint.
     sbind (credential_state_to_restore env snapshot syncCredentialState) (\<lambda>restored.
     sbind (requireCurrentCheckpointForUnlockedVault env (m_id (snap_metadata replacedSnapshot)) replacedSnapshot
              unlockedVault) (\<lambda>expectedCheckpoint.
     sbind (crypto_call env (\<lambda>_. Inr (snapshot_digest env replacedSnapshot))) (\<lambda>replacedDigest.
     restorePreparedLocalVaultSnapshot env
       \<lparr>pr_snapshot = snapshot, pr_checkpoint = checkpoint, pr_syncCredentialState = restored\<rparr>
       replacedDigest expectedCheckpoint None))))"

record credential_replacement =
  cr_expectedSyncCredentialState :: "SerializedEncrypted option"
  cr_syncCredentialState :: "SerializedEncrypted option"

record verified_remote_snapshot =
  vr_snapshotVersionVector :: VersionVector
  vr_revisionTimestamp :: nat
  vr_trustedSnapshotContext :: TrustedSnapshotContext

definition prepare_remote_snapshot ::
    "device_env \<Rightarrow> (buffer \<Rightarrow> bytes) \<Rightarrow> string \<Rightarrow> VaultSnapshot \<Rightarrow> VerifiedVaultTrustState \<Rightarrow> UnlockedVault \<Rightarrow>
     ('r, LocalVaultTrustCheckpoint \<times> string \<times> LocalVaultTrustCheckpoint) service" where
  "prepare_remote_snapshot env mem vaultId snapshot trustState unlockedVault =
     sthen (trust_check (verifySnapshot (trust_port env) vaultId snapshot trustState))
     (sbind (requireLocalVaultSnapshot env vaultId) (\<lambda>currentSnapshot.
      sbind (requireCurrentCheckpointForUnlockedVault env vaultId currentSnapshot unlockedVault)
        (\<lambda>expectedCheckpoint.
      sbind (crypto_call env (\<lambda>_. Inr (snapshot_digest env snapshot))) (\<lambda>snapshotDigest.
      sbind (crypto_call env (\<lambda>_. Inr (createCheckpoint (trust_port env) snapshot trustState
               (uv_deviceId unlockedVault) (mem (uv_devicePrivateSignKey unlockedVault))))) (\<lambda>checkpoint.
      sret (expectedCheckpoint, snapshotDigest, checkpoint))))))"

definition persistVerifiedRemoteSnapshot ::
    "device_env \<Rightarrow> (buffer \<Rightarrow> bytes) \<Rightarrow> string \<Rightarrow> VaultSnapshot \<Rightarrow> VerifiedVaultTrustState \<Rightarrow> UnlockedVault \<Rightarrow>
     credential_replacement option \<Rightarrow> ('r, verified_remote_snapshot) service" where
  "persistVerifiedRemoteSnapshot env mem vaultId snapshot trustState unlockedVault credentials =
     sbind (prepare_remote_snapshot env mem vaultId snapshot trustState unlockedVault)
       (\<lambda>(expectedCheckpoint, snapshotDigest, checkpoint).
     sthen (save_snapshot env
              (replacement (tsc_snapshotDigest (uv_trustedSnapshotContext unlockedVault)) expectedCheckpoint
                 snapshot checkpoint
                 (case credentials of None \<Rightarrow> Absent | Some c \<Rightarrow> Value (cr_expectedSyncCredentialState c))
                 (case credentials of None \<Rightarrow> Absent | Some c \<Rightarrow> Value (cr_syncCredentialState c))))
       (sret \<lparr>vr_snapshotVersionVector = m_snapshotVersionVector (snap_metadata snapshot),
              vr_revisionTimestamp = m_revisionTimestamp (snap_metadata snapshot),
              vr_trustedSnapshotContext = \<lparr>tsc_snapshotDigest = snapshotDigest, tsc_trust = trustState\<rparr>\<rparr>))"

end
