(* ===== verification/Repository_Invariant.thy ===== *)
theory Repository_Invariant
  imports Vault_Repository
begin

text \<open>
  Every record in the store decodes, belongs to its key and carries importable keys, and the two
  device access records of a vault always agree. The calls of any number of contexts keep this,
  because each is one transaction.
\<close>

section \<open>Rules\<close>

lemma wp_transaction [wp_simps]:
  "wp (transaction m) Q s = wp m (\<lambda>r t. case r of Inl e \<Rightarrow> Q (Inl e) s | Inr a \<Rightarrow> Q (Inr a) t) s"
  by (simp add: wp_def transaction_def split: prod.splits sum.splits)

lemma decode_found_Inr:
  "decode_found record decode = Inr x \<longleftrightarrow>
     (case x of None \<Rightarrow> record = None | Some a \<Rightarrow> \<exists>r. record = Some r \<and> decode r = Inr a)"
  by (auto simp: decode_found_def rbind_eq_Inr_iff split: option.splits)

lemma buffers_equal_iff [simp]: "buffers_equal l r \<longleftrightarrow> l = r"
  by (auto simp: buffers_equal_def list_all_iff intro: nth_equalityI)

lemma storedVaultArtifactValue_stored [simp]: "storedVaultArtifactValue (storedVaultArtifact k a) k e = Inr a"
  by (simp add: storedVaultArtifactValue_def storedVaultArtifact_def codec_simps)

lemma decodeVaultSnapshot_encode:
  "decodeVaultSnapshot (encodeVaultSnapshot s) origin =
     (if snapshot_ok s then Inr (sorted_snapshot s) else Inl (Storage_error (malformedSnapshot origin)))"
  by (simp add: decodeVaultSnapshot_def codec_simps or_throw_def)

lemma sorted_snapshot_simps [simp]:
  "m_id (snap_metadata (sorted_snapshot s)) = m_id (snap_metadata s)"
  "validateVaultSnapshotPublicKeys (sorted_snapshot s) keys = validateVaultSnapshotPublicKeys s keys"
  by (simp_all add: sorted_snapshot_def sorted_metadata_def validateVaultSnapshotPublicKeys_def)

section \<open>Tables\<close>

definition table_ok :: "(string \<Rightarrow> json \<Rightarrow> bool) \<Rightarrow> table \<Rightarrow> bool" where
  "table_ok P t \<longleftrightarrow> distinct (map fst t) \<and> (\<forall>k r. map_of t k = Some r \<longrightarrow> P k r)"

lemma table_ok_Nil [simp]: "table_ok P []"
  by (simp add: table_ok_def)

lemma table_ok_put: "table_ok P t \<Longrightarrow> P k r \<Longrightarrow> table_ok P (AList.update k r t)"
  by (auto simp: table_ok_def distinct_update update_conv')

lemma table_ok_delete: "table_ok P t \<Longrightarrow> table_ok P (AList.delete k t)"
  by (auto simp: table_ok_def distinct_delete delete_conv' restrict_map_def split: if_splits)

lemma table_ok_get: "table_ok P t \<Longrightarrow> map_of t k = Some r \<Longrightarrow> P k r"
  by (simp add: table_ok_def)

lemma map_of_delete [simp]: "map_of (AList.delete k t) = (map_of t)(k := None)"
  by (auto simp: delete_conv' restrict_map_def)

section \<open>The invariant\<close>

definition read_stored_snapshot :: "key_validator \<Rightarrow> string \<Rightarrow> json \<Rightarrow> core_error + VaultSnapshot" where
  "read_stored_snapshot keys vaultId r =
     rbind (storedVaultArtifactValue r vaultId InvalidLocalVaultSnapshotRecordError) (\<lambda>artifact.
     rbind (decodeAndValidateVaultSnapshot keys artifact) (\<lambda>snapshot.
     rbind (requireMatchingVaultId (m_id (snap_metadata snapshot)) vaultId InvalidLocalVaultSnapshotRecordError)
       (\<lambda>_. Inr snapshot)))"

definition read_stored_checkpoint :: "string \<Rightarrow> json \<Rightarrow> core_error + LocalVaultTrustCheckpoint" where
  "read_stored_checkpoint vaultId r =
     rbind (storedVaultArtifactValue r vaultId InvalidLocalVaultSecurityRecordError) (\<lambda>artifact.
     rbind (decodeLocalVaultTrustCheckpoint artifact) (\<lambda>checkpoint.
     rbind (requireMatchingVaultId (cp_vaultId (chk_payload checkpoint)) vaultId
         InvalidLocalVaultSecurityRecordError)
       (\<lambda>_. Inr checkpoint)))"

definition read_stored_credentials :: "string \<Rightarrow> json \<Rightarrow> core_error + SerializedEncrypted" where
  "read_stored_credentials vaultId r =
     rbind (storedVaultArtifactValue r vaultId InvalidSyncCredentialRecordError) decodeEncryptedDeviceSyncCredentialState"

definition read_stored_enrollment :: "string \<Rightarrow> json \<Rightarrow> core_error + PendingDeviceEnrollment" where
  "read_stored_enrollment requestId r =
     rbind (storedPendingEnrollmentArtifactValue r requestId) (\<lambda>artifact.
     rbind (decodePendingDeviceEnrollment artifact) (\<lambda>enrollment.
     if pde_requestId enrollment \<noteq> requestId then Inl (Storage_error InvalidDeviceEnrollmentArtifactError)
     else Inr enrollment))"

lemmas stored_reads = read_stored_snapshot_def read_stored_checkpoint_def read_stored_credentials_def
  read_stored_enrollment_def

text \<open>Material and backup of one vault carry the same identity and generation.\<close>

definition access_agrees :: "key_validator \<Rightarrow> vault_db \<Rightarrow> string \<Rightarrow> bool" where
  "access_agrees keys db k \<longleftrightarrow>
     (\<forall>r s m b. map_of (deviceAccessMaterials db) k = Some r \<and> decodeDeviceAccessMaterialRecord keys r k = Inr m \<and>
        map_of (deviceAccessRecoveryBackups db) k = Some s \<and> decodeDeviceAccessRecoveryBackupRecord keys s k = Inr b
        \<longrightarrow> areDeviceAccessRecordsConsistent m b)"

definition importable_access :: "key_validator \<Rightarrow> 'a device_access_scheme \<Rightarrow> bool" where
  "importable_access keys a \<longleftrightarrow> importDeviceSignPublicKey keys (da_devicePublicSignKey a) \<and>
     importDeviceVaultPublicKey keys (da_devicePublicVaultKey a)"

text \<open>A record as the calls write it: the artifact of a well-formed value of its key.\<close>

definition artifact_of :: "('a \<Rightarrow> bool) \<Rightarrow> ('a \<Rightarrow> string) \<Rightarrow> ('a \<Rightarrow> json) \<Rightarrow> string \<Rightarrow> json \<Rightarrow> bool" where
  "artifact_of ok idf encode k r \<longleftrightarrow> (\<exists>a. ok a \<and> idf a = k \<and> r = storedVaultArtifact k (encode a))"

definition enrollment_artifact :: "string \<Rightarrow> json \<Rightarrow> bool" where
  "enrollment_artifact k r \<longleftrightarrow> (\<exists>p. pending_enrollment_ok p \<and> pde_requestId p = k \<and>
     r = JObj [(''requestId'', JStr k), (''artifact'', encodePendingDeviceEnrollment p)])"

definition credentials_artifact :: "string \<Rightarrow> json \<Rightarrow> bool" where
  "credentials_artifact k r \<longleftrightarrow>
     (\<exists>e. encrypted_ok 12 None e \<and> r = storedVaultArtifact k (encodeEncryptedDeviceSyncCredentialState e))"

definition db_ok :: "key_validator \<Rightarrow> vault_db \<Rightarrow> bool" where
  "db_ok keys db \<longleftrightarrow>
     table_ok (artifact_of vault_descriptor_ok lvd_vaultId encodeLocalVaultDescriptor) (localVaultDescriptors db) \<and>
     table_ok (artifact_of (\<lambda>a. material_ok a \<and> importable_access keys a) da_vaultId encodeDeviceAccessMaterial)
       (deviceAccessMaterials db) \<and>
     table_ok (artifact_of (\<lambda>a. backup_ok a \<and> importable_access keys a) da_vaultId encodeDeviceAccessRecoveryBackup)
       (deviceAccessRecoveryBackups db) \<and>
     table_ok (artifact_of (\<lambda>s. snapshot_ok s \<and> validateVaultSnapshotPublicKeys s keys)
       (\<lambda>s. m_id (snap_metadata s)) encodeVaultSnapshot) (vaultSnapshots db) \<and>
     table_ok (artifact_of checkpoint_ok (\<lambda>c. cp_vaultId (chk_payload c)) encodeLocalVaultTrustCheckpoint)
       (localVaultTrustCheckpoints db) \<and>
     table_ok credentials_artifact (deviceSyncCredentialStates db) \<and>
     table_ok enrollment_artifact (pendingDeviceEnrollments db) \<and>
     (\<forall>k. access_agrees keys db k)"

section \<open>The artifacts of well-formed values\<close>

lemma reads_descriptor:
  "vault_descriptor_ok d \<Longrightarrow> lvd_vaultId d = k \<Longrightarrow>
     decodeDescriptorRecord (storedVaultArtifact k (encodeLocalVaultDescriptor d)) k = Inr d"
  by (auto simp: decodeDescriptorRecord_def decodeLocalVaultDescriptor_def codec_simps or_throw_def
      requireMatchingVaultId_def)

lemma reads_material:
  "material_ok a \<Longrightarrow> importable_access keys a \<Longrightarrow> da_vaultId a = k \<Longrightarrow>
     decodeDeviceAccessMaterialRecord keys (storedVaultArtifact k (encodeDeviceAccessMaterial a)) k = Inr a"
  by (auto simp: decodeDeviceAccessMaterialRecord_def decodeDeviceAccessMaterial_def codec_simps or_throw_def
      requireMatchingVaultId_def validateDeviceAccessPublicKeys_def importable_access_def)

lemma reads_backup:
  "backup_ok a \<Longrightarrow> importable_access keys a \<Longrightarrow> da_vaultId a = k \<Longrightarrow>
     decodeDeviceAccessRecoveryBackupRecord keys (storedVaultArtifact k (encodeDeviceAccessRecoveryBackup a)) k = Inr a"
  by (auto simp: decodeDeviceAccessRecoveryBackupRecord_def decodeDeviceAccessRecoveryBackup_def codec_simps
      or_throw_def requireMatchingVaultId_def validateDeviceAccessPublicKeys_def importable_access_def)

lemma reads_snapshot:
  "snapshot_ok s \<Longrightarrow> validateVaultSnapshotPublicKeys s keys \<Longrightarrow> m_id (snap_metadata s) = k \<Longrightarrow>
     read_stored_snapshot keys k (storedVaultArtifact k (encodeVaultSnapshot s)) = Inr (sorted_snapshot s)"
  by (auto simp: read_stored_snapshot_def decodeAndValidateVaultSnapshot_def decodeVaultSnapshot_encode
      requireMatchingVaultId_def)

lemma reads_checkpoint:
  "checkpoint_ok c \<Longrightarrow> cp_vaultId (chk_payload c) = k \<Longrightarrow>
     read_stored_checkpoint k (storedVaultArtifact k (encodeLocalVaultTrustCheckpoint c)) = Inr (sorted_checkpoint c)"
  by (auto simp: read_stored_checkpoint_def decodeLocalVaultTrustCheckpoint_def codec_simps or_throw_def
      requireMatchingVaultId_def sorted_checkpoint_def)

lemma reads_credentials:
  "encrypted_ok 12 None c \<Longrightarrow>
     read_stored_credentials k (storedVaultArtifact k (encodeEncryptedDeviceSyncCredentialState c)) = Inr c"
  by (simp add: read_stored_credentials_def decodeEncryptedDeviceSyncCredentialState_def
      encodeEncryptedDeviceSyncCredentialState_def codec_simps or_throw_def)

lemma reads_enrollment:
  "pending_enrollment_ok p \<Longrightarrow> pde_requestId p = k \<Longrightarrow>
     read_stored_enrollment k (JObj [(''requestId'', JStr k), (''artifact'', encodePendingDeviceEnrollment p)]) = Inr p"
  by (auto simp: read_stored_enrollment_def storedPendingEnrollmentArtifactValue_def decodePendingDeviceEnrollment_def
      codec_simps or_throw_def)

lemmas stored_artifacts = reads_descriptor reads_material reads_backup reads_snapshot reads_checkpoint
  reads_credentials reads_enrollment

section \<open>Every call keeps the invariant\<close>

datatype repo_call =
    Save_initialized initialized_vault
  | Remove_persisted string
  | Remove_persisted_if_match expected_artifacts
  | Save_descriptor LocalVaultDescriptor
  | Remove_descriptor string
  | Save_access device_access_replacement
  | Remove_material string
  | Remove_backup string
  | Save_snapshot snapshot_replacement
  | Remove_snapshot string
  | Remove_checkpoint string
  | Save_credentials string SerializedEncrypted
  | Remove_credentials string
  | Save_enrollment PendingDeviceEnrollment
  | Remove_enrollment string

fun run_call :: "key_validator \<Rightarrow> (VaultSnapshot \<Rightarrow> string) \<Rightarrow> repo_call \<Rightarrow> unit repo" where
  "run_call keys digest (Save_initialized p) = saveInitializedLocalVault p"
| "run_call keys digest (Remove_persisted k) = removePersistedLocalVault k"
| "run_call keys digest (Remove_persisted_if_match p) =
     sbind (removePersistedLocalVaultIfArtifactsMatch keys digest p) (\<lambda>_. sret ())"
| "run_call keys digest (Save_descriptor d) = saveLocalVaultDescriptor d"
| "run_call keys digest (Remove_descriptor k) = removeLocalVaultDescriptor k"
| "run_call keys digest (Save_access p) = saveDeviceAccessRecords keys p"
| "run_call keys digest (Remove_material k) = removeDeviceAccessMaterial k"
| "run_call keys digest (Remove_backup k) = removeDeviceAccessRecoveryBackup k"
| "run_call keys digest (Save_snapshot p) = saveVaultSnapshotWithCheckpoint keys digest p"
| "run_call keys digest (Remove_snapshot k) = removeVaultSnapshot k"
| "run_call keys digest (Remove_checkpoint k) = removeLocalVaultTrustCheckpoint k"
| "run_call keys digest (Save_credentials k c) = saveDeviceSyncCredentialState k c"
| "run_call keys digest (Remove_credentials k) = removeDeviceSyncCredentialState k"
| "run_call keys digest (Save_enrollment p) = savePendingDeviceEnrollment p"
| "run_call keys digest (Remove_enrollment k) = removePendingDeviceEnrollment k"

text \<open>The values that the callers pass are well formed; the calls do not check this.\<close>

definition credentials_property_ok :: "SerializedEncrypted option own_property \<Rightarrow> bool" where
  "credentials_property_ok p = (case p of Value (Some c) \<Rightarrow> encrypted_ok 12 None c | _ \<Rightarrow> True)"

fun call_ok :: "key_validator \<Rightarrow> repo_call \<Rightarrow> bool" where
  "call_ok keys (Save_initialized p) \<longleftrightarrow>
     vault_descriptor_ok (iv_descriptor p) \<and> material_ok (iv_deviceAccessMaterial p) \<and>
     importable_access keys (iv_deviceAccessMaterial p) \<and> backup_ok (iv_deviceAccessRecoveryBackup p) \<and>
     snapshot_ok (iv_snapshot p) \<and> validateVaultSnapshotPublicKeys (iv_snapshot p) keys \<and>
     checkpoint_ok (iv_checkpoint p) \<and> pred_option (encrypted_ok 12 None) (iv_syncCredentialState p)"
| "call_ok keys (Save_descriptor d) \<longleftrightarrow> vault_descriptor_ok d"
| "call_ok keys (Save_access p) \<longleftrightarrow> material_ok (replacementMaterial p) \<and>
     importable_access keys (replacementMaterial p) \<and> backup_ok (replacementBackup p)"
| "call_ok keys (Save_snapshot p) \<longleftrightarrow> snapshot_ok (sr_snapshot p) \<and>
     validateVaultSnapshotPublicKeys (sr_snapshot p) keys \<and> checkpoint_ok (sr_checkpoint p) \<and>
     credentials_property_ok (sr_syncCredentialState p)"
| "call_ok keys (Save_credentials k c) \<longleftrightarrow> encrypted_ok 12 None c"
| "call_ok keys (Save_enrollment p) \<longleftrightarrow> pending_enrollment_ok p"
| "call_ok keys _ \<longleftrightarrow> True"

lemma stored_decode:
  "ok a \<Longrightarrow> idf a = k \<Longrightarrow> artifact_of ok idf encode k (storedVaultArtifact k (encode a))"
  "encrypted_ok 12 None e \<Longrightarrow>
     credentials_artifact k (storedVaultArtifact k (encodeEncryptedDeviceSyncCredentialState e))"
  "pending_enrollment_ok p \<Longrightarrow> pde_requestId p = k \<Longrightarrow>
     enrollment_artifact k (JObj [(''requestId'', JStr k), (''artifact'', encodePendingDeviceEnrollment p)])"
  by (auto simp: artifact_of_def credentials_artifact_def enrollment_artifact_def)

lemma access_agrees_cong:
  "map_of (deviceAccessMaterials db') k = map_of (deviceAccessMaterials db) k \<Longrightarrow>
   map_of (deviceAccessRecoveryBackups db') k = map_of (deviceAccessRecoveryBackups db) k \<Longrightarrow>
   access_agrees keys db' k = access_agrees keys db k"
  by (simp add: access_agrees_def)

lemma access_agrees_missing:
  "map_of (deviceAccessMaterials db) k = None \<or> map_of (deviceAccessRecoveryBackups db) k = None \<Longrightarrow>
     access_agrees keys db k"
  by (auto simp: access_agrees_def)

lemma consistent_importable:
  "areDeviceAccessRecordsConsistent m b \<Longrightarrow> importable_access keys m \<Longrightarrow> importable_access keys b"
  by (simp add: areDeviceAccessRecordsConsistent_def haveSameDeviceAccessIdentity_def importable_access_def)

lemma consistent_vault_id: "areDeviceAccessRecordsConsistent m b \<Longrightarrow> da_vaultId b = da_vaultId m"
  by (simp add: areDeviceAccessRecordsConsistent_def haveSameDeviceAccessIdentity_def)

lemma access_agrees_stored:
  assumes "map_of (deviceAccessMaterials db) k = Some (storedVaultArtifact k (encodeDeviceAccessMaterial m))"
    "map_of (deviceAccessRecoveryBackups db) k = Some (storedVaultArtifact k (encodeDeviceAccessRecoveryBackup b))"
    "material_ok m" "importable_access keys m" "backup_ok b" "areDeviceAccessRecordsConsistent m b" "da_vaultId m = k"
  shows "access_agrees keys db k"
  using assms consistent_importable [of m b keys] consistent_vault_id [of m b]
  by (simp add: access_agrees_def reads_material reads_backup)

lemma remove_vault_records_keeps: "db_ok keys db \<Longrightarrow> db_ok keys (removeVaultRecords k db)"
  by (auto simp: db_ok_def removeVaultRecords_def table_ok_delete access_agrees_def split: if_splits)

lemma save_initialized_keeps:
  assumes ok: "db_ok keys db" and c: "call_ok keys (Save_initialized p)"
  shows "wp (saveInitializedLocalVault p) (\<lambda>_. db_ok keys) db"
proof -
  let ?k = "lvd_vaultId (iv_descriptor p)" and ?m = "iv_deviceAccessMaterial p" and ?b = "iv_deviceAccessRecoveryBackup p"
  have "db_ok keys (db\<lparr>
            localVaultDescriptors := AList.update ?k
              (storedVaultArtifact ?k (encodeLocalVaultDescriptor (iv_descriptor p))) (localVaultDescriptors db),
            deviceAccessMaterials := AList.update ?k
              (storedVaultArtifact ?k (encodeDeviceAccessMaterial ?m)) (deviceAccessMaterials db),
            deviceAccessRecoveryBackups := AList.update ?k
              (storedVaultArtifact ?k (encodeDeviceAccessRecoveryBackup ?b)) (deviceAccessRecoveryBackups db),
            vaultSnapshots := AList.update ?k
              (storedVaultArtifact ?k (encodeVaultSnapshot (iv_snapshot p))) (vaultSnapshots db),
            localVaultTrustCheckpoints := AList.update ?k
              (storedVaultArtifact ?k (encodeLocalVaultTrustCheckpoint (iv_checkpoint p))) (localVaultTrustCheckpoints db),
            deviceSyncCredentialStates := (case iv_syncCredentialState p of
                None \<Rightarrow> deviceSyncCredentialStates db
              | Some c \<Rightarrow> AList.update ?k (storedVaultArtifact ?k (encodeEncryptedDeviceSyncCredentialState c))
                  (deviceSyncCredentialStates db))\<rparr>)" (is "db_ok keys ?db")
    if g: "areDeviceAccessRecordsConsistent ?m ?b" "da_vaultId ?m = ?k" "cp_vaultId (chk_payload (iv_checkpoint p)) = ?k"
      "m_id (snap_metadata (iv_snapshot p)) = ?k"
  proof -
    have "access_agrees keys ?db k" for k
    proof (cases "k = ?k")
      case True
      show ?thesis unfolding True
        by (rule access_agrees_stored [of _ _ ?m ?b]) (use c g in \<open>simp_all add: update_conv'\<close>)
    next
      case False
      then have "access_agrees keys ?db k = access_agrees keys db k"
        by (intro access_agrees_cong) (simp_all add: update_conv')
      with ok show ?thesis by (simp add: db_ok_def)
    qed
    moreover have "importable_access keys ?b" "da_vaultId ?b = ?k"
      using g(1,2) c consistent_importable consistent_vault_id by auto
    ultimately show ?thesis
      using ok c g
      by (auto simp: db_ok_def intro!: table_ok_put stored_decode split: option.splits)
  qed
  with ok show ?thesis
    by (auto simp: saveInitializedLocalVault_def Let_def wp_simps)
qed

lemma save_access_keeps:
  assumes ok: "db_ok keys db" and c: "call_ok keys (Save_access p)"
  shows "wp (saveDeviceAccessRecords keys p) (\<lambda>_. db_ok keys) db"
proof -
  let ?m = "replacementMaterial p" and ?b = "replacementBackup p" let ?k = "da_vaultId ?m"
  have "db_ok keys (db\<lparr>
            deviceAccessMaterials := AList.update ?k
              (storedVaultArtifact ?k (encodeDeviceAccessMaterial ?m)) (deviceAccessMaterials db),
            deviceAccessRecoveryBackups := AList.update ?k
              (storedVaultArtifact ?k (encodeDeviceAccessRecoveryBackup ?b)) (deviceAccessRecoveryBackups db)\<rparr>)"
      (is "db_ok keys ?db")
    if g: "areDeviceAccessRecordsConsistent ?m ?b"
  proof -
    have "access_agrees keys ?db k" for k
    proof (cases "k = ?k")
      case True
      show ?thesis unfolding True
        by (rule access_agrees_stored [of _ _ ?m ?b]) (use c g in \<open>simp_all add: update_conv'\<close>)
    next
      case False
      then have "access_agrees keys ?db k = access_agrees keys db k"
        by (intro access_agrees_cong) (simp_all add: update_conv')
      with ok show ?thesis by (simp add: db_ok_def)
    qed
    moreover have "importable_access keys ?b" "da_vaultId ?b = ?k"
      using g c consistent_importable consistent_vault_id by auto
    ultimately show ?thesis
      using ok c by (auto simp: db_ok_def intro!: table_ok_put stored_decode)
  qed
  with ok show ?thesis
    by (auto simp: saveDeviceAccessRecords_def Let_def wp_simps split: sum.splits)
qed

lemma save_snapshot_keeps:
  assumes ok: "db_ok keys db" and c: "call_ok keys (Save_snapshot p)"
  shows "wp (saveVaultSnapshotWithCheckpoint keys digest p) (\<lambda>_. db_ok keys) db"
proof -
  let ?k = "m_id (snap_metadata (sr_snapshot p))"
  have "db_ok keys (db\<lparr>
          vaultSnapshots := AList.update ?k (storedVaultArtifact ?k (encodeVaultSnapshot (sr_snapshot p))) (vaultSnapshots db),
          localVaultTrustCheckpoints := AList.update ?k
            (storedVaultArtifact ?k (encodeLocalVaultTrustCheckpoint (sr_checkpoint p))) (localVaultTrustCheckpoints db),
          deviceSyncCredentialStates := (case sr_syncCredentialState p of
              Value None \<Rightarrow> AList.delete ?k (deviceSyncCredentialStates db)
            | Value (Some c) \<Rightarrow> AList.update ?k
                (storedVaultArtifact ?k (encodeEncryptedDeviceSyncCredentialState c)) (deviceSyncCredentialStates db)
            | _ \<Rightarrow> deviceSyncCredentialStates db)\<rparr>)"
    if g: "cp_vaultId (chk_payload (sr_checkpoint p)) = ?k"
    using ok c g
    by (auto simp: db_ok_def credentials_property_ok_def access_agrees_def table_ok_delete
        intro!: table_ok_put stored_decode split: own_property.splits option.splits)
  with ok show ?thesis
    by (auto simp: saveVaultSnapshotWithCheckpoint_def Let_def wp_simps split: sum.splits option.splits prod.splits)
qed

lemma remove_if_match_keeps:
  assumes ok: "db_ok keys db"
  shows "wp (removePersistedLocalVaultIfArtifactsMatch keys digest p) (\<lambda>_. db_ok keys) db"
  using ok remove_vault_records_keeps [OF ok]
  by (auto simp: removePersistedLocalVaultIfArtifactsMatch_def Let_def wp_simps split: sum.splits option.splits prod.splits)

lemma write_keeps:
  assumes "db_ok keys db"
  shows "vault_descriptor_ok d \<Longrightarrow> wp (saveLocalVaultDescriptor d) (\<lambda>_. db_ok keys) db"
    and "encrypted_ok 12 None e \<Longrightarrow> wp (saveDeviceSyncCredentialState k e) (\<lambda>_. db_ok keys) db"
    and "pending_enrollment_ok p \<Longrightarrow> wp (savePendingDeviceEnrollment p) (\<lambda>_. db_ok keys) db"
  using assms
  by (auto simp: wp_simps saveLocalVaultDescriptor_def saveDeviceSyncCredentialState_def
      savePendingDeviceEnrollment_def db_ok_def access_agrees_def intro!: table_ok_put stored_decode)

lemma delete_keeps:
  assumes "db_ok keys db"
  shows "wp (removePersistedLocalVault k) (\<lambda>_. db_ok keys) db"
    and "wp (removeLocalVaultDescriptor k) (\<lambda>_. db_ok keys) db"
    and "wp (removeDeviceAccessMaterial k) (\<lambda>_. db_ok keys) db"
    and "wp (removeDeviceAccessRecoveryBackup k) (\<lambda>_. db_ok keys) db"
    and "wp (removeVaultSnapshot k) (\<lambda>_. db_ok keys) db"
    and "wp (removeLocalVaultTrustCheckpoint k) (\<lambda>_. db_ok keys) db"
    and "wp (removeDeviceSyncCredentialState k) (\<lambda>_. db_ok keys) db"
    and "wp (removePendingDeviceEnrollment k) (\<lambda>_. db_ok keys) db"
  using assms remove_vault_records_keeps [OF assms]
  by (auto simp: wp_simps removePersistedLocalVault_def removeLocalVaultDescriptor_def
      removeDeviceAccessMaterial_def removeDeviceAccessRecoveryBackup_def removeVaultSnapshot_def
      removeLocalVaultTrustCheckpoint_def removeDeviceSyncCredentialState_def
      removePendingDeviceEnrollment_def db_ok_def access_agrees_def intro!: table_ok_delete)

lemma wp_ignore_result: "wp m (\<lambda>_. P) s \<Longrightarrow> wp (sbind m (\<lambda>_. sret ())) (\<lambda>_. P) s"
  by (simp add: wp_def sbind_def sret_def split: prod.splits sum.splits)

lemma run_call_keeps:
  "db_ok keys db \<Longrightarrow> call_ok keys c \<Longrightarrow> wp (run_call keys digest c) (\<lambda>_. db_ok keys) db"
  by (cases c) (simp_all add: save_initialized_keeps save_access_keeps save_snapshot_keeps write_keeps delete_keeps
      wp_ignore_result remove_if_match_keeps del: call_ok.simps(1,3,4))

end
