(* ===== verification/Repository_Contract.thy ===== *)
theory Repository_Contract
  imports Repository_Invariant
begin

text \<open>
  What the store promises its callers (the documentation of
  \<open>ports/vault/vault-local-repository.port.ts\<close>), on typed tables instead of JSON records, and the
  proof that the adapter keeps the promise: read through its own decoders, every call does to the
  tables exactly what the contract says, with the same error.
\<close>

section \<open>Typed tables\<close>

record store_view =
  sv_descriptors :: "string \<rightharpoonup> LocalVaultDescriptor"
  sv_materials :: "string \<rightharpoonup> DeviceAccessMaterial"
  sv_backups :: "string \<rightharpoonup> DeviceAccessRecoveryBackup"
  sv_snapshots :: "string \<rightharpoonup> VaultSnapshot"
  sv_checkpoints :: "string \<rightharpoonup> LocalVaultTrustCheckpoint"
  sv_credentials :: "string \<rightharpoonup> SerializedEncrypted"
  sv_enrollments :: "string \<rightharpoonup> PendingDeviceEnrollment"

definition read_table :: "(string \<Rightarrow> json \<Rightarrow> core_error + 'a) \<Rightarrow> table \<Rightarrow> string \<rightharpoonup> 'a" where
  "read_table decode t k =
     (case map_of t k of None \<Rightarrow> None
      | Some r \<Rightarrow> (case decode k r of Inl _ \<Rightarrow> None | Inr a \<Rightarrow> Some a))"

definition view :: "key_validator \<Rightarrow> vault_db \<Rightarrow> store_view" where
  "view keys db =
     \<lparr>sv_descriptors = read_table (\<lambda>k r. decodeDescriptorRecord r k) (localVaultDescriptors db),
      sv_materials = read_table (\<lambda>k r. decodeDeviceAccessMaterialRecord keys r k) (deviceAccessMaterials db),
      sv_backups = read_table (\<lambda>k r. decodeDeviceAccessRecoveryBackupRecord keys r k) (deviceAccessRecoveryBackups db),
      sv_snapshots = read_table (read_stored_snapshot keys) (vaultSnapshots db),
      sv_checkpoints = read_table read_stored_checkpoint (localVaultTrustCheckpoints db),
      sv_credentials = read_table read_stored_credentials (deviceSyncCredentialStates db),
      sv_enrollments = read_table read_stored_enrollment (pendingDeviceEnrollments db)\<rparr>"

lemma read_table_update [simp]:
  "read_table decode (AList.update k r t) =
     (read_table decode t)(k := (case decode k r of Inl _ \<Rightarrow> None | Inr a \<Rightarrow> Some a))"
  by (auto simp: read_table_def update_conv' fun_eq_iff)

lemma read_table_delete [simp]: "read_table decode (AList.delete k t) = (read_table decode t)(k := None)"
  by (auto simp: read_table_def fun_eq_iff)

text \<open>In a well-formed table every record decodes.\<close>

lemma table_reads:
  assumes "table_ok P t" "\<And>k r. P k r \<Longrightarrow> \<exists>a. decode k r = Inr a"
  shows "decode_found (map_of t k) (decode k) = Inr (read_table decode t k)"
    and "read_table decode t k = None \<longleftrightarrow> map_of t k = None"
    and "map_of t k = Some r \<Longrightarrow> decode k r = Inr (the (read_table decode t k))"
  using table_ok_get [OF assms(1), of k] assms(2)
  by (force simp: decode_found_def read_table_def split: option.splits sum.splits)+

section \<open>The contract\<close>

text \<open>A step of the contract: the error or nothing, and the next tables.\<close>

type_synonym contract = "store_view \<Rightarrow> (core_error + unit) \<times> store_view"

definition promise :: "bool \<Rightarrow> core_error \<Rightarrow> contract \<Rightarrow> contract" where
  "promise c e f v = (if c then f v else (Inl e, v))"

definition change :: "(store_view \<Rightarrow> store_view) \<Rightarrow> contract" where
  "change f v = (Inr (), f v)"

definition absent :: "string \<Rightarrow> store_view \<Rightarrow> bool" where
  "absent k v \<longleftrightarrow> sv_descriptors v k = None \<and> sv_materials v k = None \<and> sv_backups v k = None \<and>
     sv_snapshots v k = None \<and> sv_checkpoints v k = None \<and> sv_credentials v k = None"

definition forget :: "string \<Rightarrow> store_view \<Rightarrow> store_view" where
  "forget k v = v\<lparr>sv_descriptors := (sv_descriptors v)(k := None), sv_materials := (sv_materials v)(k := None),
     sv_backups := (sv_backups v)(k := None), sv_snapshots := (sv_snapshots v)(k := None),
     sv_checkpoints := (sv_checkpoints v)(k := None), sv_credentials := (sv_credentials v)(k := None)\<rparr>"

text \<open>
  Compare and replace the access records of a device, by the rules that the port documents for
  \<open>saveDeviceAccessRecords\<close>. Material and backup of a device are a pair if they carry the same vault,
  device, algorithm suite and public keys and the same generation. A pair may take the place of the
  persisted records if the backup is there and is the expected one, if the material is the expected one,
  forming a pair with the backup, or is absent and expected to be absent, if the identity of the device
  stays, if every revision goes up by one (the first material has revision one) and if the generation is
  neither of the persisted ones.
\<close>

definition device_identity :: "'a device_access_scheme \<Rightarrow> string \<times> string \<times> string \<times> bytes \<times> bytes" where
  "device_identity a = (da_vaultId a, da_deviceId a, da_algorithmSuiteId a, da_devicePublicSignKey a, da_devicePublicVaultKey a)"

definition access_pair :: "DeviceAccessMaterial \<Rightarrow> DeviceAccessRecoveryBackup \<Rightarrow> bool" where
  "access_pair m b \<longleftrightarrow> device_identity m = device_identity b \<and>
     da_vaultId m \<noteq> [] \<and> da_deviceId m \<noteq> [] \<and> da_algorithmSuiteId m \<noteq> [] \<and>
     da_localAccessGenerationId m = da_localAccessGenerationId b \<and> da_localAccessGenerationId m \<noteq> []"

definition next_revision :: "int \<Rightarrow> int \<Rightarrow> bool" where
  "next_revision r r' \<longleftrightarrow> 1 \<le> r \<and> r < int MAX_SAFE_INTEGER \<and> r' = r + 1"

definition may_replace_access ::
    "device_access_replacement \<Rightarrow> DeviceAccessMaterial option \<Rightarrow> DeviceAccessRecoveryBackup option \<Rightarrow> bool" where
  "may_replace_access p material backup \<longleftrightarrow>
     access_pair (replacementMaterial p) (replacementBackup p) \<and>
     (case backup of
        None \<Rightarrow> False
      | Some b \<Rightarrow>
          device_identity (replacementBackup p) = device_identity b \<and>
          da_revision b = expectedDeviceAccessRecoveryBackupRevision p \<and>
          da_localAccessGenerationId b = expectedDeviceAccessRecoveryBackupGenerationId p \<and>
          da_localAccessGenerationId b \<noteq> [] \<and>
          next_revision (da_revision b) (da_revision (replacementBackup p)) \<and>
          da_localAccessGenerationId (replacementMaterial p) \<noteq> da_localAccessGenerationId b) \<and>
     (case material of
        None \<Rightarrow>
          expectedDeviceAccessMaterialRevision p = None \<and> expectedDeviceAccessMaterialGenerationId p = None \<and>
          da_revision (replacementMaterial p) = 1
      | Some m \<Rightarrow>
          expectedDeviceAccessMaterialRevision p = Some (da_revision m) \<and>
          expectedDeviceAccessMaterialGenerationId p = Some (da_localAccessGenerationId m) \<and>
          (\<exists>b. backup = Some b \<and> access_pair m b) \<and>
          next_revision (da_revision m) (da_revision (replacementMaterial p)) \<and>
          da_localAccessGenerationId (replacementMaterial p) \<noteq> da_localAccessGenerationId m)"

definition promise_access :: "device_access_replacement \<Rightarrow> contract" where
  "promise_access p =
     (let k = da_vaultId (replacementMaterial p) in
      (\<lambda>v. promise (may_replace_access p (sv_materials v k) (sv_backups v k))
        (Storage_error (DeviceAccessMaterialChangedError k))
        (change (\<lambda>v. v\<lparr>sv_materials := (sv_materials v)(k \<mapsto> replacementMaterial p),
           sv_backups := (sv_backups v)(k \<mapsto> replacementBackup p)\<rparr>)) v))"

text \<open>All records of a new vault at once, only where there is none.\<close>

definition promise_initialized :: "initialized_vault \<Rightarrow> contract" where
  "promise_initialized p =
     (let k = lvd_vaultId (iv_descriptor p); m = iv_deviceAccessMaterial p; b = iv_deviceAccessRecoveryBackup p;
          c = chk_payload (iv_checkpoint p) in
      promise (da_revision m = 1 \<and> da_revision b = 1 \<and> access_pair m b)
        (Storage_error (DeviceAccessMaterialChangedError k))
      (promise (da_vaultId m = k \<and> cp_vaultId c = k \<and> cp_deviceId c = da_deviceId m)
        (Storage_error InvalidLocalVaultSecurityRecordError)
      (promise (m_id (snap_metadata (iv_snapshot p)) = k) (Storage_error InvalidLocalVaultSnapshotRecordError)
      (\<lambda>v. promise (absent k v) (Storage_error (LocalVaultAlreadyInitializedError k))
        (change (\<lambda>v. v\<lparr>sv_descriptors := (sv_descriptors v)(k \<mapsto> iv_descriptor p),
           sv_materials := (sv_materials v)(k \<mapsto> m), sv_backups := (sv_backups v)(k \<mapsto> b),
           sv_snapshots := (sv_snapshots v)(k \<mapsto> sorted_snapshot (iv_snapshot p)),
           sv_checkpoints := (sv_checkpoints v)(k \<mapsto> sorted_checkpoint (iv_checkpoint p)),
           sv_credentials := (case iv_syncCredentialState p of None \<Rightarrow> sv_credentials v
             | Some s \<Rightarrow> (sv_credentials v)(k \<mapsto> s))\<rparr>)) v))))"

text \<open>Compare and replace the snapshot, its checkpoint and, if they are given, the credentials.\<close>

definition credentials_arguments_ok :: "snapshot_replacement \<Rightarrow> bool" where
  "credentials_arguments_ok p \<longleftrightarrow>
     (case (sr_syncCredentialState p, sr_expectedSyncCredentialState p) of
        (Absent, Absent) \<Rightarrow> True | (Value _, Value _) \<Rightarrow> True | _ \<Rightarrow> False)"

definition snapshot_is_current ::
    "(VaultSnapshot \<Rightarrow> string) \<Rightarrow> snapshot_replacement \<Rightarrow> string \<Rightarrow> store_view \<Rightarrow> bool" where
  "snapshot_is_current digest p k v \<longleftrightarrow>
     (case (sv_snapshots v k, sv_checkpoints v k) of
        (Some s, Some c) \<Rightarrow> digest s = sr_expectedSnapshotDigest p \<and>
          areJsonEqual (checkpoint_value c) (checkpoint_value (sr_expectedCheckpoint p)) \<and>
          (sr_expectedSyncCredentialState p = Absent \<or>
           sr_expectedSyncCredentialState p = Value (sv_credentials v k))
      | _ \<Rightarrow> False)"

definition replaced :: "snapshot_replacement \<Rightarrow> store_view \<Rightarrow> store_view" where
  "replaced p v =
     (let k = m_id (snap_metadata (sr_snapshot p)) in
      v\<lparr>sv_snapshots := (sv_snapshots v)(k \<mapsto> sorted_snapshot (sr_snapshot p)),
        sv_checkpoints := (sv_checkpoints v)(k \<mapsto> sorted_checkpoint (sr_checkpoint p)),
        sv_credentials := (case sr_syncCredentialState p of Value s \<Rightarrow> (sv_credentials v)(k := s)
          | _ \<Rightarrow> sv_credentials v)\<rparr>)"

definition promise_snapshot :: "(VaultSnapshot \<Rightarrow> string) \<Rightarrow> snapshot_replacement \<Rightarrow> contract" where
  "promise_snapshot digest p =
     (let k = m_id (snap_metadata (sr_snapshot p)) in
      promise (cp_vaultId (chk_payload (sr_checkpoint p)) = k \<and> credentials_arguments_ok p)
        (Storage_error InvalidLocalVaultSecurityRecordError)
      (\<lambda>v. promise (snapshot_is_current digest p k v) (Snapshot_error (LocalVaultSnapshotChangedError k))
        (change (replaced p)) v))"

text \<open>Remove a vault only if all its records are still those that the caller wrote.\<close>

definition all_match :: "(VaultSnapshot \<Rightarrow> string) \<Rightarrow> expected_artifacts \<Rightarrow> store_view \<Rightarrow> bool" where
  "all_match digest p v \<longleftrightarrow>
     (let k = ea_vaultId p in
      case (sv_descriptors v k, sv_materials v k, sv_backups v k, sv_snapshots v k, sv_checkpoints v k) of
        (Some d, Some m, Some b, Some s, Some c) \<Rightarrow>
          areJsonEqual (encodeLocalVaultDescriptor d) (encodeLocalVaultDescriptor (ea_descriptor p)) \<and>
          areJsonEqual (encodeDeviceAccessMaterial m) (encodeDeviceAccessMaterial (ea_deviceAccessMaterial p)) \<and>
          areJsonEqual (encodeDeviceAccessRecoveryBackup b)
            (encodeDeviceAccessRecoveryBackup (ea_deviceAccessRecoveryBackup p)) \<and>
          digest s = ea_snapshotDigest p \<and> cp_snapshotDigest (chk_payload c) = ea_snapshotDigest p \<and>
          areJsonEqual (checkpoint_value c) (checkpoint_value (ea_checkpoint p)) \<and>
          sv_credentials v k = ea_syncCredentialState p
      | _ \<Rightarrow> False)"

fun promised :: "(VaultSnapshot \<Rightarrow> string) \<Rightarrow> repo_call \<Rightarrow> contract" where
  "promised digest (Save_initialized p) = promise_initialized p"
| "promised digest (Remove_persisted k) = change (forget k)"
| "promised digest (Remove_persisted_if_match p) =
     change (\<lambda>v. if all_match digest p v then forget (ea_vaultId p) v else v)"
| "promised digest (Save_descriptor d) =
     change (\<lambda>v. v\<lparr>sv_descriptors := (sv_descriptors v)(lvd_vaultId d \<mapsto> d)\<rparr>)"
| "promised digest (Remove_descriptor k) = change (\<lambda>v. v\<lparr>sv_descriptors := (sv_descriptors v)(k := None)\<rparr>)"
| "promised digest (Save_access p) = promise_access p"
| "promised digest (Remove_material k) = change (\<lambda>v. v\<lparr>sv_materials := (sv_materials v)(k := None)\<rparr>)"
| "promised digest (Remove_backup k) = change (\<lambda>v. v\<lparr>sv_backups := (sv_backups v)(k := None)\<rparr>)"
| "promised digest (Save_snapshot p) = promise_snapshot digest p"
| "promised digest (Remove_snapshot k) = change (\<lambda>v. v\<lparr>sv_snapshots := (sv_snapshots v)(k := None)\<rparr>)"
| "promised digest (Remove_checkpoint k) = change (\<lambda>v. v\<lparr>sv_checkpoints := (sv_checkpoints v)(k := None)\<rparr>)"
| "promised digest (Save_credentials k s) = change (\<lambda>v. v\<lparr>sv_credentials := (sv_credentials v)(k \<mapsto> s)\<rparr>)"
| "promised digest (Remove_credentials k) = change (\<lambda>v. v\<lparr>sv_credentials := (sv_credentials v)(k := None)\<rparr>)"
| "promised digest (Save_enrollment e) = change (\<lambda>v. v\<lparr>sv_enrollments := (sv_enrollments v)(pde_requestId e \<mapsto> e)\<rparr>)"
| "promised digest (Remove_enrollment k) = change (\<lambda>v. v\<lparr>sv_enrollments := (sv_enrollments v)(k := None)\<rparr>)"

section \<open>Reading the tables\<close>

lemma artifact_reads:
  "artifact_of vault_descriptor_ok lvd_vaultId encodeLocalVaultDescriptor k r \<Longrightarrow>
     \<exists>a. decodeDescriptorRecord r k = Inr a"
  "artifact_of (\<lambda>a. material_ok a \<and> importable_access keys a) da_vaultId encodeDeviceAccessMaterial k r \<Longrightarrow>
     \<exists>a. decodeDeviceAccessMaterialRecord keys r k = Inr a"
  "artifact_of (\<lambda>a. backup_ok a \<and> importable_access keys a) da_vaultId encodeDeviceAccessRecoveryBackup k r \<Longrightarrow>
     \<exists>a. decodeDeviceAccessRecoveryBackupRecord keys r k = Inr a"
  "artifact_of (\<lambda>s. snapshot_ok s \<and> validateVaultSnapshotPublicKeys s keys)
     (\<lambda>s. m_id (snap_metadata s)) encodeVaultSnapshot k r \<Longrightarrow> \<exists>a. read_stored_snapshot keys k r = Inr a"
  "artifact_of checkpoint_ok (\<lambda>c. cp_vaultId (chk_payload c)) encodeLocalVaultTrustCheckpoint k r \<Longrightarrow>
     \<exists>a. read_stored_checkpoint k r = Inr a"
  "credentials_artifact k r \<Longrightarrow> \<exists>a. read_stored_credentials k r = Inr a"
  "enrollment_artifact k r \<Longrightarrow> \<exists>a. read_stored_enrollment k r = Inr a"
  by (auto simp: artifact_of_def credentials_artifact_def enrollment_artifact_def stored_artifacts)

lemma db_okD:
  assumes "db_ok keys db"
  shows "table_ok (artifact_of vault_descriptor_ok lvd_vaultId encodeLocalVaultDescriptor) (localVaultDescriptors db)"
    "table_ok (artifact_of (\<lambda>a. material_ok a \<and> importable_access keys a) da_vaultId encodeDeviceAccessMaterial)
       (deviceAccessMaterials db)"
    "table_ok (artifact_of (\<lambda>a. backup_ok a \<and> importable_access keys a) da_vaultId encodeDeviceAccessRecoveryBackup)
       (deviceAccessRecoveryBackups db)"
    "table_ok (artifact_of (\<lambda>s. snapshot_ok s \<and> validateVaultSnapshotPublicKeys s keys)
       (\<lambda>s. m_id (snap_metadata s)) encodeVaultSnapshot) (vaultSnapshots db)"
    "table_ok (artifact_of checkpoint_ok (\<lambda>c. cp_vaultId (chk_payload c)) encodeLocalVaultTrustCheckpoint)
       (localVaultTrustCheckpoints db)"
    "table_ok credentials_artifact (deviceSyncCredentialStates db)"
    "table_ok enrollment_artifact (pendingDeviceEnrollments db)"
    "access_agrees keys db k"
  using assms by (simp_all add: db_ok_def)

lemmas db_reads =
  table_reads [OF db_okD(1), of _ _ "\<lambda>k r. decodeDescriptorRecord r k", OF _ artifact_reads(1)]
  table_reads [OF db_okD(2), of keys _ "\<lambda>k r. decodeDeviceAccessMaterialRecord keys r k" for keys, OF _ artifact_reads(2)]
  table_reads [OF db_okD(3), of keys _ "\<lambda>k r. decodeDeviceAccessRecoveryBackupRecord keys r k" for keys,
    OF _ artifact_reads(3)]
  table_reads [OF db_okD(4), of keys _ "read_stored_snapshot keys" for keys, OF _ artifact_reads(4)]
  table_reads [OF db_okD(5), of _ _ read_stored_checkpoint, OF _ artifact_reads(5)]
  table_reads [OF db_okD(6), of _ _ read_stored_credentials, OF _ artifact_reads(6)]
  table_reads [OF db_okD(7), of _ _ read_stored_enrollment, OF _ artifact_reads(7)]

section \<open>The adapter keeps the contract\<close>

text \<open>A view stays folded: changed tables change its fields, unchanged ones are its fields.\<close>

lemma view_of_update:
  "view keys (db\<lparr>localVaultDescriptors := t\<rparr>) =
     (view keys db)\<lparr>sv_descriptors := read_table (\<lambda>k r. decodeDescriptorRecord r k) t\<rparr>"
  "view keys (db\<lparr>deviceAccessMaterials := t\<rparr>) =
     (view keys db)\<lparr>sv_materials := read_table (\<lambda>k r. decodeDeviceAccessMaterialRecord keys r k) t\<rparr>"
  "view keys (db\<lparr>deviceAccessRecoveryBackups := t\<rparr>) =
     (view keys db)\<lparr>sv_backups := read_table (\<lambda>k r. decodeDeviceAccessRecoveryBackupRecord keys r k) t\<rparr>"
  "view keys (db\<lparr>vaultSnapshots := t\<rparr>) = (view keys db)\<lparr>sv_snapshots := read_table (read_stored_snapshot keys) t\<rparr>"
  "view keys (db\<lparr>localVaultTrustCheckpoints := t\<rparr>) =
     (view keys db)\<lparr>sv_checkpoints := read_table read_stored_checkpoint t\<rparr>"
  "view keys (db\<lparr>deviceSyncCredentialStates := t\<rparr>) =
     (view keys db)\<lparr>sv_credentials := read_table read_stored_credentials t\<rparr>"
  "view keys (db\<lparr>pendingDeviceEnrollments := t\<rparr>) =
     (view keys db)\<lparr>sv_enrollments := read_table read_stored_enrollment t\<rparr>"
  by (simp_all add: view_def)

lemma view_fields:
  "read_table (\<lambda>k r. decodeDescriptorRecord r k) (localVaultDescriptors db) = sv_descriptors (view keys db)"
  "read_table (\<lambda>k r. decodeDeviceAccessMaterialRecord keys r k) (deviceAccessMaterials db) = sv_materials (view keys db)"
  "read_table (\<lambda>k r. decodeDeviceAccessRecoveryBackupRecord keys r k) (deviceAccessRecoveryBackups db) =
     sv_backups (view keys db)"
  "read_table (read_stored_snapshot keys) (vaultSnapshots db) = sv_snapshots (view keys db)"
  "read_table read_stored_checkpoint (localVaultTrustCheckpoints db) = sv_checkpoints (view keys db)"
  "read_table read_stored_credentials (deviceSyncCredentialStates db) = sv_credentials (view keys db)"
  "read_table read_stored_enrollment (pendingDeviceEnrollments db) = sv_enrollments (view keys db)"
  by (simp_all add: view_def)

lemmas view_simps = view_of_update stored_artifacts

lemma stored_credentials_reads:
  "db_ok keys db \<Longrightarrow> stored_credentials (map_of (deviceSyncCredentialStates db) k) k =
     Inr (read_table read_stored_credentials (deviceSyncCredentialStates db) k)"
  using db_reads(16) [of keys db k]
  by (simp add: stored_credentials_def read_stored_credentials_def [abs_def])

lemma simple_calls_refine:
  "wp (removePersistedLocalVault k) (\<lambda>r db'. change (forget k) (view keys db) = (r, view keys db')) db"
  "vault_descriptor_ok d \<Longrightarrow> wp (saveLocalVaultDescriptor d)
     (\<lambda>r db'. change (\<lambda>v. v\<lparr>sv_descriptors := (sv_descriptors v)(lvd_vaultId d \<mapsto> d)\<rparr>) (view keys db) =
        (r, view keys db')) db"
  "wp (removeLocalVaultDescriptor k)
     (\<lambda>r db'. change (\<lambda>v. v\<lparr>sv_descriptors := (sv_descriptors v)(k := None)\<rparr>) (view keys db) = (r, view keys db')) db"
  "wp (removeDeviceAccessMaterial k)
     (\<lambda>r db'. change (\<lambda>v. v\<lparr>sv_materials := (sv_materials v)(k := None)\<rparr>) (view keys db) = (r, view keys db')) db"
  "wp (removeDeviceAccessRecoveryBackup k)
     (\<lambda>r db'. change (\<lambda>v. v\<lparr>sv_backups := (sv_backups v)(k := None)\<rparr>) (view keys db) = (r, view keys db')) db"
  "wp (removeVaultSnapshot k)
     (\<lambda>r db'. change (\<lambda>v. v\<lparr>sv_snapshots := (sv_snapshots v)(k := None)\<rparr>) (view keys db) = (r, view keys db')) db"
  "wp (removeLocalVaultTrustCheckpoint k)
     (\<lambda>r db'. change (\<lambda>v. v\<lparr>sv_checkpoints := (sv_checkpoints v)(k := None)\<rparr>) (view keys db) = (r, view keys db')) db"
  "encrypted_ok 12 None s \<Longrightarrow> wp (saveDeviceSyncCredentialState k s)
     (\<lambda>r db'. change (\<lambda>v. v\<lparr>sv_credentials := (sv_credentials v)(k \<mapsto> s)\<rparr>) (view keys db) = (r, view keys db')) db"
  "wp (removeDeviceSyncCredentialState k)
     (\<lambda>r db'. change (\<lambda>v. v\<lparr>sv_credentials := (sv_credentials v)(k := None)\<rparr>) (view keys db) = (r, view keys db')) db"
  "pending_enrollment_ok e \<Longrightarrow> wp (savePendingDeviceEnrollment e)
     (\<lambda>r db'. change (\<lambda>v. v\<lparr>sv_enrollments := (sv_enrollments v)(pde_requestId e \<mapsto> e)\<rparr>) (view keys db) =
        (r, view keys db')) db"
  "wp (removePendingDeviceEnrollment k)
     (\<lambda>r db'. change (\<lambda>v. v\<lparr>sv_enrollments := (sv_enrollments v)(k := None)\<rparr>) (view keys db) = (r, view keys db')) db"
  by (simp_all add: wp_simps change_def view_simps view_fields [where keys = keys] forget_def removePersistedLocalVault_def removeVaultRecords_def
      saveLocalVaultDescriptor_def removeLocalVaultDescriptor_def removeDeviceAccessMaterial_def
      removeDeviceAccessRecoveryBackup_def removeVaultSnapshot_def removeLocalVaultTrustCheckpoint_def
      saveDeviceSyncCredentialState_def removeDeviceSyncCredentialState_def savePendingDeviceEnrollment_def
      removePendingDeviceEnrollment_def)

lemma absent_view:
  assumes "db_ok keys db"
  shows "absent k (view keys db) \<longleftrightarrow>
     \<not> list_ex (\<lambda>record. record \<noteq> None)
       [map_of (localVaultDescriptors db) k, map_of (deviceAccessMaterials db) k,
        map_of (deviceAccessRecoveryBackups db) k, map_of (vaultSnapshots db) k,
        map_of (localVaultTrustCheckpoints db) k, map_of (deviceSyncCredentialStates db) k]"
  using db_reads(2,5,8,11,14,17) [OF assms, of k]
  by (simp add: absent_def view_def)

lemma access_pair_iff: "areDeviceAccessRecordsConsistent m b \<longleftrightarrow> access_pair m b"
  by (auto simp: areDeviceAccessRecordsConsistent_def haveSameDeviceAccessIdentity_def isNonEmptyString_def
      access_pair_def device_identity_def)

text \<open>The check of the adapter is the rule of the port.\<close>

lemma next_revision_iff:
  "Some r' = nextDeviceAccessRevision r \<longleftrightarrow> next_revision r r'"
  "nextDeviceAccessRevision r = Some r' \<longleftrightarrow> next_revision r r'"
  by (auto simp: nextDeviceAccessRevision_def next_revision_def INITIAL_DEVICE_ACCESS_REVISION_def)

lemma same_identity_iff:
  "access_pair m b' \<Longrightarrow> haveSameDeviceAccessIdentity b b' \<longleftrightarrow> device_identity b' = device_identity b"
  by (auto simp: haveSameDeviceAccessIdentity_def device_identity_def access_pair_def isNonEmptyString_def)

lemma may_replace_access_iff:
  "may_replace_access p material backup \<longleftrightarrow>
     areDeviceAccessRecordsConsistent (replacementMaterial p) (replacementBackup p) \<and>
     isValidDeviceAccessReplacement p material backup"
proof (cases "access_pair (replacementMaterial p) (replacementBackup p)")
  case pair: True
  note parts = may_replace_access_def isValidDeviceAccessReplacement_def Let_def access_pair_iff pair
    same_identity_iff [OF pair] isNonEmptyString_def INITIAL_DEVICE_ACCESS_REVISION_def
  show ?thesis
  proof (cases backup)
    case None
    then show ?thesis by (simp add: parts)
  next
    case (Some b)
    show ?thesis
    proof (cases material)
      case None
      with Some show ?thesis
        by (cases "expectedDeviceAccessMaterialRevision p"; cases "expectedDeviceAccessMaterialGenerationId p")
          (auto simp: parts next_revision_iff)
    next
      case (Some m)
      with \<open>backup = Some b\<close> show ?thesis
        by (cases "expectedDeviceAccessMaterialRevision p"; cases "expectedDeviceAccessMaterialGenerationId p")
          (auto simp: parts next_revision_iff access_pair_def [of m])
    qed
  qed
next
  case False
  then show ?thesis by (simp add: may_replace_access_def access_pair_iff)
qed

lemma initialized_refines:
  assumes ok: "db_ok keys db" and c: "call_ok keys (Save_initialized p)"
  shows "wp (saveInitializedLocalVault p) (\<lambda>r db'. promise_initialized p (view keys db) = (r, view keys db')) db"
proof -
  let ?m = "iv_deviceAccessMaterial p" and ?b = "iv_deviceAccessRecoveryBackup p"
  have "importable_access keys ?b" "da_vaultId ?b = da_vaultId ?m" if "areDeviceAccessRecordsConsistent ?m ?b"
    using that c consistent_importable consistent_vault_id by auto
  with c show ?thesis
    unfolding saveInitializedLocalVault_def promise_initialized_def Let_def
    by (auto simp: wp_simps promise_def change_def INITIAL_DEVICE_ACCESS_REVISION_def absent_view [OF ok] access_pair_iff [symmetric]
        view_simps view_fields [where keys = keys] split: option.splits)
qed

lemma access_refines:
  assumes ok: "db_ok keys db" and c: "call_ok keys (Save_access p)"
  shows "wp (saveDeviceAccessRecords keys p) (\<lambda>r db'. promise_access p (view keys db) = (r, view keys db')) db"
proof -
  let ?m = "replacementMaterial p" and ?b = "replacementBackup p" let ?k = "da_vaultId ?m"
  have "importable_access keys ?b" "da_vaultId ?b = ?k" if "areDeviceAccessRecordsConsistent ?m ?b"
    using that c consistent_importable consistent_vault_id by auto
  with c show ?thesis
    unfolding saveDeviceAccessRecords_def promise_access_def Let_def
    by (auto simp: may_replace_access_iff wp_simps promise_def change_def db_reads(4,7) [OF ok] view_simps view_fields [where keys = keys])
qed

lemma credentials_equal_iff [simp]: "areEncryptedSyncCredentialStatesEqual l r \<longleftrightarrow> l = r"
  by (auto simp: areEncryptedSyncCredentialStatesEqual_def split: option.splits)

text \<open>The adapter decodes the stored snapshot before it looks at the identity that it names.\<close>

lemma snapshot_record_reads:
  assumes "db_ok keys db" "map_of (vaultSnapshots db) k = Some r"
  shows "\<exists>s. rbind (storedVaultArtifactValue r k InvalidLocalVaultSnapshotRecordError)
      (decodeAndValidateVaultSnapshot keys) = Inr s \<and> m_id (snap_metadata s) = k \<and> sv_snapshots (view keys db) k = Some s"
  using table_ok_get [OF db_okD(4) [OF assms(1)] assms(2)] assms(2)
  by (auto simp: artifact_of_def view_def read_table_def reads_snapshot decodeAndValidateVaultSnapshot_def
      decodeVaultSnapshot_encode)

lemma checkpoint_record_reads:
  assumes "db_ok keys db" "map_of (localVaultTrustCheckpoints db) k = Some r"
  shows "\<exists>c. rbind (storedVaultArtifactValue r k InvalidLocalVaultSecurityRecordError)
      decodeLocalVaultTrustCheckpoint = Inr c \<and> cp_vaultId (chk_payload c) = k \<and> sv_checkpoints (view keys db) k = Some c"
proof -
  obtain c where c: "checkpoint_ok c" "cp_vaultId (chk_payload c) = k"
    "r = storedVaultArtifact k (encodeLocalVaultTrustCheckpoint c)"
    using table_ok_get [OF db_okD(5) [OF assms(1)] assms(2)] by (auto simp: artifact_of_def)
  have "read_stored_checkpoint k r = Inr (sorted_checkpoint c)"
    using reads_checkpoint [OF c(1,2)] c(3) by simp
  then show ?thesis
    using assms(2)
    by (auto simp: read_stored_checkpoint_def view_def read_table_def rbind_eq_Inr_iff requireMatchingVaultId_def
        split: if_splits)
qed

lemma no_record_iff:
  assumes "db_ok keys db"
  shows "map_of (vaultSnapshots db) k = None \<longleftrightarrow> sv_snapshots (view keys db) k = None"
    and "map_of (localVaultTrustCheckpoints db) k = None \<longleftrightarrow> sv_checkpoints (view keys db) k = None"
    and "map_of (localVaultDescriptors db) k = None \<longleftrightarrow> sv_descriptors (view keys db) k = None"
    and "map_of (deviceAccessMaterials db) k = None \<longleftrightarrow> sv_materials (view keys db) k = None"
    and "map_of (deviceAccessRecoveryBackups db) k = None \<longleftrightarrow> sv_backups (view keys db) k = None"
  using db_reads(2,5,8,11,14) [OF assms, of k] by (simp_all add: view_def)

lemma snapshot_refines:
  assumes ok: "db_ok keys db" and c: "call_ok keys (Save_snapshot p)"
  shows "wp (saveVaultSnapshotWithCheckpoint keys digest p)
     (\<lambda>r db'. promise_snapshot digest p (view keys db) = (r, view keys db')) db"
proof -
  let ?k = "m_id (snap_metadata (sr_snapshot p))"
  show ?thesis
  proof (cases "map_of (vaultSnapshots db) ?k = None \<or> map_of (localVaultTrustCheckpoints db) ?k = None")
    case True
    then have "\<not> snapshot_is_current digest p ?k (view keys db)"
      by (auto simp: snapshot_is_current_def no_record_iff [OF ok] split: option.splits)
    with True show ?thesis
      by (auto simp: saveVaultSnapshotWithCheckpoint_def promise_snapshot_def Let_def wp_simps promise_def
          credentials_arguments_ok_def split: own_property.splits option.splits)
  next
    case False
    then obtain r r' where r: "map_of (vaultSnapshots db) ?k = Some r" "map_of (localVaultTrustCheckpoints db) ?k = Some r'"
      by auto
    obtain s where s: "rbind (storedVaultArtifactValue r ?k InvalidLocalVaultSnapshotRecordError)
        (decodeAndValidateVaultSnapshot keys) = Inr s" "m_id (snap_metadata s) = ?k" "sv_snapshots (view keys db) ?k = Some s"
      using snapshot_record_reads [OF ok r(1)] by blast
    obtain d where d: "rbind (storedVaultArtifactValue r' ?k InvalidLocalVaultSecurityRecordError)
        decodeLocalVaultTrustCheckpoint = Inr d" "cp_vaultId (chk_payload d) = ?k" "sv_checkpoints (view keys db) ?k = Some d"
      using checkpoint_record_reads [OF ok r(2)] by blast
    have none: "stored_credentials None ?k = Inr None"
      by (simp add: stored_credentials_def decode_found_def)
    show ?thesis
      using c
      unfolding saveVaultSnapshotWithCheckpoint_def promise_snapshot_def Let_def
      by (cases "sr_syncCredentialState p"; cases "sr_expectedSyncCredentialState p")
        (auto simp: wp_simps promise_def change_def replaced_def Let_def credentials_arguments_ok_def snapshot_is_current_def
          r s d none
          stored_credentials_reads [OF ok] view_simps view_fields [where keys = keys] credentials_property_ok_def
          split: option.splits)
  qed
qed

lemma forget_refines [simp]: "view keys (removeVaultRecords k db) = forget k (view keys db)"
  by (simp add: removeVaultRecords_def forget_def view_of_update view_fields [where keys = keys])

lemma access_record_reads:
  assumes "db_ok keys db"
  shows "map_of (localVaultDescriptors db) k = Some r \<Longrightarrow>
      \<exists>d. r = storedVaultArtifact k (encodeLocalVaultDescriptor d) \<and> sv_descriptors (view keys db) k = Some d"
    and "map_of (deviceAccessMaterials db) k = Some r \<Longrightarrow>
      \<exists>m. r = storedVaultArtifact k (encodeDeviceAccessMaterial m) \<and> sv_materials (view keys db) k = Some m"
    and "map_of (deviceAccessRecoveryBackups db) k = Some r \<Longrightarrow>
      \<exists>b. r = storedVaultArtifact k (encodeDeviceAccessRecoveryBackup b) \<and> sv_backups (view keys db) k = Some b"
  using table_ok_get [OF db_okD(1) [OF assms], of k r] table_ok_get [OF db_okD(2) [OF assms], of k r]
    table_ok_get [OF db_okD(3) [OF assms], of k r]
  by (auto simp: artifact_of_def view_def read_table_def reads_descriptor reads_material reads_backup)

lemma remove_if_match_refines:
  assumes ok: "db_ok keys db"
  shows "wp (run_call keys digest (Remove_persisted_if_match p))
     (\<lambda>r db'. promised digest (Remove_persisted_if_match p) (view keys db) = (r, view keys db')) db"
proof -
  let ?k = "ea_vaultId p"
  note none = no_record_iff [OF ok, of ?k]
  show ?thesis
  proof (cases "map_of (localVaultDescriptors db) ?k = None \<or> map_of (deviceAccessMaterials db) ?k = None \<or>
      map_of (deviceAccessRecoveryBackups db) ?k = None \<or> map_of (vaultSnapshots db) ?k = None \<or>
      map_of (localVaultTrustCheckpoints db) ?k = None")
    case True
    then have "\<not> all_match digest p (view keys db)"
      by (auto simp: all_match_def Let_def none split: option.splits)
    with True show ?thesis
      by (auto simp: removePersistedLocalVaultIfArtifactsMatch_def Let_def wp_simps change_def split: option.splits)
  next
    case False
    then obtain rd rm rb rs rc where r: "map_of (localVaultDescriptors db) ?k = Some rd"
      "map_of (deviceAccessMaterials db) ?k = Some rm" "map_of (deviceAccessRecoveryBackups db) ?k = Some rb"
      "map_of (vaultSnapshots db) ?k = Some rs" "map_of (localVaultTrustCheckpoints db) ?k = Some rc"
      by auto
    obtain d where d: "rd = storedVaultArtifact ?k (encodeLocalVaultDescriptor d)" "sv_descriptors (view keys db) ?k = Some d"
      using access_record_reads(1) [OF ok r(1)] by blast
    obtain m where m: "rm = storedVaultArtifact ?k (encodeDeviceAccessMaterial m)" "sv_materials (view keys db) ?k = Some m"
      using access_record_reads(2) [OF ok r(2)] by blast
    obtain b where b: "rb = storedVaultArtifact ?k (encodeDeviceAccessRecoveryBackup b)" "sv_backups (view keys db) ?k = Some b"
      using access_record_reads(3) [OF ok r(3)] by blast
    obtain s where s: "rbind (storedVaultArtifactValue rs ?k InvalidLocalVaultSnapshotRecordError)
        (decodeAndValidateVaultSnapshot keys) = Inr s" "m_id (snap_metadata s) = ?k" "sv_snapshots (view keys db) ?k = Some s"
      using snapshot_record_reads [OF ok r(4)] by blast
    obtain c where c: "rbind (storedVaultArtifactValue rc ?k InvalidLocalVaultSecurityRecordError)
        decodeLocalVaultTrustCheckpoint = Inr c" "cp_vaultId (chk_payload c) = ?k" "sv_checkpoints (view keys db) ?k = Some c"
      using checkpoint_record_reads [OF ok r(5)] by blast
    show ?thesis
      unfolding removePersistedLocalVaultIfArtifactsMatch_def run_call.simps promised.simps Let_def
      by (simp add: wp_simps r d m b s c change_def all_match_def Let_def stored_credentials_reads [OF ok]
          view_fields [where keys = keys])
  qed
qed

text \<open>Every call does to the tables what the contract says, and answers what the contract answers.\<close>

lemma run_call_refines:
  assumes "db_ok keys db" "call_ok keys c"
  shows "wp (run_call keys digest c) (\<lambda>r db'. promised digest c (view keys db) = (r, view keys db')) db"
proof (cases c)
  case (Remove_persisted_if_match p)
  then show ?thesis using remove_if_match_refines [OF assms(1)] by blast
qed (use assms in \<open>simp_all add: simple_calls_refine initialized_refines access_refines snapshot_refines
    del: call_ok.simps(1,3,4)\<close>)

section \<open>Sequences of calls\<close>

text \<open>The calls of all contexts in the order in which their transactions commit.\<close>

fun run_calls :: "key_validator \<Rightarrow> (VaultSnapshot \<Rightarrow> string) \<Rightarrow> repo_call list \<Rightarrow> vault_db \<Rightarrow>
    (core_error + unit) list \<times> vault_db" where
  "run_calls keys digest [] db = ([], db)"
| "run_calls keys digest (c # cs) db =
     (case run_call keys digest c db of (r, db') \<Rightarrow>
        (case run_calls keys digest cs db' of (rs, db'') \<Rightarrow> (r # rs, db'')))"

fun promised_all :: "(VaultSnapshot \<Rightarrow> string) \<Rightarrow> repo_call list \<Rightarrow> store_view \<Rightarrow>
    (core_error + unit) list \<times> store_view" where
  "promised_all digest [] v = ([], v)"
| "promised_all digest (c # cs) v =
     (case promised digest c v of (r, v') \<Rightarrow>
        (case promised_all digest cs v' of (rs, v'') \<Rightarrow> (r # rs, v'')))"

lemma run_calls_refine:
  assumes "db_ok keys db" "list_all (call_ok keys) cs" "run_calls keys digest cs db = (rs, db')"
  shows "db_ok keys db' \<and> promised_all digest cs (view keys db) = (rs, view keys db')"
  using assms
proof (induction cs arbitrary: db rs)
  case (Cons c cs)
  obtain r db1 where step: "run_call keys digest c db = (r, db1)" by fastforce
  with Cons.prems obtain rs' where rest: "run_calls keys digest cs db1 = (rs', db')" "rs = r # rs'"
    by (auto split: prod.splits)
  have c: "db_ok keys db1" "promised digest c (view keys db) = (r, view keys db1)"
    using wp_result [OF run_call_keeps step] wp_result [OF run_call_refines step] Cons.prems by auto
  with Cons.IH [OF c(1) _ rest(1)] Cons.prems(2) rest(2) show ?case by simp
qed simp

section \<open>Reading\<close>

lemma get_snapshot_eq:
  "getVaultSnapshot keys k db = (decode_found (map_of (vaultSnapshots db) k) (read_stored_snapshot keys k), db)"
  unfolding getVaultSnapshot_def read_stored_snapshot_def [abs_def]
  by (simp add: sbind_def sread_def slift_def sthrow_def sret_def split: sum.splits)

lemma get_checkpoint_eq:
  "getLocalVaultTrustCheckpoint k db =
     (decode_found (map_of (localVaultTrustCheckpoints db) k) (read_stored_checkpoint k), db)"
  unfolding getLocalVaultTrustCheckpoint_def read_stored_checkpoint_def [abs_def]
  by (simp add: sbind_def sread_def slift_def sthrow_def sret_def split: sum.splits)

lemma get_credentials_eq:
  "getDeviceSyncCredentialState k db = (stored_credentials (map_of (deviceSyncCredentialStates db) k) k, db)"
  by (simp add: getDeviceSyncCredentialState_def sbind_def sread_def slift_def sthrow_def sret_def split: sum.splits)

text \<open>In a well-formed store a read never fails and gives what the tables hold.\<close>

lemma reads_give_view:
  assumes "db_ok keys db"
  shows "getVaultSnapshot keys k db = (Inr (sv_snapshots (view keys db) k), db)"
    and "getLocalVaultTrustCheckpoint k db = (Inr (sv_checkpoints (view keys db) k), db)"
    and "getDeviceSyncCredentialState k db = (Inr (sv_credentials (view keys db) k), db)"
    and "getLocalVaultDescriptor k db = (Inr (sv_descriptors (view keys db) k), db)"
    and "getDeviceAccessMaterial keys k db = (Inr (sv_materials (view keys db) k), db)"
    and "getDeviceAccessRecoveryBackup keys k db = (Inr (sv_backups (view keys db) k), db)"
    and "getPendingDeviceEnrollment k db = (Inr (sv_enrollments (view keys db) k), db)"
  using db_reads(1,4,7,10,13,19) [OF assms, of k] stored_credentials_reads [OF assms, of k]
  by (simp_all add: get_snapshot_eq get_checkpoint_eq get_credentials_eq view_def getLocalVaultDescriptor_def
      getDeviceAccessMaterial_def getDeviceAccessRecoveryBackup_def getPendingDeviceEnrollment_def
      read_stored_enrollment_def [abs_def] sbind_def sread_def slift_def sret_def)

lemma reads_give_access_records:
  assumes "db_ok keys db"
  shows "getDeviceAccessRecords keys k db = (Inr (sv_materials (view keys db) k, sv_backups (view keys db) k), db)"
proof -
  have "areDeviceAccessRecordsConsistent m b"
    if "sv_materials (view keys db) k = Some m" "sv_backups (view keys db) k = Some b" for m b
    using that db_okD(8) [OF assms, of k]
    by (auto simp: view_def read_table_def access_agrees_def split: option.splits sum.splits)
  then show ?thesis
    using db_reads(4,7) [OF assms, of k]
    by (auto simp: view_def getDeviceAccessRecords_def sbind_def sread_def slift_def sret_def sthen_def srequire_def
        split: option.splits)
qed

end

