(* ===== verification/Snapshot_Persistence.thy ===== *)
theory Snapshot_Persistence
  imports Snapshot_Service Repository_Contract Trust_Operations
begin

text \<open>
  What replacing the local snapshot guarantees, whichever calls fail and whatever other contexts do
  to the store in between: a snapshot that is written replaces exactly the one the session was
  opened from, an error leaves the store to the others, and a session that has written its snapshot
  can go on from it.
\<close>

section \<open>The device as an environment\<close>

text \<open>What the others have done to the store.\<close>

definition others_only :: "device_env \<Rightarrow> vault_db \<Rightarrow> vault_db \<Rightarrow> bool" where
  "others_only env db db' \<longleftrightarrow> (\<exists>ns. db' = fold (meanwhile env) ns db)"

lemma others_only_refl [simp]: "others_only env db db"
  unfolding others_only_def by (rule exI [of _ "[]"]) simp

lemma others_only_trans: "others_only env db db' \<Longrightarrow> others_only env db' db'' \<Longrightarrow> others_only env db db''"
  unfolding others_only_def by (metis fold_append comp_apply)

lemma others_only_step: "others_only env db db' \<Longrightarrow> others_only env db (meanwhile env n db')"
  by (rule others_only_trans) (auto simp: others_only_def intro: exI [of _ "[n]"])

text \<open>The other contexts use the same store operations, so they keep its invariant.\<close>

definition benign :: "device_env \<Rightarrow> bool" where
  "benign env \<longleftrightarrow> (\<forall>n db. db_ok (key_import env) db \<longrightarrow> db_ok (key_import env) (meanwhile env n db))"

lemma benign_others:
  assumes "benign env" "db_ok (key_import env) db" "others_only env db db'"
  shows "db_ok (key_import env) db'"
proof -
  have "db_ok (key_import env) (fold (meanwhile env) ns db)" for ns
    using assms(1,2) by (induction ns arbitrary: db) (auto simp: benign_def)
  with assms(3) show ?thesis by (auto simp: others_only_def)
qed

text \<open>No call fails after its effect; no call fails and nobody else writes.\<close>

definition settled :: "device_env \<Rightarrow> bool" where
  "settled env \<longleftrightarrow> (\<forall>n. call_fate env n \<noteq> Fails_after)"

definition undisturbed :: "device_env \<Rightarrow> bool" where
  "undisturbed env \<longleftrightarrow> (\<forall>n. call_fate env n = Succeeds) \<and> meanwhile env = (\<lambda>_ db. db)"

lemma undisturbed_facts:
  assumes "undisturbed env"
  shows "settled env" "benign env" "others_only env db db' \<longleftrightarrow> db' = db"
proof -
  have "fold (meanwhile env) ns db = db" for ns
    using assms by (induction ns) (simp_all add: undisturbed_def)
  then show "others_only env db db' \<longleftrightarrow> db' = db"
    by (auto simp: others_only_def)
qed (use assms in \<open>auto simp: undisturbed_def settled_def benign_def\<close>)

section \<open>Rules for the calls\<close>

lemma wp_repository:
  "wp (repository env operation) Q w =
     (let n = call_count w; db = meanwhile env n (local_db w); w' = w\<lparr>call_count := Suc n, local_db := db\<rparr> in
      case call_fate env n of
        Succeeds \<Rightarrow> wp operation (\<lambda>r db'. Q r (w'\<lparr>local_db := db'\<rparr>)) db
      | Fails_before \<Rightarrow> Q (Inl (External_failure n)) w'
      | Fails_after \<Rightarrow> wp operation (\<lambda>r db'. Q (Inl (External_failure n)) (w'\<lparr>local_db := db'\<rparr>)) db)"
  by (simp add: wp_def repository_def Let_def split: call_outcome.splits prod.splits)

lemma wp_crypto_call:
  "wp (crypto_call env f) Q w =
     (let n = call_count w; w' = w\<lparr>call_count := Suc n\<rparr> in
      case call_fate env n of Succeeds \<Rightarrow> Q (f n) w' | _ \<Rightarrow> Q (Inl (External_failure n)) w')"
  by (simp add: wp_def crypto_call_def Let_def split: call_outcome.splits)

text \<open>A step that only reads: others may have written, and the remote storage is as before.\<close>

definition only_read :: "device_env \<Rightarrow> 'r device_world \<Rightarrow> 'r device_world \<Rightarrow> bool" where
  "only_read env w w' \<longleftrightarrow> others_only env (local_db w) (local_db w') \<and> remote_store w' = remote_store w"

lemma only_read_refl [simp]: "only_read env w w"
  by (simp add: only_read_def)

lemma only_read_trans: "only_read env w w' \<Longrightarrow> only_read env w' w'' \<Longrightarrow> only_read env w w''"
  by (auto simp: only_read_def intro: others_only_trans)

text \<open>
  A computation that only reads, with what is known of its result; the rules compose such facts.
\<close>

definition reads :: "device_env \<Rightarrow> ('r, 'a) service \<Rightarrow> 'r device_world \<Rightarrow> ('a \<Rightarrow> bool) \<Rightarrow> bool" where
  "reads env m w P \<longleftrightarrow> wp m (\<lambda>r w'. only_read env w w' \<and> (\<forall>a. r = Inr a \<longrightarrow> P a)) w"

named_theorems reads_intros \<open>rules for computations that only read\<close>

lemma reads_bind:
  assumes "reads env m w P" "\<And>a w'. P a \<Longrightarrow> only_read env w w' \<Longrightarrow> reads env (f a) w' R"
  shows "reads env (sbind m f) w R"
proof -
  obtain r w' where m: "m w = (r, w')" by fastforce
  with assms show ?thesis
    by (cases r) (auto simp: reads_def wp_run sbind_def split: prod.splits intro: only_read_trans)
qed

lemma reads_then:
  "reads env m w P \<Longrightarrow> (\<And>a w'. P a \<Longrightarrow> only_read env w w' \<Longrightarrow> reads env n w' R) \<Longrightarrow> reads env (sthen m n) w R"
  unfolding sthen_def by (rule reads_bind)

lemma reads_return [reads_intros]: "P a \<Longrightarrow> reads env (sret a) w P"
  by (simp add: reads_def wp_simps)

lemma reads_throw [reads_intros]: "reads env (sthrow e) w P"
  by (simp add: reads_def wp_simps)

lemma reads_slift [reads_intros]: "(\<And>a. r = Inr a \<Longrightarrow> P a) \<Longrightarrow> reads env (slift r) w P"
  by (simp add: reads_def wp_simps)

lemma reads_require [reads_intros]: "(c \<Longrightarrow> P ()) \<Longrightarrow> reads env (srequire c e) w P"
  by (simp add: reads_def wp_simps)

lemma reads_if [reads_intros]:
  "(c \<Longrightarrow> reads env m w P) \<Longrightarrow> (\<not> c \<Longrightarrow> reads env n w P) \<Longrightarrow> reads env (if c then m else n) w P"
  by simp

lemma reads_option [reads_intros]:
  "(x = None \<Longrightarrow> reads env m w P) \<Longrightarrow> (\<And>a. x = Some a \<Longrightarrow> reads env (f a) w P) \<Longrightarrow>
   reads env (case x of None \<Rightarrow> m | Some a \<Rightarrow> f a) w P"
  by (cases x) simp_all

lemma reads_sread [reads_intros]: "P (f w) \<Longrightarrow> reads env (sread f) w P"
  by (simp add: reads_def wp_simps)

lemma reads_crypto [reads_intros]: "(\<And>n a. f n = Inr a \<Longrightarrow> P a) \<Longrightarrow> reads env (crypto_call env f) w P"
  by (auto simp: reads_def wp_crypto_call Let_def only_read_def split: call_outcome.splits)

text \<open>A step whose result is known exactly, followed by the rest.\<close>

lemma reads_known [reads_intros]:
  "(\<And>a w'. r = Inr a \<Longrightarrow> only_read env w w' \<Longrightarrow> reads env (f a) w' R) \<Longrightarrow> reads env (sbind (slift r) f) w R"
  "(\<And>a w'. r = Inr a \<Longrightarrow> only_read env w w' \<Longrightarrow> reads env n w' R) \<Longrightarrow> reads env (sthen (slift r) n) w R"
  "(\<And>w'. c \<Longrightarrow> only_read env w w' \<Longrightarrow> reads env n w' R) \<Longrightarrow> reads env (sthen (srequire c e) n) w R"
  "(\<And>w'. only_read env w w' \<Longrightarrow> reads env (h (g w)) w' R) \<Longrightarrow> reads env (sbind (sread g) h) w R"
  "(\<And>i a w'. q i = Inr a \<Longrightarrow> only_read env w w' \<Longrightarrow> reads env (h a) w' R) \<Longrightarrow>
     reads env (sbind (crypto_call env q) h) w R"
  by (rule reads_bind [OF reads_slift [where P = "\<lambda>a. r = Inr a"]], auto)
    (rule reads_then [OF reads_slift [where P = "\<lambda>a. r = Inr a"]], auto,
     rule reads_then [OF reads_require [where P = "\<lambda>_. c"]], auto,
     rule reads_bind [OF reads_sread [where P = "\<lambda>a. a = g w"]], auto,
     rule reads_bind [OF reads_crypto [where P = "\<lambda>a. \<exists>i. q i = Inr a"]], auto)

text \<open>What a read of the store gives is there at some moment.\<close>

definition at_some_moment :: "device_env \<Rightarrow> 'r device_world \<Rightarrow> (vault_db \<Rightarrow> bool) \<Rightarrow> bool" where
  "at_some_moment env w P \<longleftrightarrow> (\<exists>db. others_only env (local_db w) db \<and> P db)"

lemma at_some_moment_later:
  "only_read env w w' \<Longrightarrow> at_some_moment env w' P \<Longrightarrow> at_some_moment env w P"
  by (auto simp: at_some_moment_def only_read_def dest: others_only_trans)

lemma reads_repository:
  assumes "\<And>db. snd (operation db) = db"
    and "\<And>a. at_some_moment env w (\<lambda>db. fst (operation db) = Inr a) \<Longrightarrow> P a"
  shows "reads env (repository env operation) w P"
proof -
  let ?n = "call_count w" let ?db = "meanwhile env ?n (local_db w)"
  have o: "others_only env (local_db w) ?db"
    using others_only_step [of env "local_db w" "local_db w" ?n] by simp
  then have "P a" if "fst (operation ?db) = Inr a" for a
    using assms(2) that by (auto simp: at_some_moment_def)
  with o show ?thesis
    unfolding reads_def wp_repository Let_def
    by (auto simp: only_read_def wp_run assms(1) split: call_outcome.splits)
qed

section \<open>The views that are read\<close>

lemma snapshot_view_sound:
  assumes "sv_snapshots (view keys db) k = Some s"
  shows "snapshot_ok s" "validateVaultSnapshotPublicKeys s keys" "m_id (snap_metadata s) = k"
  using assms read_snapshot_sound
  by (auto simp: view_def read_table_def read_stored_snapshot_def rbind_eq_Inr_iff requireMatchingVaultId_def
      decodeAndValidateVaultSnapshot_def decodeVaultSnapshot_def or_throw_def
      split: option.splits sum.splits if_splits)

lemma checkpoint_view_sound:
  assumes "sv_checkpoints (view keys db) k = Some c"
  shows "checkpoint_ok c" "cp_vaultId (chk_payload c) = k"
  using assms read_checkpoint_sound
  by (auto simp: view_def read_table_def read_stored_checkpoint_def rbind_eq_Inr_iff requireMatchingVaultId_def
      decodeLocalVaultTrustCheckpoint_def or_throw_def split: option.splits sum.splits if_splits)

lemma reads_unchanged [simp]:
  "snd (getVaultSnapshot keys k db) = db"
  "snd (getLocalVaultTrustCheckpoint k db) = db"
  "snd (getDeviceSyncCredentialState k db) = db"
  by (simp_all add: get_snapshot_eq get_checkpoint_eq get_credentials_eq)

section \<open>Reading the stored snapshot and checkpoint\<close>

text \<open>The snapshot a session may replace: it verifies, and it is the one the session was opened from.\<close>

definition current_snapshot ::
    "device_env \<Rightarrow> string \<Rightarrow> UnlockedVault \<Rightarrow> VersionVector \<Rightarrow> VaultSnapshot \<Rightarrow> bool" where
  "current_snapshot env k uv v s \<longleftrightarrow>
     uv_vaultId uv = k \<and> m_id (snap_metadata s) = k \<and> snapshot_ok s \<and> validateVaultSnapshotPublicKeys s (key_import env) \<and>
     compareVersionVectors (m_snapshotVersionVector (snap_metadata s)) v = Equal \<and>
     snapshot_digest env s = tsc_snapshotDigest (uv_trustedSnapshotContext uv) \<and>
     verifySnapshot (trust_port env) k s (tsc_trust (uv_trustedSnapshotContext uv)) = Inr () \<and>
     list_ex (\<lambda>slot. slot_deviceId slot = uv_deviceId uv) (snap_deviceSlots s)"

definition current_checkpoint ::
    "device_env \<Rightarrow> string \<Rightarrow> VaultSnapshot \<Rightarrow> UnlockedVault \<Rightarrow> LocalVaultTrustCheckpoint \<Rightarrow> bool" where
  "current_checkpoint env k s uv c \<longleftrightarrow>
     (let trust = tsc_trust (uv_trustedSnapshotContext uv) in
      checkpoint_ok c \<and>
      (\<exists>device. find_device (ts_trustedDevices trust) (uv_deviceId uv) = Some device \<and>
         verifyCheckpoint (trust_port env) k c device = Inr ()) \<and>
      (\<exists>f. requireSnapshotNotRolledBack (trust_port env) k s trust c = Inr f))"

lemma supported_iff:
  "requireSupportedSnapshotAlgorithm env k s = Inr () \<longleftrightarrow>
     m_schemaVersion (snap_metadata s) = 1 \<and> m_algorithmSuiteId (snap_metadata s) = algorithmSuiteId (crypto_port env)"
  by (simp add: requireSupportedSnapshotAlgorithm_def)

lemma only_read_ok:
  "benign env \<Longrightarrow> db_ok (key_import env) (local_db w) \<Longrightarrow> only_read env w w' \<Longrightarrow> db_ok (key_import env) (local_db w')"
  by (auto simp: only_read_def dest: benign_others)

lemma reads_stored:
  assumes "benign env" "db_ok (key_import env) (local_db w)"
  shows "reads env (repository env (getVaultSnapshot (key_import env) k)) w
      (\<lambda>s. at_some_moment env w (\<lambda>db. sv_snapshots (view (key_import env) db) k = s))"
    and "reads env (repository env (getLocalVaultTrustCheckpoint k)) w
      (\<lambda>c. at_some_moment env w (\<lambda>db. sv_checkpoints (view (key_import env) db) k = c))"
    and "reads env (repository env (getDeviceSyncCredentialState k)) w
      (\<lambda>e. at_some_moment env w (\<lambda>db. sv_credentials (view (key_import env) db) k = e))"
  by (rule reads_repository; auto simp: at_some_moment_def reads_give_view(1) reads_give_view(2,3)
      [where keys = "key_import env"] benign_others [OF assms])+

lemma reads_local_snapshot:
  assumes "benign env" "db_ok (key_import env) (local_db w)"
  shows "reads env (requireLocalVaultSnapshot env k) w
    (\<lambda>s. snapshot_ok s \<and> validateVaultSnapshotPublicKeys s (key_import env) \<and> m_id (snap_metadata s) = k)"
  unfolding requireLocalVaultSnapshot_def
  by (intro reads_bind [OF reads_stored(1) [OF assms]] reads_intros)
    (auto simp: at_some_moment_def dest: snapshot_view_sound)

lemma reads_local_checkpoint:
  assumes "benign env" "db_ok (key_import env) (local_db w)"
  shows "reads env (requireLocalVaultTrustCheckpoint env k) w checkpoint_ok"
  unfolding requireLocalVaultTrustCheckpoint_def
  by (intro reads_bind [OF reads_stored(2) [OF assms]] reads_intros)
    (auto simp: at_some_moment_def dest: checkpoint_view_sound)

lemma reads_current_snapshot:
  assumes "benign env" "db_ok (key_import env) (local_db w)"
  shows "reads env (requireCurrentSnapshotForUnlockedVault env k uv v) w (current_snapshot env k uv v)"
  unfolding requireCurrentSnapshotForUnlockedVault_def
  by (intro reads_bind [OF reads_local_snapshot [OF assms]] reads_intros) (auto simp: current_snapshot_def)

lemma reads_current_checkpoint:
  assumes "benign env" "db_ok (key_import env) (local_db w)"
  shows "reads env (requireCurrentCheckpointForUnlockedVault env k s uv) w (current_checkpoint env k s uv)"
  unfolding requireCurrentCheckpointForUnlockedVault_def Let_def
  by (intro reads_bind [OF reads_local_checkpoint [OF assms]] reads_intros) (auto simp: current_checkpoint_def Let_def)

section \<open>Writing\<close>

text \<open>What the services rely on of the cryptographic port: the form of its results, digests and
  signatures of the canonical form, and signatures that verify with the other key of a pair.\<close>

definition faithful_port :: "vault_crypto \<Rightarrow> bool" where
  "faithful_port cr \<longleftrightarrow>
     (\<forall>n v key. encrypted_ok 12 None (encryptVaultSnapshotContent cr n v key)) \<and>
     (\<forall>n st key c. encrypted_ok 12 None (encryptDeviceSyncCredentialState cr n st key c)) \<and>
     (\<forall>u key. canonical_text 64 (signVaultSnapshot cr u key)) \<and>
     (\<forall>p key. canonical_text 64 (signLocalVaultTrustCheckpoint cr p key)) \<and>
     (\<forall>s. digest_text (digestVaultSnapshot cr s)) \<and>
     (\<forall>s. digestVaultSnapshot cr (sorted_snapshot s) = digestVaultSnapshot cr s) \<and>
     (\<forall>s key. verifyVaultSnapshotSignature cr (sorted_snapshot s) key = verifyVaultSnapshotSignature cr s key) \<and>
     (\<forall>c key. verifyLocalVaultTrustCheckpointSignature cr (sorted_checkpoint c) key =
        verifyLocalVaultTrustCheckpointSignature cr c key) \<and>
     (\<forall>public private. verifyDeviceSignKeyPair cr public private \<longrightarrow>
        (\<forall>u. verifyVaultSnapshotSignature cr (signed_snapshot u (signVaultSnapshot cr u private)) public) \<and>
        (\<forall>payload. verifyLocalVaultTrustCheckpointSignature cr
           \<lparr>chk_payload = payload, chk_signature = signLocalVaultTrustCheckpoint cr payload private\<rparr> public))"

text \<open>Values that a stored record can hold.\<close>

definition trust_ok :: "VerifiedVaultTrustState \<Rightarrow> bool" where
  "trust_ok t \<longleftrightarrow> safe_integer 0 (ts_generation t) \<and> digest_text (ts_certificateDigest t)"

definition slots_storable :: "key_validator \<Rightarrow> DeviceKeySlot list \<Rightarrow> bool" where
  "slots_storable keys slots \<longleftrightarrow> list_all stored_slot_ok slots \<and> distinct (map slot_deviceId slots) \<and>
     list_all (\<lambda>slot. importDeviceVaultPublicKey keys (env_ephemeralPublicKey (slot_envelope slot))) slots"

definition chain_storable :: "key_validator \<Rightarrow> VaultTrustChain \<Rightarrow> bool" where
  "chain_storable keys chain \<longleftrightarrow> list_all certificate_ok chain \<and>
     list_all (\<lambda>certificate. list_all (\<lambda>device.
        importDeviceSignPublicKey keys (dti_publicSignKey device) \<and>
        importDeviceVaultPublicKey keys (dti_publicVaultKey device)) (cert_devices certificate)) chain"

definition options_ok :: "device_env \<Rightarrow> string \<Rightarrow> VersionVector \<Rightarrow> persist_options \<Rightarrow> bool" where
  "options_ok env deviceId current options \<longleftrightarrow>
     vv_get (nullish (po_baseSnapshotVersionVector options) current) deviceId < MAX_SAFE_INTEGER \<and>
     pred_option safe_vector (po_baseSnapshotVersionVector options) \<and>
     pred_option (slots_storable (key_import env)) (po_keySlots options) \<and>
     pred_option (safe_integer 1) (po_vaultKeyGeneration options) \<and>
     pred_option (pred_option identity_ok) (po_uploadExpectedRemoteSnapshotIdentity options) \<and>
     pred_option (\<lambda>(chain, trust). chain_storable (key_import env) chain \<and> trust_ok trust) (po_nextTrust options) \<and>
     pred_option (pred_option (encrypted_ok 12 None)) (po_syncCredentialState options) \<and>
     (po_syncCredentialState options \<noteq> None \<longrightarrow> po_expectedSyncCredentialState options \<noteq> None)"

definition writable :: "device_env \<Rightarrow> UnlockedVault \<Rightarrow> bool" where
  "writable env uv \<longleftrightarrow> faithful_port (crypto_port env) \<and> (\<forall>n. clock_now env n \<le> MAX_SAFE_INTEGER) \<and>
     nonBlank (uv_deviceId uv) \<and> trust_ok (tsc_trust (uv_trustedSnapshotContext uv))"

lemma snapshot_ok_storable:
  "snapshot_ok s \<and> validateVaultSnapshotPublicKeys s keys \<longleftrightarrow>
     metadata_ok (snap_metadata s) \<and> chain_storable keys (snap_trustChain s) \<and>
     slots_storable keys (snap_deviceSlots s) \<and> encrypted_ok 12 None (snap_content s) \<and>
     canonical_text 64 (snap_signature s)"
  by (auto simp: snapshot_ok_def validateVaultSnapshotPublicKeys_def chain_storable_def slots_storable_def)

text \<open>The snapshot that \<open>build_snapshot\<close> makes.\<close>

definition built_from ::
    "device_env \<Rightarrow> (buffer \<Rightarrow> bytes) \<Rightarrow> UnlockedVault \<Rightarrow> persist_options \<Rightarrow> VaultTrustChain \<Rightarrow>
     VerifiedVaultTrustState \<Rightarrow> VaultSnapshot \<Rightarrow> VaultSnapshot \<Rightarrow> bool" where
  "built_from env mem uv options chain trust current s \<longleftrightarrow>
     (\<exists>device t n u. find_device (ts_trustedDevices trust) (uv_deviceId uv) = Some device \<and>
        verifyDeviceSignKeyPair (crypto_port env) (dti_publicSignKey device) (mem (uv_devicePrivateSignKey uv)) \<and>
        u = \<lparr>un_metadata = next_metadata (snap_metadata current) (clock_now env t) (uv_deviceId uv) options,
             un_trustChain = chain, un_deviceSlots = nullish (po_keySlots options) (snap_deviceSlots current),
             un_content = encryptVaultSnapshotContent (crypto_port env) n (uv_vault uv) (mem (uv_vaultMasterKey uv))\<rparr> \<and>
        s = signed_snapshot u (signVaultSnapshot (crypto_port env) u (mem (uv_devicePrivateSignKey uv))))"

lemma reads_build:
  "reads env (build_snapshot env mem k uv options chain trust current) w
     (built_from env mem uv options chain trust current)"
  unfolding build_snapshot_def Let_def
  by (intro reads_intros) (auto simp: built_from_def)

lemma clone_identities [simp]: "map_option cloneVaultSnapshotIdentity i = i"
  by (cases i) simp_all

lemma built_storable:
  assumes "writable env uv" "snapshot_ok current" "validateVaultSnapshotPublicKeys current (key_import env)"
    and "options_ok env (uv_deviceId uv) (m_snapshotVersionVector (snap_metadata current)) options"
    and "chain_storable (key_import env) chain" "built_from env mem uv options chain trust current s"
  shows "snapshot_ok s" "validateVaultSnapshotPublicKeys s (key_import env)"
proof -
  have current: "metadata_ok (snap_metadata current)" "slots_storable (key_import env) (snap_deviceSlots current)"
    using assms(2,3) snapshot_ok_storable by blast+
  have "metadata_ok (next_metadata (snap_metadata current) (clock_now env t) (uv_deviceId uv) options)" for t
    using current(1) assms(1,4)
    by (auto simp: next_metadata_def metadata_ok_def safe_vector_increment writable_def options_ok_def nullish_def Let_def
        split: option.splits)
  moreover have "slots_storable (key_import env) (nullish (po_keySlots options) (snap_deviceSlots current))"
    using current(2) assms(4) by (auto simp: options_ok_def nullish_def split: option.splits)
  ultimately have "snapshot_ok s \<and> validateVaultSnapshotPublicKeys s (key_import env)"
    using assms(1,5,6) unfolding snapshot_ok_storable
    by (auto simp: built_from_def signed_snapshot_def writable_def faithful_port_def)
  then show "snapshot_ok s" "validateVaultSnapshotPublicKeys s (key_import env)" by blast+
qed

lemma checkpoint_storable:
  assumes "faithful_port (crypto_port env)" "nonBlank deviceId" "trust_ok trust" "snapshot_ok s"
  shows "checkpoint_ok (createCheckpoint (trust_port env) s trust deviceId privateKey)"
  using assms
  by (auto simp: checkpoint_ok_def createCheckpoint_def Let_def trust_ok_def snapshot_ok_def metadata_ok_def
      faithful_port_def crypto.defs)

text \<open>Replacing the snapshot: either it took the place of the expected one, or the others are all.\<close>

lemma wp_save:
  assumes "benign env" "db_ok (key_import env) (local_db w)" "call_ok (key_import env) (Save_snapshot p)"
    and written: "\<And>before w'. others_only env (local_db w) before \<Longrightarrow> db_ok (key_import env) before \<Longrightarrow>
      snapshot_is_current (snapshot_digest env) p (m_id (snap_metadata (sr_snapshot p))) (view (key_import env) before) \<Longrightarrow>
      view (key_import env) (local_db w') = replaced p (view (key_import env) before) \<Longrightarrow>
      db_ok (key_import env) (local_db w') \<Longrightarrow> remote_store w' = remote_store w \<Longrightarrow> Q (Inr ()) w'"
    and failed: "\<And>e w'. db_ok (key_import env) (local_db w') \<Longrightarrow> remote_store w' = remote_store w \<Longrightarrow>
      (settled env \<Longrightarrow> others_only env (local_db w) (local_db w')) \<Longrightarrow> Q (Inl e) w'"
  shows "wp (save_snapshot env p) Q w"
proof -
  let ?keys = "key_import env" and ?n = "call_count w" let ?db = "meanwhile env ?n (local_db w)"
  let ?save = "saveVaultSnapshotWithCheckpoint ?keys (snapshot_digest env) p"
  obtain r db' where run: "?save ?db = (r, db')" by fastforce
  have o: "others_only env (local_db w) ?db"
    using others_only_step [of env "local_db w" "local_db w" ?n] by simp
  have ok: "db_ok ?keys ?db" using assms(1,2) o by (rule benign_others)
  have ok': "db_ok ?keys db'"
    using wp_result [OF save_snapshot_keeps [OF ok assms(3)] run] .
  have step: "promise_snapshot (snapshot_digest env) p (view ?keys ?db) = (r, view ?keys db')"
    using wp_result [OF snapshot_refines [OF ok assms(3)] run] .
  have kept: "db' = ?db" if "r = Inl e" for e
    using that run
    by (auto simp: saveVaultSnapshotWithCheckpoint_def Let_def sthen_def sbind_def srequire_def sret_def sthrow_def
        transaction_def split: if_splits prod.splits sum.splits)
  have success: "Q (Inr ()) (w\<lparr>call_count := Suc ?n, local_db := db'\<rparr>)" if "r = Inr ()"
    using step that
    by (intro written [OF o ok]) (auto simp: promise_snapshot_def promise_def change_def Let_def ok' split: if_splits)
  have failure: "Q (Inl e) (w\<lparr>call_count := Suc ?n, local_db := db\<rparr>)"
    if "db = ?db \<or> db = db' \<and> \<not> settled env" for e db
    using that by (intro failed) (auto simp: ok ok' o)
  show ?thesis
    unfolding save_snapshot_def wp_repository Let_def unfolding wp_def run
    using success failure kept
    by (cases r) (auto simp: settled_def split: call_outcome.splits)
qed

lemma wp_after_reads:
  assumes "reads env m w P" "\<And>a w'. P a \<Longrightarrow> only_read env w w' \<Longrightarrow> wp (f a) Q w'"
    and "\<And>e w'. only_read env w w' \<Longrightarrow> Q (Inl e) w'"
  shows "wp (sbind m f) Q w"
  using assms by (auto simp: reads_def wp_run sbind_def split: prod.splits sum.splits)

lemma wp_then_after_reads:
  assumes "reads env m w P" "\<And>a w'. P a \<Longrightarrow> only_read env w w' \<Longrightarrow> wp n Q w'"
    and "\<And>e w'. only_read env w w' \<Longrightarrow> Q (Inl e) w'"
  shows "wp (sthen m n) Q w"
  unfolding sthen_def by (rule wp_after_reads [OF assms(1)]) (use assms in auto)

section \<open>Persisting a changed vault\<close>

text \<open>
  What a successful call has done: at some moment the stored snapshot was the one the session was
  opened from, and the new one took its place together with its checkpoint. The new snapshot is one
  step ahead and verifies under the trust state that the session goes on with.
\<close>

definition next_chain :: "persist_options \<Rightarrow> VaultSnapshot \<Rightarrow> VaultTrustChain" where
  "next_chain options current = nullish (map_option fst (po_nextTrust options)) (snap_trustChain current)"

definition next_trust :: "persist_options \<Rightarrow> UnlockedVault \<Rightarrow> VerifiedVaultTrustState" where
  "next_trust options uv =
     nullish (map_option snd (po_nextTrust options)) (tsc_trust (uv_trustedSnapshotContext uv))"

definition consistent_result ::
    "device_env \<Rightarrow> (buffer \<Rightarrow> bytes) \<Rightarrow> string \<Rightarrow> UnlockedVault \<Rightarrow> VersionVector \<Rightarrow> persist_options \<Rightarrow>
     VaultSnapshot \<Rightarrow> persisted_snapshot \<Rightarrow> bool" where
  "consistent_result env mem k uv v options current p \<longleftrightarrow>
     current_snapshot env k uv v current \<and>
     built_from env mem uv options (next_chain options current) (next_trust options uv) current (ps_snapshot p) \<and>
     verifySnapshot (trust_port env) k (ps_snapshot p) (next_trust options uv) = Inr () \<and>
     ps_snapshotVersionVector p = m_snapshotVersionVector (snap_metadata (ps_snapshot p)) \<and>
     ps_trustedSnapshotContext p =
       \<lparr>tsc_snapshotDigest = snapshot_digest env (ps_snapshot p), tsc_trust = next_trust options uv\<rparr> \<and>
     ps_checkpoint p = createCheckpoint (trust_port env) (ps_snapshot p) (next_trust options uv) (uv_deviceId uv)
       (mem (uv_devicePrivateSignKey uv))"

definition takes_the_place ::
    "device_env \<Rightarrow> string \<Rightarrow> UnlockedVault \<Rightarrow> persist_options \<Rightarrow> vault_db \<Rightarrow> vault_db \<Rightarrow> persisted_snapshot \<Rightarrow> bool" where
  "takes_the_place env k uv options before after p \<longleftrightarrow>
     (let old = view (key_import env) before; new = view (key_import env) after in
      (\<exists>s. sv_snapshots old k = Some s \<and>
         snapshot_digest env s = tsc_snapshotDigest (uv_trustedSnapshotContext uv)) \<and>
      (expected_credentials options = Absent \<or> expected_credentials options = Value (sv_credentials old k)) \<and>
      new = old\<lparr>sv_snapshots := (sv_snapshots old)(k \<mapsto> sorted_snapshot (ps_snapshot p)),
        sv_checkpoints := (sv_checkpoints old)(k \<mapsto> sorted_checkpoint (ps_checkpoint p)),
        sv_credentials := (case credentials_change options of Value s \<Rightarrow> (sv_credentials old)(k := s)
          | _ \<Rightarrow> sv_credentials old)\<rparr>)"

text \<open>The postcondition of an operation that may write once: by others, or by itself.\<close>

definition writes_once ::
    "device_env \<Rightarrow> 'r device_world \<Rightarrow> ('a \<Rightarrow> vault_db \<Rightarrow> vault_db \<Rightarrow> bool) \<Rightarrow> core_error + 'a \<Rightarrow> 'r device_world \<Rightarrow> bool"
  where
  "writes_once env w P r w' \<longleftrightarrow>
     db_ok (key_import env) (local_db w') \<and> remote_store w' = remote_store w \<and>
     (case r of
        Inr a \<Rightarrow> (\<exists>before. others_only env (local_db w) before \<and> db_ok (key_import env) before \<and>
                   P a before (local_db w'))
      | Inl e \<Rightarrow> settled env \<longrightarrow> others_only env (local_db w) (local_db w'))"

lemma writes_once_error:
  assumes "benign env" "db_ok (key_import env) (local_db w)" "only_read env w w'"
  shows "writes_once env w P (Inl e) w'"
  using assms only_read_ok [OF assms] by (simp add: writes_once_def only_read_def)

lemma given_simps [simp]:
  "given x = Value y \<longleftrightarrow> x = Some y" "given x \<noteq> Absent" "given x = Undefined \<longleftrightarrow> x = None"
  by (simp_all add: given_def split: option.splits)

lemma reads_prepared:
  assumes "benign env" "db_ok (key_import env) (local_db w)"
  shows "reads env (prepare_persisted_snapshot env mem k uv v options) w
    (\<lambda>(c, p). \<exists>current. consistent_result env mem k uv v options current p)"
  unfolding prepare_persisted_snapshot_def Let_def
  apply (intro reads_bind [OF reads_current_snapshot [OF assms]])
  apply (intro reads_bind [OF reads_current_checkpoint [OF assms(1) only_read_ok [OF assms]]] reads_bind [OF reads_build]
      reads_intros)
  apply (auto simp: consistent_result_def next_chain_def next_trust_def intro!: exI)
  done

text \<open>What is written can be stored.\<close>

lemma options_ok_same_vector:
  "vv_get current = vv_get v \<Longrightarrow> options_ok env d v options \<Longrightarrow> options_ok env d current options"
  by (auto simp: options_ok_def nullish_def split: option.splits)

lemma result_storable:
  assumes "writable env uv" "options_ok env (uv_deviceId uv) v options"
    and result: "consistent_result env mem k uv v options current p"
  shows "call_ok (key_import env) (Save_snapshot (replacement digest checkpoint (ps_snapshot p) (ps_checkpoint p)
           (expected_credentials options) (credentials_change options)))"
proof -
  let ?keys = "key_import env"
  have current: "snapshot_ok current" "validateVaultSnapshotPublicKeys current ?keys"
      "options_ok env (uv_deviceId uv) (m_snapshotVersionVector (snap_metadata current)) options"
    using result assms(2)
    by (auto simp: consistent_result_def current_snapshot_def compare_Equal_iff intro: options_ok_same_vector)
  have chain: "chain_storable ?keys (next_chain options current)"
    using current snapshot_ok_storable [of current ?keys] assms(2)
    by (auto simp: next_chain_def nullish_def options_ok_def split: option.splits)
  have trust: "trust_ok (next_trust options uv)"
    using assms(1,2) by (auto simp: next_trust_def nullish_def options_ok_def writable_def split: option.splits)
  have built: "snapshot_ok (ps_snapshot p)" "validateVaultSnapshotPublicKeys (ps_snapshot p) ?keys"
    using result current chain assms(1) built_storable unfolding consistent_result_def by blast+
  moreover have "checkpoint_ok (ps_checkpoint p)"
    using result trust built assms(1) unfolding consistent_result_def writable_def
    by (metis checkpoint_storable)
  moreover have "credentials_property_ok (credentials_change options)"
    using assms(2)
    by (auto simp: options_ok_def credentials_property_ok_def credentials_change_def given_def
        split: option.splits own_property.splits)
  ultimately show ?thesis
    by (simp add: replacement_def)
qed

lemma result_identity:
  assumes "consistent_result env mem k uv v options current p"
  shows "m_id (snap_metadata (ps_snapshot p)) = k"
  using assms
  by (auto simp: consistent_result_def current_snapshot_def built_from_def signed_snapshot_def next_metadata_def)

lemma replacement_simps [simp]:
  "sr_snapshot (replacement d c s c' e t) = s" "sr_checkpoint (replacement d c s c' e t) = c'"
  "sr_expectedSnapshotDigest (replacement d c s c' e t) = d" "sr_expectedSyncCredentialState (replacement d c s c' e t) = e"
  "sr_syncCredentialState (replacement d c s c' e t) = t"
  by (simp_all add: replacement_def)

text \<open>The last step, after what has been read.\<close>

abbreviation prepared_replacement ::
    "UnlockedVault \<Rightarrow> persist_options \<Rightarrow> LocalVaultTrustCheckpoint \<Rightarrow> persisted_snapshot \<Rightarrow> snapshot_replacement" where
  "prepared_replacement uv options expected p \<equiv>
     replacement (tsc_snapshotDigest (uv_trustedSnapshotContext uv)) expected (ps_snapshot p) (ps_checkpoint p)
       (expected_credentials options) (credentials_change options)"

definition persist_post ::
    "device_env \<Rightarrow> (buffer \<Rightarrow> bytes) \<Rightarrow> string \<Rightarrow> UnlockedVault \<Rightarrow> VersionVector \<Rightarrow> persist_options \<Rightarrow>
     persisted_snapshot \<Rightarrow> vault_db \<Rightarrow> vault_db \<Rightarrow> bool" where
  "persist_post env mem k uv v options p before after \<longleftrightarrow>
     (\<exists>current. consistent_result env mem k uv v options current p) \<and>
     takes_the_place env k uv options before after p"

lemma persist_write:
  fixes w w' :: "'r device_world"
  assumes benign: "benign env" and store: "db_ok (key_import env) (local_db w)"
    and ok: "writable env uv" "options_ok env (uv_deviceId uv) v options"
    and result: "\<exists>current. consistent_result env mem k uv v options current p"
    and read: "only_read env w w'"
  shows "wp (sthen (save_snapshot env (prepared_replacement uv options c p)) (sret p))
     (writes_once env w (persist_post env mem k uv v options)) w'"
  unfolding wp_sthen
proof -
  let ?p = "prepared_replacement uv options c p"
  have store': "db_ok (key_import env) (local_db w')"
    using benign store read by (rule only_read_ok)
  have call: "call_ok (key_import env) (Save_snapshot ?p)"
    using result ok result_storable by blast
  have id: "m_id (snap_metadata (ps_snapshot p)) = k"
    using result result_identity by blast
  show "wp (save_snapshot env ?p) (\<lambda>r t. case r of
          Inl e \<Rightarrow> writes_once env w (persist_post env mem k uv v options) (Inl e) t
        | Inr a \<Rightarrow> wp (sret p) (writes_once env w (persist_post env mem k uv v options)) t) w'"
  proof (rule wp_save [OF benign store' call])
    fix before and w'' :: "'r device_world"
    assume others: "others_only env (local_db w') before" and before: "db_ok (key_import env) before"
      and current: "snapshot_is_current (snapshot_digest env) ?p (m_id (snap_metadata (sr_snapshot ?p)))
        (view (key_import env) before)"
      and view: "view (key_import env) (local_db w'') = replaced ?p (view (key_import env) before)"
      and w'': "db_ok (key_import env) (local_db w'')" "remote_store w'' = remote_store w'"
    have "takes_the_place env k uv options before (local_db w'') p"
      using current view
      by (auto simp: takes_the_place_def snapshot_is_current_def replaced_def Let_def id split: option.splits)
    moreover have "others_only env (local_db w) before"
      using read others by (auto simp: only_read_def intro: others_only_trans)
    ultimately show "case Inr () of
          Inl e \<Rightarrow> writes_once env w (persist_post env mem k uv v options) (Inl e) w''
        | Inr a \<Rightarrow> wp (sret p) (writes_once env w (persist_post env mem k uv v options)) w''"
      using read w'' before result by (auto simp: wp_simps writes_once_def only_read_def persist_post_def)
  qed (use read in \<open>auto simp: writes_once_def only_read_def intro: others_only_trans\<close>)
qed

lemma persist_unlocked_spec:
  assumes "benign env" "db_ok (key_import env) (local_db w)"
    and "writable env uv" "options_ok env (uv_deviceId uv) v options"
  shows "wp (persistUnlockedVault env mem k uv v options)
     (writes_once env w (persist_post env mem k uv v options)) w"
  unfolding persistUnlockedVault_def
proof (rule wp_after_reads [OF reads_prepared [OF assms(1,2)]])
  fix a :: "LocalVaultTrustCheckpoint \<times> persisted_snapshot" and w' :: "'a device_world"
  assume "case a of (c, p) \<Rightarrow> \<exists>current. consistent_result env mem k uv v options current p" "only_read env w w'"
  then show "wp (case a of (expected, p) \<Rightarrow>
       sthen (save_snapshot env (prepared_replacement uv options expected p)) (sret p))
     (writes_once env w (persist_post env mem k uv v options)) w'"
    by (cases a) (simp add: persist_write [OF assms])
qed (rule writes_once_error [OF assms(1,2)])

section \<open>A session that is not disturbed\<close>

text \<open>The stored records are those of the session, and its device can sign.\<close>

definition session_current ::
    "device_env \<Rightarrow> (buffer \<Rightarrow> bytes) \<Rightarrow> string \<Rightarrow> UnlockedVault \<Rightarrow> VersionVector \<Rightarrow> vault_db \<Rightarrow> bool" where
  "session_current env mem k uv v db \<longleftrightarrow>
     (let trust = tsc_trust (uv_trustedSnapshotContext uv) in
      \<exists>s c device. sv_snapshots (view (key_import env) db) k = Some s \<and>
        sv_checkpoints (view (key_import env) db) k = Some c \<and>
        current_snapshot env k uv v s \<and>
        requireTrustDescendsFrom (trust_port env) k (snap_trustChain s) trust
          (ts_generation trust) (ts_certificateDigest trust) = Inr () \<and>
        find_device (ts_trustedDevices trust) (uv_deviceId uv) = Some device \<and>
        verifyDeviceSignKeyPair (crypto_port env) (dti_publicSignKey device) (mem (uv_devicePrivateSignKey uv)) \<and>
        verifyCheckpoint (trust_port env) k c device = Inr () \<and>
        (\<exists>f. requireSnapshotNotRolledBack (trust_port env) k s trust c = Inr f))"

lemma undisturbed_env [simp]:
  "undisturbed env \<Longrightarrow> call_fate env n = Succeeds" "undisturbed env \<Longrightarrow> meanwhile env n db = db"
  by (simp_all add: undisturbed_def)

lemma undisturbed_calls:
  assumes "undisturbed env"
  shows "wp (crypto_call env f) Q w = Q (f (call_count w)) (w\<lparr>call_count := Suc (call_count w)\<rparr>)"
    and "wp (repository env operation) Q w =
      (case operation (local_db w) of (r, db) \<Rightarrow> Q r (w\<lparr>call_count := Suc (call_count w), local_db := db\<rparr>))"
  unfolding wp_crypto_call wp_repository using assms by (simp_all add: Let_def wp_def)

lemma device_world_same [simp]: "w\<lparr>call_count := n, local_db := local_db w\<rparr> = w\<lparr>call_count := n\<rparr>"
  by (cases w) simp

lemma current_snapshot_supported:
  assumes "current_snapshot env k uv v s"
  shows "requireSupportedSnapshotAlgorithm env k s = Inr ()"
  using assms unfolding current_snapshot_def supported_iff verifySnapshot_Inr by (simp add: crypto.defs)

lemma undisturbed_snapshot:
  assumes "undisturbed env" "db_ok (key_import env) (local_db w)"
    and "sv_snapshots (view (key_import env) (local_db w)) k = Some s" and current: "current_snapshot env k uv v s"
    and "\<And>n. Q (Inr s) (w\<lparr>call_count := n\<rparr>)"
  shows "wp (requireCurrentSnapshotForUnlockedVault env k uv v) Q w"
  using current
  by (simp add: wp_simps undisturbed_calls [OF assms(1)] reads_give_view [OF assms(2)] assms(3,5)
      current_snapshot_supported [OF current]
      requireCurrentSnapshotForUnlockedVault_def requireLocalVaultSnapshot_def current_snapshot_def)

lemma undisturbed_checkpoint:
  assumes "undisturbed env" "db_ok (key_import env) (local_db w)"
    and "sv_checkpoints (view (key_import env) (local_db w)) k = Some c"
    and "find_device (ts_trustedDevices (tsc_trust (uv_trustedSnapshotContext uv))) (uv_deviceId uv) = Some device"
    and "verifyCheckpoint (trust_port env) k c device = Inr ()"
    and "requireSnapshotNotRolledBack (trust_port env) k s (tsc_trust (uv_trustedSnapshotContext uv)) c = Inr f"
    and "\<And>n. Q (Inr c) (w\<lparr>call_count := n\<rparr>)"
  shows "wp (requireCurrentCheckpointForUnlockedVault env k s uv) Q w"
  by (simp add: wp_simps undisturbed_calls [OF assms(1)] reads_give_view(2) [OF assms(2)] assms(3-7) Let_def
      requireCurrentCheckpointForUnlockedVault_def requireLocalVaultTrustCheckpoint_def)

lemma undisturbed_build:
  assumes "undisturbed env" "find_device (ts_trustedDevices trust) (uv_deviceId uv) = Some device"
    and "verifyDeviceSignKeyPair (crypto_port env) (dti_publicSignKey device) (mem (uv_devicePrivateSignKey uv))"
    and "\<And>s n. built_from env mem uv options chain trust current s \<Longrightarrow> Q (Inr s) (w\<lparr>call_count := n\<rparr>)"
  shows "wp (build_snapshot env mem k uv options chain trust current) Q w"
  unfolding build_snapshot_def Let_def
  using assms(2,3)
  by (auto simp: wp_simps undisturbed_calls [OF assms(1)] built_from_def intro!: assms(4)) blast

text \<open>Changes of the vault that leave keys, devices and credentials alone.\<close>

definition plain :: "persist_options \<Rightarrow> bool" where
  "plain options \<longleftrightarrow> po_keySlots options = None \<and> po_vaultKeyGeneration options = None \<and>
     po_nextTrust options = None \<and> po_syncCredentialState options = None"

lemma plain_next [simp]:
  "plain options \<Longrightarrow> next_chain options current = snap_trustChain current"
  "plain options \<Longrightarrow> next_trust options uv = tsc_trust (uv_trustedSnapshotContext uv)"
  "plain options \<Longrightarrow> expected_credentials options = Absent"
  "plain options \<Longrightarrow> credentials_change options = Absent"
  by (simp_all add: plain_def next_chain_def next_trust_def nullish_def expected_credentials_def credentials_change_def)

lemma next_metadata_plain [simp]:
  "m_id (next_metadata m t d options) = m_id m"
  "m_schemaVersion (next_metadata m t d options) = m_schemaVersion m"
  "m_algorithmSuiteId (next_metadata m t d options) = m_algorithmSuiteId m"
  "m_createdByDeviceId (next_metadata m t d options) = d"
  "plain options \<Longrightarrow> m_vaultKeyGeneration (next_metadata m t d options) = m_vaultKeyGeneration m"
  by (simp_all add: next_metadata_def plain_def nullish_def)

text \<open>Signatures made with the key of a pair verify.\<close>

lemma faithful_signatures:
  assumes "writable env uv" "verifyDeviceSignKeyPair (crypto_port env) public private"
  shows "verifyVaultSnapshotSignature (crypto_port env)
      (signed_snapshot u (signVaultSnapshot (crypto_port env) u private)) public"
    and "checkpoint_signatures_verify (trust_port env) public private"
  using assms by (auto simp: writable_def faithful_port_def checkpoint_signatures_verify_def crypto.defs)

lemma built_verifies:
  assumes "writable env uv" "plain options" "verifySnapshot (trust_port env) k current trust = Inr ()"
    and "find_device (ts_trustedDevices trust) (uv_deviceId uv) = Some device"
    and "verifyDeviceSignKeyPair (crypto_port env) (dti_publicSignKey device) (mem (uv_devicePrivateSignKey uv))"
    and "built_from env mem uv options chain trust current s"
  shows "verifySnapshot (trust_port env) k s trust = Inr ()"
proof -
  have sig: "verifyVaultSnapshotSignature (crypto_port env) s (dti_publicSignKey device)"
    using assms(4,6) faithful_signatures(1) [OF assms(1,5)] by (auto simp: built_from_def)
  have "snap_deviceSlots s = snap_deviceSlots current"
      "m_vaultKeyGeneration (snap_metadata s) = m_vaultKeyGeneration (snap_metadata current)"
    using assms(2,6) by (auto simp: built_from_def signed_snapshot_def plain_def nullish_def next_metadata_def)
  then have "slots_match_trust s trust"
    using assms(3) by (auto simp: verifySnapshot_Inr slots_match_trust_def slot_ok_def)
  with assms sig show ?thesis
    unfolding verifySnapshot_Inr by (auto simp: built_from_def signed_snapshot_def crypto.defs)
qed

text \<open>
  Preparing succeeds if the device can sign under the next trust state and what it builds verifies there.
\<close>

lemma undisturbed_prepare:
  fixes w :: "'r device_world"
  assumes env: "undisturbed env" and store: "db_ok (key_import env) (local_db w)"
    and session: "session_current env mem k uv v (local_db w)"
    and device: "find_device (ts_trustedDevices (next_trust options uv)) (uv_deviceId uv) = Some device"
      "verifyDeviceSignKeyPair (crypto_port env) (dti_publicSignKey device) (mem (uv_devicePrivateSignKey uv))"
    and verifies: "\<And>s t. sv_snapshots (view (key_import env) (local_db w)) k = Some s \<Longrightarrow> current_snapshot env k uv v s \<Longrightarrow>
      built_from env mem uv options (next_chain options s) (next_trust options uv) s t \<Longrightarrow>
      verifySnapshot (trust_port env) k t (next_trust options uv) = Inr ()"
    and Q: "\<And>c s p n. sv_snapshots (view (key_import env) (local_db w)) k = Some s \<Longrightarrow>
      sv_checkpoints (view (key_import env) (local_db w)) k = Some c \<Longrightarrow>
      consistent_result env mem k uv v options s p \<Longrightarrow> Q (Inr (c, p)) (w\<lparr>call_count := n\<rparr>)"
  shows "wp (prepare_persisted_snapshot env mem k uv v options) Q w"
proof -
  let ?trust = "tsc_trust (uv_trustedSnapshotContext uv)"
  obtain s c own f where s: "sv_snapshots (view (key_import env) (local_db w)) k = Some s"
      and c: "sv_checkpoints (view (key_import env) (local_db w)) k = Some c"
      and current: "current_snapshot env k uv v s"
      and own: "find_device (ts_trustedDevices ?trust) (uv_deviceId uv) = Some own"
      and checkpoint: "verifyCheckpoint (trust_port env) k c own = Inr ()"
        "requireSnapshotNotRolledBack (trust_port env) k s ?trust c = Inr f"
    using session unfolding session_current_def Let_def by blast
  have rest: "wp (sthen (trust_check (verifySnapshot (trust_port env) k t (next_trust options uv)))
      (sbind (crypto_call env (\<lambda>_. Inr (snapshot_digest env t))) (\<lambda>digest.
       sbind (crypto_call env (\<lambda>_. Inr (createCheckpoint (trust_port env) t (next_trust options uv)
               (uv_deviceId uv) (mem (uv_devicePrivateSignKey uv))))) (\<lambda>checkpoint.
       sret (c, \<lparr>ps_snapshotVersionVector = m_snapshotVersionVector (snap_metadata t),
             ps_revisionTimestamp = m_revisionTimestamp (snap_metadata t),
             ps_trustedSnapshotContext = \<lparr>tsc_snapshotDigest = digest, tsc_trust = next_trust options uv\<rparr>,
             ps_checkpoint = checkpoint, ps_snapshot = t\<rparr>)))))
     Q (w\<lparr>call_count := n\<rparr>)"
    if built: "built_from env mem uv options (next_chain options s) (next_trust options uv) s t" for t n
    using verifies [OF s current built] built current
    by (simp add: wp_simps undisturbed_calls [OF env]) (rule Q [OF s c], simp add: consistent_result_def)
  show ?thesis
    unfolding prepare_persisted_snapshot_def Let_def wp_sbind
    unfolding next_chain_def [symmetric] next_trust_def [symmetric] case_prod_conv
    apply (rule undisturbed_snapshot [OF env store s current])
    apply (simp add: wp_sbind)
    apply (rule undisturbed_checkpoint [OF env _ _ own checkpoint])
      apply (simp add: store)
     apply (simp add: c)
    apply (simp add: wp_sbind)
    apply (rule undisturbed_build [where mem = mem, OF env device])
    using rest
    apply (simp add: wp_sbind)
    done
qed

text \<open>A plain change verifies under the trust state of the session.\<close>

lemma plain_verifies:
  assumes "writable env uv" "plain options" "session_current env mem k uv v db"
    and "current_snapshot env k uv v s"
    and "built_from env mem uv options (next_chain options s) (next_trust options uv) s t"
  shows "verifySnapshot (trust_port env) k t (next_trust options uv) = Inr ()"
proof -
  obtain device where device: "find_device (ts_trustedDevices (tsc_trust (uv_trustedSnapshotContext uv))) (uv_deviceId uv) = Some device"
      "verifyDeviceSignKeyPair (crypto_port env) (dti_publicSignKey device) (mem (uv_devicePrivateSignKey uv))"
    using assms(3) unfolding session_current_def Let_def by blast
  have "verifySnapshot (trust_port env) k s (tsc_trust (uv_trustedSnapshotContext uv)) = Inr ()"
    using assms(4) by (simp add: current_snapshot_def)
  from built_verifies [where mem = mem, OF assms(1,2) this device] assms(2,5) show ?thesis by simp
qed

lemma undisturbed_write:
  assumes env: "undisturbed env" and store: "db_ok (key_import env) (local_db w)"
    and call: "call_ok (key_import env) (Save_snapshot p)"
    and "promise_snapshot (snapshot_digest env) p (view (key_import env) (local_db w)) = (Inr (), new)"
    and "\<And>n db. view (key_import env) db = new \<Longrightarrow> Q (Inr ()) (w\<lparr>call_count := n, local_db := db\<rparr>)"
  shows "wp (save_snapshot env p) Q w"
  using snapshot_refines [OF store call, of "snapshot_digest env"] assms(4,5)
  unfolding save_snapshot_def undisturbed_calls(2) [OF env] by (auto simp: wp_run split_beta)

text \<open>Persisting succeeds, and the session is current again.\<close>

lemma consistent_plain:
  assumes "plain options" "consistent_result env mem k uv v options s p"
  shows "snap_trustChain (ps_snapshot p) = snap_trustChain s" "snap_deviceSlots (ps_snapshot p) = snap_deviceSlots s"
    "ps_snapshotVersionVector p = m_snapshotVersionVector (snap_metadata (ps_snapshot p))"
    "tsc_trust (ps_trustedSnapshotContext p) = tsc_trust (uv_trustedSnapshotContext uv)"
    "tsc_snapshotDigest (ps_trustedSnapshotContext p) = snapshot_digest env (ps_snapshot p)"
    "verifySnapshot (trust_port env) k (ps_snapshot p) (tsc_trust (uv_trustedSnapshotContext uv)) = Inr ()"
  using assms
  by (auto simp: consistent_result_def built_from_def signed_snapshot_def plain_def nullish_def)

abbreviation continued :: "UnlockedVault \<Rightarrow> persisted_snapshot \<Rightarrow> UnlockedVault" where
  "continued uv p \<equiv> uv\<lparr>uv_trustedSnapshotContext := ps_trustedSnapshotContext p\<rparr>"

lemma sorted_fields [simp]:
  "m_id (snap_metadata (sorted_snapshot s)) = m_id (snap_metadata s)"
  "snap_deviceSlots (sorted_snapshot s) = snap_deviceSlots s"
  "snap_trustChain (sorted_snapshot s) = snap_trustChain s"
  "snap_content (sorted_snapshot s) = snap_content s"
  by (simp_all add: sorted_snapshot_def sorted_metadata_def)

text \<open>Sorting is stable, so the first entry of a key stays the first.\<close>

lemma map_of_own_entries: "map_of (filter (\<lambda>y. fst y = k) v) k = map_of v k"
  by (induction v) auto

lemma vv_get_sorted [simp]: "vv_get (sort_key fst v) = vv_get v"
proof -
  have "map_of (sort_key fst v) k = map_of v k" for k :: string and v :: VersionVector
    using map_of_own_entries [of k "sort_key fst v"] map_of_own_entries [of k v] by (simp add: sort_key_stable)
  then show ?thesis by (simp add: vv_get_def fun_eq_iff)
qed

lemma sorted_more_fields [simp]:
  "m_schemaVersion (snap_metadata (sorted_snapshot s)) = m_schemaVersion (snap_metadata s)"
  "m_algorithmSuiteId (snap_metadata (sorted_snapshot s)) = m_algorithmSuiteId (snap_metadata s)"
  "m_vaultKeyGeneration (snap_metadata (sorted_snapshot s)) = m_vaultKeyGeneration (snap_metadata s)"
  "m_createdByDeviceId (snap_metadata (sorted_snapshot s)) = m_createdByDeviceId (snap_metadata s)"
  "vv_get (m_snapshotVersionVector (snap_metadata (sorted_snapshot s))) = vv_get (m_snapshotVersionVector (snap_metadata s))"
  "vv_get (cp_snapshotVersionVector (chk_payload (sorted_checkpoint c))) = vv_get (cp_snapshotVersionVector (chk_payload c))"
  "cp_version (chk_payload (sorted_checkpoint c)) = cp_version (chk_payload c)"
  "cp_vaultId (chk_payload (sorted_checkpoint c)) = cp_vaultId (chk_payload c)"
  "cp_deviceId (chk_payload (sorted_checkpoint c)) = cp_deviceId (chk_payload c)"
  "cp_vaultKeyGeneration (chk_payload (sorted_checkpoint c)) = cp_vaultKeyGeneration (chk_payload c)"
  "cp_trustGeneration (chk_payload (sorted_checkpoint c)) = cp_trustGeneration (chk_payload c)"
  "cp_trustCertificateDigest (chk_payload (sorted_checkpoint c)) = cp_trustCertificateDigest (chk_payload c)"
  "cp_snapshotDigest (chk_payload (sorted_checkpoint c)) = cp_snapshotDigest (chk_payload c)"
  by (simp_all add: sorted_snapshot_def sorted_metadata_def sorted_checkpoint_def)

text \<open>What the trust checks see of a snapshot does not depend on the order of its vectors.\<close>

lemma faithful_sorted:
  assumes "writable env uv"
  shows "snapshot_digest env (sorted_snapshot s) = snapshot_digest env s"
    and "verifySnapshot (trust_port env) k (sorted_snapshot s) trust = verifySnapshot (trust_port env) k s trust"
    and "verifyCheckpoint (trust_port env) k (sorted_checkpoint c) device = verifyCheckpoint (trust_port env) k c device"
    and "requireSnapshotNotRolledBack (trust_port env) k (sorted_snapshot s) trust (sorted_checkpoint c) =
       requireSnapshotNotRolledBack (trust_port env) k s trust c"
proof -
  have port: "snapshot_digest env (sorted_snapshot s) = snapshot_digest env s"
      "verifyVaultSnapshotSignature (crypto_port env) (sorted_snapshot s) key = verifyVaultSnapshotSignature (crypto_port env) s key"
      "verifyLocalVaultTrustCheckpointSignature (crypto_port env) (sorted_checkpoint c) key =
         verifyLocalVaultTrustCheckpointSignature (crypto_port env) c key" for key
    using assms unfolding writable_def faithful_port_def by blast+
  show "snapshot_digest env (sorted_snapshot s) = snapshot_digest env s" by (rule port(1))
  show "verifySnapshot (trust_port env) k (sorted_snapshot s) trust = verifySnapshot (trust_port env) k s trust"
    by (simp add: verifySnapshot_def requireValidDeviceSlots_def port crypto.defs Let_def cong: option.case_cong)
  show "verifyCheckpoint (trust_port env) k (sorted_checkpoint c) device = verifyCheckpoint (trust_port env) k c device"
    by (simp add: verifyCheckpoint_def port crypto.defs Let_def)
  show "requireSnapshotNotRolledBack (trust_port env) k (sorted_snapshot s) trust (sorted_checkpoint c) =
       requireSnapshotNotRolledBack (trust_port env) k s trust c"
    by (simp add: requireSnapshotNotRolledBack_def port crypto.defs compareVersionVectors_alt Let_def)
qed

lemma session_continues:
  assumes ok: "writable env uv" "plain options" and session: "session_current env mem k uv v before"
    and before: "sv_snapshots (view (key_import env) before) k = Some s"
    and result: "consistent_result env mem k uv v options s p"
    and place: "takes_the_place env k uv options before after p"
  shows "session_current env mem k (continued uv p) (ps_snapshotVersionVector p) after"
proof -
  let ?trust = "tsc_trust (uv_trustedSnapshotContext uv)" and ?new = "sorted_snapshot (ps_snapshot p)"
  note plain = consistent_plain [OF ok(2) result] and sorted = faithful_sorted [OF ok(1)]
  have new: "sv_snapshots (view (key_import env) after) k = Some ?new"
      "sv_checkpoints (view (key_import env) after) k = Some (sorted_checkpoint (ps_checkpoint p))"
    using place by (simp_all add: takes_the_place_def Let_def)
  obtain device where device: "find_device (ts_trustedDevices ?trust) (uv_deviceId uv) = Some device"
      and pair: "verifyDeviceSignKeyPair (crypto_port env) (dti_publicSignKey device) (mem (uv_devicePrivateSignKey uv))"
    using session unfolding session_current_def Let_def by blast
  have descends: "requireTrustDescendsFrom (trust_port env) k (snap_trustChain s) ?trust
      (ts_generation ?trust) (ts_certificateDigest ?trust) = Inr ()"
    using session before unfolding session_current_def Let_def by auto
  have id: "dti_deviceId device = uv_deviceId uv"
    using device by (auto simp: find_device_def find_Some_iff)
  have checkpoint: "ps_checkpoint p =
      createCheckpoint (trust_port env) (ps_snapshot p) ?trust (uv_deviceId uv) (mem (uv_devicePrivateSignKey uv))"
    using result ok(2) by (simp add: consistent_result_def)
  have "verifyCheckpoint (trust_port env) k (sorted_checkpoint (ps_checkpoint p)) device = Inr ()"
    using createCheckpoint_verifies [OF faithful_signatures(2) [OF ok(1) pair] plain(6)]
    by (simp add: sorted checkpoint id)
  moreover have "requireSnapshotNotRolledBack (trust_port env) k ?new ?trust (sorted_checkpoint (ps_checkpoint p)) =
      Inr Same_snapshot"
    using descends plain(1)
    unfolding sorted requireSnapshotNotRolledBack_Inr checkpoint by (simp add: createCheckpoint_def Let_def)
  moreover have "current_snapshot env k (continued uv p) (ps_snapshotVersionVector p) ?new"
    using result snapshot_view_sound [OF new(1)] plain
    by (auto simp: current_snapshot_def consistent_result_def sorted compare_Equal_iff)
  ultimately show ?thesis
    using new descends plain device pair unfolding session_current_def Let_def by auto
qed

text \<open>Persisting a plain change of an undisturbed session succeeds.\<close>

lemma undisturbed_replace:
  fixes w :: "'r device_world"
  assumes env: "undisturbed env" and store: "db_ok (key_import env) (local_db w)"
    and ok: "writable env uv" "po_syncCredentialState options = None" "options_ok env (uv_deviceId uv) v options"
    and s: "sv_snapshots (view (key_import env) (local_db w)) k = Some s" "current_snapshot env k uv v s"
    and c: "sv_checkpoints (view (key_import env) (local_db w)) k = Some c"
    and result: "consistent_result env mem k uv v options s p"
  shows "wp (save_snapshot env (prepared_replacement uv options c p))
     (\<lambda>r w'. r = Inr () \<and> takes_the_place env k uv options (local_db w) (local_db w') p) w"
proof (rule undisturbed_write [OF env store result_storable [OF ok(1,3) result]])
  let ?p = "prepared_replacement uv options c p"
  have id: "m_id (snap_metadata (ps_snapshot p)) = k" "cp_vaultId (chk_payload (ps_checkpoint p)) = k"
    using result_identity [OF result] result
    by (simp_all add: consistent_result_def createCheckpoint_def Let_def)
  show "promise_snapshot (snapshot_digest env) ?p (view (key_import env) (local_db w)) =
      (Inr (), replaced ?p (view (key_import env) (local_db w)))"
    using s c ok(2) id
    by (simp add: expected_credentials_def credentials_change_def promise_snapshot_def promise_def change_def credentials_arguments_ok_def snapshot_is_current_def
        current_snapshot_def Let_def) (simp add: replacement_def)
  fix n db
  assume "view (key_import env) db = replaced ?p (view (key_import env) (local_db w))"
  then show "Inr () = Inr () \<and> takes_the_place env k uv options (local_db w)
      (local_db (w\<lparr>call_count := n, local_db := db\<rparr>)) p"
    using s ok(2) id by (simp add: credentials_change_def expected_credentials_def takes_the_place_def replaced_def current_snapshot_def Let_def)
qed

lemma undisturbed_persist:
  fixes w :: "'r device_world"
  assumes env: "undisturbed env" and store: "db_ok (key_import env) (local_db w)"
    and ok: "writable env uv" "plain options" "options_ok env (uv_deviceId uv) v options"
    and session: "session_current env mem k uv v (local_db w)"
  shows "wp (persistUnlockedVault env mem k uv v options) (\<lambda>r w'. \<exists>p. r = Inr p \<and>
      (\<exists>s. consistent_result env mem k uv v options s p) \<and>
      db_ok (key_import env) (local_db w') \<and> remote_store w' = remote_store w \<and>
      sv_snapshots (view (key_import env) (local_db w')) k = Some (sorted_snapshot (ps_snapshot p)) \<and>
      session_current env mem k (continued uv p) (ps_snapshotVersionVector p) (local_db w')) w"
proof -
  have spec: "wp (persistUnlockedVault env mem k uv v options)
      (writes_once env w (persist_post env mem k uv v options)) w"
    using undisturbed_facts(2) [OF env] store ok(1,3) by (rule persist_unlocked_spec)
  have none: "po_syncCredentialState options = None" using ok(2) by (simp add: plain_def)
  obtain s0 device where s0: "sv_snapshots (view (key_import env) (local_db w)) k = Some s0" "current_snapshot env k uv v s0"
      and device: "find_device (ts_trustedDevices (tsc_trust (uv_trustedSnapshotContext uv))) (uv_deviceId uv) = Some device"
        "verifyDeviceSignKeyPair (crypto_port env) (dti_publicSignKey device) (mem (uv_devicePrivateSignKey uv))"
    using session unfolding session_current_def Let_def by blast
  have "wp (persistUnlockedVault env mem k uv v options) (\<lambda>r w'. \<exists>p. r = Inr p \<and>
      consistent_result env mem k uv v options s0 p \<and> takes_the_place env k uv options (local_db w) (local_db w') p) w"
    unfolding persistUnlockedVault_def wp_sbind
  proof (rule undisturbed_prepare [OF env store session])
    fix c s p n
    assume s: "sv_snapshots (view (key_import env) (local_db w)) k = Some s"
      and c: "sv_checkpoints (view (key_import env) (local_db w)) k = Some c"
      and result: "consistent_result env mem k uv v options s p"
    then have [simp]: "s = s0" using s0 by simp
    show "case Inr (c, p) of
        Inl e \<Rightarrow> \<exists>p. Inl e = Inr p \<and> consistent_result env mem k uv v options s0 p \<and>
          takes_the_place env k uv options (local_db w) (local_db (w\<lparr>call_count := n\<rparr>)) p
      | Inr a \<Rightarrow> wp (case a of (expected, p) \<Rightarrow>
          sthen (save_snapshot env (prepared_replacement uv options expected p)) (sret p))
          (\<lambda>r w'. \<exists>p. r = Inr p \<and> consistent_result env mem k uv v options s0 p \<and>
             takes_the_place env k uv options (local_db w) (local_db w') p) (w\<lparr>call_count := n\<rparr>)"
      using undisturbed_replace [OF env _ ok(1) none ok(3), of "w\<lparr>call_count := n\<rparr>" k s0 c mem p] store s0 c result
      by (auto simp: wp_simps elim: wp_weaken)
  qed (use ok(2) device plain_verifies [OF ok(1,2) session] in auto)
  with spec show ?thesis
    by (rule wp_weaken [OF wp_conj])
      (use s0 session_continues [OF ok(1,2) session s0(1)] in
        \<open>auto simp: writes_once_def takes_the_place_def Let_def\<close>)
qed

section \<open>One change after the other\<close>

text \<open>
  A session saves one vault after the other and goes on with what it is given, as
  \<open>VaultMutationService\<close> does for a vault that is not synchronised; then the vault is opened again.
\<close>

primrec save_each ::
    "device_env \<Rightarrow> (buffer \<Rightarrow> bytes) \<Rightarrow> string \<Rightarrow> Vault list \<Rightarrow> UnlockedVault \<Rightarrow> VersionVector \<Rightarrow>
     ('r, UnlockedVault \<times> VersionVector) service" where
  "save_each env mem k [] uv v = sret (uv, v)"
| "save_each env mem k (x # xs) uv v =
     sbind (persistUnlockedVault env mem k (uv\<lparr>uv_vault := x\<rparr>) v no_options) (\<lambda>p.
     save_each env mem k xs (continued (uv\<lparr>uv_vault := x\<rparr>) p) (ps_snapshotVersionVector p))"

definition reopen :: "device_env \<Rightarrow> (buffer \<Rightarrow> bytes) \<Rightarrow> string \<Rightarrow> buffer \<Rightarrow> ('r, Vault) service" where
  "reopen env mem k vaultMasterKey =
     sbind (requireLocalVaultSnapshot env k) (\<lambda>s. openTrustedVaultSnapshot env mem k s vaultMasterKey)"

lemma plain_no_options [simp]: "plain no_options"
  by (simp add: plain_def no_options_def)

lemma options_ok_none [simp]: "options_ok env d v no_options \<longleftrightarrow> vv_get v d < MAX_SAFE_INTEGER"
  by (simp add: options_ok_def no_options_def nullish_def)

lemma other_vault [simp]:
  "session_current env mem k (uv\<lparr>uv_vault := x\<rparr>) v db = session_current env mem k uv v db"
  "writable env (uv\<lparr>uv_vault := x\<rparr>) = writable env uv"
  by (simp_all add: session_current_def current_snapshot_def writable_def)

lemma result_is_ahead:
  assumes "consistent_result env mem k uv v options s p" "options_ok env (uv_deviceId uv) v options"
  shows "compareVersionVectors (ps_snapshotVersionVector p) (nullish (po_baseSnapshotVersionVector options) v) = Local_ahead"
proof -
  have same: "vv_get (m_snapshotVersionVector (snap_metadata s)) = vv_get v"
    using assms(1) by (simp add: consistent_result_def current_snapshot_def compare_Equal_iff)
  have base: "vv_get (nullish (po_baseSnapshotVersionVector options) (m_snapshotVersionVector (snap_metadata s))) =
      vv_get (nullish (po_baseSnapshotVersionVector options) v)"
    using same by (simp add: nullish_def split: option.splits)
  have "ps_snapshotVersionVector p =
      incrementVersionVector (nullish (po_baseSnapshotVersionVector options) (m_snapshotVersionVector (snap_metadata s)))
        (uv_deviceId uv)"
    using assms(1) by (auto simp: consistent_result_def built_from_def signed_snapshot_def next_metadata_def)
  moreover have "vv_get (nullish (po_baseSnapshotVersionVector options) (m_snapshotVersionVector (snap_metadata s)))
      (uv_deviceId uv) < js_limit"
    using assms(2) unfolding base by (simp add: options_ok_def js_limit_def MAX_SAFE_INTEGER_def)
  ultimately show ?thesis
    unfolding compare_Local_ahead_iff base [symmetric] by (simp only: increment_strict)
qed

text \<open>What is stored after a change: the next count of the device, and the encrypted vault.\<close>

definition stored_vault :: "device_env \<Rightarrow> (buffer \<Rightarrow> bytes) \<Rightarrow> string \<Rightarrow> buffer \<Rightarrow> Vault \<Rightarrow> vault_db \<Rightarrow> bool" where
  "stored_vault env mem k key x db \<longleftrightarrow>
     (\<exists>s n. sv_snapshots (view (key_import env) db) k = Some s \<and> requireSnapshotOfVault env k s = Inr () \<and>
        snap_content s = encryptVaultSnapshotContent (crypto_port env) n x (mem key))"

lemma result_counts:
  assumes "consistent_result env mem k uv v no_options s p" "vv_get v (uv_deviceId uv) < MAX_SAFE_INTEGER"
  shows "vv_get (ps_snapshotVersionVector p) (uv_deviceId uv) = Suc (vv_get v (uv_deviceId uv))"
proof -
  have "vv_get (m_snapshotVersionVector (snap_metadata s)) = vv_get v"
    using assms(1) by (simp add: consistent_result_def current_snapshot_def compare_Equal_iff)
  then show ?thesis
    using assms
    by (auto simp: consistent_result_def built_from_def signed_snapshot_def next_metadata_def no_options_def
        nullish_def js_succ_def js_limit_def MAX_SAFE_INTEGER_def)
qed

lemma result_is_stored:
  assumes "consistent_result env mem k uv v no_options s p"
    and "sv_snapshots (view (key_import env) db) k = Some (sorted_snapshot (ps_snapshot p))"
    and "session_current env mem k (continued uv p) v' db"
  shows "stored_vault env mem k (uv_vaultMasterKey uv) (uv_vault uv) db"
proof -
  have current: "current_snapshot env k (continued uv p) v' (sorted_snapshot (ps_snapshot p))"
    using assms(2,3) unfolding session_current_def Let_def by auto
  then have "m_id (snap_metadata (ps_snapshot p)) = k"
    by (simp add: current_snapshot_def)
  then have "requireSnapshotOfVault env k (sorted_snapshot (ps_snapshot p)) = Inr ()"
    by (simp add: requireSnapshotOfVault_def current_snapshot_supported [OF current])
  moreover have "\<exists>n. snap_content (ps_snapshot p) =
      encryptVaultSnapshotContent (crypto_port env) n (uv_vault uv) (mem (uv_vaultMasterKey uv))"
    using assms(1) by (auto simp: consistent_result_def built_from_def signed_snapshot_def)
  ultimately show ?thesis
    using assms(2) by (auto simp: stored_vault_def)
qed

lemma save_each_succeeds:
  fixes w :: "'r device_world"
  assumes env: "undisturbed env"
  shows "db_ok (key_import env) (local_db w) \<Longrightarrow> writable env uv \<Longrightarrow> session_current env mem k uv v (local_db w) \<Longrightarrow>
    vv_get v (uv_deviceId uv) + length xs \<le> MAX_SAFE_INTEGER \<Longrightarrow>
    wp (save_each env mem k xs uv v) (\<lambda>r w'. (\<exists>uv' v'. r = Inr (uv', v') \<and> uv_vaultMasterKey uv' = uv_vaultMasterKey uv) \<and>
      db_ok (key_import env) (local_db w') \<and> remote_store w' = remote_store w \<and>
      (if xs = [] then local_db w' = local_db w
       else stored_vault env mem k (uv_vaultMasterKey uv) (last xs) (local_db w'))) w"
proof (induction xs arbitrary: uv v w)
  case (Cons x xs)
  let ?uv = "uv\<lparr>uv_vault := x\<rparr>"
  have bound: "vv_get v (uv_deviceId uv) < MAX_SAFE_INTEGER" using Cons.prems(4) by simp
  have step: "wp (persistUnlockedVault env mem k ?uv v no_options) (\<lambda>r w'. \<exists>p. r = Inr p \<and>
      (\<exists>s. consistent_result env mem k ?uv v no_options s p) \<and>
      db_ok (key_import env) (local_db w') \<and> remote_store w' = remote_store w \<and>
      sv_snapshots (view (key_import env) (local_db w')) k = Some (sorted_snapshot (ps_snapshot p)) \<and>
      session_current env mem k (continued ?uv p) (ps_snapshotVersionVector p) (local_db w')) w"
    using Cons.prems bound by (intro undisturbed_persist [OF env]) simp_all
  show ?case
    unfolding save_each.simps wp_sbind
  proof (rule wp_weaken [OF step])
    fix r and t :: "'r device_world"
    assume "\<exists>p. r = Inr p \<and> (\<exists>s. consistent_result env mem k ?uv v no_options s p) \<and>
      db_ok (key_import env) (local_db t) \<and> remote_store t = remote_store w \<and>
      sv_snapshots (view (key_import env) (local_db t)) k = Some (sorted_snapshot (ps_snapshot p)) \<and>
      session_current env mem k (continued ?uv p) (ps_snapshotVersionVector p) (local_db t)"
    then obtain p s where p: "r = Inr p" "consistent_result env mem k ?uv v no_options s p"
        "db_ok (key_import env) (local_db t)" "remote_store t = remote_store w"
        "sv_snapshots (view (key_import env) (local_db t)) k = Some (sorted_snapshot (ps_snapshot p))"
        "session_current env mem k (continued ?uv p) (ps_snapshotVersionVector p) (local_db t)"
      by blast
    have stored: "stored_vault env mem k (uv_vaultMasterKey uv) x (local_db t)"
      using result_is_stored [OF p(2,5,6)] by simp
    have writable: "writable env (continued ?uv p)"
      using Cons.prems(2) consistent_plain(4) [OF _ p(2)] by (simp add: writable_def)
    have rest: "wp (save_each env mem k xs (continued ?uv p) (ps_snapshotVersionVector p)) (\<lambda>r w'.
        (\<exists>uv' v'. r = Inr (uv', v') \<and> uv_vaultMasterKey uv' = uv_vaultMasterKey (continued ?uv p)) \<and>
        db_ok (key_import env) (local_db w') \<and> remote_store w' = remote_store t \<and>
        (if xs = [] then local_db w' = local_db t
         else stored_vault env mem k (uv_vaultMasterKey (continued ?uv p)) (last xs) (local_db w'))) t"
      using Cons.prems(4) result_counts [OF p(2)] bound by (intro Cons.IH p writable) simp
    show "case r of
        Inl e \<Rightarrow> (\<exists>uv' v'. Inl e = Inr (uv', v') \<and> uv_vaultMasterKey uv' = uv_vaultMasterKey uv) \<and>
          db_ok (key_import env) (local_db t) \<and> remote_store t = remote_store w \<and>
          (if x # xs = [] then local_db t = local_db w
           else stored_vault env mem k (uv_vaultMasterKey uv) (last (x # xs)) (local_db t))
      | Inr a \<Rightarrow> wp (save_each env mem k xs (continued ?uv a) (ps_snapshotVersionVector a)) (\<lambda>r w'.
          (\<exists>uv' v'. r = Inr (uv', v') \<and> uv_vaultMasterKey uv' = uv_vaultMasterKey uv) \<and>
          db_ok (key_import env) (local_db w') \<and> remote_store w' = remote_store w \<and>
          (if x # xs = [] then local_db w' = local_db w
           else stored_vault env mem k (uv_vaultMasterKey uv) (last (x # xs)) (local_db w'))) t"
      using rest stored p(1,4) by (auto elim!: wp_weaken split: if_splits)
  qed
qed (simp add: wp_sret)

text \<open>An undisturbed read gives the vault that was encrypted last.\<close>

lemma undisturbed_reopen:
  assumes "undisturbed env" "db_ok (key_import env) (local_db w)" "stored_vault env mem k key x (local_db w)"
    and "\<And>n. decryptVaultSnapshotContent (crypto_port env)
      (encryptVaultSnapshotContent (crypto_port env) n x (mem key)) (mem key) = d"
  shows "wp (reopen env mem k key) (\<lambda>r w'. r = d) w"
  using assms(3,4)
  by (auto simp: stored_vault_def reopen_def openTrustedVaultSnapshot_def requireLocalVaultSnapshot_def wp_simps
      undisturbed_calls [OF assms(1)] reads_give_view [OF assms(2)])

lemma saved_vault_reopens:
  assumes "undisturbed env" "db_ok (key_import env) (local_db w)" "writable env uv"
    and "session_current env mem k uv v (local_db w)" "vv_get v (uv_deviceId uv) + length xs \<le> MAX_SAFE_INTEGER" "xs \<noteq> []"
    and "\<And>n. decryptVaultSnapshotContent (crypto_port env)
      (encryptVaultSnapshotContent (crypto_port env) n (last xs) (mem (uv_vaultMasterKey uv))) (mem (uv_vaultMasterKey uv)) = d"
  shows "wp (sbind (save_each env mem k xs uv v) (\<lambda>(uv', v'). reopen env mem k (uv_vaultMasterKey uv'))) (\<lambda>r w'. r = d) w"
  unfolding wp_sbind
  by (rule wp_weaken [OF save_each_succeeds [OF assms(1-5)]])
    (use undisturbed_reopen [where mem = mem, OF assms(1) _ _ assms(7)] assms(6) in auto)

end
