(* ===== verification/Sync_Provider.thy ===== *)
theory Sync_Provider
  imports Local_Codec Stateful
begin

text \<open>
  The storage provider as the synchronisation services see it
  (\<open>ports/sync/sync-provider.port.ts\<close>), and how its answers to an upload are understood
  (\<open>services/sync/sync-provider-outcome.policy.ts\<close>). An answer is an unknown value: only the three
  documented forms are believed, and an answer that is not understood never counts as a proof that
  nothing was written. Prototypes and accessor properties of the value are not represented.
\<close>

section \<open>The port\<close>

record SyncAccess =
  sa_target :: SyncTarget
  sa_credentials :: SyncCredentials

text \<open>
  An upload is prepared, started and awaited in turn; each of the three may change the remote
  storage (other devices write to it) and may throw.
\<close>

type_synonym 'r started_upload = "('r, core_error, json) stateful"
type_synonym 'r started_removal = "('r, core_error, unit) stateful"

datatype 'r prepared_upload =
    Ready_upload "('r, core_error, 'r started_upload) stateful"
  | Upload_not_started json

datatype 'r prepared_removal =
    Ready_removal "('r, core_error, 'r started_removal) stateful"
  | Already_absent

record SyncSetupInput =
  ssi_provider :: string
  ssi_providerConfig :: json

record 'r sync_provider =
  setup_access :: "SyncSetupInput \<Rightarrow> ('r, core_error, SyncAccess) stateful"
  getLatestVaultSnapshotDescriptor ::
    "SyncAccess \<Rightarrow> string \<Rightarrow> ('r, core_error, VaultSnapshotDescriptor option) stateful"
  downloadVaultSnapshot :: "SyncAccess \<Rightarrow> VaultSnapshotDescriptor \<Rightarrow> ('r, core_error, VaultSnapshot) stateful"
  prepareVaultSnapshotUpload ::
    "SyncAccess \<Rightarrow> VaultSnapshot \<Rightarrow> VaultSnapshotIdentity option \<Rightarrow> ('r, core_error, 'r prepared_upload) stateful"
  prepareVaultSnapshotRemoval ::
    "SyncAccess \<Rightarrow> string \<Rightarrow> VaultSnapshotIdentity option \<Rightarrow> ('r, core_error, 'r prepared_removal) stateful"
  checkVaultAccess :: "SyncAccess \<Rightarrow> string \<Rightarrow> ('r, core_error, json) stateful"

section \<open>Understanding an answer\<close>

datatype non_commit_reason = Remote_snapshot_changed | Provider_rejected

datatype SyncUploadOutcome = Committed | Definitely_not_committed non_commit_reason | Outcome_unknown

datatype SyncUploadStatus = Complete | Pending

abbreviation invalid_outcome :: "string \<Rightarrow> core_error" where
  "invalid_outcome operation \<equiv> Sync_error (InvalidSyncProviderOutcomeError operation)"

definition requireSyncProviderAccessOutcome :: "json \<Rightarrow> core_error + string" where
  "requireSyncProviderAccessOutcome value =
     (if value = JStr ''accessible'' then Inr ''accessible''
      else if value = JStr ''authentication_rejected'' then Inr ''authentication_rejected''
      else Inl (invalid_outcome ''access''))"

definition requirePlainRecord :: "json \<Rightarrow> core_error + (string \<times> json) list" where
  "requirePlainRecord value = (case value of JObj r \<Rightarrow> Inr r | _ \<Rightarrow> Inl (invalid_outcome ''upload''))"

definition requireExactKeys :: "(string \<times> json) list \<Rightarrow> string list \<Rightarrow> core_error + unit" where
  "requireExactKeys record expectedKeys =
     (let keys = map fst record in
      if length keys \<noteq> length expectedKeys \<or> list_ex (\<lambda>key. key \<notin> set expectedKeys) keys
      then Inl (invalid_outcome ''upload'') else Inr ())"

definition requireDataProperty :: "(string \<times> json) list \<Rightarrow> string \<Rightarrow> core_error + json" where
  "requireDataProperty record key =
     (case map_of record key of None \<Rightarrow> Inl (invalid_outcome ''upload'') | Some v \<Rightarrow> Inr v)"

definition decodeSyncProviderUploadOutcome :: "json \<Rightarrow> core_error + SyncUploadOutcome" where
  "decodeSyncProviderUploadOutcome value =
     rbind (requirePlainRecord value) (\<lambda>record.
     rbind (requireDataProperty record ''status'') (\<lambda>status.
     if status = JStr ''committed'' \<or> status = JStr ''outcome_unknown''
     then rbind (requireExactKeys record [''status'']) (\<lambda>_.
            Inr (if status = JStr ''committed'' then Committed else Outcome_unknown))
     else if status = JStr ''definitely_not_committed''
     then rbind (requireExactKeys record [''status'', ''reason'']) (\<lambda>_.
          rbind (requireDataProperty record ''reason'') (\<lambda>reason.
          if reason = JStr ''remote_snapshot_changed'' then Inr (Definitely_not_committed Remote_snapshot_changed)
          else if reason = JStr ''provider_rejected'' then Inr (Definitely_not_committed Provider_rejected)
          else Inl (invalid_outcome ''upload'')))
     else Inl (invalid_outcome ''upload'')))"

text \<open>An error of the decoder is always the one that is thrown here.\<close>

definition requireSyncProviderUploadOutcome :: "json \<Rightarrow> core_error + SyncUploadOutcome" where
  "requireSyncProviderUploadOutcome value =
     (case decodeSyncProviderUploadOutcome value of
        Inr outcome \<Rightarrow> Inr outcome
      | Inl e \<Rightarrow> (case e of
            Sync_error (InvalidSyncProviderOutcomeError operation) \<Rightarrow> Inl e
          | _ \<Rightarrow> Inl (invalid_outcome ''upload'')))"

definition resolveSyncProviderUploadOutcome :: "json \<Rightarrow> core_error + SyncUploadOutcome" where
  "resolveSyncProviderUploadOutcome value =
     (case requireSyncProviderUploadOutcome value of
        Inr outcome \<Rightarrow> Inr outcome
      | Inl e \<Rightarrow> (case e of
            Sync_error (InvalidSyncProviderOutcomeError operation) \<Rightarrow> Inr Outcome_unknown
          | _ \<Rightarrow> Inl e))"

definition resolveNonStartedSyncProviderUploadOutcome :: "json \<Rightarrow> core_error + SyncUploadOutcome" where
  "resolveNonStartedSyncProviderUploadOutcome value =
     rbind (resolveSyncProviderUploadOutcome value) (\<lambda>outcome.
     Inr (case outcome of Definitely_not_committed reason \<Rightarrow> outcome | _ \<Rightarrow> Outcome_unknown))"

text \<open>The outcome as a value again, which \<open>resolveSyncProviderUploadStatus\<close> takes.\<close>

fun outcome_json :: "SyncUploadOutcome \<Rightarrow> json" where
  "outcome_json Committed = JObj [(''status'', JStr ''committed'')]"
| "outcome_json Outcome_unknown = JObj [(''status'', JStr ''outcome_unknown'')]"
| "outcome_json (Definitely_not_committed Remote_snapshot_changed) =
     JObj [(''status'', JStr ''definitely_not_committed''), (''reason'', JStr ''remote_snapshot_changed'')]"
| "outcome_json (Definitely_not_committed Provider_rejected) =
     JObj [(''status'', JStr ''definitely_not_committed''), (''reason'', JStr ''provider_rejected'')]"

definition resolveSyncProviderUploadStatus :: "string \<Rightarrow> json \<Rightarrow> core_error + SyncUploadStatus" where
  "resolveSyncProviderUploadStatus vaultId value =
     rbind (resolveSyncProviderUploadOutcome value) (\<lambda>outcome.
     case outcome of
       Committed \<Rightarrow> Inr Complete
     | Outcome_unknown \<Rightarrow> Inr Pending
     | Definitely_not_committed Remote_snapshot_changed \<Rightarrow>
         Inl (Sync_error (RemoteVaultSnapshotChangedError vaultId))
     | Definitely_not_committed Provider_rejected \<Rightarrow>
         Inl (Sync_error (SyncProviderUploadRejectedError vaultId)))"

section \<open>What the policy promises\<close>

lemma outcome_decodes [simp]: "decodeSyncProviderUploadOutcome (outcome_json outcome) = Inr outcome"
  by (cases outcome rule: outcome_json.cases)
    (simp_all add: decodeSyncProviderUploadOutcome_def requirePlainRecord_def requireDataProperty_def
      requireExactKeys_def)

lemma decode_error:
  "decodeSyncProviderUploadOutcome value = Inl e \<Longrightarrow> e = invalid_outcome ''upload''"
  by (auto simp: decodeSyncProviderUploadOutcome_def requirePlainRecord_def requireDataProperty_def
      requireExactKeys_def Let_def rbind_eq_Inl_iff split: json.splits option.splits if_splits)

lemma resolve_outcome:
  "resolveSyncProviderUploadOutcome value =
     Inr (case decodeSyncProviderUploadOutcome value of Inr outcome \<Rightarrow> outcome | Inl _ \<Rightarrow> Outcome_unknown)"
  by (auto simp: resolveSyncProviderUploadOutcome_def requireSyncProviderUploadOutcome_def
      split: sum.splits dest: decode_error)

lemma resolve_status:
  "resolveSyncProviderUploadStatus vaultId value =
     (case decodeSyncProviderUploadOutcome value of
        Inr Committed \<Rightarrow> Inr Complete
      | Inr (Definitely_not_committed Remote_snapshot_changed) \<Rightarrow>
          Inl (Sync_error (RemoteVaultSnapshotChangedError vaultId))
      | Inr (Definitely_not_committed Provider_rejected) \<Rightarrow>
          Inl (Sync_error (SyncProviderUploadRejectedError vaultId))
      | _ \<Rightarrow> Inr Pending)"
  by (simp add: resolveSyncProviderUploadStatus_def resolve_outcome
      split: sum.splits SyncUploadOutcome.splits non_commit_reason.splits)

end
