(* ===== verification/Sync_Guard.thy ===== *)
theory Sync_Guard
  imports Snapshot_Service Sync_Provider
begin

text \<open>
  The guard of synchronised vaults (\<open>services/sync/vault-sync-guard.service.ts\<close>): a vault may only
  be changed while the remote snapshot is the local one, and an upload is announced in the stored
  credential state before it is started, so that one that was interrupted can be recognised later.

  Operations that only use the store and the port are steps of the device; those that work under
  the active session are operations of the session service, whose callbacks act on the device.
\<close>

record 'r guard_env =
  session_of :: session_env
  device_of :: device_env
  provider_of :: "'r sync_provider"

type_synonym ('r, 'a) guarded = "('r device_world, 'a) session_op"

definition provider_call :: "('r, core_error, 'a) stateful \<Rightarrow> ('r, 'a) service" where
  "provider_call operation w =
     (case operation (remote_store w) of (r, s) \<Rightarrow> (r, w\<lparr>remote_store := s\<rparr>))"

section \<open>The stored credentials\<close>

definition toSyncCredentialStateWithoutPending :: "DeviceSyncCredentialState \<Rightarrow> DeviceSyncCredentialState" where
  "toSyncCredentialStateWithoutPending state =
     \<lparr>dsc_currentCredentials = dsc_currentCredentials state, dsc_pendingSnapshotUpload = None,
      dsc_previousCredentials = dsc_previousCredentials state\<rparr>"

definition encryption_context :: "string \<Rightarrow> UnlockedVault \<Rightarrow> SyncTarget \<Rightarrow> DeviceSyncCredentialEncryptionContext" where
  "encryption_context vaultId unlockedVault syncTarget =
     \<lparr>cc_vaultId = vaultId, cc_deviceId = uv_deviceId unlockedVault,
      cc_provider = st_provider syncTarget, cc_target = syncTarget\<rparr>"

definition requireSyncCredentialEncryptionContext ::
    "string \<Rightarrow> UnlockedVault \<Rightarrow> core_error + DeviceSyncCredentialEncryptionContext" where
  "requireSyncCredentialEncryptionContext vaultId unlockedVault =
     (case v_syncTarget (uv_vault unlockedVault) of
        None \<Rightarrow> Inl (Sync_error (LocalSyncCredentialsMissingError vaultId))
      | Some syncTarget \<Rightarrow> Inr (encryption_context vaultId unlockedVault syncTarget))"

definition arePendingSnapshotUploadsEqual :: "PendingSnapshotUpload \<Rightarrow> PendingSnapshotUpload \<Rightarrow> bool" where
  "arePendingSnapshotUploadsEqual left right =
     (if \<not> areVaultSnapshotIdentitiesEqual (psu_candidateSnapshotIdentity left) (psu_candidateSnapshotIdentity right)
      then False
      else case (psu_expectedRemoteSnapshotIdentity left, psu_expectedRemoteSnapshotIdentity right) of
        (Some l, Some r) \<Rightarrow> areVaultSnapshotIdentitiesEqual l r
      | (None, None) \<Rightarrow> True
      | _ \<Rightarrow> False)"

text \<open>The stored state, encrypted and decrypted, and the access it gives.\<close>

record sync_credential_state =
  scs_encryptedState :: SerializedEncrypted
  scs_state :: DeviceSyncCredentialState
  scs_syncAccess :: SyncAccess

definition decrypt_credentials ::
    "device_env \<Rightarrow> (buffer \<Rightarrow> bytes) \<Rightarrow> string \<Rightarrow> UnlockedVault \<Rightarrow> SyncTarget \<Rightarrow> SerializedEncrypted \<Rightarrow>
     ('r, DeviceSyncCredentialState) service" where
  "decrypt_credentials env mem vaultId unlockedVault syncTarget encryptedState =
     crypto_call env (\<lambda>_. decryptDeviceSyncCredentialState (crypto_port env) encryptedState
       (mem (uv_deviceLocalProtectionKey unlockedVault)) (encryption_context vaultId unlockedVault syncTarget))"

definition requireSyncCredentialState ::
    "device_env \<Rightarrow> (buffer \<Rightarrow> bytes) \<Rightarrow> string \<Rightarrow> UnlockedVault \<Rightarrow> ('r, sync_credential_state) service" where
  "requireSyncCredentialState env mem vaultId unlockedVault =
     (let missing = Sync_error (LocalSyncCredentialsMissingError vaultId) in
      case v_syncTarget (uv_vault unlockedVault) of
        None \<Rightarrow> sthrow missing
      | Some syncTarget \<Rightarrow>
          sbind (repository env (getDeviceSyncCredentialState vaultId)) (\<lambda>stored.
          case stored of
            None \<Rightarrow> sthrow missing
          | Some encryptedState \<Rightarrow>
              sbind (decrypt_credentials env mem vaultId unlockedVault syncTarget encryptedState) (\<lambda>state.
              if sc_provider (dsc_currentCredentials state) \<noteq> st_provider syncTarget then sthrow missing
              else sret \<lparr>scs_encryptedState = encryptedState, scs_state = state,
                scs_syncAccess = \<lparr>sa_target = syncTarget, sa_credentials = dsc_currentCredentials state\<rparr>\<rparr>)))"

definition encrypt_credentials ::
    "device_env \<Rightarrow> (buffer \<Rightarrow> bytes) \<Rightarrow> string \<Rightarrow> UnlockedVault \<Rightarrow> DeviceSyncCredentialState \<Rightarrow>
     ('r, SerializedEncrypted) service" where
  "encrypt_credentials env mem vaultId unlockedVault state =
     sbind (slift (requireSyncCredentialEncryptionContext vaultId unlockedVault)) (\<lambda>context.
     crypto_call env (\<lambda>n. Inr (encryptDeviceSyncCredentialState (crypto_port env) n state
       (mem (uv_deviceLocalProtectionKey unlockedVault)) context)))"

definition encryptDeviceSyncCredentialStateWithoutPending ::
    "device_env \<Rightarrow> (buffer \<Rightarrow> bytes) \<Rightarrow> string \<Rightarrow> UnlockedVault \<Rightarrow> DeviceSyncCredentialState \<Rightarrow>
     ('r, SerializedEncrypted) service" where
  "encryptDeviceSyncCredentialStateWithoutPending env mem vaultId unlockedVault state =
     encrypt_credentials env mem vaultId unlockedVault (toSyncCredentialStateWithoutPending state)"

definition requireSyncAccess ::
    "device_env \<Rightarrow> (buffer \<Rightarrow> bytes) \<Rightarrow> string \<Rightarrow> UnlockedVault \<Rightarrow> ('r, SyncAccess) service" where
  "requireSyncAccess env mem vaultId unlockedVault =
     sbind (requireSyncCredentialState env mem vaultId unlockedVault) (\<lambda>s. sret (scs_syncAccess s))"

definition requireSnapshotUploadReconciled ::
    "device_env \<Rightarrow> (buffer \<Rightarrow> bytes) \<Rightarrow> string \<Rightarrow> UnlockedVault \<Rightarrow> ('r, unit) service" where
  "requireSnapshotUploadReconciled env mem vaultId unlockedVault =
     sbind (requireSyncCredentialState env mem vaultId unlockedVault) (\<lambda>s.
     srequire (dsc_pendingSnapshotUpload (scs_state s) = None)
       (Sync_error (LocalVaultSnapshotAheadError vaultId)))"

text \<open>Both identities of an announced upload name the vault.\<close>

definition pending_names_vault :: "string \<Rightarrow> PendingSnapshotUpload \<Rightarrow> bool" where
  "pending_names_vault vaultId pending \<longleftrightarrow>
     \<not> (sd_vaultId (si_descriptor (psu_candidateSnapshotIdentity pending)) \<noteq> vaultId \<or>
        (case psu_expectedRemoteSnapshotIdentity pending of
           None \<Rightarrow> False | Some i \<Rightarrow> sd_vaultId (si_descriptor i) \<noteq> vaultId))"

definition getPendingSnapshotUpload ::
    "device_env \<Rightarrow> (buffer \<Rightarrow> bytes) \<Rightarrow> string \<Rightarrow> UnlockedVault \<Rightarrow> ('r, PendingSnapshotUpload option) service" where
  "getPendingSnapshotUpload env mem vaultId unlockedVault =
     sbind (requireSyncCredentialState env mem vaultId unlockedVault) (\<lambda>s.
     case dsc_pendingSnapshotUpload (scs_state s) of
       None \<Rightarrow> sret None
     | Some pending \<Rightarrow>
         if \<not> pending_names_vault vaultId pending
         then sthrow (Sync_error (RemoteVaultSnapshotIntegrityError vaultId))
         else sret (Some
           \<lparr>psu_candidateSnapshotIdentity = cloneVaultSnapshotIdentity (psu_candidateSnapshotIdentity pending),
            psu_expectedRemoteSnapshotIdentity =
              map_option cloneVaultSnapshotIdentity (psu_expectedRemoteSnapshotIdentity pending)\<rparr>))"

definition requireProviderCredentialRevocationComplete ::
    "device_env \<Rightarrow> (buffer \<Rightarrow> bytes) \<Rightarrow> string \<Rightarrow> UnlockedVault \<Rightarrow> string \<Rightarrow> ('r, unit) service" where
  "requireProviderCredentialRevocationComplete env mem vaultId unlockedVault operation =
     (let pending = Sync_error (ProviderCredentialRevocationPendingError vaultId operation);
          missing = Sync_error (LocalSyncCredentialsMissingError vaultId) in
      if v_providerCredentialRevocationPending (uv_vault unlockedVault) \<noteq> None then sthrow pending
      else case v_syncTarget (uv_vault unlockedVault) of
        None \<Rightarrow> sret ()
      | Some syncTarget \<Rightarrow>
          sbind (repository env (getDeviceSyncCredentialState vaultId)) (\<lambda>stored.
          case stored of
            None \<Rightarrow> sthrow missing
          | Some encryptedState \<Rightarrow>
              sbind (decrypt_credentials env mem vaultId unlockedVault syncTarget encryptedState) (\<lambda>state.
              srequire (dsc_previousCredentials state = None) pending)))"

record credential_preparation =
  cp_expectedState :: SerializedEncrypted
  cp_nextState :: SerializedEncrypted
  cp_syncAccess :: SyncAccess

definition prepareSyncCredentialStateWithoutPending ::
    "device_env \<Rightarrow> (buffer \<Rightarrow> bytes) \<Rightarrow> string \<Rightarrow> UnlockedVault \<Rightarrow> bool \<Rightarrow> string option \<Rightarrow>
     ('r, credential_preparation) service" where
  "prepareSyncCredentialStateWithoutPending env mem vaultId unlockedVault discardPendingSnapshotUpload
     providerCredentialRevocationOperation =
     (let revocationPending = (\<lambda>operation. Sync_error (ProviderCredentialRevocationPendingError vaultId operation)) in
      sthen (case providerCredentialRevocationOperation of
               None \<Rightarrow> sret ()
             | Some operation \<Rightarrow>
                 srequire (v_providerCredentialRevocationPending (uv_vault unlockedVault) = None)
                   (revocationPending operation))
      (sbind (requireSyncCredentialState env mem vaultId unlockedVault) (\<lambda>s.
       sthen (case providerCredentialRevocationOperation of
                None \<Rightarrow> sret ()
              | Some operation \<Rightarrow>
                  srequire (dsc_previousCredentials (scs_state s) = None) (revocationPending operation))
       (sthen (srequire (\<not> (dsc_pendingSnapshotUpload (scs_state s) \<noteq> None \<and> \<not> discardPendingSnapshotUpload))
                (Sync_error (LocalVaultSnapshotAheadError vaultId)))
       (sbind (encryptDeviceSyncCredentialStateWithoutPending env mem vaultId unlockedVault (scs_state s))
         (\<lambda>nextState.
         sret \<lparr>cp_expectedState = scs_encryptedState s, cp_nextState = nextState,
               cp_syncAccess = scs_syncAccess s\<rparr>))))))"

section \<open>Before a local change\<close>

record synchronized_state =
  sy_syncAccess :: SyncAccess
  sy_syncCredentialState :: SerializedEncrypted
  sy_remoteSnapshotIdentity :: VaultSnapshotIdentity

record LocalMutationSyncState =
  lms_localSnapshot :: VaultSnapshot
  lms_synchronized :: "synchronized_state option"

definition is_remote_changed :: "core_error \<Rightarrow> bool" where
  "is_remote_changed e = (case e of Sync_error (RemoteVaultSnapshotChangedError _) \<Rightarrow> True | _ \<Rightarrow> False)"

text \<open>What the relation of the two descriptors must be.\<close>

definition require_descriptors_equal ::
    "string \<Rightarrow> VaultSnapshotDescriptor \<Rightarrow> VaultSnapshotDescriptor \<Rightarrow> core_error + unit" where
  "require_descriptors_equal vaultId localDescriptor remoteDescriptor =
     (case compareVaultSnapshotDescriptors localDescriptor remoteDescriptor of
        Remote_ahead \<Rightarrow> Inl (Sync_error (RemoteVaultSnapshotAheadError vaultId))
      | Local_ahead \<Rightarrow> Inl (Sync_error (LocalVaultSnapshotAheadError vaultId))
      | Broken \<Rightarrow> Inl (Sync_error (RemoteVaultSnapshotIntegrityError vaultId))
      | Equal \<Rightarrow>
          if areVaultSnapshotDescriptorsEqual remoteDescriptor localDescriptor then Inr ()
          else Inl (Sync_error (RemoteVaultSnapshotIntegrityError vaultId)))"

definition prepareLocalMutation ::
    "device_env \<Rightarrow> 'r sync_provider \<Rightarrow> (buffer \<Rightarrow> bytes) \<Rightarrow> string \<Rightarrow> UnlockedVault \<Rightarrow> VersionVector \<Rightarrow>
     ('r, LocalMutationSyncState) service" where
  "prepareLocalMutation env provider mem vaultId unlockedVault sourceSnapshotVersionVector =
     sbind (requireCurrentSnapshotForUnlockedVault env vaultId unlockedVault sourceSnapshotVersionVector)
       (\<lambda>localSnapshot.
     if v_syncTarget (uv_vault unlockedVault) = None
     then sret \<lparr>lms_localSnapshot = localSnapshot, lms_synchronized = None\<rparr>
     else
     sthen (srequire (v_syncRemovalPending (uv_vault unlockedVault) = None)
              (Sync_error (SyncRemovalPendingError vaultId ''modify vault data'')))
     (sbind (requireSyncCredentialState env mem vaultId unlockedVault) (\<lambda>s.
      sthen (srequire (dsc_pendingSnapshotUpload (scs_state s) = None)
               (Sync_error (LocalVaultSnapshotAheadError vaultId)))
      (sbind (provider_call (getLatestVaultSnapshotDescriptor provider (scs_syncAccess s) vaultId))
        (\<lambda>remoteDescriptor.
       case remoteDescriptor of
         None \<Rightarrow> sthrow (Sync_error (RemoteVaultSnapshotNotFoundError vaultId))
       | Some remoteSnapshotDescriptor \<Rightarrow>
           sthen (slift (require_descriptors_equal vaultId (toVaultSnapshotDescriptor vaultId localSnapshot)
                    remoteSnapshotDescriptor))
           (sbind (scatch (provider_call (downloadVaultSnapshot provider (scs_syncAccess s)
                     remoteSnapshotDescriptor))
                    (\<lambda>e. if is_remote_changed e then sthrow (Sync_error (SyncConflictDetectedError vaultId))
                         else sthrow e)) (\<lambda>remoteSnapshot.
            sbind (crypto_call env (\<lambda>_. Inr (snapshot_digest env remoteSnapshot))) (\<lambda>remoteSnapshotDigest.
            if remoteSnapshotDigest \<noteq> tsc_snapshotDigest (uv_trustedSnapshotContext unlockedVault)
            then sthrow (Sync_error (RemoteVaultSnapshotIntegrityError vaultId))
            else sret \<lparr>lms_localSnapshot = localSnapshot,
              lms_synchronized = Some
                \<lparr>sy_syncAccess = scs_syncAccess s, sy_syncCredentialState = scs_encryptedState s,
                 sy_remoteSnapshotIdentity =
                   \<lparr>si_descriptor = remoteSnapshotDescriptor, si_snapshotDigest = remoteSnapshotDigest\<rparr>\<rparr>\<rparr>))))))))"

definition requireReadyForLocalMutation ::
    "device_env \<Rightarrow> 'r sync_provider \<Rightarrow> (buffer \<Rightarrow> bytes) \<Rightarrow> string \<Rightarrow> UnlockedVault \<Rightarrow> VersionVector \<Rightarrow>
     ('r, VaultSnapshot) service" where
  "requireReadyForLocalMutation env provider mem vaultId unlockedVault sourceSnapshotVersionVector =
     sbind (prepareLocalMutation env provider mem vaultId unlockedVault sourceSnapshotVersionVector)
       (\<lambda>state. sret (lms_localSnapshot state))"

section \<open>Announcing an upload\<close>

text \<open>The parameters that the operations on an upload share.\<close>

record upload_params =
  up_sessionId :: string
  up_vaultId :: string
  up_unlockedVault :: UnlockedVault
  up_syncAccess :: SyncAccess
  up_snapshot :: VaultSnapshot
  up_snapshotDigest :: string
  up_checkpoint :: LocalVaultTrustCheckpoint

record StagedSnapshotUploadIntent =
  in_clear :: SerializedEncrypted
  in_pending :: SerializedEncrypted

datatype staging = Already_pending | Staged StagedSnapshotUploadIntent

text \<open>The stored snapshot and checkpoint are written again, with another credential state.\<close>

definition replace_credentials ::
    "device_env \<Rightarrow> VaultSnapshot \<Rightarrow> string \<Rightarrow> LocalVaultTrustCheckpoint \<Rightarrow> SerializedEncrypted \<Rightarrow>
     SerializedEncrypted \<Rightarrow> ('r, unit) service" where
  "replace_credentials env snapshot snapshotDigest checkpoint expectedState state =
     save_snapshot env (replacement snapshotDigest checkpoint snapshot checkpoint
       (Value (Some expectedState)) (Value (Some state)))"

definition stagePendingSnapshotUpload ::
    "device_env \<Rightarrow> (buffer \<Rightarrow> bytes) \<Rightarrow> upload_params \<Rightarrow> PendingSnapshotUpload \<Rightarrow> ('r, staging) service" where
  "stagePendingSnapshotUpload env mem params pending =
     (let vaultId = up_vaultId params; uv = up_unlockedVault params;
          integrity = Sync_error (RemoteVaultSnapshotIntegrityError vaultId) in
      sthen (srequire (pending_names_vault vaultId pending) integrity)
      (sbind (requireSyncCredentialState env mem vaultId uv) (\<lambda>s.
       case dsc_pendingSnapshotUpload (scs_state s) of
         Some stored \<Rightarrow>
           if arePendingSnapshotUploadsEqual stored pending then sret Already_pending else sthrow integrity
       | None \<Rightarrow>
           sbind (encryptDeviceSyncCredentialStateWithoutPending env mem vaultId uv (scs_state s))
             (\<lambda>clearCredentialState.
           sbind (encrypt_credentials env mem vaultId uv
                    ((toSyncCredentialStateWithoutPending (scs_state s))\<lparr>dsc_pendingSnapshotUpload := Some pending\<rparr>))
             (\<lambda>pendingCredentialState.
           sthen (replace_credentials env (up_snapshot params) (up_snapshotDigest params) (up_checkpoint params)
                    (scs_encryptedState s) pendingCredentialState)
           (sret (Staged \<lparr>in_clear = clearCredentialState, in_pending = pendingCredentialState\<rparr>)))))))"

record restaged_intent = StagedSnapshotUploadIntent +
  in_previous :: SerializedEncrypted

definition restagePendingSnapshotUpload ::
    "device_env \<Rightarrow> (buffer \<Rightarrow> bytes) \<Rightarrow> upload_params \<Rightarrow> PendingSnapshotUpload \<Rightarrow> ('r, restaged_intent) service" where
  "restagePendingSnapshotUpload env mem params pending =
     (let vaultId = up_vaultId params; uv = up_unlockedVault params in
      sbind (requireSyncCredentialState env mem vaultId uv) (\<lambda>s.
      sthen (srequire (case dsc_pendingSnapshotUpload (scs_state s) of
                 None \<Rightarrow> False | Some stored \<Rightarrow> arePendingSnapshotUploadsEqual stored pending)
               (Sync_error (RemoteVaultSnapshotIntegrityError vaultId)))
      (sbind (encryptDeviceSyncCredentialStateWithoutPending env mem vaultId uv (scs_state s))
        (\<lambda>clearCredentialState.
       sbind (encrypt_credentials env mem vaultId uv (scs_state s)) (\<lambda>pendingCredentialState.
       sthen (replace_credentials env (up_snapshot params) (up_snapshotDigest params) (up_checkpoint params)
                (scs_encryptedState s) pendingCredentialState)
       (sret \<lparr>in_clear = clearCredentialState, in_pending = pendingCredentialState,
              in_previous = scs_encryptedState s\<rparr>))))))"

definition tryReplaceSyncCredentialState ::
    "device_env \<Rightarrow> VaultSnapshot \<Rightarrow> string \<Rightarrow> LocalVaultTrustCheckpoint \<Rightarrow> SerializedEncrypted \<Rightarrow>
     SerializedEncrypted \<Rightarrow> ('r, bool) service" where
  "tryReplaceSyncCredentialState env snapshot snapshotDigest checkpoint expectedState state =
     scatch (sthen (replace_credentials env snapshot snapshotDigest checkpoint expectedState state) (sret True))
       (\<lambda>_. sret False)"

definition tryClearPendingSnapshotUpload ::
    "device_env \<Rightarrow> VaultSnapshot \<Rightarrow> string \<Rightarrow> LocalVaultTrustCheckpoint \<Rightarrow> SerializedEncrypted \<Rightarrow>
     SerializedEncrypted \<Rightarrow> ('r, bool) service" where
  "tryClearPendingSnapshotUpload env snapshot snapshotDigest checkpoint clearState expectedState =
     tryReplaceSyncCredentialState env snapshot snapshotDigest checkpoint expectedState clearState"

section \<open>Working under the active session\<close>

definition runForActiveSession ::
    "'r guard_env \<Rightarrow> string \<Rightarrow> string \<Rightarrow> string \<Rightarrow> (UnlockedVault \<Rightarrow> (buffer \<Rightarrow> bytes) \<Rightarrow> ('r, 'a) service) \<Rightarrow>
     ('r, 'a) guarded" where
  "runForActiveSession g sessionId vaultId operation run =
     runWithUnlockedVaultContext (session_of g) vaultId operation
       (\<lambda>session mem. if us_sessionId session \<noteq> sessionId
          then sthrow (UnlockedVaultSessionExpiredError vaultId)
          else run (us_unlockedVault session) mem) None"

text \<open>The unlocked vault of the caller with the protection key of the active session.\<close>

definition authorized :: "upload_params \<Rightarrow> UnlockedVault \<Rightarrow> upload_params" where
  "authorized params activeUnlockedVault = params\<lparr>up_unlockedVault :=
     (up_unlockedVault params)\<lparr>uv_deviceLocalProtectionKey := uv_deviceLocalProtectionKey activeUnlockedVault\<rparr>\<rparr>"

text \<open>
  Without the lock of the session a provider is called directly. Once the start callback has been
  reached the upload may have happened, so its errors become the unknown outcome.
\<close>

definition outside_session :: "('r, 'a) service \<Rightarrow> ('r, 'a) guarded" where
  "outside_session m = callout (\<lambda>_. m)"

definition startPreparedUpload ::
    "'r guard_env \<Rightarrow> string \<Rightarrow> string \<Rightarrow> string \<Rightarrow> ('r, core_error, 'r started_upload) stateful \<Rightarrow>
     ('r, json) guarded" where
  "startPreparedUpload g sessionId vaultId operation start =
     sbind (runForActiveSession g sessionId vaultId operation (\<lambda>_ _. stry (provider_call start))) (\<lambda>startedUpload.
     case startedUpload of
       Inl e \<Rightarrow> sret (outcome_json Outcome_unknown)
     | Inr awaited \<Rightarrow>
         scatch (outside_session (provider_call awaited)) (\<lambda>_. sret (outcome_json Outcome_unknown)))"

definition attempt_upload ::
    "'r guard_env \<Rightarrow> upload_params \<Rightarrow> string \<Rightarrow> VaultSnapshotIdentity option \<Rightarrow> ('r, SyncUploadStatus) guarded" where
  "attempt_upload g params operation expectedRemoteSnapshotIdentity =
     sbind (outside_session (provider_call (prepareVaultSnapshotUpload (provider_of g) (up_syncAccess params)
              (up_snapshot params) expectedRemoteSnapshotIdentity))) (\<lambda>preparedUpload.
     sbind (case preparedUpload of
              Upload_not_started outcome \<Rightarrow>
                slift (rbind (resolveNonStartedSyncProviderUploadOutcome outcome) (\<lambda>r. Inr (outcome_json r)))
            | Ready_upload start \<Rightarrow>
                startPreparedUpload g (up_sessionId params) (up_vaultId params) operation start) (\<lambda>uploadOutcome.
     slift (resolveSyncProviderUploadStatus (up_vaultId params) uploadOutcome)))"

text \<open>A completed upload is complete only when its announcement has been removed as well.\<close>

definition finish_upload ::
    "'r guard_env \<Rightarrow> upload_params \<Rightarrow> string \<Rightarrow> SerializedEncrypted \<Rightarrow> SerializedEncrypted \<Rightarrow>
     ('r, SyncUploadStatus) guarded" where
  "finish_upload g params operation clearState expectedState =
     sbind (stry (runForActiveSession g (up_sessionId params) (up_vaultId params) operation
              (\<lambda>_ _. tryClearPendingSnapshotUpload (device_of g) (up_snapshot params) (up_snapshotDigest params)
                 (up_checkpoint params) clearState expectedState))) (\<lambda>cleared.
     sret (if cleared = Inr True then Complete else Pending))"

section \<open>Uploading\<close>

definition upload_staged ::
    "'r guard_env \<Rightarrow> upload_params \<Rightarrow> VaultSnapshotIdentity option \<Rightarrow> StagedSnapshotUploadIntent \<Rightarrow>
     ('r, SyncUploadStatus) guarded" where
  "upload_staged g params expectedRemoteSnapshotIdentity intent =
     sbind (attempt_upload g params ''start a snapshot upload'' expectedRemoteSnapshotIdentity) (\<lambda>syncUpload.
     if syncUpload = Pending then sret Pending
     else finish_upload g params ''clear a completed snapshot upload'' (in_clear intent) (in_pending intent))"

definition pending_of :: "upload_params \<Rightarrow> VaultSnapshotIdentity option \<Rightarrow> PendingSnapshotUpload" where
  "pending_of params expectedRemoteSnapshotIdentity =
     \<lparr>psu_candidateSnapshotIdentity =
        \<lparr>si_descriptor = toVaultSnapshotDescriptor (up_vaultId params) (up_snapshot params),
         si_snapshotDigest = up_snapshotDigest params\<rparr>,
      psu_expectedRemoteSnapshotIdentity = map_option cloneVaultSnapshotIdentity expectedRemoteSnapshotIdentity\<rparr>"

text \<open>
  The first component of the result is what \<open>onIntentStaged\<close> was called with, which the caller keeps
  even if the upload throws afterwards; the second is the result or the error.
\<close>

definition uploadTrackedSnapshot ::
    "'r guard_env \<Rightarrow> upload_params \<Rightarrow> VaultSnapshotIdentity option \<Rightarrow>
     ('r, StagedSnapshotUploadIntent option \<times> (core_error + SyncUploadStatus)) guarded" where
  "uploadTrackedSnapshot g params expectedRemoteSnapshotIdentity =
     sbind (stry (runForActiveSession g (up_sessionId params) (up_vaultId params) ''stage a snapshot upload''
              (\<lambda>active mem. stagePendingSnapshotUpload (device_of g) mem (authorized params active)
                 (pending_of params expectedRemoteSnapshotIdentity)))) (\<lambda>staged.
     case staged of
       Inl e \<Rightarrow> sret (None, Inl e)
     | Inr Already_pending \<Rightarrow> sret (None, Inr Pending)
     | Inr (Staged intent) \<Rightarrow>
         sbind (stry (upload_staged g params expectedRemoteSnapshotIdentity intent)) (\<lambda>result.
         sret (Some intent, result)))"

definition retryPendingSnapshotUpload ::
    "'r guard_env \<Rightarrow> upload_params \<Rightarrow> PendingSnapshotUpload \<Rightarrow> ('r, SyncUploadStatus) guarded" where
  "retryPendingSnapshotUpload g params pending =
     sbind (runForActiveSession g (up_sessionId params) (up_vaultId params) ''restage a pending snapshot upload''
              (\<lambda>active mem. restagePendingSnapshotUpload (device_of g) mem (authorized params active) pending))
       (\<lambda>restaged.
     sbind (scatch
              (attempt_upload g params ''retry a pending snapshot upload''
                 (psu_expectedRemoteSnapshotIdentity pending))
              (\<lambda>e. sthen (stry (runForActiveSession g (up_sessionId params) (up_vaultId params)
                              ''restore a failed pending snapshot upload''
                              (\<lambda>_ _. tryReplaceSyncCredentialState (device_of g) (up_snapshot params)
                                 (up_snapshotDigest params) (up_checkpoint params) (in_pending restaged)
                                 (in_previous restaged))))
                     (sthrow e))) (\<lambda>syncUpload.
     if syncUpload = Pending then sret Pending
     else finish_upload g params ''clear a retried snapshot upload'' (in_clear restaged) (in_pending restaged)))"

definition clearStagedSnapshotUploadIntent ::
    "'r guard_env \<Rightarrow> upload_params \<Rightarrow> StagedSnapshotUploadIntent \<Rightarrow> ('r, bool) guarded" where
  "clearStagedSnapshotUploadIntent g params intent =
     scatch (runForActiveSession g (up_sessionId params) (up_vaultId params) ''clear a failed snapshot upload''
               (\<lambda>_ _. tryClearPendingSnapshotUpload (device_of g) (up_snapshot params) (up_snapshotDigest params)
                  (up_checkpoint params) (in_clear intent) (in_pending intent)))
       (\<lambda>_. sret False)"

definition clearPendingSnapshotUpload ::
    "'r guard_env \<Rightarrow> upload_params \<Rightarrow> PendingSnapshotUpload \<Rightarrow> ('r, bool) guarded" where
  "clearPendingSnapshotUpload g params pending =
     runForActiveSession g (up_sessionId params) (up_vaultId params) ''clear a pending snapshot upload''
       (\<lambda>active mem.
          let env = device_of g; p = authorized params active in
          sbind (requireSyncCredentialState env mem (up_vaultId p) (up_unlockedVault p)) (\<lambda>s.
          if \<not> (case dsc_pendingSnapshotUpload (scs_state s) of
                   None \<Rightarrow> False | Some stored \<Rightarrow> arePendingSnapshotUploadsEqual stored pending)
          then sret False
          else
            sbind (encryptDeviceSyncCredentialStateWithoutPending env mem (up_vaultId p) (up_unlockedVault p)
                     (scs_state s)) (\<lambda>clearCredentialState.
            tryClearPendingSnapshotUpload env (up_snapshot p) (up_snapshotDigest p) (up_checkpoint p)
              clearCredentialState (scs_encryptedState s))))"

definition removeTrackedRemoteSnapshot ::
    "'r guard_env \<Rightarrow> string \<Rightarrow> string \<Rightarrow> SyncAccess \<Rightarrow> VaultSnapshotIdentity option \<Rightarrow> ('r, unit) guarded" where
  "removeTrackedRemoteSnapshot g sessionId vaultId syncAccess expectedRemoteSnapshotIdentity =
     sbind (outside_session (provider_call (prepareVaultSnapshotRemoval (provider_of g) syncAccess vaultId
              expectedRemoteSnapshotIdentity))) (\<lambda>preparedRemoval.
     case preparedRemoval of
       Already_absent \<Rightarrow> sret ()
     | Ready_removal start \<Rightarrow>
         sbind (runForActiveSession g sessionId vaultId ''remove the remote vault snapshot''
                  (\<lambda>_ _. provider_call start)) (\<lambda>awaited.
         outside_session (provider_call awaited)))"

section \<open>Uploading a snapshot that has been persisted\<close>

text \<open>A failed upload takes the persisted snapshot back, unless the session has moved on.\<close>

definition uploadPersistedSnapshot ::
    "'r guard_env \<Rightarrow> upload_params \<Rightarrow> VaultSnapshotIdentity option \<Rightarrow> VersionVector \<Rightarrow> SerializedEncrypted \<Rightarrow>
     PreparedLocalVaultSnapshotRestore \<Rightarrow> ('r, SyncUploadStatus) guarded" where
  "uploadPersistedSnapshot g params expectedRemoteSnapshotIdentity previousSnapshotVersionVector
     persistedSyncCredentialState preparedRestore =
     sbind (uploadTrackedSnapshot g params expectedRemoteSnapshotIdentity) (\<lambda>(staged, result).
     case result of
       Inr status \<Rightarrow> sret status
     | Inl e \<Rightarrow>
         (let vaultId = up_vaultId params;
              expectedSyncCredentialState =
                (case staged of None \<Rightarrow> persistedSyncCredentialState | Some intent \<Rightarrow> in_pending intent) in
          sbind (restorePersistedState (session_of g) (up_sessionId params) vaultId previousSnapshotVersionVector
                   (\<lambda>_. restorePreparedLocalVaultSnapshot (device_of g) preparedRestore (up_snapshotDigest params)
                      (up_checkpoint params) (Some (Some expectedSyncCredentialState))) None) (\<lambda>rollbackResult.
          sthrow (if rollbackResult = Rollback_failed then PersistedVaultRollbackIncompleteError vaultId e
                  else if is_remote_changed e then Sync_error (SyncConflictDetectedError vaultId)
                  else e))))"

definition uploadPersistedLocalMutation ::
    "'r guard_env \<Rightarrow> string \<Rightarrow> LocalMutationSyncState \<Rightarrow> VaultSnapshot \<Rightarrow> string \<Rightarrow> LocalVaultTrustCheckpoint \<Rightarrow>
     UnlockedVault \<Rightarrow> PreparedLocalVaultSnapshotRestore \<Rightarrow> string \<Rightarrow> ('r, SyncUploadStatus) guarded" where
  "uploadPersistedLocalMutation g vaultId syncState persistedSnapshot persistedSnapshotDigest checkpoint
     unlockedVault preparedRestore sessionId =
     (case lms_synchronized syncState of
        None \<Rightarrow> sret Complete
      | Some sync \<Rightarrow>
          uploadPersistedSnapshot g
            \<lparr>up_sessionId = sessionId, up_vaultId = vaultId, up_unlockedVault = unlockedVault,
             up_syncAccess = sy_syncAccess sync, up_snapshot = persistedSnapshot,
             up_snapshotDigest = persistedSnapshotDigest, up_checkpoint = checkpoint\<rparr>
            (Some (sy_remoteSnapshotIdentity sync))
            (m_snapshotVersionVector (snap_metadata (lms_localSnapshot syncState)))
            (sy_syncCredentialState sync) preparedRestore)"

definition uploadPersistedInitialSyncSnapshot ::
    "'r guard_env \<Rightarrow> upload_params \<Rightarrow> VaultSnapshot \<Rightarrow> SerializedEncrypted \<Rightarrow>
     PreparedLocalVaultSnapshotRestore \<Rightarrow> ('r, SyncUploadStatus) guarded" where
  "uploadPersistedInitialSyncSnapshot g params localSnapshot persistedSyncCredentialState preparedRestore =
     uploadPersistedSnapshot g params None (m_snapshotVersionVector (snap_metadata localSnapshot))
       persistedSyncCredentialState preparedRestore"

end
