(* ===== verification/Mutation_Service.thy ===== *)
theory Mutation_Service
  imports Sync_Guard
begin

text \<open>
  One change of a vault, from the session to the store and the remote storage
  (\<open>services/vault/vault-mutation.service.ts\<close>): the change is computed on the unlocked vault, its
  snapshot replaces the stored one under the active session, a synchronised vault is uploaded, and
  the session goes on with the changed vault.
\<close>

record VaultMutationResult =
  mr_snapshotVersionVector :: VersionVector
  mr_revisionTimestamp :: nat
  mr_syncUpload :: SyncUploadStatus
  mr_syncConfigured :: bool

text \<open>The options of the snapshot: a synchronised vault records what the upload expects.\<close>

definition mutation_options :: "LocalMutationSyncState \<Rightarrow> persist_options" where
  "mutation_options syncState =
     (case lms_synchronized syncState of
        None \<Rightarrow> no_options
      | Some sync \<Rightarrow> no_options\<lparr>
          po_uploadExpectedRemoteSnapshotIdentity := Some (Some (sy_remoteSnapshotIdentity sync)),
          po_expectedSyncCredentialState := Some (Some (sy_syncCredentialState sync)),
          po_syncCredentialState := Some (Some (sy_syncCredentialState sync))\<rparr>)"

text \<open>The callback of \<open>persistForActiveSession\<close>: the plan of a rollback is made before the change.\<close>

definition persist_mutation ::
    "device_env \<Rightarrow> (buffer \<Rightarrow> bytes) \<Rightarrow> string \<Rightarrow> LocalMutationSyncState \<Rightarrow> UnlockedVault \<Rightarrow> UnlockedVault \<Rightarrow>
     VersionVector \<Rightarrow> ('r, persisted_snapshot \<times> PreparedLocalVaultSnapshotRestore option) service" where
  "persist_mutation env mem vaultId syncState unlockedVault updatedUnlockedVault sourceSnapshotVersionVector =
     sbind (if lms_synchronized syncState = None then sret None
            else sbind (prepareLocalVaultSnapshotRestore env (lms_localSnapshot syncState) unlockedVault None)
                   (\<lambda>r. sret (Some r))) (\<lambda>preparedRestore.
     sbind (persistUnlockedVault env mem vaultId updatedUnlockedVault sourceSnapshotVersionVector
              (mutation_options syncState)) (\<lambda>persistedSnapshot.
     sret (persistedSnapshot, preparedRestore)))"

definition persist ::
    "'r guard_env \<Rightarrow> string \<Rightarrow> string \<Rightarrow> (Vault \<Rightarrow> string \<Rightarrow> core_error + Vault) \<Rightarrow>
     ('r, VaultMutationResult) guarded" where
  "persist g vaultId operation mutate =
     sbind (requireUnlockedVaultContext (session_of g) vaultId operation None) (\<lambda>session.
      let sessionId = us_sessionId session; unlockedVault = us_unlockedVault session;
          sourceSnapshotVersionVector = us_sourceSnapshotVersionVector session in
     sbind (slift (mutate (uv_vault unlockedVault) (uv_deviceId unlockedVault))) (\<lambda>updatedVault.
     sbind (callout (\<lambda>mem. prepareLocalMutation (device_of g) (provider_of g) mem vaultId unlockedVault
              sourceSnapshotVersionVector)) (\<lambda>syncState.
      let updatedUnlockedVault = unlockedVault\<lparr>uv_vault := updatedVault\<rparr> in
     sbind (persistForActiveSession (session_of g) sessionId vaultId
              (\<lambda>mem. persist_mutation (device_of g) mem vaultId syncState unlockedVault updatedUnlockedVault
                 sourceSnapshotVersionVector) None) (\<lambda>(persistedSnapshot, preparedRestore).
     sbind (if lms_synchronized syncState = None then sret Complete
            else case preparedRestore of
              None \<Rightarrow> sthrow Rollback_not_prepared
            | Some plan \<Rightarrow>
                uploadPersistedLocalMutation g vaultId syncState (ps_snapshot persistedSnapshot)
                  (tsc_snapshotDigest (ps_trustedSnapshotContext persistedSnapshot))
                  (ps_checkpoint persistedSnapshot) updatedUnlockedVault plan sessionId) (\<lambda>syncUpload.
      let committedUnlockedVault = updatedUnlockedVault\<lparr>
            uv_trustedSnapshotContext := ps_trustedSnapshotContext persistedSnapshot\<rparr> in
     sthen (if lms_synchronized syncState = None
            then commitPersistedSnapshot (session_of g) sessionId committedUnlockedVault
                   (ps_snapshotVersionVector persistedSnapshot) None
            else sthen (commitPersistedSnapshotIfSessionIsActive (session_of g) sessionId committedUnlockedVault
                   (ps_snapshotVersionVector persistedSnapshot) None) (sret ()))
     (sret \<lparr>mr_snapshotVersionVector = ps_snapshotVersionVector persistedSnapshot,
            mr_revisionTimestamp = ps_revisionTimestamp persistedSnapshot,
            mr_syncUpload = syncUpload,
            mr_syncConfigured = (lms_synchronized syncState \<noteq> None)\<rparr>))))))"

end
