(* ===== verification/Upload_Safety.thy ===== *)
theory Upload_Safety
  imports Mutation_Service
begin

text \<open>
  What the answers of an upload mean: an error that leaves the guard proves that nothing was
  written to the remote storage, so taking the local snapshot back is safe, and an upload is
  reported as complete only if it was written. Whatever is uncertain is reported as pending.
\<close>

section \<open>Steps that leave the rest of the program alone\<close>

text \<open>What a session operation does to the state outside of the session.\<close>

definition effect :: "('o, 'a) session_op \<Rightarrow> ('o \<Rightarrow> core_error + 'a \<Rightarrow> 'o \<Rightarrow> bool) \<Rightarrow> bool" where
  "effect m B \<longleftrightarrow> (\<forall>w. wp m (\<lambda>r w'. B (outside w) r (outside w')) w)"

definition quiet :: "('o, 'a) session_op \<Rightarrow> bool" where
  "quiet m \<longleftrightarrow> effect m (\<lambda>x _ y. y = x)"

named_theorems quiet_intros \<open>session operations that only work on the session\<close>

lemma quiet_iff: "quiet m \<longleftrightarrow> (\<forall>w. outside (snd (m w)) = outside w)"
  by (simp add: quiet_def effect_def wp_run)

lemma quiet_basic [quiet_intros]:
  "quiet (sret a)" "quiet (sthrow e)" "quiet (sread f)" "quiet (srequire c e)" "quiet (slift r)" "quiet (sfinish x a)"
  "quiet (allocate bs)"
  by (auto simp: quiet_iff sret_def sthrow_def sread_def srequire_def slift_def sfinish_def allocate_def
      split: sum.splits option.splits)

lemma quiet_smodify [quiet_intros]: "(\<And>w. outside (f w) = outside w) \<Longrightarrow> quiet (smodify f)"
  by (simp add: quiet_iff smodify_def)

lemma quiet_external [quiet_intros]: "(\<And>w. outside (f w) = outside w) \<Longrightarrow> quiet (external env f)"
  by (simp add: quiet_iff external_def Let_def split: call_outcome.splits)

lemma quiet_sbind [quiet_intros]: "quiet m \<Longrightarrow> (\<And>a. quiet (f a)) \<Longrightarrow> quiet (sbind m f)"
  unfolding quiet_iff by (auto simp: sbind_def split: prod.splits sum.splits) (metis snd_conv)+

lemma quiet_sthen [quiet_intros]: "quiet m \<Longrightarrow> quiet n \<Longrightarrow> quiet (sthen m n)"
  unfolding sthen_def by (rule quiet_sbind)

lemma quiet_stry [quiet_intros]: "quiet m \<Longrightarrow> quiet (stry m)"
  by (simp add: quiet_iff stry_def split: prod.splits) (metis snd_conv)

lemma quiet_scatch [quiet_intros]: "quiet m \<Longrightarrow> (\<And>e. quiet (h e)) \<Longrightarrow> quiet (scatch m h)"
  unfolding quiet_iff by (auto simp: scatch_def split: prod.splits sum.splits) (metis snd_conv)+

lemma quiet_sfinally [quiet_intros]: "quiet m \<Longrightarrow> (\<And>w. outside (f w) = outside w) \<Longrightarrow> quiet (sfinally m f)"
  by (simp add: quiet_iff sfinally_def split: prod.splits) (metis snd_conv)

lemma quiet_cases [quiet_intros]:
  "quiet m \<Longrightarrow> quiet n \<Longrightarrow> quiet (if c then m else n)"
  "quiet m \<Longrightarrow> (\<And>a. quiet (f a)) \<Longrightarrow> quiet (case x of None \<Rightarrow> m | Some a \<Rightarrow> f a)"
  "(\<And>a. quiet (p a)) \<Longrightarrow> (\<And>b. quiet (q b)) \<Longrightarrow> quiet (case y of Inl a \<Rightarrow> p a | Inr b \<Rightarrow> q b)"
  "(\<And>a b. quiet (s a b)) \<Longrightarrow> quiet (case z of (a, b) \<Rightarrow> s a b)"
  by (auto split: option.splits sum.splits prod.splits)

lemma outside_wipe [simp]:
  "outside (secureWipe b w) = outside w" "outside (bestEffortWipeArrayBuffers bs w) = outside w"
  "outside (wipeMaterial m w) = outside w" "outside (wipeReplacedMaterial p c w) = outside w"
  "outside (set_invalidation i w) = outside w" "outside (next_generation w) = outside w"
proof -
  show wipe: "outside (secureWipe b w) = outside w" for b and w :: "'a session_world"
    by (simp add: secureWipe_def)
  show all: "outside (bestEffortWipeArrayBuffers bs w) = outside w" for bs and w :: "'a session_world"
    unfolding bestEffortWipeArrayBuffers_def
    by (induction bs arbitrary: w) (auto simp: wipe split: option.splits)
  show "outside (wipeMaterial m w) = outside w" "outside (wipeReplacedMaterial p c w) = outside w"
    by (simp_all add: wipeMaterial_def wipeReplacedMaterial_def all)
qed (simp_all add: set_invalidation_def next_generation_def)

section \<open>The session service works on the session\<close>

lemma quiet_storage [quiet_intros]:
  "quiet (deserializeUnlockedVaultSessionMaterial env m)" "quiet (deserializeUnlockedVaultSessionIdentity env m)"
  "quiet (saveUnlockedVaultSessionMaterial env mat)" "quiet (getUnlockedVaultSessionMaterial env)"
  "quiet (getPersistedUnlockedVaultSessionIdentity env)" "quiet (readUnlockedVaultSessionEpoch env)"
  "quiet (getUnlockedVaultSessionEpoch env)" "quiet (advanceUnlockedVaultSessionEpoch env)"
  "quiet (evictCachedUnlockedVaultSessionMaterial s)" "quiet (removeUnlockedVaultSessionMaterial env)"
  "quiet (saveEncryptedUnlockedVaultSessionPayload env p)" "quiet (getEncryptedUnlockedVaultSessionPayload env)"
  "quiet (removeEncryptedUnlockedVaultSessionPayload env)"
proof -
  show material: "quiet (deserializeUnlockedVaultSessionMaterial env m)" for m
    unfolding deserializeUnlockedVaultSessionMaterial_def by (intro quiet_intros)
  show identity: "quiet (deserializeUnlockedVaultSessionIdentity env m)" for m
    unfolding deserializeUnlockedVaultSessionIdentity_def by (intro quiet_intros material) simp
  show "quiet (saveUnlockedVaultSessionMaterial env mat)"
    unfolding saveUnlockedVaultSessionMaterial_def by (intro quiet_intros) simp_all
  show "quiet (getUnlockedVaultSessionMaterial env)"
    unfolding getUnlockedVaultSessionMaterial_def by (intro quiet_intros material) simp_all
  show "quiet (getPersistedUnlockedVaultSessionIdentity env)"
    unfolding getPersistedUnlockedVaultSessionIdentity_def by (intro quiet_intros identity) simp_all
  show epoch: "quiet (readUnlockedVaultSessionEpoch env)"
    unfolding readUnlockedVaultSessionEpoch_def by (intro quiet_intros) simp_all
  show "quiet (getUnlockedVaultSessionEpoch env)"
    unfolding getUnlockedVaultSessionEpoch_def by (rule epoch)
  show "quiet (advanceUnlockedVaultSessionEpoch env)"
    unfolding advanceUnlockedVaultSessionEpoch_def by (intro quiet_intros epoch) simp_all
  show "quiet (evictCachedUnlockedVaultSessionMaterial s)"
    unfolding evictCachedUnlockedVaultSessionMaterial_def by (intro quiet_intros) (simp split: option.splits)
  show "quiet (removeUnlockedVaultSessionMaterial env)"
    unfolding removeUnlockedVaultSessionMaterial_def by (intro quiet_intros) simp_all
  show "quiet (saveEncryptedUnlockedVaultSessionPayload env p)" "quiet (getEncryptedUnlockedVaultSessionPayload env)"
      "quiet (removeEncryptedUnlockedVaultSessionPayload env)"
    unfolding saveEncryptedUnlockedVaultSessionPayload_def getEncryptedUnlockedVaultSessionPayload_def
      removeEncryptedUnlockedVaultSessionPayload_def
    by (intro quiet_intros; simp)+
qed

lemma quiet_reconcile [quiet_intros]: "quiet (reconcile_with_storage env)"
  unfolding reconcile_with_storage_def reconcileActiveMaterial_def reconcile_cached_def Let_def
  by (intro quiet_intros) simp_all

lemma quiet_removal [quiet_intros]:
  "quiet (removeSessionRecords env known)"
  "quiet (revokeAuthorizationsAndRemoveSessionRecordsPreservingRootCause env known)"
proof -
  show records: "quiet (removeSessionRecords env known)"
    unfolding removeSessionRecords_def by (intro quiet_intros) (simp_all split: SessionInvalidationState.splits)
  show "quiet (revokeAuthorizationsAndRemoveSessionRecordsPreservingRootCause env known)"
    unfolding revokeAuthorizationsAndRemoveSessionRecordsPreservingRootCause_def
      revokeAuthorizationsAndRemoveSessionRecords_def
    by (intro quiet_intros records)
qed

lemma quiet_restore [quiet_intros]: "quiet (restoreSession env)"
  unfolding restoreSession_def restore_stored_payload_def restore_def requireMatchingSessionRecords_def
    decryptUnlockedVaultSessionPayload_def Let_def
  by (intro quiet_intros) simp_all

section \<open>Operations with a callback\<close>

lemma wp_effect: "effect m B \<Longrightarrow> (\<And>r w'. B (outside w) r (outside w') \<Longrightarrow> Q r w') \<Longrightarrow> wp m Q w"
  by (auto simp: effect_def wp_run)

lemma effect_weaken: "effect m A \<Longrightarrow> (\<And>x r y. A x r y \<Longrightarrow> B x r y) \<Longrightarrow> effect m B"
  by (auto simp: effect_def wp_run)

lemma effect_quiet: "quiet m \<Longrightarrow> (\<And>x r. B x r x) \<Longrightarrow> effect m B"
  by (auto simp: effect_def quiet_def wp_run)

lemma effect_after_quiet:
  assumes "quiet m" "\<And>a. effect (f a) B" "\<And>x e. B x (Inl e) x"
  shows "effect (sbind m f) B"
  using assms by (auto simp: effect_def quiet_def wp_run sbind_def split: prod.splits sum.splits) (metis fst_conv snd_conv)+

lemma effect_option:
  "effect m B \<Longrightarrow> (\<And>a. effect (f a) B) \<Longrightarrow> effect (case x of None \<Rightarrow> m | Some a \<Rightarrow> f a) B"
  by (simp split: option.splits)

lemma effect_sthrow: "(\<And>x. B x (Inl e) x) \<Longrightarrow> effect (sthrow e) B"
  by (simp add: effect_def wp_simps)

lemma effect_callout: "(\<And>mem x. B x (fst (f mem x)) (snd (f mem x))) \<Longrightarrow> effect (callout f) B"
  by (simp add: effect_def wp_def callout_def split_beta)

lemma effect_coordinated:
  assumes "effect operation B" "\<And>x e. B x (Inl e) x"
  shows "effect (runCoordinatedSessionMutation lease operation) B"
proof -
  have lease: "wp (run_with_lease operation l) (\<lambda>r w'. B (outside w) r (outside w')) w" for l w
    using assms by (auto simp: run_with_lease_def wp_simps effect_def)
  have "wp (runExclusive (run_with_lease operation)) (\<lambda>r w'. B (outside w) r (outside w')) w" for w
    using lease [of "next_lease w" "w\<lparr>next_lease := Suc (next_lease w), activeLeases := next_lease w # activeLeases w\<rparr>"]
    by (simp add: runExclusive_def wp_simps)
  with lease show ?thesis
    by (simp add: effect_def runCoordinatedSessionMutation_def split: option.splits)
qed

text \<open>The callback is the last thing that is done, if it is reached at all.\<close>

lemma run_with_context_effect:
  assumes "\<And>session mem x. B x (fst (run session mem x)) (snd (run session mem x))" "\<And>x e. B x (Inl e) x"
  shows "effect (runWithUnlockedVaultContext env vaultId operation run lease) B"
  unfolding runWithUnlockedVaultContext_def
  by (intro effect_coordinated effect_after_quiet quiet_intros effect_option)
    (auto intro: assms effect_sthrow effect_callout)

lemma active_session_effect:
  assumes "\<And>uv mem x. B x (fst (run uv mem x)) (snd (run uv mem x))" "\<And>x e. B x (Inl e) x"
  shows "effect (runForActiveSession g sessionId vaultId operation run) B"
  unfolding runForActiveSession_def
  by (rule run_with_context_effect) (auto simp: assms sthrow_def)

text \<open>A relation between the states before and after, whatever the result.\<close>

lemma effect_transitive:
  fixes m :: "('o, 'a) session_op"
  assumes "effect m (\<lambda>x _ y. C x y)" "\<And>a. effect (f a) (\<lambda>x _ y. C x y)" "transp C"
  shows "effect (sbind m f) (\<lambda>x _ y. C x y)"
  unfolding effect_def wp_sbind
proof
  fix w :: "'o session_world"
  have later: "wp (f a) (\<lambda>_ t'. C (outside w) (outside t')) t" if "C (outside w) (outside t)" for a t
    using assms(2) by (rule wp_effect) (rule transpD [OF assms(3) that])
  show "wp m (\<lambda>r t. case r of Inl e \<Rightarrow> C (outside w) (outside t)
      | Inr a \<Rightarrow> wp (f a) (\<lambda>_ t'. C (outside w) (outside t')) t) w"
    by (rule wp_effect [OF assms(1)]) (auto intro: later split: sum.splits)
qed

lemma effect_stry: "effect m (\<lambda>x _ y. C x y) \<Longrightarrow> effect (stry m) (\<lambda>x _ y. C x y)"
  by (simp add: effect_def wp_stry)

lemma restore_effect:
  assumes "\<And>mem x. C x (snd (run mem x))" "reflp C" "transp C"
  shows "effect (restorePersistedState env sessionId vaultId v run lease) (\<lambda>x _ y. C x y)"
proof -
  have q: "effect m (\<lambda>x _ y. C x y)" if "quiet m" for m :: "('a, 'c) session_op"
    using that assms(2) by (auto intro: effect_quiet dest: reflpD)
  have run: "effect (run_restore env material sessionId vaultId run) (\<lambda>x _ y. C x y)" for material
    unfolding run_restore_def
    by (intro effect_transitive [OF effect_stry [OF effect_callout] _ assms(3)] assms(1) q quiet_intros)
  have inner: "effect (restore_persisted_state env sessionId vaultId v run) (\<lambda>x _ y. C x y)"
    unfolding restore_persisted_state_def
    by (intro effect_transitive [OF q _ assms(3)] quiet_intros)
      (auto simp: sthen_def quiet_basic quiet_stry quiet_storage quiet_smodify split: sum.splits prod.splits
        intro!: run effect_transitive [OF q _ assms(3)] q [OF quiet_basic(1)])
  show ?thesis
    unfolding restorePersistedState_def
    by (intro effect_transitive [OF q _ assms(3)] quiet_intros)
      (auto intro!: effect_coordinated inner q [OF quiet_basic(1)] reflpD [OF assms(2)])
qed

section \<open>Steps of the device that leave the remote storage alone\<close>

definition keeps_remote :: "('r, 'a) service \<Rightarrow> bool" where
  "keeps_remote m \<longleftrightarrow> (\<forall>w. remote_store (snd (m w)) = remote_store w)"

named_theorems remote_intros \<open>steps of the device that leave the remote storage alone\<close>

lemma keeps_remote_basic [remote_intros]:
  "keeps_remote (sret a)" "keeps_remote (sthrow e)" "keeps_remote (srequire c e)" "keeps_remote (slift r)"
  "keeps_remote (repository env operation)" "keeps_remote (crypto_call env f)"
  by (auto simp: keeps_remote_def sret_def sthrow_def srequire_def slift_def repository_def crypto_call_def Let_def
      split: sum.splits call_outcome.splits prod.splits)

lemma keeps_remote_sbind [remote_intros]: "keeps_remote m \<Longrightarrow> (\<And>a. keeps_remote (f a)) \<Longrightarrow> keeps_remote (sbind m f)"
  unfolding keeps_remote_def by (auto simp: sbind_def split: prod.splits sum.splits) (metis snd_conv)+

lemma keeps_remote_sthen [remote_intros]: "keeps_remote m \<Longrightarrow> keeps_remote n \<Longrightarrow> keeps_remote (sthen m n)"
  unfolding sthen_def by (rule keeps_remote_sbind)

lemma keeps_remote_scatch [remote_intros]:
  "keeps_remote m \<Longrightarrow> (\<And>e. keeps_remote (h e)) \<Longrightarrow> keeps_remote (scatch m h)"
  unfolding keeps_remote_def by (auto simp: scatch_def split: prod.splits sum.splits) (metis snd_conv)+

lemma keeps_remote_cases [remote_intros]:
  "keeps_remote m \<Longrightarrow> keeps_remote n \<Longrightarrow> keeps_remote (if c then m else n)"
  "keeps_remote m \<Longrightarrow> (\<And>a. keeps_remote (f a)) \<Longrightarrow> keeps_remote (case x of None \<Rightarrow> m | Some a \<Rightarrow> f a)"
  by (auto split: option.splits)

lemma keeps_remote_credentials [remote_intros]: "keeps_remote (requireSyncCredentialState env mem k uv)"
  unfolding requireSyncCredentialState_def decrypt_credentials_def Let_def by (intro remote_intros)

lemma keeps_remote_staging [remote_intros]:
  "keeps_remote (stagePendingSnapshotUpload env mem params pending)"
  "keeps_remote (restagePendingSnapshotUpload env mem params pending)"
  "keeps_remote (tryReplaceSyncCredentialState env s d c e t)"
  "keeps_remote (tryClearPendingSnapshotUpload env s d c e t)"
  "keeps_remote (restorePreparedLocalVaultSnapshot env plan d c x)"
  unfolding stagePendingSnapshotUpload_def restagePendingSnapshotUpload_def tryReplaceSyncCredentialState_def
    tryClearPendingSnapshotUpload_def restorePreparedLocalVaultSnapshot_def replace_credentials_def save_snapshot_def
    encryptDeviceSyncCredentialStateWithoutPending_def encrypt_credentials_def Let_def
  by (intro remote_intros)+

section \<open>Providers that tell the truth\<close>

text \<open>
  \<open>commits\<close> counts the uploads of this device that the remote storage has accepted. Preparing an
  upload changes nothing, an upload that is \<open>definitely_not_committed\<close> has not been accepted, one
  that is \<open>committed\<close> has been accepted once; nothing is assumed of the other answers or of errors.
\<close>

definition answered :: "('r \<Rightarrow> nat) \<Rightarrow> 'r \<Rightarrow> json \<Rightarrow> 'r \<Rightarrow> bool" where
  "answered commits s value s' \<longleftrightarrow>
     (case decodeSyncProviderUploadOutcome value of
        Inr (Definitely_not_committed _) \<Rightarrow> commits s' = commits s
      | Inr Committed \<Rightarrow> commits s' = Suc (commits s)
      | _ \<Rightarrow> True)"

definition truthful_upload :: "('r \<Rightarrow> nat) \<Rightarrow> ('r, core_error, 'r started_upload) stateful \<Rightarrow> bool" where
  "truthful_upload commits start \<longleftrightarrow>
     (\<forall>s. wp start (\<lambda>r t. \<forall>awaited. r = Inr awaited \<longrightarrow>
        wp awaited (\<lambda>r t'. \<forall>value. r = Inr value \<longrightarrow> answered commits s value t') t) s)"

definition truthful_provider :: "('r \<Rightarrow> nat) \<Rightarrow> 'r sync_provider \<Rightarrow> bool" where
  "truthful_provider commits p \<longleftrightarrow>
     (\<forall>access snapshot expected s. wp (prepareVaultSnapshotUpload p access snapshot expected)
        (\<lambda>r t. commits t = commits s \<and> (\<forall>start. r = Inr (Ready_upload start) \<longrightarrow> truthful_upload commits start)) s)"

text \<open>What an operation of the guard did remotely, by its result.\<close>

definition upload_meaning :: "('r \<Rightarrow> nat) \<Rightarrow> 'r device_world \<Rightarrow> core_error + SyncUploadStatus \<Rightarrow> 'r device_world \<Rightarrow> bool" where
  "upload_meaning commits x r y \<longleftrightarrow>
     (let before = commits (remote_store x); after = commits (remote_store y) in
      case r of Inl e \<Rightarrow> after = before | Inr Complete \<Rightarrow> after = Suc before | Inr Pending \<Rightarrow> True)"

section \<open>The meaning of the results\<close>

abbreviation answer_meaning :: "('r \<Rightarrow> nat) \<Rightarrow> 'r device_world \<Rightarrow> core_error + json \<Rightarrow> 'r device_world \<Rightarrow> bool" where
  "answer_meaning commits x r y \<equiv>
     (case r of Inl e \<Rightarrow> commits (remote_store y) = commits (remote_store x)
      | Inr value \<Rightarrow> answered commits (remote_store x) value (remote_store y))"

lemma provider_call_fields [simp]:
  "fst (provider_call m w) = fst (m (remote_store w))"
  "remote_store (snd (provider_call m w)) = snd (m (remote_store w))"
  by (simp_all add: provider_call_def split_beta)

lemma unknown_is_answered [simp]: "answered commits s (outcome_json Outcome_unknown) s'"
  unfolding answered_def outcome_decodes by simp

lemma wp_awaited:
  "wp (scatch (outside_session (provider_call awaited)) (\<lambda>_. sret v)) Q t =
     (let (r, s) = awaited (remote_store (outside t)) in
      Q (case r of Inl e \<Rightarrow> Inr v | Inr a \<Rightarrow> Inr a) (t\<lparr>outside := (outside t)\<lparr>remote_store := s\<rparr>\<rparr>))"
  by (simp add: wp_def scatch_def outside_session_def callout_def provider_call_def sret_def
      split: prod.splits sum.splits)

lemma start_meaning:
  assumes "truthful_upload commits start"
  shows "effect (startPreparedUpload g sessionId vaultId operation start) (answer_meaning commits)"
  unfolding effect_def startPreparedUpload_def wp_sbind
proof
  fix w
  have started: "effect (runForActiveSession g sessionId vaultId operation (\<lambda>_ _. stry (provider_call start)))
      (\<lambda>x r y. case r of Inl e \<Rightarrow> remote_store y = remote_store x
         | Inr started \<Rightarrow> (started, remote_store y) = start (remote_store x))"
    by (rule active_session_effect) (simp_all add: stry_def split_beta)
  have awaited: "answered commits s answer (snd (awaited t))"
    if "start s = (Inr awaited, t)" "fst (awaited t) = Inr answer" for s awaited t answer
    using assms that by (auto simp: truthful_upload_def wp_run dest!: spec [of _ s])
  show "wp (runForActiveSession g sessionId vaultId operation (\<lambda>_ _. stry (provider_call start)))
      (\<lambda>r t. case r of Inl e \<Rightarrow> answer_meaning commits (outside w) (Inl e) (outside t)
         | Inr a \<Rightarrow> wp (case a of Inl e \<Rightarrow> sret (outcome_json Outcome_unknown)
            | Inr awaited \<Rightarrow> scatch (outside_session (provider_call awaited)) (\<lambda>_. sret (outcome_json Outcome_unknown)))
           (\<lambda>r w'. answer_meaning commits (outside w) r (outside w')) t) w"
    by (rule wp_effect [OF started])
      (auto simp: wp_awaited wp_sret split_beta simp del: outcome_json.simps split: sum.splits
        intro: awaited dest: sym)
qed

text \<open>The status that an answer becomes keeps its meaning.\<close>

lemma status_meaning:
  assumes "answered commits s answer s'"
  shows "case resolveSyncProviderUploadStatus vaultId answer of
     Inl e \<Rightarrow> commits s' = commits s | Inr Complete \<Rightarrow> commits s' = Suc (commits s) | Inr Pending \<Rightarrow> True"
  using assms
  by (simp add: resolve_status answered_def split: sum.splits SyncUploadOutcome.splits non_commit_reason.splits)

lemma non_started_meaning:
  assumes "resolveNonStartedSyncProviderUploadOutcome outcome = Inr r"
  shows "answered commits s (outcome_json r) s"
  using assms
  by (auto simp: resolveNonStartedSyncProviderUploadOutcome_def resolve_outcome answered_def simp del: outcome_json.simps
      split: sum.splits SyncUploadOutcome.splits)

lemma non_started_total: "\<exists>r. resolveNonStartedSyncProviderUploadOutcome outcome = Inr r"
  by (simp add: resolveNonStartedSyncProviderUploadOutcome_def resolve_outcome)

lemma wp_outside: "wp (outside_session m) Q w = (let (r, d) = m (outside w) in Q r (w\<lparr>outside := d\<rparr>))"
  by (simp add: wp_def outside_session_def callout_def split: prod.splits)

lemma attempt_meaning:
  fixes g :: "'r guard_env"
  assumes "truthful_provider commits (provider_of g)"
  shows "effect (attempt_upload g params operation expected) (upload_meaning commits)"
  unfolding effect_def attempt_upload_def
proof
  fix w :: "'r device_world session_world"
  let ?prepare = "prepareVaultSnapshotUpload (provider_of g) (up_syncAccess params) (up_snapshot params) expected"
  obtain r s where prepare: "?prepare (remote_store (outside w)) = (r, s)" by fastforce
  have same: "commits s = commits (remote_store (outside w))"
    and truthful: "\<And>start. r = Inr (Ready_upload start) \<Longrightarrow> truthful_upload commits start"
    using assms prepare by (auto simp: truthful_provider_def wp_def split: prod.splits)
  define t where "t = w\<lparr>outside := (outside w)\<lparr>remote_store := s\<rparr>\<rparr>"
  have before: "commits (remote_store (outside t)) = commits (remote_store (outside w))"
    by (simp add: t_def same)
  have answer: "upload_meaning commits (outside w) (resolveSyncProviderUploadStatus (up_vaultId params) answer) (outside t')"
    if "answered commits (remote_store (outside t)) answer (remote_store (outside t'))" for answer and t' :: "'r device_world session_world"
    using status_meaning [OF that, of "up_vaultId params"] unfolding upload_meaning_def before Let_def .
  have failed: "upload_meaning commits (outside w) (Inl e) (outside t')"
    if "commits (remote_store (outside t')) = commits (remote_store (outside t))" for e and t' :: "'r device_world session_world"
    using that by (simp add: upload_meaning_def before)
  let ?continue = "\<lambda>preparedUpload.
     sbind (case preparedUpload of
              Upload_not_started outcome \<Rightarrow>
                slift (rbind (resolveNonStartedSyncProviderUploadOutcome outcome) (\<lambda>r. Inr (outcome_json r)))
            | Ready_upload start \<Rightarrow>
                startPreparedUpload g (up_sessionId params) (up_vaultId params) operation start) (\<lambda>uploadOutcome.
     slift (resolveSyncProviderUploadStatus (up_vaultId params) uploadOutcome))"
  have "wp (?continue prepared) (\<lambda>r w'. upload_meaning commits (outside w) r (outside w')) t"
    if "r = Inr prepared" for prepared
  proof (cases prepared)
    case (Ready_upload start)
    then show ?thesis
      using truthful that
      by (auto simp: wp_sbind wp_slift intro!: wp_effect [OF start_meaning] split: sum.splits intro: answer failed)
  next
    case (Upload_not_started outcome)
    obtain u where "resolveNonStartedSyncProviderUploadOutcome outcome = Inr u"
      using non_started_total by blast
    with Upload_not_started show ?thesis
      by (simp add: wp_sbind wp_slift answer non_started_meaning del: outcome_json.simps)
  qed
  then show "wp (sbind (outside_session (provider_call ?prepare)) ?continue)
      (\<lambda>r w'. upload_meaning commits (outside w) r (outside w')) w"
    using failed [of t]
    by (cases r) (simp_all add: wp_sbind wp_outside provider_call_def prepare t_def)
qed

lemma device_step_effect:
  assumes "\<And>uv mem. keeps_remote (run uv mem)"
  shows "effect (runForActiveSession g sessionId vaultId operation run) (\<lambda>x _ y. remote_store y = remote_store x)"
  by (rule active_session_effect) (use assms in \<open>auto simp: keeps_remote_def\<close>)

lemma meaning_same_remote:
  "remote_store y = remote_store z \<Longrightarrow> upload_meaning commits x r z \<Longrightarrow> upload_meaning commits x r y"
  "remote_store y = remote_store x \<Longrightarrow> upload_meaning commits y r z \<Longrightarrow> upload_meaning commits x r z"
  by (simp_all add: upload_meaning_def)

lemma meaning_unchanged [simp]:
  "remote_store y = remote_store x \<Longrightarrow> upload_meaning commits x (Inl e) y"
  "upload_meaning commits x (Inr Pending) y"
  by (simp_all add: upload_meaning_def)

text \<open>Rules for sequences: steps before, after and instead of an upload.\<close>

lemma meaning_after:
  fixes m :: "('r device_world, 'a) session_op"
  assumes "effect m (\<lambda>x _ y. remote_store y = remote_store x)" "\<And>a. effect (f a) (upload_meaning commits)"
  shows "effect (sbind m f) (upload_meaning commits)"
  unfolding effect_def wp_sbind
proof
  fix w :: "'r device_world session_world"
  show "wp m (\<lambda>r t. case r of Inl e \<Rightarrow> upload_meaning commits (outside w) (Inl e) (outside t)
      | Inr a \<Rightarrow> wp (f a) (\<lambda>r w'. upload_meaning commits (outside w) r (outside w')) t) w"
    by (rule wp_effect [OF assms(1)])
      (auto intro!: wp_effect [OF assms(2)] intro: meaning_same_remote split: sum.splits)
qed

lemma meaning_before:
  fixes m :: "('r device_world, SyncUploadStatus) session_op"
  assumes "effect m (upload_meaning commits)"
    and "\<And>a. effect (f a) (\<lambda>x r y. remote_store y = remote_store x \<and>
      (\<exists>s. r = Inr s \<and> (s = Complete \<longrightarrow> a = Complete)))"
  shows "effect (sbind m f) (upload_meaning commits)"
  unfolding effect_def wp_sbind
proof
  fix w :: "'r device_world session_world"
  have later: "upload_meaning commits (outside w) (Inr s) (outside t')"
    if "upload_meaning commits (outside w) (Inr a) (outside t)" "remote_store (outside t') = remote_store (outside t)"
      "s = Complete \<longrightarrow> a = Complete" for s a and t t' :: "'r device_world session_world"
    using that by (cases s) (auto simp: upload_meaning_def)
  show "wp m (\<lambda>r t. case r of Inl e \<Rightarrow> upload_meaning commits (outside w) (Inl e) (outside t)
      | Inr a \<Rightarrow> wp (f a) (\<lambda>r w'. upload_meaning commits (outside w) r (outside w')) t) w"
    by (rule wp_effect [OF assms(1)]) (auto intro!: wp_effect [OF assms(2)] intro: later split: sum.splits)
qed

lemma meaning_handler:
  fixes m :: "('r device_world, SyncUploadStatus) session_op"
  assumes "effect m (upload_meaning commits)"
    and "\<And>e. effect (h e) (\<lambda>x r y. remote_store y = remote_store x \<and> (\<exists>e. r = Inl e))"
  shows "effect (scatch m h) (upload_meaning commits)"
  unfolding effect_def wp_scatch
proof
  fix w :: "'r device_world session_world"
  have later: "upload_meaning commits (outside w) (Inl e') (outside t')"
    if "upload_meaning commits (outside w) (Inl e) (outside t)" "remote_store (outside t') = remote_store (outside t)"
    for e e' and t t' :: "'r device_world session_world"
    using that by (simp add: upload_meaning_def)
  show "wp m (\<lambda>r t. case r of Inl e \<Rightarrow> wp (h e) (\<lambda>r w'. upload_meaning commits (outside w) r (outside w')) t
      | Inr a \<Rightarrow> upload_meaning commits (outside w) (Inr a) (outside t)) w"
    by (rule wp_effect [OF assms(1)]) (auto intro!: wp_effect [OF assms(2)] intro: later split: sum.splits)
qed

text \<open>What follows a completed upload, and what follows an error.\<close>

lemma finish_meaning:
  "effect (if status = Pending then sret Pending else finish_upload g params operation clear expected)
     (\<lambda>x r y. remote_store y = remote_store x \<and> (\<exists>s. r = Inr s \<and> (s = Complete \<longrightarrow> status = Complete)))"
proof -
  have "wp (finish_upload g params operation clear expected)
     (\<lambda>r w'. remote_store (outside w') = remote_store (outside w) \<and> (\<exists>s. r = Inr s)) w" for w
    unfolding finish_upload_def wp_sbind wp_stry
    by (rule wp_effect [OF device_step_effect]) (auto intro: remote_intros simp: wp_sret)
  then show ?thesis
    by (cases status) (auto simp: effect_def wp_run sret_def)
qed

lemma handler_meaning:
  assumes "\<And>uv mem. keeps_remote (run uv mem)"
  shows "effect (sthen (stry (runForActiveSession g sessionId vaultId operation run)) (sthrow e))
     (\<lambda>x r y. remote_store y = remote_store x \<and> (\<exists>e. r = Inl e))"
  unfolding effect_def wp_sthen wp_stry
proof
  fix w
  show "wp (runForActiveSession g sessionId vaultId operation run) (\<lambda>r t. case Inr r of
        Inl e \<Rightarrow> remote_store (outside t) = remote_store (outside w) \<and> (\<exists>e'. Inl e = Inl e')
      | Inr a \<Rightarrow> wp (sthrow e) (\<lambda>r w'. remote_store (outside w') = remote_store (outside w) \<and> (\<exists>e. r = Inl e)) t) w"
    by (rule wp_effect [OF device_step_effect]) (auto intro: assms simp: wp_sthrow)
qed

lemma staged_meaning:
  "truthful_provider commits (provider_of g) \<Longrightarrow>
     effect (upload_staged g params expected intent) (upload_meaning commits)"
  unfolding upload_staged_def by (intro meaning_before attempt_meaning finish_meaning)

lemma retry_meaning:
  "truthful_provider commits (provider_of g) \<Longrightarrow>
     effect (retryPendingSnapshotUpload g params pending) (upload_meaning commits)"
  unfolding retryPendingSnapshotUpload_def
  by (intro meaning_after meaning_before meaning_handler attempt_meaning finish_meaning handler_meaning
      device_step_effect remote_intros)

lemma tracked_meaning:
  fixes g :: "'r guard_env"
  assumes "truthful_provider commits (provider_of g)"
  shows "effect (uploadTrackedSnapshot g params expected)
    (\<lambda>x r y. \<exists>staged result. r = Inr (staged, result) \<and> upload_meaning commits x result y)"
  unfolding effect_def uploadTrackedSnapshot_def wp_sbind wp_stry
proof
  fix w :: "'r device_world session_world"
  have uploaded: "wp (sbind (stry (upload_staged g params expected intent)) (\<lambda>result. sret (Some intent, result)))
      (\<lambda>r w'. \<exists>staged result. r = Inr (staged, result) \<and> upload_meaning commits (outside w) result (outside w')) t"
    if "remote_store (outside t) = remote_store (outside w)" for intent t
    using that by (auto simp: wp_simps intro!: wp_effect [OF staged_meaning [OF assms]] intro: meaning_same_remote)
  show "wp (runForActiveSession g (up_sessionId params) (up_vaultId params) ''stage a snapshot upload''
       (\<lambda>active mem. stagePendingSnapshotUpload (device_of g) mem (authorized params active) (pending_of params expected)))
     (\<lambda>r t. case Inr r of
          Inl e \<Rightarrow> \<exists>staged result. Inl e = Inr (staged, result) \<and> upload_meaning commits (outside w) result (outside t)
        | Inr s \<Rightarrow> wp (case s of Inl e \<Rightarrow> sret (None, Inl e) | Inr Already_pending \<Rightarrow> sret (None, Inr Pending)
              | Inr (Staged intent) \<Rightarrow> sbind (stry (upload_staged g params expected intent)) (\<lambda>result. sret (Some intent, result)))
            (\<lambda>r w'. \<exists>staged result. r = Inr (staged, result) \<and> upload_meaning commits (outside w) result (outside w')) t) w"
    by (rule wp_effect [OF device_step_effect])
      (auto intro: remote_intros uploaded simp: wp_sret split: sum.splits staging.splits)
qed

lemma restore_keeps_remote:
  "effect (restorePersistedState env sessionId vaultId previous
     (\<lambda>_. restorePreparedLocalVaultSnapshot device plan digest checkpoint expected) None)
     (\<lambda>x _ y. remote_store y = remote_store x)"
  using keeps_remote_staging(5) [of device plan digest checkpoint expected]
  by (intro restore_effect) (auto simp: keeps_remote_def reflp_def transp_def)

lemma persisted_meaning:
  fixes g :: "'r guard_env"
  assumes "truthful_provider commits (provider_of g)"
  shows "effect (uploadPersistedSnapshot g params expected previous credentials plan) (upload_meaning commits)"
  unfolding effect_def uploadPersistedSnapshot_def
proof
  fix w :: "'r device_world session_world"
  let ?Q = "\<lambda>r w'. upload_meaning commits (outside w) r (outside w')"
  have rollback: "wp (sbind (restorePersistedState (session_of g) (up_sessionId params) (up_vaultId params) previous
        (\<lambda>_. restorePreparedLocalVaultSnapshot (device_of g) plan (up_snapshotDigest params)
           (up_checkpoint params) x) None) (\<lambda>rollbackResult. sthrow (h rollbackResult))) ?Q t"
    if "upload_meaning commits (outside w) (Inl e) (outside t)"
    for x e h and t :: "'r device_world session_world"
    unfolding wp_sbind
    by (rule wp_effect [OF restore_keeps_remote])
      (use that in \<open>auto simp: wp_sthrow upload_meaning_def split: sum.splits\<close>)
  show "wp (sbind (uploadTrackedSnapshot g params expected) (\<lambda>(staged, result). case result of
          Inr status \<Rightarrow> sret status
        | Inl e \<Rightarrow>
            (let vaultId = up_vaultId params;
                 expectedState = (case staged of None \<Rightarrow> credentials | Some intent \<Rightarrow> in_pending intent) in
             sbind (restorePersistedState (session_of g) (up_sessionId params) vaultId previous
                      (\<lambda>_. restorePreparedLocalVaultSnapshot (device_of g) plan (up_snapshotDigest params)
                         (up_checkpoint params) (Some (Some expectedState))) None) (\<lambda>rollbackResult.
             sthrow (if rollbackResult = Rollback_failed then PersistedVaultRollbackIncompleteError vaultId e
                     else if is_remote_changed e then Sync_error (SyncConflictDetectedError vaultId)
                     else e))))) ?Q w"
    unfolding wp_sbind [of "uploadTrackedSnapshot g params expected"] Let_def
    by (rule wp_effect [OF tracked_meaning [OF assms]])
      (auto simp: wp_sret intro: rollback split: sum.splits)
qed

end
