(* ===== verification/Vault_Codec.thy ===== *)
theory Vault_Codec
  imports Snapshot_Codec Vault_Consistency
begin

text \<open>
  The JSON form of the vault itself, the content of a snapshot (\<open>decodeVault\<close> and \<open>encodeVault\<close> of
  \<open>apps/extension/src/adapters/codecs/vault-snapshot.codec.ts\<close>). The decoder checks every item
  against the schemas of the input forms and the whole vault against the organisation rules, so a
  vault that the commands can build but the decoder refuses would be lost when the session ends;
  the lemmas below show that there is none.
\<close>

section \<open>Items\<close>

definition decodePasswordEntry :: "json \<Rightarrow> PasswordEntry option" where
  "decodePasswordEntry value =
     do { record \<leftarrow> exactRecord [''id'', ''password'', ''login'', ''tags'', ''sanitizedUrl'', ''folderId'',
            ''versionVector''] [] value;
          tags \<leftarrow> property_of record ''tags'' (array_of nonBlankString);
          if length (js_set tags) \<noteq> length tags then None
          else do {
            password \<leftarrow> property_of record ''password'' text_of;
            login \<leftarrow> property_of record ''login'' text_of;
            sanitizedUrl \<leftarrow> property_of record ''sanitizedUrl'' text_of;
            folderId \<leftarrow> property_of record ''folderId'' text_of;
            input \<leftarrow> passwordEntryInputSchema password login tags sanitizedUrl (Some folderId);
            entryId \<leftarrow> property_of record ''id'' nonBlankString;
            vector \<leftarrow> property_of record ''versionVector'' decodeVersionVector;
            Some \<lparr>e_id = entryId, e_password = ei_password input, e_login = ei_login input,
                  e_tags = ei_tags input, e_sanitizedUrl = ei_sanitizedUrl input,
                  e_folderId = ei_folderId input, e_versionVector = vector\<rparr> } }"

definition natural_of :: "json \<Rightarrow> nat option" where
  "natural_of v = (case v of JNum n \<Rightarrow> if 0 \<le> n then Some (nat n) else None | _ \<Rightarrow> None)"

definition decodeFolder :: "json \<Rightarrow> Folder option" where
  "decodeFolder value =
     do { record \<leftarrow> exactRecord [''id'', ''name'', ''icon'', ''parentId'', ''createdAt'', ''versionVector'']
            [''description''] value;
          folderId \<leftarrow> property_of record ''id'' text_of;
          name \<leftarrow> property_of record ''name'' text_of;
          icon \<leftarrow> property_of record ''icon'' text_of;
          description \<leftarrow> optional_property record ''description'' text_of;
          parentId \<leftarrow> property_of record ''parentId'' (nullable text_of);
          createdAt \<leftarrow> property_of record ''createdAt'' natural_of;
          input \<leftarrow> folderSchema \<lparr>fi_id = folderId, fi_name = name, fi_icon = icon,
            fi_description = description, fi_parentId = parentId, fi_createdAt = createdAt\<rparr>;
          vector \<leftarrow> property_of record ''versionVector'' decodeVersionVector;
          Some \<lparr>f_id = fi_id input, f_name = fi_name input, f_icon = fi_icon input,
                f_description = fi_description input, f_parentId = fi_parentId input,
                f_createdAt = fi_createdAt input, f_versionVector = vector\<rparr> }"

text \<open>The three kinds of deletion records differ in the check of the identity.\<close>

definition read_tombstone :: "(string \<Rightarrow> bool) \<Rightarrow> json \<Rightarrow> Tombstone option" where
  "read_tombstone idSchema value =
     do { record \<leftarrow> exactRecord [''id'', ''versionVector'', ''deletedAt''] [] value;
          itemId \<leftarrow> property_of record ''id'' text_of;
          if \<not> idSchema itemId then None
          else do {
            vector \<leftarrow> property_of record ''versionVector'' decodeVersionVector;
            deletedAt \<leftarrow> property_of record ''deletedAt'' safeNatural;
            Some \<lparr>del_id = itemId, del_versionVector = vector, del_deletedAt = deletedAt\<rparr> } }"

definition decodeDeletedFolder :: "json \<Rightarrow> Tombstone option" where
  "decodeDeletedFolder value = read_tombstone folderSchemaId value"

definition decodeDeletedPasswordEntry :: "json \<Rightarrow> Tombstone option" where
  "decodeDeletedPasswordEntry value = read_tombstone nonBlank value"

definition decodeDeletedTag :: "json \<Rightarrow> Tombstone option" where
  "decodeDeletedTag value = read_tombstone tagIdSchema value"

definition decodeDeletedDeviceProfile :: "json \<Rightarrow> Tombstone option" where
  "decodeDeletedDeviceProfile value = read_tombstone nonBlank value"

definition tagGroupSchema :: "TagGroup \<Rightarrow> TagGroup option" where
  "tagGroupSchema tagGroup =
     (case (text_schema 1 32 (g_name tagGroup), text_schema 1 128 (g_icon tagGroup),
            optional_text_schema 256 (g_description tagGroup)) of
        (Some name, Some icon, Some description) \<Rightarrow>
          if g_id tagGroup \<in> set tagGroupIdSchema \<and> g_baseColor tagGroup \<in> set tagColorSchema
          then Some (tagGroup\<lparr>g_name := name, g_icon := icon, g_description := description\<rparr>) else None
      | _ \<Rightarrow> None)"

definition decodeTagGroup :: "json \<Rightarrow> TagGroup option" where
  "decodeTagGroup value =
     do { record \<leftarrow> exactRecord [''id'', ''name'', ''icon'', ''baseColor''] [''description''] value;
          groupId \<leftarrow> property_of record ''id'' text_of;
          name \<leftarrow> property_of record ''name'' text_of;
          icon \<leftarrow> property_of record ''icon'' text_of;
          baseColor \<leftarrow> property_of record ''baseColor'' text_of;
          description \<leftarrow> optional_property record ''description'' text_of;
          tagGroupSchema \<lparr>g_id = groupId, g_name = name, g_icon = icon, g_baseColor = baseColor,
            g_description = description\<rparr> }"

definition decodeTag :: "json \<Rightarrow> Tag option" where
  "decodeTag value =
     do { record \<leftarrow> exactRecord [''id'', ''name'', ''groupId'', ''color'', ''shade'', ''createdAt'',
            ''versionVector''] [] value;
          tagId \<leftarrow> property_of record ''id'' text_of;
          name \<leftarrow> property_of record ''name'' text_of;
          groupId \<leftarrow> property_of record ''groupId'' text_of;
          color \<leftarrow> property_of record ''color'' text_of;
          shade \<leftarrow> property_of record ''shade'' natural_of;
          createdAt \<leftarrow> property_of record ''createdAt'' natural_of;
          input \<leftarrow> tagSchema \<lparr>ti_id = tagId, ti_name = name, ti_groupId = groupId, ti_color = color,
            ti_shade = shade, ti_createdAt = createdAt\<rparr>;
          vector \<leftarrow> property_of record ''versionVector'' decodeVersionVector;
          Some (tag_of_input input vector) }"

definition decodeDeviceProfile :: "json \<Rightarrow> DeviceProfile option" where
  "decodeDeviceProfile value =
     do { record \<leftarrow> exactRecord [''id'', ''name'', ''createdAt'', ''versionVector''] [] value;
          deviceId \<leftarrow> property_of record ''id'' nonBlankString;
          name \<leftarrow> property_of record ''name'' nonBlankString;
          createdAt \<leftarrow> property_of record ''createdAt'' safeNatural;
          vector \<leftarrow> property_of record ''versionVector'' decodeVersionVector;
          Some \<lparr>d_id = deviceId, d_name = name, d_createdAt = createdAt, d_versionVector = vector\<rparr> }"

section \<open>The rules of the whole vault\<close>

definition requireUniqueAcross :: "string list \<Rightarrow> string list \<Rightarrow> bool" where
  "requireUniqueAcross active deleted \<longleftrightarrow>
     (let ids = active @ deleted in length (js_set ids) = length ids)"

definition requireUniqueOrganizationNames :: "(string \<Rightarrow> string) \<Rightarrow> string list \<Rightarrow> bool" where
  "requireUniqueOrganizationNames nfkc items \<longleftrightarrow>
     (let names = map (normalizedName nfkc) items in length (js_set names) = length names)"

definition add_sibling :: "Folder \<Rightarrow> (string option \<times> Folder list) list \<Rightarrow> (string option \<times> Folder list) list" where
  "add_sibling folder siblings =
     (let sibling = (case map_of siblings (f_parentId folder) of None \<Rightarrow> [] | Some g \<Rightarrow> g)
      in AList.update (f_parentId folder) (sibling @ [folder]) siblings)"

definition siblings_by_parent :: "Folder list \<Rightarrow> (string option \<times> Folder list) list" where
  "siblings_by_parent folders = fold add_sibling folders []"

definition parent_of :: "Folder list \<Rightarrow> string \<Rightarrow> string option" where
  "parent_of folders i =
     (case find (\<lambda>candidate. f_id candidate = i) folders of
        None \<Rightarrow> None | Some folder \<Rightarrow> f_parentId folder)"

text \<open>
  The \<open>while\<close> loop climbs from a folder; every turn but the last adds a folder of the vault to
  \<open>visited\<close>, so it ends.
\<close>

definition ascent_measure :: "Folder list \<Rightarrow> string list \<Rightarrow> string option \<Rightarrow> nat" where
  "ascent_measure folders visited current =
     (case current of None \<Rightarrow> 0 | Some _ \<Rightarrow> Suc (card (f_id ` set folders - set visited)))"

lemma ascent_decreases:
  assumes "c \<notin> set visited"
  shows "ascent_measure folders (c # visited) (parent_of folders c) < ascent_measure folders visited (Some c)"
proof (cases "parent_of folders c")
  case None
  then show ?thesis by (simp add: ascent_measure_def)
next
  case (Some p)
  then have "c \<in> f_id ` set folders"
    by (auto simp: parent_of_def dest!: find_Some_D split: option.splits)
  with assms have "f_id ` set folders - set (c # visited) \<subset> f_id ` set folders - set visited"
    by auto
  then have "card (f_id ` set folders - set (c # visited)) < card (f_id ` set folders - set visited)"
    by (intro psubset_card_mono) auto
  with Some show ?thesis by (simp add: ascent_measure_def)
qed

function ascends :: "Folder list \<Rightarrow> string list \<Rightarrow> string option \<Rightarrow> bool" where
  "ascends folders visited parentId =
     (case parentId of
        None \<Rightarrow> True
      | Some p \<Rightarrow> if p \<in> set visited then False
                  else ascends folders (p # visited) (parent_of folders p))"
  by pat_completeness auto
termination
  by (relation "measure (\<lambda>(folders, visited, current). ascent_measure folders visited current)")
    (auto intro: ascent_decreases)

declare ascends.simps [simp del]

definition folder_has_root :: "Folder list \<Rightarrow> Folder \<Rightarrow> bool" where
  "folder_has_root folders folder \<longleftrightarrow> ascends folders [f_id folder] (f_parentId folder)"

definition organization_decodes :: "(string \<Rightarrow> string) \<Rightarrow> Vault \<Rightarrow> bool" where
  "organization_decodes nfkc v \<longleftrightarrow>
     requireUniqueAcross (map e_id (v_entries v)) (map del_id (v_deletedEntries v)) \<and>
     requireUniqueAcross (map d_id (v_deviceProfiles v)) (map del_id (v_deletedDeviceProfiles v)) \<and>
     requireUniqueAcross (map t_id (v_tags v)) (map del_id (v_deletedTags v)) \<and>
     requireUniqueAcross (map f_id (v_folders v)) (map del_id (v_deletedFolders v)) \<and>
     length (js_set (map g_id (v_tagGroups v))) = length (v_tagGroups v) \<and>
     requireUniqueOrganizationNames nfkc (map t_name (v_tags v)) \<and>
     requireUniqueOrganizationNames nfkc (map g_name (v_tagGroups v)) \<and>
     list_all (\<lambda>(_, sibling). requireUniqueOrganizationNames nfkc (map f_name sibling))
       (siblings_by_parent (v_folders v)) \<and>
     (let activeTagIds = js_set (map t_id (v_tags v));
          activeTagGroupIds = js_set (map g_id (v_tagGroups v));
          activeFolderIds = js_set (map f_id (v_folders v)) in
      \<not> list_ex (\<lambda>entry. list_ex (\<lambda>tagId. tagId \<notin> set activeTagIds) (e_tags entry)) (v_entries v) \<and>
      \<not> list_ex (\<lambda>tag. t_groupId tag \<notin> set activeTagGroupIds) (v_tags v) \<and>
      \<not> (list_ex (\<lambda>folder. case f_parentId folder of None \<Rightarrow> False | Some p \<Rightarrow> p \<notin> set activeFolderIds)
            (v_folders v) \<or>
          list_ex (\<lambda>entry. e_folderId entry \<noteq> UNCATEGORIZED_FOLDER_ID \<and>
            e_folderId entry \<notin> set activeFolderIds) (v_entries v))) \<and>
     list_all (folder_has_root (v_folders v)) (v_folders v)"

section \<open>The vault\<close>

definition read_sync_target :: "json \<Rightarrow> SyncTarget option" where
  "read_sync_target value =
     do { target \<leftarrow> exactRecord [''provider'', ''targetConfig''] [] value;
          if map_of target ''provider'' \<noteq> Some (JStr ''aws-s3-v1'') then None
          else do {
            config \<leftarrow> property_of target ''targetConfig'' decodeJsonValue;
            Some \<lparr>st_provider = ''aws-s3-v1'', st_targetConfig = config\<rparr> } }"

definition read_removal_pending :: "json \<Rightarrow> SyncRemovalPending option" where
  "read_removal_pending value =
     do { pending \<leftarrow> exactRecord [''expectedRemoteSnapshotIdentity'', ''rollbackSnapshot''] [] value;
          expected \<leftarrow> property_of pending ''expectedRemoteSnapshotIdentity'' (nullable decodeVaultSnapshotIdentity);
          rollback \<leftarrow> property_of pending ''rollbackSnapshot'' read_snapshot;
          Some \<lparr>srp_expectedRemoteSnapshotIdentity = expected, srp_rollbackSnapshot = rollback\<rparr> }"

definition read_revocation_pending :: "json \<Rightarrow> ProviderCredentialRevocationPending option" where
  "read_revocation_pending value =
     do { pending \<leftarrow> exactRecord [''revokedDeviceIds'', ''vaultKeyGeneration''] [] value;
          revoked \<leftarrow> property_of pending ''revokedDeviceIds'' (\<lambda>v. stringArray v True);
          generation \<leftarrow> property_of pending ''vaultKeyGeneration'' (safeInteger 1);
          Some \<lparr>pcr_revokedDeviceIds = revoked, pcr_vaultKeyGeneration = generation\<rparr> }"

definition read_vault :: "(string \<Rightarrow> string) \<Rightarrow> json \<Rightarrow> Vault option" where
  "read_vault nfkc value =
     do { record \<leftarrow> exactRecord [''versionVector'', ''entries'', ''deletedEntries'', ''deviceProfiles'',
            ''deletedDeviceProfiles'', ''tags'', ''deletedTags'', ''tagGroups'', ''folders'', ''deletedFolders'']
            [''syncTarget'', ''syncRemovalPending'', ''providerCredentialRevocationPending''] value;
          entries \<leftarrow> property_of record ''entries'' (array_of decodePasswordEntry);
          deletedEntries \<leftarrow> property_of record ''deletedEntries'' (array_of decodeDeletedPasswordEntry);
          deviceProfiles \<leftarrow> property_of record ''deviceProfiles'' (array_of decodeDeviceProfile);
          deletedDeviceProfiles \<leftarrow> property_of record ''deletedDeviceProfiles'' (array_of decodeDeletedDeviceProfile);
          tags \<leftarrow> property_of record ''tags'' (array_of decodeTag);
          deletedTags \<leftarrow> property_of record ''deletedTags'' (array_of decodeDeletedTag);
          tagGroups \<leftarrow> property_of record ''tagGroups'' (array_of decodeTagGroup);
          folders \<leftarrow> property_of record ''folders'' (array_of decodeFolder);
          deletedFolders \<leftarrow> property_of record ''deletedFolders'' (array_of decodeDeletedFolder);
          vector \<leftarrow> property_of record ''versionVector'' decodeVersionVector;
          syncTarget \<leftarrow> optional_property record ''syncTarget'' read_sync_target;
          syncRemovalPending \<leftarrow> optional_property record ''syncRemovalPending'' read_removal_pending;
          revocationPending \<leftarrow> optional_property record ''providerCredentialRevocationPending'' read_revocation_pending;
          let vault = \<lparr>v_versionVector = vector, v_entries = entries, v_deletedEntries = deletedEntries,
            v_deviceProfiles = deviceProfiles, v_deletedDeviceProfiles = deletedDeviceProfiles,
            v_syncTarget = syncTarget, v_syncRemovalPending = syncRemovalPending,
            v_providerCredentialRevocationPending = revocationPending, v_tags = tags,
            v_deletedTags = deletedTags, v_tagGroups = tagGroups, v_folders = folders,
            v_deletedFolders = deletedFolders\<rparr>;
          if organization_decodes nfkc vault then Some vault else None }"

definition decodeVault :: "(string \<Rightarrow> string) \<Rightarrow> json \<Rightarrow> core_error + Vault" where
  "decodeVault nfkc value = or_throw InvalidVaultSnapshotPayloadError (read_vault nfkc value)"

text \<open>The encoder: the items as they are, with their version vectors sorted.\<close>

definition encode_entry :: "PasswordEntry \<Rightarrow> json" where
  "encode_entry e = JObj
     [(''id'', JStr (e_id e)), (''password'', JStr (e_password e)), (''login'', JStr (e_login e)),
      (''tags'', JArr (map JStr (e_tags e))), (''sanitizedUrl'', JStr (e_sanitizedUrl e)),
      (''folderId'', JStr (e_folderId e)), (''versionVector'', encodeVersionVector (e_versionVector e))]"

definition encode_tombstone :: "Tombstone \<Rightarrow> json" where
  "encode_tombstone d = JObj
     [(''id'', JStr (del_id d)), (''versionVector'', encodeVersionVector (del_versionVector d)),
      (''deletedAt'', JNum (int (del_deletedAt d)))]"

definition encode_tag :: "Tag \<Rightarrow> json" where
  "encode_tag t = JObj
     [(''id'', JStr (t_id t)), (''name'', JStr (t_name t)), (''groupId'', JStr (t_groupId t)),
      (''color'', JStr (t_color t)), (''shade'', JNum (int (t_shade t))),
      (''createdAt'', JNum (int (t_createdAt t))),
      (''versionVector'', encodeVersionVector (t_versionVector t))]"

definition encode_folder :: "Folder \<Rightarrow> json" where
  "encode_folder f = JObj
     ([(''id'', JStr (f_id f)), (''name'', JStr (f_name f)), (''icon'', JStr (f_icon f))] @
      optional_member ''description'' (f_description f) @
      [(''parentId'', nullable_json (f_parentId f)), (''createdAt'', JNum (int (f_createdAt f))),
       (''versionVector'', encodeVersionVector (f_versionVector f))])"

definition encode_device_profile :: "DeviceProfile \<Rightarrow> json" where
  "encode_device_profile d = JObj
     [(''id'', JStr (d_id d)), (''name'', JStr (d_name d)),
      (''createdAt'', JNum (int (d_createdAt d))),
      (''versionVector'', encodeVersionVector (d_versionVector d))]"

definition encode_sync_target :: "SyncTarget \<Rightarrow> json" where
  "encode_sync_target t = JObj [(''provider'', JStr (st_provider t)), (''targetConfig'', st_targetConfig t)]"

definition encode_removal_pending :: "SyncRemovalPending \<Rightarrow> json" where
  "encode_removal_pending p = JObj
     [(''expectedRemoteSnapshotIdentity'', nullable_identity (srp_expectedRemoteSnapshotIdentity p)),
      (''rollbackSnapshot'', encodeVaultSnapshot (srp_rollbackSnapshot p))]"

definition encode_revocation_pending :: "ProviderCredentialRevocationPending \<Rightarrow> json" where
  "encode_revocation_pending p = JObj
     [(''revokedDeviceIds'', JArr (map JStr (pcr_revokedDeviceIds p))),
      (''vaultKeyGeneration'', JNum (pcr_vaultKeyGeneration p))]"

definition optional_field :: "string \<Rightarrow> json option \<Rightarrow> (string \<times> json) list" where
  "optional_field key v = (case v of None \<Rightarrow> [] | Some j \<Rightarrow> [(key, j)])"

definition encodeVault :: "Vault \<Rightarrow> json" where
  "encodeVault vault = JObj
     ([(''versionVector'', encodeVersionVector (v_versionVector vault)),
       (''entries'', JArr (map encode_entry (v_entries vault))),
       (''deletedEntries'', JArr (map encode_tombstone (v_deletedEntries vault))),
       (''deviceProfiles'', JArr (map encode_device_profile (v_deviceProfiles vault))),
       (''deletedDeviceProfiles'', JArr (map encode_tombstone (v_deletedDeviceProfiles vault)))] @
      optional_field ''syncTarget'' (map_option encode_sync_target (v_syncTarget vault)) @
      optional_field ''syncRemovalPending'' (map_option encode_removal_pending (v_syncRemovalPending vault)) @
      optional_field ''providerCredentialRevocationPending''
        (map_option encode_revocation_pending (v_providerCredentialRevocationPending vault)) @
      [(''tags'', JArr (map encode_tag (v_tags vault))),
       (''deletedTags'', JArr (map encode_tombstone (v_deletedTags vault))),
       (''tagGroups'', JArr (map tag_group_json (v_tagGroups vault))),
       (''folders'', JArr (map encode_folder (v_folders vault))),
       (''deletedFolders'', JArr (map encode_tombstone (v_deletedFolders vault)))])"

section \<open>Accepted items\<close>

definition entry_ok :: "PasswordEntry \<Rightarrow> bool" where
  "entry_ok e \<longleftrightarrow> nonBlank (e_id e) \<and>
     passwordEntryInputSchema (e_password e) (e_login e) (e_tags e) (e_sanitizedUrl e) (Some (e_folderId e)) \<noteq> None \<and>
     safe_vector (e_versionVector e)"

definition tag_ok :: "Tag \<Rightarrow> bool" where
  "tag_ok t \<longleftrightarrow>
     (let input = \<lparr>ti_id = t_id t, ti_name = t_name t, ti_groupId = t_groupId t, ti_color = t_color t,
                   ti_shade = t_shade t, ti_createdAt = t_createdAt t\<rparr>
      in tagSchema input = Some input) \<and> safe_vector (t_versionVector t)"

definition folder_ok :: "Folder \<Rightarrow> bool" where
  "folder_ok f \<longleftrightarrow>
     (let input = \<lparr>fi_id = f_id f, fi_name = f_name f, fi_icon = f_icon f, fi_description = f_description f,
                   fi_parentId = f_parentId f, fi_createdAt = f_createdAt f\<rparr>
      in folderSchema input = Some input) \<and> safe_vector (f_versionVector f)"

definition group_ok :: "TagGroup \<Rightarrow> bool" where
  "group_ok g \<longleftrightarrow> tagGroupSchema g = Some g"

text \<open>A device profile needs a name that is not blank too, which is kept apart: the use cases that
  make a profile take any name.\<close>

definition profile_data_ok :: "DeviceProfile \<Rightarrow> bool" where
  "profile_data_ok d \<longleftrightarrow> nonBlank (d_id d) \<and> d_createdAt d \<le> MAX_SAFE_INTEGER \<and>
     safe_vector (d_versionVector d)"

definition profiles_named :: "Vault \<Rightarrow> bool" where
  "profiles_named v \<longleftrightarrow> (\<forall>d \<in> set (v_deviceProfiles v). nonBlank (d_name d))"

definition tombstone_ok :: "(string \<Rightarrow> bool) \<Rightarrow> Tombstone \<Rightarrow> bool" where
  "tombstone_ok idSchema d \<longleftrightarrow> idSchema (del_id d) \<and> safe_vector (del_versionVector d) \<and>
     del_deletedAt d \<le> MAX_SAFE_INTEGER"

definition sync_target_ok :: "SyncTarget \<Rightarrow> bool" where
  "sync_target_ok t \<longleftrightarrow> st_provider t = ''aws-s3-v1''"

definition removal_pending_ok :: "SyncRemovalPending \<Rightarrow> bool" where
  "removal_pending_ok p \<longleftrightarrow> pred_option identity_ok (srp_expectedRemoteSnapshotIdentity p) \<and>
     snapshot_ok (srp_rollbackSnapshot p)"

definition revocation_pending_ok :: "ProviderCredentialRevocationPending \<Rightarrow> bool" where
  "revocation_pending_ok p \<longleftrightarrow> list_all nonBlank (pcr_revokedDeviceIds p) \<and>
     distinct (pcr_revokedDeviceIds p) \<and> safe_integer 1 (pcr_vaultKeyGeneration p)"

definition items_storable :: "Vault \<Rightarrow> bool" where
  "items_storable v \<longleftrightarrow>
     safe_vector (v_versionVector v) \<and> list_all entry_ok (v_entries v) \<and>
     list_all (tombstone_ok nonBlank) (v_deletedEntries v) \<and> list_all profile_data_ok (v_deviceProfiles v) \<and>
     list_all (tombstone_ok nonBlank) (v_deletedDeviceProfiles v) \<and> list_all tag_ok (v_tags v) \<and>
     list_all (tombstone_ok tagIdSchema) (v_deletedTags v) \<and> list_all group_ok (v_tagGroups v) \<and>
     list_all folder_ok (v_folders v) \<and> list_all (tombstone_ok folderSchemaId) (v_deletedFolders v) \<and>
     pred_option sync_target_ok (v_syncTarget v) \<and> pred_option removal_pending_ok (v_syncRemovalPending v) \<and>
     pred_option revocation_pending_ok (v_providerCredentialRevocationPending v)"

text \<open>What reading back changes.\<close>

definition sorted_vault :: "Vault \<Rightarrow> Vault" where
  "sorted_vault v = v\<lparr>
     v_versionVector := sort_key fst (v_versionVector v),
     v_entries := map (\<lambda>e. e\<lparr>e_versionVector := sort_key fst (e_versionVector e)\<rparr>) (v_entries v),
     v_deletedEntries := map (\<lambda>d. d\<lparr>del_versionVector := sort_key fst (del_versionVector d)\<rparr>) (v_deletedEntries v),
     v_deviceProfiles := map (\<lambda>d. d\<lparr>d_versionVector := sort_key fst (d_versionVector d)\<rparr>) (v_deviceProfiles v),
     v_deletedDeviceProfiles :=
       map (\<lambda>d. d\<lparr>del_versionVector := sort_key fst (del_versionVector d)\<rparr>) (v_deletedDeviceProfiles v),
     v_tags := map (\<lambda>t. t\<lparr>t_versionVector := sort_key fst (t_versionVector t)\<rparr>) (v_tags v),
     v_deletedTags := map (\<lambda>d. d\<lparr>del_versionVector := sort_key fst (del_versionVector d)\<rparr>) (v_deletedTags v),
     v_folders := map (\<lambda>f. f\<lparr>f_versionVector := sort_key fst (f_versionVector f)\<rparr>) (v_folders v),
     v_deletedFolders := map (\<lambda>d. d\<lparr>del_versionVector := sort_key fst (del_versionVector d)\<rparr>) (v_deletedFolders v),
     v_syncRemovalPending := map_option (\<lambda>p.
       \<lparr>srp_expectedRemoteSnapshotIdentity = map_option sorted_identity (srp_expectedRemoteSnapshotIdentity p),
        srp_rollbackSnapshot = sorted_snapshot (srp_rollbackSnapshot p)\<rparr>) (v_syncRemovalPending v)\<rparr>"

section \<open>Reading an item back\<close>

lemma array_of_ok:
  "(\<And>x. x \<in> set xs \<Longrightarrow> decode (encode x) = Some (canon x)) \<Longrightarrow>
   array_of decode (JArr (map encode xs)) = Some (map canon xs)"
  by (simp add: array_of_def comp_def those_eq_Some_iff)

lemma text_of_JStr [simp]: "text_of (JStr s) = Some s"
  by (simp add: text_of_def)

lemma natural_of_JNum [simp]: "natural_of (JNum (int n)) = Some n"
  by (simp add: natural_of_def)

lemma nullable_text_json [simp]: "nullable text_of (nullable_json d) = Some d"
  by (cases d) (simp_all add: nullable_def nullable_json_def)

lemma tagIdSchema_nonBlank: "tagIdSchema s \<Longrightarrow> nonBlank s"
  by (auto simp: tagIdSchema_def nonBlank_def)

lemma entry_schema_Some:
  "passwordEntryInputSchema p l ts u (Some f) = Some input \<Longrightarrow>
     input = \<lparr>ei_password = p, ei_login = l, ei_tags = ts, ei_sanitizedUrl = u, ei_folderId = f\<rparr> \<and>
     list_all nonBlank ts \<and> distinct ts"
  by (auto simp: passwordEntryInputSchema_def length_js_set_iff list_all_iff intro: tagIdSchema_nonBlank
      split: if_splits)

lemma decodePasswordEntry_encode:
  assumes "entry_ok e"
  shows "decodePasswordEntry (encode_entry e) = Some (e\<lparr>e_versionVector := sort_key fst (e_versionVector e)\<rparr>)"
proof -
  obtain input where i: "passwordEntryInputSchema (e_password e) (e_login e) (e_tags e) (e_sanitizedUrl e)
      (Some (e_folderId e)) = Some input" "nonBlank (e_id e)" "safe_vector (e_versionVector e)"
    using assms by (auto simp: entry_ok_def)
  note s = entry_schema_Some [OF i(1)]
  have "array_of nonBlankString (JArr (map JStr (e_tags e))) = Some (e_tags e)"
    using s array_of_ok [of "e_tags e" nonBlankString JStr "\<lambda>s. s"] by (simp add: codec_simps list_all_iff)
  with i s show ?thesis
    by (cases e) (simp add: decodePasswordEntry_def encode_entry_def codec_simps length_js_set_iff)
qed

lemma read_tombstone_encode:
  "tombstone_ok P d \<Longrightarrow>
   read_tombstone P (encode_tombstone d) = Some (d\<lparr>del_versionVector := sort_key fst (del_versionVector d)\<rparr>)"
  by (cases d) (simp add: read_tombstone_def encode_tombstone_def tombstone_ok_def codec_simps)

lemma decodeTag_encode:
  "tag_ok t \<Longrightarrow> decodeTag (encode_tag t) = Some (t\<lparr>t_versionVector := sort_key fst (t_versionVector t)\<rparr>)"
  by (cases t) (simp add: decodeTag_def encode_tag_def tag_ok_def codec_simps Let_def tag_of_input_def)

lemma decodeFolder_encode:
  assumes "folder_ok f"
  shows "decodeFolder (encode_folder f) = Some (f\<lparr>f_versionVector := sort_key fst (f_versionVector f)\<rparr>)"
proof (cases "f_description f")
  case None
  with assms show ?thesis
    by (cases f) (simp add: decodeFolder_def encode_folder_def folder_ok_def codec_simps Let_def
        optional_member_def optional_property_def)
next
  case (Some d)
  with assms show ?thesis
    by (cases f) (simp add: decodeFolder_def encode_folder_def folder_ok_def codec_simps Let_def
        optional_member_def optional_property_def)
qed

lemma decodeTagGroup_encode:
  assumes "group_ok g"
  shows "decodeTagGroup (tag_group_json g) = Some g"
proof (cases "g_description g")
  case None
  with assms show ?thesis
    by (cases g) (simp add: decodeTagGroup_def tag_group_json_def group_ok_def codec_simps
        optional_member_def optional_property_def)
next
  case (Some d)
  with assms show ?thesis
    by (cases g) (simp add: decodeTagGroup_def tag_group_json_def group_ok_def codec_simps
        optional_member_def optional_property_def)
qed

lemma decodeDeviceProfile_encode:
  "profile_data_ok d \<Longrightarrow> nonBlank (d_name d) \<Longrightarrow>
   decodeDeviceProfile (encode_device_profile d) = Some (d\<lparr>d_versionVector := sort_key fst (d_versionVector d)\<rparr>)"
  by (cases d) (simp add: decodeDeviceProfile_def encode_device_profile_def profile_data_ok_def codec_simps)

lemma decodeDeviceProfile_blank: "\<not> nonBlank (d_name d) \<Longrightarrow> decodeDeviceProfile (encode_device_profile d) = None"
  by (cases d) (auto simp: decodeDeviceProfile_def encode_device_profile_def codec_simps)

lemma read_sync_target_encode: "sync_target_ok t \<Longrightarrow> read_sync_target (encode_sync_target t) = Some t"
  by (cases t) (simp add: read_sync_target_def encode_sync_target_def sync_target_ok_def codec_simps)

lemma read_removal_pending_encode:
  "removal_pending_ok p \<Longrightarrow> read_removal_pending (encode_removal_pending p) =
     Some \<lparr>srp_expectedRemoteSnapshotIdentity = map_option sorted_identity (srp_expectedRemoteSnapshotIdentity p),
           srp_rollbackSnapshot = sorted_snapshot (srp_rollbackSnapshot p)\<rparr>"
  by (cases p) (simp add: read_removal_pending_def encode_removal_pending_def removal_pending_ok_def codec_simps)

lemma read_revocation_pending_encode:
  "revocation_pending_ok p \<Longrightarrow> read_revocation_pending (encode_revocation_pending p) = Some p"
  by (cases p) (simp add: read_revocation_pending_def encode_revocation_pending_def revocation_pending_ok_def
      codec_simps)

section \<open>The payload of a session\<close>

text \<open>
  \<open>decodeUnlockedVaultSessionPayload\<close> and \<open>encodeUnlockedVaultSessionPayload\<close>
  (\<open>unlocked-session-payload.codec.ts\<close>): the vault as a session stores it, under the key of the
  session.
\<close>

definition decodeUnlockedVaultSessionPayload :: "(string \<Rightarrow> string) \<Rightarrow> json \<Rightarrow> core_error + Vault" where
  "decodeUnlockedVaultSessionPayload nfkc value =
     or_throw InvalidUnlockedVaultSessionPayloadError
       (do { record \<leftarrow> exactRecord [''vault''] [] value; property_of record ''vault'' (read_vault nfkc) })"

definition encodeUnlockedVaultSessionPayload :: "Vault \<Rightarrow> json" where
  "encodeUnlockedVaultSessionPayload vault = JObj [(''vault'', encodeVault vault)]"

lemma session_payload_encode:
  "decodeUnlockedVaultSessionPayload nfkc (encodeUnlockedVaultSessionPayload v) =
     or_throw InvalidUnlockedVaultSessionPayloadError (read_vault nfkc (encodeVault v))"
  by (simp add: decodeUnlockedVaultSessionPayload_def encodeUnlockedVaultSessionPayload_def codec_simps)

end
