(* ===== verification/Vault_Decoding.thy ===== *)
theory Vault_Decoding
  imports Vault_Codec
begin

text \<open>
  The decoder of the vault accepts exactly the vaults the organisation rules of the core accept,
  and reads every such vault back as it was written.
\<close>

section \<open>The rules decide the invariants of the vault\<close>

lemma requireUniqueAcross_iff:
  "requireUniqueAcross (map idf active) (map del_id deleted) \<longleftrightarrow> items_ok idf active deleted"
  by (auto simp: requireUniqueAcross_def Let_def length_js_set_iff items_ok_def)

lemma requireUniqueOrganizationNames_iff:
  "requireUniqueOrganizationNames nfkc names \<longleftrightarrow> distinct (map (normalizedName nfkc) names)"
  by (auto simp: requireUniqueOrganizationNames_def Let_def length_js_set_map)

lemma siblings_loop:
  "map_of (fold add_sibling fs m) p =
     (case map_of m p of
        None \<Rightarrow> (let g = filter (\<lambda>f. f_parentId f = p) fs in if g = [] then None else Some g)
      | Some g \<Rightarrow> Some (g @ filter (\<lambda>f. f_parentId f = p) fs))"
proof (induction fs arbitrary: m)
  case Nil
  show ?case by (simp split: option.splits)
next
  case (Cons f fs)
  have "map_of (add_sibling f m) p =
      (if p = f_parentId f then Some ((case map_of m p of None \<Rightarrow> [] | Some g \<Rightarrow> g) @ [f]) else map_of m p)"
    by (simp add: add_sibling_def Let_def update_conv')
  with Cons.IH [of "add_sibling f m"] show ?case
    by (simp add: Let_def split: option.splits)
qed

lemma siblings_distinct_keys: "distinct (map fst (siblings_by_parent folders))"
proof -
  have "distinct (map fst m) \<Longrightarrow> distinct (map fst (fold add_sibling fs m))" for fs m
    by (induction fs arbitrary: m) (simp_all add: add_sibling_def Let_def distinct_update)
  then show ?thesis by (simp add: siblings_by_parent_def)
qed

lemma siblings_by_parent_Some:
  "(p, g) \<in> set (siblings_by_parent folders) \<longleftrightarrow> g = filter (\<lambda>f. f_parentId f = p) folders \<and> g \<noteq> []"
proof -
  have "(p, g) \<in> set (siblings_by_parent folders) \<longleftrightarrow> map_of (siblings_by_parent folders) p = Some g"
    using map_of_eq_Some_iff [OF siblings_distinct_keys] by metis
  then show ?thesis unfolding siblings_by_parent_def siblings_loop by (auto simp: Let_def)
qed

lemma distinct_by_class:
  "distinct (map (\<lambda>x. (c x, n x)) xs) \<longleftrightarrow> (\<forall>p. distinct (map n (filter (\<lambda>x. c x = p) xs)))"
proof (induction xs)
  case (Cons x xs)
  have "distinct (map n (filter (\<lambda>y. c y = p) (x # xs))) \<longleftrightarrow>
      distinct (map n (filter (\<lambda>y. c y = p) xs)) \<and> (c x = p \<longrightarrow> n x \<notin> n ` {y \<in> set xs. c y = p})" for p
    by auto
  moreover have "n x \<notin> n ` {y \<in> set xs. c y = c x} \<longleftrightarrow> (c x, n x) \<notin> (\<lambda>x. (c x, n x)) ` set xs"
    by (auto simp: image_iff)
  ultimately show ?case using Cons.IH by (simp del: filter.simps) blast
qed simp

lemma sibling_names_iff:
  "list_all (\<lambda>(_, sibling). requireUniqueOrganizationNames nfkc (map f_name sibling)) (siblings_by_parent folders) \<longleftrightarrow>
     distinct (map (\<lambda>f. (f_parentId f, normalizedName nfkc (f_name f))) folders)"
proof -
  let ?names = "\<lambda>p. distinct (map (\<lambda>f. normalizedName nfkc (f_name f)) (filter (\<lambda>f. f_parentId f = p) folders))"
  have "list_all (\<lambda>(_, sibling). requireUniqueOrganizationNames nfkc (map f_name sibling)) (siblings_by_parent folders) \<longleftrightarrow>
      (\<forall>(p, g) \<in> set (siblings_by_parent folders). distinct (map (\<lambda>f. normalizedName nfkc (f_name f)) g))"
    by (simp add: list_all_iff requireUniqueOrganizationNames_iff comp_def)
  also have "\<dots> \<longleftrightarrow> (\<forall>p. ?names p)"
  proof
    assume all: "\<forall>(p, g) \<in> set (siblings_by_parent folders). distinct (map (\<lambda>f. normalizedName nfkc (f_name f)) g)"
    show "\<forall>p. ?names p"
    proof
      fix p
      show "?names p"
        using all siblings_by_parent_Some [of p "filter (\<lambda>f. f_parentId f = p) folders" folders]
        by (cases "filter (\<lambda>f. f_parentId f = p) folders = []") auto
    qed
  qed (auto simp: siblings_by_parent_Some)
  also have "\<dots> \<longleftrightarrow> distinct (map (\<lambda>f. (f_parentId f, normalizedName nfkc (f_name f))) folders)"
    by (rule distinct_by_class [symmetric])
  finally show ?thesis .
qed

lemma parent_of_by_id:
  "distinct (map f_id folders) \<Longrightarrow> parent_of folders p = parent_in (folders_by_id folders) p"
proof -
  assume d: "distinct (map f_id folders)"
  have "map_of (map (\<lambda>f. (f_id f, f)) folders) p = find (\<lambda>f. f_id f = p) folders"
    by (induction folders) auto
  moreover have "map_of (folders_by_id folders) p = map_of (map (\<lambda>f. (f_id f, f)) folders) p"
    using d by (simp add: folders_by_id_def map_of_js_map_distinct comp_def)
  ultimately show ?thesis by (simp add: parent_of_def parent_in_def)
qed

lemma ascends_iff:
  assumes "distinct (map f_id folders)"
  shows "ascends folders visited current \<longleftrightarrow> acyclic_climb (folders_by_id folders) visited current = Inr ()"
  using assms
proof (induction folders visited current rule: ascends.induct)
  case (1 folders visited current)
  show ?case
  proof (cases current)
    case None
    then show ?thesis by (simp add: ascends.simps [of _ _ None] acyclic_climb.simps [of _ _ None])
  next
    case (Some p)
    have "p \<notin> set visited \<Longrightarrow> ascends folders (p # visited) (parent_of folders p) \<longleftrightarrow>
        acyclic_climb (folders_by_id folders) (p # visited) (parent_of folders p) = Inr ()"
      by (rule 1(1) [OF Some _ 1(2)]) simp
    then show ?thesis
      by (simp add: Some ascends.simps [of _ _ "Some p"] acyclic_climb.simps [of _ _ "Some p"]
          parent_of_by_id [OF 1(2)])
  qed
qed

lemma folder_has_root_iff:
  fixes v :: Vault
  assumes "distinct (map f_id (v_folders v))" "f \<in> set (v_folders v)"
  shows "folder_has_root (v_folders v) f \<longleftrightarrow> requireAcyclicFolder v (f_id f) = Inr ()"
proof -
  have "find (\<lambda>c. f_id c = f_id f) (v_folders v) = Some f"
    using find_id_Some_iff [OF assms(1)] assms(2) by blast
  then have "parent_of (v_folders v) (f_id f) = f_parentId f" by (simp add: parent_of_def)
  then show ?thesis
    by (simp add: folder_has_root_def ascends_iff [OF assms(1)] requireAcyclicFolder_def
        acyclic_climb.simps [of _ _ "Some (f_id f)"] parent_of_by_id [OF assms(1), symmetric])
qed

lemma all_folders_have_roots:
  fixes v :: Vault
  assumes "distinct (map f_id (v_folders v))"
  shows "list_all (folder_has_root (v_folders v)) (v_folders v) \<longleftrightarrow> acyclic (parent_rel (v_folders v))"
  using all_acyclic_climb_iff [OF assms] folder_has_root_iff [OF assms] by (auto simp: list_all_iff)

text \<open>
  For a vault of accepted items the rules of the decoder are the invariants that the commands
  keep (\<open>Vault_Organization\<close>, \<open>Vault_Consistency\<close>).
\<close>

lemma tag_ok_id: "tag_ok t \<Longrightarrow> tagIdSchema (t_id t)"
  by (auto simp: tag_ok_def tagSchema_def Let_def split: option.splits if_splits)

lemma folder_ok_id: "folder_ok f \<Longrightarrow> folderSchemaId (f_id f)"
  by (auto simp: folder_ok_def folderSchema_def Let_def split: option.splits if_splits)

lemma organization_decodes_parts:
  "organization_decodes nfkc v \<longleftrightarrow>
     items_ok e_id (v_entries v) (v_deletedEntries v) \<and>
     items_ok d_id (v_deviceProfiles v) (v_deletedDeviceProfiles v) \<and>
     items_ok t_id (v_tags v) (v_deletedTags v) \<and> items_ok f_id (v_folders v) (v_deletedFolders v) \<and>
     distinct (map g_id (v_tagGroups v)) \<and> distinct (map (normalizedName nfkc \<circ> t_name) (v_tags v)) \<and>
     distinct (map (normalizedName nfkc \<circ> g_name) (v_tagGroups v)) \<and>
     distinct (map (\<lambda>f. (f_parentId f, normalizedName nfkc (f_name f))) (v_folders v)) \<and>
     tag_references_ok v \<and> (\<forall>tag \<in> set (v_tags v). t_groupId tag \<in> g_id ` set (v_tagGroups v)) \<and>
     (\<forall>(c, p) \<in> parent_rel (v_folders v). p \<in> f_id ` set (v_folders v)) \<and>
     (\<forall>e \<in> set (v_entries v). e_folderId e \<in> insert UNCATEGORIZED_FOLDER_ID (f_id ` set (v_folders v))) \<and>
     acyclic (parent_rel (v_folders v))"
proof -
  have tags: "(\<not> list_ex (\<lambda>entry. list_ex (\<lambda>tagId. tagId \<notin> t_id ` set (v_tags v)) (e_tags entry)) (v_entries v)) \<longleftrightarrow>
      tag_references_ok v"
    by (auto simp: list_ex_iff tag_references_ok_def)
  have parents: "(\<not> list_ex (\<lambda>folder. case f_parentId folder of None \<Rightarrow> False | Some p \<Rightarrow> p \<notin> f_id ` set (v_folders v))
      (v_folders v)) \<longleftrightarrow> (\<forall>(c, p) \<in> parent_rel (v_folders v). p \<in> f_id ` set (v_folders v))"
    by (fastforce simp: list_ex_iff parent_rel_def split: option.splits)
  have groups: "(\<not> list_ex (\<lambda>tag. t_groupId tag \<notin> g_id ` set (v_tagGroups v)) (v_tags v)) \<longleftrightarrow>
      (\<forall>tag \<in> set (v_tags v). t_groupId tag \<in> g_id ` set (v_tagGroups v))"
    by (auto simp: list_ex_iff)
  have folders: "(\<not> list_ex (\<lambda>entry. e_folderId entry \<noteq> UNCATEGORIZED_FOLDER_ID \<and>
      e_folderId entry \<notin> f_id ` set (v_folders v)) (v_entries v)) \<longleftrightarrow>
      (\<forall>e \<in> set (v_entries v). e_folderId e \<in> insert UNCATEGORIZED_FOLDER_ID (f_id ` set (v_folders v)))"
    by (auto simp: list_ex_iff)
  note names = requireUniqueOrganizationNames_iff [of nfkc "map t_name (v_tags v)", unfolded map_map]
    requireUniqueOrganizationNames_iff [of nfkc "map g_name (v_tagGroups v)", unfolded map_map]
  show ?thesis
  proof (cases "items_ok f_id (v_folders v) (v_deletedFolders v)")
    case True
    then have "distinct (map f_id (v_folders v))" by (simp add: items_ok_def)
    with True show ?thesis
      unfolding organization_decodes_def requireUniqueAcross_iff sibling_names_iff names
        Let_def set_js_set set_map de_Morgan_disj tags parents groups folders length_js_set_map
      by (simp only: all_folders_have_roots simp_thms conj_assoc)
  next
    case False
    then show ?thesis unfolding organization_decodes_def requireUniqueAcross_iff by simp
  qed
qed

lemma organization_decodes_iff:
  assumes "items_storable v"
  shows "organization_decodes nfkc v \<longleftrightarrow>
     items_ok e_id (v_entries v) (v_deletedEntries v) \<and>
     items_ok d_id (v_deviceProfiles v) (v_deletedDeviceProfiles v) \<and>
     tags_ok nfkc v \<and> folders_ok nfkc v \<and> tag_references_ok v"
proof -
  have ids: "\<forall>i \<in> t_id ` set (v_tags v) \<union> del_id ` set (v_deletedTags v). tagIdSchema i"
    "\<forall>i \<in> f_id ` set (v_folders v) \<union> del_id ` set (v_deletedFolders v). folderSchemaId i"
    using assms by (auto simp: items_storable_def list_all_iff tombstone_ok_def dest: tag_ok_id folder_ok_id)
  then show ?thesis
    unfolding organization_decodes_parts items_ok_def tags_ok_def folders_ok_def by argo
qed

section \<open>Reading a vault back\<close>

lemma sorted_vault_organization: "organization_decodes nfkc (sorted_vault v) = organization_decodes nfkc v"
  unfolding organization_decodes_parts parent_rel_map
  by (simp add: sorted_vault_def items_ok_def tag_references_ok_def comp_def image_image)

lemma optional_field_simps [simp]:
  "map_of (optional_field k v) k' = (if k' = k then v else None)"
  by (simp add: optional_field_def split: option.splits)

lemma list_all_optional_field [simp]:
  "list_all P (optional_field k v) \<longleftrightarrow> (case v of None \<Rightarrow> True | Some j \<Rightarrow> P (k, j))"
  by (simp add: optional_field_def split: option.splits)

lemma optional_property_encoded:
  assumes "map_of record key = map_option encode x" "\<And>a. x = Some a \<Longrightarrow> decode (encode a) = Some (canon a)"
  shows "optional_property record key decode = Some (map_option canon x)"
  using assms by (cases x) (simp_all add: optional_property_def)

theorem read_vault_encode:
  assumes ok: "items_storable v" and names: "profiles_named v" and org: "organization_decodes nfkc v"
  shows "read_vault nfkc (encodeVault v) = Some (sorted_vault v)"
proof -
  note items = ok [unfolded items_storable_def list_all_iff]
  have arrays:
    "array_of decodePasswordEntry (JArr (map encode_entry (v_entries v))) =
       Some (map (\<lambda>e. e\<lparr>e_versionVector := sort_key fst (e_versionVector e)\<rparr>) (v_entries v))"
    "array_of decodeDeletedPasswordEntry (JArr (map encode_tombstone (v_deletedEntries v))) =
       Some (map (\<lambda>d. d\<lparr>del_versionVector := sort_key fst (del_versionVector d)\<rparr>) (v_deletedEntries v))"
    "array_of decodeDeviceProfile (JArr (map encode_device_profile (v_deviceProfiles v))) =
       Some (map (\<lambda>d. d\<lparr>d_versionVector := sort_key fst (d_versionVector d)\<rparr>) (v_deviceProfiles v))"
    "array_of decodeDeletedDeviceProfile (JArr (map encode_tombstone (v_deletedDeviceProfiles v))) =
       Some (map (\<lambda>d. d\<lparr>del_versionVector := sort_key fst (del_versionVector d)\<rparr>) (v_deletedDeviceProfiles v))"
    "array_of decodeTag (JArr (map encode_tag (v_tags v))) =
       Some (map (\<lambda>t. t\<lparr>t_versionVector := sort_key fst (t_versionVector t)\<rparr>) (v_tags v))"
    "array_of decodeDeletedTag (JArr (map encode_tombstone (v_deletedTags v))) =
       Some (map (\<lambda>d. d\<lparr>del_versionVector := sort_key fst (del_versionVector d)\<rparr>) (v_deletedTags v))"
    "array_of decodeTagGroup (JArr (map tag_group_json (v_tagGroups v))) = Some (map (\<lambda>g. g) (v_tagGroups v))"
    "array_of decodeFolder (JArr (map encode_folder (v_folders v))) =
       Some (map (\<lambda>f. f\<lparr>f_versionVector := sort_key fst (f_versionVector f)\<rparr>) (v_folders v))"
    "array_of decodeDeletedFolder (JArr (map encode_tombstone (v_deletedFolders v))) =
       Some (map (\<lambda>d. d\<lparr>del_versionVector := sort_key fst (del_versionVector d)\<rparr>) (v_deletedFolders v))"
    using items names [unfolded profiles_named_def]
    by (intro array_of_ok; simp add: decodePasswordEntry_encode decodeTag_encode decodeFolder_encode
        decodeTagGroup_encode decodeDeviceProfile_encode decodeDeletedPasswordEntry_def decodeDeletedTag_def
        decodeDeletedFolder_def decodeDeletedDeviceProfile_def read_tombstone_encode)+
  have vector: "decodeVersionVector (encodeVersionVector (v_versionVector v)) = Some (sort_key fst (v_versionVector v))"
    using items by (simp add: codec_simps)
  define fields where "fields =
     ([(''versionVector'', encodeVersionVector (v_versionVector v)),
       (''entries'', JArr (map encode_entry (v_entries v))),
       (''deletedEntries'', JArr (map encode_tombstone (v_deletedEntries v))),
       (''deviceProfiles'', JArr (map encode_device_profile (v_deviceProfiles v))),
       (''deletedDeviceProfiles'', JArr (map encode_tombstone (v_deletedDeviceProfiles v)))] @
      optional_field ''syncTarget'' (map_option encode_sync_target (v_syncTarget v)) @
      optional_field ''syncRemovalPending'' (map_option encode_removal_pending (v_syncRemovalPending v)) @
      optional_field ''providerCredentialRevocationPending''
        (map_option encode_revocation_pending (v_providerCredentialRevocationPending v)) @
      [(''tags'', JArr (map encode_tag (v_tags v))),
       (''deletedTags'', JArr (map encode_tombstone (v_deletedTags v))),
       (''tagGroups'', JArr (map tag_group_json (v_tagGroups v))),
       (''folders'', JArr (map encode_folder (v_folders v))),
       (''deletedFolders'', JArr (map encode_tombstone (v_deletedFolders v)))])"
  have encoded: "encodeVault v = JObj fields" by (simp add: encodeVault_def fields_def)
  have exact: "exactRecord [''versionVector'', ''entries'', ''deletedEntries'', ''deviceProfiles'',
            ''deletedDeviceProfiles'', ''tags'', ''deletedTags'', ''tagGroups'', ''folders'', ''deletedFolders'']
            [''syncTarget'', ''syncRemovalPending'', ''providerCredentialRevocationPending''] (encodeVault v) = Some fields"
    unfolding encoded exactRecord_JObj by (simp add: fields_def map_add_def split: option.splits)
  have found: "map_of fields ''syncTarget'' = map_option encode_sync_target (v_syncTarget v)"
    "map_of fields ''syncRemovalPending'' = map_option encode_removal_pending (v_syncRemovalPending v)"
    "map_of fields ''providerCredentialRevocationPending'' =
       map_option encode_revocation_pending (v_providerCredentialRevocationPending v)"
    by (simp_all add: fields_def map_add_def split: option.splits)
  have kept: "pred_option sync_target_ok (v_syncTarget v)" "pred_option removal_pending_ok (v_syncRemovalPending v)"
    "pred_option revocation_pending_ok (v_providerCredentialRevocationPending v)"
    using ok by (simp_all add: items_storable_def)
  have optional:
    "optional_property fields ''syncTarget'' read_sync_target = Some (map_option (\<lambda>t. t) (v_syncTarget v))"
    "optional_property fields ''syncRemovalPending'' read_removal_pending =
       Some (map_option (\<lambda>p. \<lparr>srp_expectedRemoteSnapshotIdentity =
         map_option sorted_identity (srp_expectedRemoteSnapshotIdentity p),
         srp_rollbackSnapshot = sorted_snapshot (srp_rollbackSnapshot p)\<rparr>) (v_syncRemovalPending v))"
    "optional_property fields ''providerCredentialRevocationPending'' read_revocation_pending =
       Some (map_option (\<lambda>p. p) (v_providerCredentialRevocationPending v))"
    by (rule optional_property_encoded [OF found(1)], use kept in \<open>simp add: read_sync_target_encode\<close>,
        rule optional_property_encoded [OF found(2)], use kept in \<open>simp add: read_removal_pending_encode\<close>,
        rule optional_property_encoded [OF found(3)], use kept in \<open>simp add: read_revocation_pending_encode\<close>)
  have required:
    "map_of fields ''versionVector'' = Some (encodeVersionVector (v_versionVector v))"
    "map_of fields ''entries'' = Some (JArr (map encode_entry (v_entries v)))"
    "map_of fields ''deletedEntries'' = Some (JArr (map encode_tombstone (v_deletedEntries v)))"
    "map_of fields ''deviceProfiles'' = Some (JArr (map encode_device_profile (v_deviceProfiles v)))"
    "map_of fields ''deletedDeviceProfiles'' = Some (JArr (map encode_tombstone (v_deletedDeviceProfiles v)))"
    "map_of fields ''tags'' = Some (JArr (map encode_tag (v_tags v)))"
    "map_of fields ''deletedTags'' = Some (JArr (map encode_tombstone (v_deletedTags v)))"
    "map_of fields ''tagGroups'' = Some (JArr (map tag_group_json (v_tagGroups v)))"
    "map_of fields ''folders'' = Some (JArr (map encode_folder (v_folders v)))"
    "map_of fields ''deletedFolders'' = Some (JArr (map encode_tombstone (v_deletedFolders v)))"
    by (simp_all add: fields_def map_add_def split: option.splits)
  note read = required [THEN property_of_simps(1)] arrays vector optional
  have "read_vault nfkc (encodeVault v) =
      (let vault = sorted_vault v in if organization_decodes nfkc vault then Some vault else None)"
    unfolding read_vault_def exact Option.bind.simps read map_ident option.map_ident
    by (cases v) (simp only: sorted_vault_def Vault.simps)
  with org show ?thesis by (simp add: sorted_vault_organization)
qed

section \<open>What is read is acceptable\<close>

lemma text_schema_again: "text_schema lo hi s = Some t \<Longrightarrow> text_schema lo hi t = Some t"
  by (auto simp: text_schema_def Let_def split: if_splits)

lemma optional_text_schema_again:
  assumes "optional_text_schema hi d = Some d'" shows "optional_text_schema hi d' = Some d'"
  using assms
  by (cases d) (auto simp: optional_text_schema_def text_schema_again)

lemma tagSchema_again: "tagSchema t = Some t' \<Longrightarrow> tagSchema t' = Some t'"
  by (auto simp: tagSchema_def text_schema_again split: option.splits if_splits)

lemma folderSchema_again:
  assumes "folderSchema f = Some f'" shows "folderSchema f' = Some f'"
proof -
  obtain name icon description where parts: "text_schema 1 64 (fi_name f) = Some name"
      "text_schema 1 128 (fi_icon f) = Some icon" "optional_text_schema 256 (fi_description f) = Some description"
    and f': "f' = f\<lparr>fi_name := name, fi_icon := icon, fi_description := description\<rparr>"
    and rest: "folderSchemaId (fi_id f)" "case fi_parentId f of None \<Rightarrow> True | Some p \<Rightarrow> folderIdSchema p"
      "fi_createdAt f \<le> MAX_SAFE_INTEGER"
    using assms unfolding folderSchema_def by (auto split: option.splits if_splits)
  show ?thesis
    unfolding folderSchema_def
    using rest f' text_schema_again [OF parts(1)] text_schema_again [OF parts(2)] optional_text_schema_again [OF parts(3)]
    by simp
qed

lemma tagGroupSchema_again:
  assumes "tagGroupSchema g = Some g'" shows "tagGroupSchema g' = Some g'"
proof -
  obtain name icon description where parts: "text_schema 1 32 (g_name g) = Some name"
      "text_schema 1 128 (g_icon g) = Some icon" "optional_text_schema 256 (g_description g) = Some description"
    and g': "g' = g\<lparr>g_name := name, g_icon := icon, g_description := description\<rparr>"
    and rest: "g_id g \<in> set tagGroupIdSchema" "g_baseColor g \<in> set tagColorSchema"
    using assms unfolding tagGroupSchema_def by (auto split: option.splits if_splits)
  show ?thesis
    unfolding tagGroupSchema_def
    using rest g' text_schema_again [OF parts(1)] text_schema_again [OF parts(2)]
      optional_text_schema_again [OF parts(3)]
    by simp
qed

lemma decodePasswordEntry_sound:
  assumes "decodePasswordEntry v = Some e" shows "entry_ok e"
proof -
  obtain p l ts u f input i vv where i: "passwordEntryInputSchema p l ts u (Some f) = Some input"
      "nonBlank i" "safe_vector vv"
    and e: "e = \<lparr>e_id = i, e_password = ei_password input, e_login = ei_login input, e_tags = ei_tags input,
                e_sanitizedUrl = ei_sanitizedUrl input, e_folderId = ei_folderId input, e_versionVector = vv\<rparr>"
    using assms
    by (auto simp: decodePasswordEntry_def bind_eq_Some_conv property_of_Some nonBlankString_Some
        dest!: decodeVersionVector_safe split: if_splits)
  with entry_schema_Some [OF i(1)] show ?thesis by (simp add: entry_ok_def)
qed

lemma read_tombstone_sound: "read_tombstone P v = Some d \<Longrightarrow> tombstone_ok P d"
  by (auto simp: read_tombstone_def tombstone_ok_def bind_eq_Some_conv property_of_Some safeNatural_Some
      dest!: decodeVersionVector_safe split: if_splits)

lemma decodeDeviceProfile_sound: "decodeDeviceProfile v = Some d \<Longrightarrow> profile_data_ok d \<and> nonBlank (d_name d)"
  by (auto simp: decodeDeviceProfile_def profile_data_ok_def bind_eq_Some_conv property_of_Some safeNatural_Some
      nonBlankString_Some dest!: decodeVersionVector_safe)

lemma decodeTag_sound:
  assumes "decodeTag v = Some t" shows "tag_ok t"
proof -
  obtain raw input vv where "tagSchema raw = Some input" "safe_vector vv" "t = tag_of_input input vv"
    using assms by (auto simp: decodeTag_def bind_eq_Some_conv property_of_Some dest!: decodeVersionVector_safe)
  with tagSchema_again [of raw input] show ?thesis by (cases input) (simp add: tag_ok_def tag_of_input_def)
qed

lemma decodeFolder_sound:
  assumes "decodeFolder v = Some f" shows "folder_ok f"
proof -
  obtain raw input vv where "folderSchema raw = Some input" "safe_vector vv"
    and f: "f = \<lparr>f_id = fi_id input, f_name = fi_name input, f_icon = fi_icon input,
                f_description = fi_description input, f_parentId = fi_parentId input,
                f_createdAt = fi_createdAt input, f_versionVector = vv\<rparr>"
    using assms by (auto simp: decodeFolder_def bind_eq_Some_conv property_of_Some dest!: decodeVersionVector_safe)
  with folderSchema_again [of raw input] show ?thesis by (cases input) (simp add: folder_ok_def)
qed

lemma decodeTagGroup_sound:
  assumes "decodeTagGroup v = Some g" shows "group_ok g"
proof -
  obtain raw where "tagGroupSchema raw = Some g"
    using assms by (auto simp: decodeTagGroup_def bind_eq_Some_conv)
  then show ?thesis by (simp add: group_ok_def tagGroupSchema_again)
qed

lemma if_Some_iff: "(if P then Some a else None) = Some b \<longleftrightarrow> P \<and> a = b"
  by simp

lemma read_sync_target_sound: "read_sync_target v = Some t \<Longrightarrow> sync_target_ok t"
  by (auto simp: read_sync_target_def sync_target_ok_def bind_eq_Some_conv split: if_splits)

lemma read_removal_pending_sound: "read_removal_pending v = Some p \<Longrightarrow> removal_pending_ok p"
  by (auto simp: read_removal_pending_def removal_pending_ok_def bind_eq_Some_conv property_of_Some
      dest!: nullable_identity_sound read_snapshot_sound)

lemma read_revocation_pending_sound: "read_revocation_pending v = Some p \<Longrightarrow> revocation_pending_ok p"
  by (auto simp: read_revocation_pending_def revocation_pending_ok_def bind_eq_Some_conv property_of_Some
      stringArray_Some safeInteger_Some)

lemma optional_property_sound:
  "optional_property record key decode = Some x \<Longrightarrow> (\<And>v a. decode v = Some a \<Longrightarrow> ok a) \<Longrightarrow> pred_option ok x"
  by (cases x) (auto simp: optional_property_Some)

lemma array_property_sound:
  "property_of record key (array_of decode) = Some xs \<Longrightarrow> (\<And>v a. decode v = Some a \<Longrightarrow> ok a) \<Longrightarrow> list_all ok xs"
  by (auto simp: property_of_Some intro: array_of_sound)

theorem read_vault_sound:
  assumes "read_vault nfkc value = Some v"
  shows "items_storable v" "profiles_named v" "organization_decodes nfkc v"
proof -
  obtain r where
    arrays: "property_of r ''entries'' (array_of decodePasswordEntry) = Some (v_entries v)"
      "property_of r ''deletedEntries'' (array_of decodeDeletedPasswordEntry) = Some (v_deletedEntries v)"
      "property_of r ''deviceProfiles'' (array_of decodeDeviceProfile) = Some (v_deviceProfiles v)"
      "property_of r ''deletedDeviceProfiles'' (array_of decodeDeletedDeviceProfile) = Some (v_deletedDeviceProfiles v)"
      "property_of r ''tags'' (array_of decodeTag) = Some (v_tags v)"
      "property_of r ''deletedTags'' (array_of decodeDeletedTag) = Some (v_deletedTags v)"
      "property_of r ''tagGroups'' (array_of decodeTagGroup) = Some (v_tagGroups v)"
      "property_of r ''folders'' (array_of decodeFolder) = Some (v_folders v)"
      "property_of r ''deletedFolders'' (array_of decodeDeletedFolder) = Some (v_deletedFolders v)"
    and vector: "property_of r ''versionVector'' decodeVersionVector = Some (v_versionVector v)"
    and optional: "optional_property r ''syncTarget'' read_sync_target = Some (v_syncTarget v)"
      "optional_property r ''syncRemovalPending'' read_removal_pending = Some (v_syncRemovalPending v)"
      "optional_property r ''providerCredentialRevocationPending'' read_revocation_pending =
         Some (v_providerCredentialRevocationPending v)"
    and org: "organization_decodes nfkc v"
    using assms unfolding read_vault_def Let_def bind_eq_Some_conv if_Some_iff
    by (cases v) (elim exE conjE, rule that; simp)
  show "organization_decodes nfkc v" by (rule org)
  have items: "list_all entry_ok (v_entries v)" "list_all (tombstone_ok nonBlank) (v_deletedEntries v)"
    "list_all (\<lambda>d. profile_data_ok d \<and> nonBlank (d_name d)) (v_deviceProfiles v)" "list_all (tombstone_ok nonBlank) (v_deletedDeviceProfiles v)"
    "list_all tag_ok (v_tags v)" "list_all (tombstone_ok tagIdSchema) (v_deletedTags v)"
    "list_all group_ok (v_tagGroups v)" "list_all folder_ok (v_folders v)"
    "list_all (tombstone_ok folderSchemaId) (v_deletedFolders v)"
    by (rule arrays [THEN array_property_sound],
        auto dest: decodePasswordEntry_sound decodeDeviceProfile_sound decodeTag_sound decodeTagGroup_sound
          decodeFolder_sound read_tombstone_sound
          simp: decodeDeletedPasswordEntry_def decodeDeletedTag_def decodeDeletedFolder_def
            decodeDeletedDeviceProfile_def)+
  have pending: "pred_option sync_target_ok (v_syncTarget v)" "pred_option removal_pending_ok (v_syncRemovalPending v)"
    "pred_option revocation_pending_ok (v_providerCredentialRevocationPending v)"
    by (rule optional [THEN optional_property_sound],
        auto dest: read_sync_target_sound read_removal_pending_sound read_revocation_pending_sound)+
  show "items_storable v" "profiles_named v"
    using items pending vector
    by (auto simp: items_storable_def profiles_named_def list_all_iff property_of_Some decodeVersionVector_safe)
qed

text \<open>A vault with a device profile whose name is blank is encoded, and refused when it is read.\<close>

theorem read_vault_needs_names:
  assumes "read_vault nfkc (encodeVault v) = Some v'"
  shows "profiles_named v"
proof -
  obtain r ps where r: "exactRecord [''versionVector'', ''entries'', ''deletedEntries'', ''deviceProfiles'',
            ''deletedDeviceProfiles'', ''tags'', ''deletedTags'', ''tagGroups'', ''folders'', ''deletedFolders'']
            [''syncTarget'', ''syncRemovalPending'', ''providerCredentialRevocationPending''] (encodeVault v) = Some r"
    and ps: "property_of r ''deviceProfiles'' (array_of decodeDeviceProfile) = Some ps"
    using assms unfolding read_vault_def Let_def bind_eq_Some_conv by blast
  from r have "map_of r ''deviceProfiles'' = Some (JArr (map encode_device_profile (v_deviceProfiles v)))"
    unfolding encodeVault_def exactRecord_JObj by (auto simp: map_add_def split: if_splits option.splits)
  with ps have "map (decodeDeviceProfile \<circ> encode_device_profile) (v_deviceProfiles v) = map Some ps"
    by (auto simp: property_of_Some array_of_Some)
  then have "\<forall>d \<in> set (v_deviceProfiles v). decodeDeviceProfile (encode_device_profile d) \<noteq> None"
    by (metis comp_apply in_set_conv_nth length_map nth_map option.distinct(1))
  then show ?thesis using decodeDeviceProfile_blank unfolding profiles_named_def by blast
qed

end
