(* ===== verification/Vault_Persistence.thy ===== *)
theory Vault_Persistence
  imports Vault_Decoding
begin

text \<open>
  Whatever the commands of the password manager make of a vault can be stored and read back: every
  item stays acceptable to the decoder, as long as the version counters are below
  \<open>Number.MAX_SAFE_INTEGER\<close>, the clock is a safe integer and new identities are not blank.
\<close>

section \<open>Counting\<close>

lemma counter_below:
  assumes "collection_ok vvf idf w xs ds"
  shows "x \<in> set xs \<Longrightarrow> vv_get (vvf x) d \<le> vv_get w d"
    and "t \<in> set ds \<Longrightarrow> vv_get (del_versionVector t) d \<le> vv_get w d"
proof -
  have ok: "items_ok idf xs ds" and le: "state_counters vvf (item_state idf xs ds i) \<le> vv_get w" for i
    using assms by (simp_all add: collection_ok_def)
  {
    assume "x \<in> set xs"
    with ok have "item_state idf xs ds (idf x) = Item x" by (auto simp: item_state_Item_iff items_ok_def)
    with le [of "idf x"] show "vv_get (vvf x) d \<le> vv_get w d" by (simp add: le_funD)
  next
    assume "t \<in> set ds"
    with ok have "item_state idf xs ds (del_id t) = Deleted t" by (simp add: item_state_Deleted_iff)
    with le [of "del_id t"] show "vv_get (del_versionVector t) d \<le> vv_get w d" by (simp add: le_funD)
  }
qed

text \<open>A device that can still count.\<close>

definition can_count :: "Vault \<Rightarrow> string \<Rightarrow> bool" where
  "can_count v d \<longleftrightarrow> nonBlank d \<and> vv_get (v_versionVector v) d < MAX_SAFE_INTEGER"

lemma safe_added_vector:
  assumes "collection_ok vvf idf w xs ds" "safe_vector w" "nonBlank d" "vv_get w d < MAX_SAFE_INTEGER"
    "list_all (tombstone_ok P) ds"
  shows "safe_vector (added_vector (incrementVersionVector w d) d (find_deletion i ds))"
proof (cases "find_deletion i ds")
  case None
  have "js_succ (vv_get w d) \<le> MAX_SAFE_INTEGER" using assms(4) by (simp add: js_succ_def)
  with None assms(3) show ?thesis
    by (simp add: added_vector_def safe_vector_def safe_integer_def)
next
  case (Some t)
  then have t: "t \<in> set ds" by (auto simp: find_deletion_def dest: find_Some_D)
  with assms(5) have "safe_vector (del_versionVector t)"
    by (auto simp: list_all_iff tombstone_ok_def)
  moreover have "vv_get (del_versionVector t) d < MAX_SAFE_INTEGER"
    using counter_below(2) [OF assms(1) t, of d] assms(4) by simp
  ultimately show ?thesis
    using assms(3) by (simp add: Some added_vector_def safe_vector_increment)
qed

lemma safe_touched_vector:
  assumes "collection_ok vvf idf w xs ds" "nonBlank d" "vv_get w d < MAX_SAFE_INTEGER" "x \<in> set xs"
    "safe_vector (vvf x)"
  shows "safe_vector (incrementVersionVector (vvf x) d)"
  using safe_vector_increment [OF assms(5,2)] counter_below(1) [OF assms(1,4), of d] assms(3) by simp

section \<open>Lists of items\<close>

lemma list_all_update: "list_all P xs \<Longrightarrow> P y \<Longrightarrow> list_all P (xs[n := y])"
  using set_update_in [of _ xs n y] by (fastforce simp: list_all_iff)

lemma list_all_filter: "list_all P xs \<Longrightarrow> list_all P (filter Q xs)"
  by (simp add: list_all_iff)

lemma list_all_without_deletion: "list_all P ds \<Longrightarrow> list_all P (without_deletion i ds)"
  by (simp add: list_all_iff)

lemmas list_all_rules = list_all_update list_all_filter list_all_without_deletion

section \<open>Entries\<close>

lemma entry_schema_again:
  "passwordEntryInputSchema p l ts u f = Some input \<Longrightarrow>
   passwordEntryInputSchema (ei_password input) (ei_login input) (ei_tags input) (ei_sanitizedUrl input)
     (Some (ei_folderId input)) = Some input"
  by (auto simp: passwordEntryInputSchema_def Let_def split: if_splits)

lemma entry_payload_schema:
  assumes "entry_payload parse D params fid v = Inr input" "nonBlank i" "safe_vector w"
  shows "entry_ok (entry_of_input i input w)"
proof -
  obtain p l ts u f where "passwordEntryInputSchema p l ts u f = Some input"
    using assms(1) by (auto simp: entry_payload_def rbind_eq_Inr_iff split: sum.splits option.splits if_splits)
  from entry_schema_again [OF this] assms(2,3) show ?thesis
    by (simp add: entry_ok_def entry_of_input_def)
qed

lemma storable_add_entry:
  assumes v: "items_storable v" "vault_ok v" "can_count v d"
    and add: "addPasswordEntryToVault v i input d = Inr v'"
    and e: "\<And>w. safe_vector w \<Longrightarrow> entry_ok (entry_of_input i input w)"
  shows "items_storable v'"
  using v add e safe_added_vector [of e_versionVector e_id "v_versionVector v" "v_entries v" "v_deletedEntries v" d nonBlank i]
  by (auto simp: add_entry_Inr items_storable_def vault_ok_def can_count_def safe_vector_increment
      intro: list_all_without_deletion)

lemma storable_update_entry:
  assumes v: "items_storable v" "vault_ok v" "can_count v d"
    and e: "\<And>w. safe_vector w \<Longrightarrow> entry_ok (entry_of_input i input w)"
  shows "items_storable (updatePasswordEntryInVault v i input d)"
proof (cases "find_index (\<lambda>e. e_id e = i) (v_entries v)")
  case None
  with v show ?thesis by (simp add: updatePasswordEntryInVault_def)
next
  case (Some n)
  then have x: "v_entries v ! n \<in> set (v_entries v)" using find_index_Some by fastforce
  then have "safe_vector (incrementVersionVector (e_versionVector (v_entries v ! n)) d)"
    using v by (intro safe_touched_vector) (auto simp: vault_ok_def can_count_def items_storable_def list_all_iff entry_ok_def)
  with v e Some show ?thesis
    by (auto simp: updatePasswordEntryInVault_def Let_def items_storable_def can_count_def safe_vector_increment
        intro: list_all_update)
qed

lemma storable_remove_entry:
  assumes v: "items_storable v" "vault_ok v" "can_count v d" and t: "t \<le> MAX_SAFE_INTEGER"
  shows "items_storable (removePasswordEntryFromVault v i d t)"
proof (cases "find (\<lambda>e. e_id e = i) (v_entries v)")
  case None
  with v show ?thesis by (simp add: removePasswordEntryFromVault_def)
next
  case (Some e)
  then have x: "e \<in> set (v_entries v)" "e_id e = i" by (auto dest: find_Some_D)
  then have "safe_vector (e_versionVector e)" "nonBlank i"
    using v by (auto simp: items_storable_def list_all_iff entry_ok_def)
  moreover from this(1) x(1) v have "safe_vector (incrementVersionVector (e_versionVector e) d)"
    by (intro safe_touched_vector) (auto simp: vault_ok_def can_count_def)
  ultimately show ?thesis using v t Some
    by (auto simp: removePasswordEntryFromVault_def Let_def items_storable_def can_count_def safe_vector_increment
        tombstone_ok_def intro: list_all_rules)
qed

section \<open>Tags\<close>

lemma storable_add_tag:
  assumes v: "items_storable v" "vault_ok v" "can_count v d"
    and add: "addTagToVault nfkc v input d = Inr v'" and schema: "tagSchema raw = Some input"
  shows "items_storable v'"
proof -
  have "tag_ok (tag_of_input input w)" if "safe_vector w" for w
    using tagSchema_again [OF schema] that by (cases input) (simp add: tag_ok_def tag_of_input_def)
  with v add safe_added_vector [of t_versionVector t_id "v_versionVector v" "v_tags v" "v_deletedTags v" d
      tagIdSchema "ti_id input"]
  show ?thesis
    by (auto simp: add_tag_Inr items_storable_def vault_ok_def can_count_def safe_vector_increment
        intro: list_all_without_deletion)
qed

lemma tag_ok_parts:
  "tag_ok t \<longleftrightarrow> text_schema 1 32 (t_name t) = Some (t_name t) \<and> tagIdSchema (t_id t) \<and>
     t_groupId t \<in> set tagGroupIdSchema \<and> t_color t \<in> set tagColorSchema \<and>
     t_shade t \<in> set tagShadeSchema \<and> t_createdAt t \<le> MAX_SAFE_INTEGER \<and> safe_vector (t_versionVector t)"
  by (auto simp: tag_ok_def tagSchema_def Let_def split: option.splits if_splits)

lemma tag_ok_update:
  assumes "tag_ok t" "tagFieldsSchema raw = Some input" "safe_vector w"
  shows "tag_ok (t\<lparr>t_name := tu_name input, t_groupId := tu_groupId input, t_color := tu_color input,
      t_shade := tu_shade input, t_versionVector := w\<rparr>)"
proof -
  obtain name where name: "text_schema 1 32 (tu_name raw) = Some name" and
    input: "input = raw\<lparr>tu_name := name\<rparr>" and "tu_groupId raw \<in> set tagGroupIdSchema"
      "tu_color raw \<in> set tagColorSchema" "tu_shade raw \<in> set tagShadeSchema"
    using assms(2) unfolding tagFieldsSchema_def by (auto split: option.splits if_splits)
  with text_schema_again [OF name] assms(1,3) show ?thesis by (simp add: tag_ok_parts)
qed

lemma storable_update_tag:
  assumes v: "items_storable v" "vault_ok v" "can_count v d"
    and upd: "updateTagInVault nfkc v i input d = Inr v'" and schema: "tagFieldsSchema raw = Some input"
  shows "items_storable v'"
proof (cases "find_index (\<lambda>t. t_id t = i) (v_tags v)")
  case None
  with v upd show ?thesis by (simp add: updateTagInVault_def)
next
  case (Some n)
  then have x: "v_tags v ! n \<in> set (v_tags v)" using find_index_Some by fastforce
  with v(1) have ok: "tag_ok (v_tags v ! n)" by (auto simp: items_storable_def list_all_iff)
  with v x have "safe_vector (incrementVersionVector (t_versionVector (v_tags v ! n)) d)"
    by (intro safe_touched_vector) (auto simp: vault_ok_def can_count_def tag_ok_def)
  from tag_ok_update [OF ok schema this] v upd Some show ?thesis
    by (auto simp: updateTagInVault_def Let_def rbind_eq_Inr_iff items_storable_def can_count_def
        safe_vector_increment intro: list_all_update)
qed

lemma storable_remove_tag:
  assumes v: "items_storable v" "vault_ok v" "can_count v d" and t: "t \<le> MAX_SAFE_INTEGER"
    and rm: "removeTagFromVault v i d t = Inr v'"
  shows "items_storable v'"
proof (cases "find (\<lambda>x. t_id x = i) (v_tags v)")
  case None
  with v rm show ?thesis by (simp add: removeTagFromVault_def)
next
  case (Some x)
  then have x: "x \<in> set (v_tags v)" "t_id x = i" by (auto dest: find_Some_D)
  then have ok: "tag_ok x" using v by (auto simp: items_storable_def list_all_iff)
  then have "tagIdSchema i" using tag_ok_id x(2) by blast
  moreover from ok x(1) v have "safe_vector (incrementVersionVector (t_versionVector x) d)"
    by (intro safe_touched_vector) (auto simp: vault_ok_def can_count_def tag_ok_def)
  ultimately show ?thesis using v t rm Some
    by (auto simp: removeTagFromVault_def Let_def items_storable_def can_count_def safe_vector_increment
        tombstone_ok_def intro: list_all_rules split: if_splits)
qed

section \<open>Folders\<close>

lemma storable_add_folder:
  assumes v: "items_storable v" "vault_ok v" "can_count v d"
    and add: "addFolderToVault nfkc v input d = Inr v'" and schema: "folderSchema raw = Some input"
  shows "items_storable v'"
proof -
  have "folder_ok (folder_of_input input w)" if "safe_vector w" for w
    using folderSchema_again [OF schema] that by (cases input) (simp add: folder_ok_def folder_of_input_def)
  with v add safe_added_vector [of f_versionVector f_id "v_versionVector v" "v_folders v" "v_deletedFolders v" d
      folderSchemaId "fi_id input"]
  show ?thesis
    by (auto simp: add_folder_Inr items_storable_def vault_ok_def can_count_def safe_vector_increment
        intro: list_all_without_deletion)
qed

lemma folder_ok_parts:
  "folder_ok f \<longleftrightarrow> text_schema 1 64 (f_name f) = Some (f_name f) \<and> text_schema 1 128 (f_icon f) = Some (f_icon f) \<and>
     optional_text_schema 256 (f_description f) = Some (f_description f) \<and> folderSchemaId (f_id f) \<and>
     pred_option folderIdSchema (f_parentId f) \<and> f_createdAt f \<le> MAX_SAFE_INTEGER \<and> safe_vector (f_versionVector f)"
  by (cases "f_parentId f") (auto simp: folder_ok_def folderSchema_def Let_def split: option.splits if_splits)

lemma folder_ok_update:
  assumes "folder_ok f" "folderUpdateSchema raw = Some input" "safe_vector w"
  shows "folder_ok (f\<lparr>f_name := fu_name input, f_icon := fu_icon input,
      f_description := (case fu_description input of None \<Rightarrow> f_description f | Some description \<Rightarrow> description),
      f_versionVector := w\<rparr>)"
proof -
  obtain name icon description where parts: "text_schema 1 64 (fu_name raw) = Some name"
      "text_schema 1 128 (fu_icon raw) = Some icon"
      "(case fu_description raw of None \<Rightarrow> Some None | Some x \<Rightarrow> map_option Some (optional_text_schema 256 x)) =
         Some description"
    and input: "input = raw\<lparr>fu_name := name, fu_icon := icon, fu_description := description\<rparr>"
    using assms(2) unfolding folderUpdateSchema_def by (auto split: option.splits)
  have "optional_text_schema 256 x = Some x" if "description = Some x" for x
    using parts(3) that by (auto split: option.splits dest: optional_text_schema_again)
  with assms(1,3) parts(1,2) [THEN text_schema_again] input show ?thesis
    by (auto simp: folder_ok_parts split: option.splits)
qed

lemma storable_replace_folder:
  assumes v: "items_storable v" "vault_ok v" "can_count v d"
    and n: "find_index (\<lambda>f. f_id f = i) (v_folders v) = Some n"
    and y: "\<And>f w. folder_ok f \<Longrightarrow> safe_vector w \<Longrightarrow> folder_ok (y f w)"
  shows "items_storable (v\<lparr>v_versionVector := incrementVersionVector (v_versionVector v) d,
      v_folders := (v_folders v)[n := y (v_folders v ! n)
        (incrementVersionVector (f_versionVector (v_folders v ! n)) d)]\<rparr>)"
proof -
  have x: "v_folders v ! n \<in> set (v_folders v)" using n find_index_Some by fastforce
  with v(1) have ok: "folder_ok (v_folders v ! n)" by (auto simp: items_storable_def list_all_iff)
  with v x have "safe_vector (incrementVersionVector (f_versionVector (v_folders v ! n)) d)"
    by (intro safe_touched_vector) (auto simp: vault_ok_def can_count_def folder_ok_def)
  from y [OF ok this] v show ?thesis
    by (auto simp: items_storable_def can_count_def safe_vector_increment intro: list_all_update)
qed

lemma storable_update_folder:
  assumes v: "items_storable v" "vault_ok v" "can_count v d"
    and upd: "updateFolderInVault nfkc v i input d = Inr v'" and schema: "folderUpdateSchema raw = Some input"
  shows "items_storable v'"
proof (cases "find_index (\<lambda>f. f_id f = i) (v_folders v)")
  case None
  with v upd show ?thesis by (simp add: updateFolderInVault_def)
next
  case (Some n)
  from storable_replace_folder [OF v Some folder_ok_update [OF _ schema]] upd Some show ?thesis
    by (auto simp: updateFolderInVault_def Let_def rbind_eq_Inr_iff)
qed

lemma storable_move_folder:
  assumes v: "items_storable v" "vault_ok v" "can_count v d"
    and mv: "moveFolderInVault nfkc v i p d = Inr v'"
    and p: "case p of None \<Rightarrow> True | Some p \<Rightarrow> folderIdSchema p"
  shows "items_storable v'"
proof (cases "find_index (\<lambda>f. f_id f = i) (v_folders v)")
  case None
  with v mv show ?thesis by (simp add: moveFolderInVault_def)
next
  case (Some n)
  have "folder_ok (f\<lparr>f_parentId := p, f_versionVector := w\<rparr>)" if "folder_ok f" "safe_vector w" for f w
    using that p by (cases p) (simp_all add: folder_ok_parts)
  from storable_replace_folder [OF v Some this] mv Some show ?thesis
    by (auto simp: moveFolderInVault_def Let_def rbind_eq_Inr_iff)
qed

lemma storable_remove_folder:
  assumes v: "items_storable v" "vault_ok v" "can_count v d" and t: "t \<le> MAX_SAFE_INTEGER"
    and rm: "removeFolderFromVault v i d t = Inr v'"
  shows "items_storable v'"
proof (cases "find (\<lambda>x. f_id x = i) (v_folders v)")
  case None
  with v rm show ?thesis by (simp add: removeFolderFromVault_def)
next
  case (Some x)
  then have x: "x \<in> set (v_folders v)" "f_id x = i" by (auto dest: find_Some_D)
  then have ok: "folder_ok x" using v by (auto simp: items_storable_def list_all_iff)
  then have "folderSchemaId i" using folder_ok_id x(2) by blast
  moreover from ok x(1) v have "safe_vector (incrementVersionVector (f_versionVector x) d)"
    by (intro safe_touched_vector) (auto simp: vault_ok_def can_count_def folder_ok_def)
  ultimately show ?thesis using v t rm Some
    by (auto simp: removeFolderFromVault_def Let_def items_storable_def can_count_def safe_vector_increment
        tombstone_ok_def intro: list_all_rules split: if_splits)
qed

section \<open>Device profiles\<close>

lemma storable_add_device:
  assumes v: "items_storable v" "can_count v d" and "t \<le> MAX_SAFE_INTEGER"
    and add: "addDeviceProfileToVault v d name t = Inr v'"
  shows "items_storable v'"
proof -
  have "js_succ (vv_get (v_versionVector v) d) \<le> MAX_SAFE_INTEGER"
    using v(2) by (simp add: can_count_def js_succ_def)
  with v(2) have "safe_vector (added_vector (incrementVersionVector (v_versionVector v) d) d None)"
    by (simp add: added_vector_def safe_vector_def safe_integer_def can_count_def)
  with assms show ?thesis
    by (auto simp: add_device_profile_Inr items_storable_def can_count_def safe_vector_increment profile_data_ok_def)
qed

lemma profile_tombstone:
  assumes v: "items_storable v" "vault_ok v" "can_count v d" and t: "t \<le> MAX_SAFE_INTEGER"
    and x: "x \<in> set (v_deviceProfiles v)"
  shows "tombstone_ok nonBlank \<lparr>del_id = d_id x, del_versionVector = incrementVersionVector (d_versionVector x) d,
      del_deletedAt = t\<rparr>"
proof -
  from v x have ok: "profile_data_ok x" by (auto simp: items_storable_def list_all_iff)
  then have "safe_vector (incrementVersionVector (d_versionVector x) d)"
    using v x by (intro safe_touched_vector) (auto simp: vault_ok_def can_count_def profile_data_ok_def)
  with ok t show ?thesis by (simp add: tombstone_ok_def profile_data_ok_def)
qed

lemma storable_remove_other_devices:
  assumes v: "items_storable v" "vault_ok v" "can_count v d" and t: "t \<le> MAX_SAFE_INTEGER"
  shows "items_storable (removeOtherDeviceProfilesFromVault v d t)"
proof -
  have "profile_data_ok x" if "find (\<lambda>p. d_id p = d) (v_deviceProfiles v) = Some x" for x
    using that v by (auto simp: items_storable_def list_all_iff dest: find_Some_D)
  then show ?thesis
    using v profile_tombstone [OF v t]
    by (auto simp: removeOtherDeviceProfilesFromVault_def Let_def items_storable_def can_count_def
        safe_vector_increment list_all_iff split: option.splits)
qed

lemma storable_revoke_device:
  assumes v: "items_storable v" "vault_ok v" "can_count v d" and t: "t \<le> MAX_SAFE_INTEGER"
  shows "items_storable (revokeDeviceProfileFromVault v d i t)"
proof (cases "find (\<lambda>p. d_id p = i) (v_deviceProfiles v)")
  case None
  with v show ?thesis by (simp add: revokeDeviceProfileFromVault_def)
next
  case (Some x)
  then have "x \<in> set (v_deviceProfiles v)" "d_id x = i" by (auto dest: find_Some_D)
  with v Some profile_tombstone [OF v t, of x] show ?thesis
    by (auto simp: revokeDeviceProfileFromVault_def Let_def items_storable_def can_count_def
        safe_vector_increment intro: list_all_rules)
qed

section \<open>Histories\<close>

text \<open>
  What the runtime supplies: identities that are not blank and times that are safe integers. The
  commands check everything else themselves, except for the name of a device, which may be any text.
\<close>

fun admissible_command :: "command \<Rightarrow> bool" where
  "admissible_command (Add_entry_command params i) \<longleftrightarrow> nonBlank i"
| "admissible_command (Remove_entry_command i expected t) \<longleftrightarrow> t \<le> MAX_SAFE_INTEGER"
| "admissible_command (Remove_tag_command i expected t) \<longleftrightarrow> t \<le> MAX_SAFE_INTEGER"
| "admissible_command (Remove_folder_command i expected t) \<longleftrightarrow> t \<le> MAX_SAFE_INTEGER"
| "admissible_command _ \<longleftrightarrow> True"

fun admissible_mutation :: "mutation \<Rightarrow> bool" where
  "admissible_mutation (Add_device_profile name t) \<longleftrightarrow> t \<le> MAX_SAFE_INTEGER"
| "admissible_mutation (Remove_other_device_profiles t) \<longleftrightarrow> t \<le> MAX_SAFE_INTEGER"
| "admissible_mutation (Revoke_device_profile i t) \<longleftrightarrow> t \<le> MAX_SAFE_INTEGER"
| "admissible_mutation _ \<longleftrightarrow> True"

lemma storable_device_mutation:
  assumes v: "items_storable v" "vault_ok v" "can_count v d"
    and m: "is_device_mutation m" "admissible_mutation m" and run: "apply_mutation nfkc d m v = Inr v'"
  shows "items_storable v'"
  using m run storable_add_device [OF v(1,3)] storable_remove_other_devices [OF v] storable_revoke_device [OF v]
  by (cases m) auto

lemma storable_command:
  assumes v: "items_storable v" "vault_ok v" "can_count v d"
    and c: "admissible_command c" and run: "run_command rt d c v = Inr v'"
  shows "items_storable v'"
proof (cases c)
  case (Add_entry_command params i)
  with run c show ?thesis
    by (auto simp: add_entry_command_def rbind_eq_Inr_iff intro: storable_add_entry [OF v] entry_payload_schema)
next
  case (Update_entry_command i expected params)
  with run obtain n input where n: "find_index (\<lambda>entry. e_id entry = i) (v_entries v) = Some n"
    and payload: "entry_payload (rt_parse rt) (rt_dictionary rt) params
       (case ep_folderId params of None \<Rightarrow> Some (e_folderId (v_entries v ! n)) | Some f \<Rightarrow> Some f) v = Inr input"
    and v': "v' = updatePasswordEntryInVault v i input d"
    by (cases "find_index (\<lambda>entry. e_id entry = i) (v_entries v)")
      (auto simp: update_entry_command_def Let_def rbind_eq_Inr_iff)
  have "v_entries v ! n \<in> set (v_entries v) \<and> e_id (v_entries v ! n) = i"
    using find_index_Some [OF n] by simp
  with v(1) have "nonBlank i" by (auto simp: items_storable_def list_all_iff entry_ok_def)
  with v' show ?thesis using storable_update_entry [OF v entry_payload_schema [OF payload]] by simp
next
  case (Remove_entry_command i expected t)
  with run c show ?thesis
    by (auto simp: remove_entry_command_def rbind_eq_Inr_iff split: option.splits intro: storable_remove_entry [OF v])
next
  case (Add_tag_command tag i t)
  with run show ?thesis
    by (auto simp: add_tag_command_def rbind_eq_Inr_iff split: option.splits intro: storable_add_tag [OF v])
next
  case (Update_tag_command i expected tag)
  with run show ?thesis
    by (auto simp: update_tag_command_def rbind_eq_Inr_iff split: option.splits intro: storable_update_tag [OF v])
next
  case (Remove_tag_command i expected t)
  with run c show ?thesis
    by (auto simp: remove_tag_command_def rbind_eq_Inr_iff split: option.splits intro: storable_remove_tag [OF v])
next
  case (Add_folder_command folder i t)
  with run show ?thesis
    by (auto simp: add_folder_command_def rbind_eq_Inr_iff split: option.splits intro: storable_add_folder [OF v])
next
  case (Update_folder_command i expected folder)
  with run show ?thesis
    by (auto simp: update_folder_command_def rbind_eq_Inr_iff split: option.splits intro: storable_update_folder [OF v])
next
  case (Move_folder_command i expected p)
  with run show ?thesis
    by (auto simp: move_folder_command_def rbind_eq_Inr_iff split: option.splits if_splits
        intro: storable_move_folder [OF v])
next
  case (Remove_folder_command i expected t)
  with run c show ?thesis
    by (auto simp: remove_folder_command_def rbind_eq_Inr_iff split: option.splits intro: storable_remove_folder [OF v])
qed

lemma list_all2_results: "list_all2 (\<lambda>x y. f x = Inr y) xs ys \<Longrightarrow> (\<And>x y. f x = Inr y \<Longrightarrow> P y) \<Longrightarrow> list_all P ys"
  by (induction rule: list_all2_induct) auto

lemma rmap_results: "rmap f xs = Inr ys \<Longrightarrow> (\<And>x y. f x = Inr y \<Longrightarrow> P y) \<Longrightarrow> list_all P ys"
  unfolding rmap_Inr_iff by (rule list_all2_results)

lemma text_schema_solid: "s \<noteq> [] \<Longrightarrow> \<not> is_js_space (hd s) \<Longrightarrow> \<not> is_js_space (last s) \<Longrightarrow>
  lo \<le> length s \<Longrightarrow> length s \<le> hi \<Longrightarrow> text_schema lo hi s = Some s"
  by (simp add: text_schema_def trim_solid)

lemma group_okI:
  "text_schema 1 32 name = Some name \<Longrightarrow> text_schema 1 128 icon = Some icon \<Longrightarrow> text_schema 0 256 d = Some d \<Longrightarrow>
   i \<in> set tagGroupIdSchema \<Longrightarrow> c \<in> set tagColorSchema \<Longrightarrow>
   group_ok \<lparr>g_id = i, g_name = name, g_icon = icon, g_baseColor = c, g_description = Some d\<rparr>"
  by (simp add: group_ok_def tagGroupSchema_def optional_text_schema_def)

lemma default_groups_ok: "list_all group_ok createDefaultTagGroups"
  unfolding createDefaultTagGroups_def list.pred_inject
  by (intro conjI group_okI text_schema_solid TrueI) (simp_all add: is_js_space_def tagGroupIdSchema_def tagColorSchema_def)

lemma storable_initial:
  assumes init: "initial_vault nfkc folders tags d name t = Inr v"
    and d: "nonBlank d" "t \<le> MAX_SAFE_INTEGER"
  shows "items_storable v"
proof -
  obtain fs ts gs us where created: "createInitialOrganization fs ts d t = Inr (gs, us)"
    and v: "v = \<lparr>v_versionVector = [(d, 1)], v_entries = [], v_deletedEntries = [],
          v_deviceProfiles = [\<lparr>d_id = d, d_name = name, d_createdAt = t, d_versionVector = [(d, 1)]\<rparr>],
          v_deletedDeviceProfiles = [], v_syncTarget = None, v_syncRemovalPending = None,
          v_providerCredentialRevocationPending = None, v_tags = us, v_deletedTags = [],
          v_tagGroups = createDefaultTagGroups, v_folders = gs, v_deletedFolders = []\<rparr>"
    using init by (auto simp: initial_vault_def rbind_eq_Inr_iff)
  have one: "safe_vector [(d, 1)]" using d by (simp add: safe_vector_def safe_integer_def MAX_SAFE_INTEGER_def)
  have "folder_ok (folder_of_input f [(d, 1)])" if "folderSchema raw = Some f" for raw f
    using folderSchema_again [OF that] one by (cases f) (simp add: folder_ok_def folder_of_input_def)
  then have folders: "list_all folder_ok gs"
    using created unfolding createInitialOrganization_def
    by (auto simp: rbind_eq_Inr_iff elim!: rmap_results split: option.splits)
  have "tag_ok (tag_of_input x [(d, 1)])" if "tagSchema raw = Some x" for raw x
    using tagSchema_again [OF that] one by (cases x) (simp add: tag_ok_def tag_of_input_def)
  then have "list_all tag_ok us"
    using created unfolding createInitialOrganization_def
    by (auto simp: rbind_eq_Inr_iff elim!: rmap_results split: option.splits)
  with folders one d default_groups_ok show ?thesis
    by (simp add: v items_storable_def profile_data_ok_def)
qed

lemma update_entry_counts:
  "v_versionVector (updatePasswordEntryInVault v i input d) = v_versionVector v \<or>
   v_versionVector (updatePasswordEntryInVault v i input d) = incrementVersionVector (v_versionVector v) d"
  by (auto simp: updatePasswordEntryInVault_def Let_def split: option.splits)

lemma command_counts:
  assumes "run_command rt d c v = Inr v'"
  shows "v_versionVector v' = v_versionVector v \<or> v_versionVector v' = incrementVersionVector (v_versionVector v) d"
proof (cases c)
  case (Update_entry_command i expected params)
  with assms show ?thesis
    by (cases "find_index (\<lambda>entry. e_id entry = i) (v_entries v)")
      (use update_entry_counts in \<open>auto simp: update_entry_command_def Let_def rbind_eq_Inr_iff\<close>)
qed (use assms in \<open>auto simp: command_defs mutation_defs add_Inr Let_def rbind_eq_Inr_iff
      split: option.splits if_splits\<close>)

lemma device_mutation_counts:
  "is_device_mutation m \<Longrightarrow> apply_mutation nfkc d m v = Inr v' \<Longrightarrow>
     v_versionVector v' = v_versionVector v \<or> v_versionVector v' = incrementVersionVector (v_versionVector v) d"
  by (cases m)
    (auto simp: mutation_defs removeOtherDeviceProfilesFromVault_def add_Inr Let_def split: option.splits if_splits)

lemma counters_step:
  assumes "w' = w \<or> w' = incrementVersionVector w d" "\<forall>i. vv_get w i \<le> n"
  shows "vv_get w' i \<le> Suc n"
proof -
  have "js_succ (vv_get w d) \<le> Suc n" using assms(2) by (auto simp: js_succ_def le_SucI)
  then show ?thesis using assms by (auto simp: le_SucI)
qed

text \<open>A vault after \<open>n\<close> operations of any devices.\<close>

inductive vault_history :: "runtime \<Rightarrow> nat \<Rightarrow> Vault \<Rightarrow> bool" for rt where
  started: "initial_vault (rt_nfkc rt) folders tags d name t = Inr v \<Longrightarrow> nonBlank d \<Longrightarrow>
    t \<le> MAX_SAFE_INTEGER \<Longrightarrow> vault_history rt 1 v"
| commanded: "vault_history rt n v \<Longrightarrow> nonBlank d \<Longrightarrow> admissible_command c \<Longrightarrow>
    run_command rt d c v = Inr v' \<Longrightarrow> vault_history rt (Suc n) v'"
| devices_changed: "vault_history rt n v \<Longrightarrow> nonBlank d \<Longrightarrow> is_device_mutation m \<Longrightarrow> admissible_mutation m \<Longrightarrow>
    apply_mutation (rt_nfkc rt) d m v = Inr v' \<Longrightarrow> vault_history rt (Suc n) v'"

lemma history_invariant:
  "vault_history rt n v \<Longrightarrow> n \<le> MAX_SAFE_INTEGER \<Longrightarrow>
     items_storable v \<and> consistent_vault (rt_nfkc rt) v \<and> (\<forall>i. vv_get (v_versionVector v) i \<le> n)"
proof (induction rule: vault_history.induct)
  case (started folders tags d name t v)
  have "v_versionVector v = [(d, 1)]"
    using started.hyps(1) by (auto simp: initial_vault_def rbind_eq_Inr_iff)
  with started storable_initial [OF started.hyps] consistent_initial [OF started.hyps(1)] show ?case by simp
next
  case (commanded n v d c v')
  then have v: "items_storable v" "consistent_vault (rt_nfkc rt) v" "\<forall>i. vv_get (v_versionVector v) i \<le> n"
    by simp_all
  with commanded.prems commanded.hyps(2) have "can_count v d" by (auto simp: can_count_def Suc_le_eq intro: le_less_trans)
  with storable_command [OF v(1) _ _ commanded.hyps(3,4)] consistent_command [OF v(2) commanded.hyps(4)]
    counters_step [OF command_counts [OF commanded.hyps(4)] v(3)] v(2)
  show ?case by (simp add: consistent_vault_def)
next
  case (devices_changed n v d m v')
  then have v: "items_storable v" "consistent_vault (rt_nfkc rt) v" "\<forall>i. vv_get (v_versionVector v) i \<le> n"
    by simp_all
  with devices_changed.prems devices_changed.hyps(2) have "can_count v d"
    by (auto simp: can_count_def Suc_le_eq intro: le_less_trans)
  with storable_device_mutation [OF v(1) _ _ devices_changed.hyps(3,4,5)]
    consistent_device_mutation [OF v(2) devices_changed.hyps(3,5)]
    counters_step [OF device_mutation_counts [OF devices_changed.hyps(3,5)] v(3)] v(2)
  show ?case by (simp add: consistent_vault_def)
qed

section \<open>Reading back\<close>

text \<open>A text that is not blank has a character that is not white space.\<close>

lemma nonBlank_iff: "nonBlank s \<longleftrightarrow> (\<exists>c \<in> set s. \<not> is_js_space c)"
proof (cases "dropWhile is_js_space s")
  case Nil
  then have "\<forall>c \<in> set s. is_js_space c" by (simp add: dropWhile_eq_Nil_conv)
  moreover have "js_trim s = []" by (simp add: js_trim_def Nil)
  ultimately show ?thesis by (simp add: nonBlank_def)
next
  case (Cons c t)
  then have c: "\<not> is_js_space c" by (metis hd_dropWhile list.distinct(1) list.sel(1))
  moreover have "c \<in> set s" using Cons by (metis in_set_conv_decomp takeWhile_dropWhile_id)
  moreover have "js_trim s \<noteq> []" using c unfolding js_trim_def Cons by (simp add: dropWhile_eq_Nil_conv)
  ultimately show ?thesis by (auto simp: nonBlank_def)
qed

lemma consistent_decodes:
  "items_storable v \<Longrightarrow> consistent_vault nfkc v \<Longrightarrow> organization_decodes nfkc v"
  by (simp add: organization_decodes_iff consistent_vault_def vault_ok_def collection_ok_def)

lemma history_decodes:
  assumes "vault_history rt n v" "n \<le> MAX_SAFE_INTEGER"
  shows "decodeVault (rt_nfkc rt) (encodeVault v) =
    (if profiles_named v then Inr (sorted_vault v) else Inl (Storage_error InvalidVaultSnapshotPayloadError))"
proof (cases "profiles_named v")
  case True
  with history_invariant [OF assms] read_vault_encode [OF _ _ consistent_decodes] show ?thesis
    by (simp add: decodeVault_def or_throw_def)
next
  case False
  then have "read_vault (rt_nfkc rt) (encodeVault v) = None"
    using read_vault_needs_names by (metis not_None_eq)
  with False show ?thesis by (simp add: decodeVault_def or_throw_def)
qed

end
