(* ===== verification/Storage_Samples.thy ===== *)
theory Storage_Samples
  imports Snapshot_Persistence Upload_Safety Samples Vault_Persistence
begin

text \<open>
  A device with one stored vault, on which the properties of the store and of the synchronisation
  are applied: a certificate chain of one device, a snapshot that it has signed, a session that has
  opened it, and a provider whose storage counts the uploads.
\<close>

section \<open>Texts and keys\<close>

definition zero_text :: "nat \<Rightarrow> string" where
  "zero_text n = encodeBase64Url (replicate n 0)"

lemma zero_texts [simp]: "canonical_text n (zero_text n)" "digest_text (zero_text 32)"
  by (auto simp: canonical_text_iff zero_text_def digest_text_def intro: exI [of _ "replicate n 0"])

definition zero_cipher :: SerializedEncrypted where
  "zero_cipher = \<lparr>enc_ciphertext = zero_text 48, enc_encryptionNonce = zero_text 12\<rparr>"

lemma zero_cipher_ok [simp]: "encrypted_ok 12 None zero_cipher" "encrypted_ok 12 (Some 48) zero_cipher"
proof -
  have "\<exists>bs. zero_text 48 = encodeBase64Url bs \<and> length bs = 48"
    using zero_texts(1) [of 48] unfolding canonical_text_iff .
  then show "encrypted_ok 12 None zero_cipher" "encrypted_ok 12 (Some 48) zero_cipher"
    by (auto simp: encrypted_ok_def zero_cipher_def cipher_text_def)
qed

lemma nonBlank_samples [simp]: "nonBlank ''A''" "nonBlank ''V''" "nonBlank ''suite''" "nonBlank ''Laptop''"
  by (simp_all add: nonBlank_def js_trim_def is_js_space_def)

section \<open>A device and its snapshot\<close>

definition stored_device :: DeviceTrustIdentity where
  "stored_device = \<lparr>dti_deviceId = ''A'', dti_publicSignKey = replicate 32 1, dti_publicVaultKey = replicate 65 2\<rparr>"

definition stored_certificate :: VaultTrustCertificate where
  "stored_certificate = \<lparr>cert_payload = \<lparr>tc_version = 1, tc_vaultId = ''V'', tc_generation = 0,
     tc_vaultKeyGeneration = 1, tc_previousCertificateDigest = None, tc_authorizedByDeviceId = ''A'',
     tc_trustedDevices = [stored_device]\<rparr>, cert_signature = zero_text 64\<rparr>"

definition stored_slot :: DeviceKeySlot where
  "stored_slot = \<lparr>slot_deviceId = ''A'', slot_vaultKeyGeneration = 1, slot_envelope =
     \<lparr>env_recipientDeviceId = ''A'', env_vaultKeyGeneration = 1, env_ephemeralPublicKey = replicate 65 3,
      env_hkdfSalt = replicate 32 4, env_encryptedVaultMasterKey = zero_cipher\<rparr>\<rparr>"

definition stored_snapshot :: VaultSnapshot where
  "stored_snapshot = \<lparr>snap_metadata = \<lparr>m_id = ''V'', m_schemaVersion = 1, m_vaultCreationTimestamp = 7,
     m_revisionTimestamp = 7, m_snapshotVersionVector = [(''A'', 1)], m_algorithmSuiteId = ''suite'',
     m_createdByDeviceId = ''A'', m_vaultKeyGeneration = 1, m_uploadExpectedRemoteSnapshotIdentity = None\<rparr>,
     snap_trustChain = [stored_certificate], snap_deviceSlots = [stored_slot], snap_content = zero_cipher,
     snap_signature = zero_text 64\<rparr>"

definition stored_trust :: VerifiedVaultTrustState where
  "stored_trust = \<lparr>ts_generation = 0, ts_vaultKeyGeneration = 1, ts_certificateDigest = zero_text 32,
     ts_trustedDevices = [stored_device]\<rparr>"

text \<open>A port that signs with the private key equal to the public one, and encrypts one vault.\<close>

definition stored_port :: vault_crypto where
  "stored_port =
     \<lparr>algorithmSuiteId = ''suite'', signVaultTrustCertificate = (\<lambda>_ _. zero_text 64),
      verifyVaultTrustCertificateSignature = (\<lambda>_ _. True), digestVaultTrustCertificate = (\<lambda>_. zero_text 32),
      digestDevicePublicSignKey = (\<lambda>_. zero_text 32), digestDevicePublicVaultKey = (\<lambda>_. zero_text 32),
      verifyDeviceSignKeyPair = (=), verifyVaultSnapshotSignature = (\<lambda>s _. snap_signature s = zero_text 64),
      digestVaultSnapshot = (\<lambda>_. zero_text 32), signLocalVaultTrustCheckpoint = (\<lambda>_ _. zero_text 64),
      verifyLocalVaultTrustCheckpointSignature = (\<lambda>c _. chk_signature c = zero_text 64),
      encryptVaultSnapshotContent = (\<lambda>_ _ _. zero_cipher),
      decryptVaultSnapshotContent = (\<lambda>_ _. Inr (sorted_vault sample_vault)),
      signVaultSnapshot = (\<lambda>_ _. zero_text 64),
      encryptDeviceSyncCredentialState = (\<lambda>_ _ _ _. zero_cipher),
      decryptDeviceSyncCredentialState = (\<lambda>_ _ _. Inl Rollback_not_prepared)\<rparr>"

definition stored_env :: device_env where
  "stored_env = \<lparr>crypto_port = stored_port,
     key_import = \<lparr>importDeviceSignPublicKey = (\<lambda>_. True), importDeviceVaultPublicKey = (\<lambda>_. True)\<rparr>,
     call_fate = (\<lambda>_. Succeeds), meanwhile = (\<lambda>_ db. db), clock_now = (\<lambda>_. 8)\<rparr>"

definition stored_checkpoint :: LocalVaultTrustCheckpoint where
  "stored_checkpoint = createCheckpoint (trust_port stored_env) stored_snapshot stored_trust ''A'' (replicate 32 1)"

definition stored_db :: vault_db where
  "stored_db = \<lparr>localVaultDescriptors = [], deviceAccessMaterials = [], deviceAccessRecoveryBackups = [],
     vaultSnapshots = [(''V'', storedVaultArtifact ''V'' (encodeVaultSnapshot stored_snapshot))],
     localVaultTrustCheckpoints =
       [(''V'', storedVaultArtifact ''V'' (encodeLocalVaultTrustCheckpoint stored_checkpoint))],
     deviceSyncCredentialStates = [], pendingDeviceEnrollments = []\<rparr>"

text \<open>The session; its memory holds the private key at address \<open>1\<close>.\<close>

definition stored_memory :: "buffer \<Rightarrow> bytes" where
  "stored_memory b = (if b = 1 then replicate 32 1 else replicate 32 9)"

definition stored_session :: UnlockedVault where
  "stored_session = \<lparr>uv_vaultId = ''V'', uv_deviceId = ''A'', uv_vault = sample_vault, uv_vaultMasterKey = 0,
     uv_devicePrivateSignKey = 1, uv_devicePrivateVaultKey = 2, uv_deviceLocalProtectionKey = 3,
     uv_trustedSnapshotContext = \<lparr>tsc_snapshotDigest = zero_text 32, tsc_trust = stored_trust\<rparr>,
     uv_vaultTrustAnchor = \<lparr>an_version = 1, an_vaultId = ''V'', an_genesisDeviceId = ''A'',
       an_genesisPublicSignKey = replicate 32 1, an_genesisCertificateDigest = zero_text 32\<rparr>\<rparr>"

text \<open>The records can be stored, and the store holds them.\<close>

lemma safe_integers [simp]: "safe_integer 0 0" "safe_integer 0 1" "safe_integer 1 1" "7 \<le> MAX_SAFE_INTEGER"
  "8 \<le> MAX_SAFE_INTEGER" "Suc 0 \<le> MAX_SAFE_INTEGER"
  by (simp_all add: safe_integer_def MAX_SAFE_INTEGER_def)

lemma stored_snapshot_ok [simp]: "snapshot_ok stored_snapshot"
  by (simp add: snapshot_ok_def stored_snapshot_def metadata_ok_def safe_vector_def certificate_ok_def
      stored_certificate_def device_ok_def stored_device_def stored_slot_ok_def stored_slot_def)

lemma stored_keys [simp]: "validateVaultSnapshotPublicKeys s (key_import stored_env)"
  by (simp add: validateVaultSnapshotPublicKeys_def stored_env_def list_all_iff)

lemma stored_trust_ok [simp]: "trust_ok stored_trust"
  by (simp add: trust_ok_def stored_trust_def)

lemma stored_faithful [simp]: "faithful_port (crypto_port stored_env)"
  by (auto simp: faithful_port_def stored_env_def stored_port_def signed_snapshot_def sorted_snapshot_def
      sorted_checkpoint_def)

lemma stored_checkpoint_ok [simp]: "checkpoint_ok stored_checkpoint"
  unfolding stored_checkpoint_def by (rule checkpoint_storable) simp_all

lemma stored_ids [simp]:
  "m_id (snap_metadata stored_snapshot) = ''V''" "cp_vaultId (chk_payload stored_checkpoint) = ''V''"
  by (simp_all add: stored_snapshot_def stored_checkpoint_def createCheckpoint_def Let_def)

lemma stored_db_ok [simp]: "db_ok (key_import stored_env) stored_db"
  by (auto simp: db_ok_def stored_db_def table_ok_def artifact_of_def access_agrees_def
      intro: exI [of _ stored_snapshot] exI [of _ stored_checkpoint])

lemma stored_view [simp]:
  "sv_snapshots (view (key_import stored_env) stored_db) ''V'' = Some (sorted_snapshot stored_snapshot)"
  "sv_checkpoints (view (key_import stored_env) stored_db) ''V'' = Some (sorted_checkpoint stored_checkpoint)"
  by (simp_all add: view_def read_table_def stored_db_def stored_artifacts)

section \<open>The session\<close>

lemma stored_session_fields [simp]:
  "uv_vaultId stored_session = ''V''" "uv_deviceId stored_session = ''A''"
  "tsc_trust (uv_trustedSnapshotContext stored_session) = stored_trust"
  "tsc_snapshotDigest (uv_trustedSnapshotContext stored_session) = zero_text 32"
  "uv_vaultMasterKey stored_session = 0" "stored_memory (uv_devicePrivateSignKey stored_session) = replicate 32 1"
  by (simp_all add: stored_session_def stored_memory_def)

lemma stored_writable [simp]: "writable stored_env stored_session"
  by (simp add: writable_def) (simp add: stored_env_def)

lemma stored_undisturbed [simp]: "undisturbed stored_env"
  by (simp add: undisturbed_def stored_env_def)

lemma stored_device_found: "find_device (ts_trustedDevices stored_trust) ''A'' = Some stored_device"
  by (simp add: stored_trust_def stored_device_def find_device_def)

lemma stored_pair: "verifyDeviceSignKeyPair (crypto_port stored_env) (dti_publicSignKey stored_device) (replicate 32 1)"
  by (simp add: stored_env_def stored_port_def stored_device_def)

lemma stored_device_id [simp]: "dti_deviceId stored_device = ''A''"
  by (simp add: stored_device_def)

lemma stored_verifies: "verifySnapshot (trust_port stored_env) ''V'' stored_snapshot stored_trust = Inr ()"
  unfolding verifySnapshot_Inr
  by (simp add: slots_match_trust_def slot_ok_def stored_snapshot_def stored_trust_def stored_env_def stored_port_def
      crypto.defs stored_slot_def stored_device_def ids_of_def find_device_def is_safe_integer_def MAX_SAFE_INTEGER_def)

lemma stored_descends: "requireTrustDescendsFrom (trust_port stored_env) ''V'' [stored_certificate] stored_trust
    0 (zero_text 32) = Inr ()"
  by (simp add: requireTrustDescendsFrom_def stored_trust_def certificate_at_def stored_env_def stored_port_def crypto.defs
      require_def)

lemma stored_session_current: "session_current stored_env stored_memory ''V'' stored_session [(''A'', 1)] stored_db"
proof -
  note sorted = faithful_sorted [OF stored_writable]
  have current: "current_snapshot stored_env ''V'' stored_session [(''A'', 1)] (sorted_snapshot stored_snapshot)"
    using snapshot_view_sound [OF stored_view(1)]
    by (simp add: current_snapshot_def sorted stored_verifies compare_Equal_iff)
      (simp add: stored_snapshot_def stored_slot_def stored_env_def stored_port_def)
  have checkpoint: "verifyCheckpoint (trust_port stored_env) ''V'' (sorted_checkpoint stored_checkpoint) stored_device = Inr ()"
    using createCheckpoint_verifies [OF faithful_signatures(2) [OF stored_writable stored_pair] stored_verifies]
    by (simp add: sorted stored_checkpoint_def)
  have own: "requireSnapshotNotRolledBack (trust_port stored_env) ''V'' (sorted_snapshot stored_snapshot) stored_trust
      (sorted_checkpoint stored_checkpoint) = Inr Same_snapshot"
    using stored_descends unfolding sorted requireSnapshotNotRolledBack_Inr
    by (simp add: stored_checkpoint_def createCheckpoint_def Let_def stored_snapshot_def stored_trust_def)
  show ?thesis
    unfolding session_current_def Let_def stored_session_fields
    using current checkpoint own stored_descends stored_device_found stored_pair
    by (intro exI [of _ "sorted_snapshot stored_snapshot"] exI [of _ "sorted_checkpoint stored_checkpoint"]
        exI [of _ stored_device] conjI stored_view) (simp_all add: stored_snapshot_def stored_trust_def)
qed

definition stored_world :: "nat device_world" where
  "stored_world = \<lparr>local_db = stored_db, call_count = 0, remote_store = 0\<rparr>"

lemma sample_history: "vault_history sample_runtime 1 sample_vault"
  using sample_vault_eq by (rule vault_history.started) (simp_all add: MAX_SAFE_INTEGER_def)

text \<open>The same vault, set up on a device with a blank name.\<close>

definition blank_vault :: Vault where
  "blank_vault = sample_vault\<lparr>v_deviceProfiles :=
     [\<lparr>d_id = ''A'', d_name = '' '', d_createdAt = 7, d_versionVector = [(''A'', 1)]\<rparr>]\<rparr>"

lemma blank_history: "vault_history sample_runtime 1 blank_vault"
proof -
  have "initial_vault (rt_nfkc sample_runtime) sample_folders sample_tags ''A'' '' '' 7 = Inr blank_vault"
    by (simp add: initial_vault_def sample_parsed sample_runtime_def createInitialOrganization_def)
      (simp add: sample_folders_def sample_tags_def schema_evals sample_vault_def blank_vault_def
        tag_of_input_def folder_of_input_def)
  then show ?thesis by (rule vault_history.started) (simp_all add: MAX_SAFE_INTEGER_def)
qed

end
