(* ===== verification/Repository_Reading.thy ===== *)
theory Repository_Reading
  imports Repository_Contract
begin

text \<open>
  Which records the repository can read back. The adapter writes what it is given and checks a
  record only when it is read, so a record is readable exactly when the value that was written
  had the documented format.
\<close>

section \<open>Readable stores\<close>

definition readable :: "key_validator \<Rightarrow> vault_db \<Rightarrow> string \<Rightarrow> bool" where
  "readable keys db k \<longleftrightarrow>
     (\<exists>s c e d m b p. getVaultSnapshot keys k db = (Inr s, db) \<and>
        getLocalVaultTrustCheckpoint k db = (Inr c, db) \<and> getDeviceSyncCredentialState k db = (Inr e, db) \<and>
        getLocalVaultDescriptor k db = (Inr d, db) \<and> getDeviceAccessMaterial keys k db = (Inr m, db) \<and>
        getDeviceAccessRecoveryBackup keys k db = (Inr b, db) \<and> getPendingDeviceEnrollment k db = (Inr p, db) \<and>
        getDeviceAccessRecords keys k db = (Inr (m, b), db))"

lemma well_formed_readable: "db_ok keys db \<Longrightarrow> readable keys db k"
  unfolding readable_def using reads_give_view [of keys db k] reads_give_access_records [of keys db k] by auto

lemma get_record_eqs:
  "getDeviceSyncCredentialState k db =
     (decode_found (map_of (deviceSyncCredentialStates db) k) (read_stored_credentials k), db)"
  "getLocalVaultDescriptor k db = (decode_found (map_of (localVaultDescriptors db) k) (\<lambda>r. decodeDescriptorRecord r k), db)"
  "getDeviceAccessMaterial keys k db =
     (decode_found (map_of (deviceAccessMaterials db) k) (\<lambda>r. decodeDeviceAccessMaterialRecord keys r k), db)"
  "getDeviceAccessRecoveryBackup keys k db =
     (decode_found (map_of (deviceAccessRecoveryBackups db) k) (\<lambda>r. decodeDeviceAccessRecoveryBackupRecord keys r k), db)"
  "getPendingDeviceEnrollment k db =
     (decode_found (map_of (pendingDeviceEnrollments db) k) (read_stored_enrollment k), db)"
  by (simp_all add: get_credentials_eq stored_credentials_def read_stored_credentials_def [abs_def]
      getLocalVaultDescriptor_def getDeviceAccessMaterial_def getDeviceAccessRecoveryBackup_def
      getPendingDeviceEnrollment_def read_stored_enrollment_def [abs_def] sbind_def sread_def slift_def sret_def
      sthrow_def split: sum.splits)

lemma decode_found_Some: "decode_found (Some r) decode = Inr x \<Longrightarrow> \<exists>a. decode r = Inr a"
  by (auto simp: decode_found_def rbind_eq_Inr_iff)

lemma readable_decodes:
  assumes "readable keys db k"
  shows "map_of (localVaultDescriptors db) k = Some r \<Longrightarrow> \<exists>a. decodeDescriptorRecord r k = Inr a"
    and "map_of (deviceAccessMaterials db) k = Some r \<Longrightarrow> \<exists>a. decodeDeviceAccessMaterialRecord keys r k = Inr a"
    and "map_of (deviceAccessRecoveryBackups db) k = Some r \<Longrightarrow> \<exists>a. decodeDeviceAccessRecoveryBackupRecord keys r k = Inr a"
    and "map_of (vaultSnapshots db) k = Some r \<Longrightarrow> \<exists>a. read_stored_snapshot keys k r = Inr a"
    and "map_of (localVaultTrustCheckpoints db) k = Some r \<Longrightarrow> \<exists>a. read_stored_checkpoint k r = Inr a"
    and "map_of (deviceSyncCredentialStates db) k = Some r \<Longrightarrow> \<exists>a. read_stored_credentials k r = Inr a"
    and "map_of (pendingDeviceEnrollments db) k = Some r \<Longrightarrow> \<exists>a. read_stored_enrollment k r = Inr a"
  using assms
  unfolding readable_def get_snapshot_eq get_checkpoint_eq get_record_eqs
  by (auto dest: decode_found_Some)

section \<open>What the decoders accept of a written record\<close>

lemma accepted_artifacts:
  "decodeDescriptorRecord (storedVaultArtifact k (encodeLocalVaultDescriptor d)) k = Inr a \<Longrightarrow> vault_descriptor_ok d"
  "decodeDeviceAccessMaterialRecord keys (storedVaultArtifact k (encodeDeviceAccessMaterial m)) k = Inr m' \<Longrightarrow>
     material_ok m \<and> importable_access keys m"
  "decodeDeviceAccessRecoveryBackupRecord keys (storedVaultArtifact k (encodeDeviceAccessRecoveryBackup b)) k = Inr b' \<Longrightarrow>
     backup_ok b"
  "read_stored_snapshot keys k (storedVaultArtifact k (encodeVaultSnapshot s)) = Inr s' \<Longrightarrow>
     snapshot_ok s \<and> validateVaultSnapshotPublicKeys s keys"
  "read_stored_checkpoint k (storedVaultArtifact k (encodeLocalVaultTrustCheckpoint c)) = Inr c' \<Longrightarrow> checkpoint_ok c"
  "read_stored_credentials k (storedVaultArtifact k (encodeEncryptedDeviceSyncCredentialState e)) = Inr e' \<Longrightarrow>
     encrypted_ok 12 None e"
  "read_stored_enrollment k (JObj [(''requestId'', JStr k), (''artifact'', encodePendingDeviceEnrollment p)]) = Inr p' \<Longrightarrow>
     pending_enrollment_ok p"
  by (auto simp: decodeDescriptorRecord_def decodeLocalVaultDescriptor_def decodeDeviceAccessMaterialRecord_def
      decodeDeviceAccessMaterial_def decodeDeviceAccessRecoveryBackupRecord_def decodeDeviceAccessRecoveryBackup_def
      validateDeviceAccessPublicKeys_def importable_access_def read_stored_snapshot_def decodeAndValidateVaultSnapshot_def
      decodeVaultSnapshot_encode read_stored_checkpoint_def decodeLocalVaultTrustCheckpoint_def read_stored_credentials_def
      decodeEncryptedDeviceSyncCredentialState_def encodeEncryptedDeviceSyncCredentialState_def read_stored_enrollment_def
      storedPendingEnrollmentArtifactValue_def decodePendingDeviceEnrollment_def codec_simps or_throw_def
      rbind_eq_Inr_iff split: if_splits)

section \<open>What a successful call has written\<close>

lemma written_initialized:
  "wp (saveInitializedLocalVault p) (\<lambda>r db'. r = Inr () \<longrightarrow> (let k = lvd_vaultId (iv_descriptor p) in
     map_of (localVaultDescriptors db') k = Some (storedVaultArtifact k (encodeLocalVaultDescriptor (iv_descriptor p))) \<and>
     map_of (deviceAccessMaterials db') k = Some (storedVaultArtifact k (encodeDeviceAccessMaterial (iv_deviceAccessMaterial p))) \<and>
     map_of (deviceAccessRecoveryBackups db') k =
       Some (storedVaultArtifact k (encodeDeviceAccessRecoveryBackup (iv_deviceAccessRecoveryBackup p))) \<and>
     map_of (vaultSnapshots db') k = Some (storedVaultArtifact k (encodeVaultSnapshot (iv_snapshot p))) \<and>
     map_of (localVaultTrustCheckpoints db') k =
       Some (storedVaultArtifact k (encodeLocalVaultTrustCheckpoint (iv_checkpoint p))) \<and>
     (\<forall>e. iv_syncCredentialState p = Some e \<longrightarrow> map_of (deviceSyncCredentialStates db') k =
       Some (storedVaultArtifact k (encodeEncryptedDeviceSyncCredentialState e))))) db"
  by (auto simp: saveInitializedLocalVault_def Let_def wp_simps update_conv' split: sum.splits)

lemma written_access:
  "wp (saveDeviceAccessRecords keys p) (\<lambda>r db'. r = Inr () \<longrightarrow> (let k = da_vaultId (replacementMaterial p) in
     map_of (deviceAccessMaterials db') k = Some (storedVaultArtifact k (encodeDeviceAccessMaterial (replacementMaterial p))) \<and>
     map_of (deviceAccessRecoveryBackups db') k =
       Some (storedVaultArtifact k (encodeDeviceAccessRecoveryBackup (replacementBackup p))))) db"
  by (auto simp: saveDeviceAccessRecords_def Let_def wp_simps update_conv' split: sum.splits)

lemma written_snapshot:
  "wp (saveVaultSnapshotWithCheckpoint keys digest p) (\<lambda>r db'. r = Inr () \<longrightarrow> (let k = m_id (snap_metadata (sr_snapshot p)) in
     map_of (vaultSnapshots db') k = Some (storedVaultArtifact k (encodeVaultSnapshot (sr_snapshot p))) \<and>
     map_of (localVaultTrustCheckpoints db') k =
       Some (storedVaultArtifact k (encodeLocalVaultTrustCheckpoint (sr_checkpoint p))) \<and>
     (\<forall>e. sr_syncCredentialState p = Value (Some e) \<longrightarrow> map_of (deviceSyncCredentialStates db') k =
       Some (storedVaultArtifact k (encodeEncryptedDeviceSyncCredentialState e))))) db"
  by (auto simp: saveVaultSnapshotWithCheckpoint_def Let_def wp_simps update_conv' split: sum.splits option.splits prod.splits)

lemma written_record:
  "wp (saveLocalVaultDescriptor d) (\<lambda>_ db'. map_of (localVaultDescriptors db') (lvd_vaultId d) =
     Some (storedVaultArtifact (lvd_vaultId d) (encodeLocalVaultDescriptor d))) db"
  "wp (saveDeviceSyncCredentialState k e) (\<lambda>_ db'. map_of (deviceSyncCredentialStates db') k =
     Some (storedVaultArtifact k (encodeEncryptedDeviceSyncCredentialState e))) db"
  "wp (savePendingDeviceEnrollment p) (\<lambda>_ db'. map_of (pendingDeviceEnrollments db') (pde_requestId p) =
     Some (JObj [(''requestId'', JStr (pde_requestId p)), (''artifact'', encodePendingDeviceEnrollment p)])) db"
  by (simp_all add: saveLocalVaultDescriptor_def saveDeviceSyncCredentialState_def savePendingDeviceEnrollment_def
      wp_simps update_conv')

section \<open>The formats are exactly the boundary\<close>

lemma readable_formats:
  assumes "readable keys db k"
  shows "map_of (localVaultDescriptors db) k = Some (storedVaultArtifact k (encodeLocalVaultDescriptor d)) \<Longrightarrow>
      vault_descriptor_ok d"
    and "map_of (deviceAccessMaterials db) k = Some (storedVaultArtifact k (encodeDeviceAccessMaterial m)) \<Longrightarrow>
      material_ok m \<and> importable_access keys m"
    and "map_of (deviceAccessRecoveryBackups db) k = Some (storedVaultArtifact k (encodeDeviceAccessRecoveryBackup b)) \<Longrightarrow>
      backup_ok b"
    and "map_of (vaultSnapshots db) k = Some (storedVaultArtifact k (encodeVaultSnapshot s)) \<Longrightarrow>
      snapshot_ok s \<and> validateVaultSnapshotPublicKeys s keys"
    and "map_of (localVaultTrustCheckpoints db) k = Some (storedVaultArtifact k (encodeLocalVaultTrustCheckpoint c)) \<Longrightarrow>
      checkpoint_ok c"
    and "map_of (deviceSyncCredentialStates db) k =
        Some (storedVaultArtifact k (encodeEncryptedDeviceSyncCredentialState e)) \<Longrightarrow> encrypted_ok 12 None e"
    and "map_of (pendingDeviceEnrollments db) k =
        Some (JObj [(''requestId'', JStr k), (''artifact'', encodePendingDeviceEnrollment p)]) \<Longrightarrow> pending_enrollment_ok p"
  by (drule readable_decodes(1) [OF assms], erule exE, erule accepted_artifacts(1),
      drule readable_decodes(2) [OF assms], erule exE, erule accepted_artifacts(2),
      drule readable_decodes(3) [OF assms], erule exE, erule accepted_artifacts(3),
      drule readable_decodes(4) [OF assms], erule exE, erule accepted_artifacts(4),
      drule readable_decodes(5) [OF assms], erule exE, erule accepted_artifacts(5),
      drule readable_decodes(6) [OF assms], erule exE, erule accepted_artifacts(6),
      drule readable_decodes(7) [OF assms], erule exE, erule accepted_artifacts(7))

lemma readable_after:
  assumes run: "run_call keys digest c db = (Inr (), db')" and read: "\<And>k. readable keys db' k"
  shows "call_ok keys c"
proof -
  note formats = readable_formats [OF read]
  show ?thesis
  proof (cases c)
    case (Save_initialized p)
    with run have "saveInitializedLocalVault p db = (Inr (), db')" by simp
    note w = wp_result [OF written_initialized this, unfolded Let_def, rule_format, OF refl]
    have "pred_option (encrypted_ok 12 None) (iv_syncCredentialState p)"
      using w formats(6) by (cases "iv_syncCredentialState p") auto
    moreover from w have "vault_descriptor_ok (iv_descriptor p)" "material_ok (iv_deviceAccessMaterial p)"
      "importable_access keys (iv_deviceAccessMaterial p)" "backup_ok (iv_deviceAccessRecoveryBackup p)"
      "snapshot_ok (iv_snapshot p)" "validateVaultSnapshotPublicKeys (iv_snapshot p) keys" "checkpoint_ok (iv_checkpoint p)"
      using formats(1-5) by blast+
    ultimately show ?thesis by (simp add: Save_initialized)
  next
    case (Save_descriptor d)
    with run have "saveLocalVaultDescriptor d db = (Inr (), db')" by simp
    from formats(1) [OF wp_result [OF written_record(1) this]] show ?thesis by (simp add: Save_descriptor)
  next
    case (Save_access p)
    with run have "saveDeviceAccessRecords keys p db = (Inr (), db')" by simp
    note w = wp_result [OF written_access this, unfolded Let_def, rule_format, OF refl]
    from formats(2) [OF w [THEN conjunct1]] formats(3) [OF w [THEN conjunct2]] show ?thesis
      by (simp add: Save_access)
  next
    case (Save_snapshot p)
    with run have "saveVaultSnapshotWithCheckpoint keys digest p db = (Inr (), db')" by simp
    note w = wp_result [OF written_snapshot this, unfolded Let_def, rule_format, OF refl]
    have "credentials_property_ok (sr_syncCredentialState p)"
      using w formats(6) by (auto simp: credentials_property_ok_def split: own_property.splits option.splits)
    with formats(4) [OF w [THEN conjunct1]] formats(5) [OF w [THEN conjunct2, THEN conjunct1]]
    show ?thesis by (simp add: Save_snapshot)
  next
    case (Save_credentials k e)
    with run have "saveDeviceSyncCredentialState k e db = (Inr (), db')" by simp
    from formats(6) [OF wp_result [OF written_record(2) this]] show ?thesis by (simp add: Save_credentials)
  next
    case (Save_enrollment p)
    with run have "savePendingDeviceEnrollment p db = (Inr (), db')" by simp
    from formats(7) [OF wp_result [OF written_record(3) this]] show ?thesis by (simp add: Save_enrollment)
  qed simp_all
qed

text \<open>After a sequence of well-formed calls, one more call leaves a readable store exactly if it is well formed.\<close>

lemma readable_iff:
  assumes "db_ok keys db" "run_call keys digest c db = (Inr (), db')"
  shows "(\<forall>k. readable keys db' k) \<longleftrightarrow> call_ok keys c"
  using readable_after [OF assms(2)] well_formed_readable
    wp_result [OF run_call_keeps [OF assms(1)] assms(2)] by blast

end
