(* ===== verification/Storage_Properties.thy ===== *)
theory Storage_Properties
  imports Storage_Samples Repository_Reading
begin

text \<open>
  The properties of the local store and of the services between the session, the store and the
  remote storage.
\<close>

section \<open>The store\<close>



text \<open>
  C18: which records can be read. The adapter does not check what it writes. After any calls with
  values of the documented formats, and keys that can be imported, every read succeeds, for every vault
  and every kind of record; and one further call that succeeds leaves a store in which every read
  succeeds exactly if its values too have these formats. So a single call with, say, a blank display
  name is accepted and makes its record unreadable, and nothing else does.
\<close>

theorem records_are_readable_iff_well_formed:
  assumes "db_ok keys db" "list_all (call_ok keys) cs" "run_calls keys digest cs db = (rs, db')"
    and "run_call keys digest c db' = (Inr (), db'')"
  shows "(\<forall>k. readable keys db' k) \<and> ((\<forall>k. readable keys db'' k) \<longleftrightarrow> call_ok keys c)"
proof -
  have ok: "db_ok keys db'" using run_calls_refine [OF assms(1-3)] by blast
  then show ?thesis using well_formed_readable readable_iff [OF ok assms(4)] by blast
qed

theorem records_are_readable_iff_well_formed_witness:
  "\<exists>db'. run_call (key_import stored_env) (snapshot_digest stored_env)
       (Save_descriptor \<lparr>lvd_vaultId = ''V'', lvd_displayName = '' '', lvd_createdAt = 0, lvd_lastUnlockedAt = None\<rparr>) stored_db = (Inr (), db') \<and>
     (\<exists>k. \<not> readable (key_import stored_env) db' k)"
proof -
  let ?keys = "key_import stored_env"
  let ?c = "Save_descriptor \<lparr>lvd_vaultId = ''V'', lvd_displayName = '' '', lvd_createdAt = 0, lvd_lastUnlockedAt = None\<rparr>"
  obtain db' where run: "run_call ?keys (snapshot_digest stored_env) ?c stored_db = (Inr (), db')"
    by (simp add: saveLocalVaultDescriptor_def smodify_def)
  have "\<not> call_ok ?keys ?c" by (simp add: vault_descriptor_ok_def nonBlank_def js_trim_def is_js_space_def)
  with records_are_readable_iff_well_formed [OF stored_db_ok _ _ run, of "[]" "[]"] run show ?thesis by auto
qed

lemma refused_save_changes_nothing:
  assumes "saveVaultSnapshotWithCheckpoint keys digest p db = (Inl e, db')"
  shows "db' = db"
  using assms
  by (auto simp: saveVaultSnapshotWithCheckpoint_def Let_def sthen_def sbind_def srequire_def sret_def sthrow_def
      transaction_def split: if_splits prod.splits sum.splits)

text \<open>
  C16: no update of a vault is lost. Of two writers that replace the snapshot they have both read, only
  the first succeeds, unless it wrote back a snapshot with the same digest: the second is refused and
  changes nothing, whatever else it wants to write.
\<close>

theorem second_writer_is_refused:
  assumes "db_ok keys db" "call_ok keys (Save_snapshot p)" "call_ok keys (Save_snapshot q)"
    and "m_id (snap_metadata (sr_snapshot q)) = m_id (snap_metadata (sr_snapshot p))"
    and "sr_expectedSnapshotDigest q = sr_expectedSnapshotDigest p"
    and "digest (sorted_snapshot (sr_snapshot p)) \<noteq> sr_expectedSnapshotDigest p"
    and "saveVaultSnapshotWithCheckpoint keys digest p db = (Inr (), db')"
  shows "\<exists>e. saveVaultSnapshotWithCheckpoint keys digest q db' = (Inl e, db')"
proof -
  obtain r db'' where second: "saveVaultSnapshotWithCheckpoint keys digest q db' = (r, db'')" by fastforce
  have view: "view keys db' = replaced p (view keys db)"
    using wp_result [OF snapshot_refines [OF assms(1,2)] assms(7)]
    by (auto simp: promise_snapshot_def promise_def change_def Let_def split: if_splits)
  have "db_ok keys db'"
    using wp_result [OF save_snapshot_keeps [OF assms(1,2)] assms(7)] .
  then have "promise_snapshot digest q (view keys db') = (r, view keys db'')"
    using wp_result [OF snapshot_refines [OF _ assms(3)] second] by blast
  then have "r \<noteq> Inr ()"
    using assms(4-6)
    by (auto simp: view promise_snapshot_def promise_def snapshot_is_current_def replaced_def change_def Let_def
        split: if_splits)
  then show ?thesis
    using second refused_save_changes_nothing by (cases r) auto
qed

definition revision_digest :: "VaultSnapshot \<Rightarrow> string" where
  "revision_digest s = (if m_revisionTimestamp (snap_metadata s) = 7 then ''old'' else ''new'')"

definition sample_replacement :: snapshot_replacement where
  "sample_replacement = replacement ''old'' (sorted_checkpoint stored_checkpoint)
     (stored_snapshot\<lparr>snap_metadata := (snap_metadata stored_snapshot)\<lparr>m_revisionTimestamp := 8\<rparr>\<rparr>)
     stored_checkpoint Absent Absent"

theorem second_writer_is_refused_witness:
  "\<exists>db' e. saveVaultSnapshotWithCheckpoint (key_import stored_env) revision_digest sample_replacement stored_db = (Inr (), db') \<and>
     saveVaultSnapshotWithCheckpoint (key_import stored_env) revision_digest sample_replacement db' = (Inl e, db')"
proof -
  let ?keys = "key_import stored_env"
  let ?save = "saveVaultSnapshotWithCheckpoint ?keys revision_digest sample_replacement"
  obtain r db' where run: "?save stored_db = (r, db')" by fastforce
  have call: "call_ok ?keys (Save_snapshot sample_replacement)"
    using stored_snapshot_ok
    by (simp add: sample_replacement_def snapshot_ok_def metadata_ok_def credentials_property_ok_def)
  have id: "m_id (snap_metadata (sr_snapshot sample_replacement)) = ''V''"
    by (simp add: sample_replacement_def)
  have "promise_snapshot revision_digest sample_replacement (view ?keys stored_db) = (r, view ?keys db')"
    using wp_result [OF snapshot_refines [OF stored_db_ok call] run] .
  moreover have "snapshot_is_current revision_digest sample_replacement ''V'' (view ?keys stored_db)"
    by (simp add: snapshot_is_current_def sample_replacement_def revision_digest_def)
      (simp add: replacement_def stored_snapshot_def sorted_snapshot_def sorted_metadata_def)
  ultimately have "r = Inr ()"
    unfolding promise_snapshot_def promise_def id
    by (auto simp: change_def credentials_arguments_ok_def Let_def sample_replacement_def split: if_splits)
  with second_writer_is_refused [OF stored_db_ok call call refl refl, of revision_digest db'] run show ?thesis
    by (auto simp: sample_replacement_def revision_digest_def sorted_snapshot_def sorted_metadata_def)
qed

section \<open>The codecs\<close>

text \<open>
  C19: the snapshot codec is a round trip on exactly its domain: an encoded snapshot is decoded to
  itself, its version vectors sorted, if it satisfies the documented format, and is refused with the
  error of its origin otherwise.
\<close>

theorem snapshot_codec_is_exact:
  "decodeVaultSnapshot (encodeVaultSnapshot s) origin =
     (if snapshot_ok s then Inr (sorted_snapshot s) else Inl (Storage_error (malformedSnapshot origin)))"
  by (rule decodeVaultSnapshot_encode)

text \<open>
  C15: which vaults can be read back. A vault that any devices have made with at most \<open>2 ^ 53 - 1\<close>
  commands and changes of device profiles is encoded and decoded to itself, its version vectors sorted,
  exactly if the name of every device profile in it has a character that is not white space. Nothing
  else that the use cases accept can make a vault that the decoder refuses; but a device name is never
  checked when a vault is set up or a device enrolled, and a blank one makes the vault unreadable.
\<close>

theorem vault_history_is_read_back:
  assumes "vault_history rt n v" "n \<le> MAX_SAFE_INTEGER"
  shows "decodeVault (rt_nfkc rt) (encodeVault v) =
    (if \<forall>profile \<in> set (v_deviceProfiles v). \<exists>c \<in> set (d_name profile). \<not> is_js_space c
     then Inr (sorted_vault v) else Inl (Storage_error InvalidVaultSnapshotPayloadError))"
proof -
  have "nonBlank s \<longleftrightarrow> (\<exists>c \<in> set s. \<not> is_js_space c)" for s
    by (simp add: nonBlank_iff)
  then show ?thesis using history_decodes [OF assms] by (simp only: profiles_named_def)
qed

theorem vault_history_is_read_back_witness:
  "decodeVault (rt_nfkc sample_runtime) (encodeVault sample_vault) = Inr (sorted_vault sample_vault) \<and>
   decodeVault (rt_nfkc sample_runtime) (encodeVault blank_vault) = Inl (Storage_error InvalidVaultSnapshotPayloadError)"
  using vault_history_is_read_back [OF sample_history] vault_history_is_read_back [OF blank_history]
  by (simp add: sample_vault_def blank_vault_def is_js_space_def)

section \<open>Saving a changed vault\<close>

text \<open>
  C12: a save replaces exactly the snapshot that the session was opened from. Whatever calls fail and
  whatever other contexts write before and during the save, its success means that at some moment the
  stored snapshot had the digest of the session, and that the new snapshot and its checkpoint took the
  place of the old ones in one step that changed nothing else. The new snapshot verifies under the
  trust state the session goes on with, and its version vector is strictly ahead of the base.
\<close>

theorem save_replaces_the_sessions_snapshot:
  assumes "benign env" "db_ok (key_import env) (local_db w)" "writable env uv" "options_ok env (uv_deviceId uv) v options"
    and "persistUnlockedVault env mem k uv v options w = (Inr p, w')"
  shows "(\<exists>before. others_only env (local_db w) before \<and> takes_the_place env k uv options before (local_db w') p) \<and>
     remote_store w' = remote_store w \<and>
     verifySnapshot (trust_port env) k (ps_snapshot p) (tsc_trust (ps_trustedSnapshotContext p)) = Inr () \<and>
     compareVersionVectors (ps_snapshotVersionVector p) (nullish (po_baseSnapshotVersionVector options) v) = Local_ahead"
proof -
  have post: "writes_once env w (persist_post env mem k uv v options) (Inr p) w'"
    using wp_result [OF persist_unlocked_spec [OF assms(1-4)] assms(5)] .
  then obtain s where s: "consistent_result env mem k uv v options s p"
    by (auto simp: writes_once_def persist_post_def)
  have "verifySnapshot (trust_port env) k (ps_snapshot p) (tsc_trust (ps_trustedSnapshotContext p)) = Inr ()"
    using s by (simp add: consistent_result_def)
  with post result_is_ahead [OF s assms(4)] show ?thesis
    by (auto simp: writes_once_def persist_post_def)
qed

theorem save_replaces_the_sessions_snapshot_witness:
  "\<exists>p w'. persistUnlockedVault stored_env stored_memory ''V'' stored_session [(''A'', 1)] no_options stored_world = (Inr p, w') \<and>
     takes_the_place stored_env ''V'' stored_session no_options stored_db (local_db w') p \<and>
     compareVersionVectors (ps_snapshotVersionVector p) [(''A'', 1)] = Local_ahead"
proof -
  have options: "options_ok stored_env (uv_deviceId stored_session) [(''A'', 1)] no_options"
    by (simp add: MAX_SAFE_INTEGER_def)
  have store: "db_ok (key_import stored_env) (local_db stored_world)" by (simp add: stored_world_def)
  have session: "session_current stored_env stored_memory ''V'' stored_session [(''A'', 1)] (local_db stored_world)"
    using stored_session_current by (simp add: stored_world_def)
  obtain p w' where run:
      "persistUnlockedVault stored_env stored_memory ''V'' stored_session [(''A'', 1)] no_options stored_world = (Inr p, w')"
    using undisturbed_persist [OF stored_undisturbed store stored_writable plain_no_options options session]
    by (auto simp: wp_run prod_eq_iff)
  show ?thesis
    using save_replaces_the_sessions_snapshot [OF undisturbed_facts(2) [OF stored_undisturbed] store stored_writable options run]
      run undisturbed_facts(3) [OF stored_undisturbed]
    by (auto simp: stored_world_def no_options_def nullish_def)
qed

text \<open>
  C17: a failed save changes nothing. If no call fails after its effect, a save that ends in an error
  leaves the store to the other contexts: what is in it is what they have made of it.
\<close>

theorem failed_save_changes_nothing:
  assumes "benign env" "settled env" "db_ok (key_import env) (local_db w)" "writable env uv"
    and "options_ok env (uv_deviceId uv) v options"
    and "persistUnlockedVault env mem k uv v options w = (Inl e, w')"
  shows "others_only env (local_db w) (local_db w') \<and> remote_store w' = remote_store w"
  using wp_result [OF persist_unlocked_spec [OF assms(1,3-5)] assms(6)] assms(2) by (simp add: writes_once_def)

definition offline_env :: device_env where
  "offline_env = stored_env\<lparr>call_fate := (\<lambda>_. Fails_before)\<rparr>"

theorem failed_save_changes_nothing_witness:
  "\<exists>e w'. persistUnlockedVault offline_env stored_memory ''V'' stored_session [(''A'', 1)] no_options stored_world = (Inl e, w') \<and>
     local_db w' = stored_db"
proof -
  have env: "benign offline_env" "settled offline_env" "writable offline_env stored_session"
      "db_ok (key_import offline_env) (local_db stored_world)"
      "options_ok offline_env (uv_deviceId stored_session) [(''A'', 1)] no_options"
    using stored_writable stored_db_ok
    by (simp_all add: offline_env_def benign_def settled_def writable_def MAX_SAFE_INTEGER_def stored_world_def)
  have others: "others_only offline_env db db' \<longleftrightarrow> db' = db" for db db'
    using undisturbed_facts(3) [OF stored_undisturbed] by (simp add: others_only_def offline_env_def)
  have "wp (persistUnlockedVault offline_env stored_memory ''V'' stored_session [(''A'', 1)] no_options)
      (\<lambda>r w'. \<exists>e. r = Inl e) stored_world"
    by (simp add: persistUnlockedVault_def prepare_persisted_snapshot_def requireCurrentSnapshotForUnlockedVault_def
        requireLocalVaultSnapshot_def wp_sbind wp_repository offline_env_def Let_def)
  then obtain e w' where run:
      "persistUnlockedVault offline_env stored_memory ''V'' stored_session [(''A'', 1)] no_options stored_world = (Inl e, w')"
    by (auto simp: wp_run prod_eq_iff)
  with failed_save_changes_nothing [OF env(1,2,4,3,5) run] show ?thesis
    by (simp add: others stored_world_def)
qed

text \<open>
  C11: a session can save one change after the other, and what it has saved can be opened. Starting from
  a stored snapshot that is the session's, with successful calls and no other writer, every save of a
  sequence succeeds, as each leaves the session current for the next; afterwards the stored snapshot is
  opened to the vault that was saved last, whose device profiles must not have blank names.
\<close>

theorem saved_changes_are_reopened:
  assumes "undisturbed env" "db_ok (key_import env) (local_db w)" "writable env uv"
    and "session_current env mem k uv v (local_db w)" "vv_get v (uv_deviceId uv) + length xs \<le> MAX_SAFE_INTEGER" "xs \<noteq> []"
    and "vault_history rt n (last xs)" "n \<le> MAX_SAFE_INTEGER" "profiles_named (last xs)"
    and "\<And>m. decryptVaultSnapshotContent (crypto_port env)
      (encryptVaultSnapshotContent (crypto_port env) m (last xs) (mem (uv_vaultMasterKey uv))) (mem (uv_vaultMasterKey uv)) =
      decodeVault (rt_nfkc rt) (encodeVault (last xs))"
  shows "fst (sbind (save_each env mem k xs uv v) (\<lambda>(uv', v'). reopen env mem k (uv_vaultMasterKey uv')) w) =
     Inr (sorted_vault (last xs))"
  using saved_vault_reopens [OF assms(1-6,10)] history_decodes [OF assms(7,8)] assms(9) by (simp add: wp_run)

theorem saved_changes_are_reopened_witness:
  "fst (sbind (save_each stored_env stored_memory ''V'' [sample_remote, sample_vault] stored_session [(''A'', 1)])
      (\<lambda>(uv', v'). reopen stored_env stored_memory ''V'' (uv_vaultMasterKey uv')) stored_world) =
     Inr (sorted_vault sample_vault)"
proof -
  have "vv_get [(''A'', 1)] (uv_deviceId stored_session) + length [sample_remote, sample_vault] \<le> MAX_SAFE_INTEGER"
    by (simp add: MAX_SAFE_INTEGER_def)
  moreover have "profiles_named sample_vault" by (simp add: profiles_named_def sample_vault_def)
  ultimately show ?thesis
    using saved_changes_are_reopened [OF stored_undisturbed _ stored_writable, of stored_world stored_memory "''V''"
      "[(''A'', 1)]" "[sample_remote, sample_vault]" sample_runtime 1]
      sample_history stored_session_current history_decodes [OF sample_history]
    by (simp add: stored_world_def) (simp add: stored_env_def stored_port_def)
qed

section \<open>Uploading\<close>

text \<open>
  C13: an upload is reported truthfully. For a provider whose definite answers are true, an upload of a
  persisted snapshot, or a retry of an announced one, that ends in an error has not been accepted by the
  remote storage, so taking the local snapshot back loses nothing; it is complete only if it has been
  accepted exactly once. Whatever happens in between (a lost answer, a session that expires after the
  start, a value that is not understood) is reported as pending.
\<close>

theorem upload_is_reported_truthfully:
  assumes "truthful_provider commits (provider_of g)"
  shows "upload_meaning commits (outside w)
      (fst (uploadPersistedSnapshot g params expected previous credentials plan w))
      (outside (snd (uploadPersistedSnapshot g params expected previous credentials plan w))) \<and>
    upload_meaning commits (outside w)
      (fst (retryPendingSnapshotUpload g params pending w))
      (outside (snd (retryPendingSnapshotUpload g params pending w)))"
  using persisted_meaning [OF assms] retry_meaning [OF assms] by (simp_all add: effect_def wp_run)

text \<open>A provider with a counter: it refuses an upload if an earlier one is expected, else it counts it.\<close>

definition counting_provider :: "nat sync_provider" where
  "counting_provider =
     \<lparr>setup_access = (\<lambda>_. sthrow (Sync_error InvalidSyncConfigError)),
      getLatestVaultSnapshotDescriptor = (\<lambda>_ _. sret None), downloadVaultSnapshot = (\<lambda>_ _. sthrow Rollback_not_prepared),
      prepareVaultSnapshotUpload = (\<lambda>_ _ expected. sret (Ready_upload (sret
        (if expected \<noteq> None then sret (outcome_json (Definitely_not_committed Remote_snapshot_changed))
         else sthen (smodify Suc) (sret (outcome_json Committed)))))),
      prepareVaultSnapshotRemoval = (\<lambda>_ _ _. sret Already_absent), checkVaultAccess = (\<lambda>_ _. sret JNull)\<rparr>"

lemma counting_provider_truthful: "truthful_provider id counting_provider"
  by (auto simp: truthful_provider_def truthful_upload_def counting_provider_def wp_simps answered_def
      simp del: outcome_json.simps)

definition sample_guard :: "session_env \<Rightarrow> nat guard_env" where
  "sample_guard s = \<lparr>session_of = s, device_of = stored_env, provider_of = counting_provider\<rparr>"

theorem upload_is_reported_truthfully_witness:
  "\<forall>s params previous credentials plan w.
     upload_meaning id (outside w) (fst (uploadPersistedSnapshot (sample_guard s) params None previous credentials plan w))
       (outside (snd (uploadPersistedSnapshot (sample_guard s) params None previous credentials plan w)))"
  using upload_is_reported_truthfully [of id "sample_guard s" for s] counting_provider_truthful
  by (simp add: sample_guard_def)

end
