(* ===== verification/Sync_Upload.thy ===== *)
theory Sync_Upload
  imports Mutation_Service
begin

text \<open>
  Uploading the local snapshot of a synchronised vault (\<open>use-cases/sync/sync-upload.ts\<close>), and what
  the synchronisation use cases share: the steps on the device, the values that they compare, and
  the check that a vault is synchronised.
\<close>

section \<open>What the use cases share\<close>

text \<open>A step of the device, under the memory as it is when the step starts.\<close>

abbreviation on_device :: "((buffer \<Rightarrow> bytes) \<Rightarrow> ('r, 'a) service) \<Rightarrow> ('r, 'a) guarded" where
  "on_device m \<equiv> callout m"

abbreviation integrity_error :: "string \<Rightarrow> core_error" where
  "integrity_error vaultId \<equiv> Sync_error (RemoteVaultSnapshotIntegrityError vaultId)"

abbreviation changed_error :: "string \<Rightarrow> core_error" where
  "changed_error vaultId \<equiv> Sync_error (RemoteVaultSnapshotChangedError vaultId)"

text \<open>The vault has a sync target that is not being removed.\<close>

definition require_synchronized :: "string \<Rightarrow> string \<Rightarrow> Vault \<Rightarrow> core_error + SyncTarget" where
  "require_synchronized vaultId operation vault =
     (case v_syncTarget vault of
        None \<Rightarrow> Inl (Sync_error (SyncNotConfiguredError vaultId operation))
      | Some syncTarget \<Rightarrow>
          if v_syncRemovalPending vault \<noteq> None
          then Inl (Sync_error (SyncRemovalPendingError vaultId operation))
          else Inr syncTarget)"

text \<open>A snapshot that changed under a download is a conflict.\<close>

definition conflict_if_changed :: "string \<Rightarrow> core_error \<Rightarrow> core_error" where
  "conflict_if_changed vaultId e =
     (if is_remote_changed e then Sync_error (SyncConflictDetectedError vaultId) else e)"

definition download_or_conflict ::
    "'r sync_provider \<Rightarrow> string \<Rightarrow> SyncAccess \<Rightarrow> VaultSnapshotDescriptor \<Rightarrow> ('r, VaultSnapshot) service" where
  "download_or_conflict provider vaultId syncAccess descriptor =
     scatch (provider_call (downloadVaultSnapshot provider syncAccess descriptor))
       (\<lambda>e. sthrow (conflict_if_changed vaultId e))"

section \<open>Checking what is uploaded\<close>

definition areNullableVaultSnapshotIdentitiesEqual ::
    "VaultSnapshotIdentity option \<Rightarrow> VaultSnapshotIdentity option \<Rightarrow> bool" where
  "areNullableVaultSnapshotIdentitiesEqual left right =
     (case (left, right) of
        (Some l, Some r) \<Rightarrow> areVaultSnapshotIdentitiesEqual l r
      | _ \<Rightarrow> left = None \<and> right = None)"

definition areNullableVaultSnapshotDescriptorsEqual ::
    "VaultSnapshotDescriptor option \<Rightarrow> VaultSnapshotDescriptor option \<Rightarrow> bool" where
  "areNullableVaultSnapshotDescriptorsEqual left right =
     (case (left, right) of
        (Some l, Some r) \<Rightarrow> areVaultSnapshotDescriptorsEqual l r
      | _ \<Rightarrow> left = None \<and> right = None)"

definition requirePendingSnapshotUploadMatchesLocal ::
    "string \<Rightarrow> PendingSnapshotUpload \<Rightarrow> VaultSnapshotDescriptor \<Rightarrow> string \<Rightarrow> VaultSnapshotIdentity option \<Rightarrow>
     core_error + unit" where
  "requirePendingSnapshotUploadMatchesLocal vaultId pending localSnapshotDescriptor localSnapshotDigest
     signedExpectedRemoteSnapshotIdentity =
     (if \<not> areVaultSnapshotIdentitiesEqual
            \<lparr>si_descriptor = localSnapshotDescriptor, si_snapshotDigest = localSnapshotDigest\<rparr>
            (psu_candidateSnapshotIdentity pending) \<or>
         \<not> areNullableVaultSnapshotIdentitiesEqual signedExpectedRemoteSnapshotIdentity
            (psu_expectedRemoteSnapshotIdentity pending)
      then Inl (integrity_error vaultId) else Inr ())"

text \<open>The remote snapshot that the signed local one was made to replace.\<close>

definition signed_expectation :: "string \<Rightarrow> VaultSnapshot \<Rightarrow> core_error + VaultSnapshotIdentity option" where
  "signed_expectation vaultId localSnapshot =
     (case m_uploadExpectedRemoteSnapshotIdentity (snap_metadata localSnapshot) of
        None \<Rightarrow> Inl (integrity_error vaultId)
      | Some None \<Rightarrow> Inr None
      | Some (Some i) \<Rightarrow>
          if sd_vaultId (si_descriptor i) \<noteq> vaultId then Inl (integrity_error vaultId) else Inr (Some i))"

definition requireRemoteSnapshotMatchesLocalCandidate ::
    "'r guard_env \<Rightarrow> string \<Rightarrow> SyncAccess \<Rightarrow> VaultSnapshotDescriptor \<Rightarrow> UnlockedVault \<Rightarrow> ('r, unit) guarded" where
  "requireRemoteSnapshotMatchesLocalCandidate g vaultId syncAccess remoteSnapshotDescriptor unlockedVault =
     sbind (on_device (\<lambda>_. download_or_conflict (provider_of g) vaultId syncAccess remoteSnapshotDescriptor))
       (\<lambda>remoteSnapshot.
     sbind (on_device (\<lambda>_. verifyCandidateSnapshotTrust (device_of g) vaultId remoteSnapshot unlockedVault))
       (\<lambda>verified.
     srequire (ct_snapshotDigest verified = tsc_snapshotDigest (uv_trustedSnapshotContext unlockedVault))
       (integrity_error vaultId)))"

definition requireHistoricalRemoteSnapshotMatchesIdentity ::
    "'r guard_env \<Rightarrow> string \<Rightarrow> SyncAccess \<Rightarrow> VaultSnapshotIdentity \<Rightarrow> VaultSnapshot \<Rightarrow> UnlockedVault \<Rightarrow>
     ('r, unit) guarded" where
  "requireHistoricalRemoteSnapshotMatchesIdentity g vaultId syncAccess remoteSnapshotIdentity currentSnapshot
     unlockedVault =
     sbind (on_device (\<lambda>_. download_or_conflict (provider_of g) vaultId syncAccess
              (si_descriptor remoteSnapshotIdentity))) (\<lambda>remoteSnapshot.
     sbind (on_device (\<lambda>_. verifyHistoricalSnapshotTrust (device_of g) vaultId remoteSnapshot currentSnapshot
              unlockedVault)) (\<lambda>verified.
     srequire (ct_snapshotDigest verified = si_snapshotDigest remoteSnapshotIdentity) (integrity_error vaultId)))"

section \<open>The use case\<close>

text \<open>The remote snapshot is the local one: only an announcement may be left to remove.\<close>

definition finish_uploaded ::
    "'r guard_env \<Rightarrow> upload_params \<Rightarrow> VaultSnapshotDescriptor \<Rightarrow> VaultSnapshotIdentity option \<Rightarrow>
     ('r, SyncUploadStatus) guarded" where
  "finish_uploaded g params remoteSnapshotDescriptor expectation =
     (let vaultId = up_vaultId params; uv = up_unlockedVault params in
      sthen (requireRemoteSnapshotMatchesLocalCandidate g vaultId (up_syncAccess params)
               remoteSnapshotDescriptor uv)
      (sbind (on_device (\<lambda>mem. getPendingSnapshotUpload (device_of g) mem vaultId uv)) (\<lambda>currentPending.
       case currentPending of
         None \<Rightarrow> sret Complete
       | Some pending \<Rightarrow>
           sthen (slift (requirePendingSnapshotUploadMatchesLocal vaultId pending
                    (toVaultSnapshotDescriptor vaultId (up_snapshot params)) (up_snapshotDigest params) expectation))
           (sbind (clearPendingSnapshotUpload g params pending) (\<lambda>cleared.
            sret (if cleared then Complete else Pending))))))"

text \<open>The relation to the snapshot that is replaced.\<close>

definition require_local_ahead ::
    "string \<Rightarrow> VaultSnapshotDescriptor \<Rightarrow> VaultSnapshotIdentity option \<Rightarrow> core_error + unit" where
  "require_local_ahead vaultId localSnapshotDescriptor expectation =
     (case expectation of
        None \<Rightarrow> Inr ()
      | Some i \<Rightarrow>
          (case compareVaultSnapshotDescriptors localSnapshotDescriptor (si_descriptor i) of
             Equal \<Rightarrow> Inl (integrity_error vaultId)
           | Remote_ahead \<Rightarrow> Inl (Sync_error (RemoteVaultSnapshotAheadError vaultId))
           | Broken \<Rightarrow> Inl (integrity_error vaultId)
           | Local_ahead \<Rightarrow> Inr ()))"

text \<open>A new upload; if it throws after its intent was announced, the announcement is removed.\<close>

definition upload_new ::
    "'r guard_env \<Rightarrow> upload_params \<Rightarrow> VaultSnapshotIdentity option \<Rightarrow> ('r, SyncUploadStatus) guarded" where
  "upload_new g params expectation =
     sbind (uploadTrackedSnapshot g params expectation) (\<lambda>(stagedIntent, result).
     case result of
       Inr status \<Rightarrow> sret status
     | Inl e \<Rightarrow>
         sthen (case stagedIntent of
                  None \<Rightarrow> sret ()
                | Some intent \<Rightarrow> sthen (clearStagedSnapshotUploadIntent g params intent) (sret ()))
           (sthrow (conflict_if_changed (up_vaultId params) e)))"

definition upload_current ::
    "'r guard_env \<Rightarrow> upload_params \<Rightarrow> PendingSnapshotUpload option \<Rightarrow> VaultSnapshotDescriptor option \<Rightarrow>
     VaultSnapshotIdentity option \<Rightarrow> ('r, SyncUploadStatus) guarded" where
  "upload_current g params pending remoteSnapshotDescriptor expectation =
     (let vaultId = up_vaultId params;
          localSnapshotDescriptor = toVaultSnapshotDescriptor vaultId (up_snapshot params) in
      if \<not> areNullableVaultSnapshotDescriptorsEqual remoteSnapshotDescriptor (map_option si_descriptor expectation)
      then sthrow (case remoteSnapshotDescriptor of
             None \<Rightarrow> Sync_error (SyncConflictDetectedError vaultId)
           | Some remote \<Rightarrow> if sd_vaultId remote \<noteq> vaultId then integrity_error vaultId
                             else Sync_error (SyncConflictDetectedError vaultId))
      else
      sthen (case expectation of
               None \<Rightarrow> sret ()
             | Some identity \<Rightarrow>
                 requireHistoricalRemoteSnapshotMatchesIdentity g vaultId (up_syncAccess params) identity
                   (up_snapshot params) (up_unlockedVault params))
      (case pending of
         Some p \<Rightarrow> scatch (retryPendingSnapshotUpload g params p) (\<lambda>e. sthrow (conflict_if_changed vaultId e))
       | None \<Rightarrow>
           sthen (slift (require_local_ahead vaultId localSnapshotDescriptor expectation)) (upload_new g params expectation)))"

definition syncUpload :: "'r guard_env \<Rightarrow> string \<Rightarrow> ('r, SyncUploadStatus) guarded" where
  "syncUpload g vaultId =
     (let env = device_of g in
      sbind (requireUnlockedVaultContext (session_of g) vaultId ''sync upload'' None) (\<lambda>session.
      let uv = us_unlockedVault session; digest = tsc_snapshotDigest (uv_trustedSnapshotContext uv) in
      sthen (slift (require_synchronized vaultId ''sync upload'' (uv_vault uv)))
      (sbind (on_device (\<lambda>_. requireCurrentSnapshotForUnlockedVault env vaultId uv
                (us_sourceSnapshotVersionVector session))) (\<lambda>localSnapshot.
       sbind (on_device (\<lambda>mem. requireSyncAccess env mem vaultId uv)) (\<lambda>syncAccess.
       sbind (on_device (\<lambda>mem. getPendingSnapshotUpload env mem vaultId uv)) (\<lambda>pending.
       sbind (on_device (\<lambda>_. provider_call (getLatestVaultSnapshotDescriptor (provider_of g) syncAccess vaultId)))
         (\<lambda>remoteSnapshotDescriptor.
       sbind (slift (signed_expectation vaultId localSnapshot)) (\<lambda>expectation.
       sbind (on_device (\<lambda>_. prepareLocalVaultSnapshotRestore env localSnapshot uv None)) (\<lambda>preparedSnapshot.
        let localSnapshotDescriptor = toVaultSnapshotDescriptor vaultId localSnapshot;
            params = \<lparr>up_sessionId = us_sessionId session, up_vaultId = vaultId, up_unlockedVault = uv,
              up_syncAccess = syncAccess, up_snapshot = localSnapshot, up_snapshotDigest = digest,
              up_checkpoint = pr_checkpoint preparedSnapshot\<rparr> in
        sthen (case pending of
                 None \<Rightarrow> sret ()
               | Some p \<Rightarrow> slift (requirePendingSnapshotUploadMatchesLocal vaultId p localSnapshotDescriptor
                              digest expectation))
        (case remoteSnapshotDescriptor of
           Some remote \<Rightarrow>
             if areVaultSnapshotDescriptorsEqual remote localSnapshotDescriptor
             then finish_uploaded g params remote expectation
             else upload_current g params pending remoteSnapshotDescriptor expectation
         | None \<Rightarrow> upload_current g params pending remoteSnapshotDescriptor expectation))))))))))"

end
