(* ===== verification/Sync_Reconciliation.thy ===== *)
theory Sync_Reconciliation
  imports Sync_Upload Sync_Resolution Trust_Baseline Vault_Codec
begin

text \<open>
  Reviewing and resolving the differences between the local and the remote snapshot
  (\<open>use-cases/sync/prepare-sync-review.ts\<close> and \<open>apply-sync-resolution.ts\<close>): the remote snapshot is
  downloaded and verified, its vault is opened, and the user's choices are applied and saved, or the
  remote snapshot is taken as it is.
\<close>

section \<open>Values that are compared as JSON\<close>

text \<open>
  \<open>JSON.stringify\<close> prints an array buffer as \<open>{}\<close>, as it has no enumerable properties of its own, and
  gives \<open>undefined\<close> for \<open>undefined\<close>, which is equal to itself only.
\<close>

abbreviation buffer_value :: json where
  "buffer_value \<equiv> JObj []"

definition key_slot_value :: "DeviceKeySlot \<Rightarrow> json" where
  "key_slot_value slot = (let envelope = slot_envelope slot in JObj
     [(''deviceId'', JStr (slot_deviceId slot)), (''vaultKeyGeneration'', JNum (slot_vaultKeyGeneration slot)),
      (''envelope'', JObj
         [(''recipientDeviceId'', JStr (env_recipientDeviceId envelope)),
          (''vaultKeyGeneration'', JNum (env_vaultKeyGeneration envelope)),
          (''ephemeralPublicKey'', buffer_value), (''hkdfSalt'', buffer_value),
          (''encryptedVaultMasterKey'', encrypted_json (env_encryptedVaultMasterKey envelope))])])"

definition key_slots_value :: "DeviceKeySlot list \<Rightarrow> json" where
  "key_slots_value slots = JObj [(''deviceSlots'', JArr (map key_slot_value slots))]"

definition trusted_device_value :: "DeviceTrustIdentity \<Rightarrow> json" where
  "trusted_device_value device = JObj
     [(''deviceId'', JStr (dti_deviceId device)), (''publicSignKey'', buffer_value),
      (''publicVaultKey'', buffer_value)]"

definition certificate_value :: "VaultTrustCertificate \<Rightarrow> json" where
  "certificate_value value = (let p = cert_payload value in JObj
     [(''payload'', JObj
         [(''version'', JNum (tc_version p)), (''vaultId'', JStr (tc_vaultId p)),
          (''generation'', JNum (tc_generation p)), (''vaultKeyGeneration'', JNum (tc_vaultKeyGeneration p)),
          (''previousCertificateDigest'', nullable_text (tc_previousCertificateDigest p)),
          (''authorizedByDeviceId'', JStr (tc_authorizedByDeviceId p)),
          (''trustedDevices'', JArr (map trusted_device_value (tc_trustedDevices p)))]),
      (''signature'', encodeSignature (cert_signature value))])"

definition snapshot_value :: "VaultSnapshot \<Rightarrow> json" where
  "snapshot_value snapshot = JObj
     [(''metadata'', encode_metadata (snap_metadata snapshot)),
      (''trustChain'', JObj [(''certificates'', JArr (map certificate_value (snap_trustChain snapshot)))]),
      (''keySlots'', key_slots_value (snap_deviceSlots snapshot)),
      (''content'', encrypted_json (snap_content snapshot)),
      (''signature'', encodeSignature (snap_signature snapshot))]"

definition removal_value :: "SyncRemovalPending \<Rightarrow> json" where
  "removal_value p = JObj
     [(''expectedRemoteSnapshotIdentity'', nullable_identity (srp_expectedRemoteSnapshotIdentity p)),
      (''rollbackSnapshot'', snapshot_value (srp_rollbackSnapshot p))]"

definition areOptionalJsonEqual :: "('a \<Rightarrow> json) \<Rightarrow> 'a option \<Rightarrow> 'a option \<Rightarrow> bool" where
  "areOptionalJsonEqual value l r =
     (case (l, r) of
        (Some a, Some b) \<Rightarrow> areJsonEqual (value a) (value b)
      | _ \<Rightarrow> l = None \<and> r = None)"

section \<open>The remote vault\<close>

definition require_mergeable ::
    "string \<Rightarrow> VaultSnapshotDescriptor \<Rightarrow> VaultSnapshotDescriptor \<Rightarrow> core_error + VersionVectorRelation" where
  "require_mergeable vaultId localSnapshotDescriptor remoteSnapshotDescriptor =
     (case compareVaultSnapshotDescriptors localSnapshotDescriptor remoteSnapshotDescriptor of
        Broken \<Rightarrow> Inl (integrity_error vaultId)
      | Local_ahead \<Rightarrow> Inl (Sync_error (LocalVaultSnapshotAheadError vaultId))
      | relation \<Rightarrow> Inr relation)"

definition same_trust :: "VerifiedVaultTrustState \<Rightarrow> VerifiedVaultTrustState \<Rightarrow> bool" where
  "same_trust s t \<longleftrightarrow>
     \<not> (ts_generation s \<noteq> ts_generation t \<or> ts_certificateDigest s \<noteq> ts_certificateDigest t)"

definition providerCredentialRevocationCompleted :: "Vault \<Rightarrow> Vault \<Rightarrow> bool" where
  "providerCredentialRevocationCompleted localVault remoteVault \<longleftrightarrow>
     v_providerCredentialRevocationPending localVault \<noteq> None \<and>
     v_providerCredentialRevocationPending remoteVault = None"

definition require_same_sync_state ::
    "string \<Rightarrow> VaultSnapshot \<Rightarrow> VaultSnapshot \<Rightarrow> Vault \<Rightarrow> Vault \<Rightarrow> core_error + unit" where
  "require_same_sync_state vaultId localSnapshot remoteSnapshot localVault remoteVault =
     (if m_vaultCreationTimestamp (snap_metadata remoteSnapshot) \<noteq>
           m_vaultCreationTimestamp (snap_metadata localSnapshot) \<or>
         \<not> areOptionalJsonEqual encode_sync_target (v_syncTarget remoteVault) (v_syncTarget localVault) \<or>
         \<not> areOptionalJsonEqual removal_value (v_syncRemovalPending remoteVault) (v_syncRemovalPending localVault) \<or>
         (\<not> areOptionalJsonEqual encode_revocation_pending (v_providerCredentialRevocationPending remoteVault)
              (v_providerCredentialRevocationPending localVault) \<and>
          \<not> providerCredentialRevocationCompleted localVault remoteVault)
      then Inl (integrity_error vaultId) else Inr ())"

abbreviation trusted_ids :: "VerifiedVaultTrustState \<Rightarrow> string list" where
  "trusted_ids trust \<equiv> map dti_deviceId (ts_trustedDevices trust)"

text \<open>The device profiles of both vaults against the trust state, each with its own chain.\<close>

definition require_profiles_match ::
    "VerifiedVaultTrustState \<Rightarrow> VaultTrustChain \<Rightarrow> VaultTrustChain \<Rightarrow> Vault \<Rightarrow> Vault \<Rightarrow> core_error + unit" where
  "require_profiles_match trust localChain remoteChain localVault remoteVault =
     rbind (requireDeviceProfilesMatchTrust localVault (trusted_ids trust) (history_ids localChain)) (\<lambda>_.
     requireDeviceProfilesMatchTrust remoteVault (trusted_ids trust) (history_ids remoteChain))"

section \<open>The review\<close>

record sync_review =
  sv_entryReviews :: "VisibleEntryReviewItem list"
  sv_tagReviews :: "Tag review_item list"
  sv_folderReviews :: "Folder review_item list"
  sv_deviceProfileReviews :: "DeviceProfile review_item list"
  sv_keySlotsChanges :: KeySlotReviewItem
  sv_providerCredentialRevocationCompleted :: bool

record prepared_review =
  pv_local :: VaultSnapshotIdentity
  pv_remote :: VaultSnapshotIdentity
  pv_relation :: VersionVectorRelation
  pv_review :: "sync_review option"

text \<open>A changed slot is a change of trust; other errors of the slot review are passed on.\<close>

definition review_key_slots ::
    "string \<Rightarrow> DeviceKeySlot list \<Rightarrow> DeviceKeySlot list \<Rightarrow> core_error + KeySlotReviewItem" where
  "review_key_slots vaultId localKeySlots remoteKeySlots =
     (case findChangesInKeySlots localKeySlots remoteKeySlots of
        Inr changes \<Rightarrow> Inr changes
      | Inl e \<Rightarrow> Inl (case e of
            ChangedDeviceKeySlotsError _ \<Rightarrow> SyncTrustChangeRequiresDeviceTrustFlowError vaultId (Some e)
          | _ \<Rightarrow> e))"

text \<open>The device profiles are reviewed first.\<close>

definition build_review ::
    "Vault \<Rightarrow> Vault \<Rightarrow> KeySlotReviewItem \<Rightarrow> core_error + sync_review" where
  "build_review localVault remoteVault keySlotsChanges =
     rbind (findChangedDeviceProfiles localVault remoteVault) (\<lambda>deviceProfileReviews.
     rbind (findChangedEntries localVault remoteVault) (\<lambda>entryReviews.
     rbind (findChangedTags localVault remoteVault) (\<lambda>tagReviews.
     rbind (findChangedFolders localVault remoteVault) (\<lambda>folderReviews.
     Inr \<lparr>sv_entryReviews = map toVisibleEntryReviewItem entryReviews, sv_tagReviews = tagReviews,
          sv_folderReviews = folderReviews, sv_deviceProfileReviews = deviceProfileReviews,
          sv_keySlotsChanges = keySlotsChanges,
          sv_providerCredentialRevocationCompleted =
            providerCredentialRevocationCompleted localVault remoteVault\<rparr>))))"

definition review_remote ::
    "'r guard_env \<Rightarrow> string \<Rightarrow> UnlockedVault \<Rightarrow> VaultSnapshot \<Rightarrow> VaultSnapshotDescriptor \<Rightarrow> VaultSnapshot \<Rightarrow>
     candidate_trust \<Rightarrow> ('r, sync_review) guarded" where
  "review_remote g vaultId uv localSnapshot remoteSnapshotDescriptor remoteSnapshot remoteTrust =
     (let trust = tsc_trust (uv_trustedSnapshotContext uv);
          trust_change = SyncTrustChangeRequiresDeviceTrustFlowError vaultId None in
      sthen (srequire (same_trust (ct_state remoteTrust) trust) trust_change)
      (sbind (slift (review_key_slots vaultId (snap_deviceSlots localSnapshot) (snap_deviceSlots remoteSnapshot)))
        (\<lambda>keySlotsChanges.
       sthen (srequire (\<not> (ksr_hasChanges keySlotsChanges \<or>
                m_vaultKeyGeneration (snap_metadata remoteSnapshot) \<noteq>
                  m_vaultKeyGeneration (snap_metadata localSnapshot))) trust_change)
       (sbind (on_device (\<lambda>mem. openTrustedVaultSnapshot (device_of g) mem vaultId remoteSnapshot
                 (uv_vaultMasterKey uv))) (\<lambda>remoteVault.
        sthen (slift (require_same_sync_state vaultId localSnapshot remoteSnapshot (uv_vault uv) remoteVault))
        (sthen (srequire (areVaultSnapshotDescriptorsEqual (toVaultSnapshotDescriptor vaultId remoteSnapshot)
                  remoteSnapshotDescriptor) (changed_error vaultId))
        (sthen (slift (require_profiles_match trust (snap_trustChain localSnapshot) (ct_chain remoteTrust)
                  (uv_vault uv) remoteVault))
        (slift (build_review (uv_vault uv) remoteVault keySlotsChanges)))))))))"

definition prepareSyncReview :: "'r guard_env \<Rightarrow> string \<Rightarrow> ('r, prepared_review) guarded" where
  "prepareSyncReview g vaultId =
     (let env = device_of g; provider = provider_of g in
      sbind (requireUnlockedVaultContext (session_of g) vaultId ''prepare sync review'' None) (\<lambda>session.
      let uv = us_unlockedVault session in
      sthen (slift (require_synchronized vaultId ''prepare sync review'' (uv_vault uv)))
      (sbind (on_device (\<lambda>_. requireCurrentSnapshotForUnlockedVault env vaultId uv
                (us_sourceSnapshotVersionVector session))) (\<lambda>localSnapshot.
       sbind (on_device (\<lambda>mem. requireSyncAccess env mem vaultId uv)) (\<lambda>syncAccess.
       sbind (on_device (\<lambda>_. provider_call (getLatestVaultSnapshotDescriptor provider syncAccess vaultId)))
         (\<lambda>providerDescriptor.
       case providerDescriptor of
         None \<Rightarrow> sthrow (Sync_error (RemoteVaultSnapshotNotFoundError vaultId))
       | Some descriptor \<Rightarrow>
           (let remoteSnapshotDescriptor = cloneVaultSnapshotDescriptor descriptor;
                localSnapshotDescriptor = toVaultSnapshotDescriptor vaultId localSnapshot;
                localSnapshotIdentity = toVaultSnapshotIdentity vaultId localSnapshot
                  (tsc_snapshotDigest (uv_trustedSnapshotContext uv)) in
            sbind (slift (require_mergeable vaultId localSnapshotDescriptor remoteSnapshotDescriptor)) (\<lambda>relation.
            sbind (on_device (\<lambda>_. provider_call (downloadVaultSnapshot provider syncAccess
                     (cloneVaultSnapshotDescriptor remoteSnapshotDescriptor)))) (\<lambda>remoteSnapshot.
            sbind (on_device (\<lambda>_. verifyCandidateSnapshotTrust env vaultId remoteSnapshot uv)) (\<lambda>remoteTrust.
            let remoteSnapshotIdentity = toVaultSnapshotIdentity vaultId remoteSnapshot
                  (ct_snapshotDigest remoteTrust) in
            if relation = Equal
            then if \<not> areVaultSnapshotDescriptorsEqual remoteSnapshotDescriptor localSnapshotDescriptor \<or>
                    \<not> areVaultSnapshotIdentitiesEqual remoteSnapshotIdentity localSnapshotIdentity
                 then sthrow (integrity_error vaultId)
                 else sret \<lparr>pv_local = localSnapshotIdentity, pv_remote = remoteSnapshotIdentity,
                            pv_relation = relation, pv_review = None\<rparr>
            else
              sbind (review_remote g vaultId uv localSnapshot remoteSnapshotDescriptor remoteSnapshot remoteTrust)
                (\<lambda>review.
              sret \<lparr>pv_local = localSnapshotIdentity, pv_remote = remoteSnapshotIdentity,
                    pv_relation = relation, pv_review = Some review\<rparr>)))))))))))"

section \<open>Applying a resolution\<close>

record ReviewedVaultSnapshotIdentities =
  ri_local :: VaultSnapshotIdentity
  ri_remote :: VaultSnapshotIdentity

definition cloneReviewedVaultSnapshotIdentities ::
    "ReviewedVaultSnapshotIdentities \<Rightarrow> ReviewedVaultSnapshotIdentities" where
  "cloneReviewedVaultSnapshotIdentities identities =
     \<lparr>ri_local = cloneVaultSnapshotIdentity (ri_local identities),
      ri_remote = cloneVaultSnapshotIdentity (ri_remote identities)\<rparr>"

record sync_candidate =
  sc_session :: UnlockedVaultSession
  sc_localSnapshot :: VaultSnapshot
  sc_syncAccess :: SyncAccess
  sc_remoteSnapshot :: VaultSnapshot
  sc_remoteTrust :: candidate_trust
  sc_remoteVault :: Vault

text \<open>No slot may differ, and the two lists must be equal as JSON; every error is a change of trust.\<close>

definition require_same_key_slots :: "string \<Rightarrow> DeviceKeySlot list \<Rightarrow> DeviceKeySlot list \<Rightarrow> core_error + unit" where
  "require_same_key_slots vaultId localKeySlots remoteKeySlots =
     (case findChangesInKeySlots localKeySlots remoteKeySlots of
        Inl e \<Rightarrow> Inl (SyncTrustChangeRequiresDeviceTrustFlowError vaultId (Some e))
      | Inr changes \<Rightarrow>
          if ksr_hasChanges changes \<or>
             \<not> areJsonEqual (key_slots_value localKeySlots) (key_slots_value remoteKeySlots)
          then Inl (SyncTrustChangeRequiresDeviceTrustFlowError vaultId None) else Inr ())"

text \<open>The remote snapshot of the review, downloaded again and opened.\<close>

definition open_reviewed ::
    "'r guard_env \<Rightarrow> string \<Rightarrow> ReviewedVaultSnapshotIdentities \<Rightarrow> UnlockedVaultSession \<Rightarrow> VaultSnapshot \<Rightarrow>
     SyncAccess \<Rightarrow> ('r, sync_candidate) guarded" where
  "open_reviewed g vaultId reviewed session localSnapshot syncAccess =
     (let env = device_of g; uv = us_unlockedVault session;
          trust = tsc_trust (uv_trustedSnapshotContext uv) in
      sbind (on_device (\<lambda>_. provider_call (downloadVaultSnapshot (provider_of g) syncAccess
               (cloneVaultSnapshotDescriptor (si_descriptor (ri_remote reviewed)))))) (\<lambda>remoteSnapshot.
      sbind (on_device (\<lambda>_. verifyCandidateSnapshotTrust env vaultId remoteSnapshot uv)) (\<lambda>remoteTrust.
      sthen (srequire (\<not> (\<not> same_trust (ct_state remoteTrust) trust \<or>
               m_vaultKeyGeneration (snap_metadata remoteSnapshot) \<noteq>
                 m_vaultKeyGeneration (snap_metadata localSnapshot)))
               (SyncTrustChangeRequiresDeviceTrustFlowError vaultId None))
      (sthen (slift (require_same_key_slots vaultId (snap_deviceSlots localSnapshot)
                (snap_deviceSlots remoteSnapshot)))
      (sbind (on_device (\<lambda>mem. openTrustedVaultSnapshot env mem vaultId remoteSnapshot (uv_vaultMasterKey uv)))
        (\<lambda>remoteVault.
       sthen (slift (require_same_sync_state vaultId localSnapshot remoteSnapshot (uv_vault uv) remoteVault))
       (sthen (srequire (areVaultSnapshotIdentitiesEqual
                 (toVaultSnapshotIdentity vaultId remoteSnapshot (ct_snapshotDigest remoteTrust))
                 (ri_remote reviewed)) (changed_error vaultId))
       (sret \<lparr>sc_session = session, sc_localSnapshot = localSnapshot, sc_syncAccess = syncAccess,
              sc_remoteSnapshot = remoteSnapshot, sc_remoteTrust = remoteTrust,
              sc_remoteVault = remoteVault\<rparr>))))))))"

definition load_reviewed ::
    "'r guard_env \<Rightarrow> string \<Rightarrow> ReviewedVaultSnapshotIdentities \<Rightarrow> ('r, sync_candidate) guarded" where
  "load_reviewed g vaultId reviewed =
     (let env = device_of g; operation = ''apply sync resolution'';
          remoteSnapshotDescriptor = si_descriptor (ri_remote reviewed) in
      sbind (requireUnlockedVaultContext (session_of g) vaultId operation None) (\<lambda>session.
      let uv = us_unlockedVault session in
      sthen (slift (require_synchronized vaultId operation (uv_vault uv)))
      (sthen (srequire (\<not> (sd_vaultId (si_descriptor (ri_local reviewed)) \<noteq> vaultId \<or>
                sd_vaultId remoteSnapshotDescriptor \<noteq> vaultId))
                (InvalidSyncResolutionError vaultId Descriptor_of_another_vault))
      (sbind (on_device (\<lambda>_. requireCurrentSnapshotForUnlockedVault env vaultId uv
                (us_sourceSnapshotVersionVector session))) (\<lambda>localSnapshot.
       let currentLocalSnapshotIdentity = toVaultSnapshotIdentity vaultId localSnapshot
             (tsc_snapshotDigest (uv_trustedSnapshotContext uv)) in
       sthen (srequire (areVaultSnapshotIdentitiesEqual currentLocalSnapshotIdentity (ri_local reviewed))
                (Snapshot_error (LocalVaultSnapshotChangedError vaultId)))
       (sbind (on_device (\<lambda>mem. requireSyncAccess env mem vaultId uv)) (\<lambda>syncAccess.
        sbind (on_device (\<lambda>_. provider_call (getLatestVaultSnapshotDescriptor (provider_of g) syncAccess vaultId)))
          (\<lambda>currentRemoteDescriptor.
        sthen (srequire (case currentRemoteDescriptor of
                  None \<Rightarrow> False
                | Some d \<Rightarrow> areVaultSnapshotDescriptorsEqual d remoteSnapshotDescriptor) (changed_error vaultId))
        (sbind (slift (require_mergeable vaultId (si_descriptor currentLocalSnapshotIdentity)
                  remoteSnapshotDescriptor)) (\<lambda>relation.
         sbind (open_reviewed g vaultId reviewed session localSnapshot syncAccess) (\<lambda>candidate.
         if relation = Equal
         then sthrow (if \<not> areVaultSnapshotIdentitiesEqual currentLocalSnapshotIdentity (ri_remote reviewed)
                      then integrity_error vaultId
                      else Sync_error (SyncAlreadyResolvedError vaultId))
         else sret candidate)))))))))))"

text \<open>The review is made again, and the resolution must have one choice for every item of it.\<close>

definition find_reviews :: "Vault \<Rightarrow> Vault \<Rightarrow> core_error + VaultSyncReview" where
  "find_reviews localVault remoteVault =
     rbind (findChangedEntries localVault remoteVault) (\<lambda>entryReviews.
     rbind (findChangedTags localVault remoteVault) (\<lambda>tagReviews.
     rbind (findChangedFolders localVault remoteVault) (\<lambda>folderReviews.
     rbind (findChangedDeviceProfiles localVault remoteVault) (\<lambda>deviceProfileReviews.
     Inr \<lparr>sr_entryReviews = entryReviews, sr_tagReviews = tagReviews,
          sr_folderReviews = folderReviews, sr_deviceProfileReviews = deviceProfileReviews\<rparr>))))"

definition resolution_is_complete :: "VaultSyncReview \<Rightarrow> VaultSyncResolution \<Rightarrow> bool" where
  "resolution_is_complete review resolution \<longleftrightarrow>
     \<not> (length (sr_entryReviews review) \<noteq> length (entryResolutions resolution) \<or>
        length (sr_tagReviews review) \<noteq> length (tagResolutions resolution) \<or>
        length (sr_folderReviews review) \<noteq> length (folderResolutions resolution) \<or>
        length (sr_deviceProfileReviews review) \<noteq> length (deviceProfileResolutions resolution))"

text \<open>\<open>applyVaultSyncResolution\<close>, its resolution errors under the error of the use case.\<close>

definition apply_choices ::
    "(string \<Rightarrow> string) \<Rightarrow> string \<Rightarrow> Vault \<Rightarrow> Vault \<Rightarrow> VaultSyncReview \<Rightarrow> VaultSyncResolution \<Rightarrow> string \<Rightarrow>
     core_error + Vault" where
  "apply_choices nfkc vaultId localVault remoteVault review resolution deviceId =
     (case applyVaultSyncResolution nfkc localVault remoteVault review resolution deviceId of
        Inr v \<Rightarrow> Inr v
      | Inl e \<Rightarrow> Inl (case e of
            InvalidVaultSyncResolutionError _ \<Rightarrow> InvalidSyncResolutionError vaultId e
          | _ \<Rightarrow> e))"

definition resolve_candidate ::
    "(string \<Rightarrow> string) \<Rightarrow> string \<Rightarrow> VaultSyncResolution \<Rightarrow> sync_candidate \<Rightarrow> core_error + Vault" where
  "resolve_candidate nfkc vaultId resolution c =
     (let uv = us_unlockedVault (sc_session c); localVault = uv_vault uv; remoteVault = sc_remoteVault c in
      rbind (require_profiles_match (tsc_trust (uv_trustedSnapshotContext uv))
               (snap_trustChain (sc_localSnapshot c)) (ct_chain (sc_remoteTrust c)) localVault remoteVault) (\<lambda>_.
      rbind (find_reviews localVault remoteVault) (\<lambda>review.
      if \<not> resolution_is_complete review resolution
      then Inl (Sync_error (SyncResolutionIncompleteError vaultId))
      else apply_choices nfkc vaultId localVault remoteVault review resolution (uv_deviceId uv))))"

definition acceptsRemoteState :: "VaultSyncResolution \<Rightarrow> bool" where
  "acceptsRemoteState resolution \<longleftrightarrow>
     list_all (\<lambda>choice. rr_action choice = Use_remote)
       (entryResolutions resolution @ tagResolutions resolution @ folderResolutions resolution @
        deviceProfileResolutions resolution)"

record ApplySyncResolutionResult =
  ar_snapshotVersionVector :: VersionVector
  ar_revisionTimestamp :: nat
  ar_syncUpload :: SyncUploadStatus

text \<open>The remote snapshot replaces the local one as it is.\<close>

definition adopt_remote :: "'r guard_env \<Rightarrow> string \<Rightarrow> sync_candidate \<Rightarrow> ('r, ApplySyncResolutionResult) guarded" where
  "adopt_remote g vaultId c =
     (let env = device_of g; uv = us_unlockedVault (sc_session c); sessionId = us_sessionId (sc_session c) in
      sbind (persistForActiveSession (session_of g) sessionId vaultId
               (\<lambda>mem. sbind (prepareSyncCredentialStateWithoutPending env mem vaultId uv True None) (\<lambda>transition.
                  persistVerifiedRemoteSnapshot env mem vaultId (sc_remoteSnapshot c)
                    (ct_state (sc_remoteTrust c)) uv
                    (Some \<lparr>cr_expectedSyncCredentialState = Some (cp_expectedState transition),
                           cr_syncCredentialState = Some (cp_nextState transition)\<rparr>))) None) (\<lambda>persisted.
      sthen (commitPersistedSnapshot (session_of g) sessionId
               (uv\<lparr>uv_vault := sc_remoteVault c,
                   uv_trustedSnapshotContext := vr_trustedSnapshotContext persisted\<rparr>)
               (vr_snapshotVersionVector persisted) None)
      (sret \<lparr>ar_snapshotVersionVector = vr_snapshotVersionVector persisted,
             ar_revisionTimestamp = vr_revisionTimestamp persisted, ar_syncUpload = Complete\<rparr>)))"

text \<open>The resolved vault is a new snapshot, ahead of both, that replaces the remote one.\<close>

definition resolved_options :: "sync_candidate \<Rightarrow> VaultSnapshotIdentity \<Rightarrow> credential_preparation \<Rightarrow> persist_options" where
  "resolved_options c remoteSnapshotIdentity transition = no_options\<lparr>
     po_baseSnapshotVersionVector := Some (mergeVersionVectors
       (m_snapshotVersionVector (snap_metadata (sc_localSnapshot c)))
       (sd_snapshotVersionVector (si_descriptor remoteSnapshotIdentity))),
     po_uploadExpectedRemoteSnapshotIdentity := Some (Some remoteSnapshotIdentity),
     po_expectedSyncCredentialState := Some (Some (cp_expectedState transition)),
     po_syncCredentialState := Some (Some (cp_nextState transition))\<rparr>"

definition save_resolved ::
    "device_env \<Rightarrow> (buffer \<Rightarrow> bytes) \<Rightarrow> string \<Rightarrow> sync_candidate \<Rightarrow> VaultSnapshotIdentity \<Rightarrow> UnlockedVault \<Rightarrow>
     ('r, persisted_snapshot \<times> PreparedLocalVaultSnapshotRestore \<times> SerializedEncrypted) service" where
  "save_resolved env mem vaultId c remoteSnapshotIdentity updatedUnlockedVault =
     (let uv = us_unlockedVault (sc_session c) in
      sbind (prepareLocalVaultSnapshotRestore env (sc_localSnapshot c) uv None) (\<lambda>preparedRestore.
      sbind (prepareSyncCredentialStateWithoutPending env mem vaultId uv True None) (\<lambda>transition.
      sbind (persistUnlockedVault env mem vaultId updatedUnlockedVault
               (us_sourceSnapshotVersionVector (sc_session c))
               (resolved_options c remoteSnapshotIdentity transition)) (\<lambda>persisted.
      sret (persisted, preparedRestore, cp_nextState transition)))))"

definition persist_resolved ::
    "'r guard_env \<Rightarrow> string \<Rightarrow> sync_candidate \<Rightarrow> VaultSnapshotIdentity \<Rightarrow> Vault \<Rightarrow>
     ('r, ApplySyncResolutionResult) guarded" where
  "persist_resolved g vaultId c remoteSnapshotIdentity resolvedVault =
     (let env = device_of g; session = sc_session c; sessionId = us_sessionId session;
          updatedUnlockedVault = (us_unlockedVault session)\<lparr>uv_vault := resolvedVault\<rparr> in
      sbind (persistForActiveSession (session_of g) sessionId vaultId
               (\<lambda>mem. save_resolved env mem vaultId c remoteSnapshotIdentity updatedUnlockedVault) None)
        (\<lambda>(persisted, preparedRestore, persistedSyncCredentialState).
      sbind (uploadPersistedSnapshot g
               \<lparr>up_sessionId = sessionId, up_vaultId = vaultId, up_unlockedVault = updatedUnlockedVault,
                up_syncAccess = sc_syncAccess c, up_snapshot = ps_snapshot persisted,
                up_snapshotDigest = tsc_snapshotDigest (ps_trustedSnapshotContext persisted),
                up_checkpoint = ps_checkpoint persisted\<rparr>
               (Some remoteSnapshotIdentity) (us_sourceSnapshotVersionVector session)
               persistedSyncCredentialState preparedRestore) (\<lambda>status.
      sthen (commitPersistedSnapshotIfSessionIsActive (session_of g) sessionId
               (updatedUnlockedVault\<lparr>uv_trustedSnapshotContext := ps_trustedSnapshotContext persisted\<rparr>)
               (ps_snapshotVersionVector persisted) None)
      (sret \<lparr>ar_snapshotVersionVector = ps_snapshotVersionVector persisted,
             ar_revisionTimestamp = ps_revisionTimestamp persisted, ar_syncUpload = status\<rparr>))))"

text \<open>What is saved if any local state was chosen.\<close>

definition finish_resolved ::
    "string \<Rightarrow> sync_candidate \<Rightarrow> Vault \<Rightarrow> core_error + Vault" where
  "finish_resolved vaultId c resolvedVault =
     (let uv = us_unlockedVault (sc_session c);
          vault = (if providerCredentialRevocationCompleted (uv_vault uv) (sc_remoteVault c)
            then clearVaultProviderCredentialRevocationPending resolvedVault else resolvedVault) in
      rbind (requireDeviceProfilesMatchTrust vault (trusted_ids (tsc_trust (uv_trustedSnapshotContext uv)))
               (history_ids (ct_chain (sc_remoteTrust c)))) (\<lambda>_. Inr vault))"

definition applySyncResolution ::
    "(string \<Rightarrow> string) \<Rightarrow> 'r guard_env \<Rightarrow> string \<Rightarrow> ReviewedVaultSnapshotIdentities \<Rightarrow> VaultSyncResolution \<Rightarrow>
     ('r, ApplySyncResolutionResult) guarded" where
  "applySyncResolution nfkc g vaultId reviewedSnapshotIdentities resolution =
     (let reviewed = cloneReviewedVaultSnapshotIdentities reviewedSnapshotIdentities in
      sbind (load_reviewed g vaultId reviewed) (\<lambda>c.
      sbind (slift (resolve_candidate nfkc vaultId resolution c)) (\<lambda>resolvedVault.
      if acceptsRemoteState resolution then adopt_remote g vaultId c
      else
        sbind (slift (finish_resolved vaultId c resolvedVault)) (\<lambda>vault.
        persist_resolved g vaultId c (ri_remote reviewed) vault))))"

end
