(* ===== verification/Sync_Setup.thy ===== *)
theory Sync_Setup
  imports Sync_Reconciliation
begin

text \<open>
  Connecting a vault to a remote storage and changing its credentials: \<open>use-cases/sync/setup-sync.ts\<close>,
  \<open>test-sync-access.ts\<close>, \<open>get-sync-configuration.ts\<close>, \<open>update-sync-credentials.ts\<close>,
  \<open>complete-provider-credential-revocation.ts\<close> and \<open>existing-sync-connection.ts\<close>.

  A setup input is a JSON value, so that \<open>JSON.parse(JSON.stringify(input))\<close> is the input.
\<close>

section \<open>What they share\<close>

definition setup_or_invalid :: "'r sync_provider \<Rightarrow> SyncSetupInput \<Rightarrow> ('r, SyncAccess) service" where
  "setup_or_invalid provider syncConfig =
     scatch (provider_call (setup_access provider syncConfig)) (\<lambda>_. sthrow (Sync_error InvalidSyncConfigError))"

definition new_credentials :: "SyncCredentials \<Rightarrow> DeviceSyncCredentialState" where
  "new_credentials credentials =
     \<lparr>dsc_currentCredentials = credentials, dsc_pendingSnapshotUpload = None, dsc_previousCredentials = None\<rparr>"

definition encrypt_credential_state ::
    "device_env \<Rightarrow> (buffer \<Rightarrow> bytes) \<Rightarrow> string \<Rightarrow> UnlockedVault \<Rightarrow> SyncTarget \<Rightarrow> DeviceSyncCredentialState \<Rightarrow>
     ('r, SerializedEncrypted) service" where
  "encrypt_credential_state env mem vaultId uv target state =
     crypto_call env (\<lambda>n. Inr (encryptDeviceSyncCredentialState (crypto_port env) n state
       (mem (uv_deviceLocalProtectionKey uv)) (encryption_context vaultId uv target)))"

text \<open>\<open>requireSyncProviderAccessOutcome(await checkVaultAccess(..))\<close>.\<close>

definition access_outcome :: "'r sync_provider \<Rightarrow> SyncAccess \<Rightarrow> string \<Rightarrow> ('r, string) service" where
  "access_outcome provider access vaultId =
     sbind (provider_call (checkVaultAccess provider access vaultId)) (\<lambda>answer.
     slift (requireSyncProviderAccessOutcome answer))"

abbreviation credentials_missing :: "string \<Rightarrow> core_error" where
  "credentials_missing vaultId \<equiv> Sync_error (LocalSyncCredentialsMissingError vaultId)"

definition require_stored_credentials :: "device_env \<Rightarrow> string \<Rightarrow> ('r, SerializedEncrypted) service" where
  "require_stored_credentials env vaultId =
     sbind (repository env (getDeviceSyncCredentialState vaultId)) (\<lambda>stored.
     case stored of None \<Rightarrow> sthrow (credentials_missing vaultId) | Some state \<Rightarrow> sret state)"

section \<open>Setting up\<close>

definition save_initial_sync ::
    "device_env \<Rightarrow> (buffer \<Rightarrow> bytes) \<Rightarrow> string \<Rightarrow> VaultSnapshot \<Rightarrow> UnlockedVault \<Rightarrow> UnlockedVault \<Rightarrow>
     VersionVector \<Rightarrow> SerializedEncrypted \<Rightarrow>
     ('r, persisted_snapshot \<times> PreparedLocalVaultSnapshotRestore) service" where
  "save_initial_sync env mem vaultId localSnapshot uv updatedUnlockedVault v encryptedCredentialState =
     sbind (prepareLocalVaultSnapshotRestore env localSnapshot uv (Some None)) (\<lambda>preparedRestore.
     sbind (persistUnlockedVault env mem vaultId updatedUnlockedVault v
              (no_options\<lparr>po_uploadExpectedRemoteSnapshotIdentity := Some None,
                 po_expectedSyncCredentialState := Some None,
                 po_syncCredentialState := Some (Some encryptedCredentialState)\<rparr>)) (\<lambda>persisted.
     sret (persisted, preparedRestore)))"

definition setupSync :: "'r guard_env \<Rightarrow> string \<Rightarrow> SyncSetupInput \<Rightarrow> ('r, SyncUploadStatus) guarded" where
  "setupSync g vaultId syncConfig =
     (let env = device_of g; provider = provider_of g in
      sbind (requireUnlockedVaultContext (session_of g) vaultId ''setup sync'' None) (\<lambda>session.
      let uv = us_unlockedVault session; sessionId = us_sessionId session;
          v = us_sourceSnapshotVersionVector session in
      sthen (srequire (v_syncTarget (uv_vault uv) = None) (Sync_error (SyncAlreadyConfiguredError vaultId)))
      (sbind (on_device (\<lambda>mem. prepareLocalMutation env provider mem vaultId uv v)) (\<lambda>syncState.
       sbind (on_device (\<lambda>_. setup_or_invalid provider syncConfig)) (\<lambda>syncAccess.
       sbind (on_device (\<lambda>mem. encrypt_credential_state env mem vaultId uv (sa_target syncAccess)
                 (new_credentials (sa_credentials syncAccess)))) (\<lambda>encryptedCredentialState.
       sbind (on_device (\<lambda>_. provider_call (getLatestVaultSnapshotDescriptor provider syncAccess vaultId)))
         (\<lambda>remoteSnapshotDescriptor.
       sthen (srequire (remoteSnapshotDescriptor = None) (Sync_error (RemoteVaultSnapshotAheadError vaultId)))
       (let updatedUnlockedVault = uv\<lparr>uv_vault := (uv_vault uv)\<lparr>v_syncTarget := Some (sa_target syncAccess)\<rparr>\<rparr> in
        sbind (persistForActiveSession (session_of g) sessionId vaultId
                 (\<lambda>mem. save_initial_sync env mem vaultId (lms_localSnapshot syncState) uv updatedUnlockedVault v
                    encryptedCredentialState) None) (\<lambda>(persisted, preparedRestore).
        sbind (uploadPersistedInitialSyncSnapshot g
                 \<lparr>up_sessionId = sessionId, up_vaultId = vaultId, up_unlockedVault = updatedUnlockedVault,
                  up_syncAccess = syncAccess, up_snapshot = ps_snapshot persisted,
                  up_snapshotDigest = tsc_snapshotDigest (ps_trustedSnapshotContext persisted),
                  up_checkpoint = ps_checkpoint persisted\<rparr>
                 (lms_localSnapshot syncState) encryptedCredentialState preparedRestore) (\<lambda>status.
        sthen (commitPersistedSnapshotIfSessionIsActive (session_of g) sessionId
                 (updatedUnlockedVault\<lparr>uv_trustedSnapshotContext := ps_trustedSnapshotContext persisted\<rparr>)
                 (ps_snapshotVersionVector persisted) None)
        (sret status)))))))))))"

definition testSyncAccess :: "'r guard_env \<Rightarrow> string \<Rightarrow> SyncSetupInput \<Rightarrow> ('r, unit) guarded" where
  "testSyncAccess g vaultId syncConfig =
     sthen (requireUnlockedVaultContext (session_of g) vaultId ''test sync access'' None)
     (sbind (on_device (\<lambda>_. setup_or_invalid (provider_of g) syncConfig)) (\<lambda>access.
      sbind (on_device (\<lambda>_. access_outcome (provider_of g) access vaultId)) (\<lambda>result.
      srequire (result \<noteq> ''authentication_rejected'') (Sync_error SyncCredentialsRejectedError))))"

record GetSyncConfigurationResult =
  gs_target :: "SyncTarget option"
  gs_snapshotVersionVector :: VersionVector
  gs_providerCredentialRevocationPending :: bool
  gs_syncRemovalPending :: bool

definition getSyncConfiguration :: "'r guard_env \<Rightarrow> string \<Rightarrow> ('r, GetSyncConfigurationResult) guarded" where
  "getSyncConfiguration g vaultId =
     sbind (requireUnlockedVaultContext (session_of g) vaultId ''read sync configuration'' None) (\<lambda>session.
     let vault = uv_vault (us_unlockedVault session) in
     sret \<lparr>gs_target = v_syncTarget vault,
           gs_snapshotVersionVector = us_sourceSnapshotVersionVector session,
           gs_providerCredentialRevocationPending = (v_providerCredentialRevocationPending vault \<noteq> None),
           gs_syncRemovalPending = (v_syncRemovalPending vault \<noteq> None)\<rparr>)"

section \<open>Replacing the credentials\<close>

text \<open>The callback: the stored credentials are replaced, the snapshot stays.\<close>

definition replace_current_credentials ::
    "device_env \<Rightarrow> (buffer \<Rightarrow> bytes) \<Rightarrow> string \<Rightarrow> UnlockedVault \<Rightarrow> VersionVector \<Rightarrow> SyncTarget \<Rightarrow>
     SyncCredentials \<Rightarrow> ('r, unit) service" where
  "replace_current_credentials env mem vaultId uv v target credentials =
     sbind (requireCurrentSnapshotForUnlockedVault env vaultId uv v) (\<lambda>snapshot.
     sbind (requireCurrentCheckpointForUnlockedVault env vaultId snapshot uv) (\<lambda>checkpoint.
     sbind (require_stored_credentials env vaultId) (\<lambda>encryptedState.
     sbind (decrypt_credentials env mem vaultId uv target encryptedState) (\<lambda>state.
     sthen (srequire (\<not> (case dsc_previousCredentials state of
                None \<Rightarrow> False
              | Some previous \<Rightarrow>
                  areJsonEqual (credentials_json (prc_credentials previous)) (credentials_json credentials)))
              (Sync_error (ProviderCredentialRevocationPendingError vaultId ''reuse previous credentials'')))
     (sbind (encrypt_credential_state env mem vaultId uv target (state\<lparr>dsc_currentCredentials := credentials\<rparr>))
       (\<lambda>updatedState.
      replace_credentials env snapshot (tsc_snapshotDigest (uv_trustedSnapshotContext uv)) checkpoint
        encryptedState updatedState))))))"

definition updateSyncCredentials :: "'r guard_env \<Rightarrow> string \<Rightarrow> SyncSetupInput \<Rightarrow> ('r, unit) guarded" where
  "updateSyncCredentials g vaultId syncConfig =
     (let env = device_of g; provider = provider_of g; operation = ''update sync credentials'' in
      sbind (requireUnlockedVaultContext (session_of g) vaultId operation None) (\<lambda>session.
      let uv = us_unlockedVault session in
      case v_syncTarget (uv_vault uv) of
        None \<Rightarrow> sthrow (Sync_error (SyncNotConfiguredError vaultId operation))
      | Some target \<Rightarrow>
          sbind (on_device (\<lambda>_. setup_or_invalid provider syncConfig)) (\<lambda>access.
          sthen (srequire (\<not> (\<not> areJsonEqual (encode_sync_target (sa_target access)) (encode_sync_target target) \<or>
                   sc_provider (sa_credentials access) \<noteq> st_provider target))
                   (Sync_error (ReplacementSyncTargetMismatchError vaultId)))
          (sbind (on_device (\<lambda>_. access_outcome provider access vaultId)) (\<lambda>outcome.
           sthen (srequire (outcome \<noteq> ''authentication_rejected'') (Sync_error SyncCredentialsRejectedError))
           (persistForActiveSession (session_of g) (us_sessionId session) vaultId
              (\<lambda>mem. replace_current_credentials env mem vaultId uv (us_sourceSnapshotVersionVector session)
                 target (sa_credentials access)) None))))))"

section \<open>Completing the revocation of credentials\<close>

datatype provider_revocation = Revocation_complete | Pending_external_deletion | Revocation_not_configured

record revocation_result =
  rs_providerCredentialRevocation :: provider_revocation
  rs_syncUpload :: SyncUploadStatus

text \<open>Without a shared marker the revocation is complete, else it stays pending elsewhere.\<close>

definition revocation_status :: "ProviderCredentialRevocationPending option \<Rightarrow> revocation_result" where
  "revocation_status sharedPending =
     \<lparr>rs_providerCredentialRevocation =
        (if sharedPending = None then Revocation_complete else Pending_external_deletion),
      rs_syncUpload = Complete\<rparr>"

text \<open>The previous credentials are forgotten on this device only.\<close>

definition forget_previous_credentials ::
    "'r guard_env \<Rightarrow> string \<Rightarrow> UnlockedVaultSession \<Rightarrow> VaultSnapshot \<Rightarrow> SerializedEncrypted \<Rightarrow>
     SerializedEncrypted \<Rightarrow> ('r, unit) guarded" where
  "forget_previous_credentials g vaultId session snapshot encryptedState completedState =
     (let env = device_of g; uv = us_unlockedVault session in
      sbind (on_device (\<lambda>_. requireCurrentCheckpointForUnlockedVault env vaultId snapshot uv)) (\<lambda>checkpoint.
      persistForActiveSession (session_of g) (us_sessionId session) vaultId
        (\<lambda>_. replace_credentials env snapshot (tsc_snapshotDigest (uv_trustedSnapshotContext uv)) checkpoint
           encryptedState completedState) None))"

text \<open>The remote snapshot must be the local one before the marker is removed from the vault.\<close>

definition require_remote_is_local ::
    "'r guard_env \<Rightarrow> string \<Rightarrow> UnlockedVault \<Rightarrow> VaultSnapshot \<Rightarrow>
     ('r, SyncAccess \<times> VaultSnapshotIdentity) guarded" where
  "require_remote_is_local g vaultId uv snapshot =
     (let env = device_of g; provider = provider_of g in
      sbind (on_device (\<lambda>mem. requireSyncAccess env mem vaultId uv)) (\<lambda>currentSyncAccess.
      sbind (on_device (\<lambda>_. provider_call (getLatestVaultSnapshotDescriptor provider currentSyncAccess vaultId)))
        (\<lambda>remoteSnapshotDescriptor.
      case remoteSnapshotDescriptor of
        None \<Rightarrow> sthrow (Sync_error (RemoteVaultSnapshotNotFoundError vaultId))
      | Some descriptor \<Rightarrow>
          sthen (srequire (areVaultSnapshotDescriptorsEqual descriptor (toVaultSnapshotDescriptor vaultId snapshot))
                   (changed_error vaultId))
          (sbind (on_device (\<lambda>_. provider_call (downloadVaultSnapshot provider currentSyncAccess descriptor)))
            (\<lambda>remoteSnapshot.
           sbind (on_device (\<lambda>_. crypto_call env (\<lambda>_. Inr (snapshot_digest env remoteSnapshot))))
             (\<lambda>remoteSnapshotDigest.
           sthen (srequire (remoteSnapshotDigest = tsc_snapshotDigest (uv_trustedSnapshotContext uv))
                    (integrity_error vaultId))
           (sret (currentSyncAccess,
              \<lparr>si_descriptor = descriptor, si_snapshotDigest = remoteSnapshotDigest\<rparr>))))))))"

definition save_completed ::
    "device_env \<Rightarrow> (buffer \<Rightarrow> bytes) \<Rightarrow> string \<Rightarrow> VaultSnapshot \<Rightarrow> UnlockedVault \<Rightarrow> UnlockedVault \<Rightarrow> VersionVector \<Rightarrow>
     VaultSnapshotIdentity \<Rightarrow> SerializedEncrypted \<Rightarrow> SerializedEncrypted \<Rightarrow>
     ('r, persisted_snapshot \<times> PreparedLocalVaultSnapshotRestore) service" where
  "save_completed env mem vaultId snapshot uv completedUnlockedVault v expectedRemoteSnapshotIdentity
     encryptedState completedState =
     sbind (prepareLocalVaultSnapshotRestore env snapshot uv (Some (Some encryptedState))) (\<lambda>preparedRestore.
     sbind (persistUnlockedVault env mem vaultId completedUnlockedVault v
              (no_options\<lparr>po_uploadExpectedRemoteSnapshotIdentity := Some (Some expectedRemoteSnapshotIdentity),
                 po_expectedSyncCredentialState := Some (Some encryptedState),
                 po_syncCredentialState := Some (Some completedState)\<rparr>)) (\<lambda>persisted.
     sret (persisted, preparedRestore)))"

definition complete_shared_revocation ::
    "'r guard_env \<Rightarrow> string \<Rightarrow> UnlockedVaultSession \<Rightarrow> VaultSnapshot \<Rightarrow> SerializedEncrypted \<Rightarrow>
     SerializedEncrypted \<Rightarrow> ('r, revocation_result) guarded" where
  "complete_shared_revocation g vaultId session snapshot encryptedState completedState =
     (let env = device_of g; uv = us_unlockedVault session; sessionId = us_sessionId session;
          v = us_sourceSnapshotVersionVector session;
          completedUnlockedVault = uv\<lparr>uv_vault := clearVaultProviderCredentialRevocationPending (uv_vault uv)\<rparr> in
      sbind (require_remote_is_local g vaultId uv snapshot) (\<lambda>(currentSyncAccess, expectedRemoteSnapshotIdentity).
      sbind (persistForActiveSession (session_of g) sessionId vaultId
               (\<lambda>mem. save_completed env mem vaultId snapshot uv completedUnlockedVault v
                  expectedRemoteSnapshotIdentity encryptedState completedState) None)
        (\<lambda>(persisted, preparedRestore).
      sbind (uploadPersistedSnapshot g
               \<lparr>up_sessionId = sessionId, up_vaultId = vaultId, up_unlockedVault = completedUnlockedVault,
                up_syncAccess = currentSyncAccess, up_snapshot = ps_snapshot persisted,
                up_snapshotDigest = tsc_snapshotDigest (ps_trustedSnapshotContext persisted),
                up_checkpoint = ps_checkpoint persisted\<rparr>
               (Some expectedRemoteSnapshotIdentity) v completedState preparedRestore) (\<lambda>status.
      sthen (commitPersistedSnapshotIfSessionIsActive (session_of g) sessionId
               (completedUnlockedVault\<lparr>uv_trustedSnapshotContext := ps_trustedSnapshotContext persisted\<rparr>)
               (ps_snapshotVersionVector persisted) None)
      (sret \<lparr>rs_providerCredentialRevocation = Revocation_complete, rs_syncUpload = status\<rparr>)))))"

text \<open>The provider has been asked whether the previous credentials still work.\<close>

definition complete_previous ::
    "'r guard_env \<Rightarrow> string \<Rightarrow> UnlockedVaultSession \<Rightarrow> SyncTarget \<Rightarrow> SerializedEncrypted \<Rightarrow>
     DeviceSyncCredentialState \<Rightarrow> PreviousCredentials \<Rightarrow> ('r, revocation_result) guarded" where
  "complete_previous g vaultId session syncTarget encryptedState state previous =
     (let env = device_of g; uv = us_unlockedVault session;
          sharedPending = v_providerCredentialRevocationPending (uv_vault uv);
          localPending = \<lparr>pcr_revokedDeviceIds = prc_revokedDeviceIds previous,
            pcr_vaultKeyGeneration = prc_vaultKeyGeneration previous\<rparr> in
      sbind (on_device (\<lambda>_. requireCurrentSnapshotForUnlockedVault env vaultId uv
               (us_sourceSnapshotVersionVector session))) (\<lambda>snapshot.
      sthen (srequire (prc_vaultKeyGeneration previous = m_vaultKeyGeneration (snap_metadata snapshot))
               (InvalidDeviceRevocationTransitionError vaultId Credential_generation_differs))
      (sbind (on_device (\<lambda>_. access_outcome (provider_of g)
                \<lparr>sa_target = syncTarget, sa_credentials = prc_credentials previous\<rparr> vaultId)) (\<lambda>result.
       sthen (srequire (result \<noteq> ''accessible'') (Sync_error (PreviousSyncCredentialStillActiveError vaultId)))
       (sbind (on_device (\<lambda>mem. encrypt_credential_state env mem vaultId uv syncTarget
                 (new_credentials (dsc_currentCredentials state)))) (\<lambda>completedState.
        if (case sharedPending of
              None \<Rightarrow> False
            | Some shared \<Rightarrow>
                areJsonEqual (encode_revocation_pending shared) (encode_revocation_pending localPending))
        then complete_shared_revocation g vaultId session snapshot encryptedState completedState
        else sthen (forget_previous_credentials g vaultId session snapshot encryptedState completedState)
               (sret (revocation_status sharedPending))))))))"

definition completeProviderCredentialRevocation ::
    "'r guard_env \<Rightarrow> string \<Rightarrow> ('r, revocation_result) guarded" where
  "completeProviderCredentialRevocation g vaultId =
     (let env = device_of g; operation = ''complete provider credential revocation'' in
      sbind (requireUnlockedVaultContext (session_of g) vaultId operation None) (\<lambda>session.
      let uv = us_unlockedVault session in
      case v_syncTarget (uv_vault uv) of
        None \<Rightarrow> sthrow (Sync_error (SyncNotConfiguredError vaultId operation))
      | Some syncTarget \<Rightarrow>
          sbind (on_device (\<lambda>_. require_stored_credentials env vaultId)) (\<lambda>encryptedState.
          sbind (on_device (\<lambda>mem. decrypt_credentials env mem vaultId uv syncTarget encryptedState)) (\<lambda>state.
          sthen (if dsc_pendingSnapshotUpload state \<noteq> None
                 then on_device (\<lambda>mem. requireSnapshotUploadReconciled env mem vaultId uv) else sret ())
          (case dsc_previousCredentials state of
             None \<Rightarrow> sret (revocation_status (v_providerCredentialRevocationPending (uv_vault uv)))
           | Some previous \<Rightarrow> complete_previous g vaultId session syncTarget encryptedState state previous)))))"

end
