(* ===== verification/Sync_Connection.thy ===== *)
theory Sync_Connection
  imports Sync_Setup
begin

text \<open>
  Connecting to a remote storage that holds a newer snapshot of the vault
  (\<open>use-cases/sync/existing-sync-connection.ts\<close>), and taking a vault out of synchronisation
  (\<open>use-cases/sync/disable-sync.ts\<close>), which removes the remote snapshot and every other device.
\<close>

section \<open>Connecting to an existing snapshot\<close>

record existing_connection =
  xc_syncAccess :: SyncAccess
  xc_remoteSnapshot :: VaultSnapshot
  xc_remoteVault :: Vault
  xc_remoteTrust :: candidate_trust
  xc_reviewed :: ReviewedVaultSnapshotIdentities

text \<open>The local vault must not be synchronised in any way.\<close>

definition require_unconnected :: "string \<Rightarrow> Vault \<Rightarrow> core_error + unit" where
  "require_unconnected vaultId vault =
     (let operation = ''connect existing sync storage'' in
      if v_syncTarget vault \<noteq> None then Inl (Sync_error (SyncAlreadyConfiguredError vaultId))
      else if v_syncRemovalPending vault \<noteq> None
      then Inl (Sync_error (SyncRemovalPendingError vaultId operation))
      else if v_providerCredentialRevocationPending vault \<noteq> None
      then Inl (Sync_error (ProviderCredentialRevocationPendingError vaultId operation))
      else Inr ())"

text \<open>The remote snapshot must have the trust state, the keys and the slots of the local one.\<close>

definition require_same_devices ::
    "string \<Rightarrow> UnlockedVault \<Rightarrow> VaultSnapshot \<Rightarrow> VaultSnapshot \<Rightarrow> candidate_trust \<Rightarrow> core_error + unit" where
  "require_same_devices vaultId uv localSnapshot remoteSnapshot remoteTrust =
     (let localTrust = tsc_trust (uv_trustedSnapshotContext uv) in
      if m_vaultCreationTimestamp (snap_metadata remoteSnapshot) \<noteq>
           m_vaultCreationTimestamp (snap_metadata localSnapshot)
      then Inl (integrity_error vaultId)
      else if \<not> same_trust (ct_state remoteTrust) localTrust \<or>
              ts_vaultKeyGeneration (ct_state remoteTrust) \<noteq> ts_vaultKeyGeneration localTrust \<or>
              m_vaultKeyGeneration (snap_metadata remoteSnapshot) \<noteq>
                m_vaultKeyGeneration (snap_metadata localSnapshot) \<or>
              \<not> list_ex (\<lambda>device. dti_deviceId device = uv_deviceId uv)
                  (ts_trustedDevices (ct_state remoteTrust)) \<or>
              \<not> list_ex (\<lambda>slot. slot_deviceId slot = uv_deviceId uv) (snap_deviceSlots remoteSnapshot)
      then Inl (SyncTrustChangeRequiresDeviceTrustFlowError vaultId None)
      else require_same_key_slots vaultId (snap_deviceSlots localSnapshot) (snap_deviceSlots remoteSnapshot))"

text \<open>The remote vault must be synchronised with the target that was given.\<close>

definition require_connected ::
    "string \<Rightarrow> SyncTarget \<Rightarrow> UnlockedVault \<Rightarrow> VaultSnapshot \<Rightarrow> candidate_trust \<Rightarrow> Vault \<Rightarrow> core_error + unit" where
  "require_connected vaultId target uv localSnapshot remoteTrust remoteVault =
     (let operation = ''connect existing sync storage'' in
      if \<not> areOptionalJsonEqual encode_sync_target (v_syncTarget remoteVault) (Some target)
      then Inl (integrity_error vaultId)
      else
        rbind (require_profiles_match (tsc_trust (uv_trustedSnapshotContext uv)) (snap_trustChain localSnapshot)
                 (ct_chain remoteTrust) (uv_vault uv) remoteVault) (\<lambda>_.
        if v_syncRemovalPending remoteVault \<noteq> None
        then Inl (Sync_error (SyncRemovalPendingError vaultId operation))
        else if v_providerCredentialRevocationPending remoteVault \<noteq> None
        then Inl (Sync_error (ProviderCredentialRevocationPendingError vaultId operation))
        else Inr ()))"

definition download_existing ::
    "'r guard_env \<Rightarrow> string \<Rightarrow> SyncAccess \<Rightarrow> VaultSnapshot \<Rightarrow> ('r, VaultSnapshot) guarded" where
  "download_existing g vaultId syncAccess localSnapshot =
     (let provider = provider_of g in
      sbind (on_device (\<lambda>_. provider_call (getLatestVaultSnapshotDescriptor provider syncAccess vaultId)))
        (\<lambda>remoteSnapshotDescriptor.
      case remoteSnapshotDescriptor of
        None \<Rightarrow> sthrow (Sync_error (RemoteVaultSnapshotNotFoundError vaultId))
      | Some descriptor \<Rightarrow>
          (case compareVaultSnapshotDescriptors (toVaultSnapshotDescriptor vaultId localSnapshot) descriptor of
             Local_ahead \<Rightarrow> sthrow (Sync_error (LocalVaultSnapshotAheadError vaultId))
           | Remote_ahead \<Rightarrow>
               sbind (on_device (\<lambda>_. provider_call (downloadVaultSnapshot provider syncAccess descriptor)))
                 (\<lambda>remoteSnapshot.
               sthen (srequire (areVaultSnapshotDescriptorsEqual (toVaultSnapshotDescriptor vaultId remoteSnapshot)
                        descriptor) (changed_error vaultId))
                 (sret remoteSnapshot))
           | _ \<Rightarrow> sthrow (integrity_error vaultId))))"

definition loadVerifiedExistingSyncConnection ::
    "'r guard_env \<Rightarrow> string \<Rightarrow> SyncSetupInput \<Rightarrow> UnlockedVaultSession \<Rightarrow> ('r, existing_connection) guarded" where
  "loadVerifiedExistingSyncConnection g vaultId syncConfig session =
     (let env = device_of g; uv = us_unlockedVault session in
      sthen (slift (require_unconnected vaultId (uv_vault uv)))
      (sbind (on_device (\<lambda>_. repository env (getDeviceSyncCredentialState vaultId))) (\<lambda>storedCredentials.
       sthen (srequire (storedCredentials = None) (Sync_error (SyncAlreadyConfiguredError vaultId)))
       (sbind (on_device (\<lambda>_. requireCurrentSnapshotForUnlockedVault env vaultId uv
                 (us_sourceSnapshotVersionVector session))) (\<lambda>localSnapshot.
        sbind (on_device (\<lambda>_. setup_or_invalid (provider_of g) syncConfig)) (\<lambda>syncAccess.
        sthen (srequire (sc_provider (sa_credentials syncAccess) = st_provider (sa_target syncAccess))
                 (Sync_error InvalidSyncConfigError))
        (sbind (download_existing g vaultId syncAccess localSnapshot) (\<lambda>remoteSnapshot.
         sbind (on_device (\<lambda>_. verifyCandidateSnapshotTrust env vaultId remoteSnapshot uv)) (\<lambda>remoteTrust.
         sthen (slift (require_same_devices vaultId uv localSnapshot remoteSnapshot remoteTrust))
         (sbind (on_device (\<lambda>mem. openTrustedVaultSnapshot env mem vaultId remoteSnapshot
                   (uv_vaultMasterKey uv))) (\<lambda>remoteVault.
          sthen (slift (require_connected vaultId (sa_target syncAccess) uv localSnapshot remoteTrust remoteVault))
          (sret \<lparr>xc_syncAccess = syncAccess, xc_remoteSnapshot = remoteSnapshot, xc_remoteVault = remoteVault,
                 xc_remoteTrust = remoteTrust,
                 xc_reviewed =
                   \<lparr>ri_local = toVaultSnapshotIdentity vaultId localSnapshot
                      (tsc_snapshotDigest (uv_trustedSnapshotContext uv)),
                    ri_remote = toVaultSnapshotIdentity vaultId remoteSnapshot
                      (ct_snapshotDigest remoteTrust)\<rparr>\<rparr>))))))))))))"

definition prepareExistingSyncConnection ::
    "'r guard_env \<Rightarrow> string \<Rightarrow> SyncSetupInput \<Rightarrow> ('r, ReviewedVaultSnapshotIdentities) guarded" where
  "prepareExistingSyncConnection g vaultId syncConfig =
     sbind (requireUnlockedVaultContext (session_of g) vaultId ''prepare existing sync connection'' None) (\<lambda>session.
     sbind (loadVerifiedExistingSyncConnection g vaultId syncConfig session) (\<lambda>candidate.
     sret (cloneReviewedVaultSnapshotIdentities (xc_reviewed candidate))))"

definition connectExistingSync ::
    "'r guard_env \<Rightarrow> string \<Rightarrow> SyncSetupInput \<Rightarrow> ReviewedVaultSnapshotIdentities \<Rightarrow>
     ('r, VersionVector \<times> nat) guarded" where
  "connectExistingSync g vaultId syncConfig reviewedSnapshotIdentities =
     (let env = device_of g; reviewed = cloneReviewedVaultSnapshotIdentities reviewedSnapshotIdentities in
      sbind (requireUnlockedVaultContext (session_of g) vaultId ''connect existing sync storage'' None) (\<lambda>session.
      let uv = us_unlockedVault session in
      sbind (loadVerifiedExistingSyncConnection g vaultId syncConfig session) (\<lambda>candidate.
      sthen (srequire (areVaultSnapshotIdentitiesEqual (ri_local (xc_reviewed candidate)) (ri_local reviewed))
               (Snapshot_error (LocalVaultSnapshotChangedError vaultId)))
      (sthen (srequire (areVaultSnapshotIdentitiesEqual (ri_remote (xc_reviewed candidate)) (ri_remote reviewed))
                (changed_error vaultId))
      (sbind (persistForActiveSession (session_of g) (us_sessionId session) vaultId
                (\<lambda>mem. sbind (encrypt_credential_state env mem vaultId uv (sa_target (xc_syncAccess candidate))
                            (new_credentials (sa_credentials (xc_syncAccess candidate)))) (\<lambda>encryptedState.
                   persistVerifiedRemoteSnapshot env mem vaultId (xc_remoteSnapshot candidate)
                     (ct_state (xc_remoteTrust candidate)) uv
                     (Some \<lparr>cr_expectedSyncCredentialState = None,
                            cr_syncCredentialState = Some encryptedState\<rparr>))) None) (\<lambda>persisted.
       sthen (commitPersistedSnapshot (session_of g) (us_sessionId session)
                (uv\<lparr>uv_vault := xc_remoteVault candidate,
                    uv_trustedSnapshotContext := vr_trustedSnapshotContext persisted\<rparr>)
                (vr_snapshotVersionVector persisted) None)
       (sret (vr_snapshotVersionVector persisted, vr_revisionTimestamp persisted))))))))"

section \<open>Keys that a use case creates\<close>

text \<open>The key management of \<open>CryptoPort\<close>; \<open>nat\<close> is the number of the call, which keys are drawn for.\<close>

record DeviceVaultKeyEnvelopeContext =
  ec_vaultId :: string
  ec_deviceId :: string
  ec_vaultKeyGeneration :: int
  ec_algorithmSuiteId :: string

record key_port =
  generateVaultMasterKey :: "nat \<Rightarrow> bytes"
  createDeviceVaultKeyEnvelope :: "nat \<Rightarrow> bytes \<Rightarrow> bytes \<Rightarrow> DeviceVaultKeyEnvelopeContext \<Rightarrow> DeviceVaultKeyEnvelope"
  openDeviceVaultKeyEnvelope :: "DeviceVaultKeyEnvelope \<Rightarrow> bytes \<Rightarrow> DeviceVaultKeyEnvelopeContext \<Rightarrow> core_error + bytes"

text \<open>A fresh buffer with the secret that the port returns.\<close>

definition fresh_secret :: "device_env \<Rightarrow> ((buffer \<Rightarrow> bytes) \<Rightarrow> nat \<Rightarrow> core_error + bytes) \<Rightarrow> ('r, buffer) guarded" where
  "fresh_secret env f = sbind (on_device (\<lambda>mem. crypto_call env (f mem))) allocate"

text \<open>\<open>try { m } finally { if (!transferred) wipe(secrets) }\<close>: the result tells what was transferred.\<close>

definition wipe_unless_transferred ::
    "buffer list \<Rightarrow> ('r, 'a \<times> bool) guarded \<Rightarrow> ('r, 'a) guarded" where
  "wipe_unless_transferred secrets m =
     (let wipe = smodify (bestEffortWipeArrayBuffers (map Some secrets)) in
      sbind (scatch m (\<lambda>e. sthen wipe (sthrow e))) (\<lambda>(a, transferred).
      sthen (if transferred then sret () else wipe) (sret a)))"

text \<open>The slot of a device for a vault key, sealed for the public key of the device.\<close>

definition create_device_slot ::
    "key_port \<Rightarrow> device_env \<Rightarrow> (buffer \<Rightarrow> bytes) \<Rightarrow> string \<Rightarrow> int \<Rightarrow> buffer \<Rightarrow> DeviceTrustIdentity \<Rightarrow>
     ('r, DeviceKeySlot) service" where
  "create_device_slot keys env mem vaultId vaultKeyGeneration vaultMasterKey device =
     sbind (crypto_call env (\<lambda>n. Inr (createDeviceVaultKeyEnvelope keys n (mem vaultMasterKey)
              (dti_publicVaultKey device)
              \<lparr>ec_vaultId = vaultId, ec_deviceId = dti_deviceId device,
               ec_vaultKeyGeneration = vaultKeyGeneration,
               ec_algorithmSuiteId = algorithmSuiteId (crypto_port env)\<rparr>))) (\<lambda>envelope.
     sret \<lparr>slot_deviceId = dti_deviceId device, slot_vaultKeyGeneration = vaultKeyGeneration,
           slot_envelope = envelope\<rparr>)"

primrec create_device_slots ::
    "key_port \<Rightarrow> device_env \<Rightarrow> (buffer \<Rightarrow> bytes) \<Rightarrow> string \<Rightarrow> int \<Rightarrow> buffer \<Rightarrow> DeviceTrustIdentity list \<Rightarrow>
     ('r, DeviceKeySlot list) service" where
  "create_device_slots keys env mem vaultId vaultKeyGeneration vaultMasterKey [] = sret []"
| "create_device_slots keys env mem vaultId vaultKeyGeneration vaultMasterKey (device # devices) =
     sbind (create_device_slot keys env mem vaultId vaultKeyGeneration vaultMasterKey device) (\<lambda>slot.
     sbind (create_device_slots keys env mem vaultId vaultKeyGeneration vaultMasterKey devices) (\<lambda>slots.
     sret (slot # slots)))"

end
