(* ===== verification/Session_Progress.thy ===== *)
theory Session_Progress
  imports Session_Restoration Sync_Connection
begin

text \<open>
  An open session serves the use cases: while the calls succeed, every operation of the session that a
  use case makes returns, hands out the same session, and leaves the keys as they are.
\<close>

section \<open>An open session\<close>

text \<open>The cached material is the stored one, and the stored payload belongs to it and decrypts to the vault.\<close>

definition serves ::
    "session_env \<Rightarrow> material \<Rightarrow> EncryptedUnlockedVaultSessionPayload \<Rightarrow> Vault \<Rightarrow> 'o session_world \<Rightarrow> bool" where
  "serves env m p vault w \<longleftrightarrow>
     succeeding env w \<and> cachedMaterial w = Some (Some m) \<and> invalidationState w = No_invalidation \<and>
     (\<forall>b \<in> set (secret_buffers m). b < next_buffer w) \<and>
     area_payload w = Some (payload_record p) \<and> payload_ok p \<and>
     (\<exists>st. st = serializeUnlockedVaultSessionMaterial w m \<and> area_material w = Some st \<and> decodable env st \<and>
        session_identity.truncate p = session_identity.truncate st \<and>
        decrypt_payload env (pay_content p) (mat_payloadKey st) (session_identity.truncate p) = Some vault)"

text \<open>What the operations leave: old buffers, the rest of the program, and at most one more epoch.\<close>

definition stays :: "nat \<Rightarrow> 'o session_world \<Rightarrow> 'o session_world \<Rightarrow> bool" where
  "stays n w t \<longleftrightarrow> outside t = outside w \<and> next_buffer w \<le> next_buffer t \<and>
     (\<forall>b < next_buffer w. memory t b = memory w b) \<and> epoch_of t \<le> epoch_of w + n"

lemma stays_refl [simp]: "stays n w w"
  by (simp add: stays_def)

lemma stays_trans: "stays n u v \<Longrightarrow> stays n' v w \<Longrightarrow> stays (n + n') u w"
  by (auto simp: stays_def)

lemma stays_grows: "grows w t \<Longrightarrow> stays 0 w t"
  by (auto simp: stays_def grows_def epoch_of_def)

lemma stays_leased [simp]: "stays n w (leased ls k t) = stays n w t" "stays n (leased ls k w) t = stays n w t"
  by (simp_all add: stays_def)

lemma serves_leased [simp]: "serves env m p vault (leased ls k w) = serves env m p vault w"
  by (simp add: serves_def)

lemma serialize_memory:
  assumes "\<forall>b \<in> set (secret_buffers m). memory t b = memory w b"
  shows "serializeUnlockedVaultSessionMaterial t m = serializeUnlockedVaultSessionMaterial w m"
  using assms by (simp add: serializeUnlockedVaultSessionMaterial_def secret_buffers_def)

text \<open>An open session stays open if the storage and the cache are as before.\<close>

lemma serves_same:
  assumes "serves env m p vault w" "succeeding env t" "stays n w t"
    and "area_material t = area_material w" "area_payload t = area_payload w" "cachedMaterial t = cachedMaterial w"
    and "invalidationState t = invalidationState w"
  shows "serves env m p vault t"
proof -
  have "serializeUnlockedVaultSessionMaterial t m = serializeUnlockedVaultSessionMaterial w m"
    by (rule serialize_memory) (use assms(1,3) in \<open>auto simp: serves_def stays_def\<close>)
  with assms show ?thesis by (auto simp: serves_def stays_def intro: less_le_trans)
qed

lemma serves_grows: "serves env m p vault w \<Longrightarrow> grows w t \<Longrightarrow> serves env m p vault t"
  by (rule serves_same [OF _ _ stays_grows])
    (auto simp: grows_fields serves_def intro: succeeding_grows)

lemma serves_outside [simp]: "serves env m p vault (w\<lparr>outside := x\<rparr>) = serves env m p vault w"
  by (simp add: serves_def succeeding_def serializeUnlockedVaultSessionMaterial_def)

lemma serves_generation [simp]: "serves env m p vault (next_generation w) = serves env m p vault w"
  by (simp add: serves_def succeeding_def serializeUnlockedVaultSessionMaterial_def next_generation_def)

section \<open>The steps of the operations\<close>

lemma served_identity:
  assumes "serves env m p vault w"
  shows "wp (getPersistedUnlockedVaultSessionIdentity env)
     (\<lambda>r t. r = Inr (Some (session_identity.truncate (serializeUnlockedVaultSessionMaterial w m))) \<and> grows w t) w"
  using assms by (intro get_identity_succeeds) (auto simp: serves_def)

lemma served_reconcile:
  assumes "serves env m p vault w"
    and "Q (Inr \<lparr>rec_material = Some m, rec_reconciled = False, rec_advanced = False\<rparr>) w"
  shows "wp (reconcileActiveMaterial env (Some (session_identity.truncate (serializeUnlockedVaultSessionMaterial u m)))) Q w"
  using assms serialized_matches [where t = u and m = m, OF refl]
  by (simp add: reconcileActiveMaterial_def reconcile_cached_def getUnlockedVaultSessionMaterial_def wp_simps Let_def
      serves_def)

lemma served_begin:
  assumes "serves env m p vault w"
    and "\<And>i t. serves env m p vault t \<Longrightarrow> grows w t \<Longrightarrow>
      wp (f i \<lparr>rec_material = Some m, rec_reconciled = False, rec_advanced = False\<rparr>) Q t"
  shows "wp (sbind (getPersistedUnlockedVaultSessionIdentity env) (\<lambda>i.
     sbind (reconcileActiveMaterial env i) (f i))) Q w"
  unfolding wp_sbind
  by (rule wp_weaken [OF served_identity [OF assms(1)]])
    (auto simp: wp_sbind intro!: served_reconcile [where m = m and p = p and vault = vault] assms(2) serves_grows [OF assms(1)])

text \<open>The session that the use cases get.\<close>

lemma served_restore:
  assumes "serves env m p vault w"
    and "\<And>t. serves env m p vault t \<Longrightarrow> grows w t \<Longrightarrow> Q (Inr (Some (restored_session m p vault))) t"
  shows "wp (restoreSession env) Q w"
proof -
  have started: "wp (reconcile_with_storage env)
      (\<lambda>r t. \<exists>i. r = Inr (i, \<lparr>rec_material = Some m, rec_reconciled = False, rec_advanced = False\<rparr>) \<and> serves env m p vault t \<and>
         grows w t) w"
    unfolding reconcile_with_storage_def
    by (rule served_begin [OF assms(1)]) (auto simp: wp_simps)
  have stored: "wp (restore_stored_payload env m) (\<lambda>r t. r = Inr (Some (restored_session m p vault)) \<and> grows u t) u"
    if "serves env m p vault u" for u :: "'a session_world"
  proof -
    let ?st = "serializeUnlockedVaultSessionMaterial u m"
    have st: "area_payload u = Some (payload_record p)" "payload_ok p" "succeeding env u" "session_identity.truncate p = session_identity.truncate ?st"
      "decrypt_payload env (pay_content p) (mat_payloadKey ?st) (session_identity.truncate p) = Some vault"
      using that unfolding serves_def by blast+
    have "wp (restore_stored_payload env m) (\<lambda>r t. grows u t) u"
      unfolding restore_stored_payload_def getEncryptedUnlockedVaultSessionPayload_def
      using st(1) read_payload_ok [OF st(2)]
      by (auto simp: wp_simps split: call_outcome.split intro!: wp_weaken [OF restore_spec])
        (auto simp: wp_simps grows_def split: sum.splits)
    with restore_succeeds [OF st(3) refl st(1,2,4,5)] show ?thesis by (auto simp: wp_def split: prod.splits)
  qed
  show ?thesis
    unfolding restoreSession_def wp_sbind wp_stry
    apply (rule wp_weaken [OF started])
    apply (auto simp: Let_def wp_simps)
    apply (rule wp_weaken [OF stored])
    apply (auto intro!: assms(2) elim: serves_grows grows_trans)
    done
qed

section \<open>The operations\<close>

lemma served_context:
  assumes "serves env m p vault w" "k = ses_vaultId m"
    and "\<And>t. serves env m p vault t \<Longrightarrow> stays 0 w t \<Longrightarrow> Q (Inr (restored_session m p vault)) t"
  shows "wp (requireUnlockedVaultContext env k operation None) Q w"
  unfolding requireUnlockedVaultContext_def runWithUnlockedVaultContext_def
proof (rule wp_exclusive)
  fix ls n
  have same: "t\<lparr>outside := outside t\<rparr> = t" for t :: "'a session_world" by simp
  show "wp (sbind (restoreSession env) (\<lambda>session. case session of
          None \<Rightarrow> sthrow (VaultMustBeUnlockedError k operation)
        | Some s \<Rightarrow>
            if uv_vaultId (us_unlockedVault s) \<noteq> k
            then sthrow (VaultMustBeUnlockedError k operation)
            else callout (\<lambda>_ out. (Inr s, out)))) (\<lambda>r t. \<forall>ls n. Q r (leased ls n t)) (leased ls n w)"
    unfolding wp_sbind
    by (rule served_restore [where m = m and p = p and vault = vault])
      (use assms in \<open>auto simp: restored_session_def wp_def callout_def same dest!: stays_grows intro!: assms(3) [unfolded restored_session_def]\<close>)
qed

lemma served_advance:
  assumes "serves env m p vault w" "epoch_of w < MAX_SAFE_INTEGER"
    and "\<And>t. serves env m p vault t \<Longrightarrow> stays 1 w t \<Longrightarrow> Q (Inr ()) t"
  shows "wp (advanceUnlockedVaultSessionEpoch env) Q w"
proof -
  have fates: "call_outcome_at env (clock w) = Succeeds" "call_outcome_at env (Suc (clock w)) = Succeeds"
    using assms(1) by (simp_all add: serves_def succeeding_def)
  let ?t = "w\<lparr>clock := Suc (Suc (clock w)), area_epoch := Some (epoch_of w + 1)\<rparr>"
  have "stays 1 w ?t" by (simp add: stays_def epoch_of_def)
  moreover from this have "serves env m p vault ?t"
    by (rule serves_same [OF assms(1), rotated]) (use assms(1) in \<open>auto simp: serves_def succeeding_def\<close>)
  ultimately have "Q (Inr ()) ?t" by (intro assms(3))
  then show ?thesis
    using assms(2) fates
    by (auto simp: advanceUnlockedVaultSessionEpoch_def readUnlockedVaultSessionEpoch_def wp_simps epoch_of_def
        split: option.splits)
qed

lemma served_persist:
  assumes "serves env m p vault w" "k = ses_vaultId m" "s = ses_sessionId m" "epoch_of w < MAX_SAFE_INTEGER"
    and "\<And>mem r x t. \<forall>b < next_buffer w. mem b = memory w b \<Longrightarrow> run mem (outside w) = (r, x) \<Longrightarrow>
      serves env m p vault t \<Longrightarrow> stays 1 (w\<lparr>outside := x\<rparr>) t \<Longrightarrow> Q r t"
  shows "wp (persistForActiveSession env s k run None) Q w"
  unfolding persistForActiveSession_def
proof (rule wp_exclusive)
  fix ls n
  let ?Q = "\<lambda>r t. \<forall>ls n. Q r (leased ls n t)"
  let ?last = "sthen (advanceUnlockedVaultSessionEpoch env) (sthen (smodify next_generation) (callout run))"
  have last: "wp ?last ?Q t" if t: "serves env m p vault t" "stays 0 w t" for t
    unfolding wp_sthen [of "advanceUnlockedVaultSessionEpoch env"]
  proof (rule served_advance [OF t(1)])
    fix u assume u: "serves env m p vault u" "stays 1 t u"
    obtain r x where run: "run (memory u) (outside w) = (r, x)" by fastforce
    have "outside u = outside w" "\<forall>b < next_buffer w. memory u b = memory w b" "stays 1 (w\<lparr>outside := x\<rparr>) ((next_generation u)\<lparr>outside := x\<rparr>)"
      using t(2) u(2) by (auto simp: stays_def next_generation_def epoch_of_def)
    moreover have "serves env m p vault ((next_generation u)\<lparr>outside := x\<rparr>)" using u(1) by simp
    ultimately have "Q r (leased ls n ((next_generation u)\<lparr>outside := x\<rparr>))" for ls n
      using run by (intro assms(5)) auto
    with run \<open>outside u = outside w\<close> show "case Inr () of Inl e \<Rightarrow> ?Q (Inl e) u
        | Inr a \<Rightarrow> wp (sthen (smodify next_generation) (callout run)) ?Q u"
      by (simp add: wp_simps) (simp add: wp_def callout_def next_generation_def)
  qed (use t(2) assms(4) in \<open>simp add: stays_def\<close>)
  show "wp (sbind (getPersistedUnlockedVaultSessionIdentity env) (\<lambda>i.
      sbind (reconcileActiveMaterial env i) (\<lambda>rec.
      sthen (requireActiveSession (rec_material rec) s k) ?last))) ?Q (leased ls n w)"
  proof (rule served_begin)
    fix i t
    assume t: "serves env m p vault t" "grows (leased ls n w) t"
    then have "wp ?last ?Q t" using stays_grows [OF t(2)] by (intro last) simp_all
    with t(1) show "wp (sthen (requireActiveSession
        (rec_material \<lparr>rec_material = Some m, rec_reconciled = False, rec_advanced = False\<rparr>) s k) ?last) ?Q t"
      unfolding wp_sthen [of "requireActiveSession _ _ _"]
      by (simp add: requireActiveSession_def isActiveSession_def wp_sbind wp_sread wp_srequire assms(2,3) serves_def)
  qed (use assms(1) in simp)
qed

section \<open>Committing\<close>

lemma served_fate: "serves env m p vault w \<Longrightarrow> clock w \<le> n \<Longrightarrow> call_outcome_at env n = Succeeds"
  by (simp add: serves_def succeeding_def)

text \<open>The new records are written and the epoch is advanced; the cache is not read in between.\<close>

lemma served_commit:
  assumes "serves env m p vault w" "s = ses_sessionId m" "uv_vaultId uv = ses_vaultId m" "epoch_of w < MAX_SAFE_INTEGER"
    and "\<And>t. outside t = outside w \<Longrightarrow> Q (Inr ()) t"
  shows "wp (commitPersistedSnapshot env s uv v None) Q w"
  unfolding commitPersistedSnapshot_def commitPersistedSnapshotIfSessionIsActive_def wp_sbind
    [of "runCoordinatedSessionMutation None _"]
proof (rule wp_exclusive)
  fix ls n
  let ?Q = "\<lambda>r t. \<forall>ls n. case r of Inl e \<Rightarrow> Q (Inl e) (leased ls n t)
    | Inr committed \<Rightarrow> wp (srequire committed (UnlockedVaultSessionExpiredError (uv_vaultId uv))) Q (leased ls n t)"
  show "wp (sbind (getPersistedUnlockedVaultSessionIdentity env) (\<lambda>persistedIdentity.
      sbind (reconcileActiveMaterial env persistedIdentity) (\<lambda>rec.
      sbind (sread (isActiveSession (rec_material rec) s (uv_vaultId uv))) (\<lambda>active.
      case rec_material rec of
        None \<Rightarrow> sret False
      | Some m \<Rightarrow>
          if \<not> active then sret False
          else
            sbind (stry (protect env uv v (Some m))) (\<lambda>protectedSession.
            sthen (commit_protected env m protectedSession) (sret True)))))) ?Q (leased ls n w)"
  proof (rule served_begin)
    fix i t
    assume t: "serves env m p vault t" "grows (leased ls n w) t"
    note fate = served_fate [OF t(1)]
    have now: "call_outcome_at env (clock t) = Succeeds" "call_outcome_at env (Suc (clock t)) = Succeeds"
      "call_outcome_at env (Suc (Suc (clock t))) = Succeeds" "call_outcome_at env (Suc (Suc (Suc (clock t)))) = Succeeds"
      "call_outcome_at env (Suc (Suc (Suc (Suc (clock t))))) = Succeeds"
      by (simp_all add: fate)
    have epoch: "epoch_of t < MAX_SAFE_INTEGER" "outside t = outside w"
      using t(2) assms(4) by (simp_all add: grows_def epoch_of_def)
    have active: "isActiveSession (Some m) s (uv_vaultId uv) t"
      using t(1) assms(2,3) by (simp add: isActiveSession_def serves_def)
    have finished: "Q (Inr ()) (leased ls n u)" if "outside u = outside w" for ls n u
      using that by (intro assms(5)) simp
    show "wp (sbind (sread (isActiveSession (rec_material
          \<lparr>rec_material = Some m, rec_reconciled = False, rec_advanced = False\<rparr>) s (uv_vaultId uv))) (\<lambda>active.
        case rec_material \<lparr>rec_material = Some m, rec_reconciled = False, rec_advanced = False\<rparr> of
          None \<Rightarrow> sret False
        | Some m \<Rightarrow>
            if \<not> active then sret False
            else
              sbind (stry (protect env uv v (Some m))) (\<lambda>protectedSession.
              sthen (commit_protected env m protectedSession) (sret True)))) ?Q t"
      using now epoch
      by (auto simp: wp_simps active protect_def encryptUnlockedVaultSessionPayload_def Let_def commit_protected_def
          persistProtectedSession_def saveEncryptedUnlockedVaultSessionPayload_def saveUnlockedVaultSessionMaterial_def
          advanceUnlockedVaultSessionEpoch_def readUnlockedVaultSessionEpoch_def epoch_of_def next_generation_def
          wipeReplacedMaterial_def bestEffortWipe_eq split: option.splits intro!: finished)
  qed (use assms(1) in simp)
qed

end
