(* ===== verification/Use_Case_Steps.thy ===== *)
theory Use_Case_Steps
  imports Upload_Safety Snapshot_Persistence Session_Restoration Sync_Connection
begin

text \<open>
  Reasoning about a use case that works on the device until it saves once under the active session:
  what a computation can give, which steps leave the store to the other contexts, and what is saved
  by a use case that returns.
\<close>

section \<open>What a computation can give\<close>

definition gives :: "('s, 'e, 'a) stateful \<Rightarrow> 'a \<Rightarrow> bool" where
  "gives m a \<longleftrightarrow> (\<exists>s. fst (m s) = Inr a)"

named_theorems gives_simps \<open>the results of the combinators\<close>

lemma gives_basic [gives_simps]:
  "gives (sret a) b \<longleftrightarrow> b = a" "\<not> gives (sthrow e) b" "gives (srequire c e) u \<longleftrightarrow> c"
  "gives (slift r) b \<longleftrightarrow> r = Inr b" "gives (sread f) b \<longleftrightarrow> (\<exists>s. b = f s)"
  "gives (callout h) b \<longleftrightarrow> (\<exists>mem. gives (h mem) b)"
proof -
  show "gives (callout h) b \<longleftrightarrow> (\<exists>mem. gives (h mem) b)"
  proof
    assume "\<exists>mem. gives (h mem) b"
    then obtain mem x where "fst (h mem x) = Inr b" by (auto simp: gives_def)
    then have "fst (callout h (w\<lparr>memory := mem, outside := x\<rparr>)) = Inr b" for w
      by (simp add: callout_def split_beta)
    then show "gives (callout h) b" by (auto simp: gives_def)
  next
    assume "gives (callout h) b"
    then obtain w where "fst (callout h w) = Inr b" by (auto simp: gives_def)
    then have "fst (h (memory w) (outside w)) = Inr b" by (simp add: callout_def split_beta)
    then show "\<exists>mem. gives (h mem) b" by (auto simp: gives_def)
  qed
qed (auto simp: gives_def sret_def sthrow_def srequire_def slift_def sread_def split: sum.splits)

lemma gives_cases [gives_simps]:
  "gives (if c then m else n) b \<longleftrightarrow> (if c then gives m b else gives n b)"
  "gives (case x of None \<Rightarrow> m | Some a \<Rightarrow> f a) b \<longleftrightarrow> (case x of None \<Rightarrow> gives m b | Some a \<Rightarrow> gives (f a) b)"
  by (auto split: option.splits)

lemma gives_sbindD:
  assumes "gives (sbind m f) b"
  shows "\<exists>a. gives m a \<and> gives (f a) b"
proof -
  obtain s where s: "fst (sbind m f s) = Inr b" using assms by (auto simp: gives_def)
  obtain r t where m: "m s = (r, t)" by fastforce
  with s obtain a where a: "r = Inr a" "fst (f a t) = Inr b" by (cases r) (auto simp: sbind_def)
  from m a(1) have "fst (m s) = Inr a" by simp
  with a(2) show ?thesis unfolding gives_def by blast
qed

lemma gives_sthenD: "gives (sthen m n) b \<Longrightarrow> (\<exists>a. gives m a) \<and> gives n b"
  unfolding sthen_def by (drule gives_sbindD) auto

lemma gives_crypto:
  assumes "gives (crypto_call env f :: ('r, 'a) service) b"
  shows "\<exists>n. f n = Inr b"
proof -
  obtain s :: "'r device_world" where "fst (crypto_call env f s) = Inr b" using assms unfolding gives_def by blast
  then have "f (call_count s) = Inr b"
    by (cases "call_fate env (call_count s)") (simp_all add: crypto_call_def Let_def)
  then show ?thesis ..
qed

section \<open>Steps that leave the store to the others\<close>

definition waits :: "device_env \<Rightarrow> ('r, 'a) service \<Rightarrow> bool" where
  "waits env m \<longleftrightarrow> (\<forall>w. others_only env (local_db w) (local_db (snd (m w))))"

named_theorems waits_intros \<open>steps that do not write to the store\<close>

lemma waits_basic [waits_intros]:
  "waits env (sret a)" "waits env (sthrow e)" "waits env (srequire c e)" "waits env (slift r)" "waits env (sread f)"
  "waits env (crypto_call env q)" "waits env (provider_call p)"
  by (auto simp: waits_def sret_def sthrow_def srequire_def slift_def sread_def crypto_call_def provider_call_def
      Let_def split: sum.splits call_outcome.splits prod.splits)

lemma waits_sbind [waits_intros]: "waits env m \<Longrightarrow> (\<And>a. waits env (f a)) \<Longrightarrow> waits env (sbind m f)"
  unfolding waits_def
  by (auto simp: sbind_def split: prod.splits sum.splits) (metis others_only_trans snd_conv)+

lemma waits_sthen [waits_intros]: "waits env m \<Longrightarrow> waits env n \<Longrightarrow> waits env (sthen m n)"
  unfolding sthen_def by (rule waits_sbind)

lemma waits_scatch [waits_intros]: "waits env m \<Longrightarrow> (\<And>e. waits env (h e)) \<Longrightarrow> waits env (scatch m h)"
  unfolding waits_def
  by (auto simp: scatch_def split: prod.splits sum.splits) (metis others_only_trans snd_conv)+

lemma waits_cases [waits_intros]:
  "waits env m \<Longrightarrow> waits env n \<Longrightarrow> waits env (if c then m else n)"
  "waits env m \<Longrightarrow> (\<And>a. waits env (f a)) \<Longrightarrow> waits env (case x of None \<Rightarrow> m | Some a \<Rightarrow> f a)"
  "(\<And>a b. waits env (s a b)) \<Longrightarrow> waits env (case z of (a, b) \<Rightarrow> s a b)"
  by (auto split: option.splits prod.splits)

lemma waits_read:
  assumes "\<And>db. snd (operation db) = db"
  shows "waits env (repository env operation)"
proof -
  have "others_only env db (meanwhile env n db)" for n db
    using others_only_step [of env db db n] by simp
  then show ?thesis
    by (auto simp: waits_def repository_def Let_def split: call_outcome.splits prod.splits)
      (metis assms snd_conv)+
qed

lemma waits_reads: "(\<And>w. reads env m w (\<lambda>_. True)) \<Longrightarrow> waits env m"
  by (auto simp: waits_def reads_def only_read_def wp_run)

lemma waits_repository [waits_intros]:
  "waits env (repository env (getVaultSnapshot (key_import env) k))"
  "waits env (repository env (getLocalVaultTrustCheckpoint k))"
  "waits env (repository env (getDeviceSyncCredentialState k))"
  by (rule waits_read; simp add: reads_unchanged)+

section \<open>The operations of the services\<close>

lemma waits_services [waits_intros]:
  "waits env (requireCurrentSnapshotForUnlockedVault env k uv v)"
  "waits env (requireCurrentCheckpointForUnlockedVault env k s uv)"
  "waits env (prepareLocalVaultSnapshotRestore env s uv c)"
  "waits env (verifyCandidateSnapshotTrust env k s uv)"
  "waits env (openTrustedVaultSnapshot env mem k s key)"
  unfolding requireCurrentSnapshotForUnlockedVault_def requireLocalVaultSnapshot_def
    requireCurrentCheckpointForUnlockedVault_def requireLocalVaultTrustCheckpoint_def Let_def
    prepareLocalVaultSnapshotRestore_def credential_state_to_restore_def verifyCandidateSnapshotTrust_def
    openTrustedVaultSnapshot_def
  by (intro waits_intros)+

lemma waits_guard [waits_intros]:
  "waits env (decrypt_credentials env mem k uv t s)"
  "waits env (requireSyncCredentialState env mem k uv)"
  "waits env (requireSyncAccess env mem k uv)"
  "waits env (encrypt_credentials env mem k uv st)"
  "waits env (requireProviderCredentialRevocationComplete env mem k uv operation)"
  "waits env (prepareSyncCredentialStateWithoutPending env mem k uv d x)"
  "waits env (prepareLocalMutation env provider mem k uv v)"
  unfolding decrypt_credentials_def requireSyncCredentialState_def requireSyncAccess_def encrypt_credentials_def
    requireProviderCredentialRevocationComplete_def prepareSyncCredentialStateWithoutPending_def
    encryptDeviceSyncCredentialStateWithoutPending_def prepareLocalMutation_def Let_def
  by (intro waits_intros)+

section \<open>Under the session\<close>

definition untouched :: "device_env \<Rightarrow> ('r, 'a) guarded \<Rightarrow> bool" where
  "untouched env m \<longleftrightarrow> effect m (\<lambda>x _ y. others_only env (local_db x) (local_db y))"

named_theorems untouched_intros \<open>steps of a use case that do not write to the store\<close>

lemma untouched_callout [untouched_intros]: "(\<And>mem. waits env (f mem)) \<Longrightarrow> untouched env (callout f)"
  by (auto simp: untouched_def waits_def intro: effect_callout)

lemma untouched_quiet: "quiet m \<Longrightarrow> untouched env m"
  by (auto simp: untouched_def intro: effect_quiet)

lemma untouched_basic [untouched_intros]:
  "untouched env (sret a)" "untouched env (sthrow e)" "untouched env (srequire c e)" "untouched env (slift r)"
  "untouched env (allocate bs)"
  by (intro untouched_quiet quiet_intros)+

lemma untouched_sbind [untouched_intros]:
  "untouched env m \<Longrightarrow> (\<And>a. untouched env (f a)) \<Longrightarrow> untouched env (sbind m f)"
  unfolding untouched_def
  by (rule effect_transitive) (auto intro!: transpI dest: others_only_trans)

lemma untouched_sthen [untouched_intros]: "untouched env m \<Longrightarrow> untouched env n \<Longrightarrow> untouched env (sthen m n)"
  unfolding sthen_def by (rule untouched_sbind)

lemma untouched_cases [untouched_intros]:
  "untouched env m \<Longrightarrow> untouched env n \<Longrightarrow> untouched env (if c then m else n)"
  "untouched env m \<Longrightarrow> (\<And>a. untouched env (f a)) \<Longrightarrow> untouched env (case x of None \<Rightarrow> m | Some a \<Rightarrow> f a)"
  "(\<And>a b. untouched env (s a b)) \<Longrightarrow> untouched env (case z of (a, b) \<Rightarrow> s a b)"
  by (auto split: option.splits prod.splits)

lemma untouched_context [untouched_intros]: "untouched env (requireUnlockedVaultContext senv k operation lease)"
  unfolding untouched_def requireUnlockedVaultContext_def by (rule run_with_context_effect) auto

section \<open>What is saved by a use case that returns\<close>

text \<open>
  \<open>saves env S m\<close>: if \<open>m\<close> returns a result then a step \<open>S\<close> with that result has been taken by the
  device, at a moment until which only other contexts have written to the store.
\<close>

definition saves ::
    "device_env \<Rightarrow> ('a \<Rightarrow> 'r device_world \<Rightarrow> 'r device_world \<Rightarrow> bool) \<Rightarrow> ('r, 'a) guarded \<Rightarrow> bool" where
  "saves env S m \<longleftrightarrow> effect m (\<lambda>x r _. \<forall>a. r = Inr a \<longrightarrow>
     (\<exists>x' y'. others_only env (local_db x) (local_db x') \<and> S a x' y'))"

lemma saves_error [intro]: "saves env S (sthrow e)"
  by (simp add: saves_def effect_def wp_simps)

lemma saves_bind:
  assumes "untouched env m" "\<And>a. gives m a \<Longrightarrow> saves env S (f a)"
  shows "saves env S (sbind m f)"
  unfolding saves_def effect_def
proof
  fix w
  obtain r t where m: "m w = (r, t)" by fastforce
  have others: "others_only env (local_db (outside w)) (local_db (outside t))"
    using assms(1) m by (auto simp: untouched_def effect_def wp_run) (metis snd_conv)
  show "wp (sbind m f) (\<lambda>r w'. \<forall>a. r = Inr a \<longrightarrow>
      (\<exists>x' y'. others_only env (local_db (outside w)) (local_db x') \<and> S a x' y')) w"
  proof (cases r)
    case (Inl e)
    then show ?thesis by (simp add: wp_def sbind_def m)
  next
    case (Inr a)
    then have "saves env S (f a)" using m assms(2) by (auto simp: gives_def) (metis fst_conv)
    then have "wp (f a) (\<lambda>r w'. \<forall>a. r = Inr a \<longrightarrow>
        (\<exists>x' y'. others_only env (local_db (outside t)) (local_db x') \<and> S a x' y')) t"
      by (simp add: saves_def effect_def)
    then have "wp (f a) (\<lambda>r w'. \<forall>a. r = Inr a \<longrightarrow>
        (\<exists>x' y'. others_only env (local_db (outside w)) (local_db x') \<and> S a x' y')) t"
      by (rule wp_weaken) (metis others others_only_trans)
    then show ?thesis by (simp add: wp_def sbind_def m Inr)
  qed
qed

lemma saves_then: "untouched env m \<Longrightarrow> (\<And>a. gives m a \<Longrightarrow> saves env S n) \<Longrightarrow> saves env S (sthen m n)"
  unfolding sthen_def by (rule saves_bind)

text \<open>The save itself: the callback of \<open>persistForActiveSession\<close> runs from the state that is found.\<close>

lemma quiet_require_active: "quiet (requireActiveSession m s k)" "quiet (reconcileActiveMaterial senv i)"
  unfolding requireActiveSession_def reconcileActiveMaterial_def reconcile_cached_def Let_def
  by (intro quiet_intros; simp)+

lemma persist_effect:
  "effect (persistForActiveSession senv sessionId k run lease)
     (\<lambda>x r y. \<forall>a. r = Inr a \<longrightarrow> (\<exists>mem. run mem x = (Inr a, y)))"
  unfolding persistForActiveSession_def
proof (rule effect_coordinated)
  show "effect (sbind (getPersistedUnlockedVaultSessionIdentity senv) (\<lambda>i.
      sbind (reconcileActiveMaterial senv i) (\<lambda>rec.
      sthen (requireActiveSession (rec_material rec) sessionId k)
        (sthen (advanceUnlockedVaultSessionEpoch senv) (sthen (smodify next_generation) (callout run))))))
    (\<lambda>x r y. \<forall>a. r = Inr a \<longrightarrow> (\<exists>mem. run mem x = (Inr a, y)))"
    unfolding sthen_def
    by (intro effect_after_quiet quiet_storage quiet_require_active quiet_smodify effect_callout)
      (auto simp: prod_eq_iff)
qed simp

lemma saves_here:
  assumes "\<And>mem x p y b. run mem x = (Inr p, y) \<Longrightarrow> gives (f p) b \<Longrightarrow> S b x y"
  shows "saves env S (sbind (persistForActiveSession senv sessionId k run lease) f)"
  unfolding saves_def effect_def
proof
  fix w
  let ?m = "persistForActiveSession senv sessionId k run lease"
  obtain r t where m: "?m w = (r, t)" by fastforce
  then have ran: "\<exists>mem. run mem (outside w) = (Inr p, outside t)" if "r = Inr p" for p
    using that persist_effect [of senv sessionId k run lease] by (auto simp: effect_def wp_run) (metis fst_conv snd_conv)
  have "S b (outside w) (outside t)" if "r = Inr p" "fst (f p t) = Inr b" for p b
  proof -
    have "gives (f p) b" using that(2) by (auto simp: gives_def)
    with ran [OF that(1)] assms show ?thesis by blast
  qed
  then show "wp (sbind ?m f) (\<lambda>r w'. \<forall>a. r = Inr a \<longrightarrow>
      (\<exists>x' y'. others_only env (local_db (outside w)) (local_db x') \<and> S a x' y')) w"
    by (cases r) (auto simp: wp_run sbind_def m intro: others_only_refl)
qed

section \<open>Saves with a key\<close>

text \<open>
  The same with a condition on the state at the start: a fresh key stays what it is until the save, as
  the steps in between neither wipe nor replace the buffers that existed before.
\<close>

definition saves_from ::
    "device_env \<Rightarrow> ('r device_world session_world \<Rightarrow> bool) \<Rightarrow> ('a \<Rightarrow> 'r device_world \<Rightarrow> 'r device_world \<Rightarrow> bool) \<Rightarrow>
     ('r, 'a) guarded \<Rightarrow> bool" where
  "saves_from env I S m \<longleftrightarrow> (\<forall>w. I w \<longrightarrow> wp m (\<lambda>r _. \<forall>a. r = Inr a \<longrightarrow>
     (\<exists>x' y'. others_only env (local_db (outside w)) (local_db x') \<and> S a x' y')) w)"

definition leaves ::
    "device_env \<Rightarrow> ('r device_world session_world \<Rightarrow> bool) \<Rightarrow> ('a \<Rightarrow> 'r device_world session_world \<Rightarrow> bool) \<Rightarrow>
     ('r, 'a) guarded \<Rightarrow> bool" where
  "leaves env I J m \<longleftrightarrow> (\<forall>w. I w \<longrightarrow> wp m (\<lambda>r w'.
     others_only env (local_db (outside w)) (local_db (outside w')) \<and> (\<forall>a. r = Inr a \<longrightarrow> J a w')) w)"

definition keyed :: "buffer \<Rightarrow> bytes \<Rightarrow> 'o session_world \<Rightarrow> bool" where
  "keyed b bs w \<longleftrightarrow> b < next_buffer w \<and> memory w b = bs"

lemma keyed_outside [simp]: "keyed b bs (w\<lparr>outside := x\<rparr>) = keyed b bs w"
  by (simp add: keyed_def)

lemma saves_iff: "saves env S m \<longleftrightarrow> saves_from env (\<lambda>_. True) S m"
  by (simp add: saves_def saves_from_def effect_def)

lemma saves_from_some: "(\<And>bs. saves_from env (I bs) S m) \<Longrightarrow> saves_from env (\<lambda>w. \<exists>bs. I bs w) S m"
  by (auto simp: saves_from_def)

lemma saves_from_pure: "(P \<Longrightarrow> saves_from env I S m) \<Longrightarrow> saves_from env (\<lambda>w. I w \<and> P) S m"
  by (auto simp: saves_from_def)

lemma saves_from_bind:
  assumes "leaves env I J m" "\<And>a. saves_from env (J a) S (f a)"
  shows "saves_from env I S (sbind m f)"
  unfolding saves_from_def
proof (intro allI impI)
  fix w
  assume I: "I w"
  obtain r t where m: "m w = (r, t)" by fastforce
  then have left: "others_only env (local_db (outside w)) (local_db (outside t))" "\<And>a. r = Inr a \<Longrightarrow> J a t"
    using assms(1) I by (auto simp: leaves_def wp_def)
  show "wp (sbind m f) (\<lambda>r _. \<forall>a. r = Inr a \<longrightarrow>
      (\<exists>x' y'. others_only env (local_db (outside w)) (local_db x') \<and> S a x' y')) w"
  proof (cases r)
    case (Inl e)
    then show ?thesis by (simp add: wp_def sbind_def m)
  next
    case (Inr a)
    then have "wp (f a) (\<lambda>r _. \<forall>a. r = Inr a \<longrightarrow>
        (\<exists>x' y'. others_only env (local_db (outside t)) (local_db x') \<and> S a x' y')) t"
      using assms(2) left(2) by (simp add: saves_from_def)
    then have "wp (f a) (\<lambda>r _. \<forall>a. r = Inr a \<longrightarrow>
        (\<exists>x' y'. others_only env (local_db (outside w)) (local_db x') \<and> S a x' y')) t"
      by (rule wp_weaken) (metis left(1) others_only_trans)
    then show ?thesis by (simp add: wp_def sbind_def m Inr)
  qed
qed

lemma leaves_return: "(\<And>w. I w \<Longrightarrow> J a w) \<Longrightarrow> leaves env I J (sret a)"
  by (simp add: leaves_def wp_simps)

lemma leaves_bind:
  assumes "leaves env I J m" "\<And>a. leaves env (J a) K (f a)"
  shows "leaves env I K (sbind m f)"
  unfolding leaves_def
proof (intro allI impI)
  fix w
  assume I: "I w"
  obtain r t where m: "m w = (r, t)" by fastforce
  then have left: "others_only env (local_db (outside w)) (local_db (outside t))" "\<And>a. r = Inr a \<Longrightarrow> J a t"
    using assms(1) I by (auto simp: leaves_def wp_def)
  show "wp (sbind m f) (\<lambda>r w'. others_only env (local_db (outside w)) (local_db (outside w')) \<and>
      (\<forall>a. r = Inr a \<longrightarrow> K a w')) w"
  proof (cases r)
    case (Inl e)
    with left(1) show ?thesis by (simp add: wp_def sbind_def m)
  next
    case (Inr a)
    then have "wp (f a) (\<lambda>r w'. others_only env (local_db (outside t)) (local_db (outside w')) \<and>
        (\<forall>a. r = Inr a \<longrightarrow> K a w')) t"
      using assms(2) left(2) by (simp add: leaves_def)
    then have "wp (f a) (\<lambda>r w'. others_only env (local_db (outside w)) (local_db (outside w')) \<and>
        (\<forall>a. r = Inr a \<longrightarrow> K a w')) t"
      by (rule wp_weaken) (metis left(1) others_only_trans)
    then show ?thesis by (simp add: wp_def sbind_def m Inr)
  qed
qed

lemma leaves_callout:
  assumes "\<And>mem. waits env (f mem)"
    and "\<And>w a x. I w \<Longrightarrow> fst (f (memory w) (outside w)) = Inr a \<Longrightarrow> J a (w\<lparr>outside := x\<rparr>)"
  shows "leaves env I J (callout f)"
  using assms by (auto simp: leaves_def waits_def wp_def callout_def split: prod.splits) (metis fst_conv snd_conv)+

lemma leaves_secret: "leaves env (\<lambda>_. True) (\<lambda>b w. \<exists>bs. keyed b bs w) (fresh_secret env f)"
  unfolding fresh_secret_def
  by (intro leaves_bind [OF leaves_callout [where J = "\<lambda>_ _. True"]] waits_intros)
    (auto simp: leaves_def wp_allocate keyed_def)

lemma reconcile_memory:
  fixes w :: "'o session_world"
  assumes "keyed b bs w"
  shows "wp (reconcileActiveMaterial senv i)
     (\<lambda>r w'. \<forall>rec. r = Inr rec \<longrightarrow> rec_material rec \<noteq> None \<longrightarrow> keyed b bs w' \<and> outside w' = outside w) w"
    (is "wp _ ?Q _")
proof -
  have cached: "wp (reconcile_cached senv j) ?Q u"
    if "keyed b bs u" "outside u = outside w" for j and u :: "'o session_world"
    unfolding reconcile_cached_def wp_sbind
    by (rule wp_weaken [OF get_material_spec])
      (use that in \<open>auto simp: wp_simps Let_def keyed_def grows_def evictCachedUnlockedVaultSessionMaterial_def
        split: sum.splits option.splits\<close>)
  have local: "keyed b bs (w\<lparr>cachedMaterial := c, invalidationState := x\<rparr>)" "keyed b bs (w\<lparr>invalidationState := x\<rparr>)" for c x
    using assms by (simp_all add: keyed_def)
  show ?thesis
    unfolding reconcileActiveMaterial_def
    by (simp add: wp_simps evictCachedUnlockedVaultSessionMaterial_def set_invalidation_def assms
        split: option.split) (use assms local in \<open>auto intro!: wp_weaken [OF cached]\<close>)
qed

text \<open>The callback of \<open>persistForActiveSession\<close> finds the keys as they were.\<close>

lemma wp_require_active:
  assumes "material \<noteq> None \<Longrightarrow> wp m Q t" "\<And>e. Q (Inl e) t"
  shows "wp (sthen (requireActiveSession material s k) m) Q t"
  using assms by (auto simp: requireActiveSession_def isActiveSession_def wp_simps split: option.splits)

lemma persist_keyed:
  assumes "b < next_buffer w"
  shows "wp (persistForActiveSession senv sessionId k run None)
     (\<lambda>r w'. \<forall>a. r = Inr a \<longrightarrow> (\<exists>mem. mem b = memory w b \<and> run mem (outside w) = (Inr a, outside w'))) w"
  unfolding persistForActiveSession_def
proof (rule wp_exclusive)
  fix ls n
  let ?w = "leased ls n w"
  let ?Q = "\<lambda>r w'. \<forall>a. r = Inr a \<longrightarrow> (\<exists>mem. mem b = memory w b \<and> run mem (outside w) = (Inr a, outside w'))"
  let ?last = "sthen (advanceUnlockedVaultSessionEpoch senv) (sthen (smodify next_generation) (callout run))"
  have last: "wp ?last ?Q t" if "keyed b (memory w b) t" "outside t = outside w" for t
    unfolding wp_sthen
    apply (rule wp_weaken [OF advance_spec])
    using that
    apply (auto simp: wp_simps next_generation_def keyed_def advances_fields(9) wp_def callout_def smodify_def
        split: sum.splits prod.splits)
    apply (metis advances_fields(13))
    done
  have rest: "wp (sbind (reconcileActiveMaterial senv i) (\<lambda>rec.
      sthen (requireActiveSession (rec_material rec) sessionId k) ?last)) ?Q t"
    if "keyed b (memory w b) t" "outside t = outside w" for i t
    unfolding wp_sbind
    by (rule wp_weaken [OF reconcile_memory [OF that(1)]])
      (use that in \<open>auto split: sum.splits intro!: wp_require_active last\<close>)
  show "wp (sbind (getPersistedUnlockedVaultSessionIdentity senv) (\<lambda>persistedIdentity.
      sbind (reconcileActiveMaterial senv persistedIdentity) (\<lambda>rec.
      sthen (requireActiveSession (rec_material rec) sessionId k) ?last))) (\<lambda>r t. \<forall>ls n. ?Q r (leased ls n t)) ?w"
    unfolding leased_fields wp_sbind [of "getPersistedUnlockedVaultSessionIdentity senv"]
    by (rule wp_weaken [OF get_identity_spec])
      (use assms in \<open>auto simp: grows_def keyed_def split: sum.splits intro!: rest\<close>)
qed

lemma saves_from_here:
  assumes "\<And>mem x p y b. mem key = bs \<Longrightarrow> run mem x = (Inr p, y) \<Longrightarrow> gives (f p) b \<Longrightarrow> S b x y"
  shows "saves_from env (keyed key bs) S (sbind (persistForActiveSession senv sessionId k run None) f)"
  unfolding saves_from_def
proof (intro allI impI)
  fix w :: "'a device_world session_world"
  assume key: "keyed key bs w"
  let ?m = "persistForActiveSession senv sessionId k run None"
  obtain r t where m: "?m w = (r, t)" by fastforce
  then have ran: "\<exists>mem. mem key = bs \<and> run mem (outside w) = (Inr p, outside t)" if "r = Inr p" for p
    using that key persist_keyed [of key w senv sessionId k run] by (auto simp: keyed_def wp_run)
  have "S b (outside w) (outside t)" if "r = Inr p" "fst (f p t) = Inr b" for p b
  proof -
    have "gives (f p) b" using that(2) by (auto simp: gives_def)
    with ran [OF that(1)] assms show ?thesis by blast
  qed
  then show "wp (sbind ?m f) (\<lambda>r _. \<forall>a. r = Inr a \<longrightarrow>
      (\<exists>x' y'. others_only env (local_db (outside w)) (local_db x') \<and> S a x' y')) w"
    by (cases r) (auto simp: wp_run sbind_def m intro: others_only_refl)
qed

text \<open>Wiping the secrets of a use case that fails does not matter for what was saved.\<close>

lemma saves_from_wiping:
  assumes "saves_from env I (\<lambda>b. S (fst b)) m"
  shows "saves_from env I S (wipe_unless_transferred secrets m)"
  unfolding saves_from_def
proof (intro allI impI)
  fix w
  assume I: "I w"
  obtain r t where m: "m w = (r, t)" by fastforce
  have "\<exists>x' y'. others_only env (local_db (outside w)) (local_db x') \<and> S a x' y'"
    if "fst (wipe_unless_transferred secrets m w) = Inr a" for a
  proof (cases r)
    case (Inl e)
    with that m show ?thesis
      by (simp add: wipe_unless_transferred_def Let_def sbind_def scatch_def sthen_def smodify_def sthrow_def)
  next
    case (Inr b)
    then have "fst b = a"
      using that m
      by (auto simp: wipe_unless_transferred_def Let_def sbind_def scatch_def sthen_def smodify_def sret_def
          split: prod.splits if_splits)
    moreover have "wp m (\<lambda>r _. \<forall>b. r = Inr b \<longrightarrow>
        (\<exists>x' y'. others_only env (local_db (outside w)) (local_db x') \<and> S (fst b) x' y')) w"
      using assms I by (simp add: saves_from_def)
    ultimately show ?thesis using m Inr by (cases b) (auto simp: wp_def)
  qed
  then show "wp (wipe_unless_transferred secrets m) (\<lambda>r _. \<forall>a. r = Inr a \<longrightarrow>
      (\<exists>x' y'. others_only env (local_db (outside w)) (local_db x') \<and> S a x' y')) w"
    by (simp add: wp_run)
qed

section \<open>What a save writes\<close>

definition replaces_stored :: "device_env \<Rightarrow> string \<Rightarrow> persisted_snapshot \<Rightarrow> vault_db \<Rightarrow> vault_db \<Rightarrow> bool" where
  "replaces_stored env digest p before after \<longleftrightarrow>
     (\<exists>c e s. saveVaultSnapshotWithCheckpoint (key_import env) (snapshot_digest env)
        (replacement digest c (ps_snapshot p) (ps_checkpoint p) e s) before = (Inr (), after))"

lemma save_replaces:
  assumes "save_snapshot env (replacement digest c (ps_snapshot p) (ps_checkpoint p) e s) x = (Inr (), y)"
  shows "\<exists>before. others_only env (local_db x) before \<and> replaces_stored env digest p before (local_db y)"
proof -
  let ?db = "meanwhile env (call_count x) (local_db x)"
  have "replaces_stored env digest p ?db (local_db y)"
    using assms unfolding replaces_stored_def
    by (intro exI) (auto simp: save_snapshot_def repository_def Let_def split: call_outcome.splits prod.splits)
  moreover have "others_only env (local_db x) ?db"
    using others_only_step [of env "local_db x" "local_db x"] by simp
  ultimately show ?thesis by blast
qed

lemma persist_replaces:
  assumes "benign env" "db_ok (key_import env) (local_db x)"
    and run: "persistUnlockedVault env mem k uv v options x = (Inr p, y)"
  shows "(\<exists>current. consistent_result env mem k uv v options current p) \<and>
    (\<exists>before. others_only env (local_db x) before \<and>
       replaces_stored env (tsc_snapshotDigest (uv_trustedSnapshotContext uv)) p before (local_db y))"
proof -
  obtain r t where prepared: "prepare_persisted_snapshot env mem k uv v options x = (r, t)" by fastforce
  with run obtain c where r: "r = Inr (c, p)"
    and save: "save_snapshot env (replacement (tsc_snapshotDigest (uv_trustedSnapshotContext uv)) c (ps_snapshot p)
      (ps_checkpoint p) (expected_credentials options) (credentials_change options)) t = (Inr (), y)"
    by (auto simp: persistUnlockedVault_def sbind_def sthen_def sret_def split: sum.splits prod.splits)
  have "only_read env x t" "\<exists>current. consistent_result env mem k uv v options current p"
    using reads_prepared [OF assms(1,2), of mem k uv v options] prepared r by (simp_all add: reads_def wp_def)
  with save_replaces [OF save] show ?thesis
    by (auto simp: only_read_def intro: others_only_trans)
qed

section \<open>The snapshot of a session\<close>

lemma gives_current_snapshot:
  assumes "gives (requireCurrentSnapshotForUnlockedVault env k uv v :: ('r, VaultSnapshot) service) s"
  shows "snapshot_digest env s = tsc_snapshotDigest (uv_trustedSnapshotContext uv) \<and>
    vv_get (m_snapshotVersionVector (snap_metadata s)) = vv_get v"
  using assms unfolding requireCurrentSnapshotForUnlockedVault_def
  by (auto simp: gives_simps compare_Equal_iff split: if_splits dest!: gives_sbindD gives_sthenD gives_crypto)

end
