(* ===== verification/Sync_Removal.thy ===== *)
theory Sync_Removal
  imports Sync_Connection
begin

text \<open>
  Taking a vault out of synchronisation (\<open>use-cases/sync/disable-sync.ts\<close>): the removal is announced in
  the vault, the remote snapshot is removed, and the vault goes on with this device alone, under a
  new vault key if it had other devices. A remote snapshot that has changed rolls the announcement back.
\<close>

section \<open>The snapshot that is removed\<close>

definition require_removable ::
    "string \<Rightarrow> VaultSnapshotDescriptor \<Rightarrow> VaultSnapshotDescriptor \<Rightarrow> core_error + unit" where
  "require_removable vaultId localSnapshotDescriptor remoteSnapshotDescriptor =
     (case compareVaultSnapshotDescriptors localSnapshotDescriptor remoteSnapshotDescriptor of
        Remote_ahead \<Rightarrow> Inl (Sync_error (RemoteVaultSnapshotAheadError vaultId))
      | Local_ahead \<Rightarrow> Inl (Sync_error (LocalVaultSnapshotAheadError vaultId))
      | relation \<Rightarrow>
          if relation = Broken \<or>
             \<not> areVaultSnapshotDescriptorsEqual remoteSnapshotDescriptor localSnapshotDescriptor
          then Inl (integrity_error vaultId) else Inr ())"

text \<open>The current remote snapshot, which must be the local one; \<open>None\<close> if there is none.\<close>

definition find_removed_snapshot ::
    "'r guard_env \<Rightarrow> string \<Rightarrow> SyncAccess \<Rightarrow> UnlockedVault \<Rightarrow> VaultSnapshot \<Rightarrow>
     ('r, VaultSnapshotIdentity option) guarded" where
  "find_removed_snapshot g vaultId syncAccess uv currentSnapshot =
     (let env = device_of g; provider = provider_of g in
      sbind (on_device (\<lambda>_. provider_call (getLatestVaultSnapshotDescriptor provider syncAccess vaultId)))
        (\<lambda>remoteSnapshotDescriptor.
      case remoteSnapshotDescriptor of
        None \<Rightarrow> sret None
      | Some descriptor \<Rightarrow>
          sthen (slift (require_removable vaultId (toVaultSnapshotDescriptor vaultId currentSnapshot) descriptor))
          (sbind (on_device (\<lambda>_. provider_call (downloadVaultSnapshot provider syncAccess descriptor)))
            (\<lambda>remoteSnapshot.
           sbind (on_device (\<lambda>_. verifyCandidateSnapshotTrust env vaultId remoteSnapshot uv)) (\<lambda>remoteTrust.
           sthen (srequire (ct_snapshotDigest remoteTrust = tsc_snapshotDigest (uv_trustedSnapshotContext uv))
                    (integrity_error vaultId))
           (let identity = toVaultSnapshotIdentity vaultId remoteSnapshot (ct_snapshotDigest remoteTrust) in
            sthen (srequire (areVaultSnapshotDescriptorsEqual (si_descriptor identity) descriptor)
                     (changed_error vaultId))
              (sret (Some identity))))))))"

definition require_removal_allowed ::
    "string \<Rightarrow> VaultSnapshot \<Rightarrow> SyncRemovalPending option \<Rightarrow> VaultSnapshotIdentity option \<Rightarrow>
     core_error + unit" where
  "require_removal_allowed vaultId currentSnapshot syncRemovalPending expectedRemoteSnapshotIdentity =
     (let localAhead = Inl (Sync_error (LocalVaultSnapshotAheadError vaultId)) in
      case expectedRemoteSnapshotIdentity of
        None \<Rightarrow> if syncRemovalPending = None then localAhead else Inr ()
      | Some identity \<Rightarrow>
          (let localSnapshotDescriptor = toVaultSnapshotDescriptor vaultId currentSnapshot in
           case compareVaultSnapshotDescriptors localSnapshotDescriptor (si_descriptor identity) of
             Remote_ahead \<Rightarrow> Inl (Sync_error (RemoteVaultSnapshotAheadError vaultId))
           | Local_ahead \<Rightarrow> if syncRemovalPending = None then localAhead else Inr ()
           | Broken \<Rightarrow> Inl (integrity_error vaultId)
           | Equal \<Rightarrow>
               if \<not> areVaultSnapshotDescriptorsEqual (si_descriptor identity) localSnapshotDescriptor
               then Inl (integrity_error vaultId) else Inr ()))"

section \<open>Announcing the removal\<close>

record removal_state =
  rm_unlockedVault :: UnlockedVault
  rm_snapshotVersionVector :: VersionVector
  rm_snapshot :: VaultSnapshot

definition announce_removal ::
    "'r guard_env \<Rightarrow> string \<Rightarrow> UnlockedVaultSession \<Rightarrow> SerializedEncrypted \<Rightarrow> VaultSnapshot \<Rightarrow>
     VaultSnapshotIdentity option \<Rightarrow> ('r, removal_state) guarded" where
  "announce_removal g vaultId session expectedState currentSnapshot expectedRemoteSnapshotIdentity =
     (let uv = us_unlockedVault session; v = us_sourceSnapshotVersionVector session in
      if v_syncRemovalPending (uv_vault uv) \<noteq> None
      then sret \<lparr>rm_unlockedVault = uv, rm_snapshotVersionVector = v, rm_snapshot = currentSnapshot\<rparr>
      else
        (let pendingUnlockedVault = uv\<lparr>uv_vault :=
               markVaultSyncRemovalPending (uv_vault uv) expectedRemoteSnapshotIdentity currentSnapshot\<rparr> in
         sbind (persistForActiveSession (session_of g) (us_sessionId session) vaultId
                  (\<lambda>mem. persistUnlockedVault (device_of g) mem vaultId pendingUnlockedVault v
                     (no_options\<lparr>po_expectedSyncCredentialState := Some (Some expectedState),
                        po_syncCredentialState := Some (Some expectedState)\<rparr>)) None) (\<lambda>pendingSnapshot.
         let current = pendingUnlockedVault\<lparr>
               uv_trustedSnapshotContext := ps_trustedSnapshotContext pendingSnapshot\<rparr> in
         sthen (commitPersistedSnapshot (session_of g) (us_sessionId session) current
                  (ps_snapshotVersionVector pendingSnapshot) None)
           (sret \<lparr>rm_unlockedVault = current,
                  rm_snapshotVersionVector = ps_snapshotVersionVector pendingSnapshot,
                  rm_snapshot = ps_snapshot pendingSnapshot\<rparr>))))"

text \<open>The remote snapshot is not the expected one: the vault goes back to the snapshot before.\<close>

definition roll_removal_back ::
    "'r guard_env \<Rightarrow> string \<Rightarrow> string \<Rightarrow> removal_state \<Rightarrow> core_error \<Rightarrow> ('r, unit) guarded" where
  "roll_removal_back g vaultId sessionId state e =
     (let env = device_of g; current = rm_unlockedVault state in
      case v_syncRemovalPending (uv_vault current) of
        None \<Rightarrow> sthrow (integrity_error vaultId)
      | Some pending \<Rightarrow>
          (let rollbackSnapshot = srp_rollbackSnapshot pending in
           sbind (on_device (\<lambda>_. crypto_call env (\<lambda>_. Inr (snapshot_digest env rollbackSnapshot))))
             (\<lambda>rollbackSnapshotDigest.
           let rolledBack = current\<lparr>uv_vault := clearVaultSyncRemovalPending (uv_vault current),
                 uv_trustedSnapshotContext := \<lparr>tsc_snapshotDigest = rollbackSnapshotDigest,
                   tsc_trust = tsc_trust (uv_trustedSnapshotContext current)\<rparr>\<rparr> in
           sthen (persistForActiveSession (session_of g) sessionId vaultId
                    (\<lambda>mem. restoreLocalVaultSnapshot env mem rollbackSnapshot (rm_snapshot state) current None)
                    None)
           (sthen (commitPersistedSnapshot (session_of g) sessionId rolledBack
                     (m_snapshotVersionVector (snap_metadata rollbackSnapshot)) None)
             (sthrow e)))))"

section \<open>Going on alone\<close>

definition only_this_device ::
    "'r guard_env \<Rightarrow> string \<Rightarrow> removal_state \<Rightarrow> bool \<Rightarrow> int \<Rightarrow> DeviceTrustIdentity list \<Rightarrow>
     ('r, VaultTrustChain \<times> VerifiedVaultTrustState) guarded" where
  "only_this_device g vaultId state revokesOtherDevices vaultKeyGeneration survivingIdentities =
     (let uv = rm_unlockedVault state; currentTrust = tsc_trust (uv_trustedSnapshotContext uv);
          chain = snap_trustChain (rm_snapshot state) in
      if revokesOtherDevices
      then on_device (\<lambda>mem. trust_check (appendTrustTransition (trust_port (device_of g)) vaultId chain
             currentTrust survivingIdentities vaultKeyGeneration (uv_deviceId uv)
             (mem (uv_devicePrivateSignKey uv))))
      else sret (chain, currentTrust))"

definition save_alone ::
    "key_port \<Rightarrow> 'r guard_env \<Rightarrow> string \<Rightarrow> string \<Rightarrow> SerializedEncrypted \<Rightarrow> removal_state \<Rightarrow> Vault \<Rightarrow> buffer \<Rightarrow>
     bool \<Rightarrow> int \<Rightarrow> DeviceTrustIdentity \<Rightarrow> VaultTrustChain \<times> VerifiedVaultTrustState \<Rightarrow>
     ('r, unit \<times> bool) guarded" where
  "save_alone keys g vaultId sessionId expectedState state updatedVault vaultMasterKey revokesOtherDevices
     vaultKeyGeneration currentIdentity nextTrust =
     (let env = device_of g;
          updatedUnlockedVault = (rm_unlockedVault state)\<lparr>uv_vault := updatedVault,
            uv_vaultMasterKey := vaultMasterKey\<rparr> in
      sbind (if revokesOtherDevices
             then on_device (\<lambda>mem. create_device_slots keys env mem vaultId vaultKeyGeneration vaultMasterKey
                    [currentIdentity])
             else sret (snap_deviceSlots (rm_snapshot state))) (\<lambda>deviceSlots.
      sbind (persistForActiveSession (session_of g) sessionId vaultId
               (\<lambda>mem. persistUnlockedVault env mem vaultId updatedUnlockedVault (rm_snapshotVersionVector state)
                  (no_options\<lparr>po_vaultKeyGeneration := Some vaultKeyGeneration,
                     po_keySlots := Some deviceSlots, po_nextTrust := Some nextTrust,
                     po_expectedSyncCredentialState := Some (Some expectedState),
                     po_syncCredentialState := Some None\<rparr>)) None) (\<lambda>persisted.
      sthen (commitPersistedSnapshot (session_of g) sessionId
               (updatedUnlockedVault\<lparr>uv_trustedSnapshotContext := ps_trustedSnapshotContext persisted\<rparr>)
               (ps_snapshotVersionVector persisted) None)
        (sret ((), True)))))"

definition finish_removal ::
    "key_port \<Rightarrow> 'r guard_env \<Rightarrow> string \<Rightarrow> string \<Rightarrow> SerializedEncrypted \<Rightarrow> removal_state \<Rightarrow> ('r, unit) guarded" where
  "finish_removal keys g vaultId sessionId expectedState state =
     (let env = device_of g; uv = rm_unlockedVault state;
          currentTrust = tsc_trust (uv_trustedSnapshotContext uv);
          generation = m_vaultKeyGeneration (snap_metadata (rm_snapshot state)) in
      sbind (on_device (\<lambda>_. sread (\<lambda>w. clock_now env (call_count w)))) (\<lambda>revisionTimestamp.
      let updatedVault = removeVaultSyncTarget (removeOtherDeviceProfilesFromVault (uv_vault uv)
            (uv_deviceId uv) revisionTimestamp);
          survivingIdentities =
            filter (\<lambda>device. dti_deviceId device = uv_deviceId uv) (ts_trustedDevices currentTrust) in
      case survivingIdentities of
        [] \<Rightarrow> sthrow (VaultTrustStateInvalidError vaultId Authorizer_not_trusted)
      | currentIdentity # _ \<Rightarrow>
          (let revokesOtherDevices = (length survivingIdentities \<noteq> length (ts_trustedDevices currentTrust));
               vaultKeyGeneration = (if revokesOtherDevices then generation + 1 else generation) in
           sbind (only_this_device g vaultId state revokesOtherDevices vaultKeyGeneration survivingIdentities)
             (\<lambda>nextTrust.
           sbind (if revokesOtherDevices
                  then fresh_secret env (\<lambda>_ n. Inr (generateVaultMasterKey keys n))
                  else sret (uv_vaultMasterKey uv)) (\<lambda>vaultMasterKey.
           wipe_unless_transferred (if revokesOtherDevices then [vaultMasterKey] else [])
             (save_alone keys g vaultId sessionId expectedState state updatedVault vaultMasterKey
                revokesOtherDevices vaultKeyGeneration currentIdentity nextTrust))))))"

definition disableSync :: "key_port \<Rightarrow> 'r guard_env \<Rightarrow> string \<Rightarrow> ('r, unit) guarded" where
  "disableSync keys g vaultId =
     (let env = device_of g; operation = ''disable sync'' in
      sbind (requireUnlockedVaultContext (session_of g) vaultId operation None) (\<lambda>session.
      let uv = us_unlockedVault session; sessionId = us_sessionId session;
          syncRemovalPending = v_syncRemovalPending (uv_vault uv) in
      sthen (srequire (v_syncTarget (uv_vault uv) \<noteq> None) (Sync_error (SyncNotConfiguredError vaultId operation)))
      (sbind (on_device (\<lambda>mem. prepareSyncCredentialStateWithoutPending env mem vaultId uv False (Some operation)))
        (\<lambda>transition.
       sbind (on_device (\<lambda>_. requireCurrentSnapshotForUnlockedVault env vaultId uv
                 (us_sourceSnapshotVersionVector session))) (\<lambda>currentSnapshot.
       sbind (case syncRemovalPending of
                Some pending \<Rightarrow> sret (srp_expectedRemoteSnapshotIdentity pending)
              | None \<Rightarrow> find_removed_snapshot g vaultId (cp_syncAccess transition) uv currentSnapshot)
         (\<lambda>expectedRemoteSnapshotIdentity.
       sthen (slift (require_removal_allowed vaultId currentSnapshot syncRemovalPending
                expectedRemoteSnapshotIdentity))
       (sbind (announce_removal g vaultId session (cp_expectedState transition) currentSnapshot
                 expectedRemoteSnapshotIdentity) (\<lambda>state.
        sthen (scatch (removeTrackedRemoteSnapshot g sessionId vaultId (cp_syncAccess transition)
                 expectedRemoteSnapshotIdentity)
                 (\<lambda>e. if is_remote_changed e then roll_removal_back g vaultId sessionId state e else sthrow e))
        (finish_removal keys g vaultId sessionId (cp_expectedState transition) state)))))))))"

end
