(* ===== verification/Device_Revocation.thy ===== *)
theory Device_Revocation
  imports Sync_Removal
begin

text \<open>
  Revoking a device and following the revocation of another one: \<open>use-cases/device-trust/revoke-device.ts\<close>,
  \<open>prepare-device-revocation-consumption.ts\<close>, \<open>consume-device-revocation.ts\<close> and
  \<open>loadVerifiedCandidate\<close> of \<open>services/trust/device-revocation-consumption.service.ts\<close>.

  A revocation removes the device from the trust state, draws a new vault key, seals it for the
  surviving devices only and, for a synchronised vault, replaces the credentials of the storage.
\<close>

section \<open>What a use case shows of a vault\<close>

record visible_profile =
  vp_id :: string
  vp_name :: string
  vp_createdAt :: nat

record VisibleTagFields =
  vt_id :: string
  vt_name :: string
  vt_groupId :: string
  vt_color :: string
  vt_shade :: nat
  vt_createdAt :: nat

record VisibleFolderFields =
  vf_id :: string
  vf_name :: string
  vf_icon :: string
  vf_description :: "string option"
  vf_parentId :: "string option"
  vf_createdAt :: nat

record VisibleVaultFields =
  vv_entries :: "VisiblePasswordEntryFields list"
  vv_deviceProfiles :: "visible_profile list"
  vv_tags :: "VisibleTagFields list"
  vv_tagGroups :: "TagGroup list"
  vv_folders :: "VisibleFolderFields list"
  vv_syncConfigured :: bool

definition toVisibleVaultFields :: "Vault \<Rightarrow> VisibleVaultFields" where
  "toVisibleVaultFields vault =
     \<lparr>vv_entries = map toVisiblePasswordEntryFields (v_entries vault),
      vv_deviceProfiles = map (\<lambda>p. \<lparr>vp_id = d_id p, vp_name = d_name p, vp_createdAt = d_createdAt p\<rparr>)
        (v_deviceProfiles vault),
      vv_tags = map (\<lambda>t. \<lparr>vt_id = t_id t, vt_name = t_name t, vt_groupId = t_groupId t, vt_color = t_color t,
        vt_shade = t_shade t, vt_createdAt = t_createdAt t\<rparr>) (v_tags vault),
      vv_tagGroups = v_tagGroups vault,
      vv_folders = map (\<lambda>f. \<lparr>vf_id = f_id f, vf_name = f_name f, vf_icon = f_icon f,
        vf_description = f_description f, vf_parentId = f_parentId f, vf_createdAt = f_createdAt f\<rparr>)
        (v_folders vault),
      vv_syncConfigured = (v_syncTarget vault \<noteq> None)\<rparr>"

section \<open>Revoking\<close>

record RevokeDeviceResult =
  rd_vault :: VisibleVaultFields
  rd_snapshotVersionVector :: VersionVector
  rd_revisionTimestamp :: nat
  rd_providerCredentialRevocation :: provider_revocation
  rd_syncUpload :: SyncUploadStatus

abbreviation revocation_error :: "string \<Rightarrow> transition_issue \<Rightarrow> core_error" where
  "revocation_error vaultId reason \<equiv> InvalidDeviceRevocationTransitionError vaultId reason"

text \<open>The device is another one, and trusted.\<close>

definition require_revocable :: "string \<Rightarrow> string \<Rightarrow> UnlockedVault \<Rightarrow> core_error + unit" where
  "require_revocable vaultId deviceId uv =
     (if deviceId = uv_deviceId uv then Inl (Device_error (CannotRevokeCurrentDeviceError vaultId deviceId))
      else if find_device (ts_trustedDevices (tsc_trust (uv_trustedSnapshotContext uv))) deviceId = None
      then Inl (Device_error (DeviceToRevokeNotTrustedError vaultId deviceId))
      else Inr ())"

text \<open>The profiles match the trust state, and the device has exactly one slot.\<close>

definition require_consistent_devices ::
    "string \<Rightarrow> string \<Rightarrow> UnlockedVault \<Rightarrow> VaultSnapshot \<Rightarrow> core_error + unit" where
  "require_consistent_devices vaultId deviceId uv currentSnapshot =
     (case requireDeviceProfilesMatchTrust (uv_vault uv) (trusted_ids (tsc_trust (uv_trustedSnapshotContext uv)))
             (history_ids (snap_trustChain currentSnapshot)) of
        Inl _ \<Rightarrow> Inl (revocation_error vaultId Profiles_do_not_match_trust)
      | Inr _ \<Rightarrow>
          if length (filter (\<lambda>slot. slot_deviceId slot = deviceId) (snap_deviceSlots currentSnapshot)) \<noteq> 1
          then Inl (Device_error (DeviceToRevokeNotTrustedError vaultId deviceId)) else Inr ())"

text \<open>The new access to the storage and the credential state with the old and the new credentials.\<close>

record replacement_access =
  ra_previousState :: SerializedEncrypted
  ra_access :: SyncAccess
  ra_state :: DeviceSyncCredentialState
  ra_remoteSnapshotIdentity :: VaultSnapshotIdentity

definition prepare_replacement_access ::
    "'r guard_env \<Rightarrow> string \<Rightarrow> string \<Rightarrow> SyncSetupInput option \<Rightarrow> UnlockedVault \<Rightarrow> LocalMutationSyncState \<Rightarrow> int \<Rightarrow>
     ('r, replacement_access option) guarded" where
  "prepare_replacement_access g vaultId deviceId replacementSyncConfig uv syncState vaultKeyGeneration =
     (let env = device_of g; provider = provider_of g;
          mismatch = Sync_error (ReplacementSyncTargetMismatchError vaultId) in
      case v_syncTarget (uv_vault uv) of
        None \<Rightarrow> sthen (srequire (replacementSyncConfig = None) mismatch) (sret None)
      | Some syncTarget \<Rightarrow>
          (case (replacementSyncConfig, lms_synchronized syncState) of
             (None, _) \<Rightarrow> sthrow (Sync_error (ReplacementSyncCredentialsRequiredError vaultId))
           | (_, None) \<Rightarrow> sthrow (credentials_missing vaultId)
           | (Some config, Some sync) \<Rightarrow>
               sbind (on_device (\<lambda>mem. decrypt_credentials env mem vaultId uv syncTarget (sy_syncCredentialState sync)))
                 (\<lambda>previousState.
               sthen (srequire (dsc_previousCredentials previousState = None)
                        (revocation_error vaultId Credential_revocation_pending))
               (sbind (on_device (\<lambda>_. setup_or_invalid provider config)) (\<lambda>access.
                sthen (srequire (areJsonEqual (encode_sync_target (sa_target access)) (encode_sync_target syncTarget))
                         mismatch)
                (sthen (srequire (\<not> areJsonEqual (credentials_json (sa_credentials access))
                            (credentials_json (dsc_currentCredentials previousState)))
                          (Sync_error (ReplacementSyncCredentialsUnchangedError vaultId)))
                (sbind (on_device (\<lambda>_. provider_call (getLatestVaultSnapshotDescriptor provider access vaultId)))
                  (\<lambda>remoteDescriptor.
                 sthen (srequire (case remoteDescriptor of
                           None \<Rightarrow> False
                         | Some d \<Rightarrow> areVaultSnapshotDescriptorsEqual d (si_descriptor (sy_remoteSnapshotIdentity sync)))
                         mismatch)
                 (sret (Some \<lparr>ra_previousState = sy_syncCredentialState sync, ra_access = access,
                    ra_state = \<lparr>dsc_currentCredentials = sa_credentials access, dsc_pendingSnapshotUpload = None,
                      dsc_previousCredentials = Some
                        \<lparr>prc_credentials = dsc_currentCredentials previousState, prc_revokedDeviceIds = [deviceId],
                         prc_vaultKeyGeneration = vaultKeyGeneration\<rparr>\<rparr>,
                    ra_remoteSnapshotIdentity = sy_remoteSnapshotIdentity sync\<rparr>))))))))))"

definition revoked_vault :: "Vault \<Rightarrow> string \<Rightarrow> string \<Rightarrow> nat \<Rightarrow> int \<Rightarrow> bool \<Rightarrow> Vault" where
  "revoked_vault vault currentDeviceId deviceId now vaultKeyGeneration replaced =
     (let v = revokeDeviceProfileFromVault vault currentDeviceId deviceId now in
      if replaced then markVaultProviderCredentialRevocationPending v [deviceId] vaultKeyGeneration else v)"

definition survivors :: "UnlockedVault \<Rightarrow> string \<Rightarrow> DeviceTrustIdentity list" where
  "survivors uv deviceId =
     filter (\<lambda>device. dti_deviceId device \<noteq> deviceId) (ts_trustedDevices (tsc_trust (uv_trustedSnapshotContext uv)))"

text \<open>
  The options of the snapshot. A replacement gives \<open>Some\<close> credential state, so that the error of a
  missing one is never thrown.
\<close>

definition revocation_options ::
    "int \<Rightarrow> DeviceKeySlot list \<Rightarrow> VaultTrustChain \<times> VerifiedVaultTrustState \<Rightarrow>
     (replacement_access \<times> SerializedEncrypted) option \<Rightarrow> persist_options" where
  "revocation_options vaultKeyGeneration deviceSlots nextTrust credentials =
     (let common = no_options\<lparr>po_vaultKeyGeneration := Some vaultKeyGeneration, po_keySlots := Some deviceSlots,
            po_nextTrust := Some nextTrust\<rparr> in
      case credentials of
        None \<Rightarrow> common
      | Some (r, encryptedState) \<Rightarrow> common\<lparr>
          po_uploadExpectedRemoteSnapshotIdentity := Some (Some (ra_remoteSnapshotIdentity r)),
          po_expectedSyncCredentialState := Some (Some (ra_previousState r)),
          po_syncCredentialState := Some (Some encryptedState)\<rparr>)"

definition save_revocation ::
    "device_env \<Rightarrow> (buffer \<Rightarrow> bytes) \<Rightarrow> string \<Rightarrow> VaultSnapshot \<Rightarrow> UnlockedVault \<Rightarrow> UnlockedVault \<Rightarrow> VersionVector \<Rightarrow>
     SerializedEncrypted option \<Rightarrow> persist_options \<Rightarrow>
     ('r, persisted_snapshot \<times> PreparedLocalVaultSnapshotRestore) service" where
  "save_revocation env mem vaultId currentSnapshot uv rotatedUnlockedVault v previousEncryptedCredentials options =
     sbind (prepareLocalVaultSnapshotRestore env currentSnapshot uv (Some previousEncryptedCredentials))
       (\<lambda>preparedRestore.
     sbind (persistUnlockedVault env mem vaultId rotatedUnlockedVault v options) (\<lambda>persisted.
     sret (persisted, preparedRestore)))"

definition finish_revocation ::
    "'r guard_env \<Rightarrow> string \<Rightarrow> UnlockedVaultSession \<Rightarrow> UnlockedVault \<Rightarrow>
     (replacement_access \<times> SerializedEncrypted) option \<Rightarrow> persisted_snapshot \<Rightarrow>
     PreparedLocalVaultSnapshotRestore \<Rightarrow> ('r, SyncUploadStatus \<times> bool) guarded" where
  "finish_revocation g vaultId session rotatedUnlockedVault credentials persisted preparedRestore =
     (let sessionId = us_sessionId session;
          committed = rotatedUnlockedVault\<lparr>uv_trustedSnapshotContext := ps_trustedSnapshotContext persisted\<rparr> in
      case credentials of
        None \<Rightarrow>
          sthen (commitPersistedSnapshot (session_of g) sessionId committed (ps_snapshotVersionVector persisted) None)
            (sret (Complete, True))
      | Some (r, encryptedState) \<Rightarrow>
          sbind (uploadPersistedSnapshot g
                   \<lparr>up_sessionId = sessionId, up_vaultId = vaultId, up_unlockedVault = rotatedUnlockedVault,
                    up_syncAccess = ra_access r, up_snapshot = ps_snapshot persisted,
                    up_snapshotDigest = tsc_snapshotDigest (ps_trustedSnapshotContext persisted),
                    up_checkpoint = ps_checkpoint persisted\<rparr>
                   (Some (ra_remoteSnapshotIdentity r)) (us_sourceSnapshotVersionVector session)
                   encryptedState preparedRestore) (\<lambda>status.
          sbind (commitPersistedSnapshotIfSessionIsActive (session_of g) sessionId committed
                   (ps_snapshotVersionVector persisted) None) (\<lambda>sessionCommitted.
          sret (status, sessionCommitted))))"

text \<open>The body of the \<open>try\<close> block, which tells whether the session has taken the new key.\<close>

definition rotate_vault_key ::
    "key_port \<Rightarrow> 'r guard_env \<Rightarrow> string \<Rightarrow> string \<Rightarrow> UnlockedVaultSession \<Rightarrow> VaultSnapshot \<Rightarrow> Vault \<Rightarrow> int \<Rightarrow>
     VaultTrustChain \<times> VerifiedVaultTrustState \<Rightarrow> replacement_access option \<Rightarrow> buffer \<Rightarrow>
     ('r, RevokeDeviceResult \<times> bool) guarded" where
  "rotate_vault_key keys g vaultId deviceId session currentSnapshot revokedVault vaultKeyGeneration nextTrust
     replaced vaultMasterKey =
     (let env = device_of g; uv = us_unlockedVault session;
          rotatedUnlockedVault = uv\<lparr>uv_vault := revokedVault, uv_vaultMasterKey := vaultMasterKey\<rparr> in
      sbind (on_device (\<lambda>mem. create_device_slots keys env mem vaultId vaultKeyGeneration vaultMasterKey
               (survivors uv deviceId))) (\<lambda>deviceSlots.
      sbind (case replaced of
               None \<Rightarrow> sret None
             | Some r \<Rightarrow>
                 sbind (on_device (\<lambda>mem. encrypt_credential_state env mem vaultId uv (sa_target (ra_access r))
                          (ra_state r))) (\<lambda>encryptedState. sret (Some (r, encryptedState)))) (\<lambda>credentials.
      sbind (persistForActiveSession (session_of g) (us_sessionId session) vaultId
               (\<lambda>mem. save_revocation env mem vaultId currentSnapshot uv rotatedUnlockedVault
                  (us_sourceSnapshotVersionVector session) (map_option ra_previousState replaced)
                  (revocation_options vaultKeyGeneration deviceSlots nextTrust credentials)) None)
        (\<lambda>(persisted, preparedRestore).
      sbind (finish_revocation g vaultId session rotatedUnlockedVault credentials persisted preparedRestore)
        (\<lambda>(status, sessionCommitted).
      sret (\<lparr>rd_vault = toVisibleVaultFields revokedVault,
             rd_snapshotVersionVector = ps_snapshotVersionVector persisted,
             rd_revisionTimestamp = ps_revisionTimestamp persisted,
             rd_providerCredentialRevocation =
               (if replaced = None then Revocation_not_configured else Pending_external_deletion),
             rd_syncUpload = status\<rparr>, sessionCommitted))))))"

definition revokeDevice ::
    "key_port \<Rightarrow> 'r guard_env \<Rightarrow> string \<Rightarrow> string \<Rightarrow> SyncSetupInput option \<Rightarrow> ('r, RevokeDeviceResult) guarded" where
  "revokeDevice keys g vaultId deviceId replacementSyncConfig =
     (let env = device_of g in
      sbind (requireUnlockedVaultContext (session_of g) vaultId ''revoke device'' None) (\<lambda>session.
      let uv = us_unlockedVault session in
      sthen (slift (require_revocable vaultId deviceId uv))
      (sthen (on_device (\<lambda>mem. requireProviderCredentialRevocationComplete env mem vaultId uv
                ''revoke another device''))
      (sbind (on_device (\<lambda>mem. prepareLocalMutation env (provider_of g) mem vaultId uv
                (us_sourceSnapshotVersionVector session))) (\<lambda>syncState.
       let currentSnapshot = lms_localSnapshot syncState;
           vaultKeyGeneration = m_vaultKeyGeneration (snap_metadata currentSnapshot) + 1 in
       sthen (slift (require_consistent_devices vaultId deviceId uv currentSnapshot))
       (sbind (prepare_replacement_access g vaultId deviceId replacementSyncConfig uv syncState vaultKeyGeneration)
         (\<lambda>replaced.
        sbind (on_device (\<lambda>_. sread (\<lambda>w. clock_now env (call_count w)))) (\<lambda>now.
        let revokedVault = revoked_vault (uv_vault uv) (uv_deviceId uv) deviceId now vaultKeyGeneration
              (replaced \<noteq> None) in
        sbind (on_device (\<lambda>mem. trust_check (appendTrustTransition (trust_port env) vaultId
                 (snap_trustChain currentSnapshot) (tsc_trust (uv_trustedSnapshotContext uv))
                 (survivors uv deviceId) vaultKeyGeneration (uv_deviceId uv) (mem (uv_devicePrivateSignKey uv)))))
          (\<lambda>nextTrust.
        sbind (fresh_secret env (\<lambda>_ n. Inr (generateVaultMasterKey keys n))) (\<lambda>vaultMasterKey.
        wipe_unless_transferred [vaultMasterKey]
          (rotate_vault_key keys g vaultId deviceId session currentSnapshot revokedVault vaultKeyGeneration nextTrust
             replaced vaultMasterKey)))))))))))"

end
