(* ===== verification/Revocation_Consumption.thy ===== *)
theory Revocation_Consumption
  imports Device_Revocation
begin

text \<open>
  Following the revocation of another device: \<open>loadVerifiedCandidate\<close> of
  \<open>services/trust/device-revocation-consumption.service.ts\<close>,
  \<open>use-cases/device-trust/prepare-device-revocation-consumption.ts\<close> and
  \<open>consume-device-revocation.ts\<close>. The remote snapshot is ahead of the local one and its trust chain
  extends the local one by revocations and enrollments; this device opens its own slot of the new key.
\<close>

section \<open>The candidate\<close>

record revocation_candidate =
  rc_replacementAccess :: SyncAccess
  rc_previousEncryptedState :: SerializedEncrypted
  rc_previousState :: DeviceSyncCredentialState
  rc_credentialTarget :: SyncTarget
  rc_localSnapshot :: VaultSnapshot
  rc_remoteSnapshotDescriptor :: VaultSnapshotDescriptor
  rc_remoteSnapshot :: VaultSnapshot
  rc_remoteTrust :: candidate_trust
  rc_transitions :: "DeviceTrustTransition list"
  rc_remoteVault :: Vault
  rc_trustTransitionBaseline :: Vault
  rc_vaultMasterKey :: buffer

definition revocations :: "DeviceTrustTransition list \<Rightarrow> DeviceTrustTransition list" where
  "revocations transitions = filter is_revocation transitions"

definition enrollments :: "DeviceTrustTransition list \<Rightarrow> DeviceTrustTransition list" where
  "enrollments transitions = filter (\<lambda>t. \<not> is_revocation t) transitions"

text \<open>The access with the new credentials, which no credentials stored so far may equal.\<close>

definition require_new_access ::
    "'r guard_env \<Rightarrow> string \<Rightarrow> SyncSetupInput \<Rightarrow> UnlockedVault \<Rightarrow> SyncTarget \<Rightarrow>
     ('r, SyncAccess \<times> SerializedEncrypted \<times> DeviceSyncCredentialState) guarded" where
  "require_new_access g vaultId replacementSyncConfig uv syncTarget =
     (let env = device_of g; provider = provider_of g in
      sbind (on_device (\<lambda>_. setup_or_invalid provider replacementSyncConfig)) (\<lambda>access.
      sthen (srequire (areJsonEqual (encode_sync_target (sa_target access)) (encode_sync_target syncTarget))
               (Sync_error (ReplacementSyncTargetMismatchError vaultId)))
      (sbind (on_device (\<lambda>_. require_stored_credentials env vaultId)) (\<lambda>previousEncryptedState.
       sbind (on_device (\<lambda>mem. decrypt_credentials env mem vaultId uv syncTarget previousEncryptedState))
         (\<lambda>previousState.
       sthen (case dsc_previousCredentials previousState of
                None \<Rightarrow> sret ()
              | Some previous \<Rightarrow>
                  sbind (on_device (\<lambda>_. access_outcome provider
                           \<lparr>sa_target = syncTarget, sa_credentials = prc_credentials previous\<rparr> vaultId))
                    (\<lambda>outcome. srequire (outcome \<noteq> ''accessible'')
                       (Sync_error (PreviousSyncCredentialStillActiveError vaultId))))
       (sthen (srequire (\<not> (areJsonEqual (credentials_json (sa_credentials access))
                   (credentials_json (dsc_currentCredentials previousState)) \<or>
                 (case dsc_previousCredentials previousState of
                    None \<Rightarrow> False
                  | Some previous \<Rightarrow> areJsonEqual (credentials_json (sa_credentials access))
                      (credentials_json (prc_credentials previous)))))
                 (Sync_error (ReplacementSyncCredentialsUnchangedError vaultId)))
        (sret (access, previousEncryptedState, previousState))))))))"

text \<open>The remote snapshot, which must be the reviewed one, and its trust.\<close>

definition require_reviewed ::
    "string \<Rightarrow> ReviewedVaultSnapshotIdentities option \<Rightarrow> (ReviewedVaultSnapshotIdentities \<Rightarrow> bool) \<Rightarrow> core_error \<Rightarrow>
     core_error + unit" where
  "require_reviewed vaultId reviewed matches e =
     (case reviewed of None \<Rightarrow> Inr () | Some r \<Rightarrow> if matches r then Inr () else Inl e)"

definition download_successor ::
    "'r guard_env \<Rightarrow> string \<Rightarrow> ReviewedVaultSnapshotIdentities option \<Rightarrow> UnlockedVault \<Rightarrow> VaultSnapshot \<Rightarrow>
     SyncAccess \<Rightarrow> ('r, VaultSnapshotDescriptor \<times> VaultSnapshot \<times> candidate_trust) guarded" where
  "download_successor g vaultId reviewed uv localSnapshot access =
     (let provider = provider_of g in
      sbind (on_device (\<lambda>_. provider_call (getLatestVaultSnapshotDescriptor provider access vaultId)))
        (\<lambda>latest.
      case latest of
        None \<Rightarrow> sthrow (Sync_error (RemoteVaultSnapshotNotFoundError vaultId))
      | Some providerDescriptor \<Rightarrow>
          (let descriptor = cloneVaultSnapshotDescriptor providerDescriptor in
           sthen (slift (require_reviewed vaultId reviewed
                    (\<lambda>r. areVaultSnapshotDescriptorsEqual descriptor (si_descriptor (ri_remote r)))
                    (changed_error vaultId)))
           (sbind (on_device (\<lambda>_. provider_call (downloadVaultSnapshot provider access
                     (cloneVaultSnapshotDescriptor descriptor)))) (\<lambda>remoteSnapshot.
            sthen (srequire (areVaultSnapshotDescriptorsEqual descriptor
                     (toVaultSnapshotDescriptor vaultId remoteSnapshot)) (changed_error vaultId))
            (sbind (on_device (\<lambda>_. verifyCandidateSnapshotTrust (device_of g) vaultId remoteSnapshot uv))
              (\<lambda>remoteTrust.
             sthen (slift (require_reviewed vaultId reviewed
                      (\<lambda>r. areVaultSnapshotIdentitiesEqual
                         (toVaultSnapshotIdentity vaultId remoteSnapshot (ct_snapshotDigest remoteTrust)) (ri_remote r))
                      (changed_error vaultId)))
             (sthen (srequire (\<not> (m_vaultCreationTimestamp (snap_metadata remoteSnapshot) \<noteq>
                        m_vaultCreationTimestamp (snap_metadata localSnapshot) \<or>
                      compareVersionVectors (m_snapshotVersionVector (snap_metadata localSnapshot))
                        (m_snapshotVersionVector (snap_metadata remoteSnapshot)) \<noteq> Remote_ahead))
                      (revocation_error vaultId Not_a_descendant))
             (sret (descriptor, remoteSnapshot, remoteTrust))))))))))"

text \<open>This device stays trusted, and opens its slot of the remote snapshot.\<close>

definition require_own_slot ::
    "string \<Rightarrow> UnlockedVault \<Rightarrow> VaultSnapshot \<Rightarrow> candidate_trust \<Rightarrow> DeviceTrustTransition list \<Rightarrow>
     core_error + DeviceKeySlot" where
  "require_own_slot vaultId uv remoteSnapshot remoteTrust transitions =
     (if revocations transitions = [] then Inl (revocation_error vaultId No_transition)
      else if find_device (ts_trustedDevices (ct_state remoteTrust)) (uv_deviceId uv) = None
      then Inl (Device_error (CurrentDeviceRevokedError vaultId (uv_deviceId uv)))
      else case find (\<lambda>slot. slot_deviceId slot = uv_deviceId uv) (snap_deviceSlots remoteSnapshot) of
        None \<Rightarrow> Inl (Device_error (DeviceKeySlotNotFoundError vaultId (uv_deviceId uv)))
      | Some slot \<Rightarrow> Inr slot)"

text \<open>The remote vault has the same target, and its marker names the last transition.\<close>

definition require_transition_state ::
    "string \<Rightarrow> SyncTarget \<Rightarrow> Vault \<Rightarrow> Vault \<Rightarrow> VaultSnapshot \<Rightarrow> DeviceTrustTransition list \<Rightarrow> core_error + unit" where
  "require_transition_state vaultId syncTarget localVault remoteVault remoteSnapshot transitions =
     (if \<not> areOptionalJsonEqual encode_sync_target (v_syncTarget remoteVault) (Some syncTarget) \<or>
         \<not> areOptionalJsonEqual removal_value (v_syncRemovalPending remoteVault) (v_syncRemovalPending localVault)
      then Inl (revocation_error vaultId Synchronisation_changed)
      else case v_providerCredentialRevocationPending remoteVault of
        None \<Rightarrow> Inr ()
      | Some marker \<Rightarrow>
          if transitions = [] \<or> \<not> is_revocation (last transitions) \<or>
             pcr_vaultKeyGeneration marker \<noteq> m_vaultKeyGeneration (snap_metadata remoteSnapshot) \<or>
             pcr_revokedDeviceIds marker \<noteq> [tr_device (last transitions)]
          then Inl (revocation_error vaultId Marker_does_not_match) else Inr ())"

definition require_profiles_follow ::
    "string \<Rightarrow> UnlockedVault \<Rightarrow> VaultSnapshot \<Rightarrow> candidate_trust \<Rightarrow> Vault \<Rightarrow> core_error + unit" where
  "require_profiles_follow vaultId uv localSnapshot remoteTrust remoteVault =
     (case rbind (requireDeviceProfilesMatchTrust (uv_vault uv)
               (trusted_ids (tsc_trust (uv_trustedSnapshotContext uv))) (history_ids (snap_trustChain localSnapshot)))
             (\<lambda>_. requireDeviceProfilesMatchTrust remoteVault (trusted_ids (ct_state remoteTrust))
                (history_ids (ct_chain remoteTrust))) of
        Inl _ \<Rightarrow> Inl (revocation_error vaultId Profiles_do_not_match_trust)
      | Inr _ \<Rightarrow> Inr ())"

definition open_successor ::
    "'r guard_env \<Rightarrow> string \<Rightarrow> UnlockedVault \<Rightarrow> SyncTarget \<Rightarrow> VaultSnapshot \<Rightarrow> VaultSnapshot \<Rightarrow> candidate_trust \<Rightarrow>
     DeviceTrustTransition list \<Rightarrow> buffer \<Rightarrow> ('r, Vault \<times> Vault) guarded" where
  "open_successor g vaultId uv syncTarget localSnapshot remoteSnapshot remoteTrust transitions vaultMasterKey =
     (let env = device_of g in
      sbind (on_device (\<lambda>mem. crypto_call env (\<lambda>_. decryptVaultSnapshotContent (crypto_port env)
               (snap_content remoteSnapshot) (mem vaultMasterKey)))) (\<lambda>remoteVault.
      sthen (slift (require_transition_state vaultId syncTarget (uv_vault uv) remoteVault remoteSnapshot transitions))
      (sthen (slift (require_profiles_follow vaultId uv localSnapshot remoteTrust remoteVault))
      (sbind (slift (buildTrustTransitionBaseline vaultId (uv_vault uv) remoteVault transitions
                (trusted_ids (ct_state remoteTrust)))) (\<lambda>baseline.
       sret (remoteVault, baseline))))))"

definition loadVerifiedCandidate ::
    "key_port \<Rightarrow> 'r guard_env \<Rightarrow> string \<Rightarrow> SyncSetupInput \<Rightarrow> UnlockedVault \<Rightarrow> VersionVector \<Rightarrow>
     ReviewedVaultSnapshotIdentities option \<Rightarrow> ('r, revocation_candidate) guarded" where
  "loadVerifiedCandidate keys g vaultId replacementSyncConfig uv v reviewed =
     (let env = device_of g in
      case v_syncTarget (uv_vault uv) of
        None \<Rightarrow> sthrow (Sync_error (ReplacementSyncTargetMismatchError vaultId))
      | Some syncTarget \<Rightarrow>
          sbind (on_device (\<lambda>_. requireCurrentSnapshotForUnlockedVault env vaultId uv v)) (\<lambda>localSnapshot.
          sthen (slift (require_reviewed vaultId reviewed
                   (\<lambda>r. areVaultSnapshotIdentitiesEqual (toVaultSnapshotIdentity vaultId localSnapshot
                      (tsc_snapshotDigest (uv_trustedSnapshotContext uv))) (ri_local r))
                   (Snapshot_error (LocalVaultSnapshotChangedError vaultId))))
          (sbind (require_new_access g vaultId replacementSyncConfig uv syncTarget)
            (\<lambda>(access, previousEncryptedState, previousState).
           sbind (download_successor g vaultId reviewed uv localSnapshot access)
             (\<lambda>(descriptor, remoteSnapshot, remoteTrust).
           sbind (on_device (\<lambda>_. trust_check (verifyDeviceTrustSuffix (trust_port env) vaultId
                    (ct_chain remoteTrust) (tsc_trust (uv_trustedSnapshotContext uv)) (ct_state remoteTrust))))
             (\<lambda>transitions.
           sbind (slift (require_own_slot vaultId uv remoteSnapshot remoteTrust transitions)) (\<lambda>slot.
           sbind (fresh_secret env (\<lambda>mem _. openDeviceVaultKeyEnvelope keys (slot_envelope slot)
                    (mem (uv_devicePrivateVaultKey uv))
                    \<lparr>ec_vaultId = vaultId, ec_deviceId = uv_deviceId uv,
                     ec_vaultKeyGeneration = m_vaultKeyGeneration (snap_metadata remoteSnapshot),
                     ec_algorithmSuiteId = m_algorithmSuiteId (snap_metadata remoteSnapshot)\<rparr>)) (\<lambda>vaultMasterKey.
           wipe_unless_transferred [vaultMasterKey]
             (sbind (open_successor g vaultId uv syncTarget localSnapshot remoteSnapshot remoteTrust transitions
                       vaultMasterKey) (\<lambda>(remoteVault, baseline).
              sret (\<lparr>rc_replacementAccess = access, rc_previousEncryptedState = previousEncryptedState,
                     rc_previousState = previousState, rc_credentialTarget = syncTarget,
                     rc_localSnapshot = localSnapshot, rc_remoteSnapshotDescriptor = descriptor,
                     rc_remoteSnapshot = remoteSnapshot, rc_remoteTrust = remoteTrust,
                     rc_transitions = transitions, rc_remoteVault = remoteVault,
                     rc_trustTransitionBaseline = baseline, rc_vaultMasterKey = vaultMasterKey\<rparr>, True)))))))))))"

section \<open>Preparing\<close>

record revocation_review =
  rw_entryReviews :: "VisibleEntryReviewItem list"
  rw_tagReviews :: "Tag review_item list"
  rw_folderReviews :: "Folder review_item list"
  rw_deviceProfileReviews :: "DeviceProfile review_item list"

record PrepareDeviceRevocationConsumptionResult =
  pd_reviewedSnapshotIdentities :: ReviewedVaultSnapshotIdentities
  pd_revokedDeviceIds :: "string list"
  pd_enrolledDeviceIds :: "string list"
  pd_vaultKeyGeneration :: int
  pd_review :: revocation_review

definition prepared_consumption ::
    "string \<Rightarrow> UnlockedVault \<Rightarrow> revocation_candidate \<Rightarrow> core_error + PrepareDeviceRevocationConsumptionResult" where
  "prepared_consumption vaultId uv c =
     rbind (find_reviews (rc_trustTransitionBaseline c) (rc_remoteVault c)) (\<lambda>review.
     Inr \<lparr>pd_reviewedSnapshotIdentities =
            \<lparr>ri_local = toVaultSnapshotIdentity vaultId (rc_localSnapshot c)
               (tsc_snapshotDigest (uv_trustedSnapshotContext uv)),
             ri_remote = toVaultSnapshotIdentity vaultId (rc_remoteSnapshot c)
               (ct_snapshotDigest (rc_remoteTrust c))\<rparr>,
          pd_revokedDeviceIds = map tr_device (revocations (rc_transitions c)),
          pd_enrolledDeviceIds = map tr_device (enrollments (rc_transitions c)),
          pd_vaultKeyGeneration = m_vaultKeyGeneration (snap_metadata (rc_remoteSnapshot c)),
          pd_review =
            \<lparr>rw_entryReviews = map toVisibleEntryReviewItem (sr_entryReviews review),
             rw_tagReviews = sr_tagReviews review, rw_folderReviews = sr_folderReviews review,
             rw_deviceProfileReviews = sr_deviceProfileReviews review\<rparr>\<rparr>)"

text \<open>The opened key is wiped in any case.\<close>

definition prepareDeviceRevocationConsumption ::
    "key_port \<Rightarrow> 'r guard_env \<Rightarrow> string \<Rightarrow> SyncSetupInput \<Rightarrow>
     ('r, PrepareDeviceRevocationConsumptionResult) guarded" where
  "prepareDeviceRevocationConsumption keys g vaultId replacementSyncConfig =
     sbind (requireUnlockedVaultContext (session_of g) vaultId ''prepare device revocation consumption'' None)
       (\<lambda>session.
     let uv = us_unlockedVault session in
     sbind (loadVerifiedCandidate keys g vaultId replacementSyncConfig uv (us_sourceSnapshotVersionVector session)
              None) (\<lambda>c.
     wipe_unless_transferred [rc_vaultMasterKey c]
       (sbind (slift (prepared_consumption vaultId uv c)) (\<lambda>result. sret (result, False)))))"

section \<open>Consuming\<close>

record ConsumeDeviceRevocationResult =
  cd_revokedDeviceIds :: "string list"
  cd_enrolledDeviceIds :: "string list"
  cd_vaultKeyGeneration :: int
  cd_providerCredentialRevocation :: provider_revocation
  cd_syncUpload :: SyncUploadStatus

text \<open>The credential state with the new credentials; the ones used so far are to be revoked.\<close>

definition consumed_credentials :: "revocation_candidate \<Rightarrow> DeviceSyncCredentialState" where
  "consumed_credentials c =
     \<lparr>dsc_currentCredentials = sa_credentials (rc_replacementAccess c), dsc_pendingSnapshotUpload = None,
      dsc_previousCredentials = Some
        \<lparr>prc_credentials = dsc_currentCredentials (rc_previousState c),
         prc_revokedDeviceIds = map tr_device (revocations (rc_transitions c)),
         prc_vaultKeyGeneration = m_vaultKeyGeneration (snap_metadata (rc_remoteSnapshot c))\<rparr>\<rparr>"

text \<open>Without a difference of content the remote snapshot is taken as it is.\<close>

definition persistRemoteSnapshot ::
    "'r guard_env \<Rightarrow> string \<Rightarrow> UnlockedVault \<Rightarrow> revocation_candidate \<Rightarrow> SerializedEncrypted \<Rightarrow>
     ('r, unit) guarded" where
  "persistRemoteSnapshot g sessionId uv c encryptedCredentialState =
     (let env = device_of g; vaultId = uv_vaultId uv; remoteSnapshot = rc_remoteSnapshot c;
          remoteTrust = ct_state (rc_remoteTrust c) in
      sbind (on_device (\<lambda>_. crypto_call env (\<lambda>_. Inr (snapshot_digest env remoteSnapshot)))) (\<lambda>snapshotDigest.
      sbind (on_device (\<lambda>mem. crypto_call env (\<lambda>_. Inr (createCheckpoint (trust_port env) remoteSnapshot remoteTrust
               (uv_deviceId uv) (mem (uv_devicePrivateSignKey uv)))))) (\<lambda>checkpoint.
      sbind (on_device (\<lambda>_. requireLocalVaultSnapshot env vaultId)) (\<lambda>currentSnapshot.
      sbind (on_device (\<lambda>_. requireCurrentCheckpointForUnlockedVault env vaultId currentSnapshot uv))
        (\<lambda>expectedCheckpoint.
      sthen (persistForActiveSession (session_of g) sessionId vaultId
               (\<lambda>_. save_snapshot env (replacement (tsc_snapshotDigest (uv_trustedSnapshotContext uv))
                  expectedCheckpoint remoteSnapshot checkpoint (Value (Some (rc_previousEncryptedState c)))
                  (Value (Some encryptedCredentialState)))) None)
      (commitPersistedSnapshot (session_of g) sessionId
         (uv\<lparr>uv_vault := rc_remoteVault c, uv_vaultMasterKey := rc_vaultMasterKey c,
             uv_trustedSnapshotContext := \<lparr>tsc_snapshotDigest = snapshotDigest, tsc_trust = remoteTrust\<rparr>\<rparr>)
         (m_snapshotVersionVector (snap_metadata remoteSnapshot)) None))))))"

definition consumption_options :: "revocation_candidate \<Rightarrow> SerializedEncrypted \<Rightarrow> persist_options" where
  "consumption_options c encryptedCredentialState = no_options\<lparr>
     po_baseSnapshotVersionVector := Some (mergeVersionVectors
       (m_snapshotVersionVector (snap_metadata (rc_localSnapshot c)))
       (m_snapshotVersionVector (snap_metadata (rc_remoteSnapshot c)))),
     po_keySlots := Some (snap_deviceSlots (rc_remoteSnapshot c)),
     po_vaultKeyGeneration := Some (m_vaultKeyGeneration (snap_metadata (rc_remoteSnapshot c))),
     po_nextTrust := Some (ct_chain (rc_remoteTrust c), ct_state (rc_remoteTrust c)),
     po_uploadExpectedRemoteSnapshotIdentity := Some (Some
       \<lparr>si_descriptor = rc_remoteSnapshotDescriptor c, si_snapshotDigest = ct_snapshotDigest (rc_remoteTrust c)\<rparr>),
     po_expectedSyncCredentialState := Some (Some (rc_previousEncryptedState c)),
     po_syncCredentialState := Some (Some encryptedCredentialState)\<rparr>"

definition persistResolvedSnapshot ::
    "'r guard_env \<Rightarrow> string \<Rightarrow> UnlockedVaultSession \<Rightarrow> revocation_candidate \<Rightarrow> Vault \<Rightarrow> SerializedEncrypted \<Rightarrow>
     ('r, SyncUploadStatus \<times> bool) guarded" where
  "persistResolvedSnapshot g vaultId session c resolvedVault encryptedCredentialState =
     (let env = device_of g; uv = us_unlockedVault session; sessionId = us_sessionId session;
          rotatedUnlockedVault = uv\<lparr>uv_vault := resolvedVault, uv_vaultMasterKey := rc_vaultMasterKey c\<rparr> in
      sbind (persistForActiveSession (session_of g) sessionId vaultId
               (\<lambda>mem. save_revocation env mem vaultId (rc_localSnapshot c) uv rotatedUnlockedVault
                  (us_sourceSnapshotVersionVector session) (Some (rc_previousEncryptedState c))
                  (consumption_options c encryptedCredentialState)) None) (\<lambda>(persisted, preparedRestore).
      sbind (uploadPersistedSnapshot g
               \<lparr>up_sessionId = sessionId, up_vaultId = vaultId, up_unlockedVault = rotatedUnlockedVault,
                up_syncAccess = rc_replacementAccess c, up_snapshot = ps_snapshot persisted,
                up_snapshotDigest = tsc_snapshotDigest (ps_trustedSnapshotContext persisted),
                up_checkpoint = ps_checkpoint persisted\<rparr>
               (Some \<lparr>si_descriptor = cloneVaultSnapshotDescriptor (rc_remoteSnapshotDescriptor c),
                      si_snapshotDigest = ct_snapshotDigest (rc_remoteTrust c)\<rparr>)
               (us_sourceSnapshotVersionVector session) encryptedCredentialState preparedRestore) (\<lambda>status.
      sbind (commitPersistedSnapshotIfSessionIsActive (session_of g) sessionId
               (rotatedUnlockedVault\<lparr>uv_trustedSnapshotContext := ps_trustedSnapshotContext persisted\<rparr>)
               (ps_snapshotVersionVector persisted) None) (\<lambda>sessionCommitted.
      sret (status, sessionCommitted)))))"

definition review_has_changes :: "VaultSyncReview \<Rightarrow> bool" where
  "review_has_changes review \<longleftrightarrow>
     length (sr_entryReviews review) > 0 \<or> length (sr_tagReviews review) > 0 \<or>
     length (sr_folderReviews review) > 0 \<or> length (sr_deviceProfileReviews review) > 0"

definition consume_candidate ::
    "(string \<Rightarrow> string) \<Rightarrow> 'r guard_env \<Rightarrow> string \<Rightarrow> UnlockedVaultSession \<Rightarrow> VaultSyncResolution \<Rightarrow>
     revocation_candidate \<Rightarrow> ('r, ConsumeDeviceRevocationResult \<times> bool) guarded" where
  "consume_candidate nfkc g vaultId session resolution c =
     (let uv = us_unlockedVault session; baseline = rc_trustTransitionBaseline c; remoteVault = rc_remoteVault c;
          result = (\<lambda>status. \<lparr>cd_revokedDeviceIds = map tr_device (revocations (rc_transitions c)),
            cd_enrolledDeviceIds = map tr_device (enrollments (rc_transitions c)),
            cd_vaultKeyGeneration = m_vaultKeyGeneration (snap_metadata (rc_remoteSnapshot c)),
            cd_providerCredentialRevocation = Pending_external_deletion, cd_syncUpload = status\<rparr>) in
      sbind (slift (find_reviews baseline remoteVault)) (\<lambda>review.
      sthen (srequire (resolution_is_complete review resolution) (Sync_error (SyncResolutionIncompleteError vaultId)))
      (sbind (on_device (\<lambda>mem. encrypt_credential_state (device_of g) mem vaultId uv (rc_credentialTarget c)
                (consumed_credentials c))) (\<lambda>encryptedCredentialState.
       if \<not> review_has_changes review
       then sthen (persistRemoteSnapshot g (us_sessionId session) uv c encryptedCredentialState)
              (sret (result Complete, True))
       else
         sbind (slift (apply_choices nfkc vaultId baseline remoteVault review resolution (uv_deviceId uv)))
           (\<lambda>resolvedVault.
         sbind (persistResolvedSnapshot g vaultId session c resolvedVault encryptedCredentialState)
           (\<lambda>(status, sessionCommitted).
         sret (result status, sessionCommitted)))))))"

definition consumeDeviceRevocation ::
    "(string \<Rightarrow> string) \<Rightarrow> key_port \<Rightarrow> 'r guard_env \<Rightarrow> string \<Rightarrow> SyncSetupInput \<Rightarrow>
     ReviewedVaultSnapshotIdentities \<Rightarrow> VaultSyncResolution \<Rightarrow> ('r, ConsumeDeviceRevocationResult) guarded" where
  "consumeDeviceRevocation nfkc keys g vaultId replacementSyncConfig reviewedSnapshotIdentities resolution =
     (let reviewed = cloneReviewedVaultSnapshotIdentities reviewedSnapshotIdentities in
      sthen (srequire (\<not> (sd_vaultId (si_descriptor (ri_local reviewed)) \<noteq> vaultId \<or>
               sd_vaultId (si_descriptor (ri_remote reviewed)) \<noteq> vaultId))
               (InvalidSyncResolutionError vaultId Descriptor_of_another_vault))
      (sbind (requireUnlockedVaultContext (session_of g) vaultId ''consume device revocation'' None) (\<lambda>session.
       sbind (loadVerifiedCandidate keys g vaultId replacementSyncConfig (us_unlockedVault session)
                (us_sourceSnapshotVersionVector session) (Some reviewed)) (\<lambda>c.
       wipe_unless_transferred [rc_vaultMasterKey c] (consume_candidate nfkc g vaultId session resolution c)))))"

end
