(* ===== verification/Revocation_Safety.thy ===== *)
theory Revocation_Safety
  imports Use_Case_Steps Revocation_Consumption
begin

text \<open>
  What a revocation leaves behind: the snapshot that \<open>revokeDevice\<close> saves has no slot for the revoked
  device and verifies under a trust state without it, and every surviving device can open its slot.
\<close>

section \<open>The slots of the survivors\<close>

definition envelope_context :: "device_env \<Rightarrow> string \<Rightarrow> string \<Rightarrow> int \<Rightarrow> DeviceVaultKeyEnvelopeContext" where
  "envelope_context env k d generation =
     \<lparr>ec_vaultId = k, ec_deviceId = d, ec_vaultKeyGeneration = generation,
      ec_algorithmSuiteId = algorithmSuiteId (crypto_port env)\<rparr>"

text \<open>The slot holds the vault key, sealed for the public key of the device.\<close>

definition sealed_for ::
    "key_port \<Rightarrow> device_env \<Rightarrow> string \<Rightarrow> int \<Rightarrow> bytes \<Rightarrow> DeviceTrustIdentity \<Rightarrow> DeviceKeySlot \<Rightarrow> bool" where
  "sealed_for keys env k generation key device slot \<longleftrightarrow>
     slot_deviceId slot = dti_deviceId device \<and> slot_vaultKeyGeneration slot = generation \<and>
     (\<exists>n. slot_envelope slot = createDeviceVaultKeyEnvelope keys n key (dti_publicVaultKey device)
        (envelope_context env k (dti_deviceId device) generation))"

lemma slots_are_sealed:
  fixes keys env mem k generation key
  defines "create \<equiv> create_device_slots keys env mem k generation key"
  assumes "gives (create devices :: ('r, DeviceKeySlot list) service) slots"
  shows "list_all2 (sealed_for keys env k generation (mem key)) devices slots"
  using assms(2)
proof (induction devices arbitrary: slots)
  case Nil
  then show ?case by (simp add: create_def gives_simps)
next
  case (Cons device devices)
  then obtain slot slots' where
      slot: "gives (create_device_slot keys env mem k generation key device :: ('r, DeviceKeySlot) service) slot"
      and rest: "gives (create devices :: ('r, DeviceKeySlot list) service) slots'" "slots = slot # slots'"
    by (auto simp: create_def gives_simps dest!: gives_sbindD)
  have "sealed_for keys env k generation (mem key) device slot"
    using slot unfolding create_device_slot_def
    by (auto simp: gives_simps sealed_for_def envelope_context_def dest!: gives_sbindD gives_crypto)
  with Cons.IH [OF rest(1)] rest(2) show ?case by simp
qed

lemma sealed_ids:
  "list_all2 (sealed_for keys env k generation key) devices slots \<Longrightarrow>
     map slot_deviceId slots = map dti_deviceId devices \<and> (\<forall>slot \<in> set slots. slot_vaultKeyGeneration slot = generation)"
  by (induction rule: list_all2_induct) (auto simp: sealed_for_def)

section \<open>The save\<close>

lemma save_revocation_replaces:
  assumes "benign env" "db_ok (key_import env) (local_db x)"
    and run: "save_revocation env mem k s uv rotated v c options x = (Inr (p, plan), y)"
  shows "(\<exists>current. consistent_result env mem k rotated v options current p) \<and>
    (\<exists>before. others_only env (local_db x) before \<and>
       replaces_stored env (tsc_snapshotDigest (uv_trustedSnapshotContext rotated)) p before (local_db y))"
proof -
  obtain r t where prepared: "prepareLocalVaultSnapshotRestore env s uv (Some c) x = (r, t)" by fastforce
  with run have persist: "persistUnlockedVault env mem k rotated v options t = (Inr p, y)"
    by (auto simp: save_revocation_def sbind_def sret_def split: sum.splits prod.splits)
  have others: "others_only env (local_db x) (local_db t)"
    using waits_services(3) [of env s uv "Some c"] prepared unfolding waits_def by (metis snd_conv)
  then have "db_ok (key_import env) (local_db t)" using assms(1,2) by (metis benign_others)
  from persist_replaces [OF assms(1) this persist] others show ?thesis
    by (blast intro: others_only_trans)
qed

section \<open>The use case\<close>

text \<open>What is known of the save of a revocation when it is made.\<close>

definition revocation_saved ::
    "device_env \<Rightarrow> key_port \<Rightarrow> string \<Rightarrow> string \<Rightarrow> RevokeDeviceResult \<Rightarrow> 'r device_world \<Rightarrow> 'r device_world \<Rightarrow> bool" where
  "revocation_saved env keys k d result x y \<longleftrightarrow>
     (\<exists>mem s uv rotated v c p plan key slots chain trust credentials.
        save_revocation env mem k s uv rotated v c
          (revocation_options (m_vaultKeyGeneration (snap_metadata s) + 1) slots (chain, trust) credentials) x =
          (Inr (p, plan), y) \<and>
        snapshot_digest env s = tsc_snapshotDigest (uv_trustedSnapshotContext uv) \<and>
        uv_trustedSnapshotContext rotated = uv_trustedSnapshotContext uv \<and>
        ts_trustedDevices trust = survivors uv d \<and>
        list_all2 (sealed_for keys env k (m_vaultKeyGeneration (snap_metadata s) + 1) key) (survivors uv d) slots \<and>
        d \<notin> d_id ` set (v_deviceProfiles (uv_vault rotated)) \<and>
        mem (uv_vaultMasterKey rotated) = key \<and>
        rd_vault result = toVisibleVaultFields (uv_vault rotated) \<and>
        rd_snapshotVersionVector result = ps_snapshotVersionVector p)"

lemma revoked_profile: "d \<notin> d_id ` set (v_deviceProfiles (revoked_vault v c d t n b))"
proof -
  have "d \<notin> d_id ` set (v_deviceProfiles (revokeDeviceProfileFromVault v c d t))"
    by (auto simp: revokeDeviceProfileFromVault_def Let_def find_None_iff split: option.splits)
  then show ?thesis
    by (simp add: revoked_vault_def Let_def markVaultProviderCredentialRevocationPending_def)
qed

lemma appended_devices:
  assumes "appendTrustTransition cr k chain trust devices n authorizer key = Inr (chain', trust')"
  shows "ts_trustedDevices trust' = devices"
  using assms by (auto simp: appendTrustTransition_def Let_def rbind_eq_Inr_iff split: if_splits)


lemma rotation_saves:
  fixes g :: "'r guard_env"
  assumes digest: "snapshot_digest (device_of g) s = tsc_snapshotDigest (uv_trustedSnapshotContext (us_unlockedVault session))"
    and generation: "n = m_vaultKeyGeneration (snap_metadata s) + 1"
    and trust: "ts_trustedDevices trust = survivors (us_unlockedVault session) d"
    and profile: "d \<notin> d_id ` set (v_deviceProfiles v)"
  shows "saves_from (device_of g) (keyed key bs) (\<lambda>b. revocation_saved (device_of g) keys k d (fst b))
    (rotate_vault_key keys g k d session s v n (chain, trust) new_access key)"
proof -
  let ?env = "device_of g" and ?uv = "us_unlockedVault session"
  let ?rotated = "?uv\<lparr>uv_vault := v, uv_vaultMasterKey := key\<rparr>"
  let ?sealed = "list_all2 (sealed_for keys ?env k n bs) (survivors ?uv d)"
  have create: "waits ?env (create_device_slots keys ?env mem k n key devices)" for mem devices
    by (induction devices) (auto simp: create_device_slot_def intro!: waits_intros)
  have encrypt: "waits ?env (encrypt_credential_state ?env mem k ?uv target state)" for mem target state
    unfolding encrypt_credential_state_def by (intro waits_intros)
  have created: "leaves ?env (keyed key bs) (\<lambda>slots w. keyed key bs w \<and> ?sealed slots)
      (callout (\<lambda>mem. create_device_slots keys ?env mem k n key (survivors ?uv d)) :: ('r, DeviceKeySlot list) guarded)"
  proof (rule leaves_callout)
    fix w :: "'r device_world session_world" and slots x
    assume "keyed key bs w"
      and "fst (create_device_slots keys ?env (memory w) k n key (survivors ?uv d) (outside w)) = Inr slots"
    then show "keyed key bs (w\<lparr>outside := x\<rparr>) \<and> ?sealed slots"
      using slots_are_sealed [of keys ?env "memory w" k n key "survivors ?uv d" slots]
      by (auto simp: gives_def keyed_def)
  qed (rule create)
  have replaced: "leaves ?env (keyed key bs) (\<lambda>_. keyed key bs)
      (case new_access of None \<Rightarrow> sret None
       | Some r \<Rightarrow> sbind (callout (\<lambda>mem. encrypt_credential_state ?env mem k ?uv (sa_target (ra_access r)) (ra_state r)))
           (\<lambda>encryptedState. sret (Some (r, encryptedState))))"
    by (auto split: option.split intro!: leaves_return encrypt
        leaves_bind [OF leaves_callout [where J = "\<lambda>_. keyed key bs"]])
  show ?thesis
    unfolding rotate_vault_key_def Let_def
  proof (intro saves_from_bind [OF created] saves_from_pure saves_from_bind [OF replaced] saves_from_here)
    fix slots credentials mem x p y b
    assume slots: "?sealed slots" and key: "mem key = bs"
      and run: "save_revocation ?env mem k s ?uv ?rotated (us_sourceSnapshotVersionVector session)
        (map_option ra_previousState new_access) (revocation_options n slots (chain, trust) credentials) x = (Inr p, y)"
      and result: "gives (case p of (persisted, plan) \<Rightarrow>
        sbind (finish_revocation g k session ?rotated credentials persisted plan) (\<lambda>(status, sessionCommitted).
        sret (\<lparr>rd_vault = toVisibleVaultFields v, rd_snapshotVersionVector = ps_snapshotVersionVector persisted,
          rd_revisionTimestamp = ps_revisionTimestamp persisted, rd_providerCredentialRevocation =
            (if new_access = None then Revocation_not_configured else Pending_external_deletion),
          rd_syncUpload = status\<rparr>, sessionCommitted))) b"
    obtain persisted plan where p: "p = (persisted, plan)" by fastforce
    have b: "rd_vault (fst b) = toVisibleVaultFields v" "rd_snapshotVersionVector (fst b) = ps_snapshotVersionVector persisted"
      using result by (auto simp: p gives_simps dest!: gives_sbindD)
    with run slots key trust show "revocation_saved ?env keys k d (fst b) x y"
      unfolding revocation_saved_def generation p
      using digest profile by fastforce
  qed
qed

lemma gives_local_snapshot:
  assumes "gives (prepareLocalMutation env provider mem k uv v :: ('r, LocalMutationSyncState) service) state"
  shows "snapshot_digest env (lms_localSnapshot state) = tsc_snapshotDigest (uv_trustedSnapshotContext uv)"
  using assms unfolding prepareLocalMutation_def
  by (auto simp: gives_simps split: if_splits option.splits dest!: gives_sbindD gives_sthenD gives_current_snapshot)

lemma revocation_saves:
  "saves (device_of g) (revocation_saved (device_of g) keys k d) (revokeDevice keys g k d config)"
proof -
  let ?env = "device_of g"
  have access: "untouched ?env (prepare_replacement_access g k d config uv state n)" for uv state n
    unfolding prepare_replacement_access_def Let_def setup_or_invalid_def
    by (auto split: option.splits intro!: untouched_intros waits_intros)
  have rotation: "saves ?env (revocation_saved ?env keys k d)
      (sbind (fresh_secret ?env secret) (\<lambda>key. wipe_unless_transferred [key]
        (rotate_vault_key keys g k d session s v n next_trust new_access key)))"
    if "snapshot_digest ?env s = tsc_snapshotDigest (uv_trustedSnapshotContext (us_unlockedVault session))"
      "n = m_vaultKeyGeneration (snap_metadata s) + 1" "d \<notin> d_id ` set (v_deviceProfiles v)"
      "ts_trustedDevices (snd next_trust) = survivors (us_unlockedVault session) d" for secret session s v n next_trust new_access
    using that unfolding saves_iff
    by (cases next_trust) (auto intro!: saves_from_bind [OF leaves_secret] saves_from_some saves_from_wiping rotation_saves)
  show ?thesis
    unfolding revokeDevice_def Let_def
    apply (rule rotation | rule saves_bind saves_then access untouched_intros waits_intros)+
    apply (auto simp: gives_simps intro!: revoked_profile dest: appended_devices gives_local_snapshot)
    done
qed

section \<open>What the saved snapshot is\<close>

text \<open>
  The snapshot verifies under a trust state without the device, and its content is encrypted with a key
  that is sealed for the public key of every device that is left, and for no other. The key generation
  follows that of the snapshot with the given digest.
\<close>

definition shuts_out ::
    "key_port \<Rightarrow> device_env \<Rightarrow> string \<Rightarrow> string \<Rightarrow> string \<Rightarrow> Vault \<Rightarrow> persisted_snapshot \<Rightarrow> bool" where
  "shuts_out keys env k d digest v p \<longleftrightarrow>
     (let s = ps_snapshot p; trust = tsc_trust (ps_trustedSnapshotContext p) in
      verifySnapshot (trust_port env) k s trust = Inr () \<and>
      d \<notin> dti_deviceId ` set (ts_trustedDevices trust) \<and> d \<notin> slot_deviceId ` set (snap_deviceSlots s) \<and>
      (\<exists>key n. snap_content s = encryptVaultSnapshotContent (crypto_port env) n v key \<and>
         list_all2 (sealed_for keys env k (m_vaultKeyGeneration (snap_metadata s)) key)
           (ts_trustedDevices trust) (snap_deviceSlots s)) \<and>
      (\<exists>old. snapshot_digest env old = digest \<and>
         m_vaultKeyGeneration (snap_metadata s) = m_vaultKeyGeneration (snap_metadata old) + 1))"

lemma revocation_options_simps [simp]:
  "po_vaultKeyGeneration (revocation_options n slots t c) = Some n"
  "po_keySlots (revocation_options n slots t c) = Some slots"
  "po_nextTrust (revocation_options n slots t c) = Some t"
  by (simp_all add: revocation_options_def Let_def split: option.splits prod.splits)

lemma revocation_result:
  assumes "consistent_result env mem k rotated v (revocation_options n slots (chain, trust) c) current p"
  shows "verifySnapshot (trust_port env) k (ps_snapshot p) trust = Inr () \<and>
    tsc_trust (ps_trustedSnapshotContext p) = trust \<and> snap_deviceSlots (ps_snapshot p) = slots \<and>
    snap_trustChain (ps_snapshot p) = chain \<and> m_vaultKeyGeneration (snap_metadata (ps_snapshot p)) = n \<and>
    m_algorithmSuiteId (snap_metadata (ps_snapshot p)) = m_algorithmSuiteId (snap_metadata current) \<and>
    (\<exists>i. snap_content (ps_snapshot p) =
       encryptVaultSnapshotContent (crypto_port env) i (uv_vault rotated) (mem (uv_vaultMasterKey rotated)))"
  using assms
  by (auto simp: consistent_result_def built_from_def signed_snapshot_def next_metadata_def next_trust_def
      next_chain_def nullish_def)

lemma revocation_saved_meaning:
  assumes "benign env" "db_ok (key_import env) (local_db x)" "revocation_saved env keys k d result x y"
  shows "\<exists>before digest v p. others_only env (local_db x) before \<and> replaces_stored env digest p before (local_db y) \<and>
    shuts_out keys env k d digest v p \<and> d \<notin> d_id ` set (v_deviceProfiles v) \<and>
    rd_vault result = toVisibleVaultFields v \<and> rd_snapshotVersionVector result = ps_snapshotVersionVector p"
proof -
  from assms(3) obtain mem s uv rotated v c p plan key slots chain trust credentials where
    run: "save_revocation env mem k s uv rotated v c
      (revocation_options (m_vaultKeyGeneration (snap_metadata s) + 1) slots (chain, trust) credentials) x =
      (Inr (p, plan), y)"
    and digest: "snapshot_digest env s = tsc_snapshotDigest (uv_trustedSnapshotContext uv)"
      "uv_trustedSnapshotContext rotated = uv_trustedSnapshotContext uv"
    and trust: "ts_trustedDevices trust = survivors uv d"
    and sealed: "list_all2 (sealed_for keys env k (m_vaultKeyGeneration (snap_metadata s) + 1) key) (survivors uv d) slots"
    and key: "mem (uv_vaultMasterKey rotated) = key"
    and result: "d \<notin> d_id ` set (v_deviceProfiles (uv_vault rotated))"
      "rd_vault result = toVisibleVaultFields (uv_vault rotated)" "rd_snapshotVersionVector result = ps_snapshotVersionVector p"
    unfolding revocation_saved_def by blast
  from save_revocation_replaces [OF assms(1,2) run] obtain current before where
    saved: "consistent_result env mem k rotated v
      (revocation_options (m_vaultKeyGeneration (snap_metadata s) + 1) slots (chain, trust) credentials) current p"
    and before: "others_only env (local_db x) before"
      "replaces_stored env (tsc_snapshotDigest (uv_trustedSnapshotContext rotated)) p before (local_db y)"
    by blast
  have "slot_deviceId ` set slots = dti_deviceId ` set (survivors uv d)"
    using sealed_ids [OF sealed] by (metis list.set_map)
  then have "shuts_out keys env k d (tsc_snapshotDigest (uv_trustedSnapshotContext rotated)) (uv_vault rotated) p"
    using revocation_result [OF saved] digest trust sealed key
    by (auto simp: shuts_out_def survivors_def)
  with before result show ?thesis by blast
qed

end
