(* ===== verification/Revocation_Progress.thy ===== *)
theory Revocation_Progress
  imports Session_Progress Revocation_Safety
begin

text \<open>
  Nothing stops a revocation that nothing disturbs: in an open session of a vault that is not
  synchronised, with successful calls and no other writer, every other trusted device can be revoked.
\<close>

section \<open>What is assumed\<close>

text \<open>Envelopes, signatures and digests of the cryptographic port have their documented form.\<close>

definition sealing_port :: "key_port \<Rightarrow> device_env \<Rightarrow> bool" where
  "sealing_port keys env \<longleftrightarrow>
     (\<forall>n key public c. let e = createDeviceVaultKeyEnvelope keys n key public c in
        env_recipientDeviceId e = ec_deviceId c \<and> env_vaultKeyGeneration e = ec_vaultKeyGeneration c \<and>
        length (env_ephemeralPublicKey e) = 65 \<and> length (env_hkdfSalt e) = 32 \<and>
        encrypted_ok 12 (Some 48) (env_encryptedVaultMasterKey e) \<and>
        importDeviceVaultPublicKey (key_import env) (env_ephemeralPublicKey e)) \<and>
     (\<forall>payload key. canonical_text 64 (signVaultTrustCertificate (trust_port env) payload key)) \<and>
     (\<forall>c. digest_text (digestVaultTrustCertificate (trust_port env) c))"

text \<open>
  The stored snapshot is the one of the session; its chain verifies with the trust state of the session,
  the profiles of the vault match it, and the counters have room for one more step.
\<close>

definition revocable_now ::
    "device_env \<Rightarrow> (buffer \<Rightarrow> bytes) \<Rightarrow> string \<Rightarrow> UnlockedVault \<Rightarrow> VersionVector \<Rightarrow> string \<Rightarrow> vault_db \<Rightarrow> bool" where
  "revocable_now env mem k uv v d db \<longleftrightarrow>
     (let trust = tsc_trust (uv_trustedSnapshotContext uv) in
      session_current env mem k uv v db \<and>
      (\<forall>s. sv_snapshots (view (key_import env) db) k = Some s \<longrightarrow>
         (\<exists>anchor. verifyTrustChain (trust_port env) k anchor (snap_trustChain s) = Inr trust) \<and>
         requireDeviceProfilesMatchTrust (uv_vault uv) (trusted_ids trust) (history_ids (snap_trustChain s)) = Inr ()) \<and>
      d \<noteq> uv_deviceId uv \<and> d \<in> dti_deviceId ` set (ts_trustedDevices trust) \<and>
      v_syncTarget (uv_vault uv) = None \<and> v_providerCredentialRevocationPending (uv_vault uv) = None \<and>
      vv_get v (uv_deviceId uv) < MAX_SAFE_INTEGER \<and>
      ts_generation trust < 2 ^ 53 - 1 \<and> ts_vaultKeyGeneration trust < 2 ^ 53 - 1)"

section \<open>The next trust state\<close>

lemma valid_last:
  assumes "valid_chain cr k a chain"
  shows "chain \<noteq> []" "valid_fields (last chain)" "unique_keys cr (last chain)" "tc_vaultId (cert_payload (last chain)) = k"
proof -
  show nonempty: "chain \<noteq> []" using assms by (simp add: valid_chain_def)
  then have "valid_certificate cr k a (take (length chain - 1) chain) (last chain)"
    using assms by (simp add: valid_chain_def last_conv_nth)
  then show "valid_fields (last chain)" "unique_keys cr (last chain)" "tc_vaultId (cert_payload (last chain)) = k"
    by (simp_all add: valid_certificate_def)
qed

lemma revocation_appends:
  assumes chain: "verifyTrustChain cr k a chain = Inr trust"
    and own: "find_device (ts_trustedDevices trust) own = Some device" "verifyDeviceSignKeyPair cr (dti_publicSignKey device) privateKey"
    and d: "d \<noteq> own" "d \<in> dti_deviceId ` set (ts_trustedDevices trust)"
    and room: "ts_generation trust < 2 ^ 53 - 1" "ts_vaultKeyGeneration trust < 2 ^ 53 - 1"
  defines "ds \<equiv> filter (\<lambda>x. dti_deviceId x \<noteq> d) (ts_trustedDevices trust)"
  defines "c \<equiv> next_certificate cr k trust ds (ts_vaultKeyGeneration trust + 1) own privateKey"
  shows "appendTrustTransition cr k chain trust ds (ts_vaultKeyGeneration trust + 1) own privateKey =
    Inr (chain @ [c], trust_of cr (chain @ [c]))"
proof -
  have valid: "valid_chain cr k a chain" and t: "trust = trust_of cr chain"
    using chain by (auto simp: verifyTrustChain_Inr_iff)
  note l = valid_last [OF valid]
  have devices: "ts_trustedDevices trust = cert_devices (last chain)" "ts_generation trust = cert_generation (last chain)"
    "ts_vaultKeyGeneration trust = cert_keyGeneration (last chain)"
    by (simp_all add: t trust_of_def)
  have cert: "cert_devices c = ds" "cert_generation c = ts_generation trust + 1"
    "cert_keyGeneration c = ts_vaultKeyGeneration trust + 1" "tc_version (cert_payload c) = 1"
    "tc_authorizedByDeviceId (cert_payload c) = own"
    by (simp_all add: c_def next_certificate_def Let_def)
  have distinct: "distinct (map dti_deviceId (cert_devices (last chain)))"
    using l(2) by (simp add: valid_fields_def)
  have own_in: "own \<in> ids_of ds"
    using find_device_Some [OF own(1)] d(1) by (auto simp: ds_def ids_of_def)
  have kept: "ds \<noteq> []" "distinct (map dti_deviceId ds)"
    using own_in distinct by (auto simp: ids_of_def ds_def devices distinct_map_filter filter_empty_conv)
  have fields: "valid_fields c"
    using l(2) room own_in kept
    by (auto simp: valid_fields_def cert devices is_safe_integer_def ids_of_def)
  have "unique_keys cr c"
    using l(3) by (simp add: unique_keys_def cert ds_def devices distinct_map_filter)
  moreover have "same_keys cr (last chain) c"
    unfolding same_keys_def cert find_device_distinct [OF distinct]
    using distinct by (auto simp: ds_def devices distinct_map inj_on_def)
  moreover have "revokes (last chain) c"
  proof -
    have "d \<in> ids_of (ts_trustedDevices trust)" "d \<notin> ids_of ds"
      using d(2) by (auto simp: ids_of_def ds_def)
    then show ?thesis
      using own_in unfolding revokes_def cert devices [symmetric] by (auto simp: ids_of_def ds_def)
  qed
  moreover have "fresh_devices cr chain (last chain) c"
    by (auto simp: fresh_devices_def cert ds_def devices ids_of_def)
  ultimately show ?thesis
    using fields own l(1) unfolding t c_def appendTrustTransition_Inr_iff [OF l(1)] devices(1) [unfolded t]
    by (auto simp: t)
qed

section \<open>The next snapshot\<close>

lemma appended_storable:
  fixes d privateKey
  assumes port: "sealing_port keys env"
    and chain: "verifyTrustChain (trust_port env) k a chain = Inr trust" "chain_storable (key_import env) chain" "nonBlank k"
    and own: "find_device (ts_trustedDevices trust) own = Some device"
    and room: "ts_generation trust < 2 ^ 53 - 1" "ts_vaultKeyGeneration trust < 2 ^ 53 - 1"
  defines "ds \<equiv> filter (\<lambda>x. dti_deviceId x \<noteq> d) (ts_trustedDevices trust)"
  defines "c \<equiv> next_certificate (trust_port env) k trust ds (ts_vaultKeyGeneration trust + 1) own privateKey"
  shows "chain_storable (key_import env) (chain @ [c])" "trust_ok (trust_of (trust_port env) (chain @ [c]))"
proof -
  have valid: "valid_chain (trust_port env) k a chain" and t: "trust = trust_of (trust_port env) chain"
    using chain(1) by (auto simp: verifyTrustChain_Inr_iff)
  note l = valid_last [OF valid]
  have last: "certificate_ok (last chain)"
      "list_all (\<lambda>device. importDeviceSignPublicKey (key_import env) (dti_publicSignKey device) \<and>
        importDeviceVaultPublicKey (key_import env) (dti_publicVaultKey device)) (cert_devices (last chain))"
    using chain(2) l(1) by (auto simp: chain_storable_def list_all_iff)
  have digest: "digest_text (digestVaultTrustCertificate (trust_port env) x)"
      "canonical_text 64 (signVaultTrustCertificate (trust_port env) payload key)" for x payload key
    using port by (simp_all add: sealing_port_def)
  have devices: "ts_trustedDevices trust = cert_devices (last chain)" "ts_generation trust = cert_generation (last chain)"
      "ts_vaultKeyGeneration trust = cert_keyGeneration (last chain)" "digest_text (ts_certificateDigest trust)"
    by (simp_all add: t trust_of_def digest)
  have own': "nonBlank own"
    using find_device_Some [OF own] last(1) by (auto simp: certificate_ok_def Let_def list_all_iff devices device_ok_def)
  have cert: "cert_devices c = ds" "cert_generation c = ts_generation trust + 1"
    by (simp_all add: c_def next_certificate_def Let_def)
  have "certificate_ok c"
    using last(1) l(2) room own' chain(3) devices(4) digest(2)
    by (auto simp: c_def next_certificate_def certificate_ok_def Let_def ds_def devices safe_integer_def
        valid_fields_def list_all_iff distinct_map_filter MAX_SAFE_INTEGER_def)
  then show "chain_storable (key_import env) (chain @ [c])"
    using chain(2) last(2) by (auto simp: chain_storable_def cert ds_def devices list_all_iff)
  show "trust_ok (trust_of (trust_port env) (chain @ [c]))"
    using l(2) room digest(1) by (simp add: trust_ok_def trust_of_def cert devices valid_fields_def safe_integer_def
        MAX_SAFE_INTEGER_def)
qed

lemma sealed_slots:
  assumes "sealing_port keys env" "list_all2 (sealed_for keys env k n key) devices slots"
  shows "\<forall>slot \<in> set slots. slot_vaultKeyGeneration slot = n \<and>
     env_recipientDeviceId (slot_envelope slot) = slot_deviceId slot \<and> env_vaultKeyGeneration (slot_envelope slot) = n"
    and "slot_deviceId ` set slots = dti_deviceId ` set devices"
    and "safe_integer 1 n \<Longrightarrow> distinct (map dti_deviceId devices) \<Longrightarrow> \<forall>device \<in> set devices. nonBlank (dti_deviceId device) \<Longrightarrow>
     slots_storable (key_import env) slots"
proof -
  let ?stored = "\<lambda>slot. length (env_ephemeralPublicKey (slot_envelope slot)) = 65 \<and>
    length (env_hkdfSalt (slot_envelope slot)) = 32 \<and> encrypted_ok 12 (Some 48) (env_encryptedVaultMasterKey (slot_envelope slot)) \<and>
    importDeviceVaultPublicKey (key_import env) (env_ephemeralPublicKey (slot_envelope slot))"
  have envelopes: "\<forall>slot \<in> set slots. slot_vaultKeyGeneration slot = n \<and> env_recipientDeviceId (slot_envelope slot) = slot_deviceId slot \<and>
      env_vaultKeyGeneration (slot_envelope slot) = n \<and> ?stored slot"
    using assms(2)
    by (induction rule: list_all2_induct)
      (use assms(1) in \<open>auto simp: sealing_port_def Let_def sealed_for_def envelope_context_def\<close>)
  then show "\<forall>slot \<in> set slots. slot_vaultKeyGeneration slot = n \<and>
     env_recipientDeviceId (slot_envelope slot) = slot_deviceId slot \<and> env_vaultKeyGeneration (slot_envelope slot) = n"
    by blast
  have ids: "map slot_deviceId slots = map dti_deviceId devices" using sealed_ids [OF assms(2)] by simp
  show set: "slot_deviceId ` set slots = dti_deviceId ` set devices" by (metis ids list.set_map)
  assume ok: "safe_integer 1 n" "distinct (map dti_deviceId devices)" "\<forall>device \<in> set devices. nonBlank (dti_deviceId device)"
  have "\<forall>i \<in> slot_deviceId ` set slots. nonBlank i" unfolding set using ok(3) by simp
  with envelopes ok show "slots_storable (key_import env) slots"
    unfolding slots_storable_def ids by (simp add: list_all_iff stored_slot_ok_def Let_def)
qed

lemma revoked_verifies:
  assumes port: "sealing_port keys env" and writable: "writable env uv"
    and current: "current_snapshot env k uv v s"
    and own: "find_device (ts_trustedDevices trust) (uv_deviceId uv) = Some device"
      "verifyDeviceSignKeyPair (crypto_port env) (dti_publicSignKey device) (mem (uv_devicePrivateSignKey uv))"
    and trust: "distinct (map dti_deviceId (ts_trustedDevices trust))" "ts_vaultKeyGeneration trust = n" "safe_integer 1 n"
    and slots: "list_all2 (sealed_for keys env k n key) (ts_trustedDevices trust) slots"
    and built: "built_from env mem uv (revocation_options n slots (chain, trust) None) chain trust s t"
  shows "verifySnapshot (trust_port env) k t trust = Inr ()"
proof -
  have ids: "map slot_deviceId slots = map dti_deviceId (ts_trustedDevices trust)" using sealed_ids [OF slots] by simp
  have fields: "snap_deviceSlots t = slots" "m_vaultKeyGeneration (snap_metadata t) = n"
      "m_id (snap_metadata t) = m_id (snap_metadata s)" "m_schemaVersion (snap_metadata t) = m_schemaVersion (snap_metadata s)"
      "m_algorithmSuiteId (snap_metadata t) = m_algorithmSuiteId (snap_metadata s)"
      "m_createdByDeviceId (snap_metadata t) = uv_deviceId uv"
    using built by (auto simp: built_from_def signed_snapshot_def nullish_def next_metadata_def)
  have "slots_match_trust t trust"
    using sealed_slots(1,2) [OF port slots] trust ids
    unfolding slots_match_trust_def slot_ok_def fields
    by (simp add: ids_of_def is_safe_integer_def safe_integer_def MAX_SAFE_INTEGER_def abs_le_iff)
  moreover have "verifyVaultSnapshotSignature (crypto_port env) t (dti_publicSignKey device)"
    using own(1) built faithful_signatures(1) [OF writable own(2)] by (auto simp: built_from_def)
  ultimately show ?thesis
    using own(1) current trust unfolding verifySnapshot_Inr current_snapshot_def fields
    by (simp add: crypto.defs)
qed

section \<open>The calls\<close>

lemma undisturbed_slots:
  assumes "undisturbed env"
    and "\<And>slots n. list_all2 (sealed_for keys env k generation (mem key)) devices slots \<Longrightarrow> Q (Inr slots) (w\<lparr>call_count := n\<rparr>)"
  shows "wp (create_device_slots keys env mem k generation key devices) Q w"
  using assms(2)
proof (induction devices arbitrary: Q w)
  case Nil
  from Nil [of "[]" "call_count w"] show ?case by (simp add: wp_simps)
next
  case (Cons device devices)
  show ?case
    unfolding create_device_slots.simps create_device_slot_def
    apply (simp add: wp_simps undisturbed_calls [OF assms(1)])
    apply (rule Cons.IH)
    apply (simp add: wp_simps)
    apply (rule Cons.prems)
    apply (auto simp: sealed_for_def envelope_context_def)
    done
qed

lemma undisturbed_save:
  assumes env: "undisturbed env" and store: "db_ok (key_import env) (local_db w)"
    and writable: "writable env uv" and port: "sealing_port keys env"
    and session: "session_current env mem k uv v (local_db w)" "session_current env mem k rotated v (local_db w)"
    and rotated: "uv_trustedSnapshotContext rotated = uv_trustedSnapshotContext uv" "uv_deviceId rotated = uv_deviceId uv"
    and s: "sv_snapshots (view (key_import env) (local_db w)) k = Some s"
    and device: "find_device (ts_trustedDevices trust) (uv_deviceId uv) = Some device"
      "verifyDeviceSignKeyPair (crypto_port env) (dti_publicSignKey device) (mem (uv_devicePrivateSignKey rotated))"
    and trust: "distinct (map dti_deviceId (ts_trustedDevices trust))" "ts_vaultKeyGeneration trust = n" "safe_integer 1 n"
    and slots: "list_all2 (sealed_for keys env k n key) (ts_trustedDevices trust) slots"
    and options: "options_ok env (uv_deviceId uv) v (revocation_options n slots (chain, trust) None)"
    and Q: "\<And>p plan c db. Q (Inr (p, plan)) (w\<lparr>call_count := c, local_db := db\<rparr>)"
  shows "wp (save_revocation env mem k s uv rotated v None (revocation_options n slots (chain, trust) None)) Q w"
proof -
  let ?options = "revocation_options n slots (chain, trust) None"
  have none: "po_syncCredentialState ?options = None" "next_chain ?options s' = chain" "next_trust ?options uv' = trust" for s' uv'
    by (simp_all add: revocation_options_def next_chain_def next_trust_def nullish_def no_options_def)
  have writable': "writable env rotated" using writable rotated by (simp add: writable_def)
  obtain c own f where c: "sv_checkpoints (view (key_import env) (local_db w)) k = Some c"
      and current: "current_snapshot env k uv v s"
      and own: "find_device (ts_trustedDevices (tsc_trust (uv_trustedSnapshotContext uv))) (uv_deviceId uv) = Some own"
      and checkpoint: "verifyCheckpoint (trust_port env) k c own = Inr ()"
        "requireSnapshotNotRolledBack (trust_port env) k s (tsc_trust (uv_trustedSnapshotContext uv)) c = Inr f"
    using session(1) s unfolding session_current_def Let_def by auto
  have id: "m_id (snap_metadata s) = k" using current by (simp add: current_snapshot_def)
  have persisted: "wp (persistUnlockedVault env mem k rotated v ?options)
      (\<lambda>r t. \<exists>p c db. r = Inr p \<and> t = w\<lparr>call_count := c, local_db := db\<rparr>) (w\<lparr>call_count := m\<rparr>)" for m
    unfolding persistUnlockedVault_def wp_sbind
  proof (rule undisturbed_prepare [OF env])
    fix c s' p n'
    assume s': "sv_snapshots (view (key_import env) (local_db (w\<lparr>call_count := m\<rparr>))) k = Some s'"
      and c: "sv_checkpoints (view (key_import env) (local_db (w\<lparr>call_count := m\<rparr>))) k = Some c"
      and result: "consistent_result env mem k rotated v ?options s' p"
    then have "current_snapshot env k rotated v s'" by (simp add: consistent_result_def)
    then have written: "wp (save_snapshot env (prepared_replacement rotated ?options c p))
       (\<lambda>r w'. r = Inr () \<and> takes_the_place env k rotated ?options (local_db w) (local_db w') p) (w\<lparr>call_count := n'\<rparr>)"
      using undisturbed_replace [OF env _ writable' none(1) _ _ _ _ result, of "w\<lparr>call_count := n'\<rparr>" c] store s' c options rotated(2)
      by simp
    have shape: "\<exists>c db. t = w\<lparr>call_count := c, local_db := db\<rparr>"
      if "save_snapshot env q (w\<lparr>call_count := n'\<rparr>) = (r, t)" for q r t
      using that env by (auto simp: save_snapshot_def repository_def Let_def split: prod.splits)
    show "case Inr (c, p) of
        Inl e \<Rightarrow> \<exists>p c db. Inl e = Inr p \<and> w\<lparr>call_count := m, call_count := n'\<rparr> = w\<lparr>call_count := c, local_db := db\<rparr>
      | Inr a \<Rightarrow> wp (case a of (expected, p) \<Rightarrow>
          sthen (save_snapshot env (prepared_replacement rotated ?options expected p)) (sret p))
          (\<lambda>r t. \<exists>p c db. r = Inr p \<and> t = w\<lparr>call_count := c, local_db := db\<rparr>) (w\<lparr>call_count := m, call_count := n'\<rparr>)"
      using written shape
      by (auto simp: wp_def sthen_def sbind_def sret_def split: prod.splits sum.splits)
  qed (use store session(2) device rotated revoked_verifies [where mem = mem, OF port writable' _ _ device(2) trust slots]
      in \<open>auto simp: none\<close>)
  show ?thesis
    unfolding save_revocation_def prepareLocalVaultSnapshotRestore_def credential_state_to_restore_def id wp_sbind
    apply (rule undisturbed_checkpoint [OF env store c own checkpoint])
    apply (simp add: wp_simps)
    apply (rule wp_weaken [OF persisted])
    apply (auto simp: wp_simps intro!: Q)
    done
qed

section \<open>The checks pass\<close>

lemma revocation_checked:
  assumes "current_snapshot env k uv v s" "d \<noteq> uv_deviceId uv"
    and "d \<in> dti_deviceId ` set (ts_trustedDevices (tsc_trust (uv_trustedSnapshotContext uv)))"
    and "requireDeviceProfilesMatchTrust (uv_vault uv) (trusted_ids (tsc_trust (uv_trustedSnapshotContext uv)))
      (history_ids (snap_trustChain s)) = Inr ()"
  shows "require_revocable k d uv = Inr ()" "require_consistent_devices k d uv s = Inr ()"
proof -
  have slots: "distinct (map slot_deviceId (snap_deviceSlots s))" "d \<in> slot_deviceId ` set (snap_deviceSlots s)"
    using assms(1,3) by (auto simp: current_snapshot_def verifySnapshot_Inr slots_match_trust_def ids_of_def)
  then obtain slot where slot: "slot \<in> set (snap_deviceSlots s)" "slot_deviceId slot = d" by auto
  have "filter (\<lambda>slot. slot_deviceId slot = d) slots = [slot]"
    if "distinct (map slot_deviceId slots)" "slot \<in> set slots" for slots
    using that by (induction slots) (use slot(2) in \<open>auto simp: filter_empty_conv image_iff\<close>)
  with slots(1) slot(1) have "length (filter (\<lambda>slot. slot_deviceId slot = d) (snap_deviceSlots s)) = 1" by simp
  then show "require_consistent_devices k d uv s = Inr ()"
    using assms(4) by (simp add: require_consistent_devices_def)
  show "require_revocable k d uv = Inr ()"
    using assms(2,3) by (auto simp: require_revocable_def find_device_None ids_of_def)
qed

lemma revocation_ready:
  assumes writable: "writable env uv" and port: "sealing_port keys env" and now: "revocable_now env mem k uv v d db"
    and s: "sv_snapshots (view (key_import env) db) k = Some s"
  defines "trust \<equiv> tsc_trust (uv_trustedSnapshotContext uv)" and "n \<equiv> m_vaultKeyGeneration (snap_metadata s) + 1"
  shows "\<exists>chain' trust' device. appendTrustTransition (trust_port env) k (snap_trustChain s) trust (survivors uv d) n
       (uv_deviceId uv) (mem (uv_devicePrivateSignKey uv)) = Inr (chain', trust') \<and>
     ts_trustedDevices trust' = survivors uv d \<and> ts_vaultKeyGeneration trust' = n \<and> safe_integer 1 n \<and>
     distinct (map dti_deviceId (survivors uv d)) \<and> find_device (survivors uv d) (uv_deviceId uv) = Some device \<and>
     verifyDeviceSignKeyPair (crypto_port env) (dti_publicSignKey device) (mem (uv_devicePrivateSignKey uv)) \<and>
     (\<forall>key slots. list_all2 (sealed_for keys env k n key) (survivors uv d) slots \<longrightarrow>
        options_ok env (uv_deviceId uv) v (revocation_options n slots (chain', trust') None))"
proof -
  note room = now [unfolded revocable_now_def Let_def, folded trust_def]
  obtain a device where current: "current_snapshot env k uv v s"
      and chain: "verifyTrustChain (trust_port env) k a (snap_trustChain s) = Inr trust"
      and device: "find_device (ts_trustedDevices trust) (uv_deviceId uv) = Some device"
        "verifyDeviceSignKeyPair (crypto_port env) (dti_publicSignKey device) (mem (uv_devicePrivateSignKey uv))"
    using now s unfolding revocable_now_def session_current_def Let_def trust_def by auto
  have stored: "chain_storable (key_import env) (snap_trustChain s)" "slots_storable (key_import env) (snap_deviceSlots s)"
      "nonBlank k"
    using current snapshot_ok_storable [of s "key_import env"] by (auto simp: current_snapshot_def metadata_ok_def)
  have verified: "n = ts_vaultKeyGeneration trust + 1" "slots_match_trust s trust" "distinct (map dti_deviceId (ts_trustedDevices trust))"
    using current by (auto simp: current_snapshot_def verifySnapshot_Inr n_def trust_def slots_match_trust_def)
  have "1 \<le> n" "n \<le> 2 ^ 53 - 1"
    using verified(1,2) room unfolding n_def slots_match_trust_def by linarith+
  then have generation: "safe_integer 1 n" by (simp add: safe_integer_def MAX_SAFE_INTEGER_def abs_le_iff)
  have survivors: "survivors uv d = filter (\<lambda>x. dti_deviceId x \<noteq> d) (ts_trustedDevices trust)"
    by (simp add: survivors_def trust_def)
  have distinct: "distinct (map dti_deviceId (survivors uv d))"
    using verified(3) by (simp add: survivors distinct_map_filter)
  have named: "\<forall>x \<in> set (survivors uv d). nonBlank (dti_deviceId x)"
  proof
    fix x assume "x \<in> set (survivors uv d)"
    then have "dti_deviceId x \<in> slot_deviceId ` set (snap_deviceSlots s)"
      using verified(2) by (auto simp: slots_match_trust_def ids_of_def survivors)
    then show "nonBlank (dti_deviceId x)"
      using stored(2) by (auto simp: slots_storable_def list_all_iff stored_slot_ok_def Let_def)
  qed
  have own: "find_device (survivors uv d) (uv_deviceId uv) = Some device"
    using device(1) room unfolding find_device_distinct [OF distinct] find_device_distinct [OF verified(3)]
    by (auto simp: survivors)
  let ?c = "next_certificate (trust_port env) k trust (survivors uv d) n (uv_deviceId uv) (mem (uv_devicePrivateSignKey uv))"
  let ?chain = "snap_trustChain s @ [?c]" let ?trust = "trust_of (trust_port env) ?chain"
  have appended: "appendTrustTransition (trust_port env) k (snap_trustChain s) trust (survivors uv d) n (uv_deviceId uv)
      (mem (uv_devicePrivateSignKey uv)) = Inr (?chain, ?trust)"
    unfolding survivors verified(1)
    by (rule revocation_appends [OF chain device(1)]) (use device(2) room in \<open>auto simp: crypto.defs\<close>)
  have storable: "chain_storable (key_import env) ?chain" "trust_ok ?trust"
    unfolding survivors verified(1)
    using appended_storable [OF port chain stored(1,3) device(1)] room by auto
  have options: "options_ok env (uv_deviceId uv) v (revocation_options n slots (?chain, ?trust) None)"
    if "list_all2 (sealed_for keys env k n key) (survivors uv d) slots" for key slots
    using sealed_slots(3) [OF port that generation distinct named] storable generation room
    by (simp add: options_ok_def revocation_options_def no_options_def nullish_def)
  have "ts_trustedDevices ?trust = survivors uv d" "ts_vaultKeyGeneration ?trust = n"
    by (simp_all add: trust_of_def next_certificate_def Let_def)
  with appended generation distinct own device(2) options show ?thesis by blast
qed

section \<open>The use case\<close>

lemma session_current_memory:
  "mem (uv_devicePrivateSignKey uv) = mem' (uv_devicePrivateSignKey uv) \<Longrightarrow>
     session_current env mem k uv v db = session_current env mem' k uv v db"
  by (simp add: session_current_def)

text \<open>The session serves as before, and only calls were counted.\<close>

definition proceeds ::
    "session_env \<Rightarrow> material \<Rightarrow> EncryptedUnlockedVaultSessionPayload \<Rightarrow> Vault \<Rightarrow> 'r device_world session_world \<Rightarrow>
     'r device_world session_world \<Rightarrow> bool" where
  "proceeds env m p vault w t \<longleftrightarrow> serves env m p vault t \<and>
     (\<exists>n. stays 0 (w\<lparr>outside := (outside w)\<lparr>call_count := n\<rparr>\<rparr>) t)"

lemma proceeds_facts:
  assumes "proceeds env m p vault w t"
  shows "serves env m p vault t" "local_db (outside t) = local_db (outside w)" "epoch_of t \<le> epoch_of w"
    and "b < next_buffer w \<Longrightarrow> memory t b = memory w b"
  using assms by (auto simp: proceeds_def stays_def epoch_of_def)

lemma proceeds_calls:
  "proceeds env m p vault w t \<Longrightarrow> proceeds env m p vault w (t\<lparr>outside := (outside t)\<lparr>call_count := n\<rparr>\<rparr>)"
  by (auto simp: proceeds_def stays_def epoch_of_def)

lemma proceeds_same: "proceeds env m p vault w t \<Longrightarrow> proceeds env m p vault w (t\<lparr>outside := outside t\<rparr>)"
  by (simp add: proceeds_def)

lemma proceeds_later:
  "serves env m p vault u \<Longrightarrow> stays 0 t u \<Longrightarrow> proceeds env m p vault w t \<Longrightarrow> proceeds env m p vault w u"
  unfolding proceeds_def using stays_trans [of 0 _ t 0 u] by fastforce

lemma wp_on_device: "wp (callout f) Q w = wp (f (memory w)) (\<lambda>r x. Q r (w\<lparr>outside := x\<rparr>)) (outside w)"
  by (simp add: wp_def callout_def split: prod.splits)

lemma proceeds_secret:
  assumes "undisturbed env" "proceeds senv m p vault w t"
    and "\<And>b t. proceeds senv m p vault w t \<Longrightarrow> Q (Inr b) t"
  shows "wp (fresh_secret env (\<lambda>_ n. Inr (f n))) Q t"
proof -
  let ?t = "t\<lparr>outside := (outside t)\<lparr>call_count := Suc (call_count (outside t))\<rparr>\<rparr>"
  have t: "proceeds senv m p vault w ?t" by (rule proceeds_calls [OF assms(2)])
  have "proceeds senv m p vault w (?t\<lparr>memory := (memory t)(next_buffer t := bs), next_buffer := Suc (next_buffer t)\<rparr>)" for bs
  proof (rule proceeds_later [OF _ _ t])
    show kept: "stays 0 ?t (?t\<lparr>memory := (memory t)(next_buffer t := bs), next_buffer := Suc (next_buffer t)\<rparr>)"
      by (simp add: stays_def epoch_of_def)
    show "serves senv m p vault (?t\<lparr>memory := (memory t)(next_buffer t := bs), next_buffer := Suc (next_buffer t)\<rparr>)"
      by (rule serves_same [OF proceeds_facts(1) [OF t] _ kept])
        (use proceeds_facts(1) [OF t] in \<open>auto simp: serves_def succeeding_def\<close>)
  qed
  then show ?thesis
    unfolding fresh_secret_def wp_sbind wp_on_device undisturbed_calls(1) [OF assms(1)]
    by (auto simp: wp_def allocate_def intro!: assms(3))
qed

lemma rotation_succeeds:
  fixes g :: "'r guard_env"
  defines "env \<equiv> device_of g"
  assumes env: "undisturbed env" "writable env uv" "sealing_port keys env"
    and open_session: "serves (session_of g) m p vault w" "proceeds (session_of g) m p vault w t" "k = ses_vaultId m"
      "session = restored_session m p vault" "uv = us_unlockedVault session" "v = us_sourceSnapshotVersionVector session"
      "epoch_of w + 1 < MAX_SAFE_INTEGER"
    and store: "db_ok (key_import env) (local_db (outside w))"
      "session_current env (memory w) k uv v (local_db (outside w))"
      "sv_snapshots (view (key_import env) (local_db (outside w))) k = Some s"
    and trust: "ts_trustedDevices trust = survivors uv d" "ts_vaultKeyGeneration trust = n" "safe_integer 1 n"
      "distinct (map dti_deviceId (survivors uv d))"
    and device: "find_device (survivors uv d) (uv_deviceId uv) = Some device"
      "verifyDeviceSignKeyPair (crypto_port env) (dti_publicSignKey device) (memory w (uv_devicePrivateSignKey uv))"
    and options: "\<And>key slots. list_all2 (sealed_for keys env k n key) (survivors uv d) slots \<Longrightarrow>
      options_ok env (uv_deviceId uv) v (revocation_options n slots (chain, trust) None)"
    and Q: "\<And>result t. Q (Inr (result, True)) t"
  shows "wp (rotate_vault_key keys g k d session s v' n (chain, trust) None key) Q t"
proof -
  let ?env = "device_of g" let ?rotated = "uv\<lparr>uv_vault := v', uv_vaultMasterKey := key\<rparr>"
  let ?after = "\<lambda>persisted plan. sbind (finish_revocation g k session ?rotated None persisted plan) (\<lambda>(status, sessionCommitted).
    sret (\<lparr>rd_vault = toVisibleVaultFields v', rd_snapshotVersionVector = ps_snapshotVersionVector persisted,
      rd_revisionTimestamp = ps_revisionTimestamp persisted,
      rd_providerCredentialRevocation = Revocation_not_configured, rd_syncUpload = status\<rparr>, sessionCommitted))"
  have uv: "uv_vaultId uv = ses_vaultId m" "us_sessionId session = ses_sessionId m"
      "uv_devicePrivateSignKey uv \<in> set (secret_buffers m)"
    by (simp_all add: open_session(4,5) restored_session_def secret_buffers_def)
  then have own: "uv_devicePrivateSignKey uv < next_buffer w" using open_session(1) by (auto simp: serves_def)
  note [simp] = case_prod_conv
  show ?thesis
    unfolding rotate_vault_key_def Let_def open_session(5) [symmetric] wp_sbind wp_on_device
  proof (rule undisturbed_slots [OF env(1) [unfolded env_def]], simp add: wp_sret)
    fix slots c
    let ?t = "t\<lparr>outside := (outside t)\<lparr>call_count := c\<rparr>\<rparr>"
    assume slots: "list_all2 (sealed_for keys ?env k n (memory t key)) (survivors uv d) slots"
    note now = proceeds_facts [OF proceeds_calls [OF open_session(2), of c]]
    have epoch: "epoch_of ?t + 1 < MAX_SAFE_INTEGER" using now(3) open_session(7) by linarith
    show "wp (persistForActiveSession (session_of g) (us_sessionId session) k
        (\<lambda>mem. save_revocation ?env mem k s uv ?rotated (us_sourceSnapshotVersionVector session) None
           (revocation_options n slots (chain, trust) None)) None)
      (\<lambda>r w. case r of Inl e \<Rightarrow> Q (Inl e) w
        | Inr a \<Rightarrow> wp (case a of (persisted, plan) \<Rightarrow> ?after persisted plan) Q w) ?t"
    proof (rule served_persist [OF now(1) open_session(3) uv(2)])
      fix mem r x u
      assume mem: "\<forall>b < next_buffer ?t. mem b = memory ?t b"
        and run: "save_revocation ?env mem k s uv ?rotated (us_sourceSnapshotVersionVector session) None
          (revocation_options n slots (chain, trust) None) (outside ?t) = (r, x)"
        and u: "serves (session_of g) m p vault u" "stays 1 (?t\<lparr>outside := x\<rparr>) u"
      have "next_buffer w \<le> next_buffer ?t"
        using open_session(2) by (auto simp: proceeds_def stays_def)
      then have same: "mem (uv_devicePrivateSignKey uv) = memory w (uv_devicePrivateSignKey uv)"
        using mem own now(4) by simp
      have "wp (save_revocation ?env mem k s uv ?rotated v None (revocation_options n slots (chain, trust) None))
          (\<lambda>r x. \<exists>a. r = Inr a) (outside ?t)"
      proof (rule undisturbed_save [OF env(1) [unfolded env_def] _ env(2,3) [unfolded env_def]])
        show "session_current ?env mem k uv v (local_db (outside ?t))"
          using store(2) now(2) same by (simp add: env_def session_current_def)
        then show "session_current ?env mem k ?rotated v (local_db (outside ?t))"
          by (simp add: session_current_def current_snapshot_def)
      qed (use store trust device slots options [of "memory t key" slots] now(2) same in
          \<open>auto simp: env_def\<close>)
      then obtain persisted plan where r: "r = Inr (persisted, plan)"
        using run open_session(6) by (auto simp: wp_run)
      have "wp (finish_revocation g k session ?rotated None persisted plan)
          (\<lambda>r t. r = Inr (Complete, True)) u"
        unfolding finish_revocation_def Let_def option.case wp_sthen
        by (rule served_commit [OF u(1)])
          (use u(2) epoch in \<open>auto simp: uv wp_sret stays_def epoch_of_def\<close>)
      then have "wp (?after persisted plan) Q u"
        unfolding wp_sbind by (rule wp_weaken) (auto simp: wp_sret intro!: Q)
      then show "case r of Inl e \<Rightarrow> Q (Inl e) u
        | Inr a \<Rightarrow> wp (case a of (persisted, plan) \<Rightarrow> ?after persisted plan) Q u"
        unfolding r by simp
    qed (use epoch in simp)
  qed
qed

lemma revocation_succeeds:
  fixes g :: "'r guard_env"
  assumes env: "undisturbed (device_of g)" "sealing_port keys (device_of g)"
    and store: "db_ok (key_import (device_of g)) (local_db (outside w))"
    and open_session: "serves (session_of g) m p vault w" "epoch_of w + 1 < MAX_SAFE_INTEGER"
    and uv: "uv = us_unlockedVault (restored_session m p vault)" "writable (device_of g) uv"
    and now: "revocable_now (device_of g) (memory w) (ses_vaultId m) uv (ses_sourceSnapshotVersionVector p) d
      (local_db (outside w))"
  shows "\<exists>result w'. revokeDevice keys g (ses_vaultId m) d None w = (Inr result, w')"
proof -
  let ?env = "device_of g" and ?k = "ses_vaultId m" and ?session = "restored_session m p vault"
  let ?v = "ses_sourceSnapshotVersionVector p" and ?db = "local_db (outside w)"
  obtain s where s: "sv_snapshots (view (key_import ?env) ?db) ?k = Some s" "current_snapshot ?env ?k uv ?v s"
    using now unfolding revocable_now_def session_current_def Let_def by auto
  let ?n = "m_vaultKeyGeneration (snap_metadata s) + 1"
  have possible: "session_current ?env (memory w) ?k uv ?v ?db" "v_syncTarget (uv_vault uv) = None"
      "v_providerCredentialRevocationPending (uv_vault uv) = None"
    using now unfolding revocable_now_def Let_def by auto
  have checks: "require_revocable ?k d uv = Inr ()" "require_consistent_devices ?k d uv s = Inr ()"
    by (rule revocation_checked [OF s(2)]; use now s(1) in \<open>auto simp: revocable_now_def Let_def\<close>)+
  obtain chain' trust' device where transition: "appendTrustTransition (trust_port ?env) ?k (snap_trustChain s)
        (tsc_trust (uv_trustedSnapshotContext uv)) (survivors uv d) ?n (uv_deviceId uv) (memory w (uv_devicePrivateSignKey uv)) =
        Inr (chain', trust')"
      and ready: "ts_trustedDevices trust' = survivors uv d" "ts_vaultKeyGeneration trust' = ?n" "safe_integer 1 ?n"
        "distinct (map dti_deviceId (survivors uv d))" "find_device (survivors uv d) (uv_deviceId uv) = Some device"
        "verifyDeviceSignKeyPair (crypto_port ?env) (dti_publicSignKey device) (memory w (uv_devicePrivateSignKey uv))"
        "\<And>key slots. list_all2 (sealed_for keys ?env ?k ?n key) (survivors uv d) slots \<Longrightarrow>
           options_ok ?env (uv_deviceId uv) ?v (revocation_options ?n slots (chain', trust') None)"
    using revocation_ready [OF uv(2) env(2) now s(1)] by blast
  have key: "memory t (uv_devicePrivateSignKey uv) = memory w (uv_devicePrivateSignKey uv)"
    if "proceeds (session_of g) m p vault w t" for t
    using open_session(1) by (intro proceeds_facts(4) [OF that])
      (auto simp: uv(1) restored_session_def serves_def secret_buffers_def)
  have rotates: "wp (wipe_unless_transferred [b] (rotate_vault_key keys g ?k d ?session s v' ?n (chain', trust') None b))
      (\<lambda>r t. \<exists>result. r = Inr result) t" if "proceeds (session_of g) m p vault w t" for b t v'
    unfolding wipe_unless_transferred_def Let_def wp_sbind wp_scatch
    by (rule rotation_succeeds [OF env(1) uv(2) env(2) open_session(1) that refl refl uv(1) _ open_session(2) store _ s(1) ready(1-7)])
      (auto simp: possible(1) restored_session_def wp_simps)
  have started: "proceeds (session_of g) m p vault w t" if "serves (session_of g) m p vault t" "stays 0 w t" for t
    by (rule proceeds_later [OF that])
      (use open_session(1) in \<open>auto simp: proceeds_def stays_def intro: exI [of _ "call_count (outside w)"]\<close>)
  have same: "t\<lparr>outside := outside t\<rparr> = t" for t :: "'r device_world session_world" by simp
  have source: "us_sourceSnapshotVersionVector ?session = ?v" by (simp add: restored_session_def)
  have prepared: "wp (prepareLocalMutation ?env (provider_of g) mem ?k uv ?v) R x"
    if "local_db x = ?db" "\<And>n. R (Inr \<lparr>lms_localSnapshot = s, lms_synchronized = None\<rparr>) (x\<lparr>call_count := n\<rparr>)"
    for mem R and x :: "'r device_world"
    unfolding prepareLocalMutation_def wp_sbind
    by (rule undisturbed_snapshot [OF env(1) _ _ s(2)]) (simp_all add: that store s(1) possible wp_simps)
  have "wp (revokeDevice keys g ?k d None) (\<lambda>r t. \<exists>result. r = Inr result) w"
    unfolding revokeDevice_def Let_def wp_sbind
    apply (rule served_context [OF open_session(1) refl])
    apply (drule (1) started)
    apply (simp add: uv(1) [symmetric] source wp_simps wp_on_device checks requireProviderCredentialRevocationComplete_def
        possible same)
    apply (rule prepared)
    apply (simp add: proceeds_facts)
    apply (simp add: uv(1) [symmetric] wp_simps wp_on_device checks possible same prepare_replacement_access_def transition key proceeds_calls)
    apply (rule proceeds_secret [OF env(1) proceeds_calls])
     apply assumption
    apply (simp add: rotates)
    done
  then show ?thesis by (auto simp: wp_def split: prod.splits)
qed

end
