(* ===== verification/Use_Case_Samples.thy ===== *)
theory Use_Case_Samples
  imports Session_Properties Storage_Properties Revocation_Progress
begin

text \<open>
  A vault with two trusted devices, open on the first of them, on which the properties of the use
  cases are applied.
\<close>

section \<open>Two devices\<close>

definition second_device :: DeviceTrustIdentity where
  "second_device = \<lparr>dti_deviceId = ''B'', dti_publicSignKey = replicate 32 5, dti_publicVaultKey = replicate 65 6\<rparr>"

definition second_certificate :: VaultTrustCertificate where
  "second_certificate = \<lparr>cert_payload = \<lparr>tc_version = 1, tc_vaultId = ''V'', tc_generation = 1,
     tc_vaultKeyGeneration = 1, tc_previousCertificateDigest = Some (zero_text 32), tc_authorizedByDeviceId = ''A'',
     tc_trustedDevices = [stored_device, second_device]\<rparr>, cert_signature = zero_text 64\<rparr>"

definition second_slot :: DeviceKeySlot where
  "second_slot = \<lparr>slot_deviceId = ''B'', slot_vaultKeyGeneration = 1, slot_envelope =
     \<lparr>env_recipientDeviceId = ''B'', env_vaultKeyGeneration = 1, env_ephemeralPublicKey = replicate 65 3,
      env_hkdfSalt = replicate 32 4, env_encryptedVaultMasterKey = zero_cipher\<rparr>\<rparr>"

definition paired_snapshot :: VaultSnapshot where
  "paired_snapshot = stored_snapshot\<lparr>snap_trustChain := [stored_certificate, second_certificate],
     snap_deviceSlots := [stored_slot, second_slot]\<rparr>"

definition paired_trust :: VerifiedVaultTrustState where
  "paired_trust = \<lparr>ts_generation = 1, ts_vaultKeyGeneration = 1, ts_certificateDigest = zero_text 32,
     ts_trustedDevices = [stored_device, second_device]\<rparr>"

text \<open>
  The port of the stored vault, with different digests for the keys of the two devices and private
  keys of the stored length.
\<close>

definition paired_private :: bytes where
  "paired_private = replicate 16 0 @ replicate 32 1"

definition paired_env :: device_env where
  "paired_env = stored_env\<lparr>crypto_port := stored_port
     \<lparr>verifyDeviceSignKeyPair := (\<lambda>public private. private = replicate 16 0 @ public),
      digestDevicePublicSignKey := (\<lambda>key. if key = replicate 32 1 then ''a'' else ''b''),
      digestDevicePublicVaultKey := (\<lambda>key. if key = replicate 65 2 then ''a'' else ''b'')\<rparr>\<rparr>"

definition paired_keys :: key_port where
  "paired_keys = \<lparr>generateVaultMasterKey = (\<lambda>_. replicate 32 8),
     createDeviceVaultKeyEnvelope = (\<lambda>_ _ _ c. \<lparr>env_recipientDeviceId = ec_deviceId c,
       env_vaultKeyGeneration = ec_vaultKeyGeneration c, env_ephemeralPublicKey = replicate 65 3,
       env_hkdfSalt = replicate 32 4, env_encryptedVaultMasterKey = zero_cipher\<rparr>),
     openDeviceVaultKeyEnvelope = (\<lambda>_ _ _. Inr (replicate 32 8))\<rparr>"

definition paired_checkpoint :: LocalVaultTrustCheckpoint where
  "paired_checkpoint = createCheckpoint (trust_port paired_env) paired_snapshot paired_trust ''A'' paired_private"

definition paired_db :: vault_db where
  "paired_db = stored_db\<lparr>vaultSnapshots := [(''V'', storedVaultArtifact ''V'' (encodeVaultSnapshot paired_snapshot))],
     localVaultTrustCheckpoints :=
       [(''V'', storedVaultArtifact ''V'' (encodeLocalVaultTrustCheckpoint paired_checkpoint))]\<rparr>"

definition paired_material :: material where
  "paired_material = sample_material\<lparr>mat_trustedSnapshotContext := \<lparr>tsc_snapshotDigest = zero_text 32, tsc_trust = paired_trust\<rparr>,
     mat_vaultTrustAnchor := uv_vaultTrustAnchor stored_session\<rparr>"

definition paired_payload :: EncryptedUnlockedVaultSessionPayload where
  "paired_payload = \<lparr>ses_sessionId = ''ssssss'', ses_vaultId = ''V'', ses_sourceSnapshotVersionVector = [(''A'', 1)],
     pay_content = zero_cipher\<rparr>"

definition paired_memory :: "buffer \<Rightarrow> bytes" where
  "paired_memory b = (if b = 1 then paired_private else if b = 2 then replicate 138 2 else replicate 32 9)"

definition paired_context :: "nat device_world session_world" where
  "paired_context = (idle \<lparr>local_db = paired_db, call_count = 0, remote_store = 0\<rparr>)
     \<lparr>memory := paired_memory, next_buffer := 5, cachedMaterial := Some (Some paired_material),
      area_payload := Some (payload_record paired_payload), area_epoch := Some 1\<rparr>"

definition paired_world :: "nat device_world session_world" where
  "paired_world = paired_context\<lparr>area_material := Some (serializeUnlockedVaultSessionMaterial paired_context paired_material)\<rparr>"

definition paired_guard :: "nat guard_env" where
  "paired_guard = \<lparr>session_of = calm, device_of = paired_env, provider_of = counting_provider\<rparr>"

abbreviation paired_session :: UnlockedVault where
  "paired_session \<equiv> us_unlockedVault (restored_session paired_material paired_payload sample_vault)"

section \<open>The store\<close>

lemma nonBlank_second [simp]: "nonBlank ''B''" "nonBlank ''ssssss''"
  by (simp_all add: nonBlank_def js_trim_def is_js_space_def)

lemmas paired_port_defs = paired_env_def stored_env_def stored_port_def crypto.defs

lemma paired_snapshot_ok [simp]: "snapshot_ok paired_snapshot"
  by (simp add: snapshot_ok_def paired_snapshot_def stored_snapshot_def metadata_ok_def safe_vector_def certificate_ok_def
      second_certificate_def stored_certificate_def device_ok_def stored_device_def second_device_def stored_slot_ok_def
      stored_slot_def second_slot_def)

lemma paired_keys_valid [simp]: "validateVaultSnapshotPublicKeys s (key_import paired_env)"
  by (simp add: validateVaultSnapshotPublicKeys_def paired_port_defs list_all_iff)

lemma paired_trust_ok [simp]: "trust_ok paired_trust"
  by (simp add: trust_ok_def paired_trust_def)

lemma paired_faithful [simp]: "faithful_port (crypto_port paired_env)"
  by (auto simp: faithful_port_def paired_port_defs signed_snapshot_def sorted_snapshot_def sorted_checkpoint_def)

lemma paired_checkpoint_ok [simp]: "checkpoint_ok paired_checkpoint"
  unfolding paired_checkpoint_def by (rule checkpoint_storable) simp_all

lemma paired_ids [simp]:
  "m_id (snap_metadata paired_snapshot) = ''V''" "cp_vaultId (chk_payload paired_checkpoint) = ''V''"
  by (simp_all add: paired_snapshot_def stored_snapshot_def paired_checkpoint_def createCheckpoint_def Let_def)

lemma paired_db_ok [simp]: "db_ok (key_import paired_env) paired_db"
  by (auto simp: db_ok_def paired_db_def stored_db_def table_ok_def artifact_of_def access_agrees_def
      intro: exI [of _ paired_snapshot] exI [of _ paired_checkpoint])

lemma paired_view [simp]:
  "sv_snapshots (view (key_import paired_env) paired_db) ''V'' = Some (sorted_snapshot paired_snapshot)"
  "sv_checkpoints (view (key_import paired_env) paired_db) ''V'' = Some (sorted_checkpoint paired_checkpoint)"
  by (simp_all add: view_def read_table_def paired_db_def stored_db_def stored_artifacts)

section \<open>The session\<close>

lemma paired_session_fields [simp]:
  "uv_vaultId paired_session = ''V''" "uv_deviceId paired_session = ''A''" "uv_vault paired_session = sample_vault"
  "tsc_trust (uv_trustedSnapshotContext paired_session) = paired_trust"
  "tsc_snapshotDigest (uv_trustedSnapshotContext paired_session) = zero_text 32"
  "paired_memory (uv_devicePrivateSignKey paired_session) = paired_private"
  by (simp_all add: restored_session_def paired_material_def sample_material_def paired_memory_def)

lemma paired_writable [simp]: "writable paired_env paired_session"
  by (simp add: writable_def) (simp add: paired_port_defs)

lemma paired_undisturbed [simp]: "undisturbed paired_env"
  by (simp add: undisturbed_def paired_port_defs)

lemma paired_device_found: "find_device (ts_trustedDevices paired_trust) ''A'' = Some stored_device"
  by (simp add: paired_trust_def stored_device_def find_device_def)

lemma paired_pair: "verifyDeviceSignKeyPair (crypto_port paired_env) (dti_publicSignKey stored_device) paired_private"
  by (simp add: paired_private_def paired_port_defs stored_device_def)

lemma paired_verifies: "verifySnapshot (trust_port paired_env) ''V'' paired_snapshot paired_trust = Inr ()"
  unfolding verifySnapshot_Inr
  by (auto simp: slots_match_trust_def slot_ok_def paired_snapshot_def stored_snapshot_def paired_trust_def paired_port_defs
      stored_slot_def second_slot_def stored_device_def second_device_def ids_of_def find_device_def is_safe_integer_def
      MAX_SAFE_INTEGER_def)

lemma paired_descends:
  "requireTrustDescendsFrom (trust_port paired_env) ''V'' [stored_certificate, second_certificate] paired_trust 1 (zero_text 32) = Inr ()"
  by (simp add: requireTrustDescendsFrom_def paired_trust_def certificate_at_def paired_port_defs require_def)

lemma paired_chain:
  "verifyTrustChain (trust_port paired_env) ''V'' (uv_vaultTrustAnchor stored_session) [stored_certificate, second_certificate] =
     Inr paired_trust"
  unfolding verifyTrustChain_Inr_iff
proof
  show "paired_trust = trust_of (trust_port paired_env) [stored_certificate, second_certificate]"
    by (simp add: paired_trust_def trust_of_def second_certificate_def paired_port_defs)
  have keys: "replicate 32 5 \<noteq> replicate 32 (1 :: 8 word)" "replicate 65 6 \<noteq> replicate 65 (2 :: 8 word)"
    by (simp_all add: replicate_eq_replicate)
  show "valid_chain (trust_port paired_env) ''V'' (uv_vaultTrustAnchor stored_session) [stored_certificate, second_certificate]"
    unfolding valid_chain_def All_less_Suc
    by (simp add: All_less_Suc valid_certificate_def valid_genesis_def valid_successor_def valid_fields_def unique_keys_def
        same_keys_def fresh_devices_def enrolls_def sign_digest_def vault_digest_def arePublicKeysEqual_def
        stored_certificate_def second_certificate_def stored_session_def stored_device_def second_device_def
        find_device_def ids_of_def is_safe_integer_def keys paired_port_defs)
      (rule disjI1, rule exI [of _ "''B''"], auto)
qed

lemma paired_session_current:
  "session_current paired_env paired_memory ''V'' paired_session [(''A'', 1)] paired_db"
proof -
  note sorted = faithful_sorted [OF paired_writable]
  have current: "current_snapshot paired_env ''V'' paired_session [(''A'', 1)] (sorted_snapshot paired_snapshot)"
    using snapshot_view_sound [OF paired_view(1)]
    by (simp add: current_snapshot_def sorted paired_verifies compare_Equal_iff)
      (simp add: paired_snapshot_def stored_snapshot_def stored_slot_def paired_port_defs)
  have checkpoint: "verifyCheckpoint (trust_port paired_env) ''V'' (sorted_checkpoint paired_checkpoint) stored_device = Inr ()"
    using createCheckpoint_verifies [OF faithful_signatures(2) [OF paired_writable paired_pair] paired_verifies]
    by (simp add: sorted paired_checkpoint_def)
  have own: "requireSnapshotNotRolledBack (trust_port paired_env) ''V'' (sorted_snapshot paired_snapshot) paired_trust
      (sorted_checkpoint paired_checkpoint) = Inr Same_snapshot"
    using paired_descends unfolding sorted requireSnapshotNotRolledBack_Inr
    by (simp add: paired_checkpoint_def createCheckpoint_def Let_def paired_snapshot_def stored_snapshot_def paired_trust_def)
  show ?thesis
    unfolding session_current_def Let_def paired_session_fields
    using current checkpoint own paired_descends paired_device_found paired_pair
    by (intro exI [of _ "sorted_snapshot paired_snapshot"] exI [of _ "sorted_checkpoint paired_checkpoint"]
        exI [of _ stored_device] conjI paired_view) (simp_all add: paired_snapshot_def stored_snapshot_def paired_trust_def)
qed

lemma paired_serves [simp]: "serves calm paired_material paired_payload sample_vault paired_world"
proof -
  have "digest_text (zero_text 32)" by simp
  moreover have "payload_ok paired_payload"
    by (simp add: payload_ok_def paired_payload_def safe_vector_def safe_integer_def MAX_SAFE_INTEGER_def nonBlank_def
        trim_solid is_js_space_def)
  ultimately show ?thesis
    by (simp add: serves_def succeeding_def paired_world_def paired_context_def idle_def paired_payload_def session_identity.truncate_def
        serializeUnlockedVaultSessionMaterial_def paired_material_def sample_material_def secret_buffers_def
        decodable_def decodeStoredMaterial_def decodeTrustedSnapshotContext_def decodeVaultTrustAnchor_def Let_def
        sample_env_def safe_vector_def safe_integer_def MAX_SAFE_INTEGER_def paired_trust_def stored_session_def
        paired_memory_def paired_private_def stored_device_def second_device_def list_all_iff)
qed

lemma paired_world_fields [simp]:
  "local_db (outside paired_world) = paired_db" "memory paired_world = paired_memory" "epoch_of paired_world = 1"
  by (simp_all add: paired_world_def paired_context_def idle_def epoch_of_def)

lemma paired_material_fields [simp]:
  "ses_vaultId paired_material = ''V''" "ses_sourceSnapshotVersionVector paired_payload = [(''A'', 1)]"
  by (simp_all add: paired_material_def sample_material_def paired_payload_def)

lemma paired_guard_fields [simp]: "session_of paired_guard = calm" "device_of paired_guard = paired_env"
  by (simp_all add: paired_guard_def)

lemma paired_sealing [simp]: "sealing_port paired_keys paired_env"
  by (simp add: sealing_port_def paired_keys_def paired_port_defs Let_def)

lemma paired_revocable: "revocable_now paired_env paired_memory ''V'' paired_session [(''A'', 1)] ''B'' paired_db"
  unfolding revocable_now_def Let_def
proof (intro conjI allI impI)
  fix s assume "sv_snapshots (view (key_import paired_env) paired_db) ''V'' = Some s"
  then have s: "snap_trustChain s = [stored_certificate, second_certificate]"
    by (auto simp: paired_snapshot_def)
  show "\<exists>anchor. verifyTrustChain (trust_port paired_env) ''V'' anchor (snap_trustChain s) =
      Inr (tsc_trust (uv_trustedSnapshotContext paired_session))"
    unfolding s paired_session_fields using paired_chain by blast
  show "requireDeviceProfilesMatchTrust (uv_vault paired_session)
      (trusted_ids (tsc_trust (uv_trustedSnapshotContext paired_session))) (history_ids (snap_trustChain s)) = Inr ()"
    unfolding s paired_session_fields
    by (simp add: requireDeviceProfilesMatchTrust_def sample_vault_def js_set_def findDeviceProfile_def paired_trust_def
        stored_device_def)
next
  show "session_current paired_env paired_memory ''V'' paired_session [(''A'', 1)] paired_db"
    by (rule paired_session_current)
  show "v_syncTarget (uv_vault paired_session) = None" "v_providerCredentialRevocationPending (uv_vault paired_session) = None"
    unfolding paired_session_fields by (simp_all add: sample_vault_def)
qed (unfold paired_session_fields, auto simp: paired_trust_def second_device_def vv_get_def MAX_SAFE_INTEGER_def)

lemma paired_serves_guard: "serves (session_of paired_guard) paired_material paired_payload sample_vault paired_world"
  by simp

lemma paired_revocation_succeeds:
  "\<exists>result w'. revokeDevice paired_keys paired_guard ''V'' ''B'' None paired_world = (Inr result, w')"
  using revocation_succeeds [OF _ _ _ paired_serves_guard _ refl, of paired_keys "''B''"] paired_revocable
  by (simp add: MAX_SAFE_INTEGER_def)

end
