(* ===== verification/Use_Case_Properties.thy ===== *)
theory Use_Case_Properties
  imports Use_Case_Samples
begin

text \<open>
  The properties of revoking a device: a revoked device is shut out, and every other trusted device
  can be revoked.
\<close>

section \<open>Revoking a device\<close>

text \<open>
  C4: a revoked device is shut out. When \<open>revokeDevice\<close> returns, whatever calls failed and whatever
  other contexts did to the local store meanwhile, a snapshot has taken the place of the stored one
  that verifies under a trust state without the device, has no slot for the device, and whose content
  is encrypted with a key that is sealed for the public keys of exactly the devices that are still
  trusted, in the next key generation; the saved vault has no profile of the device, and the result
  shows this vault and the version vector of this snapshot.
\<close>

theorem revocation_shuts_the_device_out:
  fixes g :: "'r guard_env"
  assumes "benign (device_of g)" "db_ok (key_import (device_of g)) (local_db (outside w))"
    and "revokeDevice keys g k d config w = (Inr result, w')"
  shows "\<exists>before after digest v p.
     others_only (device_of g) (local_db (outside w)) before \<and> replaces_stored (device_of g) digest p before after \<and>
     shuts_out keys (device_of g) k d digest v p \<and> d \<notin> d_id ` set (v_deviceProfiles v) \<and>
     rd_vault result = toVisibleVaultFields v \<and> rd_snapshotVersionVector result = ps_snapshotVersionVector p"
proof -
  have "saves (device_of g) (revocation_saved (device_of g) keys k d) (revokeDevice keys g k d config)"
    by (rule revocation_saves)
  with assms(3) obtain x y :: "'r device_world" where x: "others_only (device_of g) (local_db (outside w)) (local_db x)"
      and saved: "revocation_saved (device_of g) keys k d result x y"
    by (auto simp: saves_def effect_def wp_run dest!: spec [of _ w])
  have "db_ok (key_import (device_of g)) (local_db x)" using assms(1,2) x by (rule benign_others)
  from revocation_saved_meaning [OF assms(1) this saved] x show ?thesis
    by (blast intro: others_only_trans)
qed

theorem revocation_shuts_the_device_out_witness:
  "\<exists>result w' before after digest v p.
     revokeDevice paired_keys paired_guard ''V'' ''B'' None paired_world = (Inr result, w') \<and>
     replaces_stored paired_env digest p before after \<and> shuts_out paired_keys paired_env ''V'' ''B'' digest v p \<and>
     ''B'' \<notin> d_id ` set (v_deviceProfiles v)"
proof -
  obtain result w' where run: "revokeDevice paired_keys paired_guard ''V'' ''B'' None paired_world = (Inr result, w')"
    using paired_revocation_succeeds by blast
  have "benign (device_of paired_guard)" "db_ok (key_import (device_of paired_guard)) (local_db (outside paired_world))"
    using undisturbed_facts(2) [OF paired_undisturbed] by simp_all
  from revocation_shuts_the_device_out [OF this run] run show ?thesis
    by simp blast
qed

text \<open>
  C5: every other trusted device can be revoked. On a vault that is not synchronised, with an open
  session whose records are the stored ones, successful calls and no other writer, \<open>revokeDevice\<close>
  returns a result for each device but the own one that the session trusts: no check, no codec and
  no record of the store is in the way.
\<close>

theorem other_device_can_be_revoked:
  assumes "undisturbed (device_of g)" "sealing_port keys (device_of g)"
    and "db_ok (key_import (device_of g)) (local_db (outside w))"
    and "serves (session_of g) m p vault w" "epoch_of w + 1 < MAX_SAFE_INTEGER"
    and "uv = us_unlockedVault (restored_session m p vault)" "writable (device_of g) uv"
    and "revocable_now (device_of g) (memory w) (ses_vaultId m) uv (ses_sourceSnapshotVersionVector p) d
      (local_db (outside w))"
  shows "\<exists>result w'. revokeDevice keys g (ses_vaultId m) d None w = (Inr result, w')"
  by (rule revocation_succeeds [OF assms])

theorem other_device_can_be_revoked_witness:
  "\<exists>result w'. revokeDevice paired_keys paired_guard (ses_vaultId paired_material) ''B'' None paired_world = (Inr result, w')"
  by (rule other_device_can_be_revoked [OF _ _ _ paired_serves_guard _ refl])
    (use paired_revocable in \<open>simp_all add: MAX_SAFE_INTEGER_def\<close>)

end
