(* ===== verification/Resolution_Safety.thy ===== *)
theory Resolution_Safety
  imports Use_Case_Steps Sync_Reconciliation
begin

text \<open>
  What an applied resolution leaves behind: the remote snapshot as it is, if every choice takes the
  remote side, else a new snapshot that is ahead of both reviewed ones and is made to replace exactly
  the reviewed remote one.
\<close>

section \<open>The candidate\<close>

text \<open>The snapshots of the candidate are the reviewed ones.\<close>

definition candidate_is_reviewed :: "device_env \<Rightarrow> string \<Rightarrow> ReviewedVaultSnapshotIdentities \<Rightarrow> sync_candidate \<Rightarrow> bool" where
  "candidate_is_reviewed env k reviewed c \<longleftrightarrow>
     vv_get (m_snapshotVersionVector (snap_metadata (sc_localSnapshot c))) =
       vv_get (sd_snapshotVersionVector (si_descriptor (ri_local reviewed))) \<and>
     vv_get (m_snapshotVersionVector (snap_metadata (sc_localSnapshot c))) =
       vv_get (us_sourceSnapshotVersionVector (sc_session c)) \<and>
     vv_get (m_snapshotVersionVector (snap_metadata (sc_remoteSnapshot c))) =
       vv_get (sd_snapshotVersionVector (si_descriptor (ri_remote reviewed)))"

lemma identities_same_vector:
  "areVaultSnapshotIdentitiesEqual (toVaultSnapshotIdentity k s digest) i \<Longrightarrow>
     vv_get (m_snapshotVersionVector (snap_metadata s)) = vv_get (sd_snapshotVersionVector (si_descriptor i))"
  by (simp add: areVaultSnapshotIdentitiesEqual_iff descriptor_key_def toVaultSnapshotIdentity_def
      toVaultSnapshotDescriptor_def)

lemma gives_opened:
  assumes "gives (open_reviewed g k reviewed session s access :: ('r, sync_candidate) guarded) c"
  shows "sc_session c = session \<and> sc_localSnapshot c = s \<and>
    vv_get (m_snapshotVersionVector (snap_metadata (sc_remoteSnapshot c))) =
      vv_get (sd_snapshotVersionVector (si_descriptor (ri_remote reviewed)))"
  using assms unfolding open_reviewed_def Let_def
  by (auto simp: gives_simps dest!: gives_sbindD gives_sthenD dest: identities_same_vector)

lemma gives_candidate:
  assumes "gives (load_reviewed g k reviewed :: ('r, sync_candidate) guarded) c"
  shows "candidate_is_reviewed (device_of g) k reviewed c"
  using assms unfolding load_reviewed_def Let_def candidate_is_reviewed_def
  by (auto simp: gives_simps split: if_splits dest!: gives_sbindD gives_sthenD gives_opened gives_current_snapshot
      dest: identities_same_vector)

lemma untouched_candidate: "untouched (device_of g) (load_reviewed g k reviewed)"
  unfolding load_reviewed_def open_reviewed_def Let_def
  by (intro untouched_intros waits_intros)

section \<open>The save\<close>

definition resolution_saved ::
    "device_env \<Rightarrow> string \<Rightarrow> ReviewedVaultSnapshotIdentities \<Rightarrow> VaultSyncResolution \<Rightarrow> ApplySyncResolutionResult \<Rightarrow>
     'r device_world \<Rightarrow> 'r device_world \<Rightarrow> bool" where
  "resolution_saved env k reviewed resolution result x y \<longleftrightarrow>
     (if acceptsRemoteState resolution
      then vv_get (ar_snapshotVersionVector result) = vv_get (sd_snapshotVersionVector (si_descriptor (ri_remote reviewed))) \<and>
        ar_syncUpload result = Complete
      else \<exists>mem c uv p plan st. candidate_is_reviewed env k reviewed c \<and>
        save_resolved env mem k c (ri_remote reviewed) uv x = (Inr (p, plan, st), y) \<and>
        ar_snapshotVersionVector result = ps_snapshotVersionVector p)"

lemma adoption_saves:
  assumes "acceptsRemoteState resolution" "candidate_is_reviewed (device_of g) k reviewed c"
  shows "saves (device_of g) (resolution_saved (device_of g) k reviewed resolution) (adopt_remote g k c)"
  unfolding adopt_remote_def Let_def
proof (rule saves_here)
  fix mem x p y b
  assume run: "sbind (prepareSyncCredentialStateWithoutPending (device_of g) mem k (us_unlockedVault (sc_session c)) True None)
      (\<lambda>transition. persistVerifiedRemoteSnapshot (device_of g) mem k (sc_remoteSnapshot c) (ct_state (sc_remoteTrust c))
        (us_unlockedVault (sc_session c)) (Some \<lparr>cr_expectedSyncCredentialState = Some (cp_expectedState transition),
          cr_syncCredentialState = Some (cp_nextState transition)\<rparr>)) x = (Inr p, y)"
    and result: "gives (sthen (commitPersistedSnapshot (session_of g) (us_sessionId (sc_session c))
        ((us_unlockedVault (sc_session c))\<lparr>uv_vault := sc_remoteVault c,
          uv_trustedSnapshotContext := vr_trustedSnapshotContext p\<rparr>) (vr_snapshotVersionVector p) None)
      (sret \<lparr>ar_snapshotVersionVector = vr_snapshotVersionVector p, ar_revisionTimestamp = vr_revisionTimestamp p,
        ar_syncUpload = Complete\<rparr>)) b"
  have "vr_snapshotVersionVector p = m_snapshotVersionVector (snap_metadata (sc_remoteSnapshot c))"
    using run
    by (auto simp: sbind_def sthen_def sret_def persistVerifiedRemoteSnapshot_def split: sum.splits prod.splits)
  with result assms show "resolution_saved (device_of g) k reviewed resolution b x y"
    by (auto simp: resolution_saved_def candidate_is_reviewed_def gives_simps dest!: gives_sthenD)
qed

lemma persistence_saves:
  assumes "\<not> acceptsRemoteState resolution" "candidate_is_reviewed (device_of g) k reviewed c"
  shows "saves (device_of g) (resolution_saved (device_of g) k reviewed resolution)
    (persist_resolved g k c (ri_remote reviewed) v)"
  unfolding persist_resolved_def Let_def
  by (rule saves_here) (use assms in \<open>fastforce simp: resolution_saved_def gives_simps dest!: gives_sbindD gives_sthenD\<close>)

lemma resolution_saves:
  "saves (device_of g) (resolution_saved (device_of g) k reviewed resolution)
     (applySyncResolution nfkc g k reviewed resolution)"
proof -
  have "cloneReviewedVaultSnapshotIdentities reviewed = reviewed"
    by (simp add: cloneReviewedVaultSnapshotIdentities_def)
  then show ?thesis
    unfolding applySyncResolution_def Let_def
    by (auto intro!: saves_bind untouched_candidate untouched_basic adoption_saves persistence_saves gives_candidate)
qed

section \<open>What is saved\<close>

lemma save_resolved_replaces:
  assumes "benign env" "db_ok (key_import env) (local_db x)"
    and run: "save_resolved env mem k c i uv x = (Inr (p, plan, st), y)"
  shows "\<exists>current before digest transition. others_only env (local_db x) before \<and> replaces_stored env digest p before (local_db y) \<and>
    consistent_result env mem k uv (us_sourceSnapshotVersionVector (sc_session c)) (resolved_options c i transition) current p"
proof -
  let ?prepare = "prepareLocalVaultSnapshotRestore env (sc_localSnapshot c) (us_unlockedVault (sc_session c)) None"
  let ?credentials = "prepareSyncCredentialStateWithoutPending env mem k (us_unlockedVault (sc_session c)) True None"
  obtain r t where t: "?prepare x = (r, t)" by fastforce
  obtain r' u where u: "?credentials t = (r', u)" by fastforce
  from run t u obtain transition where
    persist: "persistUnlockedVault env mem k uv (us_sourceSnapshotVersionVector (sc_session c))
      (resolved_options c i transition) u = (Inr p, y)"
    by (auto simp: save_resolved_def sbind_def sret_def Let_def split: sum.splits prod.splits)
  have "others_only env (local_db x) (local_db t)" "others_only env (local_db t) (local_db u)"
    using waits_services(3) [of env "sc_localSnapshot c" "us_unlockedVault (sc_session c)" None] t
      waits_guard(6) [of env mem k "us_unlockedVault (sc_session c)" True None] u
    unfolding waits_def by (metis snd_conv)+
  then have others: "others_only env (local_db x) (local_db u)" by (rule others_only_trans)
  then have "db_ok (key_import env) (local_db u)" using assms(1,2) by (metis benign_others)
  from persist_replaces [OF assms(1) this persist] others show ?thesis
    by (blast intro: others_only_trans)
qed

text \<open>The new snapshot counts more than both reviewed ones, and replaces the reviewed remote one only.\<close>

definition supersedes :: "ReviewedVaultSnapshotIdentities \<Rightarrow> persisted_snapshot \<Rightarrow> bool" where
  "supersedes reviewed p \<longleftrightarrow>
     compareVersionVectors (ps_snapshotVersionVector p) (sd_snapshotVersionVector (si_descriptor (ri_local reviewed))) = Local_ahead \<and>
     compareVersionVectors (ps_snapshotVersionVector p) (sd_snapshotVersionVector (si_descriptor (ri_remote reviewed))) = Local_ahead \<and>
     m_snapshotVersionVector (snap_metadata (ps_snapshot p)) = ps_snapshotVersionVector p \<and>
     m_uploadExpectedRemoteSnapshotIdentity (snap_metadata (ps_snapshot p)) = Some (Some (ri_remote reviewed))"

lemma safe_vector_bound: "safe_vector v \<Longrightarrow> vv_get v d \<le> MAX_SAFE_INTEGER"
  by (auto simp: vv_get_def safe_vector_def list_all_iff safe_integer_def dest: map_of_SomeD split: option.split)

lemma result_supersedes:
  assumes reviewed: "candidate_is_reviewed env k reviewed c"
    and result: "consistent_result env mem k uv (us_sourceSnapshotVersionVector (sc_session c))
      (resolved_options c (ri_remote reviewed) transition) current p"
    and counters: "\<And>d. vv_get (sd_snapshotVersionVector (si_descriptor (ri_remote reviewed))) d \<le> MAX_SAFE_INTEGER"
  shows "supersedes reviewed p"
proof -
  let ?local = "m_snapshotVersionVector (snap_metadata (sc_localSnapshot c))"
  let ?remote = "sd_snapshotVersionVector (si_descriptor (ri_remote reviewed))"
  let ?base = "mergeVersionVectors ?local ?remote"
  have current: "snapshot_ok current" "vv_get (m_snapshotVersionVector (snap_metadata current)) = vv_get ?local"
    using result reviewed by (auto simp: consistent_result_def current_snapshot_def candidate_is_reviewed_def compare_Equal_iff)
  have "vv_get (m_snapshotVersionVector (snap_metadata current)) d \<le> MAX_SAFE_INTEGER" for d
    using current(1) by (intro safe_vector_bound) (simp add: snapshot_ok_def metadata_ok_def)
  then have "vv_get ?local (uv_deviceId uv) \<le> MAX_SAFE_INTEGER" unfolding current(2) .
  then have "vv_get ?base (uv_deviceId uv) < js_limit"
    using counters [of "uv_deviceId uv"]
    by (simp add: sup_max js_limit_def MAX_SAFE_INTEGER_def)
  then have ahead: "vv_get ?base < vv_get (incrementVersionVector ?base (uv_deviceId uv))"
    by (simp only: increment_strict)
  have vector: "ps_snapshotVersionVector p = incrementVersionVector ?base (uv_deviceId uv)"
      "m_snapshotVersionVector (snap_metadata (ps_snapshot p)) = ps_snapshotVersionVector p"
      "m_uploadExpectedRemoteSnapshotIdentity (snap_metadata (ps_snapshot p)) = Some (Some (ri_remote reviewed))"
    using result by (auto simp: consistent_result_def built_from_def signed_snapshot_def next_metadata_def resolved_options_def nullish_def)
  have "vv_get ?local < vv_get (ps_snapshotVersionVector p)" "vv_get ?remote < vv_get (ps_snapshotVersionVector p)"
    unfolding vector(1) by (rule le_less_trans [OF _ ahead], simp)+
  with reviewed vector show ?thesis
    by (simp add: supersedes_def compare_Local_ahead_iff candidate_is_reviewed_def)
qed

lemma resolution_saved_meaning:
  assumes "benign env" "db_ok (key_import env) (local_db x)" "resolution_saved env k reviewed resolution result x y"
    and "\<not> acceptsRemoteState resolution"
    and "\<And>d. vv_get (sd_snapshotVersionVector (si_descriptor (ri_remote reviewed))) d \<le> MAX_SAFE_INTEGER"
  shows "\<exists>before digest p. others_only env (local_db x) before \<and> replaces_stored env digest p before (local_db y) \<and>
    supersedes reviewed p \<and> ar_snapshotVersionVector result = ps_snapshotVersionVector p"
proof -
  from assms(3,4) obtain mem c uv p plan st where c: "candidate_is_reviewed env k reviewed c"
    and run: "save_resolved env mem k c (ri_remote reviewed) uv x = (Inr (p, plan, st), y)"
    and result: "ar_snapshotVersionVector result = ps_snapshotVersionVector p"
    by (auto simp: resolution_saved_def)
  from save_resolved_replaces [OF assms(1,2) run] result_supersedes [OF c _ assms(5)] result show ?thesis
    by blast
qed

end
