(* ===== verification/Spec2Isabelle.thy ===== *)
theory Spec2Isabelle
  imports Vault_Properties Sync_Properties Trust_Properties Library_Properties Session_Properties
    Storage_Properties Use_Case_Properties Resolution_Safety
begin

text \<open>
  A verification library for the core package of engr-serverless-pm, a password manager without a
  server of its own: \<open>src/packages/core/src\<close>, and the codecs and local storage adapters of its
  extension, \<open>src/apps/extension/src/adapters\<close>. The vault lives encrypted on every device; devices
  exchange signed snapshots through a storage bucket, review the differences item by item, and
  trust each other through a chain of signed certificates.

  The parts and how they interact.

  \<^item> \<open>Prelude\<close>: errors as values (\<open>Inl\<close> is a thrown error), loops that may throw (\<open>rfold\<close>, \<open>rmap\<close>),
    the insertion-ordered \<open>Set\<close> and \<open>Map\<close> of JavaScript, its strings and safe integers.
  \<^item> \<open>Json\<close> (\<open>domain/common/json.utils.ts\<close>): canonical JSON and its equality. \<open>Json_Equality\<close>: the
    same comparison with undefined members, dates and non-finite numbers, and the equality of data,
    free of orders and printed texts, that it decides.
  \<^item> \<open>Version_Vector\<close> (\<open>domain/versioning\<close>): one counter per device, compared and merged pointwise.
  \<^item> \<open>Core_Errors\<close>, \<open>Vault_Model\<close>, \<open>Vault_Items\<close> (\<open>errors\<close>, \<open>domain/*\<close>): the records of the domain;
    \<open>item_state\<close> abstracts an active list and its tombstones to a map from identities.
  \<^item> \<open>Vault_Organization\<close> (\<open>domain/vault/*.policy.ts\<close>): tag and folder checks, with the two climbs
    of the parent links as terminating functions (a parent link visited twice ends a climb).
  \<^item> \<open>Vault_Mutations\<close> (\<open>domain/vault/*.mutations.ts\<close>, the version policies): the thirteen mutations.
  \<^item> \<open>Vault_Commands\<close>, \<open>Vault_Consistency\<close> (\<open>use-cases/vault-entries\<close>, \<open>vault-tags\<close>,
    \<open>vault-folders\<close>, \<open>vault-lifecycle/initialize-vault.ts\<close>): what each use case validates and hands
    to the persistence pipeline, the reachable vaults, and the proof that all are consistent.
  \<^item> \<open>Sync_Review\<close>, \<open>Sync_Resolution\<close> (\<open>domain/sync\<close>): the four item kinds are reviewed and resolved
    by the same code with other names, so they are instances of one definition; the locale
    \<open>item_collection\<close> states what a kind must satisfy and is interpreted for all four.
  \<^item> \<open>Snapshot_Review\<close> (\<open>domain/snapshot\<close>, \<open>domain/sync/key-slot-review.utils.ts\<close>).
  \<^item> \<open>Vault_Trust\<close>, \<open>Trust_Chain\<close>, \<open>Trust_Operations\<close> (\<open>services/trust/vault-trust.service.ts\<close>): the
    chain verifier, the other methods of the service, and the declarative validity they decide.
  \<^item> \<open>Trust_Baseline\<close> (the two consumption services in \<open>services/trust\<close>): device profiles under a
    verified sequence of enrolments and revocations.
  \<^item> \<open>Base64_Url\<close>, \<open>Password_Tools\<close>, \<open>Password_Strength\<close> (\<open>lib\<close>, \<open>services/randomness\<close>): the codec on
    32-bit words, the generators on a stream of random blocks (\<open>None\<close> is a sampler that still waits
    for a block), and the strength meter. \<open>Sampler_Uniformity\<close>: the supplies of random blocks that
    make the sampler return an index are counted.
  \<^item> \<open>Stateful\<close>: computations that change a state and may throw, and a calculus of weakest
    preconditions for them. \<open>Session_Storage\<close>, \<open>Vault_Session\<close>
    (\<open>services/session/unlocked-vault-session.service.ts\<close> and the storage and lock adapters of the
    extension that it calls): the unlocked session of one context, with its keys as buffers in an
    explicit memory and external calls that may fail before or after their effect. The encrypted
    payload of a session is a row of JSON (\<open>codecs/unlocked-session-payload.codec.ts\<close>) that is
    validated whenever it is read.
  \<^item> \<open>Session_Invariant\<close>, \<open>Session_Operations\<close>: what every operation keeps and means, on every branch.
    \<open>Shared_Contexts\<close>, \<open>Session_System\<close>: any number of contexts over one storage; a locale states
    what one context guarantees and tolerates, and is interpreted on the session with and without
    restarts of a context. \<open>Session_Restoration\<close>: reading a session back when the calls succeed.
  \<^item> \<open>Artifact_Codec\<close>, \<open>Snapshot_Codec\<close>, \<open>Local_Codec\<close>, \<open>Vault_Codec\<close> (\<open>adapters/codecs\<close> of the
    extension): the decoders and encoders of everything that is stored or exchanged, on JSON values:
    strict keys, canonical byte texts, number ranges, the item schemas, and the organisation rules that
    a decoded vault must satisfy. \<open>Vault_Decoding\<close>, \<open>Vault_Persistence\<close>: what the decoder accepts, and
    which vaults made by the use cases are in it.
  \<^item> \<open>Vault_Repository\<close> (\<open>adapters/storage/indexeddb-vault-local-repository.adapter.ts\<close>): the local
    store, seven tables of JSON records whose transactions are steps. \<open>Repository_Invariant\<close>: every
    record decodes and the access records agree. \<open>Repository_Contract\<close>: the contract of the port on
    typed tables, with the documented rule for replacing access records written out from the port,
    and the proof that the adapter refines it. \<open>Repository_Reading\<close>: a record can be read exactly when
    the value that was written is well formed.
  \<^item> \<open>Snapshot_Service\<close> (\<open>services/snapshot/vault-snapshot.service.ts\<close>), \<open>Sync_Provider\<close>,
    \<open>Sync_Guard\<close> (\<open>services/sync\<close>, the port of the provider), \<open>Mutation_Service\<close>
    (\<open>services/vault/vault-mutation.service.ts\<close>): a change of a vault on its way from the session to the
    store and to the remote storage, with every call that may fail and every rollback. They act on a
    \<open>device_world\<close> (the store, the remote storage, a counter of the calls); the guard and the mutation
    service are operations of the session whose callbacks act on that world.
  \<^item> \<open>Snapshot_Persistence\<close>: what replacing the local snapshot guarantees under failing calls and
    concurrent writers, and progress when nothing interferes. \<open>Upload_Safety\<close>: what the result of an
    upload says about the remote storage.
  \<^item> \<open>Sync_Upload\<close>, \<open>Sync_Reconciliation\<close>, \<open>Sync_Setup\<close>, \<open>Sync_Connection\<close>, \<open>Sync_Removal\<close>
    (\<open>use-cases/sync\<close>): uploading, reviewing and resolving, setting up, connecting and disabling the
    synchronisation. \<open>Device_Revocation\<close>, \<open>Revocation_Consumption\<close> (\<open>use-cases/device-trust\<close>): revoking
    another device and following a revocation that another device has made. A use case is an operation
    of the session; its calls of the store, the guard and the provider run as callbacks (\<open>on_device\<close>).
  \<^item> \<open>Use_Case_Steps\<close>: which steps leave the store to the other contexts, what a computation can return
    (\<open>gives\<close>), and what has been saved when a use case returns (\<open>saves\<close>, and \<open>saves_from\<close> for a use
    case that makes a key first). \<open>Revocation_Safety\<close>, \<open>Resolution_Safety\<close>: the two applications, a
    snapshot that shuts a device out and a snapshot that supersedes both reviewed ones.
  \<^item> \<open>Session_Progress\<close>: an open session serves the use cases while the calls succeed (\<open>serves\<close>).
    \<open>Revocation_Progress\<close>: with it, nothing stops a revocation that nothing disturbs.
  \<^item> \<open>Samples\<close>, \<open>Storage_Samples\<close>, \<open>Use_Case_Samples\<close>: the concrete inputs of the witnesses.
  \<^item> \<open>Vault_Properties\<close>, \<open>Sync_Properties\<close>, \<open>Trust_Properties\<close>, \<open>Library_Properties\<close>,
    \<open>Session_Properties\<close>, \<open>Storage_Properties\<close>, \<open>Use_Case_Properties\<close>: the properties.

  What the properties show. Every reachable vault is consistent, mutations are causal events, and a
  resolution of a review is consistent, dominates both sides and is accepted by the other side. The
  chain verifier accepts exactly the valid chains; in these a revoked device never returns, descent
  is extension, and replaying transitions gives the trusted devices; checkpoints detect rollback.
  A review lists exactly the entries that differ, and a resolution gives each the data of the chosen
  side under the larger counters. The codecs are round trips on exactly their languages, and a vault
  that the use cases can make is decoded to itself exactly if no device profile in it has a blank name:
  the core does not check the name of a device when a vault is set up or a device enrolled, although
  its codec requires one (the composition of the extension does check it). Every index is drawn from
  equally many supplies of random blocks, and generators meet their settings. A session that is
  handed out is the stored one with keys that are not wiped; an activation is read back; a lock is
  final in every context, and in its own context even if the storage fails; an authorization is
  spent by whatever happens after it. The local store keeps the contract of its port and reads back
  whatever is well formed, but it does not check what it writes; a save replaces exactly the snapshot that the session was opened from or changes
  nothing; of two writers one loses; an undisturbed session saves any number of changes and the last
  one is reopened; the result of an upload is true of the remote storage. A revoked device has no slot
  in the snapshot that the revocation saves and no part in its trust state, the new key is sealed for
  exactly the devices that are left, and every other trusted device can be revoked.

  Bounds and parameters. Counters are natural numbers that saturate at \<open>2 ^ 53\<close>, as JavaScript
  numbers do under \<open>+ 1\<close>; properties that need an increment to be effective assume a counter below
  it. Texts are lists of the 256 units of \<open>char\<close>. Unicode normalisation, URL parsing, the word lists,
  the cryptographic port and the storage provider are parameters; what is assumed of them (signatures
  of a key pair verify, digests of the certificates at hand do not collide, digests and signatures of
  a snapshot do not depend on the order of its version vectors, ciphertexts have the documented form,
  definite answers of the provider are true) is a named hypothesis: \<open>faithful_port\<close>,
  \<open>truthful_provider\<close>, \<open>sealing_port\<close> and the like. \<open>call_fate\<close> says for the n-th call of a device whether it fails
  before or after its effect, and \<open>meanwhile\<close> what other contexts do to the store before it; both are
  arbitrary unless a property says otherwise.

  Not modelled: the use cases for device enrolment, for creating, unlocking and recovering a vault, for
  revealing the credentials of the synchronisation and for browser logins; the S3 provider, the Web Crypto adapter and the other storage
  and network adapters; the shape checks of the session material codec; the user interface; the
  generated word lists. An operation of the session is one step, because it runs under an exclusive
  lock; two operations that one context nests through the same lease are not interleaved further. A
  transaction of the store is one step. Two encryptions that the guard starts together are made one
  after the other.
\<close>

end
